(* ===== verification/Prelude.thy ===== *)
theory Prelude
  imports Main "HOL-Library.Sublist" "HOL-Library.Multiset"
begin

text \<open>
  Shared vocabulary of the development: Rust string operations on UTF-8 bytes, instants, checked
  machine conversions, the relational tables behind the SeaORM repositories, and the generic
  lemmas about them that the component theories use.

  A Rust \<open>String\<close> is the list of its UTF-8 bytes (a HOL \<open>char\<close> is one byte), so \<open>len()\<close> is
  \<open>length\<close>.  A \<open>chrono::DateTime<Utc>\<close> is the number of milliseconds since the Unix epoch.
\<close>

named_theorems table_simps \<open>how the table operations act on the rows\<close>
named_theorems guard_simps \<open>predicates the handlers evaluate\<close>

section \<open>Types shared by all components\<close>

type_synonym time = int
type_synonym row_id = int

definition secs :: "int \<Rightarrow> time" where
  "secs n = 1000 * n"

definition days :: "int \<Rightarrow> time" where
  "days n = 86400000 * n"

section \<open>Strings\<close>

definition byte :: "char \<Rightarrow> nat" where
  "byte c = of_char c"

definition is_ascii_digit :: "char \<Rightarrow> bool" where
  "is_ascii_digit c = (48 \<le> byte c \<and> byte c \<le> 57)"

definition is_ascii_upper :: "char \<Rightarrow> bool" where
  "is_ascii_upper c = (65 \<le> byte c \<and> byte c \<le> 90)"

definition is_ascii_lower :: "char \<Rightarrow> bool" where
  "is_ascii_lower c = (97 \<le> byte c \<and> byte c \<le> 122)"

definition is_ascii_alphanumeric :: "char \<Rightarrow> bool" where
  "is_ascii_alphanumeric c = (is_ascii_digit c \<or> is_ascii_upper c \<or> is_ascii_lower c)"

definition is_ascii_hexdigit :: "char \<Rightarrow> bool" where
  "is_ascii_hexdigit c =
     (is_ascii_digit c \<or> (65 \<le> byte c \<and> byte c \<le> 70) \<or> (97 \<le> byte c \<and> byte c \<le> 102))"

definition lower_char :: "char \<Rightarrow> char" where
  "lower_char c = (if is_ascii_upper c then char_of (byte c + 32) else c)"

definition to_ascii_lowercase :: "string \<Rightarrow> string" where
  "to_ascii_lowercase s = map lower_char s"

definition eq_ignore_ascii_case :: "string \<Rightarrow> string \<Rightarrow> bool" where
  "eq_ignore_ascii_case s t = (to_ascii_lowercase s = to_ascii_lowercase t)"

definition strip_prefix :: "string \<Rightarrow> string \<Rightarrow> string option" where
  "strip_prefix p s = (if prefix p s then Some (drop (length p) s) else None)"

text \<open>\<open>str::trim\<close> removes the code points with the Unicode property \<open>White_Space\<close>; in UTF-8
  each of them is one of these byte sequences.\<close>

definition white_space :: "string list" where
  "white_space =
     [[CHR 0x09], [CHR 0x0A], [CHR 0x0B], [CHR 0x0C], [CHR 0x0D], [CHR 0x20],
      [CHR 0xC2, CHR 0x85], [CHR 0xC2, CHR 0xA0], [CHR 0xE1, CHR 0x9A, CHR 0x80],
      [CHR 0xE2, CHR 0x80, CHR 0x80], [CHR 0xE2, CHR 0x80, CHR 0x81],
      [CHR 0xE2, CHR 0x80, CHR 0x82], [CHR 0xE2, CHR 0x80, CHR 0x83],
      [CHR 0xE2, CHR 0x80, CHR 0x84], [CHR 0xE2, CHR 0x80, CHR 0x85],
      [CHR 0xE2, CHR 0x80, CHR 0x86], [CHR 0xE2, CHR 0x80, CHR 0x87],
      [CHR 0xE2, CHR 0x80, CHR 0x88], [CHR 0xE2, CHR 0x80, CHR 0x89],
      [CHR 0xE2, CHR 0x80, CHR 0x8A], [CHR 0xE2, CHR 0x80, CHR 0xA8],
      [CHR 0xE2, CHR 0x80, CHR 0xA9], [CHR 0xE2, CHR 0x80, CHR 0xAF],
      [CHR 0xE2, CHR 0x81, CHR 0x9F], [CHR 0xE3, CHR 0x80, CHR 0x80]]"

fun trim_start_fuel :: "nat \<Rightarrow> string \<Rightarrow> string" where
  "trim_start_fuel 0 s = s"
| "trim_start_fuel (Suc n) s =
     (case find (\<lambda>w. prefix w s) white_space of
        None \<Rightarrow> s
      | Some w \<Rightarrow> trim_start_fuel n (drop (length w) s))"

definition trim_start :: "string \<Rightarrow> string" where
  "trim_start s = trim_start_fuel (length s) s"

fun trim_end_fuel :: "nat \<Rightarrow> string \<Rightarrow> string" where
  "trim_end_fuel 0 s = s"
| "trim_end_fuel (Suc n) s =
     (case find (\<lambda>w. suffix w s) white_space of
        None \<Rightarrow> s
      | Some w \<Rightarrow> trim_end_fuel n (take (length s - length w) s))"

definition trim_end :: "string \<Rightarrow> string" where
  "trim_end s = trim_end_fuel (length s) s"

definition trim :: "string \<Rightarrow> string" where
  "trim s = trim_end (trim_start s)"

definition trim_matches :: "char \<Rightarrow> string \<Rightarrow> string" where
  "trim_matches c s = rev (dropWhile (\<lambda>x. x = c) (rev (dropWhile (\<lambda>x. x = c) s)))"

text \<open>\<open>s.chars().take(n).collect()\<close>: a code point starts at every byte that is not a UTF-8
  continuation byte.\<close>

definition is_continuation :: "char \<Rightarrow> bool" where
  "is_continuation c = (128 \<le> byte c \<and> byte c < 192)"

fun take_chars :: "nat \<Rightarrow> string \<Rightarrow> string" where
  "take_chars n [] = []"
| "take_chars n (c # cs) =
     (if is_continuation c then c # take_chars n cs
      else case n of 0 \<Rightarrow> [] | Suc m \<Rightarrow> c # take_chars m cs)"

text \<open>The decimal \<open>Display\<close> of an integer.\<close>

fun show_nat :: "nat \<Rightarrow> string" where
  "show_nat n = (if n < 10 then [char_of (48 + n)]
                 else show_nat (n div 10) @ [char_of (48 + n mod 10)])"

declare show_nat.simps [simp del]

definition show_int :: "int \<Rightarrow> string" where
  "show_int i = (if i < 0 then CHR ''-'' # show_nat (nat (- i)) else show_nat (nat i))"

lemma white_space_nonempty: "w \<in> set white_space \<Longrightarrow> w \<noteq> []"
  by (auto simp: white_space_def)

text \<open>The fuel of the two trimming loops is enough: every round removes at least one byte.\<close>

lemma trim_start_fuel_done:
  "length s \<le> n \<Longrightarrow> find (\<lambda>w. prefix w (trim_start_fuel n s)) white_space = None"
proof (induction n arbitrary: s)
  case 0
  then show ?case by (auto simp: find_None_iff dest: white_space_nonempty)
next
  case (Suc n)
  show ?case
  proof (cases "find (\<lambda>w. prefix w s) white_space")
    case (Some w)
    then have "w \<in> set white_space" by (auto simp: find_Some_iff)
    then have "1 \<le> length w" by (simp add: white_space_nonempty Suc_le_eq)
    with Suc.prems have "length (drop (length w) s) \<le> n" unfolding length_drop by linarith
    with Suc.IH Some show ?thesis by simp
  qed simp
qed

lemma trim_end_fuel_done:
  "length s \<le> n \<Longrightarrow> find (\<lambda>w. suffix w (trim_end_fuel n s)) white_space = None"
proof (induction n arbitrary: s)
  case 0
  then show ?case by (auto simp: find_None_iff dest: white_space_nonempty)
next
  case (Suc n)
  show ?case
  proof (cases "find (\<lambda>w. suffix w s) white_space")
    case (Some w)
    then have "w \<in> set white_space" by (auto simp: find_Some_iff)
    then have "1 \<le> length w" by (simp add: white_space_nonempty Suc_le_eq)
    with Suc.prems have "length (take (length s - length w) s) \<le> n"
      unfolding length_take by linarith
    with Suc.IH Some show ?thesis by simp
  qed simp
qed

lemma trim_end_done: "find (\<lambda>w. suffix w (trim s)) white_space = None"
  by (simp add: trim_def trim_end_def trim_end_fuel_done)

text \<open>Text of printable ASCII characters other than the space has nothing to trim.\<close>

definition is_ascii_graphic :: "char \<Rightarrow> bool" where
  "is_ascii_graphic c = (32 < byte c \<and> byte c < 127)"

lemma white_space_not_graphic: "\<forall>w \<in> set white_space. w \<noteq> [] \<and> \<not> is_ascii_graphic (hd w)"
  by (simp add: white_space_def is_ascii_graphic_def byte_def)

lemma trim_graphic:
  assumes "list_all is_ascii_graphic s" shows "trim s = s"
proof -
  have no: "find (\<lambda>w. prefix w s) white_space = None" "find (\<lambda>w. suffix w s) white_space = None"
    using white_space_not_graphic assms hd_in_set
    by (auto simp: find_None_iff list_all_iff dest!: set_mono_prefix set_mono_suffix)
  have "trim_start s = s" by (cases "length s") (simp_all add: trim_start_def no(1))
  moreover have "trim_end s = s" by (cases "length s") (simp_all add: trim_end_def no(2))
  ultimately show ?thesis by (simp add: trim_def)
qed

text \<open>Decimal numbers can be read back, so printing is injective.\<close>

definition read_nat :: "string \<Rightarrow> nat" where
  "read_nat s = foldl (\<lambda>n c. n * 10 + (of_char c - 48)) 0 s"

lemma digit_byte: "(m :: nat) < 10 \<Longrightarrow> of_char (char_of (48 + m) :: char) = 48 + m"
  by (simp add: of_char_of)

lemma read_nat_snoc: "read_nat (s @ [c]) = read_nat s * 10 + (of_char c - 48)"
  by (simp add: read_nat_def)

lemma read_show_nat [simp]: "read_nat (show_nat n) = n"
proof (induction n rule: show_nat.induct)
  case (1 n)
  show ?case
  proof (cases "n < 10")
    case True
    then show ?thesis using digit_byte[OF True] by (simp add: show_nat.simps read_nat_def)
  next
    case False
    then have "read_nat (show_nat n) = n div 10 * 10 + n mod 10"
      using 1 digit_byte[of "n mod 10"] by (simp add: show_nat.simps[of n] read_nat_snoc)
    then show ?thesis by simp
  qed
qed

lemma show_nat_chars: "c \<in> set (show_nat n) \<Longrightarrow> \<exists>m < 10. c = char_of (48 + m :: nat)"
proof (induction n rule: show_nat.induct)
  case (1 n)
  show ?case
  proof (cases "n < 10")
    case True
    then show ?thesis using "1.prems" by (auto simp: show_nat.simps)
  next
    case False
    then have "c \<in> set (show_nat (n div 10)) \<or> c = char_of (48 + n mod 10)"
      using "1.prems" by (auto simp: show_nat.simps[of n])
    moreover have "n mod 10 < 10" by simp
    ultimately show ?thesis using "1.IH"[OF False] by blast
  qed
qed

lemma show_nat_graphic: "list_all is_ascii_graphic (show_nat n)" "CHR ''-'' \<notin> set (show_nat n)"
proof -
  have "48 \<le> byte c \<and> byte c < 58" if "c \<in> set (show_nat n)" for c
    using show_nat_chars[OF that] digit_byte by (auto simp: byte_def)
  then show "list_all is_ascii_graphic (show_nat n)" "CHR ''-'' \<notin> set (show_nat n)"
    by (force simp: list_all_iff is_ascii_graphic_def byte_def)+
qed

lemma show_int_graphic: "list_all is_ascii_graphic (show_int i)"
  by (simp add: show_int_def show_nat_graphic is_ascii_graphic_def byte_def)

lemma show_int_inj: "show_int i = show_int j \<Longrightarrow> i = j"
proof -
  assume eq: "show_int i = show_int j"
  have sign: "(CHR ''-'' \<in> set (show_int k)) = (k < 0)" for k by (simp add: show_int_def show_nat_graphic)
  have "(i < 0) = (j < 0)" using sign[of i] sign[of j] eq by simp
  then have "show_nat (nat \<bar>i\<bar>) = show_nat (nat \<bar>j\<bar>)" using eq by (auto simp: show_int_def split: if_splits)
  then have "nat \<bar>i\<bar> = nat \<bar>j\<bar>" by (metis read_show_nat)
  with \<open>(i < 0) = (j < 0)\<close> show "i = j" by linarith
qed

lemma trim_matches_set: "set (trim_matches c s) \<subseteq> set s"
  unfolding trim_matches_def
  by (metis (no_types, lifting) set_dropWhileD set_rev subsetI)

lemma trim_matches_length: "length (trim_matches c s) \<le> length s"
  unfolding trim_matches_def
  by (metis length_dropWhile_le length_rev order_trans)

lemma trim_matches_hd:
  assumes "trim_matches c s \<noteq> []"
  shows "last (trim_matches c s) \<noteq> c"
proof -
  have "dropWhile (\<lambda>x. x = c) (rev (dropWhile (\<lambda>x. x = c) s)) \<noteq> []"
    using assms by (simp add: trim_matches_def)
  then show ?thesis
    using hd_dropWhile[of "\<lambda>x. x = c" "rev (dropWhile (\<lambda>x. x = c) s)"]
    by (simp add: trim_matches_def last_rev)
qed

lemma to_ascii_lowercase_length [simp]: "length (to_ascii_lowercase s) = length s"
  by (simp add: to_ascii_lowercase_def)

lemma lower_char_idem: "lower_char (lower_char c) = lower_char c"
proof (cases "is_ascii_upper c")
  case True
  then have "byte c + 32 < 256" "97 \<le> byte c + 32" by (auto simp: is_ascii_upper_def)
  then have "byte (char_of (byte c + 32)) = byte c + 32"
    by (simp add: byte_def of_char_of)
  with True \<open>97 \<le> byte c + 32\<close> show ?thesis by (simp add: lower_char_def is_ascii_upper_def)
qed (simp add: lower_char_def)

lemma to_ascii_lowercase_idem [simp]:
  "to_ascii_lowercase (to_ascii_lowercase s) = to_ascii_lowercase s"
  by (simp add: to_ascii_lowercase_def lower_char_idem)

section \<open>Tables\<close>

text \<open>
  A table holds its rows in storage order and the next value of its auto-increment key.  The
  operations are the ones the repositories build with SeaORM: \<open>find().filter(p).all\<close>,
  \<open>.one\<close>, \<open>.count\<close>, \<open>update_many().filter(p).exec\<close> with its \<open>rows_affected\<close>,
  \<open>delete_many\<close> and \<open>insert\<close>.  SQL leaves the order of rows with equal sort keys open;
  \<open>order_by_asc\<close> keeps the storage order there, and no theorem below depends on it.
\<close>

record 'r table =
  rows :: "'r list"
  next_id :: row_id

definition select_all :: "('r \<Rightarrow> bool) \<Rightarrow> 'r table \<Rightarrow> 'r list" where
  "select_all p t = filter p (rows t)"

definition select_one :: "('r \<Rightarrow> bool) \<Rightarrow> 'r table \<Rightarrow> 'r option" where
  "select_one p t = find p (rows t)"

definition count_rows :: "('r \<Rightarrow> bool) \<Rightarrow> 'r table \<Rightarrow> nat" where
  "count_rows p t = length (filter p (rows t))"

definition update_many :: "('r \<Rightarrow> bool) \<Rightarrow> ('r \<Rightarrow> 'r) \<Rightarrow> 'r table \<Rightarrow> nat \<times> 'r table" where
  "update_many p f t =
     (count_rows p t, t\<lparr>rows := map (\<lambda>r. if p r then f r else r) (rows t)\<rparr>)"

definition delete_many :: "('r \<Rightarrow> bool) \<Rightarrow> 'r table \<Rightarrow> nat \<times> 'r table" where
  "delete_many p t = (count_rows p t, t\<lparr>rows := filter (\<lambda>r. \<not> p r) (rows t)\<rparr>)"

definition insert_row :: "(row_id \<Rightarrow> 'r) \<Rightarrow> 'r table \<Rightarrow> 'r \<times> 'r table" where
  "insert_row mk t =
     (let r = mk (next_id t)
      in (r, t\<lparr>rows := rows t @ [r], next_id := next_id t + 1\<rparr>))"

definition order_by_asc :: "('r \<Rightarrow> int) \<Rightarrow> 'r list \<Rightarrow> 'r list" where
  "order_by_asc k rs = sort_key k rs"

definition order_by_desc :: "('r \<Rightarrow> int) \<Rightarrow> 'r list \<Rightarrow> 'r list" where
  "order_by_desc k rs = sort_key (\<lambda>r. - k r) rs"

text \<open>Primary keys are distinct and below the counter.\<close>

definition keys_ok :: "('r \<Rightarrow> row_id) \<Rightarrow> 'r table \<Rightarrow> bool" where
  "keys_ok k t = (distinct (map k (rows t)) \<and> (\<forall>r \<in> set (rows t). k r < next_id t))"

lemma keys_ok_alt:
  "keys_ok k t \<longleftrightarrow> distinct (map k (rows t)) \<and> (\<forall>x \<in> set (map k (rows t)). x < next_id t)"
  by (auto simp: keys_ok_def)

lemma keys_ok_inj:
  assumes "keys_ok k t" and "r \<in> set (rows t)" and "r' \<in> set (rows t)" and "k r = k r'"
  shows "r = r'"
  using assms by (auto simp: keys_ok_def distinct_map inj_on_def)

lemma set_order_by [simp]:
  "set (order_by_asc k rs) = set rs" "set (order_by_desc k rs) = set rs"
  by (simp_all add: order_by_asc_def order_by_desc_def)

lemma length_order_by [simp]:
  "length (order_by_asc k rs) = length rs" "length (order_by_desc k rs) = length rs"
  by (simp_all add: order_by_asc_def order_by_desc_def)

lemma mset_order_by [simp]:
  "mset (order_by_asc k rs) = mset rs" "mset (order_by_desc k rs) = mset rs"
  by (simp_all add: order_by_asc_def order_by_desc_def)

lemma distinct_order_by [simp]:
  "distinct (map g (order_by_desc k rs)) = distinct (map g rs)"
  by (metis mset_map mset_order_by(2) mset_eq_imp_distinct_iff)

text \<open>The table after one insert.\<close>

definition appended :: "'r \<Rightarrow> 'r table \<Rightarrow> 'r table \<Rightarrow> bool" where
  "appended r t t' = (rows t' = rows t @ [r] \<and> next_id t' = next_id t + 1)"

lemma insert_row_appended: "appended (mk (next_id t)) t (snd (insert_row mk t))"
  by (simp add: appended_def insert_row_def Let_def)

lemma keys_ok_appended:
  assumes "keys_ok k t" and "appended r t t'" and "k r = next_id t"
  shows "keys_ok k t'"
  using assms by (fastforce simp: keys_ok_def appended_def)

lemma keys_ok_insert:
  assumes "keys_ok k t" and "\<And>i. k (mk i) = i"
  shows "keys_ok k (snd (insert_row mk t))"
  using assms by (fastforce simp: keys_ok_def insert_row_def Let_def)

lemma keys_ok_update:
  assumes "keys_ok k t" and "\<And>r. k (f r) = k r"
  shows "keys_ok k (snd (update_many p f t))"
proof -
  have "map k (map (\<lambda>r. if p r then f r else r) (rows t)) = map k (rows t)"
    using assms(2) by simp
  then have "distinct (map k (map (\<lambda>r. if p r then f r else r) (rows t)))"
    using assms(1) by (metis keys_ok_def)
  then show ?thesis using assms by (auto simp: keys_ok_def update_many_def)
qed

lemma keys_ok_delete: "keys_ok k t \<Longrightarrow> keys_ok k (snd (delete_many p t))"
  by (auto simp: keys_ok_def delete_many_def distinct_map_filter)

lemma find_key: "distinct (map k xs) \<Longrightarrow> x \<in> set xs \<Longrightarrow> find (\<lambda>y. k y = k x) xs = Some x"
  by (induction xs) (force simp: rev_image_eqI)+

lemma select_one_key:
  assumes "keys_ok k t" and "r \<in> set (rows t)"
  shows "select_one (\<lambda>x. k x = k r) t = Some r"
  using assms by (simp add: keys_ok_def select_one_def find_key)

lemma select_one_Some:
  "select_one p t = Some r \<Longrightarrow> r \<in> set (rows t) \<and> p r"
  by (auto simp: select_one_def find_Some_iff)

lemma select_one_None: "select_one p t = None \<longleftrightarrow> (\<forall>r \<in> set (rows t). \<not> p r)"
  by (auto simp: select_one_def find_None_iff)

text \<open>\<open>if let Some(v) = input \{ active.f = Set(v) \}\<close>\<close>

definition set_some :: "'a option \<Rightarrow> ('a \<Rightarrow> 'r \<Rightarrow> 'r) \<Rightarrow> 'r \<Rightarrow> 'r" where
  "set_some v upd r = (case v of None \<Rightarrow> r | Some x \<Rightarrow> upd x r)"

lemma set_some_simps [simp]:
  "set_some None upd r = r" "set_some (Some x) upd r = upd x r"
  by (simp_all add: set_some_def)

lemma sorted_distinct_remdups_adj: "sorted xs \<Longrightarrow> distinct (remdups_adj xs)"
  by (induction xs rule: remdups_adj.induct) auto

lemma map_sum_Inr: "map_sum f g r = Inr y \<longleftrightarrow> (\<exists>x. r = Inr x \<and> y = g x)"
  by (cases r) auto

section \<open>Wrapping integers\<close>

text \<open>The value of an \<open>i32\<close> or \<open>i64\<close> addition in a release build, where overflow wraps.\<close>

definition wrap_i32 :: "int \<Rightarrow> int" where
  "wrap_i32 x = (x + 2 ^ 31) mod 2 ^ 32 - 2 ^ 31"

definition wrap_i64 :: "int \<Rightarrow> int" where
  "wrap_i64 x = (x + 2 ^ 63) mod 2 ^ 64 - 2 ^ 63"

lemma wrap_i32_id: "- (2 ^ 31) \<le> x \<Longrightarrow> x < 2 ^ 31 \<Longrightarrow> wrap_i32 x = x"
  by (simp add: wrap_i32_def)

lemma wrap_i64_id: "- (2 ^ 63) \<le> x \<Longrightarrow> x < 2 ^ 63 \<Longrightarrow> wrap_i64 x = x"
  by (simp add: wrap_i64_def)

section \<open>Handlers\<close>

text \<open>
  A handler maps the state to a result and the state it leaves behind; what it wrote before an
  error stays written unless a transaction encloses it.  \<open>bnd m k\<close> is \<open>m.await?\<close> followed by
  \<open>k\<close>, \<open>query\<close> a read, \<open>check\<close> a call that does not touch the state, \<open>transaction\<close> is
  \<open>db::transaction::with_transaction\<close>: commit on \<open>Ok\<close>, rollback on \<open>Err\<close>.
\<close>

type_synonym ('s, 'e, 'a) handler = "'s \<Rightarrow> ('e + 'a) \<times> 's"

definition ret :: "'a \<Rightarrow> ('s, 'e, 'a) handler" where
  "ret x s = (Inr x, s)"

definition raise :: "'e \<Rightarrow> ('s, 'e, 'a) handler" where
  "raise e s = (Inl e, s)"

definition bnd :: "('s, 'e, 'a) handler \<Rightarrow> ('a \<Rightarrow> ('s, 'e, 'b) handler) \<Rightarrow> ('s, 'e, 'b) handler" where
  "bnd m k s = (case m s of (Inl e, s') \<Rightarrow> (Inl e, s') | (Inr x, s') \<Rightarrow> k x s')"

definition query :: "('s \<Rightarrow> 'e + 'a) \<Rightarrow> ('s, 'e, 'a) handler" where
  "query f s = (f s, s)"

definition check :: "'e + 'a \<Rightarrow> ('s, 'e, 'a) handler" where
  "check r s = (r, s)"

definition modify :: "('s \<Rightarrow> 's) \<Rightarrow> ('s, 'e, unit) handler" where
  "modify f s = (Inr (), f s)"

definition transaction :: "('s, 'e, 'a) handler \<Rightarrow> ('s, 'e, 'a) handler" where
  "transaction m s = (case m s of (Inl e, _) \<Rightarrow> (Inl e, s) | (Inr x, s') \<Rightarrow> (Inr x, s'))"

text \<open>A statement that returns a value with the changed state, or an error.\<close>

definition statement :: "('s \<Rightarrow> 'e + 'a \<times> 's) \<Rightarrow> ('s, 'e, 'a) handler" where
  "statement f s = (case f s of Inl e \<Rightarrow> (Inl e, s) | Inr (x, s') \<Rightarrow> (Inr x, s'))"

lemmas handler_defs = ret_def raise_def bnd_def query_def check_def modify_def transaction_def
  statement_def

text \<open>What a run says about the handler's parts; proofs destruct a run with these.\<close>

lemma bnd_Inr:
  "bnd m k s = (Inr y, s') \<longleftrightarrow> (\<exists>x s1. m s = (Inr x, s1) \<and> k x s1 = (Inr y, s'))"
  by (auto simp: bnd_def split: prod.splits sum.splits)

lemma query_eq: "query f s = (r, s') \<longleftrightarrow> f s = r \<and> s' = s"
  by (auto simp: query_def)

lemma check_eq: "check q s = (r, s') \<longleftrightarrow> q = r \<and> s' = s"
  by (auto simp: check_def)

lemma ret_eq: "ret x s = (r, s') \<longleftrightarrow> r = Inr x \<and> s' = s"
  by (auto simp: ret_def)

lemma modify_eq: "modify f s = (r, s') \<longleftrightarrow> r = Inr () \<and> s' = f s"
  by (auto simp: modify_def)

lemma transaction_Inr: "transaction m s = (Inr x, s') \<longleftrightarrow> m s = (Inr x, s')"
  by (auto simp: transaction_def split: prod.splits sum.splits)

lemma statement_Inr: "statement f s = (Inr x, s') \<longleftrightarrow> f s = Inr (x, s')"
  by (auto simp: statement_def split: sum.splits prod.splits)

lemmas run_simps = bnd_Inr query_eq check_eq ret_eq modify_eq transaction_Inr statement_Inr

text \<open>The same as elimination rules, one per kind of step, for long handlers.\<close>

lemma bnd_check_E:
  assumes "bnd (check q) k s = (Inr y, s')"
  obtains x where "q = Inr x" "k x s = (Inr y, s')"
  using assms by (auto simp: bnd_Inr check_eq)

lemma bnd_query_E:
  assumes "bnd (query f) k s = (Inr y, s')"
  obtains x where "f s = Inr x" "k x s = (Inr y, s')"
  using assms by (auto simp: bnd_Inr query_eq)

lemma bnd_transaction_E:
  assumes "bnd (transaction m) k s = (Inr y, s')"
  obtains x s1 where "m s = (Inr x, s1)" "k x s1 = (Inr y, s')"
  using assms by (auto simp: bnd_Inr transaction_Inr)

lemma if_raise_Inr: "(if c then raise e else m) s = (Inr x, s') \<longleftrightarrow> \<not> c \<and> m s = (Inr x, s')"
  by (simp add: raise_def)

lemma if_raise_E:
  assumes "(if c then raise e else m) s = (Inr x, s')"
  obtains "\<not> c" "m s = (Inr x, s')"
  using assms by (auto simp: if_raise_Inr)

lemma ret_E:
  assumes "ret x s = (Inr y, s')" obtains "y = x" "s' = s"
  using assms by (auto simp: ret_eq)

lemmas run_elims = bnd_check_E bnd_query_E bnd_transaction_E if_raise_E ret_E

text \<open>Failing runs.\<close>

lemma bnd_Inl:
  "bnd m k s = (Inl e, s') \<longleftrightarrow>
     m s = (Inl e, s') \<or> (\<exists>x s1. m s = (Inr x, s1) \<and> k x s1 = (Inl e, s'))"
  by (auto simp: bnd_def split: prod.splits sum.splits)

lemma ret_Inl: "ret x s = (Inl e, s') \<longleftrightarrow> False"
  by (simp add: ret_def)

lemma raise_eq: "raise e s = (r, s') \<longleftrightarrow> r = Inl e \<and> s' = s"
  by (auto simp: raise_def)

lemma if_raise_Inl:
  "(if c then raise e else m) s = (Inl e', s') \<longleftrightarrow> c \<and> e' = e \<and> s' = s \<or> \<not> c \<and> m s = (Inl e', s')"
  by (auto simp: raise_def)

lemma transaction_Inl: "transaction m s = (Inl e, s') \<longleftrightarrow> s' = s \<and> (\<exists>s1. m s = (Inl e, s1))"
  by (auto simp: transaction_def split: prod.splits sum.splits)

lemmas fail_simps = bnd_Inl query_eq check_eq ret_Inl raise_eq if_raise_Inl transaction_Inl

lemma run_ok: "\<not> isl (fst (m s)) \<Longrightarrow> \<exists>x. m s = (Inr x, snd (m s))"
  by (cases "m s"; cases "fst (m s)") auto

text \<open>A failing handler that is only reads, checks and one final transaction changes nothing.\<close>

definition atomic_handler :: "('s, 'e, 'a) handler \<Rightarrow> bool" where
  "atomic_handler m = (\<forall>s e s'. m s = (Inl e, s') \<longrightarrow> s' = s)"

definition read_only :: "('s, 'e, 'a) handler \<Rightarrow> bool" where
  "read_only m = (\<forall>s. snd (m s) = s)"

lemma read_only_intros [intro]:
  "read_only (query f)" "read_only (check r)" "read_only (raise e)" "read_only (ret x)"
  by (simp_all add: read_only_def query_def check_def raise_def ret_def)

lemma atomic_read_only [intro]: "read_only m \<Longrightarrow> atomic_handler m"
  unfolding read_only_def atomic_handler_def by (metis snd_conv)

lemma atomic_transaction [intro]: "atomic_handler (transaction m)"
  by (auto simp: atomic_handler_def transaction_def split: prod.splits sum.splits)

lemma atomic_statement [intro]: "atomic_handler (statement f)"
  by (auto simp: atomic_handler_def statement_def split: prod.splits sum.splits)

lemma atomic_modify [intro]: "atomic_handler (modify f)"
  by (auto simp: atomic_handler_def modify_def)

lemma atomic_bnd_read [intro]:
  assumes "read_only m" and "\<And>x. atomic_handler (k x)"
  shows "atomic_handler (bnd m k)"
proof -
  have "s' = s" if "bnd m k s = (Inl e, s')" for s e s'
  proof -
    obtain r where r: "m s = (r, s)"
      using assms(1) by (metis read_only_def prod.collapse)
    with that assms(2) show ?thesis
      by (cases r) (auto simp: bnd_def atomic_handler_def)
  qed
  then show ?thesis by (auto simp: atomic_handler_def)
qed

lemma atomic_bnd_ret:
  assumes "atomic_handler m" shows "atomic_handler (bnd m (\<lambda>x. ret (f x)))"
  using assms by (auto simp: atomic_handler_def bnd_def ret_def split: prod.splits sum.splits)

lemma read_only_bnd [intro]:
  assumes "read_only m" and "\<And>x. read_only (k x)" shows "read_only (bnd m k)"
proof -
  have "snd (bnd m k s) = s" for s
    using assms by (auto simp: read_only_def bnd_def split: prod.splits sum.splits)
      (metis snd_conv)+
  then show ?thesis by (simp add: read_only_def)
qed

text \<open>A relation between the states before and after a handler that sequences of handlers respect.\<close>

locale state_order =
  fixes R :: "'s \<Rightarrow> 's \<Rightarrow> bool"
  assumes refl: "R s s"
    and trans: "R s s1 \<Longrightarrow> R s1 s2 \<Longrightarrow> R s s2"
begin

lemma bnd:
  assumes "\<And>s. R s (snd (m s))" and "\<And>x s. R s (snd (k x s))"
  shows "R s (snd (bnd m k s))"
  using assms(1)[of s] trans[OF _ assms(2)] by (auto simp: bnd_def split: prod.splits sum.splits)

lemma reads:
  "R s (snd (query f s))" "R s (snd (check r s))" "R s (snd (ret x s))" "R s (snd (raise e s))"
  by (simp_all add: query_def check_def ret_def raise_def refl)

lemma branch:
  "(c \<Longrightarrow> R s (snd (m s))) \<Longrightarrow> (\<not> c \<Longrightarrow> R s (snd (n s))) \<Longrightarrow> R s (snd ((if c then m else n) s))"
  by simp

lemma commit: "R s (snd (m s)) \<Longrightarrow> R s (snd (transaction m s))"
  by (auto simp: transaction_def refl split: prod.splits sum.splits)

lemma optional:
  "(\<And>x. v = Some x \<Longrightarrow> R s (snd (m x s))) \<Longrightarrow> R s (snd (n s)) \<Longrightarrow>
    R s (snd ((case v of None \<Rightarrow> n | Some x \<Rightarrow> m x) s))"
  by (cases v) auto

lemma pair: "(\<And>a b. R s (snd (f a b s))) \<Longrightarrow> R s (snd ((case p of (a, b) \<Rightarrow> f a b) s))"
  by (cases p) simp

lemmas rules = bnd reads branch commit optional

text \<open>Rules that keep what the step before returned.\<close>

lemma bnd_check: "(\<And>x. r = Inr x \<Longrightarrow> R s (snd (k x s))) \<Longrightarrow> R s (snd (bnd (check r) k s))"
  by (cases r) (auto simp: bnd_def check_def refl)

lemma bnd_query: "(\<And>x. f s = Inr x \<Longrightarrow> R s (snd (k x s))) \<Longrightarrow> R s (snd (bnd (query f) k s))"
  by (cases "f s") (auto simp: bnd_def query_def refl)

lemma bnd_run:
  assumes "R s (snd (m s))" and "\<And>x s1. m s = (Inr x, s1) \<Longrightarrow> R s1 (snd (k x s1))"
  shows "R s (snd (bnd m k s))"
  using assms(1) trans[OF _ assms(2)] by (auto simp: bnd_def split: prod.splits sum.splits)

end

end
