(* ===== verification/Errors.thy ===== *)
theory Errors
  imports Prelude
begin

text \<open>
  The error types of the server: \<open>AsterError\<close> of \<open>errors.rs\<close> with its views, the protocol
  error \<open>YggdrasilError\<close> of \<open>yggdrasil_service/error.rs\<close>, the retry classification of
  \<open>task_service/retry.rs\<close>, and \<open>forge\<close>, the functions the code calls in crates that are
  not part of the repository.  An \<open>AsterErrorCode\<close> is the name of its variant.
\<close>

type_synonym aster_error_code = string

section \<open>Functions of other crates\<close>

text \<open>
  \<open>aster_forge_crypto\<close>, \<open>aster_forge_utils\<close> and the texts of the database driver.  The
  components take a value of this record as an argument; what they rely on is a named
  predicate on it.
\<close>

datatype db_err = RecordNotUpdated | UniqueViolation | ForeignKeyViolation

record forge =
  sha256_hex :: "string \<Rightarrow> string"
  verify_password :: "string \<Rightarrow> string \<Rightarrow> string + bool"
  u64_to_i64 :: "nat \<Rightarrow> string \<Rightarrow> string + int"
  u64_to_usize :: "nat \<Rightarrow> string \<Rightarrow> string + nat"
  char_count :: "string \<Rightarrow> nat"
  db_err_text :: "db_err \<Rightarrow> string"
  i64_to_u64 :: "int \<Rightarrow> string \<Rightarrow> string + nat"
  hash_password :: "string \<Rightarrow> string + string"
  normalize_email :: "string \<Rightarrow> string + string"

text \<open>The documented behaviour of the checked conversions on a 64-bit target.\<close>

definition conversions_ok :: "forge \<Rightarrow> bool" where
  "conversions_ok F =
     ((\<forall>n l. n < 2 ^ 63 \<longrightarrow> u64_to_i64 F n l = Inr (int n))
      \<and> (\<forall>n l. n < 2 ^ 64 \<longrightarrow> u64_to_usize F n l = Inr n))"

section \<open>AsterError\<close>

text \<open>\<open>Panicked\<close> is not a variant of the source: it stands for a Rust panic, which unwinds out
  of the handler and drops an open transaction.\<close>

datatype aster_error =
    Public string nat aster_error_code string "bool option"
      \<comment> \<open>internal code, status, code, message, retryable\<close>
  | DatabaseConnection string
  | DatabaseOperation string
  | ConfigError string
  | ValidationError string
  | AuthInvalidCredentials string
  | AuthTokenInvalid string
  | AuthTokenExpired string
  | AuthForbidden string
  | RecordNotFound string
  | ExternalAuthError string
  | MailNotConfigured string
  | MailDeliveryFailed string
  | InternalError string
  | Panicked

type_synonym 'a result = "aster_error + 'a"

definition public_error :: "nat \<Rightarrow> aster_error_code \<Rightarrow> string \<Rightarrow> aster_error" where
  "public_error status code message = Public ''E100'' status code message None"

definition public_error_with_retryable ::
    "nat \<Rightarrow> aster_error_code \<Rightarrow> string \<Rightarrow> bool option \<Rightarrow> aster_error" where
  "public_error_with_retryable status code message r = Public ''E100'' status code message r"

definition validation_error_code :: "aster_error_code \<Rightarrow> string \<Rightarrow> aster_error" where
  "validation_error_code code message = public_error 400 code message"

definition record_not_found_code :: "aster_error_code \<Rightarrow> string \<Rightarrow> aster_error" where
  "record_not_found_code code message = public_error 404 code message"

definition auth_forbidden_code :: "aster_error_code \<Rightarrow> string \<Rightarrow> aster_error" where
  "auth_forbidden_code code message = public_error 403 code message"

definition auth_pending_activation :: "string \<Rightarrow> aster_error" where
  "auth_pending_activation message = auth_forbidden_code ''AuthPendingActivation'' message"

definition runtime_unavailable_retryable :: "string \<Rightarrow> aster_error" where
  "runtime_unavailable_retryable message =
     public_error_with_retryable 503 ''RuntimeUnavailable'' message (Some True)"

fun error_code :: "aster_error \<Rightarrow> string" where
  "error_code (Public internal_code _ _ _ _) = internal_code"
| "error_code (DatabaseConnection _) = ''E001''"
| "error_code (DatabaseOperation _) = ''E002''"
| "error_code (ConfigError _) = ''E003''"
| "error_code (InternalError _) = ''E004''"
| "error_code (ValidationError _) = ''E005''"
| "error_code (RecordNotFound _) = ''E006''"
| "error_code (AuthInvalidCredentials _) = ''E010''"
| "error_code (AuthTokenExpired _) = ''E011''"
| "error_code (AuthTokenInvalid _) = ''E012''"
| "error_code (AuthForbidden _) = ''E013''"
| "error_code (ExternalAuthError _) = ''E020''"
| "error_code (MailNotConfigured _) = ''E030''"
| "error_code (MailDeliveryFailed _) = ''E031''"
| "error_code Panicked = []"

fun api_error_code :: "aster_error \<Rightarrow> aster_error_code" where
  "api_error_code (Public _ _ code _ _) = code"
| "api_error_code (DatabaseConnection _) = ''DatabaseError''"
| "api_error_code (DatabaseOperation _) = ''DatabaseError''"
| "api_error_code (ConfigError _) = ''ConfigError''"
| "api_error_code (ValidationError _) = ''BadRequest''"
| "api_error_code (AuthInvalidCredentials _) = ''AuthCredentialsFailed''"
| "api_error_code (AuthTokenInvalid _) = ''AuthTokenInvalid''"
| "api_error_code (AuthTokenExpired _) = ''AuthTokenExpired''"
| "api_error_code (AuthForbidden _) = ''Forbidden''"
| "api_error_code (RecordNotFound _) = ''NotFound''"
| "api_error_code (ExternalAuthError _) = ''ExternalAuthError''"
| "api_error_code (MailNotConfigured _) = ''MailNotConfigured''"
| "api_error_code (MailDeliveryFailed _) = ''MailDeliveryFailed''"
| "api_error_code (InternalError _) = ''InternalServerError''"
| "api_error_code Panicked = []"

fun api_error_code_override :: "aster_error \<Rightarrow> aster_error_code option" where
  "api_error_code_override (Public _ _ code _ _) = Some code"
| "api_error_code_override _ = None"

fun error_retryable :: "aster_error \<Rightarrow> bool option" where
  "error_retryable (Public _ _ _ _ r) = r"
| "error_retryable (DatabaseConnection _) = Some True"
| "error_retryable (DatabaseOperation _) = Some True"
| "error_retryable (MailDeliveryFailed _) = Some True"
| "error_retryable (MailNotConfigured _) = Some False"
| "error_retryable _ = None"

fun error_message :: "aster_error \<Rightarrow> string" where
  "error_message (Public _ _ _ m _) = m"
| "error_message (DatabaseConnection m) = m"
| "error_message (DatabaseOperation m) = m"
| "error_message (ConfigError m) = m"
| "error_message (ValidationError m) = m"
| "error_message (AuthInvalidCredentials m) = m"
| "error_message (AuthTokenInvalid m) = m"
| "error_message (AuthTokenExpired m) = m"
| "error_message (AuthForbidden m) = m"
| "error_message (RecordNotFound m) = m"
| "error_message (ExternalAuthError m) = m"
| "error_message (MailNotConfigured m) = m"
| "error_message (MailDeliveryFailed m) = m"
| "error_message (InternalError m) = m"
| "error_message Panicked = []"

fun error_status_code :: "aster_error \<Rightarrow> nat" where
  "error_status_code (Public _ status _ _ _) = status"
| "error_status_code (ValidationError _) = 400"
| "error_status_code (AuthInvalidCredentials _) = 401"
| "error_status_code (AuthTokenInvalid _) = 401"
| "error_status_code (AuthTokenExpired _) = 401"
| "error_status_code (AuthForbidden _) = 403"
| "error_status_code (RecordNotFound _) = 404"
| "error_status_code (ExternalAuthError _) = 400"
| "error_status_code (MailNotConfigured _) = 503"
| "error_status_code (MailDeliveryFailed _) = 503"
| "error_status_code (DatabaseConnection _) = 500"
| "error_status_code (DatabaseOperation _) = 500"
| "error_status_code (ConfigError _) = 500"
| "error_status_code (InternalError _) = 500"
| "error_status_code Panicked = 500"

section \<open>Retry classification of task errors\<close>

datatype task_retry_class = Auto | Manual | Never

text \<open>\<open>StatusCode::is_server_error\<close>.\<close>

definition is_server_error :: "nat \<Rightarrow> bool" where
  "is_server_error status = (500 \<le> status \<and> status < 600)"

fun default_retry_class :: "aster_error \<Rightarrow> task_retry_class" where
  "default_retry_class (Public _ status _ _ r) =
     (case r of
        Some retry \<Rightarrow> if retry then Auto else Never
      | None \<Rightarrow> if is_server_error status then Manual else Never)"
| "default_retry_class (DatabaseConnection _) = Auto"
| "default_retry_class (MailDeliveryFailed _) = Auto"
| "default_retry_class (DatabaseOperation _) = Manual"
| "default_retry_class (ConfigError _) = Manual"
| "default_retry_class (ExternalAuthError _) = Manual"
| "default_retry_class (InternalError _) = Manual"
| "default_retry_class (ValidationError _) = Never"
| "default_retry_class (AuthInvalidCredentials _) = Never"
| "default_retry_class (AuthTokenInvalid _) = Never"
| "default_retry_class (AuthTokenExpired _) = Never"
| "default_retry_class (AuthForbidden _) = Never"
| "default_retry_class (RecordNotFound _) = Never"
| "default_retry_class (MailNotConfigured _) = Never"
| "default_retry_class Panicked = Never"

section \<open>YggdrasilError\<close>

datatype yggdrasil_error_kind =
    InvalidToken | InvalidCredentials | AccessTokenAlreadyHasProfile | ForbiddenProfile
  | BadRequest | UnsupportedAgent | TooManyProfilesRequested | ProfileNotFound | Internal

record yggdrasil_error =
  ye_kind :: yggdrasil_error_kind
  ye_detail :: "string option"

type_synonym 'a yresult = "yggdrasil_error + 'a"

definition ygg_error :: "yggdrasil_error_kind \<Rightarrow> yggdrasil_error" where
  "ygg_error k = \<lparr>ye_kind = k, ye_detail = None\<rparr>"

definition ygg_error_with_detail :: "yggdrasil_error_kind \<Rightarrow> string \<Rightarrow> yggdrasil_error" where
  "ygg_error_with_detail k d = \<lparr>ye_kind = k, ye_detail = Some d\<rparr>"

fun ygg_kind_status :: "yggdrasil_error_kind \<Rightarrow> nat" where
  "ygg_kind_status InvalidToken = 403"
| "ygg_kind_status InvalidCredentials = 403"
| "ygg_kind_status ForbiddenProfile = 403"
| "ygg_kind_status AccessTokenAlreadyHasProfile = 400"
| "ygg_kind_status BadRequest = 400"
| "ygg_kind_status UnsupportedAgent = 400"
| "ygg_kind_status TooManyProfilesRequested = 400"
| "ygg_kind_status ProfileNotFound = 204"
| "ygg_kind_status Internal = 500"

fun ygg_kind_name :: "yggdrasil_error_kind \<Rightarrow> string" where
  "ygg_kind_name AccessTokenAlreadyHasProfile = ''IllegalArgumentException''"
| "ygg_kind_name BadRequest = ''IllegalArgumentException''"
| "ygg_kind_name UnsupportedAgent = ''IllegalArgumentException''"
| "ygg_kind_name TooManyProfilesRequested = ''IllegalArgumentException''"
| "ygg_kind_name InvalidToken = ''ForbiddenOperationException''"
| "ygg_kind_name InvalidCredentials = ''ForbiddenOperationException''"
| "ygg_kind_name ForbiddenProfile = ''ForbiddenOperationException''"
| "ygg_kind_name ProfileNotFound = ''NotFound''"
| "ygg_kind_name Internal = ''InternalServerError''"

definition protocol_message :: "yggdrasil_error \<Rightarrow> string" where
  "protocol_message e =
     (case ye_kind e of
        InvalidToken \<Rightarrow> ''Invalid token.''
      | InvalidCredentials \<Rightarrow> ''Invalid credentials. Invalid username or password.''
      | AccessTokenAlreadyHasProfile \<Rightarrow> ''Access token already has a profile assigned.''
      | ForbiddenProfile \<Rightarrow> ''Profile does not belong to this user.''
      | BadRequest \<Rightarrow> (case ye_detail e of Some d \<Rightarrow> d | None \<Rightarrow> ''Invalid request.'')
      | UnsupportedAgent \<Rightarrow> ''Unsupported Yggdrasil agent.''
      | TooManyProfilesRequested \<Rightarrow> ''Too many profile names requested.''
      | ProfileNotFound \<Rightarrow> ''Profile not found.''
      | Internal \<Rightarrow> (case ye_detail e of Some d \<Rightarrow> d | None \<Rightarrow> ''Internal server error.''))"

definition ygg_from_aster :: "aster_error \<Rightarrow> yggdrasil_error" where
  "ygg_from_aster e = ygg_error_with_detail Internal (error_message e)"

definition lift_aster :: "'a result \<Rightarrow> 'a yresult" where
  "lift_aster r = map_sum ygg_from_aster id r"

section \<open>A concrete instance\<close>

text \<open>An instance of \<open>forge\<close> that the witnesses evaluate: the hash prefixes its input, a password
  hash is the password, the conversions have the documented range.\<close>

definition plain_forge :: forge where
  "plain_forge = \<lparr>sha256_hex = (\<lambda>s. CHR ''#'' # s),
     verify_password = (\<lambda>p h. Inr (p = h)),
     u64_to_i64 = (\<lambda>n l. if int n < 9223372036854775808 then Inr (int n) else Inl (l @ '' out of range'')),
     u64_to_usize = (\<lambda>n l. if int n < 18446744073709551616 then Inr n else Inl (l @ '' out of range'')),
     char_count = length,
     db_err_text = (\<lambda>e. case e of RecordNotUpdated \<Rightarrow> ''None of the records are updated''
                        | UniqueViolation \<Rightarrow> ''UNIQUE constraint failed''),
     i64_to_u64 = (\<lambda>n l. if 0 \<le> n then Inr (nat n) else Inl (l @ '' out of range'')),
     hash_password = Inr,
     normalize_email = (\<lambda>e. if CHR ''@'' \<in> set e then Inr e else Inl ''invalid email format'')\<rparr>"

lemma plain_forge_simps [simp]:
  "sha256_hex plain_forge s = CHR ''#'' # s"
  "verify_password plain_forge p h = Inr (p = h)"
  "char_count plain_forge s = length s"
  "hash_password plain_forge p = Inr p"
  by (simp_all add: plain_forge_def)

lemma plain_forge_conversions [simp]: "conversions_ok plain_forge"
  by (simp add: conversions_ok_def plain_forge_def)

end
