(* ===== verification/Error_Codes.thy ===== *)
theory Error_Codes
  imports Errors
begin

text \<open>
  The public error codes of \<open>api/error_code.rs\<close>.  \<open>error_code_table\<close> is the argument of the
  macro \<open>define_error_codes!\<close>; the generated \<open>as_str\<close> and \<open>parse\<close> are its two lookups.
\<close>

definition error_code_table :: "(aster_error_code \<times> string) list" where
  "error_code_table = [
    (''Success'', ''success''),
    (''BadRequest'', ''bad_request''),
    (''ValidationFailed'', ''validation.failed''),
    (''RequestMalformed'', ''request.malformed''),
    (''RequestPayloadTooLarge'', ''request.payload_too_large''),
    (''NotFound'', ''not_found''),
    (''InternalServerError'', ''internal_server_error''),
    (''DatabaseError'', ''database.error''),
    (''CacheError'', ''cache.error''),
    (''StorageError'', ''storage.error''),
    (''ConfigError'', ''config.error''),
    (''RuntimeUnavailable'', ''runtime.unavailable''),
    (''EndpointNotFound'', ''endpoint.not_found''),
    (''EndpointMethodNotAllowed'', ''endpoint.method_not_allowed''),
    (''RateLimited'', ''rate_limited''),
    (''AuthSetupRequired'', ''auth.setup_required''),
    (''AuthSetupAlreadyCompleted'', ''auth.setup_already_completed''),
    (''AuthRegistrationDisabled'', ''auth.registration_disabled''),
    (''AuthLocalLoginDisabled'', ''auth.local_login_disabled''),
    (''AuthPasswordPolicyFailed'', ''auth.password_policy_failed''),
    (''AuthUsernameExists'', ''auth.username_exists''),
    (''AuthEmailExists'', ''auth.email_exists''),
    (''AuthEmailBlocked'', ''auth.email_blocked''),
    (''AuthEmailNotAllowlisted'', ''auth.email_not_allowlisted''),
    (''AuthUserDisabled'', ''auth.user_disabled''),
    (''AuthPendingActivation'', ''auth.pending_activation''),
    (''AuthPasswordChangeRequired'', ''auth.password_change_required''),
    (''AuthPasskeyLoginDisabled'', ''auth.passkey_login_disabled''),
    (''AuthCaptchaRequired'', ''auth.captcha_required''),
    (''AuthCaptchaInvalid'', ''auth.captcha_invalid''),
    (''AuthCaptchaExpired'', ''auth.captcha_expired''),
    (''ContactVerificationInvalid'', ''auth.contact_verification_invalid''),
    (''ContactVerificationExpired'', ''auth.contact_verification_expired''),
    (''AuthInvitationInvalid'', ''auth.invitation_invalid''),
    (''AuthInvitationExpired'', ''auth.invitation_expired''),
    (''AuthInvitationAccepted'', ''auth.invitation_accepted''),
    (''AuthInvitationRevoked'', ''auth.invitation_revoked''),
    (''MailNotConfigured'', ''mail.not_configured''),
    (''MailDeliveryFailed'', ''mail.delivery_failed''),
    (''AuthCredentialsFailed'', ''auth.credentials_failed''),
    (''AuthTokenExpired'', ''auth.token_expired''),
    (''AuthTokenInvalid'', ''auth.token_invalid''),
    (''AuthSessionNotFound'', ''auth.session_not_found''),
    (''AuthSessionRevocationFailed'', ''auth.session_revocation_failed''),
    (''AuthCsrfMissing'', ''auth.csrf_missing''),
    (''AuthCsrfInvalid'', ''auth.csrf_invalid''),
    (''AuthAdminRequired'', ''auth.admin_required''),
    (''Forbidden'', ''forbidden''),
    (''ExternalAuthError'', ''external_auth.error''),
    (''ExternalAuthProviderNotFound'', ''external_auth.provider_not_found''),
    (''ExternalAuthProviderDisabled'', ''external_auth.provider_disabled''),
    (''ExternalAuthProviderLoginDisabled'', ''external_auth.provider_login_disabled''),
    (''ExternalAuthProviderUnlinkDisabled'', ''external_auth.provider_unlink_disabled''),
    (''ExternalAuthProviderMisconfigured'', ''external_auth.provider_misconfigured''),
    (''ExternalAuthStateInvalid'', ''external_auth.state_invalid''),
    (''ExternalAuthStateExpired'', ''external_auth.state_expired''),
    (''ExternalAuthCallbackFailed'', ''external_auth.callback_failed''),
    (''ExternalAuthIdentityConflict'', ''external_auth.identity_conflict''),
    (''ExternalAuthCallbackRedirectUriRequired'', ''external_auth.callback_redirect_uri_required''),
    (''MailTemplateInvalid'', ''mail.template_invalid''),
    (''MailOutboxNotFound'', ''mail.outbox_not_found''),
    (''ConfigNotFound'', ''config.not_found''),
    (''ConfigReadOnly'', ''config.read_only''),
    (''ConfigValidationFailed'', ''config.validation_failed''),
    (''ConfigActionNotFound'', ''config.action_not_found''),
    (''ConfigActionInvalid'', ''config.action_invalid''),
    (''ConfigActionFailed'', ''config.action_failed''),
    (''AuditLogInvalidFilter'', ''audit_log.invalid_filter''),
    (''TaskNotFound'', ''task.not_found''),
    (''TaskInvalidState'', ''task.invalid_state''),
    (''TaskRetryNotAllowed'', ''task.retry_not_allowed''),
    (''TaskCleanupFailed'', ''task.cleanup_failed''),
    (''TaskLeaseConflict'', ''task.lease_conflict''),
    (''MinecraftProfileNotFound'', ''minecraft_profile.not_found''),
    (''MinecraftProfileUuidInvalid'', ''minecraft_profile.uuid_invalid''),
    (''MinecraftProfileUuidTaken'', ''minecraft_profile.uuid_taken''),
    (''MinecraftProfileNameInvalid'', ''minecraft_profile.name_invalid''),
    (''MinecraftProfileNameTaken'', ''minecraft_profile.name_taken''),
    (''MinecraftProfileNameReservedByMojang'', ''minecraft_profile.name_reserved_by_mojang''),
    (''MinecraftProfileMojangLookupFailed'', ''minecraft_profile.mojang_lookup_failed''),
    (''MinecraftProfileLimitExceeded'', ''minecraft_profile.limit_exceeded''),
    (''MinecraftProfileDeleteForbidden'', ''minecraft_profile.delete_forbidden''),
    (''MinecraftProfileRenameLimitExceeded'', ''minecraft_profile.rename_limit_exceeded''),
    (''MinecraftProfileOfficialNameReadonly'', ''minecraft_profile.official_name_readonly''),
    (''UserBanNotFound'', ''user_ban.not_found''),
    (''UserBanAlreadyActive'', ''user_ban.already_active''),
    (''UserBanNotActive'', ''user_ban.not_active''),
    (''UserBanDurationInvalid'', ''user_ban.duration_invalid''),
    (''UserBanReasonInvalid'', ''user_ban.reason_invalid''),
    (''UserBanForbidden'', ''user_ban.forbidden''),
    (''MinecraftTextureNotFound'', ''minecraft_texture.not_found''),
    (''MinecraftTextureInvalidType'', ''minecraft_texture.invalid_type''),
    (''MinecraftTextureUploadDisabled'', ''minecraft_texture.upload_disabled''),
    (''MinecraftTextureInvalidPng'', ''minecraft_texture.invalid_png''),
    (''MinecraftTextureInvalidDimensions'', ''minecraft_texture.invalid_dimensions''),
    (''MinecraftTextureInvalidModel'', ''minecraft_texture.invalid_model''),
    (''MinecraftTextureUnsupportedMime'', ''minecraft_texture.unsupported_mime''),
    (''MinecraftTextureTooLarge'', ''minecraft_texture.too_large''),
    (''MinecraftObjectStorageFailed'', ''minecraft_texture.storage_failed''),
    (''MinecraftTextureBindConflict'', ''minecraft_texture.bind_conflict''),
    (''WardrobeTextureNotFound'', ''wardrobe.texture_not_found''),
    (''WardrobeTextureTypeMismatch'', ''wardrobe.texture_type_mismatch''),
    (''WardrobeTextureDeleteConflict'', ''wardrobe.texture_delete_conflict''),
    (''WardrobeTextureEditConflict'', ''wardrobe.texture_edit_conflict''),
    (''WardrobeTextureNameInvalid'', ''wardrobe.texture_name_invalid''),
    (''WardrobeTextureNameTaken'', ''wardrobe.texture_name_taken''),
    (''TextureLibraryTagNotFound'', ''texture_library.tag_not_found''),
    (''TextureLibraryTagNameInvalid'', ''texture_library.tag_name_invalid''),
    (''TextureLibraryTagColorInvalid'', ''texture_library.tag_color_invalid''),
    (''TextureLibraryTagNameTaken'', ''texture_library.tag_name_taken''),
    (''TextureLibraryTextureNotFound'', ''texture_library.texture_not_found''),
    (''TextureLibraryDisabled'', ''texture_library.disabled''),
    (''TextureLibraryTextureNotPublic'', ''texture_library.texture_not_public''),
    (''TextureLibraryTextureNotPending'', ''texture_library.texture_not_pending''),
    (''TextureLibraryTextureNotPublished'', ''texture_library.texture_not_published''),
    (''TextureLibraryReviewNoteInvalid'', ''texture_library.review_note_invalid''),
    (''TextureReportTextureNotReportable'', ''texture_report.texture_not_reportable''),
    (''TextureReportSelfReportNotAllowed'', ''texture_report.self_report_not_allowed''),
    (''TextureReportPendingExists'', ''texture_report.pending_exists''),
    (''TextureReportMessageInvalid'', ''texture_report.message_invalid''),
    (''TextureReportNotFound'', ''texture_report.not_found''),
    (''TextureReportNotPending'', ''texture_report.not_pending''),
    (''PasskeyNameInvalid'', ''passkey.name_invalid''),
    (''PasskeyNameTooLong'', ''passkey.name_too_long''),
    (''PasskeyNotDiscoverable'', ''passkey.not_discoverable''),
    (''AvatarNotFound'', ''avatar.not_found''),
    (''AvatarFileRequired'', ''avatar.file_required''),
    (''AvatarUploadReadFailed'', ''avatar.upload_read_failed''),
    (''AvatarEmptyImage'', ''avatar.empty_image''),
    (''AvatarSourceInvalid'', ''avatar.source_invalid''),
    (''AvatarSizeInvalid'', ''avatar.size_invalid''),
    (''AvatarRenderFailed'', ''avatar.render_failed''),
    (''AvatarOutputInvalid'', ''avatar.output_invalid''),
    (''ConfigPublicSiteUrlRequired'', ''config.public_site_url_required''),
    (''ConfigPublicSiteUrlInvalid'', ''config.public_site_url_invalid''),
    (''FrontendConfigUnavailable'', ''frontend_config.unavailable'')]"

definition error_code_as_str :: "aster_error_code \<Rightarrow> string option" where
  "error_code_as_str c = map_of error_code_table c"

definition error_code_parse :: "string \<Rightarrow> aster_error_code option" where
  "error_code_parse v = map_of (map (\<lambda>(c, w). (w, c)) error_code_table) v"

text \<open>Variants and wire values are pairwise different, so both lookups are injective.\<close>

lemma error_code_variants_distinct: "distinct (map fst error_code_table)"
  unfolding error_code_table_def by simp

lemma error_code_values_distinct: "distinct (map snd error_code_table)"
  unfolding error_code_table_def by simp

text \<open>C40. \<open>as_str\<close> and \<open>parse\<close> are inverse to each other on all variants and wire values.\<close>

theorem error_code_roundtrip:
  "error_code_as_str c = Some v \<longleftrightarrow> error_code_parse v = Some c"
proof -
  have swap: "map fst (map (\<lambda>(c, w). (w, c)) error_code_table) = map snd error_code_table"
    by (simp add: case_prod_unfold comp_def)
  have "error_code_as_str c = Some v \<longleftrightarrow> (c, v) \<in> set error_code_table"
    unfolding error_code_as_str_def
    by (rule map_of_eq_Some_iff) (rule error_code_variants_distinct)
  moreover have "error_code_parse v = Some c \<longleftrightarrow>
      (v, c) \<in> set (map (\<lambda>(c, w). (w, c)) error_code_table)"
    unfolding error_code_parse_def
    by (rule map_of_eq_Some_iff) (simp only: swap error_code_values_distinct)
  ultimately show ?thesis by auto
qed

end
