(* ===== verification/Entities.thy ===== *)
theory Entities
  imports Errors
begin

text \<open>
  The rows of the database: the enumerations of \<open>types/\<close> and the SeaORM entities of
  \<open>entities/\<close>, one record per entity with the fields in the order of the source, and \<open>db\<close>,
  the tables the modelled services read and write.  The reader and the writer connection
  are the same database.
\<close>

section \<open>Enumerations of types/user.rs\<close>

datatype user_role = RoleAdmin | RoleOperator | RoleUser

definition is_admin :: "user_role \<Rightarrow> bool" where
  "is_admin r = (r = RoleAdmin)"

datatype user_status = UserActive | UserDisabled

definition user_status_is_active :: "user_status \<Rightarrow> bool" where
  "user_status_is_active s = (s = UserActive)"

datatype user_ban_scope =
    YggdrasilAccess | YggdrasilJoin | MinecraftProfileManage | TextureUpload
  | TextureLibraryInteract

text \<open>\<open>derive(PartialOrd, Ord)\<close> orders the variants as they are declared.\<close>

fun scope_rank :: "user_ban_scope \<Rightarrow> nat" where
  "scope_rank YggdrasilAccess = 0"
| "scope_rank YggdrasilJoin = 1"
| "scope_rank MinecraftProfileManage = 2"
| "scope_rank TextureUpload = 3"
| "scope_rank TextureLibraryInteract = 4"

lemma scope_rank_inject [simp]: "scope_rank a = scope_rank b \<longleftrightarrow> a = b"
  by (cases a; cases b) auto

instantiation user_ban_scope :: linorder
begin

definition less_eq_user_ban_scope :: "user_ban_scope \<Rightarrow> user_ban_scope \<Rightarrow> bool" where
  "less_eq_user_ban_scope a b = (scope_rank a \<le> scope_rank b)"

definition less_user_ban_scope :: "user_ban_scope \<Rightarrow> user_ban_scope \<Rightarrow> bool" where
  "less_user_ban_scope a b = (scope_rank a < scope_rank b)"

instance
  by standard (auto simp: less_eq_user_ban_scope_def less_user_ban_scope_def)

end

fun ban_scope_as_str :: "user_ban_scope \<Rightarrow> string" where
  "ban_scope_as_str YggdrasilAccess = ''yggdrasil_access''"
| "ban_scope_as_str YggdrasilJoin = ''yggdrasil_join''"
| "ban_scope_as_str MinecraftProfileManage = ''minecraft_profile_manage''"
| "ban_scope_as_str TextureUpload = ''texture_upload''"
| "ban_scope_as_str TextureLibraryInteract = ''texture_library_interact''"

text \<open>\<open>UserBanScopes(String)\<close>: the stored JSON text.\<close>

datatype user_ban_scopes = UserBanScopes string

datatype user_ban_status = BanActive | BanRevoked | BanExpired

definition ban_status_is_active :: "user_ban_status \<Rightarrow> bool" where
  "ban_status_is_active s = (s = BanActive)"

datatype user_ban_event_type = BanEventCreated | BanEventUpdated | BanEventRevoked

section \<open>Enumerations of types/task.rs and types/yggdrasil.rs\<close>

datatype background_task_kind = SystemRuntime

datatype background_task_status = Pending | Processing | Retry | Succeeded | Failed | Canceled

definition is_terminal :: "background_task_status \<Rightarrow> bool" where
  "is_terminal s = (s = Succeeded \<or> s = Failed \<or> s = Canceled)"

datatype provider_kind = ProviderLocal | ProviderRemote

datatype endpoint_kind = AuthlibInjector | MojangSession

datatype minecraft_profile_source = SourceLocal | SourceMicrosoft

datatype minecraft_texture_model = ModelDefault | ModelSlim

section \<open>Enumerations of types/auth.rs and further ones of types/user.rs\<close>

datatype token_type = TokenAccess | TokenRefresh

fun token_type_as_str :: "token_type \<Rightarrow> string" where
  "token_type_as_str TokenAccess = ''access''"
| "token_type_as_str TokenRefresh = ''refresh''"

datatype verification_channel = ChannelEmail

datatype verification_purpose = RegisterActivation | ContactChange | PasswordReset

datatype operator_scope =
    ScopeOverview | ScopeUsers | ScopeProfiles | ScopeTextureLibrary | ScopeAudit | ScopeTasks
  | ScopeSettings | ScopeExternalAuth

text \<open>The strings the scopes are stored as, which is what \<open>ORDER BY scope\<close> compares.\<close>

fun operator_scope_value :: "operator_scope \<Rightarrow> string" where
  "operator_scope_value ScopeOverview = ''overview''"
| "operator_scope_value ScopeUsers = ''users''"
| "operator_scope_value ScopeProfiles = ''profiles''"
| "operator_scope_value ScopeTextureLibrary = ''texture_library''"
| "operator_scope_value ScopeAudit = ''audit''"
| "operator_scope_value ScopeTasks = ''tasks''"
| "operator_scope_value ScopeSettings = ''settings''"
| "operator_scope_value ScopeExternalAuth = ''external_auth''"

datatype avatar_source = AvatarNone | AvatarGravatar | AvatarUpload

datatype user_invitation_status =
    InvitationPending | InvitationAccepted | InvitationExpired | InvitationRevoked

definition invitation_is_pending :: "user_invitation_status \<Rightarrow> bool" where
  "invitation_is_pending s = (s = InvitationPending)"

text \<open>\<open>types/external_auth.rs\<close>\<close>

datatype external_provider_kind =
    KindOidc | KindGenericOAuth2 | KindGitHub | KindGoogle | KindMicrosoft | KindQq | KindLinuxDo

datatype external_protocol = ProtocolOidc | ProtocolOAuth2

datatype texture_type = Skin | Cape

datatype texture_source = TextureLocal | TextureMojang

datatype texture_visibility = VisibilityPrivate | VisibilityPublic

datatype library_status = LibraryPrivate | LibraryPendingReview | LibraryPublished | LibraryRejected

datatype report_reason = Inappropriate | Offensive | Copyright | Misleading | Broken | Spam | OtherReason

datatype report_status = ReportPending | ReportAccepted | ReportRejected

section \<open>Entities\<close>

record user =
  u_id :: row_id
  u_public_uuid :: string
  u_username :: string
  u_email :: "string option"
  u_password_hash :: string
  u_role :: user_role
  u_status :: user_status
  u_must_change_password :: bool
  u_session_version :: int
  u_email_verified_at :: "time option"
  u_pending_email :: "string option"
  u_created_at :: time
  u_updated_at :: time

record user_ban =
  b_id :: row_id
  b_user_id :: row_id
  b_scopes :: user_ban_scopes
  b_status :: user_ban_status
  b_reason :: string
  b_public_reason :: "string option"
  b_admin_note :: "string option"
  b_created_by_user_id :: "row_id option"
  b_starts_at :: time
  b_expires_at :: "time option"
  b_revoked_at :: "time option"
  b_revoked_by_user_id :: "row_id option"
  b_revoke_note :: "string option"
  b_created_at :: time
  b_updated_at :: time

record user_ban_event =
  be_id :: row_id
  be_ban_id :: row_id
  be_actor_user_id :: "row_id option"
  be_event_type :: user_ban_event_type
  be_previous_status :: "user_ban_status option"
  be_next_status :: "user_ban_status option"
  be_previous_scopes :: "user_ban_scopes option"
  be_next_scopes :: "user_ban_scopes option"
  be_previous_expires_at :: "time option"
  be_next_expires_at :: "time option"
  be_note :: "string option"
  be_created_at :: time

record minecraft_profile =
  p_id :: row_id
  p_user_id :: row_id
  p_uuid :: string
  p_name :: string
  p_normalized_name :: string
  p_source :: minecraft_profile_source
  p_texture_model :: minecraft_texture_model
  p_uploadable_textures :: string
  p_rename_count :: int
  p_created_at :: time
  p_updated_at :: time

record yggdrasil_token =
  t_id :: row_id
  t_user_id :: row_id
  t_access_token_hash :: string
  t_client_token :: string
  t_selected_profile_id :: "row_id option"
  t_issued_at :: time
  t_expires_at :: time
  t_revoked_at :: "time option"
  t_temporarily_invalidated_at :: "time option"
  t_user_agent :: "string option"
  t_ip_address :: "string option"

record auth_session =
  s_id :: string
  s_user_id :: row_id
  s_current_refresh_jti :: string
  s_previous_refresh_jti :: "string option"
  s_refresh_expires_at :: time
  s_user_agent :: "string option"
  s_ip_address :: "string option"
  s_created_at :: time
  s_last_seen_at :: time
  s_revoked_at :: "time option"

record background_task =
  bt_id :: row_id
  bt_kind :: background_task_kind
  bt_status :: background_task_status
  bt_creator_user_id :: "row_id option"
  bt_display_name :: string
  bt_dedupe_key :: "string option"
  bt_payload_json :: string
  bt_result_json :: "string option"
  bt_runtime_json :: "string option"
  bt_steps_json :: "string option"
  bt_progress_current :: int
  bt_progress_total :: int
  bt_status_text :: "string option"
  bt_attempt_count :: int
  bt_max_attempts :: int
  bt_next_run_at :: time
  bt_processing_token :: int
  bt_processing_started_at :: "time option"
  bt_last_heartbeat_at :: "time option"
  bt_lease_expires_at :: "time option"
  bt_started_at :: "time option"
  bt_finished_at :: "time option"
  bt_last_error :: "string option"
  bt_failure_can_retry :: "bool option"
  bt_expires_at :: time
  bt_created_at :: time
  bt_updated_at :: time

record forward_server =
  fs_id :: row_id
  fs_display_name :: string
  fs_provider_kind :: provider_kind
  fs_endpoint_kind :: endpoint_kind
  fs_base_url :: "string option"
  fs_builtin :: bool
  fs_enabled :: bool
  fs_priority :: int
  fs_weight :: int
  fs_timeout_ms :: int
  fs_texture_forward_enabled :: bool
  fs_last_checked_at :: "time option"
  fs_last_success_at :: "time option"
  fs_last_failure_at :: "time option"
  fs_last_failure_message :: "string option"
  fs_created_at :: time
  fs_updated_at :: time

text \<open>The row \<open>aster_forge_db::AuditLogCreate\<close> that \<open>audit_log_request\<close> builds; the details
  are the fields of the details struct in order.\<close>

record audit_entry =
  a_user_id :: row_id
  a_action :: string
  a_entity_type :: string
  a_entity_id :: "row_id option"
  a_entity_name :: "string option"
  a_details :: "(string \<times> string option) list option"
  a_ip_address :: "string option"
  a_user_agent :: "string option"
  a_created_at :: time

record contact_token =
  ct_id :: row_id
  ct_user_id :: row_id
  ct_channel :: verification_channel
  ct_purpose :: verification_purpose
  ct_target :: string
  ct_token_hash :: string
  ct_expires_at :: time
  ct_consumed_at :: "time option"
  ct_created_at :: time

record user_operator_scope =
  os_id :: row_id
  os_user_id :: row_id
  os_scope :: operator_scope
  os_created_at :: time

record user_profile =
  up_user_id :: row_id
  up_display_name :: "string option"
  up_avatar_source :: avatar_source
  up_avatar_key :: "string option"
  up_avatar_version :: int
  up_created_at :: time
  up_updated_at :: time

record external_identity =
  ei_id :: row_id
  ei_user_id :: row_id
  ei_provider_id :: row_id
  ei_identity_namespace :: string
  ei_subject :: string
  ei_email_snapshot :: "string option"
  ei_display_name_snapshot :: "string option"
  ei_metadata :: "string option"
  ei_created_at :: time
  ei_updated_at :: time
  ei_last_login_at :: "time option"

record external_provider =
  xp_id :: row_id
  xp_key :: string
  xp_display_name :: string
  xp_icon_url :: "string option"
  xp_provider_kind :: external_provider_kind
  xp_protocol :: external_protocol
  xp_options :: string
  xp_issuer_url :: "string option"
  xp_authorization_url :: "string option"
  xp_token_url :: "string option"
  xp_userinfo_url :: "string option"
  xp_client_id :: string
  xp_client_secret :: "string option"
  xp_scopes :: string
  xp_enabled :: bool
  xp_auto_provision_enabled :: bool
  xp_auto_link_verified_email_enabled :: bool
  xp_require_email_verified :: bool
  xp_subject_claim :: "string option"
  xp_username_claim :: "string option"
  xp_display_name_claim :: "string option"
  xp_email_claim :: "string option"
  xp_email_verified_claim :: "string option"
  xp_groups_claim :: "string option"
  xp_avatar_url_claim :: "string option"
  xp_allowed_domains :: "string option"
  xp_created_at :: time
  xp_updated_at :: time

record external_login_flow =
  lf_id :: row_id
  lf_provider_id :: row_id
  lf_state_hash :: string
  lf_nonce :: "string option"
  lf_pkce_verifier :: "string option"
  lf_redirect_uri :: string
  lf_return_path :: "string option"
  lf_created_at :: time
  lf_expires_at :: time
  lf_consumed_at :: "time option"

record external_email_flow =
  ef_id :: row_id
  ef_provider_id :: row_id
  ef_identity_namespace :: string
  ef_subject :: string
  ef_target_email :: "string option"
  ef_display_name_snapshot :: "string option"
  ef_preferred_username_snapshot :: "string option"
  ef_return_path :: "string option"
  ef_flow_token_hash :: string
  ef_verification_token_hash :: "string option"
  ef_email_requested_at :: "time option"
  ef_created_at :: time
  ef_expires_at :: time
  ef_consumed_at :: "time option"

record external_binding_flow =
  gf_id :: row_id
  gf_user_id :: row_id
  gf_provider_id :: row_id
  gf_state_hash :: string
  gf_nonce :: "string option"
  gf_pkce_verifier :: "string option"
  gf_redirect_uri :: string
  gf_return_path :: "string option"
  gf_created_at :: time
  gf_expires_at :: time
  gf_consumed_at :: "time option"

record user_invitation =
  iv_id :: row_id
  iv_email :: string
  iv_token_hash :: string
  iv_status :: user_invitation_status
  iv_invited_by :: row_id
  iv_accepted_user_id :: "row_id option"
  iv_expires_at :: time
  iv_created_at :: time
  iv_updated_at :: time
  iv_accepted_at :: "time option"
  iv_revoked_at :: "time option"

record minecraft_texture =
  x_id :: row_id
  x_user_id :: row_id
  x_texture_type :: texture_type
  x_source :: texture_source
  x_hash :: string
  x_storage_key :: string
  x_mime_type :: string
  x_file_size :: int
  x_width :: int
  x_height :: int
  x_texture_model :: minecraft_texture_model
  x_visibility :: texture_visibility
  x_is_wardrobe_item :: bool
  x_display_name :: "string option"
  x_library_status :: library_status
  x_library_submitted_at :: "time option"
  x_library_reviewed_at :: "time option"
  x_library_reviewer_user_id :: "row_id option"
  x_library_review_note :: "string option"
  x_created_at :: time
  x_updated_at :: time

record profile_texture =
  pt_id :: row_id
  pt_profile_id :: row_id
  pt_texture_id :: row_id
  pt_texture_type :: texture_type
  pt_created_at :: time
  pt_updated_at :: time

record texture_preference =
  pp_id :: row_id
  pp_profile_id :: row_id
  pp_texture_type :: texture_type
  pp_texture_id :: row_id
  pp_created_at :: time
  pp_updated_at :: time

record texture_report =
  tr_id :: row_id
  tr_texture_id :: row_id
  tr_reporter_user_id :: row_id
  tr_reason :: report_reason
  tr_message :: "string option"
  tr_status :: report_status
  tr_admin_note :: "string option"
  tr_handled_by_user_id :: "row_id option"
  tr_handled_at :: "time option"
  tr_created_at :: time
  tr_updated_at :: time

record texture_tag =
  tg_id :: row_id
  tg_name :: string
  tg_normalized_name :: string
  tg_color :: string
  tg_sort_order :: int
  tg_created_at :: time
  tg_updated_at :: time

record texture_tag_binding =
  tb_id :: row_id
  tb_texture_id :: row_id
  tb_tag_id :: row_id
  tb_created_at :: time

text \<open>\<open>mail_template.rs\<close>: what a queued mail is rendered from.\<close>

datatype mail_template_payload =
    MailRegisterActivation string string string  \<comment> \<open>username, token, site name\<close>
  | MailContactChangeConfirmation string string string
  | MailPasswordReset string string string
  | MailPasswordResetNotice string string
  | MailContactChangeNotice string string string string  \<comment> \<open>username, old, new, site name\<close>
  | MailExternalAuthEmailVerification string string string string string
      \<comment> \<open>email, token, provider name, site name, expires in\<close>
  | MailLoginEmailCode string string string string string
      \<comment> \<open>username, code, site name, expires in, lang\<close>
  | MailUserInvitation string string string string  \<comment> \<open>email, url, site name, expires in\<close>

text \<open>The row \<open>aster_forge_db::MailOutboxCreate\<close> that \<open>mail_outbox_service::enqueue\<close> hands over.\<close>

record mail_row =
  mo_payload :: mail_template_payload
  mo_to_address :: string
  mo_to_name :: "string option"
  mo_next_attempt_at :: time

record db =
  users :: "user table"
  user_bans :: "user_ban table"
  user_ban_events :: "user_ban_event table"
  minecraft_profiles :: "minecraft_profile table"
  yggdrasil_tokens :: "yggdrasil_token table"
  auth_sessions :: "auth_session table"
  background_tasks :: "background_task table"
  forward_servers :: "forward_server table"
  audit_logs :: "audit_entry list"
  contact_tokens :: "contact_token table"
  user_operator_scopes :: "user_operator_scope table"
  user_profiles :: "user_profile table"
  external_identities :: "external_identity table"
  user_invitations :: "user_invitation table"
  mail_outbox :: "mail_row list"
  minecraft_textures :: "minecraft_texture table"
  profile_textures :: "profile_texture table"
  texture_preferences :: "texture_preference table"
  texture_reports :: "texture_report table"
  texture_tags :: "texture_tag table"
  texture_tag_bindings :: "texture_tag_binding table"
  external_providers :: "external_provider table"
  external_login_flows :: "external_login_flow table"
  external_email_flows :: "external_email_flow table"
  external_binding_flows :: "external_binding_flow table"

definition empty_table :: "'r table" where
  "empty_table = \<lparr>rows = [], next_id = 1\<rparr>"

definition empty_db :: db where
  "empty_db = \<lparr>users = empty_table, user_bans = empty_table, user_ban_events = empty_table,
     minecraft_profiles = empty_table, yggdrasil_tokens = empty_table,
     auth_sessions = empty_table, background_tasks = empty_table,
     forward_servers = empty_table, audit_logs = [],
     contact_tokens = empty_table, user_operator_scopes = empty_table, user_profiles = empty_table,
     external_identities = empty_table, user_invitations = empty_table, mail_outbox = [],
     minecraft_textures = empty_table, profile_textures = empty_table, texture_preferences = empty_table,
     texture_reports = empty_table, texture_tags = empty_table, texture_tag_bindings = empty_table,
     external_providers = empty_table, external_login_flows = empty_table,
     external_email_flows = empty_table, external_binding_flows = empty_table\<rparr>"

section \<open>Statements on one row\<close>

text \<open>
  \<open>ActiveModelTrait::update\<close>: \<open>UPDATE \<dots> WHERE pk = id RETURNING *\<close>, an error when no row
  matched.
\<close>

definition update_by_key ::
    "forge \<Rightarrow> ('r \<Rightarrow> row_id) \<Rightarrow> row_id \<Rightarrow> ('r \<Rightarrow> 'r) \<Rightarrow> 'r table \<Rightarrow> ('r \<times> 'r table) result" where
  "update_by_key F k i f t =
     (case select_one (\<lambda>r. k r = i) t of
        None \<Rightarrow> Inl (DatabaseOperation (db_err_text F RecordNotUpdated))
      | Some r \<Rightarrow> Inr (f r, snd (update_many (\<lambda>r. k r = i) f t)))"

end
