(* ===== verification/Users.thy ===== *)
theory Users
  imports Entities
begin

text \<open>
  \<open>db/repository/user_repo.rs\<close>: lookups of users, the administrator's update, and the two
  operations that end a user's web sessions, revoking the stored sessions and bumping
  \<open>session_version\<close>.  SQL's \<open>LOWER\<close> is the ASCII one of SQLite.
\<close>

section \<open>Lookups\<close>

definition count_all :: "db \<Rightarrow> nat" where
  "count_all d = count_rows (\<lambda>_. True) (users d)"

definition count_created_between :: "time \<Rightarrow> time \<Rightarrow> db \<Rightarrow> nat" where
  "count_created_between start stop d =
     count_rows (\<lambda>u. start \<le> u_created_at u \<and> u_created_at u < stop) (users d)"

definition find_user_by_id :: "row_id \<Rightarrow> db \<Rightarrow> user result" where
  "find_user_by_id i d =
     (case select_one (\<lambda>u. u_id u = i) (users d) of
        None \<Rightarrow> Inl (RecordNotFound (''user #'' @ show_int i))
      | Some u \<Rightarrow> Inr u)"

definition find_users_by_ids :: "row_id list \<Rightarrow> db \<Rightarrow> user list" where
  "find_users_by_ids ids d =
     (if ids = [] then []
      else order_by_asc u_id (select_all (\<lambda>u. u_id u \<in> set ids) (users d)))"

definition find_by_identifier :: "string \<Rightarrow> db \<Rightarrow> user option" where
  "find_by_identifier identifier d =
     select_one (\<lambda>u. u_username u = identifier \<or> u_email u = Some identifier) (users d)"

definition find_by_email :: "string \<Rightarrow> db \<Rightarrow> user option" where
  "find_by_email email d = select_one (\<lambda>u. u_email u = Some email) (users d)"

definition find_by_pending_email :: "string \<Rightarrow> db \<Rightarrow> user option" where
  "find_by_pending_email email d = select_one (\<lambda>u. u_pending_email u = Some email) (users d)"

definition find_by_username :: "string \<Rightarrow> db \<Rightarrow> user option" where
  "find_by_username username d = select_one (\<lambda>u. u_username u = username) (users d)"

definition find_by_username_case_insensitive :: "string \<Rightarrow> db \<Rightarrow> user option" where
  "find_by_username_case_insensitive username d =
     select_one (\<lambda>u. to_ascii_lowercase (u_username u) = to_ascii_lowercase username) (users d)"

definition find_by_public_uuid :: "string \<Rightarrow> db \<Rightarrow> user option" where
  "find_by_public_uuid public_uuid d = select_one (\<lambda>u. u_public_uuid u = public_uuid) (users d)"

section \<open>Writes\<close>

text \<open>\<open>new_uuid\<close> stands for \<open>new_best_effort_uuid\<close>, which is given the lookup it retries on.\<close>

definition unique_public_uuid :: "((string \<Rightarrow> bool) \<Rightarrow> string result) \<Rightarrow> db \<Rightarrow> string result" where
  "unique_public_uuid new_uuid d = new_uuid (\<lambda>c. find_by_public_uuid c d \<noteq> None)"

text \<open>The unique indexes of \<open>users\<close>; SQL lets any number of rows have a null e-mail or no
  pending one.\<close>

definition user_unique_ok :: "user \<Rightarrow> user table \<Rightarrow> bool" where
  "user_unique_ok u t =
     (\<forall>v \<in> set (rows t). u_id v \<noteq> u_id u \<longrightarrow>
        u_public_uuid v \<noteq> u_public_uuid u \<and> u_username v \<noteq> u_username u
        \<and> (u_email u \<noteq> None \<longrightarrow> u_email v \<noteq> u_email u)
        \<and> (u_pending_email u \<noteq> None \<longrightarrow> u_pending_email v \<noteq> u_pending_email u))"

definition create_with_options ::
    "forge \<Rightarrow> ((string \<Rightarrow> bool) \<Rightarrow> string result) \<Rightarrow> time \<Rightarrow> string \<Rightarrow> string \<Rightarrow> string \<Rightarrow> user_role \<Rightarrow>
     user_status \<Rightarrow> bool \<Rightarrow> (db, aster_error, user) handler" where
  "create_with_options F new_uuid now username email password_hash role status must_change =
     bnd (query (unique_public_uuid new_uuid)) (\<lambda>public_uuid.
     statement (\<lambda>d.
       let (u, t) = insert_row (\<lambda>i. \<lparr>u_id = i, u_public_uuid = public_uuid,
             u_username = username, u_email = Some email, u_password_hash = password_hash,
             u_role = role, u_status = status, u_must_change_password = must_change,
             u_session_version = 1, u_email_verified_at = Some now, u_pending_email = None,
             u_created_at = now, u_updated_at = now\<rparr>) (users d)
       in if user_unique_ok u (users d) then Inr (u, d\<lparr>users := t\<rparr>)
          else Inl (DatabaseOperation (db_err_text F UniqueViolation))))"

definition create_user ::
    "forge \<Rightarrow> ((string \<Rightarrow> bool) \<Rightarrow> string result) \<Rightarrow> time \<Rightarrow> string \<Rightarrow> string \<Rightarrow> string \<Rightarrow> user_role \<Rightarrow>
     (db, aster_error, user) handler" where
  "create_user F new_uuid now username email password_hash role =
     create_with_options F new_uuid now username email password_hash role UserActive False"

record admin_update_user_input =
  au_username :: "string option"
  au_email :: "string option"
  au_password_hash :: "string option"
  au_role :: "user_role option"
  au_status :: "user_status option"
  au_must_change_password :: "bool option"
  au_bump_session_version :: bool

definition apply_admin_update :: "admin_update_user_input \<Rightarrow> time \<Rightarrow> user \<Rightarrow> user" where
  "apply_admin_update input now u =
     (let u = set_some (au_username input) (\<lambda>v r. r\<lparr>u_username := v\<rparr>) u;
          u = set_some (au_email input) (\<lambda>v r. r\<lparr>u_email := Some v\<rparr>) u;
          u = set_some (au_password_hash input) (\<lambda>v r. r\<lparr>u_password_hash := v\<rparr>) u;
          u = set_some (au_role input) (\<lambda>v r. r\<lparr>u_role := v\<rparr>) u;
          u = set_some (au_status input) (\<lambda>v r. r\<lparr>u_status := v\<rparr>) u;
          u = set_some (au_must_change_password input) (\<lambda>v r. r\<lparr>u_must_change_password := v\<rparr>) u;
          u = (if au_bump_session_version input
               then u\<lparr>u_session_version := wrap_i64 (u_session_version u + 1)\<rparr> else u)
      in u\<lparr>u_updated_at := now\<rparr>)"

text \<open>\<open>ActiveModelTrait::update\<close> on \<open>users\<close>, with its unique indexes.\<close>

definition update_user_row ::
    "forge \<Rightarrow> row_id \<Rightarrow> (user \<Rightarrow> user) \<Rightarrow> (db, aster_error, user) handler" where
  "update_user_row F i f = statement (\<lambda>d.
     case update_by_key F u_id i f (users d) of
       Inl e \<Rightarrow> Inl e
     | Inr (u, t) \<Rightarrow>
         if user_unique_ok u (users d) then Inr (u, d\<lparr>users := t\<rparr>)
         else Inl (DatabaseOperation (db_err_text F UniqueViolation)))"

definition update_admin ::
    "forge \<Rightarrow> time \<Rightarrow> row_id \<Rightarrow> admin_update_user_input \<Rightarrow> (db, aster_error, user) handler" where
  "update_admin F now i input =
     bnd (query (find_user_by_id i)) (\<lambda>_. update_user_row F i (apply_admin_update input now))"

definition revoke_sessions_for_user :: "time \<Rightarrow> row_id \<Rightarrow> (db, aster_error, nat) handler" where
  "revoke_sessions_for_user now user_id = statement (\<lambda>d.
     let (n, t) = update_many (\<lambda>s. s_user_id s = user_id \<and> s_revoked_at s = None)
           (\<lambda>s. s\<lparr>s_revoked_at := Some now\<rparr>) (auth_sessions d)
     in Inr (n, d\<lparr>auth_sessions := t\<rparr>))"

definition bump_session_version :: "forge \<Rightarrow> time \<Rightarrow> row_id \<Rightarrow> (db, aster_error, unit) handler" where
  "bump_session_version F now user_id =
     bnd (query (find_user_by_id user_id)) (\<lambda>_.
     bnd (update_user_row F user_id (\<lambda>u. u\<lparr>u_session_version := wrap_i64 (u_session_version u + 1),
                                          u_updated_at := now\<rparr>)) (\<lambda>_.
     ret ()))"

section \<open>Well-formed user tables\<close>

text \<open>Ids are unique, and no two rows share a public UUID, a username, an e-mail or a pending e-mail.\<close>

definition users_wf :: "db \<Rightarrow> bool" where
  "users_wf d = (keys_ok u_id (users d) \<and> (\<forall>u \<in> set (rows (users d)). user_unique_ok u (users d)))"

definition users_apart :: "user \<Rightarrow> user \<Rightarrow> bool" where
  "users_apart u v =
     (u_public_uuid v \<noteq> u_public_uuid u \<and> u_username v \<noteq> u_username u
      \<and> (u_email u \<noteq> None \<longrightarrow> u_email v \<noteq> u_email u)
      \<and> (u_pending_email u \<noteq> None \<longrightarrow> u_pending_email v \<noteq> u_pending_email u))"

lemma users_apart_sym: "users_apart u v \<Longrightarrow> users_apart v u"
  by (auto simp: users_apart_def)

lemma user_unique_ok_apart:
  "user_unique_ok u t \<longleftrightarrow> (\<forall>v \<in> set (rows t). u_id v \<noteq> u_id u \<longrightarrow> users_apart u v)"
  by (auto simp: user_unique_ok_def users_apart_def)

end
