(* ===== verification/Bans.thy ===== *)
theory Bans
  imports Users
begin

text \<open>
  Capability bans: the scope sets of \<open>types/user.rs\<close>, \<open>db/repository/user_ban_repo.rs\<close> and
  \<open>services/ban_service.rs\<close>.  A handler reads the clock once, as \<open>now\<close>.
\<close>

section \<open>Scope sets\<close>

datatype user_ban_scopes_error = ScopesEmpty | ScopesInvalid

text \<open>\<open>serde_json\<close> on \<open>Vec<UserBanScope>\<close>; \<open>codec_ok\<close> is its round trip.\<close>

record scope_codec =
  to_json :: "user_ban_scope list \<Rightarrow> string option"
  from_json :: "string \<Rightarrow> user_ban_scope list option"

definition codec_ok :: "scope_codec \<Rightarrow> bool" where
  "codec_ok J = (\<forall>xs. \<exists>s. to_json J xs = Some s \<and> from_json J s = Some xs)"

definition normalize_user_ban_scopes ::
    "user_ban_scope list \<Rightarrow> user_ban_scopes_error + user_ban_scope list" where
  "normalize_user_ban_scopes scopes =
     (let scopes = remdups_adj (sort scopes)
      in if scopes = [] then Inl ScopesEmpty else Inr scopes)"

definition scopes_new ::
    "scope_codec \<Rightarrow> user_ban_scope list \<Rightarrow> user_ban_scopes_error + user_ban_scopes" where
  "scopes_new J scopes =
     (case normalize_user_ban_scopes scopes of
        Inl e \<Rightarrow> Inl e
      | Inr ss \<Rightarrow> (case to_json J ss of
                    None \<Rightarrow> Inl ScopesInvalid
                  | Some raw \<Rightarrow> Inr (UserBanScopes raw)))"

fun scopes_as_vec ::
    "scope_codec \<Rightarrow> user_ban_scopes \<Rightarrow> user_ban_scopes_error + user_ban_scope list" where
  "scopes_as_vec J (UserBanScopes raw) =
     (case from_json J raw of
        None \<Rightarrow> Inl ScopesInvalid
      | Some ss \<Rightarrow> normalize_user_ban_scopes ss)"

definition scopes_from_stored ::
    "scope_codec \<Rightarrow> string \<Rightarrow> user_ban_scopes_error + user_ban_scopes" where
  "scopes_from_stored J raw =
     (case scopes_as_vec J (UserBanScopes raw) of
        Inl e \<Rightarrow> Inl e
      | Inr _ \<Rightarrow> Inr (UserBanScopes raw))"

definition scopes_contains :: "scope_codec \<Rightarrow> user_ban_scopes \<Rightarrow> user_ban_scope \<Rightarrow> bool" where
  "scopes_contains J s scope =
     (case scopes_as_vec J s of Inl _ \<Rightarrow> False | Inr ss \<Rightarrow> scope \<in> set ss)"

section \<open>Repository\<close>

record create_user_ban_row =
  cb_user_id :: row_id
  cb_scopes :: user_ban_scopes
  cb_reason :: string
  cb_public_reason :: "string option"
  cb_admin_note :: "string option"
  cb_created_by_user_id :: "row_id option"
  cb_starts_at :: time
  cb_expires_at :: "time option"

record update_user_ban_row =
  ub_scopes :: "user_ban_scopes option"
  ub_reason :: "string option"
  ub_public_reason :: "string option option"
  ub_admin_note :: "string option option"
  ub_starts_at :: "time option"
  ub_expires_at :: "time option option"

record user_ban_list_filter =
  bf_user_id :: "row_id option"
  bf_status :: "user_ban_status option"
  bf_effective_only :: bool

definition effective_condition :: "time \<Rightarrow> user_ban \<Rightarrow> bool" where
  "effective_condition now b =
     (b_status b = BanActive \<and> b_starts_at b \<le> now
      \<and> (case b_expires_at b of None \<Rightarrow> True | Some e \<Rightarrow> now < e))"

definition ban_repo_create ::
    "time \<Rightarrow> create_user_ban_row \<Rightarrow> (db, aster_error, user_ban) handler" where
  "ban_repo_create now input = statement (\<lambda>d.
     let (b, t) = insert_row (\<lambda>i. \<lparr>b_id = i, b_user_id = cb_user_id input,
           b_scopes = cb_scopes input, b_status = BanActive, b_reason = cb_reason input,
           b_public_reason = cb_public_reason input, b_admin_note = cb_admin_note input,
           b_created_by_user_id = cb_created_by_user_id input,
           b_starts_at = cb_starts_at input, b_expires_at = cb_expires_at input,
           b_revoked_at = None, b_revoked_by_user_id = None, b_revoke_note = None,
           b_created_at = now, b_updated_at = now\<rparr>) (user_bans d)
     in Inr (b, d\<lparr>user_bans := t\<rparr>))"

definition ban_repo_find_by_id :: "row_id \<Rightarrow> db \<Rightarrow> user_ban option" where
  "ban_repo_find_by_id i d = select_one (\<lambda>b. b_id b = i) (user_bans d)"

definition list_effective_for_user :: "row_id \<Rightarrow> time \<Rightarrow> db \<Rightarrow> user_ban list" where
  "list_effective_for_user user_id now d =
     order_by_desc b_created_at
       (select_all (\<lambda>b. b_user_id b = user_id \<and> effective_condition now b) (user_bans d))"

definition find_effective_for_scope ::
    "scope_codec \<Rightarrow> row_id \<Rightarrow> user_ban_scope \<Rightarrow> time \<Rightarrow> db \<Rightarrow> user_ban option" where
  "find_effective_for_scope J user_id scope now d =
     find (\<lambda>b. scopes_contains J (b_scopes b) scope)
       (order_by_desc b_created_at
         (select_all (\<lambda>b. b_user_id b = user_id \<and> effective_condition now b) (user_bans d)))"

definition ban_filtered_query :: "user_ban_list_filter \<Rightarrow> time \<Rightarrow> user_ban \<Rightarrow> bool" where
  "ban_filtered_query flt now b =
     ((case bf_user_id flt of None \<Rightarrow> True | Some i \<Rightarrow> b_user_id b = i)
      \<and> (case bf_status flt of None \<Rightarrow> True | Some s \<Rightarrow> b_status b = s)
      \<and> (bf_effective_only flt \<longrightarrow> effective_condition now b))"

definition apply_ban_update :: "update_user_ban_row \<Rightarrow> time \<Rightarrow> user_ban \<Rightarrow> user_ban" where
  "apply_ban_update input now b =
     (let b = set_some (ub_scopes input) (\<lambda>v r. r\<lparr>b_scopes := v\<rparr>) b;
          b = set_some (ub_reason input) (\<lambda>v r. r\<lparr>b_reason := v\<rparr>) b;
          b = set_some (ub_public_reason input) (\<lambda>v r. r\<lparr>b_public_reason := v\<rparr>) b;
          b = set_some (ub_admin_note input) (\<lambda>v r. r\<lparr>b_admin_note := v\<rparr>) b;
          b = set_some (ub_starts_at input) (\<lambda>v r. r\<lparr>b_starts_at := v\<rparr>) b;
          b = set_some (ub_expires_at input) (\<lambda>v r. r\<lparr>b_expires_at := v\<rparr>) b
      in b\<lparr>b_updated_at := now\<rparr>)"

text \<open>\<open>active.update(db)\<close> on \<open>user_bans\<close>.\<close>

definition update_ban_row ::
    "forge \<Rightarrow> row_id \<Rightarrow> (user_ban \<Rightarrow> user_ban) \<Rightarrow> (db, aster_error, user_ban) handler" where
  "update_ban_row F i f = statement (\<lambda>d.
     case update_by_key F b_id i f (user_bans d) of
       Inl e \<Rightarrow> Inl e
     | Inr (b, t) \<Rightarrow> Inr (b, d\<lparr>user_bans := t\<rparr>))"

definition ban_repo_update ::
    "forge \<Rightarrow> time \<Rightarrow> user_ban \<Rightarrow> update_user_ban_row \<Rightarrow> (db, aster_error, user_ban) handler" where
  "ban_repo_update F now ban input = update_ban_row F (b_id ban) (apply_ban_update input now)"

definition ban_repo_revoke ::
    "forge \<Rightarrow> time \<Rightarrow> user_ban \<Rightarrow> row_id option \<Rightarrow> string option \<Rightarrow> time \<Rightarrow>
     (db, aster_error, user_ban) handler" where
  "ban_repo_revoke F now ban revoked_by note revoked_at =
     update_ban_row F (b_id ban) (\<lambda>b. b\<lparr>b_status := BanRevoked, b_revoked_at := Some revoked_at,
       b_revoked_by_user_id := revoked_by, b_revoke_note := note, b_updated_at := now\<rparr>)"

text \<open>\<open>CreateUserBanEvent\<close> is the event without its key and its time.\<close>

definition create_event ::
    "time \<Rightarrow> user_ban_event \<Rightarrow> (db, aster_error, user_ban_event) handler" where
  "create_event now input = statement (\<lambda>d.
     let (e, t) = insert_row (\<lambda>i. input\<lparr>be_id := i, be_created_at := now\<rparr>) (user_ban_events d)
     in Inr (e, d\<lparr>user_ban_events := t\<rparr>))"

definition list_events :: "row_id \<Rightarrow> db \<Rightarrow> user_ban_event list" where
  "list_events ban_id d =
     order_by_desc be_created_at (order_by_desc be_id
       (select_all (\<lambda>e. be_ban_id e = ban_id) (user_ban_events d)))"

section \<open>Service: reads and checks\<close>

definition active_user_ban_for_scope ::
    "scope_codec \<Rightarrow> time \<Rightarrow> row_id \<Rightarrow> user_ban_scope \<Rightarrow> db \<Rightarrow> user_ban option" where
  "active_user_ban_for_scope J now user_id scope d = find_effective_for_scope J user_id scope now d"

definition is_user_banned ::
    "scope_codec \<Rightarrow> time \<Rightarrow> row_id \<Rightarrow> user_ban_scope \<Rightarrow> db \<Rightarrow> bool" where
  "is_user_banned J now user_id scope d = (active_user_ban_for_scope J now user_id scope d \<noteq> None)"

definition ensure_user_not_banned ::
    "scope_codec \<Rightarrow> time \<Rightarrow> row_id \<Rightarrow> user_ban_scope \<Rightarrow> db \<Rightarrow> unit result" where
  "ensure_user_not_banned J now user_id scope d =
     (if active_user_ban_for_scope J now user_id scope d \<noteq> None
      then Inl (auth_forbidden_code ''UserBanForbidden''
                  (''user is banned from '' @ ban_scope_as_str scope))
      else Inr ())"

definition is_effective :: "user_ban \<Rightarrow> time \<Rightarrow> bool" where
  "is_effective b now =
     (ban_status_is_active (b_status b) \<and> b_revoked_at b = None \<and> b_starts_at b \<le> now
      \<and> (case b_expires_at b of None \<Rightarrow> True | Some e \<Rightarrow> e > now))"

definition scope_error :: "user_ban_scopes_error \<Rightarrow> aster_error" where
  "scope_error e =
     (case e of
        ScopesEmpty \<Rightarrow> validation_error_code ''UserBanReasonInvalid'' ''ban scopes must not be empty''
      | ScopesInvalid \<Rightarrow> validation_error_code ''UserBanReasonInvalid'' ''ban scopes are invalid'')"

definition scopes_result :: "user_ban_scopes_error + 'a \<Rightarrow> 'a result" where
  "scopes_result r = map_sum scope_error id r"

definition normalize_scopes ::
    "scope_codec \<Rightarrow> user_ban_scope list \<Rightarrow> user_ban_scope list result" where
  "normalize_scopes J scopes =
     scopes_result (case scopes_new J scopes of Inl e \<Rightarrow> Inl e | Inr s \<Rightarrow> scopes_as_vec J s)"

definition ban_scopes :: "scope_codec \<Rightarrow> user_ban \<Rightarrow> user_ban_scope list result" where
  "ban_scopes J b = scopes_result (scopes_as_vec J (b_scopes b))"

definition validate_time_range :: "time \<Rightarrow> time option \<Rightarrow> unit result" where
  "validate_time_range starts_at expires_at =
     (case expires_at of
        Some e \<Rightarrow> if e \<le> starts_at
                  then Inl (validation_error_code ''UserBanDurationInvalid''
                              ''ban expires_at must be later than starts_at'')
                  else Inr ()
      | None \<Rightarrow> Inr ())"

definition reason_max_chars :: nat where
  "reason_max_chars = 128"

definition note_max_chars :: nat where
  "note_max_chars = 1000"

definition normalize_required_text ::
    "forge \<Rightarrow> string \<Rightarrow> nat \<Rightarrow> aster_error_code \<Rightarrow> string \<Rightarrow> string result" where
  "normalize_required_text F value max_chars code label =
     (let v = trim value
      in if v = [] \<or> char_count F v > max_chars
         then Inl (validation_error_code code
                     (label @ '' must be 1-'' @ show_nat max_chars @ '' characters''))
         else Inr v)"

definition normalize_optional_text ::
    "forge \<Rightarrow> string option \<Rightarrow> nat \<Rightarrow> aster_error_code \<Rightarrow> string \<Rightarrow> string option result" where
  "normalize_optional_text F value max_chars code label =
     (case value of
        Some value \<Rightarrow>
          let v = trim value
          in if v = [] then Inr None
             else if char_count F v > max_chars
             then Inl (validation_error_code code
                         (label @ '' must not exceed '' @ show_nat max_chars @ '' characters''))
             else Inr (Some v)
      | None \<Rightarrow> Inr None)"

text \<open>\<open>NullablePatch\<close> of \<open>aster_forge_api\<close>.\<close>

datatype 'a nullable_patch = PatchAbsent | PatchNull | PatchValue 'a

definition normalize_nullable_text_patch ::
    "forge \<Rightarrow> string nullable_patch option \<Rightarrow> nat \<Rightarrow> aster_error_code \<Rightarrow> string \<Rightarrow>
     string option option result" where
  "normalize_nullable_text_patch F value max_chars code label =
     (case value of
        Some PatchNull \<Rightarrow> Inr (Some None)
      | Some (PatchValue v) \<Rightarrow>
          map_sum id Some (normalize_optional_text F (Some v) max_chars code label)
      | Some PatchAbsent \<Rightarrow> Inr None
      | None \<Rightarrow> Inr None)"

fun reject_duplicate_effective_scopes ::
    "scope_codec \<Rightarrow> time \<Rightarrow> row_id \<Rightarrow> user_ban_scope list \<Rightarrow> row_id option \<Rightarrow> db \<Rightarrow> unit result" where
  "reject_duplicate_effective_scopes J now user_id [] excluding d = Inr ()"
| "reject_duplicate_effective_scopes J now user_id (scope # scopes) excluding d =
     (if (case find_effective_for_scope J user_id scope now d of
            None \<Rightarrow> False | Some b \<Rightarrow> Some (b_id b) \<noteq> excluding)
      then Inl (validation_error_code ''UserBanAlreadyActive''
                  ''an active user ban already exists for one of these scopes'')
      else reject_duplicate_effective_scopes J now user_id scopes excluding d)"

definition get_ban :: "row_id \<Rightarrow> db \<Rightarrow> user_ban result" where
  "get_ban ban_id d =
     (if ban_id \<le> 0 then Inl (record_not_found_code ''UserBanNotFound'' ''invalid user ban id'')
      else case ban_repo_find_by_id ban_id d of
             None \<Rightarrow> Inl (record_not_found_code ''UserBanNotFound''
                           (''user ban '' @ [CHR 0x27] @ show_int ban_id @ [CHR 0x27]))
           | Some b \<Rightarrow> Inr b)"

section \<open>Service: views\<close>

record user_ban_info =
  bi_id :: row_id
  bi_user_id :: row_id
  bi_scopes :: "user_ban_scope list"
  bi_status :: user_ban_status
  bi_effective_status :: user_ban_status
  bi_effective :: bool
  bi_reason :: string
  bi_public_reason :: "string option"
  bi_admin_note :: "string option"
  bi_created_by_user_id :: "row_id option"
  bi_starts_at :: time
  bi_expires_at :: "time option"
  bi_revoked_at :: "time option"
  bi_revoked_by_user_id :: "row_id option"
  bi_revoke_note :: "string option"
  bi_created_at :: time
  bi_updated_at :: time

definition ban_info_at :: "scope_codec \<Rightarrow> user_ban \<Rightarrow> time \<Rightarrow> user_ban_info" where
  "ban_info_at J b now =
     (let effective = is_effective b now;
          effective_status = (if b_status b = BanActive \<and> \<not> effective then BanExpired
                              else b_status b)
      in \<lparr>bi_id = b_id b, bi_user_id = b_user_id b,
          bi_scopes = (case ban_scopes J b of Inl _ \<Rightarrow> [] | Inr ss \<Rightarrow> ss),
          bi_status = b_status b, bi_effective_status = effective_status,
          bi_effective = effective, bi_reason = b_reason b,
          bi_public_reason = b_public_reason b, bi_admin_note = b_admin_note b,
          bi_created_by_user_id = b_created_by_user_id b, bi_starts_at = b_starts_at b,
          bi_expires_at = b_expires_at b, bi_revoked_at = b_revoked_at b,
          bi_revoked_by_user_id = b_revoked_by_user_id b, bi_revoke_note = b_revoke_note b,
          bi_created_at = b_created_at b, bi_updated_at = b_updated_at b\<rparr>)"

definition active_user_bans :: "scope_codec \<Rightarrow> time \<Rightarrow> row_id \<Rightarrow> db \<Rightarrow> user_ban_info list" where
  "active_user_bans J now user_id d =
     map (\<lambda>b. ban_info_at J b now) (list_effective_for_user user_id now d)"

definition get_user_ban :: "scope_codec \<Rightarrow> time \<Rightarrow> row_id \<Rightarrow> db \<Rightarrow> user_ban_info result" where
  "get_user_ban J now ban_id d =
     (case get_ban ban_id d of Inl e \<Rightarrow> Inl e | Inr b \<Rightarrow> Inr (ban_info_at J b now))"

record user_ban_event_info =
  bei_id :: row_id
  bei_ban_id :: row_id
  bei_actor_user_id :: "row_id option"
  bei_event_type :: user_ban_event_type
  bei_previous_status :: "user_ban_status option"
  bei_next_status :: "user_ban_status option"
  bei_previous_scopes :: "user_ban_scope list option"
  bei_next_scopes :: "user_ban_scope list option"
  bei_previous_expires_at :: "time option"
  bei_next_expires_at :: "time option"
  bei_note :: "string option"
  bei_created_at :: time

definition stored_scopes ::
    "scope_codec \<Rightarrow> user_ban_scopes option \<Rightarrow> user_ban_scope list option" where
  "stored_scopes J s =
     (case s of None \<Rightarrow> None
      | Some s \<Rightarrow> (case scopes_as_vec J s of Inl _ \<Rightarrow> None | Inr ss \<Rightarrow> Some ss))"

definition event_info :: "scope_codec \<Rightarrow> user_ban_event \<Rightarrow> user_ban_event_info" where
  "event_info J e = \<lparr>bei_id = be_id e, bei_ban_id = be_ban_id e,
     bei_actor_user_id = be_actor_user_id e, bei_event_type = be_event_type e,
     bei_previous_status = be_previous_status e, bei_next_status = be_next_status e,
     bei_previous_scopes = stored_scopes J (be_previous_scopes e),
     bei_next_scopes = stored_scopes J (be_next_scopes e),
     bei_previous_expires_at = be_previous_expires_at e,
     bei_next_expires_at = be_next_expires_at e, bei_note = be_note e,
     bei_created_at = be_created_at e\<rparr>"

definition list_user_ban_events ::
    "scope_codec \<Rightarrow> row_id \<Rightarrow> db \<Rightarrow> user_ban_event_info list result" where
  "list_user_ban_events J ban_id d =
     (case get_ban ban_id d of
        Inl e \<Rightarrow> Inl e
      | Inr _ \<Rightarrow> Inr (map (event_info J) (list_events ban_id d)))"

section \<open>Service: writes\<close>

record create_user_ban_input =
  ci_target_user_id :: row_id
  ci_scopes :: "user_ban_scope list"
  ci_reason :: string
  ci_public_reason :: "string option"
  ci_admin_note :: "string option"
  ci_starts_at :: "time option"
  ci_expires_at :: "time option"

record update_user_ban_input =
  ui_scopes :: "user_ban_scope list option"
  ui_reason :: "string option"
  ui_public_reason :: "string nullable_patch option"
  ui_admin_note :: "string nullable_patch option"
  ui_starts_at :: "time option"
  ui_expires_at :: "time nullable_patch option"

definition insert_user_ban ::
    "scope_codec \<Rightarrow> time \<Rightarrow> row_id \<Rightarrow> user_ban_scope list \<Rightarrow> (user_ban_scopes \<Rightarrow> create_user_ban_row) \<Rightarrow>
     (db, aster_error, user_ban) handler" where
  "insert_user_ban J now actor scopes row =
     bnd (check (scopes_result (scopes_new J scopes))) (\<lambda>stored.
     bnd (ban_repo_create now (row stored)) (\<lambda>ban.
     bnd (create_event now \<lparr>be_id = 0, be_ban_id = b_id ban, be_actor_user_id = Some actor,
            be_event_type = BanEventCreated, be_previous_status = None,
            be_next_status = Some (b_status ban), be_previous_scopes = None,
            be_next_scopes = Some (b_scopes ban), be_previous_expires_at = None,
            be_next_expires_at = b_expires_at ban, be_note = Some (b_reason ban),
            be_created_at = 0\<rparr>) (\<lambda>_.
     ret ban)))"

definition create_user_ban ::
    "forge \<Rightarrow> scope_codec \<Rightarrow> time \<Rightarrow> row_id \<Rightarrow> create_user_ban_input \<Rightarrow>
     (db, aster_error, user_ban_info) handler" where
  "create_user_ban F J now actor input =
     bnd (query (find_user_by_id (ci_target_user_id input))) (\<lambda>_.
     let starts_at = (case ci_starts_at input of Some t \<Rightarrow> t | None \<Rightarrow> now) in
     bnd (check (validate_time_range starts_at (ci_expires_at input))) (\<lambda>_.
     bnd (check (normalize_required_text F (ci_reason input) reason_max_chars
                   ''UserBanReasonInvalid'' ''ban reason'')) (\<lambda>reason.
     bnd (check (normalize_optional_text F (ci_public_reason input) note_max_chars
                   ''UserBanReasonInvalid'' ''public ban reason'')) (\<lambda>public_reason.
     bnd (check (normalize_optional_text F (ci_admin_note input) note_max_chars
                   ''UserBanReasonInvalid'' ''ban admin note'')) (\<lambda>admin_note.
     bnd (check (normalize_scopes J (ci_scopes input))) (\<lambda>scopes.
     bnd (query (reject_duplicate_effective_scopes J now (ci_target_user_id input) scopes None)) (\<lambda>_.
     bnd (transaction (insert_user_ban J now actor scopes (\<lambda>stored.
            \<lparr>cb_user_id = ci_target_user_id input, cb_scopes = stored, cb_reason = reason,
             cb_public_reason = public_reason, cb_admin_note = admin_note,
             cb_created_by_user_id = Some actor, cb_starts_at = starts_at,
             cb_expires_at = ci_expires_at input\<rparr>))) (\<lambda>ban.
     ret (ban_info_at J ban now)))))))))"

text \<open>The transaction that \<open>update_user_ban\<close> and \<open>revoke_user_ban\<close> share in shape: write the
  row, then append the event that records the change.\<close>

definition change_user_ban ::
    "scope_codec \<Rightarrow> time \<Rightarrow> row_id \<Rightarrow> user_ban_event_type \<Rightarrow> user_ban \<Rightarrow> user_ban_scope list \<Rightarrow>
     (user_ban \<Rightarrow> string option) \<Rightarrow> (db, aster_error, user_ban) handler \<Rightarrow>
     (db, aster_error, user_ban) handler" where
  "change_user_ban J now actor event_type ban previous_scopes note write =
     bnd write (\<lambda>updated.
     bnd (check (scopes_result (scopes_new J previous_scopes))) (\<lambda>previous.
     bnd (create_event now \<lparr>be_id = 0, be_ban_id = b_id updated, be_actor_user_id = Some actor,
            be_event_type = event_type, be_previous_status = Some (b_status ban),
            be_next_status = Some (b_status updated), be_previous_scopes = Some previous,
            be_next_scopes = Some (b_scopes updated),
            be_previous_expires_at = b_expires_at ban,
            be_next_expires_at = b_expires_at updated, be_note = note updated,
            be_created_at = 0\<rparr>) (\<lambda>_.
     ret updated)))"

definition not_active_error :: "string \<Rightarrow> aster_error" where
  "not_active_error verb =
     validation_error_code ''UserBanNotActive'' (''only active user bans can be '' @ verb)"

definition patched_expiry :: "time nullable_patch option \<Rightarrow> time option \<Rightarrow> time option" where
  "patched_expiry patch old =
     (case patch of
        Some PatchNull \<Rightarrow> None
      | Some (PatchValue v) \<Rightarrow> Some v
      | Some PatchAbsent \<Rightarrow> old
      | None \<Rightarrow> old)"

definition then_some :: "bool \<Rightarrow> 'a \<Rightarrow> 'a option" where
  "then_some c x = (if c then Some x else None)"

definition update_user_ban ::
    "forge \<Rightarrow> scope_codec \<Rightarrow> time \<Rightarrow> row_id \<Rightarrow> row_id \<Rightarrow> update_user_ban_input \<Rightarrow>
     (db, aster_error, user_ban_info) handler" where
  "update_user_ban F J now actor ban_id input =
     bnd (query (get_ban ban_id)) (\<lambda>ban.
     if \<not> is_effective ban now then raise (not_active_error ''updated'') else
     bnd (check (ban_scopes J ban)) (\<lambda>previous_scopes.
     bnd (check (case ui_scopes input of
                   Some scopes \<Rightarrow> normalize_scopes J scopes
                 | None \<Rightarrow> Inr previous_scopes)) (\<lambda>next_scopes.
     let next_starts_at = (case ui_starts_at input of Some t \<Rightarrow> t | None \<Rightarrow> b_starts_at ban);
         next_expires_at = patched_expiry (ui_expires_at input) (b_expires_at ban) in
     bnd (check (validate_time_range next_starts_at next_expires_at)) (\<lambda>_.
     bnd (query (\<lambda>d. if next_scopes \<noteq> previous_scopes
                       then reject_duplicate_effective_scopes J now (b_user_id ban) next_scopes
                              (Some (b_id ban)) d
                       else Inr ())) (\<lambda>_.
     bnd (check (case ui_reason input of
                   None \<Rightarrow> Inr None
                 | Some v \<Rightarrow> map_sum id Some (normalize_required_text F v reason_max_chars
                               ''UserBanReasonInvalid'' ''ban reason''))) (\<lambda>reason.
     bnd (check (normalize_nullable_text_patch F (ui_public_reason input) note_max_chars
                   ''UserBanReasonInvalid'' ''public ban reason'')) (\<lambda>public_reason.
     bnd (check (normalize_nullable_text_patch F (ui_admin_note input) note_max_chars
                   ''UserBanReasonInvalid'' ''ban admin note'')) (\<lambda>admin_note.
     bnd (check (scopes_result (scopes_new J next_scopes))) (\<lambda>next_scopes_value.
     bnd (transaction (change_user_ban J now actor BanEventUpdated ban previous_scopes b_admin_note
            (ban_repo_update F now ban
               \<lparr>ub_scopes = then_some (next_scopes \<noteq> previous_scopes) next_scopes_value,
                ub_reason = reason, ub_public_reason = public_reason,
                ub_admin_note = admin_note, ub_starts_at = ui_starts_at input,
                ub_expires_at = then_some (next_expires_at \<noteq> b_expires_at ban)
                                  next_expires_at\<rparr>))) (\<lambda>updated.
     ret (ban_info_at J updated now)))))))))))"

definition revoke_user_ban ::
    "forge \<Rightarrow> scope_codec \<Rightarrow> time \<Rightarrow> row_id \<Rightarrow> row_id \<Rightarrow> string option \<Rightarrow>
     (db, aster_error, user_ban_info) handler" where
  "revoke_user_ban F J now actor ban_id revoke_note =
     bnd (query (get_ban ban_id)) (\<lambda>ban.
     if \<not> is_effective ban now then raise (not_active_error ''revoked'') else
     bnd (check (normalize_optional_text F revoke_note note_max_chars
                   ''UserBanReasonInvalid'' ''ban revoke note'')) (\<lambda>note.
     bnd (check (ban_scopes J ban)) (\<lambda>previous_scopes.
     bnd (transaction (change_user_ban J now actor BanEventRevoked ban previous_scopes (\<lambda>_. note)
            (ban_repo_revoke F now ban (Some actor) note now))) (\<lambda>updated.
     ret (ban_info_at J updated now)))))"

section \<open>Scope sets: normal form and round trip\<close>

lemma normalize_Inr:
  "xs \<noteq> [] \<Longrightarrow> normalize_user_ban_scopes xs = Inr (sorted_list_of_set (set xs))"
proof -
  assume "xs \<noteq> []"
  have "remdups_adj (sort xs) = sorted_list_of_set (set xs)"
    by (rule sorted_distinct_set_unique) (simp_all add: sorted_distinct_remdups_adj)
  with \<open>xs \<noteq> []\<close> show ?thesis by (simp add: normalize_user_ban_scopes_def)
qed

lemma normalize_empty: "normalize_user_ban_scopes [] = Inl ScopesEmpty"
  by (simp add: normalize_user_ban_scopes_def)

lemma scopes_new_Inr:
  assumes "codec_ok J" and "xs \<noteq> []"
  obtains s where "scopes_new J xs = Inr s" "scopes_as_vec J s = Inr (sorted_list_of_set (set xs))"
proof -
  obtain raw where "to_json J (sorted_list_of_set (set xs)) = Some raw"
      "from_json J raw = Some (sorted_list_of_set (set xs))"
    using assms(1) by (auto simp: codec_ok_def)
  with assms(2) have "scopes_new J xs = Inr (UserBanScopes raw)"
      "scopes_as_vec J (UserBanScopes raw) = Inr (sorted_list_of_set (set xs))"
    by (simp_all add: scopes_new_def normalize_Inr)
  then show ?thesis by (rule that)
qed

lemma scopes_result_Inr: "scopes_result r = Inr x \<longleftrightarrow> r = Inr x"
  by (cases r) (auto simp: scopes_result_def)

lemma scopes_new_empty: "scopes_new J [] = Inl ScopesEmpty"
  by (simp add: scopes_new_def normalize_empty)

text \<open>A stored scope set of the form \<open>scopes_new\<close> writes.\<close>

definition scopes_canonical :: "scope_codec \<Rightarrow> user_ban_scopes \<Rightarrow> bool" where
  "scopes_canonical J s = (\<exists>ss. ss \<noteq> [] \<and> scopes_as_vec J s = Inr ss \<and> scopes_new J ss = Inr s)"

lemma scopes_new_canonical:
  assumes "codec_ok J" and "scopes_new J xs = Inr s"
  shows "scopes_canonical J s" "scopes_contains J s x \<longleftrightarrow> x \<in> set xs"
proof -
  have "xs \<noteq> []" using assms(2) scopes_new_empty by fastforce
  then obtain s' where s': "scopes_new J xs = Inr s'"
      "scopes_as_vec J s' = Inr (sorted_list_of_set (set xs))"
    using scopes_new_Inr[OF assms(1)] by blast
  moreover have ne: "sorted_list_of_set (set xs) \<noteq> []" using \<open>xs \<noteq> []\<close> by simp
  ultimately show "scopes_contains J s x \<longleftrightarrow> x \<in> set xs"
    using assms(2) by (simp add: scopes_contains_def)
  have "scopes_new J (sorted_list_of_set (set xs)) = scopes_new J xs"
    using \<open>xs \<noteq> []\<close> ne by (simp add: scopes_new_def normalize_Inr del: sorted_list_of_set_eq_Nil_iff)
  with s' assms(2) ne show "scopes_canonical J s" by (auto simp: scopes_canonical_def)
qed

lemma normalize_scopes_Inr:
  assumes "codec_ok J" and "normalize_scopes J xs = Inr ss"
  shows "xs \<noteq> []" "ss = sorted_list_of_set (set xs)"
proof -
  show ne: "xs \<noteq> []"
    using assms(2) by (auto simp: normalize_scopes_def scopes_result_def scopes_new_empty)
  show "ss = sorted_list_of_set (set xs)"
    using scopes_new_Inr[OF assms(1) ne] assms(2)
    by (metis (no_types, lifting) id_apply map_sum.simps(2) normalize_scopes_def scopes_result_def
        sum.case(2) sum.inject(2))
qed

lemma normalize_scopes_set:
  "codec_ok J \<Longrightarrow> normalize_scopes J xs = Inr ss \<Longrightarrow> set ss = set xs"
  using normalize_scopes_Inr(2) by fastforce

section \<open>Effective bans\<close>

text \<open>Every stored ban is revoked exactly when its revocation is recorded, ends after it starts,
  and has a canonical scope set.\<close>

definition ban_ok :: "scope_codec \<Rightarrow> user_ban \<Rightarrow> bool" where
  "ban_ok J b =
     (b_status b \<noteq> BanExpired
      \<and> (b_status b = BanRevoked \<longleftrightarrow> b_revoked_at b \<noteq> None)
      \<and> (case b_expires_at b of None \<Rightarrow> True | Some e \<Rightarrow> b_starts_at b < e)
      \<and> scopes_canonical J (b_scopes b))"

definition bans_wf :: "scope_codec \<Rightarrow> db \<Rightarrow> bool" where
  "bans_wf J d = (keys_ok b_id (user_bans d) \<and> keys_ok be_id (user_ban_events d)
     \<and> (\<forall>b \<in> set (rows (user_bans d)). ban_ok J b))"

lemma effective_condition_iff:
  "ban_ok J b \<Longrightarrow> effective_condition now b \<longleftrightarrow> is_effective b now"
  by (auto simp: ban_ok_def effective_condition_def is_effective_def ban_status_is_active_def
      split: option.splits)

lemma wf_effective:
  "bans_wf J d \<Longrightarrow> b \<in> set (rows (user_bans d)) \<Longrightarrow> effective_condition now b \<longleftrightarrow> is_effective b now"
  using effective_condition_iff by (auto simp: bans_wf_def)

lemma find_effective_iff:
  "(\<exists>b. find_effective_for_scope J user_id scope now d = Some b) \<longleftrightarrow>
   (\<exists>b \<in> set (rows (user_bans d)). b_user_id b = user_id \<and> effective_condition now b
       \<and> scopes_contains J (b_scopes b) scope)"
proof -
  have "find_effective_for_scope J user_id scope now d = None \<longleftrightarrow>
     (\<forall>b \<in> set (rows (user_bans d)). b_user_id b = user_id \<and> effective_condition now b \<longrightarrow>
        \<not> scopes_contains J (b_scopes b) scope)"
    by (auto simp: find_effective_for_scope_def find_None_iff select_all_def)
  then show ?thesis by (cases "find_effective_for_scope J user_id scope now d") auto
qed

lemma is_user_banned_iff:
  "is_user_banned J now user_id scope d \<longleftrightarrow>
   (\<exists>b \<in> set (rows (user_bans d)). b_user_id b = user_id \<and> effective_condition now b
       \<and> scopes_contains J (b_scopes b) scope)"
  using find_effective_iff[of J user_id scope now d]
  by (auto simp: is_user_banned_def active_user_ban_for_scope_def)

lemma reject_duplicate_Inr:
  "reject_duplicate_effective_scopes J now user_id scopes excluding d = Inr () \<longleftrightarrow>
   (\<forall>scope \<in> set scopes. \<forall>b. find_effective_for_scope J user_id scope now d = Some b \<longrightarrow>
       Some (b_id b) = excluding)"
  by (induction scopes) (auto split: option.splits)

section \<open>What a successful write did\<close>

lemma validate_time_range_Inr:
  "validate_time_range s e = Inr u \<longleftrightarrow> (case e of None \<Rightarrow> True | Some e \<Rightarrow> s < e)"
  by (auto simp: validate_time_range_def split: option.splits)

text \<open>The two tables a ban handler writes; all others keep their value.\<close>

definition bans_only :: "db \<Rightarrow> db \<Rightarrow> bool" where
  "bans_only d d' = (d' = d\<lparr>user_bans := user_bans d', user_ban_events := user_ban_events d'\<rparr>)"

lemma insert_user_ban_run:
  assumes "insert_user_ban J now actor scopes row d = (Inr b, d')"
  shows "\<exists>stored e. scopes_new J scopes = Inr stored
    \<and> b_id b = next_id (user_bans d) \<and> b_user_id b = cb_user_id (row stored)
    \<and> b_scopes b = cb_scopes (row stored) \<and> b_status b = BanActive \<and> b_revoked_at b = None
    \<and> b_starts_at b = cb_starts_at (row stored) \<and> b_expires_at b = cb_expires_at (row stored)
    \<and> bans_only d d' \<and> appended b (user_bans d) (user_bans d')
    \<and> appended e (user_ban_events d) (user_ban_events d')
    \<and> be_id e = next_id (user_ban_events d) \<and> be_ban_id e = b_id b
    \<and> be_event_type e = BanEventCreated \<and> be_actor_user_id e = Some actor
    \<and> be_previous_scopes e = None \<and> be_next_scopes e = Some (b_scopes b) \<and> be_created_at e = now"
  using assms
  by (auto simp: insert_user_ban_def run_simps scopes_result_def ban_repo_create_def
      create_event_def insert_row_def Let_def bans_only_def appended_def map_sum_Inr)

text \<open>What a successful \<open>create_user_ban\<close> did: one ban \<open>b\<close> and one event \<open>e\<close> appended.\<close>

definition ban_created ::
    "scope_codec \<Rightarrow> time \<Rightarrow> row_id \<Rightarrow> create_user_ban_input \<Rightarrow> user_ban \<Rightarrow> user_ban_event \<Rightarrow> db \<Rightarrow> db \<Rightarrow>
     bool" where
  "ban_created J now actor input b e d d' =
     (ci_scopes input \<noteq> []
      \<and> (\<forall>x. scopes_contains J (b_scopes b) x \<longleftrightarrow> x \<in> set (ci_scopes input))
      \<and> (\<forall>x \<in> set (ci_scopes input). \<not> is_user_banned J now (ci_target_user_id input) x d)
      \<and> b_id b = next_id (user_bans d) \<and> b_user_id b = ci_target_user_id input
      \<and> b_starts_at b = (case ci_starts_at input of Some t \<Rightarrow> t | None \<Rightarrow> now)
      \<and> b_expires_at b = ci_expires_at input \<and> b_status b = BanActive \<and> ban_ok J b
      \<and> bans_only d d' \<and> appended b (user_bans d) (user_bans d')
      \<and> appended e (user_ban_events d) (user_ban_events d')
      \<and> be_id e = next_id (user_ban_events d) \<and> be_ban_id e = b_id b
      \<and> be_event_type e = BanEventCreated \<and> be_actor_user_id e = Some actor
      \<and> be_next_scopes e = Some (b_scopes b) \<and> be_created_at e = now)"

lemma create_user_ban_run:
  assumes "codec_ok J" and "create_user_ban F J now actor input d = (Inr info, d')"
  shows "\<exists>b e. info = ban_info_at J b now \<and> ban_created J now actor input b e d d'"
proof -
  let ?start = "case ci_starts_at input of Some t \<Rightarrow> t | None \<Rightarrow> now"
  obtain reason pr an scopes b where
      time: "validate_time_range ?start (ci_expires_at input) = Inr ()"
      and norm: "normalize_scopes J (ci_scopes input) = Inr scopes"
      and dup: "reject_duplicate_effective_scopes J now (ci_target_user_id input) scopes None d = Inr ()"
      and ins: "insert_user_ban J now actor scopes (\<lambda>stored.
            \<lparr>cb_user_id = ci_target_user_id input, cb_scopes = stored, cb_reason = reason,
             cb_public_reason = pr, cb_admin_note = an, cb_created_by_user_id = Some actor,
             cb_starts_at = ?start, cb_expires_at = ci_expires_at input\<rparr>) d = (Inr b, d')"
      and info: "info = ban_info_at J b now"
    using assms(2) by (fastforce simp: create_user_ban_def run_simps Let_def)
  note ss = normalize_scopes_Inr[OF assms(1) norm]
  have free: "\<forall>x \<in> set (ci_scopes input). \<not> is_user_banned J now (ci_target_user_id input) x d"
    using dup ss by (auto simp: reject_duplicate_Inr is_user_banned_def active_user_ban_for_scope_def)
  obtain stored e where run: "scopes_new J scopes = Inr stored" "b_scopes b = stored"
      "b_id b = next_id (user_bans d)" "b_user_id b = ci_target_user_id input"
      "b_status b = BanActive" "b_revoked_at b = None" "b_starts_at b = ?start"
      "b_expires_at b = ci_expires_at input" "bans_only d d'"
      "appended b (user_bans d) (user_bans d')"
      "appended e (user_ban_events d) (user_ban_events d')"
      "be_id e = next_id (user_ban_events d)" "be_ban_id e = b_id b"
      "be_event_type e = BanEventCreated" "be_actor_user_id e = Some actor"
      "be_next_scopes e = Some (b_scopes b)" "be_created_at e = now"
    using insert_user_ban_run[OF ins] by auto
  note sc = scopes_new_canonical[OF assms(1) run(1)]
  have "ban_ok J b"
    using run sc time by (auto simp: ban_ok_def validate_time_range_def split: option.splits if_splits)
  with run sc ss free have "ban_created J now actor input b e d d'"
    by (simp add: ban_created_def)
  with info show ?thesis by blast
qed

text \<open>The common run of \<open>update_user_ban\<close> and \<open>revoke_user_ban\<close>: the row of \<open>b\<close> replaced by
  \<open>b'\<close>, one event appended.\<close>

definition ban_changed ::
    "scope_codec \<Rightarrow> time \<Rightarrow> row_id \<Rightarrow> user_ban_event_type \<Rightarrow> user_ban \<Rightarrow> user_ban \<Rightarrow> user_ban_event \<Rightarrow>
     db \<Rightarrow> db \<Rightarrow> bool" where
  "ban_changed J now actor ty b b' e d d' =
     (b \<in> set (rows (user_bans d)) \<and> b_id b' = b_id b \<and> b_user_id b' = b_user_id b
      \<and> is_effective b now \<and> bans_only d d'
      \<and> rows (user_bans d') = map (\<lambda>r. if r = b then b' else r) (rows (user_bans d))
      \<and> next_id (user_bans d') = next_id (user_bans d)
      \<and> appended e (user_ban_events d) (user_ban_events d')
      \<and> be_id e = next_id (user_ban_events d) \<and> be_ban_id e = b_id b
      \<and> be_event_type e = ty \<and> be_actor_user_id e = Some actor
      \<and> be_previous_scopes e = Some (b_scopes b) \<and> be_next_scopes e = Some (b_scopes b')
      \<and> be_previous_status e = Some (b_status b) \<and> be_next_status e = Some (b_status b')
      \<and> be_previous_expires_at e = b_expires_at b \<and> be_next_expires_at e = b_expires_at b'
      \<and> be_created_at e = now)"

lemma get_ban_Inr:
  "get_ban i d = Inr b \<Longrightarrow> select_one (\<lambda>x. b_id x = i) (user_bans d) = Some b \<and> b_id b = i"
  by (auto simp: get_ban_def ban_repo_find_by_id_def dest: select_one_Some
      split: if_splits option.splits)

lemma map_key_unique:
  assumes "keys_ok k t" and "b \<in> set (rows t)"
  shows "map (\<lambda>r. if k r = k b then f r else r) (rows t) = map (\<lambda>r. if r = b then f b else r) (rows t)"
  using assms by (auto simp: keys_ok_def distinct_map inj_on_def)

lemma ban_scopes_canonical:
  assumes "scopes_canonical J (b_scopes b)" and "ban_scopes J b = Inr previous"
  shows "scopes_new J previous = Inr (b_scopes b)"
  using assms by (auto simp: scopes_canonical_def ban_scopes_def scopes_result_def)

lemma change_user_ban_run:
  assumes "bans_wf J d" and "get_ban i d = Inr ban" and "is_effective ban now"
    and "ban_scopes J ban = Inr previous"
    and "change_user_ban J now actor ty ban previous note (update_ban_row F (b_id ban) f) d
             = (Inr b', d')"
    and "b_id (f ban) = b_id ban" "b_user_id (f ban) = b_user_id ban"
  shows "b' = f ban \<and> (\<exists>e. ban_changed J now actor ty ban b' e d d')"
proof -
  have sel: "select_one (\<lambda>x. b_id x = b_id ban) (user_bans d) = Some ban"
    using get_ban_Inr[OF assms(2)] by simp
  then have mem: "ban \<in> set (rows (user_bans d))" by (auto dest: select_one_Some)
  have "scopes_new J previous = Inr (b_scopes ban)"
    using assms(1,4) mem by (auto simp: bans_wf_def ban_ok_def intro: ban_scopes_canonical)
  moreover have "map (\<lambda>r. if b_id r = b_id ban then f r else r) (rows (user_bans d))
      = map (\<lambda>r. if r = ban then f ban else r) (rows (user_bans d))"
    using assms(1) mem by (intro map_key_unique) (simp_all add: bans_wf_def)
  ultimately show ?thesis
    using assms(3,5,6,7) sel mem
    by (auto simp: change_user_ban_def run_simps scopes_result_def update_ban_row_def
        update_by_key_def update_many_def create_event_def insert_row_def Let_def
        ban_changed_def bans_only_def appended_def)
qed

lemma apply_ban_update_fields [simp]:
  "b_id (apply_ban_update input now b) = b_id b"
  "b_user_id (apply_ban_update input now b) = b_user_id b"
  "b_status (apply_ban_update input now b) = b_status b"
  "b_revoked_at (apply_ban_update input now b) = b_revoked_at b"
  "b_scopes (apply_ban_update input now b) = (case ub_scopes input of None \<Rightarrow> b_scopes b | Some v \<Rightarrow> v)"
  "b_starts_at (apply_ban_update input now b) =
     (case ub_starts_at input of None \<Rightarrow> b_starts_at b | Some v \<Rightarrow> v)"
  "b_expires_at (apply_ban_update input now b) =
     (case ub_expires_at input of None \<Rightarrow> b_expires_at b | Some v \<Rightarrow> v)"
  by (auto simp: apply_ban_update_def Let_def set_some_def split: option.splits)

text \<open>The scopes, start and end a successful update stores.\<close>

definition updated_scopes_ok ::
    "scope_codec \<Rightarrow> update_user_ban_input \<Rightarrow> user_ban \<Rightarrow> user_ban \<Rightarrow> bool" where
  "updated_scopes_ok J input b b' =
     (\<forall>x. scopes_contains J (b_scopes b') x \<longleftrightarrow>
        (case ui_scopes input of None \<Rightarrow> scopes_contains J (b_scopes b) x | Some xs \<Rightarrow> x \<in> set xs))"

lemma update_user_ban_run:
  assumes "codec_ok J" and "bans_wf J d"
    and "update_user_ban F J now actor ban_id input d = (Inr info, d')"
  shows "\<exists>b b' e. b_id b = ban_id \<and> info = ban_info_at J b' now
    \<and> ban_changed J now actor BanEventUpdated b b' e d d'
    \<and> b_status b' = b_status b \<and> b_revoked_at b' = b_revoked_at b
    \<and> b_starts_at b' = (case ui_starts_at input of Some t \<Rightarrow> t | None \<Rightarrow> b_starts_at b)
    \<and> b_expires_at b' = patched_expiry (ui_expires_at input) (b_expires_at b)
    \<and> updated_scopes_ok J input b b' \<and> ban_ok J b'"
proof -
  obtain b previous nxts u reason pr an stored b' where
      get: "get_ban ban_id d = Inr b" and eff: "is_effective b now"
      and prev: "ban_scopes J b = Inr previous"
      and nxt: "(case ui_scopes input of Some scopes \<Rightarrow> normalize_scopes J scopes
                 | None \<Rightarrow> Inr previous) = Inr nxts"
      and time: "validate_time_range (case ui_starts_at input of Some t \<Rightarrow> t | None \<Rightarrow> b_starts_at b)
                   (patched_expiry (ui_expires_at input) (b_expires_at b)) = Inr u"
      and stored: "scopes_new J nxts = Inr stored"
      and run: "change_user_ban J now actor BanEventUpdated b previous b_admin_note
            (ban_repo_update F now b
               \<lparr>ub_scopes = then_some (nxts \<noteq> previous) stored,
                ub_reason = reason, ub_public_reason = pr,
                ub_admin_note = an, ub_starts_at = ui_starts_at input,
                ub_expires_at = then_some (patched_expiry (ui_expires_at input) (b_expires_at b)
                    \<noteq> b_expires_at b) (patched_expiry (ui_expires_at input) (b_expires_at b))\<rparr>) d
            = (Inr b', d')"
      and info: "info = ban_info_at J b' now"
    using assms(3) unfolding update_user_ban_def Let_def
    by (elim run_elims) (rule that; simp add: scopes_result_Inr)
  let ?upd = "\<lparr>ub_scopes = then_some (nxts \<noteq> previous) stored,
                ub_reason = reason, ub_public_reason = pr,
                ub_admin_note = an, ub_starts_at = ui_starts_at input,
                ub_expires_at = then_some (patched_expiry (ui_expires_at input) (b_expires_at b)
                    \<noteq> b_expires_at b) (patched_expiry (ui_expires_at input) (b_expires_at b))\<rparr>"
  have "b' = apply_ban_update ?upd now b \<and> (\<exists>e. ban_changed J now actor BanEventUpdated b b' e d d')"
    by (rule change_user_ban_run[OF assms(2) get eff prev run[unfolded ban_repo_update_def]])
      (rule apply_ban_update_fields)+
  then obtain e where b': "b' = apply_ban_update ?upd now b"
      and ch: "ban_changed J now actor BanEventUpdated b b' e d d'" by blast
  have ok: "ban_ok J b" using ch assms(2) by (auto simp: ban_changed_def bans_wf_def)
  note can = ban_scopes_canonical[OF _ prev]
  have sc: "b_scopes b' = stored"
    using ok can stored by (auto simp: b' then_some_def ban_ok_def)
  have "b_starts_at b' = (case ui_starts_at input of Some t \<Rightarrow> t | None \<Rightarrow> b_starts_at b)"
    and "b_expires_at b' = patched_expiry (ui_expires_at input) (b_expires_at b)"
    by (auto simp: b' then_some_def split: option.splits)
  note dates = this
  have same: "b_status b' = b_status b" "b_revoked_at b' = b_revoked_at b"
    by (simp_all add: b')
  have "scopes_contains J (b_scopes b) x \<longleftrightarrow> x \<in> set previous" for x
    using prev by (simp add: ban_scopes_def scopes_result_Inr scopes_contains_def)
  then have "updated_scopes_ok J input b b'"
    using nxt scopes_new_canonical(2)[OF assms(1) stored]
    by (cases "ui_scopes input")
      (simp_all add: updated_scopes_ok_def sc normalize_scopes_set[OF assms(1)])
  moreover have "ban_ok J b'"
    using ok time dates scopes_new_canonical(1)[OF assms(1) stored] same
    by (simp add: ban_ok_def sc validate_time_range_Inr cong: option.case_cong)
  moreover have "b_id b = ban_id" using get get_ban_Inr by blast
  ultimately show ?thesis using ch info dates same
    by - (intro exI[of _ b] exI[of _ b'] exI[of _ e] conjI; assumption)
qed

lemma revoke_user_ban_run:
  assumes "bans_wf J d"
    and "revoke_user_ban F J now actor ban_id note d = (Inr info, d')"
  shows "\<exists>b b' e. b_id b = ban_id \<and> info = ban_info_at J b' now
    \<and> ban_changed J now actor BanEventRevoked b b' e d d'
    \<and> b_status b' = BanRevoked \<and> b_revoked_at b' = Some now \<and> b_scopes b' = b_scopes b
    \<and> b_starts_at b' = b_starts_at b \<and> b_expires_at b' = b_expires_at b \<and> ban_ok J b'"
proof -
  obtain b previous n b' where
      get: "get_ban ban_id d = Inr b" and eff: "is_effective b now"
      and prev: "ban_scopes J b = Inr previous"
      and run: "change_user_ban J now actor BanEventRevoked b previous (\<lambda>_. n)
            (ban_repo_revoke F now b (Some actor) n now) d = (Inr b', d')"
      and info: "info = ban_info_at J b' now"
    using assms(2)
    by (fastforce simp: revoke_user_ban_def run_simps raise_def split: if_splits)
  from change_user_ban_run[OF assms(1) get eff prev run[unfolded ban_repo_revoke_def]]
  obtain e where "b' = b\<lparr>b_status := BanRevoked, b_revoked_at := Some now,
       b_revoked_by_user_id := Some actor, b_revoke_note := n, b_updated_at := now\<rparr>"
      and ch: "ban_changed J now actor BanEventRevoked b b' e d d'" by auto
  moreover have "ban_ok J b" using ch assms(1) by (auto simp: ban_changed_def bans_wf_def)
  moreover have "b_id b = ban_id" using get get_ban_Inr by blast
  ultimately show ?thesis using info
    by (intro exI[of _ b] exI[of _ b'] exI[of _ e]) (auto simp: ban_ok_def split: option.splits)
qed

section \<open>Invariant and atomicity\<close>

lemma ban_created_wf:
  "bans_wf J d \<Longrightarrow> ban_created J now actor input b e d d' \<Longrightarrow> bans_wf J d'"
  unfolding bans_wf_def ban_created_def
  by (metis (no_types, lifting) appended_def keys_ok_appended set_append Un_iff empty_iff
      list.set(1) set_ConsD)

lemma ban_changed_wf:
  assumes "bans_wf J d" and "ban_changed J now actor ty b b' e d d'" and "ban_ok J b'"
  shows "bans_wf J d'"
proof -
  have "map b_id (map (\<lambda>r. if r = b then b' else r) (rows (user_bans d))) = map b_id (rows (user_bans d))"
    using assms(2) by (simp add: ban_changed_def)
  then have "map b_id (rows (user_bans d')) = map b_id (rows (user_bans d))"
    using assms(2) unfolding ban_changed_def by metis
  then have "distinct (map b_id (rows (user_bans d')))"
    using assms(1) by (simp add: bans_wf_def keys_ok_def)
  then have "keys_ok b_id (user_bans d')"
    using assms by (auto simp: ban_changed_def bans_wf_def keys_ok_def)
  moreover have "keys_ok be_id (user_ban_events d')"
    using assms keys_ok_appended by (fastforce simp: ban_changed_def bans_wf_def)
  ultimately show ?thesis using assms by (auto simp: ban_changed_def bans_wf_def)
qed

lemma banned_after_change:
  assumes "bans_wf J d" and "ban_changed J now actor ty b b' e d d'"
  shows "is_user_banned J t u x d' \<longleftrightarrow>
    (\<exists>r \<in> set (rows (user_bans d)). b_id r \<noteq> b_id b \<and> b_user_id r = u \<and> is_effective r t
       \<and> scopes_contains J (b_scopes r) x)
    \<or> (u = b_user_id b \<and> effective_condition t b' \<and> scopes_contains J (b_scopes b') x)"
proof -
  have mem: "b \<in> set (rows (user_bans d))" and uid: "b_user_id b' = b_user_id b"
    and rws: "rows (user_bans d') = map (\<lambda>r. if r = b then b' else r) (rows (user_bans d))"
    using assms(2) by (simp_all add: ban_changed_def)
  have key: "b_id r \<noteq> b_id b \<longleftrightarrow> r \<noteq> b" if "r \<in> set (rows (user_bans d))" for r
    using assms(1) mem that by (auto simp: bans_wf_def keys_ok_def distinct_map inj_on_def)
  have "set (rows (user_bans d')) = insert b' (set (rows (user_bans d)) - {b})"
    using mem by (auto simp: rws)
  then have "is_user_banned J t u x d' \<longleftrightarrow>
      (\<exists>r \<in> set (rows (user_bans d)) - {b}. b_user_id r = u \<and> effective_condition t r
         \<and> scopes_contains J (b_scopes r) x)
      \<or> (b_user_id b' = u \<and> effective_condition t b' \<and> scopes_contains J (b_scopes b') x)"
    unfolding is_user_banned_iff by (simp only: bex_simps) blast
  moreover have "(\<exists>r \<in> set (rows (user_bans d)) - {b}. b_user_id r = u \<and> effective_condition t r
         \<and> scopes_contains J (b_scopes r) x) \<longleftrightarrow>
      (\<exists>r \<in> set (rows (user_bans d)). b_id r \<noteq> b_id b \<and> b_user_id r = u \<and> is_effective r t
         \<and> scopes_contains J (b_scopes r) x)"
    using wf_effective[OF assms(1)] key by blast
  ultimately show ?thesis using uid by blast
qed

lemma ban_handlers_atomic:
  "atomic_handler (create_user_ban F J now actor cinput)"
  "atomic_handler (update_user_ban F J now actor ban_id uinput)"
  "atomic_handler (revoke_user_ban F J now actor ban_id note)"
  unfolding create_user_ban_def update_user_ban_def revoke_user_ban_def Let_def
  by (intro atomic_bnd_read atomic_bnd_ret atomic_transaction read_only_intros | simp split: if_splits
      | rule impI conjI atomic_read_only)+

section \<open>Runs of the ban service\<close>

text \<open>A state reachable from \<open>d0\<close> by calls of the three writing handlers, failing or not, at
  arbitrary times.\<close>

inductive ban_steps :: "forge \<Rightarrow> scope_codec \<Rightarrow> db \<Rightarrow> db \<Rightarrow> bool" for F J d0 where
  ban_start: "ban_steps F J d0 d0"
| ban_create: "ban_steps F J d0 d \<Longrightarrow> ban_steps F J d0 (snd (create_user_ban F J now actor ci d))"
| ban_update: "ban_steps F J d0 d \<Longrightarrow> ban_steps F J d0 (snd (update_user_ban F J now actor i ui d))"
| ban_revoke: "ban_steps F J d0 d \<Longrightarrow> ban_steps F J d0 (snd (revoke_user_ban F J now actor i note d))"

text \<open>The last event of a ban describes the ban as it is stored.\<close>

definition event_matches :: "user_ban \<Rightarrow> user_ban_event \<Rightarrow> bool" where
  "event_matches b e = (be_ban_id e = b_id b \<and> be_next_status e = Some (b_status b)
     \<and> be_next_scopes e = Some (b_scopes b) \<and> be_next_expires_at e = b_expires_at b)"

definition events_of :: "row_id \<Rightarrow> db \<Rightarrow> user_ban_event list" where
  "events_of i d = filter (\<lambda>e. be_ban_id e = i) (rows (user_ban_events d))"

definition trail_ok :: "db \<Rightarrow> bool" where
  "trail_ok d =
     ((\<forall>e \<in> set (rows (user_ban_events d)). be_ban_id e < next_id (user_bans d))
      \<and> (\<forall>b \<in> set (rows (user_bans d)). events_of (b_id b) d \<noteq> []
            \<and> event_matches b (last (events_of (b_id b) d))))"

lemma atomic_Inl: "atomic_handler m \<Longrightarrow> m s = (Inl e, s') \<Longrightarrow> s' = s"
  by (auto simp: atomic_handler_def)

lemma events_of_appended:
  assumes "appended e (user_ban_events d) (user_ban_events d')"
  shows "events_of i d' = events_of i d @ (if be_ban_id e = i then [e] else [])"
  using assms by (simp add: events_of_def appended_def)

lemma ban_created_trail:
  assumes "bans_wf J d" "trail_ok d" "ban_created J now actor input b e d d'" "event_matches b e"
  shows "trail_ok d'"
proof -
  have app: "appended b (user_bans d) (user_bans d')" "appended e (user_ban_events d) (user_ban_events d')"
    and ids: "b_id b = next_id (user_bans d)" "be_ban_id e = b_id b"
    using assms(3) by (simp_all add: ban_created_def)
  have old: "b_id r < next_id (user_bans d)" if "r \<in> set (rows (user_bans d))" for r
    using assms(1) that by (simp add: bans_wf_def keys_ok_def)
  then have "\<forall>r \<in> set (rows (user_bans d)). events_of (b_id r) d' = events_of (b_id r) d"
    using ids by (fastforce simp: events_of_appended[OF app(2)])
  moreover have "last (events_of (b_id b) d') = e" "events_of (b_id b) d' \<noteq> []"
    using ids by (simp_all add: events_of_appended[OF app(2)])
  ultimately show ?thesis
    using assms(2,4) app ids by (fastforce simp: trail_ok_def appended_def)
qed

lemma ban_changed_trail:
  assumes "bans_wf J d" "trail_ok d" "ban_changed J now actor ty b b' e d d'"
  shows "trail_ok d'"
proof -
  have app: "appended e (user_ban_events d) (user_ban_events d')"
    and mem: "b \<in> set (rows (user_bans d))"
    and rws: "rows (user_bans d') = map (\<lambda>r. if r = b then b' else r) (rows (user_bans d))"
    and nid: "next_id (user_bans d') = next_id (user_bans d)"
    and ids: "be_ban_id e = b_id b" "b_id b' = b_id b" and ev: "event_matches b' e"
    using assms(3) by (simp_all add: ban_changed_def event_matches_def)
  have inj: "r = b" if "r \<in> set (rows (user_bans d))" "b_id r = b_id b" for r
    using assms(1) mem that by (auto simp: bans_wf_def keys_ok_def distinct_map inj_on_def)
  have "events_of (b_id r) d' \<noteq> [] \<and> event_matches r (last (events_of (b_id r) d'))"
    if r: "r \<in> set (rows (user_bans d'))" for r
  proof (cases "b_id r = b_id b")
    case True
    then have "r = b'" using r rws inj ids by auto
    with ev ids show ?thesis by (simp add: events_of_appended[OF app])
  next
    case False
    then have "r \<in> set (rows (user_bans d))" using r rws ids by auto
    with False ids assms(2) show ?thesis by (simp add: events_of_appended[OF app] trail_ok_def)
  qed
  moreover have "be_ban_id e < next_id (user_bans d)"
    using assms(1) mem ids by (simp add: bans_wf_def keys_ok_def)
  ultimately show ?thesis
    using assms(2) app nid by (auto simp: trail_ok_def appended_def)
qed

lemma create_event_matches:
  assumes "codec_ok J" and "create_user_ban F J now actor input d = (Inr info, d')"
  shows "\<exists>b e. ban_created J now actor input b e d d' \<and> event_matches b e"
proof -
  obtain b e where c: "ban_created J now actor input b e d d'"
    using create_user_ban_run[OF assms] by blast
  have "event_matches b (last (rows (user_ban_events d')))" if "last (rows (user_bans d')) = b" for b
    using assms(2) that
    by (auto simp: create_user_ban_def run_simps Let_def insert_user_ban_def ban_repo_create_def
        create_event_def insert_row_def event_matches_def)
  with c show ?thesis by (auto simp: ban_created_def appended_def)
qed

lemma create_wf_trail:
  assumes "codec_ok J" "bans_wf J d" "trail_ok d"
  shows "bans_wf J (snd (create_user_ban F J now actor ci d))
    \<and> trail_ok (snd (create_user_ban F J now actor ci d))"
proof (cases "create_user_ban F J now actor ci d")
  case (Pair r d')
  show ?thesis
  proof (cases r)
    case (Inl e)
    with Pair assms show ?thesis using atomic_Inl[OF ban_handlers_atomic(1)] by fastforce
  next
    case (Inr info)
    with Pair assms show ?thesis
      using create_event_matches ban_created_wf ban_created_trail by (metis snd_conv)
  qed
qed

lemma update_wf_trail:
  assumes "codec_ok J" "bans_wf J d" "trail_ok d"
  shows "bans_wf J (snd (update_user_ban F J now actor i ui d))
    \<and> trail_ok (snd (update_user_ban F J now actor i ui d))"
proof (cases "update_user_ban F J now actor i ui d")
  case (Pair r d')
  show ?thesis
  proof (cases r)
    case (Inl e)
    with Pair assms show ?thesis using atomic_Inl[OF ban_handlers_atomic(2)] by fastforce
  next
    case (Inr info)
    with Pair assms show ?thesis
      using update_user_ban_run ban_changed_wf ban_changed_trail by (metis snd_conv)
  qed
qed

lemma revoke_wf_trail:
  assumes "bans_wf J d" "trail_ok d"
  shows "bans_wf J (snd (revoke_user_ban F J now actor i note d))
    \<and> trail_ok (snd (revoke_user_ban F J now actor i note d))"
proof (cases "revoke_user_ban F J now actor i note d")
  case (Pair r d')
  show ?thesis
  proof (cases r)
    case (Inl e)
    with Pair assms show ?thesis using atomic_Inl[OF ban_handlers_atomic(3)] by fastforce
  next
    case (Inr info)
    with Pair assms show ?thesis
      using revoke_user_ban_run ban_changed_wf ban_changed_trail by (metis snd_conv)
  qed
qed

section \<open>A concrete codec and a sample run\<close>

fun plain_scope :: "char \<Rightarrow> user_ban_scope option" where
  "plain_scope c =
     (if c = CHR ''A'' then Some YggdrasilAccess
      else if c = CHR ''J'' then Some YggdrasilJoin
      else if c = CHR ''M'' then Some MinecraftProfileManage
      else if c = CHR ''U'' then Some TextureUpload
      else if c = CHR ''L'' then Some TextureLibraryInteract else None)"

fun plain_char :: "user_ban_scope \<Rightarrow> char" where
  "plain_char YggdrasilAccess = CHR ''A''"
| "plain_char YggdrasilJoin = CHR ''J''"
| "plain_char MinecraftProfileManage = CHR ''M''"
| "plain_char TextureUpload = CHR ''U''"
| "plain_char TextureLibraryInteract = CHR ''L''"

definition plain_codec :: scope_codec where
  "plain_codec = \<lparr>to_json = (\<lambda>xs. Some (map plain_char xs)),
     from_json = (\<lambda>s. those (map plain_scope s))\<rparr>"

lemma plain_codec_ok [simp]: "codec_ok plain_codec"
proof -
  have "plain_scope (plain_char x) = Some x" for x by (cases x) simp_all
  then have "those (map plain_scope (map plain_char xs)) = Some xs" for xs
    by (induction xs) simp_all
  then show ?thesis by (simp add: codec_ok_def plain_codec_def)
qed

definition sample_user :: user where
  "sample_user = \<lparr>u_id = 1, u_public_uuid = ''uuid-1'', u_username = ''steve'',
     u_email = Some ''steve@example.org'', u_password_hash = ''secret'', u_role = RoleUser,
     u_status = UserActive, u_must_change_password = False, u_session_version = 1,
     u_email_verified_at = Some 0, u_pending_email = None, u_created_at = 0, u_updated_at = 0\<rparr>"

definition sample_db :: db where
  "sample_db = empty_db\<lparr>users := \<lparr>rows = [sample_user], next_id = 2\<rparr>\<rparr>"

definition sample_ban :: create_user_ban_input where
  "sample_ban = \<lparr>ci_target_user_id = 1, ci_scopes = [YggdrasilJoin, YggdrasilAccess, YggdrasilJoin],
     ci_reason = ''grief'', ci_public_reason = None, ci_admin_note = None, ci_starts_at = None,
     ci_expires_at = Some 5000\<rparr>"

definition banned_db :: db where
  "banned_db = snd (create_user_ban plain_forge plain_codec 1000 9 sample_ban sample_db)"

lemma sample_create: "\<exists>info. create_user_ban plain_forge plain_codec 1000 9 sample_ban sample_db
    = (Inr info, banned_db)"
  unfolding banned_db_def by (rule run_ok) code_simp

lemma sample_db_wf: "bans_wf plain_codec sample_db" "trail_ok sample_db"
  by (simp_all add: bans_wf_def trail_ok_def sample_db_def empty_db_def empty_table_def keys_ok_def)

lemma banned_db_wf: "bans_wf plain_codec banned_db" "trail_ok banned_db"
  unfolding banned_db_def using create_wf_trail[OF plain_codec_ok sample_db_wf] by blast+

definition revoked_db :: db where
  "revoked_db = snd (revoke_user_ban plain_forge plain_codec 2000 9 1 None banned_db)"

lemma sample_revoke: "\<exists>info. revoke_user_ban plain_forge plain_codec 2000 9 1 None banned_db
    = (Inr info, revoked_db)"
  unfolding revoked_db_def by (rule run_ok) code_simp

definition sample_update :: update_user_ban_input where
  "sample_update = \<lparr>ui_scopes = Some [TextureUpload], ui_reason = None, ui_public_reason = None,
     ui_admin_note = None, ui_starts_at = None, ui_expires_at = Some PatchNull\<rparr>"

definition updated_db :: db where
  "updated_db = snd (update_user_ban plain_forge plain_codec 2000 9 1 sample_update banned_db)"

lemma sample_updated: "\<exists>info. update_user_ban plain_forge plain_codec 2000 9 1 sample_update banned_db
    = (Inr info, updated_db)"
  unfolding updated_db_def by (rule run_ok) code_simp

section \<open>Properties\<close>

text \<open>The stored form of a scope list is read back as the same set of scopes, sorted and without
  duplicates; it contains exactly the scopes that were given, and storing what was read gives the
  same text again.\<close>

theorem user_ban_scopes_roundtrip:
  assumes "codec_ok J" and "xs \<noteq> []"
  shows "\<exists>s. scopes_new J xs = Inr s \<and> scopes_as_vec J s = Inr (sorted_list_of_set (set xs))
    \<and> scopes_new J (sorted_list_of_set (set xs)) = Inr s
    \<and> (\<forall>x. scopes_contains J s x \<longleftrightarrow> x \<in> set xs)"
proof -
  obtain s where s: "scopes_new J xs = Inr s" "scopes_as_vec J s = Inr (sorted_list_of_set (set xs))"
    using scopes_new_Inr[OF assms] by blast
  moreover have "scopes_new J (sorted_list_of_set (set xs)) = Inr s"
    using scopes_new_canonical(1)[OF assms(1) s(1)] s(2) by (auto simp: scopes_canonical_def)
  ultimately show ?thesis using scopes_new_canonical(2)[OF assms(1)] by blast
qed

theorem user_ban_scopes_roundtrip_witness:
  "\<exists>s. scopes_new plain_codec [YggdrasilJoin, YggdrasilAccess] = Inr s
    \<and> scopes_contains plain_codec s YggdrasilJoin \<and> \<not> scopes_contains plain_codec s TextureUpload"
  using user_ban_scopes_roundtrip[OF plain_codec_ok, of "[YggdrasilJoin, YggdrasilAccess]"] by auto

text \<open>A capability is refused exactly while the user has a ban on it that the service itself
  calls effective: active, not revoked, started and not expired.\<close>

theorem ensure_user_not_banned_iff:
  assumes "bans_wf J d"
  shows "ensure_user_not_banned J now user_id scope d = Inr () \<longleftrightarrow>
    \<not> (\<exists>b \<in> set (rows (user_bans d)). b_user_id b = user_id \<and> is_effective b now
         \<and> scopes_contains J (b_scopes b) scope)"
proof -
  have "is_user_banned J now user_id scope d \<longleftrightarrow>
    (\<exists>b \<in> set (rows (user_bans d)). b_user_id b = user_id \<and> is_effective b now
         \<and> scopes_contains J (b_scopes b) scope)"
    using wf_effective[OF assms] by (auto simp: is_user_banned_iff)
  then show ?thesis by (auto simp: ensure_user_not_banned_def is_user_banned_def)
qed

theorem ensure_user_not_banned_iff_witness:
  "ensure_user_not_banned plain_codec 2000 1 YggdrasilJoin banned_db \<noteq> Inr ()
   \<and> ensure_user_not_banned plain_codec 2000 1 TextureUpload banned_db = Inr ()"
  unfolding ensure_user_not_banned_iff[OF banned_db_wf(1)] by code_simp

text \<open>C34. Creating a ban refuses the listed scopes to the target user from the start to the expiry
  of the ban and changes no other user's, scope's or instant's answer; none of the scopes was
  refused at the moment of the call.\<close>

theorem create_user_ban_effect:
  assumes "codec_ok J" and "create_user_ban F J now actor input d = (Inr info, d')"
  shows "(\<forall>t u x. is_user_banned J t u x d' \<longleftrightarrow>
      is_user_banned J t u x d \<or>
      (u = ci_target_user_id input \<and> x \<in> set (ci_scopes input)
       \<and> (case ci_starts_at input of Some s \<Rightarrow> s | None \<Rightarrow> now) \<le> t
       \<and> (case ci_expires_at input of None \<Rightarrow> True | Some e \<Rightarrow> t < e)))
    \<and> (\<forall>x \<in> set (ci_scopes input). \<not> is_user_banned J now (ci_target_user_id input) x d)"
proof -
  obtain b e where c: "ban_created J now actor input b e d d'"
    using create_user_ban_run[OF assms] by blast
  then have "rows (user_bans d') = rows (user_bans d) @ [b]"
    by (simp add: ban_created_def appended_def)
  with c show ?thesis
    by (auto simp: is_user_banned_iff ban_created_def effective_condition_def)
qed

theorem create_user_ban_effect_witness:
  "\<forall>t. is_user_banned plain_codec t 1 YggdrasilJoin banned_db \<longleftrightarrow> 1000 \<le> t \<and> t < 5000"
proof -
  obtain info where "create_user_ban plain_forge plain_codec 1000 9 sample_ban sample_db
      = (Inr info, banned_db)"
    using sample_create by blast
  from create_user_ban_effect[OF plain_codec_ok this] show ?thesis
    by (auto simp: sample_ban_def sample_db_def empty_db_def empty_table_def is_user_banned_iff)
qed

text \<open>After a ban is revoked, the answers are those of the other bans alone: the ban counts at no
  instant any more, and every other ban counts as before.\<close>

theorem revoke_user_ban_effect:
  assumes "bans_wf J d" and "revoke_user_ban F J now actor ban_id note d = (Inr info, d')"
  shows "is_user_banned J t u x d' \<longleftrightarrow>
    (\<exists>b \<in> set (rows (user_bans d)). b_id b \<noteq> ban_id \<and> b_user_id b = u \<and> is_effective b t
       \<and> scopes_contains J (b_scopes b) x)"
proof -
  obtain b b' e where id: "b_id b = ban_id" and st: "b_status b' = BanRevoked"
      and c: "ban_changed J now actor BanEventRevoked b b' e d d'"
    using revoke_user_ban_run[OF assms] by blast
  moreover have "\<not> effective_condition t b'" using st by (simp add: effective_condition_def)
  ultimately show ?thesis using banned_after_change[OF assms(1) c] by blast
qed

theorem revoke_user_ban_effect_witness:
  "is_user_banned plain_codec 3000 1 YggdrasilJoin banned_db
   \<and> \<not> is_user_banned plain_codec 3000 1 YggdrasilJoin revoked_db"
proof -
  obtain info where "revoke_user_ban plain_forge plain_codec 2000 9 1 None banned_db
      = (Inr info, revoked_db)"
    using sample_revoke by blast
  note eff = revoke_user_ban_effect[OF banned_db_wf(1) this]
  have "\<not> (\<exists>b \<in> set (rows (user_bans banned_db)). b_id b \<noteq> 1)" by code_simp
  moreover have "is_user_banned plain_codec 3000 1 YggdrasilJoin banned_db" by code_simp
  ultimately show ?thesis unfolding eff by blast
qed

text \<open>After an update, the answers are those of the other bans and of the updated ban with the
  patched scopes, start and expiry; a field the input leaves out keeps its stored value.\<close>

theorem update_user_ban_effect:
  assumes "codec_ok J" and "bans_wf J d"
    and "update_user_ban F J now actor ban_id input d = (Inr info, d')"
  shows "\<exists>b \<in> set (rows (user_bans d)). b_id b = ban_id \<and> is_effective b now \<and>
    (\<forall>t u x. is_user_banned J t u x d' \<longleftrightarrow>
      (\<exists>r \<in> set (rows (user_bans d)). b_id r \<noteq> ban_id \<and> b_user_id r = u \<and> is_effective r t
          \<and> scopes_contains J (b_scopes r) x)
      \<or> (u = b_user_id b
          \<and> (case ui_scopes input of None \<Rightarrow> scopes_contains J (b_scopes b) x | Some xs \<Rightarrow> x \<in> set xs)
          \<and> (case ui_starts_at input of Some s \<Rightarrow> s | None \<Rightarrow> b_starts_at b) \<le> t
          \<and> (case patched_expiry (ui_expires_at input) (b_expires_at b) of
               None \<Rightarrow> True | Some e \<Rightarrow> t < e)))"
proof -
  obtain b b' e where id: "b_id b = ban_id"
      and c: "ban_changed J now actor BanEventUpdated b b' e d d'"
      and f: "b_status b' = b_status b"
        "b_starts_at b' = (case ui_starts_at input of Some t \<Rightarrow> t | None \<Rightarrow> b_starts_at b)"
        "b_expires_at b' = patched_expiry (ui_expires_at input) (b_expires_at b)"
        "updated_scopes_ok J input b b'"
    using update_user_ban_run[OF assms] by blast
  from c have mem: "b \<in> set (rows (user_bans d))" and eff: "is_effective b now"
    by (simp_all add: ban_changed_def)
  have "effective_condition t b' \<longleftrightarrow> b_starts_at b' \<le> t
      \<and> (case b_expires_at b' of None \<Rightarrow> True | Some e \<Rightarrow> t < e)" for t
    using eff f(1) by (simp add: effective_condition_def is_effective_def ban_status_is_active_def)
  with mem id eff f banned_after_change[OF assms(2) c] show ?thesis
    by (intro bexI[of _ b]) (auto simp: updated_scopes_ok_def)
qed

theorem update_user_ban_effect_witness:
  "is_user_banned plain_codec 9000 1 TextureUpload updated_db
   \<and> \<not> is_user_banned plain_codec 3000 1 YggdrasilJoin updated_db"
proof -
  obtain info where "update_user_ban plain_forge plain_codec 2000 9 1 sample_update banned_db
      = (Inr info, updated_db)"
    using sample_updated by blast
  from update_user_ban_effect[OF plain_codec_ok banned_db_wf(1) this]
  obtain b where b: "b \<in> set (rows (user_bans banned_db))" "is_effective b 2000" "b_user_id b = 1"
      "\<And>t u x. is_user_banned plain_codec t u x updated_db \<longleftrightarrow>
        (\<exists>r \<in> set (rows (user_bans banned_db)). b_id r \<noteq> 1 \<and> b_user_id r = u \<and> is_effective r t
          \<and> scopes_contains plain_codec (b_scopes r) x)
        \<or> (u = b_user_id b \<and> x = TextureUpload \<and> b_starts_at b \<le> t)"
  proof -
    have "\<forall>b \<in> set (rows (user_bans banned_db)). b_user_id b = 1" by code_simp
    with update_user_ban_effect[OF plain_codec_ok banned_db_wf(1)
        \<open>update_user_ban _ _ _ _ _ _ _ = _\<close>] that show ?thesis
      by (auto simp: sample_update_def patched_expiry_def)
  qed
  moreover have "\<not> (\<exists>r \<in> set (rows (user_bans banned_db)). b_id r \<noteq> 1)" by code_simp
  ultimately show ?thesis by (auto simp: is_effective_def)
qed

text \<open>From a well-formed state, every sequence of ban operations, successful or failing, leads to
  a well-formed state in which the last event of every ban records the status, the scopes and the
  expiry the ban has now.\<close>

theorem ban_steps_invariant:
  assumes "codec_ok J" and "ban_steps F J d0 d" and "bans_wf J d0" and "trail_ok d0"
  shows "bans_wf J d \<and> trail_ok d"
  using assms(2)
proof (induction rule: ban_steps.induct)
  case ban_start
  then show ?case using assms(3,4) by blast
next
  case (ban_create d now actor ci)
  then show ?case using create_wf_trail[OF assms(1)] by blast
next
  case (ban_update d now actor i ui)
  then show ?case using update_wf_trail[OF assms(1)] by blast
next
  case (ban_revoke d now actor i nt)
  then show ?case using revoke_wf_trail by blast
qed

theorem ban_steps_invariant_witness: "bans_wf plain_codec revoked_db \<and> trail_ok revoked_db"
proof -
  have "ban_steps plain_forge plain_codec sample_db revoked_db"
    unfolding revoked_db_def banned_db_def by (intro ban_steps.intros)
  from ban_steps_invariant[OF plain_codec_ok this sample_db_wf] show ?thesis .
qed

text \<open>A ban operation that fails leaves the database as it was; one that succeeds appends exactly
  one event, keeps all earlier events, and writes no table but the bans and their events.\<close>

theorem ban_operations_atomic_and_logged:
  assumes "codec_ok J" and "bans_wf J d"
    and "m = create_user_ban F J now actor ci \<or> m = update_user_ban F J now actor i ui
         \<or> m = revoke_user_ban F J now actor i nt"
  shows "case m d of
      (Inl _, d') \<Rightarrow> d' = d
    | (Inr _, d') \<Rightarrow> bans_only d d' \<and>
        (\<exists>e. rows (user_ban_events d') = rows (user_ban_events d) @ [e]
             \<and> be_actor_user_id e = Some actor \<and> be_created_at e = now)"
proof (cases "m d")
  case (Pair r d')
  show ?thesis
  proof (cases r)
    case (Inl err)
    have "atomic_handler m" using assms(3) ban_handlers_atomic by blast
    with Pair Inl show ?thesis using atomic_Inl by fastforce
  next
    case (Inr info)
    have "bans_only d d' \<and> (\<exists>e. appended e (user_ban_events d) (user_ban_events d')
             \<and> be_actor_user_id e = Some actor \<and> be_created_at e = now)"
      using assms(3) Pair Inr
        create_user_ban_run[OF assms(1), of F now actor ci d info d']
        update_user_ban_run[OF assms(1,2), of F now actor i ui info d']
        revoke_user_ban_run[OF assms(2), of F now actor i nt info d']
      by (auto simp: ban_created_def ban_changed_def)
    with Pair Inr show ?thesis by (auto simp: appended_def)
  qed
qed

theorem ban_operations_atomic_and_logged_witness:
  "\<exists>e. rows (user_ban_events banned_db) = [e] \<and> be_actor_user_id e = Some 9"
proof -
  obtain info where "create_user_ban plain_forge plain_codec 1000 9 sample_ban sample_db
      = (Inr info, banned_db)"
    using sample_create by blast
  moreover have "rows (user_ban_events sample_db) = []"
    by (simp add: sample_db_def empty_db_def empty_table_def)
  ultimately show ?thesis
    using ban_operations_atomic_and_logged[OF plain_codec_ok sample_db_wf(1), of
        "create_user_ban plain_forge plain_codec 1000 9 sample_ban" plain_forge 1000 9 sample_ban]
    by auto
qed

end
