(* ===== verification/Tasks.thy ===== *)
theory Tasks
  imports Users
begin

text \<open>
  Background tasks: \<open>db/repository/background_task_repo/\<close> (creation, the compare-and-swap claim, the
  writes fenced by the processing token, clean-up), the batch claim of
  \<open>task_service/dispatch/claim.rs\<close> under the capacity of a lane, and the administrator's
  retry and clean-up of \<open>task_service/admin.rs\<close>.  A repository statement is a function on the
  task table that also returns whether exactly one row was affected.
\<close>

type_synonym tasks = "background_task table"

section \<open>Conditions (common.rs)\<close>

record terminal_task_cleanup_filters =
  tc_finished_before :: time
  tc_kind :: "background_task_kind option"
  tc_status :: "background_task_status option"

definition terminal_cleanup_condition ::
    "terminal_task_cleanup_filters \<Rightarrow> background_task \<Rightarrow> bool" where
  "terminal_cleanup_condition f r =
     ((case tc_status f of
         Some s \<Rightarrow> bt_status r = s
       | None \<Rightarrow> bt_status r \<in> {Succeeded, Failed, Canceled})
      \<and> (case tc_kind f of Some k \<Rightarrow> bt_kind r = k | None \<Rightarrow> True)
      \<and> (case bt_finished_at r of
           Some t \<Rightarrow> t \<le> tc_finished_before f
         | None \<Rightarrow> bt_updated_at r \<le> tc_finished_before f))"

definition active_processing_by_kinds_condition ::
    "time \<Rightarrow> background_task_kind list \<Rightarrow> background_task \<Rightarrow> bool" where
  "active_processing_by_kinds_condition now kinds r =
     (bt_status r = Processing
      \<and> (case bt_lease_expires_at r of None \<Rightarrow> False | Some l \<Rightarrow> now < l)
      \<and> bt_kind r \<in> set kinds)"

definition processing_stale_condition :: "time \<Rightarrow> background_task \<Rightarrow> bool" where
  "processing_stale_condition now r =
     (bt_status r = Processing
      \<and> (case bt_lease_expires_at r of None \<Rightarrow> False | Some l \<Rightarrow> l \<le> now))"

definition claimable_condition :: "time \<Rightarrow> background_task \<Rightarrow> bool" where
  "claimable_condition now r =
     ((bt_status r \<in> {Pending, Retry} \<and> bt_next_run_at r \<le> now)
      \<or> processing_stale_condition now r)"

section \<open>Queries\<close>

definition find_task_by_id :: "row_id \<Rightarrow> tasks \<Rightarrow> background_task result" where
  "find_task_by_id i t =
     (case select_one (\<lambda>r. bt_id r = i) t of
        None \<Rightarrow> Inl (RecordNotFound (''task #'' @ show_int i))
      | Some r \<Rightarrow> Inr r)"

definition find_by_dedupe_key :: "string \<Rightarrow> tasks \<Rightarrow> background_task option" where
  "find_by_dedupe_key k t = select_one (\<lambda>r. bt_dedupe_key r = Some k) t"

definition count_processing :: "tasks \<Rightarrow> nat" where
  "count_processing t = count_rows (\<lambda>r. bt_status r = Processing) t"

definition count_pending_or_retry :: "tasks \<Rightarrow> nat" where
  "count_pending_or_retry t = count_rows (\<lambda>r. bt_status r \<in> {Pending, Retry}) t"

definition count_active_processing_by_kinds ::
    "time \<Rightarrow> background_task_kind list \<Rightarrow> tasks \<Rightarrow> nat" where
  "count_active_processing_by_kinds now kinds t =
     (if kinds = [] then 0 else count_rows (active_processing_by_kinds_condition now kinds) t)"

definition list_claimable_query :: "time \<Rightarrow> nat \<Rightarrow> (background_task \<Rightarrow> bool) \<Rightarrow> tasks \<Rightarrow> background_task list" where
  "list_claimable_query now limit p t =
     take limit (order_by_asc bt_created_at (order_by_asc bt_id
       (select_all (\<lambda>r. claimable_condition now r \<and> p r) t)))"

definition list_claimable :: "time \<Rightarrow> nat \<Rightarrow> tasks \<Rightarrow> background_task list" where
  "list_claimable now limit t = list_claimable_query now limit (\<lambda>_. True) t"

definition list_claimable_by_kinds ::
    "time \<Rightarrow> background_task_kind list \<Rightarrow> nat \<Rightarrow> tasks \<Rightarrow> background_task list" where
  "list_claimable_by_kinds now kinds limit t =
     (if kinds = [] \<or> limit = 0 then []
      else list_claimable_query now limit (\<lambda>r. bt_kind r \<in> set kinds) t)"

definition list_recent :: "nat \<Rightarrow> tasks \<Rightarrow> background_task list" where
  "list_recent limit t = take limit (order_by_desc bt_updated_at (rows t))"

definition list_expired_terminal :: "time \<Rightarrow> nat \<Rightarrow> tasks \<Rightarrow> background_task list" where
  "list_expired_terminal now limit t =
     take limit (order_by_asc bt_expires_at
       (select_all (\<lambda>r. bt_expires_at r \<le> now \<and> bt_status r \<in> {Succeeded, Failed, Canceled}) t))"

section \<open>Writes\<close>

definition affected_one :: "nat \<times> tasks \<Rightarrow> bool \<times> tasks" where
  "affected_one nt = (fst nt = 1, snd nt)"

text \<open>The unique index on \<open>dedupe_key\<close> admits any number of null keys.\<close>

definition task_repo_create ::
    "forge \<Rightarrow> background_task \<Rightarrow> (tasks, aster_error, background_task) handler" where
  "task_repo_create F model = statement (\<lambda>t.
     if bt_dedupe_key model \<noteq> None \<and> (\<exists>r \<in> set (rows t). bt_dedupe_key r = bt_dedupe_key model)
     then Inl (DatabaseOperation (db_err_text F UniqueViolation))
     else Inr (insert_row (\<lambda>i. model\<lparr>bt_id := i\<rparr>) t))"

definition set_steps :: "string option \<Rightarrow> background_task \<Rightarrow> background_task" where
  "set_steps steps = set_some steps (\<lambda>v r. r\<lparr>bt_steps_json := Some v\<rparr>)"

record system_runtime_success_refresh =
  sr_id :: row_id
  sr_result_json :: string
  sr_status_text :: "string option"
  sr_next_run_at :: time
  sr_started_at :: time
  sr_finished_at :: time
  sr_expires_at :: time

definition refresh_system_runtime_success ::
    "system_runtime_success_refresh \<Rightarrow> tasks \<Rightarrow> bool \<times> tasks" where
  "refresh_system_runtime_success u t =
     affected_one (update_many
       (\<lambda>r. bt_id r = sr_id u \<and> bt_kind r = SystemRuntime \<and> bt_status r = Succeeded)
       (\<lambda>r. r\<lparr>bt_status := Succeeded, bt_result_json := Some (sr_result_json u),
            bt_progress_current := 1, bt_progress_total := 1, bt_status_text := sr_status_text u,
            bt_next_run_at := sr_next_run_at u, bt_processing_started_at := None,
            bt_last_heartbeat_at := None, bt_lease_expires_at := None,
            bt_started_at := Some (sr_started_at u), bt_finished_at := Some (sr_finished_at u),
            bt_last_error := None, bt_failure_can_retry := None,
            bt_expires_at := sr_expires_at u, bt_updated_at := sr_finished_at u\<rparr>) t)"

definition try_claim ::
    "row_id \<Rightarrow> int \<Rightarrow> time \<Rightarrow> int \<Rightarrow> time \<Rightarrow> tasks \<Rightarrow> bool \<times> tasks" where
  "try_claim i expected now next_token lease_expires_at t =
     affected_one (update_many
       (\<lambda>r. bt_id r = i \<and> bt_processing_token r = expected \<and> claimable_condition now r)
       (\<lambda>r. r\<lparr>bt_status := Processing, bt_processing_started_at := Some now,
            bt_last_heartbeat_at := Some now, bt_processing_token := next_token,
            bt_lease_expires_at := Some lease_expires_at,
            bt_started_at := (case bt_started_at r of None \<Rightarrow> Some now | Some s \<Rightarrow> Some s),
            bt_updated_at := now\<rparr>) t)"

text \<open>The filter of every write a worker makes: its task, still processing, under its token.\<close>

definition holds_lease :: "row_id \<Rightarrow> int \<Rightarrow> background_task \<Rightarrow> bool" where
  "holds_lease i token r =
     (bt_id r = i \<and> bt_status r = Processing \<and> bt_processing_token r = token)"

definition fenced_update ::
    "row_id \<Rightarrow> int \<Rightarrow> (background_task \<Rightarrow> background_task) \<Rightarrow> tasks \<Rightarrow> bool \<times> tasks" where
  "fenced_update i token f t = affected_one (update_many (holds_lease i token) f t)"

definition touch_heartbeat :: "row_id \<Rightarrow> int \<Rightarrow> time \<Rightarrow> time \<Rightarrow> tasks \<Rightarrow> bool \<times> tasks" where
  "touch_heartbeat i token now lease_expires_at =
     fenced_update i token (\<lambda>r. r\<lparr>bt_last_heartbeat_at := Some now,
                                 bt_lease_expires_at := Some lease_expires_at\<rparr>)"

record task_progress_update =
  tp_id :: row_id
  tp_processing_token :: int
  tp_now :: time
  tp_lease_expires_at :: time
  tp_current :: int
  tp_total :: int
  tp_status_text :: "string option"
  tp_steps_json :: "string option"

definition mark_progress :: "task_progress_update \<Rightarrow> tasks \<Rightarrow> bool \<times> tasks" where
  "mark_progress u =
     fenced_update (tp_id u) (tp_processing_token u)
       (\<lambda>r. set_steps (tp_steps_json u)
          (r\<lparr>bt_progress_current := tp_current u, bt_progress_total := tp_total u,
             bt_status_text := tp_status_text u, bt_last_heartbeat_at := Some (tp_now u),
             bt_lease_expires_at := Some (tp_lease_expires_at u), bt_updated_at := tp_now u\<rparr>))"

definition set_runtime_json ::
    "row_id \<Rightarrow> int \<Rightarrow> string option \<Rightarrow> time \<Rightarrow> tasks \<Rightarrow> bool \<times> tasks" where
  "set_runtime_json i token runtime_json now =
     fenced_update i token (\<lambda>r. r\<lparr>bt_runtime_json := runtime_json, bt_updated_at := now\<rparr>)"

definition set_display_name ::
    "row_id \<Rightarrow> int \<Rightarrow> string \<Rightarrow> time \<Rightarrow> tasks \<Rightarrow> bool \<times> tasks" where
  "set_display_name i token display_name now =
     fenced_update i token (\<lambda>r. r\<lparr>bt_display_name := display_name, bt_updated_at := now\<rparr>)"

record task_success_update =
  ts_id :: row_id
  ts_processing_token :: int
  ts_result_json :: "string option"
  ts_steps_json :: "string option"
  ts_current :: int
  ts_total :: int
  ts_status_text :: "string option"
  ts_finished_at :: time
  ts_expires_at :: time

definition mark_succeeded :: "task_success_update \<Rightarrow> tasks \<Rightarrow> bool \<times> tasks" where
  "mark_succeeded u =
     fenced_update (ts_id u) (ts_processing_token u)
       (\<lambda>r. set_steps (ts_steps_json u)
          (r\<lparr>bt_status := Succeeded, bt_result_json := ts_result_json u,
             bt_progress_current := ts_current u, bt_progress_total := ts_total u,
             bt_status_text := ts_status_text u, bt_processing_started_at := None,
             bt_last_heartbeat_at := None, bt_lease_expires_at := None,
             bt_finished_at := Some (ts_finished_at u), bt_expires_at := ts_expires_at u,
             bt_updated_at := ts_finished_at u\<rparr>))"

definition mark_retry ::
    "row_id \<Rightarrow> int \<Rightarrow> int \<Rightarrow> time \<Rightarrow> string \<Rightarrow> string option \<Rightarrow> time \<Rightarrow> tasks \<Rightarrow> bool \<times> tasks" where
  "mark_retry i token attempt_count next_run_at last_error steps_json now =
     fenced_update i token
       (\<lambda>r. set_steps steps_json
          (r\<lparr>bt_status := Retry, bt_attempt_count := attempt_count,
             bt_next_run_at := next_run_at, bt_processing_started_at := None,
             bt_last_heartbeat_at := None, bt_lease_expires_at := None,
             bt_status_text := None, bt_last_error := Some last_error,
             bt_updated_at := now\<rparr>))"

definition release_processing ::
    "row_id \<Rightarrow> int \<Rightarrow> time \<Rightarrow> background_task_status \<Rightarrow> tasks \<Rightarrow> bool result \<times> tasks" where
  "release_processing i token now status t =
     (if status \<notin> {Pending, Retry}
      then (Inl (InternalError ''released background task status must be pending or retry''), t)
      else map_prod Inr id (fenced_update i token
             (\<lambda>r. r\<lparr>bt_status := status, bt_next_run_at := now, bt_processing_started_at := None,
                  bt_last_heartbeat_at := None, bt_lease_expires_at := None,
                  bt_status_text := None, bt_updated_at := now\<rparr>) t))"

record task_failure_update =
  tf_id :: row_id
  tf_processing_token :: int
  tf_attempt_count :: int
  tf_last_error :: string
  tf_finished_at :: time
  tf_expires_at :: time
  tf_steps_json :: "string option"
  tf_failure_can_retry :: bool

definition mark_failed :: "task_failure_update \<Rightarrow> tasks \<Rightarrow> bool \<times> tasks" where
  "mark_failed u =
     fenced_update (tf_id u) (tf_processing_token u)
       (\<lambda>r. set_steps (tf_steps_json u)
          (r\<lparr>bt_status := Failed, bt_attempt_count := tf_attempt_count u,
             bt_processing_started_at := None, bt_last_heartbeat_at := None,
             bt_lease_expires_at := None, bt_status_text := None,
             bt_last_error := Some (tf_last_error u),
             bt_failure_can_retry := Some (tf_failure_can_retry u),
             bt_finished_at := Some (tf_finished_at u), bt_expires_at := tf_expires_at u,
             bt_updated_at := tf_finished_at u\<rparr>))"

definition reset_for_manual_retry ::
    "row_id \<Rightarrow> time \<Rightarrow> int \<Rightarrow> string option \<Rightarrow> tasks \<Rightarrow> bool \<times> tasks" where
  "reset_for_manual_retry i now max_attempts steps_json t =
     affected_one (update_many (\<lambda>r. bt_id r = i \<and> bt_status r = Failed)
       (\<lambda>r. set_steps steps_json
          (r\<lparr>bt_status := Pending, bt_attempt_count := 0, bt_progress_current := 0,
             bt_max_attempts := max_attempts, bt_next_run_at := now,
             bt_processing_started_at := None, bt_last_heartbeat_at := None,
             bt_lease_expires_at := None, bt_started_at := None, bt_finished_at := None,
             bt_status_text := None, bt_last_error := None, bt_result_json := None,
             bt_failure_can_retry := None, bt_updated_at := now\<rparr>)) t)"

definition delete_tasks :: "row_id list \<Rightarrow> tasks \<Rightarrow> nat \<times> tasks" where
  "delete_tasks ids t =
     (if ids = [] then (0, t) else delete_many (\<lambda>r. bt_id r \<in> set ids) t)"

definition delete_terminal_by_filters ::
    "terminal_task_cleanup_filters \<Rightarrow> tasks \<Rightarrow> nat \<times> tasks" where
  "delete_terminal_by_filters f t = delete_many (terminal_cleanup_condition f) t"

section \<open>Batch claim (dispatch/claim.rs)\<close>

text \<open>\<open>TaskClaimCandidate\<close> and \<open>ClaimedTask\<close> of \<open>aster_forge_tasks\<close>;
  \<open>available_lane_capacity\<close> is the crate's function.  \<open>lock_by_key\<close> only serialises the
  dispatchers, whose claims are the steps of one sequence here.\<close>

record task_claim_candidate =
  cc_index :: nat
  cc_task_id :: row_id
  cc_expected_processing_token :: int
  cc_next_processing_token :: int

record claimed_task =
  ct_index :: nat
  ct_task_id :: row_id
  ct_processing_token :: int

record task_lane_config =
  lc_kinds :: "background_task_kind list"
  lc_limit :: nat

fun claim_loop ::
    "nat \<Rightarrow> time \<Rightarrow> time \<Rightarrow> task_claim_candidate list \<Rightarrow> claimed_task list \<Rightarrow> tasks \<Rightarrow>
     claimed_task list \<times> tasks" where
  "claim_loop available claimed_at lease_expires_at [] claimed t = (claimed, t)"
| "claim_loop available claimed_at lease_expires_at (c # cs) claimed t =
     (if length claimed \<ge> available then (claimed, t)
      else let (did_claim, t') = try_claim (cc_task_id c) (cc_expected_processing_token c)
                                  claimed_at (cc_next_processing_token c) lease_expires_at t
           in if \<not> did_claim then claim_loop available claimed_at lease_expires_at cs claimed t'
              else claim_loop available claimed_at lease_expires_at cs
                     (claimed @ [\<lparr>ct_index = cc_index c, ct_task_id = cc_task_id c,
                                  ct_processing_token = cc_next_processing_token c\<rparr>]) t')"

definition claim_candidates_for_lane ::
    "(nat \<Rightarrow> nat \<Rightarrow> nat) \<Rightarrow> task_lane_config \<Rightarrow> task_claim_candidate list \<Rightarrow> time \<Rightarrow> time \<Rightarrow> tasks \<Rightarrow>
     claimed_task list \<times> tasks" where
  "claim_candidates_for_lane available_lane_capacity lane candidates claimed_at lease_expires_at t =
     (if candidates = [] then ([], t)
      else let active = count_active_processing_by_kinds claimed_at (lc_kinds lane) t;
               available = available_lane_capacity (lc_limit lane) active
           in if available = 0 then ([], t)
              else claim_loop available claimed_at lease_expires_at candidates [] t)"

section \<open>Creation (create.rs)\<close>

text \<open>What \<open>into_active_model\<close> gets from other modules: the serialised payload and initial steps
  of the task spec, its retry budget, and the configured retention.\<close>

record task_env =
  te_payload_json :: "string result"
  te_initial_steps_json :: "string result"
  te_max_attempts :: int
  te_retention_hours :: int
  te_truncate_utf8_to_max_bytes :: "string \<Rightarrow> nat \<Rightarrow> string"

record typed_task_create =
  tt_display_name :: string
  tt_dedupe_key :: "string option"
  tt_creator_user_id :: "row_id option"
  tt_status :: background_task_status
  tt_result_json :: "string option"
  tt_include_steps :: bool
  tt_progress_current :: int
  tt_progress_total :: int
  tt_status_text :: "string option"
  tt_next_run_at :: time
  tt_started_at :: "time option"
  tt_finished_at :: "time option"
  tt_last_error :: "string option"
  tt_failure_can_retry :: "bool option"
  tt_expires_at_anchor :: time
  tt_created_at :: time
  tt_updated_at :: time

definition typed_task_create_new :: "time \<Rightarrow> string \<Rightarrow> typed_task_create" where
  "typed_task_create_new now display_name =
     \<lparr>tt_display_name = display_name, tt_dedupe_key = None, tt_creator_user_id = None,
      tt_status = Pending, tt_result_json = None, tt_include_steps = True,
      tt_progress_current = 0, tt_progress_total = 0, tt_status_text = None,
      tt_next_run_at = now, tt_started_at = None, tt_finished_at = None, tt_last_error = None,
      tt_failure_can_retry = None, tt_expires_at_anchor = now, tt_created_at = now,
      tt_updated_at = now\<rparr>"

definition truncate_status_text :: "string \<Rightarrow> string" where
  "truncate_status_text value = take_chars 255 value"

definition truncate_error :: "string \<Rightarrow> string" where
  "truncate_error error = take_chars 1024 error"

definition truncate_display_name :: "task_env \<Rightarrow> string \<Rightarrow> string" where
  "truncate_display_name E value = te_truncate_utf8_to_max_bytes E value 512"

definition task_expiration_from :: "task_env \<Rightarrow> time \<Rightarrow> time" where
  "task_expiration_from E now = now + 3600000 * te_retention_hours E"

definition task_steps_json :: "task_env \<Rightarrow> typed_task_create \<Rightarrow> string option result" where
  "task_steps_json E req =
     (if tt_include_steps req then map_sum id Some (te_initial_steps_json E) else Inr None)"

definition into_active_model :: "task_env \<Rightarrow> typed_task_create \<Rightarrow> background_task result" where
  "into_active_model E req =
     (case te_payload_json E of
        Inl e \<Rightarrow> Inl e
      | Inr payload_json \<Rightarrow>
     (case task_steps_json E req of
        Inl e \<Rightarrow> Inl e
      | Inr steps_json \<Rightarrow> Inr
          \<lparr>bt_id = 0, bt_kind = SystemRuntime, bt_status = tt_status req,
           bt_creator_user_id = tt_creator_user_id req,
           bt_display_name = truncate_display_name E (tt_display_name req),
           bt_dedupe_key = tt_dedupe_key req, bt_payload_json = payload_json,
           bt_result_json = tt_result_json req, bt_runtime_json = None,
           bt_steps_json = steps_json, bt_progress_current = tt_progress_current req,
           bt_progress_total = tt_progress_total req,
           bt_status_text = map_option truncate_status_text (tt_status_text req),
           bt_attempt_count = 0, bt_max_attempts = te_max_attempts E,
           bt_next_run_at = tt_next_run_at req, bt_processing_token = 0,
           bt_processing_started_at = None, bt_last_heartbeat_at = None,
           bt_lease_expires_at = None, bt_started_at = tt_started_at req,
           bt_finished_at = tt_finished_at req,
           bt_last_error = map_option truncate_error (tt_last_error req),
           bt_failure_can_retry = tt_failure_can_retry req,
           bt_expires_at = task_expiration_from E (tt_expires_at_anchor req),
           bt_created_at = tt_created_at req, bt_updated_at = tt_updated_at req\<rparr>))"

definition insert_typed_task_record ::
    "forge \<Rightarrow> task_env \<Rightarrow> typed_task_create \<Rightarrow> (tasks, aster_error, background_task) handler" where
  "insert_typed_task_record F E req =
     bnd (check (into_active_model E req)) (\<lambda>active t.
       case task_repo_create F active t of
         (Inr task, t') \<Rightarrow> (Inr task, t')
       | (Inl error, t') \<Rightarrow>
           (case Option.bind (tt_dedupe_key req) (\<lambda>k. find_by_dedupe_key k t') of
              Some existing \<Rightarrow> (Inr existing, t')
            | None \<Rightarrow> (Inl error, t')))"

definition create_typed_task_record ::
    "forge \<Rightarrow> task_env \<Rightarrow> time \<Rightarrow> string \<Rightarrow> row_id option \<Rightarrow>
     (tasks, aster_error, background_task) handler" where
  "create_typed_task_record F E now display_name creator =
     insert_typed_task_record F E
       ((typed_task_create_new now display_name)\<lparr>tt_creator_user_id := creator\<rparr>)"

section \<open>Administration (admin.rs)\<close>

definition task_can_retry :: "background_task \<Rightarrow> bool" where
  "task_can_retry r =
     (bt_status r = Failed \<and> (case bt_failure_can_retry r of Some b \<Rightarrow> b | None \<Rightarrow> True))"

definition validate_admin_task_cleanup_status :: "background_task_status option \<Rightarrow> unit result" where
  "validate_admin_task_cleanup_status status =
     (case status of
        Some s \<Rightarrow> if \<not> is_terminal s
                  then Inl (ValidationError ''only completed task statuses can be cleaned up'')
                  else Inr ()
      | None \<Rightarrow> Inr ())"

definition cleanup_tasks_for_admin ::
    "terminal_task_cleanup_filters \<Rightarrow> (tasks, aster_error, nat) handler" where
  "cleanup_tasks_for_admin filters =
     bnd (check (validate_admin_task_cleanup_status (tc_status filters))) (\<lambda>_.
     statement (\<lambda>t. Inr (delete_terminal_by_filters filters t)))"

text \<open>\<open>cleanup_temp\<close> is the removal of the task's temporary directory.\<close>

definition retry_task_record ::
    "(row_id \<Rightarrow> unit result) \<Rightarrow> task_env \<Rightarrow> time \<Rightarrow> background_task \<Rightarrow>
     (tasks, aster_error, unit) handler" where
  "retry_task_record cleanup_temp E now task =
     (if bt_status task \<noteq> Failed
      then raise (ValidationError ''only failed tasks can be retried'') else
      if \<not> task_can_retry task
      then raise (ValidationError ''this task failure cannot be retried'') else
      bnd (check (cleanup_temp (bt_id task))) (\<lambda>_.
      bnd (check (te_initial_steps_json E)) (\<lambda>steps_json.
      bnd (statement (\<lambda>t. Inr (reset_for_manual_retry (bt_id task) now (te_max_attempts E)
                                (Some steps_json) t))) (\<lambda>ok.
      if \<not> ok then raise (InternalError (''failed to reset task #'' @ show_int (bt_id task)
                                         @ '' for retry''))
      else ret ()))))"

text \<open>\<open>saturating_mul(100)\<close>, then a division that the clamp makes independent of the rounding of
  negative quotients.\<close>

definition progress_percent :: "background_task \<Rightarrow> int" where
  "progress_percent r =
     (if bt_progress_total r \<le> 0 then (if bt_status r = Succeeded then 100 else 0)
      else max 0 (min 100
        (max (- (2 ^ 63)) (min (2 ^ 63 - 1) (bt_progress_current r * 100)) div bt_progress_total r)))"

section \<open>The contract of a worker's write\<close>

definition lease_held :: "row_id \<Rightarrow> int \<Rightarrow> tasks \<Rightarrow> bool" where
  "lease_held i token t = (\<exists>r \<in> set (rows t). holds_lease i token r)"

text \<open>
  \<open>fenced_write\<close> is what the dispatcher relies on for every write of a worker: it is refused and has
  no effect unless the worker's token is the current one of a processing task, it touches only that
  task, and it never changes a task's identity, token or kind.
\<close>

locale fenced_write =
  fixes wr :: "row_id \<Rightarrow> int \<Rightarrow> tasks \<Rightarrow> bool \<times> tasks"
  assumes refused: "\<not> lease_held i token t \<Longrightarrow> wr i token t = (False, t)"
    and accepted: "keys_ok bt_id t \<Longrightarrow> lease_held i token t \<Longrightarrow> fst (wr i token t)"
    and keeps_ids: "map bt_id (rows (snd (wr i token t))) = map bt_id (rows t)"
    and keeps_tokens:
      "map bt_processing_token (rows (snd (wr i token t))) = map bt_processing_token (rows t)"
    and keeps_next_id: "next_id (snd (wr i token t)) = next_id t"
    and frame: "filter (\<lambda>r. bt_id r \<noteq> i) (rows (snd (wr i token t)))
                = filter (\<lambda>r. bt_id r \<noteq> i) (rows t)"
begin

lemma stale_token_refused:
  assumes "\<And>r. r \<in> set (rows t) \<Longrightarrow> bt_id r = i \<Longrightarrow> token \<noteq> bt_processing_token r"
  shows "wr i token t = (False, t)"
  using assms by (intro refused) (auto simp: lease_held_def holds_lease_def)

lemma not_processing_refused:
  assumes "\<And>r. r \<in> set (rows t) \<Longrightarrow> bt_id r = i \<Longrightarrow> bt_status r \<noteq> Processing"
  shows "wr i token t = (False, t)"
  using assms by (intro refused) (auto simp: lease_held_def holds_lease_def)

lemma keeps_keys: "keys_ok bt_id t \<Longrightarrow> keys_ok bt_id (snd (wr i token t))"
proof -
  assume "keys_ok bt_id t"
  then show ?thesis unfolding keys_ok_alt keeps_ids keeps_next_id .
qed

lemma accepted_iff: "keys_ok bt_id t \<Longrightarrow> fst (wr i token t) \<longleftrightarrow> lease_held i token t"
  using accepted refused by fastforce

end

text \<open>A wr that leaves the worker in possession of the task, and one that ends its work.\<close>

locale holding_write = fenced_write +
  assumes still_held: "lease_held i token t \<Longrightarrow> lease_held i token (snd (wr i token t))"
begin

lemma repeatable:
  assumes "keys_ok bt_id t" and "fst (wr i token t)"
  shows "fst (wr i token (snd (wr i token t)))"
  using assms accepted_iff still_held keeps_keys by blast

end

locale finishing_write = fenced_write +
  assumes released: "\<not> lease_held i token (snd (wr i token t))"
begin

lemma only_once: "wr i token (snd (wr i token t)) = (False, snd (wr i token t))"
  by (rule refused) (rule released)

end

section \<open>The repository's writes satisfy the contract\<close>

lemma update_many_rows: "rows (snd (update_many p f t)) = map (\<lambda>r. if p r then f r else r) (rows t)"
  by (simp add: update_many_def)

lemma update_many_none: "\<forall>r \<in> set (rows t). \<not> p r \<Longrightarrow> update_many p f t = (0, t)"
  by (auto simp: update_many_def count_rows_def filter_empty_conv map_idI)

lemma count_rows_key:
  assumes "keys_ok k t" and "r \<in> set (rows t)" and "p r" and "\<And>x. p x \<Longrightarrow> k x = k r"
  shows "count_rows p t = 1"
proof -
  have "filter p rs = [r]" if "distinct (map k rs)" "r \<in> set rs" for rs
    using that
  proof (induction rs)
    case (Cons x xs)
    show ?case
    proof (cases "x = r")
      case True
      then have "\<forall>y \<in> set xs. \<not> p y"
        using Cons.prems(1) assms(4) by (auto simp: image_iff)
      then show ?thesis using True assms(3) by (simp add: filter_empty_conv)
    next
      case False
      then have "r \<in> set xs" using Cons.prems(2) by simp
      then have "\<not> p x" using Cons.prems(1) assms(4)[of x] by (auto simp: image_iff)
      with Cons \<open>r \<in> set xs\<close> show ?thesis by simp
    qed
  qed simp
  then show ?thesis using assms(1,2) by (simp add: count_rows_def keys_ok_def)
qed

lemma count_rows_pos: "count_rows p t \<noteq> 0 \<Longrightarrow> \<exists>r \<in> set (rows t). p r"
  by (auto simp: count_rows_def filter_empty_conv)

lemma filter_map_frame:
  "(\<And>r. p r \<Longrightarrow> bt_id r = i) \<Longrightarrow> (\<And>r. bt_id (f r) = bt_id r) \<Longrightarrow>
   filter (\<lambda>r. bt_id r \<noteq> i) (map (\<lambda>r. if p r then f r else r) rs) = filter (\<lambda>r. bt_id r \<noteq> i) rs"
  by (induction rs) auto

lemma fenced_update_contract:
  assumes "\<And>r. bt_id (f r) = bt_id r" and "\<And>r. bt_processing_token (f r) = bt_processing_token r"
  shows "\<not> lease_held i token t \<Longrightarrow> fenced_update i token f t = (False, t)"
    and "keys_ok bt_id t \<Longrightarrow> lease_held i token t \<Longrightarrow> fst (fenced_update i token f t)"
    and "map bt_id (rows (snd (fenced_update i token f t))) = map bt_id (rows t)"
    and "map bt_processing_token (rows (snd (fenced_update i token f t)))
           = map bt_processing_token (rows t)"
    and "next_id (snd (fenced_update i token f t)) = next_id t"
    and "filter (\<lambda>r. bt_id r \<noteq> i) (rows (snd (fenced_update i token f t)))
           = filter (\<lambda>r. bt_id r \<noteq> i) (rows t)"
proof -
  show "fenced_update i token f t = (False, t)" if "\<not> lease_held i token t"
  proof -
    have "update_many (holds_lease i token) f t = (0, t)"
      using that by (intro update_many_none) (auto simp: lease_held_def)
    then show ?thesis by (simp add: fenced_update_def affected_one_def)
  qed
  show "fst (fenced_update i token f t)" if "keys_ok bt_id t" "lease_held i token t"
  proof -
    obtain r where r: "r \<in> set (rows t)" "holds_lease i token r"
      using \<open>lease_held i token t\<close> by (auto simp: lease_held_def)
    then have "count_rows (holds_lease i token) t = 1"
      by (intro count_rows_key[OF \<open>keys_ok bt_id t\<close>]) (auto simp: holds_lease_def)
    then show ?thesis by (simp add: fenced_update_def affected_one_def update_many_def)
  qed
  show "next_id (snd (fenced_update i token f t)) = next_id t"
    by (simp add: fenced_update_def affected_one_def update_many_def)
qed (auto simp: fenced_update_def affected_one_def update_many_rows assms
     intro!: filter_map_frame simp: holds_lease_def)

lemma fenced_update_held:
  assumes "lease_held i token t" and "\<And>r. holds_lease i token r \<Longrightarrow> holds_lease i token (f r)"
  shows "lease_held i token (snd (fenced_update i token f t))"
  using assms by (auto simp: lease_held_def fenced_update_def affected_one_def update_many_rows)

lemma fenced_update_released:
  assumes "\<And>r. bt_status (f r) \<noteq> Processing"
  shows "\<not> lease_held i token (snd (fenced_update i token f t))"
  using assms
  by (auto simp: lease_held_def fenced_update_def affected_one_def update_many_rows holds_lease_def)

lemma set_steps_fields [simp]:
  "bt_id (set_steps s r) = bt_id r" "bt_status (set_steps s r) = bt_status r"
  "bt_processing_token (set_steps s r) = bt_processing_token r"
  "bt_kind (set_steps s r) = bt_kind r" "bt_lease_expires_at (set_steps s r) = bt_lease_expires_at r"
  "bt_next_run_at (set_steps s r) = bt_next_run_at r" "bt_dedupe_key (set_steps s r) = bt_dedupe_key r"
  "bt_attempt_count (set_steps s r) = bt_attempt_count r"
  "bt_max_attempts (set_steps s r) = bt_max_attempts r"
  "bt_last_error (set_steps s r) = bt_last_error r"
  by (cases s; simp add: set_steps_def)+

text \<open>\<open>release_processing\<close> with a status it accepts.\<close>

definition release_to_retry :: "time \<Rightarrow> row_id \<Rightarrow> int \<Rightarrow> tasks \<Rightarrow> bool \<times> tasks" where
  "release_to_retry now i token t =
     (case release_processing i token now Retry t of
        (Inr b, t') \<Rightarrow> (b, t') | (Inl _, t') \<Rightarrow> (False, t'))"

lemma release_to_retry_fenced:
  "release_to_retry now i token = fenced_update i token
     (\<lambda>r. r\<lparr>bt_status := Retry, bt_next_run_at := now, bt_processing_started_at := None,
          bt_last_heartbeat_at := None, bt_lease_expires_at := None,
          bt_status_text := None, bt_updated_at := now\<rparr>)"
  by (rule ext) (simp add: release_to_retry_def release_processing_def map_prod_def split: prod.splits)

lemmas fenced_intros = fenced_update_contract fenced_update_held fenced_update_released

interpretation heartbeat: holding_write "\<lambda>i k. touch_heartbeat i k now lease" for now lease
  unfolding touch_heartbeat_def
  by unfold_locales (auto intro!: fenced_intros simp: holds_lease_def)

interpretation progress: holding_write
  "\<lambda>i k. mark_progress (u\<lparr>tp_id := i, tp_processing_token := k\<rparr>)" for u
  unfolding mark_progress_def
  by unfold_locales (auto intro!: fenced_intros simp: holds_lease_def)

interpretation runtime_json: holding_write "\<lambda>i k. set_runtime_json i k json now" for json now
  unfolding set_runtime_json_def
  by unfold_locales (auto intro!: fenced_intros simp: holds_lease_def)

interpretation display_name: holding_write "\<lambda>i k. set_display_name i k name now" for name now
  unfolding set_display_name_def
  by unfold_locales (auto intro!: fenced_intros simp: holds_lease_def)

interpretation succeeded: finishing_write
  "\<lambda>i k. mark_succeeded (u\<lparr>ts_id := i, ts_processing_token := k\<rparr>)" for u
  unfolding mark_succeeded_def by unfold_locales (auto intro!: fenced_intros)

interpretation retry: finishing_write
  "\<lambda>i k. mark_retry i k attempts next_run err steps now" for attempts next_run err steps now
  unfolding mark_retry_def by unfold_locales (auto intro!: fenced_intros)

interpretation failed: finishing_write
  "\<lambda>i k. mark_failed (u\<lparr>tf_id := i, tf_processing_token := k\<rparr>)" for u
  unfolding mark_failed_def by unfold_locales (auto intro!: fenced_intros)

interpretation release: finishing_write "release_to_retry now" for now
  unfolding release_to_retry_fenced by unfold_locales (auto intro!: fenced_intros)

section \<open>Runs of the task system\<close>

text \<open>The operations of dispatchers, workers and administrators on the table, in any order.\<close>

datatype task_op =
    OpInsert forge task_env typed_task_create
  | OpRefresh system_runtime_success_refresh
  | OpClaim "nat \<Rightarrow> nat \<Rightarrow> nat" task_lane_config "task_claim_candidate list" time time
  | OpHeartbeat row_id int time time
  | OpProgress task_progress_update
  | OpRuntimeJson row_id int "string option" time
  | OpDisplayName row_id int string time
  | OpSucceed task_success_update
  | OpRetry row_id int int time string "string option" time
  | OpRelease row_id int time background_task_status
  | OpFail task_failure_update
  | OpManualRetry "row_id \<Rightarrow> unit result" task_env time background_task
  | OpCleanup terminal_task_cleanup_filters

fun run_op :: "task_op \<Rightarrow> tasks \<Rightarrow> tasks" where
  "run_op (OpInsert F E req) t = snd (insert_typed_task_record F E req t)"
| "run_op (OpRefresh u) t = snd (refresh_system_runtime_success u t)"
| "run_op (OpClaim capacity lane cs now lease) t =
     snd (claim_candidates_for_lane capacity lane cs now lease t)"
| "run_op (OpHeartbeat i k now lease) t = snd (touch_heartbeat i k now lease t)"
| "run_op (OpProgress u) t = snd (mark_progress u t)"
| "run_op (OpRuntimeJson i k json now) t = snd (set_runtime_json i k json now t)"
| "run_op (OpDisplayName i k name now) t = snd (set_display_name i k name now t)"
| "run_op (OpSucceed u) t = snd (mark_succeeded u t)"
| "run_op (OpRetry i k attempts next_run err steps now) t =
     snd (mark_retry i k attempts next_run err steps now t)"
| "run_op (OpRelease i k now status) t = snd (release_processing i k now status t)"
| "run_op (OpFail u) t = snd (mark_failed u t)"
| "run_op (OpManualRetry cleanup_temp E now task) t = snd (retry_task_record cleanup_temp E now task t)"
| "run_op (OpCleanup f) t = snd (cleanup_tasks_for_admin f t)"

text \<open>The dispatcher of \<open>aster_forge_tasks\<close> advances the token of the task it claims; the callers of
  \<open>insert_typed_task_record\<close> create tasks that wait or that are finished.\<close>

fun op_ok :: "task_op \<Rightarrow> bool" where
  "op_ok (OpClaim capacity lane cs now lease) =
     (\<forall>c \<in> set cs. cc_expected_processing_token c < cc_next_processing_token c)"
| "op_ok (OpInsert F E req) = (tt_status req \<noteq> Processing)"
| "op_ok _ = True"

inductive task_steps :: "tasks \<Rightarrow> tasks \<Rightarrow> bool" for t0 where
  steps_refl: "task_steps t0 t0"
| steps_op: "task_steps t0 t \<Longrightarrow> op_ok op \<Longrightarrow> task_steps t0 (run_op op t)"

inductive_cases task_steps_E: "task_steps t0 t"

text \<open>A task is being processed exactly when it has a lease.\<close>

definition lease_ok :: "background_task \<Rightarrow> bool" where
  "lease_ok r = (bt_status r = Processing \<longleftrightarrow> bt_lease_expires_at r \<noteq> None)"

definition tasks_wf :: "tasks \<Rightarrow> bool" where
  "tasks_wf t = (keys_ok bt_id t \<and> (\<forall>r \<in> set (rows t). lease_ok r))"

text \<open>What every step keeps, and how it may change a row: the row was there before, with at most the
  token it has now, or its key is new.\<close>

definition token_mono :: "tasks \<Rightarrow> tasks \<Rightarrow> bool" where
  "token_mono t t' =
     (next_id t \<le> next_id t' \<and>
      (\<forall>r' \<in> set (rows t'). bt_id r' < next_id t \<longrightarrow>
         (\<exists>r \<in> set (rows t). bt_id r = bt_id r' \<and> bt_processing_token r \<le> bt_processing_token r')))"

definition good_step :: "tasks \<Rightarrow> tasks \<Rightarrow> bool" where
  "good_step t t' = (tasks_wf t \<longrightarrow> tasks_wf t' \<and> token_mono t t')"

lemma token_mono_refl [simp]: "token_mono t t"
  by (auto simp: token_mono_def)

lemma good_step_refl [simp]: "good_step t t"
  by (simp add: good_step_def)

lemma token_mono_trans: "token_mono t t1 \<Longrightarrow> token_mono t1 t2 \<Longrightarrow> token_mono t t2"
  unfolding token_mono_def by (smt (verit, ccfv_threshold) order_trans)

lemma good_step_trans: "good_step t t1 \<Longrightarrow> good_step t1 t2 \<Longrightarrow> good_step t t2"
  using token_mono_trans by (auto simp: good_step_def)

lemma good_update:
  assumes "\<And>r. p r \<Longrightarrow> bt_id (f r) = bt_id r \<and> bt_processing_token r \<le> bt_processing_token (f r)
                       \<and> (lease_ok r \<longrightarrow> lease_ok (f r))"
  shows "good_step t (snd (update_many p f t))"
proof -
  have ids: "map bt_id (rows (snd (update_many p f t))) = map bt_id (rows t)"
    using assms by (auto simp: update_many_rows)
  have nid: "next_id (snd (update_many p f t)) = next_id t" by (simp add: update_many_def)
  have "tasks_wf (snd (update_many p f t))" if "tasks_wf t"
    using that assms unfolding tasks_wf_def keys_ok_alt ids nid by (auto simp: update_many_rows)
  moreover have "token_mono t (snd (update_many p f t))"
    unfolding token_mono_def nid using assms by (force simp: update_many_rows)
  ultimately show ?thesis by (simp add: good_step_def)
qed

lemma good_delete: "good_step t (snd (delete_many p t))"
  by (auto simp: good_step_def tasks_wf_def keys_ok_delete token_mono_def delete_many_def
      intro: keys_ok_delete[of bt_id t p, unfolded delete_many_def, simplified])

lemma good_fenced:
  assumes "\<And>r. holds_lease i k r \<Longrightarrow> lease_ok r \<Longrightarrow> lease_ok (f r)"
    and "\<And>r. bt_id (f r) = bt_id r" and "\<And>r. bt_processing_token (f r) = bt_processing_token r"
  shows "good_step t (snd (fenced_update i k f t))"
  unfolding fenced_update_def affected_one_def snd_conv by (rule good_update) (simp add: assms)

lemma good_try_claim:
  assumes "e < n" shows "good_step t (snd (try_claim i e now n lease t))"
  unfolding try_claim_def affected_one_def snd_conv
  by (rule good_update) (use assms in \<open>auto simp: lease_ok_def\<close>)

lemma good_claim_loop:
  assumes "\<forall>c \<in> set cs. cc_expected_processing_token c < cc_next_processing_token c"
  shows "good_step t (snd (claim_loop available now lease cs claimed t))"
  using assms
proof (induction cs arbitrary: claimed t)
  case (Cons c cs)
  obtain b t' where c: "try_claim (cc_task_id c) (cc_expected_processing_token c) now
      (cc_next_processing_token c) lease t = (b, t')" by fastforce
  have "good_step t t'"
    using good_try_claim[of "cc_expected_processing_token c" "cc_next_processing_token c" t
        "cc_task_id c" now lease] Cons.prems c by simp
  then show ?case using Cons c by (auto intro: good_step_trans)
qed simp

lemma good_insert:
  assumes "bt_status model \<noteq> Processing" and "bt_lease_expires_at model = None"
  shows "good_step t (snd (insert_row (\<lambda>i. model\<lparr>bt_id := i\<rparr>) t))"
proof -
  have "keys_ok bt_id (snd (insert_row (\<lambda>i. model\<lparr>bt_id := i\<rparr>) t))" if "keys_ok bt_id t"
    using that by (rule keys_ok_insert) simp
  then show ?thesis
    using assms by (auto simp: good_step_def tasks_wf_def token_mono_def insert_row_def Let_def lease_ok_def)
qed

lemma insert_typed_task_record_cases:
  "insert_typed_task_record F E req t =
     (case into_active_model E req of
        Inl e \<Rightarrow> (Inl e, t)
      | Inr active \<Rightarrow>
          (if tt_dedupe_key req \<noteq> None \<and> (\<exists>r \<in> set (rows t). bt_dedupe_key r = tt_dedupe_key req)
           then (Inr (the (find_by_dedupe_key (the (tt_dedupe_key req)) t)), t)
           else map_prod Inr id (insert_row (\<lambda>i. active\<lparr>bt_id := i\<rparr>) t)))"
proof (cases "into_active_model E req")
  case (Inr active)
  then have key: "bt_dedupe_key active = tt_dedupe_key req"
    by (auto simp: into_active_model_def split: sum.splits)
  have found: "\<exists>r. find_by_dedupe_key k t = Some r"
    if "\<exists>r \<in> set (rows t). bt_dedupe_key r = Some k" for k
    using that select_one_None[of "\<lambda>r. bt_dedupe_key r = Some k" t]
    by (auto simp: find_by_dedupe_key_def)
  show ?thesis
    using Inr key found
    by (auto simp: insert_typed_task_record_def bnd_def check_def task_repo_create_def statement_def
        split: prod.splits option.splits) (metis option.distinct(1))
qed (simp add: insert_typed_task_record_def bnd_def check_def)

lemma into_active_model_fields:
  "into_active_model E req = Inr a \<Longrightarrow> bt_status a = tt_status req \<and> bt_lease_expires_at a = None
     \<and> bt_processing_token a = 0 \<and> bt_dedupe_key a = tt_dedupe_key req"
  by (auto simp: into_active_model_def split: sum.splits)

lemma good_insert_typed:
  assumes "tt_status req \<noteq> Processing"
  shows "good_step t (snd (insert_typed_task_record F E req t))"
  using assms good_insert into_active_model_fields
  by (auto simp: insert_typed_task_record_cases split: sum.splits)

lemma retry_task_record_state:
  "snd (retry_task_record cleanup_temp E now task t) = t \<or>
   (\<exists>steps. snd (retry_task_record cleanup_temp E now task t)
      = snd (reset_for_manual_retry (bt_id task) now (te_max_attempts E) (Some steps) t))"
  by (auto simp: retry_task_record_def handler_defs split: sum.splits prod.splits) (metis snd_conv)+

lemma good_reset: "good_step t (snd (reset_for_manual_retry i now m steps t))"
  unfolding reset_for_manual_retry_def affected_one_def snd_conv
  by (rule good_update) (simp add: lease_ok_def)

lemma good_run_op: "op_ok op \<Longrightarrow> good_step t (run_op op t)"
proof (cases op)
  case (OpRelease i k now status)
  then show ?thesis
    by (auto simp: release_processing_def lease_ok_def intro!: good_fenced)
next
  case (OpManualRetry cleanup_temp E now task)
  then show ?thesis
    using retry_task_record_state[of cleanup_temp E now task t] good_reset by fastforce
next
  case (OpRefresh u)
  then show ?thesis
    by (auto simp: refresh_system_runtime_success_def affected_one_def lease_ok_def intro!: good_update)
next
  case (OpCleanup f)
  then show ?thesis
    by (auto simp: cleanup_tasks_for_admin_def handler_defs delete_terminal_by_filters_def
        good_delete split: sum.splits prod.splits) (metis good_delete snd_conv)
qed (auto simp: claim_candidates_for_lane_def Let_def good_claim_loop good_insert_typed
      touch_heartbeat_def mark_progress_def set_runtime_json_def set_display_name_def
      mark_succeeded_def mark_retry_def mark_failed_def lease_ok_def holds_lease_def
      intro!: good_fenced)

lemma good_steps: "task_steps t0 t \<Longrightarrow> good_step t0 t"
  by (induction rule: task_steps.induct) (auto intro: good_step_trans good_run_op)

section \<open>Claims\<close>

lemma count_rows_le_1:
  assumes "keys_ok k t" and "\<And>x. p x \<Longrightarrow> k x = i"
  shows "count_rows p t \<le> 1"
proof (cases "\<exists>r \<in> set (rows t). p r")
  case True
  then obtain r where "r \<in> set (rows t)" "p r" by blast
  then have "count_rows p t = 1" using assms by (intro count_rows_key[OF assms(1)]) auto
  then show ?thesis by simp
qed (simp add: count_rows_def filter_empty_conv)

lemma count_after_update:
  "count_rows q (snd (update_many p f t)) \<le> count_rows q t + count_rows p t"
proof -
  have "length (filter q (map (\<lambda>r. if p r then f r else r) rs))
      \<le> length (filter q rs) + length (filter p rs)" for rs
    by (induction rs) auto
  then show ?thesis by (simp add: count_rows_def update_many_def)
qed

lemma try_claim_False:
  assumes "keys_ok bt_id t" and "try_claim i e now n lease t = (False, t')"
  shows "t' = t"
proof -
  let ?p = "\<lambda>r. bt_id r = i \<and> bt_processing_token r = e \<and> claimable_condition now r"
  have "count_rows ?p t \<le> 1" by (rule count_rows_le_1[OF assms(1), of _ i]) simp
  moreover have "count_rows ?p t \<noteq> 1"
    using assms(2) by (simp add: try_claim_def affected_one_def update_many_def)
  ultimately have "count_rows ?p t = 0" by linarith
  then have "\<forall>r \<in> set (rows t). \<not> ?p r" by (simp add: count_rows_def filter_empty_conv)
  then have "update_many ?p f t = (0, t)" for f by (rule update_many_none)
  then show ?thesis using assms(2) by (simp add: try_claim_def affected_one_def)
qed

lemma try_claim_active:
  assumes "keys_ok bt_id t" and "try_claim i e now n lease t = (b, t')"
  shows "count_active_processing_by_kinds u kinds t'
    \<le> count_active_processing_by_kinds u kinds t + (if b then 1 else 0)"
proof (cases b)
  case True
  have "count_rows (\<lambda>r. bt_id r = i \<and> bt_processing_token r = e \<and> claimable_condition now r) t \<le> 1"
    by (rule count_rows_le_1[OF assms(1), of _ i]) simp
  then show ?thesis
    using True assms(2) count_after_update[of "active_processing_by_kinds_condition u kinds"
        "\<lambda>r. bt_id r = i \<and> bt_processing_token r = e \<and> claimable_condition now r"]
    by (fastforce simp: try_claim_def affected_one_def count_active_processing_by_kinds_def
        intro: order_trans add_left_mono)
next
  case False
  then show ?thesis using assms try_claim_False by fastforce
qed

lemma claim_loop_active:
  assumes "tasks_wf t" and "\<forall>c \<in> set cs. cc_expected_processing_token c < cc_next_processing_token c"
    and "claim_loop available now lease cs claimed t = (claimed', t')"
  shows "count_active_processing_by_kinds u kinds t' + length claimed
      \<le> count_active_processing_by_kinds u kinds t + length claimed'
    \<and> length claimed' \<le> max available (length claimed)"
  using assms
proof (induction cs arbitrary: claimed t)
  case (Cons c cs)
  show ?case
  proof (cases "length claimed \<ge> available")
    case True
    then show ?thesis using Cons.prems(3) by simp
  next
    case False
    obtain b t1 where c: "try_claim (cc_task_id c) (cc_expected_processing_token c) now
        (cc_next_processing_token c) lease t = (b, t1)" by fastforce
    have wf: "tasks_wf t1"
      using good_try_claim[of "cc_expected_processing_token c" "cc_next_processing_token c" t
          "cc_task_id c" now lease] Cons.prems c by (simp add: good_step_def)
    have "keys_ok bt_id t" using Cons.prems(1) by (simp add: tasks_wf_def)
    note act = try_claim_active[OF this c, of u kinds]
    show ?thesis
    proof (cases b)
      case True
      with Cons.IH[OF wf] Cons.prems False c
      have "count_active_processing_by_kinds u kinds t' + Suc (length claimed)
          \<le> count_active_processing_by_kinds u kinds t1 + length claimed'
        \<and> length claimed' \<le> max available (Suc (length claimed))" by fastforce
      with act True False show ?thesis by simp
    next
      case b: False
      with Cons.IH[OF wf] Cons.prems False c
      have "count_active_processing_by_kinds u kinds t' + length claimed
          \<le> count_active_processing_by_kinds u kinds t1 + length claimed'
        \<and> length claimed' \<le> max available (length claimed)" by fastforce
      with act b show ?thesis by simp
    qed
  qed
qed simp

section \<open>Terminal tasks\<close>

definition terminal_kept :: "tasks \<Rightarrow> tasks \<Rightarrow> bool" where
  "terminal_kept t t' =
     (\<forall>r \<in> set (rows t). \<forall>r' \<in> set (rows t'). bt_id r = bt_id r' \<and> is_terminal (bt_status r)
        \<longrightarrow> is_terminal (bt_status r'))"

lemma keys_inj: "keys_ok k t \<Longrightarrow> r \<in> set (rows t) \<Longrightarrow> s \<in> set (rows t) \<Longrightarrow> k r = k s \<Longrightarrow> r = s"
  by (auto simp: keys_ok_def distinct_map inj_on_def)

lemma terminal_update:
  assumes "keys_ok bt_id t"
    and "\<And>r. p r \<Longrightarrow> bt_id (f r) = bt_id r \<and> (is_terminal (bt_status r) \<longrightarrow> is_terminal (bt_status (f r)))"
  shows "terminal_kept t (snd (update_many p f t))"
  unfolding terminal_kept_def update_many_rows
proof (intro ballI impI)
  fix r r' assume r: "r \<in> set (rows t)" "r' \<in> set (map (\<lambda>r. if p r then f r else r) (rows t))"
    and eq: "bt_id r = bt_id r' \<and> is_terminal (bt_status r)"
  then obtain s where s: "s \<in> set (rows t)" "r' = (if p s then f s else s)" by auto
  then have "bt_id s = bt_id r" using eq assms(2) by (auto split: if_splits)
  then have "s = r" using keys_inj[OF assms(1)] s r by blast
  then show "is_terminal (bt_status r')" using s(2) eq assms(2)[of r] by (cases "p r") simp_all
qed

lemma terminal_fenced:
  assumes "keys_ok bt_id t" and "\<And>r. bt_id (f r) = bt_id r"
  shows "terminal_kept t (snd (fenced_update i k f t))"
  unfolding fenced_update_def affected_one_def snd_conv using assms
  by (intro terminal_update) (auto simp: holds_lease_def is_terminal_def)

lemma terminal_subset:
  assumes "keys_ok bt_id t" and "set (rows t') \<subseteq> set (rows t)"
  shows "terminal_kept t t'"
  using assms(2) keys_inj[OF assms(1)] unfolding terminal_kept_def by blast

lemma terminal_insert:
  assumes "keys_ok bt_id t" and "bt_id (mk (next_id t)) = next_id t"
  shows "terminal_kept t (snd (insert_row mk t))"
  unfolding terminal_kept_def
proof (intro ballI impI)
  fix r r' assume r: "r \<in> set (rows t)" "r' \<in> set (rows (snd (insert_row mk t)))"
    and eq: "bt_id r = bt_id r' \<and> is_terminal (bt_status r)"
  have "bt_id r < next_id t" using assms(1) r(1) by (simp add: keys_ok_def)
  then have "r' \<in> set (rows t)" using r(2) eq assms(2) by (auto simp: insert_row_def Let_def)
  then have "r' = r" using keys_inj[OF assms(1)] r(1) eq by blast
  then show "is_terminal (bt_status r')" using eq by blast
qed

lemma terminal_try_claim:
  assumes "keys_ok bt_id t" shows "terminal_kept t (snd (try_claim i e now n lease t))"
  unfolding try_claim_def affected_one_def snd_conv using assms
  by (intro terminal_update)
    (auto simp: claimable_condition_def processing_stale_condition_def is_terminal_def)

lemma terminal_kept_trans:
  assumes "tasks_wf t" "good_step t t1" "terminal_kept t t1" "terminal_kept t1 t2" "good_step t1 t2"
  shows "terminal_kept t t2"
  unfolding terminal_kept_def
proof (intro ballI impI)
  fix r r2 assume r: "r \<in> set (rows t)" "r2 \<in> set (rows t2)"
    and eq: "bt_id r = bt_id r2 \<and> is_terminal (bt_status r)"
  have m: "token_mono t t1" "token_mono t1 t2" using assms by (auto simp: good_step_def)
  have "bt_id r2 < next_id t1"
    using assms(1) r eq m(1) by (fastforce simp: tasks_wf_def keys_ok_def token_mono_def)
  then obtain r1 where "r1 \<in> set (rows t1)" "bt_id r1 = bt_id r2"
    using m(2) r by (auto simp: token_mono_def)
  with assms(3,4) r eq show "is_terminal (bt_status r2)" by (simp add: terminal_kept_def)
qed

lemma terminal_claim_loop:
  assumes "tasks_wf t" and "\<forall>c \<in> set cs. cc_expected_processing_token c < cc_next_processing_token c"
  shows "terminal_kept t (snd (claim_loop available now lease cs claimed t))"
  using assms
proof (induction cs arbitrary: claimed t)
  case Nil
  then show ?case by (auto simp: tasks_wf_def intro: terminal_subset)
next
  case (Cons c cs)
  obtain b t1 where c: "try_claim (cc_task_id c) (cc_expected_processing_token c) now
      (cc_next_processing_token c) lease t = (b, t1)" by fastforce
  have g: "good_step t t1"
    using good_try_claim[of "cc_expected_processing_token c" "cc_next_processing_token c" t
        "cc_task_id c" now lease] Cons.prems c by simp
  have k: "terminal_kept t t1" "terminal_kept t t"
    using Cons.prems(1) c terminal_try_claim[of t "cc_task_id c" "cc_expected_processing_token c" now
        "cc_next_processing_token c" lease]
    by (auto simp: tasks_wf_def intro: terminal_subset)
  have "tasks_wf t1" using g Cons.prems(1) by (simp add: good_step_def)
  then have "terminal_kept t (snd (claim_loop available now lease cs cl t1))" for cl
    using Cons.prems(2)
    by (intro terminal_kept_trans[OF Cons.prems(1) g k(1)] Cons.IH good_claim_loop) simp_all
  then show ?case using c k(2) by auto
qed

lemma terminal_run_op:
  assumes "tasks_wf t" and "op_ok op" and "\<And>c E now task. op \<noteq> OpManualRetry c E now task"
  shows "terminal_kept t (run_op op t)"
proof -
  have keys: "keys_ok bt_id t" and same: "terminal_kept t t"
    using assms(1) by (auto simp: tasks_wf_def intro: terminal_subset)
  show ?thesis
  proof (cases op)
    case (OpInsert F E req)
    have "terminal_kept t (snd (insert_row (\<lambda>i. a\<lparr>bt_id := i\<rparr>) t))" for a
      by (rule terminal_insert[OF keys]) simp
    with OpInsert same show ?thesis
      by (auto simp: insert_typed_task_record_cases split: sum.splits)
  next
    case (OpManualRetry c E now task)
    then show ?thesis using assms(3) by blast
  next
    case (OpCleanup f)
    then show ?thesis using keys
      by (intro terminal_subset) (auto simp: cleanup_tasks_for_admin_def handler_defs
          delete_terminal_by_filters_def delete_many_def split: sum.splits)
  next
    case (OpRefresh u)
    then show ?thesis using keys
      by (auto simp: refresh_system_runtime_success_def affected_one_def is_terminal_def
          intro!: terminal_update)
  next
    case (OpClaim capacity lane cs now lease)
    then show ?thesis
      using assms(1,2) same terminal_claim_loop by (auto simp: claim_candidates_for_lane_def Let_def)
  qed (use keys same in \<open>auto simp: touch_heartbeat_def mark_progress_def set_runtime_json_def
      set_display_name_def mark_succeeded_def mark_retry_def mark_failed_def release_processing_def
      intro!: terminal_fenced\<close>)
qed

section \<open>A sample table\<close>

definition sample_env :: task_env where
  "sample_env = \<lparr>te_payload_json = Inr ''{}'', te_initial_steps_json = Inr ''[]'',
     te_max_attempts = 3, te_retention_hours = 24,
     te_truncate_utf8_to_max_bytes = (\<lambda>s n. take n s)\<rparr>"

definition sample_request :: typed_task_create where
  "sample_request = (typed_task_create_new 100 ''cleanup'')\<lparr>tt_dedupe_key := Some ''k''\<rparr>"

definition sample_tasks :: tasks where
  "sample_tasks = snd (insert_typed_task_record plain_forge sample_env sample_request empty_table)"

definition claimed_tasks :: tasks where
  "claimed_tasks = snd (try_claim 1 0 200 1 260 sample_tasks)"

definition failed_tasks :: tasks where
  "failed_tasks = snd (mark_failed \<lparr>tf_id = 1, tf_processing_token = 1, tf_attempt_count = 1,
     tf_last_error = ''boom'', tf_finished_at = 250, tf_expires_at = 999, tf_steps_json = None,
     tf_failure_can_retry = True\<rparr> claimed_tasks)"

definition sample_candidate :: task_claim_candidate where
  "sample_candidate = \<lparr>cc_index = 0, cc_task_id = 1, cc_expected_processing_token = 0,
     cc_next_processing_token = 1\<rparr>"

definition sample_lane :: task_lane_config where
  "sample_lane = \<lparr>lc_kinds = [SystemRuntime], lc_limit = 1\<rparr>"

lemma sample_tasks_wf: "tasks_wf sample_tasks" "tasks_wf claimed_tasks" "tasks_wf failed_tasks"
  unfolding tasks_wf_def keys_ok_def lease_ok_def by code_simp+

section \<open>Properties\<close>

text \<open>C29. Fencing: once a task has been claimed again under a newer token, every later write of the
  worker that holds the older token is refused and changes nothing, whatever dispatchers, workers and
  administrators did in between.\<close>

theorem stale_worker_fenced:
  assumes "tasks_wf t0" and "r \<in> set (rows t0)" and "token < bt_processing_token r"
    and "task_steps t0 t"
  shows "touch_heartbeat (bt_id r) token now lease t = (False, t)
    \<and> mark_progress (pu\<lparr>tp_id := bt_id r, tp_processing_token := token\<rparr>) t = (False, t)
    \<and> set_runtime_json (bt_id r) token json now t = (False, t)
    \<and> set_display_name (bt_id r) token name now t = (False, t)
    \<and> mark_succeeded (su\<lparr>ts_id := bt_id r, ts_processing_token := token\<rparr>) t = (False, t)
    \<and> mark_retry (bt_id r) token attempts next_run err steps now t = (False, t)
    \<and> mark_failed (fu\<lparr>tf_id := bt_id r, tf_processing_token := token\<rparr>) t = (False, t)
    \<and> release_processing (bt_id r) token now Retry t = (Inr False, t)"
proof -
  have stale: "token \<noteq> bt_processing_token r'" if r': "r' \<in> set (rows t)" "bt_id r' = bt_id r" for r'
  proof -
    have keys: "keys_ok bt_id t0" using assms(1) by (simp add: tasks_wf_def)
    then have "bt_id r' < next_id t0" using assms(2) r'(2) by (simp add: keys_ok_def)
    then obtain r0 where "r0 \<in> set (rows t0)" "bt_id r0 = bt_id r'"
        "bt_processing_token r0 \<le> bt_processing_token r'"
      using good_steps[OF assms(4)] assms(1) r'(1) by (auto simp: good_step_def token_mono_def)
    moreover from this have "r0 = r" using keys_inj[OF keys] assms(2) r'(2) by simp
    ultimately show ?thesis using assms(3) by simp
  qed
  have "release_to_retry now (bt_id r) token t = (False, t)"
    by (rule release.stale_token_refused) (rule stale)
  then have "release_processing (bt_id r) token now Retry t = (Inr False, t)"
    by (auto simp: release_to_retry_def release_processing_def map_prod_def split: prod.splits)
  then show ?thesis
    by (intro conjI heartbeat.stale_token_refused progress.stale_token_refused
        runtime_json.stale_token_refused display_name.stale_token_refused
        succeeded.stale_token_refused retry.stale_token_refused failed.stale_token_refused stale)
qed

theorem stale_worker_fenced_witness:
  "mark_retry 1 0 1 500 ''late'' None 300 claimed_tasks = (False, claimed_tasks)"
proof -
  have rws: "rows claimed_tasks = [hd (rows claimed_tasks)]" "bt_id (hd (rows claimed_tasks)) = 1"
      "bt_processing_token (hd (rows claimed_tasks)) = 1"
    by code_simp+
  then have "hd (rows claimed_tasks) \<in> set (rows claimed_tasks)" by (metis list.set_intros(1))
  with stale_worker_fenced[OF sample_tasks_wf(2) this, of 0 claimed_tasks] rws(2,3) show ?thesis
    by (simp add: steps_refl)
qed

text \<open>Claims are exclusive: after a claim has succeeded, a second claim made from the same snapshot
  of the task, at any time and with any new token and lease, fails and changes nothing.\<close>

theorem claim_exclusive:
  assumes "tasks_wf t" and "e < n" and "try_claim i e now n lease t = (True, t1)"
  shows "try_claim i e now' n' lease' t1 = (False, t1)"
proof -
  have wf: "tasks_wf t1"
    using good_try_claim[OF assms(2), of t i now lease] assms(1,3) by (simp add: good_step_def)
  let ?p = "\<lambda>r. bt_id r = i \<and> bt_processing_token r = e \<and> claimable_condition now r"
  obtain r where r: "r \<in> set (rows t)" "?p r"
    using assms(3) count_rows_pos[of ?p t]
    by (auto simp: try_claim_def affected_one_def update_many_def)
  have keys: "keys_ok bt_id t" using assms(1) by (simp add: tasks_wf_def)
  have only: "s = r" if "s \<in> set (rows t)" "bt_id s = i" for s
    using keys_inj[OF keys that(1) r(1)] that(2) r(2) by simp
  have "bt_processing_token s = n" if s: "s \<in> set (rows t1)" "bt_id s = i" for s
  proof -
    let ?f = "\<lambda>r. r\<lparr>bt_status := Processing, bt_processing_started_at := Some now,
            bt_last_heartbeat_at := Some now, bt_processing_token := n,
            bt_lease_expires_at := Some lease,
            bt_started_at := (case bt_started_at r of None \<Rightarrow> Some now | Some s \<Rightarrow> Some s),
            bt_updated_at := now\<rparr>"
    have "t1 = snd (try_claim i e now n lease t)" using assms(3) by simp
    then have "rows t1 = map (\<lambda>r. if ?p r then ?f r else r) (rows t)"
      by (simp only: try_claim_def affected_one_def update_many_rows snd_conv)
    with s(1) obtain s0 where s0: "s0 \<in> set (rows t)" "s = (if ?p s0 then ?f s0 else s0)" by auto
    then have "bt_id s0 = i" using s(2) by (cases "?p s0") simp_all
    then have "?p s0" using only s0(1) r(2) by blast
    then show ?thesis using s0(2) by simp
  qed
  then have "\<forall>s \<in> set (rows t1). \<not> (bt_id s = i \<and> bt_processing_token s = e \<and> claimable_condition now' s)"
    using assms(2) by auto
  then show ?thesis
    using update_many_none[of t1 "\<lambda>s. bt_id s = i \<and> bt_processing_token s = e \<and> claimable_condition now' s"]
    by (simp add: try_claim_def affected_one_def)
qed

theorem claim_exclusive_witness:
  "try_claim 1 0 200 1 260 sample_tasks = (True, claimed_tasks)
   \<and> try_claim 1 0 900 7 960 claimed_tasks = (False, claimed_tasks)"
proof -
  have "fst (try_claim 1 0 200 1 260 sample_tasks) = True" by code_simp
  then have c: "try_claim 1 0 200 1 260 sample_tasks = (True, claimed_tasks)"
    unfolding claimed_tasks_def by (metis prod.collapse)
  then show ?thesis using claim_exclusive[OF sample_tasks_wf(1) _ c, of 900 7 960] by simp
qed

text \<open>C30. A batch claim never exceeds the capacity of its lane: with a capacity function that returns at
  most the free slots, the number of leased tasks of the lane's kinds stays within the limit whenever
  it was within it before, and no more tasks are handed out than there were free slots.\<close>

theorem lane_capacity_respected:
  assumes "tasks_wf t"
    and "\<And>c. c \<in> set cs \<Longrightarrow> cc_expected_processing_token c < cc_next_processing_token c"
    and "\<And>limit active. capacity limit active \<le> limit - active"
    and "count_active_processing_by_kinds now (lc_kinds lane) t \<le> lc_limit lane"
    and "claim_candidates_for_lane capacity lane cs now lease t = (claimed, t')"
  shows "count_active_processing_by_kinds now (lc_kinds lane) t' \<le> lc_limit lane
    \<and> length claimed \<le> lc_limit lane - count_active_processing_by_kinds now (lc_kinds lane) t"
proof -
  let ?active = "count_active_processing_by_kinds now (lc_kinds lane) t"
  have "claimed = [] \<and> t' = t \<or>
      claim_loop (capacity (lc_limit lane) ?active) now lease cs [] t = (claimed, t')"
    using assms(5) by (auto simp: claim_candidates_for_lane_def Let_def split: if_splits)
  then show ?thesis
  proof
    assume "claim_loop (capacity (lc_limit lane) ?active) now lease cs [] t = (claimed, t')"
    from claim_loop_active[OF assms(1) _ this, of now "lc_kinds lane"] assms(2)
      assms(3)[of "lc_limit lane" ?active] assms(4)
    show ?thesis by fastforce
  qed (use assms(4) in simp)
qed

theorem lane_capacity_respected_witness:
  "\<exists>claimed. claim_candidates_for_lane (-) sample_lane [sample_candidate] 200 260 sample_tasks
      = (claimed, claimed_tasks) \<and> length claimed \<le> 1
    \<and> count_active_processing_by_kinds 200 [SystemRuntime] claimed_tasks \<le> 1"
proof -
  have "snd (claim_candidates_for_lane (-) sample_lane [sample_candidate] 200 260 sample_tasks)
      = claimed_tasks" by code_simp
  then obtain claimed where
      c: "claim_candidates_for_lane (-) sample_lane [sample_candidate] 200 260 sample_tasks
        = (claimed, claimed_tasks)" by (metis prod.collapse)
  have "count_active_processing_by_kinds 200 (lc_kinds sample_lane) sample_tasks \<le> lc_limit sample_lane"
    by code_simp
  from lane_capacity_respected[OF sample_tasks_wf(1) _ _ this c] show ?thesis
    using c by (auto simp: sample_candidate_def sample_lane_def)
qed

text \<open>In every run from a well-formed table, keys stay unique and a task has a lease exactly while it
  is being processed.\<close>

theorem task_steps_invariant:
  assumes "task_steps t0 t" and "tasks_wf t0"
  shows "tasks_wf t"
  using good_steps[OF assms(1)] assms(2) by (simp add: good_step_def)

theorem task_steps_invariant_witness: "tasks_wf (run_op (OpCleanup \<lparr>tc_finished_before = 300,
    tc_kind = None, tc_status = None\<rparr>) failed_tasks)"
proof -
  have "task_steps failed_tasks (run_op (OpCleanup \<lparr>tc_finished_before = 300,
    tc_kind = None, tc_status = None\<rparr>) failed_tasks)"
    by (rule steps_op[OF steps_refl]) simp
  from task_steps_invariant[OF this sample_tasks_wf(3)] show ?thesis .
qed

text \<open>A finished task is brought back only by an administrator's manual retry, only if it had failed,
  and then it is pending; every other operation keeps finished tasks finished or deletes them.\<close>

theorem terminal_left_only_by_manual_retry:
  assumes "tasks_wf t" and "op_ok op"
    and "r \<in> set (rows t)" and "r' \<in> set (rows (run_op op t))" and "bt_id r' = bt_id r"
    and "is_terminal (bt_status r)" and "\<not> is_terminal (bt_status r')"
  shows "\<exists>cleanup_temp E now task. op = OpManualRetry cleanup_temp E now task
    \<and> bt_id task = bt_id r \<and> bt_status r = Failed \<and> bt_status r' = Pending"
proof -
  have keys: "keys_ok bt_id t" using assms(1) by (simp add: tasks_wf_def)
  have "\<not> terminal_kept t (run_op op t)"
    unfolding terminal_kept_def using assms(3-7) by metis
  then obtain c E now task where op: "op = OpManualRetry c E now task"
    using terminal_run_op[OF assms(1,2)] by blast
  have "run_op op t \<noteq> t"
  proof
    assume "run_op op t = t"
    then have "r' = r" using keys_inj[OF keys] assms(3-5) by simp
    then show False using assms(6,7) by simp
  qed
  then obtain steps where "run_op op t = snd (reset_for_manual_retry (bt_id task) now (te_max_attempts E)
      (Some steps) t)"
    using op retry_task_record_state[of c E now task t] by auto
  then obtain s where s: "s \<in> set (rows t)" "bt_id s = bt_id r'"
      "bt_id s = bt_id task \<and> bt_status s = Failed \<and> bt_status r' = Pending \<or> r' = s"
    using assms(4)
    by (auto simp: reset_for_manual_retry_def affected_one_def update_many_rows split: if_splits)
  then have "s = r" using keys_inj[OF keys] assms(3,5) by simp
  with s assms(6,7) op show ?thesis by auto
qed

theorem terminal_left_only_by_manual_retry_witness:
  "\<exists>r \<in> set (rows failed_tasks). bt_status r = Failed \<and>
    (\<exists>r' \<in> set (rows (run_op (OpManualRetry (\<lambda>_. Inr ()) sample_env 400 r) failed_tasks)).
       bt_status r' = Pending)"
proof -
  let ?r = "hd (rows failed_tasks)"
  let ?op = "OpManualRetry (\<lambda>_. Inr ()) sample_env 400 ?r"
  let ?r' = "hd (rows (run_op ?op failed_tasks))"
  have f: "rows failed_tasks \<noteq> []" "rows (run_op ?op failed_tasks) \<noteq> []" "bt_id ?r' = bt_id ?r"
      "is_terminal (bt_status ?r)" "\<not> is_terminal (bt_status ?r')"
    by code_simp+
  then have m: "?r \<in> set (rows failed_tasks)" "?r' \<in> set (rows (run_op ?op failed_tasks))"
    by simp_all
  from terminal_left_only_by_manual_retry[OF sample_tasks_wf(3) _ m f(3-5)]
  have "bt_status ?r = Failed" "bt_status ?r' = Pending" by simp_all
  with m show ?thesis by blast
qed

text \<open>The administrator's clean-up is refused for a status that is not final, without effect;
  otherwise it removes exactly the finished tasks of the requested kind and status that finished by
  the given time, and reports their number.\<close>

theorem cleanup_removes_only_finished_tasks:
  shows "cleanup_tasks_for_admin f t =
    (if \<exists>s. tc_status f = Some s \<and> \<not> is_terminal s
     then (Inl (ValidationError ''only completed task statuses can be cleaned up''), t)
     else (Inr (count_rows (terminal_cleanup_condition f) t),
           t\<lparr>rows := filter (\<lambda>r. \<not> terminal_cleanup_condition f r) (rows t)\<rparr>))
   \<and> (terminal_cleanup_condition f r \<and> \<not> (\<exists>s. tc_status f = Some s \<and> \<not> is_terminal s) \<longrightarrow>
      is_terminal (bt_status r)
      \<and> (case bt_finished_at r of Some u \<Rightarrow> u | None \<Rightarrow> bt_updated_at r) \<le> tc_finished_before f)"
  by (auto simp: cleanup_tasks_for_admin_def validate_admin_task_cleanup_status_def handler_defs
      delete_terminal_by_filters_def delete_many_def terminal_cleanup_condition_def is_terminal_def
      split: option.splits)

theorem cleanup_removes_only_finished_tasks_witness:
  "is_terminal (bt_status (hd (rows failed_tasks)))"
proof -
  have "terminal_cleanup_condition \<lparr>tc_finished_before = 300, tc_kind = None, tc_status = None\<rparr>
      (hd (rows failed_tasks))" by code_simp
  with cleanup_removes_only_finished_tasks[of "\<lparr>tc_finished_before = 300, tc_kind = None,
      tc_status = None\<rparr>" failed_tasks "hd (rows failed_tasks)"]
  show ?thesis by simp
qed

text \<open>A manual retry succeeds exactly for a failed task whose failure may be retried; the task is
  then pending, due at once, with its attempts, error and result cleared and the configured retry
  budget, and keeps its token, so that the old worker stays locked out.  In all other cases nothing
  changes.\<close>

theorem manual_retry_effect:
  assumes "keys_ok bt_id t" and "task \<in> set (rows t)"
    and "cleanup_temp (bt_id task) = Inr ()" and "te_initial_steps_json E = Inr steps"
  shows "if task_can_retry task
    then \<exists>t' r'. retry_task_record cleanup_temp E now task t = (Inr (), t')
      \<and> select_one (\<lambda>r. bt_id r = bt_id task) t' = Some r'
      \<and> bt_status r' = Pending \<and> bt_attempt_count r' = 0 \<and> bt_max_attempts r' = te_max_attempts E
      \<and> bt_last_error r' = None \<and> bt_processing_token r' = bt_processing_token task
      \<and> (\<forall>u \<ge> now. claimable_condition u r')
    else \<exists>e. retry_task_record cleanup_temp E now task t = (Inl e, t)"
proof (cases "task_can_retry task")
  case True
  then have st: "bt_status task = Failed" by (simp add: task_can_retry_def)
  let ?p = "\<lambda>r. bt_id r = bt_id task \<and> bt_status r = Failed"
  let ?res = "reset_for_manual_retry (bt_id task) now (te_max_attempts E) (Some steps) t"
  have "count_rows ?p t = 1"
    using st by (intro count_rows_key[OF assms(1,2)]) auto
  then have "fst ?res" by (simp add: reset_for_manual_retry_def affected_one_def update_many_def)
  then have run: "retry_task_record cleanup_temp E now task t = (Inr (), snd ?res)"
    using True st assms(3,4) by (auto simp: retry_task_record_def handler_defs split: prod.splits)
  have keys: "keys_ok bt_id (snd ?res)"
    unfolding reset_for_manual_retry_def affected_one_def snd_conv
    by (rule keys_ok_update[OF assms(1)]) simp
  let ?f = "\<lambda>r. set_steps (Some steps)
      (r\<lparr>bt_status := Pending, bt_attempt_count := 0, bt_progress_current := 0,
         bt_max_attempts := te_max_attempts E, bt_next_run_at := now,
         bt_processing_started_at := None, bt_last_heartbeat_at := None,
         bt_lease_expires_at := None, bt_started_at := None, bt_finished_at := None,
         bt_status_text := None, bt_last_error := None, bt_result_json := None,
         bt_failure_can_retry := None, bt_updated_at := now\<rparr>)"
  have "rows (snd ?res) = map (\<lambda>r. if ?p r then ?f r else r) (rows t)"
    by (simp only: reset_for_manual_retry_def affected_one_def update_many_rows snd_conv)
  then have "?f task \<in> set (rows (snd ?res))" using assms(2) st by force
  then obtain r' where r': "r' \<in> set (rows (snd ?res))" "bt_id r' = bt_id task" "bt_status r' = Pending"
      "bt_attempt_count r' = 0" "bt_max_attempts r' = te_max_attempts E" "bt_last_error r' = None"
      "bt_processing_token r' = bt_processing_token task" "bt_next_run_at r' = now"
    by (rule that) simp_all
  have "select_one (\<lambda>r. bt_id r = bt_id task) (snd ?res) = Some r'"
    using select_one_key[OF keys r'(1)] r'(2) by simp
  moreover have "\<forall>u \<ge> now. claimable_condition u r'"
    using r'(3,8) by (simp add: claimable_condition_def)
  ultimately show ?thesis using True run r' by auto
next
  case False
  then show ?thesis by (simp add: retry_task_record_def raise_def)
qed

theorem manual_retry_effect_witness:
  "\<exists>t'. retry_task_record (\<lambda>_. Inr ()) sample_env 400 (hd (rows failed_tasks)) failed_tasks = (Inr (), t')"
proof -
  have "rows failed_tasks \<noteq> []" "task_can_retry (hd (rows failed_tasks))" by code_simp+
  moreover from this have "hd (rows failed_tasks) \<in> set (rows failed_tasks)" by simp
  moreover have "keys_ok bt_id failed_tasks" using sample_tasks_wf(3) by (simp add: tasks_wf_def)
  moreover have "te_initial_steps_json sample_env = Inr ''[]''" by (simp add: sample_env_def)
  ultimately show ?thesis
    using manual_retry_effect[of failed_tasks "hd (rows failed_tasks)" "\<lambda>_. Inr ()" sample_env "''[]''" 400]
    by auto
qed

text \<open>Enqueueing with a deduplication key is idempotent: while a task with the key exists, another
  insert returns an existing task with that key and leaves the table as it is; without one, the new
  task is appended.\<close>

theorem dedupe_insert_idempotent:
  assumes "into_active_model E req = Inr a" and "tt_dedupe_key req = Some key"
  shows "if \<exists>r \<in> set (rows t). bt_dedupe_key r = Some key
    then \<exists>r \<in> set (rows t). bt_dedupe_key r = Some key
           \<and> insert_typed_task_record F E req t = (Inr r, t)
    else \<exists>r t'. insert_typed_task_record F E req t = (Inr r, t') \<and> appended r t t'
           \<and> bt_dedupe_key r = Some key \<and> bt_status r = tt_status req
           \<and> (\<exists>r1. insert_typed_task_record F E req t' = (Inr r1, t'))"
proof (cases "\<exists>r \<in> set (rows t). bt_dedupe_key r = Some key")
  case True
  then obtain r where "find_by_dedupe_key key t = Some r"
    using select_one_None[of "\<lambda>r. bt_dedupe_key r = Some key" t] by (auto simp: find_by_dedupe_key_def)
  moreover from this have "r \<in> set (rows t) \<and> bt_dedupe_key r = Some key"
    by (auto simp: find_by_dedupe_key_def dest: select_one_Some)
  ultimately show ?thesis using True assms by (auto simp: insert_typed_task_record_cases)
next
  case False
  then show ?thesis
    using assms into_active_model_fields[OF assms(1)]
    by (auto simp: insert_typed_task_record_cases insert_row_def Let_def appended_def)
qed

theorem dedupe_insert_idempotent_witness:
  "\<exists>r. insert_typed_task_record plain_forge sample_env sample_request sample_tasks
     = (Inr r, sample_tasks)"
proof -
  have "\<not> isl (into_active_model sample_env sample_request)" by code_simp
  then obtain a where "into_active_model sample_env sample_request = Inr a"
    by (cases "into_active_model sample_env sample_request") auto
  moreover have "tt_dedupe_key sample_request = Some ''k''" by (simp add: sample_request_def)
  moreover have "\<exists>r \<in> set (rows sample_tasks). bt_dedupe_key r = Some ''k''" by code_simp
  ultimately show ?thesis
    using dedupe_insert_idempotent[of sample_env sample_request a "''k''" sample_tasks plain_forge]
    by auto
qed

text \<open>The retry class of an error agrees with the retry hint the API gives its clients: an error that
  is retried automatically is one the API calls retryable, an error the API calls final is never
  retried, and an error that is never retried is not a server error unless it says so itself.\<close>

theorem retry_class_agrees_with_hint:
  "(default_retry_class e = Auto \<longrightarrow> error_retryable e = Some True)
   \<and> (error_retryable e = Some False \<longrightarrow> default_retry_class e = Never)
   \<and> (default_retry_class e = Never \<and> is_server_error (error_status_code e) \<longrightarrow>
       error_retryable e = Some False \<or> e = Panicked)"
  by (cases e) (auto simp: is_server_error_def split: option.splits if_splits)

theorem retry_class_agrees_with_hint_witness:
  "default_retry_class (DatabaseConnection ''down'') = Auto
   \<and> error_retryable (DatabaseConnection ''down'') = Some True"
  using retry_class_agrees_with_hint[of "DatabaseConnection ''down''"] by simp

end
