(* ===== verification/Cache.thy ===== *)
theory Cache
  imports Entities
begin

text \<open>
  \<open>yggdrasil_service/cache.rs\<close>: the keys, values and lifetimes the Yggdrasil services keep in the cache.
  The cache backend is \<open>aster_forge_cache\<close>: \<open>cache_ops\<close> is its interface and
  \<open>cache_lawful\<close> what the services rely on.  A value read under a key of the wrong kind does not
  deserialise and counts as a miss.
\<close>

section \<open>Cached values\<close>

record ygg_property =
  yq_name :: string
  yq_value :: string
  yq_signature :: "string option"

record ygg_profile =
  yp_id :: string
  yp_name :: string
  yp_source :: "minecraft_profile_source option"
  yp_properties :: "ygg_property list option"

record join_session =
  js_profile_id :: row_id
  js_profile_uuid :: string
  js_profile_name :: string
  js_server_id :: string
  js_ip_address :: "string option"

datatype cache_value =
    CToken yggdrasil_token
  | CJoin join_session
  | CSummary ygg_profile
  | CProps "ygg_property list"
  | CServers "forward_server list"
  | CBlob string  \<comment> \<open>\<open>CachedTextureBlob\<close>: the storage key\<close>

section \<open>The backend\<close>

record 'c cache_ops =
  c_get :: "'c \<Rightarrow> time \<Rightarrow> string \<Rightarrow> cache_value option"
  c_set :: "'c \<Rightarrow> time \<Rightarrow> string \<Rightarrow> cache_value \<Rightarrow> nat option \<Rightarrow> 'c"
  c_delete :: "'c \<Rightarrow> string \<Rightarrow> 'c"
  c_delete_many :: "'c \<Rightarrow> string list \<Rightarrow> 'c"
  c_invalidate_prefix :: "'c \<Rightarrow> string \<Rightarrow> 'c"

text \<open>An answer may be lost at any time, as entries expire or are evicted.\<close>

definition or_lost :: "'a option \<Rightarrow> 'a option \<Rightarrow> bool" where
  "or_lost got old = (got = None \<or> got = old)"

definition cache_lawful :: "'c cache_ops \<Rightarrow> bool" where
  "cache_lawful C =
     ((\<forall>c now k v ttl u. or_lost (c_get C (c_set C c now k v ttl) u k) (Some v))
      \<and> (\<forall>c now k v ttl u. u \<ge> now + secs (int ttl)
            \<longrightarrow> c_get C (c_set C c now k v (Some ttl)) u k = None)
      \<and> (\<forall>c now k v ttl u k'. k' \<noteq> k
            \<longrightarrow> or_lost (c_get C (c_set C c now k v ttl) u k') (c_get C c u k'))
      \<and> (\<forall>c k u. c_get C (c_delete C c k) u k = None)
      \<and> (\<forall>c k u k'. or_lost (c_get C (c_delete C c k) u k') (c_get C c u k'))
      \<and> (\<forall>c ks u k. k \<in> set ks \<longrightarrow> c_get C (c_delete_many C c ks) u k = None)
      \<and> (\<forall>c ks u k. or_lost (c_get C (c_delete_many C c ks) u k) (c_get C c u k))
      \<and> (\<forall>c p u k. prefix p k \<longrightarrow> c_get C (c_invalidate_prefix C c p) u k = None)
      \<and> (\<forall>c p u k. or_lost (c_get C (c_invalidate_prefix C c p) u k) (c_get C c u k)))"

section \<open>Keys and lifetimes\<close>

definition join_session_ttl_secs :: nat where "join_session_ttl_secs = 30"
definition profile_name_summary_ttl_secs :: nat where "profile_name_summary_ttl_secs = 300"
definition profile_properties_ttl_secs :: nat where "profile_properties_ttl_secs = 300"
definition session_forward_server_ttl_secs :: nat where "session_forward_server_ttl_secs = 60"
definition token_ttl_secs :: nat where "token_ttl_secs = 60"

definition token_prefix :: string where
  "token_prefix = ''yggdrasil:token:''"

definition session_forward_server_key :: string where
  "session_forward_server_key = ''yggdrasil:session-forward:enabled:v1''"

definition token_key :: "string \<Rightarrow> string" where
  "token_key access_token_hash = token_prefix @ access_token_hash"

definition join_session_key :: "forge \<Rightarrow> string \<Rightarrow> string" where
  "join_session_key F server_id = ''yggdrasil:join:'' @ sha256_hex F server_id"

definition profile_name_summary_key :: "string \<Rightarrow> string" where
  "profile_name_summary_key name = ''yggdrasil:profile-name-summary:'' @ to_ascii_lowercase name"

definition profile_properties_prefix :: "row_id \<Rightarrow> string" where
  "profile_properties_prefix profile_id =
     ''yggdrasil:profile-properties:'' @ show_int profile_id @ '':''"

text \<open>\<open>fingerprint\<close> is \<open>yggdrasil_policy_fingerprint\<close> of the current policy.\<close>

definition profile_properties_key :: "forge \<Rightarrow> string \<Rightarrow> minecraft_profile \<Rightarrow> bool \<Rightarrow> string" where
  "profile_properties_key F fingerprint profile signed =
     profile_properties_prefix (p_id profile) @ show_int (p_updated_at profile) @ '':''
     @ (if signed then ''true'' else ''false'') @ '':''
     @ sha256_hex F (p_uploadable_textures profile) @ '':'' @ fingerprint"

section \<open>Access\<close>

definition set_token :: "'c cache_ops \<Rightarrow> time \<Rightarrow> string \<Rightarrow> yggdrasil_token \<Rightarrow> 'c \<Rightarrow> 'c" where
  "set_token C now h token c = c_set C c now (token_key h) (CToken token) (Some token_ttl_secs)"

definition get_token :: "'c cache_ops \<Rightarrow> time \<Rightarrow> string \<Rightarrow> 'c \<Rightarrow> yggdrasil_token option" where
  "get_token C now h c = (case c_get C c now (token_key h) of Some (CToken t) \<Rightarrow> Some t | _ \<Rightarrow> None)"

definition invalidate_token :: "'c cache_ops \<Rightarrow> string \<Rightarrow> 'c \<Rightarrow> 'c" where
  "invalidate_token C h c = c_delete C c (token_key h)"

definition invalidate_tokens :: "'c cache_ops \<Rightarrow> string list \<Rightarrow> 'c \<Rightarrow> 'c" where
  "invalidate_tokens C hs c = c_delete_many C c (map token_key hs)"

definition invalidate_all_tokens :: "'c cache_ops \<Rightarrow> 'c \<Rightarrow> 'c" where
  "invalidate_all_tokens C c = c_invalidate_prefix C c token_prefix"

definition set_join_session ::
    "'c cache_ops \<Rightarrow> forge \<Rightarrow> time \<Rightarrow> string \<Rightarrow> join_session \<Rightarrow> 'c \<Rightarrow> 'c" where
  "set_join_session C F now server_id s c =
     c_set C c now (join_session_key F server_id) (CJoin s) (Some join_session_ttl_secs)"

definition get_join_session ::
    "'c cache_ops \<Rightarrow> forge \<Rightarrow> time \<Rightarrow> string \<Rightarrow> 'c \<Rightarrow> join_session option" where
  "get_join_session C F now server_id c =
     (case c_get C c now (join_session_key F server_id) of Some (CJoin s) \<Rightarrow> Some s | _ \<Rightarrow> None)"

definition set_profile_name_summary :: "'c cache_ops \<Rightarrow> time \<Rightarrow> ygg_profile \<Rightarrow> 'c \<Rightarrow> 'c" where
  "set_profile_name_summary C now profile c =
     c_set C c now (profile_name_summary_key (yp_name profile)) (CSummary profile)
       (Some profile_name_summary_ttl_secs)"

definition get_profile_name_summary :: "'c cache_ops \<Rightarrow> time \<Rightarrow> string \<Rightarrow> 'c \<Rightarrow> ygg_profile option" where
  "get_profile_name_summary C now name c =
     (case c_get C c now (profile_name_summary_key name) of Some (CSummary p) \<Rightarrow> Some p | _ \<Rightarrow> None)"

definition invalidate_profile_name_summary :: "'c cache_ops \<Rightarrow> string \<Rightarrow> 'c \<Rightarrow> 'c" where
  "invalidate_profile_name_summary C name c = c_delete C c (profile_name_summary_key name)"

definition set_profile_properties ::
    "'c cache_ops \<Rightarrow> forge \<Rightarrow> time \<Rightarrow> string \<Rightarrow> minecraft_profile \<Rightarrow> bool \<Rightarrow> ygg_property list \<Rightarrow> 'c \<Rightarrow> 'c" where
  "set_profile_properties C F now fingerprint profile signed ps c =
     c_set C c now (profile_properties_key F fingerprint profile signed) (CProps ps)
       (Some profile_properties_ttl_secs)"

definition get_profile_properties ::
    "'c cache_ops \<Rightarrow> forge \<Rightarrow> time \<Rightarrow> string \<Rightarrow> minecraft_profile \<Rightarrow> bool \<Rightarrow> 'c \<Rightarrow> ygg_property list option" where
  "get_profile_properties C F now fingerprint profile signed c =
     (case c_get C c now (profile_properties_key F fingerprint profile signed) of
        Some (CProps ps) \<Rightarrow> Some ps | _ \<Rightarrow> None)"

definition invalidate_profile_properties :: "'c cache_ops \<Rightarrow> row_id \<Rightarrow> 'c \<Rightarrow> 'c" where
  "invalidate_profile_properties C profile_id c =
     c_invalidate_prefix C c (profile_properties_prefix profile_id)"

definition set_enabled_session_forward_servers ::
    "'c cache_ops \<Rightarrow> time \<Rightarrow> forward_server list \<Rightarrow> 'c \<Rightarrow> 'c" where
  "set_enabled_session_forward_servers C now servers c =
     c_set C c now session_forward_server_key (CServers servers) (Some session_forward_server_ttl_secs)"

definition get_enabled_session_forward_servers ::
    "'c cache_ops \<Rightarrow> time \<Rightarrow> 'c \<Rightarrow> forward_server list option" where
  "get_enabled_session_forward_servers C now c =
     (case c_get C c now session_forward_server_key of Some (CServers ss) \<Rightarrow> Some ss | _ \<Rightarrow> None)"

definition invalidate_session_forward_servers :: "'c cache_ops \<Rightarrow> 'c \<Rightarrow> 'c" where
  "invalidate_session_forward_servers C c = c_delete C c session_forward_server_key"

text \<open>\<open>texture_service/cache.rs\<close>: the storage key of a texture by its hash.\<close>

definition is_valid_texture_hash :: "string \<Rightarrow> bool" where
  "is_valid_texture_hash hash = (length hash = 64 \<and> list_all is_ascii_hexdigit hash)"

definition texture_blob_lookup_ttl_secs :: nat where "texture_blob_lookup_ttl_secs = 600"

definition texture_blob_lookup_key :: "string \<Rightarrow> string" where
  "texture_blob_lookup_key hash = ''minecraft-texture:blob:'' @ hash"

definition get_texture_blob_lookup :: "'c cache_ops \<Rightarrow> time \<Rightarrow> string \<Rightarrow> 'c \<Rightarrow> string option" where
  "get_texture_blob_lookup C now hash c =
     (if \<not> is_valid_texture_hash hash then None
      else case c_get C c now (texture_blob_lookup_key hash) of Some (CBlob k) \<Rightarrow> Some k | _ \<Rightarrow> None)"

definition set_texture_blob_lookup :: "'c cache_ops \<Rightarrow> time \<Rightarrow> string \<Rightarrow> string \<Rightarrow> 'c \<Rightarrow> 'c" where
  "set_texture_blob_lookup C now hash storage_key c =
     (if \<not> is_valid_texture_hash hash then c
      else c_set C c now (texture_blob_lookup_key hash) (CBlob storage_key) (Some texture_blob_lookup_ttl_secs))"

definition invalidate_texture_blob_lookup :: "'c cache_ops \<Rightarrow> string \<Rightarrow> 'c \<Rightarrow> 'c" where
  "invalidate_texture_blob_lookup C hash c =
     (if is_valid_texture_hash hash then c_delete C c (texture_blob_lookup_key hash) else c)"

section \<open>A concrete backend\<close>

text \<open>An in-memory cache: the latest entry of a key counts until its deadline.\<close>

type_synonym mem_cache = "(string \<times> cache_value \<times> time option) list"

definition mem_get :: "mem_cache \<Rightarrow> time \<Rightarrow> string \<Rightarrow> cache_value option" where
  "mem_get c now k =
     (case map_of c k of
        None \<Rightarrow> None
      | Some (v, deadline) \<Rightarrow> (case deadline of
            None \<Rightarrow> Some v
          | Some t \<Rightarrow> if t \<le> now then None else Some v))"

definition mem_ops :: "mem_cache cache_ops" where
  "mem_ops = \<lparr>c_get = mem_get,
     c_set = (\<lambda>c now k v ttl. (k, v, map_option (\<lambda>s. now + secs (int s)) ttl) # c),
     c_delete = (\<lambda>c k. filter (\<lambda>e. fst e \<noteq> k) c),
     c_delete_many = (\<lambda>c ks. filter (\<lambda>e. fst e \<notin> set ks) c),
     c_invalidate_prefix = (\<lambda>c p. filter (\<lambda>e. \<not> prefix p (fst e)) c)\<rparr>"

lemma map_of_filter_key: "map_of (filter (\<lambda>e. p (fst e)) c) k = (if p k then map_of c k else None)"
  by (induction c) auto

lemma mem_ops_lawful: "cache_lawful mem_ops"
proof -
  have "mem_get (filter (\<lambda>e. p (fst e)) c) u k = (if p k then mem_get c u k else None)" for p c u k
    by (simp add: mem_get_def map_of_filter_key)
  note flt = this[of "\<lambda>k'. k' \<noteq> _"] this[of "\<lambda>k'. k' \<notin> _"] this[of "\<lambda>k'. \<not> prefix _ k'"]
  show ?thesis
    unfolding cache_lawful_def mem_ops_def or_lost_def
    by (simp add: flt) (auto simp: mem_get_def split: option.splits)
qed

section \<open>Laws in the form the services use\<close>

lemma cache_lawful_set:
  assumes "cache_lawful C"
  shows "or_lost (c_get C (c_set C c now k v ttl) u k) (Some v)"
    and "k' \<noteq> k \<Longrightarrow> or_lost (c_get C (c_set C c now k v ttl) u k') (c_get C c u k')"
    and "u \<ge> now + secs (int n) \<Longrightarrow> c_get C (c_set C c now k v (Some n)) u k = None"
  using assms by (auto simp: cache_lawful_def)

lemma cache_lawful_delete:
  assumes "cache_lawful C"
  shows "c_get C (c_delete C c k) u k = None"
    and "or_lost (c_get C (c_delete C c k) u k') (c_get C c u k')"
    and "k \<in> set ks \<Longrightarrow> c_get C (c_delete_many C c ks) u k = None"
    and "or_lost (c_get C (c_delete_many C c ks) u k) (c_get C c u k)"
    and "prefix p k \<Longrightarrow> c_get C (c_invalidate_prefix C c p) u k = None"
    and "or_lost (c_get C (c_invalidate_prefix C c p) u k) (c_get C c u k)"
  using assms by (auto simp: cache_lawful_def)

text \<open>
  \<open>cache_slot\<close> is the contract of one kind of cached value: a family of keys, the tag its values are
  stored under and the read that accepts only that tag.  What a read may return after each operation of
  the backend is proved once and used for every kind.
\<close>

locale cache_slot =
  fixes key :: "'k \<Rightarrow> string"
    and tag :: "'v \<Rightarrow> cache_value"
    and read :: "cache_value option \<Rightarrow> 'v option"
  assumes read_tag: "read (Some (tag v)) = Some v"
    and read_None: "read None = None"
begin

lemma lost:
  "or_lost (c_get C c' u (key k)) (c_get C c u (key k)) \<Longrightarrow>
   read (c_get C c' u (key k)) = Some x \<Longrightarrow> read (c_get C c u (key k)) = Some x"
  by (auto simp: or_lost_def read_None)

lemma after_set:
  assumes "cache_lawful C" and "read (c_get C (c_set C c now (key k') (tag v) ttl) u (key k)) = Some x"
  shows "key k = key k' \<and> x = v \<or> key k \<noteq> key k' \<and> read (c_get C c u (key k)) = Some x"
proof (cases "key k = key k'")
  case True
  with assms(2) cache_lawful_set(1)[OF assms(1), of c now "key k'" "tag v" ttl u] show ?thesis
    by (auto simp: or_lost_def read_None read_tag)
next
  case False
  with lost[OF cache_lawful_set(2)[OF assms(1) False] assms(2)] show ?thesis by simp
qed

lemma after_other_set:
  assumes "cache_lawful C" and "k' \<noteq> key k" and "read (c_get C (c_set C c now k' w ttl) u (key k)) = Some x"
  shows "read (c_get C c u (key k)) = Some x"
  using lost[OF cache_lawful_set(2)[OF assms(1) assms(2)[symmetric]] assms(3)] .

lemma after_delete:
  assumes "cache_lawful C" and "read (c_get C (c_delete C c k') u (key k)) = Some x"
  shows "key k \<noteq> k' \<and> read (c_get C c u (key k)) = Some x"
  using assms(2) lost[OF cache_lawful_delete(2)[OF assms(1)] assms(2)]
    cache_lawful_delete(1)[OF assms(1), of c k' u] by (auto simp: read_None)

lemma after_delete_many:
  assumes "cache_lawful C" and "read (c_get C (c_delete_many C c ks) u (key k)) = Some x"
  shows "key k \<notin> set ks \<and> read (c_get C c u (key k)) = Some x"
  using assms(2) lost[OF cache_lawful_delete(4)[OF assms(1)] assms(2)]
    cache_lawful_delete(3)[OF assms(1), of "key k" ks c u] by (auto simp: read_None)

lemma after_prefix:
  assumes "cache_lawful C" and "read (c_get C (c_invalidate_prefix C c p) u (key k)) = Some x"
  shows "\<not> prefix p (key k) \<and> read (c_get C c u (key k)) = Some x"
  using assms(2) lost[OF cache_lawful_delete(6)[OF assms(1)] assms(2)]
    cache_lawful_delete(5)[OF assms(1), of p "key k" c u] by (auto simp: read_None)

lemma expires:
  assumes "cache_lawful C" and "u \<ge> now + secs (int n)"
  shows "read (c_get C (c_set C c now (key k) v (Some n)) u (key k)) = None"
  using cache_lawful_set(3)[OF assms] by (simp add: read_None)

end

interpretation token_slot: cache_slot token_key CToken
    "\<lambda>r. case r of Some (CToken t) \<Rightarrow> Some t | _ \<Rightarrow> None"
  by unfold_locales simp_all

interpretation join_slot: cache_slot "join_session_key F" CJoin
    "\<lambda>r. case r of Some (CJoin s) \<Rightarrow> Some s | _ \<Rightarrow> None" for F
  by unfold_locales simp_all

interpretation summary_slot: cache_slot profile_name_summary_key CSummary
    "\<lambda>r. case r of Some (CSummary p) \<Rightarrow> Some p | _ \<Rightarrow> None"
  by unfold_locales simp_all

interpretation servers_slot: cache_slot "\<lambda>_ :: unit. session_forward_server_key" CServers
    "\<lambda>r. case r of Some (CServers ss) \<Rightarrow> Some ss | _ \<Rightarrow> None"
  by unfold_locales simp_all

interpretation blob_slot: cache_slot texture_blob_lookup_key CBlob
    "\<lambda>r. case r of Some (CBlob k) \<Rightarrow> Some k | _ \<Rightarrow> None"
  by unfold_locales simp_all

text \<open>Keys of different kinds never meet.\<close>

lemma token_key_inject [simp]: "token_key a = token_key b \<longleftrightarrow> a = b"
  by (simp add: token_key_def)

lemma key_kinds [simp]:
  "token_key h \<noteq> join_session_key F s" "token_key h \<noteq> profile_name_summary_key n"
  "token_key h \<noteq> session_forward_server_key" "token_key h \<noteq> profile_properties_key F fp p b"
  "profile_name_summary_key n \<noteq> join_session_key F s"
  "profile_name_summary_key n \<noteq> session_forward_server_key"
  "profile_name_summary_key n \<noteq> profile_properties_key F fp p b"
  "join_session_key F s \<noteq> session_forward_server_key"
  "join_session_key F s \<noteq> profile_properties_key F fp p b"
  by (simp_all add: token_key_def token_prefix_def join_session_key_def profile_name_summary_key_def
      session_forward_server_key_def profile_properties_key_def profile_properties_prefix_def)

lemmas key_kinds_sym [simp] = key_kinds[symmetric]

lemma profile_name_summary_key_eq [simp]:
  "profile_name_summary_key a = profile_name_summary_key b \<longleftrightarrow> to_ascii_lowercase a = to_ascii_lowercase b"
  by (simp add: profile_name_summary_key_def)

lemma get_token_after:
  assumes "cache_lawful C"
  shows "get_token C u h (set_token C now h' tk c) = Some t \<Longrightarrow>
           h = h' \<and> t = tk \<or> h \<noteq> h' \<and> get_token C u h c = Some t"
    and "get_token C u h (invalidate_token C h' c) = Some t \<Longrightarrow>
           h \<noteq> h' \<and> get_token C u h c = Some t"
    and "get_token C u h (invalidate_tokens C hs c) = Some t \<Longrightarrow>
           h \<notin> set hs \<and> get_token C u h c = Some t"
    and "get_token C u h (invalidate_all_tokens C c) = None"
    and "get_token C u h (invalidate_profile_name_summary C n c) = Some t \<Longrightarrow> get_token C u h c = Some t"
    and "get_token C u h (set_profile_name_summary C now p c) = Some t \<Longrightarrow> get_token C u h c = Some t"
    and "get_token C u h (set_join_session C F now sid js c) = Some t \<Longrightarrow> get_token C u h c = Some t"
  unfolding get_token_def set_token_def invalidate_token_def invalidate_tokens_def invalidate_all_tokens_def
    invalidate_profile_name_summary_def set_profile_name_summary_def set_join_session_def
proof -
  let ?r = "\<lambda>r. case r of Some (CToken t) \<Rightarrow> Some t | _ \<Rightarrow> None"
  note slot = token_slot.after_set[OF assms] token_slot.after_delete[OF assms]
    token_slot.after_delete_many[OF assms] token_slot.after_other_set[OF assms]
  show "h = h' \<and> t = tk \<or> h \<noteq> h' \<and> ?r (c_get C c u (token_key h)) = Some t"
    if "?r (c_get C (c_set C c now (token_key h') (CToken tk) (Some token_ttl_secs)) u (token_key h)) = Some t"
    using slot(1)[OF that] by simp
  show "h \<noteq> h' \<and> ?r (c_get C c u (token_key h)) = Some t"
    if "?r (c_get C (c_delete C c (token_key h')) u (token_key h)) = Some t"
    using slot(2)[OF that] by simp
  show "h \<notin> set hs \<and> ?r (c_get C c u (token_key h)) = Some t"
    if "?r (c_get C (c_delete_many C c (map token_key hs)) u (token_key h)) = Some t"
    using slot(3)[OF that] by auto
  show "?r (c_get C (c_invalidate_prefix C c token_prefix) u (token_key h)) = None"
    using cache_lawful_delete(5)[OF assms, of token_prefix "token_key h" c u] by (simp add: token_key_def)
  show "?r (c_get C c u (token_key h)) = Some t"
    if "?r (c_get C (c_delete C c (profile_name_summary_key n)) u (token_key h)) = Some t"
    using slot(2)[OF that] by simp
  show "?r (c_get C c u (token_key h)) = Some t"
    if "?r (c_get C (c_set C c now (profile_name_summary_key (yp_name p)) (CSummary p)
          (Some profile_name_summary_ttl_secs)) u (token_key h)) = Some t"
    by (rule slot(4)[OF _ that]) simp
  show "?r (c_get C c u (token_key h)) = Some t"
    if "?r (c_get C (c_set C c now (join_session_key F sid) (CJoin js)
          (Some join_session_ttl_secs)) u (token_key h)) = Some t"
    by (rule slot(4)[OF _ that]) simp
qed

lemma get_summary_after:
  assumes "cache_lawful C"
  shows "get_profile_name_summary C u n (set_profile_name_summary C now p c) = Some x \<Longrightarrow>
      to_ascii_lowercase n = to_ascii_lowercase (yp_name p) \<and> x = p
      \<or> get_profile_name_summary C u n c = Some x"
    and "get_profile_name_summary C u n (invalidate_profile_name_summary C n' c) = Some x \<Longrightarrow>
      to_ascii_lowercase n \<noteq> to_ascii_lowercase n' \<and> get_profile_name_summary C u n c = Some x"
    and "get_profile_name_summary C u n (invalidate_tokens C hs c) = Some x \<Longrightarrow>
      get_profile_name_summary C u n c = Some x"
    and "get_profile_name_summary C u n (invalidate_token C h c) = Some x \<Longrightarrow>
      get_profile_name_summary C u n c = Some x"
    and "get_profile_name_summary C u n (invalidate_all_tokens C c) = Some x \<Longrightarrow>
      get_profile_name_summary C u n c = Some x"
    and "get_profile_name_summary C u n (set_token C now h tk c) = Some x \<Longrightarrow>
      get_profile_name_summary C u n c = Some x"
  unfolding get_profile_name_summary_def set_token_def invalidate_token_def invalidate_tokens_def
    invalidate_all_tokens_def invalidate_profile_name_summary_def set_profile_name_summary_def
proof -
  let ?r = "\<lambda>r. case r of Some (CSummary t) \<Rightarrow> Some t | _ \<Rightarrow> None"
  note slot = summary_slot.after_set[OF assms] summary_slot.after_delete[OF assms]
    summary_slot.after_delete_many[OF assms] summary_slot.after_other_set[OF assms]
    summary_slot.after_prefix[OF assms]
  show "to_ascii_lowercase n = to_ascii_lowercase (yp_name p) \<and> x = p
      \<or> ?r (c_get C c u (profile_name_summary_key n)) = Some x"
    if "?r (c_get C (c_set C c now (profile_name_summary_key (yp_name p)) (CSummary p)
          (Some profile_name_summary_ttl_secs)) u (profile_name_summary_key n)) = Some x"
    using slot(1)[OF that] by auto
  show "to_ascii_lowercase n \<noteq> to_ascii_lowercase n' \<and> ?r (c_get C c u (profile_name_summary_key n)) = Some x"
    if "?r (c_get C (c_delete C c (profile_name_summary_key n')) u (profile_name_summary_key n)) = Some x"
    using slot(2)[OF that] by simp
  show "?r (c_get C c u (profile_name_summary_key n)) = Some x"
    if "?r (c_get C (c_delete_many C c (map token_key hs)) u (profile_name_summary_key n)) = Some x"
    using slot(3)[OF that] by simp
  show "?r (c_get C c u (profile_name_summary_key n)) = Some x"
    if "?r (c_get C (c_delete C c (token_key h)) u (profile_name_summary_key n)) = Some x"
    using slot(2)[OF that] by simp
  show "?r (c_get C c u (profile_name_summary_key n)) = Some x"
    if "?r (c_get C (c_invalidate_prefix C c token_prefix) u (profile_name_summary_key n)) = Some x"
    using slot(5)[OF that] by simp
  show "?r (c_get C c u (profile_name_summary_key n)) = Some x"
    if "?r (c_get C (c_set C c now (token_key h) (CToken tk) (Some token_ttl_secs)) u
          (profile_name_summary_key n)) = Some x"
    by (rule slot(4)[OF _ that]) simp
qed

end
