(* ===== verification/Tokens.thy ===== *)
theory Tokens
  imports Bans Cache "HOL-Library.List_Lexorder" "HOL-Library.Char_ord"
begin

text \<open>
  Yggdrasil access tokens: \<open>db/repository/yggdrasil_token_repo.rs\<close> and
  \<open>yggdrasil_service/token.rs\<close>.  The state of the services is the database with the cache.  A fresh
  access token (\<open>new_short_token\<close>) is an argument of the operation that issues it, and an
  operation reads the clock once.
\<close>

type_synonym toks = "yggdrasil_token table"

section \<open>Repository\<close>

record create_yggdrasil_token =
  ck_user_id :: row_id
  ck_access_token_hash :: string
  ck_client_token :: string
  ck_selected_profile_id :: "row_id option"
  ck_issued_at :: time
  ck_expires_at :: time
  ck_user_agent :: "string option"
  ck_ip_address :: "string option"

text \<open>The column \<open>access_token_hash\<close> is unique.\<close>

definition token_repo_create ::
    "forge \<Rightarrow> create_yggdrasil_token \<Rightarrow> (toks, aster_error, yggdrasil_token) handler" where
  "token_repo_create F input = statement (\<lambda>t.
     if \<exists>r \<in> set (rows t). t_access_token_hash r = ck_access_token_hash input
     then Inl (DatabaseOperation (db_err_text F UniqueViolation))
     else Inr (insert_row (\<lambda>i. \<lparr>t_id = i, t_user_id = ck_user_id input,
             t_access_token_hash = ck_access_token_hash input,
             t_client_token = ck_client_token input,
             t_selected_profile_id = ck_selected_profile_id input,
             t_issued_at = ck_issued_at input, t_expires_at = ck_expires_at input,
             t_revoked_at = None, t_temporarily_invalidated_at = None,
             t_user_agent = ck_user_agent input, t_ip_address = ck_ip_address input\<rparr>) t))"

definition find_by_access_hash :: "string \<Rightarrow> toks \<Rightarrow> yggdrasil_token option" where
  "find_by_access_hash h t = select_one (\<lambda>r. t_access_token_hash r = h) t"

definition list_active_hashes_for_user :: "row_id \<Rightarrow> toks \<Rightarrow> string list" where
  "list_active_hashes_for_user user_id t =
     map t_access_token_hash (select_all (\<lambda>r. t_user_id r = user_id \<and> t_revoked_at r = None) t)"

definition list_active_hashes_for_selected_profile :: "row_id \<Rightarrow> toks \<Rightarrow> string list" where
  "list_active_hashes_for_selected_profile profile_id t =
     map t_access_token_hash
       (select_all (\<lambda>r. t_selected_profile_id r = Some profile_id \<and> t_revoked_at r = None) t)"

definition count_active_tokens :: "time \<Rightarrow> toks \<Rightarrow> nat" where
  "count_active_tokens now t =
     count_rows (\<lambda>r. t_revoked_at r = None \<and> t_temporarily_invalidated_at r = None
                     \<and> t_expires_at r > now) t"

definition revoke_row :: "time \<Rightarrow> yggdrasil_token \<Rightarrow> yggdrasil_token" where
  "revoke_row now r = r\<lparr>t_revoked_at := Some now\<rparr>"

text \<open>\<open>active.revoked_at = Set(now); active.update(db)\<close>\<close>

definition update_revoked :: "forge \<Rightarrow> time \<Rightarrow> row_id \<Rightarrow> (toks, aster_error, yggdrasil_token) handler" where
  "update_revoked F now i = statement (update_by_key F t_id i (revoke_row now))"

definition revoke_by_access_hash :: "forge \<Rightarrow> time \<Rightarrow> string \<Rightarrow> (toks, aster_error, bool) handler" where
  "revoke_by_access_hash F now h t =
     (case find_by_access_hash h t of
        None \<Rightarrow> (Inr False, t)
      | Some token \<Rightarrow>
          if t_revoked_at token \<noteq> None then (Inr False, t)
          else bnd (update_revoked F now (t_id token)) (\<lambda>_. ret True) t)"

definition list_recent_revoked_hashes_for_user :: "row_id \<Rightarrow> time \<Rightarrow> toks \<Rightarrow> string list" where
  "list_recent_revoked_hashes_for_user user_id since t =
     map t_access_token_hash (select_all (\<lambda>r. t_user_id r = user_id
        \<and> (case t_revoked_at r of None \<Rightarrow> False | Some u \<Rightarrow> since \<le> u)) t)"

definition revoke_all_for_user_returning_hashes ::
    "time \<Rightarrow> row_id \<Rightarrow> (toks, aster_error, nat \<times> string list) handler" where
  "revoke_all_for_user_returning_hashes now user_id t =
     (let before_hashes = list_active_hashes_for_user user_id t;
          revoked_since = now - secs 10;
          already = list_recent_revoked_hashes_for_user user_id revoked_since t;
          (n, t') = update_many (\<lambda>r. t_user_id r = user_id \<and> t_revoked_at r = None) (revoke_row now) t;
          recently = list_recent_revoked_hashes_for_user user_id revoked_since t';
          hashes = before_hashes @ filter (\<lambda>h. h \<notin> set already) recently
      in (Inr (n, remdups_adj (sort hashes)), t'))"

definition revoke_all_for_user_repo :: "time \<Rightarrow> row_id \<Rightarrow> (toks, aster_error, nat) handler" where
  "revoke_all_for_user_repo now user_id =
     bnd (revoke_all_for_user_returning_hashes now user_id) (\<lambda>(n, _). ret n)"

definition revoke_all_for_selected_profile :: "time \<Rightarrow> row_id \<Rightarrow> (toks, aster_error, nat) handler" where
  "revoke_all_for_selected_profile now profile_id t =
     (let (n, t') = update_many (\<lambda>r. t_selected_profile_id r = Some profile_id \<and> t_revoked_at r = None)
                      (revoke_row now) t
      in (Inr n, t'))"

definition temporarily_invalidate_all_for_selected_profile ::
    "time \<Rightarrow> row_id \<Rightarrow> (toks, aster_error, nat) handler" where
  "temporarily_invalidate_all_for_selected_profile now profile_id t =
     (let (n, t') = update_many (\<lambda>r. t_selected_profile_id r = Some profile_id \<and> t_revoked_at r = None
                                    \<and> t_temporarily_invalidated_at r = None)
                      (\<lambda>r. r\<lparr>t_temporarily_invalidated_at := Some now\<rparr>) t
      in (Inr n, t'))"

definition delete_expired :: "time \<Rightarrow> (toks, aster_error, nat) handler" where
  "delete_expired now t = (let (n, t') = delete_many (\<lambda>r. t_expires_at r < now) t in (Inr n, t'))"

definition delete_expired_or_revoked :: "time \<Rightarrow> (toks, aster_error, nat) handler" where
  "delete_expired_or_revoked now t =
     (let (n, t') = delete_many (\<lambda>r. t_expires_at r < now \<or> t_revoked_at r \<noteq> None) t in (Inr n, t'))"

fun prune_loop :: "forge \<Rightarrow> time \<Rightarrow> yggdrasil_token list \<Rightarrow> (toks, aster_error, unit) handler" where
  "prune_loop F now [] = ret ()"
| "prune_loop F now (token # tokens) =
     bnd (update_revoked F now (t_id token)) (\<lambda>_. prune_loop F now tokens)"

text \<open>A failed conversion of \<open>aster_forge_utils\<close> is an internal error.\<close>

definition utils_result :: "string + 'a \<Rightarrow> 'a result" where
  "utils_result r = map_sum InternalError id r"

definition tokens_newest_first :: "row_id \<Rightarrow> toks \<Rightarrow> yggdrasil_token list" where
  "tokens_newest_first user_id t =
     order_by_desc t_issued_at (select_all (\<lambda>r. t_user_id r = user_id \<and> t_revoked_at r = None) t)"

definition prune_oldest_for_user ::
    "forge \<Rightarrow> time \<Rightarrow> row_id \<Rightarrow> nat \<Rightarrow> (toks, aster_error, string list) handler" where
  "prune_oldest_for_user F now user_id keep_count =
     bnd (check (utils_result (u64_to_usize F keep_count ''yggdrasil token keep count''))) (\<lambda>keep.
     bnd (query (\<lambda>t. Inr (tokens_newest_first user_id t))) (\<lambda>tokens.
     bnd (prune_loop F now (drop keep tokens)) (\<lambda>_.
     ret (map t_access_token_hash (drop keep tokens)))))"

section \<open>The state of the Yggdrasil services\<close>

record 'c ygg_state =
  y_db :: db
  y_cache :: 'c

text \<open>The fields of the policy that the modelled operations read.\<close>

record ygg_policy =
  pol_allow_profile_name_login :: bool
  pol_allow_skin_upload :: bool
  pol_allow_cape_upload :: bool
  pol_token_ttl_days :: nat
  pol_max_active_tokens :: nat
  pol_max_profiles_per_user :: nat
  pol_max_profile_renames :: nat
  pol_mojang_name_check_enabled :: bool

definition on_tokens :: "(toks, 'e, 'a) handler \<Rightarrow> (db, 'e, 'a) handler" where
  "on_tokens m d = (let (r, t) = m (yggdrasil_tokens d) in (r, d\<lparr>yggdrasil_tokens := t\<rparr>))"

definition on_db :: "(db, 'e, 'a) handler \<Rightarrow> ('c ygg_state, 'e, 'a) handler" where
  "on_db m s = (let (r, d) = m (y_db s) in (r, s\<lparr>y_db := d\<rparr>))"

definition on_cache :: "('c \<Rightarrow> 'c) \<Rightarrow> ('c ygg_state, 'e, unit) handler" where
  "on_cache f s = (Inr (), s\<lparr>y_cache := f (y_cache s)\<rparr>)"

text \<open>\<open>map_err(YggdrasilError::from)\<close>\<close>

definition ygg :: "('s, aster_error, 'a) handler \<Rightarrow> ('s, yggdrasil_error, 'a) handler" where
  "ygg m s = map_prod lift_aster id (m s)"

section \<open>Issuing and refreshing\<close>

record issued_token =
  is_token_id :: row_id
  is_access_token :: string

text \<open>\<open>now + Duration::days(n)\<close> panics beyond the last instant of \<open>chrono\<close>,
  262142-12-31T23:59:59.999Z.\<close>

definition max_datetime :: time where
  "max_datetime = 8210266876799999"

definition expires_after_days :: "time \<Rightarrow> int \<Rightarrow> time result" where
  "expires_after_days now n = (if now + days n \<le> max_datetime then Inr (now + days n) else Inl Panicked)"

definition issue_token_in_connection ::
    "forge \<Rightarrow> ygg_policy \<Rightarrow> time \<Rightarrow> string \<Rightarrow> row_id \<Rightarrow> string \<Rightarrow> row_id option \<Rightarrow>
     string option \<Rightarrow> string option \<Rightarrow> (toks, aster_error, issued_token \<times> string list) handler" where
  "issue_token_in_connection F policy now access_token user_id client_token selected_profile_id ua ip =
     bnd (check (utils_result (u64_to_i64 F (pol_token_ttl_days policy) ''yggdrasil token ttl days'')))
       (\<lambda>token_ttl_days.
     bnd (check (expires_after_days now token_ttl_days)) (\<lambda>expires_at.
     bnd (token_repo_create F \<lparr>ck_user_id = user_id,
            ck_access_token_hash = sha256_hex F access_token, ck_client_token = client_token,
            ck_selected_profile_id = selected_profile_id, ck_issued_at = now,
            ck_expires_at = expires_at, ck_user_agent = ua, ck_ip_address = ip\<rparr>) (\<lambda>token.
     bnd (prune_oldest_for_user F now user_id (pol_max_active_tokens policy)) (\<lambda>pruned_hashes.
     ret (\<lparr>is_token_id = t_id token, is_access_token = access_token\<rparr>, pruned_hashes)))))"

definition invalidate_token_cache_hashes ::
    "'c cache_ops \<Rightarrow> string list \<Rightarrow> ('c ygg_state, 'e, unit) handler" where
  "invalidate_token_cache_hashes C hashes = on_cache (invalidate_tokens C hashes)"

definition issue_token ::
    "'c cache_ops \<Rightarrow> forge \<Rightarrow> ygg_policy \<Rightarrow> time \<Rightarrow> string \<Rightarrow> row_id \<Rightarrow> string \<Rightarrow> row_id option \<Rightarrow>
     string option \<Rightarrow> string option \<Rightarrow> ('c ygg_state, yggdrasil_error, issued_token) handler" where
  "issue_token C F policy now access_token user_id client_token selected_profile_id ua ip =
     bnd (ygg (on_db (transaction (on_tokens (issue_token_in_connection F policy now access_token
            user_id client_token selected_profile_id ua ip))))) (\<lambda>(issued, pruned_hashes).
     bnd (invalidate_token_cache_hashes C pruned_hashes) (\<lambda>_.
     ret issued))"

text \<open>The body of the transaction of \<open>refresh_token\<close>; its error commits nothing.\<close>

definition refresh_in_transaction ::
    "forge \<Rightarrow> ygg_policy \<Rightarrow> time \<Rightarrow> string \<Rightarrow> string \<Rightarrow> row_id \<Rightarrow> string \<Rightarrow> row_id option \<Rightarrow>
     string option \<Rightarrow> string option \<Rightarrow> (toks, yggdrasil_error, issued_token \<times> string list) handler" where
  "refresh_in_transaction F policy now old_hash access_token user_id client_token
       selected_profile_id ua ip =
     bnd (ygg (revoke_by_access_hash F now old_hash)) (\<lambda>revoked.
     if \<not> revoked then raise (ygg_error InvalidToken) else
     ygg (issue_token_in_connection F policy now access_token user_id client_token
            selected_profile_id ua ip))"

definition refresh_token ::
    "'c cache_ops \<Rightarrow> forge \<Rightarrow> ygg_policy \<Rightarrow> time \<Rightarrow> string \<Rightarrow> string \<Rightarrow> row_id \<Rightarrow> string \<Rightarrow> row_id option \<Rightarrow>
     string option \<Rightarrow> string option \<Rightarrow> ('c ygg_state, yggdrasil_error, issued_token) handler" where
  "refresh_token C F policy now access_token old_access_token user_id client_token
       selected_profile_id ua ip =
     (let old_hash = sha256_hex F old_access_token in
      bnd (on_db (transaction (on_tokens (refresh_in_transaction F policy now old_hash access_token
             user_id client_token selected_profile_id ua ip)))) (\<lambda>(issued, pruned_hashes).
      bnd (invalidate_token_cache_hashes C (pruned_hashes @ [old_hash])) (\<lambda>_.
      ret issued)))"

section \<open>Checking\<close>

definition token_for_operation ::
    "'c cache_ops \<Rightarrow> forge \<Rightarrow> scope_codec \<Rightarrow> time \<Rightarrow> string \<Rightarrow> string option \<Rightarrow> bool \<Rightarrow>
     ('c ygg_state, yggdrasil_error, yggdrasil_token) handler" where
  "token_for_operation C F J now access_token client_token allow_temporarily_invalid =
     (let h = sha256_hex F access_token in
      bnd (query (\<lambda>s. case get_token C now h (y_cache s) of
                        Some token \<Rightarrow> Inr token
                      | None \<Rightarrow> (case find_by_access_hash h (yggdrasil_tokens (y_db s)) of
                                  None \<Rightarrow> Inl (ygg_error InvalidToken)
                                | Some token \<Rightarrow> Inr token))) (\<lambda>token.
      if t_revoked_at token \<noteq> None \<or> t_expires_at token \<le> now
      then raise (ygg_error InvalidToken) else
      bnd (on_cache (set_token C now h token)) (\<lambda>_.
      if t_temporarily_invalidated_at token \<noteq> None \<and> \<not> allow_temporarily_invalid
      then raise (ygg_error InvalidToken) else
      if (case client_token of None \<Rightarrow> False | Some ct \<Rightarrow> t_client_token token \<noteq> ct)
      then raise (ygg_error InvalidToken) else
      bnd (query (\<lambda>s. Inr (is_user_banned J now (t_user_id token) YggdrasilAccess (y_db s)))) (\<lambda>banned.
      if banned then raise (ygg_error InvalidToken) else ret token))))"

definition active_token ::
    "'c cache_ops \<Rightarrow> forge \<Rightarrow> scope_codec \<Rightarrow> time \<Rightarrow> string \<Rightarrow> string option \<Rightarrow>
     ('c ygg_state, yggdrasil_error, yggdrasil_token) handler" where
  "active_token C F J now access_token client_token =
     token_for_operation C F J now access_token client_token False"

definition refreshable_token ::
    "'c cache_ops \<Rightarrow> forge \<Rightarrow> scope_codec \<Rightarrow> time \<Rightarrow> string \<Rightarrow> string option \<Rightarrow>
     ('c ygg_state, yggdrasil_error, yggdrasil_token) handler" where
  "refreshable_token C F J now access_token client_token =
     token_for_operation C F J now access_token client_token True"

definition active_token_for_protocol ::
    "'c cache_ops \<Rightarrow> forge \<Rightarrow> scope_codec \<Rightarrow> time \<Rightarrow> string \<Rightarrow>
     ('c ygg_state, yggdrasil_error, yggdrasil_token) handler" where
  "active_token_for_protocol C F J now access_token = active_token C F J now access_token None"

section \<open>Revoking\<close>

definition revoke_by_access_token ::
    "'c cache_ops \<Rightarrow> forge \<Rightarrow> time \<Rightarrow> string \<Rightarrow> ('c ygg_state, yggdrasil_error, unit) handler" where
  "revoke_by_access_token C F now access_token =
     (let h = sha256_hex F access_token in
      bnd (ygg (on_db (on_tokens (revoke_by_access_hash F now h)))) (\<lambda>_.
      on_cache (invalidate_token C h)))"

definition revoke_all_for_user ::
    "'c cache_ops \<Rightarrow> time \<Rightarrow> row_id \<Rightarrow> ('c ygg_state, yggdrasil_error, unit) handler" where
  "revoke_all_for_user C now user_id =
     bnd (ygg (on_db (on_tokens (revoke_all_for_user_returning_hashes now user_id)))) (\<lambda>(_, hashes).
     invalidate_token_cache_hashes C hashes)"

definition cleanup_expired_or_revoked_tokens ::
    "'c cache_ops \<Rightarrow> time \<Rightarrow> ('c ygg_state, aster_error, nat) handler" where
  "cleanup_expired_or_revoked_tokens C now =
     bnd (on_db (on_tokens (delete_expired_or_revoked now))) (\<lambda>removed.
     bnd (on_cache (invalidate_all_tokens C)) (\<lambda>_.
     ret removed))"

definition invalidate_token_cache_for_user ::
    "'c cache_ops \<Rightarrow> row_id \<Rightarrow> ('c ygg_state, aster_error, string list) handler" where
  "invalidate_token_cache_for_user C user_id =
     bnd (query (\<lambda>s. Inr (list_active_hashes_for_user user_id (yggdrasil_tokens (y_db s))))) (\<lambda>hashes.
     bnd (invalidate_token_cache_hashes C hashes) (\<lambda>_.
     ret hashes))"

definition invalidate_token_cache_for_selected_profile ::
    "'c cache_ops \<Rightarrow> row_id \<Rightarrow> ('c ygg_state, aster_error, string list) handler" where
  "invalidate_token_cache_for_selected_profile C profile_id =
     bnd (query (\<lambda>s. Inr (list_active_hashes_for_selected_profile profile_id
                          (yggdrasil_tokens (y_db s))))) (\<lambda>hashes.
     bnd (invalidate_token_cache_hashes C hashes) (\<lambda>_.
     ret hashes))"

section \<open>The contract of a token write\<close>

definition toks_wf :: "toks \<Rightarrow> bool" where
  "toks_wf t = (keys_ok t_id t \<and> distinct (map t_access_token_hash (rows t)))"

text \<open>What may happen to a stored token: its identity, owner, binding and expiry are fixed, and a
  revoked token stays revoked.\<close>

definition frozen :: "yggdrasil_token \<Rightarrow> yggdrasil_token \<Rightarrow> bool" where
  "frozen r r' =
     (t_id r' = t_id r \<and> t_user_id r' = t_user_id r \<and> t_access_token_hash r' = t_access_token_hash r
      \<and> t_client_token r' = t_client_token r \<and> t_selected_profile_id r' = t_selected_profile_id r
      \<and> t_issued_at r' = t_issued_at r \<and> t_expires_at r' = t_expires_at r
      \<and> (t_revoked_at r \<noteq> None \<longrightarrow> t_revoked_at r' \<noteq> None)
      \<and> (t_temporarily_invalidated_at r \<noteq> None \<longrightarrow> t_temporarily_invalidated_at r' \<noteq> None))"

definition tok_mono :: "toks \<Rightarrow> toks \<Rightarrow> bool" where
  "tok_mono t t' =
     (toks_wf t \<longrightarrow> toks_wf t' \<and> next_id t \<le> next_id t'
        \<and> (\<forall>r' \<in> set (rows t'). t_id r' < next_id t \<longrightarrow> (\<exists>r \<in> set (rows t). frozen r r')))"

lemma frozen_refl [simp]: "frozen r r"
  by (simp add: frozen_def)

lemma frozen_trans: "frozen a b \<Longrightarrow> frozen b c \<Longrightarrow> frozen a c"
  by (auto simp: frozen_def)

lemma tok_mono_refl [simp]: "tok_mono t t"
  unfolding tok_mono_def by (auto intro: frozen_refl)

lemma tok_mono_trans:
  assumes "tok_mono t t1" and "tok_mono t1 t2" shows "tok_mono t t2"
  unfolding tok_mono_def
proof (intro impI conjI ballI)
  assume wf: "toks_wf t"
  then have m1: "toks_wf t1" "next_id t \<le> next_id t1"
      "\<forall>r' \<in> set (rows t1). t_id r' < next_id t \<longrightarrow> (\<exists>r \<in> set (rows t). frozen r r')"
    using assms(1) by (simp_all add: tok_mono_def)
  then have m2: "toks_wf t2" "next_id t1 \<le> next_id t2"
      "\<forall>r' \<in> set (rows t2). t_id r' < next_id t1 \<longrightarrow> (\<exists>r \<in> set (rows t1). frozen r r')"
    using assms(2) by (simp_all add: tok_mono_def)
  show "toks_wf t2" "next_id t \<le> next_id t2" using m1 m2 by simp_all
  fix r2 assume r2: "r2 \<in> set (rows t2)" "t_id r2 < next_id t"
  then have "t_id r2 < next_id t1" using m1(2) by simp
  then obtain r1 where r1: "r1 \<in> set (rows t1)" "frozen r1 r2" using m2(3) r2(1) by blast
  then have "t_id r1 < next_id t" using r2(2) by (simp add: frozen_def)
  then obtain r where "r \<in> set (rows t)" "frozen r r1" using m1(3) r1(1) by blast
  then show "\<exists>r \<in> set (rows t). frozen r r2" using r1(2) frozen_trans by blast
qed

locale token_write =
  fixes run :: "toks \<Rightarrow> toks"
  assumes mono: "tok_mono t (run t)"
begin

lemma keeps_wf: "toks_wf t \<Longrightarrow> toks_wf (run t)"
  using mono[of t] by (simp add: tok_mono_def)

lemma revoked_stays:
  assumes "toks_wf t" and "r \<in> set (rows t)" and "t_revoked_at r \<noteq> None"
    and "r' \<in> set (rows (run t))" and "t_id r' = t_id r"
  shows "t_revoked_at r' \<noteq> None"
proof -
  have keys: "keys_ok t_id t" using assms(1) by (simp add: toks_wf_def)
  then have "t_id r' < next_id t" using assms(2,5) by (simp add: keys_ok_def)
  then obtain r0 where r0: "r0 \<in> set (rows t)" "frozen r0 r'"
    using mono[of t] assms(1,4) by (auto simp: tok_mono_def)
  then have "r0 = r"
    using keys assms(2,5) by (auto simp: frozen_def keys_ok_def distinct_map inj_on_def)
  with r0(2) assms(3) show ?thesis by (simp add: frozen_def)
qed

end

lemma tok_mono_update:
  assumes "\<And>r. p r \<Longrightarrow> frozen r (f r)"
  shows "tok_mono t (snd (update_many p f t))"
proof -
  have ids: "map t_id (rows (snd (update_many p f t))) = map t_id (rows t)"
    and hashes: "map t_access_token_hash (rows (snd (update_many p f t)))
        = map t_access_token_hash (rows t)"
    using assms by (auto simp: update_many_def frozen_def)
  have nid: "next_id (snd (update_many p f t)) = next_id t" by (simp add: update_many_def)
  have "\<forall>r' \<in> set (rows (snd (update_many p f t))). \<exists>r \<in> set (rows t). frozen r r'"
    using assms by (auto simp: update_many_def intro: frozen_refl)
  then show ?thesis
    unfolding tok_mono_def toks_wf_def keys_ok_alt ids hashes nid by blast
qed

lemma tok_mono_delete: "tok_mono t (snd (delete_many p t))"
  unfolding tok_mono_def toks_wf_def
  by (auto simp: delete_many_def keys_ok_def distinct_map_filter intro: frozen_refl)

lemma tok_mono_insert:
  assumes "\<forall>r \<in> set (rows t). t_access_token_hash r \<noteq> t_access_token_hash (mk (next_id t))"
    and "t_id (mk (next_id t)) = next_id t"
  shows "tok_mono t (snd (insert_row mk t))"
  using assms unfolding tok_mono_def toks_wf_def
  by (fastforce simp: insert_row_def Let_def keys_ok_def intro: frozen_refl)

lemma frozen_revoke [simp]: "frozen r (revoke_row now r)"
  by (simp add: frozen_def revoke_row_def)

lemma update_revoked_state:
  "snd (update_revoked F now i t) = t \<or>
   snd (update_revoked F now i t) = snd (update_many (\<lambda>r. t_id r = i) (revoke_row now) t)"
  by (auto simp: update_revoked_def statement_def update_by_key_def split: option.splits)

lemma tok_mono_update_revoked: "tok_mono t (snd (update_revoked F now i t))"
  using update_revoked_state[of F now i t] tok_mono_update[of "\<lambda>r. t_id r = i" "revoke_row now" t]
  by auto

lemma tok_mono_bnd:
  assumes "\<And>t. tok_mono t (snd (m t))" and "\<And>x t. tok_mono t (snd (k x t))"
  shows "tok_mono t (snd (bnd m k t))"
  using assms(1)[of t] tok_mono_trans[OF _ assms(2)]
  by (auto simp: bnd_def split: prod.splits sum.splits)

lemma tok_mono_reads [simp]:
  "tok_mono t (snd (query f t))" "tok_mono t (snd (check r t))" "tok_mono t (snd (ret x t))"
  "tok_mono t (snd (raise e t))"
  by (simp_all add: query_def check_def ret_def raise_def)

lemma tok_mono_prune_loop: "tok_mono t (snd (prune_loop F now tokens t))"
  by (induction tokens arbitrary: t) (auto intro!: tok_mono_bnd tok_mono_update_revoked)

lemma tok_mono_create: "tok_mono t (snd (token_repo_create F input t))"
  by (auto simp: token_repo_create_def statement_def split: prod.splits)
    (metis (no_types, lifting) snd_conv tok_mono_insert yggdrasil_token.select_convs(1,3))

lemma tok_mono_issue:
  "tok_mono t (snd (issue_token_in_connection F policy now token user_id client sel ua ip t))"
  unfolding issue_token_in_connection_def prune_oldest_for_user_def
  by (intro tok_mono_bnd tok_mono_reads tok_mono_create tok_mono_prune_loop)

interpretation create: token_write "\<lambda>t. snd (token_repo_create F input t)" for F input
  by unfold_locales (rule tok_mono_create)

interpretation issue: token_write
  "\<lambda>t. snd (issue_token_in_connection F policy now token user_id client sel ua ip t)"
  for F policy now token user_id client sel ua ip
  by unfold_locales (rule tok_mono_issue)

interpretation prune: token_write "\<lambda>t. snd (prune_oldest_for_user F now user_id n t)" for F now user_id n
  unfolding prune_oldest_for_user_def
  by unfold_locales (intro tok_mono_bnd tok_mono_reads tok_mono_prune_loop)

interpretation revoke_hash: token_write "\<lambda>t. snd (revoke_by_access_hash F now h t)" for F now h
  by unfold_locales
    (auto simp: revoke_by_access_hash_def split: option.splits
      intro!: tok_mono_bnd tok_mono_update_revoked)

interpretation revoke_user: token_write
  "\<lambda>t. snd (revoke_all_for_user_returning_hashes now user_id t)" for now user_id
  by unfold_locales
    (simp add: revoke_all_for_user_returning_hashes_def Let_def split_beta tok_mono_update)

interpretation revoke_profile: token_write
  "\<lambda>t. snd (revoke_all_for_selected_profile now profile_id t)" for now profile_id
  by unfold_locales (simp add: revoke_all_for_selected_profile_def split_beta tok_mono_update)

interpretation suspend_profile: token_write
  "\<lambda>t. snd (temporarily_invalidate_all_for_selected_profile now profile_id t)" for now profile_id
  by unfold_locales
    (simp add: temporarily_invalidate_all_for_selected_profile_def split_beta tok_mono_update frozen_def)

interpretation cleanup: token_write "\<lambda>t. snd (delete_expired_or_revoked now t)" for now
  by unfold_locales (simp add: delete_expired_or_revoked_def split_beta tok_mono_delete)

interpretation expire: token_write "\<lambda>t. snd (delete_expired now t)" for now
  by unfold_locales (simp add: delete_expired_def split_beta tok_mono_delete)

section \<open>Pruning\<close>

lemma filter_not_dropped:
  assumes "distinct (map k xs)"
  shows "filter (\<lambda>x. k x \<notin> k ` set (drop n xs)) xs = take n xs"
proof -
  have "set (map k (take n xs)) \<inter> set (map k (drop n xs)) = {}"
    using assms by (metis append_take_drop_id distinct_append map_append)
  then have "filter (\<lambda>x. k x \<notin> k ` set (drop n xs)) (take n xs) = take n xs"
    by (auto simp: filter_id_conv)
  moreover have "filter (\<lambda>x. k x \<notin> k ` set (drop n xs)) (drop n xs) = []"
    by (auto simp: filter_empty_conv)
  ultimately show ?thesis
    by (metis append.right_neutral append_take_drop_id filter_append)
qed

definition revoke_ids :: "time \<Rightarrow> row_id set \<Rightarrow> toks \<Rightarrow> toks" where
  "revoke_ids now ids t =
     t\<lparr>rows := map (\<lambda>r. if t_id r \<in> ids then revoke_row now r else r) (rows t)\<rparr>"

lemma revoke_row_id [simp]: "t_id (revoke_row now r) = t_id r" "t_user_id (revoke_row now r) = t_user_id r"
  "t_access_token_hash (revoke_row now r) = t_access_token_hash r"
  "t_revoked_at (revoke_row now r) = Some now" "revoke_row now (revoke_row now r) = revoke_row now r"
  by (simp_all add: revoke_row_def)

lemma update_revoked_Inr:
  "update_revoked F now i t = (Inr x, t') \<Longrightarrow> t' = revoke_ids now {i} t"
  by (auto simp: update_revoked_def statement_Inr update_by_key_def update_many_def revoke_ids_def
      split: option.splits)

lemma update_revoked_ok:
  assumes "r \<in> set (rows t)" and "t_id r = i"
  shows "\<exists>x. update_revoked F now i t = (Inr x, revoke_ids now {i} t)"
proof -
  obtain x where "select_one (\<lambda>r. t_id r = i) t = Some x"
    using assms select_one_None[of "\<lambda>r. t_id r = i" t] by auto
  then show ?thesis
    by (simp add: update_revoked_def statement_def update_by_key_def update_many_def revoke_ids_def)
qed

lemma revoke_ids_member: "r \<in> set (rows (revoke_ids now I t)) \<Longrightarrow> \<exists>x \<in> set (rows t). frozen x r"
  by (auto simp: revoke_ids_def intro: frozen_refl frozen_revoke)

lemma revoke_ids_hashes [simp]:
  "map t_access_token_hash (rows (revoke_ids now I t)) = map t_access_token_hash (rows t)"
  "next_id (revoke_ids now I t) = next_id t"
  by (simp_all add: revoke_ids_def)

lemma revoke_ids_twice: "revoke_ids now A (revoke_ids now B t) = revoke_ids now (A \<union> B) t"
  by (auto simp: revoke_ids_def)

lemma prune_loop_run:
  assumes "\<And>x. x \<in> set tokens \<Longrightarrow> \<exists>r \<in> set (rows t). t_id r = t_id x"
  shows "prune_loop F now tokens t = (Inr (), revoke_ids now (t_id ` set tokens) t)"
  using assms
proof (induction tokens arbitrary: t)
  case Nil
  then show ?case by (simp add: ret_def revoke_ids_def)
next
  case (Cons x xs)
  obtain y where y: "update_revoked F now (t_id x) t = (Inr y, revoke_ids now {t_id x} t)"
    using Cons.prems[of x] update_revoked_ok by fastforce
  have "\<exists>r \<in> set (rows (revoke_ids now {t_id x} t)). t_id r = t_id z" if z: "z \<in> set xs" for z
  proof -
    obtain r where r: "r \<in> set (rows t)" "t_id r = t_id z" using Cons.prems[of z] z by auto
    then have "(if t_id r \<in> {t_id x} then revoke_row now r else r)
        \<in> set (rows (revoke_ids now {t_id x} t))"
      by (auto simp: revoke_ids_def)
    moreover have "t_id (if t_id r \<in> {t_id x} then revoke_row now r else r) = t_id z" using r(2) by simp
    ultimately show ?thesis by blast
  qed
  from Cons.IH[OF this] y show ?case by (simp add: bnd_def revoke_ids_twice)
qed

lemma tokens_newest_first_set:
  "set (tokens_newest_first u t) = {r \<in> set (rows t). t_user_id r = u \<and> t_revoked_at r = None}"
  by (auto simp: tokens_newest_first_def select_all_def)

lemma tokens_newest_first_distinct:
  "keys_ok t_id t \<Longrightarrow> distinct (map t_id (tokens_newest_first u t))"
  by (simp add: tokens_newest_first_def select_all_def keys_ok_def distinct_map_filter)

lemma prune_run:
  assumes "u64_to_usize F n ''yggdrasil token keep count'' = Inr k"
  shows "prune_oldest_for_user F now u n t =
    (Inr (map t_access_token_hash (drop k (tokens_newest_first u t))),
     revoke_ids now (t_id ` set (drop k (tokens_newest_first u t))) t)"
proof -
  have "prune_loop F now (drop k (tokens_newest_first u t)) t =
      (Inr (), revoke_ids now (t_id ` set (drop k (tokens_newest_first u t))) t)"
    by (rule prune_loop_run) (use tokens_newest_first_set in_set_dropD in fastforce)
  then show ?thesis
    by (simp add: prune_oldest_for_user_def bnd_def check_def query_def ret_def assms utils_result_def)
qed

text \<open>After pruning, the user's unrevoked tokens are the \<open>k\<close> newest ones.\<close>

lemma active_after_prune:
  assumes "keys_ok t_id t"
  shows "mset (filter (\<lambda>r. t_user_id r = u \<and> t_revoked_at r = None)
      (rows (revoke_ids now (t_id ` set (drop k (tokens_newest_first u t))) t)))
    = mset (take k (tokens_newest_first u t))"
proof -
  let ?ids = "t_id ` set (drop k (tokens_newest_first u t))"
  let ?act = "\<lambda>r. t_user_id r = u \<and> t_revoked_at r = None"
  have "filter ?act (map (\<lambda>r. if t_id r \<in> I then revoke_row now r else r) rs)
      = filter (\<lambda>r. t_id r \<notin> I) (filter ?act rs)" for rs I
    by (induction rs) auto
  then have "mset (filter ?act (rows (revoke_ids now ?ids t)))
      = mset (filter (\<lambda>r. t_id r \<notin> ?ids) (filter ?act (rows t)))"
    by (simp add: revoke_ids_def)
  also have "\<dots> = mset (filter (\<lambda>r. t_id r \<notin> ?ids) (tokens_newest_first u t))"
    by (simp only: mset_filter tokens_newest_first_def select_all_def mset_order_by)
  also have "filter (\<lambda>r. t_id r \<notin> ?ids) (tokens_newest_first u t) = take k (tokens_newest_first u t)"
    using tokens_newest_first_distinct[OF assms] by (rule filter_not_dropped)
  finally show ?thesis .
qed

section \<open>What issuing and refreshing did\<close>

definition new_token ::
    "forge \<Rightarrow> time \<Rightarrow> time \<Rightarrow> string \<Rightarrow> row_id \<Rightarrow> string \<Rightarrow> row_id option \<Rightarrow> string option \<Rightarrow> string option \<Rightarrow>
     row_id \<Rightarrow> yggdrasil_token" where
  "new_token F now expires access_token user_id client_token sel ua ip i =
     \<lparr>t_id = i, t_user_id = user_id, t_access_token_hash = sha256_hex F access_token,
      t_client_token = client_token, t_selected_profile_id = sel, t_issued_at = now,
      t_expires_at = expires, t_revoked_at = None, t_temporarily_invalidated_at = None,
      t_user_agent = ua, t_ip_address = ip\<rparr>"

lemma issue_in_connection_run:
  assumes "issue_token_in_connection F policy now tok u client sel ua ip t = (Inr (iss, pruned), t')"
  shows "\<exists>n k t1. u64_to_i64 F (pol_token_ttl_days policy) ''yggdrasil token ttl days'' = Inr n
    \<and> now + days n \<le> max_datetime
    \<and> u64_to_usize F (pol_max_active_tokens policy) ''yggdrasil token keep count'' = Inr k
    \<and> (\<forall>r \<in> set (rows t). t_access_token_hash r \<noteq> sha256_hex F tok)
    \<and> t1 = t\<lparr>rows := rows t @ [new_token F now (now + days n) tok u client sel ua ip (next_id t)],
            next_id := next_id t + 1\<rparr>
    \<and> iss = \<lparr>is_token_id = next_id t, is_access_token = tok\<rparr>
    \<and> pruned = map t_access_token_hash (drop k (tokens_newest_first u t1))
    \<and> t' = revoke_ids now (t_id ` set (drop k (tokens_newest_first u t1))) t1"
proof -
  obtain n ex tk t1 p where
      n: "u64_to_i64 F (pol_token_ttl_days policy) ''yggdrasil token ttl days'' = Inr n"
      and ex: "expires_after_days now n = Inr ex"
      and cr: "token_repo_create F \<lparr>ck_user_id = u, ck_access_token_hash = sha256_hex F tok,
          ck_client_token = client, ck_selected_profile_id = sel, ck_issued_at = now,
          ck_expires_at = ex, ck_user_agent = ua, ck_ip_address = ip\<rparr> t = (Inr tk, t1)"
      and pr: "prune_oldest_for_user F now u (pol_max_active_tokens policy) t1 = (Inr pruned, t')"
      and iss: "iss = \<lparr>is_token_id = t_id tk, is_access_token = tok\<rparr>"
    using assms
    by (auto simp: issue_token_in_connection_def run_simps utils_result_def map_sum_Inr)
  obtain k where k: "u64_to_usize F (pol_max_active_tokens policy) ''yggdrasil token keep count'' = Inr k"
    using pr by (auto simp: prune_oldest_for_user_def run_simps utils_result_def map_sum_Inr)
  have "ex = now + days n" "now + days n \<le> max_datetime"
    using ex by (auto simp: expires_after_days_def split: if_splits)
  moreover have "\<forall>r \<in> set (rows t). t_access_token_hash r \<noteq> sha256_hex F tok"
    "t1 = t\<lparr>rows := rows t @ [new_token F now ex tok u client sel ua ip (next_id t)],
           next_id := next_id t + 1\<rparr>" "t_id tk = next_id t"
    using cr by (auto simp: token_repo_create_def statement_Inr insert_row_def Let_def new_token_def
        split: if_splits)
  ultimately show ?thesis using n k pr iss by (auto simp: prune_run[OF k])
qed

section \<open>The cache agrees with the database\<close>

abbreviation tokens_of :: "'c ygg_state \<Rightarrow> toks" where
  "tokens_of s \<equiv> yggdrasil_tokens (y_db s)"

definition coherent :: "'c cache_ops \<Rightarrow> 'c \<Rightarrow> toks \<Rightarrow> bool" where
  "coherent C c t =
     (\<forall>u h tk. get_token C u h c = Some tk \<longrightarrow> tk \<in> set (rows t) \<and> t_access_token_hash tk = h)"

definition ygg_wf :: "'c cache_ops \<Rightarrow> 'c ygg_state \<Rightarrow> bool" where
  "ygg_wf C s = (toks_wf (tokens_of s) \<and> coherent C (y_cache s) (tokens_of s))"

lemma coherent_change:
  assumes "coherent C c t"
    and "\<And>u h tk. get_token C u h c' = Some tk \<Longrightarrow> get_token C u h c = Some tk \<and> h \<notin> changed"
    and "\<And>r. r \<in> set (rows t) \<Longrightarrow> t_access_token_hash r \<notin> changed \<Longrightarrow> r \<in> set (rows t')"
  shows "coherent C c' t'"
  using assms unfolding coherent_def by blast

lemma find_by_hash_unique:
  assumes "toks_wf t" and "r \<in> set (rows t)"
  shows "find_by_access_hash (t_access_token_hash r) t = Some r"
  using assms by (simp add: toks_wf_def find_by_access_hash_def select_one_def find_key)

lemma coherent_lookup:
  assumes "ygg_wf C s"
  shows "(case get_token C now h (y_cache s) of
            Some token \<Rightarrow> Inr token
          | None \<Rightarrow> (case find_by_access_hash h (tokens_of s) of
                      None \<Rightarrow> Inl e | Some token \<Rightarrow> Inr token))
    = (case find_by_access_hash h (tokens_of s) of None \<Rightarrow> Inl e | Some token \<Rightarrow> Inr token)"
proof (cases "get_token C now h (y_cache s)")
  case (Some tk)
  then have "tk \<in> set (rows (tokens_of s))" "t_access_token_hash tk = h"
    using assms by (auto simp: ygg_wf_def coherent_def)
  then have "find_by_access_hash h (tokens_of s) = Some tk"
    using assms find_by_hash_unique by (fastforce simp: ygg_wf_def)
  with Some show ?thesis by simp
qed simp

text \<open>When a stored token is good for an operation.\<close>

definition token_accepted ::
    "scope_codec \<Rightarrow> db \<Rightarrow> time \<Rightarrow> string option \<Rightarrow> bool \<Rightarrow> yggdrasil_token \<Rightarrow> bool" where
  "token_accepted J d now client_token allow tk =
     (t_revoked_at tk = None \<and> now < t_expires_at tk
      \<and> (t_temporarily_invalidated_at tk = None \<or> allow)
      \<and> (case client_token of None \<Rightarrow> True | Some ct \<Rightarrow> t_client_token tk = ct)
      \<and> \<not> is_user_banned J now (t_user_id tk) YggdrasilAccess d)"

lemma is_user_banned_tokens [simp]:
  "is_user_banned J now u sc (d\<lparr>yggdrasil_tokens := t\<rparr>) = is_user_banned J now u sc d"
  by (simp add: is_user_banned_def active_user_ban_for_scope_def find_effective_for_scope_def)

lemma token_for_operation_run:
  assumes "cache_lawful C" and "ygg_wf C s"
    and "token_for_operation C F J now access_token client_token allow s = (r, s')"
  shows "r = (case find_by_access_hash (sha256_hex F access_token) (tokens_of s) of
                Some tk \<Rightarrow> if token_accepted J (y_db s) now client_token allow tk then Inr tk
                          else Inl (ygg_error InvalidToken)
              | None \<Rightarrow> Inl (ygg_error InvalidToken))
    \<and> y_db s' = y_db s \<and> ygg_wf C s'"
proof -
  let ?h = "sha256_hex F access_token"
  show ?thesis
  proof (cases "find_by_access_hash ?h (tokens_of s)")
    case None
    then show ?thesis
      using assms(2,3) coherent_lookup[OF assms(2), where now = now and h = ?h and e = "ygg_error InvalidToken"]
      by (auto simp: token_for_operation_def Let_def bnd_def query_def)
  next
    case (Some tk)
    then have tk: "tk \<in> set (rows (tokens_of s))" "t_access_token_hash tk = ?h"
      by (auto simp: find_by_access_hash_def dest: select_one_Some)
    let ?s = "s\<lparr>y_cache := set_token C now ?h tk (y_cache s)\<rparr>"
    have "coherent C (set_token C now ?h tk (y_cache s)) (tokens_of s)"
      unfolding coherent_def
      using get_token_after(1)[OF assms(1)] tk assms(2) unfolding ygg_wf_def coherent_def by blast
    then have wf: "ygg_wf C ?s" using assms(2) by (simp add: ygg_wf_def)
    have "token_for_operation C F J now access_token client_token allow s =
        (if t_revoked_at tk \<noteq> None \<or> t_expires_at tk \<le> now then (Inl (ygg_error InvalidToken), s)
         else ((if token_accepted J (y_db s) now client_token allow tk then Inr tk
                else Inl (ygg_error InvalidToken)), ?s))"
      using Some coherent_lookup[OF assms(2), where now = now and h = ?h and e = "ygg_error InvalidToken"]
      by (auto simp: token_for_operation_def Let_def handler_defs on_cache_def token_accepted_def
          split: option.splits)
    then show ?thesis
      using Some assms(2,3) wf by (auto simp: token_accepted_def split: if_splits)
  qed
qed

section \<open>Steps of the token service\<close>

text \<open>Any sequence of token operations in which no fresh access token hashes to \<open>avoid\<close>.\<close>

inductive token_steps ::
    "'c cache_ops \<Rightarrow> forge \<Rightarrow> scope_codec \<Rightarrow> string \<Rightarrow> 'c ygg_state \<Rightarrow> 'c ygg_state \<Rightarrow> bool"
  for C F J avoid s0 where
  tok_start: "token_steps C F J avoid s0 s0"
| tok_check: "token_steps C F J avoid s0 s \<Longrightarrow>
    token_steps C F J avoid s0 (snd (token_for_operation C F J now tok client allow s))"
| tok_issue: "token_steps C F J avoid s0 s \<Longrightarrow> sha256_hex F tok \<noteq> avoid \<Longrightarrow>
    token_steps C F J avoid s0 (snd (issue_token C F policy now tok user_id client sel ua ip s))"
| tok_refresh: "token_steps C F J avoid s0 s \<Longrightarrow> sha256_hex F tok \<noteq> avoid \<Longrightarrow>
    token_steps C F J avoid s0 (snd (refresh_token C F policy now tok old user_id client sel ua ip s))"
| tok_revoke: "token_steps C F J avoid s0 s \<Longrightarrow>
    token_steps C F J avoid s0 (snd (revoke_by_access_token C F now tok s))"
| tok_revoke_all: "token_steps C F J avoid s0 s \<Longrightarrow>
    token_steps C F J avoid s0 (snd (revoke_all_for_user C now user_id s))"
| tok_cleanup: "token_steps C F J avoid s0 s \<Longrightarrow>
    token_steps C F J avoid s0 (snd (cleanup_expired_or_revoked_tokens C now s))"

text \<open>No usable token with this hash is stored.\<close>

definition dead :: "string \<Rightarrow> toks \<Rightarrow> bool" where
  "dead h t = (\<forall>r \<in> set (rows t). t_access_token_hash r = h \<longrightarrow> t_revoked_at r \<noteq> None)"

lemma dead_mono:
  assumes "tok_mono t t'" and "toks_wf t" and "dead h t"
    and "\<And>r. r \<in> set (rows t') \<Longrightarrow> next_id t \<le> t_id r \<Longrightarrow> t_access_token_hash r \<noteq> h"
  shows "dead h t'"
  unfolding dead_def
proof (intro ballI impI)
  fix r' assume r': "r' \<in> set (rows t')" "t_access_token_hash r' = h"
  then have "t_id r' < next_id t" using assms(4)[of r'] by (cases "t_id r' < next_id t") auto
  then obtain r where r: "r \<in> set (rows t)" "frozen r r'"
    using assms(1,2) r'(1) unfolding tok_mono_def by blast
  then have "t_revoked_at r \<noteq> None" using assms(3) r'(2) by (simp add: dead_def frozen_def)
  then show "t_revoked_at r' \<noteq> None" using r(2) by (simp add: frozen_def)
qed

lemma new_token_fields [simp]:
  "t_id (new_token F now ex tok u client sel ua ip i) = i"
  "t_user_id (new_token F now ex tok u client sel ua ip i) = u"
  "t_access_token_hash (new_token F now ex tok u client sel ua ip i) = sha256_hex F tok"
  "t_client_token (new_token F now ex tok u client sel ua ip i) = client"
  "t_selected_profile_id (new_token F now ex tok u client sel ua ip i) = sel"
  "t_issued_at (new_token F now ex tok u client sel ua ip i) = now"
  "t_expires_at (new_token F now ex tok u client sel ua ip i) = ex"
  "t_revoked_at (new_token F now ex tok u client sel ua ip i) = None"
  "t_temporarily_invalidated_at (new_token F now ex tok u client sel ua ip i) = None"
  by (simp_all add: new_token_def)

lemma issue_effect:
  assumes "toks_wf t"
    and "issue_token_in_connection F policy now tok u client sel ua ip t = (Inr (iss, pruned), t')"
  shows "toks_wf t'"
    and "\<And>r. r \<in> set (rows t) \<Longrightarrow> t_access_token_hash r \<notin> set pruned \<Longrightarrow> r \<in> set (rows t')"
    and "sha256_hex F tok \<noteq> h \<Longrightarrow> dead h t \<Longrightarrow> dead h t'"
proof -
  obtain n k t1 where run:
      "t1 = t\<lparr>rows := rows t @ [new_token F now (now + days n) tok u client sel ua ip (next_id t)],
            next_id := next_id t + 1\<rparr>"
      "pruned = map t_access_token_hash (drop k (tokens_newest_first u t1))"
      "t' = revoke_ids now (t_id ` set (drop k (tokens_newest_first u t1))) t1"
    using issue_in_connection_run[OF assms(2)] by blast
  have mono: "tok_mono t t'" using tok_mono_issue[of t F policy now tok u client sel ua ip] assms(2) by simp
  then show "toks_wf t'" using assms(1) by (simp add: tok_mono_def)
  have lt: "t_id r < next_id t" if "r \<in> set (rows t)" for r
    using assms(1) that by (simp add: toks_wf_def keys_ok_def)
  have keys1: "keys_ok t_id t1"
    using assms(1) by (fastforce simp: run(1) toks_wf_def keys_ok_def)
  show "r \<in> set (rows t')" if r: "r \<in> set (rows t)" "t_access_token_hash r \<notin> set pruned" for r
  proof -
    have "t_id r \<notin> t_id ` set (drop k (tokens_newest_first u t1))"
    proof
      assume "t_id r \<in> t_id ` set (drop k (tokens_newest_first u t1))"
      then obtain x where x: "x \<in> set (drop k (tokens_newest_first u t1))" "t_id x = t_id r" by auto
      then have "x \<in> set (rows t1)" using tokens_newest_first_set[of u t1] in_set_dropD by fastforce
      moreover have "r \<in> set (rows t1)" using r(1) by (simp add: run(1))
      ultimately have "x = r" using keys1 x(2) by (auto simp: keys_ok_def distinct_map inj_on_def)
      then show False using x(1) r(2) by (auto simp: run(2))
    qed
    then show ?thesis using r(1) by (auto simp: run(1,3) revoke_ids_def)
  qed
  show "dead h t'" if "sha256_hex F tok \<noteq> h" "dead h t"
  proof (rule dead_mono[OF mono assms(1) that(2)])
    fix r assume r: "r \<in> set (rows t')" "next_id t \<le> t_id r"
    then obtain x where x: "x \<in> set (rows t1)" "frozen x r"
      using revoke_ids_member unfolding run(3) by blast
    then have "x \<notin> set (rows t)" using lt[of x] r(2) by (auto simp: frozen_def)
    then have "t_access_token_hash x = sha256_hex F tok" using x(1) by (simp add: run(1))
    then show "t_access_token_hash r \<noteq> h" using x(2) that(1) by (simp add: frozen_def)
  qed
qed

lemma token_id_inj:
  assumes "toks_wf t" and "r \<in> set (rows t)" and "r' \<in> set (rows t)" and "t_id r = t_id r'"
  shows "r = r'"
  using keys_ok_inj assms by (auto simp: toks_wf_def)

lemma token_hash_inj:
  assumes "toks_wf t" and "r \<in> set (rows t)" and "r' \<in> set (rows t)"
    and "t_access_token_hash r = t_access_token_hash r'"
  shows "r = r'"
  using assms by (auto simp: toks_wf_def distinct_map inj_on_def)

lemma found_by_hash:
  "find_by_access_hash h t = Some tk \<Longrightarrow> tk \<in> set (rows t) \<and> t_access_token_hash tk = h"
  by (auto simp: find_by_access_hash_def dest: select_one_Some)

lemma revoke_hash_cases [consumes 2, case_names hit miss]:
  assumes "toks_wf t" and "revoke_by_access_hash F now h t = (Inr b, t')"
  obtains (hit) tk where "b" "tk \<in> set (rows t)" "t_access_token_hash tk = h" "t_revoked_at tk = None"
      "t' = revoke_ids now {t_id tk} t"
  | (miss) "\<not> b" "t' = t" "dead h t"
proof -
  have found: "find_by_access_hash h t = Some r" if "r \<in> set (rows t)" "t_access_token_hash r = h" for r
    using find_by_hash_unique[OF assms(1) that(1)] that(2) by simp
  have "(\<exists>tk. find_by_access_hash h t = Some tk \<and> t_revoked_at tk = None \<and> b
        \<and> t' = revoke_ids now {t_id tk} t)
      \<or> (t' = t \<and> \<not> b \<and> (\<forall>tk. find_by_access_hash h t = Some tk \<longrightarrow> t_revoked_at tk \<noteq> None))"
    using assms(2)
    by (auto simp: revoke_by_access_hash_def run_simps split: option.splits if_splits
        dest: update_revoked_Inr)
  then show ?thesis
  proof (elim disjE exE conjE)
    fix tk assume tk: "find_by_access_hash h t = Some tk" "t_revoked_at tk = None" b
        "t' = revoke_ids now {t_id tk} t"
    show ?thesis
      by (rule hit[of tk]) (use tk found_by_hash[OF tk(1)] in auto)
  next
    assume "t' = t" "\<not> b" "\<forall>tk. find_by_access_hash h t = Some tk \<longrightarrow> t_revoked_at tk \<noteq> None"
    then show ?thesis using miss found unfolding dead_def by blast
  qed
qed

lemma revoke_hash_effect:
  assumes "toks_wf t" and "revoke_by_access_hash F now h t = (Inr b, t')"
  shows "toks_wf t'" and "dead h t'" and "next_id t' = next_id t"
    and "\<And>r. r \<in> set (rows t) \<Longrightarrow> t_access_token_hash r \<noteq> h \<Longrightarrow> r \<in> set (rows t')"
    and "\<And>h'. dead h' t \<Longrightarrow> dead h' t'"
    and "b \<longleftrightarrow> \<not> dead h t"
    and "set (map t_access_token_hash (rows t')) = set (map t_access_token_hash (rows t))"
proof -
  show wf: "toks_wf t'" using revoke_hash.keeps_wf[OF assms(1), of F now h] assms(2) by simp
  show nid: "next_id t' = next_id t" using assms by (cases rule: revoke_hash_cases) simp_all
  show "dead h t'"
    using assms
  proof (cases rule: revoke_hash_cases)
    case (hit tk)
    have "t_revoked_at r \<noteq> None" if r: "r \<in> set (rows t')" "t_access_token_hash r = h" for r
    proof -
      obtain x where x: "x \<in> set (rows t)" "r = (if t_id x \<in> {t_id tk} then revoke_row now x else x)"
        using r(1) by (auto simp: hit(5) revoke_ids_def)
      then have "t_access_token_hash x = h" using r(2) by (simp split: if_splits)
      then have "x = tk" using token_hash_inj[OF assms(1) x(1) hit(2)] hit(3) by simp
      then show ?thesis using x(2) by simp
    qed
    then show ?thesis by (simp add: dead_def)
  qed simp
  show "r \<in> set (rows t')" if r: "r \<in> set (rows t)" "t_access_token_hash r \<noteq> h" for r
    using assms
  proof (cases rule: revoke_hash_cases)
    case (hit tk)
    then have "t_id r \<noteq> t_id tk" using token_id_inj[OF assms(1) r(1) hit(2)] r(2) by blast
    then show ?thesis using r(1) by (auto simp: hit(5) revoke_ids_def)
  qed (use r in simp)
  have "tok_mono t t'" using revoke_hash.mono[of t F now h] assms(2) by simp
  then show "dead h' t'" if "dead h' t" for h'
  proof (rule dead_mono[OF _ assms(1) that])
    fix r assume "r \<in> set (rows t')" "next_id t \<le> t_id r"
    then show "t_access_token_hash r \<noteq> h'" using wf nid by (auto simp: toks_wf_def keys_ok_def)
  qed
  show "b \<longleftrightarrow> \<not> dead h t" using assms by (cases rule: revoke_hash_cases) (auto simp: dead_def)
  show "set (map t_access_token_hash (rows t')) = set (map t_access_token_hash (rows t))"
    using assms by (cases rule: revoke_hash_cases) (simp_all only: revoke_ids_hashes)
qed

lemma revoke_hash_shrinks:
  assumes "toks_wf t" and "revoke_by_access_hash F now h t = (Inr b, t')"
    and "r \<in> set (rows t')" and "t_revoked_at r = None"
  shows "r \<in> set (rows t)"
  using assms(1,2)
proof (cases rule: revoke_hash_cases)
  case (hit tk)
  then show ?thesis using assms(3,4) by (auto simp: revoke_ids_def split: if_splits)
qed (use assms in simp)

section \<open>The operations on the state of the services\<close>

definition put_tokens :: "toks \<Rightarrow> 'c ygg_state \<Rightarrow> 'c ygg_state" where
  "put_tokens t s = s\<lparr>y_db := (y_db s)\<lparr>yggdrasil_tokens := t\<rparr>\<rparr>"

lemma put_tokens_simps [simp]:
  "tokens_of (put_tokens t s) = t" "y_cache (put_tokens t s) = y_cache s"
  "tokens_of (s\<lparr>y_cache := c\<rparr>) = tokens_of s"
  "y_db (put_tokens t s) = (y_db s)\<lparr>yggdrasil_tokens := t\<rparr>"
  by (simp_all add: put_tokens_def)

lemma on_tokens_run: "on_db (on_tokens m) s = (let (r, t) = m (tokens_of s) in (r, put_tokens t s))"
  by (simp add: on_db_def on_tokens_def put_tokens_def Let_def split_beta)

lemma on_tokens_transaction_run:
  "on_db (transaction (on_tokens m)) s =
     (case m (tokens_of s) of (Inl e, _) \<Rightarrow> (Inl e, s) | (Inr x, t) \<Rightarrow> (Inr x, put_tokens t s))"
  by (auto simp: on_db_def on_tokens_def put_tokens_def transaction_def Let_def
      split: prod.splits sum.splits)

lemma issue_token_run:
  "issue_token C F policy now tok u client sel ua ip s =
     (case issue_token_in_connection F policy now tok u client sel ua ip (tokens_of s) of
        (Inl e, _) \<Rightarrow> (Inl (ygg_from_aster e), s)
      | (Inr (iss, pruned), t) \<Rightarrow>
          (Inr iss, (put_tokens t s)\<lparr>y_cache := invalidate_tokens C pruned (y_cache s)\<rparr>))"
  by (auto simp: issue_token_def bnd_def ygg_def on_tokens_transaction_run lift_aster_def on_cache_def
      invalidate_token_cache_hashes_def ret_def split: prod.splits sum.splits)

lemma refresh_token_run:
  "refresh_token C F policy now tok old u client sel ua ip s =
     (case refresh_in_transaction F policy now (sha256_hex F old) tok u client sel ua ip (tokens_of s) of
        (Inl e, _) \<Rightarrow> (Inl e, s)
      | (Inr (iss, pruned), t) \<Rightarrow>
          (Inr iss, (put_tokens t s)
             \<lparr>y_cache := invalidate_tokens C (pruned @ [sha256_hex F old]) (y_cache s)\<rparr>))"
  by (auto simp: refresh_token_def bnd_def on_tokens_transaction_run on_cache_def Let_def
      invalidate_token_cache_hashes_def ret_def split: prod.splits sum.splits)

lemma ygg_Inr: "ygg m s = (Inr x, s') \<longleftrightarrow> m s = (Inr x, s')"
  by (cases "m s") (auto simp: ygg_def lift_aster_def map_sum_Inr)

lemma refresh_in_transaction_Inr:
  assumes "refresh_in_transaction F policy now h tok u client sel ua ip t = (Inr x, t')"
  obtains t1 where "revoke_by_access_hash F now h t = (Inr True, t1)"
    and "issue_token_in_connection F policy now tok u client sel ua ip t1 = (Inr x, t')"
proof -
  from assms obtain b t1 where "revoke_by_access_hash F now h t = (Inr b, t1)"
      "(if \<not> b then raise (ygg_error InvalidToken) else
        ygg (issue_token_in_connection F policy now tok u client sel ua ip)) t1 = (Inr x, t')"
    by (auto simp: refresh_in_transaction_def bnd_Inr ygg_Inr)
  then show ?thesis using that[of t1] by (cases b) (auto simp: ygg_Inr raise_def)
qed

lemma revoke_hash_total:
  "\<exists>b t'. revoke_by_access_hash F now h t = (Inr b, t')"
proof (cases "find_by_access_hash h t")
  case (Some tk)
  then have "tk \<in> set (rows t)" by (auto simp: find_by_access_hash_def dest: select_one_Some)
  then show ?thesis
    using Some update_revoked_ok[of tk t "t_id tk" F now]
    by (auto simp: revoke_by_access_hash_def bnd_def ret_def)
qed (auto simp: revoke_by_access_hash_def)

lemma revoke_by_access_token_run:
  "\<exists>b t. revoke_by_access_hash F now (sha256_hex F tok) (tokens_of s) = (Inr b, t)
    \<and> revoke_by_access_token C F now tok s =
      (Inr (), (put_tokens t s)\<lparr>y_cache := invalidate_token C (sha256_hex F tok) (y_cache s)\<rparr>)"
proof -
  obtain b t where "revoke_by_access_hash F now (sha256_hex F tok) (tokens_of s) = (Inr b, t)"
    using revoke_hash_total by blast
  then show ?thesis
    by (simp add: revoke_by_access_token_def bnd_def ygg_def on_tokens_run lift_aster_def on_cache_def Let_def)
qed

lemma revoke_user_run:
  "\<exists>hashes. revoke_all_for_user_returning_hashes now u t =
      (Inr (length (filter (\<lambda>r. t_user_id r = u \<and> t_revoked_at r = None) (rows t)), hashes),
       t\<lparr>rows := map (\<lambda>r. if t_user_id r = u \<and> t_revoked_at r = None then revoke_row now r else r) (rows t)\<rparr>)
    \<and> (\<forall>r \<in> set (rows t). t_user_id r = u \<and> t_revoked_at r = None \<longrightarrow> t_access_token_hash r \<in> set hashes)"
  by (auto simp: revoke_all_for_user_returning_hashes_def update_many_def count_rows_def Let_def
      list_active_hashes_for_user_def select_all_def)

lemma revoke_all_for_user_run:
  "\<exists>hashes. revoke_all_for_user C now u s =
      (Inr (), (put_tokens ((tokens_of s)\<lparr>rows := map (\<lambda>r. if t_user_id r = u \<and> t_revoked_at r = None
          then revoke_row now r else r) (rows (tokens_of s))\<rparr>) s)
        \<lparr>y_cache := invalidate_tokens C hashes (y_cache s)\<rparr>)
    \<and> (\<forall>r \<in> set (rows (tokens_of s)). t_user_id r = u \<and> t_revoked_at r = None
        \<longrightarrow> t_access_token_hash r \<in> set hashes)"
  using revoke_user_run[of now u "tokens_of s"]
  by (auto simp: revoke_all_for_user_def bnd_def ygg_def on_tokens_run lift_aster_def on_cache_def Let_def
      invalidate_token_cache_hashes_def)

lemma cleanup_run:
  "cleanup_expired_or_revoked_tokens C now s =
     (Inr (count_rows (\<lambda>r. t_expires_at r < now \<or> t_revoked_at r \<noteq> None) (tokens_of s)),
      (put_tokens ((tokens_of s)\<lparr>rows := filter (\<lambda>r. \<not> (t_expires_at r < now \<or> t_revoked_at r \<noteq> None))
         (rows (tokens_of s))\<rparr>) s)\<lparr>y_cache := invalidate_all_tokens C (y_cache s)\<rparr>)"
  by (simp add: cleanup_expired_or_revoked_tokens_def bnd_def on_tokens_run on_cache_def ret_def
      delete_expired_or_revoked_def delete_many_def Let_def)

section \<open>The cache stays coherent\<close>

text \<open>A write of the token table followed by dropping the cache entries of the rows it touched.\<close>

lemma ygg_wf_write:
  assumes "cache_lawful C" and "ygg_wf C s" and "toks_wf t"
    and "\<And>r. r \<in> set (rows (tokens_of s)) \<Longrightarrow> t_access_token_hash r \<notin> set hashes \<Longrightarrow> r \<in> set (rows t)"
  shows "ygg_wf C ((put_tokens t s)\<lparr>y_cache := invalidate_tokens C hashes (y_cache s)\<rparr>)"
proof -
  have "coherent C (invalidate_tokens C hashes (y_cache s)) t"
  proof (rule coherent_change)
    show "coherent C (y_cache s) (tokens_of s)" using assms(2) by (simp add: ygg_wf_def)
    show "get_token C u h (y_cache s) = Some tk \<and> h \<notin> set hashes"
      if "get_token C u h (invalidate_tokens C hashes (y_cache s)) = Some tk" for u h tk
      using get_token_after(3)[OF assms(1) that] by blast
  qed (rule assms(4))
  then show ?thesis using assms(3) by (simp add: ygg_wf_def)
qed

lemma refresh_effect:
  assumes "toks_wf t"
    and "refresh_in_transaction F policy now h tok u client sel ua ip t = (Inr (iss, pruned), t')"
  shows "toks_wf t'"
    and "\<And>r. r \<in> set (rows t) \<Longrightarrow> t_access_token_hash r \<notin> set (pruned @ [h]) \<Longrightarrow> r \<in> set (rows t')"
    and "sha256_hex F tok \<noteq> h' \<Longrightarrow> dead h' t \<Longrightarrow> dead h' t'"
    and "\<not> dead h t" and "dead h t'"
proof -
  obtain t1 where t1: "revoke_by_access_hash F now h t = (Inr True, t1)"
      "issue_token_in_connection F policy now tok u client sel ua ip t1 = (Inr (iss, pruned), t')"
    using refresh_in_transaction_Inr[OF assms(2)] by blast
  note rev = revoke_hash_effect[OF assms(1) t1(1)]
  note iss = issue_effect[OF rev(1) t1(2)]
  show "toks_wf t'" by (rule iss(1))
  show "r \<in> set (rows t')" if "r \<in> set (rows t)" "t_access_token_hash r \<notin> set (pruned @ [h])" for r
    using that iss(2) rev(4) by simp
  show "dead h' t'" if "sha256_hex F tok \<noteq> h'" "dead h' t" using iss(3) rev(5) that by blast
  show alive: "\<not> dead h t" using rev(6) by simp
  have "\<forall>r \<in> set (rows t1). t_access_token_hash r \<noteq> sha256_hex F tok"
    using issue_in_connection_run[OF t1(2)] by blast
  moreover have "h \<in> set (map t_access_token_hash (rows t))" using alive by (auto simp: dead_def)
  then have "h \<in> set (map t_access_token_hash (rows t1))" unfolding rev(7) .
  ultimately have "sha256_hex F tok \<noteq> h" by auto
  then show "dead h t'" using iss(3) rev(2) by blast
qed

text \<open>What every operation keeps: the table is well formed, the cache coherent, and a dead hash dead.\<close>

definition tok_safe :: "'c cache_ops \<Rightarrow> string \<Rightarrow> 'c ygg_state \<Rightarrow> 'c ygg_state \<Rightarrow> bool" where
  "tok_safe C h s s' =
     (ygg_wf C s \<longrightarrow> ygg_wf C s' \<and> (dead h (tokens_of s) \<longrightarrow> dead h (tokens_of s')))"

lemma issue_token_safe:
  assumes "cache_lawful C" and "sha256_hex F tok \<noteq> h"
  shows "tok_safe C h s (snd (issue_token C F policy now tok u client sel ua ip s))"
proof (cases "issue_token_in_connection F policy now tok u client sel ua ip (tokens_of s)")
  case (Pair r t)
  show ?thesis
  proof (cases r)
    case (Inr x)
    obtain iss pruned where x: "x = (iss, pruned)" by (cases x)
    show ?thesis
      unfolding tok_safe_def
    proof (intro impI conjI)
      assume wf: "ygg_wf C s"
      note eff = issue_effect[OF _ Pair[unfolded Inr x]]
      have twf: "toks_wf (tokens_of s)" using wf by (simp add: ygg_wf_def)
      show "ygg_wf C (snd (issue_token C F policy now tok u client sel ua ip s))"
        using ygg_wf_write[OF assms(1) wf eff(1)[OF twf] eff(2)[OF twf]]
        by (simp add: issue_token_run Pair Inr x)
      show "dead h (tokens_of (snd (issue_token C F policy now tok u client sel ua ip s)))"
        if "dead h (tokens_of s)"
        using eff(3)[OF twf assms(2) that] by (simp add: issue_token_run Pair Inr x)
    qed
  qed (simp add: tok_safe_def issue_token_run Pair)
qed

lemma refresh_token_safe:
  assumes "cache_lawful C" and "sha256_hex F tok \<noteq> h"
  shows "tok_safe C h s (snd (refresh_token C F policy now tok old u client sel ua ip s))"
proof (cases "refresh_in_transaction F policy now (sha256_hex F old) tok u client sel ua ip (tokens_of s)")
  case (Pair r t)
  show ?thesis
  proof (cases r)
    case (Inr x)
    obtain iss pruned where x: "x = (iss, pruned)" by (cases x)
    show ?thesis
      unfolding tok_safe_def
    proof (intro impI conjI)
      assume wf: "ygg_wf C s"
      note eff = refresh_effect[OF _ Pair[unfolded Inr x]]
      have twf: "toks_wf (tokens_of s)" using wf by (simp add: ygg_wf_def)
      show "ygg_wf C (snd (refresh_token C F policy now tok old u client sel ua ip s))"
        using ygg_wf_write[OF assms(1) wf eff(1)[OF twf], of "pruned @ [sha256_hex F old]"] eff(2)[OF twf]
        by (simp add: refresh_token_run Pair Inr x)
      show "dead h (tokens_of (snd (refresh_token C F policy now tok old u client sel ua ip s)))"
        if "dead h (tokens_of s)"
        using eff(3)[OF twf assms(2) that] by (simp add: refresh_token_run Pair Inr x)
    qed
  qed (simp add: tok_safe_def refresh_token_run Pair)
qed

lemma invalidate_token_single:
  assumes "cache_lawful C" and "ygg_wf C s" and "toks_wf t"
    and "\<And>r. r \<in> set (rows (tokens_of s)) \<Longrightarrow> t_access_token_hash r \<noteq> h \<Longrightarrow> r \<in> set (rows t)"
  shows "ygg_wf C ((put_tokens t s)\<lparr>y_cache := invalidate_token C h (y_cache s)\<rparr>)"
proof -
  have "coherent C (invalidate_token C h (y_cache s)) t"
  proof (rule coherent_change)
    show "coherent C (y_cache s) (tokens_of s)" using assms(2) by (simp add: ygg_wf_def)
    show "get_token C u h' (y_cache s) = Some tk \<and> h' \<notin> {h}"
      if "get_token C u h' (invalidate_token C h (y_cache s)) = Some tk" for u h' tk
      using get_token_after(2)[OF assms(1) that] by blast
  qed (use assms(4) in blast)
  then show ?thesis using assms(3) by (simp add: ygg_wf_def)
qed

lemma revoke_token_safe:
  assumes "cache_lawful C"
  shows "tok_safe C h s (snd (revoke_by_access_token C F now tok s))"
proof -
  obtain b t where t: "revoke_by_access_hash F now (sha256_hex F tok) (tokens_of s) = (Inr b, t)"
      "revoke_by_access_token C F now tok s =
        (Inr (), (put_tokens t s)\<lparr>y_cache := invalidate_token C (sha256_hex F tok) (y_cache s)\<rparr>)"
    using revoke_by_access_token_run by blast
  note eff = revoke_hash_effect[OF _ t(1)]
  show ?thesis
    unfolding tok_safe_def
  proof (intro impI conjI)
    assume wf: "ygg_wf C s"
    then have twf: "toks_wf (tokens_of s)" by (simp add: ygg_wf_def)
    show "ygg_wf C (snd (revoke_by_access_token C F now tok s))"
      using invalidate_token_single[OF assms wf eff(1)[OF twf] eff(4)[OF twf]] by (simp add: t(2))
    show "dead h (tokens_of (snd (revoke_by_access_token C F now tok s)))" if "dead h (tokens_of s)"
      using eff(5)[OF twf that] by (simp add: t(2))
  qed
qed

lemma revoke_all_safe:
  assumes "cache_lawful C"
  shows "tok_safe C h s (snd (revoke_all_for_user C now u s))"
proof -
  let ?t = "(tokens_of s)\<lparr>rows := map (\<lambda>r. if t_user_id r = u \<and> t_revoked_at r = None
          then revoke_row now r else r) (rows (tokens_of s))\<rparr>"
  obtain hashes where run: "revoke_all_for_user C now u s =
        (Inr (), (put_tokens ?t s)\<lparr>y_cache := invalidate_tokens C hashes (y_cache s)\<rparr>)"
      "\<And>r. r \<in> set (rows (tokens_of s)) \<Longrightarrow> t_user_id r = u \<and> t_revoked_at r = None
        \<Longrightarrow> t_access_token_hash r \<in> set hashes"
    using revoke_all_for_user_run[of C now u s] by blast
  have keep: "r \<in> set (rows ?t)" if "r \<in> set (rows (tokens_of s))" "t_access_token_hash r \<notin> set hashes" for r
    using run(2)[OF that(1)] that by (auto simp: image_iff)
  have t: "?t = snd (revoke_all_for_user_returning_hashes now u (tokens_of s))"
    using revoke_user_run[of now u "tokens_of s"] by auto
  show ?thesis
    unfolding tok_safe_def
  proof (intro impI conjI)
    assume wf: "ygg_wf C s"
    then have twf: "toks_wf (tokens_of s)" by (simp add: ygg_wf_def)
    then have twf': "toks_wf ?t" unfolding t by (rule revoke_user.keeps_wf)
    show "ygg_wf C (snd (revoke_all_for_user C now u s))"
      using ygg_wf_write[OF assms wf twf' keep] by (simp add: run(1))
    show "dead h (tokens_of (snd (revoke_all_for_user C now u s)))" if "dead h (tokens_of s)"
      using that by (auto simp: run(1) dead_def)
  qed
qed

lemma cleanup_safe:
  assumes "cache_lawful C"
  shows "tok_safe C h s (snd (cleanup_expired_or_revoked_tokens C now s))"
proof -
  have "coherent C (invalidate_all_tokens C (y_cache s)) t" for t
    using get_token_after(4)[OF assms] by (simp add: coherent_def)
  then show ?thesis
    by (auto simp: tok_safe_def cleanup_run ygg_wf_def toks_wf_def keys_ok_def dead_def distinct_map_filter)
qed

lemma check_safe:
  assumes "cache_lawful C"
  shows "tok_safe C h s (snd (token_for_operation C F J now tok client allow s))"
  unfolding tok_safe_def
  using token_for_operation_run[OF assms, of s F J now tok client allow]
  by (cases "token_for_operation C F J now tok client allow s") auto

lemmas token_op_safe = check_safe issue_token_safe refresh_token_safe revoke_token_safe revoke_all_safe
  cleanup_safe

lemma tok_safe_trans: "tok_safe C h s s1 \<Longrightarrow> tok_safe C h s1 s2 \<Longrightarrow> tok_safe C h s s2"
  by (simp add: tok_safe_def)

lemma token_steps_safe:
  assumes "token_steps C F J h s s'" and "cache_lawful C"
  shows "tok_safe C h s s'"
  using assms(1)
  by induction (auto intro: tok_safe_trans token_op_safe[OF assms(2)] simp: tok_safe_def[of C h s s])

lemma dead_rejected:
  assumes "cache_lawful C" and "ygg_wf C s" and "dead (sha256_hex F tok) (tokens_of s)"
  shows "fst (token_for_operation C F J now tok client allow s) = Inl (ygg_error InvalidToken)"
proof (cases "token_for_operation C F J now tok client allow s")
  case (Pair r s')
  note run = token_for_operation_run[OF assms(1,2) Pair]
  have "t_revoked_at tk \<noteq> None" if "find_by_access_hash (sha256_hex F tok) (tokens_of s) = Some tk" for tk
    using found_by_hash[OF that] assms(3) by (auto simp: dead_def)
  then show ?thesis
    using run Pair by (auto simp: token_accepted_def split: option.splits)
qed

lemma prune_order:
  assumes "x \<in> set (take k (tokens_newest_first u t))" and "y \<in> set (drop k (tokens_newest_first u t))"
  shows "t_issued_at y \<le> t_issued_at x"
proof -
  have "sorted (map (\<lambda>r. - t_issued_at r) (take k (tokens_newest_first u t) @ drop k (tokens_newest_first u t)))"
    by (simp add: tokens_newest_first_def order_by_desc_def)
  then show ?thesis using assms unfolding map_append sorted_append by auto
qed

text \<open>A token newer than every other unrevoked token of its user survives the pruning.\<close>

lemma newest_not_pruned:
  assumes "keys_ok t_id t" and "r0 \<in> set (rows t)" and "t_user_id r0 = u" and "t_revoked_at r0 = None"
    and "0 < k"
    and "\<And>r. r \<in> set (rows t) \<Longrightarrow> t_user_id r = u \<Longrightarrow> t_revoked_at r = None \<Longrightarrow> r \<noteq> r0 \<Longrightarrow> t_issued_at r < t_issued_at r0"
  shows "t_id r0 \<notin> t_id ` set (drop k (tokens_newest_first u t))"
proof
  let ?xs = "tokens_newest_first u t"
  assume "t_id r0 \<in> t_id ` set (drop k ?xs)"
  then obtain y where y: "y \<in> set (drop k ?xs)" "t_id y = t_id r0" by auto
  then have "?xs \<noteq> []" by auto
  then obtain x where x: "x \<in> set (take k ?xs)" using assms(5) by (cases ?xs; cases k) auto
  have mem: "z \<in> set (rows t) \<and> t_user_id z = u \<and> t_revoked_at z = None" if "z \<in> set ?xs" for z
    using that tokens_newest_first_set by fastforce
  have yr: "y = r0"
    using y mem[OF in_set_dropD[OF y(1)]] assms(1,2) by (auto simp: keys_ok_def distinct_map inj_on_def)
  then have le: "t_issued_at r0 \<le> t_issued_at x" using prune_order[OF x y(1)] by simp
  have "x = r0"
    using assms(6)[of x] mem[OF in_set_takeD[OF x]] le by (cases "x = r0") auto
  then have "t_id r0 \<in> set (map t_id (take k ?xs))" "t_id r0 \<in> set (map t_id (drop k ?xs))"
    using x y yr by auto
  moreover have "distinct (map t_id (take k ?xs) @ map t_id (drop k ?xs))"
    using tokens_newest_first_distinct[OF assms(1), of u] by (metis append_take_drop_id map_append)
  ultimately show False by auto
qed

lemma issue_live:
  assumes "toks_wf t" and "conversions_ok F" and "0 < pol_max_active_tokens policy"
    and "pol_max_active_tokens policy < 2 ^ 64" and "pol_token_ttl_days policy < 2 ^ 63"
    and "\<And>r. r \<in> set (rows t) \<Longrightarrow> t_user_id r = u \<Longrightarrow> t_revoked_at r = None \<Longrightarrow> t_issued_at r < now"
    and "issue_token_in_connection F policy now tok u client sel ua ip t = (Inr (iss, pruned), t')"
  shows "find_by_access_hash (sha256_hex F tok) t' =
      Some (new_token F now (now + days (int (pol_token_ttl_days policy))) tok u client sel ua ip (next_id t))"
    and "iss = \<lparr>is_token_id = next_id t, is_access_token = tok\<rparr>"
proof -
  define r0 where
    "r0 = new_token F now (now + days (int (pol_token_ttl_days policy))) tok u client sel ua ip (next_id t)"
  have conv: "u64_to_i64 F (pol_token_ttl_days policy) l = Inr (int (pol_token_ttl_days policy))"
      "u64_to_usize F (pol_max_active_tokens policy) l = Inr (pol_max_active_tokens policy)" for l
    using assms(2,4,5) by (auto simp: conversions_ok_def)
  obtain t1 where run: "t1 = t\<lparr>rows := rows t @ [r0], next_id := next_id t + 1\<rparr>"
      "iss = \<lparr>is_token_id = next_id t, is_access_token = tok\<rparr>"
      "t' = revoke_ids now (t_id ` set (drop (pol_max_active_tokens policy) (tokens_newest_first u t1))) t1"
    using issue_in_connection_run[OF assms(7)] unfolding conv r0_def by blast
  show "iss = \<lparr>is_token_id = next_id t, is_access_token = tok\<rparr>" by (rule run(2))
  have keys: "keys_ok t_id t1"
    using assms(1) by (fastforce simp: run(1) toks_wf_def keys_ok_def r0_def)
  have "t_id r0 \<notin> t_id ` set (drop (pol_max_active_tokens policy) (tokens_newest_first u t1))"
  proof (rule newest_not_pruned[OF keys _ _ _ assms(3)])
    show "t_issued_at r < t_issued_at r0"
      if "r \<in> set (rows t1)" "t_user_id r = u" "t_revoked_at r = None" "r \<noteq> r0" for r
      using assms(6)[of r] that by (simp add: run(1) r0_def)
  qed (simp_all add: run(1) r0_def)
  then have "r0 \<in> set (rows t')" by (auto simp: run(1,3) revoke_ids_def)
  then have "find_by_access_hash (t_access_token_hash r0) t' = Some r0"
    using find_by_hash_unique[OF issue_effect(1)[OF assms(1,7)]] by blast
  then show "find_by_access_hash (sha256_hex F tok) t' =
      Some (new_token F now (now + days (int (pol_token_ttl_days policy))) tok u client sel ua ip (next_id t))"
    by (simp add: r0_def)
qed

lemma token_acceptance_fst:
  assumes "cache_lawful C" and "ygg_wf C s"
  shows "fst (token_for_operation C F J now tok client allow s) =
     (case find_by_access_hash (sha256_hex F tok) (tokens_of s) of
        Some tk \<Rightarrow> if token_accepted J (y_db s) now client allow tk then Inr tk else Inl (ygg_error InvalidToken)
      | None \<Rightarrow> Inl (ygg_error InvalidToken))"
  using token_for_operation_run[OF assms prod.collapse[symmetric]] by blast

lemma accepted_fst:
  assumes "cache_lawful C" and "ygg_wf C s"
    and "find_by_access_hash (sha256_hex F tok) (tokens_of s) = Some tk"
    and "token_accepted J (y_db s) now client allow tk"
  shows "fst (token_for_operation C F J now tok client allow s) = Inr tk"
  using token_acceptance_fst[OF assms(1,2)] assms(3,4) by simp

lemma refresh_success:
  assumes "cache_lawful C" and "ygg_wf C s" and "conversions_ok F"
    and "0 < pol_max_active_tokens policy" and "pol_max_active_tokens policy < 2 ^ 64"
    and "pol_token_ttl_days policy < 2 ^ 63"
    and "\<And>r. r \<in> set (rows (tokens_of s)) \<Longrightarrow> t_user_id r = u \<Longrightarrow> t_revoked_at r = None \<Longrightarrow> t_issued_at r < now"
    and "refresh_token C F policy now tok old u client sel ua ip s = (Inr iss, s')"
  obtains i where "ygg_wf C s'" "iss = \<lparr>is_token_id = i, is_access_token = tok\<rparr>"
    "\<not> dead (sha256_hex F old) (tokens_of s)" "dead (sha256_hex F old) (tokens_of s')"
    "find_by_access_hash (sha256_hex F tok) (tokens_of s') =
      Some (new_token F now (now + days (int (pol_token_ttl_days policy))) tok u client sel ua ip i)"
proof -
  obtain pruned where
    run: "refresh_in_transaction F policy now (sha256_hex F old) tok u client sel ua ip (tokens_of s)
        = (Inr (iss, pruned), tokens_of s')"
    using assms(8) by (auto simp: refresh_token_run split: prod.splits sum.splits)
  have twf: "toks_wf (tokens_of s)" using assms(2) by (simp add: ygg_wf_def)
  have "sha256_hex F tok \<noteq> sha256_hex F tok @ ''!''" by simp
  from refresh_token_safe[OF assms(1) this, of s policy now old u client sel ua ip] assms(2,8)
  have wf: "ygg_wf C s'" by (simp add: tok_safe_def)
  obtain t1 where t1: "revoke_by_access_hash F now (sha256_hex F old) (tokens_of s) = (Inr True, t1)"
      "issue_token_in_connection F policy now tok u client sel ua ip t1 = (Inr (iss, pruned), tokens_of s')"
    using refresh_in_transaction_Inr[OF run] by blast
  have "t_issued_at r < now"
    if "r \<in> set (rows t1)" "t_user_id r = u" "t_revoked_at r = None" for r
    using assms(7) revoke_hash_shrinks[OF twf t1(1) that(1,3)] that(2,3) by blast
  note live = issue_live[OF revoke_hash_effect(1)[OF twf t1(1)] assms(3-6) this t1(2)]
  show ?thesis
    by (rule that[OF wf live(2) refresh_effect(4,5)[OF twf run] live(1)])
qed

abbreviation unrevoked_of :: "row_id \<Rightarrow> toks \<Rightarrow> yggdrasil_token list" where
  "unrevoked_of u t \<equiv> filter (\<lambda>r. t_user_id r = u \<and> t_revoked_at r = None) (rows t)"

lemma issue_pruned:
  assumes "toks_wf t" and "conversions_ok F" and "pol_max_active_tokens policy < 2 ^ 64"
    and "issue_token_in_connection F policy now tok u client sel ua ip t = (Inr (iss, pruned), t')"
  shows "length (unrevoked_of u t') = min (pol_max_active_tokens policy) (length (unrevoked_of u t) + 1)"
    and "p \<in> set (unrevoked_of u t) \<Longrightarrow> p \<notin> set (rows t') \<Longrightarrow> q \<in> set (unrevoked_of u t')
      \<Longrightarrow> t_issued_at p \<le> t_issued_at q"
    and "r \<in> set (rows t) \<Longrightarrow> t_user_id r \<noteq> u \<Longrightarrow> r \<in> set (rows t')"
proof -
  let ?k = "pol_max_active_tokens policy"
  have conv: "u64_to_usize F ?k l = Inr ?k" for l using assms(2,3) by (auto simp: conversions_ok_def)
  obtain n t1 where run:
      "t1 = t\<lparr>rows := rows t @ [new_token F now (now + days n) tok u client sel ua ip (next_id t)],
            next_id := next_id t + 1\<rparr>"
      "t' = revoke_ids now (t_id ` set (drop ?k (tokens_newest_first u t1))) t1"
    using issue_in_connection_run[OF assms(4)] unfolding conv by blast
  have keys: "keys_ok t_id t1" using assms(1) by (fastforce simp: run(1) toks_wf_def keys_ok_def)
  then have kept: "mset (unrevoked_of u t') = mset (take ?k (tokens_newest_first u t1))"
    unfolding run(2) by (rule active_after_prune)
  have "length (unrevoked_of u t') = length (take ?k (tokens_newest_first u t1))"
    using kept by (rule mset_eq_length)
  then show "length (unrevoked_of u t') = min ?k (length (unrevoked_of u t) + 1)"
    by (simp add: tokens_newest_first_def select_all_def run(1))
  have gone: "x \<in> set (drop ?k (tokens_newest_first u t1))" if "x \<in> set (rows t)" "x \<notin> set (rows t')" for x
  proof -
    from that have x: "x \<in> set (rows t1)" "t_id x \<in> t_id ` set (drop ?k (tokens_newest_first u t1))"
      by (auto simp: run revoke_ids_def image_iff split: if_splits)
    then obtain y where y: "y \<in> set (drop ?k (tokens_newest_first u t1))" "t_id x = t_id y" by auto
    then have "y \<in> set (rows t1)" using tokens_newest_first_set[of u t1] in_set_dropD by fastforce
    then show ?thesis using keys_ok_inj[OF keys x(1) _ y(2)] y(1) by simp
  qed
  show "t_issued_at p \<le> t_issued_at q"
    if p: "p \<in> set (unrevoked_of u t)" "p \<notin> set (rows t')" and q: "q \<in> set (unrevoked_of u t')" for p q
  proof -
    have "q \<in> set (take ?k (tokens_newest_first u t1))" using kept q by (metis set_mset_mset)
    moreover have "p \<in> set (drop ?k (tokens_newest_first u t1))" using gone p by simp
    ultimately show ?thesis by (rule prune_order)
  qed
  show "r \<in> set (rows t')" if "r \<in> set (rows t)" "t_user_id r \<noteq> u"
    using gone[OF that(1)] that(2) tokens_newest_first_set[of u t1] in_set_dropD by fastforce
qed

section \<open>Sample states\<close>

definition sample_policy :: ygg_policy where
  "sample_policy = \<lparr>pol_allow_profile_name_login = True, pol_allow_skin_upload = True,
     pol_allow_cape_upload = True, pol_token_ttl_days = 15,
     pol_max_active_tokens = 2, pol_max_profiles_per_user = 5, pol_max_profile_renames = 3,
     pol_mojang_name_check_enabled = True\<rparr>"

definition no_tokens :: "mem_cache ygg_state" where
  "no_tokens = \<lparr>y_db = sample_db, y_cache = []\<rparr>"

definition one_token :: "mem_cache ygg_state" where
  "one_token = snd (issue_token mem_ops plain_forge sample_policy 1000 ''a'' 1 ''client'' None None None no_tokens)"

definition two_tokens :: "mem_cache ygg_state" where
  "two_tokens = snd (issue_token mem_ops plain_forge sample_policy 2000 ''b'' 1 ''client'' None None None one_token)"

lemma no_tokens_wf: "ygg_wf mem_ops no_tokens"
  by (simp add: ygg_wf_def no_tokens_def toks_wf_def keys_ok_def sample_db_def empty_db_def empty_table_def
      coherent_def get_token_def mem_ops_def mem_get_def)

lemma one_token_wf: "ygg_wf mem_ops one_token"
  using issue_token_safe[OF mem_ops_lawful, of plain_forge "''a''" "[]" no_tokens] no_tokens_wf
  by (simp add: tok_safe_def one_token_def)

lemma two_tokens_wf: "ygg_wf mem_ops two_tokens"
  using issue_token_safe[OF mem_ops_lawful, of plain_forge "''b''" "[]" one_token] one_token_wf
  by (simp add: tok_safe_def two_tokens_def)

lemma one_token_rows: "rows (tokens_of one_token) =
    [new_token plain_forge 1000 (1000 + days 15) ''a'' 1 ''client'' None None None 1]"
  by code_simp

lemma two_tokens_rows: "rows (tokens_of two_tokens) =
    [new_token plain_forge 1000 (1000 + days 15) ''a'' 1 ''client'' None None None 1,
     new_token plain_forge 2000 (2000 + days 15) ''b'' 1 ''client'' None None None 2]"
  by code_simp

lemma one_token_refresh: "\<exists>iss. refresh_token mem_ops plain_forge sample_policy 2000 ''n'' ''a'' 1 ''client''
    None None None one_token = (Inr iss, snd (refresh_token mem_ops plain_forge sample_policy 2000 ''n'' ''a''
      1 ''client'' None None None one_token))"
  by (rule run_ok) code_simp

section \<open>Properties\<close>

text \<open>The cached tokens never go stale.  Over any sequence of checking, issuing, refreshing, revoking,
  signing out and clean-up, each lookup of the cache that answers gives the stored row of that hash, and
  token ids and hashes stay unique.\<close>

theorem token_cache_never_stale:
  assumes "cache_lawful C" and "ygg_wf C s" and "token_steps C F J avoid s s'"
  shows "toks_wf (tokens_of s')
    \<and> (\<forall>u h tk. get_token C u h (y_cache s') = Some tk \<longrightarrow> find_by_access_hash h (tokens_of s') = Some tk)"
proof (intro conjI allI impI)
  have wf: "ygg_wf C s'" using token_steps_safe[OF assms(3,1)] assms(2) by (simp add: tok_safe_def)
  then show twf: "toks_wf (tokens_of s')" by (simp add: ygg_wf_def)
  fix u h tk assume "get_token C u h (y_cache s') = Some tk"
  then have "tk \<in> set (rows (tokens_of s'))" "t_access_token_hash tk = h"
    using wf by (auto simp: ygg_wf_def coherent_def)
  then show "find_by_access_hash h (tokens_of s') = Some tk" using find_by_hash_unique[OF twf] by blast
qed

theorem token_cache_never_stale_witness:
  "get_token mem_ops 1700 ''#a''
     (y_cache (snd (token_for_operation mem_ops plain_forge plain_codec 1500 ''a'' None False one_token)))
     = Some (new_token plain_forge 1000 (1000 + days 15) ''a'' 1 ''client'' None None None 1)
   \<and> find_by_access_hash ''#a''
     (tokens_of (snd (token_for_operation mem_ops plain_forge plain_codec 1500 ''a'' None False one_token)))
     = Some (new_token plain_forge 1000 (1000 + days 15) ''a'' 1 ''client'' None None None 1)"
proof -
  have get: "get_token mem_ops 1700 ''#a''
     (y_cache (snd (token_for_operation mem_ops plain_forge plain_codec 1500 ''a'' None False one_token)))
     = Some (new_token plain_forge 1000 (1000 + days 15) ''a'' 1 ''client'' None None None 1)"
    by code_simp
  have "token_steps mem_ops plain_forge plain_codec [] one_token
      (snd (token_for_operation mem_ops plain_forge plain_codec 1500 ''a'' None False one_token))"
    by (intro tok_check tok_start)
  from token_cache_never_stale[OF mem_ops_lawful one_token_wf this] get show ?thesis by blast
qed

text \<open>C22. A token is accepted exactly when the stored row of its hash is unrevoked, unexpired, not
  suspended (unless the operation allows that), of the client that presents it, and its owner is not
  banned from Yggdrasil access; otherwise the answer is \<open>InvalidToken\<close>.  The cache does not show,
  and checking leaves the database alone.\<close>

theorem token_acceptance:
  assumes "cache_lawful C" and "ygg_wf C s"
  shows "fst (token_for_operation C F J now access_token client_token allow s) =
      (case find_by_access_hash (sha256_hex F access_token) (tokens_of s) of
         None \<Rightarrow> Inl (ygg_error InvalidToken)
       | Some tk \<Rightarrow>
           if t_revoked_at tk = None \<and> now < t_expires_at tk
              \<and> (t_temporarily_invalidated_at tk = None \<or> allow)
              \<and> (client_token = None \<or> client_token = Some (t_client_token tk))
              \<and> \<not> is_user_banned J now (t_user_id tk) YggdrasilAccess (y_db s)
           then Inr tk else Inl (ygg_error InvalidToken))
    \<and> y_db (snd (token_for_operation C F J now access_token client_token allow s)) = y_db s"
proof (cases "token_for_operation C F J now access_token client_token allow s")
  case (Pair r s')
  from token_for_operation_run[OF assms Pair] Pair show ?thesis
    by (cases client_token) (auto simp: token_accepted_def split: option.splits)
qed

theorem token_acceptance_witness:
  "fst (token_for_operation mem_ops plain_forge plain_codec 1500 ''a'' (Some ''client'') False one_token)
     = Inr (new_token plain_forge 1000 (1000 + days 15) ''a'' 1 ''client'' None None None 1)
   \<and> fst (token_for_operation mem_ops plain_forge plain_codec 1500 ''a'' (Some ''other'') False one_token)
     = Inl (ygg_error InvalidToken)"
proof -
  have find: "find_by_access_hash ''#a'' (tokens_of one_token)
      = Some (new_token plain_forge 1000 (1000 + days 15) ''a'' 1 ''client'' None None None 1)"
    by (simp add: find_by_access_hash_def select_one_def one_token_rows)
  have "\<not> is_user_banned plain_codec 1500 1 YggdrasilAccess (y_db one_token)" by code_simp
  moreover have "1500 < 1000 + days 15" by (simp add: days_def)
  ultimately show ?thesis
    using token_acceptance[OF mem_ops_lawful one_token_wf, of plain_forge plain_codec 1500 "''a''"] find
    by simp
qed

text \<open>Refreshing rotates a token.  A refresh that fails changes nothing.  One that succeeds was
  given a token that was not revoked; from then on the old token is refused at every time, for every
  client, also by operations that allow suspended tokens, and the new token is stored for the user, the
  client and the profile with the configured lifetime and, when the policy keeps at least one token and
  the clock has advanced, is accepted until it expires unless its owner is banned.\<close>

theorem refresh_rotates:
  assumes "cache_lawful C" and "ygg_wf C s" and "conversions_ok F"
    and "0 < pol_max_active_tokens policy" and "pol_max_active_tokens policy < 2 ^ 64"
    and "pol_token_ttl_days policy < 2 ^ 63"
    and "\<forall>r \<in> set (rows (tokens_of s)). t_user_id r = u \<and> t_revoked_at r = None \<longrightarrow> t_issued_at r < now"
    and "refresh_token C F policy now tok old u client sel ua ip s = (res, s')"
  shows "case res of
      Inl e \<Rightarrow> s' = s
    | Inr iss \<Rightarrow>
        \<not> dead (sha256_hex F old) (tokens_of s)
        \<and> (\<forall>later ct allow. fst (token_for_operation C F J later old ct allow s') = Inl (ygg_error InvalidToken))
        \<and> is_access_token iss = tok
        \<and> (\<exists>tk. t_id tk = is_token_id iss \<and> t_user_id tk = u \<and> t_selected_profile_id tk = sel
            \<and> t_expires_at tk = now + days (int (pol_token_ttl_days policy))
            \<and> (\<forall>later. later < t_expires_at tk \<longrightarrow> \<not> is_user_banned J later u YggdrasilAccess (y_db s')
                 \<longrightarrow> fst (token_for_operation C F J later tok (Some client) False s') = Inr tk))"
proof (cases res)
  case (Inl e)
  then show ?thesis using assms(8) by (auto simp: refresh_token_run split: prod.splits sum.splits)
next
  case (Inr iss)
  obtain i where new: "ygg_wf C s'" "iss = \<lparr>is_token_id = i, is_access_token = tok\<rparr>"
      "\<not> dead (sha256_hex F old) (tokens_of s)" "dead (sha256_hex F old) (tokens_of s')"
      "find_by_access_hash (sha256_hex F tok) (tokens_of s') =
        Some (new_token F now (now + days (int (pol_token_ttl_days policy))) tok u client sel ua ip i)"
    by (rule refresh_success[OF assms(1-6) _ assms(8)[unfolded Inr]]) (use assms(7) in blast)+
  let ?tk = "new_token F now (now + days (int (pol_token_ttl_days policy))) tok u client sel ua ip i"
  have "fst (token_for_operation C F J later tok (Some client) False s') = Inr ?tk"
    if "later < t_expires_at ?tk" "\<not> is_user_banned J later u YggdrasilAccess (y_db s')" for later
    by (rule accepted_fst[OF assms(1) new(1,5)]) (use that in \<open>simp add: token_accepted_def\<close>)
  then have "\<exists>tk. t_id tk = is_token_id iss \<and> t_user_id tk = u \<and> t_selected_profile_id tk = sel
            \<and> t_expires_at tk = now + days (int (pol_token_ttl_days policy))
            \<and> (\<forall>later. later < t_expires_at tk \<longrightarrow> \<not> is_user_banned J later u YggdrasilAccess (y_db s')
                 \<longrightarrow> fst (token_for_operation C F J later tok (Some client) False s') = Inr tk)"
    by (intro exI[of _ ?tk]) (simp add: new(2))
  then show ?thesis
    using dead_rejected[OF assms(1) new(1,4)] new(3) by (simp add: Inr new(2))
qed

theorem refresh_rotates_witness:
  "fst (token_for_operation mem_ops plain_forge plain_codec 3000 ''a'' None True
      (snd (refresh_token mem_ops plain_forge sample_policy 2000 ''n'' ''a'' 1 ''client'' None None None one_token)))
    = Inl (ygg_error InvalidToken)"
proof -
  obtain iss where run: "refresh_token mem_ops plain_forge sample_policy 2000 ''n'' ''a'' 1 ''client'' None None
      None one_token = (Inr iss, snd (refresh_token mem_ops plain_forge sample_policy 2000 ''n'' ''a''
        1 ''client'' None None None one_token))"
    using one_token_refresh by blast
  have "\<forall>r \<in> set (rows (tokens_of one_token)). t_user_id r = 1 \<and> t_revoked_at r = None \<longrightarrow> t_issued_at r < 2000"
    by (simp add: one_token_rows)
  from refresh_rotates[OF mem_ops_lawful one_token_wf plain_forge_conversions _ _ _ this run, of plain_codec]
  show ?thesis by (simp add: sample_policy_def)
qed

text \<open>C23. Issuing a token bounds the user's unrevoked tokens by the policy.  There is one more than
  before, or the maximum; a token that issuing revoked is no newer than any that stays; tokens of other
  users are untouched.\<close>

theorem issue_keeps_newest:
  assumes "ygg_wf C s" and "conversions_ok F" and "pol_max_active_tokens policy < 2 ^ 64"
    and "issue_token C F policy now tok u client sel ua ip s = (Inr iss, s')"
  shows "length (unrevoked_of u (tokens_of s'))
      = min (pol_max_active_tokens policy) (length (unrevoked_of u (tokens_of s)) + 1)
    \<and> (\<forall>p \<in> set (unrevoked_of u (tokens_of s)). p \<notin> set (rows (tokens_of s')) \<longrightarrow>
        (\<forall>q \<in> set (unrevoked_of u (tokens_of s')). t_issued_at p \<le> t_issued_at q))
    \<and> (\<forall>r \<in> set (rows (tokens_of s)). t_user_id r \<noteq> u \<longrightarrow> r \<in> set (rows (tokens_of s')))"
proof -
  obtain pruned where "issue_token_in_connection F policy now tok u client sel ua ip (tokens_of s)
      = (Inr (iss, pruned), tokens_of s')"
    using assms(4) by (auto simp: issue_token_run split: prod.splits sum.splits)
  note eff = issue_pruned[OF _ assms(2,3) this]
  have twf: "toks_wf (tokens_of s)" using assms(1) by (simp add: ygg_wf_def)
  show ?thesis
    using eff(1)[OF twf] eff(2)[OF twf] eff(3)[OF twf] by blast
qed

theorem issue_keeps_newest_witness:
  "map t_access_token_hash (rows (tokens_of two_tokens)) = [''#a'', ''#b'']
   \<and> length (unrevoked_of 1 (tokens_of (snd (issue_token mem_ops plain_forge sample_policy 3000 ''c'' 1 ''client''
        None None None two_tokens)))) = 2"
proof -
  have "\<exists>iss. issue_token mem_ops plain_forge sample_policy 3000 ''c'' 1 ''client'' None None None two_tokens
      = (Inr iss, snd (issue_token mem_ops plain_forge sample_policy 3000 ''c'' 1 ''client'' None None None two_tokens))"
    by (rule run_ok) code_simp
  then obtain iss where run: "issue_token mem_ops plain_forge sample_policy 3000 ''c'' 1 ''client'' None None None
      two_tokens = (Inr iss, snd (issue_token mem_ops plain_forge sample_policy 3000 ''c'' 1 ''client''
        None None None two_tokens))" by blast
  have "pol_max_active_tokens sample_policy < 2 ^ 64" by (simp add: sample_policy_def)
  from issue_keeps_newest[OF two_tokens_wf plain_forge_conversions this run] show ?thesis
    by (simp add: two_tokens_rows sample_policy_def)
qed

text \<open>A revoked token is refused for good: after revoking it, and after any further token
  operations that do not issue the same access token again, every check answers
  \<open>InvalidToken\<close>.\<close>

theorem revoked_token_refused_forever:
  assumes "cache_lawful C" and "ygg_wf C s"
    and "token_steps C F J (sha256_hex F tok) (snd (revoke_by_access_token C F now tok s)) s'"
  shows "fst (token_for_operation C F J later tok client allow s') = Inl (ygg_error InvalidToken)"
proof -
  let ?s = "snd (revoke_by_access_token C F now tok s)"
  have "dead (sha256_hex F tok) (tokens_of ?s)"
    using revoke_by_access_token_run[of F now tok s C] revoke_hash_effect(2) assms(2)
    by (fastforce simp: ygg_wf_def)
  moreover have "ygg_wf C ?s" using revoke_token_safe[OF assms(1)] assms(2) by (auto simp: tok_safe_def)
  ultimately have "ygg_wf C s'" "dead (sha256_hex F tok) (tokens_of s')"
    using token_steps_safe[OF assms(3,1)] by (simp_all add: tok_safe_def)
  then show ?thesis by (rule dead_rejected[OF assms(1)])
qed

theorem revoked_token_refused_forever_witness:
  "fst (token_for_operation mem_ops plain_forge plain_codec 2500 ''a'' None True
     (snd (issue_token mem_ops plain_forge sample_policy 2000 ''b'' 1 ''client'' None None None
        (snd (revoke_by_access_token mem_ops plain_forge 1500 ''a'' one_token)))))
   = Inl (ygg_error InvalidToken)"
proof -
  have "token_steps mem_ops plain_forge plain_codec (sha256_hex plain_forge ''a'')
     (snd (revoke_by_access_token mem_ops plain_forge 1500 ''a'' one_token))
     (snd (issue_token mem_ops plain_forge sample_policy 2000 ''b'' 1 ''client'' None None None
        (snd (revoke_by_access_token mem_ops plain_forge 1500 ''a'' one_token))))"
    by (intro tok_issue tok_start) simp
  from revoked_token_refused_forever[OF mem_ops_lawful one_token_wf this] show ?thesis .
qed

text \<open>Signing a user out refuses each of the user's tokens for good, whatever token operations
  follow, and leaves the tokens of other users as they were.\<close>

theorem signout_refuses_every_token:
  assumes "cache_lawful C" and "ygg_wf C s"
    and "r \<in> set (rows (tokens_of s))" and "t_user_id r = u" and "t_access_token_hash r = sha256_hex F tok"
    and "token_steps C F J (sha256_hex F tok) (snd (revoke_all_for_user C now u s)) s'"
  shows "fst (revoke_all_for_user C now u s) = Inr ()
    \<and> fst (token_for_operation C F J later tok client allow s') = Inl (ygg_error InvalidToken)
    \<and> (\<forall>q \<in> set (rows (tokens_of s)). t_user_id q \<noteq> u \<longrightarrow>
        q \<in> set (rows (tokens_of (snd (revoke_all_for_user C now u s)))))"
proof -
  let ?s = "snd (revoke_all_for_user C now u s)"
  let ?rev = "\<lambda>q. if t_user_id q = u \<and> t_revoked_at q = None then revoke_row now q else q"
  have run: "fst (revoke_all_for_user C now u s) = Inr ()" "rows (tokens_of ?s) = map ?rev (rows (tokens_of s))"
    using revoke_all_for_user_run[of C now u s] by auto
  have "dead (sha256_hex F tok) (tokens_of ?s)"
    unfolding dead_def run(2)
  proof (intro ballI impI)
    fix q' assume q': "q' \<in> set (map ?rev (rows (tokens_of s)))" "t_access_token_hash q' = sha256_hex F tok"
    then obtain q where q: "q \<in> set (rows (tokens_of s))" "q' = ?rev q" by auto
    then have "q = r"
      using token_hash_inj[OF _ q(1) assms(3)] assms(2,5) q'(2) by (simp add: ygg_wf_def split: if_splits)
    then show "t_revoked_at q' \<noteq> None" using q(2) assms(4) by auto
  qed
  moreover have "ygg_wf C ?s" using revoke_all_safe[OF assms(1)] assms(2) by (auto simp: tok_safe_def)
  ultimately have "ygg_wf C s'" "dead (sha256_hex F tok) (tokens_of s')"
    using token_steps_safe[OF assms(6,1)] by (simp_all add: tok_safe_def)
  then show ?thesis using run dead_rejected[OF assms(1)] by force
qed

theorem signout_refuses_every_token_witness:
  "fst (token_for_operation mem_ops plain_forge plain_codec 4000 ''b'' None False
     (snd (revoke_all_for_user mem_ops 3000 1 two_tokens))) = Inl (ygg_error InvalidToken)"
  using signout_refuses_every_token[OF mem_ops_lawful two_tokens_wf, of
      "new_token plain_forge 2000 (2000 + days 15) ''b'' 1 ''client'' None None None 2" 1 plain_forge "''b''"
      plain_codec 3000, OF _ _ _ tok_start]
  by (simp add: two_tokens_rows)

text \<open>The clean-up of expired and revoked tokens cannot be observed: from its time on, every check
  answers as it would have without the clean-up.\<close>

theorem cleanup_unobservable:
  assumes "cache_lawful C" and "ygg_wf C s" and "now \<le> later"
  shows "fst (token_for_operation C F J later tok client allow (snd (cleanup_expired_or_revoked_tokens C now s)))
    = fst (token_for_operation C F J later tok client allow s)"
proof -
  let ?s = "snd (cleanup_expired_or_revoked_tokens C now s)" and ?h = "sha256_hex F tok"
  have wf: "ygg_wf C ?s" using cleanup_safe[OF assms(1)] assms(2) by (auto simp: tok_safe_def)
  have rows: "set (rows (tokens_of ?s)) = {r \<in> set (rows (tokens_of s)). \<not> (t_expires_at r < now \<or> t_revoked_at r \<noteq> None)}"
    by (auto simp: cleanup_run)
  show ?thesis
  proof (cases "find_by_access_hash ?h (tokens_of ?s)")
    case (Some tk)
    then have "find_by_access_hash ?h (tokens_of s) = Some tk"
      using found_by_hash[OF Some] rows find_by_hash_unique[of "tokens_of s" tk] assms(2)
      by (simp add: ygg_wf_def)
    with Some show ?thesis
      using token_acceptance_fst[OF assms(1) wf] token_acceptance_fst[OF assms(1,2)]
      by (simp add: token_accepted_def cleanup_run)
  next
    case None
    have "\<not> token_accepted J (y_db s) later client allow tk"
      if f: "find_by_access_hash ?h (tokens_of s) = Some tk" for tk
    proof -
      have "tk \<notin> set (rows (tokens_of ?s))"
        using None found_by_hash[OF f] by (auto simp: find_by_access_hash_def select_one_None)
      then show ?thesis using found_by_hash[OF f] rows assms(3) by (auto simp: token_accepted_def)
    qed
    with None show ?thesis
      using token_acceptance_fst[OF assms(1) wf] token_acceptance_fst[OF assms(1,2)]
      by (simp split: option.splits)
  qed
qed

theorem cleanup_unobservable_witness:
  "fst (token_for_operation mem_ops plain_forge plain_codec 3000 ''b'' None False
     (snd (cleanup_expired_or_revoked_tokens mem_ops 2500 two_tokens)))
   = fst (token_for_operation mem_ops plain_forge plain_codec 3000 ''b'' None False two_tokens)"
  by (rule cleanup_unobservable[OF mem_ops_lawful two_tokens_wf]) simp

end
