(* ===== verification/Profiles.thy ===== *)
theory Profiles
  imports Tokens
begin

text \<open>
  Minecraft profiles: \<open>db/repository/minecraft_profile_repo.rs\<close>, \<open>yggdrasil_service/profile.rs\<close> and
  the lookups by name of \<open>yggdrasil_service.rs\<close>.  The answer of the Mojang API
  (\<open>mojang.rs: lookup_profile_name\<close>) and a fresh UUID are arguments.
\<close>

section \<open>Repository\<close>

definition normalize_profile_name :: "string \<Rightarrow> string" where
  "normalize_profile_name name = to_ascii_lowercase name"

text \<open>The columns \<open>uuid\<close> and \<open>normalized_name\<close> are unique, \<open>rename_count\<close> defaults to 0.\<close>

definition create_with_source ::
    "forge \<Rightarrow> time \<Rightarrow> row_id \<Rightarrow> string \<Rightarrow> string \<Rightarrow> minecraft_profile_source \<Rightarrow> minecraft_texture_model \<Rightarrow>
     string \<Rightarrow> (db, aster_error, minecraft_profile) handler" where
  "create_with_source F now user_id uuid name source texture_model uploadable = statement (\<lambda>d.
     if \<exists>p \<in> set (rows (minecraft_profiles d)). p_uuid p = uuid
          \<or> p_normalized_name p = normalize_profile_name name
     then Inl (DatabaseOperation (db_err_text F UniqueViolation))
     else let (p, t) = insert_row (\<lambda>i. \<lparr>p_id = i, p_user_id = user_id, p_uuid = uuid, p_name = name,
                p_normalized_name = normalize_profile_name name, p_source = source,
                p_texture_model = texture_model, p_uploadable_textures = uploadable,
                p_rename_count = 0, p_created_at = now, p_updated_at = now\<rparr>) (minecraft_profiles d)
          in Inr (p, d\<lparr>minecraft_profiles := t\<rparr>))"

definition profile_repo_create ::
    "forge \<Rightarrow> time \<Rightarrow> row_id \<Rightarrow> string \<Rightarrow> string \<Rightarrow> minecraft_texture_model \<Rightarrow> string \<Rightarrow>
     (db, aster_error, minecraft_profile) handler" where
  "profile_repo_create F now user_id uuid name texture_model uploadable =
     create_with_source F now user_id uuid name SourceLocal texture_model uploadable"

definition count_by_user :: "row_id \<Rightarrow> db \<Rightarrow> nat" where
  "count_by_user user_id d = count_rows (\<lambda>p. p_user_id p = user_id) (minecraft_profiles d)"

definition find_profile_by_id :: "row_id \<Rightarrow> db \<Rightarrow> minecraft_profile result" where
  "find_profile_by_id i d =
     (case select_one (\<lambda>p. p_id p = i) (minecraft_profiles d) of
        None \<Rightarrow> Inl (RecordNotFound (''minecraft profile #'' @ show_int i))
      | Some p \<Rightarrow> Inr p)"

definition find_by_uuid :: "string \<Rightarrow> db \<Rightarrow> minecraft_profile option" where
  "find_by_uuid uuid d = select_one (\<lambda>p. p_uuid p = uuid) (minecraft_profiles d)"

definition find_by_uuid_for_user :: "string \<Rightarrow> row_id \<Rightarrow> db \<Rightarrow> minecraft_profile option" where
  "find_by_uuid_for_user uuid user_id d =
     select_one (\<lambda>p. p_uuid p = uuid \<and> p_user_id p = user_id) (minecraft_profiles d)"

definition find_by_name :: "string \<Rightarrow> db \<Rightarrow> minecraft_profile option" where
  "find_by_name name d =
     select_one (\<lambda>p. p_normalized_name p = normalize_profile_name name) (minecraft_profiles d)"

text \<open>\<open>rename_count\<close> is an \<open>i32\<close>; the release build wraps around.\<close>

definition renamed :: "time \<Rightarrow> string \<Rightarrow> minecraft_profile \<Rightarrow> minecraft_profile" where
  "renamed now name p = p\<lparr>p_name := name, p_normalized_name := normalize_profile_name name,
     p_rename_count := wrap_i32 (p_rename_count p + 1), p_updated_at := now\<rparr>"

definition update_profile_row ::
    "forge \<Rightarrow> row_id \<Rightarrow> (minecraft_profile \<Rightarrow> minecraft_profile) \<Rightarrow> (db, aster_error, minecraft_profile) handler" where
  "update_profile_row F i f = statement (\<lambda>d.
     case update_by_key F p_id i f (minecraft_profiles d) of
       Inl e \<Rightarrow> Inl e
     | Inr (p, t) \<Rightarrow> Inr (p, d\<lparr>minecraft_profiles := t\<rparr>))"

definition update_name_by_id ::
    "forge \<Rightarrow> time \<Rightarrow> row_id \<Rightarrow> string \<Rightarrow> (db, aster_error, minecraft_profile option) handler" where
  "update_name_by_id F now i name d =
     (if select_one (\<lambda>p. p_id p = i) (minecraft_profiles d) = None then (Inr None, d)
      else if \<exists>p \<in> set (rows (minecraft_profiles d)). p_id p \<noteq> i
           \<and> p_normalized_name p = normalize_profile_name name
      then (Inl (DatabaseOperation (db_err_text F UniqueViolation)), d)
      else bnd (update_profile_row F i (renamed now name)) (\<lambda>updated. ret (Some updated)) d)"

definition touch_by_id ::
    "forge \<Rightarrow> time \<Rightarrow> row_id \<Rightarrow> (db, aster_error, minecraft_profile option) handler" where
  "touch_by_id F now i d =
     (if select_one (\<lambda>p. p_id p = i) (minecraft_profiles d) = None then (Inr None, d)
      else bnd (update_profile_row F i (\<lambda>p. p\<lparr>p_updated_at := now\<rparr>)) (\<lambda>updated. ret (Some updated)) d)"

definition list_by_user :: "row_id \<Rightarrow> db \<Rightarrow> minecraft_profile list" where
  "list_by_user user_id d =
     order_by_asc p_id (select_all (\<lambda>p. p_user_id p = user_id) (minecraft_profiles d))"

definition list_by_names :: "string list \<Rightarrow> db \<Rightarrow> minecraft_profile list" where
  "list_by_names names d =
     (if names = [] then []
      else order_by_asc p_id (select_all
             (\<lambda>p. p_normalized_name p \<in> set (map normalize_profile_name names)) (minecraft_profiles d)))"

section \<open>Names\<close>

definition profile_summary :: "minecraft_profile \<Rightarrow> ygg_profile" where
  "profile_summary p =
     \<lparr>yp_id = p_uuid p, yp_name = p_name p, yp_source = None, yp_properties = None\<rparr>"

definition project_profile_summary :: "minecraft_profile \<Rightarrow> ygg_profile" where
  "project_profile_summary p =
     \<lparr>yp_id = p_uuid p, yp_name = p_name p, yp_source = Some (p_source p), yp_properties = None\<rparr>"

definition validate_profile_name :: "string \<Rightarrow> unit result" where
  "validate_profile_name name =
     (if \<not> (3 \<le> length name \<and> length name \<le> 16)
         \<or> \<not> list_all (\<lambda>b. is_ascii_alphanumeric b \<or> b = CHR ''_'') name
      then Inl (ValidationError ''profile name must be 3-16 ASCII letters, numbers, or underscores'')
      else Inr ())"

definition linuxdo_prefix :: string where
  "linuxdo_prefix = ''linuxdo_''"

definition is_reserved_linuxdo_profile_name :: "string \<Rightarrow> bool" where
  "is_reserved_linuxdo_profile_name name =
     (prefix linuxdo_prefix name
      \<and> (let subject = drop (length linuxdo_prefix) name
         in subject \<noteq> [] \<and> list_all is_ascii_digit subject))"

definition validate_reserved_profile_name :: "string \<Rightarrow> bool \<Rightarrow> unit result" where
  "validate_reserved_profile_name name allow_reserved =
     (if \<not> allow_reserved \<and> is_reserved_linuxdo_profile_name name
      then Inl (ValidationError ''profile name is reserved for LinuxDO fallback identities'')
      else Inr ())"

definition profile_name_taken :: "string \<Rightarrow> row_id \<Rightarrow> row_id option \<Rightarrow> db \<Rightarrow> bool" where
  "profile_name_taken name owner_user_id exclude d =
     ((case find_by_name name d of None \<Rightarrow> False | Some p \<Rightarrow> Some (p_id p) \<noteq> exclude)
      \<or> (case find_by_username_case_insensitive name d of None \<Rightarrow> False | Some u \<Rightarrow> u_id u \<noteq> owner_user_id))"

text \<open>\<open>username.chars().filter_map(...)\<close>: a character outside ASCII is dropped, which drops each of its
  bytes.\<close>

definition sanitize_char :: "char \<Rightarrow> char option" where
  "sanitize_char c =
     (if is_ascii_alphanumeric c then Some c
      else if c \<in> set ''_-. '' then Some CHR ''_'' else None)"

definition sanitize_external_username :: "string \<Rightarrow> string option" where
  "sanitize_external_username username =
     (let sanitized = trim_matches CHR ''_'' (List.map_filter sanitize_char username);
          name = (if length sanitized > 16 then trim_matches CHR ''_'' (take 16 sanitized) else sanitized)
      in if name = [] then None
         else let padded = name @ replicate (3 - length name) CHR ''_''
              in if \<not> list_ex is_ascii_alphanumeric padded then None else Some padded)"

section \<open>Creating profiles\<close>

definition uploadable_textures_value :: "ygg_policy \<Rightarrow> string" where
  "uploadable_textures_value policy =
     (if pol_allow_skin_upload policy
      then (if pol_allow_cape_upload policy then ''skin,cape'' else ''skin'')
      else (if pol_allow_cape_upload policy then ''cape'' else []))"

datatype mojang_lookup = MojangFound string string | MojangNotFound

record create_profile_input =
  cp_user_id :: row_id
  cp_user_role :: user_role
  cp_uuid :: string
  cp_name :: string
  cp_source :: minecraft_profile_source
  cp_allow_reserved_linuxdo_name :: bool
  cp_check_mojang_name :: bool

definition ensure_profile_creation_not_banned :: "scope_codec \<Rightarrow> time \<Rightarrow> row_id \<Rightarrow> db \<Rightarrow> unit result" where
  "ensure_profile_creation_not_banned J now user_id d =
     (case find_effective_for_scope J user_id MinecraftProfileManage now d of
        Some ban \<Rightarrow> Inl (auth_forbidden_code ''UserBanForbidden''
                     (''user is banned from '' @ ban_scope_as_str MinecraftProfileManage))
      | None \<Rightarrow> Inr ())"

definition ensure_name_not_reserved_by_mojang ::
    "(string \<Rightarrow> mojang_lookup result) \<Rightarrow> ygg_policy \<Rightarrow> string \<Rightarrow> unit result" where
  "ensure_name_not_reserved_by_mojang mojang policy name =
     (if \<not> pol_mojang_name_check_enabled policy then Inr ()
      else case mojang name of
             Inl e \<Rightarrow> Inl e
           | Inr MojangNotFound \<Rightarrow> Inr ()
           | Inr (MojangFound uuid found) \<Rightarrow>
               Inl (validation_error_code ''MinecraftProfileNameReservedByMojang''
                      ''profile name is already used by an official Minecraft account''))"

definition create_profile_with_uuid_in_connection_inner ::
    "forge \<Rightarrow> scope_codec \<Rightarrow> (string \<Rightarrow> mojang_lookup result) \<Rightarrow> ygg_policy \<Rightarrow> time \<Rightarrow>
     create_profile_input \<Rightarrow> (db, aster_error, minecraft_profile) handler" where
  "create_profile_with_uuid_in_connection_inner F J mojang policy now input =
     bnd (query (ensure_profile_creation_not_banned J now (cp_user_id input))) (\<lambda>_.
     bnd (query (\<lambda>d. if \<not> is_admin (cp_user_role input)
                        \<and> count_by_user (cp_user_id input) d \<ge> pol_max_profiles_per_user policy
                     then Inl (validation_error_code ''MinecraftProfileLimitExceeded''
                                 ''profile limit reached for this user'')
                     else Inr ())) (\<lambda>_.
     bnd (check (validate_profile_name (cp_name input))) (\<lambda>_.
     bnd (check (validate_reserved_profile_name (cp_name input) (cp_allow_reserved_linuxdo_name input))) (\<lambda>_.
     bnd (check (if cp_source input = SourceLocal \<and> cp_check_mojang_name input
                 then ensure_name_not_reserved_by_mojang mojang policy (cp_name input) else Inr ())) (\<lambda>_.
     bnd (query (\<lambda>d. if find_by_uuid (cp_uuid input) d \<noteq> None
                     then Inl (validation_error_code ''MinecraftProfileUuidTaken'' ''profile uuid already exists'')
                     else Inr ())) (\<lambda>_.
     bnd (query (\<lambda>d. if profile_name_taken (cp_name input) (cp_user_id input) None d
                     then Inl (validation_error_code ''MinecraftProfileNameTaken'' ''profile name already exists'')
                     else Inr ())) (\<lambda>_.
     create_with_source F now (cp_user_id input) (cp_uuid input) (cp_name input) (cp_source input)
       ModelDefault (uploadable_textures_value policy))))))))"

definition create_profile_with_uuid_in_connection ::
    "forge \<Rightarrow> scope_codec \<Rightarrow> (string \<Rightarrow> mojang_lookup result) \<Rightarrow> ygg_policy \<Rightarrow> time \<Rightarrow> row_id \<Rightarrow> user_role \<Rightarrow>
     string \<Rightarrow> string \<Rightarrow> minecraft_profile_source \<Rightarrow> (db, aster_error, minecraft_profile) handler" where
  "create_profile_with_uuid_in_connection F J mojang policy now user_id user_role uuid name source =
     create_profile_with_uuid_in_connection_inner F J mojang policy now
       \<lparr>cp_user_id = user_id, cp_user_role = user_role, cp_uuid = uuid, cp_name = name, cp_source = source,
        cp_allow_reserved_linuxdo_name = False, cp_check_mojang_name = False\<rparr>"

definition create_profile_inner ::
    "forge \<Rightarrow> scope_codec \<Rightarrow> (string \<Rightarrow> mojang_lookup result) \<Rightarrow> ygg_policy \<Rightarrow> time \<Rightarrow> string \<Rightarrow> row_id \<Rightarrow>
     user_role \<Rightarrow> string \<Rightarrow> bool \<Rightarrow> (db, aster_error, minecraft_profile) handler" where
  "create_profile_inner F J mojang policy now uuid user_id user_role name allow_reserved =
     create_profile_with_uuid_in_connection_inner F J mojang policy now
       \<lparr>cp_user_id = user_id, cp_user_role = user_role, cp_uuid = uuid, cp_name = name,
        cp_source = SourceLocal, cp_allow_reserved_linuxdo_name = allow_reserved,
        cp_check_mojang_name = True\<rparr>"

definition create_profile ::
    "forge \<Rightarrow> scope_codec \<Rightarrow> (string \<Rightarrow> mojang_lookup result) \<Rightarrow> ygg_policy \<Rightarrow> time \<Rightarrow> string \<Rightarrow> row_id \<Rightarrow>
     user_role \<Rightarrow> string \<Rightarrow> (db, aster_error, minecraft_profile) handler" where
  "create_profile F J mojang policy now uuid user_id user_role name =
     create_profile_inner F J mojang policy now uuid user_id user_role name False"

text \<open>\<open>create_profile_for_external_auth\<close>: the loop over the sanitised names, then the loop over the
  suffixes 1 to 99, which leaves the last candidate when all are taken.\<close>

definition external_profile_names :: "string \<Rightarrow> string option \<Rightarrow> (string \<times> bool) list" where
  "external_profile_names external_username fallback_username =
     (let first = (case sanitize_external_username external_username of None \<Rightarrow> [] | Some n \<Rightarrow> [(n, False)])
      in case fallback_username of
           None \<Rightarrow> first
         | Some fallback \<Rightarrow>
             (case sanitize_external_username fallback of
                None \<Rightarrow> first
              | Some n \<Rightarrow>
                  if list_ex (\<lambda>(m, _). to_ascii_lowercase m = to_ascii_lowercase n) first then first
                  else first @ [(n, True)]))"

fun first_free_name :: "(string \<times> bool) list \<Rightarrow> row_id \<Rightarrow> db \<Rightarrow> (string \<times> bool) option" where
  "first_free_name [] user_id d = None"
| "first_free_name ((name, allow_reserved) # names) user_id d =
     (if validate_reserved_profile_name name allow_reserved \<noteq> Inr () then first_free_name names user_id d
      else if \<not> profile_name_taken name user_id None d then Some (name, allow_reserved)
      else first_free_name names user_id d)"

definition suffixed_name :: "string \<Rightarrow> nat \<Rightarrow> string" where
  "suffixed_name name n =
     (let suffix = show_nat n in take (min (16 - length suffix) (length name)) name @ suffix)"

fun suffix_loop :: "string \<Rightarrow> row_id \<Rightarrow> db \<Rightarrow> nat list \<Rightarrow> string \<Rightarrow> string" where
  "suffix_loop name user_id d [] candidate = candidate"
| "suffix_loop name user_id d (n # ns) candidate =
     (if \<not> profile_name_taken (suffixed_name name n) user_id None d then suffixed_name name n
      else suffix_loop name user_id d ns (suffixed_name name n))"

definition create_profile_for_external_auth ::
    "forge \<Rightarrow> scope_codec \<Rightarrow> (string \<Rightarrow> mojang_lookup result) \<Rightarrow> ygg_policy \<Rightarrow> time \<Rightarrow> string \<Rightarrow> row_id \<Rightarrow>
     user_role \<Rightarrow> string \<Rightarrow> string option \<Rightarrow> (db, aster_error, minecraft_profile) handler" where
  "create_profile_for_external_auth F J mojang policy now uuid user_id user_role external fallback =
     (let names = external_profile_names external fallback in
      if names = [] then
        raise (ValidationError ''external username cannot be converted to a valid profile name'')
      else
        bnd (query (\<lambda>d. Inr (first_free_name names user_id d))) (\<lambda>free.
        case free of
          Some (name, allow_reserved) \<Rightarrow>
            create_profile_inner F J mojang policy now uuid user_id user_role name allow_reserved
        | None \<Rightarrow>
            let (name, allow_reserved) = last names in
            bnd (query (\<lambda>d. Inr (suffix_loop name user_id d [1..<100] name))) (\<lambda>candidate.
            create_profile_inner F J mojang policy now uuid user_id user_role candidate allow_reserved)))"

section \<open>Renaming profiles\<close>

record rename_profile_result =
  rn_profile :: minecraft_profile
  rn_old_name :: string
  rn_temporarily_invalidated_token_count :: nat

text \<open>The body of the transaction of \<open>rename_profile\<close>.\<close>

definition rename_in_transaction ::
    "forge \<Rightarrow> time \<Rightarrow> minecraft_profile \<Rightarrow> string \<Rightarrow> (db, aster_error, rename_profile_result) handler" where
  "rename_in_transaction F now profile new_name =
     bnd (update_name_by_id F now (p_id profile) new_name) (\<lambda>updated.
     case updated of
       None \<Rightarrow> raise (RecordNotFound (''minecraft profile '' @ [CHR 0x27] @ p_uuid profile @ [CHR 0x27]))
     | Some p \<Rightarrow>
         bnd (on_tokens (temporarily_invalidate_all_for_selected_profile now (p_id profile))) (\<lambda>n.
         ret \<lparr>rn_profile = p, rn_old_name = p_name profile, rn_temporarily_invalidated_token_count = n\<rparr>))"

definition rename_profile ::
    "'c cache_ops \<Rightarrow> forge \<Rightarrow> ygg_policy \<Rightarrow> time \<Rightarrow> minecraft_profile \<Rightarrow> string \<Rightarrow>
     ('c ygg_state, aster_error, rename_profile_result) handler" where
  "rename_profile C F policy now profile new_name =
     bnd (check (validate_profile_name new_name)) (\<lambda>_.
     bnd (check (validate_reserved_profile_name new_name False)) (\<lambda>_.
     if p_name profile = new_name then
       ret \<lparr>rn_profile = profile, rn_old_name = p_name profile, rn_temporarily_invalidated_token_count = 0\<rparr>
     else if p_source profile = SourceMicrosoft then
       raise (validation_error_code ''MinecraftProfileOfficialNameReadonly''
                ''official Minecraft profile name cannot be changed on this site'')
     else if nat (p_rename_count profile) \<ge> pol_max_profile_renames policy then
       raise (validation_error_code ''MinecraftProfileRenameLimitExceeded'' ''profile rename limit reached'')
     else
     bnd (query (\<lambda>s. Inr (profile_name_taken new_name (p_user_id profile) (Some (p_id profile)) (y_db s)))) (\<lambda>taken.
     if taken then
       raise (validation_error_code ''MinecraftProfileNameTaken'' ''profile name already exists'')
     else
     bnd (invalidate_token_cache_for_selected_profile C (p_id profile)) (\<lambda>token_hashes.
     bnd (on_db (transaction (rename_in_transaction F now profile new_name))) (\<lambda>result.
     bnd (invalidate_token_cache_hashes C token_hashes) (\<lambda>_.
     bnd (on_cache (invalidate_profile_name_summary C (rn_old_name result))) (\<lambda>_.
     bnd (on_cache (invalidate_profile_name_summary C (p_name (rn_profile result)))) (\<lambda>_.
     ret result))))))))"

definition rename_profile_for_user ::
    "'c cache_ops \<Rightarrow> forge \<Rightarrow> scope_codec \<Rightarrow> ygg_policy \<Rightarrow> time \<Rightarrow> row_id \<Rightarrow> string \<Rightarrow> string \<Rightarrow>
     ('c ygg_state, aster_error, rename_profile_result option) handler" where
  "rename_profile_for_user C F J policy now user_id uuid new_name =
     bnd (query (\<lambda>s. ensure_user_not_banned J now user_id MinecraftProfileManage (y_db s))) (\<lambda>_.
     bnd (check (validate_profile_name new_name)) (\<lambda>_.
     bnd (check (validate_reserved_profile_name new_name False)) (\<lambda>_.
     bnd (query (\<lambda>s. Inr (find_by_uuid_for_user uuid user_id (y_db s)))) (\<lambda>found.
     case found of
       None \<Rightarrow> ret None
     | Some profile \<Rightarrow>
         bnd (rename_profile C F policy now profile new_name) (\<lambda>result. ret (Some result))))))"

section \<open>Looking profiles up by name\<close>

definition profiles_by_names ::
    "'c cache_ops \<Rightarrow> time \<Rightarrow> string list \<Rightarrow> ('c ygg_state, yggdrasil_error, ygg_profile list) handler" where
  "profiles_by_names C now names s =
     (if length names > 100 then (Inl (ygg_error TooManyProfilesRequested), s)
      else
        let hits = List.map_filter (\<lambda>n. get_profile_name_summary C now n (y_cache s)) names;
            missed = filter (\<lambda>n. get_profile_name_summary C now n (y_cache s) = None) names
        in if missed = [] then (Inr hits, s)
           else let fresh = map profile_summary (list_by_names missed (y_db s))
                in (Inr (hits @ fresh),
                    s\<lparr>y_cache := fold (set_profile_name_summary C now) fresh (y_cache s)\<rparr>))"

section \<open>Well-formed profiles\<close>

definition profiles_wf :: "db \<Rightarrow> bool" where
  "profiles_wf d =
     (keys_ok p_id (minecraft_profiles d)
      \<and> distinct (map p_uuid (rows (minecraft_profiles d)))
      \<and> distinct (map p_normalized_name (rows (minecraft_profiles d)))
      \<and> (\<forall>p \<in> set (rows (minecraft_profiles d)).
           p_normalized_name p = normalize_profile_name (p_name p) \<and> validate_profile_name (p_name p) = Inr ()))"

definition new_profile :: "ygg_policy \<Rightarrow> time \<Rightarrow> create_profile_input \<Rightarrow> row_id \<Rightarrow> minecraft_profile" where
  "new_profile policy now input i =
     \<lparr>p_id = i, p_user_id = cp_user_id input, p_uuid = cp_uuid input, p_name = cp_name input,
      p_normalized_name = normalize_profile_name (cp_name input), p_source = cp_source input,
      p_texture_model = ModelDefault, p_uploadable_textures = uploadable_textures_value policy,
      p_rename_count = 0, p_created_at = now, p_updated_at = now\<rparr>"

text \<open>When a profile may be created.\<close>

definition creation_allowed ::
    "scope_codec \<Rightarrow> (string \<Rightarrow> mojang_lookup result) \<Rightarrow> ygg_policy \<Rightarrow> time \<Rightarrow> create_profile_input \<Rightarrow> db \<Rightarrow> bool" where
  "creation_allowed J mojang policy now input d =
     (\<not> is_user_banned J now (cp_user_id input) MinecraftProfileManage d
      \<and> (is_admin (cp_user_role input) \<or> count_by_user (cp_user_id input) d < pol_max_profiles_per_user policy)
      \<and> validate_profile_name (cp_name input) = Inr ()
      \<and> (cp_allow_reserved_linuxdo_name input \<or> \<not> is_reserved_linuxdo_profile_name (cp_name input))
      \<and> (cp_source input = SourceLocal \<and> cp_check_mojang_name input \<and> pol_mojang_name_check_enabled policy
          \<longrightarrow> mojang (cp_name input) = Inr MojangNotFound)
      \<and> (\<forall>p \<in> set (rows (minecraft_profiles d)). p_uuid p \<noteq> cp_uuid input)
      \<and> \<not> profile_name_taken (cp_name input) (cp_user_id input) None d)"

lemma not_taken_free:
  "\<not> profile_name_taken name u None d \<Longrightarrow> p \<in> set (rows (minecraft_profiles d))
    \<Longrightarrow> p_normalized_name p \<noteq> normalize_profile_name name"
  by (auto simp: profile_name_taken_def find_by_name_def select_one_None split: option.splits)

lemma ensure_creation_Inr:
  "ensure_profile_creation_not_banned J now u d = Inr x \<longleftrightarrow> \<not> is_user_banned J now u MinecraftProfileManage d"
  by (auto simp: ensure_profile_creation_not_banned_def is_user_banned_def active_user_ban_for_scope_def
      split: option.splits)

lemma ensure_mojang_Inr:
  "ensure_name_not_reserved_by_mojang mojang policy name = Inr x \<longleftrightarrow>
     (pol_mojang_name_check_enabled policy \<longrightarrow> mojang name = Inr MojangNotFound)"
  by (auto simp: ensure_name_not_reserved_by_mojang_def split: sum.splits mojang_lookup.splits)

lemma validate_reserved_Inr:
  "validate_reserved_profile_name name allow = Inr x \<longleftrightarrow> allow \<or> \<not> is_reserved_linuxdo_profile_name name"
  by (auto simp: validate_reserved_profile_name_def)

lemma if_Inl_Inr: "(if c then Inl e else Inr ()) = Inr x \<longleftrightarrow> \<not> c"
  by simp

lemma create_with_source_Inr:
  "create_with_source F now u uuid name source model upl d = (Inr p, d') \<longleftrightarrow>
     (\<forall>q \<in> set (rows (minecraft_profiles d)). p_uuid q \<noteq> uuid
        \<and> p_normalized_name q \<noteq> normalize_profile_name name)
     \<and> p = \<lparr>p_id = next_id (minecraft_profiles d), p_user_id = u, p_uuid = uuid, p_name = name,
          p_normalized_name = normalize_profile_name name, p_source = source, p_texture_model = model,
          p_uploadable_textures = upl, p_rename_count = 0, p_created_at = now, p_updated_at = now\<rparr>
     \<and> d' = d\<lparr>minecraft_profiles := (minecraft_profiles d)
          \<lparr>rows := rows (minecraft_profiles d) @ [p], next_id := next_id (minecraft_profiles d) + 1\<rparr>\<rparr>"
  by (auto simp: create_with_source_def statement_Inr insert_row_def Let_def)

lemma create_inner_Inr:
  "create_profile_with_uuid_in_connection_inner F J mojang policy now input d = (Inr p, d') \<longleftrightarrow>
     creation_allowed J mojang policy now input d
     \<and> p = new_profile policy now input (next_id (minecraft_profiles d))
     \<and> d' = d\<lparr>minecraft_profiles := (minecraft_profiles d)
          \<lparr>rows := rows (minecraft_profiles d) @ [p], next_id := next_id (minecraft_profiles d) + 1\<rparr>\<rparr>"
proof -
  have "find_by_uuid (cp_uuid input) d = None \<longleftrightarrow>
      (\<forall>p \<in> set (rows (minecraft_profiles d)). p_uuid p \<noteq> cp_uuid input)"
    by (simp add: find_by_uuid_def select_one_None)
  moreover have "(if cp_source input = SourceLocal \<and> cp_check_mojang_name input
        then ensure_name_not_reserved_by_mojang mojang policy (cp_name input) else Inr ()) = Inr x \<longleftrightarrow>
      (cp_source input = SourceLocal \<and> cp_check_mojang_name input \<and> pol_mojang_name_check_enabled policy
          \<longrightarrow> mojang (cp_name input) = Inr MojangNotFound)" for x
    by (auto simp: ensure_mojang_Inr)
  ultimately show ?thesis
    unfolding create_profile_with_uuid_in_connection_inner_def creation_allowed_def
    by (simp add: run_simps if_Inl_Inr ensure_creation_Inr validate_reserved_Inr create_with_source_Inr
        new_profile_def not_le del: if_split_asm)
      (use not_taken_free in \<open>blast\<close>)
qed

lemma create_inner_atomic:
  "atomic_handler (create_profile_with_uuid_in_connection_inner F J mojang policy now input)"
  unfolding create_profile_with_uuid_in_connection_inner_def create_with_source_def by blast

section \<open>Sanitised names\<close>

lemma name_char_sanitize:
  assumes "sanitize_char c = Some c'" shows "is_ascii_alphanumeric c' \<or> c' = CHR ''_''"
  using assms by (auto simp: sanitize_char_def split: if_splits)

lemma validate_profile_name_Inr:
  "validate_profile_name name = Inr x \<longleftrightarrow> 3 \<le> length name \<and> length name \<le> 16
     \<and> (\<forall>c \<in> set name. is_ascii_alphanumeric c \<or> c = CHR ''_'')"
  by (auto simp: validate_profile_name_def list_all_iff)

lemma sanitize_valid:
  assumes "sanitize_external_username u = Some n" shows "validate_profile_name n = Inr ()"
proof -
  let ?ok = "\<lambda>c. is_ascii_alphanumeric c \<or> c = CHR ''_''"
  define s1 where "s1 = trim_matches CHR ''_'' (List.map_filter sanitize_char u)"
  define s2 where "s2 = (if length s1 > 16 then trim_matches CHR ''_'' (take 16 s1) else s1)"
  have n: "n = s2 @ replicate (3 - length s2) CHR ''_''"
    using assms by (auto simp: sanitize_external_username_def s1_def s2_def Let_def split: if_splits)
  have "\<forall>c \<in> set (List.map_filter sanitize_char u). ?ok c"
    using name_char_sanitize by (auto simp: List.map_filter_def)
  then have ok1: "\<forall>c \<in> set s1. ?ok c" using trim_matches_set unfolding s1_def by fastforce
  have len2: "length s2 \<le> 16"
    using trim_matches_length[of "CHR ''_''" "take 16 s1"] by (auto simp: s2_def)
  have "set (trim_matches CHR ''_'' (take 16 s1)) \<subseteq> set s1"
    using trim_matches_set[of "CHR ''_''" "take 16 s1"] set_take_subset[of 16 s1] by blast
  with ok1 have "\<forall>c \<in> set s2. ?ok c" by (auto simp: s2_def)
  with len2 show ?thesis by (auto simp: validate_profile_name_Inr n)
qed

lemma show_nat_digits: "\<forall>c \<in> set (show_nat n). is_ascii_digit c"
  using show_nat_chars digit_byte by (fastforce simp: is_ascii_digit_def byte_def)

lemma suffix_digits:
  assumes "n \<in> {1..<100}"
  shows "(\<forall>c \<in> set (show_nat n). is_ascii_digit c) \<and> 0 < length (show_nat n) \<and> length (show_nat n) \<le> 2"
proof -
  have "length (show_nat m) = 1" if "m < 10" for m using that by (subst show_nat.simps) simp
  moreover have "n div 10 < 10" using assms by auto
  ultimately have "length (show_nat n) = (if n < 10 then 1 else 2)" by (subst show_nat.simps) simp
  then show ?thesis using show_nat_digits by simp
qed

lemma suffixed_valid:
  assumes "validate_profile_name name = Inr ()" and "n \<in> {1..<100}"
  shows "validate_profile_name (suffixed_name name n) = Inr ()"
proof -
  have ds: "\<forall>c \<in> set (show_nat n). is_ascii_digit c" "0 < length (show_nat n)" "length (show_nat n) \<le> 2"
    using suffix_digits[OF assms(2)] by auto
  have nm: "3 \<le> length name" "\<forall>c \<in> set name. is_ascii_alphanumeric c \<or> c = CHR ''_''"
    using assms(1) by (auto simp: validate_profile_name_Inr)
  have "length (suffixed_name name n) = min (16 - length (show_nat n)) (length name) + length (show_nat n)"
    by (simp add: suffixed_name_def Let_def)
  moreover have "\<forall>c \<in> set (suffixed_name name n). is_ascii_alphanumeric c \<or> c = CHR ''_''"
    using ds(1) nm(2) by (auto simp: suffixed_name_def Let_def is_ascii_alphanumeric_def dest: in_set_takeD)
  ultimately show ?thesis using ds nm unfolding validate_profile_name_Inr by linarith
qed

lemma external_names_valid:
  assumes "(n, allow) \<in> set (external_profile_names ext fb)" shows "validate_profile_name n = Inr ()"
  using assms sanitize_valid
  by (auto simp: external_profile_names_def Let_def split: option.splits if_splits)

lemma first_free_name_Some:
  assumes "first_free_name names u d = Some (n, allow)"
  shows "(n, allow) \<in> set names \<and> \<not> profile_name_taken n u None d"
  using assms by (induction names u d rule: first_free_name.induct) (auto split: if_splits)

lemma first_free_name_None:
  assumes "first_free_name names u d = None" and "(n, allow) \<in> set names"
    and "allow \<or> \<not> is_reserved_linuxdo_profile_name n"
  shows "profile_name_taken n u None d"
  using assms
  by (induction names u d rule: first_free_name.induct) (auto simp: validate_reserved_Inr split: if_splits)

lemma suffix_loop_free:
  assumes "n \<in> set ns" and "\<not> profile_name_taken (suffixed_name name n) u None d"
  shows "\<not> profile_name_taken (suffix_loop name u d ns c) u None d"
  using assms by (induction ns arbitrary: c) auto

lemma suffix_loop_candidate:
  assumes "ns \<noteq> []" shows "\<exists>n \<in> set ns. suffix_loop name u d ns c = suffixed_name name n"
  using assms
proof (induction ns arbitrary: c)
  case (Cons n ns)
  then show ?case by (cases "ns = []") auto
qed simp

text \<open>The name the service tries to register.\<close>

definition external_choice :: "(string \<times> bool) list \<Rightarrow> row_id \<Rightarrow> db \<Rightarrow> string \<times> bool" where
  "external_choice names u d =
     (case first_free_name names u d of
        Some x \<Rightarrow> x
      | None \<Rightarrow> (suffix_loop (fst (last names)) u d [1..<100] (fst (last names)), snd (last names)))"

lemma external_auth_run:
  assumes "external_profile_names ext fb \<noteq> []"
  shows "create_profile_for_external_auth F J mojang policy now uuid u role ext fb d =
    create_profile_inner F J mojang policy now uuid u role
      (fst (external_choice (external_profile_names ext fb) u d))
      (snd (external_choice (external_profile_names ext fb) u d)) d"
  using assms
  by (auto simp: create_profile_for_external_auth_def Let_def bnd_def query_def external_choice_def
      split: option.splits prod.splits)

lemma external_choice_valid:
  assumes "external_profile_names ext fb \<noteq> []"
  shows "validate_profile_name (fst (external_choice (external_profile_names ext fb) u d)) = Inr ()"
proof (cases "first_free_name (external_profile_names ext fb) u d")
  case None
  obtain n where n: "n \<in> set [1..<100]"
      "suffix_loop (fst (last (external_profile_names ext fb))) u d [1..<100] (fst (last (external_profile_names ext fb)))
        = suffixed_name (fst (last (external_profile_names ext fb))) n"
    using suffix_loop_candidate[of "[1..<100]"] by force
  have "last (external_profile_names ext fb) \<in> set (external_profile_names ext fb)" using assms by simp
  then have "validate_profile_name (fst (last (external_profile_names ext fb))) = Inr ()"
    using external_names_valid by (metis prod.collapse)
  then show ?thesis using n suffixed_valid None by (simp add: external_choice_def)
next
  case (Some x)
  then show ?thesis
    using first_free_name_Some[of "external_profile_names ext fb" u d "fst x" "snd x"]
      external_names_valid[of "fst x" "snd x" ext fb]
    by (simp add: external_choice_def)
qed

lemma external_choice_taken:
  assumes "profile_name_taken (fst (external_choice names u d)) u None d" and "n \<in> {1..<100}"
  shows "profile_name_taken (suffixed_name (fst (last names)) n) u None d"
proof (cases "first_free_name names u d")
  case None
  then show ?thesis
    using assms suffix_loop_free[of n "[1..<100]"] by (force simp: external_choice_def)
next
  case (Some x)
  then show ?thesis
    using assms(1) first_free_name_Some[of names u d "fst x" "snd x"] by (simp add: external_choice_def)
qed

section \<open>What a rename did\<close>

definition suspend_tokens :: "time \<Rightarrow> row_id \<Rightarrow> toks \<Rightarrow> toks" where
  "suspend_tokens now i t = snd (temporarily_invalidate_all_for_selected_profile now i t)"

definition rename_row :: "time \<Rightarrow> row_id \<Rightarrow> string \<Rightarrow> minecraft_profile table \<Rightarrow> minecraft_profile table" where
  "rename_row now i name t = t\<lparr>rows := map (\<lambda>p. if p_id p = i then renamed now name p else p) (rows t)\<rparr>"

lemma update_name_Inr:
  assumes "update_name_by_id F now i name d = (Inr (Some p), d')"
  obtains q where "q \<in> set (rows (minecraft_profiles d))" "p_id q = i" "p = renamed now name q"
    "\<And>r. r \<in> set (rows (minecraft_profiles d)) \<Longrightarrow> p_id r \<noteq> i
       \<Longrightarrow> p_normalized_name r \<noteq> normalize_profile_name name"
    "d' = d\<lparr>minecraft_profiles := rename_row now i name (minecraft_profiles d)\<rparr>"
proof -
  obtain q where q: "select_one (\<lambda>p. p_id p = i) (minecraft_profiles d) = Some q"
    using assms by (cases "select_one (\<lambda>p. p_id p = i) (minecraft_profiles d)") (simp_all add: update_name_by_id_def)
  have free: "\<not> (\<exists>p \<in> set (rows (minecraft_profiles d)). p_id p \<noteq> i \<and> p_normalized_name p = normalize_profile_name name)"
    using assms q by (auto simp: update_name_by_id_def split: if_splits)
  have run: "bnd (update_profile_row F i (renamed now name)) (\<lambda>updated. ret (Some updated)) d = (Inr (Some p), d')"
    using assms q free by (simp add: update_name_by_id_def)
  have "p = renamed now name q \<and> d' = d\<lparr>minecraft_profiles := rename_row now i name (minecraft_profiles d)\<rparr>"
    using run q by (auto simp: run_simps update_profile_row_def update_by_key_def update_many_def rename_row_def)
  with q free show ?thesis using that[of q] by (auto dest: select_one_Some)
qed

lemma rename_in_transaction_Inr:
  assumes "rename_in_transaction F now profile name d = (Inr res, d')"
  obtains q where "q \<in> set (rows (minecraft_profiles d))" "p_id q = p_id profile"
    "rn_profile res = renamed now name q" "rn_old_name res = p_name profile"
    "\<And>r. r \<in> set (rows (minecraft_profiles d)) \<Longrightarrow> p_id r \<noteq> p_id profile
       \<Longrightarrow> p_normalized_name r \<noteq> normalize_profile_name name"
    "d' = d\<lparr>minecraft_profiles := rename_row now (p_id profile) name (minecraft_profiles d),
           yggdrasil_tokens := suspend_tokens now (p_id profile) (yggdrasil_tokens d)\<rparr>"
proof -
  obtain p d1 where up: "update_name_by_id F now (p_id profile) name d = (Inr (Some p), d1)"
      and rest: "rn_profile res = p" "rn_old_name res = p_name profile"
        "d' = d1\<lparr>yggdrasil_tokens := suspend_tokens now (p_id profile) (yggdrasil_tokens d1)\<rparr>"
    using assms
    by (auto simp: rename_in_transaction_def bnd_Inr ret_eq on_tokens_def Let_def raise_def suspend_tokens_def
        split_beta split: option.splits)
  from update_name_Inr[OF up] obtain q where q: "q \<in> set (rows (minecraft_profiles d))" "p_id q = p_id profile"
      "p = renamed now name q"
      "\<And>r. r \<in> set (rows (minecraft_profiles d)) \<Longrightarrow> p_id r \<noteq> p_id profile
         \<Longrightarrow> p_normalized_name r \<noteq> normalize_profile_name name"
      "d1 = d\<lparr>minecraft_profiles := rename_row now (p_id profile) name (minecraft_profiles d)\<rparr>"
    by blast
  show ?thesis
    by (rule that[of q]) (use q rest in simp_all)
qed

lemma list_active_hashes_member:
  "h \<in> set (list_active_hashes_for_selected_profile i t) \<longleftrightarrow>
     (\<exists>r \<in> set (rows t). t_selected_profile_id r = Some i \<and> t_revoked_at r = None \<and> t_access_token_hash r = h)"
  by (auto simp: list_active_hashes_for_selected_profile_def select_all_def)

definition forget_profile :: "'c cache_ops \<Rightarrow> string list \<Rightarrow> string \<Rightarrow> string \<Rightarrow> 'c \<Rightarrow> 'c" where
  "forget_profile C hashes old new c =
     invalidate_profile_name_summary C new (invalidate_profile_name_summary C old
       (invalidate_tokens C hashes (invalidate_tokens C hashes c)))"

lemma rename_tail:
  "bnd (invalidate_token_cache_for_selected_profile C i) (\<lambda>token_hashes.
     bnd (on_db (transaction m)) (\<lambda>result.
     bnd (invalidate_token_cache_hashes C token_hashes) (\<lambda>_.
     bnd (on_cache (invalidate_profile_name_summary C (f result))) (\<lambda>_.
     bnd (on_cache (invalidate_profile_name_summary C (g result))) (\<lambda>_.
     ret result))))) s = (Inr res, s') \<longleftrightarrow>
   m (y_db s) = (Inr res, y_db s')
   \<and> y_cache s' = forget_profile C (list_active_hashes_for_selected_profile i (tokens_of s)) (f res) (g res) (y_cache s)
   \<and> ygg_state.more s' = ygg_state.more s"
  by (cases "m (y_db s)"; cases "fst (m (y_db s))"; cases s; cases s')
    (auto simp: handler_defs on_db_def on_cache_def invalidate_token_cache_for_selected_profile_def
      invalidate_token_cache_hashes_def forget_profile_def)

lemma rename_profile_run:
  assumes "rename_profile C F policy now profile name s = (Inr res, s')"
  shows "validate_profile_name name = Inr () \<and> \<not> is_reserved_linuxdo_profile_name name"
    and "p_name profile = name \<Longrightarrow> s' = s"
    and "p_name profile \<noteq> name \<Longrightarrow>
      p_source profile \<noteq> SourceMicrosoft \<and> nat (p_rename_count profile) < pol_max_profile_renames policy
      \<and> \<not> profile_name_taken name (p_user_id profile) (Some (p_id profile)) (y_db s)
      \<and> rename_in_transaction F now profile name (y_db s) = (Inr res, y_db s')
      \<and> y_cache s' = forget_profile C (list_active_hashes_for_selected_profile (p_id profile) (tokens_of s))
          (rn_old_name res) (p_name (rn_profile res)) (y_cache s)"
proof -
  have name: "validate_profile_name name = Inr ()" "validate_reserved_profile_name name False = Inr ()"
    using assms unfolding rename_profile_def by (auto elim!: bnd_check_E)
  then show "validate_profile_name name = Inr () \<and> \<not> is_reserved_linuxdo_profile_name name"
    by (simp add: validate_reserved_Inr)
  show "s' = s" if "p_name profile = name"
    using assms that name by (simp add: rename_profile_def bnd_def check_def ret_def)
  assume ne: "p_name profile \<noteq> name"
  show "p_source profile \<noteq> SourceMicrosoft \<and> nat (p_rename_count profile) < pol_max_profile_renames policy
      \<and> \<not> profile_name_taken name (p_user_id profile) (Some (p_id profile)) (y_db s)
      \<and> rename_in_transaction F now profile name (y_db s) = (Inr res, y_db s')
      \<and> y_cache s' = forget_profile C (list_active_hashes_for_selected_profile (p_id profile) (tokens_of s))
          (rn_old_name res) (p_name (rn_profile res)) (y_cache s)"
    using assms ne unfolding rename_profile_def
    by (elim bnd_check_E) (simp, elim if_raise_E bnd_query_E, simp add: if_raise_Inr rename_tail not_le)
qed

section \<open>Invariants\<close>

text \<open>Every cached name summary is the summary of the stored profile of that name.\<close>

definition summaries_ok :: "'c cache_ops \<Rightarrow> 'c \<Rightarrow> db \<Rightarrow> bool" where
  "summaries_ok C c d =
     (\<forall>u n x. get_profile_name_summary C u n c = Some x \<longrightarrow>
        (\<exists>p \<in> set (rows (minecraft_profiles d)).
           p_normalized_name p = normalize_profile_name n \<and> x = profile_summary p))"

definition site_wf :: "'c cache_ops \<Rightarrow> 'c ygg_state \<Rightarrow> bool" where
  "site_wf C s = (ygg_wf C s \<and> profiles_wf (y_db s) \<and> summaries_ok C (y_cache s) (y_db s))"

lemma distinct_map_update:
  assumes "distinct (map key xs)" and "distinct (map nm xs)"
    and "\<And>x. x \<in> set xs \<Longrightarrow> key x \<noteq> i \<Longrightarrow> nm x \<noteq> v" and "\<And>x. nm (f x) = v"
  shows "distinct (map nm (map (\<lambda>x. if key x = i then f x else x) xs))"
  using assms(1-3)
proof (induction xs)
  case (Cons a xs)
  have tail: "map (\<lambda>x. if key x = i then f x else x) xs = xs" if "key a = i"
    using Cons.prems(1) that by (intro map_idI) (auto simp: rev_image_eqI)
  have head: "nm a \<notin> (\<lambda>x. nm (if key x = i then f x else x)) ` set xs" if "key a \<noteq> i"
  proof -
    have "nm a \<noteq> v" using Cons.prems(3)[of a] that by simp
    moreover have "nm a \<notin> nm ` set xs" using Cons.prems(2) by simp
    ultimately show ?thesis using assms(4) by (auto simp: image_iff)
  qed
  show ?case
  proof (cases "key a = i")
    case True
    have "nm x \<noteq> v" if x: "x \<in> set xs" for x
    proof (rule Cons.prems(3))
      have "key x \<in> key ` set xs" "key a \<notin> key ` set xs" using x Cons.prems(1) by auto
      then show "key x \<noteq> i" using True by metis
    qed (use x in simp)
    then show ?thesis using Cons.prems(2) True assms(4) by (auto simp: tail)
  next
    case False
    have "distinct (map nm (map (\<lambda>x. if key x = i then f x else x) xs))"
      using Cons.prems by (intro Cons.IH) auto
    then show ?thesis using head[OF False] False by simp
  qed
qed simp

lemma renamed_fields [simp]:
  "p_id (renamed now name p) = p_id p" "p_uuid (renamed now name p) = p_uuid p"
  "p_user_id (renamed now name p) = p_user_id p" "p_name (renamed now name p) = name"
  "p_normalized_name (renamed now name p) = normalize_profile_name name"
  "p_rename_count (renamed now name p) = wrap_i32 (p_rename_count p + 1)"
  by (simp_all add: renamed_def)

lemma profiles_wf_rename:
  assumes "profiles_wf d" and "validate_profile_name name = Inr ()"
    and "\<And>r. r \<in> set (rows (minecraft_profiles d)) \<Longrightarrow> p_id r \<noteq> i
       \<Longrightarrow> p_normalized_name r \<noteq> normalize_profile_name name"
  shows "profiles_wf (d\<lparr>minecraft_profiles := rename_row now i name (minecraft_profiles d), yggdrasil_tokens := t\<rparr>)"
proof -
  let ?up = "\<lambda>p. if p_id p = i then renamed now name p else p"
  have same: "map p_id (map ?up rs) = map p_id rs" "map p_uuid (map ?up rs) = map p_uuid rs" for rs
    by simp_all
  have wf: "distinct (map p_id (rows (minecraft_profiles d)))"
      "\<forall>r \<in> set (rows (minecraft_profiles d)). p_id r < next_id (minecraft_profiles d)"
      "distinct (map p_uuid (rows (minecraft_profiles d)))"
      "distinct (map p_normalized_name (rows (minecraft_profiles d)))"
      "\<forall>p \<in> set (rows (minecraft_profiles d)). p_normalized_name p = normalize_profile_name (p_name p)
         \<and> validate_profile_name (p_name p) = Inr ()"
    using assms(1) by (simp_all add: profiles_wf_def keys_ok_def)
  have "distinct (map p_normalized_name (map ?up (rows (minecraft_profiles d))))"
    using wf(1,4) assms(3) by (intro distinct_map_update) auto
  moreover have "distinct (map p_id (map ?up (rows (minecraft_profiles d))))" using wf(1) unfolding same .
  moreover have "distinct (map p_uuid (map ?up (rows (minecraft_profiles d))))" using wf(3) unfolding same .
  ultimately show ?thesis
    using wf(2,5) assms(2) by (auto simp: profiles_wf_def keys_ok_def rename_row_def)
qed

lemma profiles_wf_create:
  assumes "profiles_wf d" and "creation_allowed J mojang policy now input d"
  shows "profiles_wf (d\<lparr>minecraft_profiles := (minecraft_profiles d)
    \<lparr>rows := rows (minecraft_profiles d) @ [new_profile policy now input (next_id (minecraft_profiles d))],
     next_id := next_id (minecraft_profiles d) + 1\<rparr>\<rparr>)"
proof -
  let ?p = "new_profile policy now input (next_id (minecraft_profiles d))"
  have new: "p_id ?p = next_id (minecraft_profiles d)" "p_uuid ?p = cp_uuid input" "p_name ?p = cp_name input"
      "p_normalized_name ?p = normalize_profile_name (cp_name input)"
    by (simp_all add: new_profile_def)
  have "p_normalized_name r \<noteq> normalize_profile_name (cp_name input)"
    if "r \<in> set (rows (minecraft_profiles d))" for r
    using not_taken_free that assms(2) by (auto simp: creation_allowed_def)
  then show ?thesis
    using assms new by (fastforce simp: profiles_wf_def creation_allowed_def keys_ok_def)
qed

lemma summaries_ok_mono:
  assumes "summaries_ok C c d"
    and "\<And>u n x. get_profile_name_summary C u n c' = Some x \<Longrightarrow> get_profile_name_summary C u n c = Some x"
    and "set (rows (minecraft_profiles d)) \<subseteq> set (rows (minecraft_profiles d'))"
  shows "summaries_ok C c' d'"
  using assms unfolding summaries_ok_def by blast

lemma create_site_wf:
  assumes "site_wf C s"
  shows "site_wf C (snd (on_db (create_profile_with_uuid_in_connection_inner F J mojang policy now input) s))"
proof (cases "create_profile_with_uuid_in_connection_inner F J mojang policy now input (y_db s)")
  case (Pair r d')
  show ?thesis
  proof (cases r)
    case (Inl e)
    then have "d' = y_db s"
      using create_inner_atomic Pair unfolding atomic_handler_def by blast
    then show ?thesis using assms Pair by (simp add: on_db_def)
  next
    case (Inr p)
    note run = create_inner_Inr[THEN iffD1, OF Pair[unfolded Inr]]
    have "profiles_wf d'" using run profiles_wf_create assms by (auto simp: site_wf_def)
    moreover have "summaries_ok C (y_cache s) d'"
      by (rule summaries_ok_mono[of C "y_cache s" "y_db s"]) (use assms run in \<open>auto simp: site_wf_def\<close>)
    ultimately show ?thesis using assms run Pair by (simp add: on_db_def site_wf_def ygg_wf_def)
  qed
qed

lemma bnd_query_read: "bnd (query (\<lambda>s. Inr (f s))) k = (\<lambda>s. k (f s) s)"
  by (simp add: fun_eq_iff bnd_def query_def)

lemma rename_tail_Inl:
  "bnd (invalidate_token_cache_for_selected_profile C i) (\<lambda>token_hashes.
     bnd (on_db (transaction m)) (\<lambda>result.
     bnd (invalidate_token_cache_hashes C token_hashes) (\<lambda>_.
     bnd (on_cache (invalidate_profile_name_summary C (f result))) (\<lambda>_.
     bnd (on_cache (invalidate_profile_name_summary C (g result))) (\<lambda>_.
     ret result))))) s = (Inl e, s') \<Longrightarrow>
   s' = s\<lparr>y_cache := invalidate_tokens C (list_active_hashes_for_selected_profile i (tokens_of s)) (y_cache s)\<rparr>"
  by (cases "m (y_db s)"; cases "fst (m (y_db s))")
    (auto simp: handler_defs on_db_def on_cache_def invalidate_token_cache_for_selected_profile_def
      invalidate_token_cache_hashes_def)

lemma rename_profile_Inl:
  assumes "rename_profile C F policy now profile name s = (Inl e, s')"
  shows "s' = s \<or> s' = s\<lparr>y_cache := invalidate_tokens C
      (list_active_hashes_for_selected_profile (p_id profile) (tokens_of s)) (y_cache s)\<rparr>"
proof -
  let ?tail = "bnd (invalidate_token_cache_for_selected_profile C (p_id profile)) (\<lambda>token_hashes.
     bnd (on_db (transaction (rename_in_transaction F now profile name))) (\<lambda>result.
     bnd (invalidate_token_cache_hashes C token_hashes) (\<lambda>_.
     bnd (on_cache (invalidate_profile_name_summary C (rn_old_name result))) (\<lambda>_.
     bnd (on_cache (invalidate_profile_name_summary C (p_name (rn_profile result)))) (\<lambda>_.
     ret result)))))"
  have "s' = s \<or> ?tail s = (Inl e, s')"
    using assms unfolding rename_profile_def bnd_Inl[of "check _"] bnd_query_read
    by (auto simp: check_eq ret_Inl raise_eq split: if_splits)
  then show ?thesis
    using rename_tail_Inl[where f = rn_old_name and g = "\<lambda>r. p_name (rn_profile r)"
        and m = "rename_in_transaction F now profile name" and i = "p_id profile" and C = C] by blast
qed

lemma suspend_tokens_rows:
  "rows (suspend_tokens now i t) = map (\<lambda>r. if t_selected_profile_id r = Some i \<and> t_revoked_at r = None
      \<and> t_temporarily_invalidated_at r = None then r\<lparr>t_temporarily_invalidated_at := Some now\<rparr> else r) (rows t)"
  by (simp add: suspend_tokens_def temporarily_invalidate_all_for_selected_profile_def update_many_def)

lemma suspend_keeps:
  assumes "r \<in> set (rows t)" and "t_access_token_hash r \<notin> set (list_active_hashes_for_selected_profile i t)"
  shows "r \<in> set (rows (suspend_tokens now i t))"
  using assms by (auto simp: suspend_tokens_rows list_active_hashes_member image_iff)

lemma forget_profile_after:
  assumes "cache_lawful C"
  shows "get_token C u h (forget_profile C hs old new c) = Some tk \<Longrightarrow>
      h \<notin> set hs \<and> get_token C u h c = Some tk"
    and "get_profile_name_summary C u n (forget_profile C hs old new c) = Some x \<Longrightarrow>
      to_ascii_lowercase n \<noteq> to_ascii_lowercase old \<and> to_ascii_lowercase n \<noteq> to_ascii_lowercase new
      \<and> get_profile_name_summary C u n c = Some x"
  unfolding forget_profile_def
proof -
  let ?t = "invalidate_tokens C hs (invalidate_tokens C hs c)"
  let ?s = "invalidate_profile_name_summary C new (invalidate_profile_name_summary C old ?t)"
  note tok = get_token_after(5)[OF assms] get_token_after(3)[OF assms]
  note sum = get_summary_after(2)[OF assms] get_summary_after(3)[OF assms]
  show "h \<notin> set hs \<and> get_token C u h c = Some tk" if "get_token C u h ?s = Some tk"
    using tok(2)[OF tok(1)[OF tok(1)[OF that]]] tok(2) by blast
  assume x: "get_profile_name_summary C u n ?s = Some x"
  then have "to_ascii_lowercase n \<noteq> to_ascii_lowercase new"
      "get_profile_name_summary C u n (invalidate_profile_name_summary C old ?t) = Some x"
    using sum(1) by blast+
  moreover from this(2) have "to_ascii_lowercase n \<noteq> to_ascii_lowercase old" "get_profile_name_summary C u n ?t = Some x"
    using sum(1) by blast+
  ultimately show "to_ascii_lowercase n \<noteq> to_ascii_lowercase old \<and> to_ascii_lowercase n \<noteq> to_ascii_lowercase new
      \<and> get_profile_name_summary C u n c = Some x"
    using sum(2) by blast
qed

lemma ygg_wf_lost:
  assumes "ygg_wf C s" and "tokens_of s' = tokens_of s"
    and "\<And>u h tk. get_token C u h (y_cache s') = Some tk \<Longrightarrow> get_token C u h (y_cache s) = Some tk"
  shows "ygg_wf C s'"
  using assms unfolding ygg_wf_def coherent_def by metis

lemma suspend_ygg_wf:
  assumes "cache_lawful C" and "ygg_wf C s"
    and "tokens_of s' = suspend_tokens now i (tokens_of s)"
    and "y_cache s' = forget_profile C (list_active_hashes_for_selected_profile i (tokens_of s)) old new (y_cache s)"
  shows "ygg_wf C s'"
proof -
  let ?hs = "list_active_hashes_for_selected_profile i (tokens_of s)"
  have "coherent C (y_cache s') (tokens_of s')"
    unfolding assms(4)
  proof (rule coherent_change)
    show "coherent C (y_cache s) (tokens_of s)" using assms(2) by (simp add: ygg_wf_def)
    show "get_token C u h (y_cache s) = Some tk \<and> h \<notin> set ?hs"
      if "get_token C u h (forget_profile C ?hs old new (y_cache s)) = Some tk" for u h tk
      using forget_profile_after(1)[OF assms(1) that] by blast
  qed (simp add: assms(3) suspend_keeps)
  moreover have "toks_wf (tokens_of s')"
    using suspend_profile.keeps_wf[of "tokens_of s" now i] assms(2)
    by (simp add: assms(3) ygg_wf_def suspend_tokens_def)
  ultimately show ?thesis by (simp add: ygg_wf_def)
qed

lemma summaries_ok_rename:
  assumes "cache_lawful C" and "profiles_wf d" and "summaries_ok C c d"
    and "profile \<in> set (rows (minecraft_profiles d))"
  shows "summaries_ok C (forget_profile C hs (p_name profile) name c)
    (d\<lparr>minecraft_profiles := rename_row now (p_id profile) name (minecraft_profiles d), yggdrasil_tokens := t\<rparr>)"
  unfolding summaries_ok_def
proof (intro allI impI)
  fix u n x assume "get_profile_name_summary C u n (forget_profile C hs (p_name profile) name c) = Some x"
  from forget_profile_after(2)[OF assms(1) this] assms(3) obtain p where
      p: "p \<in> set (rows (minecraft_profiles d))" "p_normalized_name p = normalize_profile_name n"
        "x = profile_summary p" and n: "to_ascii_lowercase n \<noteq> to_ascii_lowercase (p_name profile)"
    unfolding summaries_ok_def by blast
  have "p_normalized_name profile = normalize_profile_name (p_name profile)"
    using assms(2,4) by (simp add: profiles_wf_def)
  with p n have "p \<noteq> profile" by (auto simp: normalize_profile_name_def)
  then have "p_id p \<noteq> p_id profile"
    using keys_ok_inj[OF _ p(1) assms(4)] assms(2) by (auto simp: profiles_wf_def)
  then have "p \<in> set (rows (rename_row now (p_id profile) name (minecraft_profiles d)))"
    using p(1) by (auto simp: rename_row_def)
  with p show "\<exists>p \<in> set (rows (minecraft_profiles (d\<lparr>minecraft_profiles :=
        rename_row now (p_id profile) name (minecraft_profiles d), yggdrasil_tokens := t\<rparr>))).
      p_normalized_name p = normalize_profile_name n \<and> x = profile_summary p" by auto
qed

text \<open>The state after a successful rename to another name.\<close>

lemma rename_profile_changed:
  assumes "rename_profile C F policy now profile name s = (Inr res, s')" and "p_name profile \<noteq> name"
  obtains q where "q \<in> set (rows (minecraft_profiles (y_db s)))" "p_id q = p_id profile"
    "rn_profile res = renamed now name q" "rn_old_name res = p_name profile"
    "\<And>r. r \<in> set (rows (minecraft_profiles (y_db s))) \<Longrightarrow> p_id r \<noteq> p_id profile
       \<Longrightarrow> p_normalized_name r \<noteq> normalize_profile_name name"
    "y_db s' = (y_db s)\<lparr>minecraft_profiles := rename_row now (p_id profile) name (minecraft_profiles (y_db s)),
       yggdrasil_tokens := suspend_tokens now (p_id profile) (tokens_of s)\<rparr>"
    "y_cache s' = forget_profile C (list_active_hashes_for_selected_profile (p_id profile) (tokens_of s))
       (p_name profile) name (y_cache s)"
proof -
  note f = rename_profile_run(3)[OF assms]
  then have run: "rename_in_transaction F now profile name (y_db s) = (Inr res, y_db s')" by blast
  show ?thesis
    by (rule rename_in_transaction_Inr[OF run]) (rule that, use f in auto)
qed

lemma rename_site_wf:
  assumes "cache_lawful C" and "site_wf C s" and "profile \<in> set (rows (minecraft_profiles (y_db s)))"
  shows "site_wf C (snd (rename_profile C F policy now profile name s))"
proof (cases "rename_profile C F policy now profile name s")
  case (Pair r s')
  let ?hs = "list_active_hashes_for_selected_profile (p_id profile) (tokens_of s)"
  have wf: "ygg_wf C s" "profiles_wf (y_db s)" "summaries_ok C (y_cache s) (y_db s)"
    using assms(2) by (simp_all add: site_wf_def)
  show ?thesis
  proof (cases r)
    case (Inl e)
    have "ygg_wf C (s\<lparr>y_cache := invalidate_tokens C ?hs (y_cache s)\<rparr>)"
      by (rule ygg_wf_lost[OF wf(1)]) (auto dest: get_token_after(3)[OF assms(1)])
    moreover have "summaries_ok C (invalidate_tokens C ?hs (y_cache s)) (y_db s)"
      by (rule summaries_ok_mono[OF wf(3)]) (auto dest: get_summary_after(3)[OF assms(1)])
    ultimately have "site_wf C (s\<lparr>y_cache := invalidate_tokens C ?hs (y_cache s)\<rparr>)"
      using wf(2) by (simp add: site_wf_def)
    then show ?thesis using rename_profile_Inl[OF Pair[unfolded Inl]] assms(2) Pair by auto
  next
    case (Inr res)
    note run = rename_profile_run[OF Pair[unfolded Inr]]
    show ?thesis
    proof (cases "p_name profile = name")
      case False
      note ch = Pair[unfolded Inr] False
      have "profiles_wf (y_db s')"
        by (rule rename_profile_changed[OF ch]) (use wf(2) run(1) in \<open>simp add: profiles_wf_rename\<close>)
      moreover have "summaries_ok C (y_cache s') (y_db s')"
        by (rule rename_profile_changed[OF ch])
          (use summaries_ok_rename[OF assms(1) wf(2,3) assms(3)] in simp)
      moreover have "ygg_wf C s'"
        by (rule rename_profile_changed[OF ch]) (rule suspend_ygg_wf[OF assms(1) wf(1)], simp_all)
      ultimately show ?thesis using Pair by (simp add: site_wf_def)
    qed (use run(2) Pair assms(2) in simp)
  qed
qed

section \<open>Lookups by name\<close>

lemma fold_summaries_after:
  assumes "cache_lawful C"
    and "get_profile_name_summary C u n (fold (set_profile_name_summary C now) ps c) = Some x"
  shows "(x \<in> set ps \<and> to_ascii_lowercase n = to_ascii_lowercase (yp_name x))
    \<or> get_profile_name_summary C u n c = Some x"
  using assms(2)
proof (induction ps arbitrary: c)
  case (Cons p ps)
  then show ?case using get_summary_after(1)[OF assms(1), of u n now p c x] by fastforce
qed simp

lemma fold_summaries_tokens:
  assumes "cache_lawful C"
    and "get_token C u h (fold (set_profile_name_summary C now) ps c) = Some x"
  shows "get_token C u h c = Some x"
  using assms(2)
proof (induction ps arbitrary: c)
  case (Cons p ps)
  then show ?case using get_token_after(6)[OF assms(1), of u h now p c x] by simp
qed simp

lemma list_by_names_set:
  "set (list_by_names names d) =
     {p \<in> set (rows (minecraft_profiles d)). p_normalized_name p \<in> normalize_profile_name ` set names}"
  by (auto simp: list_by_names_def select_all_def)

lemma profile_summary_fields [simp]:
  "yp_name (profile_summary p) = p_name p" "yp_id (profile_summary p) = p_uuid p"
  by (simp_all add: profile_summary_def)

lemma profiles_by_names_wf:
  assumes "cache_lawful C" and "site_wf C s"
  shows "site_wf C (snd (profiles_by_names C now names s))"
proof -
  let ?missed = "filter (\<lambda>n. get_profile_name_summary C now n (y_cache s) = None) names"
  let ?fresh = "map profile_summary (list_by_names ?missed (y_db s))"
  let ?c = "fold (set_profile_name_summary C now) ?fresh (y_cache s)"
  have wf: "ygg_wf C s" "profiles_wf (y_db s)" "summaries_ok C (y_cache s) (y_db s)"
    using assms(2) by (simp_all add: site_wf_def)
  have "\<exists>p \<in> set (rows (minecraft_profiles (y_db s))).
      p_normalized_name p = normalize_profile_name n \<and> x = profile_summary p"
    if g: "get_profile_name_summary C u n ?c = Some x" for u n x
    using fold_summaries_after[OF assms(1) g]
  proof
    assume "x \<in> set ?fresh \<and> to_ascii_lowercase n = to_ascii_lowercase (yp_name x)"
    then obtain p where p: "p \<in> set (list_by_names ?missed (y_db s))" "x = profile_summary p"
        "to_ascii_lowercase n = to_ascii_lowercase (p_name p)" by auto
    then have m: "p \<in> set (rows (minecraft_profiles (y_db s)))" by (simp add: list_by_names_set)
    then have "p_normalized_name p = normalize_profile_name n"
      using wf(2) p(3) by (simp add: profiles_wf_def normalize_profile_name_def)
    with p m show ?thesis by blast
  qed (use wf(3) in \<open>auto simp: summaries_ok_def\<close>)
  then have "summaries_ok C ?c (y_db s)" by (auto simp: summaries_ok_def)
  moreover have "ygg_wf C (s\<lparr>y_cache := ?c\<rparr>)"
    by (rule ygg_wf_lost[OF wf(1)]) (auto dest: fold_summaries_tokens[OF assms(1)])
  ultimately show ?thesis
    using assms(2) by (auto simp: profiles_by_names_def Let_def site_wf_def)
qed

section \<open>Steps of the profile service\<close>

text \<open>Any sequence of profile operations, lookups and token operations.  A rename gets a profile the
  caller has just read.\<close>

inductive profile_steps ::
    "'c cache_ops \<Rightarrow> forge \<Rightarrow> scope_codec \<Rightarrow> 'c ygg_state \<Rightarrow> 'c ygg_state \<Rightarrow> bool"
  for C F J s0 where
  prof_start: "profile_steps C F J s0 s0"
| prof_create: "profile_steps C F J s0 s \<Longrightarrow>
    profile_steps C F J s0 (snd (on_db (create_profile_with_uuid_in_connection_inner F J mojang policy now input) s))"
| prof_external: "profile_steps C F J s0 s \<Longrightarrow>
    profile_steps C F J s0 (snd (on_db (create_profile_for_external_auth F J mojang policy now uuid u role ext fb) s))"
| prof_rename: "profile_steps C F J s0 s \<Longrightarrow> profile \<in> set (rows (minecraft_profiles (y_db s))) \<Longrightarrow>
    profile_steps C F J s0 (snd (rename_profile C F policy now profile name s))"
| prof_rename_user: "profile_steps C F J s0 s \<Longrightarrow>
    profile_steps C F J s0 (snd (rename_profile_for_user C F J policy now u uuid name s))"
| prof_names: "profile_steps C F J s0 s \<Longrightarrow>
    profile_steps C F J s0 (snd (profiles_by_names C now names s))"
| prof_tokens: "profile_steps C F J s0 s \<Longrightarrow> token_steps C F J [] s s' \<Longrightarrow> profile_steps C F J s0 s'"

lemma external_site_wf:
  assumes "site_wf C s"
  shows "site_wf C (snd (on_db (create_profile_for_external_auth F J mojang policy now uuid u role ext fb) s))"
proof (cases "external_profile_names ext fb = []")
  case True
  then show ?thesis using assms by (simp add: create_profile_for_external_auth_def on_db_def raise_def)
next
  case False
  have "snd (on_db (create_profile_for_external_auth F J mojang policy now uuid u role ext fb) s)
    = snd (on_db (create_profile_inner F J mojang policy now uuid u role
        (fst (external_choice (external_profile_names ext fb) u (y_db s)))
        (snd (external_choice (external_profile_names ext fb) u (y_db s)))) s)"
    using external_auth_run[OF False] by (simp add: on_db_def)
  then show ?thesis using create_site_wf[OF assms] by (simp add: create_profile_inner_def)
qed

lemma rename_for_user_site_wf:
  assumes "cache_lawful C" and "site_wf C s"
  shows "site_wf C (snd (rename_profile_for_user C F J policy now u uuid name s))"
proof -
  have "snd (rename_profile_for_user C F J policy now u uuid name s) = s
    \<or> (\<exists>profile. find_by_uuid_for_user uuid u (y_db s) = Some profile
        \<and> snd (rename_profile_for_user C F J policy now u uuid name s)
          = snd (rename_profile C F policy now profile name s))"
    by (auto simp: rename_profile_for_user_def bnd_def query_def check_def ret_def
        split: sum.splits option.splits prod.splits)
  then show ?thesis
    using assms rename_site_wf by (auto simp: find_by_uuid_for_user_def dest!: select_one_Some)
qed

text \<open>Token operations leave the profiles alone.\<close>

definition profiles_kept :: "'c cache_ops \<Rightarrow> 'c ygg_state \<Rightarrow> 'c ygg_state \<Rightarrow> bool" where
  "profiles_kept C s s' =
     (minecraft_profiles (y_db s') = minecraft_profiles (y_db s)
      \<and> (\<forall>u n x. get_profile_name_summary C u n (y_cache s') = Some x
            \<longrightarrow> get_profile_name_summary C u n (y_cache s) = Some x))"

lemma profiles_kept_refl: "profiles_kept C s s"
  by (simp add: profiles_kept_def)

lemma profiles_kept_trans: "profiles_kept C s s1 \<Longrightarrow> profiles_kept C s1 s2 \<Longrightarrow> profiles_kept C s s2"
  by (simp add: profiles_kept_def)

lemma profiles_kept_write:
  assumes "\<And>u n x. get_profile_name_summary C u n c = Some x
      \<Longrightarrow> get_profile_name_summary C u n (y_cache s) = Some x"
  shows "profiles_kept C s ((put_tokens t s)\<lparr>y_cache := c\<rparr>)"
  using assms by (simp add: profiles_kept_def)

lemma token_for_operation_states:
  "snd (token_for_operation C F J now tok client allow s) = s
   \<or> (\<exists>tk. snd (token_for_operation C F J now tok client allow s)
        = s\<lparr>y_cache := set_token C now (sha256_hex F tok) tk (y_cache s)\<rparr>)"
proof -
  let ?h = "sha256_hex F tok"
  define found where "found = (case get_token C now ?h (y_cache s) of Some token \<Rightarrow> Inr token
    | None \<Rightarrow> (case find_by_access_hash ?h (yggdrasil_tokens (y_db s)) of
        None \<Rightarrow> Inl (ygg_error InvalidToken) | Some token \<Rightarrow> Inr token))"
  show ?thesis
  proof (cases found)
    case (Inl e)
    then show ?thesis
      by (simp add: token_for_operation_def Let_def bnd_def query_def flip: found_def)
  next
    case (Inr token)
    have "snd (token_for_operation C F J now tok client allow s)
      = (if t_revoked_at token \<noteq> None \<or> t_expires_at token \<le> now then s
         else s\<lparr>y_cache := set_token C now ?h token (y_cache s)\<rparr>)"
      by (simp add: token_for_operation_def Let_def handler_defs on_cache_def Inr flip: found_def)
    then show ?thesis by auto
  qed
qed

lemma token_op_keeps_profiles:
  assumes "cache_lawful C"
  shows "profiles_kept C s (snd (token_for_operation C F J now tok client allow s))"
    and "profiles_kept C s (snd (issue_token C F policy now tok u client' sel ua ip s))"
    and "profiles_kept C s (snd (refresh_token C F policy now tok old u client' sel ua ip s))"
    and "profiles_kept C s (snd (revoke_by_access_token C F now tok s))"
    and "profiles_kept C s (snd (revoke_all_for_user C now u s))"
    and "profiles_kept C s (snd (cleanup_expired_or_revoked_tokens C now s))"
proof -
  note lost = get_summary_after[OF assms]
  show "profiles_kept C s (snd (token_for_operation C F J now tok client allow s))"
    using token_for_operation_states[of C F J now tok client allow s]
  proof (elim disjE exE)
    fix tk assume "snd (token_for_operation C F J now tok client allow s)
        = s\<lparr>y_cache := set_token C now (sha256_hex F tok) tk (y_cache s)\<rparr>"
    then show ?thesis by (simp add: profiles_kept_def) (blast intro: lost(6))
  qed (simp add: profiles_kept_def)
  show "profiles_kept C s (snd (issue_token C F policy now tok u client' sel ua ip s))"
    unfolding issue_token_run
    by (auto split: prod.split sum.split intro!: profiles_kept_refl profiles_kept_write dest!: lost(3))
  show "profiles_kept C s (snd (refresh_token C F policy now tok old u client' sel ua ip s))"
    unfolding refresh_token_run
    by (auto split: prod.split sum.split intro!: profiles_kept_refl profiles_kept_write dest!: lost(3))
  show "profiles_kept C s (snd (revoke_by_access_token C F now tok s))"
    using revoke_by_access_token_run[of F now tok s C]
    by (auto intro!: profiles_kept_write dest!: lost(4))
  show "profiles_kept C s (snd (revoke_all_for_user C now u s))"
    using revoke_all_for_user_run[of C now u s] by (auto intro!: profiles_kept_write dest!: lost(3))
  show "profiles_kept C s (snd (cleanup_expired_or_revoked_tokens C now s))"
    unfolding cleanup_run by (auto intro!: profiles_kept_write dest!: lost(5))
qed

lemma token_steps_keep_profiles:
  assumes "token_steps C F J h s s'" and "cache_lawful C"
  shows "profiles_kept C s s'"
  using assms(1)
  by induction
    (blast intro: profiles_kept_refl profiles_kept_trans token_op_keeps_profiles[OF assms(2)])+

lemma token_steps_site_wf:
  assumes "token_steps C F J h s s'" and "cache_lawful C" and "site_wf C s"
  shows "site_wf C s'"
proof -
  have k: "profiles_kept C s s'" by (rule token_steps_keep_profiles[OF assms(1,2)])
  have "ygg_wf C s'" using token_steps_safe[OF assms(1,2)] assms(3) by (simp add: site_wf_def tok_safe_def)
  moreover have "profiles_wf (y_db s')" using k assms(3) by (simp add: profiles_kept_def site_wf_def profiles_wf_def)
  moreover have "summaries_ok C (y_cache s') (y_db s')"
    by (rule summaries_ok_mono[of C "y_cache s" "y_db s"])
      (use k assms(3) in \<open>auto simp: profiles_kept_def site_wf_def\<close>)
  ultimately show ?thesis by (simp add: site_wf_def)
qed

lemma profile_steps_site_wf:
  assumes "profile_steps C F J s s'" and "cache_lawful C" and "site_wf C s"
  shows "site_wf C s'"
  using assms(1)
  by induction (simp_all add: assms create_site_wf external_site_wf rename_site_wf rename_for_user_site_wf
      profiles_by_names_wf token_steps_site_wf[OF _ assms(2)])

lemma find_by_name_unique:
  assumes "profiles_wf d" and "p \<in> set (rows (minecraft_profiles d))"
    and "p_normalized_name p = normalize_profile_name n"
  shows "find_by_name n d = Some p"
  using find_key[of p_normalized_name "rows (minecraft_profiles d)" p] assms
  by (simp add: profiles_wf_def find_by_name_def select_one_def)

section \<open>Tokens after a rename\<close>

lemma is_user_banned_profiles [simp]:
  "is_user_banned J now u sc (d\<lparr>minecraft_profiles := t\<rparr>) = is_user_banned J now u sc d"
  by (simp add: is_user_banned_def active_user_ban_for_scope_def find_effective_for_scope_def)

lemma suspended_find:
  assumes "toks_wf t" and "find_by_access_hash h t = Some tk" and "t_selected_profile_id tk = Some i"
  obtains tk' where "find_by_access_hash h (suspend_tokens now i t) = Some tk'" "frozen tk tk'"
    "t_revoked_at tk' = t_revoked_at tk" "t_revoked_at tk' \<noteq> None \<or> t_temporarily_invalidated_at tk' \<noteq> None"
proof -
  let ?c = "t_revoked_at tk = None \<and> t_temporarily_invalidated_at tk = None"
  let ?tk = "if ?c then tk\<lparr>t_temporarily_invalidated_at := Some now\<rparr> else tk"
  have tk: "tk \<in> set (rows t)" "t_access_token_hash tk = h" using found_by_hash[OF assms(2)] by auto
  let ?f = "\<lambda>r. if t_selected_profile_id r = Some i \<and> t_revoked_at r = None
      \<and> t_temporarily_invalidated_at r = None then r\<lparr>t_temporarily_invalidated_at := Some now\<rparr> else r"
  have m: "?f tk \<in> set (rows (suspend_tokens now i t))"
    unfolding suspend_tokens_rows set_map using tk(1) by (rule imageI)
  have e: "?f tk = ?tk" using assms(3) by simp
  have wf: "toks_wf (suspend_tokens now i t)"
    using suspend_profile.keeps_wf[OF assms(1)] by (simp add: suspend_tokens_def)
  have "find_by_access_hash (t_access_token_hash ?tk) (suspend_tokens now i t) = Some ?tk"
    using find_by_hash_unique[OF wf m] unfolding e .
  moreover have "t_access_token_hash ?tk = h" using tk(2) by simp
  ultimately have "find_by_access_hash h (suspend_tokens now i t) = Some ?tk" by (simp only:)
  then show ?thesis by (rule that) (auto simp: frozen_def)
qed

lemma suspended_answers:
  assumes "cache_lawful C" and "ygg_wf C s" and "ygg_wf C s'"
    and "tokens_of s' = suspend_tokens now i (tokens_of s)"
    and "\<And>later u. is_user_banned J later u YggdrasilAccess (y_db s') = is_user_banned J later u YggdrasilAccess (y_db s)"
    and "find_by_access_hash (sha256_hex F tok) (tokens_of s) = Some tk" and "t_selected_profile_id tk = Some i"
  shows "fst (active_token C F J later tok client s') = Inl (ygg_error InvalidToken)"
    and "fst (refreshable_token C F J later tok client s) = Inr tk \<Longrightarrow>
      \<exists>tk'. fst (refreshable_token C F J later tok client s') = Inr tk' \<and> frozen tk tk'"
proof -
  have "toks_wf (tokens_of s)" using assms(2) by (simp add: ygg_wf_def)
  from suspended_find[OF this assms(6,7), of now] obtain tk' where
      tk': "find_by_access_hash (sha256_hex F tok) (tokens_of s') = Some tk'" "frozen tk tk'"
        "t_revoked_at tk' = t_revoked_at tk" "t_revoked_at tk' \<noteq> None \<or> t_temporarily_invalidated_at tk' \<noteq> None"
    unfolding assms(4) by blast
  show "fst (active_token C F J later tok client s') = Inl (ygg_error InvalidToken)"
    using token_acceptance_fst[OF assms(1,3)] tk'(1,4) by (auto simp: active_token_def token_accepted_def)
  assume "fst (refreshable_token C F J later tok client s) = Inr tk"
  then have "token_accepted J (y_db s) later client True tk"
    using token_acceptance_fst[OF assms(1,2), of F J later tok client True] assms(6)
    by (simp add: refreshable_token_def split: if_splits)
  then have "token_accepted J (y_db s') later client True tk'"
    using tk'(2,3) assms(5) by (auto simp: token_accepted_def frozen_def split: option.splits)
  then show "\<exists>tk'. fst (refreshable_token C F J later tok client s') = Inr tk' \<and> frozen tk tk'"
    using token_acceptance_fst[OF assms(1,3), of F J later tok client True] tk'(1,2)
    by (simp add: refreshable_token_def)
qed

section \<open>Sample states\<close>

definition no_mojang :: "string \<Rightarrow> mojang_lookup result" where
  "no_mojang name = Inr MojangNotFound"

definition with_profile :: "mem_cache ygg_state" where
  "with_profile = snd (on_db (create_profile plain_forge plain_codec no_mojang sample_policy 500 ''u1'' 1 RoleUser ''Steve'')
     no_tokens)"

definition bound_token :: "mem_cache ygg_state" where
  "bound_token = snd (issue_token mem_ops plain_forge sample_policy 1000 ''a'' 1 ''client'' (Some 1) None None with_profile)"

lemma no_tokens_site_wf: "site_wf mem_ops no_tokens"
  using no_tokens_wf
  by (simp add: site_wf_def profiles_wf_def summaries_ok_def no_tokens_def sample_db_def empty_db_def empty_table_def
      keys_ok_def get_profile_name_summary_def mem_ops_def mem_get_def)

lemma with_profile_site_wf: "site_wf mem_ops with_profile"
  unfolding with_profile_def create_profile_def create_profile_inner_def
  by (rule create_site_wf[OF no_tokens_site_wf])

lemma bound_token_site_wf: "site_wf mem_ops bound_token"
proof -
  have "sha256_hex plain_forge ''a'' \<noteq> []" by simp
  from tok_issue[OF tok_start this, of mem_ops plain_codec with_profile sample_policy 1000 1 "''client''" "Some 1" None None]
  show ?thesis unfolding bound_token_def
    by (rule token_steps_site_wf[OF _ mem_ops_lawful with_profile_site_wf])
qed

definition steve :: minecraft_profile where
  "steve = \<lparr>p_id = 1, p_user_id = 1, p_uuid = ''u1'', p_name = ''Steve'', p_normalized_name = ''steve'',
     p_source = SourceLocal, p_texture_model = ModelDefault, p_uploadable_textures = ''skin,cape'',
     p_rename_count = 0, p_created_at = 500, p_updated_at = 500\<rparr>"

lemma with_profile_rows: "rows (minecraft_profiles (y_db with_profile)) = [steve]"
  by code_simp

lemma bound_token_rows: "rows (minecraft_profiles (y_db bound_token)) = [steve]"
  "rows (tokens_of bound_token) = [new_token plain_forge 1000 (1000 + days 15) ''a'' 1 ''client'' (Some 1) None None 1]"
  by code_simp+

section \<open>Properties\<close>




text \<open>C24. Renaming a profile to another name succeeds only below the rename limit.  It stores the new name and
  counts the rename, leaves every other profile alone, and suspends the profile's tokens: operations
  refuse them from then on, also from the cache, while a refresh still accepts those it accepted before.\<close>

theorem rename_suspends_tokens:
  assumes "cache_lawful C" and "site_wf C s" and "profile \<in> set (rows (minecraft_profiles (y_db s)))"
    and "rename_profile C F policy now profile name s = (Inr res, s')" and "p_name profile \<noteq> name"
  shows "nat (p_rename_count profile) < pol_max_profile_renames policy
    \<and> rn_profile res = renamed now name profile
    \<and> find_by_name name (y_db s') = Some (renamed now name profile)
    \<and> (\<forall>q \<in> set (rows (minecraft_profiles (y_db s))). q \<noteq> profile \<longrightarrow> q \<in> set (rows (minecraft_profiles (y_db s'))))
    \<and> (\<forall>tok tk later client. find_by_access_hash (sha256_hex F tok) (tokens_of s) = Some tk
         \<and> t_selected_profile_id tk = Some (p_id profile) \<longrightarrow>
           fst (active_token C F J later tok client s') = Inl (ygg_error InvalidToken)
           \<and> (fst (refreshable_token C F J later tok client s) = Inr tk \<longrightarrow>
                (\<exists>tk'. fst (refreshable_token C F J later tok client s') = Inr tk' \<and> frozen tk tk')))"
proof -
  have wf: "ygg_wf C s" "profiles_wf (y_db s)" using assms(2) by (simp_all add: site_wf_def)
  have wf': "ygg_wf C s'" "profiles_wf (y_db s')"
    using rename_site_wf[OF assms(1-3), of F policy now name] assms(4) by (simp_all add: site_wf_def)
  obtain q where q: "q \<in> set (rows (minecraft_profiles (y_db s)))" "p_id q = p_id profile"
      "rn_profile res = renamed now name q"
      "y_db s' = (y_db s)\<lparr>minecraft_profiles := rename_row now (p_id profile) name (minecraft_profiles (y_db s)),
         yggdrasil_tokens := suspend_tokens now (p_id profile) (tokens_of s)\<rparr>"
    by (rule rename_profile_changed[OF assms(4,5)]) blast
  have inj: "r = profile" if "r \<in> set (rows (minecraft_profiles (y_db s)))" "p_id r = p_id profile" for r
    using keys_ok_inj[OF _ that(1) assms(3) that(2)] wf(2) by (simp add: profiles_wf_def)
  have "renamed now name profile \<in> set (rows (minecraft_profiles (y_db s')))"
    using assms(3) by (force simp: q(4) rename_row_def)
  then have found: "find_by_name name (y_db s') = Some (renamed now name profile)"
    by (rule find_by_name_unique[OF wf'(2)]) simp
  have others: "r \<in> set (rows (minecraft_profiles (y_db s')))"
    if "r \<in> set (rows (minecraft_profiles (y_db s)))" "r \<noteq> profile" for r
    using inj[OF that(1)] that by (auto simp: q(4) rename_row_def)
  have "tokens_of s' = suspend_tokens now (p_id profile) (tokens_of s)" by (simp add: q(4))
  moreover have "is_user_banned J later u YggdrasilAccess (y_db s') = is_user_banned J later u YggdrasilAccess (y_db s)"
    for later u by (simp add: q(4))
  ultimately have tokens: "fst (active_token C F J later tok client s') = Inl (ygg_error InvalidToken)
      \<and> (fst (refreshable_token C F J later tok client s) = Inr tk \<longrightarrow>
           (\<exists>tk'. fst (refreshable_token C F J later tok client s') = Inr tk' \<and> frozen tk tk'))"
    if "find_by_access_hash (sha256_hex F tok) (tokens_of s) = Some tk"
      "t_selected_profile_id tk = Some (p_id profile)" for tok tk later client
    using suspended_answers[OF assms(1) wf(1) wf'(1), of now "p_id profile" J F tok tk] that by blast
  show ?thesis
    using rename_profile_run(3)[OF assms(4,5)] q(3) inj[OF q(1,2)] found others tokens by blast
qed

theorem rename_suspends_tokens_witness:
  "fst (active_token mem_ops plain_forge plain_codec 3000 ''a'' None
      (snd (rename_profile mem_ops plain_forge sample_policy 2000 steve ''Alex'' bound_token)))
    = Inl (ygg_error InvalidToken)
   \<and> (\<exists>tk. fst (refreshable_token mem_ops plain_forge plain_codec 3000 ''a'' None
      (snd (rename_profile mem_ops plain_forge sample_policy 2000 steve ''Alex'' bound_token))) = Inr tk)"
proof -
  have "\<exists>res. rename_profile mem_ops plain_forge sample_policy 2000 steve ''Alex'' bound_token
      = (Inr res, snd (rename_profile mem_ops plain_forge sample_policy 2000 steve ''Alex'' bound_token))"
    by (rule run_ok) code_simp
  then obtain res where run: "rename_profile mem_ops plain_forge sample_policy 2000 steve ''Alex'' bound_token
      = (Inr res, snd (rename_profile mem_ops plain_forge sample_policy 2000 steve ''Alex'' bound_token))" by blast
  have p: "steve \<in> set (rows (minecraft_profiles (y_db bound_token)))" "p_name steve \<noteq> ''Alex''"
    by (simp_all add: bound_token_rows) (simp add: steve_def)
  have tk: "find_by_access_hash (sha256_hex plain_forge ''a'') (tokens_of bound_token)
      = Some (new_token plain_forge 1000 (1000 + days 15) ''a'' 1 ''client'' (Some 1) None None 1)"
    by (simp add: find_by_access_hash_def select_one_def bound_token_rows)
  have "fst (refreshable_token mem_ops plain_forge plain_codec 3000 ''a'' None bound_token)
      = Inr (new_token plain_forge 1000 (1000 + days 15) ''a'' 1 ''client'' (Some 1) None None 1)"
    by code_simp
  moreover have "t_selected_profile_id (new_token plain_forge 1000 (1000 + days 15) ''a'' 1 ''client''
      (Some 1) None None 1) = Some (p_id steve)"
    by (simp add: steve_def)
  ultimately show ?thesis
    using rename_suspends_tokens[OF mem_ops_lawful bound_token_site_wf p(1) run p(2), of plain_codec] tk by blast
qed

text \<open>Whatever an external account is called, the name made from it is a valid profile name.\<close>

theorem sanitized_username_valid:
  "case sanitize_external_username username of
     None \<Rightarrow> True
   | Some name \<Rightarrow> validate_profile_name name = Inr () \<and> (\<exists>c \<in> set name. is_ascii_alphanumeric c)"
proof (cases "sanitize_external_username username")
  case (Some name)
  then have "list_ex is_ascii_alphanumeric name"
    by (auto simp: sanitize_external_username_def Let_def simp del: list_ex_append split: if_splits)
  with Some sanitize_valid[OF Some] show ?thesis by (simp add: list_ex_iff)
qed simp

text \<open>Automatic creation of a profile after an external login finds a free name when there is one.  For a
  user who may create profiles and names unknown to Mojang, if one of the 99 numbered variants of the last
  candidate is free, the profile is created under a valid name that was free, unless the only names left
  are reserved.\<close>

theorem external_profile_finds_free_name:
  assumes "external_profile_names ext fb \<noteq> []"
    and "\<not> is_user_banned J now u MinecraftProfileManage d"
    and "is_admin role \<or> count_by_user u d < pol_max_profiles_per_user policy"
    and "\<forall>name. mojang name = Inr MojangNotFound"
    and "\<forall>p \<in> set (rows (minecraft_profiles d)). p_uuid p \<noteq> uuid"
    and "n \<in> {1..<100}"
    and "\<not> profile_name_taken (suffixed_name (fst (last (external_profile_names ext fb))) n) u None d"
  shows "case fst (create_profile_for_external_auth F J mojang policy now uuid u role ext fb d) of
      Inr p \<Rightarrow> validate_profile_name (p_name p) = Inr () \<and> \<not> profile_name_taken (p_name p) u None d
    | Inl e \<Rightarrow> e = ValidationError ''profile name is reserved for LinuxDO fallback identities''"
proof -
  let ?names = "external_profile_names ext fb"
  obtain name allow where ch: "external_choice ?names u d = (name, allow)" by (cases "external_choice ?names u d")
  have free: "\<not> profile_name_taken name u None d"
    using external_choice_taken[of ?names u d n] assms(6,7) ch by auto
  have valid: "validate_profile_name name = Inr ()" using external_choice_valid[OF assms(1), of u d] ch by simp
  have run: "create_profile_for_external_auth F J mojang policy now uuid u role ext fb d
      = create_profile_inner F J mojang policy now uuid u role name allow d"
    using external_auth_run[OF assms(1)] ch by simp
  let ?in = "\<lparr>cp_user_id = u, cp_user_role = role, cp_uuid = uuid, cp_name = name, cp_source = SourceLocal,
      cp_allow_reserved_linuxdo_name = allow, cp_check_mojang_name = True\<rparr>"
  show ?thesis
  proof (cases "allow \<or> \<not> is_reserved_linuxdo_profile_name name")
    case True
    then have "creation_allowed J mojang policy now ?in d"
      using assms(2-5) valid free by (simp add: creation_allowed_def)
    then have "\<exists>p d'. create_profile_inner F J mojang policy now uuid u role name allow d = (Inr p, d') \<and> p_name p = name"
      unfolding create_profile_inner_def create_inner_Inr by (simp add: new_profile_def)
    then show ?thesis using run valid free by auto
  next
    case False
    have "ensure_profile_creation_not_banned J now u d = Inr ()" using assms(2) by (simp add: ensure_creation_Inr)
    moreover have "validate_reserved_profile_name name allow
        = Inl (ValidationError ''profile name is reserved for LinuxDO fallback identities'')"
      using False by (simp add: validate_reserved_profile_name_def)
    ultimately show ?thesis
      using run assms(3) valid
      by (auto simp: create_profile_inner_def create_profile_with_uuid_in_connection_inner_def bnd_def query_def check_def)
  qed
qed

theorem external_profile_finds_free_name_witness:
  "external_profile_names ''St-e ve'' None = [(''St_e_ve'', False)]
   \<and> (case fst (create_profile_for_external_auth plain_forge plain_codec no_mojang sample_policy 600 ''u2'' 1 RoleUser
          ''St-e ve'' None (y_db with_profile)) of
      Inr p \<Rightarrow> validate_profile_name (p_name p) = Inr ()
        \<and> \<not> profile_name_taken (p_name p) 1 None (y_db with_profile)
    | Inl e \<Rightarrow> e = ValidationError ''profile name is reserved for LinuxDO fallback identities'')"
proof -
  have names: "external_profile_names ''St-e ve'' None = [(''St_e_ve'', False)]" by code_simp
  have "\<not> is_user_banned plain_codec 600 1 MinecraftProfileManage (y_db with_profile)"
    "count_by_user 1 (y_db with_profile) < pol_max_profiles_per_user sample_policy" by code_simp+
  moreover have "\<not> profile_name_taken (suffixed_name ''St_e_ve'' 1) 1 None (y_db with_profile)" by code_simp
  moreover have "\<forall>name. no_mojang name = Inr MojangNotFound" by (simp add: no_mojang_def)
  moreover have "\<forall>p \<in> set (rows (minecraft_profiles (y_db with_profile))). p_uuid p \<noteq> ''u2''"
    by (simp add: with_profile_rows steve_def)
  ultimately show ?thesis
    using external_profile_finds_free_name[of "''St-e ve''" None plain_codec 600 1 "y_db with_profile" RoleUser
        sample_policy no_mojang "''u2''" 1 plain_forge] names
    by simp
qed




end
