(* ===== verification/Audit_Log.thy ===== *)
theory Audit_Log
  imports Entities
begin

text \<open>
  The audit trail: \<open>audit_service/context.rs\<close> and \<open>audit_service/manager.rs\<close>.  Whether an action is
  recorded is a setting, given as a predicate on the action.  The buffered writer is
  \<open>aster_forge_runtime\<close>; here a recorded request joins the trail at once, as in the path without a
  global manager.  \<open>write_audit_batch\<close> is the batch write the writer calls.
\<close>

section \<open>Request information\<close>

definition max_audit_ip_address_len :: nat where "max_audit_ip_address_len = 45"
definition max_audit_user_agent_len :: nat where "max_audit_user_agent_len = 512"

record audit_context =
  ac_user_id :: row_id
  ac_ip_address :: "string option"
  ac_user_agent :: "string option"

record audit_request_info =
  ai_ip_address :: "string option"
  ai_user_agent :: "string option"

definition audit_system :: audit_context where
  "audit_system = \<lparr>ac_user_id = 0, ac_ip_address = None, ac_user_agent = None\<rparr>"

definition to_context :: "audit_request_info \<Rightarrow> row_id \<Rightarrow> audit_context" where
  "to_context info user_id =
     \<lparr>ac_user_id = user_id, ac_ip_address = ai_ip_address info, ac_user_agent = ai_user_agent info\<rparr>"

definition is_char_boundary :: "string \<Rightarrow> nat \<Rightarrow> bool" where
  "is_char_boundary s i =
     (i = 0 \<or> i = length s \<or> (i < length s \<and> \<not> is_continuation (s ! i)))"

fun floor_boundary :: "string \<Rightarrow> nat \<Rightarrow> nat" where
  "floor_boundary s 0 = 0"
| "floor_boundary s (Suc n) = (if is_char_boundary s (Suc n) then Suc n else floor_boundary s n)"

definition bounded_audit_value :: "string \<Rightarrow> nat \<Rightarrow> string" where
  "bounded_audit_value value max_len =
     (if length value \<le> max_len then value else take (floor_boundary value max_len) value)"

text \<open>\<open>AuditRequestInfo::from_request\<close> on the address and the header that actix reads.\<close>

definition audit_request_from :: "string option \<Rightarrow> string option \<Rightarrow> audit_request_info" where
  "audit_request_from addr agent =
     \<lparr>ai_ip_address = map_option (\<lambda>v. bounded_audit_value v max_audit_ip_address_len) addr,
      ai_user_agent = map_option (\<lambda>v. bounded_audit_value v max_audit_user_agent_len) agent\<rparr>"

section \<open>Recording\<close>

type_synonym audit_details = "(string \<times> string option) list"

definition audit_log_request ::
    "time \<Rightarrow> audit_context \<Rightarrow> string \<Rightarrow> string \<Rightarrow> row_id option \<Rightarrow> string option \<Rightarrow> audit_details option \<Rightarrow> audit_entry" where
  "audit_log_request now ctx action entity_type entity_id entity_name details =
     \<lparr>a_user_id = ac_user_id ctx, a_action = action, a_entity_type = entity_type, a_entity_id = entity_id,
      a_entity_name = entity_name, a_details = details, a_ip_address = ac_ip_address ctx,
      a_user_agent = ac_user_agent ctx, a_created_at = now\<rparr>"

definition record_prechecked ::
    "time \<Rightarrow> audit_context \<Rightarrow> string \<Rightarrow> string \<Rightarrow> row_id option \<Rightarrow> string option \<Rightarrow> audit_details option \<Rightarrow> db \<Rightarrow> db" where
  "record_prechecked now ctx action entity_type entity_id entity_name details d =
     d\<lparr>audit_logs := audit_logs d @ [audit_log_request now ctx action entity_type entity_id entity_name details]\<rparr>"

definition log_with_details ::
    "(string \<Rightarrow> bool) \<Rightarrow> time \<Rightarrow> audit_context \<Rightarrow> string \<Rightarrow> string \<Rightarrow> row_id option \<Rightarrow> string option \<Rightarrow>
     audit_details option \<Rightarrow> db \<Rightarrow> db" where
  "log_with_details should_record now ctx action entity_type entity_id entity_name details d =
     (if \<not> should_record action then d
      else record_prechecked now ctx action entity_type entity_id entity_name details d)"

section \<open>Writing batches\<close>

definition audit_log_batch_size :: nat where "audit_log_batch_size = 100"

text \<open>\<open>accepts\<close> says for which chunks \<open>aster_forge_db::create_audit_log_requests\<close> succeeds; a chunk that
  fails is logged and dropped.\<close>

function write_chunks :: "(audit_entry list \<Rightarrow> bool) \<Rightarrow> audit_entry list \<Rightarrow> db \<Rightarrow> db" where
  "write_chunks accepts models d =
     (let chunk = take audit_log_batch_size models in
      if chunk = [] then d
      else write_chunks accepts (drop audit_log_batch_size models)
             (if accepts chunk then d\<lparr>audit_logs := audit_logs d @ chunk\<rparr> else d))"
  by pat_completeness auto

termination
  by (relation "measure (\<lambda>(_, models, _). length models)") (auto simp: audit_log_batch_size_def)

declare write_chunks.simps [simp del]

definition write_audit_batch :: "(audit_entry list \<Rightarrow> bool) \<Rightarrow> audit_entry list \<Rightarrow> db \<Rightarrow> db" where
  "write_audit_batch accepts batch d = (if batch = [] then d else write_chunks accepts batch d)"

section \<open>Lemmas\<close>

lemma floor_boundary_le: "floor_boundary s n \<le> n"
  by (induction n) auto

lemma floor_boundary_is: "is_char_boundary s (floor_boundary s n)"
  by (induction n) (auto simp: is_char_boundary_def)

lemma floor_boundary_max:
  assumes "i \<le> n" and "is_char_boundary s i" shows "i \<le> floor_boundary s n"
  using assms by (induction n) (auto simp: le_Suc_eq)

text \<open>What is left out is whole chunks of at most the batch size.\<close>

lemma write_chunks_parts:
  "\<exists>chunks. concat chunks = models \<and> (\<forall>c \<in> set chunks. c \<noteq> [] \<and> length c \<le> audit_log_batch_size)
     \<and> write_chunks accepts models d = d\<lparr>audit_logs := audit_logs d @ concat (filter accepts chunks)\<rparr>"
proof (induction accepts models d rule: write_chunks.induct)
  case (1 accepts models d)
  let ?c = "take audit_log_batch_size models"
  show ?case
  proof (cases "?c = []")
    case True
    then have "models = []" by (simp add: audit_log_batch_size_def)
    then show ?thesis by (subst write_chunks.simps) (intro exI[of _ "[]"], simp)
  next
    case False
    from 1[OF refl False] obtain chunks where ih: "concat chunks = drop audit_log_batch_size models"
        "\<forall>c \<in> set chunks. c \<noteq> [] \<and> length c \<le> audit_log_batch_size"
        "write_chunks accepts (drop audit_log_batch_size models)
            (if accepts ?c then d\<lparr>audit_logs := audit_logs d @ ?c\<rparr> else d)
          = (if accepts ?c then d\<lparr>audit_logs := audit_logs d @ ?c\<rparr> else d)
              \<lparr>audit_logs := audit_logs (if accepts ?c then d\<lparr>audit_logs := audit_logs d @ ?c\<rparr> else d)
                 @ concat (filter accepts chunks)\<rparr>"
      by blast
    have "write_chunks accepts models d = write_chunks accepts (drop audit_log_batch_size models)
        (if accepts ?c then d\<lparr>audit_logs := audit_logs d @ ?c\<rparr> else d)"
      using False by (subst write_chunks.simps) (simp add: Let_def)
    then show ?thesis
      using ih False by (intro exI[of _ "?c # chunks"]) auto
  qed
qed

text \<open>A client-supplied address or user agent is stored as its longest prefix within the limit that does
  not split a character.\<close>

lemma bounded_audit_value_longest:
  "prefix (bounded_audit_value v n) v \<and> length (bounded_audit_value v n) \<le> n
   \<and> is_char_boundary v (length (bounded_audit_value v n))
   \<and> (\<forall>i. i \<le> n \<and> i \<le> length v \<and> is_char_boundary v i \<longrightarrow> i \<le> length (bounded_audit_value v n))"
proof (cases "length v \<le> n")
  case True
  then show ?thesis by (simp add: bounded_audit_value_def is_char_boundary_def)
next
  case False
  have len: "length (bounded_audit_value v n) = floor_boundary v n"
    using False floor_boundary_le[of v n] by (simp add: bounded_audit_value_def)
  show ?thesis
    using False floor_boundary_le[of v n] floor_boundary_is[of v n] floor_boundary_max[of _ n v]
    unfolding len by (auto simp: bounded_audit_value_def take_is_prefix)
qed

section \<open>Property\<close>

text \<open>A batch of audit entries is written in its order, in chunks of at most 100, and a chunk the database
  rejects does not affect the others: when every chunk is accepted the whole batch is in the trail, and
  without that the trail grows by the accepted chunks.  The write always ends.\<close>

theorem audit_batch_in_chunks:
  "(\<exists>chunks. concat chunks = batch \<and> (\<forall>c \<in> set chunks. 0 < length c \<and> length c \<le> 100)
      \<and> write_audit_batch accepts batch d = d\<lparr>audit_logs := audit_logs d @ concat (filter accepts chunks)\<rparr>)
   \<and> write_audit_batch (\<lambda>_. True) batch d = d\<lparr>audit_logs := audit_logs d @ batch\<rparr>"
proof
  have parts: "\<exists>chunks. concat chunks = batch \<and> (\<forall>c \<in> set chunks. c \<noteq> [] \<and> length c \<le> audit_log_batch_size)
      \<and> write_audit_batch acc batch d = d\<lparr>audit_logs := audit_logs d @ concat (filter acc chunks)\<rparr>" for acc
    using write_chunks_parts[of batch acc d]
    by (cases "batch = []") (auto simp: write_audit_batch_def intro: exI[of _ "[]"])
  from parts[of accepts] show "\<exists>chunks. concat chunks = batch \<and> (\<forall>c \<in> set chunks. 0 < length c \<and> length c \<le> 100)
      \<and> write_audit_batch accepts batch d = d\<lparr>audit_logs := audit_logs d @ concat (filter accepts chunks)\<rparr>"
    by (simp add: audit_log_batch_size_def)
  from parts[of "\<lambda>_. True"] show "write_audit_batch (\<lambda>_. True) batch d = d\<lparr>audit_logs := audit_logs d @ batch\<rparr>"
    by auto
qed

theorem audit_batch_in_chunks_witness:
  "audit_logs (write_audit_batch (\<lambda>_. True) (replicate 3 (audit_log_request 0 audit_system ''x'' ''y'' None None None)) empty_db)
   = replicate 3 (audit_log_request 0 audit_system ''x'' ''y'' None None None)"
  using audit_batch_in_chunks[of "replicate 3 (audit_log_request 0 audit_system ''x'' ''y'' None None None)" "\<lambda>_. True" empty_db]
  by (simp add: empty_db_def)

end
