(* ===== verification/Ygg_Auth.thy ===== *)
theory Ygg_Auth
  imports Profiles Audit_Log
begin

text \<open>
  The Yggdrasil authentication protocol: \<open>yggdrasil_service/login.rs\<close> and
  \<open>yggdrasil_service/auth.rs\<close>, the handlers behind \<open>/authserver\<close>, composed from the token operations,
  the bans and the audit trail.  Random tokens (\<open>new_short_token\<close>) and what actix reads of the request
  are arguments.
\<close>

section \<open>Requests and answers\<close>

text \<open>What the handlers read of \<open>HttpRequest\<close>: the header \<open>User-Agent\<close>, \<open>peer_addr\<close> and
  \<open>realip_remote_addr\<close>.\<close>

record http_request =
  hr_user_agent :: "string option"
  hr_peer_ip :: "string option"
  hr_realip :: "string option"

definition user_agent :: "http_request \<Rightarrow> string option" where
  "user_agent req = hr_user_agent req"

definition peer_ip :: "http_request \<Rightarrow> string option" where
  "peer_ip req = hr_peer_ip req"

definition audit_from_request :: "http_request \<Rightarrow> row_id \<Rightarrow> audit_context" where
  "audit_from_request req user_id = to_context (audit_request_from (hr_realip req) (hr_user_agent req)) user_id"

record ygg_user =
  yu_id :: string
  yu_properties :: "ygg_property list"

record agent_req =
  ag_name :: string
  ag_version :: int

record authenticate_req =
  aq_username :: string
  aq_password :: string
  aq_client_token :: "string option"
  aq_request_user :: bool
  aq_agent :: "agent_req option"

record authenticate_resp =
  ar_access_token :: string
  ar_client_token :: string
  ar_available_profiles :: "ygg_profile list"
  ar_selected_profile :: "ygg_profile option"
  ar_user :: "ygg_user option"

record refresh_req =
  rq_access_token :: string
  rq_client_token :: "string option"
  rq_request_user :: bool
  rq_selected_profile :: "ygg_profile option"

record refresh_resp =
  rr_access_token :: string
  rr_client_token :: string
  rr_selected_profile :: "ygg_profile option"
  rr_user :: "ygg_user option"

record token_req =
  tq_access_token :: string
  tq_client_token :: "string option"

section \<open>Login targets\<close>

record login_target =
  lt_user :: user
  lt_forced_profile :: "minecraft_profile option"

definition resolve_login_target :: "string \<Rightarrow> ygg_policy \<Rightarrow> db \<Rightarrow> login_target yresult" where
  "resolve_login_target identifier policy d =
     (case find_by_identifier identifier d of
        Some u \<Rightarrow> Inr \<lparr>lt_user = u, lt_forced_profile = None\<rparr>
      | None \<Rightarrow>
          if \<not> pol_allow_profile_name_login policy then Inl (ygg_error InvalidCredentials)
          else case find_by_name identifier d of
                 None \<Rightarrow> Inl (ygg_error InvalidCredentials)
               | Some p \<Rightarrow> (case lift_aster (find_user_by_id (p_user_id p) d) of
                             Inl e \<Rightarrow> Inl e
                           | Inr u \<Rightarrow> Inr \<lparr>lt_user = u, lt_forced_profile = Some p\<rparr>))"

definition user_info :: "user \<Rightarrow> ygg_user" where
  "user_info u = \<lparr>yu_id = u_public_uuid u, yu_properties = []\<rparr>"

definition is_email_verified :: "user \<Rightarrow> bool" where
  "is_email_verified u = (u_email_verified_at u \<noteq> None)"

definition is_email_activation_satisfied :: "user \<Rightarrow> bool" where
  "is_email_activation_satisfied u =
     ((case u_email u of None \<Rightarrow> True | Some email \<Rightarrow> trim email = []) \<or> is_email_verified u)"

definition selected_profile_for_token :: "yggdrasil_token option \<Rightarrow> db \<Rightarrow> minecraft_profile option yresult" where
  "selected_profile_for_token token d =
     (case Option.bind token t_selected_profile_id of
        None \<Rightarrow> Inr None
      | Some profile_id \<Rightarrow> map_sum id Some (lift_aster (find_profile_by_id profile_id d)))"

section \<open>Audit details\<close>

text \<open>\<open>serde\<close> omits a field that is \<open>None\<close>.\<close>

definition omit_none :: "string \<Rightarrow> string option \<Rightarrow> audit_details" where
  "omit_none name v = (case v of None \<Rightarrow> [] | Some x \<Rightarrow> [(name, Some x)])"

definition authenticate_details :: "string \<Rightarrow> minecraft_profile option \<Rightarrow> nat \<Rightarrow> audit_details" where
  "authenticate_details identifier profile n =
     [(''identifier'', Some identifier)]
     @ omit_none ''selected_profile_uuid'' (map_option p_uuid profile)
     @ omit_none ''selected_profile_name'' (map_option p_name profile)
     @ [(''available_profile_count'', Some (show_nat n))]"

definition token_details :: "minecraft_profile option \<Rightarrow> audit_details" where
  "token_details profile =
     omit_none ''profile_uuid'' (map_option p_uuid profile) @ omit_none ''profile_name'' (map_option p_name profile)"

definition login_details :: "string \<Rightarrow> audit_details" where
  "login_details identifier = [(''identifier'', Some identifier)]"

definition audited ::
    "(string \<Rightarrow> bool) \<Rightarrow> time \<Rightarrow> audit_context \<Rightarrow> string \<Rightarrow> string \<Rightarrow> row_id option \<Rightarrow> string option \<Rightarrow>
     audit_details option \<Rightarrow> ('c ygg_state, 'e, unit) handler" where
  "audited should_record now ctx action entity_type entity_id entity_name details =
     on_db (modify (log_with_details should_record now ctx action entity_type entity_id entity_name details))"

text \<open>\<open>\<dots>.await.ok()\<close>: the effects stay, the error is dropped.\<close>

definition attempt :: "('s, 'e, 'a) handler \<Rightarrow> ('s, 'e, 'a option) handler" where
  "attempt m s = (case m s of (Inl _, s') \<Rightarrow> (Inr None, s') | (Inr x, s') \<Rightarrow> (Inr (Some x), s'))"

section \<open>Handlers\<close>

definition crypto_result :: "string + 'a \<Rightarrow> 'a yresult" where
  "crypto_result r = lift_aster (map_sum InternalError id r)"

definition select_profile :: "login_target \<Rightarrow> minecraft_profile list \<Rightarrow> row_id option" where
  "select_profile target profiles =
     (case lt_forced_profile target of
        Some p \<Rightarrow> Some (p_id p)
      | None \<Rightarrow> (if length profiles = 1 then Some (p_id (hd profiles)) else None))"

definition chosen_client_token :: "string option \<Rightarrow> string \<Rightarrow> string" where
  "chosen_client_token ct fresh =
     (case ct of None \<Rightarrow> fresh | Some t \<Rightarrow> (if trim t = [] then fresh else t))"

definition authenticate ::
    "'c cache_ops \<Rightarrow> forge \<Rightarrow> scope_codec \<Rightarrow> ygg_policy \<Rightarrow> (string \<Rightarrow> bool) \<Rightarrow> time \<Rightarrow> string \<Rightarrow> string \<Rightarrow>
     authenticate_req \<Rightarrow> http_request \<Rightarrow> ('c ygg_state, yggdrasil_error, authenticate_resp) handler" where
  "authenticate C F J policy should_record now fresh_client fresh_access body req =
     (if trim (aq_username body) = [] \<or> aq_password body = [] then raise (ygg_error InvalidCredentials) else
      if (case aq_agent body of None \<Rightarrow> False | Some agent \<Rightarrow> ag_name agent \<noteq> ''Minecraft'' \<or> ag_version agent \<noteq> 1)
      then raise (ygg_error UnsupportedAgent) else
      bnd (query (\<lambda>s. resolve_login_target (aq_username body) policy (y_db s))) (\<lambda>target.
      if \<not> user_status_is_active (u_status (lt_user target)) then raise (ygg_error InvalidCredentials) else
      if \<not> is_email_activation_satisfied (lt_user target) then raise (ygg_error InvalidCredentials) else
      bnd (check (crypto_result (verify_password F (aq_password body) (u_password_hash (lt_user target))))) (\<lambda>ok.
      if \<not> ok then raise (ygg_error InvalidCredentials) else
      bnd (query (\<lambda>s. Inr (is_user_banned J now (u_id (lt_user target)) YggdrasilAccess (y_db s)))) (\<lambda>banned.
      if banned then raise (ygg_error InvalidCredentials) else
      bnd (query (\<lambda>s. Inr (list_by_user (u_id (lt_user target)) (y_db s)))) (\<lambda>profiles.
      let selected_profile_id = select_profile target profiles;
          client_token = chosen_client_token (aq_client_token body) fresh_client;
          selected_profile = Option.bind selected_profile_id (\<lambda>i. find (\<lambda>p. p_id p = i) profiles)
      in
      bnd (issue_token C F policy now fresh_access (u_id (lt_user target)) client_token selected_profile_id
             (user_agent req) (peer_ip req)) (\<lambda>issued.
      bnd (audited should_record now (audit_from_request req (u_id (lt_user target)))
             ''yggdrasil_authenticate'' ''yggdrasil_token'' (Some (is_token_id issued))
             (map_option p_name selected_profile)
             (Some (authenticate_details (aq_username body) selected_profile (length profiles)))) (\<lambda>_.
      ret \<lparr>ar_access_token = is_access_token issued, ar_client_token = client_token,
           ar_available_profiles = map profile_summary profiles,
           ar_selected_profile = map_option profile_summary selected_profile,
           ar_user = (if aq_request_user body then Some (user_info (lt_user target)) else None)\<rparr>)))))))"

text \<open>The profile a refresh binds: a token may be bound once, to a profile of its owner.\<close>

definition refresh_selection :: "yggdrasil_token \<Rightarrow> user \<Rightarrow> ygg_profile option \<Rightarrow> db \<Rightarrow> row_id option yresult" where
  "refresh_selection existing u selected d =
     (case selected of
        None \<Rightarrow> Inr (t_selected_profile_id existing)
      | Some sel \<Rightarrow>
          if t_selected_profile_id existing \<noteq> None then Inl (ygg_error AccessTokenAlreadyHasProfile)
          else case find_by_uuid (yp_id sel) d of
                 None \<Rightarrow> Inl (ygg_error ForbiddenProfile)
               | Some p \<Rightarrow> if p_user_id p \<noteq> u_id u then Inl (ygg_error ForbiddenProfile) else Inr (Some (p_id p)))"

definition refresh ::
    "'c cache_ops \<Rightarrow> forge \<Rightarrow> scope_codec \<Rightarrow> ygg_policy \<Rightarrow> (string \<Rightarrow> bool) \<Rightarrow> time \<Rightarrow> string \<Rightarrow>
     refresh_req \<Rightarrow> http_request \<Rightarrow> ('c ygg_state, yggdrasil_error, refresh_resp) handler" where
  "refresh C F J policy should_record now fresh_access body req =
     bnd (refreshable_token C F J now (rq_access_token body) (rq_client_token body)) (\<lambda>existing.
     bnd (query (\<lambda>s. lift_aster (find_user_by_id (t_user_id existing) (y_db s)))) (\<lambda>u.
     if \<not> user_status_is_active (u_status u) then raise (ygg_error InvalidToken) else
     bnd (query (\<lambda>s. refresh_selection existing u (rq_selected_profile body) (y_db s))) (\<lambda>selected_profile_id.
     bnd (refresh_token C F policy now fresh_access (rq_access_token body) (u_id u) (t_client_token existing)
            selected_profile_id (user_agent req) (peer_ip req)) (\<lambda>issued.
     bnd (query (\<lambda>s. case selected_profile_id of
                       None \<Rightarrow> Inr None
                     | Some i \<Rightarrow> map_sum id Some (lift_aster (find_profile_by_id i (y_db s))))) (\<lambda>selected_profile.
     bnd (audited should_record now (audit_from_request req (u_id u))
            ''yggdrasil_refresh_token'' ''yggdrasil_token'' (Some (is_token_id issued))
            (map_option p_name selected_profile) (Some (token_details selected_profile))) (\<lambda>_.
     ret \<lparr>rr_access_token = is_access_token issued, rr_client_token = t_client_token existing,
          rr_selected_profile = map_option profile_summary selected_profile,
          rr_user = (if rq_request_user body then Some (user_info u) else None)\<rparr>))))))"

definition validate ::
    "'c cache_ops \<Rightarrow> forge \<Rightarrow> scope_codec \<Rightarrow> time \<Rightarrow> token_req \<Rightarrow> ('c ygg_state, yggdrasil_error, unit) handler" where
  "validate C F J now body =
     bnd (active_token C F J now (tq_access_token body) (tq_client_token body)) (\<lambda>_. ret ())"

definition invalidate ::
    "'c cache_ops \<Rightarrow> forge \<Rightarrow> scope_codec \<Rightarrow> (string \<Rightarrow> bool) \<Rightarrow> time \<Rightarrow> token_req \<Rightarrow>
     ('c ygg_state, yggdrasil_error, unit) handler" where
  "invalidate C F J should_record now body =
     bnd (attempt (active_token C F J now (tq_access_token body) None)) (\<lambda>token.
     bnd (query (\<lambda>s. selected_profile_for_token token (y_db s))) (\<lambda>profile.
     bnd (revoke_by_access_token C F now (tq_access_token body)) (\<lambda>_.
     case token of
       None \<Rightarrow> ret ()
     | Some tk \<Rightarrow>
         audited should_record now \<lparr>ac_user_id = t_user_id tk, ac_ip_address = None, ac_user_agent = None\<rparr>
           ''yggdrasil_invalidate_token'' ''yggdrasil_token'' (Some (t_id tk))
           (map_option p_name profile) (Some (token_details profile)))))"

definition signout ::
    "'c cache_ops \<Rightarrow> forge \<Rightarrow> ygg_policy \<Rightarrow> (string \<Rightarrow> bool) \<Rightarrow> time \<Rightarrow> string \<Rightarrow> string \<Rightarrow>
     ('c ygg_state, yggdrasil_error, unit) handler" where
  "signout C F policy should_record now username password =
     bnd (query (\<lambda>s. resolve_login_target username policy (y_db s))) (\<lambda>target.
     if \<not> user_status_is_active (u_status (lt_user target)) then raise (ygg_error InvalidCredentials) else
     bnd (check (crypto_result (verify_password F password (u_password_hash (lt_user target))))) (\<lambda>ok.
     if \<not> ok then raise (ygg_error InvalidCredentials) else
     bnd (revoke_all_for_user C now (u_id (lt_user target))) (\<lambda>_.
     audited should_record now \<lparr>ac_user_id = u_id (lt_user target), ac_ip_address = None, ac_user_agent = None\<rparr>
       ''yggdrasil_signout'' ''user'' (Some (u_id (lt_user target))) (Some (u_username (lt_user target)))
       (Some (login_details username)))))"

section \<open>Runs of the handlers\<close>

lemma log_with_details_db [simp]:
  "users (log_with_details sr now ctx a et ei en det d) = users d"
  "user_bans (log_with_details sr now ctx a et ei en det d) = user_bans d"
  "minecraft_profiles (log_with_details sr now ctx a et ei en det d) = minecraft_profiles d"
  "yggdrasil_tokens (log_with_details sr now ctx a et ei en det d) = yggdrasil_tokens d"
  "audit_logs (log_with_details sr now ctx a et ei en det d)
     = audit_logs d @ (if sr a then [audit_log_request now ctx a et ei en det] else [])"
  by (simp_all add: log_with_details_def record_prechecked_def)

lemma is_user_banned_cong:
  "user_bans d = user_bans d' \<Longrightarrow> is_user_banned J now u sc d = is_user_banned J now u sc d'"
  by (simp add: is_user_banned_def active_user_ban_for_scope_def find_effective_for_scope_def)

lemma audited_run:
  "audited sr now ctx a et ei en det s =
     (Inr (), s\<lparr>y_db := log_with_details sr now ctx a et ei en det (y_db s)\<rparr>)"
  by (simp add: audited_def on_db_def modify_def)

lemma ygg_wf_cong:
  "tokens_of s' = tokens_of s \<Longrightarrow> y_cache s' = y_cache s \<Longrightarrow> ygg_wf C s' = ygg_wf C s"
  by (simp add: ygg_wf_def)

lemma crypto_result_Inr: "crypto_result r = Inr x \<longleftrightarrow> r = Inr x"
  by (cases r) (auto simp: crypto_result_def lift_aster_def)

lemma lift_aster_Inr: "lift_aster r = Inr x \<longleftrightarrow> r = Inr x"
  by (cases r) (auto simp: lift_aster_def)

definition agent_ok :: "agent_req option \<Rightarrow> bool" where
  "agent_ok a = (case a of None \<Rightarrow> True | Some agent \<Rightarrow> ag_name agent = ''Minecraft'' \<and> ag_version agent = 1)"

text \<open>The specification of a login: who may log in, and as whom.\<close>

definition may_login :: "forge \<Rightarrow> scope_codec \<Rightarrow> ygg_policy \<Rightarrow> time \<Rightarrow> string \<Rightarrow> string \<Rightarrow> login_target \<Rightarrow> db \<Rightarrow> bool" where
  "may_login F J policy now identifier password target d =
     (resolve_login_target identifier policy d = Inr target
      \<and> u_status (lt_user target) = UserActive
      \<and> is_email_activation_satisfied (lt_user target)
      \<and> verify_password F password (u_password_hash (lt_user target)) = Inr True
      \<and> \<not> is_user_banned J now (u_id (lt_user target)) YggdrasilAccess d)"

definition login_selection :: "login_target \<Rightarrow> db \<Rightarrow> row_id option" where
  "login_selection target d = select_profile target (list_by_user (u_id (lt_user target)) d)"

definition login_profile :: "login_target \<Rightarrow> db \<Rightarrow> minecraft_profile option" where
  "login_profile target d = Option.bind (login_selection target d)
     (\<lambda>i. find (\<lambda>p. p_id p = i) (list_by_user (u_id (lt_user target)) d))"

definition authenticate_answer ::
    "authenticate_req \<Rightarrow> login_target \<Rightarrow> string \<Rightarrow> string \<Rightarrow> db \<Rightarrow> authenticate_resp" where
  "authenticate_answer body target access client d =
     \<lparr>ar_access_token = access, ar_client_token = client,
      ar_available_profiles = map profile_summary (list_by_user (u_id (lt_user target)) d),
      ar_selected_profile = map_option profile_summary (login_profile target d),
      ar_user = (if aq_request_user body then Some (user_info (lt_user target)) else None)\<rparr>"

lemma agent_guard:
  "(case a of None \<Rightarrow> False | Some agent \<Rightarrow> ag_name agent \<noteq> ''Minecraft'' \<or> ag_version agent \<noteq> 1) \<longleftrightarrow> \<not> agent_ok a"
  by (simp add: agent_ok_def split: option.splits)

text \<open>The handler is its guards followed by issuing and recording.\<close>

lemma authenticate_run:
  "authenticate C F J policy sr now fc fa body req s =
     (if trim (aq_username body) = [] \<or> aq_password body = [] then (Inl (ygg_error InvalidCredentials), s)
      else if \<not> agent_ok (aq_agent body) then (Inl (ygg_error UnsupportedAgent), s)
      else case resolve_login_target (aq_username body) policy (y_db s) of
        Inl e \<Rightarrow> (Inl e, s)
      | Inr target \<Rightarrow>
          if u_status (lt_user target) \<noteq> UserActive \<or> \<not> is_email_activation_satisfied (lt_user target)
          then (Inl (ygg_error InvalidCredentials), s)
          else case crypto_result (verify_password F (aq_password body) (u_password_hash (lt_user target))) of
            Inl e \<Rightarrow> (Inl e, s)
          | Inr ok \<Rightarrow>
              if \<not> ok \<or> is_user_banned J now (u_id (lt_user target)) YggdrasilAccess (y_db s)
              then (Inl (ygg_error InvalidCredentials), s)
              else case issue_token C F policy now fa (u_id (lt_user target))
                     (chosen_client_token (aq_client_token body) fc) (login_selection target (y_db s))
                     (user_agent req) (peer_ip req) s of
                (Inl e, s1) \<Rightarrow> (Inl e, s1)
              | (Inr iss, s1) \<Rightarrow>
                  (Inr (authenticate_answer body target (is_access_token iss)
                     (chosen_client_token (aq_client_token body) fc) (y_db s)),
                   s1\<lparr>y_db := log_with_details sr now (audit_from_request req (u_id (lt_user target)))
                     ''yggdrasil_authenticate'' ''yggdrasil_token'' (Some (is_token_id iss))
                     (map_option p_name (login_profile target (y_db s)))
                     (Some (authenticate_details (aq_username body) (login_profile target (y_db s))
                       (length (list_by_user (u_id (lt_user target)) (y_db s))))) (y_db s1)\<rparr>))"
  unfolding authenticate_def agent_guard
  by (simp add: bnd_def query_def check_def raise_def ret_def audited_run Let_def user_status_is_active_def
      authenticate_answer_def login_profile_def login_selection_def split: sum.splits prod.splits)

lemma issue_in_connection_ok:
  assumes "conversions_ok F" and "pol_max_active_tokens policy < 2 ^ 64" and "pol_token_ttl_days policy < 2 ^ 63"
    and "now + days (int (pol_token_ttl_days policy)) \<le> max_datetime"
    and "\<forall>r \<in> set (rows t). t_access_token_hash r \<noteq> sha256_hex F tok"
  shows "\<exists>iss pruned t'. issue_token_in_connection F policy now tok u client sel ua ip t = (Inr (iss, pruned), t')"
proof -
  have conv: "u64_to_i64 F (pol_token_ttl_days policy) l = Inr (int (pol_token_ttl_days policy))"
      "u64_to_usize F (pol_max_active_tokens policy) l = Inr (pol_max_active_tokens policy)" for l
    using assms(1-3) by (auto simp: conversions_ok_def)
  have prune: "prune_oldest_for_user F now u (pol_max_active_tokens policy) t1 =
      (Inr (map t_access_token_hash (drop (pol_max_active_tokens policy) (tokens_newest_first u t1))),
       revoke_ids now (t_id ` set (drop (pol_max_active_tokens policy) (tokens_newest_first u t1))) t1)" for t1
    by (rule prune_run) (rule conv(2))
  have free: "\<not> (\<exists>r \<in> set (rows t). t_access_token_hash r = sha256_hex F tok)" using assms(5) by blast
  show ?thesis
    unfolding issue_token_in_connection_def
    using assms(4) free
    by (simp add: bnd_def check_def conv utils_result_def expires_after_days_def token_repo_create_def
        statement_def insert_row_def Let_def prune ret_def)
qed

text \<open>The settings of a server that can issue tokens: the limits fit the machine integers, at least one
  token is kept, and the lifetime ends within the range of dates.\<close>

definition can_issue :: "forge \<Rightarrow> ygg_policy \<Rightarrow> time \<Rightarrow> bool" where
  "can_issue F policy now =
     (conversions_ok F \<and> 0 < pol_max_active_tokens policy \<and> pol_max_active_tokens policy < 2 ^ 64
      \<and> pol_token_ttl_days policy < 2 ^ 63 \<and> now + days (int (pol_token_ttl_days policy)) \<le> max_datetime)"

text \<open>A fresh token on a clock that has moved on since the stored tokens were issued.\<close>

definition fresh_token :: "forge \<Rightarrow> time \<Rightarrow> string \<Rightarrow> toks \<Rightarrow> bool" where
  "fresh_token F now tok t =
     (\<forall>r \<in> set (rows t). t_access_token_hash r \<noteq> sha256_hex F tok \<and> t_issued_at r < now)"

abbreviation token_expiry :: "ygg_policy \<Rightarrow> time \<Rightarrow> time" where
  "token_expiry policy now \<equiv> now + days (int (pol_token_ttl_days policy))"

lemma issue_token_ok:
  assumes "cache_lawful C" and "ygg_wf C s" and "can_issue F policy now" and "fresh_token F now tok (tokens_of s)"
  obtains s' where "issue_token C F policy now tok u client sel ua ip s
        = (Inr \<lparr>is_token_id = next_id (tokens_of s), is_access_token = tok\<rparr>, s')"
    "ygg_wf C s'"
    "find_by_access_hash (sha256_hex F tok) (tokens_of s') =
       Some (new_token F now (token_expiry policy now) tok u client sel ua ip (next_id (tokens_of s)))"
    "y_db s' = (y_db s)\<lparr>yggdrasil_tokens := tokens_of s'\<rparr>"
proof -
  have pol: "conversions_ok F" "0 < pol_max_active_tokens policy" "pol_max_active_tokens policy < 2 ^ 64"
      "pol_token_ttl_days policy < 2 ^ 63" "token_expiry policy now \<le> max_datetime"
    using assms(3) by (simp_all add: can_issue_def)
  have new: "\<forall>r \<in> set (rows (tokens_of s)). t_access_token_hash r \<noteq> sha256_hex F tok"
    using assms(4) by (simp add: fresh_token_def)
  obtain iss pruned t where run:
      "issue_token_in_connection F policy now tok u client sel ua ip (tokens_of s) = (Inr (iss, pruned), t)"
    using issue_in_connection_ok[OF pol(1,3,4,5) new, of u client sel ua ip] by blast
  have twf: "toks_wf (tokens_of s)" using assms(2) by (simp add: ygg_wf_def)
  have past: "t_issued_at r < now"
    if "r \<in> set (rows (tokens_of s))" "t_user_id r = u" "t_revoked_at r = None" for r
    using assms(4) that(1) by (simp add: fresh_token_def)
  have live: "find_by_access_hash (sha256_hex F tok) t =
      Some (new_token F now (token_expiry policy now) tok u client sel ua ip (next_id (tokens_of s)))"
    by (rule issue_live(1)[OF twf pol(1-4) _ run]) (use past in blast)
  have iss: "iss = \<lparr>is_token_id = next_id (tokens_of s), is_access_token = tok\<rparr>"
    by (rule issue_live(2)[OF twf pol(1-4) _ run]) (use past in blast)
  let ?s = "(put_tokens t s)\<lparr>y_cache := invalidate_tokens C pruned (y_cache s)\<rparr>"
  have eq: "issue_token C F policy now tok u client sel ua ip s = (Inr iss, ?s)"
    by (simp add: issue_token_run run)
  have "sha256_hex F tok \<noteq> sha256_hex F tok @ ''!''" by simp
  from issue_token_safe[OF assms(1) this, of s policy now u client sel ua ip] assms(2) eq
  have wf: "ygg_wf C ?s" by (simp add: tok_safe_def)
  show ?thesis
    by (rule that[of ?s, OF eq[unfolded iss] wf]) (simp_all add: live)
qed

lemma issue_token_Inl:
  "issue_token C F policy now tok u client sel ua ip s = (Inl e, s') \<Longrightarrow> s' = s"
  by (auto simp: issue_token_run split: prod.splits sum.splits)

lemma new_token_accepted:
  assumes "cache_lawful C" and "ygg_wf C s"
    and "find_by_access_hash (sha256_hex F tok) (tokens_of s) = Some (new_token F now ex tok u client sel ua ip i)"
    and "now' < ex" and "\<not> is_user_banned J now' u YggdrasilAccess (y_db s)"
  shows "fst (token_for_operation C F J now' tok (Some client) allow s) = Inr (new_token F now ex tok u client sel ua ip i)"
  by (rule accepted_fst[OF assms(1-3)]) (use assms(4,5) in \<open>simp add: token_accepted_def\<close>)

lemma authenticate_Inl:
  "authenticate C F J policy sr now fc fa body req s = (Inl e, s') \<Longrightarrow> s' = s"
  unfolding authenticate_run by (auto split: if_splits sum.splits prod.splits dest: issue_token_Inl)

lemma authenticate_guards:
  assumes "authenticate C F J policy sr now fc fa body req s = (Inr resp, s')"
  shows "trim (aq_username body) \<noteq> [] \<and> aq_password body \<noteq> [] \<and> agent_ok (aq_agent body)
    \<and> (\<exists>target. may_login F J policy now (aq_username body) (aq_password body) target (y_db s))"
  using assms unfolding authenticate_run may_login_def
  by (auto split: if_splits sum.splits simp: crypto_result_Inr)

lemma authenticate_ok:
  assumes "cache_lawful C" and "ygg_wf C s" and "can_issue F policy now" and "fresh_token F now fa (tokens_of s)"
    and "trim (aq_username body) \<noteq> []" and "aq_password body \<noteq> []" and "agent_ok (aq_agent body)"
    and "may_login F J policy now (aq_username body) (aq_password body) target (y_db s)"
  obtains s1 where
    "authenticate C F J policy sr now fc fa body req s =
      (Inr (authenticate_answer body target fa (chosen_client_token (aq_client_token body) fc) (y_db s)),
       s1\<lparr>y_db := log_with_details sr now (audit_from_request req (u_id (lt_user target)))
         ''yggdrasil_authenticate'' ''yggdrasil_token'' (Some (next_id (tokens_of s)))
         (map_option p_name (login_profile target (y_db s)))
         (Some (authenticate_details (aq_username body) (login_profile target (y_db s))
           (length (list_by_user (u_id (lt_user target)) (y_db s))))) (y_db s1)\<rparr>)"
    "ygg_wf C s1"
    "find_by_access_hash (sha256_hex F fa) (tokens_of s1) =
       Some (new_token F now (token_expiry policy now) fa (u_id (lt_user target))
         (chosen_client_token (aq_client_token body) fc) (login_selection target (y_db s))
         (user_agent req) (peer_ip req) (next_id (tokens_of s)))"
    "y_db s1 = (y_db s)\<lparr>yggdrasil_tokens := tokens_of s1\<rparr>"
proof -
  obtain s1 where s1: "issue_token C F policy now fa (u_id (lt_user target))
        (chosen_client_token (aq_client_token body) fc) (login_selection target (y_db s))
        (user_agent req) (peer_ip req) s
      = (Inr \<lparr>is_token_id = next_id (tokens_of s), is_access_token = fa\<rparr>, s1)" "ygg_wf C s1"
      "find_by_access_hash (sha256_hex F fa) (tokens_of s1) =
       Some (new_token F now (token_expiry policy now) fa (u_id (lt_user target))
         (chosen_client_token (aq_client_token body) fc) (login_selection target (y_db s))
         (user_agent req) (peer_ip req) (next_id (tokens_of s)))"
      "y_db s1 = (y_db s)\<lparr>yggdrasil_tokens := tokens_of s1\<rparr>"
    by (rule issue_token_ok[OF assms(1-4)])
  show ?thesis
    by (rule that[OF _ s1(2-4)])
      (use assms(5-8) in \<open>simp add: authenticate_run may_login_def s1(1) crypto_result_def lift_aster_def\<close>)
qed

section \<open>Ownership\<close>

text \<open>Every token belongs to a stored account and is bound at most to a profile of that account.\<close>

definition owned :: "db \<Rightarrow> row_id \<Rightarrow> row_id option \<Rightarrow> bool" where
  "owned d u sel =
     ((\<exists>x \<in> set (rows (users d)). u_id x = u)
      \<and> (\<forall>i. sel = Some i \<longrightarrow> (\<exists>p \<in> set (rows (minecraft_profiles d)). p_id p = i \<and> p_user_id p = u)))"

definition tokens_owned :: "db \<Rightarrow> bool" where
  "tokens_owned d = (\<forall>r \<in> set (rows (yggdrasil_tokens d)). owned d (t_user_id r) (t_selected_profile_id r))"

lemma owned_tokens [simp]: "owned (d\<lparr>yggdrasil_tokens := t\<rparr>) u sel = owned d u sel"
  by (simp add: owned_def)

lemma owned_log [simp]: "owned (log_with_details sr now ctx a et ei en det d) u sel = owned d u sel"
  by (simp add: owned_def)

lemma tokens_owned_log [simp]: "tokens_owned (log_with_details sr now ctx a et ei en det d) = tokens_owned d"
  by (simp add: tokens_owned_def)

lemma tokens_owned_rows:
  assumes "tokens_owned d"
    and "\<And>r'. r' \<in> set (rows t) \<Longrightarrow>
       (\<exists>r \<in> set (rows (yggdrasil_tokens d)). frozen r r') \<or> owned d (t_user_id r') (t_selected_profile_id r')"
  shows "tokens_owned (d\<lparr>yggdrasil_tokens := t\<rparr>)"
  unfolding tokens_owned_def
proof
  fix r' assume "r' \<in> set (rows (yggdrasil_tokens (d\<lparr>yggdrasil_tokens := t\<rparr>)))"
  then have "r' \<in> set (rows t)" by simp
  from assms(2)[OF this] assms(1)
  show "owned (d\<lparr>yggdrasil_tokens := t\<rparr>) (t_user_id r') (t_selected_profile_id r')"
    by (auto simp: tokens_owned_def frozen_def)
qed

lemma issue_rows:
  assumes "issue_token_in_connection F policy now tok u client sel ua ip t = (Inr (iss, pruned), t')"
    and "r' \<in> set (rows t')"
  shows "(\<exists>r \<in> set (rows t). frozen r r') \<or> (t_user_id r' = u \<and> t_selected_profile_id r' = sel)"
proof -
  obtain n k t1 where t1: "t1 = t\<lparr>rows := rows t @ [new_token F now (now + days n) tok u client sel ua ip (next_id t)],
            next_id := next_id t + 1\<rparr>"
      "t' = revoke_ids now (t_id ` set (drop k (tokens_newest_first u t1))) t1"
    using issue_in_connection_run[OF assms(1)] by blast
  obtain x where "x \<in> set (rows t1)" "frozen x r'" using revoke_ids_member assms(2) t1(2) by blast
  then show ?thesis using t1(1) by (auto simp: frozen_def)
qed

lemma revoke_hash_rows:
  assumes "toks_wf t" and "revoke_by_access_hash F now h t = (Inr b, t')" and "r' \<in> set (rows t')"
  shows "\<exists>r \<in> set (rows t). frozen r r'"
  using assms(1,2)
proof (cases rule: revoke_hash_cases)
  case (hit tk)
  then show ?thesis using revoke_ids_member assms(3) by blast
next
  case miss
  then show ?thesis using assms(3) by (auto intro: frozen_refl)
qed

lemma issue_token_owned:
  assumes "tokens_owned (y_db s)" and "owned (y_db s) u sel"
    and "issue_token C F policy now tok u client sel ua ip s = (Inr iss, s')"
  shows "tokens_owned (y_db s')"
proof -
  obtain pruned t where t: "issue_token_in_connection F policy now tok u client sel ua ip (tokens_of s)
      = (Inr (iss, pruned), t)" "y_db s' = (y_db s)\<lparr>yggdrasil_tokens := t\<rparr>"
    using assms(3) by (auto simp: issue_token_run split: prod.splits sum.splits)
  show ?thesis
    unfolding t(2) by (rule tokens_owned_rows[OF assms(1)]) (use issue_rows[OF t(1)] assms(2) in auto)
qed

lemma refresh_token_owned:
  assumes "toks_wf (tokens_of s)" and "tokens_owned (y_db s)" and "owned (y_db s) u sel"
    and "refresh_token C F policy now tok old u client sel ua ip s = (Inr iss, s')"
  shows "tokens_owned (y_db s')"
proof -
  obtain pruned t where t: "refresh_in_transaction F policy now (sha256_hex F old) tok u client sel ua ip (tokens_of s)
      = (Inr (iss, pruned), t)" "y_db s' = (y_db s)\<lparr>yggdrasil_tokens := t\<rparr>"
    using assms(4) by (auto simp: refresh_token_run split: prod.splits sum.splits)
  obtain t1 where t1: "revoke_by_access_hash F now (sha256_hex F old) (tokens_of s) = (Inr True, t1)"
      "issue_token_in_connection F policy now tok u client sel ua ip t1 = (Inr (iss, pruned), t)"
    using refresh_in_transaction_Inr[OF t(1)] by blast
  show ?thesis
    unfolding t(2)
  proof (rule tokens_owned_rows[OF assms(2)])
    fix r' assume "r' \<in> set (rows t)"
    from issue_rows[OF t1(2) this] revoke_hash_rows[OF assms(1) t1(1)] assms(3)
    show "(\<exists>r \<in> set (rows (tokens_of s)). frozen r r') \<or> owned (y_db s) (t_user_id r') (t_selected_profile_id r')"
      by (auto intro: frozen_trans)
  qed
qed

lemma refresh_token_db:
  assumes "refresh_token C F policy now tok old u client sel ua ip s = (Inr iss, s')"
  shows "y_db s' = (y_db s)\<lparr>yggdrasil_tokens := tokens_of s'\<rparr>"
  using assms by (auto simp: refresh_token_run split: prod.splits sum.splits)

lemma revoke_token_owned:
  assumes "toks_wf (tokens_of s)" and "tokens_owned (y_db s)"
  shows "tokens_owned (y_db (snd (revoke_by_access_token C F now tok s)))"
proof -
  obtain b t where t: "revoke_by_access_hash F now (sha256_hex F tok) (tokens_of s) = (Inr b, t)"
      "revoke_by_access_token C F now tok s =
        (Inr (), (put_tokens t s)\<lparr>y_cache := invalidate_token C (sha256_hex F tok) (y_cache s)\<rparr>)"
    using revoke_by_access_token_run by blast
  show ?thesis
    using tokens_owned_rows[OF assms(2), of t] revoke_hash_rows[OF assms(1) t(1)] by (simp add: t(2))
qed

lemma revoke_all_owned:
  assumes "tokens_owned (y_db s)"
  shows "tokens_owned (y_db (snd (revoke_all_for_user C now u s)))"
proof -
  let ?t = "(tokens_of s)\<lparr>rows := map (\<lambda>r. if t_user_id r = u \<and> t_revoked_at r = None
          then revoke_row now r else r) (rows (tokens_of s))\<rparr>"
  obtain hashes where run: "revoke_all_for_user C now u s =
        (Inr (), (put_tokens ?t s)\<lparr>y_cache := invalidate_tokens C hashes (y_cache s)\<rparr>)"
    using revoke_all_for_user_run by blast
  have "tokens_owned ((y_db s)\<lparr>yggdrasil_tokens := ?t\<rparr>)"
    by (rule tokens_owned_rows[OF assms]) (auto split: if_splits intro: frozen_revoke frozen_refl)
  then show ?thesis by (simp add: run)
qed

section \<open>Refreshing\<close>

definition refresh_answer :: "refresh_req \<Rightarrow> user \<Rightarrow> string \<Rightarrow> string \<Rightarrow> minecraft_profile option \<Rightarrow> refresh_resp" where
  "refresh_answer body u access client profile =
     \<lparr>rr_access_token = access, rr_client_token = client,
      rr_selected_profile = map_option profile_summary profile,
      rr_user = (if rq_request_user body then Some (user_info u) else None)\<rparr>"

definition profile_of_selection :: "row_id option \<Rightarrow> db \<Rightarrow> minecraft_profile option yresult" where
  "profile_of_selection sel d =
     (case sel of None \<Rightarrow> Inr None | Some i \<Rightarrow> map_sum id Some (lift_aster (find_profile_by_id i d)))"

text \<open>The old token of a refresh, its account and the profile the new token is bound to.\<close>

definition may_refresh :: "forge \<Rightarrow> scope_codec \<Rightarrow> time \<Rightarrow> refresh_req \<Rightarrow> yggdrasil_token \<Rightarrow> user \<Rightarrow> row_id option \<Rightarrow> db \<Rightarrow> bool" where
  "may_refresh F J now body old u sel d =
     (find_by_access_hash (sha256_hex F (rq_access_token body)) (yggdrasil_tokens d) = Some old
      \<and> token_accepted J d now (rq_client_token body) True old
      \<and> find_user_by_id (t_user_id old) d = Inr u \<and> u_status u = UserActive
      \<and> refresh_selection old u (rq_selected_profile body) d = Inr sel)"

lemma refresh_cases [consumes 3, case_names refused renewed]:
  assumes "cache_lawful C" and "ygg_wf C s"
    and "refresh C F J policy sr now fa body req s = (r, s')"
  obtains (refused) e where "r = Inl e" "y_db s' = y_db s" "ygg_wf C s'"
      "\<And>old u sel. \<not> may_refresh F J now body old u sel (y_db s)"
  | (renewed) old u sel s0 where "may_refresh F J now body old u sel (y_db s)" "y_db s0 = y_db s" "ygg_wf C s0"
      "(r, s') = (case refresh_token C F policy now fa (rq_access_token body) (u_id u) (t_client_token old) sel
          (user_agent req) (peer_ip req) s0 of
          (Inl e, s1) \<Rightarrow> (Inl e, s1)
        | (Inr iss, s1) \<Rightarrow> (case profile_of_selection sel (y_db s1) of
             Inl e \<Rightarrow> (Inl e, s1)
           | Inr profile \<Rightarrow> (Inr (refresh_answer body u (is_access_token iss) (t_client_token old) profile),
               s1\<lparr>y_db := log_with_details sr now (audit_from_request req (u_id u)) ''yggdrasil_refresh_token''
                 ''yggdrasil_token'' (Some (is_token_id iss)) (map_option p_name profile)
                 (Some (token_details profile)) (y_db s1)\<rparr>)))"
proof -
  obtain q s0 where q: "refreshable_token C F J now (rq_access_token body) (rq_client_token body) s = (q, s0)"
    by fastforce
  from token_for_operation_run[OF assms(1,2) q[unfolded refreshable_token_def]]
  have q': "q = (case find_by_access_hash (sha256_hex F (rq_access_token body)) (tokens_of s) of
                Some tk \<Rightarrow> if token_accepted J (y_db s) now (rq_client_token body) True tk then Inr tk
                          else Inl (ygg_error InvalidToken)
              | None \<Rightarrow> Inl (ygg_error InvalidToken))" and s0: "y_db s0 = y_db s" "ygg_wf C s0"
    by blast+
  show ?thesis
  proof (cases "\<exists>old u sel. may_refresh F J now body old u sel (y_db s)")
    case True
    then obtain old u sel where may: "may_refresh F J now body old u sel (y_db s)" by blast
    then have "q = Inr old" using q' by (simp add: may_refresh_def)
    then show ?thesis
      using assms(3) may s0
      by (intro renewed[OF may s0])
        (auto simp: refresh_def bnd_def q query_def may_refresh_def lift_aster_def user_status_is_active_def
          audited_run refresh_answer_def ret_def profile_of_selection_def split: prod.splits sum.splits)
  next
    case False
    have "\<exists>e. r = Inl e \<and> s' = s0"
    proof (cases q)
      case (Inl e)
      then show ?thesis using assms(3) by (auto simp: refresh_def bnd_def q)
    next
      case (Inr old)
      then have acc: "find_by_access_hash (sha256_hex F (rq_access_token body)) (tokens_of s) = Some old"
          "token_accepted J (y_db s) now (rq_client_token body) True old"
        using q' by (simp_all split: option.splits if_splits)
      then have no: "find_user_by_id (t_user_id old) (y_db s) = Inr u \<Longrightarrow> u_status u = UserActive
          \<Longrightarrow> refresh_selection old u (rq_selected_profile body) (y_db s) \<noteq> Inr sel" for u sel
        using False by (simp add: may_refresh_def)
      note go = assms(3)[unfolded refresh_def bnd_def[of "refreshable_token C F J now (rq_access_token body) (rq_client_token body)"] q Inr]
      show ?thesis
      proof (cases "find_user_by_id (t_user_id old) (y_db s)")
        case (Inr u)
        then show ?thesis
          using go no[OF Inr]
          by (cases "refresh_selection old u (rq_selected_profile body) (y_db s)")
            (auto simp: bnd_def query_def lift_aster_def raise_def user_status_is_active_def s0(1) split: if_splits)
      qed (use go in \<open>auto simp: bnd_def query_def lift_aster_def s0(1)\<close>)
    qed
    then show ?thesis using refused s0 False by blast
  qed
qed

lemma refresh_selection_owned:
  assumes "tokens_owned d" and "old \<in> set (rows (yggdrasil_tokens d))"
    and "find_user_by_id (t_user_id old) d = Inr u" and "refresh_selection old u selected d = Inr sel"
  shows "u_id u = t_user_id old" and "owned d (u_id u) sel"
proof -
  have u: "u \<in> set (rows (users d))" "u_id u = t_user_id old"
    using assms(3) by (auto simp: find_user_by_id_def split: option.splits dest: select_one_Some)
  show "u_id u = t_user_id old" by (rule u(2))
  show "owned d (u_id u) sel"
  proof (cases selected)
    case None
    then show ?thesis using assms(1,2,4) u by (auto simp: refresh_selection_def tokens_owned_def)
  next
    case (Some x)
    then show ?thesis
      using assms(4) u by (auto simp: refresh_selection_def find_by_uuid_def owned_def split: if_splits option.splits
          dest!: select_one_Some)
  qed
qed

lemma owned_profile_found:
  assumes "owned d u sel"
  shows "\<exists>profile. profile_of_selection sel d = Inr profile"
proof (cases sel)
  case (Some i)
  then obtain p where "p \<in> set (rows (minecraft_profiles d))" "p_id p = i" using assms by (auto simp: owned_def)
  then obtain x where "select_one (\<lambda>p. p_id p = i) (minecraft_profiles d) = Some x"
    using select_one_None[of "\<lambda>p. p_id p = i" "minecraft_profiles d"] by auto
  then show ?thesis
    using Some by (auto simp: profile_of_selection_def find_profile_by_id_def lift_aster_def)
qed (simp add: profile_of_selection_def)

lemma refresh_token_ok:
  assumes "cache_lawful C" and "ygg_wf C s" and "can_issue F policy now" and "fresh_token F now tok (tokens_of s)"
    and "find_by_access_hash (sha256_hex F old) (tokens_of s) = Some tk" and "t_revoked_at tk = None"
  obtains i s' where "refresh_token C F policy now tok old u client sel ua ip s
        = (Inr \<lparr>is_token_id = i, is_access_token = tok\<rparr>, s')"
    "ygg_wf C s'" "dead (sha256_hex F old) (tokens_of s')"
    "find_by_access_hash (sha256_hex F tok) (tokens_of s') =
       Some (new_token F now (token_expiry policy now) tok u client sel ua ip i)"
proof -
  have pol: "conversions_ok F" "0 < pol_max_active_tokens policy" "pol_max_active_tokens policy < 2 ^ 64"
      "pol_token_ttl_days policy < 2 ^ 63" "token_expiry policy now \<le> max_datetime"
    using assms(3) by (simp_all add: can_issue_def)
  have twf: "toks_wf (tokens_of s)" using assms(2) by (simp add: ygg_wf_def)
  obtain b t1 where t1: "revoke_by_access_hash F now (sha256_hex F old) (tokens_of s) = (Inr b, t1)"
    using revoke_hash_total by blast
  have "\<not> dead (sha256_hex F old) (tokens_of s)" using found_by_hash[OF assms(5)] assms(6) by (auto simp: dead_def)
  then have b: "b" using revoke_hash_effect(6)[OF twf t1] by simp
  have new: "\<forall>r \<in> set (rows t1). t_access_token_hash r \<noteq> sha256_hex F tok"
    using revoke_hash_effect(7)[OF twf t1] assms(4) unfolding fresh_token_def by (metis image_eqI image_set imageE)
  obtain iss pruned t where t: "issue_token_in_connection F policy now tok u client sel ua ip t1 = (Inr (iss, pruned), t)"
    using issue_in_connection_ok[OF pol(1,3,4,5) new, of u client sel ua ip] by blast
  have "refresh_in_transaction F policy now (sha256_hex F old) tok u client sel ua ip (tokens_of s)
      = (Inr (iss, pruned), t)"
    using b t by (simp add: refresh_in_transaction_def bnd_def ygg_def t1 lift_aster_def)
  then obtain s' where run: "refresh_token C F policy now tok old u client sel ua ip s = (Inr iss, s')"
    by (simp add: refresh_token_run)
  have past: "t_issued_at r < now" if "r \<in> set (rows (tokens_of s))" "t_user_id r = u" "t_revoked_at r = None" for r
    using assms(4) that(1) by (simp add: fresh_token_def)
  obtain i where "ygg_wf C s'" "iss = \<lparr>is_token_id = i, is_access_token = tok\<rparr>"
      "dead (sha256_hex F old) (tokens_of s')" "find_by_access_hash (sha256_hex F tok) (tokens_of s') =
       Some (new_token F now (token_expiry policy now) tok u client sel ua ip i)"
    by (rule refresh_success[OF assms(1,2) pol(1-4) _ run]) (use past in blast)+
  then show ?thesis using that run by blast
qed

section \<open>Every request keeps the tokens safe and owned\<close>

lemma resolve_owned:
  assumes "resolve_login_target identifier policy d = Inr target"
  shows "owned d (u_id (lt_user target)) (login_selection target d)"
proof -
  have "lt_user target \<in> set (rows (users d))
      \<and> (\<forall>p. lt_forced_profile target = Some p \<longrightarrow>
          p \<in> set (rows (minecraft_profiles d)) \<and> p_user_id p = u_id (lt_user target))"
    using assms
    by (auto simp: resolve_login_target_def find_by_identifier_def find_by_name_def find_user_by_id_def lift_aster_def
        split: option.splits if_splits sum.splits dest!: select_one_Some)
  moreover have "hd (list_by_user u d) \<in> set (rows (minecraft_profiles d)) \<and> p_user_id (hd (list_by_user u d)) = u"
    if "length (list_by_user u d) = 1" for u
  proof -
    have "hd (list_by_user u d) \<in> set (list_by_user u d)" using that by (cases "list_by_user u d") auto
    then show ?thesis by (auto simp: list_by_user_def order_by_asc_def select_all_def)
  qed
  ultimately show ?thesis
    by (auto simp: owned_def login_selection_def select_profile_def split: option.splits if_splits)
qed

text \<open>What one request keeps: the tokens stay well formed and owned, and a refused hash stays refused.\<close>

definition kept :: "'c cache_ops \<Rightarrow> string \<Rightarrow> 'c ygg_state \<Rightarrow> 'c ygg_state \<Rightarrow> bool" where
  "kept C h s s' = (ygg_wf C s \<longrightarrow> tokens_owned (y_db s) \<longrightarrow>
     ygg_wf C s' \<and> tokens_owned (y_db s') \<and> (dead h (tokens_of s) \<longrightarrow> dead h (tokens_of s')))"

lemma kept_refl [simp]: "kept C h s s"
  by (simp add: kept_def)

lemma kept_trans: "kept C h s s1 \<Longrightarrow> kept C h s1 s2 \<Longrightarrow> kept C h s s2"
  by (simp add: kept_def)

lemma kept_log [simp]:
  "kept C h s (s1\<lparr>y_db := log_with_details sr now ctx a et ei en det (y_db s1)\<rparr>) = kept C h s s1"
  using ygg_wf_cong[of "s1\<lparr>y_db := log_with_details sr now ctx a et ei en det (y_db s1)\<rparr>" s1 C]
  by (simp add: kept_def)

lemma kept_intro:
  assumes "tok_safe C h s s'" and "ygg_wf C s \<Longrightarrow> tokens_owned (y_db s) \<Longrightarrow> tokens_owned (y_db s')"
  shows "kept C h s s'"
  using assms by (simp add: kept_def tok_safe_def)

lemma authenticate_kept:
  assumes "cache_lawful C" and "sha256_hex F fa \<noteq> h"
  shows "kept C h s (snd (authenticate C F J policy sr now fc fa body req s))"
proof (cases "authenticate C F J policy sr now fc fa body req s")
  case (Pair r s')
  show ?thesis
  proof (cases r)
    case (Inl e)
    then show ?thesis using authenticate_Inl[of C F J policy sr now fc fa body req s e s'] Pair by simp
  next
    case (Inr resp)
    obtain target iss s1 ctx en det where t: "resolve_login_target (aq_username body) policy (y_db s) = Inr target"
        "issue_token C F policy now fa (u_id (lt_user target))
           (chosen_client_token (aq_client_token body) fc) (login_selection target (y_db s))
           (user_agent req) (peer_ip req) s = (Inr iss, s1)"
        "s' = s1\<lparr>y_db := log_with_details sr now ctx ''yggdrasil_authenticate'' ''yggdrasil_token''
           (Some (is_token_id iss)) en det (y_db s1)\<rparr>"
      using Pair[unfolded Inr authenticate_run] by (auto split: if_splits sum.splits prod.splits)
    have "kept C h s s1"
    proof (rule kept_intro)
      show "tok_safe C h s s1" using issue_token_safe[OF assms, of s] t(2) by (metis snd_conv)
      show "tokens_owned (y_db s1)" if "tokens_owned (y_db s)"
        by (rule issue_token_owned[OF that resolve_owned[OF t(1)] t(2)])
    qed
    then show ?thesis by (simp add: Pair t(3))
  qed
qed

lemma found_token_safe:
  assumes "refresh_token C F policy now tok old u client sel ua ip s = (q, s1)"
    and "cache_lawful C" and "sha256_hex F tok \<noteq> h"
  shows "tok_safe C h s s1"
  using refresh_token_safe[OF assms(2,3), of s policy now old u client sel ua ip] assms(1) by simp

lemma refresh_token_Inl:
  "refresh_token C F policy now tok old u client sel ua ip s = (Inl e, s') \<Longrightarrow> s' = s"
  by (auto simp: refresh_token_run split: prod.splits sum.splits)

lemma refresh_kept:
  assumes C: "cache_lawful C" and h: "sha256_hex F fa \<noteq> h"
  shows "kept C h s (snd (refresh C F J policy sr now fa body req s))"
  unfolding kept_def
proof (intro impI)
  assume wf: "ygg_wf C s" and own: "tokens_owned (y_db s)"
  obtain r s' where run: "refresh C F J policy sr now fa body req s = (r, s')" by fastforce
  have "ygg_wf C s' \<and> tokens_owned (y_db s') \<and> (dead h (tokens_of s) \<longrightarrow> dead h (tokens_of s'))"
    using C wf run
  proof (cases rule: refresh_cases)
    case (refused e)
    then show ?thesis using own by simp
  next
    case (renewed old u sel s0)
    obtain q s1 where q: "refresh_token C F policy now fa (rq_access_token body) (u_id u) (t_client_token old) sel
          (user_agent req) (peer_ip req) s0 = (q, s1)" by fastforce
    have k: "kept C h s0 s1"
    proof (rule kept_intro)
      show "tok_safe C h s0 s1" by (rule found_token_safe[OF q C h])
      show "tokens_owned (y_db s1)" if "ygg_wf C s0" "tokens_owned (y_db s0)"
      proof (cases q)
        case (Inl e)
        then show ?thesis using refresh_token_Inl q that(2) by metis
      next
        case (Inr iss)
        have "owned (y_db s0) (u_id u) sel"
          unfolding renewed(2)
          by (rule refresh_selection_owned(2)[OF own])
            (use renewed(1) in \<open>auto simp: may_refresh_def dest: found_by_hash\<close>)
        then show ?thesis using refresh_token_owned[OF _ that(2)] q Inr that(1) by (auto simp: ygg_wf_def)
      qed
    qed
    have "kept C h s0 s'"
      using renewed(4) k by (auto simp: q split: sum.splits prod.splits)
    then show ?thesis using renewed(2,3) own by (simp add: kept_def)
  qed
  then show "ygg_wf C (snd (refresh C F J policy sr now fa body req s))
      \<and> tokens_owned (y_db (snd (refresh C F J policy sr now fa body req s)))
      \<and> (dead h (tokens_of s) \<longrightarrow> dead h (tokens_of (snd (refresh C F J policy sr now fa body req s))))"
    by (simp add: run)
qed

lemma check_kept:
  assumes "cache_lawful C"
  shows "kept C h s (snd (active_token C F J now tok client s))"
proof (rule kept_intro)
  show "tok_safe C h s (snd (active_token C F J now tok client s))"
    unfolding active_token_def by (rule check_safe[OF assms])
  show "tokens_owned (y_db (snd (active_token C F J now tok client s)))"
    if "ygg_wf C s" "tokens_owned (y_db s)"
    using token_for_operation_run[OF assms that(1) prod.collapse[symmetric], of F J now tok client False] that(2)
    by (simp add: active_token_def)
qed

lemma validate_kept:
  assumes "cache_lawful C"
  shows "kept C h s (snd (validate C F J now body s))"
proof -
  have "snd (validate C F J now body s) = snd (active_token C F J now (tq_access_token body) (tq_client_token body) s)"
    by (simp add: validate_def bnd_def ret_def split: prod.splits sum.splits)
  then show ?thesis using check_kept[OF assms] by metis
qed

lemma revoke_token_kept:
  assumes "cache_lawful C"
  shows "kept C h s (snd (revoke_by_access_token C F now tok s))"
  by (rule kept_intro[OF revoke_token_safe[OF assms]]) (simp add: revoke_token_owned ygg_wf_def)

lemma revoke_all_kept:
  assumes "cache_lawful C"
  shows "kept C h s (snd (revoke_all_for_user C now u s))"
  by (rule kept_intro[OF revoke_all_safe[OF assms]]) (rule revoke_all_owned)

lemma cleanup_kept:
  assumes "cache_lawful C"
  shows "kept C h s (snd (cleanup_expired_or_revoked_tokens C now s))"
  by (rule kept_intro[OF cleanup_safe[OF assms]])
    (auto simp: cleanup_run tokens_owned_def)

text \<open>\<open>invalidate\<close> ignores a token that is not active; it stops early only when the profile of an active
  token is gone.\<close>

lemma invalidate_run:
  assumes "cache_lawful C" and "ygg_wf C s" and "tokens_owned (y_db s)"
  obtains s0 s1 where "kept C h s s0" "s1 = snd (revoke_by_access_token C F now (tq_access_token body) s0)"
    "y_db s0 = y_db s" "ygg_wf C s0"
    "invalidate C F J sr now body s = (Inr (), s1)
     \<or> (\<exists>ctx ei en det. invalidate C F J sr now body s =
        (Inr (), s1\<lparr>y_db := log_with_details sr now ctx ''yggdrasil_invalidate_token'' ''yggdrasil_token'' ei en det (y_db s1)\<rparr>))"
proof -
  obtain q s0 where q: "active_token C F J now (tq_access_token body) None s = (q, s0)" by fastforce
  note tok = token_for_operation_run[OF assms(1,2) q[unfolded active_token_def]]
  have "\<exists>profile. selected_profile_for_token (case q of Inl _ \<Rightarrow> None | Inr tk \<Rightarrow> Some tk) (y_db s0) = Inr profile"
  proof (cases q)
    case (Inr tk)
    then have "tk \<in> set (rows (tokens_of s))"
      using tok by (auto split: option.splits if_splits dest: found_by_hash)
    then have "owned (y_db s) (t_user_id tk) (t_selected_profile_id tk)" using assms(3) by (simp add: tokens_owned_def)
    from owned_profile_found[OF this] obtain profile where
      "profile_of_selection (t_selected_profile_id tk) (y_db s0) = Inr profile"
      using tok by auto
    then have "selected_profile_for_token (Some tk) (y_db s0) = Inr profile"
      by (simp add: selected_profile_for_token_def profile_of_selection_def)
    then show ?thesis using Inr by auto
  qed (simp add: selected_profile_for_token_def)
  then obtain profile where profile: "selected_profile_for_token (case q of Inl _ \<Rightarrow> None | Inr tk \<Rightarrow> Some tk) (y_db s0) = Inr profile"
    by blast
  obtain s1 where rev: "revoke_by_access_token C F now (tq_access_token body) s0 = (Inr (), s1)"
    using revoke_by_access_token_run[of F now "tq_access_token body" s0 C] by auto
  have "kept C h s s0" using check_kept[OF assms(1), of h s F J now "tq_access_token body" None] q by simp
  then show ?thesis
  proof (rule that[of s0 s1])
    show "s1 = snd (revoke_by_access_token C F now (tq_access_token body) s0)" by (simp add: rev)
    show "y_db s0 = y_db s" "ygg_wf C s0" using tok by blast+
    show "invalidate C F J sr now body s = (Inr (), s1)
      \<or> (\<exists>ctx ei en det. invalidate C F J sr now body s =
         (Inr (), s1\<lparr>y_db := log_with_details sr now ctx ''yggdrasil_invalidate_token'' ''yggdrasil_token'' ei en det (y_db s1)\<rparr>))"
      using profile
      by (cases q) (auto simp: invalidate_def attempt_def bnd_def q query_def audited_run ret_def rev)
  qed
qed

lemma invalidate_kept:
  assumes "cache_lawful C"
  shows "kept C h s (snd (invalidate C F J sr now body s))"
proof (cases "ygg_wf C s \<and> tokens_owned (y_db s)")
  case True
  then have wf: "ygg_wf C s" "tokens_owned (y_db s)" by simp_all
  obtain s0 s1 where s01: "kept C h s s0" "s1 = snd (revoke_by_access_token C F now (tq_access_token body) s0)"
      "invalidate C F J sr now body s = (Inr (), s1)
       \<or> (\<exists>ctx ei en det. invalidate C F J sr now body s =
        (Inr (), s1\<lparr>y_db := log_with_details sr now ctx ''yggdrasil_invalidate_token'' ''yggdrasil_token'' ei en det (y_db s1)\<rparr>))"
    by (rule invalidate_run[OF assms wf])
  have "kept C h s s1" using kept_trans[OF s01(1) revoke_token_kept[OF assms]] s01(2) by simp
  then show ?thesis using s01(3) by auto
next
  case False
  then show ?thesis by (auto simp: kept_def)
qed

lemma signout_kept:
  assumes "cache_lawful C"
  shows "kept C h s (snd (signout C F policy sr now username password s))"
proof -
  have k: "kept C h s s1" if "revoke_all_for_user C now u s = (q, s1)" for u q s1
    using revoke_all_kept[OF assms, of h s now u] that by simp
  show ?thesis
    using k
    by (auto simp: signout_def bnd_def query_def check_def raise_def audited_run user_status_is_active_def
        split: sum.splits prod.splits)
qed

text \<open>Any sequence of requests, with any settings and clocks; \<open>avoid\<close> is a hash no new token has.\<close>

inductive auth_steps ::
    "'c cache_ops \<Rightarrow> forge \<Rightarrow> scope_codec \<Rightarrow> string \<Rightarrow> 'c ygg_state \<Rightarrow> 'c ygg_state \<Rightarrow> bool"
  for C F J avoid s0 where
  auth_start: "auth_steps C F J avoid s0 s0"
| auth_authenticate: "auth_steps C F J avoid s0 s \<Longrightarrow> sha256_hex F fa \<noteq> avoid \<Longrightarrow>
    auth_steps C F J avoid s0 (snd (authenticate C F J policy sr now fc fa body req s))"
| auth_refresh: "auth_steps C F J avoid s0 s \<Longrightarrow> sha256_hex F fa \<noteq> avoid \<Longrightarrow>
    auth_steps C F J avoid s0 (snd (refresh C F J policy sr now fa rbody req s))"
| auth_validate: "auth_steps C F J avoid s0 s \<Longrightarrow> auth_steps C F J avoid s0 (snd (validate C F J now tbody s))"
| auth_invalidate: "auth_steps C F J avoid s0 s \<Longrightarrow>
    auth_steps C F J avoid s0 (snd (invalidate C F J sr now tbody s))"
| auth_signout: "auth_steps C F J avoid s0 s \<Longrightarrow>
    auth_steps C F J avoid s0 (snd (signout C F policy sr now username password s))"
| auth_cleanup: "auth_steps C F J avoid s0 s \<Longrightarrow>
    auth_steps C F J avoid s0 (snd (cleanup_expired_or_revoked_tokens C now s))"

lemmas request_kept = authenticate_kept refresh_kept validate_kept invalidate_kept signout_kept cleanup_kept

lemma auth_steps_kept:
  assumes "auth_steps C F J h s s'" and "cache_lawful C"
  shows "kept C h s s'"
  using assms(1) by induction (auto intro: kept_trans request_kept[OF assms(2)])

section \<open>Sample requests\<close>

definition bare_request :: http_request where
  "bare_request = \<lparr>hr_user_agent = None, hr_peer_ip = None, hr_realip = None\<rparr>"

text \<open>A login under the name of a profile, in other letter case, without a client token.\<close>

definition steve_login :: authenticate_req where
  "steve_login = \<lparr>aq_username = ''STEVE'', aq_password = ''secret'', aq_client_token = None,
     aq_request_user = True, aq_agent = Some \<lparr>ag_name = ''Minecraft'', ag_version = 1\<rparr>\<rparr>"

definition a_refresh :: refresh_req where
  "a_refresh = \<lparr>rq_access_token = ''a'', rq_client_token = None, rq_request_user = False, rq_selected_profile = None\<rparr>"

definition a_token :: token_req where
  "a_token = \<lparr>tq_access_token = ''a'', tq_client_token = None\<rparr>"

lemma with_profile_wf: "ygg_wf mem_ops with_profile" "ygg_wf mem_ops bound_token"
  using with_profile_site_wf bound_token_site_wf by (simp_all add: site_wf_def)

lemma sample_can_issue: "can_issue plain_forge sample_policy 2000"
  by (simp add: can_issue_def sample_policy_def days_def max_datetime_def)

lemma sample_fresh: "fresh_token plain_forge 2000 ''n'' (tokens_of with_profile)"
    "fresh_token plain_forge 2000 ''n'' (tokens_of bound_token)"
proof -
  have "rows (tokens_of with_profile) = []" by code_simp
  then show "fresh_token plain_forge 2000 ''n'' (tokens_of with_profile)" by (simp add: fresh_token_def)
qed (simp add: fresh_token_def bound_token_rows)

lemma sample_users: "rows (users (y_db with_profile)) = [sample_user]" "rows (users (y_db bound_token)) = [sample_user]"
  by code_simp+

lemma sample_owned: "tokens_owned (y_db bound_token)"
  by (simp add: tokens_owned_def bound_token_rows owned_def sample_users sample_user_def steve_def)

section \<open>Properties\<close>

text \<open>C2. Logging in.  A request logs in exactly when the credentials and the agent are well formed and some
  account answers to the identifier, is active with a confirmed e-mail address or none, has that password
  and is not banned.  A refused login changes nothing.  A login gives the new access token with the client
  token, lists the account's profiles, leaves one audit entry when such logins are recorded, and from
  then on the token is accepted for that client until it expires or the account is banned.\<close>

theorem authenticate_exact:
  assumes "cache_lawful C" and "ygg_wf C s" and "can_issue F policy now" and "fresh_token F now fa (tokens_of s)"
    and "authenticate C F J policy should_record now fc fa body req s = (r, s')"
  shows "((\<exists>resp. r = Inr resp) \<longleftrightarrow>
        trim (aq_username body) \<noteq> [] \<and> aq_password body \<noteq> [] \<and> agent_ok (aq_agent body)
        \<and> (\<exists>target. may_login F J policy now (aq_username body) (aq_password body) target (y_db s)))
    \<and> (\<forall>e. r = Inl e \<longrightarrow> s' = s)
    \<and> (\<forall>resp target. r = Inr resp
        \<longrightarrow> may_login F J policy now (aq_username body) (aq_password body) target (y_db s)
        \<longrightarrow> resp = authenticate_answer body target fa (ar_client_token resp) (y_db s)
          \<and> ar_client_token resp = chosen_client_token (aq_client_token body) fc
          \<and> length (audit_logs (y_db s')) = length (audit_logs (y_db s)) + (if should_record ''yggdrasil_authenticate'' then 1 else 0)
          \<and> (\<forall>now' < token_expiry policy now.
               \<not> is_user_banned J now' (u_id (lt_user target)) YggdrasilAccess (y_db s) \<longrightarrow>
               (\<exists>tk. fst (active_token C F J now' fa (Some (ar_client_token resp)) s') = Inr tk
                 \<and> t_user_id tk = u_id (lt_user target)
                 \<and> t_selected_profile_id tk = login_selection target (y_db s))))"
proof (intro conjI allI impI)
  show "(\<exists>resp. r = Inr resp) \<longleftrightarrow>
        trim (aq_username body) \<noteq> [] \<and> aq_password body \<noteq> [] \<and> agent_ok (aq_agent body)
        \<and> (\<exists>target. may_login F J policy now (aq_username body) (aq_password body) target (y_db s))"
    using authenticate_guards[of C F J policy should_record now fc fa body req s]
      authenticate_ok[OF assms(1-4), of body J _ should_record fc req] assms(5) by (metis prod.inject)
  show "s' = s" if "r = Inl e" for e using authenticate_Inl assms(5) that by blast
  fix resp target
  assume r: "r = Inr resp" and may: "may_login F J policy now (aq_username body) (aq_password body) target (y_db s)"
  note guards = authenticate_guards[OF assms(5)[unfolded r]]
  then have g: "trim (aq_username body) \<noteq> []" "aq_password body \<noteq> []" "agent_ok (aq_agent body)" by simp_all
  obtain s1 where s1: "authenticate C F J policy should_record now fc fa body req s =
      (Inr (authenticate_answer body target fa (chosen_client_token (aq_client_token body) fc) (y_db s)),
       s1\<lparr>y_db := log_with_details should_record now (audit_from_request req (u_id (lt_user target)))
         ''yggdrasil_authenticate'' ''yggdrasil_token'' (Some (next_id (tokens_of s)))
         (map_option p_name (login_profile target (y_db s)))
         (Some (authenticate_details (aq_username body) (login_profile target (y_db s))
           (length (list_by_user (u_id (lt_user target)) (y_db s))))) (y_db s1)\<rparr>)"
      and wf: "ygg_wf C s1"
      and tk: "find_by_access_hash (sha256_hex F fa) (tokens_of s1) =
       Some (new_token F now (token_expiry policy now) fa (u_id (lt_user target))
         (chosen_client_token (aq_client_token body) fc) (login_selection target (y_db s))
         (user_agent req) (peer_ip req) (next_id (tokens_of s)))"
      and db: "y_db s1 = (y_db s)\<lparr>yggdrasil_tokens := tokens_of s1\<rparr>"
    by (rule authenticate_ok[OF assms(1-4) g may])
  have resp: "resp = authenticate_answer body target fa (chosen_client_token (aq_client_token body) fc) (y_db s)"
    using s1 assms(5) r by simp
  show "resp = authenticate_answer body target fa (ar_client_token resp) (y_db s)"
    "ar_client_token resp = chosen_client_token (aq_client_token body) fc"
    by (simp_all add: resp authenticate_answer_def)
  have s': "tokens_of s' = tokens_of s1" "y_cache s' = y_cache s1" "user_bans (y_db s') = user_bans (y_db s)"
    "length (audit_logs (y_db s')) = length (audit_logs (y_db s)) + (if should_record ''yggdrasil_authenticate'' then 1 else 0)"
    using s1 assms(5) arg_cong[OF db, of user_bans] arg_cong[OF db, of audit_logs] by auto
  show "length (audit_logs (y_db s')) = length (audit_logs (y_db s)) + (if should_record ''yggdrasil_authenticate'' then 1 else 0)"
    by (rule s'(4))
  fix now' assume now': "now' < token_expiry policy now" "\<not> is_user_banned J now' (u_id (lt_user target)) YggdrasilAccess (y_db s)"
  have "fst (active_token C F J now' fa (Some (chosen_client_token (aq_client_token body) fc)) s') =
      Inr (new_token F now (token_expiry policy now) fa (u_id (lt_user target))
         (chosen_client_token (aq_client_token body) fc) (login_selection target (y_db s))
         (user_agent req) (peer_ip req) (next_id (tokens_of s)))"
    unfolding active_token_def
    by (rule new_token_accepted[OF assms(1)])
      (use wf tk now' s' in \<open>simp_all add: ygg_wf_cong[OF s'(1,2)] is_user_banned_cong[OF s'(3)]\<close>)
  then show "\<exists>tk. fst (active_token C F J now' fa (Some (ar_client_token resp)) s') = Inr tk
       \<and> t_user_id tk = u_id (lt_user target) \<and> t_selected_profile_id tk = login_selection target (y_db s)"
    by (simp add: resp authenticate_answer_def)
qed

theorem authenticate_exact_witness:
  "\<exists>tk. fst (active_token mem_ops plain_forge plain_codec 3000 ''n'' (Some ''c'')
      (snd (authenticate mem_ops plain_forge plain_codec sample_policy (\<lambda>_. True) 2000 ''c'' ''n'' steve_login bare_request
        with_profile))) = Inr tk
    \<and> t_user_id tk = 1 \<and> t_selected_profile_id tk = Some 1"
proof -
  let ?t = "\<lparr>lt_user = sample_user, lt_forced_profile = Some steve\<rparr>"
  obtain resp s' where run: "authenticate mem_ops plain_forge plain_codec sample_policy (\<lambda>_. True) 2000 ''c'' ''n''
      steve_login bare_request with_profile = (Inr resp, s')" and ct: "ar_client_token resp = ''c''"
  proof -
    have "\<not> isl (fst (authenticate mem_ops plain_forge plain_codec sample_policy (\<lambda>_. True) 2000 ''c'' ''n''
        steve_login bare_request with_profile))" by code_simp
    moreover have "map_sum (\<lambda>_. ()) ar_client_token (fst (authenticate mem_ops plain_forge plain_codec sample_policy
        (\<lambda>_. True) 2000 ''c'' ''n'' steve_login bare_request with_profile)) = Inr ''c''" by code_simp
    ultimately show ?thesis using that
      by (cases "authenticate mem_ops plain_forge plain_codec sample_policy (\<lambda>_. True) 2000 ''c'' ''n''
        steve_login bare_request with_profile"; cases "fst (authenticate mem_ops plain_forge plain_codec sample_policy
        (\<lambda>_. True) 2000 ''c'' ''n'' steve_login bare_request with_profile)") auto
  qed
  have may: "may_login plain_forge plain_codec sample_policy 2000 (aq_username steve_login) (aq_password steve_login) ?t
      (y_db with_profile)" by code_simp
  have "\<not> is_user_banned plain_codec 3000 1 YggdrasilAccess (y_db with_profile)" by code_simp
  moreover have "login_selection ?t (y_db with_profile) = Some 1" by code_simp
  moreover have "3000 < token_expiry sample_policy 2000" by (simp add: sample_policy_def days_def)
  ultimately show ?thesis
    using authenticate_exact[OF mem_ops_lawful with_profile_wf(1) sample_can_issue sample_fresh(1) run] may ct
    by (fastforce simp: run sample_user_def)
qed

text \<open>C3. Refreshing.  A refresh succeeds exactly for a stored token that is acceptable, also while it is
  suspended, whose account is active, and which asks for no profile or, being unbound, for a profile of its
  account.  A refused refresh leaves the database as it was, so the old token stays as good as it was.
  After a refresh the old token is refused by every check, and the new one belongs to the same account and
  client, keeps the bound profile or takes the requested one, and is accepted until it expires.\<close>

theorem refresh_exact:
  assumes "cache_lawful C" and "ygg_wf C s" and "tokens_owned (y_db s)"
    and "can_issue F policy now" and "fresh_token F now fa (tokens_of s)"
    and "refresh C F J policy should_record now fa body req s = (r, s')"
  shows "((\<exists>resp. r = Inr resp) \<longleftrightarrow> (\<exists>old u sel. may_refresh F J now body old u sel (y_db s)))
    \<and> (\<forall>e. r = Inl e \<longrightarrow> y_db s' = y_db s)
    \<and> (\<forall>resp. r = Inr resp \<longrightarrow> (\<exists>old u sel. may_refresh F J now body old u sel (y_db s)
        \<and> rr_access_token resp = fa \<and> rr_client_token resp = t_client_token old \<and> u_id u = t_user_id old
        \<and> owned (y_db s) (u_id u) sel
        \<and> (\<forall>now' client allow. fst (token_for_operation C F J now' (rq_access_token body) client allow s')
             = Inl (ygg_error InvalidToken))
        \<and> (\<forall>now' < token_expiry policy now. \<not> is_user_banned J now' (u_id u) YggdrasilAccess (y_db s) \<longrightarrow>
             (\<exists>tk. fst (active_token C F J now' fa (Some (t_client_token old)) s') = Inr tk
               \<and> t_user_id tk = u_id u \<and> t_selected_profile_id tk = sel))))"
  using assms(1,2,6)
proof (cases rule: refresh_cases)
  case (refused e)
  then show ?thesis by simp
next
  case (renewed old u sel s0)
  note may = renewed(1)
  have old: "find_by_access_hash (sha256_hex F (rq_access_token body)) (tokens_of s0) = Some old"
      "t_revoked_at old = None"
    using may by (simp_all add: may_refresh_def token_accepted_def renewed(2))
  have fresh: "fresh_token F now fa (tokens_of s0)" using assms(5) by (simp add: renewed(2))
  have mem: "old \<in> set (rows (tokens_of s))" using found_by_hash[OF old(1)] by (simp add: renewed(2))
  have own: "u_id u = t_user_id old" "owned (y_db s) (u_id u) sel"
    using refresh_selection_owned[OF assms(3) mem, of u "rq_selected_profile body" sel] may
    by (simp_all add: may_refresh_def)
  obtain i s1 where s1: "refresh_token C F policy now fa (rq_access_token body) (u_id u) (t_client_token old) sel
        (user_agent req) (peer_ip req) s0 = (Inr \<lparr>is_token_id = i, is_access_token = fa\<rparr>, s1)"
      "ygg_wf C s1" "dead (sha256_hex F (rq_access_token body)) (tokens_of s1)"
      "find_by_access_hash (sha256_hex F fa) (tokens_of s1) = Some (new_token F now (token_expiry policy now) fa
        (u_id u) (t_client_token old) sel (user_agent req) (peer_ip req) i)"
    by (rule refresh_token_ok[OF assms(1) renewed(3) assms(4) fresh old])
  have db1: "y_db s1 = (y_db s)\<lparr>yggdrasil_tokens := tokens_of s1\<rparr>"
    using refresh_token_db[OF s1(1)] by (simp add: renewed(2))
  have "owned (y_db s1) (u_id u) sel" using own(2) by (subst db1) simp
  then obtain profile where profile: "profile_of_selection sel (y_db s1) = Inr profile"
    using owned_profile_found by blast
  obtain ctx en det where rs: "r = Inr (refresh_answer body u fa (t_client_token old) profile)"
      "s' = s1\<lparr>y_db := log_with_details should_record now ctx ''yggdrasil_refresh_token'' ''yggdrasil_token'' (Some i) en det (y_db s1)\<rparr>"
    using renewed(4) by (simp add: s1(1) profile)
  have s': "tokens_of s' = tokens_of s1" "y_cache s' = y_cache s1" "user_bans (y_db s') = user_bans (y_db s)"
    using arg_cong[OF db1, of user_bans] by (simp_all add: rs(2))
  have wf: "ygg_wf C s'" using s1(2) by (simp add: ygg_wf_cong[OF s'(1,2)])
  have gone: "fst (token_for_operation C F J now' (rq_access_token body) client allow s')
             = Inl (ygg_error InvalidToken)" for now' client allow
    by (rule dead_rejected[OF assms(1) wf]) (simp add: s' s1(3))
  have "fst (active_token C F J now' fa (Some (t_client_token old)) s') = Inr (new_token F now (token_expiry policy now) fa
        (u_id u) (t_client_token old) sel (user_agent req) (peer_ip req) i)"
    if "now' < token_expiry policy now" "\<not> is_user_banned J now' (u_id u) YggdrasilAccess (y_db s)" for now'
    unfolding active_token_def
    by (rule new_token_accepted[OF assms(1) wf])
      (use that s1(4) in \<open>simp_all add: s' is_user_banned_cong[OF s'(3)]\<close>)
  then have new: "\<exists>tk. fst (active_token C F J now' fa (Some (t_client_token old)) s') = Inr tk
        \<and> t_user_id tk = u_id u \<and> t_selected_profile_id tk = sel"
    if "now' < token_expiry policy now" "\<not> is_user_banned J now' (u_id u) YggdrasilAccess (y_db s)" for now'
    using that by simp
  have resp: "rr_access_token (refresh_answer body u fa (t_client_token old) profile) = fa"
      "rr_client_token (refresh_answer body u fa (t_client_token old) profile) = t_client_token old"
    by (simp_all add: refresh_answer_def)
  show ?thesis
    unfolding rs(1) using may own gone new resp by blast
qed

theorem refresh_exact_witness:
  "fst (token_for_operation mem_ops plain_forge plain_codec 3000 ''a'' None True
      (snd (refresh mem_ops plain_forge plain_codec sample_policy (\<lambda>_. True) 2000 ''n'' a_refresh bare_request bound_token)))
    = Inl (ygg_error InvalidToken)"
proof -
  have "\<exists>resp. refresh mem_ops plain_forge plain_codec sample_policy (\<lambda>_. True) 2000 ''n'' a_refresh bare_request bound_token
      = (Inr resp, snd (refresh mem_ops plain_forge plain_codec sample_policy (\<lambda>_. True) 2000 ''n'' a_refresh bare_request bound_token))"
    by (rule run_ok) code_simp
  then obtain resp s' where run: "refresh mem_ops plain_forge plain_codec sample_policy (\<lambda>_. True) 2000 ''n'' a_refresh
      bare_request bound_token = (Inr resp, s')" by blast
  from refresh_exact[OF mem_ops_lawful with_profile_wf(2) sample_owned sample_can_issue sample_fresh(2) run]
  have "fst (token_for_operation mem_ops plain_forge plain_codec 3000 (rq_access_token a_refresh) None True s')
      = Inl (ygg_error InvalidToken)"
    by blast
  then show ?thesis by (simp add: run) (simp add: a_refresh_def)
qed

text \<open>C4. Over every sequence of logins, refreshes, validations, invalidations, sign-outs and clean-ups, with any
  settings and clocks, each token belongs to a stored account and is bound at most to a profile of that
  account, the cache answers only stored tokens, and an access token that was refused because it is
  unknown or revoked is refused ever after, unless the server draws a new token with the same hash.\<close>

theorem protocol_invariant:
  assumes "cache_lawful C" and "ygg_wf C s" and "tokens_owned (y_db s)"
    and "auth_steps C F J (sha256_hex F tok) s s'"
  shows "ygg_wf C s' \<and> tokens_owned (y_db s')
    \<and> (dead (sha256_hex F tok) (tokens_of s) \<longrightarrow>
        (\<forall>now client allow. fst (token_for_operation C F J now tok client allow s') = Inl (ygg_error InvalidToken)))"
proof -
  have k: "ygg_wf C s' \<and> tokens_owned (y_db s') \<and>
      (dead (sha256_hex F tok) (tokens_of s) \<longrightarrow> dead (sha256_hex F tok) (tokens_of s'))"
    using auth_steps_kept[OF assms(4,1)] assms(2,3) by (simp add: kept_def)
  then show ?thesis using dead_rejected[OF assms(1)] by blast
qed

theorem protocol_invariant_witness:
  "tokens_owned (y_db (snd (authenticate mem_ops plain_forge plain_codec sample_policy (\<lambda>_. True) 2000 ''c'' ''n''
      steve_login bare_request bound_token)))"
  using protocol_invariant[OF mem_ops_lawful with_profile_wf(2) sample_owned
      auth_authenticate[OF auth_start, of plain_forge "''n''" "sha256_hex plain_forge ''x''" mem_ops plain_codec bound_token
        sample_policy "\<lambda>_. True" 2000 "''c''" steve_login bare_request]]
  by simp

text \<open>Invalidating always answers with success, also for an unknown, expired or suspended token, and
  afterwards the token is refused for every purpose.\<close>

theorem invalidate_always_succeeds:
  assumes "cache_lawful C" and "ygg_wf C s" and "tokens_owned (y_db s)"
  shows "fst (invalidate C F J should_record now body s) = Inr ()
    \<and> (\<forall>now' client allow. fst (token_for_operation C F J now' (tq_access_token body) client allow
          (snd (invalidate C F J should_record now body s))) = Inl (ygg_error InvalidToken))"
proof -
  let ?s = "snd (invalidate C F J should_record now body s)"
  obtain s0 s1 where s01: "s1 = snd (revoke_by_access_token C F now (tq_access_token body) s0)" "ygg_wf C s0"
      "invalidate C F J should_record now body s = (Inr (), s1)
       \<or> (\<exists>ctx ei en det. invalidate C F J should_record now body s =
        (Inr (), s1\<lparr>y_db := log_with_details should_record now ctx ''yggdrasil_invalidate_token'' ''yggdrasil_token'' ei en det (y_db s1)\<rparr>))"
    by (rule invalidate_run[OF assms, where h = "[]"])
  have toks: "tokens_of ?s = tokens_of s1" "fst (invalidate C F J should_record now body s) = Inr ()"
    using s01(3) by auto
  obtain b t where t: "revoke_by_access_hash F now (sha256_hex F (tq_access_token body)) (tokens_of s0) = (Inr b, t)"
      "tokens_of s1 = t"
    using revoke_by_access_token_run[of F now "tq_access_token body" s0 C] s01(1) by auto
  have "dead (sha256_hex F (tq_access_token body)) (tokens_of ?s)"
    using revoke_hash_effect(2)[OF _ t(1)] s01(2) by (simp add: toks t(2) ygg_wf_def)
  moreover have "ygg_wf C ?s"
    using invalidate_kept[OF assms(1), of "[]" s F J should_record now body] assms(2,3) by (simp add: kept_def)
  ultimately show ?thesis using dead_rejected[OF assms(1)] toks(2) by blast
qed

theorem invalidate_always_succeeds_witness:
  "fst (invalidate mem_ops plain_forge plain_codec (\<lambda>_. True) 2000 a_token bound_token) = Inr ()"
  using invalidate_always_succeeds[OF mem_ops_lawful with_profile_wf(2) sample_owned] by blast

end
