(* ===== verification/Forward.thy ===== *)
theory Forward
  imports Tokens
begin

text \<open>
  The upstream session servers that \<open>hasJoined\<close> may ask: \<open>yggdrasil_session_forward_server_repo.rs\<close>,
  the administrator's service \<open>yggdrasil_session_forward_service.rs\<close>, and the order in which
  \<open>yggdrasil_service/session.rs\<close> asks them.  The random numbers are drawn by an argument.
\<close>

section \<open>Repository\<close>

type_synonym servers = "forward_server table"

text \<open>\<open>ORDER BY priority, id\<close>: the sort is stable.\<close>

definition list_enabled_ordered :: "db \<Rightarrow> forward_server list" where
  "list_enabled_ordered d =
     order_by_asc fs_priority (order_by_asc fs_id
       (select_all (\<lambda>s. fs_enabled s \<and> fs_weight s > 0) (forward_servers d)))"

definition find_server_by_id :: "row_id \<Rightarrow> db \<Rightarrow> forward_server result" where
  "find_server_by_id i d =
     (case select_one (\<lambda>s. fs_id s = i) (forward_servers d) of
        None \<Rightarrow> Inl (RecordNotFound (''Yggdrasil session forward server #'' @ show_int i))
      | Some s \<Rightarrow> Inr s)"

definition find_by_base_url :: "string \<Rightarrow> db \<Rightarrow> forward_server option" where
  "find_by_base_url url d = select_one (\<lambda>s. fs_base_url s = Some url) (forward_servers d)"

definition find_local :: "db \<Rightarrow> forward_server option" where
  "find_local d =
     (case order_by_asc fs_id (select_all (\<lambda>s. fs_provider_kind s = ProviderLocal) (forward_servers d)) of
        [] \<Rightarrow> None | s # _ \<Rightarrow> Some s)"

text \<open>The index on \<open>base_url\<close> is unique; several rows may have a null one.\<close>

definition base_url_free :: "row_id \<Rightarrow> string option \<Rightarrow> servers \<Rightarrow> bool" where
  "base_url_free i url t = (url = None \<or> (\<forall>s \<in> set (rows t). fs_id s \<noteq> i \<longrightarrow> fs_base_url s \<noteq> url))"

definition server_repo_create ::
    "forge \<Rightarrow> (row_id \<Rightarrow> forward_server) \<Rightarrow> (db, aster_error, forward_server) handler" where
  "server_repo_create F model = statement (\<lambda>d.
     let (s, t) = insert_row model (forward_servers d)
     in if base_url_free (fs_id s) (fs_base_url s) (forward_servers d) then Inr (s, d\<lparr>forward_servers := t\<rparr>)
        else Inl (DatabaseOperation (db_err_text F UniqueViolation)))"

definition server_repo_update ::
    "forge \<Rightarrow> row_id \<Rightarrow> (forward_server \<Rightarrow> forward_server) \<Rightarrow> (db, aster_error, forward_server) handler" where
  "server_repo_update F i f = statement (\<lambda>d.
     case update_by_key F fs_id i f (forward_servers d) of
       Inl e \<Rightarrow> Inl e
     | Inr (s, t) \<Rightarrow>
         if base_url_free i (fs_base_url s) (forward_servers d) then Inr (s, d\<lparr>forward_servers := t\<rparr>)
         else Inl (DatabaseOperation (db_err_text F UniqueViolation)))"

definition server_repo_delete :: "row_id \<Rightarrow> (db, aster_error, unit) handler" where
  "server_repo_delete i = statement (\<lambda>d.
     let (n, t) = delete_many (\<lambda>s. fs_id s = i) (forward_servers d)
     in if n = 0 then Inl (RecordNotFound (''Yggdrasil session forward server #'' @ show_int i))
        else Inr ((), d\<lparr>forward_servers := t\<rparr>))"

definition truncate_failure_message :: "string \<Rightarrow> string" where
  "truncate_failure_message message =
     (let trimmed = trim message in if length trimmed \<le> 512 then trimmed else take_chars 512 trimmed)"

definition mark_success :: "row_id \<Rightarrow> time \<Rightarrow> (db, aster_error, bool) handler" where
  "mark_success i checked_at d =
     (let (n, t) = update_many (\<lambda>s. fs_id s = i)
            (\<lambda>s. s\<lparr>fs_last_checked_at := Some checked_at, fs_last_success_at := Some checked_at,
                   fs_last_failure_message := None, fs_updated_at := checked_at\<rparr>) (forward_servers d)
      in (Inr (n = 1), d\<lparr>forward_servers := t\<rparr>))"

definition mark_failure :: "row_id \<Rightarrow> time \<Rightarrow> string \<Rightarrow> (db, aster_error, bool) handler" where
  "mark_failure i checked_at message d =
     (let (n, t) = update_many (\<lambda>s. fs_id s = i)
            (\<lambda>s. s\<lparr>fs_last_checked_at := Some checked_at, fs_last_failure_at := Some checked_at,
                   fs_last_failure_message := Some (truncate_failure_message message),
                   fs_updated_at := checked_at\<rparr>) (forward_servers d)
      in (Inr (n = 1), d\<lparr>forward_servers := t\<rparr>))"

section \<open>Administration\<close>

definition min_priority :: int where "min_priority = -10000"
definition max_priority :: int where "max_priority = 10000"
definition min_weight :: int where "min_weight = 1"
definition max_weight :: int where "max_weight = 1000"
definition min_timeout_ms :: int where "min_timeout_ms = 100"
definition max_timeout_ms :: int where "max_timeout_ms = 10000"
definition mojang_session_server_base_url :: string where
  "mojang_session_server_base_url = ''https://sessionserver.mojang.com''"

record create_server_input =
  cs_display_name :: string
  cs_base_url :: string
  cs_endpoint_kind :: "endpoint_kind option"
  cs_enabled :: "bool option"
  cs_priority :: "int option"
  cs_weight :: "int option"
  cs_timeout_ms :: "int option"
  cs_texture_forward_enabled :: "bool option"

record update_server_input =
  us_display_name :: "string option"
  us_base_url :: "string option"
  us_endpoint_kind :: "endpoint_kind option"
  us_enabled :: "bool option"
  us_priority :: "int option"
  us_weight :: "int option"
  us_timeout_ms :: "int option"
  us_texture_forward_enabled :: "bool option"

definition normalize_display_name :: "string \<Rightarrow> string result" where
  "normalize_display_name value =
     (let v = trim value in
      if v = [] then Inl (ValidationError ''display_name cannot be empty'')
      else if length v > 128 then Inl (ValidationError ''display_name must not exceed 128 bytes'')
      else Inr v)"

text \<open>\<open>normalize_http_base_url\<close> of \<open>aster_forge_utils\<close> is the argument \<open>norm_url\<close>.\<close>

definition normalize_base_url :: "(string \<Rightarrow> string + string option) \<Rightarrow> string \<Rightarrow> string result" where
  "normalize_base_url norm_url value =
     (case norm_url value of
        Inl e \<Rightarrow> Inl (ValidationError e)
      | Inr None \<Rightarrow> Inl (ValidationError ''base_url cannot be empty'')
      | Inr (Some url) \<Rightarrow> Inr url)"

definition normalize_priority :: "int \<Rightarrow> int result" where
  "normalize_priority v =
     (if \<not> (min_priority \<le> v \<and> v \<le> max_priority)
      then Inl (ValidationError ''priority must be between -10000 and 10000'') else Inr v)"

definition normalize_weight :: "int \<Rightarrow> int result" where
  "normalize_weight v =
     (if \<not> (min_weight \<le> v \<and> v \<le> max_weight)
      then Inl (ValidationError ''weight must be between 1 and 1000'') else Inr v)"

definition normalize_timeout_ms :: "int \<Rightarrow> int result" where
  "normalize_timeout_ms v =
     (if \<not> (min_timeout_ms \<le> v \<and> v \<le> max_timeout_ms)
      then Inl (ValidationError ''timeout_ms must be between 100 and 10000'') else Inr v)"

definition ensure_base_url_available :: "row_id option \<Rightarrow> string \<Rightarrow> db \<Rightarrow> unit result" where
  "ensure_base_url_available current_id url d =
     (case find_by_base_url url d of
        Some s \<Rightarrow> if Some (fs_id s) \<noteq> current_id
                  then Inl (ValidationError ''Yggdrasil forwarding server base_url already exists'') else Inr ()
      | None \<Rightarrow> Inr ())"

definition builtin_server ::
    "time \<Rightarrow> string \<Rightarrow> provider_kind \<Rightarrow> endpoint_kind \<Rightarrow> string option \<Rightarrow> bool \<Rightarrow> int \<Rightarrow> row_id \<Rightarrow> forward_server" where
  "builtin_server now name provider endpoint url enabled priority i =
     \<lparr>fs_id = i, fs_display_name = name, fs_provider_kind = provider, fs_endpoint_kind = endpoint,
      fs_base_url = url, fs_builtin = True, fs_enabled = enabled, fs_priority = priority, fs_weight = 1,
      fs_timeout_ms = 1500, fs_texture_forward_enabled = False, fs_last_checked_at = None,
      fs_last_success_at = None, fs_last_failure_at = None, fs_last_failure_message = None,
      fs_created_at = now, fs_updated_at = now\<rparr>"

definition local_builtin_server :: "time \<Rightarrow> row_id \<Rightarrow> forward_server" where
  "local_builtin_server now = builtin_server now ''AsterYggdrasil'' ProviderLocal AuthlibInjector None True 100"

definition mojang_builtin_server :: "time \<Rightarrow> row_id \<Rightarrow> forward_server" where
  "mojang_builtin_server now =
     builtin_server now ''Mojang'' ProviderRemote MojangSession (Some mojang_session_server_base_url) False 200"

definition ensure_builtin_servers :: "forge \<Rightarrow> time \<Rightarrow> (db, aster_error, nat) handler" where
  "ensure_builtin_servers F now =
     bnd (query (\<lambda>d. Inr (find_local d))) (\<lambda>local.
     bnd (if local = None then bnd (server_repo_create F (local_builtin_server now)) (\<lambda>_. ret 1) else ret 0) (\<lambda>n.
     bnd (query (\<lambda>d. Inr (find_by_base_url mojang_session_server_base_url d))) (\<lambda>mojang.
     bnd (if mojang = None then bnd (server_repo_create F (mojang_builtin_server now)) (\<lambda>_. ret 1) else ret 0) (\<lambda>m.
     ret (n + m)))))"

definition new_server :: "time \<Rightarrow> create_server_input \<Rightarrow> string \<Rightarrow> string \<Rightarrow> int \<Rightarrow> int \<Rightarrow> int \<Rightarrow> row_id \<Rightarrow> forward_server" where
  "new_server now input name url priority weight timeout i =
     \<lparr>fs_id = i, fs_display_name = name, fs_provider_kind = ProviderRemote,
      fs_endpoint_kind = (case cs_endpoint_kind input of None \<Rightarrow> AuthlibInjector | Some k \<Rightarrow> k),
      fs_base_url = Some url, fs_builtin = False,
      fs_enabled = (case cs_enabled input of None \<Rightarrow> True | Some b \<Rightarrow> b),
      fs_priority = priority, fs_weight = weight, fs_timeout_ms = timeout,
      fs_texture_forward_enabled = (case cs_texture_forward_enabled input of None \<Rightarrow> False | Some b \<Rightarrow> b),
      fs_last_checked_at = None, fs_last_success_at = None, fs_last_failure_at = None,
      fs_last_failure_message = None, fs_created_at = now, fs_updated_at = now\<rparr>"

definition or_default :: "'a \<Rightarrow> 'a option \<Rightarrow> 'a" where
  "or_default d v = (case v of None \<Rightarrow> d | Some x \<Rightarrow> x)"

definition create_server ::
    "'c cache_ops \<Rightarrow> forge \<Rightarrow> (string \<Rightarrow> string + string option) \<Rightarrow> time \<Rightarrow> create_server_input \<Rightarrow>
     ('c ygg_state, aster_error, forward_server) handler" where
  "create_server C F norm_url now input =
     bnd (check (normalize_display_name (cs_display_name input))) (\<lambda>name.
     bnd (check (normalize_base_url norm_url (cs_base_url input))) (\<lambda>url.
     bnd (query (\<lambda>s. ensure_base_url_available None url (y_db s))) (\<lambda>_.
     bnd (check (normalize_priority (or_default 100 (cs_priority input)))) (\<lambda>priority.
     bnd (check (normalize_weight (or_default 1 (cs_weight input)))) (\<lambda>weight.
     bnd (check (normalize_timeout_ms (or_default 1500 (cs_timeout_ms input)))) (\<lambda>timeout.
     bnd (on_db (server_repo_create F (new_server now input name url priority weight timeout))) (\<lambda>server.
     bnd (on_cache (invalidate_session_forward_servers C)) (\<lambda>_.
     ret server))))))))"

text \<open>\<open>if let Some(v) = input { active.f = Set(check(v)?) }\<close>\<close>

definition set_checked ::
    "'a option \<Rightarrow> ('a \<Rightarrow> 'b result) \<Rightarrow> ('b \<Rightarrow> 'r \<Rightarrow> 'r) \<Rightarrow> 'r \<Rightarrow> 'r result" where
  "set_checked v f upd r =
     (case v of None \<Rightarrow> Inr r | Some x \<Rightarrow> (case f x of Inl e \<Rightarrow> Inl e | Inr y \<Rightarrow> Inr (upd y r)))"

definition changed_base_url ::
    "(string \<Rightarrow> string + string option) \<Rightarrow> forward_server \<Rightarrow> db \<Rightarrow> string \<Rightarrow> string result" where
  "changed_base_url norm_url existing d v =
     (if fs_builtin existing
      then Inl (ValidationError ''built-in Yggdrasil forwarding server base_url cannot be changed'')
      else case normalize_base_url norm_url v of
             Inl e \<Rightarrow> Inl e
           | Inr url \<Rightarrow> (case ensure_base_url_available (Some (fs_id existing)) url d of
                           Inl e \<Rightarrow> Inl e | Inr _ \<Rightarrow> Inr url))"

definition changed_endpoint_kind :: "forward_server \<Rightarrow> endpoint_kind \<Rightarrow> endpoint_kind result" where
  "changed_endpoint_kind existing k =
     (if fs_builtin existing
      then Inl (ValidationError ''built-in Yggdrasil forwarding server endpoint_kind cannot be changed'') else Inr k)"

definition changed_texture_forward :: "forward_server \<Rightarrow> bool \<Rightarrow> bool result" where
  "changed_texture_forward existing b =
     (if fs_provider_kind existing = ProviderLocal \<and> b
      then Inl (ValidationError ''local Yggdrasil forwarding server cannot enable texture forwarding'') else Inr b)"

definition update_server ::
    "'c cache_ops \<Rightarrow> forge \<Rightarrow> (string \<Rightarrow> string + string option) \<Rightarrow> time \<Rightarrow> row_id \<Rightarrow> update_server_input \<Rightarrow>
     ('c ygg_state, aster_error, forward_server) handler" where
  "update_server C F norm_url now i input =
     bnd (query (\<lambda>s. find_server_by_id i (y_db s))) (\<lambda>existing.
     bnd (check (set_checked (us_display_name input) normalize_display_name (\<lambda>v r. r\<lparr>fs_display_name := v\<rparr>) existing)) (\<lambda>a.
     bnd (query (\<lambda>s. set_checked (us_base_url input) (changed_base_url norm_url existing (y_db s))
            (\<lambda>v r. r\<lparr>fs_base_url := Some v\<rparr>) a)) (\<lambda>a.
     bnd (check (set_checked (us_endpoint_kind input) (changed_endpoint_kind existing) (\<lambda>v r. r\<lparr>fs_endpoint_kind := v\<rparr>) a)) (\<lambda>a.
     bnd (check (set_checked (us_enabled input) Inr (\<lambda>v r. r\<lparr>fs_enabled := v\<rparr>) a)) (\<lambda>a.
     bnd (check (set_checked (us_priority input) normalize_priority (\<lambda>v r. r\<lparr>fs_priority := v\<rparr>) a)) (\<lambda>a.
     bnd (check (set_checked (us_weight input) normalize_weight (\<lambda>v r. r\<lparr>fs_weight := v\<rparr>) a)) (\<lambda>a.
     bnd (check (set_checked (us_timeout_ms input) normalize_timeout_ms (\<lambda>v r. r\<lparr>fs_timeout_ms := v\<rparr>) a)) (\<lambda>a.
     bnd (check (set_checked (us_texture_forward_enabled input) (changed_texture_forward existing)
            (\<lambda>v r. r\<lparr>fs_texture_forward_enabled := v\<rparr>) a)) (\<lambda>a.
     bnd (on_db (server_repo_update F i (\<lambda>_. a\<lparr>fs_updated_at := now\<rparr>))) (\<lambda>server.
     bnd (on_cache (invalidate_session_forward_servers C)) (\<lambda>_.
     ret server)))))))))))"

definition delete_server ::
    "'c cache_ops \<Rightarrow> row_id \<Rightarrow> ('c ygg_state, aster_error, forward_server) handler" where
  "delete_server C i =
     bnd (query (\<lambda>s. find_server_by_id i (y_db s))) (\<lambda>server.
     if fs_builtin server
     then raise (ValidationError ''built-in Yggdrasil forwarding server cannot be deleted'') else
     bnd (on_db (server_repo_delete i)) (\<lambda>_.
     bnd (on_cache (invalidate_session_forward_servers C)) (\<lambda>_.
     ret server)))"

section \<open>The order of the upstreams\<close>

definition default_forward_timeout_ms :: int where "default_forward_timeout_ms = 1500"
definition min_forward_timeout_ms :: int where "min_forward_timeout_ms = 100"
definition max_forward_timeout_ms :: int where "max_forward_timeout_ms = 10000"

definition normalize_forward_timeout_ms :: "int \<Rightarrow> int" where
  "normalize_forward_timeout_ms t =
     (if t < 0 then default_forward_timeout_ms
      else max min_forward_timeout_ms (min max_forward_timeout_ms t))"

definition ticket_weight :: "forward_server \<Rightarrow> int" where
  "ticket_weight s = max (fs_weight s) 1"

fun select_index :: "int \<Rightarrow> nat \<Rightarrow> forward_server list \<Rightarrow> nat" where
  "select_index ticket i [] = 0"
| "select_index ticket i (s # ss) =
     (let t = ticket - ticket_weight s in if t < 0 then i else select_index t (Suc i) ss)"

lemma select_index_less: "i + length ss > 0 \<Longrightarrow> select_index t i ss < i + length ss"
proof (induction ss arbitrary: t i)
  case (Cons s ss)
  show ?case using Cons.IH[of "Suc i" "t - ticket_weight s"] by (simp add: Let_def)
qed simp

text \<open>\<open>random_range\<close> draws from \<open>0..n\<close> and steps the generator.\<close>

function weighted_group_order ::
    "('g \<Rightarrow> int \<Rightarrow> int \<times> 'g) \<Rightarrow> 'g \<Rightarrow> forward_server list \<Rightarrow> forward_server list \<times> 'g" where
  "weighted_group_order random_range g servers =
     (if servers = [] then ([], g)
      else let total_weight = sum_list (map ticket_weight servers);
               (ticket, g1) = random_range g total_weight;
               i = select_index ticket 0 servers;
               (rest, g2) = weighted_group_order random_range g1 (take i servers @ drop (Suc i) servers)
           in (servers ! i # rest, g2))"
  by pat_completeness auto

termination
proof (relation "measure (\<lambda>(_, _, servers). length servers)", goal_cases)
  case 1
  show ?case by simp
next
  case (2 random_range g servers total p ticket g1 i)
  have "i < length servers" using select_index_less[of 0 servers ticket] 2 by simp
  then show ?case by simp
qed

declare weighted_group_order.simps [simp del]

function group_loop ::
    "('g \<Rightarrow> int \<Rightarrow> int \<times> 'g) \<Rightarrow> 'g \<Rightarrow> forward_server list \<Rightarrow> forward_server list \<times> 'g" where
  "group_loop random_range g [] = ([], g)"
| "group_loop random_range g (s # ss) =
     (let (grp, g1) = weighted_group_order random_range g
            (s # takeWhile (\<lambda>x. fs_priority x = fs_priority s) ss);
          (rest, g2) = group_loop random_range g1 (dropWhile (\<lambda>x. fs_priority x = fs_priority s) ss)
      in (grp @ rest, g2))"
  by pat_completeness auto

termination
  by (relation "measure (\<lambda>(_, _, servers). length servers)") (auto simp: le_imp_less_Suc length_dropWhile_le)

declare group_loop.simps(2) [simp del]

definition weighted_forward_order ::
    "('g \<Rightarrow> int \<Rightarrow> int \<times> 'g) \<Rightarrow> 'g \<Rightarrow> forward_server list \<Rightarrow> forward_server list \<times> 'g" where
  "weighted_forward_order random_range g servers =
     group_loop random_range g (order_by_asc fs_priority (order_by_asc fs_id servers))"

text \<open>\<open>enabled_session_forward_servers\<close> of \<open>session.rs\<close>: the cached list, or the stored one, which it caches.\<close>

definition enabled_session_forward_servers ::
    "'c cache_ops \<Rightarrow> time \<Rightarrow> ('c ygg_state, yggdrasil_error, forward_server list) handler" where
  "enabled_session_forward_servers C now s =
     (case get_enabled_session_forward_servers C now (y_cache s) of
        Some servers \<Rightarrow> (Inr servers, s)
      | None \<Rightarrow> (let servers = list_enabled_ordered (y_db s)
                 in (Inr servers,
                     s\<lparr>y_cache := set_enabled_session_forward_servers C now servers (y_cache s)\<rparr>)))"

section \<open>The order is a fair permutation\<close>

lemma ticket_weight_pos: "0 < ticket_weight s"
  by (simp add: ticket_weight_def)

lemma nth_remove_mset:
  assumes "i < length xs"
  shows "add_mset (xs ! i) (mset (take i xs @ drop (Suc i) xs)) = mset xs"
proof -
  have "xs = take i xs @ xs ! i # drop (Suc i) xs" using assms by (simp add: id_take_nth_drop)
  then have "mset xs = mset (take i xs @ xs ! i # drop (Suc i) xs)" by simp
  then show ?thesis by simp
qed

lemma weighted_group_mset: "mset (fst (weighted_group_order R g servers)) = mset servers"
proof (induction R g servers rule: weighted_group_order.induct)
  case (1 R g servers)
  show ?case
  proof (cases "servers = []")
    case False
    obtain ticket g1 where r: "R g (sum_list (map ticket_weight servers)) = (ticket, g1)" by fastforce
    let ?i = "select_index ticket 0 servers"
    have i: "?i < length servers" using select_index_less[of 0 servers ticket] False by simp
    have "mset (fst (weighted_group_order R g1 (take ?i servers @ drop (Suc ?i) servers)))
        = mset (take ?i servers @ drop (Suc ?i) servers)"
      by (rule "1.IH"[OF False refl r[symmetric] refl refl])
    then show ?thesis
      using False nth_remove_mset[OF i]
      by (subst weighted_group_order.simps) (simp add: r Let_def split_beta)
  qed (subst weighted_group_order.simps, simp)
qed

lemma sorted_const: "\<forall>x \<in> set xs. f x = (c :: 'a :: linorder) \<Longrightarrow> sorted (map f xs)"
  by (induction xs) auto

lemma group_loop_order:
  assumes "sorted (map fs_priority servers)"
  shows "mset (fst (group_loop R g servers)) = mset servers \<and> sorted (map fs_priority (fst (group_loop R g servers)))"
  using assms
proof (induction R g servers rule: group_loop.induct)
  case (2 R g s ss)
  let ?same = "\<lambda>x. fs_priority x = fs_priority s"
  let ?grp = "fst (weighted_group_order R g (s # takeWhile ?same ss))"
  let ?g1 = "snd (weighted_group_order R g (s # takeWhile ?same ss))"
  let ?rest = "fst (group_loop R ?g1 (dropWhile ?same ss))"
  have run: "fst (group_loop R g (s # ss)) = ?grp @ ?rest"
    by (subst group_loop.simps(2)) (simp add: Let_def split_beta)
  have "sorted (map fs_priority (dropWhile ?same ss))"
    using 2(2) by (metis append_take_drop_id dropWhile_eq_drop list.simps(9) map_append sorted_append sorted_simps(2))
  with 2(1)[OF refl prod.collapse] have ih: "mset ?rest = mset (dropWhile ?same ss)" "sorted (map fs_priority ?rest)"
    by simp_all
  have grp: "mset ?grp = mset (s # takeWhile ?same ss)" by (rule weighted_group_mset)
  then have same: "\<forall>x \<in> set ?grp. fs_priority x = fs_priority s"
    using mset_eq_setD[OF grp] by (auto dest: set_takeWhileD)
  have above: "fs_priority s \<le> fs_priority x" if "x \<in> set ?rest" for x
    using mset_eq_setD[OF ih(1)] that 2(2) by (auto dest: set_dropWhileD)
  have "a \<le> b" if ab: "a \<in> set (map fs_priority ?grp)" "b \<in> set (map fs_priority ?rest)" for a b
  proof -
    obtain x y where xy: "x \<in> set ?grp" "a = fs_priority x" "y \<in> set ?rest" "b = fs_priority y"
      using ab unfolding set_map by blast
    have "fs_priority x = fs_priority s" using same xy(1) by (rule bspec)
    then show ?thesis using above[OF xy(3)] xy(2,4) by simp
  qed
  then have "sorted (map fs_priority (?grp @ ?rest))"
    unfolding map_append sorted_append using sorted_const[OF same] ih(2) by blast
  moreover have "mset (?grp @ ?rest) = mset (s # ss)"
  proof -
    have "mset (?grp @ ?rest) = mset ((s # takeWhile ?same ss) @ dropWhile ?same ss)"
      unfolding mset_append grp ih(1) ..
    then show ?thesis by (simp del: mset_append)
  qed
  ultimately show ?case by (simp only: run)
qed simp

lemma sum_list_nonneg_weights: "0 \<le> sum_list (map ticket_weight ss)"
  by (induction ss) (auto simp: ticket_weight_def)

text \<open>Each server gets an interval of tickets as long as its weight.\<close>

lemma select_index_ge:
  "0 \<le> t \<Longrightarrow> t < sum_list (map ticket_weight ss) \<Longrightarrow> k \<le> select_index t k ss"
proof (induction ss arbitrary: t k)
  case (Cons s ss)
  then show ?case using Cons.IH[of "t - ticket_weight s" "Suc k"] by (fastforce simp: Let_def)
qed simp

lemma select_index_interval:
  assumes "0 \<le> t" and "t < sum_list (map ticket_weight ss)" and "i < length ss"
  shows "select_index t k ss = k + i \<longleftrightarrow>
      sum_list (map ticket_weight (take i ss)) \<le> t \<and> t < sum_list (map ticket_weight (take (Suc i) ss))"
  using assms
proof (induction ss arbitrary: t k i)
  case (Cons s ss)
  show ?case
  proof (cases i)
    case 0
    then show ?thesis
      using select_index_ge[of "t - ticket_weight s" ss "Suc k"] Cons.prems by (auto simp: Let_def)
  next
    case (Suc j)
    then show ?thesis
      using Cons.IH[of "t - ticket_weight s" j "Suc k"] Cons.prems sum_list_nonneg_weights[of "take j ss"]
      by (auto simp: Let_def)
  qed
qed simp

lemma tickets_of_server:
  assumes "i < length ss"
  shows "card {t \<in> {0..<sum_list (map ticket_weight ss)}. select_index t 0 ss = i} = nat (ticket_weight (ss ! i))"
proof -
  let ?w = "\<lambda>n. sum_list (map ticket_weight (take n ss))"
  have step: "?w (Suc i) = ?w i + ticket_weight (ss ! i)" using assms by (simp add: take_Suc_conv_app_nth)
  have "sum_list (map ticket_weight ss) = ?w (Suc i) + sum_list (map ticket_weight (drop (Suc i) ss))"
    by (metis append_take_drop_id map_append sum_list_append)
  then have "?w (Suc i) \<le> sum_list (map ticket_weight ss)"
    using sum_list_nonneg_weights[of "drop (Suc i) ss"] by simp
  moreover have "0 \<le> ?w i" by (rule sum_list_nonneg_weights)
  moreover have "select_index t 0 ss = i \<longleftrightarrow> ?w i \<le> t \<and> t < ?w (Suc i)"
    if "0 \<le> t" "t < sum_list (map ticket_weight ss)" for t
    using select_index_interval[OF that assms, of 0] by simp
  ultimately have "t \<in> {0..<sum_list (map ticket_weight ss)} \<and> select_index t 0 ss = i \<longleftrightarrow> t \<in> {?w i ..< ?w (Suc i)}" for t
    by (cases "0 \<le> t \<and> t < sum_list (map ticket_weight ss)") auto
  then have "{t \<in> {0..<sum_list (map ticket_weight ss)}. select_index t 0 ss = i} = {?w i ..< ?w (Suc i)}" by blast
  then show ?thesis by (simp add: step)
qed

section \<open>Well-formed servers and their cached list\<close>

definition server_ok :: "forward_server \<Rightarrow> bool" where
  "server_ok s =
     (fs_display_name s \<noteq> [] \<and> length (fs_display_name s) \<le> 128
      \<and> min_priority \<le> fs_priority s \<and> fs_priority s \<le> max_priority
      \<and> min_weight \<le> fs_weight s \<and> fs_weight s \<le> max_weight
      \<and> min_timeout_ms \<le> fs_timeout_ms s \<and> fs_timeout_ms s \<le> max_timeout_ms
      \<and> (fs_provider_kind s = ProviderLocal \<longrightarrow> fs_builtin s \<and> fs_base_url s = None \<and> \<not> fs_texture_forward_enabled s)
      \<and> (fs_provider_kind s = ProviderRemote \<longrightarrow> fs_base_url s \<noteq> None))"

definition urls_unique :: "servers \<Rightarrow> bool" where
  "urls_unique t = (\<forall>a \<in> set (rows t). \<forall>b \<in> set (rows t).
     fs_base_url a \<noteq> None \<longrightarrow> fs_base_url a = fs_base_url b \<longrightarrow> fs_id a = fs_id b)"

lemma urls_uniqueD:
  "urls_unique t \<Longrightarrow> a \<in> set (rows t) \<Longrightarrow> b \<in> set (rows t) \<Longrightarrow> fs_base_url a \<noteq> None
   \<Longrightarrow> fs_base_url a = fs_base_url b \<Longrightarrow> fs_id a = fs_id b"
  unfolding urls_unique_def by blast

lemma urls_unique_append:
  assumes "urls_unique t" and "rows t' = rows t @ [s]"
    and "fs_base_url s = None \<or> (\<forall>x \<in> set (rows t). fs_base_url x \<noteq> fs_base_url s)"
  shows "urls_unique t'"
  unfolding urls_unique_def
proof (intro ballI impI)
  fix a b assume ab: "a \<in> set (rows t')" "b \<in> set (rows t')" "fs_base_url a \<noteq> None" "fs_base_url a = fs_base_url b"
  consider "a \<in> set (rows t)" "b \<in> set (rows t)" | "a = s" "b = s" | "a \<in> set (rows t)" "b = s" | "a = s" "b \<in> set (rows t)"
    using ab(1,2) assms(2) by auto
  then show "fs_id a = fs_id b"
    using urls_uniqueD[OF assms(1)] ab(3,4) assms(3) by cases metis+
qed

definition forward_wf :: "db \<Rightarrow> bool" where
  "forward_wf d =
     (keys_ok fs_id (forward_servers d) \<and> (\<forall>s \<in> set (rows (forward_servers d)). server_ok s)
      \<and> urls_unique (forward_servers d))"

text \<open>The fields that decide how an upstream is asked; the others only report the last checks.\<close>

definition routing :: "forward_server \<Rightarrow> forward_server" where
  "routing s = s\<lparr>fs_last_checked_at := None, fs_last_success_at := None, fs_last_failure_at := None,
     fs_last_failure_message := None, fs_updated_at := 0\<rparr>"

lemma routing_fields [simp]:
  "fs_id (routing s) = fs_id s" "fs_priority (routing s) = fs_priority s" "fs_enabled (routing s) = fs_enabled s"
  "fs_weight (routing s) = fs_weight s" "fs_display_name (routing s) = fs_display_name s"
  "fs_provider_kind (routing s) = fs_provider_kind s" "fs_endpoint_kind (routing s) = fs_endpoint_kind s"
  "fs_base_url (routing s) = fs_base_url s" "fs_builtin (routing s) = fs_builtin s"
  "fs_timeout_ms (routing s) = fs_timeout_ms s" "fs_texture_forward_enabled (routing s) = fs_texture_forward_enabled s"
  by (simp_all add: routing_def)

definition servers_current :: "'c cache_ops \<Rightarrow> 'c \<Rightarrow> db \<Rightarrow> bool" where
  "servers_current C c d =
     (\<forall>now ss. get_enabled_session_forward_servers C now c = Some ss \<longrightarrow>
        map routing ss = map routing (list_enabled_ordered d))"

lemma get_servers_after:
  assumes "cache_lawful C"
  shows "get_enabled_session_forward_servers C u (set_enabled_session_forward_servers C now ss c) = Some x \<Longrightarrow> x = ss"
    and "get_enabled_session_forward_servers C u (invalidate_session_forward_servers C c) = None"
proof -
  show "x = ss"
    if "get_enabled_session_forward_servers C u (set_enabled_session_forward_servers C now ss c) = Some x"
    using servers_slot.after_set[OF assms that[unfolded get_enabled_session_forward_servers_def
          set_enabled_session_forward_servers_def]] by simp
  show "get_enabled_session_forward_servers C u (invalidate_session_forward_servers C c) = None"
    using cache_lawful_delete(1)[OF assms, of c session_forward_server_key u]
    by (simp add: get_enabled_session_forward_servers_def invalidate_session_forward_servers_def)
qed

lemma servers_current_invalidated:
  "cache_lawful C \<Longrightarrow> servers_current C (invalidate_session_forward_servers C c) d"
  by (simp add: servers_current_def get_servers_after(2))

text \<open>Recording a check changes no routing.\<close>

lemma map_routing_order:
  assumes "map routing (rows (forward_servers d)) = map routing (rows (forward_servers d'))"
  shows "map routing (list_enabled_ordered d) = map routing (list_enabled_ordered d')"
proof -
  have sort: "map routing (sort_key k xs) = sort_key k (map routing xs)"
    if "\<And>s. k (routing s) = k s" for k :: "forward_server \<Rightarrow> int" and xs
  proof -
    have "map routing (insort_key k x ys) = insort_key k (routing x) (map routing ys)" for x ys
      by (induction ys) (auto simp: that)
    then show ?thesis by (induction xs) simp_all
  qed
  have filt: "map routing (filter (\<lambda>s. fs_enabled s \<and> fs_weight s > 0) xs)
      = filter (\<lambda>s. fs_enabled s \<and> fs_weight s > 0) (map routing xs)" for xs
    by (induction xs) auto
  show ?thesis
    using assms by (simp add: list_enabled_ordered_def order_by_asc_def select_all_def sort filt)
qed

lemma routing_update:
  assumes "\<And>s. routing (f s) = routing s"
  shows "map routing (rows (snd (update_many p f t))) = map routing (rows t)"
  using assms by (simp add: update_many_def)

lemma server_ok_routing: "server_ok (routing s) = server_ok s"
  by (simp add: server_ok_def)

lemma forward_wf_routing:
  assumes "forward_wf d" and "map routing (rows t) = map routing (rows (forward_servers d))"
    and "next_id t = next_id (forward_servers d)"
  shows "forward_wf (d\<lparr>forward_servers := t\<rparr>)"
proof -
  have ids: "map fs_id (rows t) = map fs_id (rows (forward_servers d))"
    using arg_cong[OF assms(2), of "map fs_id"] by (simp add: comp_def)
  have mem: "\<exists>s' \<in> set (rows (forward_servers d)). routing s = routing s'" if "s \<in> set (rows t)" for s
    using that arg_cong[OF assms(2), of set] by (metis (no_types, lifting) imageE image_eqI list.set_map)
  have "keys_ok fs_id (forward_servers d)" using assms(1) by (simp add: forward_wf_def)
  then have keys: "keys_ok fs_id t" unfolding keys_ok_alt ids assms(3) .
  have ok: "server_ok s" if s: "s \<in> set (rows t)" for s
  proof -
    obtain s' where s': "s' \<in> set (rows (forward_servers d))" "routing s = routing s'" using mem[OF s] by blast
    then have "server_ok s'" using assms(1) by (simp add: forward_wf_def)
    then show ?thesis using server_ok_routing[of s] server_ok_routing[of s'] s'(2) by simp
  qed
  have "fs_id a = fs_id b" if in_t: "a \<in> set (rows t)" "b \<in> set (rows t)" "fs_base_url a \<noteq> None" "fs_base_url a = fs_base_url b" for a b
  proof -
    have fields: "fs_id x = fs_id y \<and> fs_base_url x = fs_base_url y" if "routing x = routing y" for x y
      using arg_cong[OF that, of fs_id] arg_cong[OF that, of fs_base_url] by simp
    obtain a' b' where ab: "a' \<in> set (rows (forward_servers d))" "routing a = routing a'"
        "b' \<in> set (rows (forward_servers d))" "routing b = routing b'"
      using mem[OF in_t(1)] mem[OF in_t(2)] by blast
    have urls: "fs_base_url a' = fs_base_url a" "fs_base_url b' = fs_base_url b"
      using fields[OF ab(2)] fields[OF ab(4)] by simp_all
    have "urls_unique (forward_servers d)" using assms(1) by (simp add: forward_wf_def)
    then have "fs_id a' = fs_id b'"
      by (rule urls_uniqueD[OF _ ab(1,3)]) (simp_all only: urls in_t(3) in_t(4)[symmetric] not_False_eq_True)
    then show ?thesis using fields[OF ab(2)] fields[OF ab(4)] by simp
  qed
  then have "urls_unique t" unfolding urls_unique_def by blast
  then show ?thesis using keys ok by (simp add: forward_wf_def)
qed

lemma forward_wf_insert:
  assumes "forward_wf d" and "server_ok (mk (next_id (forward_servers d)))"
    and "fs_id (mk (next_id (forward_servers d))) = next_id (forward_servers d)"
    and "server_repo_create F mk d = (Inr s, d')"
  shows "forward_wf d'" and "s = mk (next_id (forward_servers d))"
    and "d' = d\<lparr>forward_servers := \<lparr>rows = rows (forward_servers d) @ [s], next_id = next_id (forward_servers d) + 1\<rparr>\<rparr>"
proof -
  let ?s = "mk (next_id (forward_servers d))"
  have run: "s = ?s" "base_url_free (fs_id ?s) (fs_base_url ?s) (forward_servers d)"
      "d' = d\<lparr>forward_servers := (forward_servers d)\<lparr>rows := rows (forward_servers d) @ [?s],
          next_id := next_id (forward_servers d) + 1\<rparr>\<rparr>"
    using assms(4) by (auto simp: server_repo_create_def statement_Inr insert_row_def Let_def split: if_splits)
  show "s = ?s" by (rule run(1))
  show "d' = d\<lparr>forward_servers := \<lparr>rows = rows (forward_servers d) @ [s], next_id = next_id (forward_servers d) + 1\<rparr>\<rparr>"
    by (simp add: run(1,3))
  have fresh: "\<forall>x \<in> set (rows (forward_servers d)). fs_id x < next_id (forward_servers d)"
    using assms(1) by (simp add: forward_wf_def keys_ok_def)
  then have free: "fs_base_url ?s = None \<or> (\<forall>x \<in> set (rows (forward_servers d)). fs_base_url x \<noteq> fs_base_url ?s)"
    using run(2) assms(3) by (fastforce simp: base_url_free_def)
  have "urls_unique (forward_servers d')"
    by (rule urls_unique_append[OF _ _ free]) (use assms(1) in \<open>simp_all add: forward_wf_def run(3)\<close>)
  moreover have "keys_ok fs_id (forward_servers d')"
    using assms(1,3) fresh unfolding run(3) forward_wf_def keys_ok_def by fastforce
  ultimately show "forward_wf d'"
    using assms(1,2) by (auto simp: forward_wf_def run(3))
qed

lemma forward_wf_replace:
  assumes "forward_wf d" and "server_ok a" and "fs_id a = i"
    and "server_repo_update F i (\<lambda>_. a) d = (Inr s, d')"
  shows "forward_wf d'"
    and "s = a" and "d' = d\<lparr>forward_servers := (forward_servers d)\<lparr>rows :=
        map (\<lambda>r. if fs_id r = i then a else r) (rows (forward_servers d))\<rparr>\<rparr>"
proof -
  let ?t = "(forward_servers d)\<lparr>rows := map (\<lambda>r. if fs_id r = i then a else r) (rows (forward_servers d))\<rparr>"
  have run: "s = a" "base_url_free i (fs_base_url a) (forward_servers d)" "d' = d\<lparr>forward_servers := ?t\<rparr>"
    using assms(4) by (auto simp: server_repo_update_def statement_Inr update_by_key_def update_many_def
        split: sum.splits option.splits if_splits)
  show "s = a" "d' = d\<lparr>forward_servers := ?t\<rparr>" by (rule run)+
  have ids: "map fs_id (rows ?t) = map fs_id (rows (forward_servers d))" using assms(3) by auto
  have "keys_ok fs_id (forward_servers d)" using assms(1) by (simp add: forward_wf_def)
  then have "keys_ok fs_id ?t" unfolding keys_ok_alt ids by simp
  moreover have "urls_unique ?t"
  proof -
    have free: "fs_id x = i" if "x \<in> set (rows (forward_servers d))" "fs_base_url a \<noteq> None" "fs_base_url x = fs_base_url a" for x
      using run(2) that by (auto simp: base_url_free_def)
    have old: "urls_unique (forward_servers d)" using assms(1) by (simp add: forward_wf_def)
    have mem: "x = a \<or> x \<in> set (rows (forward_servers d)) \<and> fs_id x \<noteq> i" if "x \<in> set (rows ?t)" for x
      using that by (auto split: if_splits)
    show ?thesis
      unfolding urls_unique_def
    proof (intro ballI impI)
      fix x y assume xy: "x \<in> set (rows ?t)" "y \<in> set (rows ?t)" "fs_base_url x \<noteq> None" "fs_base_url x = fs_base_url y"
      from mem[OF xy(1)] mem[OF xy(2)] show "fs_id x = fs_id y"
        using urls_uniqueD[OF old, of x y] free[of x] free[of y] xy(3,4) by metis
    qed
  qed
  ultimately show "forward_wf d'"
    using assms(1,2) by (auto simp: forward_wf_def run(3))
qed

lemma normalize_Inr_bounds:
  "normalize_display_name v = Inr n \<Longrightarrow> n \<noteq> [] \<and> length n \<le> 128"
  "normalize_priority p = Inr p' \<Longrightarrow> p' = p \<and> min_priority \<le> p \<and> p \<le> max_priority"
  "normalize_weight w = Inr w' \<Longrightarrow> w' = w \<and> min_weight \<le> w \<and> w \<le> max_weight"
  "normalize_timeout_ms t = Inr t' \<Longrightarrow> t' = t \<and> min_timeout_ms \<le> t \<and> t \<le> max_timeout_ms"
  by (auto simp: normalize_display_name_def normalize_priority_def normalize_weight_def normalize_timeout_ms_def
      Let_def split: if_splits)

lemma on_db_Inr: "on_db m s = (Inr x, s') \<longleftrightarrow> (\<exists>d. m (y_db s) = (Inr x, d) \<and> s' = s\<lparr>y_db := d\<rparr>)"
  by (auto simp: on_db_def Let_def split: prod.splits)

lemma on_cache_Inr: "on_cache f s = (Inr x, s') \<longleftrightarrow> s' = s\<lparr>y_cache := f (y_cache s)\<rparr>"
  by (auto simp: on_cache_def)

text \<open>What an administrator's change keeps: the servers stay well formed, built-in ones stay, and the cached
  list is current.\<close>

definition forward_ok :: "'c cache_ops \<Rightarrow> 'c ygg_state \<Rightarrow> bool" where
  "forward_ok C s = (forward_wf (y_db s) \<and> servers_current C (y_cache s) (y_db s))"

definition builtins_kept :: "db \<Rightarrow> db \<Rightarrow> bool" where
  "builtins_kept d d' =
     (\<forall>s \<in> set (rows (forward_servers d)). fs_builtin s \<longrightarrow>
        (\<exists>s' \<in> set (rows (forward_servers d')). fs_id s' = fs_id s \<and> fs_builtin s'
           \<and> fs_base_url s' = fs_base_url s \<and> fs_provider_kind s' = fs_provider_kind s
           \<and> fs_endpoint_kind s' = fs_endpoint_kind s))"

lemma create_server_effect:
  assumes "cache_lawful C" and "forward_ok C s" and "create_server C F norm_url now input s = (Inr server, s')"
  shows "forward_ok C s'" and "builtins_kept (y_db s) (y_db s')"
proof -
  obtain name url p w t d where n: "normalize_display_name (cs_display_name input) = Inr name"
      "normalize_priority (or_default 100 (cs_priority input)) = Inr p"
      "normalize_weight (or_default 1 (cs_weight input)) = Inr w"
      "normalize_timeout_ms (or_default 1500 (cs_timeout_ms input)) = Inr t"
      and cr: "server_repo_create F (new_server now input name url p w t) (y_db s) = (Inr server, d)"
      and s': "s' = s\<lparr>y_db := d, y_cache := invalidate_session_forward_servers C (y_cache s)\<rparr>"
    using assms(3) by (auto simp: create_server_def run_simps on_db_Inr on_cache_Inr)
  have wf: "forward_wf (y_db s)" using assms(2) by (simp add: forward_ok_def)
  have "server_ok (new_server now input name url p w t i)" for i
    using normalize_Inr_bounds(1)[OF n(1)] normalize_Inr_bounds(2)[OF n(2)] normalize_Inr_bounds(3)[OF n(3)]
      normalize_Inr_bounds(4)[OF n(4)]
    by (simp add: server_ok_def new_server_def)
  note ins = forward_wf_insert[OF wf this _ cr]
  show "forward_ok C s'"
    using ins(1) servers_current_invalidated[OF assms(1)] by (simp add: forward_ok_def s' new_server_def)
  show "builtins_kept (y_db s) (y_db s')"
    using ins(3) by (auto simp: builtins_kept_def s' new_server_def)
qed

lemma delete_server_effect:
  assumes "cache_lawful C" and "forward_ok C s" and "delete_server C i s = (Inr server, s')"
  shows "forward_ok C s'" and "builtins_kept (y_db s) (y_db s')"
proof -
  let ?t = "(forward_servers (y_db s))\<lparr>rows := filter (\<lambda>r. fs_id r \<noteq> i) (rows (forward_servers (y_db s)))\<rparr>"
  have run: "find_server_by_id i (y_db s) = Inr server" "\<not> fs_builtin server"
      "s' = s\<lparr>y_db := (y_db s)\<lparr>forward_servers := ?t\<rparr>, y_cache := invalidate_session_forward_servers C (y_cache s)\<rparr>"
    using assms(3) by (auto simp: delete_server_def run_simps if_raise_Inr on_db_Inr on_cache_Inr server_repo_delete_def
        delete_many_def Let_def split: if_splits)
  have wf: "forward_wf (y_db s)" using assms(2) by (simp add: forward_ok_def)
  then have "forward_wf ((y_db s)\<lparr>forward_servers := ?t\<rparr>)"
    by (auto simp: forward_wf_def keys_ok_def urls_unique_def distinct_map_filter)
  then show "forward_ok C s'"
    using servers_current_invalidated[OF assms(1)] by (simp add: forward_ok_def run(3))
  have srv: "server \<in> set (rows (forward_servers (y_db s)))" "fs_id server = i"
    using run(1) by (auto simp: find_server_by_id_def split: option.splits dest: select_one_Some)
  have "fs_id r \<noteq> i" if "r \<in> set (rows (forward_servers (y_db s)))" "fs_builtin r" for r
    using keys_ok_inj[of fs_id "forward_servers (y_db s)" r server] wf that srv run(2) by (auto simp: forward_wf_def)
  then show "builtins_kept (y_db s) (y_db s')"
    by (auto simp: builtins_kept_def run(3))
qed

lemma set_checked_Inr:
  "set_checked v f upd r = Inr r' \<longleftrightarrow> (v = None \<and> r' = r \<or> (\<exists>x y. v = Some x \<and> f x = Inr y \<and> r' = upd y r))"
  by (auto simp: set_checked_def split: option.splits sum.splits)

text \<open>The fields an update may leave behind, checked field by field.\<close>

lemma server_ok_changed:
  assumes "server_ok a"
  shows "server_ok (a\<lparr>fs_updated_at := now\<rparr>)" "server_ok (a\<lparr>fs_enabled := e\<rparr>)" "server_ok (a\<lparr>fs_endpoint_kind := k\<rparr>)"
    and "n \<noteq> [] \<Longrightarrow> length n \<le> 128 \<Longrightarrow> server_ok (a\<lparr>fs_display_name := n\<rparr>)"
    and "fs_provider_kind a = ProviderRemote \<Longrightarrow> server_ok (a\<lparr>fs_base_url := Some u\<rparr>)"
    and "min_priority \<le> p \<Longrightarrow> p \<le> max_priority \<Longrightarrow> server_ok (a\<lparr>fs_priority := p\<rparr>)"
    and "min_weight \<le> w \<Longrightarrow> w \<le> max_weight \<Longrightarrow> server_ok (a\<lparr>fs_weight := w\<rparr>)"
    and "min_timeout_ms \<le> t \<Longrightarrow> t \<le> max_timeout_ms \<Longrightarrow> server_ok (a\<lparr>fs_timeout_ms := t\<rparr>)"
    and "\<not> (fs_provider_kind a = ProviderLocal \<and> b) \<Longrightarrow> server_ok (a\<lparr>fs_texture_forward_enabled := b\<rparr>)"
  using assms by (simp_all add: server_ok_def)

lemma server_ok_remote: "server_ok a \<Longrightarrow> \<not> fs_builtin a \<Longrightarrow> fs_provider_kind a = ProviderRemote"
  by (cases "fs_provider_kind a") (simp_all add: server_ok_def)

lemma updated_server_ok:
  assumes "server_ok existing"
    and "set_checked (us_display_name input) normalize_display_name (\<lambda>v r. r\<lparr>fs_display_name := v\<rparr>) existing = Inr a1"
    and "set_checked (us_base_url input) (changed_base_url norm_url existing d) (\<lambda>v r. r\<lparr>fs_base_url := Some v\<rparr>) a1 = Inr a2"
    and "set_checked (us_endpoint_kind input) (changed_endpoint_kind existing) (\<lambda>v r. r\<lparr>fs_endpoint_kind := v\<rparr>) a2 = Inr a3"
    and "set_checked (us_enabled input) Inr (\<lambda>v r. r\<lparr>fs_enabled := v\<rparr>) a3 = Inr a4"
    and "set_checked (us_priority input) normalize_priority (\<lambda>v r. r\<lparr>fs_priority := v\<rparr>) a4 = Inr a5"
    and "set_checked (us_weight input) normalize_weight (\<lambda>v r. r\<lparr>fs_weight := v\<rparr>) a5 = Inr a6"
    and "set_checked (us_timeout_ms input) normalize_timeout_ms (\<lambda>v r. r\<lparr>fs_timeout_ms := v\<rparr>) a6 = Inr a7"
    and "set_checked (us_texture_forward_enabled input) (changed_texture_forward existing)
           (\<lambda>v r. r\<lparr>fs_texture_forward_enabled := v\<rparr>) a7 = Inr a8"
  shows "server_ok (a8\<lparr>fs_updated_at := now\<rparr>) \<and> fs_id a8 = fs_id existing
    \<and> fs_builtin a8 = fs_builtin existing \<and> fs_provider_kind a8 = fs_provider_kind existing
    \<and> (fs_builtin existing \<longrightarrow> fs_base_url a8 = fs_base_url existing \<and> fs_endpoint_kind a8 = fs_endpoint_kind existing)"
proof -
  let ?inv = "\<lambda>a. server_ok a \<and> fs_id a = fs_id existing
    \<and> fs_builtin a = fs_builtin existing \<and> fs_provider_kind a = fs_provider_kind existing
    \<and> (fs_builtin existing \<longrightarrow> fs_base_url a = fs_base_url existing \<and> fs_endpoint_kind a = fs_endpoint_kind existing)"
  have "?inv a1" using assms(1,2) by (auto simp: set_checked_Inr dest!: normalize_Inr_bounds(1) intro: server_ok_changed(4))
  then have "?inv a2"
    using assms(3)
    by (auto simp: set_checked_Inr changed_base_url_def split: if_splits intro!: server_ok_changed(5) server_ok_remote)
  then have "?inv a3"
    using assms(4) by (auto simp: set_checked_Inr changed_endpoint_kind_def split: if_splits intro!: server_ok_changed(3))
  then have "?inv a4" using assms(5) by (auto simp: set_checked_Inr intro!: server_ok_changed(2))
  then have "?inv a5" using assms(6) by (auto simp: set_checked_Inr dest!: normalize_Inr_bounds(2) intro!: server_ok_changed(6))
  then have "?inv a6" using assms(7) by (auto simp: set_checked_Inr dest!: normalize_Inr_bounds(3) intro!: server_ok_changed(7))
  then have "?inv a7" using assms(8) by (auto simp: set_checked_Inr dest!: normalize_Inr_bounds(4) intro!: server_ok_changed(8))
  then have "?inv a8"
    using assms(9) by (auto simp: set_checked_Inr changed_texture_forward_def split: if_splits intro!: server_ok_changed(9))
  then show ?thesis using server_ok_changed(1) by simp
qed

lemma update_server_effect:
  assumes "cache_lawful C" and "forward_ok C s" and "update_server C F norm_url now i input s = (Inr server, s')"
  shows "forward_ok C s'" and "builtins_kept (y_db s) (y_db s')"
proof -
  obtain existing a1 a2 a3 a4 a5 a6 a7 a8 d where ex: "find_server_by_id i (y_db s) = Inr existing"
    and chk: "set_checked (us_display_name input) normalize_display_name (\<lambda>v r. r\<lparr>fs_display_name := v\<rparr>) existing = Inr a1"
      "set_checked (us_base_url input) (changed_base_url norm_url existing (y_db s)) (\<lambda>v r. r\<lparr>fs_base_url := Some v\<rparr>) a1 = Inr a2"
      "set_checked (us_endpoint_kind input) (changed_endpoint_kind existing) (\<lambda>v r. r\<lparr>fs_endpoint_kind := v\<rparr>) a2 = Inr a3"
      "set_checked (us_enabled input) Inr (\<lambda>v r. r\<lparr>fs_enabled := v\<rparr>) a3 = Inr a4"
      "set_checked (us_priority input) normalize_priority (\<lambda>v r. r\<lparr>fs_priority := v\<rparr>) a4 = Inr a5"
      "set_checked (us_weight input) normalize_weight (\<lambda>v r. r\<lparr>fs_weight := v\<rparr>) a5 = Inr a6"
      "set_checked (us_timeout_ms input) normalize_timeout_ms (\<lambda>v r. r\<lparr>fs_timeout_ms := v\<rparr>) a6 = Inr a7"
      "set_checked (us_texture_forward_enabled input) (changed_texture_forward existing)
         (\<lambda>v r. r\<lparr>fs_texture_forward_enabled := v\<rparr>) a7 = Inr a8"
    and up: "server_repo_update F i (\<lambda>_. a8\<lparr>fs_updated_at := now\<rparr>) (y_db s) = (Inr server, d)"
    and s': "s' = s\<lparr>y_db := d, y_cache := invalidate_session_forward_servers C (y_cache s)\<rparr>"
    using assms(3) unfolding update_server_def
    by (elim bnd_query_E bnd_check_E) (auto simp: run_simps on_db_Inr on_cache_Inr)
  have wf: "forward_wf (y_db s)" using assms(2) by (simp add: forward_ok_def)
  have ex': "existing \<in> set (rows (forward_servers (y_db s)))" "fs_id existing = i"
    using ex by (auto simp: find_server_by_id_def split: option.splits dest: select_one_Some)
  then have "server_ok existing" using wf by (simp add: forward_wf_def)
  note ok = updated_server_ok[OF this chk, of now]
  note rep = forward_wf_replace[OF wf conjunct1[OF ok] _ up]
  show "forward_ok C s'"
    using rep(1) ok ex'(2) servers_current_invalidated[OF assms(1)] by (simp add: forward_ok_def s')
  have same: "r = existing" if "r \<in> set (rows (forward_servers (y_db s)))" "fs_id r = i" for r
    using keys_ok_inj[of fs_id "forward_servers (y_db s)" r existing] wf that ex' by (auto simp: forward_wf_def)
  show "builtins_kept (y_db s) (y_db s')"
    unfolding builtins_kept_def
  proof (intro ballI impI)
    fix r assume r: "r \<in> set (rows (forward_servers (y_db s)))" "fs_builtin r"
    let ?r = "if fs_id r = i then a8\<lparr>fs_updated_at := now\<rparr> else r"
    have "?r \<in> set (rows (forward_servers (y_db s')))"
      using rep(3) r(1) ok ex'(2) by (auto simp: s')
    moreover have "fs_id ?r = fs_id r \<and> fs_builtin ?r \<and> fs_base_url ?r = fs_base_url r
        \<and> fs_provider_kind ?r = fs_provider_kind r \<and> fs_endpoint_kind ?r = fs_endpoint_kind r"
      using same[OF r(1)] r(2) ok by auto
    ultimately show "\<exists>s'\<in>set (rows (forward_servers (y_db s'))). fs_id s' = fs_id r \<and> fs_builtin s'
        \<and> fs_base_url s' = fs_base_url r \<and> fs_provider_kind s' = fs_provider_kind r \<and> fs_endpoint_kind s' = fs_endpoint_kind r"
      by blast
  qed
qed

lemma marked_effect:
  assumes "forward_ok C s" and "map routing (rows t) = map routing (rows (forward_servers (y_db s)))"
    and "next_id t = next_id (forward_servers (y_db s))"
  shows "forward_ok C (s\<lparr>y_db := (y_db s)\<lparr>forward_servers := t\<rparr>\<rparr>)"
    and "builtins_kept (y_db s) ((y_db s)\<lparr>forward_servers := t\<rparr>)"
proof -
  have "map routing (list_enabled_ordered ((y_db s)\<lparr>forward_servers := t\<rparr>)) = map routing (list_enabled_ordered (y_db s))"
    by (rule map_routing_order) (simp add: assms(2))
  then show "forward_ok C (s\<lparr>y_db := (y_db s)\<lparr>forward_servers := t\<rparr>\<rparr>)"
    using assms(1) forward_wf_routing[OF _ assms(2,3)] by (simp add: forward_ok_def servers_current_def)
  show "builtins_kept (y_db s) ((y_db s)\<lparr>forward_servers := t\<rparr>)"
    unfolding builtins_kept_def
  proof (intro ballI impI)
    fix x assume x: "x \<in> set (rows (forward_servers (y_db s)))" "fs_builtin x"
    then have "routing x \<in> set (map routing (rows t))" using assms(2) by simp
    then obtain y where y: "y \<in> set (rows t)" "routing x = routing y" by auto
    have "fs_id y = fs_id x \<and> fs_builtin y = fs_builtin x \<and> fs_base_url y = fs_base_url x
        \<and> fs_provider_kind y = fs_provider_kind x \<and> fs_endpoint_kind y = fs_endpoint_kind x"
      using routing_fields[of x] routing_fields[of y] y(2) by metis
    then show "\<exists>s' \<in> set (rows (forward_servers ((y_db s)\<lparr>forward_servers := t\<rparr>))). fs_id s' = fs_id x \<and> fs_builtin s'
        \<and> fs_base_url s' = fs_base_url x \<and> fs_provider_kind s' = fs_provider_kind x \<and> fs_endpoint_kind s' = fs_endpoint_kind x"
      using y(1) x(2) by auto
  qed
qed

lemma mark_run:
  "\<exists>t. on_db (mark_success i now) s = (Inr b, s') \<longrightarrow> s' = s\<lparr>y_db := (y_db s)\<lparr>forward_servers := t\<rparr>\<rparr>
     \<and> map routing (rows t) = map routing (rows (forward_servers (y_db s))) \<and> next_id t = next_id (forward_servers (y_db s))"
  "\<exists>t. on_db (mark_failure i now msg) s = (Inr b, s') \<longrightarrow> s' = s\<lparr>y_db := (y_db s)\<lparr>forward_servers := t\<rparr>\<rparr>
     \<and> map routing (rows t) = map routing (rows (forward_servers (y_db s))) \<and> next_id t = next_id (forward_servers (y_db s))"
  by (auto simp: on_db_def mark_success_def mark_failure_def update_many_def routing_def Let_def)

lemma enabled_servers_effect:
  assumes "cache_lawful C" and "forward_ok C s" and "enabled_session_forward_servers C now s = (Inr servers, s')"
  shows "forward_ok C s'" and "y_db s' = y_db s"
    and "map routing servers = map routing (list_enabled_ordered (y_db s))"
  using assms(2,3)
  by (auto simp: enabled_session_forward_servers_def forward_ok_def servers_current_def Let_def
      split: option.splits dest!: get_servers_after(1)[OF assms(1)])

text \<open>Any sequence of administration, cached reads and recorded checks.\<close>

inductive forward_steps ::
    "'c cache_ops \<Rightarrow> forge \<Rightarrow> (string \<Rightarrow> string + string option) \<Rightarrow> 'c ygg_state \<Rightarrow> 'c ygg_state \<Rightarrow> bool"
  for C F norm_url s0 where
  fwd_start: "forward_steps C F norm_url s0 s0"
| fwd_create: "forward_steps C F norm_url s0 s \<Longrightarrow> create_server C F norm_url now cinput s = (Inr server, s') \<Longrightarrow>
    forward_steps C F norm_url s0 s'"
| fwd_update: "forward_steps C F norm_url s0 s \<Longrightarrow> update_server C F norm_url now i uinput s = (Inr server, s') \<Longrightarrow>
    forward_steps C F norm_url s0 s'"
| fwd_delete: "forward_steps C F norm_url s0 s \<Longrightarrow> delete_server C i s = (Inr server, s') \<Longrightarrow>
    forward_steps C F norm_url s0 s'"
| fwd_read: "forward_steps C F norm_url s0 s \<Longrightarrow> enabled_session_forward_servers C now s = (Inr servers, s') \<Longrightarrow>
    forward_steps C F norm_url s0 s'"
| fwd_success: "forward_steps C F norm_url s0 s \<Longrightarrow> on_db (mark_success i now) s = (Inr b, s') \<Longrightarrow>
    forward_steps C F norm_url s0 s'"
| fwd_failure: "forward_steps C F norm_url s0 s \<Longrightarrow> on_db (mark_failure i now msg) s = (Inr b, s') \<Longrightarrow>
    forward_steps C F norm_url s0 s'"

lemma builtins_kept_refl: "builtins_kept d d"
  unfolding builtins_kept_def by blast

lemma builtins_kept_trans: "builtins_kept d d1 \<Longrightarrow> builtins_kept d1 d2 \<Longrightarrow> builtins_kept d d2"
  unfolding builtins_kept_def by metis

lemma forward_steps_ok:
  assumes "forward_steps C F norm_url s s'" and "cache_lawful C" and "forward_ok C s"
  shows "forward_ok C s' \<and> builtins_kept (y_db s) (y_db s')"
  using assms(1)
proof induction
  case fwd_start
  show ?case using assms(3) by (simp add: builtins_kept_refl)
next
  case (fwd_create x now cinput server x')
  then show ?case using create_server_effect[OF assms(2)] builtins_kept_trans by blast
next
  case (fwd_update x now i uinput server x')
  then show ?case using update_server_effect[OF assms(2)] builtins_kept_trans by blast
next
  case (fwd_delete x i server x')
  then show ?case using delete_server_effect[OF assms(2)] builtins_kept_trans by blast
next
  case (fwd_read x now servers x')
  then show ?case using enabled_servers_effect[OF assms(2)] by metis
next
  case (fwd_success x i now b x')
  then show ?case using mark_run(1)[of i now x b x'] marked_effect[of C x] builtins_kept_trans by auto
next
  case (fwd_failure x i now msg b x')
  then show ?case using mark_run(2)[of i now msg x b x'] marked_effect[of C x] builtins_kept_trans by auto
qed

section \<open>Seeding\<close>

lemma find_local_None: "find_local d = None \<longleftrightarrow> (\<forall>s \<in> set (rows (forward_servers d)). fs_provider_kind s \<noteq> ProviderLocal)"
proof -
  have "find_local d = None \<longleftrightarrow> order_by_asc fs_id (select_all (\<lambda>s. fs_provider_kind s = ProviderLocal) (forward_servers d)) = []"
    by (simp add: find_local_def split: list.splits)
  also have "\<dots> \<longleftrightarrow> set (select_all (\<lambda>s. fs_provider_kind s = ProviderLocal) (forward_servers d)) = {}"
    by (simp add: order_by_asc_def set_empty2 flip: set_empty)
  finally show ?thesis by (auto simp: select_all_def)
qed

definition seeded :: "db \<Rightarrow> bool" where
  "seeded d = (find_local d \<noteq> None \<and> find_by_base_url mojang_session_server_base_url d \<noteq> None)"

lemma ensure_builtin_seeded: "seeded d \<Longrightarrow> ensure_builtin_servers F now d = (Inr 0, d)"
  by (auto simp: seeded_def ensure_builtin_servers_def bnd_def query_def ret_def)

lemma builtin_ok: "server_ok (local_builtin_server now i)" "server_ok (mojang_builtin_server now i)"
  by (simp_all add: server_ok_def local_builtin_server_def mojang_builtin_server_def builtin_server_def
      min_priority_def max_priority_def min_weight_def max_weight_def min_timeout_ms_def max_timeout_ms_def)

lemma create_free:
  assumes "base_url_free (fs_id (mk (next_id (forward_servers d)))) (fs_base_url (mk (next_id (forward_servers d)))) (forward_servers d)"
  shows "server_repo_create F mk d = (Inr (mk (next_id (forward_servers d))),
    d\<lparr>forward_servers := \<lparr>rows = rows (forward_servers d) @ [mk (next_id (forward_servers d))],
      next_id = next_id (forward_servers d) + 1\<rparr>\<rparr>)"
  using assms by (simp add: server_repo_create_def statement_def insert_row_def Let_def)

lemma seed_one:
  assumes "forward_wf d" and "server_ok (mk (next_id (forward_servers d)))"
    and "fs_id (mk (next_id (forward_servers d))) = next_id (forward_servers d)"
    and "missing \<Longrightarrow> base_url_free (fs_id (mk (next_id (forward_servers d))))
           (fs_base_url (mk (next_id (forward_servers d)))) (forward_servers d)"
  obtains n d' where "(if missing then bnd (server_repo_create F mk) (\<lambda>_. ret 1) else ret 0) d = (Inr n, d')"
    "forward_wf d'" "rows (forward_servers d') = rows (forward_servers d) @ replicate n (mk (next_id (forward_servers d)))"
    "missing \<longleftrightarrow> n = (1 :: nat)" "\<not> missing \<longrightarrow> n = 0"
proof (cases missing)
  case True
  note run = create_free[where F = F and mk = mk and d = d, OF assms(4)[OF True]]
  show ?thesis
    by (rule that[of 1], simp add: True bnd_def run ret_def, rule forward_wf_insert(1)[OF assms(1-3) run]) (simp_all add: True)
next
  case False
  show ?thesis by (rule that[of 0 d]) (simp_all add: False ret_def assms(1))
qed

lemma ensure_builtin_run:
  assumes "forward_wf d"
  obtains n d' where "ensure_builtin_servers F now d = (Inr n, d')" "forward_wf d'" "seeded d'"
    "\<exists>new. rows (forward_servers d') = rows (forward_servers d) @ new \<and> length new = n"
proof -
  note bs = local_builtin_server_def mojang_builtin_server_def builtin_server_def
  obtain n d1 where d1: "(if find_local d = None then bnd (server_repo_create F (local_builtin_server now)) (\<lambda>_. ret 1)
        else ret 0) d = (Inr n, d1)" "forward_wf d1"
      "rows (forward_servers d1) = rows (forward_servers d) @ replicate n (local_builtin_server now (next_id (forward_servers d)))"
      "find_local d = None \<longleftrightarrow> n = 1" "find_local d \<noteq> None \<longrightarrow> n = 0"
    by (rule seed_one[where mk = "local_builtin_server now" and missing = "find_local d = None" and F = F, OF assms builtin_ok(1)]) (simp_all add: bs base_url_free_def)
  have local: "find_local d1 \<noteq> None"
    using d1(3-5) unfolding find_local_None by (cases "find_local d = None") (auto simp: find_local_None bs)
  obtain m d2 where d2: "(if find_by_base_url mojang_session_server_base_url d1 = None
        then bnd (server_repo_create F (mojang_builtin_server now)) (\<lambda>_. ret 1) else ret 0) d1 = (Inr m, d2)" "forward_wf d2"
      "rows (forward_servers d2) = rows (forward_servers d1) @ replicate m (mojang_builtin_server now (next_id (forward_servers d1)))"
      "find_by_base_url mojang_session_server_base_url d1 = None \<longleftrightarrow> m = 1"
      "find_by_base_url mojang_session_server_base_url d1 \<noteq> None \<longrightarrow> m = 0"
    by (rule seed_one[where mk = "mojang_builtin_server now" and F = F
        and missing = "find_by_base_url mojang_session_server_base_url d1 = None", OF d1(2) builtin_ok(2)])
      (auto simp: bs base_url_free_def find_by_base_url_def select_one_None)
  have "find_local d2 \<noteq> None" using local d2(3) by (auto simp: find_local_None)
  moreover have "find_by_base_url mojang_session_server_base_url d2 \<noteq> None"
    using d2(3-5)
    by (cases "find_by_base_url mojang_session_server_base_url d1 = None")
      (auto simp: find_by_base_url_def select_one_None bs)
  ultimately have seeded: "seeded d2" by (simp add: seeded_def)
  have "ensure_builtin_servers F now d = (Inr (n + m), d2)"
    by (simp add: ensure_builtin_servers_def bnd_def[of "query _"] query_def bnd_def[of "if _ then _ else _"] d1(1) d2(1) ret_def
        del: if_split)
  then show ?thesis using that d2(2) seeded d1(3) d2(3) by (metis append.assoc length_append length_replicate)
qed

text \<open>Seeding adds only what is missing and a second run adds nothing.\<close>

lemma ensure_builtin_idempotent:
  assumes "forward_wf d"
  shows "\<exists>n d'. ensure_builtin_servers F now d = (Inr n, d') \<and> forward_wf d' \<and> take (length (rows (forward_servers d))) (rows (forward_servers d')) = rows (forward_servers d)
    \<and> length (rows (forward_servers d')) = length (rows (forward_servers d)) + n
    \<and> ensure_builtin_servers F now' d' = (Inr 0, d')"
proof -
  obtain n d' where d': "ensure_builtin_servers F now d = (Inr n, d')" "forward_wf d'" "seeded d'"
      "\<exists>new. rows (forward_servers d') = rows (forward_servers d) @ new \<and> length new = n"
    by (rule ensure_builtin_run[OF assms])
  then show ?thesis using ensure_builtin_seeded[OF d'(3)] by auto
qed

section \<open>A sample\<close>

definition seeded_site :: "mem_cache ygg_state" where
  "seeded_site = \<lparr>y_db = snd (ensure_builtin_servers plain_forge 0 sample_db), y_cache = []\<rparr>"

definition sample_server :: create_server_input where
  "sample_server = \<lparr>cs_display_name = ''other'', cs_base_url = ''https://other'', cs_endpoint_kind = None,
     cs_enabled = None, cs_priority = Some 100, cs_weight = Some 3, cs_timeout_ms = None,
     cs_texture_forward_enabled = None\<rparr>"

definition plain_url :: "string \<Rightarrow> string + string option" where
  "plain_url u = (if u = [] then Inr None else Inr (Some u))"

lemma seeded_site_ok: "forward_ok mem_ops seeded_site"
proof -
  have "forward_wf sample_db"
    by (simp add: forward_wf_def keys_ok_def urls_unique_def sample_db_def empty_db_def empty_table_def)
  from ensure_builtin_run[OF this, of plain_forge 0] have "forward_wf (snd (ensure_builtin_servers plain_forge 0 sample_db))"
    by (metis snd_conv)
  then show ?thesis
    by (simp add: forward_ok_def seeded_site_def servers_current_def get_enabled_session_forward_servers_def
        mem_ops_def mem_get_def)
qed

section \<open>Properties\<close>



text \<open>Over any sequence of creating, changing and deleting upstreams, recording checks and reading the list of
  enabled upstreams, every stored upstream keeps its limits (name, priority, weight, timeout; the local one
  has no address and forwards no textures), addresses stay unique, built-in upstreams stay and keep their
  address and kind, and each read gives the enabled upstreams as they are stored at that moment, although
  they are cached.\<close>

theorem forward_servers_invariant:
  assumes "cache_lawful C" and "forward_ok C s" and "forward_steps C F norm_url s s'"
  shows "forward_wf (y_db s') \<and> builtins_kept (y_db s) (y_db s')
    \<and> (\<forall>now servers s''. enabled_session_forward_servers C now s' = (Inr servers, s'') \<longrightarrow>
         map routing servers = map routing (list_enabled_ordered (y_db s')))"
  using forward_steps_ok[OF assms(3,1,2)] enabled_servers_effect(3)[OF assms(1), of s'] by (auto simp: forward_ok_def)

theorem forward_servers_invariant_witness:
  "builtins_kept (y_db seeded_site) (y_db (snd (create_server mem_ops plain_forge plain_url 5 sample_server seeded_site)))
   \<and> length (list_enabled_ordered (y_db (snd (create_server mem_ops plain_forge plain_url 5 sample_server seeded_site)))) = 2"
proof -
  have "\<exists>x. create_server mem_ops plain_forge plain_url 5 sample_server seeded_site =
      (Inr x, snd (create_server mem_ops plain_forge plain_url 5 sample_server seeded_site))"
    by (rule run_ok) code_simp
  then obtain x where "create_server mem_ops plain_forge plain_url 5 sample_server seeded_site =
      (Inr x, snd (create_server mem_ops plain_forge plain_url 5 sample_server seeded_site))" ..
  from forward_servers_invariant[OF mem_ops_lawful seeded_site_ok fwd_create[OF fwd_start this]]
  have "builtins_kept (y_db seeded_site) (y_db (snd (create_server mem_ops plain_forge plain_url 5 sample_server seeded_site)))" by blast
  moreover have "length (list_enabled_ordered (y_db (snd (create_server mem_ops plain_forge plain_url 5 sample_server seeded_site)))) = 2"
    by code_simp
  ultimately show ?thesis ..
qed

end
