(* ===== verification/Join.thy ===== *)
theory Join
  imports Ygg_Auth Forward
begin

text \<open>
  Joining a Minecraft server: \<open>yggdrasil_service/session.rs\<close>.  A client announces with \<open>join\<close> that it
  connects to a server; within 30 seconds the server asks with \<open>hasJoined\<close> and gets the profile, from this
  site or from an upstream.  The HTTP exchange with an upstream, the trusted-proxy rule for the client
  address, and the value and signature of the texture property are arguments.
\<close>

section \<open>Profile properties\<close>

text \<open>What \<open>profile_with_properties\<close> takes from the settings and the texture service: the fingerprint of the
  settings, \<open>texture_property_value\<close>, \<open>sign_texture_property\<close> and the override switch.\<close>

record property_env =
  pe_fingerprint :: string
  pe_texture_value :: "minecraft_profile \<Rightarrow> db \<Rightarrow> string result"
  pe_sign :: "string \<Rightarrow> string option result"
  pe_allow_microsoft_override :: bool

definition uploadable_textures_property_value :: "property_env \<Rightarrow> minecraft_profile \<Rightarrow> string option" where
  "uploadable_textures_property_value E profile =
     (if p_source profile = SourceMicrosoft \<and> \<not> pe_allow_microsoft_override E then None
      else let value = trim (p_uploadable_textures profile) in if value = [] then None else Some value)"

definition signature_for :: "property_env \<Rightarrow> bool \<Rightarrow> string \<Rightarrow> string option yresult" where
  "signature_for E signed value = (if signed then lift_aster (pe_sign E value) else Inr None)"

definition profile_answer :: "minecraft_profile \<Rightarrow> ygg_property list \<Rightarrow> ygg_profile" where
  "profile_answer profile properties =
     \<lparr>yp_id = p_uuid profile, yp_name = p_name profile, yp_source = None, yp_properties = Some properties\<rparr>"

definition profile_with_properties ::
    "'c cache_ops \<Rightarrow> forge \<Rightarrow> property_env \<Rightarrow> time \<Rightarrow> minecraft_profile \<Rightarrow> bool \<Rightarrow>
     ('c ygg_state, yggdrasil_error, ygg_profile) handler" where
  "profile_with_properties C F E now profile signed =
     bnd (query (\<lambda>s. Inr (get_profile_properties C F now (pe_fingerprint E) profile signed (y_cache s)))) (\<lambda>cached.
     case cached of
       Some properties \<Rightarrow> ret (profile_answer profile properties)
     | None \<Rightarrow>
         bnd (query (\<lambda>s. lift_aster (pe_texture_value E profile (y_db s)))) (\<lambda>value.
         bnd (check (signature_for E signed value)) (\<lambda>signature.
         bnd (check (case uploadable_textures_property_value E profile of
                       None \<Rightarrow> Inr []
                     | Some u \<Rightarrow> map_sum id (\<lambda>sg. [\<lparr>yq_name = ''uploadableTextures'', yq_value = u, yq_signature = sg\<rparr>])
                                   (signature_for E signed u))) (\<lambda>more.
         let properties = \<lparr>yq_name = ''textures'', yq_value = value, yq_signature = signature\<rparr> # more in
         bnd (on_cache (set_profile_properties C F now (pe_fingerprint E) profile signed properties)) (\<lambda>_.
         ret (profile_answer profile properties))))))"

section \<open>Joining\<close>

record join_req =
  jq_access_token :: string
  jq_selected_profile :: string
  jq_server_id :: string

text \<open>\<open>real_ip\<close> is \<open>client_ip::real_ip_from_headers\<close> on the request's headers and the trusted proxies.\<close>

definition real_join_client_ip :: "(string \<Rightarrow> string) \<Rightarrow> http_request \<Rightarrow> string option" where
  "real_join_client_ip real_ip req = map_option real_ip (hr_peer_ip req)"

definition join_details :: "minecraft_profile \<Rightarrow> string \<Rightarrow> audit_details" where
  "join_details profile server_id_hash =
     [(''profile_uuid'', Some (p_uuid profile)), (''profile_name'', Some (p_name profile)),
      (''server_id_hash'', Some server_id_hash)]"

definition new_join_session :: "(string \<Rightarrow> string) \<Rightarrow> minecraft_profile \<Rightarrow> join_req \<Rightarrow> http_request \<Rightarrow> join_session" where
  "new_join_session real_ip profile body req =
     \<lparr>js_profile_id = p_id profile, js_profile_uuid = p_uuid profile, js_profile_name = p_name profile,
      js_server_id = jq_server_id body, js_ip_address = real_join_client_ip real_ip req\<rparr>"

definition join ::
    "'c cache_ops \<Rightarrow> forge \<Rightarrow> scope_codec \<Rightarrow> (string \<Rightarrow> bool) \<Rightarrow> (string \<Rightarrow> string) \<Rightarrow> time \<Rightarrow> join_req \<Rightarrow>
     http_request \<Rightarrow> ('c ygg_state, yggdrasil_error, unit) handler" where
  "join C F J should_record real_ip now body req =
     bnd (active_token C F J now (jq_access_token body) None) (\<lambda>token.
     case t_selected_profile_id token of
       None \<Rightarrow> raise (ygg_error InvalidToken)
     | Some selected_profile_id \<Rightarrow>
         bnd (query (\<lambda>s. Inr (is_user_banned J now (t_user_id token) YggdrasilJoin (y_db s)))) (\<lambda>banned.
         if banned then raise (ygg_error InvalidToken) else
         bnd (query (\<lambda>s. lift_aster (find_profile_by_id selected_profile_id (y_db s)))) (\<lambda>profile.
         if p_uuid profile \<noteq> jq_selected_profile body then raise (ygg_error InvalidToken) else
         bnd (on_cache (set_join_session C F now (jq_server_id body) (new_join_session real_ip profile body req))) (\<lambda>_.
         audited should_record now (audit_from_request req (t_user_id token))
           ''yggdrasil_join_server'' ''yggdrasil_session'' (Some (p_id profile)) (Some (p_name profile))
           (Some (join_details profile (sha256_hex F (jq_server_id body))))))))"

section \<open>hasJoined on this site\<close>

definition local_has_joined ::
    "'c cache_ops \<Rightarrow> forge \<Rightarrow> scope_codec \<Rightarrow> property_env \<Rightarrow> time \<Rightarrow> string \<Rightarrow> string \<Rightarrow> string option \<Rightarrow>
     ('c ygg_state, yggdrasil_error, ygg_profile option) handler" where
  "local_has_joined C F J E now username server_id ip =
     bnd (query (\<lambda>s. Inr (get_join_session C F now server_id (y_cache s)))) (\<lambda>found.
     case found of
       None \<Rightarrow> ret None
     | Some session \<Rightarrow>
         if js_server_id session \<noteq> server_id \<or> js_profile_name session \<noteq> username then ret None else
         if (case ip of None \<Rightarrow> False | Some i \<Rightarrow> js_ip_address session \<noteq> Some i) then ret None else
         bnd (query (\<lambda>s. lift_aster (find_profile_by_id (js_profile_id session) (y_db s)))) (\<lambda>profile.
         bnd (query (\<lambda>s. Inr (is_user_banned J now (p_user_id profile) YggdrasilJoin (y_db s)))) (\<lambda>banned.
         if banned then ret None else
         bnd (profile_with_properties C F E now profile True) (\<lambda>answer.
         ret (Some answer)))))"

section \<open>Asking the upstreams\<close>

datatype upstream_answer =
    BadUrl string
  | SendFailed string
  | Answer nat string "string + ygg_profile"
      \<comment> \<open>status code, its text, the body as a profile\<close>

definition session_forward_has_joined_path :: "endpoint_kind \<Rightarrow> string" where
  "session_forward_has_joined_path k =
     (case k of AuthlibInjector \<Rightarrow> ''/sessionserver/session/minecraft/hasJoined''
              | MojangSession \<Rightarrow> ''/session/minecraft/hasJoined'')"

definition provider_as_str :: "provider_kind \<Rightarrow> string" where
  "provider_as_str k = (case k of ProviderLocal \<Rightarrow> ''local'' | ProviderRemote \<Rightarrow> ''remote'')"

definition endpoint_as_str :: "endpoint_kind \<Rightarrow> string" where
  "endpoint_as_str k = (case k of AuthlibInjector \<Rightarrow> ''authlib_injector'' | MojangSession \<Rightarrow> ''mojang_session'')"

definition validate_non_blank :: "string \<Rightarrow> bool" where
  "validate_non_blank v = (trim v \<noteq> [])"

definition validate_unsigned_uuid :: "string \<Rightarrow> bool" where
  "validate_unsigned_uuid v = (length v = 32 \<and> list_all is_ascii_hexdigit v)"

definition profile_body_valid :: "ygg_profile \<Rightarrow> bool" where
  "profile_body_valid p =
     (validate_unsigned_uuid (yp_id p) \<and> validate_profile_name (yp_name p) = Inr ()
      \<and> (case yp_properties p of
           None \<Rightarrow> True
         | Some ps \<Rightarrow> list_all (\<lambda>q. validate_non_blank (yq_name q) \<and> validate_non_blank (yq_value q)
                        \<and> (case yq_signature q of None \<Rightarrow> True | Some sg \<Rightarrow> validate_non_blank sg)) ps))"

text \<open>\<open>ask base path query timeout\<close> is the HTTP exchange; \<open>invalid_text\<close> is the text of the
  validation errors.  The URL is the base with the path appended and these query pairs.\<close>

record upstream_env =
  ue_ask :: "string \<Rightarrow> string \<Rightarrow> (string \<times> string) list \<Rightarrow> int \<Rightarrow> upstream_answer"
  ue_invalid_text :: "ygg_profile \<Rightarrow> string"
  ue_rewrite :: "forward_server \<Rightarrow> ygg_profile \<Rightarrow> string + ygg_profile"

definition query_forward_server ::
    "upstream_env \<Rightarrow> forward_server \<Rightarrow> string \<Rightarrow> string \<Rightarrow> string option \<Rightarrow> string + ygg_profile option" where
  "query_forward_server U upstream username server_id ip =
     (case fs_base_url upstream of
        None \<Rightarrow> Inl ''remote upstream base URL is missing''
      | Some base_url \<Rightarrow>
          (case ue_ask U base_url (session_forward_has_joined_path (fs_endpoint_kind upstream))
                  ([(''username'', username), (''serverId'', server_id)] @ (case ip of None \<Rightarrow> [] | Some i \<Rightarrow> [(''ip'', i)]))
                  (normalize_forward_timeout_ms (fs_timeout_ms upstream)) of
             BadUrl e \<Rightarrow> Inl (''invalid upstream base URL: '' @ e)
           | SendFailed e \<Rightarrow> Inl (''request failed: '' @ e)
           | Answer status status_text body \<Rightarrow>
               if status = 204 \<or> status = 404 then Inr None
               else if \<not> (200 \<le> status \<and> status < 300) then Inl (''upstream returned HTTP '' @ status_text)
               else (case body of
                       Inl e \<Rightarrow> Inl (''invalid profile JSON: '' @ e)
                     | Inr profile \<Rightarrow>
                         if profile_body_valid profile then Inr (Some profile)
                         else Inl (''invalid profile body: '' @ ue_invalid_text U profile))))"

definition requires_bound_microsoft_profile :: "forward_server \<Rightarrow> bool" where
  "requires_bound_microsoft_profile upstream =
     (fs_provider_kind upstream = ProviderRemote \<and> fs_endpoint_kind upstream = MojangSession)"

definition forwarded_mojang_profile_is_bound :: "ygg_profile \<Rightarrow> db \<Rightarrow> bool" where
  "forwarded_mojang_profile_is_bound profile d =
     (case find_by_uuid (yp_id profile) d of None \<Rightarrow> False | Some p \<Rightarrow> p_source p = SourceMicrosoft)"

definition log_forward_check ::
    "forge \<Rightarrow> (string \<Rightarrow> bool) \<Rightarrow> time \<Rightarrow> audit_request_info \<Rightarrow> string \<Rightarrow> string \<Rightarrow> forward_server \<Rightarrow> string \<Rightarrow>
     string option \<Rightarrow> string option \<Rightarrow> ('c ygg_state, yggdrasil_error, unit) handler" where
  "log_forward_check F should_record now info username server_id upstream result profile_uuid error =
     audited should_record now (to_context info 0) ''yggdrasil_session_forward_check'' ''yggdrasil_session''
       (Some (fs_id upstream)) (Some (fs_display_name upstream))
       (Some ([(''username'', Some username), (''server_id_hash'', Some (sha256_hex F server_id)),
               (''upstream_id'', Some (show_int (fs_id upstream))), (''upstream_name'', Some (fs_display_name upstream)),
               (''provider_kind'', Some (provider_as_str (fs_provider_kind upstream))),
               (''endpoint_kind'', Some (endpoint_as_str (fs_endpoint_kind upstream))), (''result'', Some result),
               (''texture_forward_enabled'', Some (if fs_texture_forward_enabled upstream then ''true'' else ''false''))]
              @ omit_none ''profile_uuid'' profile_uuid @ omit_none ''error'' error))"

text \<open>\<open>\<dots>.await.map_err(|error| error.protocol_message())\<close>\<close>

definition with_message ::
    "('s, yggdrasil_error, 'a) handler \<Rightarrow> ('s, yggdrasil_error, string + 'a) handler" where
  "with_message m s =
     (case m s of (Inl e, s') \<Rightarrow> (Inr (Inl (protocol_message e)), s') | (Inr x, s') \<Rightarrow> (Inr (Inr x), s'))"

definition upstream_result ::
    "'c cache_ops \<Rightarrow> forge \<Rightarrow> scope_codec \<Rightarrow> property_env \<Rightarrow> upstream_env \<Rightarrow> time \<Rightarrow> forward_server \<Rightarrow> string \<Rightarrow>
     string \<Rightarrow> string option \<Rightarrow> ('c ygg_state, yggdrasil_error, string + ygg_profile option) handler" where
  "upstream_result C F J E U now upstream username server_id ip =
     (case fs_provider_kind upstream of
        ProviderLocal \<Rightarrow> with_message (local_has_joined C F J E now username server_id ip)
      | ProviderRemote \<Rightarrow> ret (query_forward_server U upstream username server_id ip))"

fun ask_upstreams ::
    "'c cache_ops \<Rightarrow> forge \<Rightarrow> scope_codec \<Rightarrow> property_env \<Rightarrow> upstream_env \<Rightarrow> (string \<Rightarrow> bool) \<Rightarrow> time \<Rightarrow>
     audit_request_info \<Rightarrow> string \<Rightarrow> string \<Rightarrow> string option \<Rightarrow> forward_server list \<Rightarrow>
     ('c ygg_state, yggdrasil_error, ygg_profile option) handler" where
  "ask_upstreams C F J E U sr now info username server_id ip [] = ret None"
| "ask_upstreams C F J E U sr now info username server_id ip (upstream # upstreams) =
     bnd (upstream_result C F J E U now upstream username server_id ip) (\<lambda>result.
     case result of
       Inr (Some profile) \<Rightarrow>
         bnd (query (\<lambda>s. Inr (requires_bound_microsoft_profile upstream
                               \<and> \<not> forwarded_mojang_profile_is_bound profile (y_db s)))) (\<lambda>unbound.
         if unbound then
           bnd (ygg (on_db (mark_success (fs_id upstream) now))) (\<lambda>_.
           bnd (log_forward_check F sr now info username server_id upstream ''no_match'' None None) (\<lambda>_.
           ask_upstreams C F J E U sr now info username server_id ip upstreams))
         else
           let answer = (if fs_texture_forward_enabled upstream
                         then (case ue_rewrite U upstream profile of Inl _ \<Rightarrow> profile | Inr p \<Rightarrow> p) else profile) in
           bnd (ygg (on_db (mark_success (fs_id upstream) now))) (\<lambda>_.
           bnd (log_forward_check F sr now info username server_id upstream ''matched'' (Some (yp_id answer)) None) (\<lambda>_.
           ret (Some answer))))
     | Inr None \<Rightarrow>
         bnd (ygg (on_db (mark_success (fs_id upstream) now))) (\<lambda>_.
         bnd (log_forward_check F sr now info username server_id upstream ''no_match'' None None) (\<lambda>_.
         ask_upstreams C F J E U sr now info username server_id ip upstreams))
     | Inl error \<Rightarrow>
         bnd (ygg (on_db (mark_failure (fs_id upstream) now error))) (\<lambda>_.
         bnd (log_forward_check F sr now info username server_id upstream ''failed'' None (Some error)) (\<lambda>_.
         ask_upstreams C F J E U sr now info username server_id ip upstreams)))"

definition orchestrated_has_joined ::
    "'c cache_ops \<Rightarrow> forge \<Rightarrow> scope_codec \<Rightarrow> property_env \<Rightarrow> upstream_env \<Rightarrow> (string \<Rightarrow> bool) \<Rightarrow> time \<Rightarrow>
     ('g \<Rightarrow> int \<Rightarrow> int \<times> 'g) \<Rightarrow> 'g \<Rightarrow> forward_server list \<Rightarrow> string \<Rightarrow> string \<Rightarrow> string option \<Rightarrow>
     audit_request_info \<Rightarrow> ('c ygg_state, yggdrasil_error, ygg_profile option) handler" where
  "orchestrated_has_joined C F J E U sr now random_range g servers username server_id ip info =
     ask_upstreams C F J E U sr now info username server_id ip (fst (weighted_forward_order random_range g servers))"

definition has_joined ::
    "'c cache_ops \<Rightarrow> forge \<Rightarrow> scope_codec \<Rightarrow> property_env \<Rightarrow> upstream_env \<Rightarrow> (string \<Rightarrow> bool) \<Rightarrow> time \<Rightarrow>
     ('g \<Rightarrow> int \<Rightarrow> int \<times> 'g) \<Rightarrow> 'g \<Rightarrow> string \<Rightarrow> string \<Rightarrow> string option \<Rightarrow>
     audit_request_info \<Rightarrow> ('c ygg_state, yggdrasil_error, ygg_profile option) handler" where
  "has_joined C F J E U sr now random_range g username server_id ip info =
     bnd (enabled_session_forward_servers C now) (\<lambda>servers.
     if servers = [] then local_has_joined C F J E now username server_id ip
     else orchestrated_has_joined C F J E U sr now random_range g servers username server_id ip info)"

section \<open>Forwarded textures\<close>

record forwarded_texture_ticket =
  ft_s :: row_id
  ft_h :: string
  ft_u :: string

definition is_forwarded_texture_hash :: "string \<Rightarrow> bool" where
  "is_forwarded_texture_hash v = (length v \<in> {32, 40, 64} \<and> list_all is_ascii_hexdigit v)"

text \<open>A signed ticket is read with the server's secret (\<open>jsonwebtoken\<close>); a URL is parsed to its scheme and
  its text (\<open>url\<close>).\<close>

definition forwarded_texture_url ::
    "(string \<Rightarrow> forwarded_texture_ticket option) \<Rightarrow> (string \<Rightarrow> (string \<times> string) option) \<Rightarrow> row_id \<Rightarrow> string \<Rightarrow>
     string \<Rightarrow> string option" where
  "forwarded_texture_url decode parse_url upstream_id texture_hash ticket =
     (if \<not> is_forwarded_texture_hash texture_hash then None
      else case decode ticket of
             None \<Rightarrow> None
           | Some t \<Rightarrow>
               if ft_s t \<noteq> upstream_id \<or> ft_h t \<noteq> texture_hash then None
               else (case parse_url (ft_u t) of
                       None \<Rightarrow> None
                     | Some (scheme, text) \<Rightarrow> if scheme = ''http'' \<or> scheme = ''https'' then Some text else None))"

section \<open>Join sessions in the cache\<close>

lemma get_join_after:
  assumes "cache_lawful C"
  shows "get_join_session C F u sid (set_join_session C F now sid' js c) = Some x \<Longrightarrow>
      x = js \<and> u < now + secs 30 \<or> get_join_session C F u sid c = Some x"
    and "get_join_session C F u sid (set_token C now h tk c) = Some x \<Longrightarrow> get_join_session C F u sid c = Some x"
    and "get_join_session C F u sid (invalidate_token C h c) = Some x \<Longrightarrow> get_join_session C F u sid c = Some x"
    and "get_join_session C F u sid (invalidate_tokens C hs c) = Some x \<Longrightarrow> get_join_session C F u sid c = Some x"
    and "get_join_session C F u sid (invalidate_all_tokens C c) = Some x \<Longrightarrow> get_join_session C F u sid c = Some x"
    and "get_join_session C F u sid (set_profile_properties C F' now fp p b ps c) = Some x \<Longrightarrow>
      get_join_session C F u sid c = Some x"
    and "get_join_session C F u sid (set_enabled_session_forward_servers C now ss c) = Some x \<Longrightarrow>
      get_join_session C F u sid c = Some x"
  unfolding get_join_session_def set_join_session_def set_token_def invalidate_token_def invalidate_tokens_def
    invalidate_all_tokens_def set_profile_properties_def set_enabled_session_forward_servers_def
proof -
  let ?r = "\<lambda>r. case r of Some (CJoin s) \<Rightarrow> Some s | _ \<Rightarrow> None"
  note slot = join_slot.after_set[OF assms] join_slot.after_delete[OF assms] join_slot.after_delete_many[OF assms]
    join_slot.after_prefix[OF assms] join_slot.after_other_set[OF assms] join_slot.expires[OF assms]
  show "x = js \<and> u < now + secs 30 \<or> ?r (c_get C c u (join_session_key F sid)) = Some x"
    if g: "?r (c_get C (c_set C c now (join_session_key F sid') (CJoin js) (Some join_session_ttl_secs)) u (join_session_key F sid)) = Some x"
  proof (cases "join_session_key F sid = join_session_key F sid' \<and> now + secs 30 \<le> u")
    case True
    then have "?r (c_get C (c_set C c now (join_session_key F sid') (CJoin js) (Some join_session_ttl_secs)) u (join_session_key F sid)) = None"
      using slot(6)[of now join_session_ttl_secs u c F sid' "CJoin js"] by (simp add: join_session_ttl_secs_def)
    then show ?thesis using g by simp
  next
    case False
    then show ?thesis using slot(1)[OF g] by auto
  qed
  show "?r (c_get C c u (join_session_key F sid)) = Some x"
    if "?r (c_get C (c_set C c now (token_key h) (CToken tk) (Some token_ttl_secs)) u (join_session_key F sid)) = Some x"
    by (rule slot(5)[OF _ that]) simp
  show "?r (c_get C c u (join_session_key F sid)) = Some x"
    if "?r (c_get C (c_delete C c (token_key h)) u (join_session_key F sid)) = Some x"
    using slot(2)[OF that] by simp
  show "?r (c_get C c u (join_session_key F sid)) = Some x"
    if "?r (c_get C (c_delete_many C c (map token_key hs)) u (join_session_key F sid)) = Some x"
    using slot(3)[OF that] by simp
  show "?r (c_get C c u (join_session_key F sid)) = Some x"
    if "?r (c_get C (c_invalidate_prefix C c token_prefix) u (join_session_key F sid)) = Some x"
    using slot(4)[OF that] by simp
  show "?r (c_get C c u (join_session_key F sid)) = Some x"
    if "?r (c_get C (c_set C c now (profile_properties_key F' fp p b) (CProps ps) (Some profile_properties_ttl_secs)) u (join_session_key F sid)) = Some x"
    by (rule slot(5)[OF _ that])
      (simp add: join_session_key_def profile_properties_key_def profile_properties_prefix_def)
  show "?r (c_get C c u (join_session_key F sid)) = Some x"
    if "?r (c_get C (c_set C c now session_forward_server_key (CServers ss) (Some session_forward_server_ttl_secs)) u (join_session_key F sid)) = Some x"
    by (rule slot(5)[OF _ that]) simp
qed

definition joins_kept :: "'c cache_ops \<Rightarrow> forge \<Rightarrow> 'c ygg_state \<Rightarrow> 'c ygg_state \<Rightarrow> bool" where
  "joins_kept C F s s' =
     (\<forall>u sid js. get_join_session C F u sid (y_cache s') = Some js \<longrightarrow> get_join_session C F u sid (y_cache s) = Some js)"

lemma joins_kept_refl [simp]: "joins_kept C F s s"
  by (simp add: joins_kept_def)

lemma joins_kept_trans: "joins_kept C F s s1 \<Longrightarrow> joins_kept C F s1 s2 \<Longrightarrow> joins_kept C F s s2"
  by (simp add: joins_kept_def)

lemma joins_kept_db [simp]: "joins_kept C F s (s'\<lparr>y_db := d\<rparr>) = joins_kept C F s s'"
  by (simp add: joins_kept_def)

lemma token_op_keeps_joins:
  assumes "cache_lawful C"
  shows "joins_kept C F' s (snd (token_for_operation C F J now tok client allow s))"
    and "joins_kept C F' s (snd (issue_token C F policy now tok u client' sel ua ip s))"
    and "joins_kept C F' s (snd (refresh_token C F policy now tok old u client' sel ua ip s))"
    and "joins_kept C F' s (snd (revoke_by_access_token C F now tok s))"
    and "joins_kept C F' s (snd (revoke_all_for_user C now u s))"
    and "joins_kept C F' s (snd (cleanup_expired_or_revoked_tokens C now s))"
proof -
  note lost = get_join_after[OF assms]
  show "joins_kept C F' s (snd (token_for_operation C F J now tok client allow s))"
    using token_for_operation_states[of C F J now tok client allow s]
    by (auto simp: joins_kept_def dest!: lost(2))
  show "joins_kept C F' s (snd (issue_token C F policy now tok u client' sel ua ip s))"
    unfolding issue_token_run joins_kept_def by (auto split: prod.split sum.split dest!: lost(4))
  show "joins_kept C F' s (snd (refresh_token C F policy now tok old u client' sel ua ip s))"
    unfolding refresh_token_run joins_kept_def by (auto split: prod.split sum.split dest!: lost(4))
  show "joins_kept C F' s (snd (revoke_by_access_token C F now tok s))"
    using revoke_by_access_token_run[of F now tok s C] by (auto simp: joins_kept_def dest!: lost(3))
  show "joins_kept C F' s (snd (revoke_all_for_user C now u s))"
    using revoke_all_for_user_run[of C now u s] by (auto simp: joins_kept_def dest!: lost(4))
  show "joins_kept C F' s (snd (cleanup_expired_or_revoked_tokens C now s))"
    unfolding cleanup_run by (auto simp: joins_kept_def dest!: lost(5))
qed

context state_order begin

lemma dropped:
  "R s (snd (m s)) \<Longrightarrow> R s (snd (attempt m s))" "R s (snd (m' s)) \<Longrightarrow> R s (snd (with_message m' s))"
  by (auto simp: attempt_def with_message_def split: prod.splits sum.splits)

end

interpretation joins: state_order "joins_kept C F" for C F
  by unfold_locales (simp, rule joins_kept_trans)

lemma joins_kept_on_db: "joins_kept C F s (snd (on_db m s))" "joins_kept C F s (snd (ygg (on_db m) s))"
  by (simp_all add: on_db_def ygg_def Let_def split_beta)

lemma joins_kept_audited: "joins_kept C F s (snd (audited sr now ctx a et ei en det s))"
  by (simp add: audited_run)

lemmas joins_kept_rules = joins.bnd joins.reads joins.dropped joins.branch joins_kept_on_db joins_kept_audited

text \<open>No request of the authentication protocol makes a join session.\<close>

lemma auth_request_keeps_joins:
  assumes "cache_lawful C"
  shows "joins_kept C F' s (snd (authenticate C F J policy sr now fc fa body req s))"
    and "joins_kept C F' s (snd (refresh C F J policy sr now fa rbody req s))"
    and "joins_kept C F' s (snd (validate C F J now tbody s))"
    and "joins_kept C F' s (snd (invalidate C F J sr now tbody s))"
    and "joins_kept C F' s (snd (signout C F policy sr now username password s))"
proof -
  note tok = token_op_keeps_joins[OF assms]
  show "joins_kept C F' s (snd (authenticate C F J policy sr now fc fa body req s))"
    unfolding authenticate_def Let_def by (intro joins_kept_rules tok)
  show "joins_kept C F' s (snd (refresh C F J policy sr now fa rbody req s))"
    unfolding refresh_def refreshable_token_def by (intro joins_kept_rules tok)
  show "joins_kept C F' s (snd (validate C F J now tbody s))"
    unfolding validate_def active_token_def by (intro joins_kept_rules tok)
  show "joins_kept C F' s (snd (invalidate C F J sr now tbody s))"
    unfolding invalidate_def active_token_def
    by (intro joins_kept_rules tok) (auto split: option.split intro: joins_kept_rules)
  show "joins_kept C F' s (snd (signout C F policy sr now username password s))"
    unfolding signout_def by (intro joins_kept_rules tok)
qed

lemma auth_steps_keep_joins:
  assumes "auth_steps C F J avoid s s'" and "cache_lawful C"
  shows "joins_kept C F' s s'"
  using assms(1)
  by induction (auto intro: joins_kept_trans auth_request_keeps_joins[OF assms(2)] token_op_keeps_joins[OF assms(2)])

text \<open>Neither does \<open>hasJoined\<close>.\<close>

lemma profile_properties_keep_joins:
  assumes "cache_lawful C"
  shows "joins_kept C F' s (snd (profile_with_properties C F E now profile signed s))"
proof -
  have set: "joins_kept C F' s (snd (on_cache (set_profile_properties C F now fp p b ps) s))" for s fp p b ps
    by (auto simp: on_cache_def joins_kept_def dest!: get_join_after(6)[OF assms])
  show ?thesis
    unfolding profile_with_properties_def Let_def
    by (intro joins_kept_rules set) (auto split: option.split intro!: joins_kept_rules set)
qed

lemma local_keeps_joins:
  assumes "cache_lawful C"
  shows "joins_kept C F' s (snd (local_has_joined C F J E now username server_id ip s))"
  unfolding local_has_joined_def
  by (intro joins_kept_rules)
    (auto split: option.split intro!: joins_kept_rules profile_properties_keep_joins[OF assms])

text \<open>What asking upstreams leaves alone.\<close>

definition asked :: "'c cache_ops \<Rightarrow> forge \<Rightarrow> 'c ygg_state \<Rightarrow> 'c ygg_state \<Rightarrow> bool" where
  "asked C F s s' =
     (joins_kept C F s s' \<and> users (y_db s') = users (y_db s) \<and> user_bans (y_db s') = user_bans (y_db s)
      \<and> minecraft_profiles (y_db s') = minecraft_profiles (y_db s)
      \<and> yggdrasil_tokens (y_db s') = yggdrasil_tokens (y_db s))"

interpretation asked: state_order "asked C F" for C F
  by unfold_locales (auto simp: asked_def intro: joins_kept_trans)

lemma asked_audited: "asked C F s (snd (audited sr now ctx a et ei en det s))"
  by (simp add: audited_run asked_def)

lemma asked_forward_check: "asked C F s (snd (log_forward_check F' sr now info un sid up res pu er s))"
  by (simp add: log_forward_check_def asked_audited)

lemma asked_mark:
  "asked C F s (snd (ygg (on_db (mark_success i now)) s))" "asked C F s (snd (ygg (on_db (mark_failure i now msg)) s))"
  by (simp_all add: asked_def on_db_def ygg_def mark_success_def mark_failure_def update_many_def Let_def)

lemma asked_properties:
  assumes "cache_lawful C"
  shows "asked C F' s (snd (profile_with_properties C F E now profile signed s))"
proof -
  have set: "asked C F' s (snd (on_cache (set_profile_properties C F now fp p b ps) s))" for s fp p b ps
    by (auto simp: on_cache_def asked_def joins_kept_def dest!: get_join_after(6)[OF assms])
  show ?thesis
    unfolding profile_with_properties_def Let_def
    by (intro asked.bnd asked.reads asked.dropped asked.branch set) (auto split: option.split intro!: asked.bnd asked.reads asked.dropped asked.branch set)
qed

lemma asked_local:
  assumes "cache_lawful C"
  shows "asked C F' s (snd (local_has_joined C F J E now username server_id ip s))"
  unfolding local_has_joined_def
  by (intro asked.bnd asked.reads asked.dropped asked.branch) (auto split: option.split intro!: asked.bnd asked.reads asked.dropped asked.branch asked_properties[OF assms])

lemma asked_upstream_result:
  assumes "cache_lawful C"
  shows "asked C F' s (snd (upstream_result C F J E U now upstream username server_id ip s))"
  unfolding upstream_result_def
  by (cases "fs_provider_kind upstream") (auto intro!: asked.bnd asked.reads asked.dropped asked.branch asked_local[OF assms])

lemma asked_servers:
  assumes "cache_lawful C"
  shows "asked C F s (snd (enabled_session_forward_servers C now s))"
  by (auto simp: enabled_session_forward_servers_def asked_def joins_kept_def Let_def split: option.split
      dest!: get_join_after(7)[OF assms])

section \<open>Where an answer comes from\<close>

text \<open>A recorded join: when, the request, and the database at that time.\<close>

type_synonym joined = "time \<times> join_req \<times> http_request \<times> db"

text \<open>The join was legitimate: it presented a token accepted then, bound to the profile it named, of an account
  that might join.\<close>

definition legitimate :: "forge \<Rightarrow> scope_codec \<Rightarrow> joined \<Rightarrow> minecraft_profile \<Rightarrow> bool" where
  "legitimate F J entry p =
     (case entry of (t, body, req, d) \<Rightarrow>
        \<exists>tk. find_by_access_hash (sha256_hex F (jq_access_token body)) (yggdrasil_tokens d) = Some tk
          \<and> token_accepted J d t None False tk \<and> \<not> is_user_banned J t (t_user_id tk) YggdrasilJoin d
          \<and> t_selected_profile_id tk = Some (p_id p) \<and> p \<in> set (rows (minecraft_profiles d))
          \<and> p_uuid p = jq_selected_profile body)"

definition sessions_ok :: "'c cache_ops \<Rightarrow> forge \<Rightarrow> scope_codec \<Rightarrow> (string \<Rightarrow> string) \<Rightarrow> joined list \<Rightarrow> 'c ygg_state \<Rightarrow> bool" where
  "sessions_ok C F J real_ip log s =
     (\<forall>u sid js. get_join_session C F u sid (y_cache s) = Some js \<longrightarrow>
        (\<exists>(t, body, req, d) \<in> set log. \<exists>p. legitimate F J (t, body, req, d) p \<and> u < t + secs 30
           \<and> js = new_join_session real_ip p body req))"

lemma sessions_ok_kept:
  assumes "sessions_ok C F J real_ip log s" and "joins_kept C F s s'" and "set log \<subseteq> set log'"
  shows "sessions_ok C F J real_ip log' s'"
  using assms unfolding sessions_ok_def joins_kept_def by fast

lemma join_run:
  assumes "cache_lawful C" and "ygg_wf C s" and "join C F J sr real_ip now body req s = (r, s')"
  shows "ygg_wf C s'"
    and "r = Inl e \<Longrightarrow> joins_kept C F s s'"
    and "sessions_ok C F J real_ip log s \<Longrightarrow> sessions_ok C F J real_ip ((now, body, req, y_db s) # log) s'"
proof -
  obtain q s0 where q: "active_token C F J now (jq_access_token body) None s = (q, s0)" by fastforce
  note tok = token_for_operation_run[OF assms(1,2) q[unfolded active_token_def]]
  have wf0: "ygg_wf C s0" and db0: "y_db s0 = y_db s" using tok by blast+
  have k0: "joins_kept C F s s0"
    using token_op_keeps_joins(1)[OF assms(1), of F s F J now "jq_access_token body" None False] q
    by (simp add: active_token_def)
  consider (no) e where "r = Inl e" "s' = s0"
    | (yes) tk p where "q = Inr tk" "t_selected_profile_id tk = Some (p_id p)" "r = Inr ()"
        "\<not> is_user_banned J now (t_user_id tk) YggdrasilJoin (y_db s)"
        "find_profile_by_id (p_id p) (y_db s) = Inr p" "p_uuid p = jq_selected_profile body"
        "y_cache s' = set_join_session C F now (jq_server_id body) (new_join_session real_ip p body req) (y_cache s0)"
        "tokens_of s' = tokens_of s0"
  proof (cases q)
    case (Inl e)
    then show ?thesis using assms(3) no by (auto simp: join_def bnd_def q)
  next
    case (Inr tk)
    note go = assms(3)[unfolded join_def bnd_def[of "active_token C F J now (jq_access_token body) None"] q Inr]
    show ?thesis
    proof (cases "t_selected_profile_id tk")
      case None
      then show ?thesis using go no by (auto simp: raise_def)
    next
      case (Some i)
      note sel = this
      show ?thesis
      proof (cases "is_user_banned J now (t_user_id tk) YggdrasilJoin (y_db s)")
        case True
        then show ?thesis using go no sel by (auto simp: bnd_def query_def raise_def db0)
      next
        case False
        show ?thesis
        proof (cases "find_profile_by_id i (y_db s)")
          case (Inl e)
          then show ?thesis using go no sel False by (auto simp: bnd_def query_def raise_def db0 lift_aster_def)
        next
          case (Inr p)
          have pid: "p_id p = i"
            using Inr by (auto simp: find_profile_by_id_def split: option.splits dest: select_one_Some)
          show ?thesis
          proof (cases "p_uuid p = jq_selected_profile body")
            case True
            have "r = Inr ()" "y_cache s' = set_join_session C F now (jq_server_id body) (new_join_session real_ip p body req) (y_cache s0)"
                "tokens_of s' = tokens_of s0"
              using go sel False Inr True by (auto simp: bnd_def query_def db0 lift_aster_def on_cache_def audited_run)
            then show ?thesis using yes[of tk p] \<open>q = Inr tk\<close> sel pid False Inr True by simp
          next
            case no_uuid: False
            then show ?thesis using go no sel False Inr by (auto simp: bnd_def query_def raise_def db0 lift_aster_def)
          qed
        qed
      qed
    qed
  qed
  note cases = this
  show "ygg_wf C s'"
  proof (cases rule: cases)
    case no
    then show ?thesis using wf0 by simp
  next
    case (yes tk p)
    show ?thesis
      using wf0 unfolding ygg_wf_def coherent_def yes(7,8) using get_token_after(7)[OF assms(1)] by blast
  qed
  show "joins_kept C F s s'" if "r = Inl e"
    using that k0 by (cases rule: cases) auto
  show "sessions_ok C F J real_ip ((now, body, req, y_db s) # log) s'" if ok: "sessions_ok C F J real_ip log s"
  proof (cases rule: cases)
    case no
    show ?thesis unfolding no(2) by (rule sessions_ok_kept[OF ok k0]) auto
  next
    case (yes tk p)
    have leg: "legitimate F J (now, body, req, y_db s) p"
      using tok yes(1-6)
      by (auto simp: legitimate_def find_profile_by_id_def split: option.splits if_splits dest!: select_one_Some)
    show ?thesis
      unfolding sessions_ok_def
    proof (intro allI impI)
      fix u sid js assume "get_join_session C F u sid (y_cache s') = Some js"
      then consider "js = new_join_session real_ip p body req" "u < now + secs 30"
        | "get_join_session C F u sid (y_cache s) = Some js"
        using get_join_after(1)[OF assms(1)] k0 unfolding yes(7) joins_kept_def by blast
      then show "\<exists>(t, body, req, d) \<in> set ((now, body, req, y_db s) # log). \<exists>p. legitimate F J (t, body, req, d) p
          \<and> u < t + secs 30 \<and> js = new_join_session real_ip p body req"
      proof cases
        case 1
        then show ?thesis using leg by (intro bexI[of _ "(now, body, req, y_db s)"]) auto
      next
        case 2
        then show ?thesis using ok unfolding sessions_ok_def by (metis (no_types, lifting) list.set_intros(2))
      qed
    qed
  qed
qed

text \<open>Histories: joins, and between them anything that keeps the tokens coherent and makes no join session.\<close>

inductive session_steps ::
    "'c cache_ops \<Rightarrow> forge \<Rightarrow> scope_codec \<Rightarrow> (string \<Rightarrow> string) \<Rightarrow> 'c ygg_state \<Rightarrow> joined list \<Rightarrow> 'c ygg_state \<Rightarrow> bool"
  for C F J real_ip s0 where
  ses_start: "session_steps C F J real_ip s0 [] s0"
| ses_join: "session_steps C F J real_ip s0 log s \<Longrightarrow> join C F J sr real_ip now body req s = (Inr (), s') \<Longrightarrow>
    session_steps C F J real_ip s0 ((now, body, req, y_db s) # log) s'"
| ses_other: "session_steps C F J real_ip s0 log s \<Longrightarrow> ygg_wf C s' \<Longrightarrow> joins_kept C F s s' \<Longrightarrow>
    session_steps C F J real_ip s0 log s'"

lemma session_steps_ok:
  assumes "session_steps C F J real_ip s0 log s" and "cache_lawful C" and "ygg_wf C s0"
    and "\<And>u sid. get_join_session C F u sid (y_cache s0) = None"
  shows "ygg_wf C s \<and> sessions_ok C F J real_ip log s"
  using assms(1)
proof induction
  case ses_start
  then show ?case using assms(3,4) by (simp add: sessions_ok_def)
next
  case (ses_join log s sr now body req s')
  then show ?case using join_run(1,3)[OF assms(2) _ ses_join(2)] by blast
next
  case (ses_other log s s')
  then show ?case using sessions_ok_kept[OF _ ses_other(3)] by blast
qed

text \<open>A protocol request, a refused join and \<open>hasJoined\<close> are such other steps.\<close>

lemma auth_request_other:
  assumes "auth_steps C F J avoid s s'" and "cache_lawful C" and "ygg_wf C s" and "tokens_owned (y_db s)"
  shows "ygg_wf C s' \<and> joins_kept C F s s'"
  using auth_steps_kept[OF assms(1,2)] auth_steps_keep_joins[OF assms(1,2)] assms(3,4) by (simp add: kept_def)

section \<open>The answer of hasJoined\<close>

text \<open>What an answer of this site rests on: a legitimate join in the last 30 seconds, to that server, under that
  name and from that address, by a profile that still exists and whose owner may still join.\<close>

definition vouched ::
    "forge \<Rightarrow> scope_codec \<Rightarrow> (string \<Rightarrow> string) \<Rightarrow> joined list \<Rightarrow> time \<Rightarrow> string \<Rightarrow> string \<Rightarrow> string option \<Rightarrow> db \<Rightarrow>
     ygg_profile \<Rightarrow> bool" where
  "vouched F J real_ip log now username server_id ip d answer =
     (\<exists>(t, body, req, d0) \<in> set log. \<exists>p q.
        legitimate F J (t, body, req, d0) p \<and> now < t + secs 30 \<and> jq_server_id body = server_id
        \<and> p_name p = username \<and> (\<forall>i. ip = Some i \<longrightarrow> real_join_client_ip real_ip req = Some i)
        \<and> q \<in> set (rows (minecraft_profiles d)) \<and> p_id q = p_id p \<and> yp_id answer = p_uuid q \<and> yp_name answer = p_name q
        \<and> \<not> is_user_banned J now (p_user_id q) YggdrasilJoin d)"

lemma profile_with_properties_answer:
  assumes "profile_with_properties C F E now profile signed s = (Inr answer, s')"
  shows "yp_id answer = p_uuid profile \<and> yp_name answer = p_name profile"
  using assms
  by (auto simp: profile_with_properties_def run_simps profile_answer_def Let_def split: option.splits)

lemma local_answer:
  assumes "sessions_ok C F J real_ip log s"
    and "local_has_joined C F J E now username server_id ip s = (Inr (Some answer), s')"
  shows "vouched F J real_ip log now username server_id ip (y_db s) answer"
proof -
  obtain js q where js: "get_join_session C F now server_id (y_cache s) = Some js" "js_server_id js = server_id"
      "js_profile_name js = username" "\<forall>i. ip = Some i \<longrightarrow> js_ip_address js = Some i"
      "find_profile_by_id (js_profile_id js) (y_db s) = Inr q" "\<not> is_user_banned J now (p_user_id q) YggdrasilJoin (y_db s)"
      "profile_with_properties C F E now q True s = (Inr answer, s')"
    using assms(2)
    by (auto simp: local_has_joined_def run_simps lift_aster_Inr split: option.splits if_splits)
  obtain t body req d0 p where e: "(t, body, req, d0) \<in> set log" "legitimate F J (t, body, req, d0) p"
      "now < t + secs 30" "js = new_join_session real_ip p body req"
    using assms(1) js(1) unfolding sessions_ok_def by blast
  have q: "q \<in> set (rows (minecraft_profiles (y_db s)))" "p_id q = p_id p"
    using js(5) by (auto simp: find_profile_by_id_def e(4) new_join_session_def split: option.splits dest: select_one_Some)
  show ?thesis
    unfolding vouched_def
    using e(1-3) q js(2-4,6) profile_with_properties_answer[OF js(7)]
    by (intro bexI[OF _ e(1)]) (auto simp: e(4) new_join_session_def)
qed

text \<open>An answer of an upstream: the upstream is configured, replied with that profile, and a profile of the
  Mojang service belongs to a Microsoft profile bound here.\<close>

definition forwarded :: "upstream_env \<Rightarrow> forward_server list \<Rightarrow> string \<Rightarrow> string \<Rightarrow> string option \<Rightarrow> db \<Rightarrow> ygg_profile \<Rightarrow> bool" where
  "forwarded U servers username server_id ip d answer =
     (\<exists>upstream \<in> set servers. \<exists>profile. fs_provider_kind upstream = ProviderRemote
        \<and> query_forward_server U upstream username server_id ip = Inr (Some profile)
        \<and> yp_id answer = yp_id profile \<and> yp_name answer = yp_name profile
        \<and> (fs_endpoint_kind upstream = MojangSession \<longrightarrow> forwarded_mojang_profile_is_bound profile d))"

text \<open>Rewriting the texture addresses changes neither id nor name.\<close>

definition rewrite_ok :: "upstream_env \<Rightarrow> bool" where
  "rewrite_ok U = (\<forall>up p p'. ue_rewrite U up p = Inr p' \<longrightarrow> yp_id p' = yp_id p \<and> yp_name p' = yp_name p)"

lemma vouched_cong:
  "minecraft_profiles d' = minecraft_profiles d \<Longrightarrow> user_bans d' = user_bans d
   \<Longrightarrow> vouched F J real_ip log now un sid ip d' a = vouched F J real_ip log now un sid ip d a"
  by (simp add: vouched_def is_user_banned_cong[of d' d])

lemma forwarded_cong:
  "minecraft_profiles d' = minecraft_profiles d \<Longrightarrow> forwarded U ss un sid ip d' a = forwarded U ss un sid ip d a"
  by (simp add: forwarded_def forwarded_mojang_profile_is_bound_def find_by_uuid_def)

lemma upstream_origin:
  assumes "cache_lawful C" and "rewrite_ok U" and "sessions_ok C F J real_ip log s"
    and "ask_upstreams C F J E U sr now info username server_id ip upstreams s = (Inr (Some answer), s')"
  shows "vouched F J real_ip log now username server_id ip (y_db s) answer
    \<or> forwarded U upstreams username server_id ip (y_db s) answer"
  using assms(3,4)
proof (induction upstreams arbitrary: s)
  case Nil
  then show ?case by (simp add: ret_def)
next
  case (Cons up ups)
  obtain result s1 where r: "upstream_result C F J E U now up username server_id ip s = (Inr result, s1)"
    using Cons.prems(2) by (auto simp: bnd_Inr)
  have k1: "asked C F s s1"
    using asked_upstream_result[OF assms(1), of F s F J E U now up username server_id ip] r by simp
  have later: ?case
    if k2: "asked C F s s2" and run: "ask_upstreams C F J E U sr now info username server_id ip ups s2 = (Inr (Some answer), s')"
    for s2
  proof -
    have "sessions_ok C F J real_ip log s2"
      using sessions_ok_kept[OF Cons.prems(1)] k2 by (auto simp: asked_def)
    from Cons.IH[OF this run] show ?thesis
      using k2 vouched_cong[of "y_db s2" "y_db s"] forwarded_cong[of "y_db s2" "y_db s"]
      by (auto simp: asked_def forwarded_def)
  qed
  note marks = asked_mark[of C F] asked_forward_check[of C F]
  have mark: "asked C F s s3"
    if "(ygg (on_db (mark_success (fs_id up) now))) s1 = (x, s2) \<or> ygg (on_db (mark_failure (fs_id up) now msg)) s1 = (x, s2)"
      "log_forward_check F sr now info username server_id up res pu er s2 = (y, s3)" for x y s2 s3 res pu er msg
    using asked.trans[OF k1] asked.trans marks(1)[of s1 "fs_id up" now] marks(2)[of s1 "fs_id up" now msg]
      marks(3)[of s2 F sr now info username server_id up res pu er] that by (metis snd_conv)
  show ?case
  proof (cases result)
    case (Inl error)
    then obtain x y s2 s3 where "ygg (on_db (mark_failure (fs_id up) now error)) s1 = (Inr x, s2)"
        "log_forward_check F sr now info username server_id up ''failed'' None (Some error) s2 = (Inr y, s3)"
        "ask_upstreams C F J E U sr now info username server_id ip ups s3 = (Inr (Some answer), s')"
      using Cons.prems(2) r by (simp add: bnd_Inr) blast
    then show ?thesis by (intro later[of s3] mark[of "Inr x" s2]) auto
  next
    case (Inr found)
    show ?thesis
    proof (cases found)
      case None
      then obtain x y s2 s3 where "ygg (on_db (mark_success (fs_id up) now)) s1 = (Inr x, s2)"
          "log_forward_check F sr now info username server_id up ''no_match'' None None s2 = (Inr y, s3)"
          "ask_upstreams C F J E U sr now info username server_id ip ups s3 = (Inr (Some answer), s')"
        using Cons.prems(2) r Inr by (simp add: bnd_Inr) blast
      then show ?thesis by (intro later[of s3] mark[of "Inr x" s2]) auto
    next
      case (Some profile)
      show ?thesis
      proof (cases "requires_bound_microsoft_profile up \<and> \<not> forwarded_mojang_profile_is_bound profile (y_db s1)")
        case True
        then obtain x y s2 s3 where "ygg (on_db (mark_success (fs_id up) now)) s1 = (Inr x, s2)"
            "log_forward_check F sr now info username server_id up ''no_match'' None None s2 = (Inr y, s3)"
            "ask_upstreams C F J E U sr now info username server_id ip ups s3 = (Inr (Some answer), s')"
          using Cons.prems(2) r Inr Some by (auto simp: bnd_Inr query_eq)
        then show ?thesis by (intro later[of s3] mark[of "Inr x" s2]) auto
      next
        case False
        have ans: "yp_id answer = yp_id profile \<and> yp_name answer = yp_name profile"
          using Cons.prems(2) r Inr Some False assms(2)
          by (auto simp: bnd_Inr query_eq ret_eq Let_def rewrite_ok_def split: if_splits sum.splits)
        show ?thesis
        proof (cases "fs_provider_kind up")
          case ProviderLocal
          then have "local_has_joined C F J E now username server_id ip s = (Inr (Some profile), s1)"
            using r Inr Some by (auto simp: upstream_result_def with_message_def split: prod.splits sum.splits)
          from local_answer[OF Cons.prems(1) this] show ?thesis using ans by (simp add: vouched_def)
        next
          case ProviderRemote
          then have "query_forward_server U up username server_id ip = Inr (Some profile)" "s1 = s"
            using r Inr Some by (auto simp: upstream_result_def ret_def)
          then show ?thesis
            using ans False ProviderRemote by (auto simp: forwarded_def requires_bound_microsoft_profile_def)
        qed
      qed
    qed
  qed
qed

lemma enabled_servers_cached:
  assumes "cache_lawful C" and "forward_ok C s" and "enabled_session_forward_servers C now s = (Inr servers, s1)"
    and "up \<in> set servers"
  shows "\<exists>srv \<in> set (rows (forward_servers (y_db s))). routing srv = routing up \<and> fs_enabled srv"
proof -
  have "routing up \<in> set (map routing (list_enabled_ordered (y_db s)))"
    using enabled_servers_effect(3)[OF assms(1-3)] assms(4) by (metis image_eqI list.set_map)
  then show ?thesis by (auto simp: list_enabled_ordered_def order_by_asc_def select_all_def)
qed

lemma has_joined_origin:
  assumes "cache_lawful C" and "rewrite_ok U" and "sessions_ok C F J real_ip log s" and "forward_ok C s"
    and "has_joined C F J E U sr now random_range g username server_id ip info s = (Inr (Some answer), s')"
  shows "vouched F J real_ip log now username server_id ip (y_db s) answer
    \<or> forwarded U (map routing (filter fs_enabled (rows (forward_servers (y_db s))))) username server_id ip (y_db s) answer"
proof -
  obtain servers s1 where sv: "enabled_session_forward_servers C now s = (Inr servers, s1)"
      "(if servers = [] then local_has_joined C F J E now username server_id ip
        else orchestrated_has_joined C F J E U sr now random_range g servers username server_id ip info) s1 = (Inr (Some answer), s')"
    using assms(5) by (auto simp: has_joined_def bnd_Inr)
  have k: "asked C F s s1" using asked_servers[OF assms(1), of F s now] sv(1) by simp
  have ok: "sessions_ok C F J real_ip log s1" using sessions_ok_kept[OF assms(3)] k by (auto simp: asked_def)
  have db: "y_db s1 = y_db s" using enabled_servers_effect(2)[OF assms(1,4) sv(1)] .
  show ?thesis
  proof (cases "servers = []")
    case True
    then show ?thesis using local_answer[OF ok, of E now username server_id ip answer s'] sv(2) by (simp add: db)
  next
    case False
    then have "ask_upstreams C F J E U sr now info username server_id ip
        (fst (weighted_forward_order random_range g servers)) s1 = (Inr (Some answer), s')"
      using sv(2) by (simp add: orchestrated_has_joined_def)
    from upstream_origin[OF assms(1,2) ok this]
    consider "vouched F J real_ip log now username server_id ip (y_db s) answer"
      | up where "up \<in> set (fst (weighted_forward_order random_range g servers))"
          "forwarded U [up] username server_id ip (y_db s) answer"
      by (auto simp: db forwarded_def)
    then show ?thesis
    proof cases
      case (2 up)
      have "sorted (map fs_priority (order_by_asc fs_priority (order_by_asc fs_id servers)))"
        by (simp add: order_by_asc_def)
      then have "mset (fst (weighted_forward_order random_range g servers)) = mset servers"
        using group_loop_order[of "order_by_asc fs_priority (order_by_asc fs_id servers)" random_range g]
        by (simp add: weighted_forward_order_def order_by_asc_def)
      then have "up \<in> set servers" using 2(1) by (metis set_mset_mset)
      then obtain srv where srv: "srv \<in> set (rows (forward_servers (y_db s)))" "routing srv = routing up" "fs_enabled srv"
        using enabled_servers_cached[OF assms(1,4) sv(1)] by blast
      have same: "query_forward_server U (routing srv) un sid i = query_forward_server U up un sid i"
          "fs_provider_kind (routing srv) = fs_provider_kind up" "fs_endpoint_kind (routing srv) = fs_endpoint_kind up" for un sid i
        unfolding srv(2) by (simp_all only: query_forward_server_def routing_fields)
      have "forwarded U [routing srv] username server_id ip (y_db s) answer"
        using 2(2) unfolding forwarded_def by (simp add: same del: routing_fields)
      then show ?thesis using srv(1,3) by (auto simp: forwarded_def)
    qed simp
  qed
qed

section \<open>A sample\<close>

definition steve_join :: join_req where
  "steve_join = \<lparr>jq_access_token = ''a'', jq_selected_profile = ''u1'', jq_server_id = ''srv''\<rparr>"

definition client_request :: http_request where
  "client_request = \<lparr>hr_user_agent = None, hr_peer_ip = Some ''10.0.0.1'', hr_realip = None\<rparr>"

definition plain_properties :: property_env where
  "plain_properties = \<lparr>pe_fingerprint = ''fp'', pe_texture_value = (\<lambda>p d. Inr ''textures''), pe_sign = (\<lambda>v. Inr (Some ''sig'')),
     pe_allow_microsoft_override = False\<rparr>"

definition no_upstream :: upstream_env where
  "no_upstream = \<lparr>ue_ask = (\<lambda>b p q t. SendFailed ''off''), ue_invalid_text = (\<lambda>p. []), ue_rewrite = (\<lambda>u p. Inr p)\<rparr>"

definition joined_site :: "mem_cache ygg_state" where
  "joined_site = snd (join mem_ops plain_forge plain_codec (\<lambda>_. True) id 2000 steve_join client_request bound_token)"

lemma sample_join: "join mem_ops plain_forge plain_codec (\<lambda>_. True) id 2000 steve_join client_request bound_token = (Inr (), joined_site)"
proof -
  have "\<exists>x. join mem_ops plain_forge plain_codec (\<lambda>_. True) id 2000 steve_join client_request bound_token = (Inr x, joined_site)"
    unfolding joined_site_def by (rule run_ok) code_simp
  then show ?thesis by simp
qed

lemma bound_token_no_sessions: "get_join_session mem_ops plain_forge u sid (y_cache bound_token) = None"
proof -
  have "y_cache bound_token = []" by code_simp
  then show ?thesis by (simp add: get_join_session_def mem_ops_def mem_get_def)
qed

lemma joined_site_forward_ok: "forward_ok mem_ops joined_site"
proof -
  have "rows (forward_servers (y_db joined_site)) = []" by code_simp
  moreover have "map_of (y_cache joined_site) session_forward_server_key = None" by code_simp
  ultimately show ?thesis
    by (simp add: forward_ok_def forward_wf_def keys_ok_def urls_unique_def servers_current_def
        get_enabled_session_forward_servers_def mem_ops_def mem_get_def)
qed

section \<open>Properties\<close>

text \<open>C1. Whoever \<open>hasJoined\<close> vouches for has really joined.  Take a site without join sessions and any history of
  joins between arbitrary other operations that make none.  When \<open>hasJoined\<close> names a profile, then
  either a join happened less than 30 seconds ago to the same server, under the asked name and, when an
  address is given, from it, with an access token that was accepted then, bound to the profile it named and
  of an account free to join, and the named profile is still stored and its owner still free to join; or an
  enabled upstream replied with that profile, which for the Mojang service is bound to a Microsoft profile here.\<close>

theorem has_joined_authentic:
  assumes "cache_lawful C" and "rewrite_ok U" and "ygg_wf C s0"
    and "\<And>u sid. get_join_session C F u sid (y_cache s0) = None"
    and "session_steps C F J real_ip s0 log s" and "forward_ok C s"
    and "has_joined C F J E U should_record now random_range g username server_id ip info s = (Inr (Some answer), s')"
  shows "vouched F J real_ip log now username server_id ip (y_db s) answer
    \<or> forwarded U (map routing (filter fs_enabled (rows (forward_servers (y_db s))))) username server_id ip (y_db s) answer"
proof -
  have "sessions_ok C F J real_ip log s" using session_steps_ok[OF assms(5,1,3,4)] by blast
  from has_joined_origin[OF assms(1,2) this assms(6,7)] show ?thesis .
qed

theorem has_joined_authentic_witness:
  "\<exists>answer s'. has_joined mem_ops plain_forge plain_codec plain_properties no_upstream (\<lambda>_. True) 3000 (\<lambda>g n. (0, g)) ()
      ''Steve'' ''srv'' (Some ''10.0.0.1'') \<lparr>ai_ip_address = None, ai_user_agent = None\<rparr> joined_site = (Inr (Some answer), s')
    \<and> vouched plain_forge plain_codec id [(2000, steve_join, client_request, y_db bound_token)] 3000 ''Steve'' ''srv''
        (Some ''10.0.0.1'') (y_db joined_site) answer"
proof -
  let ?h = "has_joined mem_ops plain_forge plain_codec plain_properties no_upstream (\<lambda>_. True) 3000 (\<lambda>g n. (0, g)) ()
      ''Steve'' ''srv'' (Some ''10.0.0.1'') \<lparr>ai_ip_address = None, ai_user_agent = None\<rparr>"
  have "case fst (?h joined_site) of Inr (Some a) \<Rightarrow> True | _ \<Rightarrow> False" by code_simp
  then obtain answer s' where run: "?h joined_site = (Inr (Some answer), s')"
    by (cases "?h joined_site"; cases "fst (?h joined_site)") (auto split: option.splits)
  have "session_steps mem_ops plain_forge plain_codec id bound_token [(2000, steve_join, client_request, y_db bound_token)] joined_site"
    by (rule ses_join[OF ses_start sample_join])
  from has_joined_authentic[OF mem_ops_lawful _ with_profile_wf(2) bound_token_no_sessions this joined_site_forward_ok run]
  have "vouched plain_forge plain_codec id [(2000, steve_join, client_request, y_db bound_token)] 3000 ''Steve'' ''srv''
        (Some ''10.0.0.1'') (y_db joined_site) answer
      \<or> forwarded no_upstream (map routing (filter fs_enabled (rows (forward_servers (y_db joined_site))))) ''Steve'' ''srv'' (Some ''10.0.0.1'')
          (y_db joined_site) answer"
    by (simp add: rewrite_ok_def no_upstream_def)
  moreover have "rows (forward_servers (y_db joined_site)) = []" by code_simp
  ultimately show ?thesis using run by (auto simp: forwarded_def)
qed

end
