(* ===== verification/Token_Store.thy ===== *)
theory Token_Store
  imports Tokens
begin

text \<open>
  The abstract token store: a map from hashes to live tokens.  \<open>token_store\<close> is the contract of a store,
  with what a client may conclude from it; the token table with its cache is shown to implement it.
\<close>

section \<open>The contract\<close>

type_synonym live_map = "string \<Rightarrow> yggdrasil_token option"

definition without_user :: "row_id \<Rightarrow> live_map \<Rightarrow> live_map" where
  "without_user u m h = (case m h of None \<Rightarrow> None | Some r \<Rightarrow> if t_user_id r = u then None else Some r)"

definition without_expired :: "time \<Rightarrow> live_map \<Rightarrow> live_map" where
  "without_expired now m h = (case m h of None \<Rightarrow> None | Some r \<Rightarrow> if t_expires_at r < now then None else Some r)"

locale token_store =
  fixes inv :: "'s \<Rightarrow> bool"
    and live :: "'s \<Rightarrow> live_map"
    and key :: "string \<Rightarrow> string"
    and revoke :: "time \<Rightarrow> string \<Rightarrow> 's \<Rightarrow> 's"
    and revoke_user :: "time \<Rightarrow> row_id \<Rightarrow> 's \<Rightarrow> 's"
    and sweep :: "time \<Rightarrow> 's \<Rightarrow> 's"
  assumes inv_revoke: "inv s \<Longrightarrow> inv (revoke now tok s)"
    and inv_revoke_user: "inv s \<Longrightarrow> inv (revoke_user now u s)"
    and inv_sweep: "inv s \<Longrightarrow> inv (sweep now s)"
    and live_revoke: "inv s \<Longrightarrow> live (revoke now tok s) = (live s)(key tok := None)"
    and live_revoke_user: "inv s \<Longrightarrow> live (revoke_user now u s) = without_user u (live s)"
    and live_sweep: "inv s \<Longrightarrow> live (sweep now s) = without_expired now (live s)"
begin

text \<open>Clients see no order among revocations, and nothing comes back.\<close>

lemma revoke_commutes:
  "inv s \<Longrightarrow> live (revoke now a (revoke now' b s)) = live (revoke now' b (revoke now a s))"
  by (auto simp: live_revoke inv_revoke fun_eq_iff)

lemma revoke_idem: "inv s \<Longrightarrow> live (revoke now a (revoke now' a s)) = live (revoke now' a s)"
  by (simp add: live_revoke inv_revoke)

lemma sweep_commutes:
  "inv s \<Longrightarrow> live (sweep now (revoke now' a s)) = live (revoke now' a (sweep now s))"
  by (auto simp: live_revoke live_sweep inv_revoke inv_sweep without_expired_def fun_eq_iff)

lemma user_gone:
  "inv s \<Longrightarrow> live (revoke_user now u s) h = Some r \<Longrightarrow> t_user_id r \<noteq> u"
  by (auto simp: live_revoke_user without_user_def split: option.splits if_splits)

end

section \<open>The token table implements it\<close>

definition live_tokens :: "toks \<Rightarrow> live_map" where
  "live_tokens t h = select_one (\<lambda>r. t_access_token_hash r = h \<and> t_revoked_at r = None) t"

abbreviation live_of :: "'c ygg_state \<Rightarrow> live_map" where
  "live_of s \<equiv> live_tokens (tokens_of s)"

lemma live_tokens_iff:
  assumes "toks_wf t"
  shows "live_tokens t h = Some r \<longleftrightarrow> r \<in> set (rows t) \<and> t_access_token_hash r = h \<and> t_revoked_at r = None"
proof
  assume "live_tokens t h = Some r"
  then show "r \<in> set (rows t) \<and> t_access_token_hash r = h \<and> t_revoked_at r = None"
    unfolding live_tokens_def by (auto dest: select_one_Some)
next
  assume r: "r \<in> set (rows t) \<and> t_access_token_hash r = h \<and> t_revoked_at r = None"
  then obtain r' where r': "live_tokens t h = Some r'"
    using select_one_None[of "\<lambda>r. t_access_token_hash r = h \<and> t_revoked_at r = None" t] unfolding live_tokens_def by auto
  then have "r' \<in> set (rows t) \<and> t_access_token_hash r' = h" unfolding live_tokens_def by (auto dest: select_one_Some)
  then have "r' = r" using token_hash_inj[OF assms, of r' r] r by simp
  then show "live_tokens t h = Some r" using r' by simp
qed

lemma live_tokens_Some:
  assumes "live_tokens t h = Some r"
  shows "r \<in> set (rows t)" "t_access_token_hash r = h" "t_revoked_at r = None"
  using assms unfolding live_tokens_def by (auto dest: select_one_Some)

lemma live_tokensI:
  assumes "toks_wf t" and "r \<in> set (rows t)" and "t_access_token_hash r = h" and "t_revoked_at r = None"
  shows "live_tokens t h = Some r"
  using live_tokens_iff[OF assms(1), of h r] assms(2-4) by blast

lemma dead_iff_not_live: "dead h t \<longleftrightarrow> live_tokens t h = None"
  unfolding dead_def live_tokens_def select_one_None by auto

lemma find_filter_hd: "find p xs = (case filter p xs of [] \<Rightarrow> None | y # _ \<Rightarrow> Some y)"
  by (induction xs) auto

lemma live_append:
  assumes "toks_wf t'" and "rows t' = rows t @ [x]" and "t_revoked_at x = None"
  shows "live_tokens t' = (live_tokens t)(t_access_token_hash x \<mapsto> x)"
proof
  fix h
  show "live_tokens t' h = ((live_tokens t)(t_access_token_hash x \<mapsto> x)) h"
  proof (cases "h = t_access_token_hash x")
    case True
    then show ?thesis using live_tokensI[OF assms(1), of x h] assms(2,3) by simp
  next
    case False
    then have "filter (\<lambda>r. t_access_token_hash r = h \<and> t_revoked_at r = None) (rows t @ [x])
        = filter (\<lambda>r. t_access_token_hash r = h \<and> t_revoked_at r = None) (rows t)" by simp
    with False show ?thesis unfolding live_tokens_def select_one_def assms(2) by (simp add: find_filter_hd)
  qed
qed

text \<open>A table whose live rows are the live rows of another that satisfy a condition.\<close>

lemma live_filtered:
  assumes "toks_wf t" and "toks_wf t'"
    and "\<And>r. t_revoked_at r = None \<Longrightarrow> r \<in> set (rows t') \<longleftrightarrow> r \<in> set (rows t) \<and> keep r"
  shows "live_tokens t' h = (case live_tokens t h of None \<Rightarrow> None | Some r \<Rightarrow> if keep r then Some r else None)"
proof (cases "live_tokens t h")
  case None
  have "live_tokens t' h = None"
  proof (rule ccontr)
    assume "live_tokens t' h \<noteq> None"
    then obtain x where x: "live_tokens t' h = Some x" by blast
    note row = live_tokens_Some[OF x]
    then have "live_tokens t h = Some x" using assms(3)[OF row(3)] live_tokensI[OF assms(1)] by blast
    with None show False by simp
  qed
  with None show ?thesis by simp
next
  case (Some r)
  note row = live_tokens_Some[OF Some]
  show ?thesis
  proof (cases "live_tokens t' h")
    case None
    then have "\<not> keep r" using assms(3)[OF row(3)] row live_tokensI[OF assms(2), of r h] by auto
    with None Some show ?thesis by simp
  next
    case (Some x)
    note row' = live_tokens_Some[OF this]
    then have "live_tokens t h = Some x" "keep x" using assms(3)[OF row'(3)] live_tokensI[OF assms(1)] by blast+
    with Some show ?thesis by simp
  qed
qed

lemma revoke_ids_live:
  "t_revoked_at r = None \<Longrightarrow> r \<in> set (rows (revoke_ids now I t)) \<longleftrightarrow> r \<in> set (rows t) \<and> t_id r \<notin> I"
  by (auto simp: revoke_ids_def split: if_splits)

lemma live_revoke_hash:
  assumes "toks_wf t" and "revoke_by_access_hash F now h t = (Inr b, t')"
  shows "live_tokens t' = (live_tokens t)(h := None)" and "b \<longleftrightarrow> live_tokens t h \<noteq> None"
proof -
  have wf: "toks_wf t'" by (rule revoke_hash_effect(1)[OF assms])
  have "r \<in> set (rows t') \<longleftrightarrow> r \<in> set (rows t) \<and> t_access_token_hash r \<noteq> h" if "t_revoked_at r = None" for r
    using assms
  proof (cases rule: revoke_hash_cases)
    case (hit tk)
    then show ?thesis
      using revoke_ids_live[OF that] token_id_inj[OF assms(1), of r tk] token_hash_inj[OF assms(1), of r tk] by auto
  next
    case miss
    then show ?thesis using that by (auto simp: dead_def)
  qed
  note live = live_filtered[OF assms(1) wf this]
  show "live_tokens t' = (live_tokens t)(h := None)"
  proof
    fix h'
    show "live_tokens t' h' = ((live_tokens t)(h := None)) h'"
    proof (cases "live_tokens t h'")
      case None
      then show ?thesis using live[of h'] by simp
    next
      case (Some r)
      then show ?thesis using live[of h'] live_tokens_Some(2)[OF Some] by simp
    qed
  qed
  have "b \<longleftrightarrow> \<not> dead h t" by (rule revoke_hash_effect(6)[OF assms])
  also have "\<dots> \<longleftrightarrow> live_tokens t h \<noteq> None" by (simp add: dead_iff_not_live)
  finally show "b \<longleftrightarrow> live_tokens t h \<noteq> None" .
qed

text \<open>Rows are the same by id and by hash.\<close>

lemma id_or_hash:
  assumes "toks_wf t" and "r \<in> set (rows t)" and "D \<subseteq> set (rows t)"
  shows "t_id r \<in> t_id ` D \<longleftrightarrow> t_access_token_hash r \<in> t_access_token_hash ` D"
proof -
  have "inj_on t_id (set (rows t))" "inj_on t_access_token_hash (set (rows t))"
    using assms(1) by (simp_all add: toks_wf_def keys_ok_def distinct_map)
  then show ?thesis using inj_on_image_mem_iff assms(2,3) by metis
qed

lemma live_issue:
  assumes "toks_wf t"
    and "issue_token_in_connection F policy now tok u client sel ua ip t = (Inr (iss, pruned), t')"
  shows "\<exists>n. live_tokens t' = ((live_tokens t)(sha256_hex F tok \<mapsto>
        new_token F now (now + days n) tok u client sel ua ip (next_id t))) |` (- set pruned)
      \<and> u64_to_i64 F (pol_token_ttl_days policy) ''yggdrasil token ttl days'' = Inr n
      \<and> iss = \<lparr>is_token_id = next_id t, is_access_token = tok\<rparr>"
    and "h \<in> set pruned \<Longrightarrow> \<exists>r. ((live_tokens t)(sha256_hex F tok \<mapsto>
        new_token F now e tok u client sel ua ip (next_id t))) h = Some r \<and> t_user_id r = u"
proof -
  obtain n k t1 where run: "u64_to_i64 F (pol_token_ttl_days policy) ''yggdrasil token ttl days'' = Inr n"
      "\<forall>r \<in> set (rows t). t_access_token_hash r \<noteq> sha256_hex F tok"
      "t1 = t\<lparr>rows := rows t @ [new_token F now (now + days n) tok u client sel ua ip (next_id t)],
            next_id := next_id t + 1\<rparr>"
      "iss = \<lparr>is_token_id = next_id t, is_access_token = tok\<rparr>"
      "pruned = map t_access_token_hash (drop k (tokens_newest_first u t1))"
      "t' = revoke_ids now (t_id ` set (drop k (tokens_newest_first u t1))) t1"
    using issue_in_connection_run[OF assms(2)] by blast
  let ?new = "new_token F now (now + days n) tok u client sel ua ip (next_id t)"
  have keys: "\<forall>r \<in> set (rows t). t_id r < next_id t" using assms(1) by (simp add: toks_wf_def keys_ok_def)
  have wf1: "toks_wf t1"
    using assms(1) run(2) keys unfolding run(3) toks_wf_def keys_ok_def by fastforce
  have wf': "toks_wf t'" by (rule issue_effect(1)[OF assms])
  have live1: "live_tokens t1 = (live_tokens t)(sha256_hex F tok \<mapsto> ?new)"
    using live_append[OF wf1, of t ?new] by (simp add: run(3))
  have dropped: "r \<in> set (tokens_newest_first u t1)" if "r \<in> set (drop k (tokens_newest_first u t1))" for r
    using that by (rule in_set_dropD)
  have "r \<in> set (rows t') \<longleftrightarrow> r \<in> set (rows t1) \<and> t_access_token_hash r \<notin> set pruned" if "t_revoked_at r = None" for r
  proof -
    have "t_id r \<in> t_id ` set (drop k (tokens_newest_first u t1)) \<longleftrightarrow> t_access_token_hash r \<in> set pruned"
      if "r \<in> set (rows t1)"
      unfolding run(5) set_map
      by (rule id_or_hash[OF wf1 that]) (use dropped tokens_newest_first_set[of u t1] in blast)
    then show ?thesis using revoke_ids_live[OF that] run(6) by blast
  qed
  note live' = live_filtered[OF wf1 wf' this]
  have "live_tokens t' h = (((live_tokens t)(sha256_hex F tok \<mapsto> ?new)) |` (- set pruned)) h" for h
  proof (cases "live_tokens t1 h")
    case None
    then show ?thesis using live'[of h] by (simp add: live1[symmetric] restrict_map_def)
  next
    case (Some r)
    then show ?thesis using live'[of h] live_tokens_Some(2)[OF Some] by (simp add: live1[symmetric] restrict_map_def)
  qed
  then have "live_tokens t' = ((live_tokens t)(sha256_hex F tok \<mapsto> ?new)) |` (- set pruned)" by blast
  then show "\<exists>n. live_tokens t' = ((live_tokens t)(sha256_hex F tok \<mapsto>
        new_token F now (now + days n) tok u client sel ua ip (next_id t))) |` (- set pruned)
      \<and> u64_to_i64 F (pol_token_ttl_days policy) ''yggdrasil token ttl days'' = Inr n
      \<and> iss = \<lparr>is_token_id = next_id t, is_access_token = tok\<rparr>"
    using run(1,4) by blast
  show "\<exists>r. ((live_tokens t)(sha256_hex F tok \<mapsto> new_token F now e tok u client sel ua ip (next_id t))) h = Some r \<and> t_user_id r = u"
    if h: "h \<in> set pruned"
  proof -
    obtain x where x: "x \<in> set (rows t1)" "t_access_token_hash x = h" "t_user_id x = u" "t_revoked_at x = None"
      using h dropped tokens_newest_first_set[of u t1] unfolding run(5) by auto
    then have "((live_tokens t)(sha256_hex F tok \<mapsto> ?new)) h = Some x"
      using live_tokens_iff[OF wf1, of h x] live1 by simp
    then show ?thesis using x(3) by (auto split: if_splits)
  qed
qed

lemma live_revoke_user_rows:
  assumes "toks_wf t" and "toks_wf t'"
    and "rows t' = map (\<lambda>r. if t_user_id r = u \<and> t_revoked_at r = None then revoke_row now r else r) (rows t)"
  shows "live_tokens t' = without_user u (live_tokens t)"
proof
  fix h
  have "r \<in> set (rows t') \<longleftrightarrow> r \<in> set (rows t) \<and> t_user_id r \<noteq> u" if "t_revoked_at r = None" for r
    using that by (auto simp: assms(3) revoke_row_def image_iff split: if_splits)
  from live_filtered[OF assms(1,2) this, of h] show "live_tokens t' h = without_user u (live_tokens t) h"
    by (auto simp: without_user_def split: option.splits)
qed

lemma live_sweep_rows:
  assumes "toks_wf t" and "toks_wf t'"
    and "rows t' = filter (\<lambda>r. \<not> (t_expires_at r < now \<or> t_revoked_at r \<noteq> None)) (rows t)"
  shows "live_tokens t' = without_expired now (live_tokens t)"
proof
  fix h
  have "r \<in> set (rows t') \<longleftrightarrow> r \<in> set (rows t) \<and> \<not> t_expires_at r < now" if "t_revoked_at r = None" for r
    using that by (auto simp: assms(3))
  from live_filtered[OF assms(1,2) this, of h] show "live_tokens t' h = without_expired now (live_tokens t) h"
    by (auto simp: without_expired_def split: option.splits)
qed

lemma safe_wf: "tok_safe C h s s' \<Longrightarrow> ygg_wf C s \<Longrightarrow> ygg_wf C s'"
  by (simp add: tok_safe_def)

lemma ygg_wf_toks: "ygg_wf C s \<Longrightarrow> toks_wf (tokens_of s)"
  by (simp add: ygg_wf_def)

interpretation table_store: token_store "\<lambda>s. cache_lawful C \<and> ygg_wf C s" live_of "sha256_hex F"
    "\<lambda>now tok s. snd (revoke_by_access_token C F now tok s)"
    "\<lambda>now u s. snd (revoke_all_for_user C now u s)"
    "\<lambda>now s. snd (cleanup_expired_or_revoked_tokens C now s)" for C F
proof
  fix s :: "'a ygg_state" and now tok u
  assume inv: "cache_lawful C \<and> ygg_wf C s"
  then have C: "cache_lawful C" and wf: "ygg_wf C s" by blast+
  let ?r = "snd (revoke_by_access_token C F now tok s)" and ?u = "snd (revoke_all_for_user C now u s)"
    and ?c = "snd (cleanup_expired_or_revoked_tokens C now s)"
  have wf': "ygg_wf C ?r" "ygg_wf C ?u" "ygg_wf C ?c"
    by (rule safe_wf[OF revoke_token_safe[OF C] wf] safe_wf[OF revoke_all_safe[OF C] wf] safe_wf[OF cleanup_safe[OF C] wf])+
  show "cache_lawful C \<and> ygg_wf C ?r" "cache_lawful C \<and> ygg_wf C ?u" "cache_lawful C \<and> ygg_wf C ?c"
    using C wf' by blast+
  obtain b t where "revoke_by_access_hash F now (sha256_hex F tok) (tokens_of s) = (Inr b, t)" "tokens_of ?r = t"
    using revoke_by_access_token_run[of F now tok s C] by auto
  then show "live_of ?r = (live_of s)(sha256_hex F tok := None)"
    using live_revoke_hash(1)[OF ygg_wf_toks[OF wf]] by simp
  show "live_of ?u = without_user u (live_of s)"
    by (rule live_revoke_user_rows[OF ygg_wf_toks[OF wf] ygg_wf_toks[OF wf'(2)], where now = now])
      (use revoke_all_for_user_run[of C now u s] in auto)
  show "live_of ?c = without_expired now (live_of s)"
    by (rule live_sweep_rows[OF ygg_wf_toks[OF wf] ygg_wf_toks[OF wf'(3)]]) (simp add: cleanup_run)
qed

text \<open>Issuing and refreshing as map updates.\<close>

definition issued_in :: "live_map \<Rightarrow> string \<Rightarrow> row_id \<Rightarrow> yggdrasil_token \<Rightarrow> live_map \<Rightarrow> bool" where
  "issued_in m h u tk m' =
     (\<exists>P. m' = (m(h \<mapsto> tk)) |` (- P) \<and> (\<forall>k \<in> P. \<exists>r. (m(h \<mapsto> tk)) k = Some r \<and> t_user_id r = u))"

lemma issue_refines:
  assumes "toks_wf t"
    and "issue_token_in_connection F policy now tok u client sel ua ip t = (Inr (iss, pruned), t')"
  shows "\<exists>e. issued_in (live_tokens t) (sha256_hex F tok) u
      (new_token F now e tok u client sel ua ip (is_token_id iss)) (live_tokens t')"
proof -
  obtain n where "live_tokens t' = ((live_tokens t)(sha256_hex F tok \<mapsto>
        new_token F now (now + days n) tok u client sel ua ip (next_id t))) |` (- set pruned)"
      "is_token_id iss = next_id t"
    using live_issue(1)[OF assms] by auto
  moreover have "\<exists>r. ((live_tokens t)(sha256_hex F tok \<mapsto>
        new_token F now (now + days n) tok u client sel ua ip (next_id t))) k = Some r \<and> t_user_id r = u"
    if "k \<in> set pruned" for k
    by (rule live_issue(2)[OF assms that])
  ultimately show ?thesis unfolding issued_in_def by metis
qed

lemma check_by_live:
  assumes "cache_lawful C" and "ygg_wf C s"
  shows "fst (token_for_operation C F J now tok client allow s) =
     (case live_of s (sha256_hex F tok) of
        None \<Rightarrow> Inl (ygg_error InvalidToken)
      | Some tk \<Rightarrow> if token_accepted J (y_db s) now client allow tk then Inr tk else Inl (ygg_error InvalidToken))"
proof (cases "live_of s (sha256_hex F tok)")
  case None
  then show ?thesis using dead_rejected[OF assms] by (simp add: dead_iff_not_live)
next
  case (Some tk)
  have "find_by_access_hash (sha256_hex F tok) (tokens_of s) = Some tk"
    using find_by_hash_unique[of "tokens_of s" tk] live_tokens_Some[OF Some] ygg_wf_toks[OF assms(2)] by simp
  with Some show ?thesis using token_acceptance_fst[OF assms] by simp
qed



end
