(* ===== verification/User_Info.thy ===== *)
theory User_Info
  imports Ygg_Auth
begin

text \<open>
  What the account API shows of a user: \<open>profile_service/info.rs\<close>, \<open>profile_service/profile.rs\<close>, the
  operator scopes of \<open>user_operator_scope_repo.rs\<close> and \<open>AuthUserInfo\<close> of \<open>auth_service.rs\<close>.
  \<open>aster_forge_utils::avatar::gravatar_url\<close> with the configured base URL is the argument \<open>gravatar\<close>.
\<close>

section \<open>Operator scopes\<close>

definition list_scopes_for_user :: "row_id \<Rightarrow> db \<Rightarrow> operator_scope list" where
  "list_scopes_for_user user_id d =
     map os_scope (sort_key (\<lambda>r. operator_scope_value (os_scope r))
       (select_all (\<lambda>r. os_user_id r = user_id) (user_operator_scopes d)))"

text \<open>\<open>derive(Ord)\<close> orders the variants as they are declared; a \<open>BTreeSet\<close> is iterated in that order.\<close>

definition all_operator_scopes :: "operator_scope list" where
  "all_operator_scopes = [ScopeOverview, ScopeUsers, ScopeProfiles, ScopeTextureLibrary, ScopeAudit, ScopeTasks,
     ScopeSettings, ScopeExternalAuth]"

definition unique_scopes :: "operator_scope list \<Rightarrow> operator_scope list" where
  "unique_scopes scopes = filter (\<lambda>s. s \<in> set scopes) all_operator_scopes"

text \<open>The pair of user and scope is unique.\<close>

definition insert_scope :: "forge \<Rightarrow> time \<Rightarrow> row_id \<Rightarrow> operator_scope \<Rightarrow> (db, aster_error, unit) handler" where
  "insert_scope F now user_id scope = statement (\<lambda>d.
     if \<exists>r \<in> set (rows (user_operator_scopes d)). os_user_id r = user_id \<and> os_scope r = scope
     then Inl (DatabaseOperation (db_err_text F UniqueViolation))
     else let (_, t) = insert_row (\<lambda>i. \<lparr>os_id = i, os_user_id = user_id, os_scope = scope, os_created_at = now\<rparr>)
                         (user_operator_scopes d)
          in Inr ((), d\<lparr>user_operator_scopes := t\<rparr>))"

fun insert_scopes :: "forge \<Rightarrow> time \<Rightarrow> row_id \<Rightarrow> operator_scope list \<Rightarrow> (db, aster_error, unit) handler" where
  "insert_scopes F now user_id [] = ret ()"
| "insert_scopes F now user_id (scope # scopes) =
     bnd (insert_scope F now user_id scope) (\<lambda>_. insert_scopes F now user_id scopes)"

definition replace_scopes_for_user ::
    "forge \<Rightarrow> time \<Rightarrow> row_id \<Rightarrow> operator_scope list \<Rightarrow> (db, aster_error, unit) handler" where
  "replace_scopes_for_user F now user_id scopes =
     bnd (modify (\<lambda>d. d\<lparr>user_operator_scopes := snd (delete_many (\<lambda>r. os_user_id r = user_id) (user_operator_scopes d))\<rparr>)) (\<lambda>_.
     insert_scopes F now user_id (unique_scopes scopes))"

section \<open>Profiles of users\<close>

datatype avatar_audience = SelfUser | AdminUser

record avatar_info =
  av_source :: avatar_source
  av_url_512 :: "string option"
  av_url_1024 :: "string option"
  av_version :: int

record user_profile_info =
  pi_display_name :: "string option"
  pi_avatar :: avatar_info

definition find_profile_of_user :: "row_id \<Rightarrow> db \<Rightarrow> user_profile option" where
  "find_profile_of_user user_id d = select_one (\<lambda>p. up_user_id p = user_id) (user_profiles d)"

definition stored_avatar_prefix :: "user_profile option \<Rightarrow> string option" where
  "stored_avatar_prefix profile =
     (case Option.bind profile up_avatar_key of
        None \<Rightarrow> None
      | Some key \<Rightarrow> (if trim key = [] then None else Some (trim key)))"

definition avatar_api_path :: "row_id \<Rightarrow> int \<Rightarrow> nat \<Rightarrow> avatar_audience \<Rightarrow> string" where
  "avatar_api_path user_id version size_px audience =
     (case audience of
        SelfUser \<Rightarrow> ''/auth/profile/avatar/'' @ show_nat size_px @ ''?v='' @ show_int version
      | AdminUser \<Rightarrow> ''/admin/avatars/users/'' @ show_int user_id @ ''/'' @ show_nat size_px @ ''?v='' @ show_int version)"

definition build_avatar_info ::
    "(string \<Rightarrow> nat \<Rightarrow> string) \<Rightarrow> user \<Rightarrow> user_profile option \<Rightarrow> avatar_audience \<Rightarrow> avatar_info" where
  "build_avatar_info gravatar u profile audience =
     (let source = (case profile of None \<Rightarrow> AvatarNone | Some p \<Rightarrow> up_avatar_source p);
          version = (case profile of None \<Rightarrow> 0 | Some p \<Rightarrow> up_avatar_version p);
          none = \<lparr>av_source = AvatarNone, av_url_512 = None, av_url_1024 = None, av_version = version\<rparr>
      in case source of
           AvatarNone \<Rightarrow> none
         | AvatarGravatar \<Rightarrow>
             (case u_email u of
                Some email \<Rightarrow> \<lparr>av_source = source, av_url_512 = Some (gravatar email 512),
                               av_url_1024 = Some (gravatar email 1024), av_version = version\<rparr>
              | None \<Rightarrow> none)
         | AvatarUpload \<Rightarrow>
             (if stored_avatar_prefix profile \<noteq> None
              then \<lparr>av_source = source, av_url_512 = Some (avatar_api_path (u_id u) version 512 audience),
                    av_url_1024 = Some (avatar_api_path (u_id u) version 1024 audience), av_version = version\<rparr>
              else \<lparr>av_source = source, av_url_512 = None, av_url_1024 = None, av_version = version\<rparr>))"

definition build_profile_info ::
    "(string \<Rightarrow> nat \<Rightarrow> string) \<Rightarrow> user \<Rightarrow> user_profile option \<Rightarrow> avatar_audience \<Rightarrow> user_profile_info" where
  "build_profile_info gravatar u profile audience =
     \<lparr>pi_display_name = Option.bind profile up_display_name,
      pi_avatar = build_avatar_info gravatar u profile audience\<rparr>"

definition get_profile_info ::
    "(string \<Rightarrow> nat \<Rightarrow> string) \<Rightarrow> user \<Rightarrow> avatar_audience \<Rightarrow> db \<Rightarrow> user_profile_info" where
  "get_profile_info gravatar u audience d = build_profile_info gravatar u (find_profile_of_user (u_id u) d) audience"

definition normalize_user_display_name :: "forge \<Rightarrow> string \<Rightarrow> string option result" where
  "normalize_user_display_name F value =
     (if trim value = [] then Inr None
      else if char_count F (trim value) > 64 then Inl (ValidationError ''display name must be 64 characters or fewer'')
      else Inr (Some (trim value)))"

definition default_profile_active_model :: "row_id \<Rightarrow> time \<Rightarrow> user_profile" where
  "default_profile_active_model user_id now =
     \<lparr>up_user_id = user_id, up_display_name = None, up_avatar_source = AvatarNone, up_avatar_key = None,
      up_avatar_version = 0, up_created_at = now, up_updated_at = now\<rparr>"

definition user_profile_create :: "forge \<Rightarrow> user_profile \<Rightarrow> (db, aster_error, user_profile) handler" where
  "user_profile_create F p = statement (\<lambda>d.
     if \<exists>q \<in> set (rows (user_profiles d)). up_user_id q = up_user_id p
     then Inl (DatabaseOperation (db_err_text F UniqueViolation))
     else Inr (p, d\<lparr>user_profiles := (user_profiles d)\<lparr>rows := rows (user_profiles d) @ [p]\<rparr>\<rparr>))"

definition user_profile_update ::
    "forge \<Rightarrow> row_id \<Rightarrow> (user_profile \<Rightarrow> user_profile) \<Rightarrow> (db, aster_error, user_profile) handler" where
  "user_profile_update F user_id f = statement (\<lambda>d.
     case update_by_key F up_user_id user_id f (user_profiles d) of
       Inl e \<Rightarrow> Inl e
     | Inr (p, t) \<Rightarrow> Inr (p, d\<lparr>user_profiles := t\<rparr>))"

definition update_user_profile ::
    "forge \<Rightarrow> (string \<Rightarrow> nat \<Rightarrow> string) \<Rightarrow> time \<Rightarrow> row_id \<Rightarrow> string option \<Rightarrow> (db, aster_error, user_profile_info) handler" where
  "update_user_profile F gravatar now user_id display_name =
     bnd (query (find_user_by_id user_id)) (\<lambda>u.
     bnd (query (\<lambda>d. Inr (find_profile_of_user user_id d))) (\<lambda>existing.
     case display_name of
       None \<Rightarrow> ret (build_profile_info gravatar u existing SelfUser)
     | Some name \<Rightarrow>
         bnd (check (normalize_user_display_name F name)) (\<lambda>normalized.
         case existing of
           Some current \<Rightarrow>
             if up_display_name current = normalized then ret (build_profile_info gravatar u (Some current) SelfUser)
             else bnd (user_profile_update F user_id (\<lambda>p. p\<lparr>up_display_name := normalized, up_updated_at := now\<rparr>))
                    (\<lambda>saved. ret (build_profile_info gravatar u (Some saved) SelfUser))
         | None \<Rightarrow>
             if normalized = None then ret (build_profile_info gravatar u None SelfUser)
             else bnd (user_profile_create F ((default_profile_active_model user_id now)\<lparr>up_display_name := normalized\<rparr>))
                    (\<lambda>saved. ret (build_profile_info gravatar u (Some saved) SelfUser)))))"

section \<open>AuthUserInfo\<close>

record auth_user_info =
  ui_id :: row_id
  ui_username :: string
  ui_email :: "string option"
  ui_email_verified :: bool
  ui_pending_email :: "string option"
  ui_role :: user_role
  ui_operator_scopes :: "operator_scope list"
  ui_status :: user_status
  ui_must_change_password :: bool
  ui_profile :: user_profile_info

definition default_user_profile_info :: user_profile_info where
  "default_user_profile_info =
     \<lparr>pi_display_name = None,
      pi_avatar = \<lparr>av_source = AvatarNone, av_url_512 = None, av_url_1024 = None, av_version = 0\<rparr>\<rparr>"

definition auth_user_info_from :: "user \<Rightarrow> auth_user_info" where
  "auth_user_info_from u =
     \<lparr>ui_id = u_id u, ui_username = u_username u, ui_email = u_email u,
      ui_email_verified = (u_email_verified_at u \<noteq> None), ui_pending_email = u_pending_email u,
      ui_role = u_role u, ui_operator_scopes = [], ui_status = u_status u,
      ui_must_change_password = u_must_change_password u, ui_profile = default_user_profile_info\<rparr>"

definition auth_user_operator_scopes :: "user \<Rightarrow> db \<Rightarrow> operator_scope list" where
  "auth_user_operator_scopes u d = (if u_role u \<noteq> RoleOperator then [] else list_scopes_for_user (u_id u) d)"

definition auth_user_info_of :: "(string \<Rightarrow> nat \<Rightarrow> string) \<Rightarrow> user \<Rightarrow> db \<Rightarrow> auth_user_info" where
  "auth_user_info_of gravatar u d =
     (auth_user_info_from u)\<lparr>ui_operator_scopes := auth_user_operator_scopes u d,
        ui_profile := get_profile_info gravatar u SelfUser d\<rparr>"

definition auth_request_user_info :: "user \<Rightarrow> db \<Rightarrow> auth_user_info" where
  "auth_request_user_info u d = (auth_user_info_from u)\<lparr>ui_operator_scopes := auth_user_operator_scopes u d\<rparr>"

section \<open>Lemmas\<close>

lemma unique_scopes_set [simp]: "set (unique_scopes scopes) = set scopes"
proof -
  have "s \<in> set all_operator_scopes" for s by (cases s) (simp_all add: all_operator_scopes_def)
  then show ?thesis by (auto simp: unique_scopes_def)
qed

lemma unique_scopes_distinct [simp]: "distinct (unique_scopes scopes)"
  by (simp add: unique_scopes_def all_operator_scopes_def)

lemma insert_scopes_run:
  assumes "distinct scopes" and "\<forall>r \<in> set (rows (user_operator_scopes d)). os_user_id r = u \<longrightarrow> os_scope r \<notin> set scopes"
  shows "\<exists>rs n. insert_scopes F now u scopes d =
      (Inr (), d\<lparr>user_operator_scopes := \<lparr>rows = rows (user_operator_scopes d) @ rs, next_id = n\<rparr>\<rparr>)
    \<and> map os_scope rs = scopes \<and> (\<forall>r \<in> set rs. os_user_id r = u)"
  using assms
proof (induction scopes arbitrary: d)
  case Nil
  show ?case by (rule exI[of _ "[]"], rule exI[of _ "next_id (user_operator_scopes d)"]) (simp add: ret_def)
next
  case (Cons s scopes)
  let ?r = "\<lparr>os_id = next_id (user_operator_scopes d), os_user_id = u, os_scope = s, os_created_at = now\<rparr>"
  let ?d = "d\<lparr>user_operator_scopes := \<lparr>rows = rows (user_operator_scopes d) @ [?r], next_id = next_id (user_operator_scopes d) + 1\<rparr>\<rparr>"
  have step: "insert_scope F now u s d = (Inr (), ?d)"
    using Cons.prems(2) by (simp add: insert_scope_def statement_def insert_row_def Let_def)
  obtain rs n where rs: "insert_scopes F now u scopes ?d =
      (Inr (), ?d\<lparr>user_operator_scopes := \<lparr>rows = rows (user_operator_scopes ?d) @ rs, next_id = n\<rparr>\<rparr>)"
      "map os_scope rs = scopes" "\<forall>r \<in> set rs. os_user_id r = u"
    using Cons.IH[of ?d] Cons.prems by auto
  show ?case
    by (rule exI[of _ "?r # rs"], rule exI[of _ n]) (simp add: bnd_def step rs)
qed

text \<open>Replacing the scopes of an operator stores exactly the given set and leaves other operators alone.\<close>

lemma replace_scopes_effect:
  assumes "replace_scopes_for_user F now u scopes d = (res, d')"
  shows "res = Inr () \<and> set (list_scopes_for_user u d') = set scopes \<and> length (list_scopes_for_user u d') = card (set scopes)
    \<and> (\<forall>v. v \<noteq> u \<longrightarrow> list_scopes_for_user v d' = list_scopes_for_user v d)"
proof -
  let ?d = "d\<lparr>user_operator_scopes := snd (delete_many (\<lambda>r. os_user_id r = u) (user_operator_scopes d))\<rparr>"
  have "\<forall>r \<in> set (rows (user_operator_scopes ?d)). os_user_id r = u \<longrightarrow> os_scope r \<notin> set (unique_scopes scopes)"
    by (simp add: delete_many_def)
  from insert_scopes_run[OF unique_scopes_distinct this, of F now] obtain rs n where run:
      "insert_scopes F now u (unique_scopes scopes) ?d =
        (Inr (), ?d\<lparr>user_operator_scopes := \<lparr>rows = rows (user_operator_scopes ?d) @ rs, next_id = n\<rparr>\<rparr>)"
      "map os_scope rs = unique_scopes scopes" "\<forall>r \<in> set rs. os_user_id r = u" by blast
  have d': "res = Inr ()" "rows (user_operator_scopes d') = filter (\<lambda>r. os_user_id r \<noteq> u) (rows (user_operator_scopes d)) @ rs"
    using assms run(1) by (auto simp: replace_scopes_for_user_def bnd_def modify_def delete_many_def)
  have mine: "filter (\<lambda>r. os_user_id r = u) (rows (user_operator_scopes d')) = rs"
    using run(3) by (simp add: d'(2) filter_id_conv)
  have own: "set (map os_scope rs) = set scopes" "length rs = card (set scopes)"
    using run(2) unique_scopes_set unique_scopes_distinct distinct_card length_map by metis+
  have other: "filter (\<lambda>r. os_user_id r = v) (rows (user_operator_scopes d')) = filter (\<lambda>r. os_user_id r = v) (rows (user_operator_scopes d))"
    if "v \<noteq> u" for v
  proof -
    have "filter (\<lambda>r. os_user_id r = v) rs = []" using run(3) that by (auto simp: filter_empty_conv)
    moreover have "filter (\<lambda>r. os_user_id r = v) (filter (\<lambda>r. os_user_id r \<noteq> u) xs) = filter (\<lambda>r. os_user_id r = v) xs" for xs
      using that by (induction xs) auto
    ultimately show ?thesis by (simp only: d'(2) filter_append append_Nil2)
  qed
  have "set (list_scopes_for_user u d') = set scopes" "length (list_scopes_for_user u d') = card (set scopes)"
    using own by (simp_all add: list_scopes_for_user_def select_all_def mine)
  moreover have "list_scopes_for_user v d' = list_scopes_for_user v d" if "v \<noteq> u" for v
    unfolding list_scopes_for_user_def select_all_def other[OF that] ..
  ultimately show ?thesis using d'(1) by blast
qed

end
