(* ===== verification/Sessions.thy ===== *)
theory Sessions
  imports User_Info "HOL-Library.Countable"
begin

text \<open>
  Web sessions: \<open>db/repository/auth_session_repo.rs\<close>, the JWT handling, login, refresh-token rotation,
  logout and session administration of \<open>auth_service.rs\<close>, and \<open>auth_service/password_change.rs\<close>.
  \<open>jsonwebtoken\<close> with the configured secret is an argument, as are fresh UUIDs.
\<close>

section \<open>Repository\<close>

text \<open>The primary key and \<open>current_refresh_jti\<close> are unique.\<close>

definition session_repo_create :: "forge \<Rightarrow> auth_session \<Rightarrow> (db, aster_error, auth_session) handler" where
  "session_repo_create F model = statement (\<lambda>d.
     if \<exists>r \<in> set (rows (auth_sessions d)). s_id r = s_id model \<or> s_current_refresh_jti r = s_current_refresh_jti model
     then Inl (DatabaseOperation (db_err_text F UniqueViolation))
     else Inr (model, d\<lparr>auth_sessions := (auth_sessions d)\<lparr>rows := rows (auth_sessions d) @ [model]\<rparr>\<rparr>))"

definition find_by_refresh_jti :: "string \<Rightarrow> db \<Rightarrow> auth_session option" where
  "find_by_refresh_jti jti d = select_one (\<lambda>s. s_current_refresh_jti s = jti) (auth_sessions d)"

definition find_by_previous_refresh_jti :: "string \<Rightarrow> db \<Rightarrow> auth_session option" where
  "find_by_previous_refresh_jti jti d = select_one (\<lambda>s. s_previous_refresh_jti s = Some jti) (auth_sessions d)"

definition list_sessions_by_user :: "row_id \<Rightarrow> db \<Rightarrow> auth_session list" where
  "list_sessions_by_user user_id d =
     order_by_desc s_last_seen_at (select_all (\<lambda>s. s_user_id s = user_id) (auth_sessions d))"

definition session_active :: "time \<Rightarrow> auth_session \<Rightarrow> bool" where
  "session_active now s = (s_revoked_at s = None \<and> s_refresh_expires_at s > now)"

definition list_active_sessions_for_user :: "time \<Rightarrow> row_id \<Rightarrow> db \<Rightarrow> auth_session list" where
  "list_active_sessions_for_user now user_id d =
     order_by_desc s_last_seen_at (select_all (\<lambda>s. s_user_id s = user_id \<and> session_active now s) (auth_sessions d))"

definition count_active_sessions :: "time \<Rightarrow> db \<Rightarrow> nat" where
  "count_active_sessions now d = count_rows (session_active now) (auth_sessions d)"

definition find_session_by_id_for_user :: "row_id \<Rightarrow> string \<Rightarrow> db \<Rightarrow> auth_session option" where
  "find_session_by_id_for_user user_id i d =
     select_one (\<lambda>s. s_user_id s = user_id \<and> s_id s = i) (auth_sessions d)"

text \<open>An update that would give two rows the same \<open>current_refresh_jti\<close> fails.\<close>

definition rotate_refresh ::
    "forge \<Rightarrow> string \<Rightarrow> string \<Rightarrow> time \<Rightarrow> string option \<Rightarrow> string option \<Rightarrow> time \<Rightarrow> (db, aster_error, bool) handler" where
  "rotate_refresh F current_jti next_jti refresh_expires_at ip ua last_seen_at = statement (\<lambda>d.
     let p = (\<lambda>s. s_current_refresh_jti s = current_jti \<and> s_revoked_at s = None);
         (n, t) = update_many p (\<lambda>s. s\<lparr>s_current_refresh_jti := next_jti,
             s_previous_refresh_jti := Some current_jti, s_refresh_expires_at := refresh_expires_at,
             s_ip_address := ip, s_user_agent := ua, s_last_seen_at := last_seen_at\<rparr>) (auth_sessions d)
     in if \<not> distinct (map s_current_refresh_jti (rows t)) then Inl (DatabaseOperation (db_err_text F UniqueViolation))
        else Inr (n = 1, d\<lparr>auth_sessions := t\<rparr>))"

definition revoke_sessions_where :: "time \<Rightarrow> (auth_session \<Rightarrow> bool) \<Rightarrow> (db, aster_error, nat) handler" where
  "revoke_sessions_where now p = statement (\<lambda>d.
     let (n, t) = update_many (\<lambda>s. p s \<and> s_revoked_at s = None) (\<lambda>s. s\<lparr>s_revoked_at := Some now\<rparr>) (auth_sessions d)
     in Inr (n, d\<lparr>auth_sessions := t\<rparr>))"

definition revoke_by_id_for_user :: "row_id \<Rightarrow> string \<Rightarrow> time \<Rightarrow> (db, aster_error, bool) handler" where
  "revoke_by_id_for_user user_id i now =
     bnd (revoke_sessions_where now (\<lambda>s. s_user_id s = user_id \<and> s_id s = i)) (\<lambda>n. ret (n = 1))"

definition revoke_by_refresh_jti :: "time \<Rightarrow> string \<Rightarrow> (db, aster_error, bool) handler" where
  "revoke_by_refresh_jti now jti =
     bnd (revoke_sessions_where now (\<lambda>s. s_current_refresh_jti s = jti)) (\<lambda>n. ret (n = 1))"

definition revoke_all_for_user_except_id :: "row_id \<Rightarrow> string \<Rightarrow> time \<Rightarrow> (db, aster_error, nat) handler" where
  "revoke_all_for_user_except_id user_id keep now =
     revoke_sessions_where now (\<lambda>s. s_user_id s = user_id \<and> s_id s \<noteq> keep)"

definition delete_expired_sessions :: "time \<Rightarrow> (db, aster_error, nat) handler" where
  "delete_expired_sessions now = statement (\<lambda>d.
     let (n, t) = delete_many (\<lambda>s. s_refresh_expires_at s < now) (auth_sessions d)
     in Inr (n, d\<lparr>auth_sessions := t\<rparr>))"

section \<open>Tokens\<close>

record access_claims =
  ac_sub :: string
  ac_claims_user_id :: row_id
  ac_session_version :: int
  ac_jti :: "string option"
  ac_password_change :: bool
  ac_token_type :: token_type
  ac_exp :: nat

datatype jwt_error = ExpiredSignature | OtherJwtError string

text \<open>\<open>jsonwebtoken::encode\<close> and \<open>decode\<close> (HS256, expiry checked) under the configured secret.\<close>

record jwt =
  jwt_encode :: "access_claims \<Rightarrow> string + string"
  jwt_decode :: "time \<Rightarrow> string \<Rightarrow> jwt_error + access_claims"

text \<open>Signing succeeds, a signed token decodes to its claims until it expires, and the claims of a token do
  not depend on when it is decoded.\<close>

definition jwt_ok :: "jwt \<Rightarrow> bool" where
  "jwt_ok K =
     ((\<forall>c. \<exists>tok. jwt_encode K c = Inr tok)
      \<and> (\<forall>c tok now. jwt_encode K c = Inr tok \<and> now \<le> secs (int (ac_exp c)) \<longrightarrow> jwt_decode K now tok = Inr c)
      \<and> (\<forall>tok now now' c c'. jwt_decode K now tok = Inr c \<and> jwt_decode K now' tok = Inr c' \<longrightarrow> c' = c))"

definition jwt_error_from :: "jwt_error \<Rightarrow> aster_error" where
  "jwt_error_from e = (case e of ExpiredSignature \<Rightarrow> AuthTokenExpired ''token expired''
                               | OtherJwtError text \<Rightarrow> AuthTokenInvalid text)"

definition decode_claims :: "jwt \<Rightarrow> time \<Rightarrow> string \<Rightarrow> access_claims result" where
  "decode_claims K now token = map_sum jwt_error_from id (jwt_decode K now token)"

definition ensure_token_type :: "access_claims \<Rightarrow> token_type \<Rightarrow> unit result" where
  "ensure_token_type claims expected =
     (if ac_token_type claims \<noteq> expected
      then Inl (AuthTokenInvalid (''not an '' @ token_type_as_str expected @ '' token'')) else Inr ())"

definition decode_access_claims :: "jwt \<Rightarrow> time \<Rightarrow> string \<Rightarrow> access_claims result" where
  "decode_access_claims K now token =
     (case decode_claims K now token of
        Inl e \<Rightarrow> Inl e
      | Inr claims \<Rightarrow> map_sum id (\<lambda>_. claims) (ensure_token_type claims TokenAccess))"

text \<open>The fields of \<open>RuntimeAuthPolicy\<close> that the modelled operations read.\<close>

record auth_policy =
  ap_allow_user_registration :: bool
  ap_allow_local_registration :: bool
  ap_allow_local_login :: bool
  ap_register_activation_enabled :: bool
  ap_access_token_ttl_secs :: nat
  ap_refresh_token_ttl_secs :: nat

text \<open>\<open>Duration::seconds\<close> panics beyond \<open>i64::MAX / 1000\<close> seconds; \<open>checked_add_signed\<close> does not panic.\<close>

definition max_duration_secs :: int where "max_duration_secs = 9223372036854775"

definition jwt_expires_at :: "time \<Rightarrow> int \<Rightarrow> time result" where
  "jwt_expires_at now n =
     (if n > max_duration_secs then Inl Panicked
      else if now + secs n > max_datetime then Inl (InternalError ''jwt expires_at overflow'')
      else Inr (now + secs n))"

definition create_token ::
    "forge \<Rightarrow> jwt \<Rightarrow> time \<Rightarrow> row_id \<Rightarrow> int \<Rightarrow> token_type \<Rightarrow> nat \<Rightarrow> string option \<Rightarrow> bool \<Rightarrow> (string \<times> time) result" where
  "create_token F K now user_id version token_type ttl_secs jti password_change =
     (case utils_result (i64_to_u64 F (now div 1000) ''jwt issued-at unix timestamp'') of
        Inl e \<Rightarrow> Inl e
      | Inr now_secs \<Rightarrow>
          if now_secs + ttl_secs \<ge> 2 ^ 64
          then Inl (InternalError (''jwt exp overflow: '' @ show_nat now_secs @ '' + '' @ show_nat ttl_secs)) else
          case utils_result (u64_to_i64 F ttl_secs ''jwt ttl secs'') of
            Inl e \<Rightarrow> Inl e
          | Inr ttl \<Rightarrow>
              case jwt_expires_at now ttl of
                Inl e \<Rightarrow> Inl e
              | Inr expires_at \<Rightarrow>
                  case utils_result (u64_to_usize F (now_secs + ttl_secs) ''jwt exp'') of
                    Inl e \<Rightarrow> Inl e
                  | Inr exp \<Rightarrow>
                      map_sum InternalError (\<lambda>token. (token, expires_at))
                        (jwt_encode K \<lparr>ac_sub = show_int user_id, ac_claims_user_id = user_id,
                           ac_session_version = version, ac_jti = jti, ac_password_change = password_change,
                           ac_token_type = token_type, ac_exp = exp\<rparr>))"

record issued_tokens =
  it_access_token :: string
  it_refresh_token :: string
  it_session_id :: string
  it_refresh_jti :: string
  it_refresh_expires_at :: time
  it_access_expires_in :: nat

definition create_token_pair ::
    "forge \<Rightarrow> jwt \<Rightarrow> auth_policy \<Rightarrow> time \<Rightarrow> string \<Rightarrow> string \<Rightarrow> row_id \<Rightarrow> int \<Rightarrow> string option \<Rightarrow> bool \<Rightarrow> issued_tokens result" where
  "create_token_pair F K policy now fresh_jti fresh_session_id user_id version session_id password_change =
     (case create_token F K now user_id version TokenAccess (ap_access_token_ttl_secs policy) None password_change of
        Inl e \<Rightarrow> Inl e
      | Inr (access, _) \<Rightarrow>
          case create_token F K now user_id version TokenRefresh (ap_refresh_token_ttl_secs policy)
                 (Some fresh_jti) password_change of
            Inl e \<Rightarrow> Inl e
          | Inr (refresh_jwt, expires_at) \<Rightarrow>
              Inr \<lparr>it_access_token = access, it_refresh_token = refresh_jwt,
                   it_session_id = (case session_id of None \<Rightarrow> fresh_session_id | Some i \<Rightarrow> i),
                   it_refresh_jti = fresh_jti, it_refresh_expires_at = expires_at,
                   it_access_expires_in = ap_access_token_ttl_secs policy\<rparr>)"

definition persist_auth_session ::
    "forge \<Rightarrow> time \<Rightarrow> row_id \<Rightarrow> issued_tokens \<Rightarrow> http_request \<Rightarrow> (db, aster_error, auth_session) handler" where
  "persist_auth_session F now user_id tokens req =
     session_repo_create F \<lparr>s_id = it_session_id tokens, s_user_id = user_id,
       s_current_refresh_jti = it_refresh_jti tokens, s_previous_refresh_jti = None,
       s_refresh_expires_at = it_refresh_expires_at tokens, s_user_agent = user_agent req,
       s_ip_address = peer_ip req, s_created_at = now, s_last_seen_at = now, s_revoked_at = None\<rparr>"

datatype auth_token_status = Authenticated | PasswordChangeRequired

record auth_token_bundle =
  tb_access_token :: string
  tb_refresh_token :: string
  tb_expires_in :: nat
  tb_status :: auth_token_status
  tb_user :: auth_user_info

text \<open>\<open>J\<close> is the pair of fresh UUIDs, the refresh token's id and the session's.\<close>

definition issue_tokens ::
    "forge \<Rightarrow> jwt \<Rightarrow> auth_policy \<Rightarrow> time \<Rightarrow> string \<times> string \<Rightarrow> user \<Rightarrow> http_request \<Rightarrow> (db, aster_error, auth_token_bundle) handler" where
  "issue_tokens F K policy now J u req =
     bnd (check (create_token_pair F K policy now (fst J) (snd J) (u_id u) (u_session_version u) None
            (u_must_change_password u))) (\<lambda>tokens.
     bnd (persist_auth_session F now (u_id u) tokens req) (\<lambda>_.
     ret \<lparr>tb_access_token = it_access_token tokens, tb_refresh_token = it_refresh_token tokens,
          tb_expires_in = it_access_expires_in tokens,
          tb_status = (if u_must_change_password u then PasswordChangeRequired else Authenticated),
          tb_user = auth_user_info_from u\<rparr>))"

definition issue_tokens_for_user_id ::
    "forge \<Rightarrow> jwt \<Rightarrow> auth_policy \<Rightarrow> time \<Rightarrow> string \<times> string \<Rightarrow> row_id \<Rightarrow> http_request \<Rightarrow> (db, aster_error, auth_token_bundle) handler" where
  "issue_tokens_for_user_id F K policy now J user_id req =
     bnd (query (find_user_by_id user_id)) (\<lambda>u. issue_tokens F K policy now J u req)"

definition rotate_tokens ::
    "forge \<Rightarrow> jwt \<Rightarrow> auth_policy \<Rightarrow> time \<Rightarrow> string \<times> string \<Rightarrow> user \<Rightarrow> auth_session \<Rightarrow> http_request \<Rightarrow>
     (db, aster_error, auth_token_bundle) handler" where
  "rotate_tokens F K policy now J u session req =
     bnd (check (create_token_pair F K policy now (fst J) (snd J) (u_id u) (u_session_version u)
            (Some (s_id session)) False)) (\<lambda>tokens.
     bnd (rotate_refresh F (s_current_refresh_jti session) (it_refresh_jti tokens) (it_refresh_expires_at tokens)
            (case peer_ip req of None \<Rightarrow> s_ip_address session | Some ip \<Rightarrow> Some ip)
            (case user_agent req of None \<Rightarrow> s_user_agent session | Some ua \<Rightarrow> Some ua) now) (\<lambda>rotated.
     if \<not> rotated then raise (AuthTokenInvalid ''refresh token is stale'') else
     ret \<lparr>tb_access_token = it_access_token tokens, tb_refresh_token = it_refresh_token tokens,
          tb_expires_in = it_access_expires_in tokens, tb_status = Authenticated,
          tb_user = auth_user_info_from u\<rparr>))"

section \<open>Login, refresh, logout\<close>

definition web_audit ::
    "(string \<Rightarrow> bool) \<Rightarrow> time \<Rightarrow> http_request \<Rightarrow> row_id \<Rightarrow> string \<Rightarrow> string \<Rightarrow> row_id option \<Rightarrow> string option \<Rightarrow>
     audit_details option \<Rightarrow> (db, aster_error, unit) handler" where
  "web_audit should_record now req user_id action entity_type entity_id entity_name details =
     modify (log_with_details should_record now (audit_from_request req user_id) action entity_type entity_id
               entity_name details)"

definition user_disabled :: aster_error where
  "user_disabled = auth_forbidden_code ''AuthUserDisabled'' ''user is disabled''"

definition password_result :: "string + 'a \<Rightarrow> 'a result" where
  "password_result r = map_sum InternalError id r"

definition web_login ::
    "forge \<Rightarrow> jwt \<Rightarrow> auth_policy \<Rightarrow> (string \<Rightarrow> bool) \<Rightarrow> time \<Rightarrow> string \<times> string \<Rightarrow> string \<Rightarrow> string \<Rightarrow> http_request \<Rightarrow>
     (db, aster_error, auth_token_bundle) handler" where
  "web_login F K policy should_record now J identifier password req =
     (if \<not> ap_allow_local_login policy
      then raise (auth_forbidden_code ''AuthLocalLoginDisabled''
             ''local password login is disabled by administrator policy'') else
      bnd (query (\<lambda>d. case find_by_identifier identifier d of
                        None \<Rightarrow> Inl (AuthInvalidCredentials ''invalid credentials'') | Some u \<Rightarrow> Inr u)) (\<lambda>u.
      if \<not> user_status_is_active (u_status u) then raise user_disabled else
      if \<not> is_email_activation_satisfied u
      then raise (auth_pending_activation ''account email activation is pending'') else
      bnd (check (password_result (verify_password F password (u_password_hash u)))) (\<lambda>ok.
      if \<not> ok then raise (AuthInvalidCredentials ''invalid credentials'') else
      bnd (issue_tokens F K policy now J u req) (\<lambda>response.
      bnd (web_audit should_record now req (u_id u) ''user_login'' ''auth_session'' None (Some (u_username u))
             (Some (login_details identifier))) (\<lambda>_.
      ret response)))))"

text \<open>The session of a refresh token: one that is not revoked, or the reason it is refused.\<close>

definition refresh_session :: "string \<Rightarrow> db \<Rightarrow> auth_session result" where
  "refresh_session jti d =
     (case find_by_refresh_jti jti d of
        Some s \<Rightarrow> if s_revoked_at s = None then Inr s
                  else if find_by_previous_refresh_jti jti d \<noteq> None
                  then Inl (AuthTokenInvalid ''refresh token is stale'')
                  else Inl (AuthTokenInvalid ''invalid refresh token'')
      | None \<Rightarrow> if find_by_previous_refresh_jti jti d \<noteq> None
                then Inl (AuthTokenInvalid ''refresh token is stale'')
                else Inl (AuthTokenInvalid ''invalid refresh token''))"

definition web_refresh ::
    "forge \<Rightarrow> jwt \<Rightarrow> auth_policy \<Rightarrow> (string \<Rightarrow> bool) \<Rightarrow> time \<Rightarrow> string \<times> string \<Rightarrow> string \<Rightarrow> http_request \<Rightarrow>
     (db, aster_error, auth_token_bundle) handler" where
  "web_refresh F K policy should_record now J token req =
     bnd (check (decode_claims K now token)) (\<lambda>claims.
     bnd (check (ensure_token_type claims TokenRefresh)) (\<lambda>_.
     bnd (check (case ac_jti claims of None \<Rightarrow> Inl (AuthTokenInvalid ''refresh token missing jti'')
                                    | Some jti \<Rightarrow> Inr jti)) (\<lambda>refresh_jti.
     bnd (query (refresh_session refresh_jti)) (\<lambda>session.
     if s_refresh_expires_at session \<le> now then raise (AuthTokenExpired ''refresh token expired'') else
     if s_user_id session \<noteq> ac_claims_user_id claims then raise (AuthTokenInvalid ''invalid refresh token'') else
     bnd (query (find_user_by_id (ac_claims_user_id claims))) (\<lambda>u.
     if \<not> user_status_is_active (u_status u) then raise user_disabled else
     if ac_session_version claims \<noteq> u_session_version u then raise (AuthTokenInvalid ''session is stale'') else
     if u_must_change_password u \<or> ac_password_change claims
     then raise (auth_forbidden_code ''AuthPasswordChangeRequired'' ''password change required'') else
     bnd (rotate_tokens F K policy now J u session req) (\<lambda>response.
     bnd (web_audit should_record now req (u_id u) ''user_refresh_token'' ''auth_session'' None
            (Some (u_username u)) None) (\<lambda>_.
     ret response)))))))"

definition logout ::
    "jwt \<Rightarrow> (string \<Rightarrow> bool) \<Rightarrow> time \<Rightarrow> string \<Rightarrow> http_request \<Rightarrow> (db, aster_error, bool) handler" where
  "logout K should_record now token req =
     (case decode_claims K now token of
        Inl (AuthTokenExpired _) \<Rightarrow> ret False
      | Inl (AuthTokenInvalid _) \<Rightarrow> ret False
      | Inl e \<Rightarrow> raise e
      | Inr claims \<Rightarrow>
          if isl (ensure_token_type claims TokenRefresh) then ret False else
          case ac_jti claims of
            None \<Rightarrow> ret False
          | Some jti \<Rightarrow>
              bnd (query (\<lambda>d. Inr (find_by_refresh_jti jti d))) (\<lambda>session.
              bnd (revoke_by_refresh_jti now jti) (\<lambda>revoked.
              if revoked
              then bnd (web_audit should_record now req
                          (case session of None \<Rightarrow> ac_claims_user_id claims | Some s \<Rightarrow> s_user_id s)
                          ''user_logout'' ''auth_session'' None None None) (\<lambda>_. ret revoked)
              else ret revoked)))"

section \<open>Session administration\<close>

definition refresh_jti_from_token :: "jwt \<Rightarrow> time \<Rightarrow> string \<Rightarrow> string result" where
  "refresh_jti_from_token K now token =
     (case decode_claims K now token of
        Inl e \<Rightarrow> Inl e
      | Inr claims \<Rightarrow>
          (case ensure_token_type claims TokenRefresh of
             Inl e \<Rightarrow> Inl e
           | Inr _ \<Rightarrow> (case ac_jti claims of None \<Rightarrow> Inl (AuthTokenInvalid ''refresh token missing jti'')
                                            | Some jti \<Rightarrow> Inr jti)))"

definition optional_refresh_jti_from_token :: "jwt \<Rightarrow> time \<Rightarrow> string option \<Rightarrow> string option" where
  "optional_refresh_jti_from_token K now token =
     Option.bind token (\<lambda>t. case refresh_jti_from_token K now t of Inl _ \<Rightarrow> None | Inr j \<Rightarrow> Some j)"

definition show_bool :: "bool \<Rightarrow> string" where
  "show_bool b = (if b then ''true'' else ''false'')"

definition session_details :: "string option \<Rightarrow> nat option \<Rightarrow> bool option \<Rightarrow> audit_details" where
  "session_details session_id removed revoked_current =
     omit_none ''session_id'' session_id @ omit_none ''removed'' (map_option show_nat removed)
     @ omit_none ''revoked_current'' (map_option show_bool revoked_current)"

definition revoke_session ::
    "jwt \<Rightarrow> (string \<Rightarrow> bool) \<Rightarrow> time \<Rightarrow> row_id \<Rightarrow> string \<Rightarrow> string option \<Rightarrow> http_request \<Rightarrow> (db, aster_error, bool) handler" where
  "revoke_session K should_record now user_id session_id current_refresh_token req =
     (let current_jti = optional_refresh_jti_from_token K now current_refresh_token in
      bnd (transaction
             (bnd (query (\<lambda>d. case find_session_by_id_for_user user_id session_id d of
                       None \<Rightarrow> Inl (record_not_found_code ''AuthSessionNotFound'' (''auth session '' @ [CHR 0x27] @ session_id @ [CHR 0x27]))
                     | Some s \<Rightarrow> Inr s)) (\<lambda>session.
              bnd (revoke_by_id_for_user user_id session_id now) (\<lambda>_.
              ret (current_jti = Some (s_current_refresh_jti session)))))) (\<lambda>revoked_current.
      bnd (web_audit should_record now req user_id ''user_revoke_session'' ''auth_session'' None (Some session_id)
             (Some (session_details (Some session_id) None (Some revoked_current)))) (\<lambda>_.
      ret revoked_current)))"

definition revoke_other_sessions ::
    "jwt \<Rightarrow> (string \<Rightarrow> bool) \<Rightarrow> time \<Rightarrow> row_id \<Rightarrow> string \<Rightarrow> http_request \<Rightarrow> (db, aster_error, nat) handler" where
  "revoke_other_sessions K should_record now user_id current_refresh_token req =
     bnd (check (refresh_jti_from_token K now current_refresh_token)) (\<lambda>jti.
     bnd (transaction
            (bnd (query (\<lambda>d. case find_by_refresh_jti jti d of
                      None \<Rightarrow> Inl (AuthTokenInvalid ''missing current session'') | Some s \<Rightarrow> Inr s)) (\<lambda>current.
             if s_user_id current \<noteq> user_id
             then raise (auth_forbidden_code ''AuthSessionRevocationFailed''
                    ''current session does not belong to user'') else
             if s_revoked_at current \<noteq> None then raise (AuthTokenInvalid ''missing current session'') else
             revoke_all_for_user_except_id user_id (s_id current) now))) (\<lambda>removed.
     bnd (web_audit should_record now req user_id ''user_revoke_other_sessions'' ''auth_session'' None None
            (Some (session_details None (Some removed) (Some False)))) (\<lambda>_.
     ret removed)))"

record auth_session_info =
  si_id :: string
  si_is_current :: bool
  si_user_agent :: "string option"
  si_ip_address :: "string option"
  si_created_at :: time
  si_last_seen_at :: time
  si_refresh_expires_at :: time
  si_revoked :: bool

definition session_info_from_model :: "auth_session \<Rightarrow> string option \<Rightarrow> auth_session_info" where
  "session_info_from_model s current_jti =
     \<lparr>si_id = s_id s, si_is_current = (current_jti = Some (s_current_refresh_jti s)),
      si_user_agent = s_user_agent s, si_ip_address = s_ip_address s, si_created_at = s_created_at s,
      si_last_seen_at = s_last_seen_at s, si_refresh_expires_at = s_refresh_expires_at s,
      si_revoked = (s_revoked_at s \<noteq> None)\<rparr>"

definition list_sessions :: "jwt \<Rightarrow> time \<Rightarrow> row_id \<Rightarrow> string option \<Rightarrow> db \<Rightarrow> auth_session_info list" where
  "list_sessions K now user_id current_refresh_token d =
     map (\<lambda>s. session_info_from_model s (optional_refresh_jti_from_token K now current_refresh_token))
       (list_sessions_by_user user_id d)"

section \<open>The current user\<close>

text \<open>What \<open>api/request_auth.rs\<close> and the token scope read of the request.\<close>

record request_auth =
  ra_cookie :: "string option"
  ra_authorization :: "string option"
  ra_method :: string
  ra_path :: string

definition bearer_token :: "request_auth \<Rightarrow> string option" where
  "bearer_token req = Option.bind (ra_authorization req) (strip_prefix ''Bearer '')"

definition access_token :: "request_auth \<Rightarrow> string option" where
  "access_token req = (case ra_cookie req of None \<Rightarrow> bearer_token req | Some t \<Rightarrow> Some t)"

definition password_change_path_allowed :: "string \<Rightarrow> string \<Rightarrow> bool" where
  "password_change_path_allowed meth path =
     ((meth, path) \<in> {(''GET'', ''/api/v1/auth/me''), (''PUT'', ''/api/v1/auth/password''),
        (''PUT'', ''/api/v1/auth/password/local''), (''POST'', ''/api/v1/auth/logout'')})"

definition current_user_and_claims_from_token :: "jwt \<Rightarrow> time \<Rightarrow> string \<Rightarrow> db \<Rightarrow> (user \<times> access_claims) result" where
  "current_user_and_claims_from_token K now token d =
     (case decode_access_claims K now token of
        Inl e \<Rightarrow> Inl e
      | Inr claims \<Rightarrow>
          case find_user_by_id (ac_claims_user_id claims) d of
            Inl e \<Rightarrow> Inl e
          | Inr u \<Rightarrow>
              if \<not> user_status_is_active (u_status u) then Inl user_disabled
              else if u_session_version u \<noteq> ac_session_version claims then Inl (AuthTokenInvalid ''session is stale'')
              else if u_must_change_password u \<and> \<not> ac_password_change claims
              then Inl (AuthTokenInvalid ''password change required'')
              else if \<not> u_must_change_password u \<and> ac_password_change claims
              then Inl (AuthTokenInvalid ''password change session is no longer valid'')
              else Inr (u, claims))"

definition current_user :: "jwt \<Rightarrow> time \<Rightarrow> request_auth \<Rightarrow> db \<Rightarrow> user result" where
  "current_user K now req d =
     (case access_token req of
        None \<Rightarrow> Inl (AuthTokenInvalid ''missing access token'')
      | Some token \<Rightarrow>
          case current_user_and_claims_from_token K now token d of
            Inl e \<Rightarrow> Inl e
          | Inr (u, claims) \<Rightarrow>
              if ac_password_change claims \<and> \<not> password_change_path_allowed (ra_method req) (ra_path req)
              then Inl (auth_forbidden_code ''AuthPasswordChangeRequired'' ''password change required'')
              else Inr u)"

section \<open>Passwords\<close>

definition validate_password :: "string \<Rightarrow> unit result" where
  "validate_password password =
     (if length password < 8
      then Inl (validation_error_code ''AuthPasswordPolicyFailed'' ''password must be 8-128 characters'')
      else if length password > 128
      then Inl (validation_error_code ''AuthPasswordPolicyFailed'' ''password must be 8-128 characters'')
      else Inr ())"

text \<open>\<open>i64::saturating_add(1)\<close>\<close>

definition next_session_version :: "int \<Rightarrow> int" where
  "next_session_version v = min (v + 1) (2 ^ 63 - 1)"

definition update_password_in_connection ::
    "forge \<Rightarrow> time \<Rightarrow> user \<Rightarrow> string \<Rightarrow> (db, aster_error, user) handler" where
  "update_password_in_connection F now u new_password =
     bnd (check (validate_password new_password)) (\<lambda>_.
     bnd (check (password_result (hash_password F new_password))) (\<lambda>h.
     update_user_row F (u_id u) (\<lambda>r. r\<lparr>u_password_hash := h, u_must_change_password := False,
       u_session_version := next_session_version (u_session_version u), u_updated_at := now\<rparr>)))"

definition verify_change_password_input ::
    "forge \<Rightarrow> row_id \<Rightarrow> string \<Rightarrow> string \<Rightarrow> (db, aster_error, user) handler" where
  "verify_change_password_input F user_id current_password new_password =
     bnd (query (find_user_by_id user_id)) (\<lambda>u.
     if \<not> user_status_is_active (u_status u) then raise user_disabled else
     if \<not> is_email_activation_satisfied u
     then raise (auth_forbidden_code ''AuthPendingActivation'' ''account email activation is pending'') else
     bnd (check (password_result (verify_password F current_password (u_password_hash u)))) (\<lambda>ok.
     if \<not> ok then raise (AuthInvalidCredentials ''wrong password'') else
     if current_password = new_password
     then raise (ValidationError ''new password must be different from current password'') else
     ret u))"

definition identity_exists_for_user :: "row_id \<Rightarrow> db \<Rightarrow> bool" where
  "identity_exists_for_user user_id d = (count_rows (\<lambda>i. ei_user_id i = user_id) (external_identities d) > 0)"

definition verify_set_local_password_input ::
    "forge \<Rightarrow> row_id \<Rightarrow> string \<Rightarrow> (db, aster_error, user) handler" where
  "verify_set_local_password_input F user_id new_password =
     bnd (query (find_user_by_id user_id)) (\<lambda>u.
     if \<not> user_status_is_active (u_status u) then raise user_disabled else
     bnd (query (\<lambda>d. Inr (identity_exists_for_user user_id d))) (\<lambda>external.
     if \<not> external then raise (auth_forbidden_code ''Forbidden''
       ''local password setup is only allowed for external auth accounts'') else
     bnd (check (password_result (verify_password F new_password (u_password_hash u)))) (\<lambda>same.
     if same then raise (ValidationError ''new password must be different from current password'') else
     ret u)))"

definition change_password ::
    "forge \<Rightarrow> (string \<Rightarrow> nat \<Rightarrow> string) \<Rightarrow> time \<Rightarrow> row_id \<Rightarrow> string \<Rightarrow> string \<Rightarrow> (db, aster_error, auth_user_info) handler" where
  "change_password F gravatar now user_id current_password new_password =
     bnd (transaction
            (bnd (verify_change_password_input F user_id current_password new_password) (\<lambda>u.
             bnd (update_password_in_connection F now u new_password) (\<lambda>updated.
             bnd (revoke_sessions_for_user now (u_id updated)) (\<lambda>_.
             ret updated))))) (\<lambda>updated.
     query (\<lambda>d. Inr (auth_user_info_of gravatar updated d)))"

definition set_local_password ::
    "forge \<Rightarrow> (string \<Rightarrow> nat \<Rightarrow> string) \<Rightarrow> time \<Rightarrow> row_id \<Rightarrow> string \<Rightarrow> (db, aster_error, auth_user_info) handler" where
  "set_local_password F gravatar now user_id new_password =
     bnd (transaction
            (bnd (verify_set_local_password_input F user_id new_password) (\<lambda>u.
             bnd (update_password_in_connection F now u new_password) (\<lambda>updated.
             bnd (revoke_sessions_for_user now (u_id updated)) (\<lambda>_.
             ret updated))))) (\<lambda>updated.
     query (\<lambda>d. Inr (auth_user_info_of gravatar updated d)))"

definition change_password_with_audit ::
    "forge \<Rightarrow> (string \<Rightarrow> nat \<Rightarrow> string) \<Rightarrow> (string \<Rightarrow> bool) \<Rightarrow> time \<Rightarrow> http_request \<Rightarrow> row_id \<Rightarrow> string \<Rightarrow> string \<Rightarrow>
     (db, aster_error, auth_user_info) handler" where
  "change_password_with_audit F gravatar should_record now req user_id current_password new_password =
     bnd (change_password F gravatar now user_id current_password new_password) (\<lambda>u.
     bnd (web_audit should_record now req (ui_id u) ''user_change_password'' ''user'' (Some (ui_id u))
            (Some (ui_username u)) None) (\<lambda>_.
     ret u))"

definition set_local_password_with_audit ::
    "forge \<Rightarrow> (string \<Rightarrow> nat \<Rightarrow> string) \<Rightarrow> (string \<Rightarrow> bool) \<Rightarrow> time \<Rightarrow> http_request \<Rightarrow> row_id \<Rightarrow> string \<Rightarrow>
     (db, aster_error, auth_user_info) handler" where
  "set_local_password_with_audit F gravatar should_record now req user_id new_password =
     bnd (set_local_password F gravatar now user_id new_password) (\<lambda>u.
     bnd (web_audit should_record now req (ui_id u) ''user_change_password'' ''user'' (Some (ui_id u))
            (Some (ui_username u)) None) (\<lambda>_.
     ret u))"

section \<open>What every operation keeps\<close>

definition sessions_wf :: "db \<Rightarrow> bool" where
  "sessions_wf d =
     (distinct (map s_id (rows (auth_sessions d))) \<and> distinct (map s_current_refresh_jti (rows (auth_sessions d))))"

definition web_wf :: "db \<Rightarrow> bool" where
  "web_wf d = (sessions_wf d \<and> users_wf d \<and> (\<forall>u \<in> set (rows (users d)). u_session_version u < 2 ^ 63))"

definition dead_jti :: "string \<Rightarrow> db \<Rightarrow> bool" where
  "dead_jti j d = (\<forall>s \<in> set (rows (auth_sessions d)). s_current_refresh_jti s = j \<longrightarrow> s_revoked_at s \<noteq> None)"

definition versions_grow :: "db \<Rightarrow> db \<Rightarrow> bool" where
  "versions_grow d d' =
     (\<forall>u \<in> set (rows (users d)). \<exists>u' \<in> set (rows (users d')).
        u_id u' = u_id u \<and> u_session_version u \<le> u_session_version u')"

text \<open>\<open>I\<close> are the refresh ids that may be issued between the two states.\<close>

definition web_safe :: "string set \<Rightarrow> db \<Rightarrow> db \<Rightarrow> bool" where
  "web_safe I d d' =
     (web_wf d \<longrightarrow> web_wf d' \<and> versions_grow d d' \<and> (\<forall>j. j \<notin> I \<longrightarrow> dead_jti j d \<longrightarrow> dead_jti j d'))"

lemma versions_grow_refl [simp]: "versions_grow d d"
  by (auto simp: versions_grow_def)

lemma versions_grow_trans: "versions_grow d d1 \<Longrightarrow> versions_grow d1 d2 \<Longrightarrow> versions_grow d d2"
  unfolding versions_grow_def by (metis order_trans)

lemma web_safe_refl [simp]: "web_safe I d d"
  by (simp add: web_safe_def)

lemma web_safe_trans: "web_safe I d d1 \<Longrightarrow> web_safe I d1 d2 \<Longrightarrow> web_safe I d d2"
  unfolding web_safe_def using versions_grow_trans by blast

interpretation web: state_order "web_safe I" for I
  by unfold_locales (simp, rule web_safe_trans)

lemma web_safe_same:
  assumes "auth_sessions d' = auth_sessions d" and "users d' = users d"
  shows "web_safe I d d'"
  using assms by (auto simp: web_safe_def web_wf_def sessions_wf_def users_wf_def dead_jti_def versions_grow_def)

lemma web_safe_audit: "web_safe I d (snd (web_audit sr now req u a et ei en det d))"
  by (rule web_safe_same) (simp_all add: web_audit_def modify_def log_with_details_def record_prechecked_def)

text \<open>An update of the session table alone.\<close>

lemma web_safe_sessions:
  assumes "d' = d\<lparr>auth_sessions := t\<rparr>"
    and "sessions_wf d \<Longrightarrow> distinct (map s_id (rows t)) \<and> distinct (map s_current_refresh_jti (rows t))"
    and "\<And>s'. s' \<in> set (rows t) \<Longrightarrow> s_revoked_at s' = None \<Longrightarrow> s_current_refresh_jti s' \<notin> I \<Longrightarrow>
          \<exists>s \<in> set (rows (auth_sessions d)). s_current_refresh_jti s = s_current_refresh_jti s' \<and> s_revoked_at s = None"
  shows "web_safe I d d'"
proof -
  have "dead_jti j d'" if j: "j \<notin> I" and dead: "dead_jti j d" for j
    unfolding dead_jti_def assms(1)
  proof (intro ballI impI notI)
    fix s' assume s': "s' \<in> set (rows (auth_sessions (d\<lparr>auth_sessions := t\<rparr>)))" "s_current_refresh_jti s' = j" "s_revoked_at s' = None"
    then obtain s where "s \<in> set (rows (auth_sessions d))" "s_current_refresh_jti s = j" "s_revoked_at s = None"
      using assms(3)[of s'] j by auto
    then show False using dead by (auto simp: dead_jti_def)
  qed
  then show ?thesis using assms(2)
    by (simp add: web_safe_def web_wf_def sessions_wf_def users_wf_def versions_grow_def assms(1)) blast
qed

lemma web_safe_create:
  assumes "s_current_refresh_jti m \<in> I" shows "web_safe I d (snd (session_repo_create F m d))"
proof (cases "\<exists>r \<in> set (rows (auth_sessions d)). s_id r = s_id m \<or> s_current_refresh_jti r = s_current_refresh_jti m")
  case True
  then show ?thesis by (simp add: session_repo_create_def statement_def)
next
  case False
  have "snd (session_repo_create F m d) = d\<lparr>auth_sessions := (auth_sessions d)\<lparr>rows := rows (auth_sessions d) @ [m]\<rparr>\<rparr>"
    using False unfolding session_repo_create_def statement_def by simp
  then show ?thesis
    by (rule web_safe_sessions) (use False assms in \<open>auto simp: sessions_wf_def\<close>)
qed

lemma web_safe_revoke: "web_safe I d (snd (revoke_sessions_where now p d))"
proof (rule web_safe_sessions)
  let ?t = "snd (update_many (\<lambda>s. p s \<and> s_revoked_at s = None) (\<lambda>s. s\<lparr>s_revoked_at := Some now\<rparr>) (auth_sessions d))"
  show "snd (revoke_sessions_where now p d) = d\<lparr>auth_sessions := ?t\<rparr>"
    by (simp add: revoke_sessions_where_def statement_def Let_def split_beta)
  have ids: "map s_id (rows ?t) = map s_id (rows (auth_sessions d))"
      "map s_current_refresh_jti (rows ?t) = map s_current_refresh_jti (rows (auth_sessions d))"
    by (simp_all add: update_many_def)
  show "distinct (map s_id (rows ?t)) \<and> distinct (map s_current_refresh_jti (rows ?t))" if "sessions_wf d"
    using that unfolding ids by (simp add: sessions_wf_def)
  show "\<exists>s \<in> set (rows (auth_sessions d)). s_current_refresh_jti s = s_current_refresh_jti s' \<and> s_revoked_at s = None"
    if "s' \<in> set (rows ?t)" "s_revoked_at s' = None" for s'
    using that by (auto simp: update_many_def split: if_splits)
qed

lemma web_safe_delete: "web_safe I d (snd (delete_expired_sessions now d))"
  by (rule web_safe_sessions[where t = "snd (delete_many (\<lambda>s. s_refresh_expires_at s < now) (auth_sessions d))"])
    (auto simp: delete_expired_sessions_def statement_def Let_def split_beta delete_many_def sessions_wf_def
      distinct_map_filter)

lemma rotate_refresh_run:
  assumes "rotate_refresh F cur nxt ex ip ua seen d = (res, d')"
  shows "(isl res \<and> d' = d) \<or>
    (\<exists>t. res = Inr (count_rows (\<lambda>s. s_current_refresh_jti s = cur \<and> s_revoked_at s = None) (auth_sessions d) = 1)
      \<and> d' = d\<lparr>auth_sessions := t\<rparr> \<and> distinct (map s_current_refresh_jti (rows t))
      \<and> rows t = map (\<lambda>s. if s_current_refresh_jti s = cur \<and> s_revoked_at s = None
           then s\<lparr>s_current_refresh_jti := nxt, s_previous_refresh_jti := Some cur, s_refresh_expires_at := ex,
             s_ip_address := ip, s_user_agent := ua, s_last_seen_at := seen\<rparr> else s) (rows (auth_sessions d)))"
  using assms by (auto simp: rotate_refresh_def statement_def update_many_def Let_def split: if_splits)

lemma web_safe_rotate:
  assumes "nxt \<in> I" shows "web_safe I d (snd (rotate_refresh F cur nxt ex ip ua seen d))"
proof (cases "rotate_refresh F cur nxt ex ip ua seen d")
  case (Pair res d')
  show ?thesis
    using rotate_refresh_run[OF Pair]
  proof
    assume "\<exists>t. res = Inr (count_rows (\<lambda>s. s_current_refresh_jti s = cur \<and> s_revoked_at s = None) (auth_sessions d) = 1)
      \<and> d' = d\<lparr>auth_sessions := t\<rparr> \<and> distinct (map s_current_refresh_jti (rows t))
      \<and> rows t = map (\<lambda>s. if s_current_refresh_jti s = cur \<and> s_revoked_at s = None
           then s\<lparr>s_current_refresh_jti := nxt, s_previous_refresh_jti := Some cur, s_refresh_expires_at := ex,
             s_ip_address := ip, s_user_agent := ua, s_last_seen_at := seen\<rparr> else s) (rows (auth_sessions d))"
    then obtain t where t: "d' = d\<lparr>auth_sessions := t\<rparr>" "distinct (map s_current_refresh_jti (rows t))"
      "rows t = map (\<lambda>s. if s_current_refresh_jti s = cur \<and> s_revoked_at s = None
           then s\<lparr>s_current_refresh_jti := nxt, s_previous_refresh_jti := Some cur, s_refresh_expires_at := ex,
             s_ip_address := ip, s_user_agent := ua, s_last_seen_at := seen\<rparr> else s) (rows (auth_sessions d))"
      by blast
    have "map s_id (rows t) = map s_id (rows (auth_sessions d))" by (simp add: t(3))
    then have "sessions_wf d \<Longrightarrow> distinct (map s_id (rows t))" by (metis sessions_wf_def)
    moreover have "\<exists>s \<in> set (rows (auth_sessions d)). s_current_refresh_jti s = s_current_refresh_jti s' \<and> s_revoked_at s = None"
      if "s' \<in> set (rows t)" "s_revoked_at s' = None" "s_current_refresh_jti s' \<notin> I" for s'
      using that assms by (auto simp: t(3) split: if_splits)
    ultimately show ?thesis using web_safe_sessions[OF t(1)] t(2) Pair by auto
  qed (simp add: Pair)
qed

lemma update_user_row_run:
  assumes "update_user_row F i f d = (Inr u, d')"
  shows "\<exists>r \<in> set (rows (users d)). u_id r = i \<and> u = f r \<and> user_unique_ok u (users d)
    \<and> d' = d\<lparr>users := (users d)\<lparr>rows := map (\<lambda>r. if u_id r = i then f r else r) (rows (users d))\<rparr>\<rparr>"
proof -
  from assms obtain r where r: "select_one (\<lambda>r. u_id r = i) (users d) = Some r" "u = f r" "user_unique_ok u (users d)"
      "d' = d\<lparr>users := (users d)\<lparr>rows := map (\<lambda>r. if u_id r = i then f r else r) (rows (users d))\<rparr>\<rparr>"
    by (auto simp: update_user_row_def statement_def update_by_key_def update_many_def split: option.splits if_splits)
  then show ?thesis using select_one_Some[OF r(1)] by blast
qed

lemma update_user_row_fails: "update_user_row F i f d = (Inl e, d') \<Longrightarrow> d' = d"
  by (auto simp: update_user_row_def statement_def split: sum.splits prod.splits if_splits)

text \<open>Changing one row so that the unique columns still are unique.\<close>

lemma distinct_map_replace:
  assumes "distinct (map k xs)" and "r \<in> set xs" and "distinct (map g xs)"
    and "\<forall>v \<in> set xs. k v \<noteq> k r \<longrightarrow> g v \<noteq> g' r"
  shows "distinct (map (\<lambda>x. if k x = k r then g' x else g x) xs)"
proof -
  let ?h = "\<lambda>x. if k x = k r then g' x else g x"
  have k: "x = r" if "x \<in> set xs" "k x = k r" for x
    using that assms(1,2) by (auto simp: distinct_map inj_on_def)
  have "inj_on ?h (set xs)"
  proof (rule inj_onI)
    fix x y assume xy: "x \<in> set xs" "y \<in> set xs" "?h x = ?h y"
    show "x = y"
    proof (cases "k x = k r"; cases "k y = k r")
      assume "k x = k r" "k y = k r" then show ?thesis using k xy by blast
    next
      assume c: "k x = k r" "k y \<noteq> k r"
      then have "g y = g' r" using xy k[of x] by simp
      then show ?thesis using assms(4) c xy(2) by blast
    next
      assume c: "k x \<noteq> k r" "k y = k r"
      then have "g x = g' r" using xy k[of y] by simp
      then show ?thesis using assms(4) c xy(1) by blast
    next
      assume "k x \<noteq> k r" "k y \<noteq> k r"
      then have "g x = g y" using xy(3) by simp
      then show ?thesis using assms(3) xy by (auto simp: distinct_map inj_on_def)
    qed
  qed
  then show ?thesis using assms(1) by (simp add: distinct_map)
qed

lemma users_wf_update:
  assumes "users_wf d" and "update_user_row F i f d = (Inr u, d')" and "\<And>r. u_id (f r) = u_id r"
  shows "users_wf d'"
proof -
  obtain r where r: "r \<in> set (rows (users d))" "u_id r = i" "u = f r" "user_unique_ok u (users d)"
      "d' = d\<lparr>users := (users d)\<lparr>rows := map (\<lambda>r. if u_id r = i then f r else r) (rows (users d))\<rparr>\<rparr>"
    using update_user_row_run[OF assms(2)] by blast
  have keys: "keys_ok u_id (users d')"
    using keys_ok_update[of u_id "users d" f "\<lambda>r. u_id r = i"] assms(1,3) by (simp add: users_wf_def r(5) update_many_def)
  have uid: "u_id u = i" using assms(3) r(2,3) by simp
  have row: "x = u \<or> x \<in> set (rows (users d)) \<and> u_id x \<noteq> i" if "x \<in> set (rows (users d'))" for x
  proof -
    have "x \<in> (\<lambda>y. if u_id y = i then f y else y) ` set (rows (users d))" using that by (simp add: r(5) del: image_iff if_image_distrib)
    then obtain y where y: "y \<in> set (rows (users d))" "x = (if u_id y = i then f y else y)" by (rule imageE) blast
    then show ?thesis using r(1-3) keys_ok_inj[of u_id "users d" y r] assms(1) by (auto simp: users_wf_def)
  qed
  have "users_apart x y" if "x \<in> set (rows (users d'))" "y \<in> set (rows (users d'))" "u_id y \<noteq> u_id x" for x y
    using row[OF that(1)] row[OF that(2)] that(3) r(4) uid assms(1) users_apart_sym[of u x]
    by (auto simp: users_wf_def user_unique_ok_apart)
  then show ?thesis using keys by (auto simp: users_wf_def user_unique_ok_apart)
qed

lemma web_safe_user:
  assumes "\<And>r. u_id (f r) = u_id r"
    and "\<And>r. r \<in> set (rows (users d)) \<Longrightarrow> u_id r = i \<Longrightarrow> web_wf d \<Longrightarrow>
          u_session_version r \<le> u_session_version (f r) \<and> u_session_version (f r) < 2 ^ 63"
  shows "web_safe I d (snd (update_user_row F i f d))"
proof (cases "update_user_row F i f d")
  case (Pair res d')
  show ?thesis
  proof (cases res)
    case (Inl e)
    then show ?thesis using Pair update_user_row_fails[of F i f d e d'] by simp
  next
    case (Inr u)
    then obtain r where d': "d' = d\<lparr>users := (users d)\<lparr>rows := map (\<lambda>r. if u_id r = i then f r else r) (rows (users d))\<rparr>\<rparr>"
      using update_user_row_run[of F i f d u d'] Pair by blast
    have "web_wf d'" if wf: "web_wf d"
      using users_wf_update[OF _ Pair[unfolded Inr] assms(1)] wf assms(2)
      by (auto simp: web_wf_def sessions_wf_def d' split: if_splits)
    moreover have "versions_grow d d'" if "web_wf d"
      unfolding versions_grow_def
    proof
      fix r assume r: "r \<in> set (rows (users d))"
      then have "(if u_id r = i then f r else r) \<in> set (rows (users d'))" by (auto simp: d')
      moreover have "u_id (if u_id r = i then f r else r) = u_id r
          \<and> u_session_version r \<le> u_session_version (if u_id r = i then f r else r)"
        using assms(1) assms(2)[OF r _ that] by simp
      ultimately show "\<exists>u' \<in> set (rows (users d')). u_id u' = u_id r \<and> u_session_version r \<le> u_session_version u'" by blast
    qed
    moreover have "dead_jti j d'" if "dead_jti j d" for j using that by (simp add: dead_jti_def d')
    ultimately show ?thesis by (simp add: web_safe_def Pair)
  qed
qed

lemma next_session_version: "v < 2 ^ 63 \<Longrightarrow> v \<le> next_session_version v" "next_session_version v < 2 ^ 63"
  by (simp_all add: next_session_version_def)

text \<open>The password of a user that was read from the same state.\<close>

lemma find_user_by_id_Inr: "find_user_by_id i d = Inr u \<Longrightarrow> u \<in> set (rows (users d)) \<and> u_id u = i"
  by (auto simp: find_user_by_id_def split: option.splits dest: select_one_Some)

lemma web_safe_password:
  assumes "find_user_by_id i d = Inr u"
  shows "web_safe I d (snd (update_password_in_connection F now u new d))"
proof -
  have u: "u \<in> set (rows (users d))" "u_id u = i" using find_user_by_id_Inr[OF assms] by blast+
  have row: "web_safe I d (snd (update_user_row F (u_id u) (\<lambda>r. r\<lparr>u_password_hash := h, u_must_change_password := False,
       u_session_version := next_session_version (u_session_version u), u_updated_at := now\<rparr>) d))" for h
  proof (rule web_safe_user)
    fix r assume r: "r \<in> set (rows (users d))" "u_id r = u_id u" "web_wf d"
    then have "r = u" using u keys_ok_inj[of u_id "users d" r u] by (auto simp: web_wf_def users_wf_def)
    then show "u_session_version r \<le> u_session_version (r\<lparr>u_password_hash := h, u_must_change_password := False,
        u_session_version := next_session_version (u_session_version u), u_updated_at := now\<rparr>)
      \<and> u_session_version (r\<lparr>u_password_hash := h, u_must_change_password := False,
        u_session_version := next_session_version (u_session_version u), u_updated_at := now\<rparr>) < 2 ^ 63"
      using r(3) u(1) next_session_version[of "u_session_version u"] by (simp add: web_wf_def)
  qed simp
  show ?thesis
    unfolding update_password_in_connection_def
    by (auto simp: bnd_def check_def row split: sum.splits prod.splits)
qed

lemma create_token_pair_jti:
  "create_token_pair F K policy now j i u v sid pc = Inr tokens \<Longrightarrow> it_refresh_jti tokens = j"
  by (auto simp: create_token_pair_def split: sum.splits prod.splits)

lemma web_safe_issue:
  assumes "fst J \<in> I" shows "web_safe I d (snd (issue_tokens F K policy now J u req d))"
  unfolding issue_tokens_def persist_auth_session_def
  by (intro web.bnd_check web.bnd web_safe_create web.reads) (use create_token_pair_jti assms in fastforce)

lemma web_safe_rotate_tokens:
  assumes "fst J \<in> I" shows "web_safe I d (snd (rotate_tokens F K policy now J u session req d))"
  unfolding rotate_tokens_def
  by (intro web.bnd_check web.bnd web.branch web_safe_rotate web.reads) (use create_token_pair_jti assms in fastforce)

lemma web_safe_login:
  assumes "fst J \<in> I" shows "web_safe I d (snd (web_login F K policy sr now J identifier password req d))"
  unfolding web_login_def by (intro web.branch web.bnd web.reads web_safe_issue[OF assms] web_safe_audit)

lemma web_safe_refresh:
  assumes "fst J \<in> I" shows "web_safe I d (snd (web_refresh F K policy sr now J token req d))"
  unfolding web_refresh_def by (intro web.branch web.bnd web.reads web_safe_rotate_tokens[OF assms] web_safe_audit)

lemma web_safe_logout: "web_safe I d (snd (logout K sr now token req d))"
  unfolding logout_def revoke_by_refresh_jti_def
  by (auto split: sum.split aster_error.split option.split
      intro!: web.branch web.bnd web.reads web_safe_revoke web_safe_audit)

lemma web_safe_revoke_session: "web_safe I d (snd (revoke_session K sr now u sid tok req d))"
  unfolding revoke_session_def revoke_by_id_for_user_def Let_def
  by (intro web.branch web.bnd web.reads web.commit web_safe_revoke web_safe_audit)

lemma web_safe_revoke_others: "web_safe I d (snd (revoke_other_sessions K sr now u tok req d))"
  unfolding revoke_other_sessions_def revoke_all_for_user_except_id_def
  by (intro web.branch web.bnd web.reads web.commit web_safe_revoke web_safe_audit)

lemma revoke_sessions_for_user_where:
  "revoke_sessions_for_user now u = revoke_sessions_where now (\<lambda>s. s_user_id s = u)"
  by (simp add: revoke_sessions_for_user_def revoke_sessions_where_def)

lemma verify_change_input_run:
  "verify_change_password_input F i cur new d = (Inr u, d') \<Longrightarrow> d' = d \<and> find_user_by_id i d = Inr u"
  by (auto simp: verify_change_password_input_def bnd_Inr query_eq check_eq ret_eq raise_def split: if_splits)

lemma verify_set_input_run:
  "verify_set_local_password_input F i new d = (Inr u, d') \<Longrightarrow> d' = d \<and> find_user_by_id i d = Inr u"
  by (auto simp: verify_set_local_password_input_def bnd_Inr query_eq check_eq ret_eq raise_def split: if_splits)

lemma web_safe_verify:
  "web_safe I d (snd (verify_change_password_input F i cur new d))"
  "web_safe I d (snd (verify_set_local_password_input F i new d))"
  unfolding verify_change_password_input_def verify_set_local_password_input_def
  by (intro web.bnd web.reads web.branch)+

lemma web_safe_change_password:
  "web_safe I d (snd (change_password F gravatar now i cur new d))"
  "web_safe I d (snd (set_local_password F gravatar now i new d))"
proof -
  have upd: "web_safe I d (snd (bnd (update_password_in_connection F now u new) (\<lambda>updated.
      bnd (revoke_sessions_for_user now (u_id updated)) (\<lambda>_. ret updated)) d))" if "find_user_by_id i d = Inr u" for u
    unfolding revoke_sessions_for_user_where
    by (intro web.bnd_run[where m = "update_password_in_connection F now u new"] web_safe_password[OF that] web.bnd
        web_safe_revoke web.reads)
  have run: "web_safe I d (snd (bnd (transaction (bnd m (\<lambda>u. bnd (update_password_in_connection F now u new) (\<lambda>updated.
      bnd (revoke_sessions_for_user now (u_id updated)) (\<lambda>_. ret updated))))) (\<lambda>updated. query (h updated)) d))"
    if "web_safe I d (snd (m d))" and "\<And>u d'. m d = (Inr u, d') \<Longrightarrow> d' = d \<and> find_user_by_id i d = Inr u"
    for m and h :: "user \<Rightarrow> db \<Rightarrow> auth_user_info result"
  proof (rule web.bnd_run, rule web.commit, rule web.bnd_run, rule that(1))
    fix u s1 assume "m d = (Inr u, s1)"
    then show "web_safe I s1 (snd (bnd (update_password_in_connection F now u new) (\<lambda>updated.
        bnd (revoke_sessions_for_user now (u_id updated)) (\<lambda>_. ret updated)) s1))"
      using that(2)[of u s1] upd by blast
  qed (rule web.reads)
  show "web_safe I d (snd (change_password F gravatar now i cur new d))"
    unfolding change_password_def by (rule run, rule web_safe_verify(1), rule verify_change_input_run)
  show "web_safe I d (snd (set_local_password F gravatar now i new d))"
    unfolding set_local_password_def by (rule run, rule web_safe_verify(2), rule verify_set_input_run)
qed

lemma web_safe_change_password_with_audit:
  "web_safe I d (snd (change_password_with_audit F gravatar sr now req i cur new d))"
  "web_safe I d (snd (set_local_password_with_audit F gravatar sr now req i new d))"
  unfolding change_password_with_audit_def set_local_password_with_audit_def
  by (intro web.bnd web_safe_change_password web_safe_audit web.reads)+

lemmas web_op_safe = web_safe_login web_safe_refresh web_safe_logout web_safe_revoke_session
  web_safe_revoke_others web_safe_delete web_safe_change_password_with_audit web_safe_issue

section \<open>Refreshing\<close>

text \<open>When a refresh token is accepted.\<close>

definition refreshable :: "jwt \<Rightarrow> time \<Rightarrow> string \<Rightarrow> db \<Rightarrow> access_claims \<Rightarrow> auth_session \<Rightarrow> user \<Rightarrow> bool" where
  "refreshable K now token d claims s u =
     (jwt_decode K now token = Inr claims \<and> ac_token_type claims = TokenRefresh
      \<and> ac_jti claims = Some (s_current_refresh_jti s) \<and> s \<in> set (rows (auth_sessions d))
      \<and> session_active now s \<and> s_user_id s = ac_claims_user_id claims
      \<and> find_user_by_id (ac_claims_user_id claims) d = Inr u \<and> user_status_is_active (u_status u)
      \<and> ac_session_version claims = u_session_version u
      \<and> \<not> u_must_change_password u \<and> \<not> ac_password_change claims)"

lemma find_by_refresh_jti_unique:
  assumes "sessions_wf d" and "s \<in> set (rows (auth_sessions d))"
  shows "find_by_refresh_jti (s_current_refresh_jti s) d = Some s"
  using assms by (simp add: find_by_refresh_jti_def select_one_def sessions_wf_def find_key)

lemma refresh_session_Inr:
  assumes "sessions_wf d"
  shows "refresh_session j d = Inr s \<longleftrightarrow>
    s \<in> set (rows (auth_sessions d)) \<and> s_current_refresh_jti s = j \<and> s_revoked_at s = None"
proof
  assume "refresh_session j d = Inr s"
  then have "find_by_refresh_jti j d = Some s \<and> s_revoked_at s = None"
    by (auto simp: refresh_session_def split: option.splits if_splits)
  then show "s \<in> set (rows (auth_sessions d)) \<and> s_current_refresh_jti s = j \<and> s_revoked_at s = None"
    by (auto simp: find_by_refresh_jti_def dest: select_one_Some)
next
  assume s: "s \<in> set (rows (auth_sessions d)) \<and> s_current_refresh_jti s = j \<and> s_revoked_at s = None"
  then show "refresh_session j d = Inr s"
    using find_by_refresh_jti_unique[OF assms, of s] by (simp add: refresh_session_def)
qed

lemma decode_claims_Inr: "decode_claims K now token = Inr c \<longleftrightarrow> jwt_decode K now token = Inr c"
  by (cases "jwt_decode K now token") (auto simp: decode_claims_def)

lemma web_refresh_split:
  assumes "sessions_wf d"
  shows "(\<exists>claims s u. refreshable K now token d claims s u
        \<and> web_refresh F K policy sr now J token req d =
          bnd (rotate_tokens F K policy now J u s req) (\<lambda>response.
          bnd (web_audit sr now req (u_id u) ''user_refresh_token'' ''auth_session'' None (Some (u_username u)) None) (\<lambda>_.
          ret response)) d)
    \<or> ((\<nexists>claims s u. refreshable K now token d claims s u) \<and> (\<exists>e. web_refresh F K policy sr now J token req d = (Inl e, d)))"
proof (cases "jwt_decode K now token")
  case (Inl e)
  then show ?thesis by (simp add: web_refresh_def refreshable_def decode_claims_def bnd_def check_def)
next
  case (Inr claims)
  note dec = this
  show ?thesis
  proof (cases "ac_token_type claims = TokenRefresh \<and> (\<exists>j. ac_jti claims = Some j)")
    case False
    then show ?thesis
      by (auto simp: web_refresh_def refreshable_def decode_claims_def bnd_def check_def dec ensure_token_type_def
          split: option.splits)
  next
    case True
    then obtain j where j: "ac_token_type claims = TokenRefresh" "ac_jti claims = Some j" by blast
    show ?thesis
    proof (cases "refresh_session j d")
      case (Inl e)
      then have "\<not> refreshable K now token d c s u" for c s u
        using refresh_session_Inr[OF assms, of j s] j dec by (auto simp: refreshable_def session_active_def)
      then show ?thesis
        by (simp add: web_refresh_def decode_claims_def bnd_def check_def query_def dec ensure_token_type_def j Inl)
    next
      case (Inr s)
      then have s: "s \<in> set (rows (auth_sessions d))" "s_current_refresh_jti s = j" "s_revoked_at s = None"
        using refresh_session_Inr[OF assms] by blast+
      have uniq: "s' = s" if "s' \<in> set (rows (auth_sessions d))" "s_current_refresh_jti s' = j" for s'
        using that s assms by (auto simp: sessions_wf_def distinct_map inj_on_def)
      note run = web_refresh_def decode_claims_def bnd_def check_def query_def raise_def dec ensure_token_type_def j Inr
      have sess: "refreshable K now token d c s' u \<Longrightarrow> c = claims \<and> s' = s" for c s' u
        using uniq[of s'] j(2) dec by (auto simp: refreshable_def)
      show ?thesis
      proof (cases "\<exists>u. refreshable K now token d claims s u")
        case True
        then obtain u where u: "refreshable K now token d claims s u" by blast
        then have "\<not> s_refresh_expires_at s \<le> now" "s_user_id s = ac_claims_user_id claims"
            "find_user_by_id (ac_claims_user_id claims) d = Inr u" "user_status_is_active (u_status u)"
            "ac_session_version claims = u_session_version u" "\<not> (u_must_change_password u \<or> ac_password_change claims)"
          by (simp_all add: refreshable_def session_active_def)
        then have "web_refresh F K policy sr now J token req d =
          bnd (rotate_tokens F K policy now J u s req) (\<lambda>response.
          bnd (web_audit sr now req (u_id u) ''user_refresh_token'' ''auth_session'' None (Some (u_username u)) None) (\<lambda>_.
          ret response)) d"
          by (simp add: run)
        then show ?thesis using u by blast
      next
        case False
        then have no: "\<nexists>claims s u. refreshable K now token d claims s u" using sess by blast
        have "\<exists>e. web_refresh F K policy sr now J token req d = (Inl e, d)"
          using False s
          by (cases "find_user_by_id (ac_claims_user_id claims) d")
            (auto simp: run refreshable_def session_active_def)
        then show ?thesis using no by blast
      qed
    qed
  qed
qed

text \<open>The clock is past 1970 and neither lifetime reaches beyond the last instant; the conversions work as
  documented.\<close>

definition clock_ok :: "forge \<Rightarrow> auth_policy \<Rightarrow> time \<Rightarrow> bool" where
  "clock_ok F policy now =
     (0 \<le> now \<and> now + secs (int (ap_access_token_ttl_secs policy)) \<le> max_datetime
      \<and> now + secs (int (ap_refresh_token_ttl_secs policy)) \<le> max_datetime
      \<and> conversions_ok F \<and> (\<forall>n l. 0 \<le> n \<longrightarrow> i64_to_u64 F n l = Inr (nat n)))"

definition claims_for :: "time \<Rightarrow> row_id \<Rightarrow> int \<Rightarrow> token_type \<Rightarrow> nat \<Rightarrow> string option \<Rightarrow> bool \<Rightarrow> access_claims" where
  "claims_for now user_id version ty ttl jti pc =
     \<lparr>ac_sub = show_int user_id, ac_claims_user_id = user_id, ac_session_version = version, ac_jti = jti,
      ac_password_change = pc, ac_token_type = ty, ac_exp = nat (now div 1000) + ttl\<rparr>"

lemma create_token_ok:
  assumes "jwt_ok K" and "0 \<le> now" and "now + secs (int ttl) \<le> max_datetime" and "conversions_ok F"
    and "\<forall>n l. 0 \<le> n \<longrightarrow> i64_to_u64 F n l = Inr (nat n)"
  shows "\<exists>tok. create_token F K now u v ty ttl jti pc = Inr (tok, now + secs (int ttl))
    \<and> jwt_encode K (claims_for now u v ty ttl jti pc) = Inr tok"
proof -
  obtain tok where tok: "jwt_encode K (claims_for now u v ty ttl jti pc) = Inr tok"
    using assms(1) unfolding jwt_ok_def by blast
  have now: "0 \<le> now div 1000" "now div 1000 * 1000 \<le> now" using assms(2) by simp_all
  have ttl: "int ttl * 1000 \<le> 8210266876799999" "now \<le> 8210266876799999"
    using assms(2,3) by (simp_all add: secs_def max_datetime_def)
  then have small: "ttl < 2 ^ 63" "\<not> int ttl > max_duration_secs" "nat (now div 1000) + ttl < 2 ^ 64"
    using now by (simp_all add: max_duration_secs_def)
  then have conv: "u64_to_i64 F ttl l = Inr (int ttl)" "u64_to_usize F (nat (now div 1000) + ttl) l = Inr (nat (now div 1000) + ttl)" for l
    using assms(4) unfolding conversions_ok_def by blast+
  have "i64_to_u64 F (now div 1000) l = Inr (nat (now div 1000))" for l using assms(5) now(1) by blast
  then show ?thesis
    using tok small conv assms(3)
    by (simp add: create_token_def utils_result_def jwt_expires_at_def claims_for_def)
qed

lemma create_token_pair_ok:
  assumes "jwt_ok K" and "clock_ok F policy now"
  shows "\<exists>tokens. create_token_pair F K policy now j i u v sid pc = Inr tokens
    \<and> it_refresh_jti tokens = j \<and> it_refresh_expires_at tokens = now + secs (int (ap_refresh_token_ttl_secs policy))
    \<and> jwt_encode K (claims_for now u v TokenRefresh (ap_refresh_token_ttl_secs policy) (Some j) pc) = Inr (it_refresh_token tokens)
    \<and> jwt_encode K (claims_for now u v TokenAccess (ap_access_token_ttl_secs policy) None pc) = Inr (it_access_token tokens)"
proof -
  note c = assms(2)[unfolded clock_ok_def]
  obtain a where a: "create_token F K now u v TokenAccess (ap_access_token_ttl_secs policy) None pc
      = Inr (a, now + secs (int (ap_access_token_ttl_secs policy)))"
      "jwt_encode K (claims_for now u v TokenAccess (ap_access_token_ttl_secs policy) None pc) = Inr a"
    using create_token_ok[OF assms(1), of now "ap_access_token_ttl_secs policy" F] c by blast
  obtain r where r: "create_token F K now u v TokenRefresh (ap_refresh_token_ttl_secs policy) (Some j) pc
      = Inr (r, now + secs (int (ap_refresh_token_ttl_secs policy)))"
      "jwt_encode K (claims_for now u v TokenRefresh (ap_refresh_token_ttl_secs policy) (Some j) pc) = Inr r"
    using create_token_ok[OF assms(1), of now "ap_refresh_token_ttl_secs policy" F] c by blast
  show ?thesis using a r by (simp add: create_token_pair_def)
qed

lemma unique_count:
  assumes "distinct (map k xs)" and "x \<in> set xs" and "p x" and "\<And>y. p y \<Longrightarrow> k y = k x"
  shows "length (filter p xs) = 1"
proof -
  have "filter p xs = [x]"
  proof -
    have "set (filter p xs) = {x}" using assms by (auto simp: distinct_map inj_on_def)
    moreover have "distinct (filter p xs)" using assms(1) by (simp add: distinct_map)
    ultimately show ?thesis using distinct_card[of "filter p xs"] by (cases "filter p xs"; cases "tl (filter p xs)") auto
  qed
  then show ?thesis by simp
qed

lemma rotate_tokens_ok:
  assumes "jwt_ok K" and "clock_ok F policy now" and "sessions_wf d"
    and "s \<in> set (rows (auth_sessions d))" and "s_revoked_at s = None"
    and "\<forall>r \<in> set (rows (auth_sessions d)). s_current_refresh_jti r \<noteq> fst J"
  shows "\<exists>b ip ua. rotate_tokens F K policy now J u s req d =
      (Inr b, d\<lparr>auth_sessions := (auth_sessions d)\<lparr>rows := map (\<lambda>r. if s_current_refresh_jti r = s_current_refresh_jti s
          then r\<lparr>s_current_refresh_jti := fst J, s_previous_refresh_jti := Some (s_current_refresh_jti s),
            s_refresh_expires_at := now + secs (int (ap_refresh_token_ttl_secs policy)), s_ip_address := ip,
            s_user_agent := ua, s_last_seen_at := now\<rparr> else r) (rows (auth_sessions d))\<rparr>\<rparr>)
    \<and> jwt_encode K (claims_for now (u_id u) (u_session_version u) TokenRefresh (ap_refresh_token_ttl_secs policy)
          (Some (fst J)) False) = Inr (tb_refresh_token b)"
proof -
  obtain tokens where tk: "create_token_pair F K policy now (fst J) (snd J) (u_id u) (u_session_version u) (Some (s_id s)) False = Inr tokens"
    "it_refresh_jti tokens = fst J" "it_refresh_expires_at tokens = now + secs (int (ap_refresh_token_ttl_secs policy))"
    "jwt_encode K (claims_for now (u_id u) (u_session_version u) TokenRefresh (ap_refresh_token_ttl_secs policy)
          (Some (fst J)) False) = Inr (it_refresh_token tokens)"
    using create_token_pair_ok[OF assms(1,2)] by blast
  define ip where "ip = (case peer_ip req of None \<Rightarrow> s_ip_address s | Some ip \<Rightarrow> Some ip)"
  define ua where "ua = (case user_agent req of None \<Rightarrow> s_user_agent s | Some ua \<Rightarrow> Some ua)"
  define f where "f r = r\<lparr>s_current_refresh_jti := fst J, s_previous_refresh_jti := Some (s_current_refresh_jti s),
            s_refresh_expires_at := now + secs (int (ap_refresh_token_ttl_secs policy)), s_ip_address := ip,
            s_user_agent := ua, s_last_seen_at := now\<rparr>" for r :: auth_session
  let ?xs = "rows (auth_sessions d)"
  have jtis: "distinct (map s_current_refresh_jti ?xs)" using assms(3) by (simp add: sessions_wf_def)
  have hit: "s_current_refresh_jti r = s_current_refresh_jti s \<and> s_revoked_at r = None \<longleftrightarrow> s_current_refresh_jti r = s_current_refresh_jti s"
    if "r \<in> set ?xs" for r
  proof -
    have "r = s" if "s_current_refresh_jti r = s_current_refresh_jti s"
      using that \<open>r \<in> set ?xs\<close> assms(4) jtis by (auto simp: distinct_map inj_on_def)
    then show ?thesis using assms(5) by blast
  qed
  then have rows: "map (\<lambda>r. if s_current_refresh_jti r = s_current_refresh_jti s \<and> s_revoked_at r = None then f r else r) ?xs
      = map (\<lambda>r. if s_current_refresh_jti r = s_current_refresh_jti s then f r else r) ?xs"
    by (intro map_cong) auto
  have "map s_current_refresh_jti (map (\<lambda>r. if s_current_refresh_jti r = s_current_refresh_jti s then f r else r) ?xs)
      = map (\<lambda>r. if s_current_refresh_jti r = s_current_refresh_jti s then fst J else s_current_refresh_jti r) ?xs"
    by (simp add: f_def)
  then have uniq: "distinct (map s_current_refresh_jti (map (\<lambda>r. if s_current_refresh_jti r = s_current_refresh_jti s then f r else r) ?xs))"
    using distinct_map_replace[OF jtis assms(4) jtis, where g' = "\<lambda>_. fst J"] assms(6) by (simp only:) blast
  have one: "count_rows (\<lambda>r. s_current_refresh_jti r = s_current_refresh_jti s \<and> s_revoked_at r = None) (auth_sessions d) = 1"
    unfolding count_rows_def by (rule unique_count[OF jtis assms(4)]) (use assms(5) in auto)
  have "rotate_refresh F (s_current_refresh_jti s) (fst J) (now + secs (int (ap_refresh_token_ttl_secs policy))) ip ua now d
      = (Inr True, d\<lparr>auth_sessions := (auth_sessions d)\<lparr>rows := map (\<lambda>r. if s_current_refresh_jti r = s_current_refresh_jti s then f r else r) ?xs\<rparr>\<rparr>)"
    using uniq one unfolding rotate_refresh_def statement_def update_many_def Let_def f_def[symmetric] by (simp add: rows)
  then have "rotate_tokens F K policy now J u s req d =
      (Inr \<lparr>tb_access_token = it_access_token tokens, tb_refresh_token = it_refresh_token tokens,
          tb_expires_in = it_access_expires_in tokens, tb_status = Authenticated, tb_user = auth_user_info_from u\<rparr>,
       d\<lparr>auth_sessions := (auth_sessions d)\<lparr>rows := map (\<lambda>r. if s_current_refresh_jti r = s_current_refresh_jti s then f r else r) ?xs\<rparr>\<rparr>)"
    unfolding rotate_tokens_def ip_def[symmetric] ua_def[symmetric] by (simp add: bnd_def check_def ret_def tk)
  then show ?thesis
    using tk(4) unfolding f_def
    by (intro exI[of _ "\<lparr>tb_access_token = it_access_token tokens, tb_refresh_token = it_refresh_token tokens,
          tb_expires_in = it_access_expires_in tokens, tb_status = Authenticated, tb_user = auth_user_info_from u\<rparr>"]
        exI[of _ ip] exI[of _ ua]) simp
qed

lemma web_audit_only: "fst (web_audit sr now req u a et ei en det d) = Inr ()"
    "auth_sessions (snd (web_audit sr now req u a et ei en det d)) = auth_sessions d"
    "users (snd (web_audit sr now req u a et ei en det d)) = users d"
  by (simp_all add: web_audit_def modify_def log_with_details_def record_prechecked_def)

lemma refreshable_same:
  assumes "auth_sessions d' = auth_sessions d" and "users d' = users d"
  shows "refreshable K now token d' = refreshable K now token d"
  using assms by (simp add: refreshable_def find_user_by_id_def fun_eq_iff)

text \<open>A refresh that is accepted: the rotated row replaces the session's, nothing else changes but the trail.\<close>

lemma web_refresh_accepted:
  assumes "jwt_ok K" and "clock_ok F policy now" and "sessions_wf d"
    and "\<forall>r \<in> set (rows (auth_sessions d)). s_current_refresh_jti r \<noteq> fst J"
    and "refreshable K now token d claims s u"
  shows "\<exists>b ip ua d'. web_refresh F K policy sr now J token req d = (Inr b, d')
    \<and> users d' = users d
    \<and> rows (auth_sessions d') = map (\<lambda>r. if s_current_refresh_jti r = s_current_refresh_jti s
          then r\<lparr>s_current_refresh_jti := fst J, s_previous_refresh_jti := Some (s_current_refresh_jti s),
            s_refresh_expires_at := now + secs (int (ap_refresh_token_ttl_secs policy)), s_ip_address := ip,
            s_user_agent := ua, s_last_seen_at := now\<rparr> else r) (rows (auth_sessions d))
    \<and> jwt_encode K (claims_for now (u_id u) (u_session_version u) TokenRefresh (ap_refresh_token_ttl_secs policy)
          (Some (fst J)) False) = Inr (tb_refresh_token b)"
proof -
  from web_refresh_split[OF assms(3), of K now token F policy sr J req] assms(5) obtain c s' u' where
    r: "refreshable K now token d c s' u'" and run: "web_refresh F K policy sr now J token req d =
          bnd (rotate_tokens F K policy now J u' s' req) (\<lambda>response.
          bnd (web_audit sr now req (u_id u') ''user_refresh_token'' ''auth_session'' None (Some (u_username u')) None) (\<lambda>_.
          ret response)) d" by blast
  have "c = claims" "s_current_refresh_jti s' = s_current_refresh_jti s" using r assms(5) by (auto simp: refreshable_def)
  moreover from this have "s' = s" "u' = u"
    using r assms(3,5) by (auto simp: refreshable_def sessions_wf_def distinct_map inj_on_def)
  moreover have "s \<in> set (rows (auth_sessions d))" "s_revoked_at s = None"
    using assms(5) by (auto simp: refreshable_def session_active_def)
  ultimately obtain b ip ua where rot: "rotate_tokens F K policy now J u' s' req d =
      (Inr b, d\<lparr>auth_sessions := (auth_sessions d)\<lparr>rows := map (\<lambda>r. if s_current_refresh_jti r = s_current_refresh_jti s
          then r\<lparr>s_current_refresh_jti := fst J, s_previous_refresh_jti := Some (s_current_refresh_jti s),
            s_refresh_expires_at := now + secs (int (ap_refresh_token_ttl_secs policy)), s_ip_address := ip,
            s_user_agent := ua, s_last_seen_at := now\<rparr> else r) (rows (auth_sessions d))\<rparr>\<rparr>)"
    and enc: "jwt_encode K (claims_for now (u_id u) (u_session_version u) TokenRefresh (ap_refresh_token_ttl_secs policy)
          (Some (fst J)) False) = Inr (tb_refresh_token b)"
    using rotate_tokens_ok[OF assms(1-3) _ _ assms(4), of s u req] by blast
  define d' where "d' = snd (web_audit sr now req (u_id u') ''user_refresh_token'' ''auth_session'' None
      (Some (u_username u')) None (snd (rotate_tokens F K policy now J u' s' req d)))"
  have "web_refresh F K policy sr now J token req d = (Inr b, d')"
    unfolding run d'_def by (simp add: bnd_def rot ret_def web_audit_def modify_def)
  moreover have "users d' = users d" "auth_sessions d' = auth_sessions (snd (rotate_tokens F K policy now J u' s' req d))"
    by (simp_all add: d'_def web_audit_only rot)
  ultimately show ?thesis
    using enc by (intro exI[of _ b] exI[of _ ip] exI[of _ ua] exI[of _ d']) (simp add: rot)
qed

text \<open>C5. \<open>auth_service::refresh\<close>, exactly: with a fresh token id it refuses, and changes nothing, if and only
  if the token is not accepted; when it is, the token can never be used again in the new state, the token it
  returns can be, for the whole refresh lifetime, for the same session and user, and every other session is as
  it was.\<close>

theorem web_refresh_exact:
  assumes "jwt_ok K" and "clock_ok F policy now" and "sessions_wf d"
    and "\<forall>r \<in> set (rows (auth_sessions d)). s_current_refresh_jti r \<noteq> fst J"
  shows "case web_refresh F K policy sr now J token req d of
      (Inl e, d') \<Rightarrow> d' = d \<and> (\<nexists>claims s u. refreshable K now token d claims s u)
    | (Inr b, d') \<Rightarrow>
        (\<exists>claims s u. refreshable K now token d claims s u
          \<and> (\<forall>later c r v. \<not> refreshable K later token d' c r v)
          \<and> (\<forall>later < secs (now div 1000 + int (ap_refresh_token_ttl_secs policy)).
               \<exists>c r. s_id r = s_id s \<and> refreshable K later (tb_refresh_token b) d' c r u)
          \<and> (\<forall>r \<in> set (rows (auth_sessions d)). s_id r \<noteq> s_id s \<longrightarrow> r \<in> set (rows (auth_sessions d'))))"
proof (cases "\<exists>claims s u. refreshable K now token d claims s u")
  case False
  then show ?thesis using web_refresh_split[OF assms(3), of K now token F policy sr J req] by auto
next
  case True
  then obtain claims s u where acc: "refreshable K now token d claims s u" by blast
  obtain b ip ua d' where run: "web_refresh F K policy sr now J token req d = (Inr b, d')" and us: "users d' = users d"
    and rs: "rows (auth_sessions d') = map (\<lambda>r. if s_current_refresh_jti r = s_current_refresh_jti s
          then r\<lparr>s_current_refresh_jti := fst J, s_previous_refresh_jti := Some (s_current_refresh_jti s),
            s_refresh_expires_at := now + secs (int (ap_refresh_token_ttl_secs policy)), s_ip_address := ip,
            s_user_agent := ua, s_last_seen_at := now\<rparr> else r) (rows (auth_sessions d))"
    and enc: "jwt_encode K (claims_for now (u_id u) (u_session_version u) TokenRefresh (ap_refresh_token_ttl_secs policy)
          (Some (fst J)) False) = Inr (tb_refresh_token b)"
    using web_refresh_accepted[OF assms acc, of sr req] by blast
  have s: "s \<in> set (rows (auth_sessions d))" "ac_jti claims = Some (s_current_refresh_jti s)" "s_revoked_at s = None"
      "s_user_id s = u_id u" "find_user_by_id (u_id u) d = Inr u" "jwt_decode K now token = Inr claims"
      "user_status_is_active (u_status u)" "\<not> u_must_change_password u"
    using acc find_user_by_id_Inr[of "ac_claims_user_id claims" d u] by (auto simp: refreshable_def session_active_def)
  have "\<not> refreshable K later token d' c r v" for later c r v
  proof
    assume r: "refreshable K later token d' c r v"
    then have "c = claims" using assms(1) s(6) unfolding jwt_ok_def refreshable_def by blast
    then have "s_current_refresh_jti r = s_current_refresh_jti s" "r \<in> set (rows (auth_sessions d'))"
      using r s(2) by (auto simp: refreshable_def)
    then show False using assms(4) s(1) by (auto simp: rs split: if_splits)
  qed
  moreover have "\<exists>c r. s_id r = s_id s \<and> refreshable K later (tb_refresh_token b) d' c r u"
    if later: "later < secs (now div 1000 + int (ap_refresh_token_ttl_secs policy))" for later
  proof -
    let ?c = "claims_for now (u_id u) (u_session_version u) TokenRefresh (ap_refresh_token_ttl_secs policy) (Some (fst J)) False"
    let ?r = "s\<lparr>s_current_refresh_jti := fst J, s_previous_refresh_jti := Some (s_current_refresh_jti s),
            s_refresh_expires_at := now + secs (int (ap_refresh_token_ttl_secs policy)), s_ip_address := ip,
            s_user_agent := ua, s_last_seen_at := now\<rparr>"
    have now: "0 \<le> now div 1000" "now div 1000 * 1000 \<le> now" using assms(2) by (auto simp: clock_ok_def)
    then have "later \<le> secs (int (ac_exp ?c))" "later < now + secs (int (ap_refresh_token_ttl_secs policy))"
      using later by (simp_all add: claims_for_def secs_def distrib_right)
    moreover from this(1) have "jwt_decode K later (tb_refresh_token b) = Inr ?c"
      using assms(1) enc unfolding jwt_ok_def by blast
    moreover have "?r \<in> set (rows (auth_sessions d'))" unfolding rs using s(1) by force
    moreover have "find_user_by_id (u_id u) d' = Inr u" using s(5) us by (simp add: find_user_by_id_def)
    ultimately have "refreshable K later (tb_refresh_token b) d' ?c ?r u"
      using s by (simp add: refreshable_def claims_for_def session_active_def)
    then show ?thesis by (intro exI[of _ ?c] exI[of _ ?r]) simp
  qed
  moreover have "r \<in> set (rows (auth_sessions d'))" if "r \<in> set (rows (auth_sessions d))" "s_id r \<noteq> s_id s" for r
  proof -
    have "s_current_refresh_jti r \<noteq> s_current_refresh_jti s"
      using that s(1) assms(3) by (auto simp: sessions_wf_def distinct_map inj_on_def)
    then show ?thesis unfolding rs using that(1) by force
  qed
  ultimately show ?thesis
    using acc unfolding run prod.case sum.case by (intro exI[of _ claims] exI[of _ s] exI[of _ u]) blast
qed

text \<open>A signer for the sample runs: a token is a run of one letter whose length numbers its claims.\<close>

definition claims_code :: "access_claims \<Rightarrow> nat" where
  "claims_code c = list_encode
     [list_encode (map of_char (ac_sub c)), int_encode (ac_claims_user_id c), int_encode (ac_session_version c),
      (case ac_jti c of None \<Rightarrow> 0 | Some j \<Rightarrow> Suc (list_encode (map of_char j))),
      of_bool (ac_password_change c), of_bool (ac_token_type c = TokenRefresh), ac_exp c]"

definition claims_of :: "nat \<Rightarrow> access_claims" where
  "claims_of n = (let xs = list_decode n in
     \<lparr>ac_sub = map char_of (list_decode (xs ! 0)), ac_claims_user_id = int_decode (xs ! 1),
      ac_session_version = int_decode (xs ! 2),
      ac_jti = (case xs ! 3 of 0 \<Rightarrow> None | Suc k \<Rightarrow> Some (map char_of (list_decode k))),
      ac_password_change = (xs ! 4 = 1), ac_token_type = (if xs ! 5 = 1 then TokenRefresh else TokenAccess),
      ac_exp = xs ! 6\<rparr>)"

lemma claims_of_code: "claims_of (claims_code c) = c"
proof -
  have chars: "map (char_of \<circ> of_char) s = s" for s :: string by (induction s) simp_all
  show ?thesis
    by (cases c; cases "ac_token_type c") (simp_all add: claims_of_def claims_code_def Let_def chars split: option.split)
qed

definition plain_jwt :: jwt where
  "plain_jwt =
     \<lparr>jwt_encode = (\<lambda>c. Inr (replicate (claims_code c) CHR ''t'')),
      jwt_decode = (\<lambda>now token.
        if token \<noteq> replicate (length token) CHR ''t'' then Inl (OtherJwtError ''InvalidToken'')
        else if secs (int (ac_exp (claims_of (length token)))) < now then Inl ExpiredSignature
        else Inr (claims_of (length token)))\<rparr>"

lemma plain_jwt_ok: "jwt_ok plain_jwt"
  by (auto simp: jwt_ok_def plain_jwt_def claims_of_code split: if_splits)

definition plain_policy :: auth_policy where
  "plain_policy = \<lparr>ap_allow_user_registration = True, ap_allow_local_registration = True, ap_allow_local_login = True,
     ap_register_activation_enabled = True, ap_access_token_ttl_secs = 900, ap_refresh_token_ttl_secs = 604800\<rparr>"

definition plain_request :: http_request where
  "plain_request = \<lparr>hr_user_agent = None, hr_peer_ip = Some ''10.0.0.1'', hr_realip = None\<rparr>"

definition sample_session :: auth_session where
  "sample_session = \<lparr>s_id = ''session-1'', s_user_id = 1, s_current_refresh_jti = ''jti-1'', s_previous_refresh_jti = None,
     s_refresh_expires_at = 604800000, s_user_agent = None, s_ip_address = None, s_created_at = 0, s_last_seen_at = 0,
     s_revoked_at = None\<rparr>"

definition signed_in_db :: db where
  "signed_in_db = sample_db\<lparr>auth_sessions := \<lparr>rows = [sample_session], next_id = 1\<rparr>\<rparr>"

definition sample_refresh_token :: string where
  "sample_refresh_token = replicate (claims_code (claims_for 0 1 (u_session_version sample_user) TokenRefresh 604800 (Some ''jti-1'') False)) CHR ''t''"

lemma plain_clock: "clock_ok plain_forge plain_policy 1000"
  by (simp add: clock_ok_def plain_policy_def secs_def max_datetime_def) (simp add: plain_forge_def)

lemma sample_refreshable:
  "refreshable plain_jwt 1000 sample_refresh_token signed_in_db
     (claims_for 0 1 (u_session_version sample_user) TokenRefresh 604800 (Some ''jti-1'') False) sample_session sample_user"
proof -
  let ?c = "claims_for 0 1 (u_session_version sample_user) TokenRefresh 604800 (Some ''jti-1'') False"
  have "jwt_encode plain_jwt ?c = Inr sample_refresh_token" by (simp add: plain_jwt_def sample_refresh_token_def)
  then have "jwt_decode plain_jwt 1000 sample_refresh_token = Inr ?c"
    using plain_jwt_ok unfolding jwt_ok_def by (auto simp: claims_for_def secs_def)
  then show ?thesis
    by (simp add: refreshable_def claims_for_def sample_session_def signed_in_db_def sample_db_def empty_db_def
        session_active_def find_user_by_id_def select_one_def sample_user_def user_status_is_active_def)
qed

theorem web_refresh_exact_witness:
  "\<exists>b d'. web_refresh plain_forge plain_jwt plain_policy (\<lambda>_. True) 1000 (''jti-2'', ''session-2'') sample_refresh_token
      plain_request signed_in_db = (Inr b, d')
    \<and> (\<forall>later c r v. \<not> refreshable plain_jwt later sample_refresh_token d' c r v)"
proof -
  have "sessions_wf signed_in_db" "\<forall>r \<in> set (rows (auth_sessions signed_in_db)). s_current_refresh_jti r \<noteq> fst (''jti-2'', ''session-2'')"
    by (simp_all add: sessions_wf_def signed_in_db_def sample_session_def)
  from web_refresh_exact[OF plain_jwt_ok plain_clock this, where sr = "\<lambda>_. True" and token = sample_refresh_token and req = plain_request]
  show ?thesis using sample_refreshable by (fastforce split: prod.splits sum.splits)
qed

end
