(* ===== verification/Accounts.thy ===== *)
theory Accounts
  imports Sessions
begin

text \<open>
  Accounts: registration, e-mail verification, password reset and e-mail change of \<open>auth_service.rs\<close>,
  \<open>contact_verification_token_repo.rs\<close>, \<open>mail_outbox_service::enqueue\<close> and the local e-mail policy.
\<close>

section \<open>What the operations read of the site\<close>

record contact_policy =
  cp_register_activation_ttl_secs :: nat
  cp_contact_change_ttl_secs :: nat
  cp_resend_cooldown_secs :: nat
  cp_password_reset_ttl_secs :: nat
  cp_password_reset_request_cooldown_secs :: nat

text \<open>\<open>EmailPolicyList\<close> and \<open>normalized_email_and_domain\<close> of \<open>aster_forge_validation\<close>.\<close>

record email_policy_list =
  el_is_empty :: bool
  el_matches :: "string \<Rightarrow> string \<Rightarrow> bool"

record local_email_policy =
  ep_allowlist :: email_policy_list
  ep_blocklist :: email_policy_list
  ep_split :: "string \<Rightarrow> string + string \<times> string"

text \<open>The runtime state: library code, the policies of the runtime configuration, the site's title, the
  generator of public UUIDs and \<open>join_origin_and_path\<close> with the configured public origins.\<close>

record account_env =
  ae_forge :: forge
  ae_jwt :: jwt
  ae_policy :: auth_policy
  ae_contact :: contact_policy
  ae_email :: local_email_policy
  ae_site_name :: string
  ae_new_uuid :: "(string \<Rightarrow> bool) \<Rightarrow> string result"
  ae_gravatar :: "string \<Rightarrow> nat \<Rightarrow> string"
  ae_should_record :: "string \<Rightarrow> bool"
  ae_invitation_ttl_secs :: nat
  ae_public_site_urls :: "string list"
  ae_join :: "string \<Rightarrow> string \<Rightarrow> string"

definition validation_result :: "string + 'a \<Rightarrow> 'a result" where
  "validation_result r = map_sum ValidationError id r"

definition email_blocked_error :: aster_error where
  "email_blocked_error = validation_error_code ''AuthEmailBlocked'' ''email address is blocked by local account policy''"

definition email_check :: "local_email_policy \<Rightarrow> string \<Rightarrow> unit result" where
  "email_check P email =
     (case validation_result (ep_split P email) of
        Inl e \<Rightarrow> Inl e
      | Inr (normalized, domain) \<Rightarrow>
          if el_matches (ep_blocklist P) normalized domain then Inl email_blocked_error
          else if \<not> el_is_empty (ep_allowlist P) \<and> \<not> el_matches (ep_allowlist P) normalized domain
          then Inl (validation_error_code ''AuthEmailNotAllowlisted''
                 ''email address is not allowed by local account policy'')
          else Inr ())"

definition email_check_not_blocked :: "local_email_policy \<Rightarrow> string \<Rightarrow> unit result" where
  "email_check_not_blocked P email =
     (case validation_result (ep_split P email) of
        Inl e \<Rightarrow> Inl e
      | Inr (normalized, domain) \<Rightarrow>
          if el_matches (ep_blocklist P) normalized domain then Inl email_blocked_error else Inr ())"

section \<open>Verification tokens\<close>

definition contact_verification_invalid :: "string \<Rightarrow> aster_error" where
  "contact_verification_invalid message = validation_error_code ''ContactVerificationInvalid'' message"

definition contact_verification_expired :: "string \<Rightarrow> aster_error" where
  "contact_verification_expired message = public_error 410 ''ContactVerificationExpired'' message"

definition rate_limited :: "string \<Rightarrow> aster_error" where
  "rate_limited message = public_error 429 ''RateLimited'' message"

text \<open>The token hash is unique.\<close>

definition contact_repo_create :: "forge \<Rightarrow> (row_id \<Rightarrow> contact_token) \<Rightarrow> (db, aster_error, contact_token) handler" where
  "contact_repo_create F model = statement (\<lambda>d.
     let (r, t) = insert_row model (contact_tokens d)
     in if \<exists>v \<in> set (rows (contact_tokens d)). ct_token_hash v = ct_token_hash r
        then Inl (DatabaseOperation (db_err_text F UniqueViolation))
        else Inr (r, d\<lparr>contact_tokens := t\<rparr>))"

definition find_contact_by_hash :: "string \<Rightarrow> db \<Rightarrow> contact_token option" where
  "find_contact_by_hash h d = select_one (\<lambda>t. ct_token_hash t = h) (contact_tokens d)"

definition find_latest_active_for_user ::
    "time \<Rightarrow> row_id \<Rightarrow> verification_channel \<Rightarrow> verification_purpose \<Rightarrow> db \<Rightarrow> contact_token option" where
  "find_latest_active_for_user now user_id channel purpose d =
     (case order_by_desc ct_created_at (select_all (\<lambda>t. ct_user_id t = user_id \<and> ct_channel t = channel
             \<and> ct_purpose t = purpose \<and> ct_consumed_at t = None \<and> ct_expires_at t > now) (contact_tokens d)) of
        [] \<Rightarrow> None | t # _ \<Rightarrow> Some t)"

definition delete_active_for_user ::
    "row_id \<Rightarrow> verification_channel \<Rightarrow> verification_purpose \<Rightarrow> (db, aster_error, unit) handler" where
  "delete_active_for_user user_id channel purpose = modify (\<lambda>d.
     d\<lparr>contact_tokens := snd (delete_many (\<lambda>t. ct_user_id t = user_id \<and> ct_channel t = channel
         \<and> ct_purpose t = purpose \<and> ct_consumed_at t = None) (contact_tokens d))\<rparr>)"

definition mark_consumed_if_unused :: "time \<Rightarrow> row_id \<Rightarrow> (db, aster_error, bool) handler" where
  "mark_consumed_if_unused now i = statement (\<lambda>d.
     let (n, t) = update_many (\<lambda>t. ct_id t = i \<and> ct_consumed_at t = None) (\<lambda>t. t\<lparr>ct_consumed_at := Some now\<rparr>)
           (contact_tokens d)
     in Inr (n = 1, d\<lparr>contact_tokens := t\<rparr>))"

definition delete_expired_contact_tokens :: "time \<Rightarrow> (db, aster_error, nat) handler" where
  "delete_expired_contact_tokens now = statement (\<lambda>d.
     let (n, t) = delete_many (\<lambda>t. ct_expires_at t < now) (contact_tokens d)
     in Inr (n, d\<lparr>contact_tokens := t\<rparr>))"

text \<open>\<open>now + Duration::seconds(n)\<close>, which panics out of range.\<close>

definition plus_seconds :: "time \<Rightarrow> int \<Rightarrow> time result" where
  "plus_seconds now n =
     (if n > max_duration_secs \<or> now + secs n > max_datetime then Inl Panicked else Inr (now + secs n))"

text \<open>\<open>short\<close> is a fresh short token.\<close>

definition build_verification_token :: "string \<Rightarrow> string" where
  "build_verification_token short = ''cv_'' @ short"

definition issue_contact_verification_token ::
    "forge \<Rightarrow> time \<Rightarrow> string \<Rightarrow> row_id \<Rightarrow> verification_purpose \<Rightarrow> string \<Rightarrow> nat \<Rightarrow> (db, aster_error, string) handler" where
  "issue_contact_verification_token F now short user_id purpose target ttl_secs =
     bnd (delete_active_for_user user_id ChannelEmail purpose) (\<lambda>_.
     bnd (check (case utils_result (u64_to_i64 F ttl_secs ''contact verification ttl'') of
                   Inl e \<Rightarrow> Inl e | Inr n \<Rightarrow> plus_seconds now n)) (\<lambda>expires_at.
     bnd (contact_repo_create F (\<lambda>i. \<lparr>ct_id = i, ct_user_id = user_id, ct_channel = ChannelEmail, ct_purpose = purpose,
            ct_target = target, ct_token_hash = sha256_hex F (build_verification_token short),
            ct_expires_at = expires_at, ct_consumed_at = None, ct_created_at = now\<rparr>)) (\<lambda>_.
     ret (build_verification_token short))))"

text \<open>\<open>mail_outbox_service::enqueue\<close>; the row that \<open>aster_forge_db\<close> stores is appended.\<close>

definition enqueue ::
    "time \<Rightarrow> string \<Rightarrow> string option \<Rightarrow> mail_template_payload \<Rightarrow> (db, aster_error, unit) handler" where
  "enqueue now to_address to_name payload = modify (\<lambda>d.
     d\<lparr>mail_outbox := mail_outbox d @ [\<lparr>mo_payload = payload, mo_to_address = to_address, mo_to_name = to_name,
         mo_next_attempt_at = now\<rparr>]\<rparr>)"

definition cooldown_passed :: "forge \<Rightarrow> time \<Rightarrow> nat \<Rightarrow> string \<Rightarrow> contact_token \<Rightarrow> bool result" where
  "cooldown_passed F now cooldown_secs label latest =
     (case utils_result (u64_to_i64 F cooldown_secs label) of
        Inl e \<Rightarrow> Inl e
      | Inr n \<Rightarrow> map_sum id (\<lambda>t. t \<le> now) (plus_seconds (ct_created_at latest) n))"

definition password_reset_request_allowed :: "account_env \<Rightarrow> time \<Rightarrow> row_id \<Rightarrow> db \<Rightarrow> bool result" where
  "password_reset_request_allowed A now user_id d =
     (case find_latest_active_for_user now user_id ChannelEmail PasswordReset d of
        None \<Rightarrow> Inr True
      | Some latest \<Rightarrow> cooldown_passed (ae_forge A) now (cp_password_reset_request_cooldown_secs (ae_contact A))
                         ''password reset request cooldown'' latest)"

definition register_activation_resend_allowed :: "account_env \<Rightarrow> time \<Rightarrow> row_id \<Rightarrow> db \<Rightarrow> bool result" where
  "register_activation_resend_allowed A now user_id d =
     (case find_latest_active_for_user now user_id ChannelEmail RegisterActivation d of
        None \<Rightarrow> Inr True
      | Some latest \<Rightarrow> cooldown_passed (ae_forge A) now (cp_resend_cooldown_secs (ae_contact A))
                         ''contact verification resend cooldown'' latest)"

section \<open>Creating accounts\<close>

definition validate_username :: "string \<Rightarrow> unit result" where
  "validate_username username =
     (let username = trim username in
      if length username < 4 then Inl (ValidationError ''username must be 4-16 characters'')
      else if length username > 16 then Inl (ValidationError ''username must be 4-16 characters'')
      else if \<not> list_all (\<lambda>c. is_ascii_alphanumeric c \<or> c = CHR ''_'' \<or> c = CHR ''-'') username
      then Inl (ValidationError ''username may only contain letters, numbers, underscores and hyphens'')
      else Inr ())"

definition validate_reserved_username :: "string \<Rightarrow> unit result" where
  "validate_reserved_username username =
     (case strip_prefix ''linuxdo_'' (trim username) of
        None \<Rightarrow> Inr ()
      | Some subject \<Rightarrow>
          if subject \<noteq> [] \<and> list_all is_ascii_digit subject
          then Inl (ValidationError ''username is reserved for LinuxDO identities'') else Inr ())"

definition validate_email :: "forge \<Rightarrow> string \<Rightarrow> unit result" where
  "validate_email F email = map_sum id (\<lambda>_. ()) (validation_result (normalize_email F email))"

definition validate_identity_input :: "forge \<Rightarrow> string \<Rightarrow> string \<Rightarrow> string \<Rightarrow> string result" where
  "validate_identity_input F username email password =
     (case validate_username username of
        Inl e \<Rightarrow> Inl e
      | Inr _ \<Rightarrow> (case validation_result (normalize_email F email) of
                    Inl e \<Rightarrow> Inl e
                  | Inr email \<Rightarrow> map_sum id (\<lambda>_. email) (validate_password password)))"

definition username_exists_error :: aster_error where
  "username_exists_error = validation_error_code ''AuthUsernameExists'' ''username already exists''"

definition email_exists_error :: aster_error where
  "email_exists_error = validation_error_code ''AuthEmailExists'' ''email already exists''"

definition ensure_username_available :: "string \<Rightarrow> row_id option \<Rightarrow> db \<Rightarrow> unit result" where
  "ensure_username_available username owner_user_id d =
     (if (case find_by_username_case_insensitive username d of None \<Rightarrow> False | Some u \<Rightarrow> Some (u_id u) \<noteq> owner_user_id)
      then Inl username_exists_error
      else if (case find_by_name username d of None \<Rightarrow> False | Some p \<Rightarrow> Some (p_user_id p) \<noteq> owner_user_id)
      then Inl username_exists_error
      else Inr ())"

definition service_create_user_with_options ::
    "account_env \<Rightarrow> time \<Rightarrow> string \<Rightarrow> string \<Rightarrow> string \<Rightarrow> user_role \<Rightarrow> user_status \<Rightarrow> bool \<Rightarrow> (db, aster_error, user) handler" where
  "service_create_user_with_options A now username email password role status must_change =
     bnd (check (validate_identity_input (ae_forge A) username email password)) (\<lambda>email.
     bnd (check (validate_reserved_username username)) (\<lambda>_.
     bnd (query (ensure_username_available username None)) (\<lambda>_.
     bnd (check (password_result (hash_password (ae_forge A) password))) (\<lambda>password_hash.
     create_with_options (ae_forge A) (ae_new_uuid A) now username email password_hash role status must_change))))"

definition service_create_user ::
    "account_env \<Rightarrow> time \<Rightarrow> string \<Rightarrow> string \<Rightarrow> string \<Rightarrow> user_role \<Rightarrow> (db, aster_error, user) handler" where
  "service_create_user A now username email password role =
     service_create_user_with_options A now username email password role UserActive False"

text \<open>The insert of \<open>shared::create_user_with_role\<close> and \<open>create_user_without_email_with_role\<close>.\<close>

definition insert_user :: "forge \<Rightarrow> (row_id \<Rightarrow> user) \<Rightarrow> (db, aster_error, user) handler" where
  "insert_user F model = statement (\<lambda>d.
     let (u, t) = insert_row model (users d)
     in if user_unique_ok u (users d) then Inr (u, d\<lparr>users := t\<rparr>)
        else Inl (DatabaseOperation (db_err_text F UniqueViolation)))"

record create_user_input =
  cu_username :: string
  cu_password :: string
  cu_role :: user_role
  cu_status :: user_status
  cu_must_change_password :: bool
  cu_allow_reserved_linuxdo_username :: bool

definition new_user :: "time \<Rightarrow> create_user_input \<Rightarrow> string option \<Rightarrow> time option \<Rightarrow> string \<Rightarrow> string \<Rightarrow> row_id \<Rightarrow> user" where
  "new_user now input email verified_at public_uuid password_hash i =
     \<lparr>u_id = i, u_public_uuid = public_uuid, u_username = cu_username input, u_email = email,
      u_password_hash = password_hash, u_role = cu_role input, u_status = cu_status input,
      u_must_change_password = cu_must_change_password input, u_session_version = 1,
      u_email_verified_at = verified_at, u_pending_email = None, u_created_at = now, u_updated_at = now\<rparr>"

definition check_reserved :: "create_user_input \<Rightarrow> unit result" where
  "check_reserved input =
     (if cu_allow_reserved_linuxdo_username input then Inr () else validate_reserved_username (cu_username input))"

definition create_user_with_role ::
    "account_env \<Rightarrow> time \<Rightarrow> create_user_input \<Rightarrow> string \<Rightarrow> time option \<Rightarrow> (db, aster_error, user) handler" where
  "create_user_with_role A now input email verified_at =
     bnd (check (validate_username (cu_username input))) (\<lambda>_.
     bnd (check (check_reserved input)) (\<lambda>_.
     bnd (check (validation_result (normalize_email (ae_forge A) email))) (\<lambda>email.
     bnd (check (validate_email (ae_forge A) email)) (\<lambda>_.
     bnd (check (validate_password (cu_password input))) (\<lambda>_.
     bnd (query (ensure_username_available (cu_username input) None)) (\<lambda>_.
     bnd (query (\<lambda>d. Inr (find_by_email email d \<noteq> None \<or> find_by_pending_email email d \<noteq> None))) (\<lambda>taken.
     if taken then raise email_exists_error else
     bnd (query (unique_public_uuid (ae_new_uuid A))) (\<lambda>public_uuid.
     bnd (check (password_result (hash_password (ae_forge A) (cu_password input)))) (\<lambda>password_hash.
     insert_user (ae_forge A) (new_user now input (Some email) verified_at public_uuid password_hash))))))))))"

definition create_user_without_email_with_role ::
    "account_env \<Rightarrow> time \<Rightarrow> create_user_input \<Rightarrow> (db, aster_error, user) handler" where
  "create_user_without_email_with_role A now input =
     bnd (check (validate_username (cu_username input))) (\<lambda>_.
     bnd (check (check_reserved input)) (\<lambda>_.
     bnd (check (validate_password (cu_password input))) (\<lambda>_.
     bnd (query (ensure_username_available (cu_username input) None)) (\<lambda>_.
     bnd (query (unique_public_uuid (ae_new_uuid A))) (\<lambda>public_uuid.
     bnd (check (password_result (hash_password (ae_forge A) (cu_password input)))) (\<lambda>password_hash.
     insert_user (ae_forge A) (new_user now input None None public_uuid password_hash)))))))"

section \<open>Registration\<close>

definition require_user_email :: "user \<Rightarrow> string result" where
  "require_user_email u =
     (case u_email u of None \<Rightarrow> Inl (ValidationError ''account does not have an email address'') | Some e \<Rightarrow> Inr e)"

definition ensure_email_available :: "string \<Rightarrow> row_id option \<Rightarrow> db \<Rightarrow> unit result" where
  "ensure_email_available email exclude_user_id d =
     (if (case find_by_email email d of None \<Rightarrow> False | Some u \<Rightarrow> Some (u_id u) \<noteq> exclude_user_id)
      then Inl email_exists_error
      else if (case find_by_pending_email email d of None \<Rightarrow> False | Some u \<Rightarrow> Some (u_id u) \<noteq> exclude_user_id)
      then Inl email_exists_error
      else Inr ())"

datatype register_outcome = RegisterAuthenticated auth_token_bundle | PendingActivation auth_user_info

fun register_response :: "register_outcome \<Rightarrow> nat \<times> bool" where
  "register_response (RegisterAuthenticated b) = (tb_expires_in b, False)"
| "register_response (PendingActivation u) = (0, True)"

definition register ::
    "account_env \<Rightarrow> time \<Rightarrow> string \<times> string \<Rightarrow> string \<Rightarrow> string \<Rightarrow> string \<Rightarrow> string \<Rightarrow> http_request \<Rightarrow>
     (db, aster_error, register_outcome) handler" where
  "register A now J short username email password req =
     (if \<not> ap_allow_user_registration (ae_policy A)
      then raise (auth_forbidden_code ''AuthRegistrationDisabled'' ''registration is disabled'') else
      if \<not> ap_allow_local_registration (ae_policy A)
      then raise (auth_forbidden_code ''AuthRegistrationDisabled'' ''local registration is disabled'') else
      bnd (check (email_check (ae_email A) email)) (\<lambda>_.
      bnd (query (\<lambda>d. Inr (count_all d = 0))) (\<lambda>is_first_user.
      let role = (if is_first_user then RoleAdmin else RoleUser);
          activation_required = (ap_register_activation_enabled (ae_policy A) \<and> \<not> is_first_user)
      in bnd (if activation_required
              then transaction
                (bnd (create_user_with_role A now \<lparr>cu_username = username, cu_password = password, cu_role = role,
                        cu_status = UserActive, cu_must_change_password = False,
                        cu_allow_reserved_linuxdo_username = False\<rparr> email None) (\<lambda>u.
                 bnd (check (require_user_email u)) (\<lambda>address.
                 bnd (issue_contact_verification_token (ae_forge A) now short (u_id u) RegisterActivation address
                        (cp_register_activation_ttl_secs (ae_contact A))) (\<lambda>token.
                 bnd (enqueue now address (Some (u_username u))
                        (MailRegisterActivation (u_username u) token (ae_site_name A))) (\<lambda>_.
                 ret u)))))
              else service_create_user A now username email password role) (\<lambda>u.
         bnd (web_audit (ae_should_record A) now req (u_id u) ''user_register'' ''user'' (Some (u_id u))
                (Some (u_username u)) None) (\<lambda>_.
         if activation_required then ret (PendingActivation (auth_user_info_from u))
         else bnd (issue_tokens (ae_forge A) (ae_jwt A) (ae_policy A) now J u req) (\<lambda>response.
              ret (RegisterAuthenticated response)))))))"

datatype register_activation_resend_outcome =
    ResendSent auth_user_info | ResendEmailNotFound | ResendAlreadyActive | ResendAccountDisabled
  | ResendCooldown | ResendEmailPolicyRejected

definition resend_register_activation ::
    "account_env \<Rightarrow> time \<Rightarrow> string \<Rightarrow> string \<Rightarrow> (db, aster_error, register_activation_resend_outcome) handler" where
  "resend_register_activation A now short identifier =
     bnd (query (\<lambda>d. Inr (find_by_identifier identifier d))) (\<lambda>found.
     case found of
       None \<Rightarrow> ret ResendEmailNotFound
     | Some u \<Rightarrow>
         if \<not> user_status_is_active (u_status u) then ret ResendAccountDisabled else
         if is_email_verified u then ret ResendAlreadyActive else
         bnd (check (require_user_email u)) (\<lambda>address.
         if isl (email_check (ae_email A) address) then ret ResendEmailPolicyRejected else
         bnd (query (register_activation_resend_allowed A now (u_id u))) (\<lambda>allowed.
         if \<not> allowed then ret ResendCooldown else
         bnd (transaction
                (bnd (issue_contact_verification_token (ae_forge A) now short (u_id u) RegisterActivation address
                        (cp_register_activation_ttl_secs (ae_contact A))) (\<lambda>token.
                 enqueue now address (Some (u_username u))
                   (MailRegisterActivation (u_username u) token (ae_site_name A))))) (\<lambda>_.
         ret (ResendSent (auth_user_info_from u))))))"

section \<open>Changing the e-mail address\<close>

definition must_be_activated :: aster_error where
  "must_be_activated = auth_forbidden_code ''AuthPendingActivation'' ''account must be activated before changing email''"

definition request_email_change ::
    "account_env \<Rightarrow> time \<Rightarrow> string \<Rightarrow> row_id \<Rightarrow> string \<Rightarrow> (db, aster_error, auth_user_info) handler" where
  "request_email_change A now short user_id new_email =
     bnd (check (validation_result (normalize_email (ae_forge A) new_email))) (\<lambda>normalized.
     bnd (query (find_user_by_id user_id)) (\<lambda>existing.
     if \<not> user_status_is_active (u_status existing) then raise user_disabled else
     if \<not> is_email_activation_satisfied existing then raise must_be_activated else
     if u_email existing = Some normalized
     then raise (ValidationError ''new email must be different from current email'') else
     bnd (check (email_check (ae_email A) normalized)) (\<lambda>_.
     bnd (query (ensure_email_available normalized (Some (u_id existing)))) (\<lambda>_.
     bnd (if u_pending_email existing = Some normalized
          then query (register_activation_resend_allowed A now (u_id existing)) else ret True) (\<lambda>allowed.
     if \<not> allowed then raise (rate_limited ''please wait before resending verification email'') else
     bnd (transaction
            (bnd (update_user_row (ae_forge A) (u_id existing)
                    (\<lambda>r. r\<lparr>u_pending_email := Some normalized, u_updated_at := now\<rparr>)) (\<lambda>updated.
             bnd (issue_contact_verification_token (ae_forge A) now short (u_id updated) ContactChange normalized
                    (cp_contact_change_ttl_secs (ae_contact A))) (\<lambda>token.
             bnd (enqueue now normalized (Some (u_username updated))
                    (MailContactChangeConfirmation (u_username updated) token (ae_site_name A))) (\<lambda>_.
             ret updated))))) (\<lambda>u.
     query (\<lambda>d. Inr (auth_user_info_of (ae_gravatar A) u d))))))))"

definition resend_email_change ::
    "account_env \<Rightarrow> time \<Rightarrow> string \<Rightarrow> row_id \<Rightarrow> (db, aster_error, auth_user_info option) handler" where
  "resend_email_change A now short user_id =
     bnd (query (find_user_by_id user_id)) (\<lambda>u.
     bnd (check (case u_pending_email u of None \<Rightarrow> Inl (ValidationError ''no pending email change request'')
                                         | Some e \<Rightarrow> Inr e)) (\<lambda>pending.
     if \<not> user_status_is_active (u_status u) then raise user_disabled else
     if \<not> is_email_activation_satisfied u then raise must_be_activated else
     bnd (check (email_check_not_blocked (ae_email A) pending)) (\<lambda>_.
     bnd (query (ensure_email_available pending (Some (u_id u)))) (\<lambda>_.
     bnd (query (register_activation_resend_allowed A now (u_id u))) (\<lambda>allowed.
     if \<not> allowed then ret None else
     bnd (transaction
            (bnd (issue_contact_verification_token (ae_forge A) now short (u_id u) ContactChange pending
                    (cp_contact_change_ttl_secs (ae_contact A))) (\<lambda>token.
             enqueue now pending (Some (u_username u))
               (MailContactChangeConfirmation (u_username u) token (ae_site_name A))))) (\<lambda>_.
     query (\<lambda>d. Inr (Some (auth_user_info_of (ae_gravatar A) u d)))))))))"

definition activate_email :: "forge \<Rightarrow> time \<Rightarrow> user \<Rightarrow> string \<Rightarrow> (db, aster_error, unit) handler" where
  "activate_email F now u target =
     (if u_email u \<noteq> Some target then raise (contact_verification_invalid ''contact verification target mismatch'') else
      if u_email_verified_at u = None
      then bnd (update_user_row F (u_id u) (\<lambda>r. r\<lparr>u_email_verified_at := Some now, u_updated_at := now\<rparr>)) (\<lambda>_. ret ())
      else ret ())"

definition change_email :: "account_env \<Rightarrow> time \<Rightarrow> user \<Rightarrow> string \<Rightarrow> (db, aster_error, unit) handler" where
  "change_email A now u target =
     (if u_email u \<noteq> Some target \<and> u_pending_email u \<noteq> Some target
      then raise (contact_verification_invalid ''contact change request no longer exists'') else
      bnd (query (ensure_email_available target (Some (u_id u)))) (\<lambda>_.
      if u_email u \<noteq> Some target
      then bnd (update_user_row (ae_forge A) (u_id u) (\<lambda>r. r\<lparr>u_email := Some target, u_pending_email := None,
                  u_email_verified_at := Some now, u_updated_at := now\<rparr>)) (\<lambda>_.
           bnd (check (require_user_email u)) (\<lambda>previous.
           enqueue now previous (Some (u_username u))
             (MailContactChangeNotice (u_username u) previous target (ae_site_name A))))
      else ret ()))"

record contact_confirm_result =
  cc_purpose :: verification_purpose
  cc_user_id :: row_id
  cc_target :: string

definition confirm_contact_verification ::
    "account_env \<Rightarrow> time \<Rightarrow> string \<Rightarrow> (db, aster_error, contact_confirm_result) handler" where
  "confirm_contact_verification A now token =
     bnd (query (\<lambda>d. case find_contact_by_hash (sha256_hex (ae_forge A) token) d of
                       None \<Rightarrow> Inl (contact_verification_invalid ''contact verification link is invalid'')
                     | Some r \<Rightarrow> Inr r)) (\<lambda>record.
     if ct_consumed_at record \<noteq> None
     then raise (contact_verification_invalid ''contact verification link has already been used'') else
     if ct_expires_at record \<le> now
     then raise (contact_verification_expired ''contact verification link has expired'') else
     bnd (transaction
            (bnd (query (find_user_by_id (ct_user_id record))) (\<lambda>u.
             if \<not> user_status_is_active (u_status u) then raise user_disabled else
             if ct_purpose record = PasswordReset
             then raise (contact_verification_invalid ''password reset token cannot be confirmed from this endpoint'') else
             bnd (mark_consumed_if_unused now (ct_id record)) (\<lambda>consumed.
             if \<not> consumed
             then raise (contact_verification_invalid ''contact verification link has already been used'') else
             case ct_purpose record of
               RegisterActivation \<Rightarrow> activate_email (ae_forge A) now u (ct_target record)
             | ContactChange \<Rightarrow> change_email A now u (ct_target record)
             | PasswordReset \<Rightarrow>
                 raise (contact_verification_invalid ''password reset token cannot be confirmed from this endpoint''))))) (\<lambda>_.
     ret \<lparr>cc_purpose = ct_purpose record, cc_user_id = ct_user_id record, cc_target = ct_target record\<rparr>))"

section \<open>Resetting a password\<close>

definition request_password_reset ::
    "account_env \<Rightarrow> time \<Rightarrow> string \<Rightarrow> string \<Rightarrow> (db, aster_error, auth_user_info option) handler" where
  "request_password_reset A now short email =
     bnd (check (validation_result (normalize_email (ae_forge A) email))) (\<lambda>normalized.
     bnd (query (\<lambda>d. Inr (find_by_email normalized d))) (\<lambda>found.
     case found of
       None \<Rightarrow> ret None
     | Some u \<Rightarrow>
         if \<not> user_status_is_active (u_status u) \<or> \<not> is_email_verified u then ret None else
         bnd (query (password_reset_request_allowed A now (u_id u))) (\<lambda>allowed.
         if \<not> allowed then query (\<lambda>d. Inr (Some (auth_user_info_of (ae_gravatar A) u d))) else
         bnd (transaction
                (bnd (check (require_user_email u)) (\<lambda>address.
                 bnd (issue_contact_verification_token (ae_forge A) now short (u_id u) PasswordReset address
                        (cp_password_reset_ttl_secs (ae_contact A))) (\<lambda>token.
                 enqueue now address (Some (u_username u))
                   (MailPasswordReset (u_username u) token (ae_site_name A)))))) (\<lambda>_.
         query (\<lambda>d. Inr (Some (auth_user_info_of (ae_gravatar A) u d)))))))"

definition confirm_password_reset ::
    "account_env \<Rightarrow> time \<Rightarrow> string \<Rightarrow> string \<Rightarrow> (db, aster_error, auth_user_info) handler" where
  "confirm_password_reset A now token new_password =
     bnd (check (validate_password new_password)) (\<lambda>_.
     bnd (query (\<lambda>d. case find_contact_by_hash (sha256_hex (ae_forge A) token) d of
                       None \<Rightarrow> Inl (contact_verification_invalid ''password reset link is invalid'')
                     | Some r \<Rightarrow> Inr r)) (\<lambda>record.
     if ct_purpose record \<noteq> PasswordReset
     then raise (contact_verification_invalid ''password reset link is invalid'') else
     if ct_consumed_at record \<noteq> None
     then raise (contact_verification_invalid ''password reset link has already been used'') else
     if ct_expires_at record \<le> now
     then raise (contact_verification_expired ''password reset link has expired'') else
     bnd (transaction
            (bnd (query (find_user_by_id (ct_user_id record))) (\<lambda>existing.
             if \<not> user_status_is_active (u_status existing) then raise user_disabled else
             if \<not> is_email_verified existing \<or> u_email existing \<noteq> Some (ct_target record)
             then raise (contact_verification_invalid ''password reset request no longer exists'') else
             bnd (mark_consumed_if_unused now (ct_id record)) (\<lambda>consumed.
             if \<not> consumed
             then raise (contact_verification_invalid ''password reset link has already been used'') else
             bnd (update_password_in_connection (ae_forge A) now existing new_password) (\<lambda>updated.
             bnd (check (require_user_email updated)) (\<lambda>address.
             bnd (enqueue now address (Some (u_username updated))
                    (MailPasswordResetNotice (u_username updated) (ae_site_name A))) (\<lambda>_.
             ret updated))))))) (\<lambda>updated.
     query (\<lambda>d. Inr (auth_user_info_of (ae_gravatar A) updated d)))))"

end
