(* ===== verification/Invitations.thy ===== *)
theory Invitations
  imports Accounts
begin

text \<open>
  Registration by invitation: \<open>user_invitation_service.rs\<close> and \<open>user_invitation_repo.rs\<close>.
\<close>

section \<open>Repository\<close>

text \<open>The token hash is unique.\<close>

definition invitation_repo_create ::
    "forge \<Rightarrow> (row_id \<Rightarrow> user_invitation) \<Rightarrow> (db, aster_error, user_invitation) handler" where
  "invitation_repo_create F model = statement (\<lambda>d.
     let (r, t) = insert_row model (user_invitations d)
     in if \<exists>v \<in> set (rows (user_invitations d)). iv_token_hash v = iv_token_hash r
        then Inl (DatabaseOperation (db_err_text F UniqueViolation))
        else Inr (r, d\<lparr>user_invitations := t\<rparr>))"

definition find_invitation_by_id :: "row_id \<Rightarrow> db \<Rightarrow> user_invitation result" where
  "find_invitation_by_id i d =
     (case select_one (\<lambda>v. iv_id v = i) (user_invitations d) of
        None \<Rightarrow> Inl (RecordNotFound (''user invitation #'' @ show_int i))
      | Some v \<Rightarrow> Inr v)"

definition find_invitation_by_hash :: "string \<Rightarrow> db \<Rightarrow> user_invitation option" where
  "find_invitation_by_hash h d = select_one (\<lambda>v. iv_token_hash v = h) (user_invitations d)"

definition find_pending_by_email :: "string \<Rightarrow> db \<Rightarrow> user_invitation list" where
  "find_pending_by_email email d =
     order_by_desc iv_created_at (select_all (\<lambda>v. iv_email v = email \<and> iv_status v = InvitationPending) (user_invitations d))"

definition update_invitations ::
    "(user_invitation \<Rightarrow> bool) \<Rightarrow> (user_invitation \<Rightarrow> user_invitation) \<Rightarrow> (db, aster_error, bool) handler" where
  "update_invitations p f = statement (\<lambda>d.
     let (n, t) = update_many p f (user_invitations d) in Inr (n = 1, d\<lparr>user_invitations := t\<rparr>))"

definition mark_revoked_if_pending :: "time \<Rightarrow> row_id \<Rightarrow> (db, aster_error, bool) handler" where
  "mark_revoked_if_pending now i =
     update_invitations (\<lambda>v. iv_id v = i \<and> iv_status v = InvitationPending)
       (\<lambda>v. v\<lparr>iv_status := InvitationRevoked, iv_updated_at := now, iv_revoked_at := Some now\<rparr>)"

definition mark_expired_if_pending :: "time \<Rightarrow> row_id \<Rightarrow> (db, aster_error, bool) handler" where
  "mark_expired_if_pending now i =
     update_invitations (\<lambda>v. iv_id v = i \<and> iv_status v = InvitationPending)
       (\<lambda>v. v\<lparr>iv_status := InvitationExpired, iv_updated_at := now\<rparr>)"

definition mark_accepted_if_pending :: "time \<Rightarrow> row_id \<Rightarrow> row_id \<Rightarrow> (db, aster_error, bool) handler" where
  "mark_accepted_if_pending now i accepted_user_id =
     update_invitations (\<lambda>v. iv_id v = i \<and> iv_status v = InvitationPending \<and> iv_expires_at v > now)
       (\<lambda>v. v\<lparr>iv_status := InvitationAccepted, iv_accepted_user_id := Some accepted_user_id,
              iv_accepted_at := Some now, iv_updated_at := now\<rparr>)"

section \<open>Service\<close>

definition invitation_invalid_error :: aster_error where
  "invitation_invalid_error = validation_error_code ''AuthInvitationInvalid'' ''invitation token is invalid''"

fun invitation_status_error :: "user_invitation_status \<Rightarrow> aster_error" where
  "invitation_status_error InvitationPending = validation_error_code ''AuthInvitationInvalid'' ''invitation is not usable''"
| "invitation_status_error InvitationAccepted =
     validation_error_code ''AuthInvitationAccepted'' ''invitation has already been accepted''"
| "invitation_status_error InvitationExpired = validation_error_code ''AuthInvitationExpired'' ''invitation has expired''"
| "invitation_status_error InvitationRevoked = validation_error_code ''AuthInvitationRevoked'' ''invitation has been revoked''"

definition current_invitation_status_error :: "row_id \<Rightarrow> db \<Rightarrow> aster_error" where
  "current_invitation_status_error i d =
     (case find_invitation_by_id i d of Inl e \<Rightarrow> e | Inr v \<Rightarrow> invitation_status_error (iv_status v))"

definition invitation_token_hash :: "forge \<Rightarrow> string \<Rightarrow> string result" where
  "invitation_token_hash F token =
     (if trim token = [] then Inl invitation_invalid_error else Inr (sha256_hex F (trim token)))"

definition public_app_url :: "account_env \<Rightarrow> string \<Rightarrow> string option" where
  "public_app_url A path = (case ae_public_site_urls A of [] \<Rightarrow> None | base # _ \<Rightarrow> Some (ae_join A base path))"

definition public_app_url_or_path :: "account_env \<Rightarrow> string \<Rightarrow> string" where
  "public_app_url_or_path A path = (case public_app_url A path of None \<Rightarrow> path | Some u \<Rightarrow> u)"

definition invitation_url :: "account_env \<Rightarrow> string \<Rightarrow> string" where
  "invitation_url A token = public_app_url_or_path A (''/invite/'' @ token)"

definition format_mail_duration_seconds :: "int \<Rightarrow> string" where
  "format_mail_duration_seconds total_secs =
     (let total_secs = max total_secs 1;
          (v, unit) = (if total_secs \<ge> 86400 \<and> total_secs mod 86400 = 0 then (total_secs div 86400, ''day'')
                       else if total_secs \<ge> 3600 \<and> total_secs mod 3600 = 0 then (total_secs div 3600, ''hour'')
                       else if total_secs \<ge> 60 then ((total_secs + 59) div 60, ''minute'')
                       else (total_secs, ''second''))
      in show_int v @ '' '' @ unit @ (if v = 1 then '''' else ''s''))"

record admin_invitation_info =
  ai_invitation :: user_invitation
  ai_invitation_url :: "string option"
  ai_mail_queued :: bool

definition to_admin_info :: "user_invitation \<Rightarrow> string option \<Rightarrow> bool \<Rightarrow> admin_invitation_info" where
  "to_admin_info v url queued = \<lparr>ai_invitation = v, ai_invitation_url = url, ai_mail_queued = queued\<rparr>"

definition ensure_invited_email_available :: "string \<Rightarrow> db \<Rightarrow> unit result" where
  "ensure_invited_email_available email d =
     (if find_by_email email d \<noteq> None then Inl email_exists_error else Inr ())"

fun revoke_each :: "time \<Rightarrow> row_id list \<Rightarrow> (db, aster_error, unit) handler" where
  "revoke_each now [] = ret ()"
| "revoke_each now (i # is) = bnd (mark_revoked_if_pending now i) (\<lambda>_. revoke_each now is)"

definition create_invitation ::
    "account_env \<Rightarrow> time \<Rightarrow> string \<Rightarrow> string \<Rightarrow> row_id \<Rightarrow> (db, aster_error, admin_invitation_info) handler" where
  "create_invitation A now short email invited_by =
     bnd (check (validation_result (normalize_email (ae_forge A) email))) (\<lambda>email.
     bnd (check (email_check (ae_email A) email)) (\<lambda>_.
     bnd (check (utils_result (u64_to_i64 (ae_forge A) (ae_invitation_ttl_secs A) ''user invitation ttl''))) (\<lambda>ttl.
     bnd (check (plus_seconds now ttl)) (\<lambda>expires_at.
     bnd (transaction
            (bnd (query (ensure_invited_email_available email)) (\<lambda>_.
             bnd (query (\<lambda>d. Inr (map iv_id (find_pending_by_email email d)))) (\<lambda>pending.
             bnd (revoke_each now pending) (\<lambda>_.
             bnd (invitation_repo_create (ae_forge A) (\<lambda>i. \<lparr>iv_id = i, iv_email = email,
                    iv_token_hash = sha256_hex (ae_forge A) short, iv_status = InvitationPending,
                    iv_invited_by = invited_by, iv_accepted_user_id = None, iv_expires_at = expires_at,
                    iv_created_at = now, iv_updated_at = now, iv_accepted_at = None, iv_revoked_at = None\<rparr>)) (\<lambda>v.
             bnd (enqueue now email None (MailUserInvitation email (invitation_url A short) (ae_site_name A)
                    (format_mail_duration_seconds ttl))) (\<lambda>_.
             ret v))))))) (\<lambda>v.
     ret (to_admin_info v (Some (invitation_url A short)) True))))))"

definition refresh_expired_status :: "time \<Rightarrow> user_invitation \<Rightarrow> (db, aster_error, user_invitation) handler" where
  "refresh_expired_status now v =
     (if iv_status v = InvitationPending \<and> iv_expires_at v \<le> now
      then bnd (mark_expired_if_pending now (iv_id v)) (\<lambda>marked.
           if \<not> marked then query (find_invitation_by_id (iv_id v))
           else ret (v\<lparr>iv_status := InvitationExpired, iv_updated_at := now\<rparr>))
      else ret v)"

definition invitation_list_view :: "time \<Rightarrow> user_invitation \<Rightarrow> user_invitation" where
  "invitation_list_view now v =
     (if iv_status v = InvitationPending \<and> iv_expires_at v \<le> now then v\<lparr>iv_status := InvitationExpired\<rparr> else v)"

definition ensure_invitation_pending :: "user_invitation \<Rightarrow> unit result" where
  "ensure_invitation_pending v =
     (if invitation_is_pending (iv_status v) then Inr () else Inl (invitation_status_error (iv_status v)))"

definition ensure_invitation_not_expired :: "time \<Rightarrow> user_invitation \<Rightarrow> (db, aster_error, unit) handler" where
  "ensure_invitation_not_expired now v =
     (if iv_expires_at v > now then ret () else
      bnd (mark_expired_if_pending now (iv_id v)) (\<lambda>marked.
      if \<not> marked then query (\<lambda>d. Inl (current_invitation_status_error (iv_id v) d))
      else raise (invitation_status_error InvitationExpired)))"

definition find_valid_invitation_by_token ::
    "account_env \<Rightarrow> time \<Rightarrow> string \<Rightarrow> (db, aster_error, user_invitation) handler" where
  "find_valid_invitation_by_token A now token =
     bnd (check (invitation_token_hash (ae_forge A) token)) (\<lambda>h.
     bnd (query (\<lambda>d. case find_invitation_by_hash h d of None \<Rightarrow> Inl invitation_invalid_error | Some v \<Rightarrow> Inr v)) (\<lambda>v.
     bnd (refresh_expired_status now v) (\<lambda>v.
     bnd (check (ensure_invitation_pending v)) (\<lambda>_.
     bnd (ensure_invitation_not_expired now v) (\<lambda>_.
     ret v)))))"

definition verify_public_invitation :: "account_env \<Rightarrow> time \<Rightarrow> string \<Rightarrow> (db, aster_error, string \<times> time) handler" where
  "verify_public_invitation A now token =
     bnd (find_valid_invitation_by_token A now token) (\<lambda>v. ret (iv_email v, iv_expires_at v))"

definition revoke_invitation :: "time \<Rightarrow> row_id \<Rightarrow> (db, aster_error, admin_invitation_info) handler" where
  "revoke_invitation now i =
     bnd (query (find_invitation_by_id i)) (\<lambda>v.
     bnd (refresh_expired_status now v) (\<lambda>v.
     if iv_status v \<noteq> InvitationPending then raise (invitation_status_error (iv_status v)) else
     bnd (mark_revoked_if_pending now (iv_id v)) (\<lambda>marked.
     if \<not> marked then query (\<lambda>d. Inl (current_invitation_status_error (iv_id v) d)) else
     bnd (query (find_invitation_by_id i)) (\<lambda>v.
     ret (to_admin_info v None False)))))"

definition accept_invitation ::
    "account_env \<Rightarrow> time \<Rightarrow> string \<Rightarrow> string \<Rightarrow> string \<Rightarrow> (db, aster_error, user) handler" where
  "accept_invitation A now token username password =
     bnd (check (invitation_token_hash (ae_forge A) token)) (\<lambda>h.
     transaction
       (bnd (query (\<lambda>d. case find_invitation_by_hash h d of None \<Rightarrow> Inl invitation_invalid_error | Some v \<Rightarrow> Inr v)) (\<lambda>v.
        bnd (refresh_expired_status now v) (\<lambda>v.
        bnd (check (ensure_invitation_pending v)) (\<lambda>_.
        bnd (ensure_invitation_not_expired now v) (\<lambda>_.
        bnd (check (email_check (ae_email A) (iv_email v))) (\<lambda>_.
        bnd (query (ensure_invited_email_available (iv_email v))) (\<lambda>_.
        bnd (create_user_with_role A now \<lparr>cu_username = username, cu_password = password, cu_role = RoleUser,
               cu_status = UserActive, cu_must_change_password = False, cu_allow_reserved_linuxdo_username = False\<rparr>
               (iv_email v) (Some now)) (\<lambda>u.
        bnd (mark_accepted_if_pending now (iv_id v) (u_id u)) (\<lambda>marked.
        if \<not> marked then query (\<lambda>d. Inl (current_invitation_status_error (iv_id v) d)) else
        ret u))))))))))"

end
