(* ===== verification/Account_Safety.thy ===== *)
theory Account_Safety
  imports Invitations
begin

text \<open>
  What holds over every run of session, account and invitation requests: identifiers stay unique, a refresh
  token, verification link or invitation that was used up stays so, and session versions only grow.
\<close>

section \<open>The relation between the states before and after a request\<close>

definition contacts_wf :: "db \<Rightarrow> bool" where
  "contacts_wf d = (keys_ok ct_id (contact_tokens d) \<and> distinct (map ct_token_hash (rows (contact_tokens d))))"

definition invitations_wf :: "db \<Rightarrow> bool" where
  "invitations_wf d = (keys_ok iv_id (user_invitations d) \<and> distinct (map iv_token_hash (rows (user_invitations d))))"

definition acct_wf :: "db \<Rightarrow> bool" where
  "acct_wf d = (web_wf d \<and> contacts_wf d \<and> invitations_wf d)"

definition spent_link :: "string \<Rightarrow> db \<Rightarrow> bool" where
  "spent_link h d = (\<forall>t \<in> set (rows (contact_tokens d)). ct_token_hash t = h \<longrightarrow> ct_consumed_at t \<noteq> None)"

definition closed_invitation :: "string \<Rightarrow> db \<Rightarrow> bool" where
  "closed_invitation h d =
     (\<forall>v \<in> set (rows (user_invitations d)). iv_token_hash v = h \<longrightarrow> iv_status v \<noteq> InvitationPending)"

text \<open>\<open>H\<close> are the hashes of the links and invitations that may be issued between the two states.\<close>

definition contact_safe :: "string set \<Rightarrow> db \<Rightarrow> db \<Rightarrow> bool" where
  "contact_safe H d d' =
     ((contacts_wf d \<longrightarrow> contacts_wf d') \<and> (\<forall>h. h \<notin> H \<longrightarrow> spent_link h d \<longrightarrow> spent_link h d'))"

definition invitation_safe :: "string set \<Rightarrow> db \<Rightarrow> db \<Rightarrow> bool" where
  "invitation_safe H d d' =
     ((invitations_wf d \<longrightarrow> invitations_wf d') \<and> (\<forall>h. h \<notin> H \<longrightarrow> closed_invitation h d \<longrightarrow> closed_invitation h d'))"

definition acct_safe :: "string set \<Rightarrow> string set \<Rightarrow> db \<Rightarrow> db \<Rightarrow> bool" where
  "acct_safe I H d d' = (web_safe I d d' \<and> contact_safe H d d' \<and> invitation_safe H d d')"

definition keeps :: "(db \<Rightarrow> 'a) \<Rightarrow> db \<Rightarrow> db \<Rightarrow> bool" where
  "keeps f d d' = (f d' = f d)"

interpretation kept: state_order "keeps f" for f
  by unfold_locales (simp_all add: keeps_def)

interpretation acct: state_order "acct_safe I H" for I H
  by unfold_locales
    (simp add: acct_safe_def contact_safe_def invitation_safe_def,
     auto simp: acct_safe_def contact_safe_def invitation_safe_def intro: web_safe_trans)

definition account_tables :: "db \<Rightarrow> contact_token table \<times> user_invitation table" where
  "account_tables d = (contact_tokens d, user_invitations d)"

lemma acct_from_web:
  assumes "web_safe I d d'" and "keeps account_tables d d'"
  shows "acct_safe I H d d'"
  using assms
  by (simp add: acct_safe_def keeps_def account_tables_def contact_safe_def invitation_safe_def contacts_wf_def
      invitations_wf_def spent_link_def closed_invitation_def)

section \<open>Operations on users and sessions\<close>

lemma kept_statements:
  "keeps account_tables d (snd (update_user_row F i f d))"
  "keeps account_tables d (snd (session_repo_create F m d))"
  "keeps account_tables d (snd (rotate_refresh F cur nxt ex ip ua seen d))"
  "keeps account_tables d (snd (revoke_sessions_where now p d))"
  "keeps account_tables d (snd (delete_expired_sessions now d))"
  "keeps account_tables d (snd (web_audit sr now req u a et ei en det d))"
  "keeps account_tables d (snd (insert_user F model d))"
  "keeps account_tables d (snd (enqueue now to nm payload d))"
  by (simp_all add: keeps_def account_tables_def update_user_row_def session_repo_create_def rotate_refresh_def
      revoke_sessions_where_def delete_expired_sessions_def web_audit_def insert_user_def enqueue_def modify_def
      log_with_details_def record_prechecked_def statement_def Let_def split: sum.split prod.split)

lemmas kept_rules = kept.bnd kept.reads kept.branch kept.commit kept.optional kept_statements

lemma kept_operations:
  "keeps account_tables d (snd (issue_tokens F K policy now J u req d))"
  "keeps account_tables d (snd (rotate_tokens F K policy now J u s req d))"
  "keeps account_tables d (snd (update_password_in_connection F now u new d))"
  unfolding issue_tokens_def persist_auth_session_def rotate_tokens_def update_password_in_connection_def
  by (intro kept_rules)+

lemma kept_handlers:
  "keeps account_tables d (snd (web_login F K policy sr now J identifier password req d))"
  "keeps account_tables d (snd (web_refresh F K policy sr now J token req d))"
  "keeps account_tables d (snd (revoke_session K sr now u sid tok req d))"
  "keeps account_tables d (snd (revoke_other_sessions K sr now u token req d))"
  "keeps account_tables d (snd (change_password_with_audit F gravatar sr now req i cur new d))"
  "keeps account_tables d (snd (set_local_password_with_audit F gravatar sr now req i new d))"
  unfolding web_login_def web_refresh_def revoke_session_def revoke_by_id_for_user_def Let_def
    revoke_other_sessions_def revoke_all_for_user_except_id_def change_password_with_audit_def change_password_def
    set_local_password_with_audit_def set_local_password_def verify_change_password_input_def
    verify_set_local_password_input_def revoke_sessions_for_user_where
  by (intro kept_rules kept_operations)+

lemma kept_logout: "keeps account_tables d (snd (logout K sr now token req d))"
  unfolding logout_def revoke_by_refresh_jti_def
  by (auto split: sum.split aster_error.split option.split intro!: kept_rules)

lemma acct_sessions:
  "fst J \<in> I \<Longrightarrow> acct_safe I H d (snd (web_login F K policy sr now J identifier password req d))"
  "fst J \<in> I \<Longrightarrow> acct_safe I H d (snd (web_refresh F K policy sr now J token req d))"
  "acct_safe I H d (snd (logout K sr now token req d))"
  "acct_safe I H d (snd (revoke_session K sr now u sid tok req d))"
  "acct_safe I H d (snd (revoke_other_sessions K sr now u token req d))"
  "acct_safe I H d (snd (change_password_with_audit F gravatar sr now req i cur new d))"
  "acct_safe I H d (snd (set_local_password_with_audit F gravatar sr now req i new d))"
  "acct_safe I H d (snd (delete_expired_sessions now d))"
  by (rule acct_from_web, rule web_op_safe, assumption?, rule kept_handlers kept_logout kept_statements)+

lemma acct_issue: "fst J \<in> I \<Longrightarrow> acct_safe I H d (snd (issue_tokens F K policy now J u req d))"
  by (rule acct_from_web[OF web_safe_issue kept_operations(1)])

lemma acct_audit: "acct_safe I H d (snd (web_audit sr now req u a et ei en det d))"
  by (rule acct_from_web[OF web_safe_audit kept_statements(6)])

lemma acct_enqueue: "acct_safe I H d (snd (enqueue now to nm payload d))"
  by (rule acct_from_web[OF _ kept_statements(8)], rule web_safe_same) (simp_all add: enqueue_def modify_def)

lemma acct_user_row:
  assumes "\<And>r. u_id (f r) = u_id r" and "\<And>r. u_session_version (f r) = u_session_version r"
  shows "acct_safe I H d (snd (update_user_row F i f d))"
  by (rule acct_from_web[OF web_safe_user kept_statements(1)]) (simp_all add: assms web_wf_def)

lemma acct_password:
  "find_user_by_id i d = Inr u \<Longrightarrow> acct_safe I H d (snd (update_password_in_connection F now u new d))"
  by (rule acct_from_web[OF web_safe_password kept_operations(3)])

lemma users_wf_insert:
  assumes "users_wf d" and "insert_row model (users d) = (u, t)" and "user_unique_ok u (users d)" and "\<And>i. u_id (model i) = i"
  shows "users_wf (d\<lparr>users := t\<rparr>)"
proof -
  have t: "rows t = rows (users d) @ [u]" "u_id u = next_id (users d)"
    using assms(2,4) by (auto simp: insert_row_def Let_def)
  have fresh: "\<forall>v \<in> set (rows (users d)). u_id v \<noteq> u_id u"
    using assms(1) by (auto simp: users_wf_def keys_ok_def t(2))
  have "keys_ok u_id t" using keys_ok_insert[of u_id "users d" model] assms(1,2,4) by (simp add: users_wf_def)
  moreover have "users_apart x y" if "x \<in> set (rows t)" "y \<in> set (rows t)" "u_id y \<noteq> u_id x" for x y
    using that assms(1,3) fresh users_apart_sym[of u x] by (auto simp: users_wf_def user_unique_ok_apart t(1))
  ultimately show ?thesis by (auto simp: users_wf_def user_unique_ok_apart)
qed

lemma acct_insert_user:
  assumes "\<And>i. u_id (model i) = i" and "\<And>i. u_session_version (model i) = 1"
  shows "acct_safe I H d (snd (insert_user F model d))"
proof (rule acct_from_web[OF _ kept_statements(7)])
  obtain u t where ins: "insert_row model (users d) = (u, t)" by (cases "insert_row model (users d)")
  show "web_safe I d (snd (insert_user F model d))"
  proof (cases "user_unique_ok u (users d)")
    case True
    then have d': "snd (insert_user F model d) = d\<lparr>users := t\<rparr>" by (simp add: insert_user_def statement_def ins)
    have t: "rows t = rows (users d) @ [u]" "u_session_version u = 1" using ins assms(2) by (auto simp: insert_row_def Let_def)
    show ?thesis
      using users_wf_insert[OF _ ins True assms(1)]
      by (auto simp: d' web_safe_def web_wf_def sessions_wf_def versions_grow_def dead_jti_def t)
  next
    case False
    then show ?thesis by (simp add: insert_user_def statement_def ins)
  qed
qed

lemma create_with_options_insert:
  "create_with_options F new_uuid now username email h role status must =
     bnd (query (unique_public_uuid new_uuid)) (\<lambda>public_uuid.
     insert_user F (\<lambda>i. \<lparr>u_id = i, u_public_uuid = public_uuid, u_username = username, u_email = Some email,
       u_password_hash = h, u_role = role, u_status = status, u_must_change_password = must, u_session_version = 1,
       u_email_verified_at = Some now, u_pending_email = None, u_created_at = now, u_updated_at = now\<rparr>))"
  by (simp add: create_with_options_def insert_user_def)

lemma acct_create_user:
  "acct_safe I H d (snd (create_with_options F new_uuid now username email h role status must d))"
  "acct_safe I H d (snd (service_create_user A now username email password role d))"
  "acct_safe I H d (snd (create_user_with_role A now input email verified_at d))"
  "acct_safe I H d (snd (create_user_without_email_with_role A now input d))"
  unfolding create_with_options_insert service_create_user_def service_create_user_with_options_def
    create_user_with_role_def create_user_without_email_with_role_def
  by (intro acct.bnd acct.reads acct.branch acct_insert_user; simp add: new_user_def)+

section \<open>Links\<close>

lemma acct_contacts:
  assumes "d' = d\<lparr>contact_tokens := t\<rparr>" and "contact_safe H d d'"
  shows "acct_safe I H d d'"
  using assms web_safe_same[of d' d I]
  by (simp add: acct_safe_def invitation_safe_def invitations_wf_def closed_invitation_def)

lemma acct_delete_links:
  "acct_safe I H d (d\<lparr>contact_tokens := snd (delete_many p (contact_tokens d))\<rparr>)"
  by (rule acct_contacts[OF HOL.refl])
    (auto simp: contact_safe_def contacts_wf_def spent_link_def delete_many_def distinct_map_filter
      intro: keys_ok_delete[unfolded delete_many_def, simplified])

lemma acct_consume: "acct_safe I H d (snd (mark_consumed_if_unused now i d))"
proof (rule acct_contacts)
  let ?t = "snd (update_many (\<lambda>t. ct_id t = i \<and> ct_consumed_at t = None) (\<lambda>t. t\<lparr>ct_consumed_at := Some now\<rparr>) (contact_tokens d))"
  show d': "snd (mark_consumed_if_unused now i d) = d\<lparr>contact_tokens := ?t\<rparr>"
    by (simp add: mark_consumed_if_unused_def statement_def Let_def split_beta)
  have hashes: "map ct_token_hash (rows ?t) = map ct_token_hash (rows (contact_tokens d))"
    by (simp add: update_many_def)
  have "keys_ok ct_id (contact_tokens d) \<Longrightarrow> keys_ok ct_id ?t"
    by (rule keys_ok_update) simp_all
  moreover have "spent_link h (d\<lparr>contact_tokens := ?t\<rparr>)" if "spent_link h d" for h
    using that by (auto simp: spent_link_def update_many_def)
  ultimately show "contact_safe H d (snd (mark_consumed_if_unused now i d))"
    unfolding d' contact_safe_def contacts_wf_def using hashes by simp
qed

lemma acct_new_link:
  assumes "\<And>i. ct_token_hash (model i) \<in> H" and "\<And>i. ct_id (model i) = i"
  shows "acct_safe I H d (snd (contact_repo_create F model d))"
proof -
  obtain r t where ins: "insert_row model (contact_tokens d) = (r, t)" by (cases "insert_row model (contact_tokens d)")
  then have t: "rows t = rows (contact_tokens d) @ [r]" "ct_token_hash r \<in> H" using assms(1) by (auto simp: insert_row_def Let_def)
  show ?thesis
  proof (cases "\<exists>v \<in> set (rows (contact_tokens d)). ct_token_hash v = ct_token_hash r")
    case True
    then show ?thesis using acct.refl by (auto simp: contact_repo_create_def statement_def ins)
  next
    case False
    then have d': "snd (contact_repo_create F model d) = d\<lparr>contact_tokens := t\<rparr>"
      by (simp add: contact_repo_create_def statement_def ins)
    have "keys_ok ct_id t" if "keys_ok ct_id (contact_tokens d)"
      using keys_ok_insert[of ct_id "contact_tokens d" model] that ins assms(2) by simp
    then have "contact_safe H d (d\<lparr>contact_tokens := t\<rparr>)"
      using False t(2) by (auto simp: contact_safe_def contacts_wf_def spent_link_def t(1))
    then show ?thesis using acct_contacts[OF d'] by (simp add: d')
  qed
qed

lemma acct_issue_link:
  assumes "sha256_hex F (build_verification_token short) \<in> H"
  shows "acct_safe I H d (snd (issue_contact_verification_token F now short u purpose target ttl d))"
  unfolding issue_contact_verification_token_def delete_active_for_user_def
  by (intro acct.bnd acct.reads acct_new_link) (simp_all add: modify_def acct_delete_links assms)

lemma acct_cleanup: "acct_safe I H d (snd (delete_expired_contact_tokens now d))"
  using acct_delete_links[of I H d "\<lambda>t. ct_expires_at t < now"]
  by (simp add: delete_expired_contact_tokens_def statement_def Let_def split_beta)

section \<open>Invitations\<close>

lemma acct_invitations:
  assumes "d' = d\<lparr>user_invitations := t\<rparr>" and "invitation_safe H d d'"
  shows "acct_safe I H d d'"
  using assms web_safe_same[of d' d I]
  by (simp add: acct_safe_def contact_safe_def contacts_wf_def spent_link_def)

lemma acct_update_invitations:
  assumes "\<And>v. iv_id (f v) = iv_id v" and "\<And>v. iv_token_hash (f v) = iv_token_hash v"
    and "\<And>v. iv_status (f v) \<noteq> InvitationPending"
  shows "acct_safe I H d (snd (update_invitations p f d))"
proof (rule acct_invitations)
  let ?t = "snd (update_many p f (user_invitations d))"
  show d': "snd (update_invitations p f d) = d\<lparr>user_invitations := ?t\<rparr>"
    by (simp add: update_invitations_def statement_def Let_def split_beta)
  have hashes: "map iv_token_hash (rows ?t) = map iv_token_hash (rows (user_invitations d))"
    by (simp add: update_many_def assms(2))
  have "keys_ok iv_id (user_invitations d) \<Longrightarrow> keys_ok iv_id ?t"
    by (rule keys_ok_update) (simp_all add: assms(1))
  moreover have "closed_invitation h (d\<lparr>user_invitations := ?t\<rparr>)" if "closed_invitation h d" for h
    using that assms(3) by (auto simp: closed_invitation_def update_many_def)
  ultimately show "invitation_safe H d (snd (update_invitations p f d))"
    unfolding d' invitation_safe_def invitations_wf_def using hashes by simp
qed

lemma acct_new_invitation:
  assumes "\<And>i. iv_token_hash (model i) \<in> H" and "\<And>i. iv_id (model i) = i"
  shows "acct_safe I H d (snd (invitation_repo_create F model d))"
proof -
  obtain r t where ins: "insert_row model (user_invitations d) = (r, t)" by (cases "insert_row model (user_invitations d)")
  then have t: "rows t = rows (user_invitations d) @ [r]" "iv_token_hash r \<in> H"
    using assms(1) by (auto simp: insert_row_def Let_def)
  show ?thesis
  proof (cases "\<exists>v \<in> set (rows (user_invitations d)). iv_token_hash v = iv_token_hash r")
    case True
    then show ?thesis using acct.refl by (auto simp: invitation_repo_create_def statement_def ins)
  next
    case False
    then have d': "snd (invitation_repo_create F model d) = d\<lparr>user_invitations := t\<rparr>"
      by (simp add: invitation_repo_create_def statement_def ins)
    have "keys_ok iv_id t" if "keys_ok iv_id (user_invitations d)"
      using keys_ok_insert[of iv_id "user_invitations d" model] that ins assms(2) by simp
    then have "invitation_safe H d (d\<lparr>user_invitations := t\<rparr>)"
      using False t(2) by (auto simp: invitation_safe_def invitations_wf_def closed_invitation_def t(1))
    then show ?thesis using acct_invitations[OF d'] by (simp add: d')
  qed
qed

lemma acct_marks:
  "acct_safe I H d (snd (mark_revoked_if_pending now i d))"
  "acct_safe I H d (snd (mark_expired_if_pending now i d))"
  "acct_safe I H d (snd (mark_accepted_if_pending now i u d))"
  unfolding mark_revoked_if_pending_def mark_expired_if_pending_def mark_accepted_if_pending_def
  by (rule acct_update_invitations; simp)+

lemma acct_revoke_each: "acct_safe I H d (snd (revoke_each now is d))"
  by (induction "is" arbitrary: d) (auto intro!: acct.bnd acct.reads acct_marks simp: acct.reads)

lemmas acct_rules = acct.bnd acct.reads acct.branch acct.commit acct.optional acct_audit acct_enqueue acct_marks
  acct_revoke_each acct_consume acct_create_user

lemma acct_invitation_checks:
  "acct_safe I H d (snd (refresh_expired_status now v d))"
  "acct_safe I H d (snd (ensure_invitation_not_expired now v d))"
  unfolding refresh_expired_status_def ensure_invitation_not_expired_def by (intro acct_rules)+

lemma acct_invitation_handlers:
  "sha256_hex (ae_forge A) short \<in> H \<Longrightarrow> acct_safe I H d (snd (create_invitation A now short email invited_by d))"
  "acct_safe I H d (snd (verify_public_invitation A now token d))"
  "acct_safe I H d (snd (revoke_invitation now i d))"
  "acct_safe I H d (snd (accept_invitation A now token username password d))"
proof -
  show "acct_safe I H d (snd (create_invitation A now short email invited_by d))"
    if "sha256_hex (ae_forge A) short \<in> H"
    unfolding create_invitation_def by (intro acct_rules acct_new_invitation) (simp_all add: that)
  show "acct_safe I H d (snd (verify_public_invitation A now token d))"
    unfolding verify_public_invitation_def find_valid_invitation_by_token_def
    by (intro acct_rules acct_invitation_checks)
  show "acct_safe I H d (snd (revoke_invitation now i d))"
    unfolding revoke_invitation_def by (intro acct_rules acct_invitation_checks)
  show "acct_safe I H d (snd (accept_invitation A now token username password d))"
    unfolding accept_invitation_def by (intro acct_rules acct_invitation_checks)
qed

section \<open>Account requests\<close>

lemma acct_link_requests:
  assumes "sha256_hex (ae_forge A) (build_verification_token short) \<in> H"
  shows "acct_safe I H d (snd (resend_register_activation A now short identifier d))"
    "acct_safe I H d (snd (request_email_change A now short i new_email d))"
    "acct_safe I H d (snd (resend_email_change A now short i d))"
    "acct_safe I H d (snd (request_password_reset A now short email d))"
    "fst J \<in> I \<Longrightarrow> acct_safe I H d (snd (register A now J short username email password req d))"
proof -
  show "acct_safe I H d (snd (resend_register_activation A now short identifier d))"
    unfolding resend_register_activation_def by (intro acct_rules acct_issue_link[OF assms])
  show "acct_safe I H d (snd (request_email_change A now short i new_email d))"
    unfolding request_email_change_def by (intro acct_rules acct_issue_link[OF assms] acct_user_row) simp_all
  show "acct_safe I H d (snd (resend_email_change A now short i d))"
    unfolding resend_email_change_def by (intro acct_rules acct_issue_link[OF assms])
  show "acct_safe I H d (snd (request_password_reset A now short email d))"
    unfolding request_password_reset_def by (intro acct_rules acct_issue_link[OF assms])
  show "acct_safe I H d (snd (register A now J short username email password req d))" if "fst J \<in> I"
    unfolding register_def Let_def by (intro acct_rules acct_issue_link[OF assms] acct_issue[OF that])
qed

lemma acct_emails:
  "acct_safe I H d (snd (activate_email F now u target d))"
  "acct_safe I H d (snd (change_email A now u target d))"
  unfolding activate_email_def change_email_def by (intro acct_rules acct_user_row; simp)+

lemma acct_confirm_contact: "acct_safe I H d (snd (confirm_contact_verification A now token d))"
proof -
  have body: "acct_safe I H d (snd ((case p of RegisterActivation \<Rightarrow> activate_email F now u t
      | ContactChange \<Rightarrow> change_email A now u t | PasswordReset \<Rightarrow> raise e) d))" for p F u t e d
    by (cases p) (simp_all add: acct_emails acct.reads)
  show ?thesis
    unfolding confirm_contact_verification_def by (intro acct_rules body)
qed

text \<open>Marking a link used leaves the users as they were.\<close>

lemma consume_users: "mark_consumed_if_unused now i d = (Inr b, d') \<Longrightarrow> users d' = users d"
  by (auto simp: mark_consumed_if_unused_def statement_def Let_def split_beta)

lemma acct_confirm_reset: "acct_safe I H d (snd (confirm_password_reset A now token new d))"
proof -
  have tail: "acct_safe I H d (snd (bnd (query (find_user_by_id i)) (\<lambda>existing.
      if \<not> user_status_is_active (u_status existing) then raise e1 else
      if c existing then raise e2 else
      bnd (mark_consumed_if_unused now j) (\<lambda>consumed.
      if \<not> consumed then raise e3 else
      bnd (update_password_in_connection (ae_forge A) now existing new) (\<lambda>updated.
      bnd (check (require_user_email updated)) (\<lambda>address.
      bnd (enqueue now address (Some (u_username updated)) (m updated)) (\<lambda>_. ret updated))))) d))" for d i j c e1 e2 e3 m
  proof (rule acct.bnd_query, rule acct.branch, rule acct.reads, rule acct.branch, rule acct.reads,
      rule acct.bnd_run, rule acct_consume, rule acct.branch, rule acct.reads)
    fix existing b d1
    assume u: "find_user_by_id i d = Inr existing" and run: "mark_consumed_if_unused now j d = (Inr b, d1)"
    have "find_user_by_id i d1 = Inr existing" using u consume_users[OF run] by (simp add: find_user_by_id_def)
    then show "acct_safe I H d1 (snd (bnd (update_password_in_connection (ae_forge A) now existing new) (\<lambda>updated.
      bnd (check (require_user_email updated)) (\<lambda>address.
      bnd (enqueue now address (Some (u_username updated)) (m updated)) (\<lambda>_. ret updated))) d1))"
      by (intro acct.bnd_run[where m = "update_password_in_connection (ae_forge A) now existing new"] acct_password
          acct.bnd acct.reads acct_enqueue)
  qed
  show ?thesis
    unfolding confirm_password_reset_def by (intro acct_rules tail)
qed

section \<open>Runs\<close>

text \<open>A request to the account API, with any arguments, whose fresh refresh id is in \<open>I\<close> and the hash of
  whose fresh link or invitation is in \<open>H\<close>.\<close>

inductive account_step :: "account_env \<Rightarrow> string set \<Rightarrow> string set \<Rightarrow> db \<Rightarrow> db \<Rightarrow> bool" for A I H where
  step_login: "fst J \<in> I \<Longrightarrow> account_step A I H d (snd (web_login (ae_forge A) (ae_jwt A) (ae_policy A)
     (ae_should_record A) now J identifier password req d))"
| step_refresh: "fst J \<in> I \<Longrightarrow> account_step A I H d (snd (web_refresh (ae_forge A) (ae_jwt A) (ae_policy A)
     (ae_should_record A) now J token req d))"
| step_logout: "account_step A I H d (snd (logout (ae_jwt A) (ae_should_record A) now token req d))"
| step_revoke_session: "account_step A I H d
     (snd (revoke_session (ae_jwt A) (ae_should_record A) now u session_id current req d))"
| step_revoke_others: "account_step A I H d
     (snd (revoke_other_sessions (ae_jwt A) (ae_should_record A) now u token req d))"
| step_change_password: "account_step A I H d
     (snd (change_password_with_audit (ae_forge A) (ae_gravatar A) (ae_should_record A) now req u cur new d))"
| step_set_password: "account_step A I H d
     (snd (set_local_password_with_audit (ae_forge A) (ae_gravatar A) (ae_should_record A) now req u new d))"
| step_cleanup_sessions: "account_step A I H d (snd (delete_expired_sessions now d))"
| step_cleanup_links: "account_step A I H d (snd (delete_expired_contact_tokens now d))"
| step_register: "fst J \<in> I \<Longrightarrow> sha256_hex (ae_forge A) (build_verification_token short) \<in> H \<Longrightarrow>
     account_step A I H d (snd (register A now J short username email password req d))"
| step_resend_activation: "sha256_hex (ae_forge A) (build_verification_token short) \<in> H \<Longrightarrow>
     account_step A I H d (snd (resend_register_activation A now short identifier d))"
| step_email_change: "sha256_hex (ae_forge A) (build_verification_token short) \<in> H \<Longrightarrow>
     account_step A I H d (snd (request_email_change A now short u new_email d))"
| step_resend_email: "sha256_hex (ae_forge A) (build_verification_token short) \<in> H \<Longrightarrow>
     account_step A I H d (snd (resend_email_change A now short u d))"
| step_request_reset: "sha256_hex (ae_forge A) (build_verification_token short) \<in> H \<Longrightarrow>
     account_step A I H d (snd (request_password_reset A now short email d))"
| step_confirm_reset: "account_step A I H d (snd (confirm_password_reset A now token new d))"
| step_confirm_contact: "account_step A I H d (snd (confirm_contact_verification A now token d))"
| step_invite: "sha256_hex (ae_forge A) short \<in> H \<Longrightarrow>
     account_step A I H d (snd (create_invitation A now short email invited_by d))"
| step_revoke_invitation: "account_step A I H d (snd (revoke_invitation now i d))"
| step_verify_invitation: "account_step A I H d (snd (verify_public_invitation A now token d))"
| step_accept: "account_step A I H d (snd (accept_invitation A now token username password d))"

inductive account_steps :: "account_env \<Rightarrow> string set \<Rightarrow> string set \<Rightarrow> db \<Rightarrow> db \<Rightarrow> bool" for A I H where
  account_done: "account_steps A I H d d"
| account_more: "account_steps A I H d d1 \<Longrightarrow> account_step A I H d1 d2 \<Longrightarrow> account_steps A I H d d2"

lemma account_step_safe: "account_step A I H d d' \<Longrightarrow> acct_safe I H d d'"
  by (induction rule: account_step.induct)
    (assumption | rule acct_sessions acct_cleanup acct_link_requests acct_confirm_reset acct_confirm_contact
      acct_invitation_handlers)+

lemma account_steps_safe: "account_steps A I H d d' \<Longrightarrow> acct_safe I H d d'"
  by (induction rule: account_steps.induct) (auto intro: acct.refl acct.trans account_step_safe)

lemma acct_safeD:
  assumes "acct_safe I H d d'"
  shows "acct_wf d \<Longrightarrow> acct_wf d'" "acct_wf d \<Longrightarrow> versions_grow d d'"
    "acct_wf d \<Longrightarrow> j \<notin> I \<Longrightarrow> dead_jti j d \<Longrightarrow> dead_jti j d'"
    "h \<notin> H \<Longrightarrow> spent_link h d \<Longrightarrow> spent_link h d'"
    "h \<notin> H \<Longrightarrow> closed_invitation h d \<Longrightarrow> closed_invitation h d'"
  using assms by (auto simp: acct_safe_def acct_wf_def web_safe_def contact_safe_def invitation_safe_def)

section \<open>Refusals\<close>

lemma dead_jti_refused:
  assumes "sessions_wf d" and "dead_jti j d" and "jwt_ok K" and "jwt_decode K now token = Inr c" and "ac_jti c = Some j"
  shows "\<exists>e. web_refresh F K policy sr later J token req d = (Inl e, d)"
proof -
  have "\<not> refreshable K later token d c' s u" for c' s u
  proof
    assume r: "refreshable K later token d c' s u"
    then have "c' = c" using assms(3,4) unfolding jwt_ok_def refreshable_def by blast
    then show False using r assms(2,5) by (auto simp: refreshable_def session_active_def dead_jti_def)
  qed
  then show ?thesis using web_refresh_split[OF assms(1), of K later token F policy sr J req] by blast
qed

lemma rotated_dead:
  assumes "rotate_tokens F K policy now J u s req d = (Inr b, d')" and "fst J \<noteq> s_current_refresh_jti s"
  shows "dead_jti (s_current_refresh_jti s) d'"
proof -
  obtain tokens ip ua where run: "create_token_pair F K policy now (fst J) (snd J) (u_id u) (u_session_version u)
        (Some (s_id s)) False = Inr tokens"
      "rotate_refresh F (s_current_refresh_jti s) (it_refresh_jti tokens) (it_refresh_expires_at tokens) ip ua now d = (Inr True, d')"
    using assms(1) unfolding rotate_tokens_def by (auto simp: run_simps raise_def split: if_splits)
  have "it_refresh_jti tokens = fst J" using create_token_pair_jti[OF run(1)] .
  then obtain t where t: "d' = d\<lparr>auth_sessions := t\<rparr>" "rows t = map (\<lambda>r. if s_current_refresh_jti r = s_current_refresh_jti s \<and> s_revoked_at r = None
           then r\<lparr>s_current_refresh_jti := fst J, s_previous_refresh_jti := Some (s_current_refresh_jti s),
             s_refresh_expires_at := it_refresh_expires_at tokens, s_ip_address := ip, s_user_agent := ua, s_last_seen_at := now\<rparr> else r)
           (rows (auth_sessions d))"
    using rotate_refresh_run[OF run(2)] by (simp only: sum.disc simp_thms) blast
  show ?thesis
    unfolding dead_jti_def t(1) using assms(2) by (auto simp: t(2))
qed

lemma refresh_spends:
  assumes "sessions_wf d" and "web_refresh F K policy sr now J token req d = (Inr b, d')"
    and "jwt_decode K now token = Inr c" and "ac_jti c = Some j" and "fst J \<noteq> j"
  shows "dead_jti j d'"
proof -
  obtain c' s u where r: "refreshable K now token d c' s u" and run: "bnd (rotate_tokens F K policy now J u s req) (\<lambda>response.
          bnd (web_audit sr now req (u_id u) ''user_refresh_token'' ''auth_session'' None (Some (u_username u)) None) (\<lambda>_.
          ret response)) d = (Inr b, d')"
    using web_refresh_split[OF assms(1), of K now token F policy sr J req] assms(2) by auto
  then obtain d1 where d1: "rotate_tokens F K policy now J u s req d = (Inr b, d1)"
      "auth_sessions d' = auth_sessions d1"
    by (auto simp: run_simps web_audit_def log_with_details_def record_prechecked_def)
  have "s_current_refresh_jti s = j" using r assms(3,4) by (simp add: refreshable_def)
  then show ?thesis using rotated_dead[OF d1(1)] assms(5) d1(2) by (simp add: dead_jti_def)
qed

lemma revoked_rows:
  "rows (auth_sessions (snd (revoke_sessions_where now p d))) =
     map (\<lambda>s. if p s \<and> s_revoked_at s = None then s\<lparr>s_revoked_at := Some now\<rparr> else s) (rows (auth_sessions d))"
  by (simp add: revoke_sessions_where_def statement_def update_many_def Let_def)

lemma revoked_dead: "dead_jti j (snd (revoke_sessions_where now (\<lambda>s. s_current_refresh_jti s = j) d))"
  unfolding dead_jti_def revoked_rows set_map by (intro ballI impI, elim imageE) (simp split: if_splits)

lemma logout_spends:
  assumes "logout K sr now token req d = (Inr True, d')" and "jwt_decode K now token = Inr c" and "ac_jti c = Some j"
  shows "dead_jti j d'"
proof -
  have "\<not> isl (ensure_token_type c TokenRefresh)"
    using assms by (auto simp: logout_def decode_claims_def ret_def)
  then have "bnd (query (\<lambda>d. Inr (find_by_refresh_jti j d))) (\<lambda>session.
      bnd (revoke_by_refresh_jti now j) (\<lambda>revoked.
      if revoked
      then bnd (web_audit sr now req (case session of None \<Rightarrow> ac_claims_user_id c | Some s \<Rightarrow> s_user_id s)
             ''user_logout'' ''auth_session'' None None None) (\<lambda>_. ret revoked)
      else ret revoked)) d = (Inr True, d')"
    using assms by (simp add: logout_def decode_claims_def)
  then obtain revoked d1 u where d1: "revoke_by_refresh_jti now j d = (Inr revoked, d1)"
      "(if revoked then bnd (web_audit sr now req u ''user_logout'' ''auth_session'' None None None) (\<lambda>_. ret revoked)
        else ret revoked) d1 = (Inr True, d')"
    unfolding bnd_Inr query_eq by blast
  then have d': "d' = snd (web_audit sr now req u ''user_logout'' ''auth_session'' None None None d1)"
    by (cases revoked) (simp_all add: bnd_Inr ret_eq)
  from d1(1) have "d1 = snd (revoke_sessions_where now (\<lambda>s. s_current_refresh_jti s = j) d)"
    by (auto simp: revoke_by_refresh_jti_def bnd_Inr ret_eq)
  then show ?thesis using revoked_dead[of j now d] by (simp add: d' web_audit_only dead_jti_def)
qed

section \<open>Passwords\<close>

lemma password_bumped:
  assumes "find_user_by_id i d = Inr u" and "update_password_in_connection F now u new d = (Inr v, d')" and "users_wf d"
  shows "\<exists>h. v = u\<lparr>u_password_hash := h, u_must_change_password := False,
      u_session_version := next_session_version (u_session_version u), u_updated_at := now\<rparr>
    \<and> hash_password F new = Inr h \<and> validate_password new = Inr ()
    \<and> d' = d\<lparr>users := (users d)\<lparr>rows := map (\<lambda>r. if u_id r = i then v else r) (rows (users d))\<rparr>\<rparr>"
proof -
  have u: "u \<in> set (rows (users d))" "u_id u = i" using find_user_by_id_Inr[OF assms(1)] by blast+
  obtain h where h: "validate_password new = Inr ()" "hash_password F new = Inr h"
      "update_user_row F (u_id u) (\<lambda>r. r\<lparr>u_password_hash := h, u_must_change_password := False,
         u_session_version := next_session_version (u_session_version u), u_updated_at := now\<rparr>) d = (Inr v, d')"
    using assms(2) unfolding update_password_in_connection_def bnd_Inr check_eq
    by (auto simp: password_result_def map_sum_Inr)
  obtain r where r: "r \<in> set (rows (users d))" "u_id r = i" "v = r\<lparr>u_password_hash := h, u_must_change_password := False,
         u_session_version := next_session_version (u_session_version u), u_updated_at := now\<rparr>"
      "d' = d\<lparr>users := (users d)\<lparr>rows := map (\<lambda>r. if u_id r = i then r\<lparr>u_password_hash := h, u_must_change_password := False,
         u_session_version := next_session_version (u_session_version u), u_updated_at := now\<rparr> else r) (rows (users d))\<rparr>\<rparr>"
    using update_user_row_run[OF h(3)] u(2) by auto
  have only: "x = u" if "x \<in> set (rows (users d))" "u_id x = i" for x
    using that u keys_ok_inj[of u_id "users d" x u] assms(3) by (auto simp: users_wf_def)
  have "r = u" using only r(1,2) by blast
  moreover have "map (\<lambda>r. if u_id r = i then r\<lparr>u_password_hash := h, u_must_change_password := False,
         u_session_version := next_session_version (u_session_version u), u_updated_at := now\<rparr> else r) (rows (users d))
      = map (\<lambda>r. if u_id r = i then v else r) (rows (users d))"
    by (rule map_cong[OF HOL.refl]) (use only r(3) \<open>r = u\<close> in auto)
  ultimately show ?thesis using h(1,2) r(3,4) by simp
qed

text \<open>What the change leaves: one user with the new password and the next session version.\<close>

definition password_changed :: "forge \<Rightarrow> row_id \<Rightarrow> user \<Rightarrow> string \<Rightarrow> db \<Rightarrow> db \<Rightarrow> bool" where
  "password_changed F i u new d d' =
     (\<exists>v. u_id v = i \<and> hash_password F new = Inr (u_password_hash v)
       \<and> u_session_version v = next_session_version (u_session_version u)
       \<and> rows (users d') = map (\<lambda>r. if u_id r = i then v else r) (rows (users d)))"

lemma password_changedI:
  assumes "find_user_by_id i d = Inr u" and "update_password_in_connection F now u new d = (Inr v, d1)" and "users_wf d"
    and "users d0 = users d" and "users d' = users d1"
  shows "password_changed F i u new d0 d'"
proof -
  have "u_id u = i" using find_user_by_id_Inr[OF assms(1)] by blast
  moreover obtain h where "v = u\<lparr>u_password_hash := h, u_must_change_password := False,
      u_session_version := next_session_version (u_session_version u), u_updated_at := now\<rparr>"
      "hash_password F new = Inr h" "users d1 = (users d)\<lparr>rows := map (\<lambda>r. if u_id r = i then v else r) (rows (users d))\<rparr>"
    using password_bumped[OF assms(1-3)] by auto
  ultimately show ?thesis
    using assms(4,5) unfolding password_changed_def by (intro exI[of _ v]) simp
qed

end
