(* ===== verification/Account_Runs.thy ===== *)
theory Account_Runs
  imports Account_Safety
begin

text \<open>
  What a successful request of the account API did: password changes, used links, new accounts and accepted
  invitations, as the lemmas the account properties rest on.
\<close>

section \<open>Successful password changes\<close>

lemma web_audit_run: "web_audit sr now req u a et ei en det d = (Inr (), snd (web_audit sr now req u a et ei en det d))"
  by (simp add: web_audit_def modify_def)

lemma bnd_E:
  assumes "bnd m k s = (Inr y, s')" obtains x s1 where "m s = (Inr x, s1)" "k x s1 = (Inr y, s')"
  using assms by (auto simp: bnd_Inr)

lemma password_handler_run:
  assumes "bnd (bnd (transaction (bnd m (\<lambda>u. bnd (update_password_in_connection F now u new) (\<lambda>updated.
        bnd (revoke_sessions_for_user now (u_id updated)) (\<lambda>_. ret updated)))))
      (\<lambda>updated. query (\<lambda>d. Inr (auth_user_info_of g updated d))))
      (\<lambda>w. bnd (web_audit sr now req (ui_id w) a e (Some (ui_id w)) (Some (ui_username w)) None) (\<lambda>_. ret w)) d = (Inr info, d')"
    and "\<And>w d1. m d = (Inr w, d1) \<Longrightarrow> d1 = d \<and> find_user_by_id i d = Inr w"
    and "users_wf d" and "find_user_by_id i d = Inr u"
  shows "password_changed F i u new d d'"
proof -
  from assms(1) obtain w d2 where q: "bnd (transaction (bnd m (\<lambda>u. bnd (update_password_in_connection F now u new) (\<lambda>updated.
        bnd (revoke_sessions_for_user now (u_id updated)) (\<lambda>_. ret updated)))))
      (\<lambda>updated. query (\<lambda>d. Inr (auth_user_info_of g updated d))) d = (Inr w, d2)"
      and audit: "bnd (web_audit sr now req (ui_id w) a e (Some (ui_id w)) (Some (ui_username w)) None) (\<lambda>_. ret w) d2 = (Inr info, d')"
    by (rule bnd_E)
  have us2: "users d' = users d2"
    using audit by (rule bnd_E) (auto simp: ret_eq web_audit_def modify_eq log_with_details_def record_prechecked_def)
  from q obtain v where "bnd m (\<lambda>u. bnd (update_password_in_connection F now u new) (\<lambda>updated.
        bnd (revoke_sessions_for_user now (u_id updated)) (\<lambda>_. ret updated))) d = (Inr v, d2)"
    by (elim bnd_transaction_E) (simp add: query_eq)
  then obtain x d0 where "m d = (Inr x, d0)" and rest: "bnd (update_password_in_connection F now x new) (\<lambda>updated.
        bnd (revoke_sessions_for_user now (u_id updated)) (\<lambda>_. ret updated)) d0 = (Inr v, d2)"
    by (rule bnd_E)
  then have x: "d0 = d" "find_user_by_id i d = Inr x" using assms(2) by blast+
  from rest obtain y d1 where "update_password_in_connection F now x new d = (Inr y, d1)"
      and "bnd (revoke_sessions_for_user now (u_id y)) (\<lambda>_. ret y) d1 = (Inr v, d2)"
    unfolding x(1) by (rule bnd_E)
  moreover from this(2) have "users d2 = users d1"
    by (auto simp: revoke_sessions_for_user_def statement_Inr bnd_Inr ret_eq Let_def split: prod.splits)
  ultimately show ?thesis
    using password_changedI[OF x(2) _ assms(3) HOL.refl] us2 x(2) assms(4) by simp
qed

lemma change_password_run:
  assumes "(\<exists>info. change_password_with_audit F g sr now req i cur new d = (Inr info, d'))
      \<or> (\<exists>info. set_local_password_with_audit F g sr now req i new d = (Inr info, d'))"
    and "users_wf d" and "find_user_by_id i d = Inr u"
  shows "password_changed F i u new d d'"
  using assms(1)
proof (elim disjE exE)
  fix info assume "change_password_with_audit F g sr now req i cur new d = (Inr info, d')"
  then show ?thesis
    unfolding change_password_with_audit_def change_password_def
    by (rule password_handler_run[OF _ verify_change_input_run assms(2,3)])
next
  fix info assume "set_local_password_with_audit F g sr now req i new d = (Inr info, d')"
  then show ?thesis
    unfolding set_local_password_with_audit_def set_local_password_def
    by (rule password_handler_run[OF _ verify_set_input_run assms(2,3)])
qed

lemma confirm_reset_run:
  assumes "confirm_password_reset A now token new d = (Inr info, d')"
  obtains r u d0 v d1 where "find_contact_by_hash (sha256_hex (ae_forge A) token) d = Some r"
    "ct_purpose r = PasswordReset" "ct_consumed_at r = None" "now < ct_expires_at r"
    "find_user_by_id (ct_user_id r) d = Inr u" "user_status_is_active (u_status u)" "is_email_verified u"
    "u_email u = Some (ct_target r)" "mark_consumed_if_unused now (ct_id r) d = (Inr True, d0)"
    "update_password_in_connection (ae_forge A) now u new d0 = (Inr v, d1)"
    "d' = d1\<lparr>mail_outbox := mail_outbox d1 @ [\<lparr>mo_payload = MailPasswordResetNotice (u_username v) (ae_site_name A),
        mo_to_address = the (u_email v), mo_to_name = Some (u_username v), mo_next_attempt_at = now\<rparr>]\<rparr>"
    "info = auth_user_info_of (ae_gravatar A) v d'"
  using assms unfolding confirm_password_reset_def
proof (elim run_elims)
  fix x r v d2 u
  assume "(case find_contact_by_hash (sha256_hex (ae_forge A) token) d of
        None \<Rightarrow> Inl (contact_verification_invalid ''password reset link is invalid'') | Some r \<Rightarrow> Inr r) = Inr r"
    "find_user_by_id (ct_user_id r) d = Inr u"
    "bnd (mark_consumed_if_unused now (ct_id r)) (\<lambda>consumed.
             if \<not> consumed
             then raise (contact_verification_invalid ''password reset link has already been used'') else
             bnd (update_password_in_connection (ae_forge A) now u new) (\<lambda>updated.
             bnd (check (require_user_email updated)) (\<lambda>address.
             bnd (enqueue now address (Some (u_username updated))
                    (MailPasswordResetNotice (u_username updated) (ae_site_name A))) (\<lambda>_.
             ret updated)))) d = (Inr v, d2)"
    "query (\<lambda>d. Inr (auth_user_info_of (ae_gravatar A) v d)) d2 = (Inr info, d')"
    "\<not> ct_purpose r \<noteq> PasswordReset" "\<not> ct_consumed_at r \<noteq> None" "\<not> ct_expires_at r \<le> now"
    "\<not> \<not> user_status_is_active (u_status u)" "\<not> (\<not> is_email_verified u \<or> u_email u \<noteq> Some (ct_target r))"
  moreover from this(3) obtain d0 d1 where "mark_consumed_if_unused now (ct_id r) d = (Inr True, d0)"
    "update_password_in_connection (ae_forge A) now u new d0 = (Inr v, d1)"
    "d2 = d1\<lparr>mail_outbox := mail_outbox d1 @ [\<lparr>mo_payload = MailPasswordResetNotice (u_username v) (ae_site_name A),
        mo_to_address = the (u_email v), mo_to_name = Some (u_username v), mo_next_attempt_at = now\<rparr>]\<rparr>"
    by (auto simp: bnd_Inr if_raise_Inr check_eq ret_eq enqueue_def modify_eq require_user_email_def split: option.splits)
  ultimately show ?thesis
    by (intro that[of r u d0 v d1]) (auto simp: query_eq split: option.splits)
qed

section \<open>Used links\<close>

lemma find_contact_by_hash_Some:
  "find_contact_by_hash h d = Some r \<Longrightarrow> r \<in> set (rows (contact_tokens d)) \<and> ct_token_hash r = h"
  by (auto simp: find_contact_by_hash_def dest: select_one_Some)

lemma consume_rows:
  "rows (contact_tokens (snd (mark_consumed_if_unused now i d))) =
     map (\<lambda>t. if ct_id t = i \<and> ct_consumed_at t = None then t\<lparr>ct_consumed_at := Some now\<rparr> else t) (rows (contact_tokens d))"
  by (simp add: mark_consumed_if_unused_def statement_def update_many_def Let_def)

lemma consume_spends:
  assumes "contacts_wf d" and "find_contact_by_hash h d = Some r"
  shows "spent_link h (snd (mark_consumed_if_unused now (ct_id r) d))"
  unfolding spent_link_def consume_rows set_map
proof (intro ballI impI, elim imageE)
  fix t t' assume t: "t \<in> set (rows (contact_tokens d))" "ct_token_hash t' = h"
    and t': "t' = (if ct_id t = ct_id r \<and> ct_consumed_at t = None then t\<lparr>ct_consumed_at := Some now\<rparr> else t)"
  then have "ct_token_hash t = h" by (cases "ct_id t = ct_id r \<and> ct_consumed_at t = None") simp_all
  then have "t = r"
    using t(1) find_contact_by_hash_Some[OF assms(2)] assms(1) by (auto simp: contacts_wf_def distinct_map inj_on_def)
  then show "ct_consumed_at t' \<noteq> None" by (simp add: t')
qed

lemma spent_link_kept: "keeps account_tables d d' \<Longrightarrow> spent_link h d \<Longrightarrow> spent_link h d'"
  by (simp add: keeps_def account_tables_def spent_link_def)

lemma confirm_reset_spends:
  assumes "contacts_wf d" and "confirm_password_reset A now token new d = (Inr info, d')"
  shows "spent_link (sha256_hex (ae_forge A) token) d'"
  using assms(2)
proof (rule confirm_reset_run)
  fix r u d0 v d1
  assume r: "find_contact_by_hash (sha256_hex (ae_forge A) token) d = Some r"
    and m: "mark_consumed_if_unused now (ct_id r) d = (Inr True, d0)"
    and p: "update_password_in_connection (ae_forge A) now u new d0 = (Inr v, d1)"
    and d': "d' = d1\<lparr>mail_outbox := mail_outbox d1 @ [\<lparr>mo_payload = MailPasswordResetNotice (u_username v) (ae_site_name A),
        mo_to_address = the (u_email v), mo_to_name = Some (u_username v), mo_next_attempt_at = now\<rparr>]\<rparr>"
  have "spent_link (sha256_hex (ae_forge A) token) d0" using consume_spends[OF assms(1) r, of now] m by simp
  then have "spent_link (sha256_hex (ae_forge A) token) d1"
    using spent_link_kept[OF kept_operations(3)] p by (metis snd_conv)
  then show ?thesis by (simp add: d' spent_link_def)
qed

lemma confirm_contact_run:
  assumes "confirm_contact_verification A now token d = (Inr res, d')"
  obtains r u d0 where "find_contact_by_hash (sha256_hex (ae_forge A) token) d = Some r" "ct_consumed_at r = None"
    "now < ct_expires_at r" "find_user_by_id (ct_user_id r) d = Inr u" "user_status_is_active (u_status u)"
    "ct_purpose r \<noteq> PasswordReset" "mark_consumed_if_unused now (ct_id r) d = (Inr True, d0)"
    "(case ct_purpose r of
        RegisterActivation \<Rightarrow> activate_email (ae_forge A) now u (ct_target r)
      | ContactChange \<Rightarrow> change_email A now u (ct_target r)
      | PasswordReset \<Rightarrow> raise (contact_verification_invalid ''password reset token cannot be confirmed from this endpoint'')) d0 = (Inr (), d')"
    "res = \<lparr>cc_purpose = ct_purpose r, cc_user_id = ct_user_id r, cc_target = ct_target r\<rparr>"
  using assms unfolding confirm_contact_verification_def
proof (elim run_elims)
  fix r x d2 u
  assume a: "(case find_contact_by_hash (sha256_hex (ae_forge A) token) d of
        None \<Rightarrow> Inl (contact_verification_invalid ''contact verification link is invalid'') | Some r \<Rightarrow> Inr r) = Inr r"
    "\<not> ct_consumed_at r \<noteq> None" "\<not> ct_expires_at r \<le> now" "find_user_by_id (ct_user_id r) d = Inr u"
    "\<not> \<not> user_status_is_active (u_status u)" "ct_purpose r \<noteq> PasswordReset"
    "res = \<lparr>cc_purpose = ct_purpose r, cc_user_id = ct_user_id r, cc_target = ct_target r\<rparr>" "d' = d2"
  assume "bnd (mark_consumed_if_unused now (ct_id r)) (\<lambda>consumed.
             if \<not> consumed
             then raise (contact_verification_invalid ''contact verification link has already been used'') else
             case ct_purpose r of
               RegisterActivation \<Rightarrow> activate_email (ae_forge A) now u (ct_target r)
             | ContactChange \<Rightarrow> change_email A now u (ct_target r)
             | PasswordReset \<Rightarrow>
                 raise (contact_verification_invalid ''password reset token cannot be confirmed from this endpoint'')) d = (Inr x, d2)"
  then show ?thesis
    using a by (elim bnd_E if_raise_E) (intro that[of r u], auto split: option.splits)
qed

lemma confirm_contact_spends:
  assumes "contacts_wf d" and "confirm_contact_verification A now token d = (Inr res, d')"
  shows "spent_link (sha256_hex (ae_forge A) token) d'"
  using assms(2)
proof (rule confirm_contact_run)
  fix r u d0
  assume r: "find_contact_by_hash (sha256_hex (ae_forge A) token) d = Some r"
    and m: "mark_consumed_if_unused now (ct_id r) d = (Inr True, d0)"
    and rest: "(case ct_purpose r of
        RegisterActivation \<Rightarrow> activate_email (ae_forge A) now u (ct_target r)
      | ContactChange \<Rightarrow> change_email A now u (ct_target r)
      | PasswordReset \<Rightarrow> raise (contact_verification_invalid ''password reset token cannot be confirmed from this endpoint'')) d0 = (Inr (), d')"
  have "spent_link (sha256_hex (ae_forge A) token) d0" using consume_spends[OF assms(1) r, of now] m by simp
  moreover have "keeps account_tables d0 (snd (activate_email (ae_forge A) now u (ct_target r) d0))"
      "keeps account_tables d0 (snd (change_email A now u (ct_target r) d0))"
    unfolding activate_email_def change_email_def by (intro kept_rules)+
  then have "keeps account_tables d0 d'" using rest by (cases "ct_purpose r") (auto simp: raise_def)
  ultimately show ?thesis by (rule spent_link_kept[rotated])
qed

lemma spent_link_refused:
  assumes "spent_link (sha256_hex (ae_forge A) token) d"
  shows "\<exists>e. confirm_password_reset A now token new d = (Inl e, d)"
    "\<exists>e. confirm_contact_verification A now token d = (Inl e, d)"
proof -
  have none: "find_contact_by_hash (sha256_hex (ae_forge A) token) d = None
      \<or> (\<exists>r y. find_contact_by_hash (sha256_hex (ae_forge A) token) d = Some r \<and> ct_consumed_at r = Some y)"
    using assms find_contact_by_hash_Some[of "sha256_hex (ae_forge A) token" d]
    by (cases "find_contact_by_hash (sha256_hex (ae_forge A) token) d") (auto simp: spent_link_def)
  show "\<exists>e. confirm_contact_verification A now token d = (Inl e, d)"
    using none by (auto simp: confirm_contact_verification_def bnd_def query_def raise_def)
  show "\<exists>e. confirm_password_reset A now token new d = (Inl e, d)"
    using none by (cases "validate_password new")
      (auto simp: confirm_password_reset_def bnd_def query_def check_def raise_def)
qed

section \<open>New accounts\<close>

lemma insert_user_run:
  assumes "insert_user F model d = (Inr u, d')"
  shows "u = model (next_id (users d)) \<and> d' = d\<lparr>users := users d'\<rparr> \<and> rows (users d') = rows (users d) @ [u]
    \<and> user_unique_ok u (users d)"
  using assms by (auto simp: insert_user_def statement_Inr insert_row_def Let_def split: if_splits)

lemma create_user_with_role_run:
  assumes "create_user_with_role A now input email verified d = (Inr u, d')"
  shows "\<exists>address uuid h. normalize_email (ae_forge A) email = Inr address
    \<and> u = new_user now input (Some address) verified uuid h (next_id (users d))
    \<and> d' = d\<lparr>users := users d'\<rparr> \<and> rows (users d') = rows (users d) @ [u] \<and> user_unique_ok u (users d)
    \<and> validate_username (cu_username input) = Inr () \<and> validate_password (cu_password input) = Inr ()
    \<and> hash_password (ae_forge A) (cu_password input) = Inr h \<and> ensure_username_available (cu_username input) None d = Inr ()
    \<and> find_by_email address d = None \<and> find_by_pending_email address d = None"
  using assms unfolding create_user_with_role_def
proof (elim run_elims)
  fix address taken uuid h and x1 x2 x3 :: unit
  assume "validation_result (normalize_email (ae_forge A) email) = Inr address"
    "Inr (find_by_email address d \<noteq> None \<or> find_by_pending_email address d \<noteq> None) = Inr taken" "\<not> taken"
    "insert_user (ae_forge A) (new_user now input (Some address) verified uuid h) d = (Inr u, d')"
    "password_result (hash_password (ae_forge A) (cu_password input)) = Inr h"
    "validate_username (cu_username input) = Inr x1" "validate_password (cu_password input) = Inr x2"
    "ensure_username_available (cu_username input) None d = Inr x3"
  then show ?thesis
    using insert_user_run[of "ae_forge A" "new_user now input (Some address) verified uuid h" d u d']
    by (intro exI[of _ address] exI[of _ uuid] exI[of _ h]) (auto simp: validation_result_def password_result_def map_sum_Inr)
qed

lemma kept_users:
  "keeps users d (snd (web_audit sr now req u a et ei en det d))"
  "keeps users d (snd (issue_tokens F K policy now J v req d))"
  "keeps users d (snd (issue_contact_verification_token F now short i purpose target ttl d))"
  "keeps users d (snd (enqueue now to nm payload d))"
proof -
  have create: "keeps users d (snd (session_repo_create F m d))" "keeps users d (snd (contact_repo_create F c d))" for F m c d
    by (simp_all add: keeps_def session_repo_create_def contact_repo_create_def statement_def Let_def split_beta)
  show "keeps users d (snd (issue_tokens F K policy now J v req d))"
    unfolding issue_tokens_def persist_auth_session_def by (intro kept.bnd kept.reads create)
  show "keeps users d (snd (issue_contact_verification_token F now short i purpose target ttl d))"
    unfolding issue_contact_verification_token_def delete_active_for_user_def
    by (intro kept.bnd kept.reads create) (simp add: modify_def keeps_def)
qed (simp_all add: keeps_def web_audit_only enqueue_def modify_def)

lemma keeps_run: "keeps f d (snd (m d)) \<Longrightarrow> m d = (r, d') \<Longrightarrow> f d' = f d"
  by (simp add: keeps_def)

lemma service_create_user_run:
  assumes "service_create_user A now username email password role d = (Inr u, d')"
  shows "\<exists>address uuid h. normalize_email (ae_forge A) email = Inr address
    \<and> u = new_user now \<lparr>cu_username = username, cu_password = password, cu_role = role, cu_status = UserActive,
        cu_must_change_password = False, cu_allow_reserved_linuxdo_username = False\<rparr> (Some address) (Some now) uuid h
        (next_id (users d))
    \<and> d' = d\<lparr>users := users d'\<rparr> \<and> rows (users d') = rows (users d) @ [u]"
  using assms unfolding service_create_user_def service_create_user_with_options_def create_with_options_insert
proof (elim run_elims)
  fix address h uuid
  assume "validate_identity_input (ae_forge A) username email password = Inr address"
    "insert_user (ae_forge A) (\<lambda>i. \<lparr>u_id = i, u_public_uuid = uuid, u_username = username, u_email = Some address,
       u_password_hash = h, u_role = role, u_status = UserActive, u_must_change_password = False, u_session_version = 1,
       u_email_verified_at = Some now, u_pending_email = None, u_created_at = now, u_updated_at = now\<rparr>) d = (Inr u, d')"
  then show ?thesis
    using insert_user_run[of "ae_forge A" "\<lambda>i. \<lparr>u_id = i, u_public_uuid = uuid, u_username = username, u_email = Some address,
       u_password_hash = h, u_role = role, u_status = UserActive, u_must_change_password = False, u_session_version = 1,
       u_email_verified_at = Some now, u_pending_email = None, u_created_at = now, u_updated_at = now\<rparr>" d u d']
    by (intro exI[of _ address] exI[of _ uuid] exI[of _ h])
      (auto simp: new_user_def validate_identity_input_def validation_result_def map_sum_Inr split: sum.splits)
qed

section \<open>Invitations\<close>

lemma find_invitation_Some:
  "find_invitation_by_hash h d = Some v \<Longrightarrow> v \<in> set (rows (user_invitations d)) \<and> iv_token_hash v = h"
  by (auto simp: find_invitation_by_hash_def dest: select_one_Some)

lemma closed_invitation_refused:
  assumes "invitation_token_hash (ae_forge A) token = Inr h" and "closed_invitation h d"
  shows "\<exists>e. accept_invitation A now token username password d = (Inl e, d)"
    "\<exists>e. verify_public_invitation A now token d = (Inl e, d)"
proof -
  have none: "find_invitation_by_hash h d = None \<or> (\<exists>v. find_invitation_by_hash h d = Some v \<and> iv_status v \<noteq> InvitationPending)"
    using assms(2) find_invitation_Some[of h d] by (cases "find_invitation_by_hash h d") (auto simp: closed_invitation_def)
  show "\<exists>e. verify_public_invitation A now token d = (Inl e, d)"
    using none by (auto simp: verify_public_invitation_def find_valid_invitation_by_token_def bnd_def query_def check_def
        assms(1) refresh_expired_status_def ret_def ensure_invitation_pending_def invitation_is_pending_def)
  show "\<exists>e. accept_invitation A now token username password d = (Inl e, d)"
    using none by (auto simp: accept_invitation_def bnd_def query_def check_def transaction_def
        assms(1) refresh_expired_status_def ret_def ensure_invitation_pending_def invitation_is_pending_def)
qed

lemma count_rows_id:
  assumes "keys_ok k t" and "v \<in> set (rows t)" and "p v"
  shows "count_rows (\<lambda>r. k r = k v \<and> p r) t = 1"
  unfolding count_rows_def
  by (rule unique_count[of k]) (use assms in \<open>auto simp: keys_ok_def\<close>)

lemma refresh_expired_run:
  assumes "refresh_expired_status now v d = (Inr v', d')" and "invitations_wf d" and "v \<in> set (rows (user_invitations d))"
    and "ensure_invitation_pending v' = Inr x"
  shows "v' = v \<and> d' = d \<and> iv_status v = InvitationPending \<and> now < iv_expires_at v"
proof (cases "iv_status v = InvitationPending \<and> iv_expires_at v \<le> now")
  case True
  have "count_rows (\<lambda>r. iv_id r = iv_id v \<and> iv_status r = InvitationPending) (user_invitations d) = 1"
    by (rule count_rows_id) (use assms(2,3) True in \<open>auto simp: invitations_wf_def\<close>)
  then have "fst (mark_expired_if_pending now (iv_id v) d) = Inr True"
    by (simp add: mark_expired_if_pending_def update_invitations_def statement_def update_many_def)
  then have "iv_status v' = InvitationExpired"
    using assms(1) True by (auto simp: refresh_expired_status_def bnd_Inr ret_eq)
  then show ?thesis using assms(4) by (simp add: ensure_invitation_pending_def invitation_is_pending_def)
next
  case False
  then show ?thesis
    using assms(1,4) by (auto simp: refresh_expired_status_def ret_eq ensure_invitation_pending_def invitation_is_pending_def
        split: if_splits)
qed

lemma accept_run:
  assumes "accept_invitation A now token username password d = (Inr u, d')" and "invitations_wf d"
  obtains h v d1 where "invitation_token_hash (ae_forge A) token = Inr h" "find_invitation_by_hash h d = Some v"
    "iv_status v = InvitationPending" "now < iv_expires_at v"
    "create_user_with_role A now \<lparr>cu_username = username, cu_password = password, cu_role = RoleUser,
       cu_status = UserActive, cu_must_change_password = False, cu_allow_reserved_linuxdo_username = False\<rparr>
       (iv_email v) (Some now) d = (Inr u, d1)"
    "d' = snd (mark_accepted_if_pending now (iv_id v) (u_id u) d1)"
proof -
  let ?new = "\<lambda>v. create_user_with_role A now \<lparr>cu_username = username, cu_password = password, cu_role = RoleUser,
       cu_status = UserActive, cu_must_change_password = False, cu_allow_reserved_linuxdo_username = False\<rparr>
       (iv_email v) (Some now)"
  obtain h where h: "invitation_token_hash (ae_forge A) token = Inr h"
    and body: "bnd (query (\<lambda>d. case find_invitation_by_hash h d of None \<Rightarrow> Inl invitation_invalid_error | Some v \<Rightarrow> Inr v)) (\<lambda>v.
        bnd (refresh_expired_status now v) (\<lambda>v.
        bnd (check (ensure_invitation_pending v)) (\<lambda>_.
        bnd (ensure_invitation_not_expired now v) (\<lambda>_.
        bnd (check (email_check (ae_email A) (iv_email v))) (\<lambda>_.
        bnd (query (ensure_invited_email_available (iv_email v))) (\<lambda>_.
        bnd (?new v) (\<lambda>u.
        bnd (mark_accepted_if_pending now (iv_id v) (u_id u)) (\<lambda>marked.
        if \<not> marked then query (\<lambda>d. Inl (current_invitation_status_error (iv_id v) d)) else
        ret u)))))))) d = (Inr u, d')"
    using assms(1) unfolding accept_invitation_def by (elim bnd_check_E) (simp add: transaction_Inr)
  from body obtain v where v: "find_invitation_by_hash h d = Some v"
    and rest: "bnd (refresh_expired_status now v) (\<lambda>v.
        bnd (check (ensure_invitation_pending v)) (\<lambda>_.
        bnd (ensure_invitation_not_expired now v) (\<lambda>_.
        bnd (check (email_check (ae_email A) (iv_email v))) (\<lambda>_.
        bnd (query (ensure_invited_email_available (iv_email v))) (\<lambda>_.
        bnd (?new v) (\<lambda>u.
        bnd (mark_accepted_if_pending now (iv_id v) (u_id u)) (\<lambda>marked.
        if \<not> marked then query (\<lambda>d. Inl (current_invitation_status_error (iv_id v) d)) else
        ret u))))))) d = (Inr u, d')"
    by (elim bnd_query_E) (auto split: option.splits)
  from rest obtain v' d0 x where run: "refresh_expired_status now v d = (Inr v', d0)" "ensure_invitation_pending v' = Inr x"
    and tail: "bnd (ensure_invitation_not_expired now v') (\<lambda>_.
        bnd (check (email_check (ae_email A) (iv_email v'))) (\<lambda>_.
        bnd (query (ensure_invited_email_available (iv_email v'))) (\<lambda>_.
        bnd (?new v') (\<lambda>u.
        bnd (mark_accepted_if_pending now (iv_id v') (u_id u)) (\<lambda>marked.
        if \<not> marked then query (\<lambda>d. Inl (current_invitation_status_error (iv_id v') d)) else
        ret u))))) d0 = (Inr u, d')"
    by (elim bnd_E[of "refresh_expired_status now v"] bnd_check_E) blast
  have same: "v' = v" "d0 = d" "iv_status v = InvitationPending" "now < iv_expires_at v"
    using refresh_expired_run[OF run(1) assms(2) _ run(2)] find_invitation_Some[OF v] by blast+
  have live: "ensure_invitation_not_expired now v d = (Inr (), d)"
    using same(4) by (simp add: ensure_invitation_not_expired_def ret_def)
  from tail obtain w d1 where new: "?new v d = (Inr w, d1)"
    and m: "bnd (mark_accepted_if_pending now (iv_id v) (u_id w)) (\<lambda>marked.
        if \<not> marked then query (\<lambda>d. Inl (current_invitation_status_error (iv_id v) d)) else ret w) d1 = (Inr u, d')"
    unfolding same(1,2) by (elim bnd_E[of "ensure_invitation_not_expired now v"] bnd_check_E bnd_query_E bnd_E[of "?new v"])
      (simp add: live)
  from m have "w = u" "d' = snd (mark_accepted_if_pending now (iv_id v) (u_id w) d1)"
    by (auto elim!: bnd_E simp: query_eq ret_eq split: if_splits)
  then show ?thesis using that[OF h v same(3,4)] new by simp
qed

lemma accept_closes:
  assumes "accept_invitation A now token username password d = (Inr u, d')" and "invitations_wf d"
    and "invitation_token_hash (ae_forge A) token = Inr h"
  shows "closed_invitation h d'"
  using assms(1,2)
proof (rule accept_run)
  fix h' v d1
  assume v: "invitation_token_hash (ae_forge A) token = Inr h'" "find_invitation_by_hash h' d = Some v"
      "iv_status v = InvitationPending" "now < iv_expires_at v"
    and new: "create_user_with_role A now \<lparr>cu_username = username, cu_password = password, cu_role = RoleUser,
       cu_status = UserActive, cu_must_change_password = False, cu_allow_reserved_linuxdo_username = False\<rparr>
       (iv_email v) (Some now) d = (Inr u, d1)"
    and d': "d' = snd (mark_accepted_if_pending now (iv_id v) (u_id u) d1)"
  have "d1 = d\<lparr>users := users d1\<rparr>" using create_user_with_role_run[OF new] by blast
  then have "user_invitations d1 = user_invitations (d\<lparr>users := users d1\<rparr>)" by (rule arg_cong)
  then have inv: "user_invitations d1 = user_invitations d" by simp
  have h: "h' = h" using v(1) assms(3) by simp
  have rows: "rows (user_invitations d') = map (\<lambda>r. if iv_id r = iv_id v \<and> iv_status r = InvitationPending \<and> iv_expires_at r > now
      then r\<lparr>iv_status := InvitationAccepted, iv_accepted_user_id := Some (u_id u), iv_accepted_at := Some now,
        iv_updated_at := now\<rparr> else r) (rows (user_invitations d))"
    by (simp add: d' mark_accepted_if_pending_def update_invitations_def statement_def update_many_def Let_def inv)
  show ?thesis
    unfolding closed_invitation_def rows set_map
  proof (intro ballI impI, elim imageE)
    fix r r' assume r: "r \<in> set (rows (user_invitations d))" "iv_token_hash r' = h"
      and r': "r' = (if iv_id r = iv_id v \<and> iv_status r = InvitationPending \<and> iv_expires_at r > now
        then r\<lparr>iv_status := InvitationAccepted, iv_accepted_user_id := Some (u_id u), iv_accepted_at := Some now,
          iv_updated_at := now\<rparr> else r)"
    then have "iv_token_hash r = h" by (cases "iv_id r = iv_id v \<and> iv_status r = InvitationPending \<and> iv_expires_at r > now") simp_all
    then have "r = v"
      using r(1) find_invitation_Some[OF v(2)] h assms(2) by (auto simp: invitations_wf_def distinct_map inj_on_def)
    then show "iv_status r' \<noteq> InvitationPending" using v(3,4) by (simp add: r')
  qed
qed

end
