(* ===== verification/Account_Properties.thy ===== *)
theory Account_Properties
  imports Account_Runs
begin

text \<open>
  The properties of web sessions, accounts and invitations, each with a run on a small database.
\<close>

section \<open>Sample\<close>

definition plain_list :: email_policy_list where
  "plain_list = \<lparr>el_is_empty = True, el_matches = (\<lambda>_ _. False)\<rparr>"

definition plain_env :: account_env where
  "plain_env = \<lparr>ae_forge = plain_forge, ae_jwt = plain_jwt, ae_policy = plain_policy,
     ae_contact = \<lparr>cp_register_activation_ttl_secs = 86400, cp_contact_change_ttl_secs = 86400, cp_resend_cooldown_secs = 60,
       cp_password_reset_ttl_secs = 3600, cp_password_reset_request_cooldown_secs = 60\<rparr>,
     ae_email = \<lparr>ep_allowlist = plain_list, ep_blocklist = plain_list, ep_split = (\<lambda>e. Inr (e, e))\<rparr>,
     ae_site_name = ''Aster'', ae_new_uuid = (\<lambda>taken. if taken ''uuid-2'' then Inl Panicked else Inr ''uuid-2''),
     ae_gravatar = (\<lambda>e n. e), ae_should_record = (\<lambda>_. True), ae_invitation_ttl_secs = 86400,
     ae_public_site_urls = [], ae_join = (@)\<rparr>"

definition sample_link :: contact_token where
  "sample_link = \<lparr>ct_id = 1, ct_user_id = 1, ct_channel = ChannelEmail, ct_purpose = PasswordReset,
     ct_target = ''steve@example.com'', ct_token_hash = ''#cv_reset'', ct_expires_at = 3600000, ct_consumed_at = None,
     ct_created_at = 0\<rparr>"

definition sample_invitation :: user_invitation where
  "sample_invitation = \<lparr>iv_id = 1, iv_email = ''alex@example.com'', iv_token_hash = ''#invite'',
     iv_status = InvitationPending, iv_invited_by = 1, iv_accepted_user_id = None, iv_expires_at = 86400000,
     iv_created_at = 0, iv_updated_at = 0, iv_accepted_at = None, iv_revoked_at = None\<rparr>"

definition verified_user :: user where
  "verified_user = sample_user\<lparr>u_email := Some ''steve@example.com'', u_email_verified_at := Some 0\<rparr>"

definition account_db :: db where
  "account_db = signed_in_db\<lparr>users := \<lparr>rows = [verified_user], next_id = 2\<rparr>,
     contact_tokens := \<lparr>rows = [sample_link], next_id = 2\<rparr>,
     user_invitations := \<lparr>rows = [sample_invitation], next_id = 2\<rparr>\<rparr>"

lemma account_db_wf: "acct_wf account_db"
  by (simp add: acct_wf_def web_wf_def sessions_wf_def users_wf_def user_unique_ok_def keys_ok_def contacts_wf_def
      invitations_wf_def account_db_def signed_in_db_def sample_db_def empty_db_def empty_table_def verified_user_def
      sample_user_def sample_session_def sample_link_def sample_invitation_def)

section \<open>Sessions\<close>

text \<open>In every run of session, account and invitation requests, user ids, names, public UUIDs, e-mails and
  pending e-mails, refresh ids, and the hashes of links and invitations stay unique, and no user's session version
  decreases.\<close>

theorem account_runs_invariant:
  assumes "acct_wf d" and "account_steps A I H d d'"
  shows "acct_wf d' \<and> versions_grow d d'"
  using acct_safeD(1,2)[OF account_steps_safe[OF assms(2)] assms(1)] by blast

theorem account_runs_invariant_witness:
  "acct_wf (snd (confirm_password_reset plain_env 1000 ''cv_reset'' ''new password'' account_db))"
proof -
  have "account_steps plain_env {} {} account_db (snd (confirm_password_reset plain_env 1000 ''cv_reset'' ''new password'' account_db))"
    by (rule account_more[OF account_done step_confirm_reset])
  from account_runs_invariant[OF account_db_wf this] show ?thesis by blast
qed

text \<open>C6. A refresh token that was exchanged or logged out is refused for ever, whatever requests follow, as
  long as its id is not issued again: later refreshes with it fail and change nothing.\<close>

theorem spent_refresh_token_refused:
  assumes "acct_wf d" and "jwt_ok (ae_jwt A)" and "jwt_decode (ae_jwt A) now token = Inr c" and "ac_jti c = Some j"
    and "(\<exists>J b. fst J \<noteq> j \<and> web_refresh (ae_forge A) (ae_jwt A) (ae_policy A) (ae_should_record A) now J token req d = (Inr b, d1))
      \<or> logout (ae_jwt A) (ae_should_record A) now token req d = (Inr True, d1)"
    and "account_steps A I H d1 d2" and "j \<notin> I"
  shows "\<exists>e. web_refresh (ae_forge A) (ae_jwt A) (ae_policy A) (ae_should_record A) later J' token req' d2 = (Inl e, d2)"
proof -
  have wf: "sessions_wf d" using assms(1) by (simp add: acct_wf_def web_wf_def)
  have "dead_jti j d1 \<and> acct_wf d1"
    using assms(5)
  proof (elim disjE exE conjE)
    fix J b assume J: "fst J \<noteq> j"
      and run: "web_refresh (ae_forge A) (ae_jwt A) (ae_policy A) (ae_should_record A) now J token req d = (Inr b, d1)"
    have "acct_safe {fst J} H d d1"
      using acct_sessions(2)[of J "{fst J}" H d "ae_forge A" "ae_jwt A" "ae_policy A" "ae_should_record A" now token req] run by simp
    then show ?thesis using refresh_spends[OF wf run assms(3,4) J] acct_safeD(1) assms(1) by blast
  next
    assume run: "logout (ae_jwt A) (ae_should_record A) now token req d = (Inr True, d1)"
    have "acct_safe {} H d d1"
      using acct_sessions(3)[of "{}" H d "ae_jwt A" "ae_should_record A" now token req] run by simp
    then show ?thesis using logout_spends[OF run assms(3,4)] acct_safeD(1) assms(1) by blast
  qed
  then have "dead_jti j d2" "acct_wf d2" using acct_safeD(1,3)[OF account_steps_safe[OF assms(6)]] assms(7) by blast+
  then show ?thesis
    by (intro dead_jti_refused[OF _ _ assms(2-4)]) (simp_all add: acct_wf_def web_wf_def)
qed

lemma sample_decode:
  "jwt_decode plain_jwt 1000 sample_refresh_token = Inr (claims_for 0 1 (u_session_version sample_user) TokenRefresh 604800 (Some ''jti-1'') False)"
  using sample_refreshable by (simp add: refreshable_def)

lemma sample_logout: "\<exists>d'. logout plain_jwt (\<lambda>_. True) 1000 sample_refresh_token plain_request account_db = (Inr True, d')"
  by (simp add: logout_def decode_claims_def sample_decode ensure_token_type_def claims_for_def bnd_def query_def ret_def
      revoke_by_refresh_jti_def revoke_sessions_where_def statement_def update_many_def count_rows_def account_db_def
      signed_in_db_def sample_session_def web_audit_def modify_def)

theorem spent_refresh_token_refused_witness:
  "\<exists>d1 e. logout plain_jwt (\<lambda>_. True) 1000 sample_refresh_token plain_request account_db = (Inr True, d1)
     \<and> web_refresh plain_forge plain_jwt plain_policy (\<lambda>_. True) 2000 (''jti-2'', ''session-2'') sample_refresh_token
         plain_request (snd (delete_expired_sessions 1500 d1)) = (Inl e, snd (delete_expired_sessions 1500 d1))"
proof -
  obtain d1 where d1: "logout plain_jwt (\<lambda>_. True) 1000 sample_refresh_token plain_request account_db = (Inr True, d1)"
    using sample_logout by blast
  have "account_steps plain_env {} {} d1 (snd (delete_expired_sessions 1500 d1))"
    by (rule account_more[OF account_done step_cleanup_sessions])
  moreover have "ae_jwt plain_env = plain_jwt" "ae_should_record plain_env = (\<lambda>_. True)" "ae_forge plain_env = plain_forge"
      "ae_policy plain_env = plain_policy" by (simp_all add: plain_env_def)
  ultimately show ?thesis
    using spent_refresh_token_refused[OF account_db_wf, of plain_env 1000 sample_refresh_token _ "''jti-1''" plain_request d1
        "{}" "{}" "snd (delete_expired_sessions 1500 d1)" 2000 "(''jti-2'', ''session-2'')" plain_request]
      plain_jwt_ok sample_decode d1 by (auto simp: claims_for_def)
qed

lemma stale_version_refused:
  assumes "acct_wf d" and "v \<in> set (rows (users d))" and "jwt_decode K later token = Inr c"
    and "ac_claims_user_id c = u_id v" and "ac_session_version c < u_session_version v"
  shows "isl (current_user_and_claims_from_token K later token d)"
    "\<exists>e. web_refresh F K policy sr later J token req d = (Inl e, d)"
proof -
  have "find_user_by_id (u_id v) d = Inr v"
    using assms(1,2) by (simp add: acct_wf_def web_wf_def users_wf_def keys_ok_def find_user_by_id_def select_one_def find_key)
  then have u: "find_user_by_id (ac_claims_user_id c) d = Inr v" using assms(4) by simp
  show "isl (current_user_and_claims_from_token K later token d)"
    using u assms(3,5) by (cases "ac_token_type c")
      (auto simp: current_user_and_claims_from_token_def decode_access_claims_def decode_claims_def ensure_token_type_def)
  have "\<not> refreshable K later token d c' s w" for c' s w
    using u assms(3,5) by (auto simp: refreshable_def)
  moreover have "sessions_wf d" using assms(1) by (simp add: acct_wf_def web_wf_def)
  ultimately show "\<exists>e. web_refresh F K policy sr later J token req d = (Inl e, d)"
    using web_refresh_split[of d K later token F policy sr J req] by blast
qed

lemma confirm_reset_changed:
  assumes "confirm_password_reset A now token new d = (Inr info, d')" and "users_wf d"
  shows "\<exists>u. find_user_by_id (ui_id info) d = Inr u \<and> password_changed (ae_forge A) (ui_id info) u new d d'"
  using assms(1)
proof (rule confirm_reset_run)
  fix r u d0 v d1
  assume u: "find_user_by_id (ct_user_id r) d = Inr u" and m: "mark_consumed_if_unused now (ct_id r) d = (Inr True, d0)"
    and p: "update_password_in_connection (ae_forge A) now u new d0 = (Inr v, d1)"
    and d': "d' = d1\<lparr>mail_outbox := mail_outbox d1 @ [\<lparr>mo_payload = MailPasswordResetNotice (u_username v) (ae_site_name A),
        mo_to_address = the (u_email v), mo_to_name = Some (u_username v), mo_next_attempt_at = now\<rparr>]\<rparr>"
    and info: "info = auth_user_info_of (ae_gravatar A) v d'"
  have us: "users d0 = users d" using consume_users[OF m] .
  have u0: "find_user_by_id (ct_user_id r) d0 = Inr u" and wf0: "users_wf d0"
    using u assms(2) us by (simp_all add: find_user_by_id_def users_wf_def)
  have "u_id v = ct_user_id r"
    using password_bumped[OF u0 p wf0] find_user_by_id_Inr[OF u] by auto
  then have "ui_id info = ct_user_id r" by (simp add: info auth_user_info_of_def auth_user_info_from_def)
  then show ?thesis using u password_changedI[OF u0 p wf0 us[symmetric], of d'] by (simp add: d')
qed

text \<open>C7. Changing, setting or resetting a password ends every session of the user: in every later state the
  access and refresh tokens issued up to then are refused.  (The session version saturates at \<open>i64::MAX\<close>.)\<close>

theorem password_change_ends_sessions:
  assumes "acct_wf d" and "find_user_by_id i d = Inr u" and "u_session_version u < 2 ^ 63 - 1"
    and "(\<exists>now req cur info. change_password_with_audit (ae_forge A) (ae_gravatar A) (ae_should_record A) now req i cur new d = (Inr info, d1))
      \<or> (\<exists>now req info. set_local_password_with_audit (ae_forge A) (ae_gravatar A) (ae_should_record A) now req i new d = (Inr info, d1))
      \<or> (\<exists>now link info. confirm_password_reset A now link new d = (Inr info, d1) \<and> ui_id info = i)"
    and "account_steps A I H d1 d2"
    and "jwt_decode (ae_jwt A) later token = Inr c" and "ac_claims_user_id c = i"
    and "ac_session_version c \<le> u_session_version u"
  shows "isl (current_user_and_claims_from_token (ae_jwt A) later token d2)
    \<and> (\<exists>e. web_refresh (ae_forge A) (ae_jwt A) (ae_policy A) (ae_should_record A) later J token req d2 = (Inl e, d2))"
proof -
  have wf: "users_wf d" using assms(1) by (simp add: acct_wf_def web_wf_def)
  have "account_step A I H d d1"
    using assms(4) by (metis snd_conv step_change_password step_set_password step_confirm_reset)
  then have wf1: "acct_wf d1" using acct_safeD(1)[OF account_step_safe] assms(1) by blast
  have "password_changed (ae_forge A) i u new d d1"
    using assms(4)
  proof (elim disjE exE conjE)
    fix now link info assume "confirm_password_reset A now link new d = (Inr info, d1)" "ui_id info = i"
    then show ?thesis using confirm_reset_changed[OF _ wf] assms(2) by fastforce
  qed (use change_password_run[OF _ wf assms(2)] in blast)+
  then obtain v where v: "u_id v = i" "u_session_version v = next_session_version (u_session_version u)"
      "rows (users d1) = map (\<lambda>r. if u_id r = i then v else r) (rows (users d))"
    by (auto simp: password_changed_def)
  have "v \<in> set (rows (users d1))" using find_user_by_id_Inr[OF assms(2)] unfolding v(3) by force
  then obtain w where w: "w \<in> set (rows (users d2))" "u_id w = i" "u_session_version v \<le> u_session_version w"
    using acct_safeD(2)[OF account_steps_safe[OF assms(5)] wf1] v(1) by (auto simp: versions_grow_def)
  have "ac_session_version c < u_session_version w"
    using v(2) w(3) assms(3,8) by (simp add: next_session_version_def)
  moreover have "acct_wf d2" using acct_safeD(1)[OF account_steps_safe[OF assms(5)] wf1] .
  ultimately show ?thesis
    using stale_version_refused[OF _ w(1) assms(6)] assms(7) w(2) by simp
qed

section \<open>Password reset\<close>

text \<open>When a reset link is accepted.\<close>

definition reset_link :: "account_env \<Rightarrow> time \<Rightarrow> string \<Rightarrow> string \<Rightarrow> db \<Rightarrow> contact_token \<Rightarrow> user \<Rightarrow> bool" where
  "reset_link A now token new d r u =
     (8 \<le> length new \<and> length new \<le> 128
      \<and> r \<in> set (rows (contact_tokens d)) \<and> ct_token_hash r = sha256_hex (ae_forge A) token
      \<and> ct_purpose r = PasswordReset \<and> ct_consumed_at r = None \<and> now < ct_expires_at r
      \<and> u \<in> set (rows (users d)) \<and> u_id u = ct_user_id r \<and> user_status_is_active (u_status u)
      \<and> is_email_verified u \<and> u_email u = Some (ct_target r))"

lemma validate_password_Inr: "validate_password p = Inr () \<longleftrightarrow> 8 \<le> length p \<and> length p \<le> 128"
  by (auto simp: validate_password_def)

lemma user_found:
  assumes "users_wf d" and "u \<in> set (rows (users d))" and "u_id u = i"
  shows "find_user_by_id i d = Inr u"
  using find_key[of u_id "rows (users d)" u] assms by (simp add: users_wf_def keys_ok_def find_user_by_id_def select_one_def)

lemma link_found:
  assumes "contacts_wf d" and "r \<in> set (rows (contact_tokens d))" and "ct_token_hash r = h"
  shows "find_contact_by_hash h d = Some r"
  using find_key[of ct_token_hash "rows (contact_tokens d)" r] assms
  by (simp add: contacts_wf_def find_contact_by_hash_def select_one_def)

lemma consume_ok:
  assumes "contacts_wf d" and "r \<in> set (rows (contact_tokens d))" and "ct_consumed_at r = None"
  shows "fst (mark_consumed_if_unused now (ct_id r) d) = Inr True"
proof -
  have "count_rows (\<lambda>t. ct_id t = ct_id r \<and> ct_consumed_at t = None) (contact_tokens d) = 1"
    by (rule count_rows_id) (use assms in \<open>auto simp: contacts_wf_def\<close>)
  then show ?thesis by (simp add: mark_consumed_if_unused_def statement_def update_many_def)
qed

lemma update_password_ok:
  assumes "users_wf d" and "u \<in> set (rows (users d))" and "validate_password new = Inr ()" and "hash_password F new = Inr h"
  shows "\<exists>v d'. update_password_in_connection F now u new d = (Inr v, d') \<and> u_email v = u_email u \<and> u_username v = u_username u"
proof -
  let ?v = "u\<lparr>u_password_hash := h, u_must_change_password := False,
      u_session_version := next_session_version (u_session_version u), u_updated_at := now\<rparr>"
  have "select_one (\<lambda>r. u_id r = u_id u) (users d) = Some u"
    using find_key[of u_id "rows (users d)" u] assms(1,2) by (simp add: users_wf_def keys_ok_def select_one_def)
  moreover have "user_unique_ok ?v (users d)"
    using assms(1,2) by (auto simp: users_wf_def user_unique_ok_def)
  ultimately show ?thesis
    using assms(3,4)
    by (auto simp: update_password_in_connection_def bnd_def check_def password_result_def update_user_row_def
        statement_def update_by_key_def)
qed

lemma reset_succeeds:
  assumes "acct_wf d" and "reset_link A now token new d r u" and "hash_password (ae_forge A) new = Inr h"
  shows "\<exists>info d'. confirm_password_reset A now token new d = (Inr info, d')"
proof -
  note l = assms(2)[unfolded reset_link_def]
  have wf: "contacts_wf d" "users_wf d" using assms(1) by (simp_all add: acct_wf_def web_wf_def)
  obtain d0 where m: "mark_consumed_if_unused now (ct_id r) d = (Inr True, d0)"
    using consume_ok[OF wf(1), of r now] l by (metis fst_conv surj_pair)
  have us: "users d0 = users d" using consume_users[OF m] .
  have pw: "validate_password new = Inr ()" using l validate_password_Inr by blast
  obtain v d1 where v: "update_password_in_connection (ae_forge A) now u new d0 = (Inr v, d1)" "u_email v = u_email u"
    using update_password_ok[of d0 u new "ae_forge A" h now] wf(2) l pw assms(3) us by (auto simp: users_wf_def)
  have found: "find_contact_by_hash (sha256_hex (ae_forge A) token) d = Some r" using link_found[OF wf(1)] l by blast
  have usr: "find_user_by_id (ct_user_id r) d = Inr u" using user_found[OF wf(2)] l by blast
  show ?thesis
    unfolding confirm_password_reset_def
    using l by (simp add: bnd_def check_def query_def pw found transaction_def usr m v require_user_email_def enqueue_def modify_def ret_def)
qed

lemma confirm_reset_atomic: "atomic_handler (confirm_password_reset A now token new)"
  unfolding atomic_handler_def confirm_password_reset_def
  by (auto simp: fail_simps split: option.splits)

lemma confirm_reset_only_if:
  assumes "users_wf d" and "confirm_password_reset A now token new d = (Inr info, d')"
  shows "\<exists>r u. reset_link A now token new d r u \<and> ui_id info = u_id u \<and> password_changed (ae_forge A) (u_id u) u new d d'
    \<and> mail_outbox d' = mail_outbox d @ [\<lparr>mo_payload = MailPasswordResetNotice (u_username u) (ae_site_name A),
        mo_to_address = ct_target r, mo_to_name = Some (u_username u), mo_next_attempt_at = now\<rparr>]"
  using assms(2)
proof (rule confirm_reset_run)
  fix r u d0 v d1
  assume r: "find_contact_by_hash (sha256_hex (ae_forge A) token) d = Some r" "ct_purpose r = PasswordReset"
      "ct_consumed_at r = None" "now < ct_expires_at r"
    and u: "find_user_by_id (ct_user_id r) d = Inr u" "user_status_is_active (u_status u)" "is_email_verified u"
      "u_email u = Some (ct_target r)"
    and m: "mark_consumed_if_unused now (ct_id r) d = (Inr True, d0)"
    and p: "update_password_in_connection (ae_forge A) now u new d0 = (Inr v, d1)"
    and d': "d' = d1\<lparr>mail_outbox := mail_outbox d1 @ [\<lparr>mo_payload = MailPasswordResetNotice (u_username v) (ae_site_name A),
        mo_to_address = the (u_email v), mo_to_name = Some (u_username v), mo_next_attempt_at = now\<rparr>]\<rparr>"
    and info: "info = auth_user_info_of (ae_gravatar A) v d'"
  have us: "users d0 = users d" using consume_users[OF m] .
  have u0: "find_user_by_id (ct_user_id r) d0 = Inr u" and wf0: "users_wf d0"
    using u(1) assms(1) us by (simp_all add: find_user_by_id_def users_wf_def)
  obtain h where v: "v = u\<lparr>u_password_hash := h, u_must_change_password := False,
      u_session_version := next_session_version (u_session_version u), u_updated_at := now\<rparr>" "validate_password new = Inr ()"
      "d1 = d0\<lparr>users := (users d0)\<lparr>rows := map (\<lambda>r'. if u_id r' = ct_user_id r then v else r') (rows (users d0))\<rparr>\<rparr>"
    using password_bumped[OF u0 p wf0] by auto
  have uid: "u \<in> set (rows (users d))" "u_id u = ct_user_id r" using find_user_by_id_Inr[OF u(1)] by blast+
  have "mail_outbox d0 = mail_outbox d"
    using m by (auto simp: mark_consumed_if_unused_def statement_Inr Let_def split: prod.splits)
  then have "mail_outbox d' = mail_outbox d @ [\<lparr>mo_payload = MailPasswordResetNotice (u_username u) (ae_site_name A),
        mo_to_address = ct_target r, mo_to_name = Some (u_username u), mo_next_attempt_at = now\<rparr>]"
    using u(4) by (simp add: d' v(1,3))
  moreover have "reset_link A now token new d r u"
    using r u find_contact_by_hash_Some[OF r(1)] uid v(2) by (simp add: reset_link_def validate_password_Inr)
  moreover have "ui_id info = u_id u" by (simp add: info auth_user_info_of_def auth_user_info_from_def v(1))
  moreover have "password_changed (ae_forge A) (u_id u) u new d d'"
    using password_changedI[OF u0 p wf0 us[symmetric], of d'] uid(2) by (simp add: d')
  ultimately show ?thesis by blast
qed

text \<open>C8. \<open>auth_service::confirm_password_reset\<close>, exactly: with a working password hash it fails, and changes
  nothing, if and only if the password has not 8 to 128 bytes or the link is unknown, of another purpose, used,
  expired, or not for the verified address of an active account; otherwise that account, and no other, gets the new
  password and the next session version, and one notice is queued for it.\<close>

theorem confirm_password_reset_exact:
  assumes "acct_wf d" and "hash_password (ae_forge A) new = Inr h"
  shows "case confirm_password_reset A now token new d of
      (Inl e, d') \<Rightarrow> d' = d \<and> (\<nexists>r u. reset_link A now token new d r u)
    | (Inr info, d') \<Rightarrow> (\<exists>r u. reset_link A now token new d r u \<and> ui_id info = u_id u
        \<and> password_changed (ae_forge A) (u_id u) u new d d'
        \<and> mail_outbox d' = mail_outbox d @ [\<lparr>mo_payload = MailPasswordResetNotice (u_username u) (ae_site_name A),
            mo_to_address = ct_target r, mo_to_name = Some (u_username u), mo_next_attempt_at = now\<rparr>])"
proof (cases "confirm_password_reset A now token new d")
  case (Pair res d')
  show ?thesis
  proof (cases res)
    case (Inl e)
    then show ?thesis
      using reset_succeeds[OF assms(1) _ assms(2), of now token] confirm_reset_atomic[of A now token new] Pair
      by (auto simp: atomic_handler_def)
  next
    case (Inr info)
    have "users_wf d" using assms(1) by (simp add: acct_wf_def web_wf_def)
    from confirm_reset_only_if[OF this, of A now token new info d'] show ?thesis using Pair Inr by simp
  qed
qed

lemma sample_reset_link: "reset_link plain_env 1000 ''cv_reset'' ''new password'' account_db sample_link verified_user"
  by (simp add: reset_link_def account_db_def plain_env_def sample_link_def verified_user_def sample_user_def
      user_status_is_active_def is_email_verified_def)

theorem confirm_password_reset_exact_witness:
  "\<exists>info d'. confirm_password_reset plain_env 1000 ''cv_reset'' ''new password'' account_db = (Inr info, d')"
proof -
  have "hash_password (ae_forge plain_env) ''new password'' = Inr ''new password''" by (simp add: plain_env_def)
  from confirm_password_reset_exact[OF account_db_wf this, of 1000 "''cv_reset''"] sample_reset_link
  show ?thesis by (fastforce split: prod.splits sum.splits)
qed

lemma sample_reset:
  obtains info d1 where "confirm_password_reset plain_env 1000 ''cv_reset'' ''new password'' account_db = (Inr info, d1)" "ui_id info = 1"
proof -
  have wf: "users_wf account_db" using account_db_wf by (simp add: acct_wf_def web_wf_def)
  obtain info d1 where run: "confirm_password_reset plain_env 1000 ''cv_reset'' ''new password'' account_db = (Inr info, d1)"
    using reset_succeeds[OF account_db_wf sample_reset_link, of "''new password''"] by (auto simp: plain_env_def)
  from confirm_reset_only_if[OF wf run] have "ui_id info = 1"
    by (auto simp: reset_link_def account_db_def verified_user_def sample_user_def)
  with run that show ?thesis by blast
qed

theorem password_change_ends_sessions_witness:
  "\<exists>info d1. confirm_password_reset plain_env 1000 ''cv_reset'' ''new password'' account_db = (Inr info, d1)
     \<and> (\<exists>e. web_refresh plain_forge plain_jwt plain_policy (\<lambda>_. True) 1000 (''jti-2'', ''session-2'') sample_refresh_token
         plain_request d1 = (Inl e, d1))"
proof (rule sample_reset)
  fix info d1
  assume run: "confirm_password_reset plain_env 1000 ''cv_reset'' ''new password'' account_db = (Inr info, d1)" "ui_id info = 1"
  have user: "find_user_by_id 1 account_db = Inr verified_user"
    by (simp add: find_user_by_id_def select_one_def account_db_def verified_user_def sample_user_def)
  have version: "u_session_version verified_user < 2 ^ 63 - 1"
      "u_session_version sample_user = u_session_version verified_user"
    by (simp_all add: verified_user_def sample_user_def)
  have env: "ae_jwt plain_env = plain_jwt" "ae_should_record plain_env = (\<lambda>_. True)" "ae_forge plain_env = plain_forge"
      "ae_policy plain_env = plain_policy" by (simp_all add: plain_env_def)
  have changed: "(\<exists>now req cur info. change_password_with_audit (ae_forge plain_env) (ae_gravatar plain_env) (ae_should_record plain_env) now req 1 cur ''new password'' account_db = (Inr info, d1))
      \<or> (\<exists>now req info. set_local_password_with_audit (ae_forge plain_env) (ae_gravatar plain_env) (ae_should_record plain_env) now req 1 ''new password'' account_db = (Inr info, d1))
      \<or> (\<exists>now link info. confirm_password_reset plain_env now link ''new password'' account_db = (Inr info, d1) \<and> ui_id info = 1)"
    using run by blast
  have "\<exists>e. web_refresh plain_forge plain_jwt plain_policy (\<lambda>_. True) 1000 (''jti-2'', ''session-2'') sample_refresh_token plain_request d1 = (Inl e, d1)"
    using password_change_ends_sessions[OF account_db_wf user version(1) changed account_done, of 1000 sample_refresh_token]
      sample_decode version(2) by (simp add: env claims_for_def)
  then show ?thesis using run(1) by blast
qed

section \<open>Links and invitations\<close>

text \<open>C9. A password-reset or verification link works at most once: after it was confirmed, both endpoints refuse
  it for ever and change nothing, whatever requests follow, as long as its hash is not issued again.\<close>

theorem link_works_once:
  assumes "acct_wf d"
    and "(\<exists>now new info. confirm_password_reset A now token new d = (Inr info, d1))
      \<or> (\<exists>now res. confirm_contact_verification A now token d = (Inr res, d1))"
    and "account_steps A I H d1 d2" and "sha256_hex (ae_forge A) token \<notin> H"
  shows "(\<exists>e. confirm_password_reset A later token new d2 = (Inl e, d2))
    \<and> (\<exists>e. confirm_contact_verification A later token d2 = (Inl e, d2))"
proof -
  have "contacts_wf d" using assms(1) by (simp add: acct_wf_def)
  then have "spent_link (sha256_hex (ae_forge A) token) d1"
    using assms(2) confirm_reset_spends confirm_contact_spends by blast
  then have "spent_link (sha256_hex (ae_forge A) token) d2"
    using acct_safeD(4)[OF account_steps_safe[OF assms(3)] assms(4)] by blast
  then show ?thesis using spent_link_refused by blast
qed

theorem link_works_once_witness:
  "\<exists>info d1 e. confirm_password_reset plain_env 1000 ''cv_reset'' ''new password'' account_db = (Inr info, d1)
     \<and> confirm_password_reset plain_env 2000 ''cv_reset'' ''other password'' d1 = (Inl e, d1)"
proof (rule sample_reset)
  fix info d1
  assume run: "confirm_password_reset plain_env 1000 ''cv_reset'' ''new password'' account_db = (Inr info, d1)"
  have "account_steps plain_env {} {} d1 d1" by (rule account_done)
  then show ?thesis
    using link_works_once[OF account_db_wf _ \<open>account_steps plain_env {} {} d1 d1\<close>, of "''cv_reset''" 2000 "''other password''"] run
    by blast
qed

text \<open>C10. Accepting an invitation creates exactly one account, an active ordinary user with the invited address
  verified, from an invitation that was pending and not expired; the invitation cannot be used again, nor shown as
  valid, whatever requests follow.\<close>

theorem invitation_accepted_once:
  assumes "acct_wf d" and "accept_invitation A now token username password d = (Inr u, d1)"
    and "account_steps A I H d1 d2" and "\<forall>h. invitation_token_hash (ae_forge A) token = Inr h \<longrightarrow> h \<notin> H"
  shows "(\<exists>v address. v \<in> set (rows (user_invitations d)) \<and> iv_status v = InvitationPending \<and> now < iv_expires_at v
        \<and> normalize_email (ae_forge A) (iv_email v) = Inr address \<and> u_email u = Some address)
    \<and> rows (users d1) = rows (users d) @ [u] \<and> u_role u = RoleUser \<and> u_status u = UserActive
    \<and> u_username u = username \<and> u_email_verified_at u = Some now
    \<and> (\<exists>e. accept_invitation A later token username' password' d2 = (Inl e, d2))
    \<and> (\<exists>e. verify_public_invitation A later token d2 = (Inl e, d2))"
proof -
  have wf: "invitations_wf d" using assms(1) by (simp add: acct_wf_def)
  obtain h v d' where v: "invitation_token_hash (ae_forge A) token = Inr h" "find_invitation_by_hash h d = Some v"
      "iv_status v = InvitationPending" "now < iv_expires_at v"
    and new: "create_user_with_role A now \<lparr>cu_username = username, cu_password = password, cu_role = RoleUser,
       cu_status = UserActive, cu_must_change_password = False, cu_allow_reserved_linuxdo_username = False\<rparr>
       (iv_email v) (Some now) d = (Inr u, d')"
    and d1: "d1 = snd (mark_accepted_if_pending now (iv_id v) (u_id u) d')"
    using accept_run[OF assms(2) wf] by blast
  obtain address where u: "normalize_email (ae_forge A) (iv_email v) = Inr address" "rows (users d') = rows (users d) @ [u]"
      "u_role u = RoleUser" "u_status u = UserActive" "u_username u = username" "u_email_verified_at u = Some now" "u_email u = Some address"
    using create_user_with_role_run[OF new] by (auto simp: new_user_def)
  have us: "users d1 = users d'" by (simp add: d1 mark_accepted_if_pending_def update_invitations_def statement_def Let_def split_beta)
  have "closed_invitation h d2"
    using acct_safeD(5)[OF account_steps_safe[OF assms(3)]] accept_closes[OF assms(2) wf v(1)] assms(4) v(1) by blast
  then have "\<exists>e. accept_invitation A later token username' password' d2 = (Inl e, d2)"
      "\<exists>e. verify_public_invitation A later token d2 = (Inl e, d2)"
    using closed_invitation_refused[OF v(1)] by blast+
  then show ?thesis using u us v find_invitation_Some[OF v(2)] by auto
qed

lemma sample_trim: "trim ''invite'' = ''invite''" "trim ''alex'' = ''alex''"
  by code_simp+

lemma sample_username: "validate_username ''alex'' = Inr ()" "validate_reserved_username ''alex'' = Inr ()"
  unfolding validate_username_def validate_reserved_username_def sample_trim by code_simp+

lemma sample_available: "ensure_username_available ''alex'' None account_db = Inr ()"
  by (simp add: ensure_username_available_def find_by_username_case_insensitive_def find_by_name_def select_one_def
      account_db_def signed_in_db_def sample_db_def empty_db_def empty_table_def verified_user_def sample_user_def
      to_ascii_lowercase_def)

lemma sample_accept: "\<exists>u d1. accept_invitation plain_env 1000 ''invite'' ''alex'' ''new password'' account_db = (Inr u, d1)"
proof -
  have inv: "find_invitation_by_hash ''#invite'' account_db = Some sample_invitation"
    by (simp add: find_invitation_by_hash_def select_one_def account_db_def sample_invitation_def)
  have live: "refresh_expired_status 1000 sample_invitation account_db = (Inr sample_invitation, account_db)"
      "ensure_invitation_pending sample_invitation = Inr ()"
      "ensure_invitation_not_expired 1000 sample_invitation account_db = (Inr (), account_db)"
    by (simp_all add: refresh_expired_status_def ensure_invitation_pending_def invitation_is_pending_def
        ensure_invitation_not_expired_def sample_invitation_def ret_def)
  have free: "find_by_email ''alex@example.com'' account_db = None" "find_by_pending_email ''alex@example.com'' account_db = None"
      "find_by_public_uuid ''uuid-2'' account_db = None"
    by (simp_all add: find_by_email_def find_by_pending_email_def find_by_public_uuid_def select_one_def account_db_def
        verified_user_def sample_user_def)
  let ?in = "\<lparr>cu_username = ''alex'', cu_password = ''new password'', cu_role = RoleUser,
       cu_status = UserActive, cu_must_change_password = False, cu_allow_reserved_linuxdo_username = False\<rparr>"
  have env: "ae_forge plain_env = plain_forge" "ae_new_uuid plain_env = (\<lambda>taken. if taken ''uuid-2'' then Inl Panicked else Inr ''uuid-2'')"
      "email_check (ae_email plain_env) e = Inr ()" "normalize_email plain_forge ''alex@example.com'' = Inr ''alex@example.com''" for e
    by (simp_all add: plain_env_def email_check_def validation_result_def plain_list_def plain_forge_def)
  have "\<exists>u d1. create_user_with_role plain_env 1000 ?in ''alex@example.com'' (Some 1000) account_db = (Inr u, d1)"
    by (simp add: create_user_with_role_def bnd_def check_def query_def sample_username sample_available check_reserved_def env
        validation_result_def validate_email_def validate_password_def free unique_public_uuid_def password_result_def
        insert_user_def statement_def insert_row_def user_unique_ok_def new_user_def)
      (simp add: account_db_def verified_user_def sample_user_def Let_def)
  then obtain u d1 where new: "create_user_with_role plain_env 1000 ?in ''alex@example.com'' (Some 1000) account_db = (Inr u, d1)"
    by blast
  have "keeps account_tables account_db (snd (create_user_with_role plain_env 1000 ?in ''alex@example.com'' (Some 1000) account_db))"
    unfolding create_user_with_role_def by (intro kept_rules)
  then have "user_invitations d1 = user_invitations account_db" by (simp add: new keeps_def account_tables_def)
  then have "fst (mark_accepted_if_pending 1000 (iv_id sample_invitation) (u_id u) d1) = Inr True"
    by (simp add: mark_accepted_if_pending_def update_invitations_def statement_def update_many_def count_rows_def
        account_db_def sample_invitation_def)
  then obtain d2 where m: "mark_accepted_if_pending 1000 (iv_id sample_invitation) (u_id u) d1 = (Inr True, d2)"
    by (metis fst_conv surj_pair)
  have "iv_email sample_invitation = ''alex@example.com''" by (simp add: sample_invitation_def)
  then show ?thesis
    by (simp add: accept_invitation_def bnd_def check_def query_def transaction_def invitation_token_hash_def sample_trim inv live env
        ensure_invited_email_available_def free new m ret_def)
qed

theorem invitation_accepted_once_witness:
  "\<exists>u d1 e. accept_invitation plain_env 1000 ''invite'' ''alex'' ''new password'' account_db = (Inr u, d1)
     \<and> u_role u = RoleUser \<and> accept_invitation plain_env 2000 ''invite'' ''herobrine'' ''new password'' d1 = (Inl e, d1)"
proof -
  obtain u d1 where run: "accept_invitation plain_env 1000 ''invite'' ''alex'' ''new password'' account_db = (Inr u, d1)"
    using sample_accept by blast
  have "account_steps plain_env {} {} d1 d1" by (rule account_done)
  from invitation_accepted_once[OF account_db_wf run this, of 2000 "''herobrine''" "''new password''"] run
  show ?thesis by simp
qed

section \<open>Registration\<close>

lemma register_new_user:
  assumes "register A now J short username email password req d = (Inr out, d')"
  shows "\<exists>u. rows (users d') = rows (users d) @ [u] \<and> u_username u = username \<and> u_status u = UserActive
      \<and> u_role u = (if rows (users d) = [] then RoleAdmin else RoleUser)
      \<and> u_email_verified_at u = (case out of PendingActivation _ \<Rightarrow> None | RegisterAuthenticated _ \<Rightarrow> Some now)
      \<and> (case out of PendingActivation _ \<Rightarrow> True | RegisterAuthenticated _ \<Rightarrow> False)
          = (ap_register_activation_enabled (ae_policy A) \<and> rows (users d) \<noteq> [])"
proof -
  have first: "(count_all d = 0) = (rows (users d) = [])" by (simp add: count_all_def count_rows_def)
  let ?act = "ap_register_activation_enabled (ae_policy A) \<and> rows (users d) \<noteq> []"
  let ?role = "if rows (users d) = [] then RoleAdmin else RoleUser"
  let ?in = "\<lparr>cu_username = username, cu_password = password, cu_role = ?role, cu_status = UserActive,
      cu_must_change_password = False, cu_allow_reserved_linuxdo_username = False\<rparr>"
  let ?make = "if ?act
      then transaction
        (bnd (create_user_with_role A now ?in email None) (\<lambda>u.
         bnd (check (require_user_email u)) (\<lambda>address.
         bnd (issue_contact_verification_token (ae_forge A) now short (u_id u) RegisterActivation address
                (cp_register_activation_ttl_secs (ae_contact A))) (\<lambda>token.
         bnd (enqueue now address (Some (u_username u)) (MailRegisterActivation (u_username u) token (ae_site_name A))) (\<lambda>_.
         ret u)))))
      else service_create_user A now username email password ?role"
  let ?rest = "\<lambda>u. bnd (web_audit (ae_should_record A) now req (u_id u) ''user_register'' ''user'' (Some (u_id u))
        (Some (u_username u)) None) (\<lambda>_.
      if ?act then ret (PendingActivation (auth_user_info_from u))
      else bnd (issue_tokens (ae_forge A) (ae_jwt A) (ae_policy A) now J u req) (\<lambda>response. ret (RegisterAuthenticated response)))"
  have "bnd ?make ?rest d = (Inr out, d')"
    using assms unfolding register_def Let_def
    by (elim if_raise_E bnd_check_E bnd_query_E) (simp add: first cong: if_cong)
  then obtain u d1 where make: "?make d = (Inr u, d1)" and rest: "?rest u d1 = (Inr out, d')" by (rule bnd_E)
  have made: "rows (users d1) = rows (users d) @ [u] \<and> u_username u = username \<and> u_status u = UserActive \<and> u_role u = ?role
      \<and> u_email_verified_at u = (if ?act then None else Some now)"
  proof (cases ?act)
    case True
    then have "bnd (create_user_with_role A now ?in email None) (\<lambda>u.
         bnd (check (require_user_email u)) (\<lambda>address.
         bnd (issue_contact_verification_token (ae_forge A) now short (u_id u) RegisterActivation address
                (cp_register_activation_ttl_secs (ae_contact A))) (\<lambda>token.
         bnd (enqueue now address (Some (u_username u)) (MailRegisterActivation (u_username u) token (ae_site_name A))) (\<lambda>_.
         ret u)))) d = (Inr u, d1)" using make by (simp add: transaction_Inr)
    then obtain w d0 where new: "create_user_with_role A now ?in email None d = (Inr w, d0)"
      and tail: "bnd (check (require_user_email w)) (\<lambda>address.
         bnd (issue_contact_verification_token (ae_forge A) now short (u_id w) RegisterActivation address
                (cp_register_activation_ttl_secs (ae_contact A))) (\<lambda>token.
         bnd (enqueue now address (Some (u_username w)) (MailRegisterActivation (u_username w) token (ae_site_name A))) (\<lambda>_.
         ret w))) d0 = (Inr u, d1)" by (rule bnd_E)
    have "keeps users d0 (snd (bnd (check (require_user_email w)) (\<lambda>address.
         bnd (issue_contact_verification_token (ae_forge A) now short (u_id w) RegisterActivation address
                (cp_register_activation_ttl_secs (ae_contact A))) (\<lambda>token.
         bnd (enqueue now address (Some (u_username w)) (MailRegisterActivation (u_username w) token (ae_site_name A))) (\<lambda>_.
         ret w))) d0))" by (intro kept.bnd kept.reads kept_users)
    then have us: "users d1 = users d0" using tail by (simp add: keeps_def)
    from tail have "u = w" by (auto elim!: bnd_E simp: ret_eq)
    then show ?thesis using create_user_with_role_run[OF new] True us by (auto simp: new_user_def)
  next
    case False
    then have "service_create_user A now username email password ?role d = (Inr u, d1)" using make by (simp only: if_not_P if_False)
    from service_create_user_run[OF this] show ?thesis using False by (auto simp: new_user_def)
  qed
  have "keeps users d1 (snd (?rest u d1))" by (intro kept.bnd kept.reads kept.branch kept_users)
  then have "users d' = users d1" using rest by (simp add: keeps_def)
  moreover have "(case out of PendingActivation _ \<Rightarrow> True | RegisterAuthenticated _ \<Rightarrow> False) = ?act"
    using rest by (elim bnd_E) (cases ?act; auto elim!: bnd_E simp: ret_eq)
  ultimately show ?thesis using made by (intro exI[of _ u]) (cases out; simp)
qed

text \<open>C16. A successful registration adds exactly one active account under the requested name; it is an
  administrator if and only if the system had no account, and its address counts as verified if and only if no
  activation is required of it.\<close>

theorem registration_grants_admin_only_first:
  assumes "register A now J short username email password req d = (Inr out, d')"
  shows "\<exists>u. rows (users d') = rows (users d) @ [u] \<and> u_username u = username \<and> u_status u = UserActive
    \<and> (u_role u = RoleAdmin \<longleftrightarrow> rows (users d) = []) \<and> u_role u \<noteq> RoleOperator
    \<and> (is_email_verified u \<longleftrightarrow> \<not> (ap_register_activation_enabled (ae_policy A) \<and> rows (users d) \<noteq> []))"
proof -
  obtain u where u: "rows (users d') = rows (users d) @ [u]" "u_username u = username" "u_status u = UserActive"
      "u_role u = (if rows (users d) = [] then RoleAdmin else RoleUser)"
      "u_email_verified_at u = (case out of PendingActivation _ \<Rightarrow> None | RegisterAuthenticated _ \<Rightarrow> Some now)"
      "(case out of PendingActivation _ \<Rightarrow> True | RegisterAuthenticated _ \<Rightarrow> False)
          = (ap_register_activation_enabled (ae_policy A) \<and> rows (users d) \<noteq> [])"
    using register_new_user[OF assms] by blast
  show ?thesis
    by (intro exI[of _ u] conjI) (use u in \<open>auto simp: is_email_verified_def split: register_outcome.splits if_splits\<close>)
qed

lemma sample_register:
  "\<exists>out d'. register plain_env 1000 (''jti-2'', ''session-2'') ''link'' '' steve '' ''other@example.com'' ''new password''
     plain_request account_db = (Inr out, d')"
proof -
  have name: "validate_username '' steve '' = Inr ()" "validate_reserved_username '' steve '' = Inr ()"
    by code_simp+
  have free: "ensure_username_available '' steve '' None account_db = Inr ()"
      "find_by_email ''other@example.com'' account_db = None" "find_by_pending_email ''other@example.com'' account_db = None"
      "find_by_public_uuid ''uuid-2'' account_db = None"
    by (simp_all add: ensure_username_available_def find_by_username_case_insensitive_def find_by_name_def select_one_def
        find_by_email_def find_by_pending_email_def find_by_public_uuid_def account_db_def signed_in_db_def sample_db_def
        empty_db_def empty_table_def verified_user_def sample_user_def to_ascii_lowercase_def)
  have env: "ae_forge plain_env = plain_forge" "ae_new_uuid plain_env = (\<lambda>taken. if taken ''uuid-2'' then Inl Panicked else Inr ''uuid-2'')"
      "email_check (ae_email plain_env) e = Inr ()" "normalize_email plain_forge ''other@example.com'' = Inr ''other@example.com''"
      "ae_policy plain_env = plain_policy" "cp_register_activation_ttl_secs (ae_contact plain_env) = 86400"
      "u64_to_i64 plain_forge 86400 l = Inr 86400" for e l
    by (simp_all add: plain_env_def email_check_def validation_result_def plain_list_def plain_forge_def)
  have many: "count_all account_db \<noteq> 0" by (simp add: count_all_def count_rows_def account_db_def)
  show ?thesis
    by (simp add: register_def env many Let_def plain_policy_def bnd_def check_def query_def transaction_def create_user_with_role_def
        name free check_reserved_def validation_result_def validate_email_def validate_password_def unique_public_uuid_def
        password_result_def insert_user_def statement_def insert_row_def user_unique_ok_def new_user_def require_user_email_def
        issue_contact_verification_token_def delete_active_for_user_def modify_def utils_result_def plus_seconds_def
        max_duration_secs_def max_datetime_def secs_def contact_repo_create_def enqueue_def web_audit_def ret_def delete_many_def
        build_verification_token_def)
      (simp add: account_db_def verified_user_def sample_user_def sample_link_def)
qed

theorem registration_grants_admin_only_first_witness:
  "\<exists>out d' u. register plain_env 1000 (''jti-2'', ''session-2'') ''link'' '' steve '' ''other@example.com'' ''new password''
     plain_request account_db = (Inr out, d') \<and> rows (users d') = rows (users account_db) @ [u] \<and> u_role u \<noteq> RoleAdmin"
proof -
  obtain out d' where "register plain_env 1000 (''jti-2'', ''session-2'') ''link'' '' steve '' ''other@example.com'' ''new password''
     plain_request account_db = (Inr out, d')" using sample_register by blast
  from registration_grants_admin_only_first[OF this] this show ?thesis by (auto simp: account_db_def)
qed

text \<open>\<open>validate_username\<close> judges the trimmed name, but the name is compared and stored as given: beside
  \<open>steve\<close> an account with the same name between blanks can be registered.\<close>

theorem padded_usernames_coexist:
  "\<exists>out d' u v. register plain_env 1000 (''jti-2'', ''session-2'') ''link'' '' steve '' ''other@example.com'' ''new password''
     plain_request account_db = (Inr out, d') \<and> u \<in> set (rows (users d')) \<and> v \<in> set (rows (users d')) \<and> u_id u \<noteq> u_id v
     \<and> trim (u_username u) = trim (u_username v)"
proof -
  obtain out d' where run: "register plain_env 1000 (''jti-2'', ''session-2'') ''link'' '' steve '' ''other@example.com'' ''new password''
     plain_request account_db = (Inr out, d')" using sample_register by blast
  obtain u where u: "rows (users d') = rows (users account_db) @ [u]" "u_username u = '' steve ''"
    using register_new_user[OF run] by blast
  have "acct_safe {''jti-2''} {''#cv_link''} account_db d'"
    using acct_link_requests(5)[of plain_env "''link''" "{''#cv_link''}" "(''jti-2'', ''session-2'')" "{''jti-2''}" account_db 1000
        "'' steve ''" "''other@example.com''" "''new password''" plain_request] run
    by (simp add: plain_env_def build_verification_token_def)
  then have "users_wf d'" using acct_safeD(1) account_db_wf by (auto simp: acct_wf_def web_wf_def)
  then have "u_id u \<noteq> u_id verified_user"
    using u(1) by (simp add: users_wf_def keys_ok_def account_db_def)
  moreover have "trim '' steve '' = trim ''steve''" by code_simp
  moreover have "u_username verified_user = ''steve''" by (simp add: verified_user_def sample_user_def)
  ultimately show ?thesis
    using run u by (intro exI[of _ out] exI[of _ d'] exI[of _ u] exI[of _ verified_user]) (simp add: account_db_def)
qed

section \<open>Changing the e-mail address\<close>

lemma contact_create_run:
  assumes "contact_repo_create F model d = (Inr r, d')"
  shows "r = model (next_id (contact_tokens d)) \<and> rows (contact_tokens d') = rows (contact_tokens d) @ [r] \<and> users d' = users d
    \<and> (\<forall>v \<in> set (rows (contact_tokens d)). ct_token_hash v \<noteq> ct_token_hash r)"
  using assms by (auto simp: contact_repo_create_def statement_Inr insert_row_def Let_def split: if_splits)

lemma issue_link_run:
  assumes "issue_contact_verification_token F now short i purpose target ttl d = (Inr tok, d')"
  shows "\<exists>r. rows (contact_tokens d') = filter (\<lambda>t. \<not> (ct_user_id t = i \<and> ct_channel t = ChannelEmail \<and> ct_purpose t = purpose
        \<and> ct_consumed_at t = None)) (rows (contact_tokens d)) @ [r]
    \<and> ct_token_hash r = sha256_hex F (build_verification_token short) \<and> ct_user_id r = i \<and> ct_purpose r = purpose
    \<and> (\<forall>v \<in> set (rows (contact_tokens d')). ct_token_hash v = ct_token_hash r \<longrightarrow> v = r) \<and> users d' = users d"
proof -
  let ?d = "d\<lparr>contact_tokens := (contact_tokens d)\<lparr>rows := filter (\<lambda>t. \<not> (ct_user_id t = i \<and> ct_channel t = ChannelEmail
      \<and> ct_purpose t = purpose \<and> ct_consumed_at t = None)) (rows (contact_tokens d))\<rparr>\<rparr>"
  obtain x r where "contact_repo_create F (\<lambda>i'. \<lparr>ct_id = i', ct_user_id = i, ct_channel = ChannelEmail, ct_purpose = purpose,
            ct_target = target, ct_token_hash = sha256_hex F (build_verification_token short),
            ct_expires_at = x, ct_consumed_at = None, ct_created_at = now\<rparr>) ?d = (Inr r, d')"
    using assms unfolding issue_contact_verification_token_def delete_active_for_user_def
    by (auto simp: run_simps delete_many_def)
  from contact_create_run[OF this] show ?thesis by (intro exI[of _ r]) auto
qed

lemma issue_link_found:
  assumes "issue_contact_verification_token F now short i purpose target ttl d = (Inr tok, d')"
  obtains r where "r \<in> set (rows (contact_tokens d'))" "ct_token_hash r = sha256_hex F (build_verification_token short)"
    "ct_user_id r = i" "ct_purpose r = purpose"
    "\<forall>v \<in> set (rows (contact_tokens d')). ct_token_hash v = ct_token_hash r \<longrightarrow> v = r" "users d' = users d"
proof -
  obtain xs r where r: "rows (contact_tokens d') = xs @ [r]" "ct_token_hash r = sha256_hex F (build_verification_token short)"
      "ct_user_id r = i" "ct_purpose r = purpose"
      "\<forall>v \<in> set (rows (contact_tokens d')). ct_token_hash v = ct_token_hash r \<longrightarrow> v = r" "users d' = users d"
    using issue_link_run[OF assms] by blast
  have "r \<in> set (rows (contact_tokens d'))" by (simp add: r(1))
  then show ?thesis using that r(2-6) by blast
qed

lemma confirm_contact_atomic: "atomic_handler (confirm_contact_verification A now token)"
  unfolding atomic_handler_def confirm_contact_verification_def
  by (auto simp: fail_simps split: option.splits)

lemma request_email_change_run:
  assumes "request_email_change A now short i new_email d = (Inr info, d')" and "users_wf d" and "find_user_by_id i d = Inr u"
  shows "\<exists>address r. normalize_email (ae_forge A) new_email = Inr address
    \<and> find_user_by_id i d' = Inr (u\<lparr>u_pending_email := Some address, u_updated_at := now\<rparr>)
    \<and> find_contact_by_hash (sha256_hex (ae_forge A) (build_verification_token short)) d' = Some r
    \<and> ct_user_id r = i \<and> ct_purpose r = ContactChange"
proof -
  have uid: "u \<in> set (rows (users d))" "u_id u = i" using find_user_by_id_Inr[OF assms(3)] by blast+
  obtain address v d1 d2 tok d3 where n: "validation_result (normalize_email (ae_forge A) new_email) = Inr address"
    and v: "update_user_row (ae_forge A) (u_id u) (\<lambda>r. r\<lparr>u_pending_email := Some address, u_updated_at := now\<rparr>) d = (Inr v, d1)"
    and l: "issue_contact_verification_token (ae_forge A) now short (u_id v) ContactChange address
       (cp_contact_change_ttl_secs (ae_contact A)) d1 = (Inr tok, d2)"
    and d': "users d' = users d2" "contact_tokens d' = contact_tokens d2"
    using assms(1) unfolding request_email_change_def
  proof (elim run_elims)
    fix address existing x1 x2
    assume n: "validation_result (normalize_email (ae_forge A) new_email) = Inr address" and "find_user_by_id i d = Inr existing"
    then have ex: "existing = u" using assms(3) by simp
    assume "bnd (if u_pending_email existing = Some address
          then query (register_activation_resend_allowed A now (u_id existing)) else ret True) (\<lambda>allowed.
     if \<not> allowed then raise (rate_limited ''please wait before resending verification email'') else
     bnd (transaction
            (bnd (update_user_row (ae_forge A) (u_id existing)
                    (\<lambda>r. r\<lparr>u_pending_email := Some address, u_updated_at := now\<rparr>)) (\<lambda>updated.
             bnd (issue_contact_verification_token (ae_forge A) now short (u_id updated) ContactChange address
                    (cp_contact_change_ttl_secs (ae_contact A))) (\<lambda>token.
             bnd (enqueue now address (Some (u_username updated))
                    (MailContactChangeConfirmation (u_username updated) token (ae_site_name A))) (\<lambda>_.
             ret updated))))) (\<lambda>u.
     query (\<lambda>d. Inr (auth_user_info_of (ae_gravatar A) u d)))) d = (Inr info, d')"
    then obtain w d3 where body: "bnd (update_user_row (ae_forge A) (u_id u)
                    (\<lambda>r. r\<lparr>u_pending_email := Some address, u_updated_at := now\<rparr>)) (\<lambda>updated.
             bnd (issue_contact_verification_token (ae_forge A) now short (u_id updated) ContactChange address
                    (cp_contact_change_ttl_secs (ae_contact A))) (\<lambda>token.
             bnd (enqueue now address (Some (u_username updated))
                    (MailContactChangeConfirmation (u_username updated) token (ae_site_name A))) (\<lambda>_.
             ret updated))) d = (Inr w, d')"
      by (elim bnd_E if_raise_E) (auto simp: ex transaction_Inr query_eq ret_eq split: if_splits)
    then obtain v d1 where v: "update_user_row (ae_forge A) (u_id u)
                    (\<lambda>r. r\<lparr>u_pending_email := Some address, u_updated_at := now\<rparr>) d = (Inr v, d1)"
      and l: "bnd (issue_contact_verification_token (ae_forge A) now short (u_id v) ContactChange address
                    (cp_contact_change_ttl_secs (ae_contact A))) (\<lambda>token.
             bnd (enqueue now address (Some (u_username v))
                    (MailContactChangeConfirmation (u_username v) token (ae_site_name A))) (\<lambda>_.
             ret v)) d1 = (Inr w, d')" by (rule bnd_E)
    from l obtain tok d2 where "issue_contact_verification_token (ae_forge A) now short (u_id v) ContactChange address
                    (cp_contact_change_ttl_secs (ae_contact A)) d1 = (Inr tok, d2)"
        "users d' = users d2" "contact_tokens d' = contact_tokens d2"
      by (rule bnd_E) (auto simp: bnd_Inr enqueue_def modify_eq ret_eq)
    then show thesis using that n v by blast
  qed
  have vid: "u_id v = i" and us1: "users d1 = (users d)\<lparr>rows := map (\<lambda>r. if u_id r = i
      then r\<lparr>u_pending_email := Some address, u_updated_at := now\<rparr> else r) (rows (users d))\<rparr>"
    using update_user_row_run[OF v] uid(2) by auto
  have wf1: "users_wf d1" using users_wf_update[OF assms(2) v] by simp
  have "u\<lparr>u_pending_email := Some address, u_updated_at := now\<rparr> \<in> set (rows (users d1))"
    using uid unfolding us1 by force
  then have f1: "find_user_by_id i d1 = Inr (u\<lparr>u_pending_email := Some address, u_updated_at := now\<rparr>)"
    using user_found[OF wf1] uid(2) by simp
  obtain r where r: "r \<in> set (rows (contact_tokens d2))"
      "ct_token_hash r = sha256_hex (ae_forge A) (build_verification_token short)" "ct_user_id r = i" "ct_purpose r = ContactChange"
      "\<forall>v \<in> set (rows (contact_tokens d2)). ct_token_hash v = ct_token_hash r \<longrightarrow> v = r" "users d2 = users d1"
    using issue_link_found[OF l] vid by metis
  have "find_contact_by_hash (sha256_hex (ae_forge A) (build_verification_token short)) d' = Some r"
  proof (cases "find_contact_by_hash (sha256_hex (ae_forge A) (build_verification_token short)) d'")
    case None
    then show ?thesis using r(1,2) d'(2) by (auto simp: find_contact_by_hash_def select_one_def find_None_iff)
  next
    case (Some t)
    then have "t \<in> set (rows (contact_tokens d2))" "ct_token_hash t = ct_token_hash r"
      using find_contact_by_hash_Some[OF Some] r(2) d'(2) by simp_all
    then have "t = r" using r(5) by blast
    then show ?thesis using Some by simp
  qed
  moreover have "find_user_by_id i d' = Inr (u\<lparr>u_pending_email := Some address, u_updated_at := now\<rparr>)"
    using f1 d'(1) r(6) by (simp add: find_user_by_id_def)
  moreover have "normalize_email (ae_forge A) new_email = Inr address" using n by (simp add: validation_result_def map_sum_Inr)
  ultimately show ?thesis using r(3,4) by blast
qed


definition emailless_db :: db where
  "emailless_db = account_db\<lparr>users := \<lparr>rows = [sample_user\<lparr>u_email := None\<rparr>], next_id = 2\<rparr>\<rparr>"

lemma sample_change:
  "\<exists>info d1. request_email_change plain_env 1000 ''link'' 1 ''steve@example.org'' emailless_db = (Inr info, d1)"
proof -
  have user: "find_user_by_id 1 emailless_db = Inr (sample_user\<lparr>u_email := None\<rparr>)"
    by (simp add: find_user_by_id_def select_one_def emailless_db_def sample_user_def)
  have ok: "user_status_is_active (u_status sample_user)" "is_email_activation_satisfied (sample_user\<lparr>u_email := None\<rparr>)"
    by (simp_all add: sample_user_def user_status_is_active_def is_email_activation_satisfied_def)
  have free: "ensure_email_available ''steve@example.org'' (Some 1) emailless_db = Inr ()"
    by (simp add: ensure_email_available_def find_by_email_def find_by_pending_email_def select_one_def emailless_db_def
        sample_user_def)
  have env: "ae_forge plain_env = plain_forge" "email_check (ae_email plain_env) e = Inr ()"
      "normalize_email plain_forge ''steve@example.org'' = Inr ''steve@example.org''"
      "cp_contact_change_ttl_secs (ae_contact plain_env) = 86400" "u64_to_i64 plain_forge 86400 l = Inr 86400" for e l
    by (simp_all add: plain_env_def email_check_def validation_result_def plain_list_def plain_forge_def)
  have uid: "u_id sample_user = 1" "u_pending_email sample_user = None" by (simp_all add: sample_user_def)
  show ?thesis
    by (simp add: request_email_change_def env user ok free uid bnd_def check_def query_def validation_result_def ret_def
        transaction_def update_user_row_def statement_def update_by_key_def select_one_def user_unique_ok_def update_many_def
        issue_contact_verification_token_def delete_active_for_user_def modify_def utils_result_def plus_seconds_def
        max_duration_secs_def max_datetime_def secs_def contact_repo_create_def insert_row_def Let_def enqueue_def delete_many_def
        build_verification_token_def)
      (simp add: emailless_db_def account_db_def sample_user_def sample_link_def user_unique_ok_def bnd_def modify_def
        check_def statement_def ret_def query_def)
qed


lemma find_latest_None:
  "find_latest_active_for_user now i channel purpose d = None \<longleftrightarrow>
     (\<forall>t \<in> set (rows (contact_tokens d)). \<not> (ct_user_id t = i \<and> ct_channel t = channel \<and> ct_purpose t = purpose
        \<and> ct_consumed_at t = None \<and> ct_expires_at t > now))"
proof -
  let ?xs = "select_all (\<lambda>t. ct_user_id t = i \<and> ct_channel t = channel
             \<and> ct_purpose t = purpose \<and> ct_consumed_at t = None \<and> ct_expires_at t > now) (contact_tokens d)"
  have "find_latest_active_for_user now i channel purpose d = None \<longleftrightarrow> length (order_by_desc ct_created_at ?xs) = 0"
    unfolding find_latest_active_for_user_def by (cases "order_by_desc ct_created_at ?xs") simp_all
  then show ?thesis by (auto simp: select_all_def filter_empty_conv)
qed

text \<open>The cool-down between e-mail-change mails is looked up under the purpose of activation mails: without a live
  activation link it never applies, and sending change mails does not create one.\<close>

theorem email_change_cooldown_ignored:
  assumes "find_latest_active_for_user now i ChannelEmail RegisterActivation d = None" and "find_user_by_id i d = Inr u"
    and "resend_email_change A now short i d = (Inr res, d1)"
  shows "res \<noteq> None \<and> find_latest_active_for_user now i ChannelEmail RegisterActivation d1 = None"
proof -
  have uid: "u_id u = i" using find_user_by_id_Inr[OF assms(2)] by blast
  obtain target tok d2 where l: "issue_contact_verification_token (ae_forge A) now short i ContactChange target
        (cp_contact_change_ttl_secs (ae_contact A)) d = (Inr tok, d2)" "contact_tokens d1 = contact_tokens d2" "res \<noteq> None"
    using assms(3) unfolding resend_email_change_def
    by (elim run_elims) (auto simp: register_activation_resend_allowed_def assms(1,2) uid run_simps enqueue_def)
  then show ?thesis
    using assms(1) issue_link_run[OF l(1)] unfolding find_latest_None by auto
qed

end
