(* ===== verification/Texture_Repos.thy ===== *)
theory Texture_Repos
  imports User_Info
begin

text \<open>
  The tables behind the wardrobe and the public texture library: \<open>minecraft_texture_repo.rs\<close>,
  \<open>minecraft_profile_texture_repo.rs\<close>, \<open>minecraft_profile_texture_preference_repo.rs\<close>,
  \<open>minecraft_texture_report_repo.rs\<close> and \<open>minecraft_texture_tag_repo.rs\<close>.  Inserts respect the foreign
  keys of the migrations; deleting a texture or a tag deletes the rows that refer to it
  (\<open>ForeignKeyAction::Cascade\<close>).
\<close>

section \<open>Enumerations\<close>

fun texture_type_as_str :: "texture_type \<Rightarrow> string" where
  "texture_type_as_str Skin = ''skin''"
| "texture_type_as_str Cape = ''cape''"

definition parse_path :: "string \<Rightarrow> texture_type option" where
  "parse_path value = (if value = ''skin'' then Some Skin else if value = ''cape'' then Some Cape else None)"

fun texture_model_as_str :: "minecraft_texture_model \<Rightarrow> string" where
  "texture_model_as_str ModelDefault = ''default''"
| "texture_model_as_str ModelSlim = ''slim''"

definition quoted_id :: "string \<Rightarrow> row_id \<Rightarrow> string" where
  "quoted_id label i = label @ '' '' @ [CHR 0x27] @ show_int i @ [CHR 0x27]"

section \<open>Textures\<close>

definition texture_exists :: "row_id \<Rightarrow> db \<Rightarrow> bool" where
  "texture_exists i d = (\<exists>x \<in> set (rows (minecraft_textures d)). x_id x = i)"

definition user_exists :: "row_id \<Rightarrow> db \<Rightarrow> bool" where
  "user_exists i d = (\<exists>u \<in> set (rows (users d)). u_id u = i)"

definition profile_exists :: "row_id \<Rightarrow> db \<Rightarrow> bool" where
  "profile_exists i d = (\<exists>p \<in> set (rows (minecraft_profiles d)). p_id p = i)"

definition tag_exists :: "row_id \<Rightarrow> db \<Rightarrow> bool" where
  "tag_exists i d = (\<exists>t \<in> set (rows (texture_tags d)). tg_id t = i)"

text \<open>\<open>insert\<close> with its foreign keys (\<open>refs\<close>) and its unique index (\<open>free\<close>).\<close>

definition checked_insert :: "forge \<Rightarrow> bool \<Rightarrow> bool \<Rightarrow> 'a result \<Rightarrow> 'a result" where
  "checked_insert F refs free r =
     (if \<not> refs then Inl (DatabaseOperation (db_err_text F ForeignKeyViolation))
      else if \<not> free then Inl (DatabaseOperation (db_err_text F UniqueViolation)) else r)"

record create_minecraft_texture =
  cx_user_id :: row_id
  cx_texture_type :: texture_type
  cx_source :: texture_source
  cx_hash :: string
  cx_storage_key :: string
  cx_mime_type :: string
  cx_file_size :: int
  cx_width :: int
  cx_height :: int
  cx_texture_model :: minecraft_texture_model
  cx_visibility :: texture_visibility
  cx_is_wardrobe_item :: bool
  cx_display_name :: "string option"

definition new_texture :: "time \<Rightarrow> create_minecraft_texture \<Rightarrow> row_id \<Rightarrow> minecraft_texture" where
  "new_texture now input i =
     \<lparr>x_id = i, x_user_id = cx_user_id input, x_texture_type = cx_texture_type input,
      x_source = cx_source input, x_hash = cx_hash input, x_storage_key = cx_storage_key input,
      x_mime_type = cx_mime_type input, x_file_size = cx_file_size input, x_width = cx_width input,
      x_height = cx_height input, x_texture_model = cx_texture_model input,
      x_visibility = cx_visibility input, x_is_wardrobe_item = cx_is_wardrobe_item input,
      x_display_name = cx_display_name input, x_library_status = LibraryPrivate,
      x_library_submitted_at = None, x_library_reviewed_at = None, x_library_reviewer_user_id = None,
      x_library_review_note = None, x_created_at = now, x_updated_at = now\<rparr>"

definition texture_repo_create ::
    "forge \<Rightarrow> time \<Rightarrow> create_minecraft_texture \<Rightarrow> (db, aster_error, minecraft_texture) handler" where
  "texture_repo_create F now input = statement (\<lambda>d.
     checked_insert F (user_exists (cx_user_id input) d) True
       (let (x, t) = insert_row (new_texture now input) (minecraft_textures d)
        in Inr (x, d\<lparr>minecraft_textures := t\<rparr>)))"

definition texture_find_by_id_for_user :: "row_id \<Rightarrow> row_id \<Rightarrow> db \<Rightarrow> minecraft_texture option" where
  "texture_find_by_id_for_user i user_id d =
     select_one (\<lambda>x. x_id x = i \<and> x_user_id x = user_id) (minecraft_textures d)"

definition texture_find_by_id :: "row_id \<Rightarrow> db \<Rightarrow> minecraft_texture option" where
  "texture_find_by_id i d = select_one (\<lambda>x. x_id x = i) (minecraft_textures d)"

definition texture_find_by_ids :: "row_id list \<Rightarrow> db \<Rightarrow> minecraft_texture list" where
  "texture_find_by_ids ids d =
     (if ids = [] then [] else order_by_asc x_id (select_all (\<lambda>x. x_id x \<in> set ids) (minecraft_textures d)))"

definition in_public_library :: "minecraft_texture \<Rightarrow> bool" where
  "in_public_library x =
     (x_is_wardrobe_item x \<and> x_visibility x = VisibilityPublic \<and> x_library_status x = LibraryPublished)"

definition find_public_wardrobe_by_id :: "row_id \<Rightarrow> db \<Rightarrow> minecraft_texture option" where
  "find_public_wardrobe_by_id i d =
     select_one (\<lambda>x. x_id x = i \<and> in_public_library x) (minecraft_textures d)"

definition texture_list_by_user :: "row_id \<Rightarrow> db \<Rightarrow> minecraft_texture list" where
  "texture_list_by_user user_id d =
     order_by_desc x_updated_at (order_by_desc x_id
       (select_all (\<lambda>x. x_user_id x = user_id \<and> x_is_wardrobe_item x) (minecraft_textures d)))"

definition find_wardrobe_by_fingerprint ::
    "row_id \<Rightarrow> texture_type \<Rightarrow> texture_source \<Rightarrow> string \<Rightarrow> minecraft_texture_model \<Rightarrow> db \<Rightarrow>
     minecraft_texture option" where
  "find_wardrobe_by_fingerprint user_id ty source hash model d =
     (case order_by_asc x_id (select_all (\<lambda>x. x_user_id x = user_id \<and> x_texture_type x = ty
              \<and> x_source x = source \<and> x_hash x = hash \<and> x_texture_model x = model \<and> x_is_wardrobe_item x)
            (minecraft_textures d)) of
        [] \<Rightarrow> None | x # _ \<Rightarrow> Some x)"

definition find_wardrobe_by_display_name :: "row_id \<Rightarrow> string \<Rightarrow> db \<Rightarrow> minecraft_texture option" where
  "find_wardrobe_by_display_name user_id name d =
     (case order_by_asc x_id (select_all (\<lambda>x. x_user_id x = user_id \<and> x_display_name x = Some name
              \<and> x_is_wardrobe_item x) (minecraft_textures d)) of
        [] \<Rightarrow> None | x # _ \<Rightarrow> Some x)"

definition texture_list_all :: "db \<Rightarrow> minecraft_texture list" where
  "texture_list_all d = order_by_asc x_id (rows (minecraft_textures d))"

definition texture_list_by_hash :: "string \<Rightarrow> db \<Rightarrow> minecraft_texture list" where
  "texture_list_by_hash hash d = order_by_asc x_id (select_all (\<lambda>x. x_hash x = hash) (minecraft_textures d))"

definition texture_find_by_hash :: "string \<Rightarrow> db \<Rightarrow> minecraft_texture option" where
  "texture_find_by_hash hash d = select_one (\<lambda>x. x_hash x = hash) (minecraft_textures d)"

definition count_by_storage_key :: "string \<Rightarrow> db \<Rightarrow> nat" where
  "count_by_storage_key storage_key d = count_rows (\<lambda>x. x_storage_key x = storage_key) (minecraft_textures d)"

text \<open>\<open>active.update(db)\<close>: only the columns that are set change.\<close>

definition update_texture_row ::
    "forge \<Rightarrow> row_id \<Rightarrow> (minecraft_texture \<Rightarrow> minecraft_texture) \<Rightarrow> (db, aster_error, minecraft_texture) handler" where
  "update_texture_row F i f = statement (\<lambda>d.
     case update_by_key F x_id i f (minecraft_textures d) of
       Inl e \<Rightarrow> Inl e
     | Inr (x, t) \<Rightarrow> Inr (x, d\<lparr>minecraft_textures := t\<rparr>))"

definition mark_as_wardrobe_item ::
    "forge \<Rightarrow> time \<Rightarrow> minecraft_texture \<Rightarrow> (db, aster_error, minecraft_texture) handler" where
  "mark_as_wardrobe_item F now texture =
     update_texture_row F (x_id texture) (\<lambda>x. x\<lparr>x_is_wardrobe_item := True, x_updated_at := now\<rparr>)"

definition create_wardrobe_copy ::
    "forge \<Rightarrow> time \<Rightarrow> minecraft_texture \<Rightarrow> row_id \<Rightarrow> texture_visibility \<Rightarrow> string option \<Rightarrow>
     (db, aster_error, minecraft_texture) handler" where
  "create_wardrobe_copy F now texture user_id visibility display_name =
     texture_repo_create F now
       \<lparr>cx_user_id = user_id, cx_texture_type = x_texture_type texture, cx_source = TextureLocal,
        cx_hash = x_hash texture, cx_storage_key = x_storage_key texture, cx_mime_type = x_mime_type texture,
        cx_file_size = x_file_size texture, cx_width = x_width texture, cx_height = x_height texture,
        cx_texture_model = x_texture_model texture, cx_visibility = visibility, cx_is_wardrobe_item = True,
        cx_display_name = display_name\<rparr>"

text \<open>The five library columns that a change of the content or the visibility clears.\<close>

definition reset_library :: "minecraft_texture \<Rightarrow> minecraft_texture" where
  "reset_library x = x\<lparr>x_library_status := LibraryPrivate, x_library_submitted_at := None,
     x_library_reviewed_at := None, x_library_reviewer_user_id := None, x_library_review_note := None\<rparr>"

record update_wardrobe_metadata =
  uw_display_name :: "string option option"
  uw_texture_model :: "minecraft_texture_model option"
  uw_visibility :: "texture_visibility option"

definition apply_wardrobe_metadata ::
    "update_wardrobe_metadata \<Rightarrow> time \<Rightarrow> minecraft_texture \<Rightarrow> minecraft_texture" where
  "apply_wardrobe_metadata input now x =
     (let x = set_some (uw_display_name input) (\<lambda>v r. r\<lparr>x_display_name := v\<rparr>) x;
          x = set_some (uw_texture_model input) (\<lambda>v r. r\<lparr>x_texture_model := v\<rparr>) x;
          x = set_some (uw_visibility input) (\<lambda>v r.
                (if v = VisibilityPrivate then reset_library else id) (r\<lparr>x_visibility := v\<rparr>)) x
      in x\<lparr>x_updated_at := now\<rparr>)"

definition update_wardrobe_metadata_for_user ::
    "forge \<Rightarrow> time \<Rightarrow> minecraft_texture \<Rightarrow> row_id \<Rightarrow> update_wardrobe_metadata \<Rightarrow>
     (db, aster_error, minecraft_texture option) handler" where
  "update_wardrobe_metadata_for_user F now texture user_id input =
     (if x_user_id texture \<noteq> user_id \<or> \<not> x_is_wardrobe_item texture then ret None
      else bnd (update_texture_row F (x_id texture) (apply_wardrobe_metadata input now)) (\<lambda>x. ret (Some x)))"

record replace_wardrobe_content =
  rc_hash :: string
  rc_storage_key :: string
  rc_mime_type :: string
  rc_file_size :: int
  rc_width :: int
  rc_height :: int
  rc_texture_model :: minecraft_texture_model

definition apply_replacement :: "replace_wardrobe_content \<Rightarrow> time \<Rightarrow> minecraft_texture \<Rightarrow> minecraft_texture" where
  "apply_replacement input now x =
     (reset_library (x\<lparr>x_source := TextureLocal, x_hash := rc_hash input, x_storage_key := rc_storage_key input,
        x_mime_type := rc_mime_type input, x_file_size := rc_file_size input, x_width := rc_width input,
        x_height := rc_height input, x_texture_model := rc_texture_model input\<rparr>))\<lparr>x_updated_at := now\<rparr>"

text \<open>The write takes effect only on the row as it was read: \<open>updated_at\<close> is compared.\<close>

definition replace_wardrobe_content_for_user ::
    "time \<Rightarrow> minecraft_texture \<Rightarrow> row_id \<Rightarrow> replace_wardrobe_content \<Rightarrow>
     (db, aster_error, minecraft_texture option) handler" where
  "replace_wardrobe_content_for_user now texture user_id input =
     (if x_user_id texture \<noteq> user_id \<or> \<not> x_is_wardrobe_item texture then ret None
      else bnd (statement (\<lambda>d.
             let (n, t) = update_many (\<lambda>x. x_id x = x_id texture \<and> x_user_id x = user_id
                   \<and> x_is_wardrobe_item x \<and> x_updated_at x = x_updated_at texture)
                   (apply_replacement input now) (minecraft_textures d)
             in Inr (n, d\<lparr>minecraft_textures := t\<rparr>))) (\<lambda>n.
           if n \<noteq> 1 then ret None
           else query (\<lambda>d. Inr (texture_find_by_id_for_user (x_id texture) user_id d))))"

record update_library_review =
  ur_library_status :: library_status
  ur_submitted_at :: "time option option"
  ur_reviewed_at :: "time option option"
  ur_reviewer_user_id :: "row_id option option"
  ur_review_note :: "string option option"

definition apply_library_review :: "update_library_review \<Rightarrow> time \<Rightarrow> minecraft_texture \<Rightarrow> minecraft_texture" where
  "apply_library_review input now x =
     (let x = x\<lparr>x_library_status := ur_library_status input\<rparr>;
          x = set_some (ur_submitted_at input) (\<lambda>v r. r\<lparr>x_library_submitted_at := v\<rparr>) x;
          x = set_some (ur_reviewed_at input) (\<lambda>v r. r\<lparr>x_library_reviewed_at := v\<rparr>) x;
          x = set_some (ur_reviewer_user_id input) (\<lambda>v r. r\<lparr>x_library_reviewer_user_id := v\<rparr>) x;
          x = set_some (ur_review_note input) (\<lambda>v r. r\<lparr>x_library_review_note := v\<rparr>) x
      in x\<lparr>x_updated_at := now\<rparr>)"

definition texture_update_library_review ::
    "forge \<Rightarrow> time \<Rightarrow> minecraft_texture \<Rightarrow> update_library_review \<Rightarrow> (db, aster_error, minecraft_texture) handler" where
  "texture_update_library_review F now texture input =
     update_texture_row F (x_id texture) (apply_library_review input now)"

text \<open>Deleting a texture, with the cascades to bindings, presets, tags and reports.\<close>

definition delete_texture_row :: "row_id \<Rightarrow> db \<Rightarrow> db" where
  "delete_texture_row i d =
     d\<lparr>minecraft_textures := snd (delete_many (\<lambda>x. x_id x = i) (minecraft_textures d)),
       profile_textures := snd (delete_many (\<lambda>b. pt_texture_id b = i) (profile_textures d)),
       texture_preferences := snd (delete_many (\<lambda>p. pp_texture_id p = i) (texture_preferences d)),
       texture_reports := snd (delete_many (\<lambda>r. tr_texture_id r = i) (texture_reports d)),
       texture_tag_bindings := snd (delete_many (\<lambda>b. tb_texture_id b = i) (texture_tag_bindings d))\<rparr>"

definition texture_delete_by_hash :: "string \<Rightarrow> (db, aster_error, minecraft_texture list) handler" where
  "texture_delete_by_hash hash =
     bnd (query (\<lambda>d. Inr (texture_list_by_hash hash d))) (\<lambda>textures.
     bnd (modify (\<lambda>d. fold (\<lambda>x. delete_texture_row (x_id x)) textures d)) (\<lambda>_.
     ret textures))"

definition texture_delete_by_id_for_user ::
    "row_id \<Rightarrow> row_id \<Rightarrow> (db, aster_error, minecraft_texture option) handler" where
  "texture_delete_by_id_for_user i user_id =
     bnd (query (\<lambda>d. Inr (texture_find_by_id_for_user i user_id d))) (\<lambda>texture.
     case texture of
       None \<Rightarrow> ret None
     | Some x \<Rightarrow> bnd (modify (delete_texture_row (x_id x))) (\<lambda>_. ret (Some x)))"

definition delete_wardrobe_by_id :: "row_id \<Rightarrow> (db, aster_error, minecraft_texture option) handler" where
  "delete_wardrobe_by_id i =
     bnd (query (\<lambda>d. Inr (texture_find_by_id i d))) (\<lambda>texture.
     case texture of
       None \<Rightarrow> ret None
     | Some x \<Rightarrow> if \<not> x_is_wardrobe_item x then ret None
                 else bnd (modify (delete_texture_row (x_id x))) (\<lambda>_. ret (Some x)))"

section \<open>Textures worn by profiles\<close>

type_synonym worn = "profile_texture \<times> minecraft_texture"  \<comment> \<open>\<open>ProfileTexture\<close>: binding and texture\<close>

definition find_binding_by_profile_and_type :: "row_id \<Rightarrow> texture_type \<Rightarrow> db \<Rightarrow> profile_texture option" where
  "find_binding_by_profile_and_type profile_id ty d =
     select_one (\<lambda>b. pt_profile_id b = profile_id \<and> pt_texture_type b = ty) (profile_textures d)"

definition texture_of_binding :: "profile_texture \<Rightarrow> db \<Rightarrow> worn result" where
  "texture_of_binding b d =
     (case texture_find_by_id (pt_texture_id b) d of
        None \<Rightarrow> Inl (RecordNotFound (quoted_id ''texture'' (pt_texture_id b)))
      | Some x \<Rightarrow> Inr (b, x))"

text \<open>The inner join of bindings with their textures.\<close>

definition join_textures :: "profile_texture list \<Rightarrow> db \<Rightarrow> worn list" where
  "join_textures bs d =
     List.map_filter (\<lambda>b. map_option (Pair b) (texture_find_by_id (pt_texture_id b) d)) bs"

definition upsert_for_profile ::
    "forge \<Rightarrow> time \<Rightarrow> row_id \<Rightarrow> row_id \<Rightarrow> texture_type \<Rightarrow> (db, aster_error, worn) handler" where
  "upsert_for_profile F now profile_id texture_id ty =
     bnd (statement (\<lambda>d. case find_binding_by_profile_and_type profile_id ty d of
          Some existing \<Rightarrow> checked_insert F (texture_exists texture_id d) True
            (case update_by_key F pt_id (pt_id existing) (\<lambda>b. b\<lparr>pt_texture_id := texture_id, pt_updated_at := now\<rparr>)
                    (profile_textures d) of
               Inl e \<Rightarrow> Inl e
             | Inr (b, t) \<Rightarrow> Inr (b, d\<lparr>profile_textures := t\<rparr>))
        | None \<Rightarrow> checked_insert F (texture_exists texture_id d \<and> profile_exists profile_id d) True
            (let (b, t) = insert_row (\<lambda>i. \<lparr>pt_id = i, pt_profile_id = profile_id, pt_texture_id = texture_id,
                  pt_texture_type = ty, pt_created_at = now, pt_updated_at = now\<rparr>) (profile_textures d)
             in Inr (b, d\<lparr>profile_textures := t\<rparr>)))) (\<lambda>binding.
     query (texture_of_binding binding))"

definition find_by_profile_and_type :: "row_id \<Rightarrow> texture_type \<Rightarrow> db \<Rightarrow> worn option result" where
  "find_by_profile_and_type profile_id ty d =
     (case find_binding_by_profile_and_type profile_id ty d of
        None \<Rightarrow> Inr None
      | Some b \<Rightarrow> map_sum id Some (texture_of_binding b d))"

definition worn_list_by_profile :: "row_id \<Rightarrow> db \<Rightarrow> worn list" where
  "worn_list_by_profile profile_id d =
     join_textures (sort_key (\<lambda>b. texture_type_as_str (pt_texture_type b))
       (select_all (\<lambda>b. pt_profile_id b = profile_id) (profile_textures d))) d"

definition worn_list_all :: "db \<Rightarrow> worn list" where
  "worn_list_all d = join_textures (order_by_asc pt_id (rows (profile_textures d))) d"

definition worn_list_by_hash :: "string \<Rightarrow> db \<Rightarrow> worn list" where
  "worn_list_by_hash hash d = filter (\<lambda>w. x_hash (snd w) = hash) (worn_list_all d)"

definition count_by_texture_id :: "row_id \<Rightarrow> db \<Rightarrow> nat" where
  "count_by_texture_id texture_id d = count_rows (\<lambda>b. pt_texture_id b = texture_id) (profile_textures d)"

definition worn_list_by_texture_id :: "row_id \<Rightarrow> db \<Rightarrow> worn list" where
  "worn_list_by_texture_id texture_id d =
     join_textures (order_by_asc pt_id (select_all (\<lambda>b. pt_texture_id b = texture_id) (profile_textures d))) d"

definition delete_binding_row :: "row_id \<Rightarrow> db \<Rightarrow> db" where
  "delete_binding_row i d = d\<lparr>profile_textures := snd (delete_many (\<lambda>b. pt_id b = i) (profile_textures d))\<rparr>"

definition delete_by_texture_id :: "row_id \<Rightarrow> (db, aster_error, worn list) handler" where
  "delete_by_texture_id texture_id =
     bnd (query (\<lambda>d. Inr (worn_list_by_texture_id texture_id d))) (\<lambda>bindings.
     bnd (modify (\<lambda>d. fold (\<lambda>w. delete_binding_row (pt_id (fst w))) bindings d)) (\<lambda>_.
     ret bindings))"

definition delete_for_profile :: "row_id \<Rightarrow> texture_type \<Rightarrow> (db, aster_error, worn option) handler" where
  "delete_for_profile profile_id ty =
     bnd (query (find_by_profile_and_type profile_id ty)) (\<lambda>existing.
     case existing of
       None \<Rightarrow> ret None
     | Some w \<Rightarrow> bnd (modify (delete_binding_row (pt_id (fst w)))) (\<lambda>_. ret (Some w)))"

section \<open>Local presets\<close>

definition preference_find :: "row_id \<Rightarrow> texture_type \<Rightarrow> db \<Rightarrow> texture_preference option" where
  "preference_find profile_id ty d =
     select_one (\<lambda>p. pp_profile_id p = profile_id \<and> pp_texture_type p = ty) (texture_preferences d)"

definition preference_upsert ::
    "forge \<Rightarrow> time \<Rightarrow> row_id \<Rightarrow> texture_type \<Rightarrow> row_id \<Rightarrow> (db, aster_error, texture_preference) handler" where
  "preference_upsert F now profile_id ty texture_id = statement (\<lambda>d. case preference_find profile_id ty d of
          Some existing \<Rightarrow> checked_insert F (texture_exists texture_id d) True
            (case update_by_key F pp_id (pp_id existing) (\<lambda>p. p\<lparr>pp_texture_id := texture_id, pp_updated_at := now\<rparr>)
                    (texture_preferences d) of
               Inl e \<Rightarrow> Inl e
             | Inr (p, t) \<Rightarrow> Inr (p, d\<lparr>texture_preferences := t\<rparr>))
        | None \<Rightarrow> checked_insert F (texture_exists texture_id d \<and> profile_exists profile_id d) True
            (let (p, t) = insert_row (\<lambda>i. \<lparr>pp_id = i, pp_profile_id = profile_id, pp_texture_type = ty,
                  pp_texture_id = texture_id, pp_created_at = now, pp_updated_at = now\<rparr>) (texture_preferences d)
             in Inr (p, d\<lparr>texture_preferences := t\<rparr>)))"

section \<open>Reports\<close>

definition report_repo_create ::
    "forge \<Rightarrow> time \<Rightarrow> row_id \<Rightarrow> row_id \<Rightarrow> report_reason \<Rightarrow> string option \<Rightarrow>
     (db, aster_error, texture_report) handler" where
  "report_repo_create F now texture_id reporter_user_id reason message = statement (\<lambda>d.
     checked_insert F (texture_exists texture_id d \<and> user_exists reporter_user_id d) True
       (let (r, t) = insert_row (\<lambda>i. \<lparr>tr_id = i, tr_texture_id = texture_id,
              tr_reporter_user_id = reporter_user_id, tr_reason = reason, tr_message = message,
              tr_status = ReportPending, tr_admin_note = None, tr_handled_by_user_id = None, tr_handled_at = None,
              tr_created_at = now, tr_updated_at = now\<rparr>) (texture_reports d)
        in Inr (r, d\<lparr>texture_reports := t\<rparr>)))"

definition report_find_by_id :: "row_id \<Rightarrow> db \<Rightarrow> texture_report option" where
  "report_find_by_id i d = select_one (\<lambda>r. tr_id r = i) (texture_reports d)"

definition find_pending_for_reporter_and_texture :: "row_id \<Rightarrow> row_id \<Rightarrow> db \<Rightarrow> texture_report option" where
  "find_pending_for_reporter_and_texture reporter_user_id texture_id d =
     select_one (\<lambda>r. tr_reporter_user_id r = reporter_user_id \<and> tr_texture_id r = texture_id
       \<and> tr_status r = ReportPending) (texture_reports d)"

record handle_texture_report =
  hr_status :: report_status
  hr_admin_note :: "string option"
  hr_handled_by_user_id :: row_id
  hr_handled_at :: time

definition handled_report :: "handle_texture_report \<Rightarrow> time \<Rightarrow> texture_report \<Rightarrow> texture_report" where
  "handled_report input now r = r\<lparr>tr_status := hr_status input, tr_admin_note := hr_admin_note input,
     tr_handled_by_user_id := Some (hr_handled_by_user_id input), tr_handled_at := Some (hr_handled_at input),
     tr_updated_at := now\<rparr>"

text \<open>The handler is an existing user, the caller of the request.\<close>

definition report_repo_handle ::
    "forge \<Rightarrow> time \<Rightarrow> texture_report \<Rightarrow> handle_texture_report \<Rightarrow> (db, aster_error, texture_report) handler" where
  "report_repo_handle F now report input = statement (\<lambda>d.
     checked_insert F (user_exists (hr_handled_by_user_id input) d) True
       (case update_by_key F tr_id (tr_id report) (handled_report input now) (texture_reports d) of
          Inl e \<Rightarrow> Inl e
        | Inr (r, t) \<Rightarrow> Inr (r, d\<lparr>texture_reports := t\<rparr>)))"

definition pending_for_texture :: "row_id \<Rightarrow> texture_report \<Rightarrow> bool" where
  "pending_for_texture texture_id r = (tr_texture_id r = texture_id \<and> tr_status r = ReportPending)"

fun handle_reports ::
    "forge \<Rightarrow> time \<Rightarrow> handle_texture_report \<Rightarrow> texture_report list \<Rightarrow>
     (db, aster_error, texture_report list) handler" where
  "handle_reports F now input [] = ret []"
| "handle_reports F now input (r # rs) =
     bnd (report_repo_handle F now r input) (\<lambda>r'. bnd (handle_reports F now input rs) (\<lambda>rs'. ret (r' # rs')))"

definition handle_pending_for_texture ::
    "forge \<Rightarrow> time \<Rightarrow> row_id \<Rightarrow> handle_texture_report \<Rightarrow> (db, aster_error, texture_report list) handler" where
  "handle_pending_for_texture F now texture_id input =
     bnd (query (\<lambda>d. Inr (select_all (pending_for_texture texture_id) (texture_reports d)))) (\<lambda>reports.
     handle_reports F now input reports)"

section \<open>Tags\<close>

definition order_tags :: "texture_tag list \<Rightarrow> texture_tag list" where
  "order_tags ts = sort_key tg_sort_order (sort_key tg_name ts)"

definition tag_repo_create ::
    "forge \<Rightarrow> time \<Rightarrow> string \<Rightarrow> string \<Rightarrow> string \<Rightarrow> int \<Rightarrow> (db, aster_error, texture_tag) handler" where
  "tag_repo_create F now name normalized color sort_order = statement (\<lambda>d.
     checked_insert F True (\<forall>t \<in> set (rows (texture_tags d)). tg_normalized_name t \<noteq> normalized)
       (let (t, tb) = insert_row (\<lambda>i. \<lparr>tg_id = i, tg_name = name, tg_normalized_name = normalized,
              tg_color = color, tg_sort_order = sort_order, tg_created_at = now, tg_updated_at = now\<rparr>)
              (texture_tags d)
        in Inr (t, d\<lparr>texture_tags := tb\<rparr>)))"

definition tag_list :: "db \<Rightarrow> texture_tag list" where
  "tag_list d = order_tags (rows (texture_tags d))"

definition tag_find_by_id :: "row_id \<Rightarrow> db \<Rightarrow> texture_tag option" where
  "tag_find_by_id i d = select_one (\<lambda>t. tg_id t = i) (texture_tags d)"

definition tag_find_by_normalized_name :: "string \<Rightarrow> db \<Rightarrow> texture_tag option" where
  "tag_find_by_normalized_name n d = select_one (\<lambda>t. tg_normalized_name t = n) (texture_tags d)"

definition tag_find_by_ids :: "row_id list \<Rightarrow> db \<Rightarrow> texture_tag list" where
  "tag_find_by_ids ids d =
     (if ids = [] then [] else order_tags (select_all (\<lambda>t. tg_id t \<in> set ids) (texture_tags d)))"

record update_texture_tag =
  ut_name :: "string option"
  ut_normalized_name :: "string option"
  ut_color :: "string option"
  ut_sort_order :: "int option"

definition apply_tag_update :: "update_texture_tag \<Rightarrow> time \<Rightarrow> texture_tag \<Rightarrow> texture_tag" where
  "apply_tag_update input now t =
     (let t = set_some (ut_name input) (\<lambda>v r. r\<lparr>tg_name := v\<rparr>) t;
          t = set_some (ut_normalized_name input) (\<lambda>v r. r\<lparr>tg_normalized_name := v\<rparr>) t;
          t = set_some (ut_color input) (\<lambda>v r. r\<lparr>tg_color := v\<rparr>) t;
          t = set_some (ut_sort_order input) (\<lambda>v r. r\<lparr>tg_sort_order := v\<rparr>) t
      in t\<lparr>tg_updated_at := now\<rparr>)"

definition tag_repo_update ::
    "forge \<Rightarrow> time \<Rightarrow> texture_tag \<Rightarrow> update_texture_tag \<Rightarrow> (db, aster_error, texture_tag) handler" where
  "tag_repo_update F now tag input = statement (\<lambda>d.
     case update_by_key F tg_id (tg_id tag) (apply_tag_update input now) (texture_tags d) of
       Inl e \<Rightarrow> Inl e
     | Inr (t, tb) \<Rightarrow>
         checked_insert F True (\<forall>u \<in> set (rows (texture_tags d)).
             tg_id u \<noteq> tg_id tag \<longrightarrow> tg_normalized_name u \<noteq> tg_normalized_name t)
           (Inr (t, d\<lparr>texture_tags := tb\<rparr>)))"

text \<open>Deleting a tag, with the cascade to the bindings.\<close>

definition tag_repo_delete :: "row_id \<Rightarrow> (db, aster_error, bool) handler" where
  "tag_repo_delete i = statement (\<lambda>d.
     let (n, t) = delete_many (\<lambda>t. tg_id t = i) (texture_tags d)
     in Inr (n > 0, d\<lparr>texture_tags := t,
          texture_tag_bindings := snd (delete_many (\<lambda>b. tb_tag_id b = i) (texture_tag_bindings d))\<rparr>))"

definition insert_tag_binding :: "forge \<Rightarrow> time \<Rightarrow> row_id \<Rightarrow> row_id \<Rightarrow> (db, aster_error, unit) handler" where
  "insert_tag_binding F now texture_id tag_id = statement (\<lambda>d.
     checked_insert F (texture_exists texture_id d \<and> tag_exists tag_id d)
       (\<forall>b \<in> set (rows (texture_tag_bindings d)). \<not> (tb_texture_id b = texture_id \<and> tb_tag_id b = tag_id))
       (let (_, t) = insert_row (\<lambda>i. \<lparr>tb_id = i, tb_texture_id = texture_id, tb_tag_id = tag_id,
              tb_created_at = now\<rparr>) (texture_tag_bindings d)
        in Inr ((), d\<lparr>texture_tag_bindings := t\<rparr>)))"

fun insert_tag_bindings :: "forge \<Rightarrow> time \<Rightarrow> row_id \<Rightarrow> row_id list \<Rightarrow> (db, aster_error, unit) handler" where
  "insert_tag_bindings F now texture_id [] = ret ()"
| "insert_tag_bindings F now texture_id (tag_id # tag_ids) =
     bnd (insert_tag_binding F now texture_id tag_id) (\<lambda>_. insert_tag_bindings F now texture_id tag_ids)"

definition replace_texture_tags :: "forge \<Rightarrow> time \<Rightarrow> row_id \<Rightarrow> row_id list \<Rightarrow> (db, aster_error, unit) handler" where
  "replace_texture_tags F now texture_id tag_ids =
     bnd (modify (\<lambda>d. d\<lparr>texture_tag_bindings :=
            snd (delete_many (\<lambda>b. tb_texture_id b = texture_id) (texture_tag_bindings d))\<rparr>)) (\<lambda>_.
     insert_tag_bindings F now texture_id tag_ids)"

text \<open>The inner join of the bindings with the tags.\<close>

definition join_tags :: "texture_tag_binding list \<Rightarrow> db \<Rightarrow> texture_tag list" where
  "join_tags bs d = List.map_filter (\<lambda>b. tag_find_by_id (tb_tag_id b) d) bs"

definition tags_for_texture :: "row_id \<Rightarrow> db \<Rightarrow> texture_tag list" where
  "tags_for_texture texture_id d =
     order_tags (join_tags (select_all (\<lambda>b. tb_texture_id b = texture_id) (texture_tag_bindings d)) d)"

text \<open>\<open>list_for_texture_ids\<close> as the map it builds: the joined rows in their order, grouped by texture.\<close>

definition tags_for_texture_ids :: "row_id list \<Rightarrow> db \<Rightarrow> row_id \<rightharpoonup> texture_tag list" where
  "tags_for_texture_ids ids d =
     (\<lambda>i. if i \<notin> set ids then None
          else let ts = tags_for_texture i d in if ts = [] then None else Some ts)"

end
