(* ===== verification/Texture_Library.thy ===== *)
theory Texture_Library
  imports Texture_Repos
begin

text \<open>
  \<open>texture_service.rs\<close> and \<open>texture_service/query.rs\<close>: the public texture library, its moderation, tags
  and reports.  \<open>texture_env\<close> holds the settings the handlers read (\<open>RuntimeTextureLibraryPolicy\<close>, the
  public addresses), the name of a rendered preview and \<open>str::to_lowercase\<close>.  Error messages of the
  library are built by \<open>AsterError::validation_error_code\<close> and \<open>record_not_found_code\<close>.
\<close>

record texture_env =
  te_enabled :: bool
  te_review_required :: bool
  te_public_base_urls :: "string list"
  te_preview_file_name :: "minecraft_texture_model \<Rightarrow> string"
  te_gravatar :: "string \<Rightarrow> nat \<Rightarrow> string"
  te_lowercase :: "string \<Rightarrow> string"

section \<open>Addresses of textures\<close>

definition texture_path :: "string \<Rightarrow> string" where
  "texture_path hash = ''/api/yggdrasil/textures/'' @ hash"

definition texture_public_url :: "texture_env \<Rightarrow> string \<Rightarrow> string option" where
  "texture_public_url T hash =
     (case te_public_base_urls T of [] \<Rightarrow> None | base_url # _ \<Rightarrow> Some (base_url @ ''/textures/'' @ hash))"

definition texture_base_url :: "texture_env \<Rightarrow> string \<Rightarrow> string" where
  "texture_base_url T hash = (case texture_public_url T hash of None \<Rightarrow> texture_path hash | Some u \<Rightarrow> u)"

definition current_texture_preview_url ::
    "texture_env \<Rightarrow> string \<Rightarrow> texture_type \<Rightarrow> minecraft_texture_model \<Rightarrow> string option" where
  "current_texture_preview_url T hash ty model =
     (if ty \<noteq> Skin \<or> \<not> is_valid_texture_hash hash then None
      else Some (''/api/v1/texture-previews/'' @ hash @ ''/'' @ te_preview_file_name T model))"

section \<open>What the API shows\<close>

record texture_tag_info =
  ti_id :: row_id
  ti_name :: string
  ti_color :: string
  ti_sort_order :: int
  ti_created_at :: time
  ti_updated_at :: time

definition tag_info :: "texture_tag \<Rightarrow> texture_tag_info" where
  "tag_info t = \<lparr>ti_id = tg_id t, ti_name = tg_name t, ti_color = tg_color t, ti_sort_order = tg_sort_order t,
     ti_created_at = tg_created_at t, ti_updated_at = tg_updated_at t\<rparr>"

definition texture_display_name :: "minecraft_texture \<Rightarrow> string" where
  "texture_display_name x =
     (case x_display_name x of
        None \<Rightarrow> take_chars 16 (x_hash x)
      | Some name \<Rightarrow> (if trim name = [] then take_chars 16 (x_hash x) else trim name))"

record wardrobe_texture_metadata =
  wm_id :: row_id
  wm_name :: string
  wm_display_name :: "string option"
  wm_hash :: string
  wm_texture_type :: texture_type
  wm_texture_model :: minecraft_texture_model
  wm_visibility :: texture_visibility
  wm_library_status :: library_status
  wm_library_review_note :: "string option"
  wm_library_submitted_at :: "time option"
  wm_library_reviewed_at :: "time option"
  wm_tags :: "texture_tag_info list"
  wm_width :: int
  wm_height :: int
  wm_file_size :: int
  wm_mime_type :: string
  wm_url :: string
  wm_preview_url :: "string option"
  wm_texture_source :: texture_source
  wm_created_at :: time
  wm_updated_at :: time

definition wardrobe_texture_metadata_with_tags ::
    "texture_env \<Rightarrow> minecraft_texture \<Rightarrow> texture_tag list \<Rightarrow> wardrobe_texture_metadata" where
  "wardrobe_texture_metadata_with_tags T x tags =
     \<lparr>wm_id = x_id x, wm_name = texture_display_name x, wm_display_name = x_display_name x, wm_hash = x_hash x,
      wm_texture_type = x_texture_type x, wm_texture_model = x_texture_model x, wm_visibility = x_visibility x,
      wm_library_status = x_library_status x, wm_library_review_note = x_library_review_note x,
      wm_library_submitted_at = x_library_submitted_at x, wm_library_reviewed_at = x_library_reviewed_at x,
      wm_tags = map tag_info tags, wm_width = x_width x, wm_height = x_height x, wm_file_size = x_file_size x,
      wm_mime_type = x_mime_type x, wm_url = texture_base_url T (x_hash x),
      wm_preview_url = current_texture_preview_url T (x_hash x) (x_texture_type x) (x_texture_model x),
      wm_texture_source = x_source x, wm_created_at = x_created_at x, wm_updated_at = x_updated_at x\<rparr>"

record texture_uploader_info =
  ul_id :: row_id
  ul_username :: string
  ul_public_uuid :: string
  ul_name :: string
  ul_avatar :: avatar_info

definition uploader_info ::
    "texture_env \<Rightarrow> user \<Rightarrow> user_profile option \<Rightarrow> avatar_audience option \<Rightarrow> texture_uploader_info" where
  "uploader_info T u profile audience =
     \<lparr>ul_id = u_id u, ul_username = u_username u, ul_public_uuid = u_public_uuid u,
      ul_name = (case Option.bind profile up_display_name of
                   None \<Rightarrow> u_username u
                 | Some name \<Rightarrow> (if trim name = [] then u_username u else trim name)),
      ul_avatar = (case audience of
                     Some a \<Rightarrow> pi_avatar (build_profile_info (te_gravatar T) u profile a)
                   | None \<Rightarrow> \<lparr>av_source = AvatarNone, av_url_512 = None, av_url_1024 = None, av_version = 0\<rparr>)\<rparr>"

record library_texture_metadata =
  lm_id :: row_id
  lm_name :: string
  lm_display_name :: "string option"
  lm_hash :: string
  lm_texture_type :: texture_type
  lm_texture_model :: minecraft_texture_model
  lm_visibility :: texture_visibility
  lm_library_status :: library_status
  lm_library_review_note :: "string option"
  lm_library_submitted_at :: "time option"
  lm_library_reviewed_at :: "time option"
  lm_tags :: "texture_tag_info list"
  lm_uploader :: "texture_uploader_info option"
  lm_width :: int
  lm_height :: int
  lm_file_size :: int
  lm_mime_type :: string
  lm_url :: string
  lm_preview_url :: "string option"
  lm_created_at :: time
  lm_updated_at :: time

definition public_texture_library_metadata_with_tags ::
    "texture_env \<Rightarrow> minecraft_texture \<Rightarrow> texture_tag list \<Rightarrow> user option \<Rightarrow> user_profile option \<Rightarrow>
     avatar_audience option \<Rightarrow> library_texture_metadata" where
  "public_texture_library_metadata_with_tags T x tags uploader profile audience =
     \<lparr>lm_id = x_id x, lm_name = texture_display_name x, lm_display_name = x_display_name x, lm_hash = x_hash x,
      lm_texture_type = x_texture_type x, lm_texture_model = x_texture_model x, lm_visibility = x_visibility x,
      lm_library_status = x_library_status x, lm_library_review_note = x_library_review_note x,
      lm_library_submitted_at = x_library_submitted_at x, lm_library_reviewed_at = x_library_reviewed_at x,
      lm_tags = map tag_info tags,
      lm_uploader = map_option (\<lambda>u. uploader_info T u profile audience) uploader,
      lm_width = x_width x, lm_height = x_height x, lm_file_size = x_file_size x, lm_mime_type = x_mime_type x,
      lm_url = texture_base_url T (x_hash x),
      lm_preview_url = current_texture_preview_url T (x_hash x) (x_texture_type x) (x_texture_model x),
      lm_created_at = x_created_at x, lm_updated_at = x_updated_at x\<rparr>"

definition texture_library_metadata ::
    "texture_env \<Rightarrow> minecraft_texture \<Rightarrow> avatar_audience option \<Rightarrow> db \<Rightarrow> library_texture_metadata result" where
  "texture_library_metadata T x audience d =
     (case find_user_by_id (x_user_id x) d of
        Inl e \<Rightarrow> Inl e
      | Inr uploader \<Rightarrow> Inr (public_texture_library_metadata_with_tags T x (tags_for_texture (x_id x) d)
                             (Some uploader) (find_profile_of_user (x_user_id x) d) audience))"

definition admin_texture_library_metadata ::
    "texture_env \<Rightarrow> minecraft_texture \<Rightarrow> (db, aster_error, library_texture_metadata) handler" where
  "admin_texture_library_metadata T x = query (texture_library_metadata T x (Some AdminUser))"

definition public_texture_library_metadata ::
    "texture_env \<Rightarrow> minecraft_texture \<Rightarrow> (db, aster_error, library_texture_metadata) handler" where
  "public_texture_library_metadata T x = query (texture_library_metadata T x None)"

text \<open>\<open>tags_by_texture.remove(&texture.id).unwrap_or_default()\<close> for one texture after the other.\<close>

fun library_metadata_loop ::
    "texture_env \<Rightarrow> avatar_audience option \<Rightarrow> db \<Rightarrow> (row_id \<rightharpoonup> texture_tag list) \<Rightarrow> minecraft_texture list \<Rightarrow>
     library_texture_metadata list" where
  "library_metadata_loop T audience d tags_by_texture [] = []"
| "library_metadata_loop T audience d tags_by_texture (x # xs) =
     public_texture_library_metadata_with_tags T x
       (case tags_by_texture (x_id x) of None \<Rightarrow> [] | Some ts \<Rightarrow> ts)
       (select_one (\<lambda>u. u_id u = x_user_id x) (users d)) (find_profile_of_user (x_user_id x) d) audience
     # library_metadata_loop T audience d (tags_by_texture(x_id x := None)) xs"

definition texture_library_metadata_by_texture_ids ::
    "texture_env \<Rightarrow> avatar_audience option \<Rightarrow> minecraft_texture list \<Rightarrow> db \<Rightarrow> library_texture_metadata list" where
  "texture_library_metadata_by_texture_ids T audience xs d =
     library_metadata_loop T audience d (tags_for_texture_ids (map x_id xs) d) xs"

definition wardrobe_texture_with_current_tags ::
    "texture_env \<Rightarrow> minecraft_texture \<Rightarrow> (db, aster_error, wardrobe_texture_metadata) handler" where
  "wardrobe_texture_with_current_tags T x =
     query (\<lambda>d. Inr (wardrobe_texture_metadata_with_tags T x (tags_for_texture (x_id x) d)))"

section \<open>Normalising input\<close>

definition normalize_review_note :: "forge \<Rightarrow> string \<Rightarrow> string option result" where
  "normalize_review_note F value =
     (if trim value = [] then Inr None
      else if char_count F (trim value) > 512
      then Inl (validation_error_code ''TextureLibraryReviewNoteInvalid'' ''review note must not exceed 512 characters'')
      else Inr (Some (trim value)))"

definition normalize_review_note_optional :: "forge \<Rightarrow> string option \<Rightarrow> string option result" where
  "normalize_review_note_optional F value =
     (case value of None \<Rightarrow> Inr None | Some v \<Rightarrow> normalize_review_note F v)"

definition normalize_review_note_required :: "forge \<Rightarrow> string option \<Rightarrow> string result" where
  "normalize_review_note_required F value =
     (case normalize_review_note_optional F value of
        Inl e \<Rightarrow> Inl e
      | Inr note \<Rightarrow>
          (case note of
             Some n \<Rightarrow> (if n \<noteq> [] then Inr n else
               Inl (validation_error_code ''TextureLibraryReviewNoteInvalid''
                 ''review note is required when rejecting a texture library submission''))
           | None \<Rightarrow>
               Inl (validation_error_code ''TextureLibraryReviewNoteInvalid''
                 ''review note is required when rejecting a texture library submission'')))"

definition normalize_report_message :: "forge \<Rightarrow> string option \<Rightarrow> string option result" where
  "normalize_report_message F value =
     (case value of
        None \<Rightarrow> Inr None
      | Some v \<Rightarrow>
          (if trim v = [] then Inr None
           else if char_count F (trim v) > 1000
           then Inl (validation_error_code ''TextureReportMessageInvalid'' ''report message must not exceed 1000 characters'')
           else Inr (Some (trim v))))"

definition normalize_admin_report_note :: "forge \<Rightarrow> string option \<Rightarrow> string option result" where
  "normalize_admin_report_note F value =
     (case value of
        None \<Rightarrow> Inr None
      | Some v \<Rightarrow>
          (if trim v = [] then Inr None
           else if char_count F (trim v) > 512
           then Inl (validation_error_code ''TextureReportMessageInvalid'' ''admin note must not exceed 512 characters'')
           else Inr (Some (trim v))))"

definition normalize_texture_display_name :: "forge \<Rightarrow> string \<Rightarrow> string option result" where
  "normalize_texture_display_name F value =
     (if trim value = [] then Inr None
      else if char_count F (trim value) > 96
      then Inl (validation_error_code ''WardrobeTextureNameInvalid'' ''texture display name must not exceed 96 characters'')
      else Inr (Some (trim value)))"

definition normalize_texture_display_name_patch :: "forge \<Rightarrow> string nullable_patch \<Rightarrow> string option result" where
  "normalize_texture_display_name_patch F value =
     (case value of
        PatchAbsent \<Rightarrow> Inr None
      | PatchNull \<Rightarrow> Inr None
      | PatchValue v \<Rightarrow> normalize_texture_display_name F v)"

text \<open>A \<open>BTreeSet\<close> is iterated in ascending order.\<close>

definition normalize_texture_tag_ids :: "row_id list \<Rightarrow> row_id list result" where
  "normalize_texture_tag_ids tag_ids =
     (if list_ex (\<lambda>i. i \<le> 0) tag_ids
      then Inl (record_not_found_code ''TextureLibraryTagNotFound'' ''invalid texture library tag id'')
      else Inr (remdups_adj (sort tag_ids)))"

definition normalize_texture_tag_name :: "forge \<Rightarrow> texture_env \<Rightarrow> string \<Rightarrow> (string \<times> string) result" where
  "normalize_texture_tag_name F T value =
     (if trim value = [] \<or> char_count F (trim value) > 64
      then Inl (validation_error_code ''TextureLibraryTagNameInvalid'' ''texture library tag name must be 1-64 characters'')
      else Inr (trim value, te_lowercase T (trim value)))"

definition normalize_texture_tag_color :: "string \<Rightarrow> string result" where
  "normalize_texture_tag_color value =
     (let color = trim value in
      if length color = 7 \<and> prefix ''#'' color \<and> list_all is_ascii_hexdigit (drop 1 color)
      then Inr (to_ascii_lowercase color)
      else Inl (validation_error_code ''TextureLibraryTagColorInvalid'' ''texture library tag color must be a #RRGGBB value''))"

section \<open>Finding the subject of a request\<close>

definition ensure_texture_library_enabled :: "texture_env \<Rightarrow> unit result" where
  "ensure_texture_library_enabled T =
     (if \<not> te_enabled T
      then Inl (validation_error_code ''TextureLibraryDisabled'' ''public texture library is disabled'') else Inr ())"

definition wardrobe_not_found :: "row_id \<Rightarrow> aster_error" where
  "wardrobe_not_found i = record_not_found_code ''WardrobeTextureNotFound'' (quoted_id ''wardrobe texture'' i)"

definition user_wardrobe_texture :: "row_id \<Rightarrow> row_id \<Rightarrow> db \<Rightarrow> minecraft_texture result" where
  "user_wardrobe_texture user_id texture_id d =
     (if texture_id \<le> 0
      then Inl (record_not_found_code ''WardrobeTextureNotFound'' ''invalid wardrobe texture id'')
      else case texture_find_by_id_for_user texture_id user_id d of
             None \<Rightarrow> Inl (wardrobe_not_found texture_id)
           | Some x \<Rightarrow> (if x_is_wardrobe_item x then Inr x else Inl (wardrobe_not_found texture_id)))"

definition library_not_found :: "row_id \<Rightarrow> aster_error" where
  "library_not_found i =
     record_not_found_code ''TextureLibraryTextureNotFound'' (quoted_id ''texture library texture'' i)"

definition admin_wardrobe_texture :: "row_id \<Rightarrow> db \<Rightarrow> minecraft_texture result" where
  "admin_wardrobe_texture texture_id d =
     (if texture_id \<le> 0
      then Inl (record_not_found_code ''TextureLibraryTextureNotFound'' ''invalid texture library texture id'')
      else case texture_find_by_id texture_id d of
             None \<Rightarrow> Inl (library_not_found texture_id)
           | Some x \<Rightarrow> (if x_is_wardrobe_item x then Inr x else Inl (library_not_found texture_id)))"

definition public_reportable_texture :: "row_id \<Rightarrow> db \<Rightarrow> minecraft_texture result" where
  "public_reportable_texture texture_id d =
     (if texture_id \<le> 0
      then Inl (record_not_found_code ''TextureLibraryTextureNotFound'' ''invalid texture library texture id'')
      else case find_public_wardrobe_by_id texture_id d of
             None \<Rightarrow> Inl (validation_error_code ''TextureReportTextureNotReportable''
                           ''only published public texture library entries can be reported'')
           | Some x \<Rightarrow> Inr x)"

definition admin_texture_report :: "row_id \<Rightarrow> db \<Rightarrow> texture_report result" where
  "admin_texture_report report_id d =
     (if report_id \<le> 0
      then Inl (record_not_found_code ''TextureReportNotFound'' ''invalid texture report id'')
      else case report_find_by_id report_id d of
             None \<Rightarrow> Inl (record_not_found_code ''TextureReportNotFound'' (quoted_id ''texture report'' report_id))
           | Some r \<Rightarrow> Inr r)"

definition pending_admin_texture_report :: "row_id \<Rightarrow> db \<Rightarrow> texture_report result" where
  "pending_admin_texture_report report_id d =
     (case admin_texture_report report_id d of
        Inl e \<Rightarrow> Inl e
      | Inr r \<Rightarrow>
          (if tr_status r \<noteq> ReportPending
           then Inl (validation_error_code ''TextureReportNotPending'' ''only pending texture reports can be handled'')
           else Inr r))"

section \<open>Tags\<close>

definition list_texture_library_tags :: "db \<Rightarrow> texture_tag_info list" where
  "list_texture_library_tags d = map tag_info (tag_list d)"

definition tag_name_taken :: aster_error where
  "tag_name_taken = validation_error_code ''TextureLibraryTagNameTaken'' ''texture library tag name already exists''"

definition tag_not_found :: "row_id \<Rightarrow> aster_error" where
  "tag_not_found i = record_not_found_code ''TextureLibraryTagNotFound'' (quoted_id ''texture library tag'' i)"

definition create_texture_library_tag ::
    "forge \<Rightarrow> texture_env \<Rightarrow> time \<Rightarrow> string \<Rightarrow> string \<Rightarrow> int option \<Rightarrow> (db, aster_error, texture_tag_info) handler" where
  "create_texture_library_tag F T now name color sort_order =
     bnd (check (normalize_texture_tag_name F T name)) (\<lambda>(name, normalized_name).
     bnd (check (normalize_texture_tag_color color)) (\<lambda>color.
     bnd (query (\<lambda>d. Inr (tag_find_by_normalized_name normalized_name d))) (\<lambda>existing.
     if existing \<noteq> None then raise tag_name_taken else
     bnd (tag_repo_create F now name normalized_name color (case sort_order of None \<Rightarrow> 0 | Some n \<Rightarrow> n)) (\<lambda>tag.
     ret (tag_info tag)))))"

definition update_texture_library_tag ::
    "forge \<Rightarrow> texture_env \<Rightarrow> time \<Rightarrow> row_id \<Rightarrow> string option \<Rightarrow> string option \<Rightarrow> int option \<Rightarrow>
     (db, aster_error, texture_tag_info) handler" where
  "update_texture_library_tag F T now tag_id name color sort_order =
     bnd (query (\<lambda>d. case tag_find_by_id tag_id d of None \<Rightarrow> Inl (tag_not_found tag_id) | Some t \<Rightarrow> Inr t)) (\<lambda>tag.
     bnd (case name of
            None \<Rightarrow> ret (None, None)
          | Some name \<Rightarrow>
              bnd (check (normalize_texture_tag_name F T name)) (\<lambda>(name, normalized_name).
              bnd (query (\<lambda>d. Inr (tag_find_by_normalized_name normalized_name d))) (\<lambda>existing.
              if (case existing of None \<Rightarrow> False | Some t \<Rightarrow> tg_id t \<noteq> tg_id tag) then raise tag_name_taken
              else ret (Some name, Some normalized_name)))) (\<lambda>(name, normalized_name).
     bnd (check (case color of None \<Rightarrow> Inr None | Some c \<Rightarrow> map_sum id Some (normalize_texture_tag_color c))) (\<lambda>color.
     bnd (tag_repo_update F now tag \<lparr>ut_name = name, ut_normalized_name = normalized_name, ut_color = color,
            ut_sort_order = sort_order\<rparr>) (\<lambda>tag.
     ret (tag_info tag)))))"

definition delete_texture_library_tag :: "row_id \<Rightarrow> (db, aster_error, unit) handler" where
  "delete_texture_library_tag tag_id =
     bnd (tag_repo_delete tag_id) (\<lambda>deleted.
     if \<not> deleted then raise (tag_not_found tag_id) else ret ())"

definition known_tags :: "row_id list \<Rightarrow> db \<Rightarrow> texture_tag list result" where
  "known_tags unique_tag_ids d =
     (let tags = tag_find_by_ids unique_tag_ids d in
      if length tags \<noteq> length unique_tag_ids
      then Inl (record_not_found_code ''TextureLibraryTagNotFound'' ''one or more texture library tags were not found'')
      else Inr tags)"

definition replace_wardrobe_texture_tags ::
    "forge \<Rightarrow> texture_env \<Rightarrow> scope_codec \<Rightarrow> time \<Rightarrow> row_id \<Rightarrow> row_id \<Rightarrow> row_id list \<Rightarrow>
     (db, aster_error, wardrobe_texture_metadata) handler" where
  "replace_wardrobe_texture_tags F T J now user_id texture_id tag_ids =
     bnd (query (ensure_user_not_banned J now user_id TextureUpload)) (\<lambda>_.
     bnd (query (user_wardrobe_texture user_id texture_id)) (\<lambda>texture.
     bnd (check (normalize_texture_tag_ids tag_ids)) (\<lambda>unique_tag_ids.
     bnd (query (known_tags unique_tag_ids)) (\<lambda>tags.
     bnd (replace_texture_tags F now (x_id texture) unique_tag_ids) (\<lambda>_.
     ret (wardrobe_texture_metadata_with_tags T texture tags))))))"

definition replace_library_texture_tags_for_admin ::
    "forge \<Rightarrow> time \<Rightarrow> row_id \<Rightarrow> row_id list \<Rightarrow> (db, aster_error, unit) handler" where
  "replace_library_texture_tags_for_admin F now texture_id tag_ids =
     bnd (check (normalize_texture_tag_ids tag_ids)) (\<lambda>unique_tag_ids.
     bnd (query (known_tags unique_tag_ids)) (\<lambda>_.
     replace_texture_tags F now texture_id unique_tag_ids))"

section \<open>Submitting and reviewing\<close>

definition submit_texture_library_review ::
    "forge \<Rightarrow> texture_env \<Rightarrow> scope_codec \<Rightarrow> time \<Rightarrow> row_id \<Rightarrow> row_id \<Rightarrow>
     (db, aster_error, wardrobe_texture_metadata) handler" where
  "submit_texture_library_review F T J now user_id texture_id =
     bnd (check (ensure_texture_library_enabled T)) (\<lambda>_.
     bnd (query (ensure_user_not_banned J now user_id TextureLibraryInteract)) (\<lambda>_.
     bnd (query (user_wardrobe_texture user_id texture_id)) (\<lambda>texture.
     if x_visibility texture \<noteq> VisibilityPublic
     then raise (validation_error_code ''TextureLibraryTextureNotPublic''
                   ''texture must be public before it can be submitted to the library'') else
     bnd (texture_update_library_review F now texture
            \<lparr>ur_library_status = (if te_review_required T then LibraryPendingReview else LibraryPublished),
             ur_submitted_at = Some (Some now),
             ur_reviewed_at = Some (if te_review_required T then None else Some now),
             ur_reviewer_user_id = Some None, ur_review_note = Some None\<rparr>) (\<lambda>updated.
     wardrobe_texture_with_current_tags T updated))))"

definition withdraw_texture_library_submission ::
    "forge \<Rightarrow> texture_env \<Rightarrow> scope_codec \<Rightarrow> time \<Rightarrow> row_id \<Rightarrow> row_id \<Rightarrow>
     (db, aster_error, wardrobe_texture_metadata) handler" where
  "withdraw_texture_library_submission F T J now user_id texture_id =
     bnd (check (ensure_texture_library_enabled T)) (\<lambda>_.
     bnd (query (ensure_user_not_banned J now user_id TextureLibraryInteract)) (\<lambda>_.
     bnd (query (user_wardrobe_texture user_id texture_id)) (\<lambda>texture.
     bnd (texture_update_library_review F now texture
            \<lparr>ur_library_status = LibraryPrivate, ur_submitted_at = Some None, ur_reviewed_at = Some None,
             ur_reviewer_user_id = Some None, ur_review_note = Some None\<rparr>) (\<lambda>updated.
     wardrobe_texture_with_current_tags T updated))))"

definition get_admin_texture_library_texture ::
    "texture_env \<Rightarrow> row_id \<Rightarrow> (db, aster_error, library_texture_metadata) handler" where
  "get_admin_texture_library_texture T texture_id =
     bnd (query (admin_wardrobe_texture texture_id)) (\<lambda>texture. admin_texture_library_metadata T texture)"

definition approve_texture_library_texture ::
    "forge \<Rightarrow> texture_env \<Rightarrow> time \<Rightarrow> row_id \<Rightarrow> row_id \<Rightarrow> string option \<Rightarrow> row_id list option \<Rightarrow>
     (db, aster_error, library_texture_metadata) handler" where
  "approve_texture_library_texture F T now reviewer_user_id texture_id review_note tag_ids =
     bnd (check (ensure_texture_library_enabled T)) (\<lambda>_.
     bnd (query (admin_wardrobe_texture texture_id)) (\<lambda>texture.
     if x_library_status texture \<noteq> LibraryPendingReview
     then raise (validation_error_code ''TextureLibraryTextureNotPending''
                   ''only pending texture library submissions can be approved'') else
     if x_visibility texture \<noteq> VisibilityPublic
     then raise (validation_error_code ''TextureLibraryTextureNotPublic''
                   ''texture must be public before it can be published'') else
     bnd (case tag_ids of None \<Rightarrow> ret () | Some ids \<Rightarrow> replace_library_texture_tags_for_admin F now (x_id texture) ids) (\<lambda>_.
     bnd (check (normalize_review_note_optional F review_note)) (\<lambda>note.
     bnd (texture_update_library_review F now texture
            \<lparr>ur_library_status = LibraryPublished, ur_submitted_at = None, ur_reviewed_at = Some (Some now),
             ur_reviewer_user_id = Some (Some reviewer_user_id), ur_review_note = Some note\<rparr>) (\<lambda>updated.
     admin_texture_library_metadata T updated)))))"

definition reject_texture_library_texture ::
    "forge \<Rightarrow> texture_env \<Rightarrow> time \<Rightarrow> row_id \<Rightarrow> row_id \<Rightarrow> string option \<Rightarrow>
     (db, aster_error, library_texture_metadata) handler" where
  "reject_texture_library_texture F T now reviewer_user_id texture_id review_note =
     bnd (check (ensure_texture_library_enabled T)) (\<lambda>_.
     bnd (query (admin_wardrobe_texture texture_id)) (\<lambda>texture.
     if x_library_status texture \<noteq> LibraryPendingReview
     then raise (validation_error_code ''TextureLibraryTextureNotPending''
                   ''only pending texture library submissions can be rejected'') else
     bnd (check (normalize_review_note_required F review_note)) (\<lambda>note.
     bnd (texture_update_library_review F now texture
            \<lparr>ur_library_status = LibraryRejected, ur_submitted_at = None, ur_reviewed_at = Some (Some now),
             ur_reviewer_user_id = Some (Some reviewer_user_id), ur_review_note = Some (Some note)\<rparr>) (\<lambda>updated.
     admin_texture_library_metadata T updated))))"

definition unpublished_by :: "row_id \<Rightarrow> string option \<Rightarrow> time \<Rightarrow> update_library_review" where
  "unpublished_by reviewer_user_id note now =
     \<lparr>ur_library_status = LibraryPrivate, ur_submitted_at = Some None, ur_reviewed_at = Some (Some now),
      ur_reviewer_user_id = Some (Some reviewer_user_id), ur_review_note = Some note\<rparr>"

definition unpublish_texture_library_texture ::
    "forge \<Rightarrow> texture_env \<Rightarrow> time \<Rightarrow> row_id \<Rightarrow> row_id \<Rightarrow> string option \<Rightarrow>
     (db, aster_error, library_texture_metadata) handler" where
  "unpublish_texture_library_texture F T now reviewer_user_id texture_id review_note =
     bnd (check (ensure_texture_library_enabled T)) (\<lambda>_.
     bnd (query (admin_wardrobe_texture texture_id)) (\<lambda>texture.
     if x_library_status texture \<noteq> LibraryPublished
     then raise (validation_error_code ''TextureLibraryTextureNotPublished''
                   ''only published texture library entries can be unpublished'') else
     bnd (check (normalize_review_note_optional F review_note)) (\<lambda>note.
     bnd (texture_update_library_review F now texture (unpublished_by reviewer_user_id note now)) (\<lambda>updated.
     bnd (handle_pending_for_texture F now texture_id
            \<lparr>hr_status = ReportAccepted, hr_admin_note = note, hr_handled_by_user_id = reviewer_user_id,
             hr_handled_at = now\<rparr>) (\<lambda>_.
     admin_texture_library_metadata T updated)))))"

section \<open>Reports\<close>

record texture_report_user_info =
  ru_public_uuid :: string
  ru_name :: string

record texture_report_info =
  ri_id :: row_id
  ri_texture_id :: row_id
  ri_reason :: report_reason
  ri_message :: "string option"
  ri_status :: report_status
  ri_admin_note :: "string option"
  ri_texture :: "library_texture_metadata option"
  ri_reporter :: "texture_report_user_info option"
  ri_handler :: "texture_report_user_info option"
  ri_handled_at :: "time option"
  ri_created_at :: time
  ri_updated_at :: time

definition report_user_info :: "user \<Rightarrow> texture_report_user_info" where
  "report_user_info u = \<lparr>ru_public_uuid = u_public_uuid u, ru_name = u_username u\<rparr>"

text \<open>A \<open>HashMap\<close> collected from pairs keeps the last value of a key.\<close>

definition last_by :: "('v \<Rightarrow> row_id) \<Rightarrow> 'v list \<Rightarrow> row_id \<Rightarrow> 'v option" where
  "last_by k vs i = find (\<lambda>v. k v = i) (rev vs)"

definition texture_report_infos_by_reports ::
    "texture_env \<Rightarrow> texture_report list \<Rightarrow> db \<Rightarrow> texture_report_info list" where
  "texture_report_infos_by_reports T reports d =
     (if reports = [] then [] else
      let user_by_id = (\<lambda>i. select_one (\<lambda>u. u_id u = i) (users d));
          existing_textures = List.map_filter (\<lambda>r. texture_find_by_id (tr_texture_id r) d) reports;
          metadata = texture_library_metadata_by_texture_ids T (Some AdminUser) existing_textures d
      in map (\<lambda>r. \<lparr>ri_id = tr_id r, ri_texture_id = tr_texture_id r, ri_reason = tr_reason r,
                ri_message = tr_message r, ri_status = tr_status r, ri_admin_note = tr_admin_note r,
                ri_texture = last_by lm_id metadata (tr_texture_id r),
                ri_reporter = map_option report_user_info (user_by_id (tr_reporter_user_id r)),
                ri_handler = map_option report_user_info (Option.bind (tr_handled_by_user_id r) user_by_id),
                ri_handled_at = tr_handled_at r, ri_created_at = tr_created_at r,
                ri_updated_at = tr_updated_at r\<rparr>) reports)"

definition report_info :: "texture_env \<Rightarrow> texture_report \<Rightarrow> (db, aster_error, texture_report_info) handler" where
  "report_info T report = query (\<lambda>d.
     case texture_report_infos_by_reports T [report] d of
       [] \<Rightarrow> Inl (record_not_found_code ''TextureReportNotFound'' (quoted_id ''texture report'' (tr_id report)))
     | info # _ \<Rightarrow> Inr info)"

definition create_texture_library_report ::
    "forge \<Rightarrow> texture_env \<Rightarrow> scope_codec \<Rightarrow> time \<Rightarrow> row_id \<Rightarrow> row_id \<Rightarrow> report_reason \<Rightarrow> string option \<Rightarrow>
     (db, aster_error, texture_report_info) handler" where
  "create_texture_library_report F T J now reporter_user_id texture_id reason message =
     bnd (check (ensure_texture_library_enabled T)) (\<lambda>_.
     bnd (query (ensure_user_not_banned J now reporter_user_id TextureLibraryInteract)) (\<lambda>_.
     bnd (query (public_reportable_texture texture_id)) (\<lambda>texture.
     if x_user_id texture = reporter_user_id
     then raise (validation_error_code ''TextureReportSelfReportNotAllowed''
                   ''users cannot report their own texture library entries'') else
     bnd (query (\<lambda>d. Inr (find_pending_for_reporter_and_texture reporter_user_id texture_id d))) (\<lambda>pending.
     if pending \<noteq> None
     then raise (validation_error_code ''TextureReportPendingExists'' ''a pending report already exists for this texture'') else
     bnd (check (normalize_report_message F message)) (\<lambda>message.
     bnd (report_repo_create F now texture_id reporter_user_id reason message) (\<lambda>report.
     report_info T report))))))"

definition get_admin_texture_library_report ::
    "texture_env \<Rightarrow> row_id \<Rightarrow> (db, aster_error, texture_report_info) handler" where
  "get_admin_texture_library_report T report_id =
     bnd (query (admin_texture_report report_id)) (\<lambda>report. report_info T report)"

definition accept_texture_library_report ::
    "forge \<Rightarrow> texture_env \<Rightarrow> time \<Rightarrow> row_id \<Rightarrow> row_id \<Rightarrow> string option \<Rightarrow>
     (db, aster_error, texture_report_info) handler" where
  "accept_texture_library_report F T now handler_user_id report_id admin_note =
     bnd (check (ensure_texture_library_enabled T)) (\<lambda>_.
     bnd (query (pending_admin_texture_report report_id)) (\<lambda>report.
     bnd (query (admin_wardrobe_texture (tr_texture_id report))) (\<lambda>texture.
     bnd (check (normalize_admin_report_note F admin_note)) (\<lambda>note.
     bnd (texture_update_library_review F now texture (unpublished_by handler_user_id note now)) (\<lambda>_.
     bnd (report_repo_handle F now report
            \<lparr>hr_status = ReportAccepted, hr_admin_note = note, hr_handled_by_user_id = handler_user_id,
             hr_handled_at = now\<rparr>) (\<lambda>report.
     report_info T report))))))"

definition reject_texture_library_report ::
    "forge \<Rightarrow> texture_env \<Rightarrow> time \<Rightarrow> row_id \<Rightarrow> row_id \<Rightarrow> string option \<Rightarrow>
     (db, aster_error, texture_report_info) handler" where
  "reject_texture_library_report F T now handler_user_id report_id admin_note =
     bnd (check (ensure_texture_library_enabled T)) (\<lambda>_.
     bnd (query (pending_admin_texture_report report_id)) (\<lambda>report.
     bnd (check (normalize_admin_report_note F admin_note)) (\<lambda>note.
     bnd (report_repo_handle F now report
            \<lparr>hr_status = ReportRejected, hr_admin_note = note, hr_handled_by_user_id = handler_user_id,
             hr_handled_at = now\<rparr>) (\<lambda>report.
     report_info T report))))"

section \<open>Browsing and copying\<close>

definition public_not_found :: "row_id \<Rightarrow> aster_error" where
  "public_not_found i = record_not_found_code ''TextureLibraryTextureNotFound'' (quoted_id ''public texture'' i)"

definition public_library_texture :: "row_id \<Rightarrow> db \<Rightarrow> minecraft_texture result" where
  "public_library_texture texture_id d =
     (if texture_id \<le> 0
      then Inl (record_not_found_code ''TextureLibraryTextureNotFound'' ''invalid public texture id'')
      else case find_public_wardrobe_by_id texture_id d of
             None \<Rightarrow> Inl (public_not_found texture_id) | Some x \<Rightarrow> Inr x)"

definition get_public_texture_library_texture ::
    "texture_env \<Rightarrow> row_id \<Rightarrow> (db, aster_error, library_texture_metadata) handler" where
  "get_public_texture_library_texture T texture_id =
     bnd (check (ensure_texture_library_enabled T)) (\<lambda>_.
     bnd (query (public_library_texture texture_id)) (\<lambda>texture.
     public_texture_library_metadata T texture))"

definition get_wardrobe_texture ::
    "texture_env \<Rightarrow> row_id \<Rightarrow> row_id \<Rightarrow> (db, aster_error, wardrobe_texture_metadata) handler" where
  "get_wardrobe_texture T user_id texture_id =
     bnd (query (user_wardrobe_texture user_id texture_id)) (\<lambda>texture.
     wardrobe_texture_with_current_tags T texture)"

definition copy_public_texture_to_wardrobe ::
    "forge \<Rightarrow> texture_env \<Rightarrow> scope_codec \<Rightarrow> time \<Rightarrow> row_id \<Rightarrow> row_id \<Rightarrow> string nullable_patch option \<Rightarrow>
     (db, aster_error, wardrobe_texture_metadata) handler" where
  "copy_public_texture_to_wardrobe F T J now user_id texture_id display_name =
     bnd (check (ensure_texture_library_enabled T)) (\<lambda>_.
     bnd (query (ensure_user_not_banned J now user_id TextureLibraryInteract)) (\<lambda>_.
     bnd (query (public_library_texture texture_id)) (\<lambda>source.
     bnd (query (\<lambda>d. Inr (find_wardrobe_by_fingerprint user_id (x_texture_type source) TextureLocal
                           (x_hash source) (x_texture_model source) d))) (\<lambda>existing.
     case existing of
       Some x \<Rightarrow> wardrobe_texture_with_current_tags T x
     | None \<Rightarrow>
         bnd (check (case display_name of
                       Some v \<Rightarrow> normalize_texture_display_name_patch F v
                     | None \<Rightarrow> Inr (x_display_name source))) (\<lambda>display_name.
         bnd (query (\<lambda>d. Inr (case display_name of None \<Rightarrow> None
                                | Some name \<Rightarrow> find_wardrobe_by_display_name user_id name d))) (\<lambda>same_name.
         if same_name \<noteq> None
         then raise (validation_error_code ''WardrobeTextureNameTaken'' ''wardrobe texture name already exists'') else
         bnd (create_wardrobe_copy F now source user_id VisibilityPrivate display_name) (\<lambda>copied.
         bnd (query (\<lambda>d. Inr (tags_for_texture (x_id source) d))) (\<lambda>source_tags.
         bnd (if source_tags = [] then ret ()
              else replace_texture_tags F now (x_id copied) (map tg_id source_tags)) (\<lambda>_.
         ret (wardrobe_texture_metadata_with_tags T copied source_tags))))))))))"

end
