(* ===== verification/Wardrobe.thy ===== *)
theory Wardrobe
  imports Texture_Library
begin

text \<open>
  \<open>texture_service.rs\<close>, \<open>texture_service/error.rs\<close> and \<open>texture_service/maintenance.rs\<close>: uploading textures to
  the wardrobe, wearing them on profiles, replacing and deleting them, and the object storage their bytes
  are kept in.  Object storage is the set of its objects by key; \<open>storage_env\<close> says which of its calls
  fail, and holds \<open>process_texture_file\<close> applied to an uploaded file, the download of an official
  texture and \<open>aster_forge_utils::numbers::u32_to_i32\<close>.  Failed log-only steps are ignored, as in the source.
\<close>

section \<open>TextureError\<close>

datatype texture_error_kind =
    InvalidTextureType | UploadDisabled | TextureUserBanForbidden | TextureInvalidToken | ForbiddenProfile
  | TextureNotFound | TextureConflict | InvalidContentType | MissingFile | InvalidPng | InvalidDimensions
  | TextureStorage

record texture_error =
  xe_kind :: texture_error_kind
  xe_detail :: "string option"

definition texture_error_new :: "texture_error_kind \<Rightarrow> texture_error" where
  "texture_error_new kind = \<lparr>xe_kind = kind, xe_detail = None\<rparr>"

definition texture_error_with_detail :: "texture_error_kind \<Rightarrow> string \<Rightarrow> texture_error" where
  "texture_error_with_detail kind detail = \<lparr>xe_kind = kind, xe_detail = Some detail\<rparr>"

fun texture_error_status :: "texture_error_kind \<Rightarrow> nat" where
  "texture_error_status TextureInvalidToken = 401"
| "texture_error_status ForbiddenProfile = 403"
| "texture_error_status UploadDisabled = 403"
| "texture_error_status TextureUserBanForbidden = 403"
| "texture_error_status TextureNotFound = 404"
| "texture_error_status TextureConflict = 409"
| "texture_error_status InvalidTextureType = 400"
| "texture_error_status InvalidContentType = 400"
| "texture_error_status MissingFile = 400"
| "texture_error_status InvalidPng = 400"
| "texture_error_status InvalidDimensions = 400"
| "texture_error_status TextureStorage = 500"

fun texture_error_name :: "texture_error_kind \<Rightarrow> string" where
  "texture_error_name TextureInvalidToken = ''ForbiddenOperationException''"
| "texture_error_name ForbiddenProfile = ''ForbiddenOperationException''"
| "texture_error_name UploadDisabled = ''ForbiddenOperationException''"
| "texture_error_name TextureUserBanForbidden = ''ForbiddenOperationException''"
| "texture_error_name TextureStorage = ''InternalServerError''"
| "texture_error_name _ = ''IllegalArgumentException''"

definition texture_error_message :: "texture_error \<Rightarrow> string" where
  "texture_error_message e =
     (let detail_or = (\<lambda>text. case xe_detail e of Some m \<Rightarrow> m | None \<Rightarrow> text) in
      case xe_kind e of
        InvalidTextureType \<Rightarrow> ''Invalid texture type.''
      | UploadDisabled \<Rightarrow> ''Texture upload is disabled.''
      | TextureUserBanForbidden \<Rightarrow> ''Texture upload is restricted for this account.''
      | TextureInvalidToken \<Rightarrow> ''Invalid token.''
      | ForbiddenProfile \<Rightarrow> ''Profile does not belong to this user.''
      | TextureNotFound \<Rightarrow> detail_or ''Texture not found.''
      | TextureConflict \<Rightarrow> detail_or ''Texture was modified concurrently; try again.''
      | InvalidContentType \<Rightarrow> ''Texture file must be image/png.''
      | MissingFile \<Rightarrow> ''Texture upload file is missing.''
      | InvalidPng \<Rightarrow> detail_or ''Invalid PNG texture.''
      | InvalidDimensions \<Rightarrow> detail_or ''Invalid texture dimensions.''
      | TextureStorage \<Rightarrow> ''Object storage failed.'')"

definition texture_from_aster :: "aster_error \<Rightarrow> texture_error" where
  "texture_from_aster e =
     (if api_error_code_override e = Some ''UserBanForbidden'' then texture_error_new TextureUserBanForbidden
      else texture_error_new TextureStorage)"

section \<open>State\<close>

record 'c wardrobe_state =
  w_ygg :: "'c ygg_state"
  w_objects :: "(string \<times> string) list"

abbreviation w_db :: "'c wardrobe_state \<Rightarrow> db" where
  "w_db s \<equiv> y_db (w_ygg s)"

definition on_ygg :: "('c ygg_state, 'e, 'a) handler \<Rightarrow> ('c wardrobe_state, 'e, 'a) handler" where
  "on_ygg m s = (let (r, y) = m (w_ygg s) in (r, s\<lparr>w_ygg := y\<rparr>))"

text \<open>\<open>map_err(TextureError::from)\<close>\<close>

definition tex :: "(db, aster_error, 'a) handler \<Rightarrow> ('c wardrobe_state, texture_error, 'a) handler" where
  "tex m s = map_prod (map_sum texture_from_aster id) id (on_ygg (on_db m) s)"

text \<open>A step whose failure is only logged.\<close>

definition attempt :: "(db, aster_error, 'a) handler \<Rightarrow> ('c wardrobe_state, 'e, unit) handler" where
  "attempt m s = (Inr (), snd (on_ygg (on_db m) s))"

record processed_texture =
  pr_width :: nat
  pr_height :: nat
  pr_file_size :: nat
  pr_hash :: string
  pr_bytes :: string

record storage_env =
  se_process :: "string \<Rightarrow> texture_type \<Rightarrow> processed_texture result"
  se_put_fault :: "string \<Rightarrow> aster_error option"
  se_delete_fault :: "string \<Rightarrow> aster_error option"
  se_list_fault :: "aster_error option"
  se_u32_to_i32 :: "nat \<Rightarrow> string \<Rightarrow> string + int"
  se_download :: "string \<Rightarrow> texture_error + string"
  se_allow_microsoft_override :: bool

section \<open>Object storage\<close>

text \<open>An object that exists is kept as it is (\<open>LocalObjectStorage::put_file\<close>).\<close>

definition put_file :: "storage_env \<Rightarrow> string \<Rightarrow> string \<Rightarrow> ('c wardrobe_state, texture_error, unit) handler" where
  "put_file S key bytes s =
     (case se_put_fault S key of
        Some e \<Rightarrow> (Inl (texture_from_aster e), s)
      | None \<Rightarrow> (Inr (), if map_of (w_objects s) key \<noteq> None then s else s\<lparr>w_objects := (key, bytes) # w_objects s\<rparr>))"

definition without_object :: "string \<Rightarrow> (string \<times> string) list \<Rightarrow> (string \<times> string) list" where
  "without_object key objects = filter (\<lambda>e. fst e \<noteq> key) objects"

definition object_storage_key :: "string \<Rightarrow> string" where
  "object_storage_key hash = take 2 hash @ ''/'' @ hash @ ''.png''"

definition cleanup_texture_blob_if_unreferenced ::
    "storage_env \<Rightarrow> string \<Rightarrow> ('c wardrobe_state, 'e, unit) handler" where
  "cleanup_texture_blob_if_unreferenced S key s =
     (Inr (), if count_by_storage_key key (w_db s) \<noteq> 0 \<or> se_delete_fault S key \<noteq> None then s
              else s\<lparr>w_objects := without_object key (w_objects s)\<rparr>)"

definition cleanup_texture_asset_if_unreferenced ::
    "storage_env \<Rightarrow> minecraft_texture \<Rightarrow> ('c wardrobe_state, 'e, unit) handler" where
  "cleanup_texture_asset_if_unreferenced S texture s =
     (if x_is_wardrobe_item texture \<or> count_by_texture_id (x_id texture) (w_db s) \<noteq> 0 then (Inr (), s)
      else bnd (attempt (texture_delete_by_id_for_user (x_id texture) (x_user_id texture))) (\<lambda>_.
           cleanup_texture_blob_if_unreferenced S (x_storage_key texture)) s)"

definition is_texture_blob_storage_key :: "string \<Rightarrow> bool" where
  "is_texture_blob_storage_key key =
     (if CHR ''/'' \<notin> set key then False else
      let prefix_part = takeWhile (\<lambda>c. c \<noteq> CHR ''/'') key;
          file_name = drop (length prefix_part + 1) key
      in length prefix_part = 2 \<and> list_all is_ascii_hexdigit prefix_part
         \<and> suffix ''.png'' file_name
         \<and> (let hash = take (length file_name - 4) file_name
            in length hash = 64 \<and> prefix prefix_part hash \<and> list_all is_ascii_hexdigit hash))"

record orphan_cleanup_result =
  oc_scanned :: nat
  oc_deleted :: nat
  oc_skipped :: nat

fun cleanup_orphans_loop ::
    "storage_env \<Rightarrow> string list \<Rightarrow> orphan_cleanup_result \<Rightarrow>
     ('c wardrobe_state, aster_error, orphan_cleanup_result) handler" where
  "cleanup_orphans_loop S [] result s = (Inr result, s)"
| "cleanup_orphans_loop S (key # keys) result s =
     (if count_by_storage_key key (w_db s) > 0
      then cleanup_orphans_loop S keys (result\<lparr>oc_skipped := oc_skipped result + 1\<rparr>) s
      else case se_delete_fault S key of
             Some e \<Rightarrow> (Inl e, s)
           | None \<Rightarrow> cleanup_orphans_loop S keys (result\<lparr>oc_deleted := oc_deleted result + 1\<rparr>)
                      (s\<lparr>w_objects := without_object key (w_objects s)\<rparr>))"

definition cleanup_orphan_texture_blobs ::
    "storage_env \<Rightarrow> ('c wardrobe_state, aster_error, orphan_cleanup_result) handler" where
  "cleanup_orphan_texture_blobs S s =
     (case se_list_fault S of
        Some e \<Rightarrow> (Inl e, s)
      | None \<Rightarrow> let keys = filter is_texture_blob_storage_key (map fst (w_objects s))
                in cleanup_orphans_loop S keys \<lparr>oc_scanned = length keys, oc_deleted = 0, oc_skipped = 0\<rparr> s)"

datatype consistency_issue_kind = MissingObject | HashMismatch

record consistency_issue =
  ci_texture_id :: row_id
  ci_storage_key :: string
  ci_hash :: string
  ci_kind :: consistency_issue_kind

record consistency_report =
  cr_checked :: nat
  cr_missing :: nat
  cr_hash_mismatched :: nat
  cr_issues :: "consistency_issue list"

definition object_storage_key_matches_hash :: "string \<Rightarrow> string \<Rightarrow> bool" where
  "object_storage_key_matches_hash key hash = (2 \<le> length hash \<and> key = take 2 hash @ ''/'' @ hash @ ''.png'')"

definition check_texture :: "string list \<Rightarrow> minecraft_texture \<Rightarrow> consistency_report \<Rightarrow> consistency_report" where
  "check_texture keys x report =
     (let issue = (\<lambda>kind. \<lparr>ci_texture_id = x_id x, ci_storage_key = x_storage_key x, ci_hash = x_hash x, ci_kind = kind\<rparr>) in
      if x_storage_key x \<notin> set keys
      then report\<lparr>cr_missing := cr_missing report + 1, cr_issues := cr_issues report @ [issue MissingObject]\<rparr>
      else if \<not> object_storage_key_matches_hash (x_storage_key x) (x_hash x)
      then report\<lparr>cr_hash_mismatched := cr_hash_mismatched report + 1,
                  cr_issues := cr_issues report @ [issue HashMismatch]\<rparr>
      else report)"

definition check_object_storage_consistency ::
    "storage_env \<Rightarrow> ('c wardrobe_state, aster_error, consistency_report) handler" where
  "check_object_storage_consistency S = query (\<lambda>s.
     case se_list_fault S of
       Some e \<Rightarrow> Inl e
     | None \<Rightarrow>
         let textures = texture_list_all (w_db s)
         in Inr (fold (check_texture (map fst (w_objects s))) textures
                   \<lparr>cr_checked = length textures, cr_missing = 0, cr_hash_mismatched = 0, cr_issues = []\<rparr>))"

section \<open>Caches\<close>

definition w_cache :: "('c \<Rightarrow> 'c) \<Rightarrow> ('c wardrobe_state, 'e, unit) handler" where
  "w_cache f = on_ygg (on_cache f)"

definition invalidate_profile_texture_caches ::
    "'c cache_ops \<Rightarrow> forge \<Rightarrow> time \<Rightarrow> row_id \<Rightarrow> ('c wardrobe_state, 'e, unit) handler" where
  "invalidate_profile_texture_caches C F now profile_id =
     bnd (w_cache (invalidate_profile_properties C profile_id)) (\<lambda>_. attempt (touch_by_id F now profile_id))"

fun for_each :: "('a \<Rightarrow> ('s, 'e, unit) handler) \<Rightarrow> 'a list \<Rightarrow> ('s, 'e, unit) handler" where
  "for_each m [] = ret ()"
| "for_each m (x # xs) = bnd (m x) (\<lambda>_. for_each m xs)"

definition invalidate_profile_texture_caches_for_bindings ::
    "'c cache_ops \<Rightarrow> forge \<Rightarrow> time \<Rightarrow> worn list \<Rightarrow> ('c wardrobe_state, 'e, unit) handler" where
  "invalidate_profile_texture_caches_for_bindings C F now bindings =
     for_each (invalidate_profile_texture_caches C F now)
       (remdups_adj (sort (map (\<lambda>w. pt_profile_id (fst w)) bindings)))"

definition invalidate_texture_asset_caches ::
    "'c cache_ops \<Rightarrow> minecraft_texture \<Rightarrow> ('c wardrobe_state, 'e, unit) handler" where
  "invalidate_texture_asset_caches C texture = w_cache (invalidate_texture_blob_lookup C (x_hash texture))"

text \<open>\<open>texture_blob_by_hash\<close>: the storage key of a texture, cached.\<close>

definition texture_blob_by_hash ::
    "'c cache_ops \<Rightarrow> time \<Rightarrow> string \<Rightarrow> ('c wardrobe_state, aster_error, string option) handler" where
  "texture_blob_by_hash C now hash s =
     (if \<not> is_valid_texture_hash hash then (Inr None, s)
      else case get_texture_blob_lookup C now hash (y_cache (w_ygg s)) of
             Some key \<Rightarrow> (Inr (Some key), s)
           | None \<Rightarrow>
               (case texture_find_by_hash hash (w_db s) of
                  None \<Rightarrow> (Inr None, s)
                | Some x \<Rightarrow> bnd (w_cache (set_texture_blob_lookup C now hash (x_storage_key x)))
                             (\<lambda>_. ret (Some (x_storage_key x))) s))"

section \<open>Checks\<close>

definition parse_texture_type :: "string \<Rightarrow> texture_error + texture_type" where
  "parse_texture_type value =
     (case parse_path value of None \<Rightarrow> Inl (texture_error_new InvalidTextureType) | Some t \<Rightarrow> Inr t)"

definition parse_skin_model :: "string option \<Rightarrow> texture_error + minecraft_texture_model" where
  "parse_skin_model value =
     (let v = trim (case value of None \<Rightarrow> [] | Some v \<Rightarrow> v) in
      if v = [] \<or> v = ''default'' then Inr ModelDefault
      else if v = ''slim'' then Inr ModelSlim
      else Inl (texture_error_with_detail InvalidDimensions ''Invalid skin model.''))"

fun split_comma :: "string \<Rightarrow> string list" where
  "split_comma [] = [[]]"
| "split_comma (c # cs) =
     (if c = CHR '','' then [] # split_comma cs
      else case split_comma cs of [] \<Rightarrow> [[c]] | w # ws \<Rightarrow> (c # w) # ws)"

definition ensure_upload_allowed :: "minecraft_profile \<Rightarrow> texture_type \<Rightarrow> texture_error + unit" where
  "ensure_upload_allowed profile ty =
     (if list_ex (\<lambda>item. trim item = texture_type_as_str ty) (split_comma (p_uploadable_textures profile))
      then Inr () else Inl (texture_error_new UploadDisabled))"

definition ensure_profile_texture_mutation_allowed :: "storage_env \<Rightarrow> minecraft_profile \<Rightarrow> texture_error + unit" where
  "ensure_profile_texture_mutation_allowed S profile =
     (if p_source profile = SourceMicrosoft \<and> \<not> se_allow_microsoft_override S
      then Inl (texture_error_new UploadDisabled) else Inr ())"

fun official_texture_display_name :: "texture_type \<Rightarrow> string" where
  "official_texture_display_name Skin = ''Official Minecraft skin''"
| "official_texture_display_name Cape = ''Official Minecraft cape''"

definition not_found_error :: "string \<Rightarrow> row_id \<Rightarrow> texture_error" where
  "not_found_error label i = texture_error_with_detail TextureNotFound (label @ '' #'' @ show_int i)"

definition authenticate_texture_access ::
    "'c cache_ops \<Rightarrow> forge \<Rightarrow> scope_codec \<Rightarrow> time \<Rightarrow> string \<Rightarrow> string \<Rightarrow>
     ('c wardrobe_state, texture_error, yggdrasil_token \<times> minecraft_profile) handler" where
  "authenticate_texture_access C F J now access_token profile_uuid =
     bnd (\<lambda>s. map_prod (map_sum (\<lambda>_. texture_error_new TextureInvalidToken) id) id
            (on_ygg (active_token_for_protocol C F J now access_token) s)) (\<lambda>token.
     case t_selected_profile_id token of
       None \<Rightarrow> raise (texture_error_new TextureInvalidToken)
     | Some selected \<Rightarrow>
         bnd (tex (query (find_profile_by_id selected))) (\<lambda>profile.
         if p_uuid profile \<noteq> profile_uuid then raise (texture_error_new ForbiddenProfile)
         else ret (token, profile)))"

section \<open>Uploading\<close>

record store_texture_asset_input =
  sa_user_id :: row_id
  sa_texture_type :: texture_type
  sa_source :: texture_source
  sa_texture_model :: minecraft_texture_model
  sa_upload :: string
  sa_visibility :: texture_visibility
  sa_display_name :: "string option"

definition number_result :: "string + 'a \<Rightarrow> texture_error + 'a" where
  "number_result r = map_sum (\<lambda>_. texture_error_new TextureStorage) id r"

definition store_or_reuse_wardrobe_texture ::
    "forge \<Rightarrow> storage_env \<Rightarrow> time \<Rightarrow> store_texture_asset_input \<Rightarrow>
     ('c wardrobe_state, texture_error, minecraft_texture) handler" where
  "store_or_reuse_wardrobe_texture F S now input =
     bnd (check (map_sum (\<lambda>e. texture_error_with_detail InvalidPng (error_message e)) id
                   (se_process S (sa_upload input) (sa_texture_type input)))) (\<lambda>processing.
     let storage_key = object_storage_key (pr_hash processing) in
     bnd (tex (query (\<lambda>d. Inr (find_wardrobe_by_fingerprint (sa_user_id input) (sa_texture_type input)
            (sa_source input) (pr_hash processing) (sa_texture_model input) d)))) (\<lambda>existing.
     case existing of
       Some x \<Rightarrow> ret x
     | None \<Rightarrow>
         bnd (put_file S storage_key (pr_bytes processing)) (\<lambda>_.
         bnd (check (number_result (u64_to_i64 F (pr_file_size processing) ''texture file size''))) (\<lambda>file_size.
         bnd (check (number_result (se_u32_to_i32 S (pr_width processing) ''texture width''))) (\<lambda>width.
         bnd (check (number_result (se_u32_to_i32 S (pr_height processing) ''texture height''))) (\<lambda>height.
         (\<lambda>s. case tex (texture_repo_create F now
                  \<lparr>cx_user_id = sa_user_id input, cx_texture_type = sa_texture_type input, cx_source = sa_source input,
                   cx_hash = pr_hash processing, cx_storage_key = storage_key, cx_mime_type = ''image/png'',
                   cx_file_size = file_size, cx_width = width, cx_height = height,
                   cx_texture_model = sa_texture_model input, cx_visibility = sa_visibility input,
                   cx_is_wardrobe_item = True, cx_display_name = sa_display_name input\<rparr>) s of
                (Inr x, s') \<Rightarrow> (Inr x, s')
              | (Inl e, s') \<Rightarrow>
                  bnd (cleanup_texture_blob_if_unreferenced S storage_key) (\<lambda>_. raise e) s')))))))"

definition store_wardrobe_texture ::
    "forge \<Rightarrow> storage_env \<Rightarrow> scope_codec \<Rightarrow> time \<Rightarrow> row_id \<Rightarrow> texture_type \<Rightarrow> minecraft_texture_model \<Rightarrow>
     texture_visibility \<Rightarrow> string \<Rightarrow> ('c wardrobe_state, texture_error, minecraft_texture) handler" where
  "store_wardrobe_texture F S J now user_id ty model visibility upload =
     bnd (tex (query (ensure_user_not_banned J now user_id TextureUpload))) (\<lambda>_.
     store_or_reuse_wardrobe_texture F S now
       \<lparr>sa_user_id = user_id, sa_texture_type = ty, sa_source = TextureLocal, sa_texture_model = model,
        sa_upload = upload, sa_visibility = visibility, sa_display_name = None\<rparr>)"

definition remember_local_texture_preset ::
    "forge \<Rightarrow> time \<Rightarrow> minecraft_profile \<Rightarrow> minecraft_texture \<Rightarrow> ('c wardrobe_state, texture_error, unit) handler" where
  "remember_local_texture_preset F now profile texture =
     (if x_source texture \<noteq> TextureLocal \<or> \<not> x_is_wardrobe_item texture then ret ()
      else bnd (tex (preference_upsert F now (p_id profile) (x_texture_type texture) (x_id texture))) (\<lambda>_. ret ()))"

text \<open>What follows the change of a slot: the replaced asset is collected and the caches are dropped.\<close>

definition after_binding ::
    "'c cache_ops \<Rightarrow> forge \<Rightarrow> storage_env \<Rightarrow> time \<Rightarrow> row_id \<Rightarrow> worn option \<Rightarrow> minecraft_texture \<Rightarrow>
     ('c wardrobe_state, texture_error, unit) handler" where
  "after_binding C F S now profile_id previous texture =
     bnd (case previous of
            None \<Rightarrow> ret ()
          | Some p \<Rightarrow> if x_id (snd p) \<noteq> x_id texture then cleanup_texture_asset_if_unreferenced S (snd p) else ret ()) (\<lambda>_.
     bnd (invalidate_profile_texture_caches C F now profile_id) (\<lambda>_.
     bnd (invalidate_texture_asset_caches C texture) (\<lambda>_.
     case previous of None \<Rightarrow> ret () | Some p \<Rightarrow> invalidate_texture_asset_caches C (snd p))))"

record stored_texture =
  st_texture :: worn
  st_profile :: minecraft_profile
  st_wardrobe_texture :: minecraft_texture

definition store_texture ::
    "'c cache_ops \<Rightarrow> forge \<Rightarrow> storage_env \<Rightarrow> scope_codec \<Rightarrow> time \<Rightarrow> minecraft_profile \<Rightarrow> texture_type \<Rightarrow>
     minecraft_texture_model \<Rightarrow> string \<Rightarrow> ('c wardrobe_state, texture_error, stored_texture) handler" where
  "store_texture C F S J now profile ty model upload =
     bnd (tex (query (ensure_user_not_banned J now (p_user_id profile) TextureUpload))) (\<lambda>_.
     bnd (tex (query (ensure_user_not_banned J now (p_user_id profile) MinecraftProfileManage))) (\<lambda>_.
     bnd (check (ensure_profile_texture_mutation_allowed S profile)) (\<lambda>_.
     bnd (check (ensure_upload_allowed profile ty)) (\<lambda>_.
     bnd (store_or_reuse_wardrobe_texture F S now
            \<lparr>sa_user_id = p_user_id profile, sa_texture_type = ty, sa_source = TextureLocal, sa_texture_model = model,
             sa_upload = upload, sa_visibility = VisibilityPrivate, sa_display_name = None\<rparr>) (\<lambda>wardrobe_texture.
     bnd (tex (query (find_by_profile_and_type (p_id profile) ty))) (\<lambda>previous.
     bnd (\<lambda>s. case tex (upsert_for_profile F now (p_id profile) (x_id wardrobe_texture) ty) s of
                  (Inr w, s') \<Rightarrow> (Inr w, s')
                | (Inl e, s') \<Rightarrow> bnd (cleanup_texture_asset_if_unreferenced S wardrobe_texture) (\<lambda>_. raise e) s') (\<lambda>texture.
     bnd (remember_local_texture_preset F now profile (snd texture)) (\<lambda>_.
     bnd (after_binding C F S now (p_id profile) previous (snd texture)) (\<lambda>_.
     ret \<lparr>st_texture = texture, st_profile = profile, st_wardrobe_texture = wardrobe_texture\<rparr>)))))))))"

datatype official_texture_binding_mode = PreserveLocal | ReplaceCurrent

definition import_official_texture_to_profile_with_mode ::
    "'c cache_ops \<Rightarrow> forge \<Rightarrow> storage_env \<Rightarrow> time \<Rightarrow> minecraft_profile \<Rightarrow> texture_type \<Rightarrow>
     minecraft_texture_model \<Rightarrow> string \<Rightarrow> official_texture_binding_mode \<Rightarrow>
     ('c wardrobe_state, texture_error, unit) handler" where
  "import_official_texture_to_profile_with_mode C F S now profile ty model source_url mode =
     bnd (check (se_download S source_url)) (\<lambda>upload.
     bnd (store_or_reuse_wardrobe_texture F S now
            \<lparr>sa_user_id = p_user_id profile, sa_texture_type = ty, sa_source = TextureMojang, sa_texture_model = model,
             sa_upload = upload, sa_visibility = VisibilityPrivate,
             sa_display_name = Some (official_texture_display_name ty)\<rparr>) (\<lambda>wardrobe_texture.
     bnd (tex (query (find_by_profile_and_type (p_id profile) ty))) (\<lambda>previous.
     if mode \<noteq> ReplaceCurrent \<and> \<not> (case previous of None \<Rightarrow> True
          | Some p \<Rightarrow> x_source (snd p) = TextureMojang \<and> x_texture_type (snd p) = ty)
     then invalidate_texture_asset_caches C wardrobe_texture else
     bnd (\<lambda>s. case tex (upsert_for_profile F now (p_id profile) (x_id wardrobe_texture) ty) s of
                  (Inr w, s') \<Rightarrow> (Inr w, s')
                | (Inl e, s') \<Rightarrow> bnd (cleanup_texture_asset_if_unreferenced S wardrobe_texture) (\<lambda>_. raise e) s') (\<lambda>texture.
     after_binding C F S now (p_id profile) previous (snd texture)))))"

section \<open>Wearing and taking off\<close>

definition bind_wardrobe_texture_to_profile ::
    "'c cache_ops \<Rightarrow> forge \<Rightarrow> storage_env \<Rightarrow> scope_codec \<Rightarrow> time \<Rightarrow> row_id \<Rightarrow> minecraft_profile \<Rightarrow> row_id \<Rightarrow>
     texture_type \<Rightarrow> ('c wardrobe_state, texture_error, stored_texture) handler" where
  "bind_wardrobe_texture_to_profile C F S J now user_id profile wardrobe_texture_id ty =
     bnd (tex (query (ensure_user_not_banned J now user_id TextureUpload))) (\<lambda>_.
     bnd (tex (query (ensure_user_not_banned J now user_id MinecraftProfileManage))) (\<lambda>_.
     bnd (check (ensure_profile_texture_mutation_allowed S profile)) (\<lambda>_.
     bnd (check (ensure_upload_allowed profile ty)) (\<lambda>_.
     bnd (tex (query (\<lambda>d. Inr (texture_find_by_id_for_user wardrobe_texture_id user_id d)))) (\<lambda>found.
     case found of
       None \<Rightarrow> raise (texture_error_with_detail TextureNotFound ''wardrobe texture #{wardrobe_texture_id}'')
     | Some wardrobe_texture \<Rightarrow>
         if x_texture_type wardrobe_texture \<noteq> ty
         then raise (texture_error_with_detail InvalidTextureType ''Wardrobe texture type does not match the target slot.'') else
         bnd (tex (query (find_by_profile_and_type (p_id profile) ty))) (\<lambda>previous.
         bnd (tex (upsert_for_profile F now (p_id profile) (x_id wardrobe_texture) ty)) (\<lambda>texture.
         bnd (remember_local_texture_preset F now profile (snd texture)) (\<lambda>_.
         bnd (after_binding C F S now (p_id profile) previous (snd texture)) (\<lambda>_.
         ret \<lparr>st_texture = texture, st_profile = profile, st_wardrobe_texture = wardrobe_texture\<rparr>)))))))))"

fun apply_presets_loop ::
    "'c cache_ops \<Rightarrow> forge \<Rightarrow> storage_env \<Rightarrow> scope_codec \<Rightarrow> time \<Rightarrow> row_id \<Rightarrow> minecraft_profile \<Rightarrow> texture_type list \<Rightarrow>
     nat \<Rightarrow> ('c wardrobe_state, texture_error, nat) handler" where
  "apply_presets_loop C F S J now user_id profile [] applied = ret applied"
| "apply_presets_loop C F S J now user_id profile (ty # tys) applied =
     bnd (tex (query (\<lambda>d. Inr (Option.bind (preference_find (p_id profile) ty d)
            (\<lambda>p. texture_find_by_id_for_user (pp_texture_id p) user_id d))))) (\<lambda>found.
     case found of
       None \<Rightarrow> apply_presets_loop C F S J now user_id profile tys applied
     | Some x \<Rightarrow>
         if x_texture_type x \<noteq> ty \<or> x_source x \<noteq> TextureLocal \<or> \<not> x_is_wardrobe_item x
         then apply_presets_loop C F S J now user_id profile tys applied
         else bnd (bind_wardrobe_texture_to_profile C F S J now user_id profile (x_id x) ty) (\<lambda>_.
              apply_presets_loop C F S J now user_id profile tys (applied + 1)))"

text \<open>The answer is \<open>texture_metadata_for_profile\<close>; here it is the textures it is made from.\<close>

definition apply_local_texture_presets_to_profile ::
    "'c cache_ops \<Rightarrow> forge \<Rightarrow> storage_env \<Rightarrow> scope_codec \<Rightarrow> time \<Rightarrow> row_id \<Rightarrow> minecraft_profile \<Rightarrow>
     ('c wardrobe_state, texture_error, worn list) handler" where
  "apply_local_texture_presets_to_profile C F S J now user_id profile =
     (if p_source profile \<noteq> SourceMicrosoft then raise (texture_error_new ForbiddenProfile) else
      bnd (apply_presets_loop C F S J now user_id profile [Skin, Cape] 0) (\<lambda>applied.
      if applied = 0 then raise (texture_error_with_detail TextureNotFound ''local texture preset'') else
      tex (query (\<lambda>d. Inr (worn_list_by_profile (p_id profile) d)))))"

definition delete_texture_for_profile_unchecked ::
    "'c cache_ops \<Rightarrow> forge \<Rightarrow> storage_env \<Rightarrow> time \<Rightarrow> minecraft_profile \<Rightarrow> texture_type \<Rightarrow>
     ('c wardrobe_state, texture_error, worn option) handler" where
  "delete_texture_for_profile_unchecked C F S now profile ty =
     bnd (tex (delete_for_profile (p_id profile) ty)) (\<lambda>deleted.
     case deleted of
       None \<Rightarrow> ret None
     | Some w \<Rightarrow>
         bnd (cleanup_texture_asset_if_unreferenced S (snd w)) (\<lambda>_.
         bnd (invalidate_texture_asset_caches C (snd w)) (\<lambda>_.
         bnd (invalidate_profile_texture_caches C F now (p_id profile)) (\<lambda>_.
         ret (Some w)))))"

definition delete_texture ::
    "'c cache_ops \<Rightarrow> forge \<Rightarrow> storage_env \<Rightarrow> scope_codec \<Rightarrow> time \<Rightarrow> minecraft_profile \<Rightarrow> texture_type \<Rightarrow>
     ('c wardrobe_state, texture_error, worn option) handler" where
  "delete_texture C F S J now profile ty =
     bnd (tex (query (ensure_user_not_banned J now (p_user_id profile) TextureUpload))) (\<lambda>_.
     bnd (tex (query (ensure_user_not_banned J now (p_user_id profile) MinecraftProfileManage))) (\<lambda>_.
     bnd (check (ensure_profile_texture_mutation_allowed S profile)) (\<lambda>_.
     bnd (check (ensure_upload_allowed profile ty)) (\<lambda>_.
     delete_texture_for_profile_unchecked C F S now profile ty))))"

definition delete_official_texture_for_profile_if_bound ::
    "'c cache_ops \<Rightarrow> forge \<Rightarrow> storage_env \<Rightarrow> time \<Rightarrow> minecraft_profile \<Rightarrow> texture_type \<Rightarrow>
     ('c wardrobe_state, texture_error, worn option) handler" where
  "delete_official_texture_for_profile_if_bound C F S now profile ty =
     bnd (tex (query (find_by_profile_and_type (p_id profile) ty))) (\<lambda>current.
     if \<not> (case current of None \<Rightarrow> False | Some w \<Rightarrow> x_source (snd w) = TextureMojang) then ret None
     else delete_texture_for_profile_unchecked C F S now profile ty)"

fun delete_worn_loop ::
    "'c cache_ops \<Rightarrow> storage_env \<Rightarrow> row_id \<Rightarrow> worn list \<Rightarrow> ('c wardrobe_state, texture_error, worn list) handler" where
  "delete_worn_loop C S profile_id [] = ret []"
| "delete_worn_loop C S profile_id (w # ws) =
     bnd (tex (delete_for_profile profile_id (pt_texture_type (fst w)))) (\<lambda>deleted.
     case deleted of
       None \<Rightarrow> delete_worn_loop C S profile_id ws
     | Some v \<Rightarrow>
         bnd (cleanup_texture_asset_if_unreferenced S (snd v)) (\<lambda>_.
         bnd (invalidate_texture_asset_caches C (snd v)) (\<lambda>_.
         bnd (delete_worn_loop C S profile_id ws) (\<lambda>vs.
         ret (v # vs)))))"

definition delete_all_textures_for_profile ::
    "'c cache_ops \<Rightarrow> forge \<Rightarrow> storage_env \<Rightarrow> time \<Rightarrow> minecraft_profile \<Rightarrow>
     ('c wardrobe_state, texture_error, worn list) handler" where
  "delete_all_textures_for_profile C F S now profile =
     bnd (tex (query (\<lambda>d. Inr (worn_list_by_profile (p_id profile) d)))) (\<lambda>textures.
     bnd (delete_worn_loop C S (p_id profile) textures) (\<lambda>deleted.
     bnd (if deleted = [] then ret () else invalidate_profile_texture_caches C F now (p_id profile)) (\<lambda>_.
     ret deleted)))"

section \<open>Changing a wardrobe texture\<close>

definition aster :: "(db, aster_error, 'a) handler \<Rightarrow> ('c wardrobe_state, aster_error, 'a) handler" where
  "aster m = on_ygg (on_db m)"

definition update_wardrobe_texture_metadata ::
    "'c cache_ops \<Rightarrow> forge \<Rightarrow> texture_env \<Rightarrow> scope_codec \<Rightarrow> time \<Rightarrow> row_id \<Rightarrow> row_id \<Rightarrow> string nullable_patch option \<Rightarrow>
     minecraft_texture_model option \<Rightarrow> texture_visibility option \<Rightarrow>
     ('c wardrobe_state, aster_error, wardrobe_texture_metadata) handler" where
  "update_wardrobe_texture_metadata C F T J now user_id texture_id display_name model visibility =
     bnd (aster (query (ensure_user_not_banned J now user_id TextureUpload))) (\<lambda>_.
     bnd (aster (query (user_wardrobe_texture user_id texture_id))) (\<lambda>texture.
     bnd (check (case display_name of None \<Rightarrow> Inr None
                 | Some v \<Rightarrow> map_sum id Some (normalize_texture_display_name_patch F v))) (\<lambda>display_name.
     let model = map_option (\<lambda>m. if x_texture_type texture = Skin then m else ModelDefault) model;
         changed = (case model of None \<Rightarrow> False | Some m \<Rightarrow> m \<noteq> x_texture_model texture) in
     bnd (aster (update_wardrobe_metadata_for_user F now texture user_id
            \<lparr>uw_display_name = display_name, uw_texture_model = model, uw_visibility = visibility\<rparr>)) (\<lambda>updated.
     case updated of
       None \<Rightarrow> raise (wardrobe_not_found texture_id)
     | Some x \<Rightarrow>
         bnd (if changed
              then bnd (aster (query (\<lambda>d. Inr (worn_list_by_texture_id texture_id d)))) (\<lambda>bindings.
                   invalidate_profile_texture_caches_for_bindings C F now bindings)
              else ret ()) (\<lambda>_.
         aster (wardrobe_texture_with_current_tags T x))))))"

definition wardrobe_replace_max_attempts :: nat where "wardrobe_replace_max_attempts = 4"

text \<open>
  The optimistic loop of \<open>replace_wardrobe_texture_content\<close>.  \<open>others n\<close> is what other requests did to the
  database before attempt \<open>n\<close>; the loop returns the row it wrote or found, with the row it replaced.
\<close>

fun replace_loop ::
    "storage_env \<Rightarrow> (nat \<Rightarrow> db \<Rightarrow> db) \<Rightarrow> time \<Rightarrow> row_id \<Rightarrow> row_id \<Rightarrow> replace_wardrobe_content \<Rightarrow> nat \<Rightarrow> minecraft_texture \<Rightarrow>
     ('c wardrobe_state, texture_error, minecraft_texture \<times> minecraft_texture) handler" where
  "replace_loop S others now user_id texture_id content 0 existing =
     bnd (cleanup_texture_blob_if_unreferenced S (rc_storage_key content)) (\<lambda>_. raise (texture_error_new TextureConflict))"
| "replace_loop S others now user_id texture_id content (Suc left) existing =
     bnd (tex (modify (others left))) (\<lambda>_.
     bnd (tex (replace_wardrobe_content_for_user now existing user_id content)) (\<lambda>replacement.
     case replacement of
       Some x \<Rightarrow> ret (x, existing)
     | None \<Rightarrow>
         bnd (tex (query (\<lambda>d. Inr (texture_find_by_id_for_user texture_id user_id d)))) (\<lambda>current.
         case (case current of None \<Rightarrow> None | Some x \<Rightarrow> if x_is_wardrobe_item x then Some x else None) of
           None \<Rightarrow> bnd (cleanup_texture_blob_if_unreferenced S (rc_storage_key content)) (\<lambda>_.
                    raise (not_found_error ''wardrobe texture'' texture_id))
         | Some x \<Rightarrow>
             if x_hash x = rc_hash content \<and> x_texture_model x = rc_texture_model content then ret (x, existing)
             else replace_loop S others now user_id texture_id content left x)))"

definition replace_wardrobe_texture_content ::
    "'c cache_ops \<Rightarrow> forge \<Rightarrow> texture_env \<Rightarrow> storage_env \<Rightarrow> scope_codec \<Rightarrow> (nat \<Rightarrow> db \<Rightarrow> db) \<Rightarrow> time \<Rightarrow> row_id \<Rightarrow> row_id \<Rightarrow>
     minecraft_texture_model \<Rightarrow> string \<Rightarrow> ('c wardrobe_state, texture_error, wardrobe_texture_metadata) handler" where
  "replace_wardrobe_texture_content C F T S J others now user_id texture_id model upload =
     bnd (tex (query (ensure_user_not_banned J now user_id TextureUpload))) (\<lambda>_.
     bnd (tex (query (\<lambda>d. Inr (if texture_id \<le> 0 then None else texture_find_by_id_for_user texture_id user_id d)))) (\<lambda>found.
     case (case found of None \<Rightarrow> None | Some x \<Rightarrow> if x_is_wardrobe_item x then Some x else None) of
       None \<Rightarrow> raise (not_found_error ''wardrobe texture'' texture_id)
     | Some existing \<Rightarrow>
         let model = (if x_texture_type existing = Skin then model else ModelDefault) in
         bnd (check (map_sum (\<lambda>e. texture_error_with_detail InvalidPng (error_message e)) id
                       (se_process S upload (x_texture_type existing)))) (\<lambda>processing.
         if pr_hash processing = x_hash existing \<and> model = x_texture_model existing
         then tex (wardrobe_texture_with_current_tags T existing) else
         bnd (check (number_result (u64_to_i64 F (pr_file_size processing) ''texture file size''))) (\<lambda>file_size.
         bnd (check (number_result (se_u32_to_i32 S (pr_width processing) ''texture width''))) (\<lambda>width.
         bnd (check (number_result (se_u32_to_i32 S (pr_height processing) ''texture height''))) (\<lambda>height.
         let storage_key = object_storage_key (pr_hash processing) in
         bnd (if pr_hash processing \<noteq> x_hash existing then put_file S storage_key (pr_bytes processing) else ret ()) (\<lambda>_.
         bnd (tex (query (\<lambda>d. Inr (worn_list_by_texture_id (x_id existing) d)))) (\<lambda>bindings.
         bnd (replace_loop S others now user_id texture_id
                \<lparr>rc_hash = pr_hash processing, rc_storage_key = storage_key, rc_mime_type = ''image/png'',
                 rc_file_size = file_size, rc_width = width, rc_height = height, rc_texture_model = model\<rparr>
                wardrobe_replace_max_attempts existing) (\<lambda>(updated, existing).
         bnd (invalidate_profile_texture_caches_for_bindings C F now bindings) (\<lambda>_.
         bnd (invalidate_texture_asset_caches C existing) (\<lambda>_.
         bnd (invalidate_texture_asset_caches C updated) (\<lambda>_.
         bnd (if x_storage_key existing \<noteq> x_storage_key updated
              then cleanup_texture_blob_if_unreferenced S (x_storage_key existing) else ret ()) (\<lambda>_.
         tex (wardrobe_texture_with_current_tags T updated))))))))))))))"

section \<open>Deleting textures\<close>

definition delete_wardrobe_texture_unchecked ::
    "'c cache_ops \<Rightarrow> forge \<Rightarrow> storage_env \<Rightarrow> time \<Rightarrow> row_id \<Rightarrow> row_id \<Rightarrow>
     ('c wardrobe_state, texture_error, minecraft_texture) handler" where
  "delete_wardrobe_texture_unchecked C F S now user_id texture_id =
     bnd (tex (query (\<lambda>d. Inr (worn_list_by_texture_id texture_id d)))) (\<lambda>deleted_bindings.
     bnd (tex (texture_delete_by_id_for_user texture_id user_id)) (\<lambda>deleted.
     case deleted of
       None \<Rightarrow> raise (not_found_error ''wardrobe texture'' texture_id)
     | Some x \<Rightarrow>
         bnd (cleanup_texture_blob_if_unreferenced S (x_storage_key x)) (\<lambda>_.
         bnd (invalidate_profile_texture_caches_for_bindings C F now deleted_bindings) (\<lambda>_.
         bnd (invalidate_texture_asset_caches C x) (\<lambda>_.
         ret x)))))"

definition delete_wardrobe_texture ::
    "'c cache_ops \<Rightarrow> forge \<Rightarrow> storage_env \<Rightarrow> scope_codec \<Rightarrow> time \<Rightarrow> row_id \<Rightarrow> row_id \<Rightarrow>
     ('c wardrobe_state, texture_error, minecraft_texture) handler" where
  "delete_wardrobe_texture C F S J now user_id texture_id =
     bnd (tex (query (ensure_user_not_banned J now user_id TextureUpload))) (\<lambda>_.
     delete_wardrobe_texture_unchecked C F S now user_id texture_id)"

fun delete_wardrobe_loop ::
    "'c cache_ops \<Rightarrow> forge \<Rightarrow> storage_env \<Rightarrow> time \<Rightarrow> row_id \<Rightarrow> minecraft_texture list \<Rightarrow>
     ('c wardrobe_state, texture_error, minecraft_texture list) handler" where
  "delete_wardrobe_loop C F S now user_id [] s = (Inr [], s)"
| "delete_wardrobe_loop C F S now user_id (x # xs) s =
     (case delete_wardrobe_texture_unchecked C F S now user_id (x_id x) s of
        (Inr y, s') \<Rightarrow> bnd (delete_wardrobe_loop C F S now user_id xs) (\<lambda>ys. ret (y # ys)) s'
      | (Inl e, s') \<Rightarrow> if xe_kind e = TextureNotFound then delete_wardrobe_loop C F S now user_id xs s' else (Inl e, s'))"

definition delete_all_wardrobe_textures_for_user ::
    "'c cache_ops \<Rightarrow> forge \<Rightarrow> storage_env \<Rightarrow> time \<Rightarrow> row_id \<Rightarrow>
     ('c wardrobe_state, texture_error, minecraft_texture list) handler" where
  "delete_all_wardrobe_textures_for_user C F S now user_id =
     bnd (tex (query (\<lambda>d. Inr (texture_list_by_user user_id d)))) (\<lambda>textures.
     delete_wardrobe_loop C F S now user_id textures)"

record deleted_library_texture =
  dl_texture :: library_texture_metadata
  dl_deleted_profile_binding_count :: nat

definition delete_texture_library_texture ::
    "'c cache_ops \<Rightarrow> forge \<Rightarrow> texture_env \<Rightarrow> storage_env \<Rightarrow> time \<Rightarrow> row_id \<Rightarrow>
     ('c wardrobe_state, texture_error, deleted_library_texture) handler" where
  "delete_texture_library_texture C F T S now texture_id =
     (if texture_id \<le> 0 then raise (not_found_error ''texture library texture'' texture_id) else
      bnd (tex (query (\<lambda>d. Inr (texture_find_by_id texture_id d)))) (\<lambda>found.
      case (case found of None \<Rightarrow> None | Some x \<Rightarrow> if x_is_wardrobe_item x then Some x else None) of
        None \<Rightarrow> raise (not_found_error ''texture library texture'' texture_id)
      | Some texture \<Rightarrow>
          bnd (tex (admin_texture_library_metadata T texture)) (\<lambda>metadata.
          bnd (tex (delete_by_texture_id texture_id)) (\<lambda>deleted_bindings.
          bnd (tex (delete_wardrobe_by_id texture_id)) (\<lambda>deleted.
          case deleted of
            None \<Rightarrow> raise (not_found_error ''texture library texture'' texture_id)
          | Some x \<Rightarrow>
              bnd (cleanup_texture_blob_if_unreferenced S (x_storage_key x)) (\<lambda>_.
              bnd (invalidate_profile_texture_caches_for_bindings C F now deleted_bindings) (\<lambda>_.
              bnd (invalidate_texture_asset_caches C x) (\<lambda>_.
              ret \<lparr>dl_texture = metadata, dl_deleted_profile_binding_count = length deleted_bindings\<rparr>))))))))"

fun delete_by_hash_loop ::
    "'c cache_ops \<Rightarrow> forge \<Rightarrow> storage_env \<Rightarrow> time \<Rightarrow> worn list \<Rightarrow>
     ('c wardrobe_state, texture_error, (worn \<times> minecraft_profile) list) handler" where
  "delete_by_hash_loop C F S now [] = ret []"
| "delete_by_hash_loop C F S now (w # ws) =
     bnd (tex (query (find_profile_by_id (pt_profile_id (fst w))))) (\<lambda>profile.
     bnd (tex (delete_for_profile (p_id profile) (pt_texture_type (fst w)))) (\<lambda>deleted.
     case deleted of
       None \<Rightarrow> delete_by_hash_loop C F S now ws
     | Some v \<Rightarrow>
         bnd (cleanup_texture_asset_if_unreferenced S (snd v)) (\<lambda>_.
         bnd (invalidate_profile_texture_caches C F now (p_id profile)) (\<lambda>_.
         bnd (invalidate_texture_asset_caches C (snd v)) (\<lambda>_.
         bnd (delete_by_hash_loop C F S now ws) (\<lambda>vs.
         ret ((v, profile) # vs)))))))"

definition delete_textures_by_hash ::
    "'c cache_ops \<Rightarrow> forge \<Rightarrow> storage_env \<Rightarrow> time \<Rightarrow> string \<Rightarrow>
     ('c wardrobe_state, texture_error, (worn \<times> minecraft_profile) list) handler" where
  "delete_textures_by_hash C F S now hash =
     (if \<not> is_valid_texture_hash hash then ret [] else
      bnd (tex (query (\<lambda>d. Inr (worn_list_by_hash hash d)))) (\<lambda>textures.
      bnd (delete_by_hash_loop C F S now textures) (\<lambda>deleted.
      bnd (tex (texture_delete_by_hash hash)) (\<lambda>deleted_assets.
      bnd (for_each (\<lambda>x. bnd (cleanup_texture_blob_if_unreferenced S (x_storage_key x)) (\<lambda>_.
                          invalidate_texture_asset_caches C x)) deleted_assets) (\<lambda>_.
      ret deleted)))))"

section \<open>Registering bound textures\<close>

record wardrobe_registration_result =
  wr_scanned_bindings :: nat
  wr_converted_textures :: nat
  wr_rebound_bindings :: nat
  wr_removed_duplicate_textures :: nat

fun register_loop ::
    "'c cache_ops \<Rightarrow> forge \<Rightarrow> storage_env \<Rightarrow> time \<Rightarrow> worn list \<Rightarrow> wardrobe_registration_result \<Rightarrow>
     ('c wardrobe_state, texture_error, wardrobe_registration_result) handler" where
  "register_loop C F S now [] result = ret result"
| "register_loop C F S now ((b, x) # ws) result =
     (if x_is_wardrobe_item x then register_loop C F S now ws result else
      bnd (tex (query (\<lambda>d. Inr (find_wardrobe_by_fingerprint (x_user_id x) (x_texture_type x) (x_source x)
             (x_hash x) (x_texture_model x) d)))) (\<lambda>found.
      case found of
        None \<Rightarrow>
          bnd (tex (mark_as_wardrobe_item F now x)) (\<lambda>_.
          bnd (invalidate_profile_texture_caches C F now (pt_profile_id b)) (\<lambda>_.
          register_loop C F S now ws (result\<lparr>wr_converted_textures := wr_converted_textures result + 1\<rparr>)))
      | Some existing \<Rightarrow>
          bnd (tex (upsert_for_profile F now (pt_profile_id b) (x_id existing) (pt_texture_type b))) (\<lambda>_.
          bnd (invalidate_profile_texture_caches C F now (pt_profile_id b)) (\<lambda>_.
          bnd (invalidate_texture_asset_caches C existing) (\<lambda>_.
          bnd (invalidate_texture_asset_caches C x) (\<lambda>_.
          let result = result\<lparr>wr_rebound_bindings := wr_rebound_bindings result + 1\<rparr> in
          bnd (tex (texture_delete_by_id_for_user (x_id x) (x_user_id x))) (\<lambda>deleted.
          case deleted of
            None \<Rightarrow> register_loop C F S now ws result
          | Some y \<Rightarrow>
              bnd (cleanup_texture_blob_if_unreferenced S (x_storage_key y)) (\<lambda>_.
              bnd (invalidate_texture_asset_caches C y) (\<lambda>_.
              register_loop C F S now ws
                (result\<lparr>wr_removed_duplicate_textures := wr_removed_duplicate_textures result + 1\<rparr>))))))))))"

definition register_bound_textures_in_wardrobe ::
    "'c cache_ops \<Rightarrow> forge \<Rightarrow> storage_env \<Rightarrow> time \<Rightarrow>
     ('c wardrobe_state, texture_error, wardrobe_registration_result) handler" where
  "register_bound_textures_in_wardrobe C F S now =
     bnd (tex (query (\<lambda>d. Inr (worn_list_all d)))) (\<lambda>bindings.
     register_loop C F S now bindings
       \<lparr>wr_scanned_bindings = length bindings, wr_converted_textures = 0, wr_rebound_bindings = 0,
        wr_removed_duplicate_textures = 0\<rparr>)"

end
