(* ===== verification/Texture_Safety.thy ===== *)
theory Texture_Safety
  imports Wardrobe
begin

text \<open>
  What every request to the texture service keeps: keys and slots stay unique, every texture has its
  object in storage, only public wardrobe items take part in the library, a reporter has at most one
  pending report per texture, and no request but an approval publishes a texture.
\<close>

section \<open>The invariant\<close>

definition slots_ok :: "db \<Rightarrow> bool" where
  "slots_ok d =
     (distinct (map (\<lambda>b. (pt_profile_id b, pt_texture_type b)) (rows (profile_textures d)))
      \<and> (\<forall>b \<in> set (rows (profile_textures d)). \<exists>x \<in> set (rows (minecraft_textures d)).
            x_id x = pt_texture_id b \<and> x_texture_type x = pt_texture_type b))"

definition library_row_ok :: "minecraft_texture \<Rightarrow> bool" where
  "library_row_ok x =
     (x_library_status x \<noteq> LibraryPrivate \<longrightarrow> x_visibility x = VisibilityPublic \<and> x_is_wardrobe_item x)"

definition reports_ok :: "db \<Rightarrow> bool" where
  "reports_ok d =
     (keys_ok tr_id (texture_reports d)
      \<and> distinct (map (\<lambda>r. (tr_reporter_user_id r, tr_texture_id r))
           (filter (\<lambda>r. tr_status r = ReportPending) (rows (texture_reports d))))
      \<and> (\<forall>r \<in> set (rows (texture_reports d)). texture_exists (tr_texture_id r) d))"

definition tags_ok :: "db \<Rightarrow> bool" where
  "tags_ok d =
     (keys_ok tg_id (texture_tags d) \<and> distinct (map tg_normalized_name (rows (texture_tags d)))
      \<and> distinct (map (\<lambda>b. (tb_texture_id b, tb_tag_id b)) (rows (texture_tag_bindings d)))
      \<and> (\<forall>b \<in> set (rows (texture_tag_bindings d)). texture_exists (tb_texture_id b) d \<and> tag_exists (tb_tag_id b) d))"

definition textures_wf :: "db \<Rightarrow> bool" where
  "textures_wf d =
     (keys_ok x_id (minecraft_textures d) \<and> keys_ok pt_id (profile_textures d)
      \<and> list_all library_row_ok (rows (minecraft_textures d)) \<and> slots_ok d \<and> reports_ok d \<and> tags_ok d)"

text \<open>Every texture has its object, under the key its hash determines.\<close>

definition stored :: "(string \<times> string) list \<Rightarrow> minecraft_texture \<Rightarrow> bool" where
  "stored objects x =
     (map_of objects (x_storage_key x) \<noteq> None \<and> x_storage_key x = object_storage_key (x_hash x) \<and> 2 \<le> length (x_hash x))"

definition objects_ok :: "'c wardrobe_state \<Rightarrow> bool" where
  "objects_ok s = list_all (stored (w_objects s)) (rows (minecraft_textures (w_db s)))"

definition wardrobe_wf :: "'c wardrobe_state \<Rightarrow> bool" where
  "wardrobe_wf s = (textures_wf (w_db s) \<and> objects_ok s)"

definition published_as :: "row_id \<Rightarrow> string \<Rightarrow> db \<Rightarrow> bool" where
  "published_as i hash d =
     (\<exists>x \<in> set (rows (minecraft_textures d)). x_id x = i \<and> x_hash x = hash \<and> x_library_status x = LibraryPublished)"

text \<open>Between the two states the invariant holds on and no texture was published.\<close>

definition quiet :: "'c wardrobe_state \<Rightarrow> 'c wardrobe_state \<Rightarrow> bool" where
  "quiet s s' =
     (wardrobe_wf s \<longrightarrow> wardrobe_wf s' \<and> (\<forall>i h. published_as i h (w_db s') \<longrightarrow> published_as i h (w_db s)))"

definition quiet_db :: "db \<Rightarrow> db \<Rightarrow> bool" where
  "quiet_db d d' =
     ((textures_wf d \<longrightarrow> textures_wf d') \<and> (\<forall>i h. published_as i h d' \<longrightarrow> published_as i h d)
      \<and> (\<forall>x' \<in> set (rows (minecraft_textures d')). \<exists>x \<in> set (rows (minecraft_textures d)).
            x_storage_key x' = x_storage_key x \<and> x_hash x' = x_hash x))"

lemma quiet_wf: "(wardrobe_wf s \<Longrightarrow> quiet s s') \<Longrightarrow> quiet s s'"
  by (auto simp: quiet_def)

interpretation quiet: state_order quiet
  by unfold_locales (auto simp: quiet_def)

interpretation quiet_db: state_order quiet_db
  by unfold_locales (fastforce simp: quiet_db_def)+

text \<open>A change of the database that brings no new objects into use is quiet for the whole state.\<close>

lemma quiet_lift:
  assumes "quiet_db (w_db s) (w_db s')" and "w_objects s' = w_objects s"
  shows "quiet s s'"
proof -
  have "objects_ok s'" if "objects_ok s"
    using that assms unfolding objects_ok_def list_all_iff stored_def quiet_db_def by metis
  with assms(1) show ?thesis by (auto simp: quiet_def quiet_db_def wardrobe_wf_def)
qed

lemma tex_state [simp]:
  "w_db (snd (tex m s)) = snd (m (w_db s))" "w_objects (snd (tex m s)) = w_objects s"
  "w_db (snd (aster m s)) = snd (m (w_db s))" "w_objects (snd (aster m s)) = w_objects s"
  "w_db (snd (attempt m s)) = snd (m (w_db s))" "w_objects (snd (attempt m s)) = w_objects s"
  by (simp_all add: tex_def aster_def attempt_def on_ygg_def on_db_def split: prod.split)

lemma quiet_tex:
  assumes "quiet_db (w_db s) (snd (m (w_db s)))"
  shows "quiet s (snd (tex m s))" "quiet s (snd (aster m s))" "quiet s (snd (attempt m s))"
  by (rule quiet_lift; simp add: assms)+

lemma quiet_w_cache [simp]: "quiet s (snd (w_cache f s))"
  by (rule quiet_lift) (simp_all add: w_cache_def on_ygg_def on_cache_def Let_def quiet_db.refl)

lemma tex_query: "tex (query f) s = (map_sum texture_from_aster id (f (w_db s)), s)"
  by (simp add: tex_def on_ygg_def on_db_def query_def)

lemma aster_query: "aster (query f) s = (f (w_db s), s)"
  by (simp add: aster_def on_ygg_def on_db_def query_def)

lemma quiet_bnd_tex_query:
  "(\<And>x. f (w_db s) = Inr x \<Longrightarrow> quiet s (snd (k x s))) \<Longrightarrow> quiet s (snd (bnd (tex (query f)) k s))"
  "(\<And>x. f (w_db s) = Inr x \<Longrightarrow> quiet s (snd (k' x s))) \<Longrightarrow> quiet s (snd (bnd (aster (query f)) k' s))"
  by (auto simp: bnd_def tex_query aster_query quiet.refl map_sum_Inr split: sum.split)

section \<open>Changes of the texture table\<close>

lemma textures_wf_textures_only:
  assumes "textures_wf d" and "keys_ok x_id t" and "list_all library_row_ok (rows t)"
    and keep: "\<And>x. x \<in> set (rows (minecraft_textures d)) \<Longrightarrow> \<exists>y \<in> set (rows t). x_id y = x_id x \<and> x_texture_type y = x_texture_type x"
  shows "textures_wf (d\<lparr>minecraft_textures := t\<rparr>)"
proof -
  have ex: "texture_exists i (d\<lparr>minecraft_textures := t\<rparr>)" if "texture_exists i d" for i
    using that keep by (fastforce simp: texture_exists_def)
  have "slots_ok (d\<lparr>minecraft_textures := t\<rparr>)"
    using assms(1) keep unfolding textures_wf_def slots_ok_def by simp metis
  moreover have "reports_ok (d\<lparr>minecraft_textures := t\<rparr>)"
    using assms(1) ex by (simp add: textures_wf_def reports_ok_def)
  moreover have "tags_ok (d\<lparr>minecraft_textures := t\<rparr>)"
    using assms(1) ex by (simp add: textures_wf_def tags_ok_def tag_exists_def)
  ultimately show ?thesis using assms(1-3) by (simp add: textures_wf_def)
qed

text \<open>An update that keeps the identity of the rows and publishes none.\<close>

definition row_change_ok :: "(minecraft_texture \<Rightarrow> minecraft_texture) \<Rightarrow> minecraft_texture \<Rightarrow> bool" where
  "row_change_ok f x =
     (x_id (f x) = x_id x \<and> x_texture_type (f x) = x_texture_type x
      \<and> (library_row_ok x \<longrightarrow> library_row_ok (f x)))"

lemma textures_wf_update:
  assumes "textures_wf d" and "\<And>x. x \<in> set (rows (minecraft_textures d)) \<Longrightarrow> p x \<Longrightarrow> row_change_ok f x"
  shows "textures_wf (d\<lparr>minecraft_textures := snd (update_many p f (minecraft_textures d))\<rparr>)"
proof (rule textures_wf_textures_only[OF assms(1)])
  let ?t = "minecraft_textures d"
  have m: "map x_id (map (\<lambda>r. if p r then f r else r) (rows ?t)) = map x_id (rows ?t)"
    using assms(2) by (auto simp: row_change_ok_def)
  have "keys_ok x_id ?t" using assms(1) by (simp add: textures_wf_def)
  then show "keys_ok x_id (snd (update_many p f ?t))"
    using m unfolding keys_ok_alt by (simp add: update_many_def del: map_map)
  show "list_all library_row_ok (rows (snd (update_many p f ?t)))"
    using assms by (auto simp: update_many_def list_all_iff textures_wf_def row_change_ok_def)
  show "\<exists>y \<in> set (rows (snd (update_many p f ?t))). x_id y = x_id x \<and> x_texture_type y = x_texture_type x"
    if "x \<in> set (rows ?t)" for x
  proof -
    have "(if p x then f x else x) \<in> set (rows (snd (update_many p f ?t)))"
      using that by (force simp: update_many_def)
    then show ?thesis using assms(2)[OF that] by (auto simp: row_change_ok_def split: if_splits)
  qed
qed

lemma published_update:
  assumes "\<And>x. x \<in> set (rows t) \<Longrightarrow> p x \<Longrightarrow> x_id (f x) = x_id x
             \<and> (x_library_status (f x) = LibraryPublished \<longrightarrow> x_library_status x = LibraryPublished \<and> x_hash (f x) = x_hash x)"
    and "published_as i h (d\<lparr>minecraft_textures := snd (update_many p f t)\<rparr>)" and "t = minecraft_textures d"
  shows "published_as i h d"
  using assms by (auto simp: published_as_def update_many_def split: if_splits)

lemma quiet_db_update_texture:
  assumes "\<And>x. textures_wf d \<Longrightarrow> x \<in> set (rows (minecraft_textures d)) \<Longrightarrow> x_id x = i \<Longrightarrow> row_change_ok f x"
    and "\<And>x. x \<in> set (rows (minecraft_textures d)) \<Longrightarrow> x_id x = i \<Longrightarrow> x_id (f x) = x_id x"
    and "\<And>x. x_library_status (f x) = LibraryPublished \<Longrightarrow> x_library_status x = LibraryPublished"
    and "\<And>x. x_hash (f x) = x_hash x \<and> x_storage_key (f x) = x_storage_key x"
  shows "quiet_db d (snd (update_texture_row F i f d))"
proof (cases "select_one (\<lambda>r. x_id r = i) (minecraft_textures d)")
  case None
  then show ?thesis by (simp add: update_texture_row_def statement_def update_by_key_def quiet_db.refl)
next
  case (Some x)
  then have e: "snd (update_texture_row F i f d) =
      d\<lparr>minecraft_textures := snd (update_many (\<lambda>r. x_id r = i) f (minecraft_textures d))\<rparr>"
    by (simp add: update_texture_row_def statement_def update_by_key_def)
  show ?thesis unfolding e quiet_db_def
  proof (intro conjI allI impI)
    show "textures_wf (d\<lparr>minecraft_textures := snd (update_many (\<lambda>r. x_id r = i) f (minecraft_textures d))\<rparr>)"
      if "textures_wf d" by (rule textures_wf_update[OF that]) (use assms(1) that in blast)
    show "published_as j h d"
      if "published_as j h (d\<lparr>minecraft_textures := snd (update_many (\<lambda>r. x_id r = i) f (minecraft_textures d))\<rparr>)" for j h
      by (rule published_update[OF _ that refl]) (use assms(2-4) in blast)
    show "\<forall>x' \<in> set (rows (minecraft_textures (d\<lparr>minecraft_textures := snd (update_many (\<lambda>r. x_id r = i) f (minecraft_textures d))\<rparr>))).
        \<exists>x \<in> set (rows (minecraft_textures d)). x_storage_key x' = x_storage_key x \<and> x_hash x' = x_hash x"
      using assms(4) by (auto simp: update_many_def)
  qed
qed

lemma quiet_db_same:
  assumes "minecraft_textures d' = minecraft_textures d" "profile_textures d' = profile_textures d"
    "texture_reports d' = texture_reports d" "texture_tags d' = texture_tags d"
    "texture_tag_bindings d' = texture_tag_bindings d"
  shows "quiet_db d d'"
  using assms
  by (simp add: quiet_db_def textures_wf_def slots_ok_def reports_ok_def tags_ok_def texture_exists_def tag_exists_def
      published_as_def) blast

text \<open>Changes of other tables leave the textures alone.\<close>

lemma quiet_db_from:
  assumes "minecraft_textures d' = minecraft_textures d" and "textures_wf d \<Longrightarrow> textures_wf d'"
  shows "quiet_db d d'"
  using assms by (auto simp: quiet_db_def published_as_def)

lemma new_texture_simps [simp]:
  "x_id (new_texture now input i) = i" "x_hash (new_texture now input i) = cx_hash input"
  "x_storage_key (new_texture now input i) = cx_storage_key input"
  "x_library_status (new_texture now input i) = LibraryPrivate"
  "x_user_id (new_texture now input i) = cx_user_id input"
  "x_texture_type (new_texture now input i) = cx_texture_type input"
  by (simp_all add: new_texture_def)

lemma create_state:
  obtains (refused) e where "texture_repo_create F now input d = (Inl e, d)"
  | (added) x t where "texture_repo_create F now input d = (Inr x, d\<lparr>minecraft_textures := t\<rparr>)"
      "x = new_texture now input (next_id (minecraft_textures d))"
      "rows t = rows (minecraft_textures d) @ [x]" "next_id t = next_id (minecraft_textures d) + 1"
proof (cases "user_exists (cx_user_id input) d")
  case False
  then show ?thesis using refused by (simp add: texture_repo_create_def statement_def checked_insert_def)
next
  case True
  then show ?thesis
    by (intro added) (auto simp: texture_repo_create_def statement_def checked_insert_def insert_row_def Let_def)
qed

lemma textures_wf_create:
  assumes "textures_wf d" and "x = new_texture now input (next_id (minecraft_textures d))"
    and "rows t = rows (minecraft_textures d) @ [x]" and "next_id t = next_id (minecraft_textures d) + 1"
  shows "textures_wf (d\<lparr>minecraft_textures := t\<rparr>)"
proof (rule textures_wf_textures_only[OF assms(1)])
  show "keys_ok x_id t"
    by (rule keys_ok_appended[of x_id "minecraft_textures d" x]) (use assms in \<open>auto simp: textures_wf_def appended_def\<close>)
  show "list_all library_row_ok (rows t)"
    using assms by (auto simp: textures_wf_def library_row_ok_def)
qed (use assms(3) in auto)

lemma published_create:
  assumes "published_as i h (d\<lparr>minecraft_textures := t\<rparr>)" and "rows t = rows (minecraft_textures d) @ [x]"
    and "x_library_status x = LibraryPrivate"
  shows "published_as i h d"
  using assms by (auto simp: published_as_def)

lemma quiet_db_create:
  assumes "\<exists>x \<in> set (rows (minecraft_textures d)). cx_storage_key input = x_storage_key x \<and> cx_hash input = x_hash x"
  shows "quiet_db d (snd (texture_repo_create F now input d))"
proof (cases rule: create_state[of F now input d])
  case (refused e)
  then show ?thesis by (simp add: quiet_db.refl)
next
  case (added x t)
  have k: "\<forall>y \<in> set (rows t). \<exists>z \<in> set (rows (minecraft_textures d)). x_storage_key y = x_storage_key z \<and> x_hash y = x_hash z"
    using assms added(2,3) by auto
  show ?thesis
    using textures_wf_create[OF _ added(2-4)] published_create[OF _ added(3)] added(2) k
    by (auto simp: quiet_db_def added(1))
qed

lemma quiet_create:
  assumes "map_of (w_objects s) (cx_storage_key input) \<noteq> None" and "cx_storage_key input = object_storage_key (cx_hash input)"
    and "2 \<le> length (cx_hash input)"
  shows "quiet s (snd (tex (texture_repo_create F now input) s))"
proof (cases rule: create_state[of F now input "w_db s"])
  case (refused e)
  then show ?thesis by (intro quiet_tex) (simp add: quiet_db.refl)
next
  case (added x t)
  have "objects_ok (snd (tex (texture_repo_create F now input) s))" if "objects_ok s"
    using that added(2,3) assms by (auto simp: objects_ok_def stored_def added(1))
  then show ?thesis
    using textures_wf_create[OF _ added(2-4)] published_create[OF _ added(3)] added(2)
    by (auto simp: quiet_def wardrobe_wf_def added(1))
qed

section \<open>Deleting textures\<close>

lemma textures_wf_delete:
  assumes "textures_wf d" shows "textures_wf (delete_texture_row i d)"
proof -
  let ?d = "delete_texture_row i d"
  have ex: "texture_exists j ?d \<longleftrightarrow> texture_exists j d \<and> j \<noteq> i" for j
    by (auto simp: texture_exists_def delete_texture_row_def delete_many_def)
  have "slots_ok ?d"
  proof -
    have "\<exists>x \<in> set (rows (minecraft_textures ?d)). x_id x = pt_texture_id b \<and> x_texture_type x = pt_texture_type b"
      if "b \<in> set (rows (profile_textures ?d))" for b
    proof -
      have b: "b \<in> set (rows (profile_textures d))" "pt_texture_id b \<noteq> i"
        using that by (auto simp: delete_texture_row_def delete_many_def)
      then obtain x where "x \<in> set (rows (minecraft_textures d))" "x_id x = pt_texture_id b" "x_texture_type x = pt_texture_type b"
        using assms by (auto simp: textures_wf_def slots_ok_def)
      with b(2) show ?thesis by (intro bexI[of _ x]) (auto simp: delete_texture_row_def delete_many_def)
    qed
    moreover have "distinct (map (\<lambda>b. (pt_profile_id b, pt_texture_type b)) (rows (profile_textures ?d)))"
      using assms by (simp add: textures_wf_def slots_ok_def delete_texture_row_def delete_many_def distinct_map_filter)
    ultimately show ?thesis by (simp add: slots_ok_def)
  qed
  moreover have "reports_ok ?d"
  proof -
    have r: "rows (texture_reports ?d) = filter (\<lambda>r. tr_texture_id r \<noteq> i) (rows (texture_reports d))"
      by (simp add: delete_texture_row_def delete_many_def)
    have f: "filter (\<lambda>r. tr_status r = ReportPending) (rows (texture_reports ?d)) =
        filter (\<lambda>r. tr_texture_id r \<noteq> i) (filter (\<lambda>r. tr_status r = ReportPending) (rows (texture_reports d)))"
      unfolding r filter_filter by (rule filter_cong) auto
    have "keys_ok tr_id (texture_reports ?d)"
      using assms by (simp add: textures_wf_def reports_ok_def delete_texture_row_def keys_ok_delete)
    moreover have "distinct (map (\<lambda>r. (tr_reporter_user_id r, tr_texture_id r))
        (filter (\<lambda>r. tr_status r = ReportPending) (rows (texture_reports ?d))))"
      unfolding f by (rule distinct_map_filter) (use assms in \<open>simp add: textures_wf_def reports_ok_def\<close>)
    moreover have "\<forall>r \<in> set (rows (texture_reports ?d)). texture_exists (tr_texture_id r) ?d"
      unfolding r ex using assms by (simp add: textures_wf_def reports_ok_def)
    ultimately show ?thesis by (simp add: reports_ok_def)
  qed
  moreover have "tags_ok ?d"
    using assms by (auto simp: textures_wf_def tags_ok_def ex distinct_map_filter)
      (auto simp: delete_texture_row_def delete_many_def distinct_map_filter tag_exists_def)
  moreover have "keys_ok x_id (minecraft_textures ?d)" "keys_ok pt_id (profile_textures ?d)"
    using assms by (simp_all add: textures_wf_def delete_texture_row_def keys_ok_delete)
  moreover have "list_all library_row_ok (rows (minecraft_textures ?d))"
    using assms by (auto simp: textures_wf_def delete_texture_row_def delete_many_def list_all_iff)
  ultimately show ?thesis by (simp add: textures_wf_def)
qed

lemma quiet_db_delete_texture: "quiet_db d (delete_texture_row i d)"
proof -
  have "set (rows (minecraft_textures (delete_texture_row i d))) \<subseteq> set (rows (minecraft_textures d))"
    by (auto simp: delete_texture_row_def delete_many_def)
  then show ?thesis using textures_wf_delete by (auto simp: quiet_db_def published_as_def)
qed

lemma quiet_db_fold:
  assumes "\<And>x d. quiet_db d (f x d)" shows "quiet_db d (fold f xs d)"
  by (induction xs arbitrary: d) (auto intro: quiet_db.refl quiet_db.trans assms)

lemma quiet_db_modify: "quiet_db d (f d) \<Longrightarrow> quiet_db d (snd (modify f d))"
  by (simp add: modify_def)

lemma quiet_db_deletes:
  "quiet_db d (snd (texture_delete_by_hash h d))" "quiet_db d (snd (texture_delete_by_id_for_user i u d))"
  "quiet_db d (snd (delete_wardrobe_by_id i d))"
  unfolding texture_delete_by_hash_def texture_delete_by_id_for_user_def delete_wardrobe_by_id_def
  by (intro quiet_db.rules quiet_db_modify quiet_db_fold quiet_db_delete_texture)+

section \<open>Bindings\<close>

lemma quiet_db_delete_binding: "quiet_db d (delete_binding_row i d)"
  by (rule quiet_db_from)
    (auto simp: delete_binding_row_def delete_many_def textures_wf_def slots_ok_def reports_ok_def tags_ok_def
      texture_exists_def tag_exists_def distinct_map_filter keys_ok_def)

lemma quiet_db_worn_deletes:
  "quiet_db d (snd (delete_by_texture_id i d))" "quiet_db d (snd (delete_for_profile p ty d))"
  unfolding delete_by_texture_id_def delete_for_profile_def
  by (intro quiet_db.rules quiet_db_modify quiet_db_fold quiet_db_delete_binding)+

lemma textures_wf_bindings_only:
  assumes "textures_wf d" and "keys_ok pt_id t"
    and "distinct (map (\<lambda>b. (pt_profile_id b, pt_texture_type b)) (rows t))"
    and "\<And>b. b \<in> set (rows t) \<Longrightarrow> \<exists>x \<in> set (rows (minecraft_textures d)). x_id x = pt_texture_id b \<and> x_texture_type x = pt_texture_type b"
  shows "textures_wf (d\<lparr>profile_textures := t\<rparr>)"
  using assms by (simp add: textures_wf_def slots_ok_def reports_ok_def tags_ok_def texture_exists_def tag_exists_def)

lemma textures_wf_rebound:
  assumes wf: "textures_wf d" and b: "select_one (\<lambda>b. pt_profile_id b = p \<and> pt_texture_type b = ty) (profile_textures d) = Some b"
    and x: "x \<in> set (rows (minecraft_textures d))" "x_id x = i" "x_texture_type x = ty"
  shows "textures_wf (d\<lparr>profile_textures :=
           snd (update_many (\<lambda>r. pt_id r = pt_id b) (\<lambda>b. b\<lparr>pt_texture_id := i, pt_updated_at := now\<rparr>) (profile_textures d))\<rparr>)"
proof (rule textures_wf_bindings_only[OF wf])
  let ?t = "profile_textures d" and ?f = "\<lambda>b. b\<lparr>pt_texture_id := i, pt_updated_at := now\<rparr>"
  have k: "keys_ok pt_id ?t" using wf by (simp add: textures_wf_def)
  then show "keys_ok pt_id (snd (update_many (\<lambda>r. pt_id r = pt_id b) ?f ?t))" by (rule keys_ok_update) simp
  have "map (\<lambda>b. (pt_profile_id b, pt_texture_type b)) (map (\<lambda>r. if pt_id r = pt_id b then ?f r else r) (rows ?t)) =
      map (\<lambda>b. (pt_profile_id b, pt_texture_type b)) (rows ?t)" by simp
  moreover have "distinct (map (\<lambda>b. (pt_profile_id b, pt_texture_type b)) (rows ?t))"
    using wf by (simp add: textures_wf_def slots_ok_def)
  ultimately show "distinct (map (\<lambda>b. (pt_profile_id b, pt_texture_type b)) (rows (snd (update_many (\<lambda>r. pt_id r = pt_id b) ?f ?t))))"
    by (simp add: update_many_def del: map_map)
  fix c assume "c \<in> set (rows (snd (update_many (\<lambda>r. pt_id r = pt_id b) ?f ?t)))"
  then obtain r where r: "r \<in> set (rows ?t)" "c = (if pt_id r = pt_id b then ?f r else r)"
    by (auto simp: update_many_def)
  show "\<exists>x \<in> set (rows (minecraft_textures d)). x_id x = pt_texture_id c \<and> x_texture_type x = pt_texture_type c"
  proof (cases "pt_id r = pt_id b")
    case True
    have "b \<in> set (rows ?t)" "pt_texture_type b = ty" using select_one_Some[OF b] by auto
    with keys_ok_inj[OF k r(1) _ True] have "pt_texture_type r = ty" by simp
    with x True r(2) show ?thesis by auto
  next
    case False
    with r wf show ?thesis by (simp add: textures_wf_def slots_ok_def)
  qed
qed

lemma textures_wf_bound:
  assumes wf: "textures_wf d" and free: "select_one (\<lambda>b. pt_profile_id b = p \<and> pt_texture_type b = ty) (profile_textures d) = None"
    and x: "x \<in> set (rows (minecraft_textures d))" "x_id x = i" "x_texture_type x = ty"
  shows "textures_wf (d\<lparr>profile_textures := snd (insert_row (\<lambda>j. \<lparr>pt_id = j, pt_profile_id = p, pt_texture_id = i,
           pt_texture_type = ty, pt_created_at = now, pt_updated_at = now\<rparr>) (profile_textures d))\<rparr>)"
proof (rule textures_wf_bindings_only[OF wf])
  let ?t = "snd (insert_row (\<lambda>j. \<lparr>pt_id = j, pt_profile_id = p, pt_texture_id = i,
           pt_texture_type = ty, pt_created_at = now, pt_updated_at = now\<rparr>) (profile_textures d))"
  show "keys_ok pt_id ?t" by (rule keys_ok_insert) (use wf in \<open>simp_all add: textures_wf_def\<close>)
  show "distinct (map (\<lambda>b. (pt_profile_id b, pt_texture_type b)) (rows ?t))"
    using wf free by (auto simp: insert_row_def Let_def textures_wf_def slots_ok_def select_one_None)
  show "\<exists>x \<in> set (rows (minecraft_textures d)). x_id x = pt_texture_id c \<and> x_texture_type x = pt_texture_type c"
    if "c \<in> set (rows ?t)" for c
    using that wf x by (auto simp: insert_row_def Let_def textures_wf_def slots_ok_def)
qed

lemma quiet_db_upsert:
  assumes "textures_wf d \<Longrightarrow> \<exists>x \<in> set (rows (minecraft_textures d)). x_id x = i \<and> x_texture_type x = ty"
  shows "quiet_db d (snd (upsert_for_profile F now p i ty d))"
proof -
  have "quiet_db d (snd (statement g d))"
    if "\<And>b d'. g d = Inr (b, d') \<Longrightarrow> quiet_db d d'" for g :: "db \<Rightarrow> aster_error + (profile_texture \<times> db)"
    using that by (auto simp: statement_def quiet_db.refl split: sum.split)
  note st = this
  show ?thesis unfolding upsert_for_profile_def
  proof (rule quiet_db.bnd_run, rule st)
    fix b d'
    assume run: "(case find_binding_by_profile_and_type p ty d of
          Some existing \<Rightarrow> checked_insert F (texture_exists i d) True
            (case update_by_key F pt_id (pt_id existing) (\<lambda>b. b\<lparr>pt_texture_id := i, pt_updated_at := now\<rparr>) (profile_textures d) of
               Inl e \<Rightarrow> Inl e | Inr (b, t) \<Rightarrow> Inr (b, d\<lparr>profile_textures := t\<rparr>))
        | None \<Rightarrow> checked_insert F (texture_exists i d \<and> profile_exists p d) True
            (let (b, t) = insert_row (\<lambda>j. \<lparr>pt_id = j, pt_profile_id = p, pt_texture_id = i,
                  pt_texture_type = ty, pt_created_at = now, pt_updated_at = now\<rparr>) (profile_textures d)
             in Inr (b, d\<lparr>profile_textures := t\<rparr>))) = Inr (b, d')"
    show "quiet_db d d'"
    proof (cases "find_binding_by_profile_and_type p ty d")
      case None
      with run have d': "d' = d\<lparr>profile_textures := snd (insert_row (\<lambda>j. \<lparr>pt_id = j, pt_profile_id = p, pt_texture_id = i,
                  pt_texture_type = ty, pt_created_at = now, pt_updated_at = now\<rparr>) (profile_textures d))\<rparr>"
        by (auto simp: checked_insert_def split: if_splits prod.splits)
      show ?thesis unfolding d'
        by (rule quiet_db_from) (use None assms textures_wf_bound in \<open>auto simp: find_binding_by_profile_and_type_def\<close>)
    next
      case (Some e)
      with run have d': "d' = d\<lparr>profile_textures :=
           snd (update_many (\<lambda>r. pt_id r = pt_id e) (\<lambda>b. b\<lparr>pt_texture_id := i, pt_updated_at := now\<rparr>) (profile_textures d))\<rparr>"
        by (auto simp: checked_insert_def update_by_key_def split: if_splits option.splits)
      show ?thesis unfolding d'
        by (rule quiet_db_from) (use Some assms textures_wf_rebound in \<open>auto simp: find_binding_by_profile_and_type_def\<close>)
    qed
  qed (rule quiet_db.reads)
qed

lemma quiet_db_preference: "quiet_db d (snd (preference_upsert F now p ty i d))"
  by (rule quiet_db_same)
    (auto simp: preference_upsert_def statement_def checked_insert_def Let_def update_by_key_def split: option.splits prod.splits)

lemma quiet_db_touch: "quiet_db d (snd (touch_by_id F now i d))"
  by (rule quiet_db_same)
    (auto simp: touch_by_id_def update_profile_row_def bnd_def statement_def ret_def update_by_key_def split: option.splits)

section \<open>Reports and tags\<close>

lemma textures_wf_reports_only:
  assumes "textures_wf d" and "reports_ok (d\<lparr>texture_reports := t\<rparr>)"
  shows "textures_wf (d\<lparr>texture_reports := t\<rparr>)"
  using assms by (simp add: textures_wf_def slots_ok_def tags_ok_def texture_exists_def tag_exists_def)

lemma quiet_db_report_create:
  assumes "find_pending_for_reporter_and_texture u i d = None"
  shows "quiet_db d (snd (report_repo_create F now i u reason message d))"
proof (cases "texture_exists i d \<and> user_exists u d")
  case False
  then show ?thesis by (simp add: report_repo_create_def statement_def checked_insert_def quiet_db.refl)
next
  case True
  let ?t = "snd (insert_row (\<lambda>j. \<lparr>tr_id = j, tr_texture_id = i, tr_reporter_user_id = u, tr_reason = reason,
      tr_message = message, tr_status = ReportPending, tr_admin_note = None, tr_handled_by_user_id = None,
      tr_handled_at = None, tr_created_at = now, tr_updated_at = now\<rparr>) (texture_reports d))"
  have e: "snd (report_repo_create F now i u reason message d) = d\<lparr>texture_reports := ?t\<rparr>"
    using True by (simp add: report_repo_create_def statement_def checked_insert_def split: prod.split)
  have "reports_ok (d\<lparr>texture_reports := ?t\<rparr>)" if "textures_wf d"
  proof -
    have "keys_ok tr_id ?t" by (rule keys_ok_insert) (use that in \<open>simp_all add: textures_wf_def reports_ok_def\<close>)
    with that assms True show ?thesis
      by (auto simp: textures_wf_def reports_ok_def insert_row_def Let_def texture_exists_def
          find_pending_for_reporter_and_texture_def select_one_None)
  qed
  then show ?thesis unfolding e by (intro quiet_db_from textures_wf_reports_only) simp_all
qed

lemma filter_map_handled:
  assumes "hr_status input \<noteq> ReportPending"
  shows "filter (\<lambda>r. tr_status r = ReportPending) (map (\<lambda>r. if tr_id r = j then handled_report input now r else r) rs) =
    filter (\<lambda>r. tr_id r \<noteq> j) (filter (\<lambda>r. tr_status r = ReportPending) rs)"
  using assms by (induction rs) (auto simp: handled_report_def)

lemma handle_cases:
  obtains (refused) "snd (report_repo_handle F now r input d) = d"
  | (handled) "snd (report_repo_handle F now r input d) =
      d\<lparr>texture_reports := snd (update_many (\<lambda>q. tr_id q = tr_id r) (handled_report input now) (texture_reports d))\<rparr>"
proof (cases "user_exists (hr_handled_by_user_id input) d \<and> select_one (\<lambda>q. tr_id q = tr_id r) (texture_reports d) \<noteq> None")
  case True
  then show ?thesis using handled by (auto simp: report_repo_handle_def statement_def checked_insert_def update_by_key_def)
next
  case False
  then show ?thesis using refused by (auto simp: report_repo_handle_def statement_def checked_insert_def update_by_key_def)
qed

lemma reports_ok_handled:
  assumes "reports_ok d" and "hr_status input \<noteq> ReportPending"
  shows "reports_ok (d\<lparr>texture_reports := snd (update_many (\<lambda>r. tr_id r = j) (handled_report input now) (texture_reports d))\<rparr>)"
proof -
  let ?g = "\<lambda>r. if tr_id r = j then handled_report input now r else r" and ?rs = "rows (texture_reports d)"
  have f: "filter (\<lambda>r. tr_status r = ReportPending) (map ?g ?rs) =
      filter (\<lambda>r. tr_id r \<noteq> j) (filter (\<lambda>r. tr_status r = ReportPending) ?rs)"
    by (rule filter_map_handled[OF assms(2)])
  have "distinct (map (\<lambda>r. (tr_reporter_user_id r, tr_texture_id r)) (filter (\<lambda>r. tr_status r = ReportPending) (map ?g ?rs)))"
    unfolding f by (rule distinct_map_filter) (use assms(1) in \<open>simp add: reports_ok_def\<close>)
  moreover have "keys_ok tr_id (snd (update_many (\<lambda>r. tr_id r = j) (handled_report input now) (texture_reports d)))"
    by (rule keys_ok_update) (use assms(1) in \<open>simp_all add: reports_ok_def handled_report_def\<close>)
  ultimately show ?thesis
    using assms(1) by (auto simp: reports_ok_def update_many_def texture_exists_def handled_report_def)
qed

lemma quiet_db_report_handle:
  assumes "hr_status input \<noteq> ReportPending"
  shows "quiet_db d (snd (report_repo_handle F now r input d))"
proof (cases rule: handle_cases[of F now r input d])
  case handled
  have "textures_wf (d\<lparr>texture_reports := snd (update_many (\<lambda>q. tr_id q = tr_id r) (handled_report input now) (texture_reports d))\<rparr>)"
    if "textures_wf d"
    using that reports_ok_handled[OF _ assms] by (intro textures_wf_reports_only) (simp_all add: textures_wf_def)
  then show ?thesis unfolding handled by (intro quiet_db_from) simp_all
qed (simp add: quiet_db.refl)

lemma quiet_db_handle_reports: "hr_status input \<noteq> ReportPending \<Longrightarrow> quiet_db d (snd (handle_reports F now input rs d))"
  by (induction rs arbitrary: d) (auto intro!: quiet_db.bnd quiet_db.reads quiet_db_report_handle)

lemma textures_wf_tags_only:
  assumes "textures_wf d" and "tags_ok (d\<lparr>texture_tags := t, texture_tag_bindings := b\<rparr>)"
  shows "textures_wf (d\<lparr>texture_tags := t, texture_tag_bindings := b\<rparr>)"
  using assms by (simp add: textures_wf_def slots_ok_def reports_ok_def texture_exists_def)

lemma quiet_db_tags:
  assumes "tags_ok d \<Longrightarrow> tags_ok (d\<lparr>texture_tags := t, texture_tag_bindings := b\<rparr>)"
  shows "quiet_db d (d\<lparr>texture_tags := t, texture_tag_bindings := b\<rparr>)"
  using assms by (intro quiet_db_from textures_wf_tags_only) (simp_all add: textures_wf_def)

lemma quiet_db_tag_create: "quiet_db d (snd (tag_repo_create F now name n color so d))"
proof (cases "\<forall>t \<in> set (rows (texture_tags d)). tg_normalized_name t \<noteq> n")
  case False
  then show ?thesis by (simp add: tag_repo_create_def statement_def checked_insert_def quiet_db.refl)
next
  case True
  let ?mk = "\<lambda>i. \<lparr>tg_id = i, tg_name = name, tg_normalized_name = n, tg_color = color, tg_sort_order = so,
      tg_created_at = now, tg_updated_at = now\<rparr>"
  have e: "snd (tag_repo_create F now name n color so d) =
      d\<lparr>texture_tags := snd (insert_row ?mk (texture_tags d)), texture_tag_bindings := texture_tag_bindings d\<rparr>"
    using True by (simp add: tag_repo_create_def statement_def checked_insert_def split: prod.split)
  show ?thesis unfolding e
  proof (rule quiet_db_tags)
    assume ok: "tags_ok d"
    have "keys_ok tg_id (snd (insert_row ?mk (texture_tags d)))"
      by (rule keys_ok_insert) (use ok in \<open>simp_all add: tags_ok_def\<close>)
    with ok True show "tags_ok (d\<lparr>texture_tags := snd (insert_row ?mk (texture_tags d)), texture_tag_bindings := texture_tag_bindings d\<rparr>)"
      by (auto simp: tags_ok_def insert_row_def Let_def texture_exists_def tag_exists_def)
  qed
qed

lemma apply_tag_update_id [simp]: "tg_id (apply_tag_update input now t) = tg_id t"
  by (simp add: apply_tag_update_def set_some_def split: option.split)

lemma distinct_update_key:
  assumes "distinct (map k xs)" and "distinct (map g xs)" and "x \<in> set xs"
    and "\<And>y. y \<in> set xs \<Longrightarrow> k y \<noteq> k x \<Longrightarrow> g y \<noteq> g (f x)"
  shows "distinct (map g (map (\<lambda>r. if k r = k x then f r else r) xs))"
proof -
  let ?h = "\<lambda>r. g (if k r = k x then f r else r)"
  have same: "y = x" if "y \<in> set xs" "k y = k x" for y
    using assms(1,3) that by (auto simp: distinct_map inj_on_def)
  have g: "y = z" if "y \<in> set xs" "z \<in> set xs" "g y = g z" for y z
    using assms(2) that by (auto simp: distinct_map inj_on_def)
  have "y = z" if "y \<in> set xs" "z \<in> set xs" "?h y = ?h z" for y z
  proof (cases "k y = k x")
    case True
    with same[OF that(1)] have y: "y = x" by simp
    show ?thesis
    proof (rule ccontr)
      assume "y \<noteq> z"
      with y same[OF that(2)] have "k z \<noteq> k x" by auto
      with assms(4)[OF that(2)] that(3) y show False by simp
    qed
  next
    case False
    note y = this
    show ?thesis
    proof (cases "k z = k x")
      case True
      with same[OF that(2)] assms(4)[OF that(1) y] that(3) y show ?thesis by simp
    next
      case False
      with y that g show ?thesis by simp
    qed
  qed
  then show ?thesis using assms(1) by (simp add: distinct_map inj_on_def)
qed

lemma quiet_db_tag_update: "quiet_db d (snd (tag_repo_update F now tag input d))"
proof (cases "snd (tag_repo_update F now tag input d) = d")
  case False
  then obtain t where t: "select_one (\<lambda>t. tg_id t = tg_id tag) (texture_tags d) = Some t"
      and free: "\<forall>u \<in> set (rows (texture_tags d)). tg_id u \<noteq> tg_id tag \<longrightarrow>
          tg_normalized_name u \<noteq> tg_normalized_name (apply_tag_update input now t)"
      and e: "snd (tag_repo_update F now tag input d) = d\<lparr>texture_tags :=
          snd (update_many (\<lambda>t. tg_id t = tg_id tag) (apply_tag_update input now) (texture_tags d)),
          texture_tag_bindings := texture_tag_bindings d\<rparr>"
    unfolding tag_repo_update_def statement_def update_by_key_def checked_insert_def
    by (auto split: option.splits if_splits)
  have tin: "t \<in> set (rows (texture_tags d))" "tg_id t = tg_id tag" using select_one_Some[OF t] by auto
  show ?thesis unfolding e
  proof (rule quiet_db_tags)
    assume ok: "tags_ok d"
    let ?t = "snd (update_many (\<lambda>t. tg_id t = tg_id tag) (apply_tag_update input now) (texture_tags d))"
    have "distinct (map tg_normalized_name (map (\<lambda>r. if tg_id r = tg_id t then apply_tag_update input now r else r) (rows (texture_tags d))))"
      by (rule distinct_update_key) (use ok tin free in \<open>auto simp: tags_ok_def keys_ok_def\<close>)
    then have n: "distinct (map tg_normalized_name (rows ?t))" by (simp add: update_many_def tin(2) del: map_map)
    have k: "keys_ok tg_id ?t" by (rule keys_ok_update) (use ok in \<open>simp_all add: tags_ok_def\<close>)
    have ids: "map tg_id (rows ?t) = map tg_id (rows (texture_tags d))" by (simp add: update_many_def)
    have "tag_exists i (d\<lparr>texture_tags := ?t, texture_tag_bindings := texture_tag_bindings d\<rparr>) = tag_exists i d" for i
      using arg_cong[OF ids, of "\<lambda>l. i \<in> set l"] by (auto simp: tag_exists_def image_iff)
    with ok n k show "tags_ok (d\<lparr>texture_tags := ?t, texture_tag_bindings := texture_tag_bindings d\<rparr>)"
      by (simp add: tags_ok_def texture_exists_def)
  qed
qed (simp add: quiet_db.refl)

lemma quiet_db_tag_delete: "quiet_db d (snd (tag_repo_delete i d))"
proof -
  have e: "snd (tag_repo_delete i d) = d\<lparr>texture_tags := snd (delete_many (\<lambda>t. tg_id t = i) (texture_tags d)),
      texture_tag_bindings := snd (delete_many (\<lambda>b. tb_tag_id b = i) (texture_tag_bindings d))\<rparr>"
    by (simp add: tag_repo_delete_def statement_def Let_def split: prod.split)
  have t: "tag_exists j (d\<lparr>texture_tags := snd (delete_many (\<lambda>t. tg_id t = i) (texture_tags d)), texture_tag_bindings := b\<rparr>)
      \<longleftrightarrow> tag_exists j d \<and> j \<noteq> i" for j b
    by (auto simp: tag_exists_def delete_many_def)
  show ?thesis unfolding e
    by (rule quiet_db_tags)
      (auto simp: tags_ok_def t keys_ok_delete, auto simp: delete_many_def distinct_map_filter texture_exists_def)
qed

lemma quiet_db_tag_binding: "quiet_db d (snd (insert_tag_binding F now i j d))"
proof (cases "(texture_exists i d \<and> tag_exists j d)
    \<and> (\<forall>b \<in> set (rows (texture_tag_bindings d)). \<not> (tb_texture_id b = i \<and> tb_tag_id b = j))")
  case False
  then show ?thesis by (auto simp: insert_tag_binding_def statement_def checked_insert_def quiet_db.refl)
next
  case True
  let ?mk = "\<lambda>k. \<lparr>tb_id = k, tb_texture_id = i, tb_tag_id = j, tb_created_at = now\<rparr>"
  have e: "snd (insert_tag_binding F now i j d) =
      d\<lparr>texture_tags := texture_tags d, texture_tag_bindings := snd (insert_row ?mk (texture_tag_bindings d))\<rparr>"
    using True by (simp add: insert_tag_binding_def statement_def checked_insert_def split: prod.split)
  show ?thesis unfolding e
    by (rule quiet_db_tags) (use True in \<open>auto simp: tags_ok_def insert_row_def Let_def texture_exists_def tag_exists_def\<close>)
qed

lemma quiet_db_replace_tags: "quiet_db d (snd (replace_texture_tags F now i ts d))"
proof -
  have "quiet_db d (snd (insert_tag_bindings F now i ts d))" for d
    by (induction ts arbitrary: d) (auto intro!: quiet_db.bnd quiet_db.reads quiet_db_tag_binding)
  moreover have "quiet_db d (d\<lparr>texture_tag_bindings :=
      snd (delete_many (\<lambda>b :: texture_tag_binding. tb_texture_id b = i) (texture_tag_bindings d))\<rparr>)" for d
    using quiet_db_tags[of d "snd (delete_many (\<lambda>b :: texture_tag_binding. tb_texture_id b = i) (texture_tag_bindings d))" "texture_tags d"]
    by (auto simp: tags_ok_def delete_many_def distinct_map_filter texture_exists_def tag_exists_def)
  ultimately show ?thesis
    unfolding replace_texture_tags_def by (intro quiet_db.bnd quiet_db_modify)
qed

lemmas quiet_db_rules = quiet_db.bnd quiet_db.reads quiet_db.branch quiet_db.commit quiet_db.optional
  quiet_db_tag_create quiet_db_tag_update quiet_db_tag_delete quiet_db_replace_tags quiet_db_report_handle

section \<open>Library requests\<close>

lemma reset_library_simps [simp]:
  "x_id (reset_library x) = x_id x" "x_texture_type (reset_library x) = x_texture_type x"
  "x_hash (reset_library x) = x_hash x" "x_storage_key (reset_library x) = x_storage_key x"
  "x_library_status (reset_library x) = LibraryPrivate" "x_user_id (reset_library x) = x_user_id x"
  "x_visibility (reset_library x) = x_visibility x" "x_is_wardrobe_item (reset_library x) = x_is_wardrobe_item x"
  "x_texture_model (reset_library x) = x_texture_model x"
  by (simp_all add: reset_library_def)

lemma apply_library_review_simps [simp]:
  "x_id (apply_library_review input now x) = x_id x" "x_texture_type (apply_library_review input now x) = x_texture_type x"
  "x_hash (apply_library_review input now x) = x_hash x" "x_storage_key (apply_library_review input now x) = x_storage_key x"
  "x_library_status (apply_library_review input now x) = ur_library_status input"
  "x_visibility (apply_library_review input now x) = x_visibility x"
  "x_is_wardrobe_item (apply_library_review input now x) = x_is_wardrobe_item x"
  "x_user_id (apply_library_review input now x) = x_user_id x"
  by (simp_all add: apply_library_review_def set_some_def Let_def split: option.splits)

lemma apply_wardrobe_metadata_simps [simp]:
  "x_id (apply_wardrobe_metadata input now x) = x_id x"
  "x_texture_type (apply_wardrobe_metadata input now x) = x_texture_type x"
  "x_hash (apply_wardrobe_metadata input now x) = x_hash x"
  "x_storage_key (apply_wardrobe_metadata input now x) = x_storage_key x"
  "x_user_id (apply_wardrobe_metadata input now x) = x_user_id x"
  "x_is_wardrobe_item (apply_wardrobe_metadata input now x) = x_is_wardrobe_item x"
  "x_library_status (apply_wardrobe_metadata input now x) =
     (if uw_visibility input = Some VisibilityPrivate then LibraryPrivate else x_library_status x)"
  "x_visibility (apply_wardrobe_metadata input now x) =
     (case uw_visibility input of None \<Rightarrow> x_visibility x | Some v \<Rightarrow> v)"
  by (simp_all add: apply_wardrobe_metadata_def set_some_def Let_def split: option.splits)

lemma wf_same_row:
  assumes "textures_wf d" "x \<in> set (rows (minecraft_textures d))" "y \<in> set (rows (minecraft_textures d))" "x_id x = x_id y"
  shows "x = y"
  using assms by (auto simp: textures_wf_def intro: keys_ok_inj)

text \<open>A review that does not publish, of a texture that may take part in the library.\<close>

lemma quiet_db_review:
  assumes "ur_library_status input \<noteq> LibraryPublished"
    and "x \<in> set (rows (minecraft_textures d))"
    and "ur_library_status input \<noteq> LibraryPrivate \<Longrightarrow> textures_wf d \<Longrightarrow> x_visibility x = VisibilityPublic \<and> x_is_wardrobe_item x"
  shows "quiet_db d (snd (texture_update_library_review F now x input d))"
  unfolding texture_update_library_review_def
proof (rule quiet_db_update_texture)
  fix y assume wf: "textures_wf d" and y: "y \<in> set (rows (minecraft_textures d))" "x_id y = x_id x"
  have "y = x" by (rule wf_same_row[OF wf y(1) assms(2) y(2)])
  with assms wf show "row_change_ok (apply_library_review input now) y"
    by (simp add: row_change_ok_def library_row_ok_def)
qed (use assms(1) in auto)

lemma user_wardrobe_texture_Inr:
  assumes "user_wardrobe_texture u i d = Inr x"
  shows "x \<in> set (rows (minecraft_textures d))" "x_id x = i" "x_user_id x = u" "x_is_wardrobe_item x"
  using assms by (auto simp: user_wardrobe_texture_def texture_find_by_id_for_user_def split: option.splits if_splits dest!: select_one_Some)

lemma admin_wardrobe_texture_Inr:
  assumes "admin_wardrobe_texture i d = Inr x"
  shows "x \<in> set (rows (minecraft_textures d))" "x_id x = i" "x_is_wardrobe_item x"
  using assms by (auto simp: admin_wardrobe_texture_def texture_find_by_id_def split: option.splits if_splits dest!: select_one_Some)

lemma quiet_db_reads:
  "quiet_db d (snd (wardrobe_texture_with_current_tags T x d))" "quiet_db d (snd (admin_texture_library_metadata T x d))"
  "quiet_db d (snd (report_info T r d))" "quiet_db d (snd (public_texture_library_metadata T x d))"
  by (simp_all add: wardrobe_texture_with_current_tags_def admin_texture_library_metadata_def report_info_def
      public_texture_library_metadata_def quiet_db.reads)

lemma quiet_submit:
  assumes "te_review_required T"
  shows "quiet_db d (snd (submit_texture_library_review F T J now u i d))"
  unfolding submit_texture_library_review_def
  by (intro quiet_db.bnd_check quiet_db.bnd_query quiet_db.branch quiet_db.reads)
    (rule quiet_db.bnd_run[OF quiet_db_review quiet_db_reads(1)],
      use assms user_wardrobe_texture_Inr in \<open>auto simp: \<close>)

lemma quiet_withdraw: "quiet_db d (snd (withdraw_texture_library_submission F T J now u i d))"
  unfolding withdraw_texture_library_submission_def
  by (intro quiet_db.bnd_check quiet_db.bnd_query quiet_db.branch quiet_db.reads)
    (rule quiet_db.bnd_run[OF quiet_db_review quiet_db_reads(1)], use user_wardrobe_texture_Inr in auto)

lemma quiet_reject: "quiet_db d (snd (reject_texture_library_texture F T now v i note d))"
  unfolding reject_texture_library_texture_def
proof (intro quiet_db.bnd_check quiet_db.bnd_query quiet_db.branch quiet_db.reads)
  fix x n
  assume x: "admin_wardrobe_texture i d = Inr x" and p: "\<not> x_library_status x \<noteq> LibraryPendingReview"
  let ?in = "\<lparr>ur_library_status = LibraryRejected, ur_submitted_at = None, ur_reviewed_at = Some (Some now),
             ur_reviewer_user_id = Some (Some v), ur_review_note = Some (Some n)\<rparr>"
  have "x_visibility x = VisibilityPublic \<and> x_is_wardrobe_item x" if "textures_wf d"
    using that p admin_wardrobe_texture_Inr(1)[OF x] by (auto simp: textures_wf_def list_all_iff library_row_ok_def)
  then show "quiet_db d (snd (bnd (texture_update_library_review F now x ?in) (\<lambda>y. admin_texture_library_metadata T y) d))"
    by (intro quiet_db.bnd_run quiet_db_review quiet_db_reads admin_wardrobe_texture_Inr(1)[OF x]) simp_all
qed

lemma quiet_unpublished:
  assumes "admin_wardrobe_texture i d = Inr x"
  shows "quiet_db d (snd (texture_update_library_review F now x (unpublished_by v note now') d))"
  by (rule quiet_db_review[OF _ admin_wardrobe_texture_Inr(1)[OF assms]]) (simp_all add: unpublished_by_def)

lemma quiet_unpublish: "quiet_db d (snd (unpublish_texture_library_texture F T now v i note d))"
  unfolding unpublish_texture_library_texture_def handle_pending_for_texture_def
  by (intro quiet_db.bnd_check quiet_db.bnd_query quiet_db.branch quiet_db.reads)
    (rule quiet_db.bnd_run[OF quiet_unpublished quiet_db.bnd],
      assumption, (intro quiet_db.bnd quiet_db.reads quiet_db_handle_reports quiet_db_reads; simp)+)

lemma quiet_report: "quiet_db d (snd (create_texture_library_report F T J now u i reason message d))"
  unfolding create_texture_library_report_def
  by (intro quiet_db.bnd_check quiet_db.bnd_query quiet_db.branch quiet_db.reads)
    (rule quiet_db.bnd_run[OF quiet_db_report_create quiet_db_reads(3)], simp)

lemma quiet_accept_report: "quiet_db d (snd (accept_texture_library_report F T now u i note d))"
  unfolding accept_texture_library_report_def
  by (intro quiet_db.bnd_check quiet_db.bnd_query quiet_db.branch quiet_db.reads)
    (rule quiet_db.bnd_run[OF quiet_unpublished],
      assumption, (intro quiet_db.bnd quiet_db_report_handle quiet_db_reads; simp)+)

lemma quiet_reject_report: "quiet_db d (snd (reject_texture_library_report F T now u i note d))"
  unfolding reject_texture_library_report_def
  by (intro quiet_db.bnd quiet_db.reads quiet_db_report_handle quiet_db_reads; simp)

lemma quiet_tag_requests:
  "quiet_db d (snd (create_texture_library_tag F T now name color so d))"
  "quiet_db d (snd (update_texture_library_tag F T now i nm col so d))"
  "quiet_db d (snd (delete_texture_library_tag i d))"
  "quiet_db d (snd (replace_wardrobe_texture_tags F T J now u i ts d))"
  "quiet_db d (snd (replace_library_texture_tags_for_admin F now i ts d))"
  unfolding create_texture_library_tag_def update_texture_library_tag_def delete_texture_library_tag_def
    replace_wardrobe_texture_tags_def replace_library_texture_tags_for_admin_def
  by (auto split: prod.split intro!: quiet_db_rules)

lemma public_library_texture_Inr:
  "public_library_texture i d = Inr x \<Longrightarrow> x \<in> set (rows (minecraft_textures d))"
  by (auto simp: public_library_texture_def find_public_wardrobe_by_id_def split: option.splits if_splits dest!: select_one_Some)

lemma quiet_copy: "quiet_db d (snd (copy_public_texture_to_wardrobe F T J now u i name d))"
  unfolding copy_public_texture_to_wardrobe_def create_wardrobe_copy_def
  by (intro quiet_db.bnd_check quiet_db.bnd_query quiet_db.optional quiet_db.branch quiet_db.reads quiet_db_reads)
    (rule quiet_db.bnd_run[OF quiet_db_create],
      use public_library_texture_Inr in \<open>force intro!: quiet_db_rules\<close>,
      intro quiet_db.bnd quiet_db.branch quiet_db.reads quiet_db_replace_tags)

section \<open>Approving\<close>

definition same_textures :: "db \<Rightarrow> db \<Rightarrow> bool" where
  "same_textures d d' = (minecraft_textures d' = minecraft_textures d)"

interpretation same_textures: state_order same_textures
  by unfold_locales (simp_all add: same_textures_def)

lemma same_textures_replace_tags: "same_textures d (snd (replace_texture_tags F now i ts d))"
proof -
  have "same_textures d (snd (insert_tag_binding F now i j d))" for d j
    by (auto simp: same_textures_def insert_tag_binding_def statement_def checked_insert_def split: prod.split)
  then have "same_textures d (snd (insert_tag_bindings F now i ts d))" for d
    by (induction ts arbitrary: d) (auto intro!: same_textures.rules)
  then show ?thesis
    unfolding replace_texture_tags_def by (intro same_textures.bnd) (simp_all add: same_textures_def modify_def)
qed

lemma same_textures_admin_tags: "same_textures d (snd (replace_library_texture_tags_for_admin F now i ts d))"
  unfolding replace_library_texture_tags_for_admin_def by (intro same_textures.rules same_textures_replace_tags)

text \<open>A submission that may be approved: public, in the wardrobe and waiting for its review.\<close>

definition awaiting_review :: "row_id \<Rightarrow> string \<Rightarrow> db \<Rightarrow> bool" where
  "awaiting_review i hash d = (\<exists>x \<in> set (rows (minecraft_textures d)). x_id x = i \<and> x_hash x = hash
     \<and> x_library_status x = LibraryPendingReview \<and> x_visibility x = VisibilityPublic \<and> x_is_wardrobe_item x)"

text \<open>\<open>published_by\<close>: the invariant holds on, and what was published is what \<open>P\<close> allows.\<close>

definition published_by :: "(row_id \<Rightarrow> string \<Rightarrow> bool) \<Rightarrow> db \<Rightarrow> db \<Rightarrow> bool" where
  "published_by P d d' =
     ((textures_wf d \<longrightarrow> textures_wf d')
      \<and> (textures_wf d \<longrightarrow> (\<forall>i h. published_as i h d' \<longrightarrow> published_as i h d \<or> P i h))
      \<and> (\<forall>x' \<in> set (rows (minecraft_textures d')). \<exists>x \<in> set (rows (minecraft_textures d)).
            x_storage_key x' = x_storage_key x \<and> x_hash x' = x_hash x))"

lemma published_by_quiet: "quiet_db d d' \<Longrightarrow> published_by P d d'"
  by (auto simp: published_by_def quiet_db_def)

lemma published_by_after_quiet:
  assumes "quiet_db d d1" and "published_by P d1 d'" shows "published_by P d d'"
  using assms unfolding published_by_def quiet_db_def by (metis (no_types, lifting))

lemma published_by_review:
  assumes "x \<in> set (rows (minecraft_textures d))" and "x_visibility x = VisibilityPublic" and "x_is_wardrobe_item x"
    and "P (x_id x) (x_hash x)"
  shows "published_by P d (snd (texture_update_library_review F now x input d))"
proof -
  let ?t = "snd (update_many (\<lambda>r. x_id r = x_id x) (apply_library_review input now) (minecraft_textures d))"
  obtain y where "select_one (\<lambda>r. x_id r = x_id x) (minecraft_textures d) = Some y"
    using assms(1) select_one_None[of "\<lambda>r. x_id r = x_id x"] by fastforce
  then have e: "snd (texture_update_library_review F now x input d) = d\<lparr>minecraft_textures := ?t\<rparr>"
    by (simp add: texture_update_library_review_def update_texture_row_def statement_def update_by_key_def)
  have same: "y = x" if "textures_wf d" "y \<in> set (rows (minecraft_textures d))" "x_id y = x_id x" for y
    by (rule wf_same_row[OF that(1,2) assms(1) that(3)])
  show ?thesis unfolding e published_by_def
  proof (intro conjI impI)
    assume wf: "textures_wf d"
    show "textures_wf (d\<lparr>minecraft_textures := ?t\<rparr>)"
    proof (rule textures_wf_update[OF wf])
      fix y assume "y \<in> set (rows (minecraft_textures d))" "x_id y = x_id x"
      then have "y = x" by (rule same[OF wf])
      with assms(2,3) show "row_change_ok (apply_library_review input now) y"
        by (simp add: row_change_ok_def library_row_ok_def)
    qed
    show "\<forall>i h. published_as i h (d\<lparr>minecraft_textures := ?t\<rparr>) \<longrightarrow> published_as i h d \<or> P i h"
    proof (intro allI impI)
      fix i h assume "published_as i h (d\<lparr>minecraft_textures := ?t\<rparr>)"
      then obtain r where r: "r \<in> set (rows (minecraft_textures d))"
        and q: "if x_id r = x_id x then i = x_id r \<and> h = x_hash r
                else i = x_id r \<and> h = x_hash r \<and> x_library_status r = LibraryPublished"
        by (auto simp: published_as_def update_many_def split: if_splits)
      show "published_as i h d \<or> P i h"
      proof (cases "x_id r = x_id x")
        case True
        with q same[OF wf r] assms(4) show ?thesis by simp
      next
        case False
        with q r show ?thesis by (auto simp: published_as_def)
      qed
    qed
  qed (auto simp: update_many_def)
qed

lemma approve_publishes:
  "published_by (\<lambda>j h. j = i \<and> awaiting_review i h d) d (snd (approve_texture_library_texture F T now v i note ts d))"
  (is "published_by ?P d _")
proof -
  have refl: "published_by ?P d d" by (rule published_by_quiet[OF quiet_db.refl])
  show ?thesis
  proof (cases "\<exists>x. ensure_texture_library_enabled T = Inr () \<and> admin_wardrobe_texture i d = Inr x
      \<and> x_library_status x = LibraryPendingReview \<and> x_visibility x = VisibilityPublic")
    case False
    then have "snd (approve_texture_library_texture F T now v i note ts d) = d"
      by (auto simp: approve_texture_library_texture_def handler_defs split: sum.splits)
    then show ?thesis using refl by simp
  next
    case True
    then obtain x where x: "ensure_texture_library_enabled T = Inr ()" "admin_wardrobe_texture i d = Inr x"
      "x_library_status x = LibraryPendingReview" "x_visibility x = VisibilityPublic" by blast
    define m :: "(db, aster_error, unit) handler" where
      "m = (case ts of None \<Rightarrow> ret () | Some ids \<Rightarrow> replace_library_texture_tags_for_admin F now (x_id x) ids)"
    obtain r d1 where m: "m d = (r, d1)" by (cases "m d")
    have "quiet_db d (snd (m d))" "same_textures d (snd (m d))"
      unfolding m_def by (intro quiet_db.optional quiet_db.reads quiet_tag_requests(5)
          same_textures.optional same_textures.reads same_textures_admin_tags)+
    then have q: "quiet_db d d1" "minecraft_textures d1 = minecraft_textures d" by (simp_all add: m same_textures_def)
    let ?in = "\<lambda>n. \<lparr>ur_library_status = LibraryPublished, ur_submitted_at = None, ur_reviewed_at = Some (Some now),
       ur_reviewer_user_id = Some (Some v), ur_review_note = Some n\<rparr>"
    have e: "snd (approve_texture_library_texture F T now v i note ts d) = d1 \<or>
        (\<exists>n. snd (approve_texture_library_texture F T now v i note ts d) = snd (texture_update_library_review F now x (?in n) d1))"
      using m[unfolded m_def] x unfolding approve_texture_library_texture_def
      by (auto simp: bnd_def check_def query_def admin_texture_library_metadata_def split: sum.splits prod.splits)
        (metis snd_conv)+
    have xin: "x \<in> set (rows (minecraft_textures d1))" "x_id x = i" "x_is_wardrobe_item x"
      using admin_wardrobe_texture_Inr[OF x(2)] q(2) by auto
    have P: "?P (x_id x) (x_hash x)" using xin x(3,4) q(2) by (auto simp: awaiting_review_def)
    have "published_by ?P d1 (snd (texture_update_library_review F now x (?in n) d1))" for n
      by (rule published_by_review[OF xin(1) x(4) xin(3)]) (rule P)
    with e published_by_after_quiet[OF q(1)] published_by_quiet[OF q(1)] show ?thesis by auto
  qed
qed

section \<open>Wardrobe requests\<close>

lemma quiet_put: "quiet s (snd (put_file S key bytes s))"
proof -
  have "map_of (w_objects s) k \<noteq> None \<longrightarrow> map_of (w_objects (snd (put_file S key bytes s))) k \<noteq> None" for k
    by (simp add: put_file_def split: option.split)
  moreover have "w_db (snd (put_file S key bytes s)) = w_db s" by (simp add: put_file_def split: option.split)
  ultimately show ?thesis by (auto simp: quiet_def wardrobe_wf_def objects_ok_def list_all_iff stored_def)
qed

lemma put_file_stored:
  "put_file S key bytes s = (Inr x, s') \<Longrightarrow> map_of (w_objects s') key \<noteq> None"
  by (auto simp: put_file_def split: option.splits if_splits)

lemma map_of_without: "map_of (without_object key objects) k = (if k = key then None else map_of objects k)"
  using map_of_filter_key[of "\<lambda>k. k \<noteq> key" objects k] by (simp add: without_object_def)

lemma quiet_cleanup_blob: "quiet s (snd (cleanup_texture_blob_if_unreferenced S key s))"
proof -
  have "x_storage_key x \<noteq> key"
    if "count_by_storage_key key (w_db s) = 0" "x \<in> set (rows (minecraft_textures (w_db s)))" for x
    using that by (auto simp: count_by_storage_key_def count_rows_def filter_empty_conv)
  then show ?thesis
    by (auto simp: quiet_def wardrobe_wf_def objects_ok_def list_all_iff stored_def
        cleanup_texture_blob_if_unreferenced_def map_of_without)
qed

lemma quiet_cleanup_asset: "quiet s (snd (cleanup_texture_asset_if_unreferenced S x s))"
  unfolding cleanup_texture_asset_if_unreferenced_def
  by (simp add: quiet.refl) (intro impI quiet.bnd quiet_tex(3) quiet_db_deletes quiet_cleanup_blob)

lemma quiet_profile_caches: "quiet s (snd (invalidate_profile_texture_caches C F now i s))"
  unfolding invalidate_profile_texture_caches_def
  by (intro quiet.bnd quiet_w_cache quiet_tex(3) quiet_db_touch)

lemma quiet_for_each: "(\<And>x s. quiet s (snd (m x s))) \<Longrightarrow> quiet s (snd (for_each m xs s))"
  by (induction xs arbitrary: s) (auto intro!: quiet.bnd quiet.reads)

lemma quiet_caches:
  "quiet s (snd (invalidate_profile_texture_caches_for_bindings C F now ws s))"
  "quiet s (snd (invalidate_texture_asset_caches C x s))"
  unfolding invalidate_profile_texture_caches_for_bindings_def invalidate_texture_asset_caches_def
  by (intro quiet_for_each quiet_profile_caches quiet_w_cache)+

lemma quiet_after_binding: "quiet s (snd (after_binding C F S now i previous x s))"
  unfolding after_binding_def
  by (intro quiet.bnd quiet.optional quiet.branch quiet.reads quiet_cleanup_asset quiet_profile_caches quiet_caches)

lemma quiet_preset: "quiet s (snd (remember_local_texture_preset F now p x s))"
  unfolding remember_local_texture_preset_def
  by (intro quiet.bnd quiet.branch quiet.reads quiet_tex(1) quiet_db_preference)

text \<open>What is relied on of \<open>process_texture_file\<close>: the hash is a SHA-256 in hexadecimal.\<close>

definition process_ok :: "storage_env \<Rightarrow> bool" where
  "process_ok S = (\<forall>upload ty p. se_process S upload ty = Inr p \<longrightarrow> is_valid_texture_hash (pr_hash p))"

lemma process_ok_len: "process_ok S \<Longrightarrow> se_process S upload ty = Inr p \<Longrightarrow> 2 \<le> length (pr_hash p)"
  unfolding process_ok_def is_valid_texture_hash_def by fastforce

lemma quiet_or_cleanup:
  assumes "quiet s (snd (m s))" and "\<And>s'. quiet s' (snd (c s'))"
  shows "quiet s (snd (case m s of (Inr x, s') \<Rightarrow> (Inr x, s') | (Inl e, s') \<Rightarrow> bnd c (\<lambda>_. raise e) s'))"
  using assms(1) quiet.trans[OF assms(1) quiet.bnd[OF assms(2) quiet.reads(4)]]
  by (auto split: prod.splits sum.splits)

lemma quiet_store_or_reuse:
  fixes s :: "'c wardrobe_state"
  assumes "process_ok S"
  shows "quiet s (snd (store_or_reuse_wardrobe_texture F S now input s))"
  unfolding store_or_reuse_wardrobe_texture_def Let_def
proof (intro quiet.bnd_check quiet_bnd_tex_query quiet.optional quiet.reads)
  fix p0
  assume "map_sum (\<lambda>e. texture_error_with_detail InvalidPng (error_message e)) id
            (se_process S (sa_upload input) (sa_texture_type input)) = Inr p0"
  then have p: "2 \<le> length (pr_hash p0)" using process_ok_len[OF assms] by (auto simp: map_sum_Inr)
  let ?key = "object_storage_key (pr_hash p0)"
  define create where "create = (\<lambda>a b c. tex (texture_repo_create F now
                  \<lparr>cx_user_id = sa_user_id input, cx_texture_type = sa_texture_type input, cx_source = sa_source input,
                   cx_hash = pr_hash p0, cx_storage_key = ?key, cx_mime_type = ''image/png'',
                   cx_file_size = a, cx_width = b, cx_height = c,
                   cx_texture_model = sa_texture_model input, cx_visibility = sa_visibility input,
                   cx_is_wardrobe_item = True, cx_display_name = sa_display_name input\<rparr>)
                 :: ('c wardrobe_state, texture_error, minecraft_texture) handler)"
  have c: "quiet s (snd (create a b c s))" if "map_of (w_objects s) ?key \<noteq> None" for a b c and s :: "'c wardrobe_state"
    unfolding create_def by (rule quiet_create) (use that p in simp_all)
  show "quiet s (snd (bnd (put_file S ?key (pr_bytes p0)) (\<lambda>_.
         bnd (check (number_result (u64_to_i64 F (pr_file_size p0) ''texture file size''))) (\<lambda>file_size.
         bnd (check (number_result (se_u32_to_i32 S (pr_width p0) ''texture width''))) (\<lambda>width.
         bnd (check (number_result (se_u32_to_i32 S (pr_height p0) ''texture height''))) (\<lambda>height s.
           case create file_size width height s of
                (Inr x, s') \<Rightarrow> (Inr x, s')
              | (Inl e, s') \<Rightarrow> bnd (cleanup_texture_blob_if_unreferenced S ?key) (\<lambda>_. raise e) s')))) s))"
    by (intro quiet.bnd_run[OF quiet_put] quiet.bnd_check quiet_or_cleanup quiet_cleanup_blob c)
      (rule put_file_stored)
qed

lemma quiet_store_wardrobe:
  "process_ok S \<Longrightarrow> quiet s (snd (store_wardrobe_texture F S J now u ty model vis upload s))"
  unfolding store_wardrobe_texture_def by (intro quiet_bnd_tex_query quiet_store_or_reuse)

lemma tex_Inr: "tex m s = (Inr x, s') \<longleftrightarrow> (\<exists>d. m (w_db s) = (Inr x, d) \<and> s' = s\<lparr>w_ygg := (w_ygg s)\<lparr>y_db := d\<rparr>\<rparr>)"
  by (auto simp: tex_def on_ygg_def on_db_def map_sum_Inr split: prod.splits)

lemma fingerprint_Some:
  assumes "find_wardrobe_by_fingerprint u ty src h m d = Some x"
  shows "x \<in> set (rows (minecraft_textures d))" "x_texture_type x = ty" "x_user_id x = u" "x_hash x = h"
    "x_is_wardrobe_item x" "x_source x = src" "x_texture_model x = m"
proof -
  have "x \<in> set (select_all (\<lambda>x. x_user_id x = u \<and> x_texture_type x = ty \<and> x_source x = src \<and> x_hash x = h
      \<and> x_texture_model x = m \<and> x_is_wardrobe_item x) (minecraft_textures d))"
    using assms unfolding find_wardrobe_by_fingerprint_def
    by (metis (no_types, lifting) list.case_eq_if list.set_sel(1) option.distinct(1) option.inject set_order_by(1))
  then show "x \<in> set (rows (minecraft_textures d))" "x_texture_type x = ty" "x_user_id x = u" "x_hash x = h"
    "x_is_wardrobe_item x" "x_source x = src" "x_texture_model x = m"
    by (simp_all add: select_all_def)
qed

text \<open>What a successful run returns.\<close>

definition yields :: "('a \<Rightarrow> 's \<Rightarrow> bool) \<Rightarrow> ('s, 'e, 'a) handler \<Rightarrow> 's \<Rightarrow> bool" where
  "yields Q m s = (\<forall>x s'. m s = (Inr x, s') \<longrightarrow> Q x s')"

lemma yields_bnd: "(\<And>x s'. m s = (Inr x, s') \<Longrightarrow> yields Q (k x) s') \<Longrightarrow> yields Q (bnd m k) s"
  by (auto simp: yields_def bnd_Inr)

lemma yields_optional:
  "(\<And>x. v = Some x \<Longrightarrow> yields Q (m x) s) \<Longrightarrow> (v = None \<Longrightarrow> yields Q n s) \<Longrightarrow>
   yields Q (case v of None \<Rightarrow> n | Some x \<Rightarrow> m x) s"
  by (cases v) auto

lemma yields_ret: "Q x s \<Longrightarrow> yields Q (ret x) s"
  by (simp add: yields_def ret_def)

lemma yields_or_cleanup:
  "yields Q m s \<Longrightarrow> yields Q (\<lambda>s. case m s of (Inr x, s') \<Rightarrow> (Inr x, s') | (Inl e, s') \<Rightarrow> bnd c (\<lambda>_. raise e) s') s"
  by (auto simp: yields_def bnd_Inr raise_def split: prod.splits sum.splits)

lemma yields_create:
  assumes "cx_texture_type input = ty"
  shows "yields (\<lambda>x s'. x \<in> set (rows (minecraft_textures (w_db s'))) \<and> x_texture_type x = ty)
           (tex (texture_repo_create F now input)) s"
proof (cases rule: create_state[of F now input "w_db s"])
  case (refused e)
  then show ?thesis by (auto simp: yields_def tex_Inr)
next
  case (added y t)
  with assms show ?thesis by (auto simp: yields_def tex_Inr)
qed

lemma yields_store_or_reuse:
  "yields (\<lambda>x s'. x \<in> set (rows (minecraft_textures (w_db s'))) \<and> x_texture_type x = sa_texture_type input)
     (store_or_reuse_wardrobe_texture F S now input) s"
  unfolding store_or_reuse_wardrobe_texture_def Let_def
  by (intro yields_bnd yields_optional yields_ret yields_or_cleanup yields_create)
    (auto simp: tex_query dest: fingerprint_Some)

lemmas store_or_reuse_result = yields_store_or_reuse[unfolded yields_def, rule_format]

lemma quiet_upsert:
  assumes "x \<in> set (rows (minecraft_textures (w_db s)))" and "x_texture_type x = ty"
  shows "quiet s (snd (tex (upsert_for_profile F now p (x_id x) ty) s))"
  by (intro quiet_tex(1) quiet_db_upsert) (use assms in blast)

lemma quiet_store_texture:
  "process_ok S \<Longrightarrow> quiet s (snd (store_texture C F S J now p ty m upload s))"
  unfolding store_texture_def
  by (intro quiet_bnd_tex_query quiet.bnd_check)
    (rule quiet.bnd_run[OF quiet_store_or_reuse], assumption, drule store_or_reuse_result,
     intro quiet_bnd_tex_query, intro quiet.bnd_run[OF quiet_or_cleanup[OF quiet_upsert quiet_cleanup_asset]],
     simp, simp, intro quiet.bnd quiet.reads quiet_preset quiet_after_binding)

lemma quiet_import:
  "process_ok S \<Longrightarrow> quiet s (snd (import_official_texture_to_profile_with_mode C F S now p ty m url mode s))"
  unfolding import_official_texture_to_profile_with_mode_def
  by (intro quiet.bnd_check)
    (rule quiet.bnd_run[OF quiet_store_or_reuse], assumption, drule store_or_reuse_result,
     intro quiet_bnd_tex_query quiet.branch quiet_caches,
     intro quiet.bnd_run[OF quiet_or_cleanup[OF quiet_upsert quiet_cleanup_asset]],
     simp, simp, intro quiet_after_binding)

lemma find_for_user_Some:
  assumes "texture_find_by_id_for_user i u d = Some x"
  shows "x \<in> set (rows (minecraft_textures d))" "x_id x = i" "x_user_id x = u"
  using assms by (auto simp: texture_find_by_id_for_user_def dest!: select_one_Some)

lemma quiet_bind: "quiet s (snd (bind_wardrobe_texture_to_profile C F S J now u p i ty s))"
  unfolding bind_wardrobe_texture_to_profile_def
  by (intro quiet_bnd_tex_query quiet.bnd_check quiet.optional quiet.branch quiet.reads)
    (intro quiet.bnd_run[OF quiet_upsert] quiet.bnd quiet.reads quiet_preset quiet_after_binding,
     auto dest: find_for_user_Some)

lemma quiet_presets: "quiet s (snd (apply_local_texture_presets_to_profile C F S J now u p s))"
proof -
  have "quiet s (snd (apply_presets_loop C F S J now u p tys n s))" for tys n s
    by (induction tys arbitrary: n s) (auto intro!: quiet.bnd quiet.reads quiet.optional quiet.branch quiet_bind quiet_bnd_tex_query)
  then show ?thesis
    unfolding apply_local_texture_presets_to_profile_def
    by (intro quiet.branch quiet.reads quiet.bnd quiet_tex(1) quiet_db.reads)
qed

lemma quiet_take_off:
  "quiet s (snd (delete_texture_for_profile_unchecked C F S now p ty s))"
  unfolding delete_texture_for_profile_unchecked_def
  by (intro quiet.bnd quiet.optional quiet.reads quiet_tex(1) quiet_db_worn_deletes quiet_cleanup_asset quiet_caches
      quiet_profile_caches)

lemma quiet_delete_texture: "quiet s (snd (delete_texture C F S J now p ty s))"
  unfolding delete_texture_def by (intro quiet_bnd_tex_query quiet.bnd_check quiet_take_off)

lemma quiet_delete_official: "quiet s (snd (delete_official_texture_for_profile_if_bound C F S now p ty s))"
  unfolding delete_official_texture_for_profile_if_bound_def
  by (intro quiet_bnd_tex_query quiet.branch quiet.reads quiet_take_off)

lemma quiet_delete_worn: "quiet s (snd (delete_all_textures_for_profile C F S now p s))"
proof -
  have "quiet s (snd (delete_worn_loop C S i ws s))" for i ws s
    by (induction ws arbitrary: s)
      (auto intro!: quiet.bnd quiet.optional quiet.reads quiet_tex(1) quiet_db_worn_deletes quiet_cleanup_asset quiet_caches)
  then show ?thesis
    unfolding delete_all_textures_for_profile_def
    by (intro quiet_bnd_tex_query quiet.bnd quiet.branch quiet.reads quiet_profile_caches)
qed

lemma quiet_delete_wardrobe: "quiet s (snd (delete_wardrobe_texture_unchecked C F S now u i s))"
  unfolding delete_wardrobe_texture_unchecked_def
  by (intro quiet.bnd quiet.optional quiet.reads quiet_tex(1) quiet_db.reads quiet_db_deletes quiet_cleanup_blob quiet_caches)

lemma quiet_delete_wardrobe_checked: "quiet s (snd (delete_wardrobe_texture C F S J now u i s))"
  unfolding delete_wardrobe_texture_def by (intro quiet_bnd_tex_query quiet_delete_wardrobe)

lemma quiet_delete_all_wardrobe: "quiet s (snd (delete_all_wardrobe_textures_for_user C F S now u s))"
proof -
  have "quiet s (snd (delete_wardrobe_loop C F S now u xs s))" for xs s
  proof (induction xs arbitrary: s)
    case (Cons x xs)
    obtain r s' where r: "delete_wardrobe_texture_unchecked C F S now u (x_id x) s = (r, s')"
      by (cases "delete_wardrobe_texture_unchecked C F S now u (x_id x) s")
    have q: "quiet s s'" using quiet_delete_wardrobe[of s C F S now u "x_id x"] r by simp
    have "quiet s' (snd (bnd (delete_wardrobe_loop C F S now u xs) (\<lambda>ys. ret (y # ys)) s'))" for y
      by (intro quiet.bnd quiet.reads Cons.IH)
    with q Cons.IH[of s'] show ?case by (cases r) (auto simp: r intro: quiet.trans)
  qed (simp add: quiet.refl)
  then show ?thesis unfolding delete_all_wardrobe_textures_for_user_def by (intro quiet_bnd_tex_query)
qed

lemma quiet_delete_library: "quiet s (snd (delete_texture_library_texture C F T S now i s))"
  unfolding delete_texture_library_texture_def
  by (intro quiet.branch quiet.bnd quiet.optional quiet.reads quiet_tex(1) quiet_db.reads quiet_db_reads quiet_db_worn_deletes
      quiet_db_deletes quiet_cleanup_blob quiet_caches)

lemma quiet_delete_hash: "quiet s (snd (delete_textures_by_hash C F S now h s))"
proof -
  have "quiet s (snd (delete_by_hash_loop C F S now ws s))" for ws s
    by (induction ws arbitrary: s)
      (auto intro!: quiet.bnd quiet.optional quiet.reads quiet_tex(1) quiet_db.reads quiet_db_worn_deletes quiet_cleanup_asset
        quiet_caches quiet_profile_caches)
  then show ?thesis
    unfolding delete_textures_by_hash_def
    by (intro quiet.branch quiet.reads quiet_bnd_tex_query quiet.bnd quiet_tex(1) quiet_db_deletes quiet_for_each
        quiet_cleanup_blob quiet_caches)
qed

lemma not_private: "v \<noteq> VisibilityPrivate \<longleftrightarrow> v = VisibilityPublic"
  by (cases v) simp_all

lemma quiet_metadata: "quiet s (snd (update_wardrobe_texture_metadata C F T J now u i name m vis s))"
proof -
  have "quiet_db d (snd (update_wardrobe_metadata_for_user F now x u input d))" for d x input
    unfolding update_wardrobe_metadata_for_user_def
    by (intro quiet_db.branch quiet_db.bnd quiet_db.reads quiet_db_update_texture)
      (auto simp: row_change_ok_def library_row_ok_def not_private split: if_splits option.splits)
  then show ?thesis
    unfolding update_wardrobe_texture_metadata_def Let_def
    by (intro quiet_bnd_tex_query quiet.bnd_check quiet.bnd quiet.optional quiet.branch quiet.reads quiet_tex(2) quiet_caches
        quiet_db_reads)
qed

section \<open>Replacing content\<close>

lemma apply_replacement_simps [simp]:
  "x_id (apply_replacement c now x) = x_id x" "x_texture_type (apply_replacement c now x) = x_texture_type x"
  "x_hash (apply_replacement c now x) = rc_hash c" "x_storage_key (apply_replacement c now x) = rc_storage_key c"
  "x_library_status (apply_replacement c now x) = LibraryPrivate" "x_user_id (apply_replacement c now x) = x_user_id x"
  "x_is_wardrobe_item (apply_replacement c now x) = x_is_wardrobe_item x"
  by (simp_all add: apply_replacement_def)

lemma replace_content_state:
  "w_objects (snd (tex (replace_wardrobe_content_for_user now x u c) s)) = w_objects s"
  "w_db (snd (tex (replace_wardrobe_content_for_user now x u c) s)) = w_db s \<or>
   w_db (snd (tex (replace_wardrobe_content_for_user now x u c) s)) =
     (w_db s)\<lparr>minecraft_textures := snd (update_many (\<lambda>y. x_id y = x_id x \<and> x_user_id y = u \<and> x_is_wardrobe_item y
        \<and> x_updated_at y = x_updated_at x) (apply_replacement c now) (minecraft_textures (w_db s)))\<rparr>"
  by (simp_all add: replace_wardrobe_content_for_user_def bnd_def statement_def ret_def query_def split: prod.split)

lemma quiet_replace_content:
  assumes "map_of (w_objects s) (rc_storage_key c) \<noteq> None" and "rc_storage_key c = object_storage_key (rc_hash c)"
    and "2 \<le> length (rc_hash c)"
  shows "quiet s (snd (tex (replace_wardrobe_content_for_user now x u c) s))"
proof -
  let ?s = "snd (tex (replace_wardrobe_content_for_user now x u c) s)"
  let ?p = "\<lambda>y. x_id y = x_id x \<and> x_user_id y = u \<and> x_is_wardrobe_item y \<and> x_updated_at y = x_updated_at x"
  have "w_db ?s = w_db s \<or> w_db ?s = (w_db s)\<lparr>minecraft_textures :=
      snd (update_many ?p (apply_replacement c now) (minecraft_textures (w_db s)))\<rparr>"
    by (rule replace_content_state(2))
  then show ?thesis
  proof
    assume "w_db ?s = w_db s"
    then show ?thesis by (intro quiet_lift replace_content_state(1)) (simp add: quiet_db.refl)
  next
    assume e: "w_db ?s = (w_db s)\<lparr>minecraft_textures := snd (update_many ?p (apply_replacement c now) (minecraft_textures (w_db s)))\<rparr>"
    have "textures_wf (w_db ?s)" if "textures_wf (w_db s)"
      unfolding e by (rule textures_wf_update[OF that]) (simp add: row_change_ok_def library_row_ok_def)
    moreover have "objects_ok ?s" if "objects_ok s"
      using that assms unfolding objects_ok_def e replace_content_state(1)
      by (auto simp: list_all_iff update_many_def stored_def)
    moreover have "published_as i h (w_db s)" if "published_as i h (w_db ?s)" for i h
      by (rule published_update[OF _ that[unfolded e] refl]) simp
    ultimately show ?thesis by (simp add: quiet_def wardrobe_wf_def)
  qed
qed

lemma quiet_replace_loop:
  assumes "\<And>n d. quiet_db d (others n d)" and "map_of (w_objects s) (rc_storage_key c) \<noteq> None"
    and "rc_storage_key c = object_storage_key (rc_hash c)" and "2 \<le> length (rc_hash c)"
  shows "quiet s (snd (replace_loop S others now u i c n x s))"
  using assms(2)
proof (induction n arbitrary: x s)
  case 0
  show ?case by (simp, intro quiet.bnd quiet.reads quiet_cleanup_blob)
next
  case (Suc n)
  let ?m = "tex (modify (others n)) :: ('a wardrobe_state, texture_error, unit) handler"
  show ?case unfolding replace_loop.simps
  proof (intro quiet.bnd_run)
    show "quiet s (snd (?m s))" by (intro quiet_tex(1)) (simp add: modify_def assms(1))
    fix r s1 assume s1: "?m s = (Inr r, s1)"
    then have "w_objects s1 = w_objects s" using tex_state(2)[of "modify (others n)" s] by simp
    with Suc.prems have o: "map_of (w_objects s1) (rc_storage_key c) \<noteq> None" by simp
    show "quiet s1 (snd (tex (replace_wardrobe_content_for_user now x u c) s1))"
      by (rule quiet_replace_content[OF o assms(3,4)])
    fix q s2 assume "tex (replace_wardrobe_content_for_user now x u c) s1 = (Inr q, s2)"
    then have "w_objects s2 = w_objects s1" using replace_content_state(1)[of now x u c s1] by simp
    with o have "map_of (w_objects s2) (rc_storage_key c) \<noteq> None" by simp
    then show "quiet s2 (snd ((case q of
        None \<Rightarrow> bnd (tex (query (\<lambda>d. Inr (texture_find_by_id_for_user i u d)))) (\<lambda>current.
          case (case current of None \<Rightarrow> None | Some x \<Rightarrow> if x_is_wardrobe_item x then Some x else None) of
            None \<Rightarrow> bnd (cleanup_texture_blob_if_unreferenced S (rc_storage_key c)) (\<lambda>_.
                     raise (not_found_error ''wardrobe texture'' i))
          | Some x \<Rightarrow> if x_hash x = rc_hash c \<and> x_texture_model x = rc_texture_model c then ret (x, x')
                      else replace_loop S others now u i c n x)
      | Some x \<Rightarrow> ret (x, x')) s2))" for x'
      by (intro quiet.optional quiet_bnd_tex_query quiet.branch quiet.reads quiet.bnd quiet_cleanup_blob Suc.IH)
  qed
qed

lemma quiet_replace:
  assumes "process_ok S" and "\<And>n d. quiet_db d (others n d)"
  shows "quiet s (snd (replace_wardrobe_texture_content C F T S J others now u i m upload s))"
proof (rule quiet_wf)
  assume wf: "wardrobe_wf s"
  show ?thesis
    unfolding replace_wardrobe_texture_content_def Let_def
  proof (intro quiet_bnd_tex_query quiet.optional quiet.bnd_check quiet.branch quiet.reads quiet_tex(1) quiet_db_reads)
    fix found x p0 a b c
    assume found: "Inr (if i \<le> 0 then None else texture_find_by_id_for_user i u (w_db s)) = Inr found"
      and x: "(case found of None \<Rightarrow> None | Some x \<Rightarrow> if x_is_wardrobe_item x then Some x else None) = Some x"
      and pr: "map_sum (\<lambda>e. texture_error_with_detail InvalidPng (error_message e)) id (se_process S upload (x_texture_type x)) = Inr p0"
    have len: "2 \<le> length (pr_hash p0)" using pr process_ok_len[OF assms(1)] by (auto simp: map_sum_Inr)
    have "x \<in> set (rows (minecraft_textures (w_db s)))"
      using found x by (auto split: option.splits if_splits dest: find_for_user_Some)
    then have st: "stored (w_objects s) x" using wf by (auto simp: wardrobe_wf_def objects_ok_def list_all_iff)
    let ?key = "object_storage_key (pr_hash p0)"
    let ?put = "if pr_hash p0 \<noteq> x_hash x then put_file S ?key (pr_bytes p0) else ret ()"
    have put: "quiet s (snd (?put s))" by (intro quiet.branch quiet.reads quiet_put)
    have obj: "map_of (w_objects s1) ?key \<noteq> None" if "?put s = (Inr r, s1)" for r s1
      using that st put_file_stored[of S ?key "pr_bytes p0" s r s1] by (auto simp: stored_def ret_def split: if_splits)
    let ?c = "\<lparr>rc_hash = pr_hash p0, rc_storage_key = ?key, rc_mime_type = ''image/png'', rc_file_size = a, rc_width = b,
        rc_height = c, rc_texture_model = if x_texture_type x = Skin then m else ModelDefault\<rparr>"
    show "quiet s (snd (bnd ?put (\<lambda>_.
         bnd (tex (query (\<lambda>d. Inr (worn_list_by_texture_id (x_id x) d)))) (\<lambda>bindings.
         bnd (replace_loop S others now u i ?c wardrobe_replace_max_attempts x) (\<lambda>(updated, existing).
         bnd (invalidate_profile_texture_caches_for_bindings C F now bindings) (\<lambda>_.
         bnd (invalidate_texture_asset_caches C existing) (\<lambda>_.
         bnd (invalidate_texture_asset_caches C updated) (\<lambda>_.
         bnd (if x_storage_key existing \<noteq> x_storage_key updated
              then cleanup_texture_blob_if_unreferenced S (x_storage_key existing) else ret ()) (\<lambda>_.
         tex (wardrobe_texture_with_current_tags T updated)))))))) s))"
    proof (rule quiet.bnd_run, rule put)
      fix r s1 assume "?put s = (Inr r, s1)"
      from obj[OF this] have loop: "quiet s1 (snd (replace_loop S others now u i ?c n x s1))" for n
        by (intro quiet_replace_loop assms(2)) (simp_all add: len)
      show "quiet s1 (snd (bnd (tex (query (\<lambda>d. Inr (worn_list_by_texture_id (x_id x) d)))) (\<lambda>bindings.
         bnd (replace_loop S others now u i ?c wardrobe_replace_max_attempts x) (\<lambda>(updated, existing).
         bnd (invalidate_profile_texture_caches_for_bindings C F now bindings) (\<lambda>_.
         bnd (invalidate_texture_asset_caches C existing) (\<lambda>_.
         bnd (invalidate_texture_asset_caches C updated) (\<lambda>_.
         bnd (if x_storage_key existing \<noteq> x_storage_key updated
              then cleanup_texture_blob_if_unreferenced S (x_storage_key existing) else ret ()) (\<lambda>_.
         tex (wardrobe_texture_with_current_tags T updated))))))) s1))"
        by (intro quiet_bnd_tex_query, rule quiet.bnd_run, rule loop)
          (auto split: prod.split intro!: quiet.bnd quiet.branch quiet.reads quiet_caches quiet_cleanup_blob quiet_tex(1) quiet_db_reads)
    qed
  qed
qed

section \<open>Maintenance\<close>

lemma quiet_orphans: "quiet s (snd (cleanup_orphan_texture_blobs S s))"
proof -
  have "quiet s (snd (cleanup_orphans_loop S keys r s))" for keys r s
  proof (induction keys arbitrary: r s)
    case (Cons key keys)
    show ?case
    proof (cases "count_by_storage_key key (w_db s) > 0 \<or> se_delete_fault S key \<noteq> None")
      case True
      with Cons.IH show ?thesis by (auto simp: quiet.refl split: option.split)
    next
      case False
      have "quiet s (s\<lparr>w_objects := without_object key (w_objects s)\<rparr>)"
        using quiet_cleanup_blob[of s S key] False by (simp add: cleanup_texture_blob_if_unreferenced_def)
      with False Cons.IH show ?thesis by (auto intro: quiet.trans)
    qed
  qed (simp add: quiet.refl)
  then show ?thesis by (auto simp: cleanup_orphan_texture_blobs_def Let_def quiet.refl split: option.split)
qed

lemma quiet_mark: "quiet_db d (snd (mark_as_wardrobe_item F now x d))"
  unfolding mark_as_wardrobe_item_def
  by (rule quiet_db_update_texture) (auto simp: row_change_ok_def library_row_ok_def)

lemma join_textures_in:
  assumes "(b, x) \<in> set (join_textures bs d)"
  shows "b \<in> set bs" "texture_find_by_id (pt_texture_id b) d = Some x"
  using assms by (auto simp: join_textures_def map_filter_def)

lemma find_by_id_Some:
  "texture_find_by_id i d = Some x \<Longrightarrow> x \<in> set (rows (minecraft_textures d)) \<and> x_id x = i"
  by (auto simp: texture_find_by_id_def dest: select_one_Some)

lemma worn_types:
  assumes "textures_wf d" and "(b, x) \<in> set (worn_list_all d)"
  shows "x_texture_type x = pt_texture_type b"
proof -
  have b: "b \<in> set (rows (profile_textures d))" "texture_find_by_id (pt_texture_id b) d = Some x"
    using join_textures_in[OF assms(2)[unfolded worn_list_all_def]] by auto
  then obtain y where y: "y \<in> set (rows (minecraft_textures d))" "x_id y = pt_texture_id b" "x_texture_type y = pt_texture_type b"
    using assms(1) by (auto simp: textures_wf_def slots_ok_def)
  have "x = y" by (rule wf_same_row[OF assms(1) _ y(1)]) (use find_by_id_Some[OF b(2)] y(2) in auto)
  with y(3) show ?thesis by simp
qed

lemma quiet_register_loop:
  "(\<And>b x. (b, x) \<in> set ws \<Longrightarrow> x_texture_type x = pt_texture_type b) \<Longrightarrow> quiet s (snd (register_loop C F S now ws r s))"
proof (induction ws arbitrary: r s)
  case (Cons w ws)
  obtain b x where w: "w = (b, x)" by (cases w)
  have ty: "x_texture_type x = pt_texture_type b" using Cons.prems w by simp
  have IH: "quiet s (snd (register_loop C F S now ws r s))" for r s
    by (rule Cons.IH) (use Cons.prems in simp)
  have up: "quiet_db d (snd (upsert_for_profile F now (pt_profile_id b) (x_id y) (pt_texture_type b) d))"
    if "Inr (find_wardrobe_by_fingerprint (x_user_id x) (x_texture_type x) (x_source x) (x_hash x) (x_texture_model x) d) = (Inr q :: aster_error + _)"
      "q = Some y" for y q d
    by (rule quiet_db_upsert) (use that fingerprint_Some[of "x_user_id x" "x_texture_type x"] ty in auto)
  show ?case unfolding w register_loop.simps Let_def
    by (intro quiet.branch IH quiet_bnd_tex_query quiet.optional; (rule quiet.bnd_run, intro quiet_tex(1) quiet_mark up)?)
      (auto intro!: quiet.bnd quiet.optional quiet_profile_caches quiet_caches quiet_tex(1) quiet_db_deletes quiet_cleanup_blob IH)
qed (simp add: quiet.reads)

lemma quiet_register: "quiet s (snd (register_bound_textures_in_wardrobe C F S now s))"
proof (rule quiet_wf)
  assume "wardrobe_wf s"
  then show ?thesis
    unfolding register_bound_textures_in_wardrobe_def
    by (intro quiet_bnd_tex_query quiet_register_loop) (auto simp: wardrobe_wf_def intro: worn_types)
qed

end
