(* ===== verification/Texture_Properties.thy ===== *)
theory Texture_Properties
  imports Texture_Safety
begin

text \<open>
  The texture service as a whole: requests and runs, and the properties of moderation, storage, tags and
  reports over them.
\<close>

section \<open>Runs\<close>

datatype texture_request =
    StoreWardrobe row_id texture_type minecraft_texture_model texture_visibility string
  | UploadTexture minecraft_profile texture_type minecraft_texture_model string
  | ImportOfficial minecraft_profile texture_type minecraft_texture_model string official_texture_binding_mode
  | BindWardrobe row_id minecraft_profile row_id texture_type
  | ApplyPresets row_id minecraft_profile
  | TakeOff minecraft_profile texture_type
  | TakeOffUnchecked minecraft_profile texture_type
  | TakeOffOfficial minecraft_profile texture_type
  | TakeOffAll minecraft_profile
  | EditMetadata row_id row_id "string nullable_patch option" "minecraft_texture_model option" "texture_visibility option"
  | ReplaceContent row_id row_id minecraft_texture_model string
  | DeleteWardrobe row_id row_id
  | DeleteAllWardrobe row_id
  | DeleteLibraryTexture row_id
  | DeleteByHash string
  | RegisterBound
  | CleanupOrphans
  | SubmitReview row_id row_id
  | WithdrawSubmission row_id row_id
  | ApproveTexture row_id row_id "string option" "row_id list option"
  | RejectTexture row_id row_id "string option"
  | UnpublishTexture row_id row_id "string option"
  | ReportTexture row_id row_id report_reason "string option"
  | AcceptReport row_id row_id "string option"
  | RejectReport row_id row_id "string option"
  | CopyPublic row_id row_id "string nullable_patch option"
  | SetTags row_id row_id "row_id list"
  | CreateTag string string "int option"
  | UpdateTag row_id "string option" "string option" "int option"
  | DeleteTag row_id

fun texture_step ::
    "'c cache_ops \<Rightarrow> forge \<Rightarrow> texture_env \<Rightarrow> storage_env \<Rightarrow> scope_codec \<Rightarrow> time \<Rightarrow> texture_request \<Rightarrow>
     'c wardrobe_state \<Rightarrow> 'c wardrobe_state" where
  "texture_step C F T S J now (StoreWardrobe u ty m vis upload) s =
     snd (store_wardrobe_texture F S J now u ty m vis upload s)"
| "texture_step C F T S J now (UploadTexture p ty m upload) s = snd (store_texture C F S J now p ty m upload s)"
| "texture_step C F T S J now (ImportOfficial p ty m url mode) s =
     snd (import_official_texture_to_profile_with_mode C F S now p ty m url mode s)"
| "texture_step C F T S J now (BindWardrobe u p i ty) s = snd (bind_wardrobe_texture_to_profile C F S J now u p i ty s)"
| "texture_step C F T S J now (ApplyPresets u p) s = snd (apply_local_texture_presets_to_profile C F S J now u p s)"
| "texture_step C F T S J now (TakeOff p ty) s = snd (delete_texture C F S J now p ty s)"
| "texture_step C F T S J now (TakeOffUnchecked p ty) s = snd (delete_texture_for_profile_unchecked C F S now p ty s)"
| "texture_step C F T S J now (TakeOffOfficial p ty) s = snd (delete_official_texture_for_profile_if_bound C F S now p ty s)"
| "texture_step C F T S J now (TakeOffAll p) s = snd (delete_all_textures_for_profile C F S now p s)"
| "texture_step C F T S J now (EditMetadata u i name m vis) s =
     snd (update_wardrobe_texture_metadata C F T J now u i name m vis s)"
| "texture_step C F T S J now (ReplaceContent u i m upload) s =
     snd (replace_wardrobe_texture_content C F T S J (\<lambda>_ d. d) now u i m upload s)"
| "texture_step C F T S J now (DeleteWardrobe u i) s = snd (delete_wardrobe_texture C F S J now u i s)"
| "texture_step C F T S J now (DeleteAllWardrobe u) s = snd (delete_all_wardrobe_textures_for_user C F S now u s)"
| "texture_step C F T S J now (DeleteLibraryTexture i) s = snd (delete_texture_library_texture C F T S now i s)"
| "texture_step C F T S J now (DeleteByHash h) s = snd (delete_textures_by_hash C F S now h s)"
| "texture_step C F T S J now RegisterBound s = snd (register_bound_textures_in_wardrobe C F S now s)"
| "texture_step C F T S J now CleanupOrphans s = snd (cleanup_orphan_texture_blobs S s)"
| "texture_step C F T S J now (SubmitReview u i) s = snd (aster (submit_texture_library_review F T J now u i) s)"
| "texture_step C F T S J now (WithdrawSubmission u i) s = snd (aster (withdraw_texture_library_submission F T J now u i) s)"
| "texture_step C F T S J now (ApproveTexture v i note ts) s = snd (aster (approve_texture_library_texture F T now v i note ts) s)"
| "texture_step C F T S J now (RejectTexture v i note) s = snd (aster (reject_texture_library_texture F T now v i note) s)"
| "texture_step C F T S J now (UnpublishTexture v i note) s = snd (aster (unpublish_texture_library_texture F T now v i note) s)"
| "texture_step C F T S J now (ReportTexture u i reason message) s =
     snd (aster (create_texture_library_report F T J now u i reason message) s)"
| "texture_step C F T S J now (AcceptReport v i note) s = snd (aster (accept_texture_library_report F T now v i note) s)"
| "texture_step C F T S J now (RejectReport v i note) s = snd (aster (reject_texture_library_report F T now v i note) s)"
| "texture_step C F T S J now (CopyPublic u i name) s = snd (aster (copy_public_texture_to_wardrobe F T J now u i name) s)"
| "texture_step C F T S J now (SetTags u i ts) s = snd (aster (replace_wardrobe_texture_tags F T J now u i ts) s)"
| "texture_step C F T S J now (CreateTag name color so) s = snd (aster (create_texture_library_tag F T now name color so) s)"
| "texture_step C F T S J now (UpdateTag i name color so) s = snd (aster (update_texture_library_tag F T now i name color so) s)"
| "texture_step C F T S J now (DeleteTag i) s = snd (aster (delete_texture_library_tag i) s)"

text \<open>A run: requests with the time each is served at, errors included.\<close>

definition texture_run ::
    "'c cache_ops \<Rightarrow> forge \<Rightarrow> texture_env \<Rightarrow> storage_env \<Rightarrow> scope_codec \<Rightarrow> (time \<times> texture_request) list \<Rightarrow>
     'c wardrobe_state \<Rightarrow> 'c wardrobe_state" where
  "texture_run C F T S J reqs s = fold (\<lambda>(now, req). texture_step C F T S J now req) reqs s"

lemma texture_run_simps [simp]:
  "texture_run C F T S J [] s = s"
  "texture_run C F T S J ((now, req) # reqs) s = texture_run C F T S J reqs (texture_step C F T S J now req s)"
  by (simp_all add: texture_run_def)

section \<open>One step\<close>

lemma submit_publishes:
  "published_by (\<lambda>j h. \<not> te_review_required T \<and> j = i) d (snd (submit_texture_library_review F T J now u i d))"
proof (cases "te_review_required T")
  case True
  then show ?thesis by (intro published_by_quiet quiet_submit)
next
  case False
  let ?P = "\<lambda>j h. \<not> te_review_required T \<and> j = i"
  have refl: "published_by ?P d d" by (rule published_by_quiet[OF quiet_db.refl])
  show ?thesis
  proof (cases "\<exists>x. ensure_texture_library_enabled T = Inr () \<and> ensure_user_not_banned J now u TextureLibraryInteract d = Inr ()
      \<and> user_wardrobe_texture u i d = Inr x \<and> x_visibility x = VisibilityPublic")
    case False
    then have "snd (submit_texture_library_review F T J now u i d) = d"
      by (auto simp: submit_texture_library_review_def handler_defs split: sum.splits)
    then show ?thesis using refl by simp
  next
    case True
    then obtain x where x: "ensure_texture_library_enabled T = Inr ()"
      "ensure_user_not_banned J now u TextureLibraryInteract d = Inr ()"
      "user_wardrobe_texture u i d = Inr x" "x_visibility x = VisibilityPublic" by blast
    have e: "\<exists>input. snd (submit_texture_library_review F T J now u i d) = snd (texture_update_library_review F now x input d)"
      using x by (auto simp: submit_texture_library_review_def wardrobe_texture_with_current_tags_def bnd_def check_def query_def
          split: sum.split prod.split) (metis snd_conv)+
    have "published_by ?P d (snd (texture_update_library_review F now x input d))" for input
      by (rule published_by_review[OF user_wardrobe_texture_Inr(1)[OF x(3)] x(4) user_wardrobe_texture_Inr(4)[OF x(3)]])
        (use False user_wardrobe_texture_Inr(2)[OF x(3)] in simp)
    with e show ?thesis by metis
  qed
qed

text \<open>The requests that publish nothing.\<close>

fun may_publish :: "texture_request \<Rightarrow> bool" where
  "may_publish (SubmitReview _ _) = True"
| "may_publish (ApproveTexture _ _ _ _) = True"
| "may_publish _ = False"

lemma quiet_step:
  assumes "process_ok S" and "\<not> may_publish req"
  shows "quiet s (texture_step C F T S J now req s)"
  using assms(2)
  by (cases req)
    (simp_all add: quiet_store_wardrobe[OF assms(1)] quiet_store_texture[OF assms(1)] quiet_import[OF assms(1)] quiet_bind
      quiet_presets quiet_delete_texture quiet_take_off quiet_delete_official quiet_delete_worn quiet_metadata
      quiet_replace[OF assms(1) quiet_db.refl] quiet_delete_wardrobe_checked quiet_delete_all_wardrobe quiet_delete_library
      quiet_delete_hash quiet_register quiet_orphans quiet_tex(2) quiet_withdraw quiet_reject quiet_unpublish quiet_report
      quiet_accept_report quiet_reject_report quiet_copy quiet_tag_requests)

lemma published_by_lift:
  assumes "published_by P (w_db s) (snd (m (w_db s)))" and "wardrobe_wf s"
  shows "wardrobe_wf (snd (aster m s))"
    and "published_as i h (w_db (snd (aster m s))) \<Longrightarrow> published_as i h (w_db s) \<or> P i h"
proof -
  have "objects_ok (snd (aster m s))"
    using assms unfolding objects_ok_def list_all_iff stored_def published_by_def wardrobe_wf_def by simp metis
  then show "wardrobe_wf (snd (aster m s))" using assms by (simp add: wardrobe_wf_def published_by_def)
  show "published_as i h (w_db (snd (aster m s))) \<Longrightarrow> published_as i h (w_db s) \<or> P i h"
    using assms by (auto simp: published_by_def wardrobe_wf_def)
qed

lemma submit_lift:
  assumes "wardrobe_wf s"
  shows "wardrobe_wf (snd (aster (submit_texture_library_review F T J now u j) s))"
    and "published_as i h (w_db (snd (aster (submit_texture_library_review F T J now u j) s))) \<Longrightarrow>
      published_as i h (w_db s) \<or> \<not> te_review_required T \<and> i = j"
  by (rule published_by_lift[OF _ assms], rule submit_publishes, assumption?)+

lemma approve_lift:
  assumes "wardrobe_wf s"
  shows "wardrobe_wf (snd (aster (approve_texture_library_texture F T now v j note ts) s))"
    and "published_as i h (w_db (snd (aster (approve_texture_library_texture F T now v j note ts) s))) \<Longrightarrow>
      published_as i h (w_db s) \<or> i = j \<and> awaiting_review j h (w_db s)"
  by (rule published_by_lift[OF _ assms], rule approve_publishes, assumption?)+

lemma texture_step_wf:
  assumes "process_ok S" and "wardrobe_wf s"
  shows "wardrobe_wf (texture_step C F T S J now req s)"
proof (cases "may_publish req")
  case False
  from quiet_step[OF assms(1) False, of s C F T J now] assms(2) show ?thesis by (simp add: quiet_def)
next
  case True
  then show ?thesis
    by (cases req) (simp_all add: submit_lift(1)[OF assms(2)] approve_lift(1)[OF assms(2)])
qed

lemma texture_step_publishes:
  assumes "process_ok S" and "te_review_required T" and "wardrobe_wf s"
    and "published_as i h (w_db (texture_step C F T S J now req s))" and "\<not> published_as i h (w_db s)"
  shows "(\<exists>v note ts. req = ApproveTexture v i note ts) \<and> awaiting_review i h (w_db s)"
proof (cases "may_publish req")
  case False
  from quiet_step[OF assms(1) False, of s C F T J now] assms(3-5) show ?thesis by (auto simp: quiet_def)
next
  case True
  then show ?thesis
  proof (cases req)
    case (SubmitReview u j)
    with submit_lift(2)[OF assms(3), of i h F T J now u j] assms(2,4,5) show ?thesis by auto
  next
    case (ApproveTexture v j n ts)
    with approve_lift(2)[OF assms(3), of i h F T now v j n ts] assms(4,5) show ?thesis by auto
  qed simp_all
qed

lemma texture_run_wf: "process_ok S \<Longrightarrow> wardrobe_wf s \<Longrightarrow> wardrobe_wf (texture_run C F T S J reqs s)"
  by (induction reqs arbitrary: s) (auto simp: texture_step_wf)

section \<open>Tags of a texture\<close>

definition tags_of :: "row_id \<Rightarrow> db \<Rightarrow> row_id list" where
  "tags_of i d = map tb_tag_id (filter (\<lambda>b. tb_texture_id b = i) (rows (texture_tag_bindings d)))"

lemma normalize_tag_ids_Inr:
  assumes "normalize_texture_tag_ids ts = Inr ids"
  shows "distinct ids" "set ids = set ts" "sorted ids"
  using assms by (auto simp: normalize_texture_tag_ids_def intro: sorted_distinct_remdups_adj split: if_splits)

lemma known_tags_exist:
  assumes "keys_ok tg_id (texture_tags d)" and "distinct ids" and "known_tags ids d = Inr tags" and "j \<in> set ids"
  shows "tag_exists j d"
proof -
  let ?found = "select_all (\<lambda>t. tg_id t \<in> set ids) (texture_tags d)"
  have "length ?found = length ids"
    using assms(3,4) by (auto simp: known_tags_def Let_def tag_find_by_ids_def order_tags_def split: if_splits)
  moreover have "distinct (map tg_id ?found)"
    using assms(1) by (simp add: keys_ok_def select_all_def distinct_map_filter)
  ultimately have "card (tg_id ` set ?found) = card (set ids)"
    using assms(2) by (metis distinct_card length_map list.set_map)
  moreover have "tg_id ` set ?found \<subseteq> set ids" by (auto simp: select_all_def)
  ultimately have "tg_id ` set ?found = set ids" by (intro card_subset_eq) simp_all
  then obtain t where "t \<in> set ?found" "tg_id t = j" using assms(4) by (metis (no_types, lifting) imageE)
  then show ?thesis by (auto simp: tag_exists_def select_all_def)
qed

lemma insert_tag_bindings_run:
  assumes "texture_exists i d" and "\<And>j. j \<in> set ids \<Longrightarrow> tag_exists j d" and "distinct ids"
    and "\<And>b. b \<in> set (rows (texture_tag_bindings d)) \<Longrightarrow> tb_texture_id b = i \<Longrightarrow> tb_tag_id b \<notin> set ids"
  shows "\<exists>t new. insert_tag_bindings F now i ids d = (Inr (), d\<lparr>texture_tag_bindings := t\<rparr>)
    \<and> rows t = rows (texture_tag_bindings d) @ new \<and> map tb_tag_id new = ids \<and> (\<forall>b \<in> set new. tb_texture_id b = i)"
  using assms
proof (induction ids arbitrary: d)
  case Nil
  show ?case by (intro exI[of _ "texture_tag_bindings d"] exI[of _ "[]"]) (simp add: ret_def)
next
  case (Cons j ids)
  let ?b = "\<lparr>tb_id = next_id (texture_tag_bindings d), tb_texture_id = i, tb_tag_id = j, tb_created_at = now\<rparr>"
  let ?t = "(texture_tag_bindings d)\<lparr>rows := rows (texture_tag_bindings d) @ [?b], next_id := next_id (texture_tag_bindings d) + 1\<rparr>"
  let ?d = "d\<lparr>texture_tag_bindings := ?t\<rparr>"
  have step: "insert_tag_binding F now i j d = (Inr (), ?d)"
    using Cons.prems(1,2,4) by (auto simp: insert_tag_binding_def statement_def checked_insert_def insert_row_def Let_def)
  have no: "tb_tag_id b \<notin> set ids" if "b \<in> set (rows (texture_tag_bindings ?d))" "tb_texture_id b = i" for b
  proof -
    from that(1) have "b \<in> set (rows (texture_tag_bindings d)) \<or> b = ?b" by auto
    then show ?thesis
    proof
      assume "b = ?b"
      then have "tb_tag_id b = j" by simp
      with Cons.prems(3) show ?thesis by simp
    qed (use Cons.prems(4) that(2) in simp)
  qed
  have "\<exists>t new. insert_tag_bindings F now i ids ?d = (Inr (), ?d\<lparr>texture_tag_bindings := t\<rparr>)
    \<and> rows t = rows (texture_tag_bindings ?d) @ new \<and> map tb_tag_id new = ids \<and> (\<forall>b \<in> set new. tb_texture_id b = i)"
    by (rule Cons.IH) (use Cons.prems(1-3) no in \<open>auto simp: texture_exists_def tag_exists_def\<close>)
  then obtain t new where t: "insert_tag_bindings F now i ids ?d = (Inr (), ?d\<lparr>texture_tag_bindings := t\<rparr>)"
    "rows t = rows (texture_tag_bindings ?d) @ new" "map tb_tag_id new = ids" "\<forall>b \<in> set new. tb_texture_id b = i" by blast
  show ?case by (intro exI[of _ t] exI[of _ "?b # new"]) (simp add: bnd_def step t)
qed

lemma replace_texture_tags_run:
  assumes "texture_exists i d" and "\<And>j. j \<in> set ids \<Longrightarrow> tag_exists j d" and "distinct ids"
  shows "\<exists>t. replace_texture_tags F now i ids d = (Inr (), d\<lparr>texture_tag_bindings := t\<rparr>)
    \<and> tags_of i (d\<lparr>texture_tag_bindings := t\<rparr>) = ids
    \<and> (\<forall>j. j \<noteq> i \<longrightarrow> tags_of j (d\<lparr>texture_tag_bindings := t\<rparr>) = tags_of j d)"
proof -
  let ?d = "d\<lparr>texture_tag_bindings := snd (delete_many (\<lambda>b. tb_texture_id b = i) (texture_tag_bindings d))\<rparr>"
  have "\<exists>t new. insert_tag_bindings F now i ids ?d = (Inr (), ?d\<lparr>texture_tag_bindings := t\<rparr>)
    \<and> rows t = rows (texture_tag_bindings ?d) @ new \<and> map tb_tag_id new = ids \<and> (\<forall>b \<in> set new. tb_texture_id b = i)"
    by (rule insert_tag_bindings_run) (use assms in \<open>auto simp: texture_exists_def tag_exists_def delete_many_def\<close>)
  then obtain t new where t: "insert_tag_bindings F now i ids ?d = (Inr (), ?d\<lparr>texture_tag_bindings := t\<rparr>)"
    "rows t = rows (texture_tag_bindings ?d) @ new" "map tb_tag_id new = ids" "\<forall>b \<in> set new. tb_texture_id b = i" by blast
  have new: "filter (\<lambda>b. tb_texture_id b = i) new = new" "j \<noteq> i \<Longrightarrow> filter (\<lambda>b. tb_texture_id b = j) new = []" for j
    using t(4) by (auto simp: filter_id_conv filter_empty_conv)
  have other: "filter (\<lambda>b. tb_texture_id b = j \<and> tb_texture_id b \<noteq> i) xs = filter (\<lambda>b. tb_texture_id b = j) xs"
    if "j \<noteq> i" for j and xs :: "texture_tag_binding list" using that by (intro filter_cong) auto
  have none: "filter (\<lambda>b. tb_texture_id b = i \<and> tb_texture_id b \<noteq> i) xs = []" for xs :: "texture_tag_binding list"
    by (simp add: filter_empty_conv)
  have "replace_texture_tags F now i ids d = insert_tag_bindings F now i ids ?d"
    by (simp add: replace_texture_tags_def bnd_def modify_def)
  with t(1) have "replace_texture_tags F now i ids d = (Inr (), d\<lparr>texture_tag_bindings := t\<rparr>)" by simp
  moreover have "rows t = filter (\<lambda>b. tb_texture_id b \<noteq> i) (rows (texture_tag_bindings d)) @ new"
    using t(2) by (simp add: delete_many_def)
  ultimately show ?thesis
    by (intro exI[of _ t]) (auto simp: tags_of_def t(3) new other none conj_commute)
qed

section \<open>A sample state\<close>

definition hash_a :: string where "hash_a = replicate 64 (CHR ''a'')"
definition hash_b :: string where "hash_b = replicate 64 (CHR ''b'')"

definition submitted_texture :: minecraft_texture where
  "submitted_texture = \<lparr>x_id = 1, x_user_id = 1, x_texture_type = Skin, x_source = TextureLocal, x_hash = hash_a,
     x_storage_key = object_storage_key hash_a, x_mime_type = ''image/png'', x_file_size = 90, x_width = 64, x_height = 64,
     x_texture_model = ModelSlim, x_visibility = VisibilityPublic, x_is_wardrobe_item = True, x_display_name = Some ''Hat'',
     x_library_status = LibraryPendingReview, x_library_submitted_at = Some 900, x_library_reviewed_at = None,
     x_library_reviewer_user_id = None, x_library_review_note = None, x_created_at = 800, x_updated_at = 900\<rparr>"

definition sample_tag :: "row_id \<Rightarrow> string \<Rightarrow> texture_tag" where
  "sample_tag i name = \<lparr>tg_id = i, tg_name = name, tg_normalized_name = name, tg_color = ''#ff0000'', tg_sort_order = 0,
     tg_created_at = 700, tg_updated_at = 700\<rparr>"

definition library_db :: db where
  "library_db = sample_db\<lparr>
     minecraft_textures := \<lparr>rows = [submitted_texture], next_id = 2\<rparr>,
     texture_tags := \<lparr>rows = [sample_tag 1 ''red'', sample_tag 2 ''warm''], next_id = 3\<rparr>,
     texture_tag_bindings := \<lparr>rows = [\<lparr>tb_id = 1, tb_texture_id = 1, tb_tag_id = 1, tb_created_at = 850\<rparr>], next_id = 2\<rparr>\<rparr>"

definition library_state :: "mem_cache wardrobe_state" where
  "library_state = \<lparr>w_ygg = \<lparr>y_db = library_db, y_cache = []\<rparr>, w_objects = [(object_storage_key hash_a, ''png'')]\<rparr>"

definition plain_textures :: texture_env where
  "plain_textures = \<lparr>te_enabled = True, te_review_required = True, te_public_base_urls = [],
     te_preview_file_name = (\<lambda>_. ''front.png''), te_gravatar = (\<lambda>e n. e), te_lowercase = to_ascii_lowercase\<rparr>"

definition plain_storage :: storage_env where
  "plain_storage = \<lparr>se_process = (\<lambda>upload ty. Inr \<lparr>pr_width = 64, pr_height = 64, pr_file_size = length upload,
       pr_hash = (if upload = ''a'' then hash_a else hash_b), pr_bytes = upload\<rparr>),
     se_put_fault = (\<lambda>_. None), se_delete_fault = (\<lambda>_. None), se_list_fault = None,
     se_u32_to_i32 = (\<lambda>n _. Inr (int n)), se_download = Inr, se_allow_microsoft_override = False\<rparr>"

lemma hashes: "is_valid_texture_hash hash_a" "is_valid_texture_hash hash_b"
  by code_simp+

lemma plain_storage_ok [simp]: "process_ok plain_storage"
  by (simp add: process_ok_def plain_storage_def hashes)

lemma library_state_wf: "wardrobe_wf library_state"
proof -
  have "textures_wf library_db"
    by (simp add: textures_wf_def library_db_def sample_db_def empty_db_def empty_table_def keys_ok_def slots_ok_def reports_ok_def
        tags_ok_def texture_exists_def tag_exists_def library_row_ok_def submitted_texture_def sample_tag_def)
  moreover have "objects_ok library_state"
    by (simp add: objects_ok_def library_state_def library_db_def stored_def submitted_texture_def hash_a_def)
  ultimately show ?thesis by (simp add: wardrobe_wf_def library_state_def)
qed

definition approval :: "(time \<times> texture_request) list" where
  "approval = [(2000, ApproveTexture 1 1 (Some ''fine'') None)]"

lemma approval_publishes:
  "published_as 1 hash_a (w_db (texture_run mem_ops plain_forge plain_textures plain_storage plain_codec approval library_state))"
  "\<not> published_as 1 hash_a (w_db library_state)"
  by code_simp+

section \<open>Properties\<close>

text \<open>C20. Over any run of requests to the texture service, failing ones included, ids and slots stay unique, every
  worn texture exists and has the type of its slot, only public wardrobe items take part in the library, a
  reporter has at most one pending report per texture, tag names stay unique, and every texture keeps its
  object in storage under the key of its hash.\<close>

theorem texture_runs_invariant:
  assumes "process_ok S" and "wardrobe_wf s"
  shows "wardrobe_wf (texture_run C F T S J reqs s)"
  by (rule texture_run_wf[OF assms])

theorem texture_runs_invariant_witness:
  "wardrobe_wf (texture_run mem_ops plain_forge plain_textures plain_storage plain_codec
     [(2000, ReplaceContent 1 1 ModelSlim ''b''), (2001, SubmitReview 1 1), (2002, CleanupOrphans)] library_state)"
  by (rule texture_runs_invariant[OF plain_storage_ok library_state_wf])

text \<open>C19. With review required, a texture that appears in the library during a run was approved: one of the
  requests approved it, and at that moment the texture was public, in a wardrobe, waiting for its review,
  and had the content it is now published with.\<close>

theorem published_textures_were_approved:
  assumes "process_ok S" and "te_review_required T" and "wardrobe_wf s"
    and "published_as i h (w_db (texture_run C F T S J reqs s))" and "\<not> published_as i h (w_db s)"
  shows "\<exists>pre now v note ts post. reqs = pre @ (now, ApproveTexture v i note ts) # post
    \<and> awaiting_review i h (w_db (texture_run C F T S J pre s))"
  using assms(3-5)
proof (induction reqs arbitrary: s)
  case (Cons r reqs)
  obtain now req where r: "r = (now, req)" by (cases r)
  let ?s = "texture_step C F T S J now req s"
  have wf: "wardrobe_wf ?s" by (rule texture_step_wf[OF assms(1) Cons.prems(1)])
  have run: "published_as i h (w_db (texture_run C F T S J reqs ?s))" using Cons.prems(2) by (simp add: r)
  show ?case
  proof (cases "published_as i h (w_db ?s)")
    case True
    from texture_step_publishes[OF assms(1,2) Cons.prems(1) True Cons.prems(3)]
    obtain v n ts where "req = ApproveTexture v i n ts" and "awaiting_review i h (w_db s)" by auto
    then show ?thesis by (intro exI[of _ "[]"] exI) (simp add: r)
  next
    case False
    from Cons.IH[OF wf run False] obtain pre t v n ts post
      where "reqs = pre @ (t, ApproveTexture v i n ts) # post"
        and "awaiting_review i h (w_db (texture_run C F T S J pre ?s))" by blast
    then show ?thesis by (intro exI[of _ "r # pre"] exI) (simp add: r)
  qed
qed simp

theorem published_textures_were_approved_witness:
  "\<exists>pre now v note ts post. approval = pre @ (now, ApproveTexture v 1 note ts) # post
    \<and> awaiting_review 1 hash_a (w_db (texture_run mem_ops plain_forge plain_textures plain_storage plain_codec pre library_state))"
  by (rule published_textures_were_approved[OF plain_storage_ok _ library_state_wf approval_publishes])
    (simp add: plain_textures_def)

text \<open>After any run the consistency check of the object storage checks every texture and reports neither a
  missing object nor a key that does not match its hash.\<close>

theorem storage_check_finds_nothing:
  assumes "process_ok S" and "wardrobe_wf s" and "se_list_fault S = None"
  shows "fst (check_object_storage_consistency S (texture_run C F T S J reqs s)) =
    Inr \<lparr>cr_checked = length (rows (minecraft_textures (w_db (texture_run C F T S J reqs s)))), cr_missing = 0,
         cr_hash_mismatched = 0, cr_issues = []\<rparr>"
proof -
  let ?s = "texture_run C F T S J reqs s"
  have "objects_ok ?s" using texture_run_wf[OF assms(1,2)] by (simp add: wardrobe_wf_def)
  then have ok: "list_all (stored (w_objects ?s)) (texture_list_all (w_db ?s))"
    by (simp add: objects_ok_def list_all_iff texture_list_all_def)
  have "check_texture (map fst (w_objects ?s)) x r = r" if "stored (w_objects ?s) x" for x r
  proof -
    from that have "map_of (w_objects ?s) (x_storage_key x) \<noteq> None" unfolding stored_def by blast
    then have "x_storage_key x \<in> set (map fst (w_objects ?s))" by (simp add: map_of_eq_None_iff del: not_None_eq)
    moreover from that have "object_storage_key_matches_hash (x_storage_key x) (x_hash x)"
      by (simp add: stored_def object_storage_key_matches_hash_def object_storage_key_def)
    ultimately show ?thesis by (simp add: check_texture_def Let_def)
  qed
  then have "fold (check_texture (map fst (w_objects ?s))) xs r = r" if "list_all (stored (w_objects ?s)) xs" for xs r
    using that by (induction xs arbitrary: r) simp_all
  from this[OF ok] show ?thesis
    by (simp add: check_object_storage_consistency_def query_def assms(3) Let_def texture_list_all_def)
qed

theorem storage_check_finds_nothing_witness:
  "fst (check_object_storage_consistency plain_storage (texture_run mem_ops plain_forge plain_textures plain_storage plain_codec
      approval library_state)) = Inr \<lparr>cr_checked = 1, cr_missing = 0, cr_hash_mismatched = 0, cr_issues = []\<rparr>"
proof -
  have n: "length (rows (minecraft_textures (w_db (texture_run mem_ops plain_forge plain_textures plain_storage plain_codec
      approval library_state)))) = 1" by code_simp
  show ?thesis
    unfolding storage_check_finds_nothing[OF plain_storage_ok library_state_wf, unfolded plain_storage_def, simplified, folded plain_storage_def]
    by (simp add: n)
qed

text \<open>A user who sets the tags of a wardrobe texture leaves exactly the tags asked for on it, each once, and
  the tags of every other texture as they were; an unknown tag changes nothing.\<close>

theorem set_tags_exact:
  assumes "textures_wf d"
  shows "case replace_wardrobe_texture_tags F T J now u i ts d of
      (Inr m, d') \<Rightarrow> distinct (tags_of i d') \<and> set (tags_of i d') = set ts \<and> (\<forall>j. j \<noteq> i \<longrightarrow> tags_of j d' = tags_of j d)
    | (Inl e, d') \<Rightarrow> d' = d"
proof (cases "\<exists>x ids tags. ensure_user_not_banned J now u TextureUpload d = Inr () \<and> user_wardrobe_texture u i d = Inr x
    \<and> normalize_texture_tag_ids ts = Inr ids \<and> known_tags ids d = Inr tags")
  case False
  then have "\<exists>e. replace_wardrobe_texture_tags F T J now u i ts d = (Inl e, d)"
    by (auto simp: replace_wardrobe_texture_tags_def bnd_def query_def check_def split: sum.splits)
  then show ?thesis by auto
next
  case True
  then obtain x ids tags where x: "ensure_user_not_banned J now u TextureUpload d = Inr ()" "user_wardrobe_texture u i d = Inr x"
    "normalize_texture_tag_ids ts = Inr ids" "known_tags ids d = Inr tags" by blast
  have i: "x_id x = i" "texture_exists i d"
    using user_wardrobe_texture_Inr[OF x(2)] by (auto simp: texture_exists_def)
  have k: "keys_ok tg_id (texture_tags d)" using assms by (simp add: textures_wf_def tags_ok_def)
  from replace_texture_tags_run[OF i(2) known_tags_exist[OF k normalize_tag_ids_Inr(1)[OF x(3)] x(4)] normalize_tag_ids_Inr(1)[OF x(3)], of F now]
  obtain t where "replace_texture_tags F now i ids d = (Inr (), d\<lparr>texture_tag_bindings := t\<rparr>)"
    "tags_of i (d\<lparr>texture_tag_bindings := t\<rparr>) = ids"
    "\<forall>j. j \<noteq> i \<longrightarrow> tags_of j (d\<lparr>texture_tag_bindings := t\<rparr>) = tags_of j d" by blast
  then show ?thesis
    using normalize_tag_ids_Inr[OF x(3)]
    by (simp add: replace_wardrobe_texture_tags_def bnd_def query_def check_def ret_def x i(1))
qed

theorem set_tags_exact_witness:
  "\<exists>m d'. replace_wardrobe_texture_tags plain_forge plain_textures plain_codec 2000 1 1 [2, 1, 2] library_db = (Inr m, d')
    \<and> set (tags_of 1 d') = {1, 2} \<and> distinct (tags_of 1 d')"
proof -
  have "textures_wf library_db" using library_state_wf by (simp add: wardrobe_wf_def library_state_def)
  note exact = set_tags_exact[OF this, where F = plain_forge and T = plain_textures and J = plain_codec and now = 2000
      and u = 1 and i = 1 and ts = "[2, 1, 2]"]
  have "\<not> isl (fst (replace_wardrobe_texture_tags plain_forge plain_textures plain_codec 2000 1 1 [2, 1, 2] library_db))" by code_simp
  from run_ok[of "\<lambda>d. replace_wardrobe_texture_tags plain_forge plain_textures plain_codec 2000 1 1 [2, 1, 2] d", OF this]
  show ?thesis using exact by (auto simp: insert_commute split: prod.splits)
qed

text \<open>Approving a submission with a review note that is too long fails, but the tags of the texture have been
  replaced by then: the request is refused and half of it done.\<close>

theorem refused_approval_replaces_tags:
  assumes "textures_wf d" and "te_enabled T" and "admin_wardrobe_texture i d = Inr x" and "x_library_status x = LibraryPendingReview"
    and "x_visibility x = VisibilityPublic" and "normalize_texture_tag_ids ts = Inr ids" and "known_tags ids d = Inr tags"
    and "char_count F (trim n) > 512" and "trim n \<noteq> []"
  shows "\<exists>d'. approve_texture_library_texture F T now v i (Some n) (Some ts) d =
      (Inl (validation_error_code ''TextureLibraryReviewNoteInvalid'' ''review note must not exceed 512 characters''), d')
    \<and> tags_of i d' = ids \<and> minecraft_textures d' = minecraft_textures d"
proof -
  have i: "x_id x = i" "texture_exists i d"
    using admin_wardrobe_texture_Inr[OF assms(3)] by (auto simp: texture_exists_def)
  have k: "keys_ok tg_id (texture_tags d)" using assms(1) by (simp add: textures_wf_def tags_ok_def)
  from replace_texture_tags_run[OF i(2) known_tags_exist[OF k normalize_tag_ids_Inr(1)[OF assms(6)] assms(7)] normalize_tag_ids_Inr(1)[OF assms(6)], of F now]
  obtain t where "replace_texture_tags F now i ids d = (Inr (), d\<lparr>texture_tag_bindings := t\<rparr>)"
    "tags_of i (d\<lparr>texture_tag_bindings := t\<rparr>) = ids" by blast
  with assms(2-9) i(1) show ?thesis
    by (intro exI[of _ "d\<lparr>texture_tag_bindings := t\<rparr>"])
      (simp add: approve_texture_library_texture_def replace_library_texture_tags_for_admin_def ensure_texture_library_enabled_def
        bnd_def query_def check_def normalize_review_note_optional_def normalize_review_note_def)
qed

theorem refused_approval_replaces_tags_witness:
  "\<exists>d'. approve_texture_library_texture plain_forge plain_textures 2000 1 1 (Some (replicate 600 (CHR ''x''))) (Some [2]) library_db =
      (Inl (validation_error_code ''TextureLibraryReviewNoteInvalid'' ''review note must not exceed 512 characters''), d')
    \<and> tags_of 1 d' = [2] \<and> minecraft_textures d' = minecraft_textures library_db"
proof (rule refused_approval_replaces_tags)
  show "textures_wf library_db" using library_state_wf by (simp add: wardrobe_wf_def library_state_def)
  show "te_enabled plain_textures" by (simp add: plain_textures_def)
  show "admin_wardrobe_texture 1 library_db = Inr submitted_texture" by code_simp
  show "x_library_status submitted_texture = LibraryPendingReview" "x_visibility submitted_texture = VisibilityPublic"
    by (simp_all add: submitted_texture_def)
  show "normalize_texture_tag_ids [2] = Inr [2]" by code_simp
  show "known_tags [2] library_db = Inr [sample_tag 2 ''warm'']" by code_simp
  show "512 < char_count plain_forge (trim (replicate 600 (CHR ''x'')))" "trim (replicate 600 (CHR ''x'')) \<noteq> []" by code_simp+
qed

text \<open>When two reports of one page are about the same texture, every one of them shows the texture without its
  tags: the tags are taken out of the map for the first entry and the second, empty one wins.\<close>

theorem reports_of_one_texture_lose_tags:
  assumes "texture_find_by_id i d = Some x" and "tr_texture_id r1 = i" and "tr_texture_id r2 = i"
  shows "map (\<lambda>info. map_option lm_tags (ri_texture info)) (texture_report_infos_by_reports T [r1, r2] d) = [Some [], Some []]"
proof -
  have "x_id x = i" using find_by_id_Some[OF assms(1)] by simp
  with assms show ?thesis
    by (simp add: texture_report_infos_by_reports_def Let_def map_filter_def texture_library_metadata_by_texture_ids_def
        last_by_def public_texture_library_metadata_with_tags_def)
qed

definition sample_report :: "row_id \<Rightarrow> row_id \<Rightarrow> texture_report" where
  "sample_report i u = \<lparr>tr_id = i, tr_texture_id = 1, tr_reporter_user_id = u, tr_reason = Spam, tr_message = None,
     tr_status = ReportPending, tr_admin_note = None, tr_handled_by_user_id = None, tr_handled_at = None,
     tr_created_at = 950, tr_updated_at = 950\<rparr>"

theorem reports_of_one_texture_lose_tags_witness:
  "map (\<lambda>info. map_option lm_tags (ri_texture info))
     (texture_report_infos_by_reports plain_textures [sample_report 1 2, sample_report 2 3] library_db) = [Some [], Some []]
   \<and> map (\<lambda>info. map_option (map ti_id \<circ> lm_tags) (ri_texture info))
     (texture_report_infos_by_reports plain_textures [sample_report 1 2] library_db) = [Some [1]]"
proof
  have "texture_find_by_id 1 library_db = Some submitted_texture" by code_simp
  then show "map (\<lambda>info. map_option lm_tags (ri_texture info))
     (texture_report_infos_by_reports plain_textures [sample_report 1 2, sample_report 2 3] library_db) = [Some [], Some []]"
    by (rule reports_of_one_texture_lose_tags) (simp_all add: sample_report_def)
  show "map (\<lambda>info. map_option (map ti_id \<circ> lm_tags) (ri_texture info))
     (texture_report_infos_by_reports plain_textures [sample_report 1 2] library_db) = [Some [1]]"
    by code_simp
qed

definition shared_texture_state :: "mem_cache wardrobe_state" where
  "shared_texture_state = library_state\<lparr>w_ygg := \<lparr>y_db = library_db\<lparr>
     minecraft_textures := \<lparr>rows = [submitted_texture\<lparr>x_is_wardrobe_item := False, x_visibility := VisibilityPrivate,
        x_library_status := LibraryPrivate\<rparr>], next_id = 2\<rparr>,
     texture_tag_bindings := empty_table,
     minecraft_profiles := \<lparr>rows = [steve, steve\<lparr>p_id := 2, p_uuid := ''u2'', p_name := ''Alex'', p_normalized_name := ''alex''\<rparr>],
        next_id = 3\<rparr>,
     profile_textures := \<lparr>rows = [\<lparr>pt_id = 1, pt_profile_id = 1, pt_texture_id = 1, pt_texture_type = Skin, pt_created_at = 1, pt_updated_at = 1\<rparr>,
        \<lparr>pt_id = 2, pt_profile_id = 2, pt_texture_id = 1, pt_texture_type = Skin, pt_created_at = 1, pt_updated_at = 1\<rparr>],
        next_id = 3\<rparr>\<rparr>, y_cache = []\<rparr>\<rparr>"


lemma orphans_loop_run:
  assumes "\<And>k. se_delete_fault S k = None"
  shows "\<exists>r'. cleanup_orphans_loop S keys r s =
      (Inr r', s\<lparr>w_objects := filter (\<lambda>e. \<not> (fst e \<in> set keys \<and> count_by_storage_key (fst e) (w_db s) = 0)) (w_objects s)\<rparr>)
    \<and> oc_scanned r' = oc_scanned r \<and> oc_deleted r' + oc_skipped r' = oc_deleted r + oc_skipped r + length keys
    \<and> oc_deleted r' = oc_deleted r + length (filter (\<lambda>k. count_by_storage_key k (w_db s) = 0) keys)"
proof (induction keys arbitrary: r s)
  case Nil
  show ?case by simp
next
  case (Cons key keys)
  show ?case
  proof (cases "count_by_storage_key key (w_db s) = 0")
    case False
    have "filter (\<lambda>e. \<not> (fst e \<in> set (key # keys) \<and> count_by_storage_key (fst e) (w_db s) = 0)) (w_objects s) =
        filter (\<lambda>e. \<not> (fst e \<in> set keys \<and> count_by_storage_key (fst e) (w_db s) = 0)) (w_objects s)"
      using False by (intro filter_cong) auto
    with Cons.IH[of "r\<lparr>oc_skipped := oc_skipped r + 1\<rparr>" s] False show ?thesis by auto
  next
    case True
    let ?s = "s\<lparr>w_objects := without_object key (w_objects s)\<rparr>"
    have "filter (\<lambda>e. \<not> (fst e \<in> set (key # keys) \<and> count_by_storage_key (fst e) (w_db s) = 0)) (w_objects s) =
        filter (\<lambda>e. \<not> (fst e \<in> set keys \<and> count_by_storage_key (fst e) (w_db s) = 0)) (without_object key (w_objects s))"
      unfolding without_object_def filter_filter using True by (intro filter_cong) auto
    with Cons.IH[of "r\<lparr>oc_deleted := oc_deleted r + 1\<rparr>" ?s] True assms[of key] show ?thesis by auto
  qed
qed

text \<open>Without storage faults the orphan cleanup removes exactly the texture objects that no texture refers to, and
  its counts add up.\<close>

theorem orphan_cleanup_exact:
  assumes "se_list_fault S = None" and "\<And>k. se_delete_fault S k = None"
  shows "\<exists>r. cleanup_orphan_texture_blobs S s =
      (Inr r, s\<lparr>w_objects := filter (\<lambda>e. \<not> (is_texture_blob_storage_key (fst e) \<and> count_by_storage_key (fst e) (w_db s) = 0)) (w_objects s)\<rparr>)
    \<and> oc_scanned r = oc_deleted r + oc_skipped r"
proof -
  let ?keys = "filter is_texture_blob_storage_key (map fst (w_objects s))"
  have "filter (\<lambda>e. \<not> (fst e \<in> set ?keys \<and> count_by_storage_key (fst e) (w_db s) = 0)) (w_objects s) =
      filter (\<lambda>e. \<not> (is_texture_blob_storage_key (fst e) \<and> count_by_storage_key (fst e) (w_db s) = 0)) (w_objects s)"
    by (intro filter_cong) auto
  with orphans_loop_run[where S = S and keys = ?keys and s = s and r = "\<lparr>oc_scanned = length ?keys, oc_deleted = 0, oc_skipped = 0\<rparr>", OF assms(2)]
  show ?thesis by (auto simp: cleanup_orphan_texture_blobs_def assms(1) Let_def)
qed

theorem orphan_cleanup_exact_witness:
  "\<exists>r. cleanup_orphan_texture_blobs plain_storage
        (library_state\<lparr>w_objects := [(object_storage_key hash_b, ''old''), (object_storage_key hash_a, ''png''), (''avatars/1.png'', ''x'')]\<rparr>) =
      (Inr r, library_state\<lparr>w_objects := [(object_storage_key hash_a, ''png''), (''avatars/1.png'', ''x'')]\<rparr>)
    \<and> oc_scanned r = oc_deleted r + oc_skipped r"
proof -
  let ?s = "library_state\<lparr>w_objects := [(object_storage_key hash_b, ''old''), (object_storage_key hash_a, ''png''), (''avatars/1.png'', ''x'')]\<rparr>"
  have f: "filter (\<lambda>e. \<not> (is_texture_blob_storage_key (fst e) \<and> count_by_storage_key (fst e) (w_db ?s) = 0)) (w_objects ?s)
      = [(object_storage_key hash_a, ''png''), (''avatars/1.png'', ''x'')]" by code_simp
  have "\<exists>r. cleanup_orphan_texture_blobs plain_storage ?s =
      (Inr r, ?s\<lparr>w_objects := filter (\<lambda>e. \<not> (is_texture_blob_storage_key (fst e) \<and> count_by_storage_key (fst e) (w_db ?s) = 0)) (w_objects ?s)\<rparr>)
    \<and> oc_scanned r = oc_deleted r + oc_skipped r"
    by (rule orphan_cleanup_exact) (simp_all add: plain_storage_def)
  then show ?thesis unfolding f by simp
qed

end
