(* ===== verification/External_Auth.thy ===== *)
theory External_Auth
  imports Invitations
begin

text \<open>
  \<open>services/external_auth_service/\<close>: signing in through an external provider.  A callback is matched with the
  login flow it answers, the claims of the provider are resolved to a local account, which may be linked or
  created on the way, and an account that cannot be resolved goes through a verification e-mail or the
  password of a local account.  The drivers, their normalisers and hashes (\<open>aster_forge_external_auth\<close>), the
  JSON of the provider options and the HTTP exchange with LinuxDO are fields of \<open>external_env\<close>; the random
  parts of a request are its \<open>external_random\<close>.
\<close>

section \<open>Options of a provider\<close>

record microsoft_options =
  ms_tenant :: string
  ms_legacy :: "bool option"

record linuxdo_options =
  ld_min_trust_level :: int
  ld_auto_create_profile :: bool

record provider_options =
  po_microsoft :: "microsoft_options option"
  po_linuxdo :: "linuxdo_options option"
  po_allow_login :: bool
  po_allow_unlink :: bool

definition default_provider_options :: provider_options where
  "default_provider_options =
     \<lparr>po_microsoft = None, po_linuxdo = None, po_allow_login = True, po_allow_unlink = True\<rparr>"

definition microsoft_normalized :: "microsoft_options \<Rightarrow> microsoft_options option" where
  "microsoft_normalized m = (if trim (ms_tenant m) = [] then None else Some (m\<lparr>ms_tenant := trim (ms_tenant m)\<rparr>))"

definition linuxdo_normalized :: "linuxdo_options \<Rightarrow> linuxdo_options option" where
  "linuxdo_normalized l = Some (l\<lparr>ld_min_trust_level := max 0 (min 4 (ld_min_trust_level l))\<rparr>)"

definition options_normalized :: "provider_options \<Rightarrow> provider_options" where
  "options_normalized p = p\<lparr>po_microsoft := Option.bind (po_microsoft p) microsoft_normalized,
     po_linuxdo := Option.bind (po_linuxdo p) linuxdo_normalized\<rparr>"

fun provider_kind_as_str :: "external_provider_kind \<Rightarrow> string" where
  "provider_kind_as_str KindOidc = ''oidc''"
| "provider_kind_as_str KindGenericOAuth2 = ''generic_oauth2''"
| "provider_kind_as_str KindGitHub = ''github''"
| "provider_kind_as_str KindGoogle = ''google''"
| "provider_kind_as_str KindMicrosoft = ''microsoft''"
| "provider_kind_as_str KindQq = ''qq''"
| "provider_kind_as_str KindLinuxDo = ''linuxdo''"

section \<open>What the service takes from libraries and configuration\<close>

text \<open>\<open>ExternalAuthProfile\<close>: what a provider says about the person signing in.\<close>

record external_claims =
  cl_identity_namespace :: string
  cl_subject :: string
  cl_email :: "string option"
  cl_email_verified :: bool
  cl_display_name :: "string option"
  cl_preferred_username :: "string option"

record authorization_start =
  as_authorization_url :: string
  as_state :: string
  as_nonce :: "string option"
  as_pkce_verifier :: "string option"

record external_callback =
  cb_code :: string
  cb_nonce :: "string option"
  cb_pkce_verifier :: "string option"
  cb_redirect_uri :: string

record linuxdo_exchange =
  le_client_id :: string
  le_client_secret :: string
  le_code :: string
  le_redirect_uri :: string
  le_pkce_verifier :: "string option"
  le_token_url :: string
  le_userinfo_url :: string

record linuxdo_user_info =
  lu_id :: nat
  lu_username :: string
  lu_name :: "string option"
  lu_trust_level :: "int option"

record external_env =
  xa_account :: account_env
  xa_codec :: scope_codec
  xa_mojang :: "string \<Rightarrow> mojang_lookup result"
  xa_ygg_policy :: ygg_policy
  xa_options_from_json :: "string \<Rightarrow> provider_options option"
  xa_normalize_key :: "string \<Rightarrow> string result"
  xa_normalize_return_path :: "string option \<Rightarrow> string result"
  xa_normalize_flow_token :: "string \<Rightarrow> string result"
  xa_state_hash :: "string \<Rightarrow> string"
  xa_token_hash :: "string \<Rightarrow> string"
  xa_email_domain_allowed :: "string option \<Rightarrow> string \<Rightarrow> bool result"
  xa_public_url :: "string \<Rightarrow> string option"
  xa_start :: "external_provider \<Rightarrow> string \<Rightarrow> authorization_start result"
  xa_exchange :: "external_provider \<Rightarrow> external_callback \<Rightarrow> external_claims result"
  xa_linuxdo :: "linuxdo_exchange \<Rightarrow> linuxdo_user_info result"
  xa_trust_json :: "int \<Rightarrow> string"
  xa_trust_from_json :: "string \<Rightarrow> int option"

record external_random =
  er_suffix :: "nat \<Rightarrow> string"
  er_password :: "nat \<Rightarrow> string"
  er_token :: string
  er_profile_uuid :: string

definition xa_forge :: "external_env \<Rightarrow> forge" where
  "xa_forge X = ae_forge (xa_account X)"

definition parse_external_auth_provider_options :: "external_env \<Rightarrow> string \<Rightarrow> provider_options" where
  "parse_external_auth_provider_options X options =
     options_normalized (case xa_options_from_json X options of None \<Rightarrow> default_provider_options | Some p \<Rightarrow> p)"

definition email_domain_allowed :: "external_env \<Rightarrow> external_provider \<Rightarrow> string \<Rightarrow> bool result" where
  "email_domain_allowed X provider email = xa_email_domain_allowed X (xp_allowed_domains provider) email"

definition normalize_email_for_external_auth :: "forge \<Rightarrow> string \<Rightarrow> string result" where
  "normalize_email_for_external_auth F value = map_sum id (\<lambda>_. trim value) (validate_email F (trim value))"

definition public_provider_key :: "external_provider_kind \<Rightarrow> string \<Rightarrow> string" where
  "public_provider_key kind stored_key = (if kind = KindMicrosoft then ''microsoft'' else stored_key)"

definition provider_key_matches :: "external_provider_kind \<Rightarrow> string \<Rightarrow> string \<Rightarrow> bool" where
  "provider_key_matches kind stored_key requested_key =
     (stored_key = requested_key \<or> kind = KindMicrosoft \<and> requested_key = ''microsoft'')"

definition callback_path :: "external_provider_kind \<Rightarrow> string \<Rightarrow> string" where
  "callback_path kind key =
     (if kind = KindLinuxDo then ''/api/v1/auth/external-auth/linuxdo/callback''
      else ''/api/v1/auth/external-auth/'' @ provider_kind_as_str kind @ ''/'' @ key @ ''/callback'')"

definition callback_redirect_uri :: "external_env \<Rightarrow> external_provider_kind \<Rightarrow> string \<Rightarrow> string result" where
  "callback_redirect_uri X kind key =
     (case xa_public_url X (callback_path kind key) of
        None \<Rightarrow> Inl (validation_error_code ''ExternalAuthCallbackRedirectUriRequired''
                      ''cannot build external auth callback redirect URI; configure public_site_url'')
      | Some uri \<Rightarrow>
          if prefix ''/'' uri
          then Inl (validation_error_code ''ExternalAuthCallbackRedirectUriRequired''
                 ''external auth callback redirect URI must be absolute; configure public_site_url'')
          else Inr uri)"

section \<open>Repositories\<close>

definition provider_not_found :: "row_id \<Rightarrow> aster_error" where
  "provider_not_found i = RecordNotFound (''external auth provider #'' @ show_int i)"

definition find_provider_by_id :: "row_id \<Rightarrow> db \<Rightarrow> external_provider result" where
  "find_provider_by_id i d =
     (case select_one (\<lambda>p. xp_id p = i) (external_providers d) of None \<Rightarrow> Inl (provider_not_found i) | Some p \<Rightarrow> Inr p)"

definition find_provider_by_kind_key :: "external_provider_kind \<Rightarrow> string \<Rightarrow> db \<Rightarrow> external_provider option" where
  "find_provider_by_kind_key kind key d =
     select_one (\<lambda>p. xp_provider_kind p = kind \<and> xp_key p = key) (external_providers d)"

definition order_providers :: "external_provider list \<Rightarrow> external_provider list" where
  "order_providers ps = sort_key xp_display_name (order_by_asc xp_id ps)"

definition find_all_providers :: "db \<Rightarrow> external_provider list" where
  "find_all_providers d = order_providers (rows (external_providers d))"

definition find_enabled_by_kind :: "external_provider_kind \<Rightarrow> db \<Rightarrow> external_provider list" where
  "find_enabled_by_kind kind d =
     order_providers (select_all (\<lambda>p. xp_enabled p \<and> xp_provider_kind p = kind) (external_providers d))"

text \<open>Deleting a provider deletes its identities and flows (\<open>ForeignKeyAction::Cascade\<close>).\<close>

definition delete_provider :: "row_id \<Rightarrow> (db, aster_error, unit) handler" where
  "delete_provider i = statement (\<lambda>d.
     let (n, t) = delete_many (\<lambda>p. xp_id p = i) (external_providers d)
     in if n = 0 then Inl (provider_not_found i)
        else Inr ((), d\<lparr>external_providers := t,
          external_identities := snd (delete_many (\<lambda>e. ei_provider_id e = i) (external_identities d)),
          external_login_flows := snd (delete_many (\<lambda>f. lf_provider_id f = i) (external_login_flows d)),
          external_email_flows := snd (delete_many (\<lambda>f. ef_provider_id f = i) (external_email_flows d)),
          external_binding_flows := snd (delete_many (\<lambda>f. gf_provider_id f = i) (external_binding_flows d))\<rparr>))"

definition find_by_identity_namespace_subject :: "string \<Rightarrow> string \<Rightarrow> db \<Rightarrow> external_identity option" where
  "find_by_identity_namespace_subject namespace subject d =
     select_one (\<lambda>e. ei_identity_namespace e = namespace \<and> ei_subject e = subject) (external_identities d)"

definition find_by_provider_for_user :: "row_id \<Rightarrow> row_id \<Rightarrow> db \<Rightarrow> external_identity option" where
  "find_by_provider_for_user provider_id user_id d =
     select_one (\<lambda>e. ei_provider_id e = provider_id \<and> ei_user_id e = user_id) (external_identities d)"

definition find_identity_for_user :: "row_id \<Rightarrow> row_id \<Rightarrow> db \<Rightarrow> external_identity option" where
  "find_identity_for_user i user_id d =
     select_one (\<lambda>e. ei_id e = i \<and> ei_user_id e = user_id) (external_identities d)"

text \<open>Rows that never signed in sort last.\<close>

definition list_identities_for_user :: "row_id \<Rightarrow> db \<Rightarrow> external_identity list" where
  "list_identities_for_user user_id d =
     (let es = order_by_desc ei_created_at (select_all (\<lambda>e. ei_user_id e = user_id) (external_identities d))
      in order_by_desc (\<lambda>e. the (ei_last_login_at e)) (filter (\<lambda>e. ei_last_login_at e \<noteq> None) es)
         @ filter (\<lambda>e. ei_last_login_at e = None) es)"

text \<open>The unique indexes of the migration: one identity per provider and subject, per namespace and subject,
  and per user and provider.\<close>

definition identity_free :: "external_identity \<Rightarrow> external_identity table \<Rightarrow> bool" where
  "identity_free e t =
     (\<forall>o' \<in> set (rows t).
        \<not> (ei_subject o' = ei_subject e
           \<and> (ei_provider_id o' = ei_provider_id e \<or> ei_identity_namespace o' = ei_identity_namespace e))
        \<and> \<not> (ei_user_id o' = ei_user_id e \<and> ei_provider_id o' = ei_provider_id e))"

definition identity_refs :: "row_id \<Rightarrow> row_id \<Rightarrow> db \<Rightarrow> bool" where
  "identity_refs user_id provider_id d =
     ((\<exists>u \<in> set (rows (users d)). u_id u = user_id) \<and> (\<exists>p \<in> set (rows (external_providers d)). xp_id p = provider_id))"

record create_identity_input =
  ci_user_id :: row_id
  ci_provider_id :: row_id
  ci_identity_namespace :: string
  ci_subject :: string
  ci_email_snapshot :: "string option"
  ci_display_name_snapshot :: "string option"
  ci_metadata :: "string option"

definition new_identity :: "time \<Rightarrow> create_identity_input \<Rightarrow> row_id \<Rightarrow> external_identity" where
  "new_identity now input i =
     \<lparr>ei_id = i, ei_user_id = ci_user_id input, ei_provider_id = ci_provider_id input,
      ei_identity_namespace = ci_identity_namespace input, ei_subject = ci_subject input,
      ei_email_snapshot = ci_email_snapshot input, ei_display_name_snapshot = ci_display_name_snapshot input,
      ei_metadata = ci_metadata input, ei_created_at = now, ei_updated_at = now, ei_last_login_at = Some now\<rparr>"

definition create_identity :: "forge \<Rightarrow> time \<Rightarrow> create_identity_input \<Rightarrow> (db, aster_error, external_identity) handler" where
  "create_identity F now input = statement (\<lambda>d.
     let (e, t) = insert_row (new_identity now input) (external_identities d)
     in if \<not> identity_refs (ci_user_id input) (ci_provider_id input) d
        then Inl (DatabaseOperation (db_err_text F ForeignKeyViolation))
        else if \<not> identity_free e (external_identities d)
        then Inl (DatabaseOperation (db_err_text F UniqueViolation))
        else Inr (e, d\<lparr>external_identities := t\<rparr>))"

definition touched :: "string option \<Rightarrow> string option \<Rightarrow> string option \<Rightarrow> time \<Rightarrow> external_identity \<Rightarrow> external_identity" where
  "touched email display_name metadata now e =
     (let e = set_some email (\<lambda>v r. r\<lparr>ei_email_snapshot := Some v\<rparr>) e;
          e = set_some display_name (\<lambda>v r. r\<lparr>ei_display_name_snapshot := Some v\<rparr>) e;
          e = set_some metadata (\<lambda>v r. r\<lparr>ei_metadata := Some v\<rparr>) e
      in e\<lparr>ei_last_login_at := Some now, ei_updated_at := now\<rparr>)"

definition touch_login ::
    "row_id \<Rightarrow> string option \<Rightarrow> string option \<Rightarrow> string option \<Rightarrow> time \<Rightarrow> (db, aster_error, bool) handler" where
  "touch_login i email display_name metadata now = statement (\<lambda>d.
     let (n, t) = update_many (\<lambda>e. ei_id e = i) (touched email display_name metadata now) (external_identities d)
     in Inr (n = 1, d\<lparr>external_identities := t\<rparr>))"

definition delete_identity_for_user :: "row_id \<Rightarrow> row_id \<Rightarrow> (db, aster_error, bool) handler" where
  "delete_identity_for_user i user_id = statement (\<lambda>d.
     let (n, t) = delete_many (\<lambda>e. ei_id e = i \<and> ei_user_id e = user_id) (external_identities d)
     in Inr (n = 1, d\<lparr>external_identities := t\<rparr>))"

text \<open>The hash of the state is unique.\<close>

definition login_flow_create :: "forge \<Rightarrow> (row_id \<Rightarrow> external_login_flow) \<Rightarrow> (db, aster_error, external_login_flow) handler" where
  "login_flow_create F model = statement (\<lambda>d.
     let (f, t) = insert_row model (external_login_flows d)
     in if \<exists>g \<in> set (rows (external_login_flows d)). lf_state_hash g = lf_state_hash f
        then Inl (DatabaseOperation (db_err_text F UniqueViolation))
        else Inr (f, d\<lparr>external_login_flows := t\<rparr>))"

definition login_flow_live :: "time \<Rightarrow> external_login_flow \<Rightarrow> bool" where
  "login_flow_live now f = (lf_consumed_at f = None \<and> lf_expires_at f > now)"

definition consume_by_state_hash :: "time \<Rightarrow> string \<Rightarrow> (db, aster_error, external_login_flow option) handler" where
  "consume_by_state_hash now h = statement (\<lambda>d.
     case select_one (\<lambda>f. lf_state_hash f = h \<and> login_flow_live now f) (external_login_flows d) of
       None \<Rightarrow> Inr (None, d)
     | Some flow \<Rightarrow>
         let (n, t) = update_many (\<lambda>f. lf_id f = lf_id flow \<and> login_flow_live now f)
               (\<lambda>f. f\<lparr>lf_consumed_at := Some now\<rparr>) (external_login_flows d)
         in Inr (if n = 1 then Some flow else None, d\<lparr>external_login_flows := t\<rparr>))"

definition cleanup_login_flows :: "time \<Rightarrow> (db, aster_error, nat) handler" where
  "cleanup_login_flows now = statement (\<lambda>d.
     let (n, t) = delete_many (\<lambda>f. lf_expires_at f < now) (external_login_flows d)
     in Inr (n, d\<lparr>external_login_flows := t\<rparr>))"

text \<open>The hash of the flow token is unique.\<close>

definition email_flow_create :: "forge \<Rightarrow> (row_id \<Rightarrow> external_email_flow) \<Rightarrow> (db, aster_error, external_email_flow) handler" where
  "email_flow_create F model = statement (\<lambda>d.
     let (f, t) = insert_row model (external_email_flows d)
     in if \<exists>g \<in> set (rows (external_email_flows d)). ef_flow_token_hash g = ef_flow_token_hash f
        then Inl (DatabaseOperation (db_err_text F UniqueViolation))
        else Inr (f, d\<lparr>external_email_flows := t\<rparr>))"

definition email_flow_live :: "time \<Rightarrow> external_email_flow \<Rightarrow> bool" where
  "email_flow_live now f = (ef_consumed_at f = None \<and> ef_expires_at f > now)"

definition find_active_by_flow_token_hash :: "time \<Rightarrow> string \<Rightarrow> db \<Rightarrow> external_email_flow option" where
  "find_active_by_flow_token_hash now h d =
     select_one (\<lambda>f. ef_flow_token_hash f = h \<and> email_flow_live now f) (external_email_flows d)"

definition find_active_by_verification_token_hash :: "time \<Rightarrow> string \<Rightarrow> db \<Rightarrow> external_email_flow option" where
  "find_active_by_verification_token_hash now h d =
     select_one (\<lambda>f. ef_verification_token_hash f = Some h \<and> email_flow_live now f) (external_email_flows d)"

definition update_email_request :: "time \<Rightarrow> row_id \<Rightarrow> string \<Rightarrow> string \<Rightarrow> (db, aster_error, bool) handler" where
  "update_email_request now i target_email token_hash = statement (\<lambda>d.
     let (n, t) = update_many (\<lambda>f. ef_id f = i \<and> ef_verification_token_hash f = None \<and> email_flow_live now f)
           (\<lambda>f. f\<lparr>ef_target_email := Some target_email, ef_verification_token_hash := Some token_hash,
                  ef_email_requested_at := Some now\<rparr>) (external_email_flows d)
     in Inr (n = 1, d\<lparr>external_email_flows := t\<rparr>))"

definition mark_flow_consumed_if_unused :: "time \<Rightarrow> row_id \<Rightarrow> (db, aster_error, bool) handler" where
  "mark_flow_consumed_if_unused now i = statement (\<lambda>d.
     let (n, t) = update_many (\<lambda>f. ef_id f = i \<and> email_flow_live now f) (\<lambda>f. f\<lparr>ef_consumed_at := Some now\<rparr>)
           (external_email_flows d)
     in Inr (n = 1, d\<lparr>external_email_flows := t\<rparr>))"

definition cleanup_email_flows :: "time \<Rightarrow> (db, aster_error, nat) handler" where
  "cleanup_email_flows now = statement (\<lambda>d.
     let (n, t) = delete_many (\<lambda>f. ef_expires_at f < now) (external_email_flows d)
     in Inr (n, d\<lparr>external_email_flows := t\<rparr>))"

definition cleanup_binding_flows :: "time \<Rightarrow> (db, aster_error, nat) handler" where
  "cleanup_binding_flows now = statement (\<lambda>d.
     let (n, t) = delete_many (\<lambda>f. gf_expires_at f < now) (external_binding_flows d)
     in Inr (n, d\<lparr>external_binding_flows := t\<rparr>))"

section \<open>Resolving claims to an account\<close>

record resolved_user =
  ru_user :: user
  ru_linked :: bool
  ru_auto_provisioned :: bool

definition has_email :: "external_claims \<Rightarrow> bool" where
  "has_email claims = (case cl_email claims of None \<Rightarrow> False | Some e \<Rightarrow> e \<noteq> [])"

definition external_auth_claims_missing_email :: "external_claims \<Rightarrow> bool" where
  "external_auth_claims_missing_email claims = (\<not> has_email claims)"

definition require_email_if_configured :: "external_provider \<Rightarrow> external_claims \<Rightarrow> unit result" where
  "require_email_if_configured provider claims =
     (if \<not> xp_require_email_verified provider then Inr ()
      else if \<not> has_email claims
      then Inl (AuthForbidden ''external auth provider requires a verified email but no email claim was returned'')
      else if \<not> cl_email_verified claims then Inl (AuthForbidden ''external auth provider requires verified email'')
      else Inr ())"

definition username_char :: "char \<Rightarrow> char option" where
  "username_char c =
     (if is_ascii_alphanumeric c \<or> c = CHR ''_'' \<or> c = CHR ''-'' then Some (lower_char c)
      else if c = CHR ''.'' \<or> c = CHR '' '' then Some (CHR ''-'') else None)"

definition sanitize_username_piece :: "string \<Rightarrow> string" where
  "sanitize_username_piece value = trim_matches (CHR ''-'') (List.map_filter username_char value)"

text \<open>\<open>while base.len() < USERNAME_MIN_LEN { base.push('0') }\<close>\<close>

function pad_username :: "string \<Rightarrow> string" where
  "pad_username base = (if length base < 4 then pad_username (base @ ''0'') else base)"
  by pat_completeness auto
termination by (relation "measure (\<lambda>base. 4 - length base)") auto

declare pad_username.simps [simp del]

definition usable_piece :: "string option \<Rightarrow> string option" where
  "usable_piece value =
     (case map_option sanitize_username_piece value of
        None \<Rightarrow> None | Some piece \<Rightarrow> if 4 \<le> length piece then Some piece else None)"

definition username_truncate :: "nat \<Rightarrow> string \<Rightarrow> string" where
  "username_truncate n base = (if length base > n then trim_matches (CHR ''-'') (take n base) else base)"

definition external_auth_username_base :: "forge \<Rightarrow> external_claims \<Rightarrow> string" where
  "external_auth_username_base F claims =
     (let base = (case usable_piece (cl_preferred_username claims) of
                    Some piece \<Rightarrow> piece
                  | None \<Rightarrow>
                      (case usable_piece (map_option (takeWhile (\<lambda>c. c \<noteq> CHR ''@'')) (cl_email claims)) of
                         Some piece \<Rightarrow> piece
                       | None \<Rightarrow> ''oidc'' @ take 8 (sha256_hex F (cl_subject claims))))
      in pad_username (username_truncate 16 base))"

definition external_auth_username_candidate :: "(nat \<Rightarrow> string) \<Rightarrow> string \<Rightarrow> nat \<Rightarrow> string" where
  "external_auth_username_candidate random_suffix base turn =
     (if turn = 0 then base else
      let suffix = random_suffix turn;
          stem = username_truncate (16 - (length suffix + 1)) base;
          stem = (if length stem < 4 then ''oidc'' else stem)
      in stem @ ''-'' @ suffix)"

definition linuxdo_subject_username_candidate :: "external_claims \<Rightarrow> string option" where
  "linuxdo_subject_username_candidate claims =
     (let subject = sanitize_username_piece (cl_subject claims) in
      if subject = [] then None else
      let candidate = ''linuxdo_'' @ take 8 subject
      in if 4 \<le> length candidate \<and> length candidate \<le> 16 then Some candidate else None)"

definition external_auth_username_candidate_for_provider ::
    "(nat \<Rightarrow> string) \<Rightarrow> external_provider \<Rightarrow> external_claims \<Rightarrow> string \<Rightarrow> nat \<Rightarrow> string" where
  "external_auth_username_candidate_for_provider random_suffix provider claims base turn =
     (if xp_provider_kind provider \<noteq> KindLinuxDo then external_auth_username_candidate random_suffix base turn
      else external_auth_username_candidate random_suffix
             (case linuxdo_subject_username_candidate claims of None \<Rightarrow> base | Some name \<Rightarrow> name) turn)"

definition external_auth_username_conflict :: "aster_error \<Rightarrow> bool" where
  "external_auth_username_conflict e = (api_error_code_override e = Some ''AuthUsernameExists'')"

definition claims_with_verified_local_email :: "external_email_flow \<Rightarrow> string \<Rightarrow> external_claims" where
  "claims_with_verified_local_email flow email =
     \<lparr>cl_identity_namespace = ef_identity_namespace flow, cl_subject = ef_subject flow, cl_email = Some email,
      cl_email_verified = True, cl_display_name = ef_display_name_snapshot flow,
      cl_preferred_username = ef_preferred_username_snapshot flow\<rparr>"

definition claims_without_provider_email :: "external_email_flow \<Rightarrow> external_claims" where
  "claims_without_provider_email flow =
     \<lparr>cl_identity_namespace = ef_identity_namespace flow, cl_subject = ef_subject flow, cl_email = None,
      cl_email_verified = False, cl_display_name = ef_display_name_snapshot flow,
      cl_preferred_username = ef_preferred_username_snapshot flow\<rparr>"

definition create_identity_for_claims ::
    "forge \<Rightarrow> time \<Rightarrow> row_id \<Rightarrow> external_provider \<Rightarrow> external_claims \<Rightarrow> string option \<Rightarrow>
     (db, aster_error, external_identity) handler" where
  "create_identity_for_claims F now user_id provider claims metadata =
     create_identity F now
       \<lparr>ci_user_id = user_id, ci_provider_id = xp_id provider,
        ci_identity_namespace = cl_identity_namespace claims, ci_subject = cl_subject claims,
        ci_email_snapshot = cl_email claims, ci_display_name_snapshot = cl_display_name claims,
        ci_metadata = metadata\<rparr>"

definition touch_claims :: "time \<Rightarrow> row_id \<Rightarrow> external_claims \<Rightarrow> string option \<Rightarrow> (db, aster_error, bool) handler" where
  "touch_claims now i claims metadata = touch_login i (cl_email claims) (cl_display_name claims) metadata now"

definition find_identity_of_claims :: "external_claims \<Rightarrow> db \<Rightarrow> external_identity option" where
  "find_identity_of_claims claims d =
     find_by_identity_namespace_subject (cl_identity_namespace claims) (cl_subject claims) d"

definition link_external_auth_identity_to_authenticated_user ::
    "forge \<Rightarrow> time \<Rightarrow> external_provider \<Rightarrow> external_claims \<Rightarrow> user \<Rightarrow> (db, aster_error, resolved_user) handler" where
  "link_external_auth_identity_to_authenticated_user F now provider claims u =
     bnd (query (\<lambda>d. Inr (find_identity_of_claims claims d))) (\<lambda>found.
     case found of
       Some identity \<Rightarrow>
         if ei_user_id identity \<noteq> u_id u
         then raise (AuthForbidden ''external auth identity is already linked to another user'')
         else bnd (touch_claims now (ei_id identity) claims None) (\<lambda>_.
              ret \<lparr>ru_user = u, ru_linked = False, ru_auto_provisioned = False\<rparr>)
     | None \<Rightarrow>
         bnd (create_identity_for_claims F now (u_id u) provider claims None) (\<lambda>_.
         ret \<lparr>ru_user = u, ru_linked = True, ru_auto_provisioned = False\<rparr>))"

text \<open>\<open>for attempt in 0..UNIQUE_USERNAME_MAX_ATTEMPTS\<close>: a username that is taken is retried, any other
  error ends the loop.\<close>

fun username_attempts :: "(nat \<Rightarrow> (db, aster_error, user) handler) \<Rightarrow> nat list \<Rightarrow> (db, aster_error, user) handler" where
  "username_attempts m [] d =
     (Inl (ValidationError ''failed to allocate unique username for external auth user''), d)"
| "username_attempts m (n # ns) d =
     (case m n d of
        (Inr u, d') \<Rightarrow> (Inr u, d')
      | (Inl e, d') \<Rightarrow> if external_auth_username_conflict e then username_attempts m ns d' else (Inl e, d'))"

definition external_user_input ::
    "external_env \<Rightarrow> external_random \<Rightarrow> external_provider \<Rightarrow> external_claims \<Rightarrow> nat \<Rightarrow> create_user_input" where
  "external_user_input X R provider claims turn =
     \<lparr>cu_username = external_auth_username_candidate_for_provider (er_suffix R) provider claims
                      (external_auth_username_base (xa_forge X) claims) turn,
      cu_password = er_password R turn, cu_role = RoleUser, cu_status = UserActive,
      cu_must_change_password = False,
      cu_allow_reserved_linuxdo_username = (xp_provider_kind provider = KindLinuxDo)\<rparr>"

definition registration_disabled :: aster_error where
  "registration_disabled = auth_forbidden_code ''AuthRegistrationDisabled'' ''new user registration is disabled''"

definition domain_not_allowed :: aster_error where
  "domain_not_allowed = AuthForbidden ''external auth email domain is not allowed for this provider''"

definition account_disabled :: aster_error where
  "account_disabled = AuthForbidden ''account is disabled''"

definition required_email :: "string \<Rightarrow> external_claims \<Rightarrow> string result" where
  "required_email message claims = (case cl_email claims of None \<Rightarrow> Inl (AuthForbidden message) | Some e \<Rightarrow> Inr e)"

definition check_domain :: "external_env \<Rightarrow> external_provider \<Rightarrow> string \<Rightarrow> unit result" where
  "check_domain X provider email =
     (case email_domain_allowed X provider email of
        Inl e \<Rightarrow> Inl e | Inr allowed \<Rightarrow> if allowed then Inr () else Inl domain_not_allowed)"

record resolve_options =
  rs_enforce_email_domain :: bool
  rs_allow_verified_email_auto_link :: bool

definition default_resolve_options :: resolve_options where
  "default_resolve_options = \<lparr>rs_enforce_email_domain = True, rs_allow_verified_email_auto_link = True\<rparr>"

definition needs_verified_email :: "external_provider \<Rightarrow> external_claims \<Rightarrow> bool" where
  "needs_verified_email provider claims =
     ((xp_require_email_verified provider \<or> xp_auto_link_verified_email_enabled provider) \<and> \<not> cl_email_verified claims)"

definition create_external_auth_user_and_identity ::
    "external_env \<Rightarrow> external_random \<Rightarrow> time \<Rightarrow> external_provider \<Rightarrow> external_claims \<Rightarrow> string option \<Rightarrow> resolve_options \<Rightarrow>
     (db, aster_error, resolved_user) handler" where
  "create_external_auth_user_and_identity X R now provider claims metadata options =
     (if \<not> ap_allow_user_registration (ae_policy (xa_account X)) then raise registration_disabled else
      bnd (check (required_email ''external auth auto provisioning requires an email claim'' claims)) (\<lambda>base_email.
      if needs_verified_email provider claims
      then raise (AuthForbidden ''external auth auto provisioning requires verified email'') else
      bnd (check (if rs_enforce_email_domain options then check_domain X provider base_email else Inr ())) (\<lambda>_.
      bnd (username_attempts (\<lambda>turn. transaction
             (bnd (query (\<lambda>d. Inr (find_by_email base_email d))) (\<lambda>existing.
              if existing \<noteq> None then raise (ValidationError ''account exists; automatic linking disabled'') else
              bnd (create_user_with_role (xa_account X) now (external_user_input X R provider claims turn) base_email
                     (if cl_email_verified claims then Some now else None)) (\<lambda>u.
              bnd (create_identity_for_claims (xa_forge X) now (u_id u) provider claims metadata) (\<lambda>_.
              ret u))))) [0..<5]) (\<lambda>u.
      ret \<lparr>ru_user = u, ru_linked = True, ru_auto_provisioned = True\<rparr>))))"

definition resolve_external_auth_user_without_email ::
    "external_env \<Rightarrow> external_random \<Rightarrow> time \<Rightarrow> external_provider \<Rightarrow> external_claims \<Rightarrow> string option \<Rightarrow>
     (db, aster_error, resolved_user) handler" where
  "resolve_external_auth_user_without_email X R now provider claims metadata =
     (if \<not> ap_allow_user_registration (ae_policy (xa_account X)) then raise registration_disabled else
      bnd (username_attempts (\<lambda>turn. transaction
             (bnd (create_user_without_email_with_role (xa_account X) now
                     (external_user_input X R provider claims turn)) (\<lambda>u.
              bnd (create_identity_for_claims (xa_forge X) now (u_id u) provider claims metadata) (\<lambda>_.
              ret u)))) [0..<5]) (\<lambda>u.
      ret \<lparr>ru_user = u, ru_linked = True, ru_auto_provisioned = True\<rparr>))"

definition create_external_auth_user_and_identity_in_connection ::
    "external_env \<Rightarrow> external_random \<Rightarrow> time \<Rightarrow> external_provider \<Rightarrow> external_claims \<Rightarrow> (db, aster_error, user) handler" where
  "create_external_auth_user_and_identity_in_connection X R now provider claims =
     (if \<not> ap_allow_user_registration (ae_policy (xa_account X)) then raise registration_disabled else
      bnd (check (required_email ''external auth auto provisioning requires an email claim'' claims)) (\<lambda>email.
      bnd (check (check_domain X provider email)) (\<lambda>_.
      bnd (query (\<lambda>d. Inr (find_by_email email d))) (\<lambda>existing.
      if existing \<noteq> None
      then raise (ValidationError ''user email already exists but automatic email linking is disabled'') else
      username_attempts (\<lambda>turn.
        bnd (create_user_with_role (xa_account X) now (external_user_input X R provider claims turn) email
               (Some now)) (\<lambda>u.
        bnd (create_identity_for_claims (xa_forge X) now (u_id u) provider claims None) (\<lambda>_.
        ret u))) [0..<5]))))"

text \<open>Signing in with an identity that is known: the row is touched first, then its account is checked.\<close>

definition login_linked ::
    "time \<Rightarrow> external_identity \<Rightarrow> external_claims \<Rightarrow> string option \<Rightarrow> (db, aster_error, resolved_user) handler" where
  "login_linked now identity claims metadata =
     bnd (touch_claims now (ei_id identity) claims metadata) (\<lambda>_.
     bnd (query (find_user_by_id (ei_user_id identity))) (\<lambda>u.
     if \<not> user_status_is_active (u_status u) then raise account_disabled
     else ret \<lparr>ru_user = u, ru_linked = False, ru_auto_provisioned = False\<rparr>))"

definition resolve_external_auth_user_with_verified_email ::
    "external_env \<Rightarrow> external_random \<Rightarrow> time \<Rightarrow> external_provider \<Rightarrow> external_claims \<Rightarrow>
     (db, aster_error, resolved_user) handler" where
  "resolve_external_auth_user_with_verified_email X R now provider claims =
     bnd (check (required_email ''external auth email verification requires an email'' claims)) (\<lambda>email.
     bnd (check (check_domain X provider email)) (\<lambda>_.
     bnd (query (\<lambda>d. Inr (find_identity_of_claims claims d))) (\<lambda>found.
     case found of
       Some identity \<Rightarrow> login_linked now identity claims None
     | None \<Rightarrow>
         bnd (query (\<lambda>d. Inr (find_by_email email d))) (\<lambda>local_user.
         case local_user of
           Some u \<Rightarrow>
             if \<not> user_status_is_active (u_status u) then raise account_disabled else
             if u_email_verified_at u = None then raise (AuthForbidden ''local account email is not verified'') else
             bnd (create_identity_for_claims (xa_forge X) now (u_id u) provider claims None) (\<lambda>_.
             ret \<lparr>ru_user = u, ru_linked = True, ru_auto_provisioned = False\<rparr>)
         | None \<Rightarrow>
             bnd (create_external_auth_user_and_identity_in_connection X R now provider claims) (\<lambda>u.
             ret \<lparr>ru_user = u, ru_linked = True, ru_auto_provisioned = True\<rparr>)))))"

definition resolve_existing_external_auth_identity ::
    "time \<Rightarrow> external_claims \<Rightarrow> string option \<Rightarrow> (db, aster_error, resolved_user option) handler" where
  "resolve_existing_external_auth_identity now claims metadata =
     bnd (query (\<lambda>d. Inr (find_identity_of_claims claims d))) (\<lambda>found.
     case found of
       None \<Rightarrow> ret None
     | Some identity \<Rightarrow> bnd (login_linked now identity claims metadata) (\<lambda>r. ret (Some r)))"

text \<open>The account an e-mail verified by the provider is linked to, if linking is on.\<close>

definition auto_link_target :: "external_provider \<Rightarrow> external_claims \<Rightarrow> resolve_options \<Rightarrow> db \<Rightarrow> user option" where
  "auto_link_target provider claims options d =
     (if rs_allow_verified_email_auto_link options \<and> xp_auto_link_verified_email_enabled provider
         \<and> cl_email_verified claims
      then Option.bind (cl_email claims) (\<lambda>email. find_by_email email d) else None)"

definition provision ::
    "external_env \<Rightarrow> external_random \<Rightarrow> time \<Rightarrow> external_provider \<Rightarrow> external_claims \<Rightarrow> string option \<Rightarrow> resolve_options \<Rightarrow>
     (db, aster_error, resolved_user option) handler" where
  "provision X R now provider claims metadata options =
     (if \<not> xp_auto_provision_enabled provider \<or> \<not> has_email claims \<or> needs_verified_email provider claims
         \<or> \<not> ap_allow_user_registration (ae_policy (xa_account X)) then ret None else
      bnd (query (\<lambda>d. Inr (find_by_email (the (cl_email claims)) d))) (\<lambda>existing.
      if existing \<noteq> None then ret None else
      bnd (create_external_auth_user_and_identity X R now provider claims metadata options) (\<lambda>r. ret (Some r))))"

definition resolve_external_auth_user_with_options ::
    "external_env \<Rightarrow> external_random \<Rightarrow> time \<Rightarrow> external_provider \<Rightarrow> external_claims \<Rightarrow> string option \<Rightarrow> resolve_options \<Rightarrow>
     (db, aster_error, resolved_user option) handler" where
  "resolve_external_auth_user_with_options X R now provider claims metadata options =
     bnd (query (\<lambda>d. Inr (find_identity_of_claims claims d))) (\<lambda>found.
     case found of
       Some identity \<Rightarrow> bnd (login_linked now identity claims metadata) (\<lambda>r. ret (Some r))
     | None \<Rightarrow>
         bnd (check (require_email_if_configured provider claims)) (\<lambda>_.
         bnd (check (case cl_email claims of
                       Some email \<Rightarrow> if rs_enforce_email_domain options then check_domain X provider email else Inr ()
                     | None \<Rightarrow> Inr ())) (\<lambda>_.
         bnd (query (\<lambda>d. Inr (auto_link_target provider claims options d))) (\<lambda>local_user.
         case local_user of
           Some u \<Rightarrow>
             if \<not> user_status_is_active (u_status u) then raise account_disabled else
             bnd (create_identity_for_claims (xa_forge X) now (u_id u) provider claims metadata) (\<lambda>_.
             ret (Some \<lparr>ru_user = u, ru_linked = True, ru_auto_provisioned = False\<rparr>))
         | None \<Rightarrow> provision X R now provider claims metadata options))))"

definition resolve_external_auth_user ::
    "external_env \<Rightarrow> external_random \<Rightarrow> time \<Rightarrow> external_provider \<Rightarrow> external_claims \<Rightarrow> string option \<Rightarrow>
     (db, aster_error, resolved_user option) handler" where
  "resolve_external_auth_user X R now provider claims metadata =
     resolve_external_auth_user_with_options X R now provider claims metadata default_resolve_options"

section \<open>Starting and finishing a login\<close>

definition misconfigured_microsoft :: aster_error where
  "misconfigured_microsoft = validation_error_code ''ExternalAuthProviderMisconfigured''
     ''multiple enabled Microsoft providers are configured; keep only one enabled Microsoft provider for the fixed callback URL''"

definition find_login_provider :: "external_provider_kind \<Rightarrow> string \<Rightarrow> db \<Rightarrow> external_provider result" where
  "find_login_provider kind key d =
     (let not_found = RecordNotFound (''external auth provider '' @ [CHR 0x27] @ provider_kind_as_str kind @ '':'' @ key
                        @ [CHR 0x27])
      in case find_provider_by_kind_key kind key d of
           Some p \<Rightarrow> Inr p
         | None \<Rightarrow>
             if kind = KindMicrosoft \<and> key = ''microsoft''
             then (case find_enabled_by_kind kind d of
                     [] \<Rightarrow> Inl not_found | [p] \<Rightarrow> Inr p | _ \<Rightarrow> Inl misconfigured_microsoft)
             else Inl not_found)"

definition provider_disabled :: aster_error where
  "provider_disabled = AuthForbidden ''external auth provider is disabled''"

definition login_disabled :: aster_error where
  "login_disabled = auth_forbidden_code ''ExternalAuthProviderLoginDisabled''
     ''external auth provider is not available for login''"

definition flow_expiry :: "forge \<Rightarrow> time \<Rightarrow> nat \<Rightarrow> string \<Rightarrow> time result" where
  "flow_expiry F now ttl label =
     (case utils_result (u64_to_i64 F ttl label) of Inl e \<Rightarrow> Inl e | Inr n \<Rightarrow> plus_seconds now n)"

definition start_login ::
    "external_env \<Rightarrow> time \<Rightarrow> external_provider_kind \<Rightarrow> string \<Rightarrow> string option \<Rightarrow> (db, aster_error, string) handler" where
  "start_login X now kind key return_path =
     bnd (check (xa_normalize_key X key)) (\<lambda>key.
     bnd (query (find_login_provider kind key)) (\<lambda>provider.
     if \<not> xp_enabled provider then raise provider_disabled else
     if \<not> po_allow_login (parse_external_auth_provider_options X (xp_options provider)) then raise login_disabled else
     bnd (check (xa_normalize_return_path X return_path)) (\<lambda>return_path.
     bnd (check (callback_redirect_uri X (xp_provider_kind provider)
                   (public_provider_key (xp_provider_kind provider) (xp_key provider)))) (\<lambda>redirect_uri.
     bnd (check (xa_start X provider redirect_uri)) (\<lambda>auth_start.
     bnd (check (flow_expiry (xa_forge X) now 300 ''external auth login flow ttl'')) (\<lambda>expires_at.
     bnd (login_flow_create (xa_forge X) (\<lambda>i. \<lparr>lf_id = i, lf_provider_id = xp_id provider,
            lf_state_hash = xa_state_hash X (as_state auth_start), lf_nonce = as_nonce auth_start,
            lf_pkce_verifier = as_pkce_verifier auth_start, lf_redirect_uri = redirect_uri,
            lf_return_path = Some return_path, lf_created_at = now, lf_expires_at = expires_at,
            lf_consumed_at = None\<rparr>)) (\<lambda>_.
     ret (as_authorization_url auth_start))))))))"

record primary_login =
  pl_user :: user
  pl_return_path :: string
  pl_provider_key :: string
  pl_issuer :: string
  pl_subject :: string
  pl_linked :: bool
  pl_auto_provisioned :: bool

datatype callback_outcome =
    LoginOutcome primary_login
  | EmailVerificationRequired string string  \<comment> \<open>flow token, return path\<close>

record callback_query =
  cq_code :: "string option"
  cq_state :: "string option"
  cq_error :: "string option"
  cq_error_description :: "string option"

definition primary_login_of ::
    "string option \<Rightarrow> external_provider \<Rightarrow> external_claims \<Rightarrow> resolved_user \<Rightarrow> primary_login" where
  "primary_login_of return_path provider claims r =
     \<lparr>pl_user = ru_user r, pl_return_path = (case return_path of None \<Rightarrow> ''/'' | Some p \<Rightarrow> p),
      pl_provider_key = xp_key provider, pl_issuer = cl_identity_namespace claims, pl_subject = cl_subject claims,
      pl_linked = ru_linked r, pl_auto_provisioned = ru_auto_provisioned r\<rparr>"

definition linuxdo_trust_level_metadata :: "external_env \<Rightarrow> int option \<Rightarrow> string option" where
  "linuxdo_trust_level_metadata X trust_level = map_option (xa_trust_json X) trust_level"

definition linuxdo_claims :: "linuxdo_user_info \<Rightarrow> external_claims" where
  "linuxdo_claims info =
     \<lparr>cl_identity_namespace = ''https://connect.linux.do'', cl_subject = show_nat (lu_id info), cl_email = None,
      cl_email_verified = False,
      cl_display_name = (case lu_name info of
                           None \<Rightarrow> Some (lu_username info)
                         | Some n \<Rightarrow> if n = [] then Some (lu_username info) else Some n),
      cl_preferred_username = Some (lu_username info)\<rparr>"

text \<open>The claims behind a callback and, for LinuxDO, the stored trust level.\<close>

definition exchange_claims ::
    "external_env \<Rightarrow> external_provider \<Rightarrow> external_login_flow \<Rightarrow> string \<Rightarrow> (external_claims \<times> string option) result" where
  "exchange_claims X provider flow code =
     (if xp_provider_kind provider = KindLinuxDo
      then map_sum id (\<lambda>info. (linuxdo_claims info, linuxdo_trust_level_metadata X (lu_trust_level info)))
             (xa_linuxdo X \<lparr>le_client_id = xp_client_id provider,
                le_client_secret = (case xp_client_secret provider of None \<Rightarrow> [] | Some v \<Rightarrow> v), le_code = code,
                le_redirect_uri = lf_redirect_uri flow, le_pkce_verifier = lf_pkce_verifier flow,
                le_token_url = (case xp_token_url provider of
                                  None \<Rightarrow> ''https://connect.linux.do/oauth2/token'' | Some u \<Rightarrow> u),
                le_userinfo_url = (case xp_userinfo_url provider of
                                     None \<Rightarrow> ''https://connect.linux.do/api/user'' | Some u \<Rightarrow> u)\<rparr>)
      else map_sum id (\<lambda>claims. (claims, None))
             (xa_exchange X provider \<lparr>cb_code = code, cb_nonce = lf_nonce flow, cb_pkce_verifier = lf_pkce_verifier flow,
                cb_redirect_uri = lf_redirect_uri flow\<rparr>))"

text \<open>A user whose trust level is not reported passes.\<close>

definition trust_level_ok :: "external_env \<Rightarrow> external_provider \<Rightarrow> string option \<Rightarrow> bool" where
  "trust_level_ok X provider metadata =
     (if xp_provider_kind provider \<noteq> KindLinuxDo then True
      else case po_linuxdo (parse_external_auth_provider_options X (xp_options provider)) of
             None \<Rightarrow> True
           | Some opts \<Rightarrow> (case Option.bind metadata (xa_trust_from_json X) of
                            None \<Rightarrow> True | Some level \<Rightarrow> \<not> level < ld_min_trust_level opts))"

definition create_pending_email_verification_flow ::
    "external_env \<Rightarrow> external_random \<Rightarrow> time \<Rightarrow> external_provider \<Rightarrow> external_claims \<Rightarrow> string option \<Rightarrow>
     (db, aster_error, callback_outcome) handler" where
  "create_pending_email_verification_flow X R now provider claims return_path =
     (let flow_token = ''oev_'' @ er_token R in
      bnd (check (flow_expiry (xa_forge X) now 1800 ''external auth email verification flow ttl'')) (\<lambda>expires_at.
      bnd (email_flow_create (xa_forge X) (\<lambda>i. \<lparr>ef_id = i, ef_provider_id = xp_id provider,
             ef_identity_namespace = cl_identity_namespace claims, ef_subject = cl_subject claims,
             ef_target_email = None, ef_display_name_snapshot = cl_display_name claims,
             ef_preferred_username_snapshot = cl_preferred_username claims, ef_return_path = return_path,
             ef_flow_token_hash = xa_token_hash X flow_token, ef_verification_token_hash = None,
             ef_email_requested_at = None, ef_created_at = now, ef_expires_at = expires_at, ef_consumed_at = None\<rparr>)) (\<lambda>_.
      ret (EmailVerificationRequired flow_token (case return_path of None \<Rightarrow> ''/'' | Some p \<Rightarrow> p)))))"

text \<open>Failure to create the profile is only logged.\<close>

definition maybe_auto_create_linuxdo_profile ::
    "external_env \<Rightarrow> external_random \<Rightarrow> time \<Rightarrow> external_provider \<Rightarrow> resolved_user \<Rightarrow> external_claims \<Rightarrow>
     (db, aster_error, unit) handler" where
  "maybe_auto_create_linuxdo_profile X R now provider resolved claims d =
     (if xp_provider_kind provider \<noteq> KindLinuxDo \<or> \<not> ru_auto_provisioned resolved
         \<or> (case po_linuxdo (parse_external_auth_provider_options X (xp_options provider)) of
              None \<Rightarrow> False | Some l \<Rightarrow> \<not> ld_auto_create_profile l)
      then (Inr (), d)
      else case cl_preferred_username claims of
             None \<Rightarrow> (Inr (), d)
           | Some name \<Rightarrow>
               (Inr (), snd (create_profile_for_external_auth (xa_forge X) (xa_codec X) (xa_mojang X) (xa_ygg_policy X) now
                  (er_profile_uuid R) (u_id (ru_user resolved)) (u_role (ru_user resolved)) name
                  (Some (''linuxdo_'' @ cl_subject claims)) d)))"

definition login_with ::
    "external_env \<Rightarrow> external_random \<Rightarrow> time \<Rightarrow> external_login_flow \<Rightarrow> external_provider \<Rightarrow> external_claims \<Rightarrow> resolved_user \<Rightarrow>
     (db, aster_error, callback_outcome) handler" where
  "login_with X R now flow provider claims resolved =
     bnd (maybe_auto_create_linuxdo_profile X R now provider resolved claims) (\<lambda>_.
     ret (LoginOutcome (primary_login_of (lf_return_path flow) provider claims resolved)))"

text \<open>A provider that sends no e-mail address: known identities sign in, LinuxDO creates an account without
  address, others continue with a verification e-mail.\<close>

definition finish_without_email ::
    "external_env \<Rightarrow> external_random \<Rightarrow> time \<Rightarrow> external_login_flow \<Rightarrow> external_provider \<Rightarrow> external_claims \<Rightarrow> string option \<Rightarrow>
     (db, aster_error, callback_outcome) handler" where
  "finish_without_email X R now flow provider claims metadata =
     bnd (resolve_existing_external_auth_identity now claims metadata) (\<lambda>known.
     case known of
       Some r \<Rightarrow> ret (LoginOutcome (primary_login_of (lf_return_path flow) provider claims r))
     | None \<Rightarrow>
         if xp_provider_kind provider = KindLinuxDo
         then bnd (resolve_external_auth_user_without_email X R now provider claims metadata)
                (login_with X R now flow provider claims)
         else if xp_provider_kind provider = KindGitHub \<and> xp_require_email_verified provider
         then raise (AuthForbidden ''GitHub provider requires a verified primary email'')
         else create_pending_email_verification_flow X R now provider claims (lf_return_path flow))"

definition finish_with_email ::
    "external_env \<Rightarrow> external_random \<Rightarrow> time \<Rightarrow> external_login_flow \<Rightarrow> external_provider \<Rightarrow> external_claims \<Rightarrow> string option \<Rightarrow>
     (db, aster_error, callback_outcome) handler" where
  "finish_with_email X R now flow provider claims metadata =
     bnd (resolve_external_auth_user X R now provider claims metadata) (\<lambda>resolved.
     case resolved of
       Some r \<Rightarrow> login_with X R now flow provider claims r
     | None \<Rightarrow> create_pending_email_verification_flow X R now provider claims (lf_return_path flow))"

text \<open>The checks of the provider a callback belongs to.\<close>

definition callback_provider_ok ::
    "external_env \<Rightarrow> external_provider_kind \<Rightarrow> string option \<Rightarrow> external_provider \<Rightarrow> unit result" where
  "callback_provider_ok X kind provider_key provider =
     (if xp_provider_kind provider \<noteq> kind
      then Inl (AuthInvalidCredentials ''external auth callback provider kind does not match login flow'') else
      case (case provider_key of
              None \<Rightarrow> Inr ()
            | Some key \<Rightarrow>
                (case xa_normalize_key X key of
                   Inl e \<Rightarrow> Inl e
                 | Inr expected \<Rightarrow>
                     if provider_key_matches (xp_provider_kind provider) (xp_key provider) expected then Inr ()
                     else Inl (AuthInvalidCredentials ''external auth callback provider does not match login flow''))) of
        Inl e \<Rightarrow> Inl e
      | Inr _ \<Rightarrow>
          if \<not> xp_enabled provider then Inl provider_disabled
          else if \<not> po_allow_login (parse_external_auth_provider_options X (xp_options provider)) then Inl login_disabled
          else Inr ())"

definition provider_error :: "callback_query \<Rightarrow> string option" where
  "provider_error q =
     map_option (\<lambda>error. case cq_error_description q of
                   None \<Rightarrow> error | Some d \<Rightarrow> if trim d = [] then error else d) (cq_error q)"

definition finish_callback ::
    "external_env \<Rightarrow> external_random \<Rightarrow> time \<Rightarrow> external_provider_kind \<Rightarrow> string option \<Rightarrow> callback_query \<Rightarrow>
     (db, aster_error, callback_outcome) handler" where
  "finish_callback X R now kind provider_key q =
     bnd (check (case provider_error q of
                   Some description \<Rightarrow>
                     Inl (AuthInvalidCredentials (''external auth provider returned error: '' @ description))
                 | None \<Rightarrow> Inr ())) (\<lambda>_.
     bnd (check (case cq_code q of
                   None \<Rightarrow> Inl (AuthInvalidCredentials ''external auth callback missing code'') | Some c \<Rightarrow> Inr c)) (\<lambda>code.
     bnd (check (case cq_state q of
                   None \<Rightarrow> Inl (AuthInvalidCredentials ''external auth callback missing state'') | Some c \<Rightarrow> Inr c)) (\<lambda>state.
     bnd (consume_by_state_hash now (xa_state_hash X state)) (\<lambda>consumed.
     bnd (check (case consumed of
                   None \<Rightarrow> Inl (AuthInvalidCredentials ''external auth state is invalid or expired'')
                 | Some flow \<Rightarrow> Inr flow)) (\<lambda>flow.
     bnd (query (find_provider_by_id (lf_provider_id flow))) (\<lambda>provider.
     bnd (check (callback_provider_ok X kind provider_key provider)) (\<lambda>_.
     bnd (check (exchange_claims X provider flow code)) (\<lambda>(claims, metadata).
     if \<not> trust_level_ok X provider metadata
     then raise (AuthForbidden ''LinuxDO trust level below minimum requirement'') else
     if external_auth_claims_missing_email claims
     then finish_without_email X R now flow provider claims metadata
     else finish_with_email X R now flow provider claims metadata))))))))"

section \<open>Continuing with an e-mail or a password\<close>

definition flow_invalid :: aster_error where
  "flow_invalid = contact_verification_invalid ''external auth email verification flow is invalid''"

definition active_flow :: "time \<Rightarrow> string \<Rightarrow> db \<Rightarrow> external_email_flow result" where
  "active_flow now h d = (case find_active_by_flow_token_hash now h d of None \<Rightarrow> Inl flow_invalid | Some f \<Rightarrow> Inr f)"

definition already_started :: aster_error where
  "already_started = contact_verification_invalid ''external auth email verification request has already been started''"

definition start_email_verification ::
    "external_env \<Rightarrow> time \<Rightarrow> string \<Rightarrow> string \<Rightarrow> string \<Rightarrow> (db, aster_error, unit) handler" where
  "start_email_verification X now short flow_token email =
     bnd (check (xa_normalize_flow_token X flow_token)) (\<lambda>flow_token.
     bnd (check (normalize_email_for_external_auth (xa_forge X) email)) (\<lambda>email.
     bnd (query (active_flow now (xa_token_hash X flow_token))) (\<lambda>flow.
     if ef_verification_token_hash flow \<noteq> None then raise already_started else
     bnd (query (find_provider_by_id (ef_provider_id flow))) (\<lambda>provider.
     if \<not> xp_enabled provider then raise provider_disabled else
     bnd (check (check_domain X provider email)) (\<lambda>_.
     bnd (query (\<lambda>d. case find_by_email email d of
                       Some u \<Rightarrow>
                         if \<not> user_status_is_active (u_status u) then Inl account_disabled
                         else if u_email_verified_at u = None
                         then Inl (AuthForbidden ''local account email is not verified'') else Inr ()
                     | None \<Rightarrow>
                         if \<not> ap_allow_user_registration (ae_policy (xa_account X)) then Inl registration_disabled
                         else Inr ())) (\<lambda>_.
     let verification_token = build_verification_token short in
     transaction
       (bnd (update_email_request now (ef_id flow) email (xa_token_hash X verification_token)) (\<lambda>updated.
        if \<not> updated then raise already_started else
        enqueue now email None
          (MailExternalAuthEmailVerification email verification_token (xp_display_name provider)
             (ae_site_name (xa_account X))
             (format_mail_duration_seconds ((ef_expires_at flow - now) div secs 1)))))))))))"

definition confirm_email_verification ::
    "external_env \<Rightarrow> external_random \<Rightarrow> time \<Rightarrow> string \<Rightarrow> (db, aster_error, primary_login) handler" where
  "confirm_email_verification X R now token =
     (let token = trim token in
      if token = []
      then raise (contact_verification_invalid ''external auth email verification token is missing'') else
      bnd (query (\<lambda>d. case find_active_by_verification_token_hash now (xa_token_hash X token) d of
                        None \<Rightarrow> Inl (contact_verification_invalid ''external auth email verification link is invalid'')
                      | Some f \<Rightarrow> Inr f)) (\<lambda>flow.
      bnd (check (case ef_target_email flow of
                    None \<Rightarrow> Inl (contact_verification_invalid ''external auth email verification target is missing'')
                  | Some e \<Rightarrow> Inr e)) (\<lambda>email.
      bnd (query (find_provider_by_id (ef_provider_id flow))) (\<lambda>provider.
      if \<not> xp_enabled provider then raise provider_disabled else
      let claims = claims_with_verified_local_email flow email in
      bnd (transaction
             (bnd (mark_flow_consumed_if_unused now (ef_id flow)) (\<lambda>consumed.
              if \<not> consumed
              then raise (contact_verification_invalid ''external auth email verification link has already been used'')
              else resolve_external_auth_user_with_verified_email X R now provider claims))) (\<lambda>resolved.
      ret (primary_login_of (ef_return_path flow) provider claims resolved))))))"

definition dummy_password_hash :: string where
  "dummy_password_hash =
     ''$argon2id$v=19$m=19456,t=2,p=1$c29tZXNhbHRmb3JkdW1teQ$uLpdZ2ciOQUUMGrye7Tyvz/vZ/saqtJiqQBvovmG6ms''"

definition link_with_password ::
    "external_env \<Rightarrow> time \<Rightarrow> string \<Rightarrow> string \<Rightarrow> string \<Rightarrow> (db, aster_error, primary_login) handler" where
  "link_with_password X now flow_token identifier password =
     bnd (check (xa_normalize_flow_token X flow_token)) (\<lambda>flow_token.
     if trim identifier = [] then raise (ValidationError ''identifier is required'') else
     if password = [] then raise (ValidationError ''password is required'') else
     bnd (query (active_flow now (xa_token_hash X flow_token))) (\<lambda>flow.
     bnd (query (find_provider_by_id (ef_provider_id flow))) (\<lambda>provider.
     if \<not> xp_enabled provider then raise provider_disabled else
     bnd (query (\<lambda>d. Inr (find_by_identifier (trim identifier) d))) (\<lambda>found.
     bnd (check (password_result (verify_password (xa_forge X) password
                   (case found of None \<Rightarrow> dummy_password_hash | Some u \<Rightarrow> u_password_hash u)))) (\<lambda>ok.
     if \<not> ok then raise (AuthInvalidCredentials ''invalid credentials'') else
     bnd (check (case found of None \<Rightarrow> Inl (AuthInvalidCredentials ''invalid credentials'') | Some u \<Rightarrow> Inr u)) (\<lambda>u.
     if \<not> user_status_is_active (u_status u) then raise account_disabled else
     if \<not> is_email_activation_satisfied u then raise (auth_pending_activation ''account pending activation'') else
     let claims = claims_without_provider_email flow in
     bnd (transaction
            (bnd (mark_flow_consumed_if_unused now (ef_id flow)) (\<lambda>consumed.
             if \<not> consumed
             then raise (contact_verification_invalid ''external auth login flow has already been used'')
             else link_external_auth_identity_to_authenticated_user (xa_forge X) now provider claims u))) (\<lambda>resolved.
     ret (primary_login_of (ef_return_path flow) provider claims resolved))))))))"

section \<open>Links of an account\<close>

definition minecraft_identity_namespace :: string where
  "minecraft_identity_namespace = ''https://api.minecraftservices.com/minecraft/profile''"

definition external_auth_identity_can_unlink :: "external_provider_kind \<Rightarrow> string \<Rightarrow> bool \<Rightarrow> bool" where
  "external_auth_identity_can_unlink kind namespace provider_allows_unlink =
     (if kind = KindMicrosoft \<or> kind = KindLinuxDo then False
      else namespace \<noteq> minecraft_identity_namespace \<and> provider_allows_unlink)"

definition delete_link :: "external_env \<Rightarrow> row_id \<Rightarrow> row_id \<Rightarrow> (db, aster_error, bool) handler" where
  "delete_link X user_id i =
     bnd (query (\<lambda>d. Inr (find_identity_for_user i user_id d))) (\<lambda>found.
     case found of
       None \<Rightarrow> ret False
     | Some identity \<Rightarrow>
         bnd (query (find_provider_by_id (ei_provider_id identity))) (\<lambda>provider.
         if \<not> external_auth_identity_can_unlink (xp_provider_kind provider) (ei_identity_namespace identity)
                (po_allow_unlink (parse_external_auth_provider_options X (xp_options provider)))
         then raise (auth_forbidden_code ''ExternalAuthProviderUnlinkDisabled''
                ''external auth identity cannot be unlinked'')
         else delete_identity_for_user i user_id))"

definition cleanup_expired_flows :: "time \<Rightarrow> (db, aster_error, nat) handler" where
  "cleanup_expired_flows now =
     bnd (cleanup_login_flows now) (\<lambda>login_flows.
     bnd (cleanup_binding_flows now) (\<lambda>binding_flows.
     bnd (cleanup_email_flows now) (\<lambda>email_flows.
     ret (login_flows + binding_flows + email_flows))))"

end
