(* ===== verification/External_Safety.thy ===== *)
theory External_Safety
  imports External_Auth Account_Runs
begin

text \<open>
  What holds over every run of external-login and account requests: the unique indexes and references of the
  identities, that a login state or a verification flow that was used up stays so, and that an identity keeps
  its account until it is unlinked.
\<close>

section \<open>The relation between the states before and after a request\<close>

definition identities_apart :: "external_identity \<Rightarrow> external_identity \<Rightarrow> bool" where
  "identities_apart e a =
     (\<not> (ei_subject a = ei_subject e
         \<and> (ei_provider_id a = ei_provider_id e \<or> ei_identity_namespace a = ei_identity_namespace e))
      \<and> \<not> (ei_user_id a = ei_user_id e \<and> ei_provider_id a = ei_provider_id e))"

lemma identity_free_apart: "identity_free e t = (\<forall>a \<in> set (rows t). identities_apart e a)"
  by (simp add: identity_free_def identities_apart_def)

lemma identities_apart_sym: "identities_apart e a \<Longrightarrow> identities_apart a e"
  by (auto simp: identities_apart_def)

definition identities_wf :: "db \<Rightarrow> bool" where
  "identities_wf d =
     (keys_ok ei_id (external_identities d)
      \<and> (\<forall>a \<in> set (rows (external_identities d)). \<forall>b \<in> set (rows (external_identities d)).
            ei_id b \<noteq> ei_id a \<longrightarrow> identities_apart a b)
      \<and> (\<forall>a \<in> set (rows (external_identities d)). identity_refs (ei_user_id a) (ei_provider_id a) d))"

definition flows_wf :: "db \<Rightarrow> bool" where
  "flows_wf d =
     (keys_ok lf_id (external_login_flows d) \<and> distinct (map lf_state_hash (rows (external_login_flows d)))
      \<and> keys_ok ef_id (external_email_flows d) \<and> distinct (map ef_flow_token_hash (rows (external_email_flows d))))"

definition ext_wf :: "db \<Rightarrow> bool" where
  "ext_wf d = (acct_wf d \<and> identities_wf d \<and> flows_wf d)"

definition spent_state :: "string \<Rightarrow> db \<Rightarrow> bool" where
  "spent_state h d = (\<forall>f \<in> set (rows (external_login_flows d)). lf_state_hash f = h \<longrightarrow> lf_consumed_at f \<noteq> None)"

definition spent_flow :: "string \<Rightarrow> db \<Rightarrow> bool" where
  "spent_flow h d = (\<forall>f \<in> set (rows (external_email_flows d)). ef_flow_token_hash f = h \<longrightarrow> ef_consumed_at f \<noteq> None)"

definition spent_verification :: "string \<Rightarrow> db \<Rightarrow> bool" where
  "spent_verification h d =
     (\<forall>f \<in> set (rows (external_email_flows d)). ef_verification_token_hash f = Some h \<longrightarrow> ef_consumed_at f \<noteq> None)"

text \<open>\<open>linked ns sub d u\<close>: the person known as \<open>sub\<close> in \<open>ns\<close> signs in as user \<open>u\<close>.\<close>

definition linked :: "string \<Rightarrow> string \<Rightarrow> db \<Rightarrow> row_id \<Rightarrow> bool" where
  "linked ns sub d u =
     (\<exists>e \<in> set (rows (external_identities d)). ei_identity_namespace e = ns \<and> ei_subject e = sub \<and> ei_user_id e = u)"

text \<open>\<open>S\<close> and \<open>T\<close> are the hashes of the login states and flow tokens that may be issued between the two
  states, \<open>U\<close> the persons whose identity may be removed.\<close>

definition flows_safe :: "string set \<Rightarrow> string set \<Rightarrow> db \<Rightarrow> db \<Rightarrow> bool" where
  "flows_safe S T d d' =
     ((\<forall>h. h \<notin> S \<longrightarrow> spent_state h d \<longrightarrow> spent_state h d')
      \<and> (\<forall>h. h \<notin> T \<longrightarrow> (spent_flow h d \<longrightarrow> spent_flow h d') \<and> (spent_verification h d \<longrightarrow> spent_verification h d')))"

definition links_safe :: "(string \<times> string) set \<Rightarrow> db \<Rightarrow> db \<Rightarrow> bool" where
  "links_safe U d d' = (\<forall>ns sub u. (ns, sub) \<notin> U \<longrightarrow> linked ns sub d u \<longrightarrow> linked ns sub d' u)"

definition ext_safe ::
    "string set \<Rightarrow> string set \<Rightarrow> string set \<Rightarrow> string set \<Rightarrow> (string \<times> string) set \<Rightarrow> db \<Rightarrow> db \<Rightarrow> bool" where
  "ext_safe I H S T U d d' =
     (acct_safe I H d d' \<and> (ext_wf d \<longrightarrow> ext_wf d') \<and> flows_safe S T d d' \<and> links_safe U d d')"

interpretation ext: state_order "ext_safe I H S T U" for I H S T U
  by unfold_locales
    (simp add: ext_safe_def acct.refl flows_safe_def links_safe_def,
     auto simp: ext_safe_def flows_safe_def links_safe_def intro: acct.trans)

section \<open>Account requests\<close>

definition ext_tables ::
    "db \<Rightarrow> external_identity table \<times> external_provider table \<times> external_login_flow table \<times> external_email_flow table" where
  "ext_tables d = (external_identities d, external_providers d, external_login_flows d, external_email_flows d)"

lemma ext_from_acct:
  assumes "acct_safe I H d d'" and "keeps ext_tables d d'"
  shows "ext_safe I H S T U d d'"
proof -
  have same: "external_identities d' = external_identities d" "external_providers d' = external_providers d"
      "external_login_flows d' = external_login_flows d" "external_email_flows d' = external_email_flows d"
    using assms(2) by (simp_all add: keeps_def ext_tables_def)
  have "ext_wf d'" if wf: "ext_wf d"
  proof -
    have acct: "acct_wf d'" and grow: "versions_grow d d'"
      using acct_safeD(1,2)[OF assms(1)] wf by (simp_all add: ext_wf_def)
    have "identity_refs u p d'" if "identity_refs u p d" for u p
      using that grow by (auto simp: identity_refs_def same versions_grow_def)
    then show ?thesis using wf acct by (simp add: ext_wf_def identities_wf_def flows_wf_def same)
  qed
  then show ?thesis
    using assms(1) by (simp add: ext_safe_def flows_safe_def links_safe_def linked_def spent_state_def spent_flow_def spent_verification_def same)
qed

lemma ext_kept_statements:
  "keeps ext_tables d (snd (update_user_row F i f d))"
  "keeps ext_tables d (snd (session_repo_create F m d))"
  "keeps ext_tables d (snd (rotate_refresh F cur nxt ex ip ua seen d))"
  "keeps ext_tables d (snd (revoke_sessions_where now p d))"
  "keeps ext_tables d (snd (delete_expired_sessions now d))"
  "keeps ext_tables d (snd (web_audit sr now req u a et ei en det d))"
  "keeps ext_tables d (snd (insert_user F model d))"
  "keeps ext_tables d (snd (enqueue now to nm payload d))"
  "keeps ext_tables d (snd (mark_consumed_if_unused now i d))"
  "keeps ext_tables d (snd (contact_repo_create F cm d))"
  "keeps ext_tables d (snd (delete_active_for_user i ch purpose d))"
  "keeps ext_tables d (snd (delete_expired_contact_tokens now d))"
  "keeps ext_tables d (snd (update_invitations q g d))"
  "keeps ext_tables d (snd (invitation_repo_create F im d))"
  by (simp_all add: keeps_def ext_tables_def update_user_row_def session_repo_create_def rotate_refresh_def
      revoke_sessions_where_def delete_expired_sessions_def web_audit_def insert_user_def enqueue_def modify_def
      log_with_details_def record_prechecked_def statement_def Let_def mark_consumed_if_unused_def
      contact_repo_create_def delete_active_for_user_def delete_expired_contact_tokens_def update_invitations_def
      invitation_repo_create_def split: sum.split prod.split)

lemmas ext_kept_rules = kept.rules ext_kept_statements

lemma ext_kept_create_user:
  "keeps ext_tables d (snd (create_with_options F new_uuid now username email h role status must d))"
  "keeps ext_tables d (snd (service_create_user A now username email password role d))"
  "keeps ext_tables d (snd (create_user_with_role A now input email verified_at d))"
  "keeps ext_tables d (snd (create_user_without_email_with_role A now input d))"
  unfolding create_with_options_insert service_create_user_def service_create_user_with_options_def
    create_user_with_role_def create_user_without_email_with_role_def
  by (intro ext_kept_rules)+

lemma ext_kept_operations:
  "keeps ext_tables d (snd (issue_tokens F K policy now J u req d))"
  "keeps ext_tables d (snd (rotate_tokens F K policy now J u s req d))"
  "keeps ext_tables d (snd (update_password_in_connection F now u new d))"
  "keeps ext_tables d (snd (issue_contact_verification_token F now short i purpose target ttl d))"
  "keeps ext_tables d (snd (activate_email F now u target d))"
  "keeps ext_tables d (snd (change_email A now u target d))"
  "keeps ext_tables d (snd (refresh_expired_status now v d))"
  "keeps ext_tables d (snd (ensure_invitation_not_expired now v d))"
  "keeps ext_tables d (snd (revoke_each now is d))"
proof -
  show "keeps ext_tables d (snd (revoke_each now is d))"
    by (induction "is" arbitrary: d) (auto intro!: kept.bnd ext_kept_rules simp: kept.reads mark_revoked_if_pending_def)
qed (unfold issue_tokens_def persist_auth_session_def rotate_tokens_def update_password_in_connection_def
    issue_contact_verification_token_def activate_email_def change_email_def refresh_expired_status_def
    ensure_invitation_not_expired_def mark_expired_if_pending_def, (intro ext_kept_rules)+)

lemmas ext_kept_all = ext_kept_rules ext_kept_create_user ext_kept_operations

lemma ext_kept_sessions:
  "keeps ext_tables d (snd (web_login F K policy sr now J identifier password req d))"
  "keeps ext_tables d (snd (web_refresh F K policy sr now J token req d))"
  "keeps ext_tables d (snd (revoke_session K sr now u sid tok req d))"
  "keeps ext_tables d (snd (revoke_other_sessions K sr now u token req d))"
  "keeps ext_tables d (snd (change_password_with_audit F gravatar sr now req i cur new d))"
  "keeps ext_tables d (snd (set_local_password_with_audit F gravatar sr now req i new d))"
  unfolding web_login_def web_refresh_def revoke_session_def revoke_by_id_for_user_def Let_def
    revoke_other_sessions_def revoke_all_for_user_except_id_def change_password_with_audit_def change_password_def
    set_local_password_with_audit_def set_local_password_def verify_change_password_input_def
    verify_set_local_password_input_def revoke_sessions_for_user_where
  by (intro ext_kept_all)+

lemma ext_kept_logout: "keeps ext_tables d (snd (logout K sr now token req d))"
  unfolding logout_def revoke_by_refresh_jti_def
  by (auto split: sum.split aster_error.split option.split intro!: ext_kept_rules)

lemma ext_kept_accounts:
  "keeps ext_tables d (snd (resend_register_activation A now short identifier d))"
  "keeps ext_tables d (snd (request_email_change A now short i new_email d))"
  "keeps ext_tables d (snd (resend_email_change A now short i d))"
  "keeps ext_tables d (snd (request_password_reset A now short email d))"
  "keeps ext_tables d (snd (register A now J short username email password req d))"
  "keeps ext_tables d (snd (confirm_password_reset A now token new d))"
  "keeps ext_tables d (snd (create_invitation A now short email invited_by d))"
  "keeps ext_tables d (snd (verify_public_invitation A now token d))"
  "keeps ext_tables d (snd (revoke_invitation now i d))"
  "keeps ext_tables d (snd (accept_invitation A now token username password d))"
  unfolding resend_register_activation_def request_email_change_def resend_email_change_def request_password_reset_def
    register_def Let_def confirm_password_reset_def create_invitation_def verify_public_invitation_def
    find_valid_invitation_by_token_def revoke_invitation_def accept_invitation_def mark_revoked_if_pending_def
    mark_accepted_if_pending_def
  by (intro ext_kept_all)+

lemma ext_kept_confirm: "keeps ext_tables d (snd (confirm_contact_verification A now token d))"
proof -
  have body: "keeps ext_tables d (snd ((case p of RegisterActivation \<Rightarrow> activate_email F now u t
      | ContactChange \<Rightarrow> change_email A now u t | PasswordReset \<Rightarrow> raise e) d))" for p F u t e d
    by (cases p) (simp_all add: ext_kept_operations kept.reads)
  show ?thesis unfolding confirm_contact_verification_def by (intro ext_kept_all body)
qed

lemma account_step_kept: "account_step A I H d d' \<Longrightarrow> keeps ext_tables d d'"
  by (induction rule: account_step.induct)
    (rule ext_kept_sessions ext_kept_logout ext_kept_accounts ext_kept_confirm ext_kept_statements)+

lemma account_step_ext: "account_step A I H d d' \<Longrightarrow> ext_safe I H S T U d d'"
  by (rule ext_from_acct[OF account_step_safe account_step_kept])

section \<open>Statements on identities and flows\<close>

lemma update_many_keys:
  "(\<And>r. k (g r) = k r) \<Longrightarrow> map k (rows (snd (update_many p g t))) = map k (rows t)"
  by (simp add: update_many_def)

lemma acct_same:
  assumes "auth_sessions d' = auth_sessions d" "users d' = users d" "account_tables d' = account_tables d"
  shows "acct_safe I H d d'"
  by (rule acct_from_web[OF web_safe_same]) (simp_all add: assms keeps_def)

lemma acct_wf_same:
  assumes "auth_sessions d' = auth_sessions d" "users d' = users d" "account_tables d' = account_tables d"
  shows "acct_wf d' = acct_wf d"
  using assms by (simp add: acct_wf_def web_wf_def sessions_wf_def users_wf_def contacts_wf_def invitations_wf_def account_tables_def)

lemma ext_identities:
  assumes "identities_wf d \<Longrightarrow> identities_wf (d\<lparr>external_identities := t\<rparr>)" and "links_safe U d (d\<lparr>external_identities := t\<rparr>)"
  shows "ext_safe I H S T U d (d\<lparr>external_identities := t\<rparr>)"
  using assms acct_same[of "d\<lparr>external_identities := t\<rparr>" d I H] acct_wf_same[of "d\<lparr>external_identities := t\<rparr>" d]
  by (simp add: ext_safe_def ext_wf_def flows_wf_def flows_safe_def spent_state_def spent_flow_def spent_verification_def account_tables_def)

lemma touched_key [simp]:
  "ei_id (touched em dn md now e) = ei_id e" "ei_user_id (touched em dn md now e) = ei_user_id e"
  "ei_provider_id (touched em dn md now e) = ei_provider_id e"
  "ei_identity_namespace (touched em dn md now e) = ei_identity_namespace e"
  "ei_subject (touched em dn md now e) = ei_subject e"
  by (cases em; cases dn; cases md; simp add: touched_def Let_def)+

lemma apart_touched [simp]:
  "identities_apart (touched em dn md now e) a = identities_apart e a"
  "identities_apart e (touched em dn md now a) = identities_apart e a"
  by (simp_all add: identities_apart_def)

text \<open>Touching rows changes no key of theirs.\<close>

lemma ext_touch: "ext_safe I H S T U d (snd (touch_login i em dn md now d))"
proof -
  let ?t = "snd (update_many (\<lambda>e. ei_id e = i) (touched em dn md now) (external_identities d))"
  have rows: "set (rows ?t) = (\<lambda>e. if ei_id e = i then touched em dn md now e else e) ` set (rows (external_identities d))"
    by (simp add: update_many_def)
  have "ext_safe I H S T U d (d\<lparr>external_identities := ?t\<rparr>)"
  proof (rule ext_identities)
    assume wf: "identities_wf d"
    have "keys_ok ei_id ?t" by (rule keys_ok_update) (use wf in \<open>simp_all add: identities_wf_def\<close>)
    then show "identities_wf (d\<lparr>external_identities := ?t\<rparr>)"
      using wf by (auto simp: identities_wf_def rows identity_refs_def split: if_splits)
  next
    show "links_safe U d (d\<lparr>external_identities := ?t\<rparr>)"
      unfolding links_safe_def linked_def
    proof (intro allI impI, elim bexE conjE)
      fix ns sub u e
      assume "e \<in> set (rows (external_identities d))" "ei_identity_namespace e = ns" "ei_subject e = sub" "ei_user_id e = u"
      then show "\<exists>e \<in> set (rows (external_identities (d\<lparr>external_identities := ?t\<rparr>))).
          ei_identity_namespace e = ns \<and> ei_subject e = sub \<and> ei_user_id e = u"
        by (intro bexI[of _ "if ei_id e = i then touched em dn md now e else e"]) (auto simp: rows)
    qed
  qed
  then show ?thesis by (simp add: touch_login_def statement_def Let_def split_beta)
qed

lemma identities_wf_delete:
  "identities_wf d \<Longrightarrow> identities_wf (d\<lparr>external_identities := snd (delete_many p (external_identities d))\<rparr>)"
  using keys_ok_delete[of ei_id "external_identities d" p]
  by (auto simp: identities_wf_def delete_many_def identity_refs_def)

lemma ext_unlink:
  assumes "\<And>e. e \<in> set (rows (external_identities d)) \<Longrightarrow> ei_id e = i \<Longrightarrow> ei_user_id e = u \<Longrightarrow>
    (ei_identity_namespace e, ei_subject e) \<in> U"
  shows "ext_safe I H S T U d (snd (delete_identity_for_user i u d))"
proof -
  have "ext_safe I H S T U d
      (d\<lparr>external_identities := snd (delete_many (\<lambda>e. ei_id e = i \<and> ei_user_id e = u) (external_identities d))\<rparr>)"
  proof (rule ext_identities[OF identities_wf_delete])
    show "links_safe U d
        (d\<lparr>external_identities := snd (delete_many (\<lambda>e. ei_id e = i \<and> ei_user_id e = u) (external_identities d))\<rparr>)"
      using assms by (force simp: links_safe_def linked_def delete_many_def)
  qed
  then show ?thesis by (simp add: delete_identity_for_user_def statement_def Let_def split_beta)
qed

lemma create_identity_run:
  assumes "create_identity F now input d = (Inr e, d')"
  shows "e = new_identity now input (next_id (external_identities d))"
    "d' = d\<lparr>external_identities := snd (insert_row (new_identity now input) (external_identities d))\<rparr>"
    "identity_refs (ci_user_id input) (ci_provider_id input) d" "identity_free e (external_identities d)"
  using assms by (auto simp: create_identity_def statement_Inr insert_row_def Let_def split: if_splits)

lemma create_identity_fails: "create_identity F now input d = (Inl x, d') \<Longrightarrow> d' = d"
  by (auto simp: create_identity_def statement_def split: sum.splits)

lemma inserted_rows: "rows (snd (insert_row mk t)) = rows t @ [mk (next_id t)]"
  by (simp add: insert_row_def Let_def)

lemma identities_wf_insert:
  assumes "identities_wf d" and "e = new_identity now input (next_id (external_identities d))"
    and "identity_refs (ci_user_id input) (ci_provider_id input) d" and "identity_free e (external_identities d)"
  shows "identities_wf (d\<lparr>external_identities := snd (insert_row (new_identity now input) (external_identities d))\<rparr>)"
proof -
  have "keys_ok ei_id (snd (insert_row (new_identity now input) (external_identities d)))"
    by (rule keys_ok_insert) (use assms(1) in \<open>simp_all add: identities_wf_def new_identity_def\<close>)
  moreover have "identity_refs (ei_user_id e) (ei_provider_id e) d" using assms(2,3) by (simp add: new_identity_def)
  moreover have "identities_apart a b" if "a \<in> set (rows (external_identities d)) \<union> {e}"
      "b \<in> set (rows (external_identities d)) \<union> {e}" "ei_id b \<noteq> ei_id a" for a b
    using that assms(1,4) identities_apart_sym[of e a] by (auto simp: identities_wf_def identity_free_apart)
  ultimately show ?thesis
    using assms(1) by (auto simp: identities_wf_def inserted_rows assms(2) identity_refs_def)
qed

lemma ext_create_identity: "ext_safe I H S T U d (snd (create_identity F now input d))"
proof (cases "create_identity F now input d")
  case (Pair r d')
  show ?thesis
  proof (cases r)
    case (Inl x)
    then show ?thesis using Pair create_identity_fails ext.refl by fastforce
  next
    case (Inr e)
    note run = create_identity_run[OF Pair[unfolded Inr]]
    have "links_safe U d (d\<lparr>external_identities := snd (insert_row (new_identity now input) (external_identities d))\<rparr>)"
      by (auto simp: links_safe_def linked_def inserted_rows)
    then show ?thesis
      using ext_identities[OF identities_wf_insert[OF _ run(1,3,4)]] by (simp add: Pair run(2))
  qed
qed

text \<open>Statements on the flows alone.\<close>

lemma ext_login_flows:
  assumes "keys_ok lf_id (external_login_flows d) \<and> distinct (map lf_state_hash (rows (external_login_flows d))) \<Longrightarrow>
      keys_ok lf_id t \<and> distinct (map lf_state_hash (rows t))"
    and "\<And>f. f \<in> set (rows t) \<Longrightarrow> lf_consumed_at f = None \<Longrightarrow> lf_state_hash f \<notin> S \<Longrightarrow> f \<in> set (rows (external_login_flows d))"
  shows "ext_safe I H S T U d (d\<lparr>external_login_flows := t\<rparr>)"
proof -
  have "flows_safe S T d (d\<lparr>external_login_flows := t\<rparr>)"
    using assms(2) by (auto simp: flows_safe_def spent_state_def spent_flow_def spent_verification_def)
  then show ?thesis
    using assms(1) acct_same[of "d\<lparr>external_login_flows := t\<rparr>" d I H] acct_wf_same[of "d\<lparr>external_login_flows := t\<rparr>" d]
    by (simp add: ext_safe_def ext_wf_def flows_wf_def identities_wf_def identity_refs_def links_safe_def linked_def account_tables_def)
qed

lemma ext_email_flows:
  assumes "keys_ok ef_id (external_email_flows d) \<and> distinct (map ef_flow_token_hash (rows (external_email_flows d))) \<Longrightarrow>
      keys_ok ef_id t \<and> distinct (map ef_flow_token_hash (rows t))"
    and "\<And>f. f \<in> set (rows t) \<Longrightarrow> ef_consumed_at f = None \<Longrightarrow> ef_flow_token_hash f \<notin> T \<Longrightarrow>
      \<exists>f' \<in> set (rows (external_email_flows d)). ef_consumed_at f' = None \<and> ef_flow_token_hash f' = ef_flow_token_hash f"
    and "\<And>f h. f \<in> set (rows t) \<Longrightarrow> ef_consumed_at f = None \<Longrightarrow> ef_verification_token_hash f = Some h \<Longrightarrow> h \<notin> T \<Longrightarrow>
      \<exists>f' \<in> set (rows (external_email_flows d)). ef_consumed_at f' = None \<and> ef_verification_token_hash f' = Some h"
  shows "ext_safe I H S T U d (d\<lparr>external_email_flows := t\<rparr>)"
proof -
  have "spent_flow h (d\<lparr>external_email_flows := t\<rparr>)" if "h \<notin> T" "spent_flow h d" for h
    unfolding spent_flow_def
  proof (intro ballI impI notI)
    fix f
    assume "f \<in> set (rows (external_email_flows (d\<lparr>external_email_flows := t\<rparr>)))" "ef_consumed_at f = None" "ef_flow_token_hash f = h"
    then show False using assms(2)[of f] that unfolding spent_flow_def by auto
  qed
  moreover have "spent_verification h (d\<lparr>external_email_flows := t\<rparr>)" if "h \<notin> T" "spent_verification h d" for h
    unfolding spent_verification_def
  proof (intro ballI impI notI)
    fix f
    assume "f \<in> set (rows (external_email_flows (d\<lparr>external_email_flows := t\<rparr>)))" "ef_consumed_at f = None"
      "ef_verification_token_hash f = Some h"
    then show False using assms(3)[of f h] that unfolding spent_verification_def by auto
  qed
  ultimately have "flows_safe S T d (d\<lparr>external_email_flows := t\<rparr>)"
    by (auto simp: flows_safe_def spent_state_def)
  then show ?thesis
    using assms(1) acct_same[of "d\<lparr>external_email_flows := t\<rparr>" d I H] acct_wf_same[of "d\<lparr>external_email_flows := t\<rparr>" d]
    by (simp add: ext_safe_def ext_wf_def flows_wf_def identities_wf_def identity_refs_def links_safe_def linked_def account_tables_def)
qed

lemma ext_new_login_flow:
  assumes "\<And>i. lf_id (model i) = i" and "\<And>i. lf_state_hash (model i) \<in> S"
  shows "ext_safe I H S T U d (snd (login_flow_create F model d))"
proof (cases "\<exists>g \<in> set (rows (external_login_flows d)).
    lf_state_hash g = lf_state_hash (fst (insert_row model (external_login_flows d)))")
  case True
  then show ?thesis by (simp add: login_flow_create_def statement_def split_beta ext.refl)
next
  case False
  have "ext_safe I H S T U d (d\<lparr>external_login_flows := snd (insert_row model (external_login_flows d))\<rparr>)"
  proof (rule ext_login_flows, elim conjE, intro conjI)
    show "keys_ok lf_id (snd (insert_row model (external_login_flows d)))" if "keys_ok lf_id (external_login_flows d)"
      by (rule keys_ok_insert[OF that assms(1)])
  qed (use False assms(2) in \<open>auto simp: inserted_rows insert_row_def Let_def\<close>)
  then show ?thesis using False by (simp add: login_flow_create_def statement_def split_beta)
qed

lemma ext_new_email_flow:
  assumes "\<And>i. ef_id (model i) = i" and "\<And>i. ef_flow_token_hash (model i) \<in> T" and "\<And>i. ef_verification_token_hash (model i) = None"
  shows "ext_safe I H S T U d (snd (email_flow_create F model d))"
proof (cases "\<exists>g \<in> set (rows (external_email_flows d)).
    ef_flow_token_hash g = ef_flow_token_hash (fst (insert_row model (external_email_flows d)))")
  case True
  then show ?thesis by (simp add: email_flow_create_def statement_def split_beta ext.refl)
next
  case False
  have "ext_safe I H S T U d (d\<lparr>external_email_flows := snd (insert_row model (external_email_flows d))\<rparr>)"
  proof (rule ext_email_flows, elim conjE, intro conjI)
    show "keys_ok ef_id (snd (insert_row model (external_email_flows d)))" if "keys_ok ef_id (external_email_flows d)"
      by (rule keys_ok_insert[OF that assms(1)])
  qed (use False assms(2,3) in \<open>auto simp: inserted_rows insert_row_def Let_def\<close>)
  then show ?thesis using False by (simp add: email_flow_create_def statement_def split_beta)
qed

lemma ext_consume_login: "ext_safe I H S T U d (snd (consume_by_state_hash now h d))"
proof (cases "select_one (\<lambda>f. lf_state_hash f = h \<and> login_flow_live now f) (external_login_flows d)")
  case None
  then show ?thesis by (simp add: consume_by_state_hash_def statement_def ext.refl)
next
  case (Some flow)
  let ?t = "snd (update_many (\<lambda>f. lf_id f = lf_id flow \<and> login_flow_live now f)
    (\<lambda>f. f\<lparr>lf_consumed_at := Some now\<rparr>) (external_login_flows d))"
  have "ext_safe I H S T U d (d\<lparr>external_login_flows := ?t\<rparr>)"
  proof (rule ext_login_flows, elim conjE, intro conjI)
    show "keys_ok lf_id ?t" if "keys_ok lf_id (external_login_flows d)" by (rule keys_ok_update[OF that]) simp
    show "distinct (map lf_state_hash (rows ?t))" if "distinct (map lf_state_hash (rows (external_login_flows d)))"
      using that by (simp add: update_many_keys)
  qed (auto simp: update_many_def split: if_splits)
  then show ?thesis by (simp add: consume_by_state_hash_def statement_def Some Let_def split_beta)
qed

lemma ext_update_email_flows:
  assumes "\<And>f. ef_id (g f) = ef_id f" "\<And>f. ef_flow_token_hash (g f) = ef_flow_token_hash f"
    and "\<And>f h. ef_consumed_at (g f) = None \<Longrightarrow> p f \<Longrightarrow> h \<notin> T \<Longrightarrow> ef_verification_token_hash (g f) = Some h \<Longrightarrow>
      ef_verification_token_hash f = Some h"
    and "\<And>f. ef_consumed_at (g f) = None \<Longrightarrow> p f \<Longrightarrow> ef_consumed_at f = None"
  shows "ext_safe I H S T U d (d\<lparr>external_email_flows := snd (update_many p g (external_email_flows d))\<rparr>)"
proof (rule ext_email_flows, elim conjE, intro conjI)
  show "keys_ok ef_id (snd (update_many p g (external_email_flows d)))" if "keys_ok ef_id (external_email_flows d)"
    by (rule keys_ok_update[OF that]) (simp add: assms(1))
  show "distinct (map ef_flow_token_hash (rows (snd (update_many p g (external_email_flows d)))))"
    if "distinct (map ef_flow_token_hash (rows (external_email_flows d)))"
    using that by (simp add: update_many_keys assms(2))
  fix f
  assume f: "f \<in> set (rows (snd (update_many p g (external_email_flows d))))" "ef_consumed_at f = None"
  then obtain f0 where f0: "f0 \<in> set (rows (external_email_flows d))" "f = (if p f0 then g f0 else f0)"
    by (auto simp: update_many_def)
  have none: "ef_consumed_at f0 = None" using f0(2) f(2) assms(4)[of f0] by (auto split: if_splits)
  then show "\<exists>f' \<in> set (rows (external_email_flows d)). ef_consumed_at f' = None \<and> ef_flow_token_hash f' = ef_flow_token_hash f"
    using f0 assms(2) by (intro bexI[of _ f0]) simp_all
  show "\<exists>f' \<in> set (rows (external_email_flows d)). ef_consumed_at f' = None \<and> ef_verification_token_hash f' = Some h"
    if "ef_verification_token_hash f = Some h" "h \<notin> T" for h
    using f0 none that assms(3)[of f0 h] f(2) by (intro bexI[of _ f0]) (auto split: if_splits)
qed

lemma ext_consume_email: "ext_safe I H S T U d (snd (mark_flow_consumed_if_unused now i d))"
proof -
  have "ext_safe I H S T U d (d\<lparr>external_email_flows := snd (update_many (\<lambda>f. ef_id f = i \<and> email_flow_live now f)
      (\<lambda>f. f\<lparr>ef_consumed_at := Some now\<rparr>) (external_email_flows d))\<rparr>)"
    by (rule ext_update_email_flows) simp_all
  then show ?thesis by (simp add: mark_flow_consumed_if_unused_def statement_def Let_def split_beta)
qed

lemma ext_email_request:
  assumes "h \<in> T" shows "ext_safe I H S T U d (snd (update_email_request now i email h d))"
proof -
  have "ext_safe I H S T U d (d\<lparr>external_email_flows := snd (update_many
      (\<lambda>f. ef_id f = i \<and> ef_verification_token_hash f = None \<and> email_flow_live now f)
      (\<lambda>f. f\<lparr>ef_target_email := Some email, ef_verification_token_hash := Some h, ef_email_requested_at := Some now\<rparr>)
      (external_email_flows d))\<rparr>)"
    by (rule ext_update_email_flows) (use assms in auto)
  then show ?thesis by (simp add: update_email_request_def statement_def Let_def split_beta)
qed

lemma ext_cleanup_flows:
  "ext_safe I H S T U d (snd (cleanup_login_flows now d))"
  "ext_safe I H S T U d (snd (cleanup_email_flows now d))"
  "ext_safe I H S T U d (snd (cleanup_binding_flows now d))"
proof -
  have "ext_safe I H S T U d (d\<lparr>external_login_flows := snd (delete_many p (external_login_flows d))\<rparr>)" for p
    by (rule ext_login_flows)
      (auto simp: delete_many_def distinct_map_filter intro: keys_ok_delete[unfolded delete_many_def, simplified])
  then show "ext_safe I H S T U d (snd (cleanup_login_flows now d))"
    by (simp add: cleanup_login_flows_def statement_def Let_def split_beta)
  have "ext_safe I H S T U d (d\<lparr>external_email_flows := snd (delete_many p (external_email_flows d))\<rparr>)" for p
    by (rule ext_email_flows)
      (auto simp: delete_many_def distinct_map_filter intro: keys_ok_delete[unfolded delete_many_def, simplified])
  then show "ext_safe I H S T U d (snd (cleanup_email_flows now d))"
    by (simp add: cleanup_email_flows_def statement_def Let_def split_beta)
  show "ext_safe I H S T U d (snd (cleanup_binding_flows now d))"
    by (rule ext_from_acct[OF acct_same])
      (simp_all add: cleanup_binding_flows_def statement_def Let_def split_beta account_tables_def keeps_def ext_tables_def)
qed

text \<open>Deleting a provider takes its identities and flows along.\<close>

lemma ext_delete_provider:
  assumes "\<And>e. e \<in> set (rows (external_identities d)) \<Longrightarrow> ei_provider_id e = i \<Longrightarrow>
    (ei_identity_namespace e, ei_subject e) \<in> U"
  shows "ext_safe I H S T U d (snd (delete_provider i d))"
proof (cases "fst (delete_many (\<lambda>p. xp_id p = i) (external_providers d)) = 0")
  case True
  then show ?thesis by (simp add: delete_provider_def statement_def split_beta ext.refl)
next
  case False
  define d' where "d' = snd (delete_provider i d)"
  have d': "d' = d\<lparr>external_providers := snd (delete_many (\<lambda>p. xp_id p = i) (external_providers d)),
          external_identities := snd (delete_many (\<lambda>e. ei_provider_id e = i) (external_identities d)),
          external_login_flows := snd (delete_many (\<lambda>f. lf_provider_id f = i) (external_login_flows d)),
          external_email_flows := snd (delete_many (\<lambda>f. ef_provider_id f = i) (external_email_flows d)),
          external_binding_flows := snd (delete_many (\<lambda>f. gf_provider_id f = i) (external_binding_flows d))\<rparr>"
    using False by (simp add: d'_def delete_provider_def statement_def split_beta)
  have rows: "set (rows (external_identities d')) = {e \<in> set (rows (external_identities d)). ei_provider_id e \<noteq> i}"
      "set (rows (external_login_flows d')) = {f \<in> set (rows (external_login_flows d)). lf_provider_id f \<noteq> i}"
      "set (rows (external_email_flows d')) = {f \<in> set (rows (external_email_flows d)). ef_provider_id f \<noteq> i}"
      "set (rows (external_providers d')) = {p \<in> set (rows (external_providers d)). xp_id p \<noteq> i}" "users d' = users d"
    by (simp_all add: d' delete_many_def)
  have same: "auth_sessions d' = auth_sessions d" "users d' = users d" "account_tables d' = account_tables d"
    by (simp_all add: d' account_tables_def)
  have "identities_wf d'" if wf: "identities_wf d"
  proof -
    have "keys_ok ei_id (external_identities d')"
      using wf keys_ok_delete[of ei_id "external_identities d"] by (simp add: d' identities_wf_def)
    moreover have "identity_refs (ei_user_id a) (ei_provider_id a) d'" if "a \<in> set (rows (external_identities d'))" for a
    proof -
      have "identity_refs (ei_user_id a) (ei_provider_id a) d" "ei_provider_id a \<noteq> i"
        using wf that by (simp_all add: identities_wf_def rows)
      then show ?thesis by (auto simp: identity_refs_def rows)
    qed
    ultimately show ?thesis using wf by (simp add: identities_wf_def rows)
  qed
  moreover have "flows_wf d'" if "flows_wf d"
    using that keys_ok_delete[of lf_id "external_login_flows d"] keys_ok_delete[of ef_id "external_email_flows d"]
    by (auto simp: d' flows_wf_def delete_many_def distinct_map_filter)
  moreover have "flows_safe S T d d'" by (auto simp: flows_safe_def spent_state_def spent_flow_def spent_verification_def rows)
  moreover have "links_safe U d d'" using assms by (force simp: links_safe_def linked_def rows)
  ultimately show ?thesis
    using acct_same[OF same] acct_wf_same[OF same] by (simp add: ext_safe_def ext_wf_def flip: d'_def)
qed

section \<open>External-login requests\<close>

lemma ext_profile_kept:
  "keeps (\<lambda>d. (auth_sessions d, users d, account_tables d, ext_tables d)) d
     (snd (create_profile_for_external_auth F J mojang policy now uuid u role ext fb d))"
proof -
  have "keeps (\<lambda>d. (auth_sessions d, users d, account_tables d, ext_tables d)) d
      (snd (create_profile_inner F J mojang policy now uuid u role name allow d))" for name allow d
    unfolding create_profile_inner_def create_profile_with_uuid_in_connection_inner_def create_with_source_def
    by (intro kept.rules) (simp add: keeps_def statement_def Let_def account_tables_def ext_tables_def split_beta)
  then show ?thesis
    unfolding create_profile_for_external_auth_def Let_def
    by (intro kept.rules) (auto split: prod.splits intro!: kept.rules)
qed

lemma ext_profile: "ext_safe I H S T U d (snd (maybe_auto_create_linuxdo_profile X R now provider r claims d))"
proof -
  let ?d = "snd (maybe_auto_create_linuxdo_profile X R now provider r claims d)"
  have "auth_sessions ?d = auth_sessions d \<and> users ?d = users d \<and> account_tables ?d = account_tables d \<and> ext_tables ?d = ext_tables d"
    using ext_profile_kept by (auto simp: maybe_auto_create_linuxdo_profile_def keeps_def split: option.split)
  then show ?thesis by (intro ext_from_acct acct_same) (simp_all add: keeps_def)
qed

lemma ext_enqueue: "ext_safe I H S T U d (snd (enqueue now to nm payload d))"
  by (rule ext_from_acct[OF acct_enqueue ext_kept_statements(8)])

lemma ext_create_user:
  "ext_safe I H S T U d (snd (create_user_with_role A now input email verified_at d))"
  "ext_safe I H S T U d (snd (create_user_without_email_with_role A now input d))"
  by (rule ext_from_acct[OF acct_create_user(3) ext_kept_create_user(3)],
      rule ext_from_acct[OF acct_create_user(4) ext_kept_create_user(4)])

lemma ext_attempts:
  assumes "\<And>n d. ext_safe I H S T U d (snd (m n d))"
  shows "ext_safe I H S T U d (snd (username_attempts m ns d))"
proof (induction ns arbitrary: d)
  case (Cons n ns)
  obtain r d1 where run: "m n d = (r, d1)" by (cases "m n d")
  then have "ext_safe I H S T U d d1" using assms[of d n] by simp
  then show ?case using run ext.trans[OF _ Cons.IH[of d1]] by (cases r) simp_all
qed (simp add: ext.refl)

lemmas ext_rules = ext.rules ext.pair ext_enqueue ext_touch ext_create_identity ext_create_user ext_attempts
  ext_consume_email ext_consume_login ext_profile

lemma ext_resolution:
  "ext_safe I H S T U d (snd (link_external_auth_identity_to_authenticated_user F now provider claims u d))"
  "ext_safe I H S T U d (snd (login_linked now identity claims metadata d))"
  "ext_safe I H S T U d (snd (create_external_auth_user_and_identity X R now provider claims metadata options d))"
  "ext_safe I H S T U d (snd (resolve_external_auth_user_without_email X R now provider claims metadata d))"
  "ext_safe I H S T U d (snd (create_external_auth_user_and_identity_in_connection X R now provider claims d))"
  unfolding link_external_auth_identity_to_authenticated_user_def login_linked_def touch_claims_def
    create_identity_for_claims_def create_external_auth_user_and_identity_def
    resolve_external_auth_user_without_email_def create_external_auth_user_and_identity_in_connection_def
  by (intro ext_rules)+

lemma ext_resolve:
  "ext_safe I H S T U d (snd (resolve_external_auth_user_with_verified_email X R now provider claims d))"
  "ext_safe I H S T U d (snd (resolve_existing_external_auth_identity now claims metadata d))"
  "ext_safe I H S T U d (snd (resolve_external_auth_user X R now provider claims metadata d))"
  unfolding resolve_external_auth_user_with_verified_email_def resolve_existing_external_auth_identity_def
    resolve_external_auth_user_def resolve_external_auth_user_with_options_def provision_def create_identity_for_claims_def
  by (intro ext_rules ext_resolution)+

lemma ext_pending:
  assumes "xa_token_hash X (''oev_'' @ er_token R) \<in> T"
  shows "ext_safe I H S T U d (snd (create_pending_email_verification_flow X R now provider claims return_path d))"
  unfolding create_pending_email_verification_flow_def Let_def
  by (intro ext_rules ext_new_email_flow) (use assms in simp_all)

lemma ext_finish_callback:
  assumes "xa_token_hash X (''oev_'' @ er_token R) \<in> T"
  shows "ext_safe I H S T U d (snd (finish_callback X R now kind key q d))"
  unfolding finish_callback_def finish_without_email_def finish_with_email_def login_with_def
  by (intro ext_rules ext_resolution ext_resolve ext_pending[OF assms])

lemma ext_start_login:
  assumes "\<And>p uri start. xa_start X p uri = Inr start \<Longrightarrow> xa_state_hash X (as_state start) \<in> S"
  shows "ext_safe I H S T U d (snd (start_login X now kind key return_path d))"
  unfolding start_login_def
  by (rule ext.bnd_check | rule ext.bnd_query | rule ext.branch | rule ext.reads
      | rule ext.bnd[OF ext_new_login_flow] | simp add: assms)+

lemma ext_email_requests:
  assumes "xa_token_hash X (build_verification_token short) \<in> T"
  shows "ext_safe I H S T U d (snd (start_email_verification X now short flow_token email d))"
  unfolding start_email_verification_def Let_def by (intro ext_rules ext_email_request[OF assms])

lemma ext_continue:
  "ext_safe I H S T U d (snd (confirm_email_verification X R now token d))"
  "ext_safe I H S T U d (snd (link_with_password X now flow_token identifier password d))"
  unfolding confirm_email_verification_def link_with_password_def Let_def
  by (intro ext_rules ext_resolution ext_resolve)+

lemma ext_delete_link:
  assumes "\<And>e. find_identity_for_user i u d = Some e \<Longrightarrow> (ei_identity_namespace e, ei_subject e) \<in> U" and "ext_wf d"
  shows "ext_safe I H S T U d (snd (delete_link X u i d))"
proof (cases "find_identity_for_user i u d")
  case None
  then show ?thesis by (simp add: delete_link_def bnd_def query_def ret_def ext.refl)
next
  case (Some e)
  then have e: "e \<in> set (rows (external_identities d))" "ei_id e = i"
    by (auto simp: find_identity_for_user_def dest: select_one_Some)
  have "keys_ok ei_id (external_identities d)" using assms(2) by (simp add: ext_wf_def identities_wf_def)
  then have "ext_safe I H S T U d (snd (delete_identity_for_user i u d))"
    using assms(1)[OF Some] e by (intro ext_unlink) (metis keys_ok_inj)
  then show ?thesis
    by (simp add: delete_link_def bnd_def query_def Some raise_def ext.refl split: sum.split)
qed

lemma ext_cleanup: "ext_safe I H S T U d (snd (cleanup_expired_flows now d))"
  unfolding cleanup_expired_flows_def by (intro ext_rules ext_cleanup_flows)

section \<open>Runs\<close>

text \<open>A request, with any arguments, in an environment of \<open>V\<close>: its fresh refresh id is in \<open>I\<close>, the hash of its
  fresh link in \<open>H\<close>, of its login state in \<open>S\<close>, of its flow or verification token in \<open>T\<close>, and it removes
  only identities in \<open>U\<close>.\<close>

inductive external_step ::
    "external_env set \<Rightarrow> string set \<Rightarrow> string set \<Rightarrow> string set \<Rightarrow> string set \<Rightarrow> (string \<times> string) set \<Rightarrow> db \<Rightarrow> db \<Rightarrow> bool"
  for V I H S T U where
  ext_account: "X \<in> V \<Longrightarrow> account_step (xa_account X) I H d d' \<Longrightarrow> external_step V I H S T U d d'"
| ext_start: "X \<in> V \<Longrightarrow> (\<And>p uri start. xa_start X p uri = Inr start \<Longrightarrow> xa_state_hash X (as_state start) \<in> S) \<Longrightarrow>
    external_step V I H S T U d (snd (start_login X now kind key return_path d))"
| ext_callback: "X \<in> V \<Longrightarrow> xa_token_hash X (''oev_'' @ er_token R) \<in> T \<Longrightarrow>
    external_step V I H S T U d (snd (finish_callback X R now kind provider_key q d))"
| ext_email_start: "X \<in> V \<Longrightarrow> xa_token_hash X (build_verification_token short) \<in> T \<Longrightarrow>
    external_step V I H S T U d (snd (start_email_verification X now short flow_token email d))"
| ext_email_confirm: "X \<in> V \<Longrightarrow> external_step V I H S T U d (snd (confirm_email_verification X R now token d))"
| ext_password: "X \<in> V \<Longrightarrow>
    external_step V I H S T U d (snd (link_with_password X now flow_token identifier password d))"
| ext_unlinked: "X \<in> V \<Longrightarrow>
    (\<And>e. find_identity_for_user i u d = Some e \<Longrightarrow> (ei_identity_namespace e, ei_subject e) \<in> U) \<Longrightarrow>
    external_step V I H S T U d (snd (delete_link X u i d))"
| ext_provider_deleted: "(\<And>e. e \<in> set (rows (external_identities d)) \<Longrightarrow> ei_provider_id e = i \<Longrightarrow>
      (ei_identity_namespace e, ei_subject e) \<in> U) \<Longrightarrow>
    external_step V I H S T U d (snd (delete_provider i d))"
| ext_flows_cleaned: "external_step V I H S T U d (snd (cleanup_expired_flows now d))"

inductive external_steps ::
    "external_env set \<Rightarrow> string set \<Rightarrow> string set \<Rightarrow> string set \<Rightarrow> string set \<Rightarrow> (string \<times> string) set \<Rightarrow> db \<Rightarrow> db \<Rightarrow> bool"
  for V I H S T U where
  external_done: "external_steps V I H S T U d d"
| external_more: "external_steps V I H S T U d d1 \<Longrightarrow> external_step V I H S T U d1 d2 \<Longrightarrow> external_steps V I H S T U d d2"

lemma external_step_safe: "external_step V I H S T U d d' \<Longrightarrow> ext_wf d \<Longrightarrow> ext_safe I H S T U d d'"
  by (induction rule: external_step.induct)
    (assumption | erule account_step_ext | rule ext_start_login ext_finish_callback ext_email_requests ext_continue ext_delete_link
      ext_delete_provider ext_cleanup)+

lemma external_steps_safe:
  assumes "external_steps V I H S T U d d'" and "ext_wf d"
  shows "ext_safe I H S T U d d'"
  using assms
proof (induction rule: external_steps.induct)
  case (external_more d d1 d2)
  then have safe: "ext_safe I H S T U d d1" by simp
  then have "ext_wf d1" using external_more.prems by (simp add: ext_safe_def)
  then show ?case using safe external_step_safe[OF external_more.hyps(2)] ext.trans by blast
qed (rule ext.refl)

lemma ext_safeD:
  assumes "ext_safe I H S T U d d'"
  shows "ext_wf d \<Longrightarrow> ext_wf d'" "h \<notin> S \<Longrightarrow> spent_state h d \<Longrightarrow> spent_state h d'"
    "h \<notin> T \<Longrightarrow> spent_flow h d \<Longrightarrow> spent_flow h d'" "h \<notin> T \<Longrightarrow> spent_verification h d \<Longrightarrow> spent_verification h d'"
    "(ns, sub) \<notin> U \<Longrightarrow> linked ns sub d u \<Longrightarrow> linked ns sub d' u"
  using assms by (auto simp: ext_safe_def flows_safe_def links_safe_def)

end
