(* ===== verification/External_Properties.thy ===== *)
theory External_Properties
  imports External_Safety Account_Properties
begin

text \<open>
  Who an external login signs in: the runs of the callback, of the e-mail verification and of the password link,
  and the properties over whole runs of requests.
\<close>

section \<open>Runs of the resolution\<close>

lemma find_identity_linked: "find_identity_of_claims claims d = Some e \<Longrightarrow>
    linked (cl_identity_namespace claims) (cl_subject claims) d (ei_user_id e)"
  by (auto simp: find_identity_of_claims_def find_by_identity_namespace_subject_def linked_def dest: select_one_Some)

lemma find_identity_unlinked:
  "find_identity_of_claims claims d = None \<Longrightarrow> \<not> linked (cl_identity_namespace claims) (cl_subject claims) d v"
  by (auto simp: find_identity_of_claims_def find_by_identity_namespace_subject_def linked_def select_one_None)

text \<open>One account per person, by the unique index on namespace and subject.\<close>

lemma linked_unique:
  assumes "ext_wf d" and "linked ns sub d u" and "linked ns sub d v"
  shows "u = v"
proof -
  obtain a b where ab: "a \<in> set (rows (external_identities d))" "ei_identity_namespace a = ns" "ei_subject a = sub" "ei_user_id a = u"
      "b \<in> set (rows (external_identities d))" "ei_identity_namespace b = ns" "ei_subject b = sub" "ei_user_id b = v"
    using assms(2,3) by (auto simp: linked_def)
  have wf: "keys_ok ei_id (external_identities d)" "ei_id b \<noteq> ei_id a \<Longrightarrow> identities_apart a b"
    using assms(1) ab(1,5) by (auto simp: ext_wf_def identities_wf_def)
  have "ei_id b = ei_id a" using wf(2) ab by (auto simp: identities_apart_def)
  then show ?thesis using keys_ok_inj[OF wf(1) ab(5,1)] ab by simp
qed

lemma create_identity_for_claims_run:
  assumes "create_identity_for_claims F now u provider claims metadata d = (Inr e, d')"
  shows "linked (cl_identity_namespace claims) (cl_subject claims) d' u"
    "\<not> linked (cl_identity_namespace claims) (cl_subject claims) d v" "d' = d\<lparr>external_identities := external_identities d'\<rparr>"
proof -
  note run = create_identity_run[OF assms[unfolded create_identity_for_claims_def]]
  show "linked (cl_identity_namespace claims) (cl_subject claims) d' u"
    unfolding run(2) linked_def by (simp add: inserted_rows new_identity_def)
  show "\<not> linked (cl_identity_namespace claims) (cl_subject claims) d v"
    using run(4) by (auto simp: run(1) identity_free_def new_identity_def linked_def)
  show "d' = d\<lparr>external_identities := external_identities d'\<rparr>" unfolding run(2) by simp
qed

lemma touch_users: "touch_claims now i claims metadata d = (r, d') \<Longrightarrow> users d' = users d"
  by (auto simp: touch_claims_def touch_login_def statement_def Let_def split_beta)

lemma touch_linked: "touch_claims now i claims metadata d = (r, d') \<Longrightarrow> linked ns sub d u \<Longrightarrow> linked ns sub d' u"
  using ext_touch[of "{}" "{}" "{}" "{}" "{}" d i] unfolding touch_claims_def ext_safe_def links_safe_def
  by (metis empty_iff snd_conv)

text \<open>The account a sign-in with \<open>claims\<close> may end in: the one the person was linked to, or, when there was
  none, the account with the e-mail the provider verified, or a new one.\<close>

definition account_of_claims ::
    "external_env \<Rightarrow> external_provider \<Rightarrow> external_claims \<Rightarrow> db \<Rightarrow> db \<Rightarrow> user \<Rightarrow> bool" where
  "account_of_claims X provider claims d d' u =
     (user_status_is_active (u_status u) \<and> u \<in> set (rows (users d'))
      \<and> linked (cl_identity_namespace claims) (cl_subject claims) d' (u_id u)
      \<and> (linked (cl_identity_namespace claims) (cl_subject claims) d (u_id u)
         \<or> (\<forall>v. \<not> linked (cl_identity_namespace claims) (cl_subject claims) d v)
           \<and> (xp_auto_link_verified_email_enabled provider \<and> cl_email_verified claims \<and> u \<in> set (rows (users d))
                \<and> (\<exists>email. cl_email claims = Some email \<and> u_email u = Some email)
              \<or> ap_allow_user_registration (ae_policy (xa_account X)) \<and> u_id u \<notin> u_id ` set (rows (users d))
                \<and> u_role u = RoleUser)))"

text \<open>What the creation of an account gives.\<close>

definition fresh_account :: "external_env \<Rightarrow> external_claims \<Rightarrow> db \<Rightarrow> db \<Rightarrow> user \<Rightarrow> bool" where
  "fresh_account X claims d d' u =
     (user_status_is_active (u_status u) \<and> u \<in> set (rows (users d'))
      \<and> linked (cl_identity_namespace claims) (cl_subject claims) d' (u_id u)
      \<and> (\<forall>v. \<not> linked (cl_identity_namespace claims) (cl_subject claims) d v)
      \<and> ap_allow_user_registration (ae_policy (xa_account X)) \<and> u_id u \<notin> u_id ` set (rows (users d)) \<and> u_role u = RoleUser)"

lemma fresh_account_of_claims: "fresh_account X claims d d' u \<Longrightarrow> account_of_claims X provider claims d d' u"
  by (simp add: fresh_account_def account_of_claims_def)

lemma login_linked_run:
  assumes "find_identity_of_claims claims d = Some e" and "login_linked now e claims metadata d = (Inr r, d')"
  shows "account_of_claims X provider claims d d' (ru_user r)" "users d' = users d" "ru_auto_provisioned r = False"
proof -
  obtain b d1 u where run: "touch_claims now (ei_id e) claims metadata d = (Inr b, d1)"
      "find_user_by_id (ei_user_id e) d1 = Inr u" "user_status_is_active (u_status u)" "d' = d1"
      "r = \<lparr>ru_user = u, ru_linked = False, ru_auto_provisioned = False\<rparr>"
    using assms(2) unfolding login_linked_def by (auto simp: run_simps raise_def split: if_splits)
  have u: "u \<in> set (rows (users d1))" "u_id u = ei_user_id e" using find_user_by_id_Inr[OF run(2)] by auto
  show "account_of_claims X provider claims d d' (ru_user r)"
    using find_identity_linked[OF assms(1)] touch_linked[OF run(1)] u run(3-5) by (simp add: account_of_claims_def)
  show "users d' = users d" "ru_auto_provisioned r = False" using touch_users[OF run(1)] run(4,5) by simp_all
qed

text \<open>A retried attempt left nothing behind.\<close>

lemma username_attempts_run:
  assumes "username_attempts m ns d = (Inr u, d')"
    and "\<And>n e d1. n \<in> set ns \<Longrightarrow> m n d = (Inl e, d1) \<Longrightarrow> external_auth_username_conflict e \<Longrightarrow> d1 = d"
  shows "\<exists>n \<in> set ns. m n d = (Inr u, d')"
  using assms
proof (induction ns)
  case (Cons n ns)
  show ?case
  proof (cases "m n d")
    case (Pair r d1)
    show ?thesis
    proof (cases r)
      case (Inl e)
      then have "external_auth_username_conflict e" "username_attempts m ns d1 = (Inr u, d')"
        using Cons.prems(1) Pair by (auto split: if_splits)
      moreover have "d1 = d" using Cons.prems(2)[of n e d1] Pair Inl calculation(1) by simp
      ultimately show ?thesis using Cons.IH Cons.prems(2) by auto
    qed (use Cons.prems(1) Pair in simp)
  qed
qed simp

lemma new_account:
  assumes "insert_user F (new_user now input email verified uuid h) d = (Inr u, d1)" and "cu_status input = UserActive"
    and "cu_role input = RoleUser" and "create_identity_for_claims F' now (u_id u) provider claims metadata d1 = (Inr e, d')"
    and "ap_allow_user_registration (ae_policy (xa_account X))" and "users_wf d"
  shows "fresh_account X claims d d' u"
proof -
  have u: "u = new_user now input email verified uuid h (next_id (users d))" "d1 = d\<lparr>users := users d1\<rparr>"
      "rows (users d1) = rows (users d) @ [u]"
    using insert_user_run[OF assms(1)] by auto
  have "u_id u \<notin> u_id ` set (rows (users d))"
    using assms(6) by (auto simp: u(1) new_user_def users_wf_def keys_ok_def)
  moreover have "external_identities d1 = external_identities d" by (subst u(2)) simp
  then have "\<not> linked (cl_identity_namespace claims) (cl_subject claims) d v" for v
    using create_identity_for_claims_run(2)[OF assms(4), of v] by (simp add: linked_def)
  moreover have "users d' = users d1" by (subst create_identity_for_claims_run(3)[OF assms(4)]) simp
  ultimately show ?thesis
    using create_identity_for_claims_run(1)[OF assms(4)] assms(2,3,5) u(3)
    by (simp add: fresh_account_def u(1) new_user_def user_status_is_active_def)
qed

lemma create_user_atomic:
  "atomic_handler (create_user_with_role A now input email verified)"
  "atomic_handler (create_user_without_email_with_role A now input)"
  unfolding create_user_with_role_def create_user_without_email_with_role_def insert_user_def
  by (intro atomic_bnd_read read_only_intros atomic_statement | auto)+

lemma identity_failure_final:
  "create_identity_for_claims F now u provider claims metadata d = (Inl e, d') \<Longrightarrow> \<not> external_auth_username_conflict e"
  by (auto simp: create_identity_for_claims_def create_identity_def statement_def external_auth_username_conflict_def
      split_beta split: if_splits)

text \<open>One attempt: the account, then its identity.\<close>

definition account_attempt ::
    "external_env \<Rightarrow> (db, aster_error, user) handler \<Rightarrow> time \<Rightarrow> external_provider \<Rightarrow> external_claims \<Rightarrow> string option \<Rightarrow>
     (db, aster_error, user) handler" where
  "account_attempt X m now provider claims metadata =
     bnd m (\<lambda>u. bnd (create_identity_for_claims (xa_forge X) now (u_id u) provider claims metadata) (\<lambda>_. ret u))"

lemma account_attempt_retry:
  assumes "atomic_handler m" and "account_attempt X m now provider claims metadata d = (Inl e, d')"
    and "external_auth_username_conflict e"
  shows "d' = d"
  using assms identity_failure_final
  by (auto simp: account_attempt_def fail_simps atomic_handler_def)

lemma account_attempt_run:
  assumes "account_attempt X m now provider claims metadata d = (Inr u, d')"
    and "m = create_user_with_role (xa_account X) now input email verified
      \<or> m = create_user_without_email_with_role (xa_account X) now input"
    and "cu_status input = UserActive" and "cu_role input = RoleUser"
    and "ap_allow_user_registration (ae_policy (xa_account X))" and "users_wf d"
  shows "fresh_account X claims d d' u"
proof -
  obtain d1 e where run: "m d = (Inr u, d1)"
      "create_identity_for_claims (xa_forge X) now (u_id u) provider claims metadata d1 = (Inr e, d')"
    using assms(1) unfolding account_attempt_def by (auto simp: run_simps)
  have "\<exists>email v uuid h. insert_user (ae_forge (xa_account X)) (new_user now input email v uuid h) d = (Inr u, d1)"
    using assms(2)
  proof
    assume "m = create_user_with_role (xa_account X) now input email verified"
    with run(1) show ?thesis unfolding create_user_with_role_def by - (simp only:, elim run_elims, blast)
  next
    assume "m = create_user_without_email_with_role (xa_account X) now input"
    with run(1) show ?thesis unfolding create_user_without_email_with_role_def by - (simp only:, elim run_elims, blast)
  qed
  then show ?thesis using new_account[OF _ assms(3,4) run(2) assms(5,6)] by blast
qed

lemma external_input [simp]:
  "cu_status (external_user_input X R provider claims n) = UserActive"
  "cu_role (external_user_input X R provider claims n) = RoleUser"
  by (simp_all add: external_user_input_def)

lemma create_with_email_run:
  assumes "create_external_auth_user_and_identity X R now provider claims metadata options d = (Inr r, d')" and "users_wf d"
  shows "fresh_account X claims d d' (ru_user r)"
proof -
  obtain email where allow: "ap_allow_user_registration (ae_policy (xa_account X))"
    and run: "username_attempts (\<lambda>turn. transaction (bnd (query (\<lambda>d. Inr (find_by_email email d))) (\<lambda>existing.
              if existing \<noteq> None then raise (ValidationError ''account exists; automatic linking disabled'') else
              account_attempt X (create_user_with_role (xa_account X) now (external_user_input X R provider claims turn) email
                     (if cl_email_verified claims then Some now else None)) now provider claims metadata))) [0..<5] d
        = (Inr (ru_user r), d')"
    using assms(1) unfolding create_external_auth_user_and_identity_def account_attempt_def
    by (elim run_elims) (auto simp: bnd_Inr ret_eq)
  obtain n where "account_attempt X (create_user_with_role (xa_account X) now (external_user_input X R provider claims n) email
      (if cl_email_verified claims then Some now else None)) now provider claims metadata d = (Inr (ru_user r), d')"
    using username_attempts_run[OF run] by (auto simp: run_simps fail_simps raise_eq split: if_splits)
  then show ?thesis by (rule account_attempt_run[OF _ disjI1[OF HOL.refl]]) (use allow assms(2) in auto)
qed

lemma create_without_email_run:
  assumes "resolve_external_auth_user_without_email X R now provider claims metadata d = (Inr r, d')" and "users_wf d"
  shows "fresh_account X claims d d' (ru_user r)"
proof -
  have allow: "ap_allow_user_registration (ae_policy (xa_account X))"
    and run: "username_attempts (\<lambda>turn. transaction (account_attempt X (create_user_without_email_with_role (xa_account X) now
        (external_user_input X R provider claims turn)) now provider claims metadata)) [0..<5] d = (Inr (ru_user r), d')"
    using assms(1) unfolding resolve_external_auth_user_without_email_def account_attempt_def
    by (auto simp: bnd_Inr ret_eq raise_eq split: if_splits)
  obtain n where "account_attempt X (create_user_without_email_with_role (xa_account X) now
      (external_user_input X R provider claims n)) now provider claims metadata d = (Inr (ru_user r), d')"
    using username_attempts_run[OF run] by (auto simp: transaction_Inr transaction_Inl)
  then show ?thesis by (rule account_attempt_run) (use allow assms(2) in auto)
qed

lemma create_in_connection_run:
  assumes "create_external_auth_user_and_identity_in_connection X R now provider claims d = (Inr u, d')" and "users_wf d"
  shows "fresh_account X claims d d' u"
proof -
  obtain email where allow: "ap_allow_user_registration (ae_policy (xa_account X))"
    and run: "username_attempts (\<lambda>turn. account_attempt X (create_user_with_role (xa_account X) now
        (external_user_input X R provider claims turn) email (Some now)) now provider claims None) [0..<5] d = (Inr u, d')"
    using assms(1) unfolding create_external_auth_user_and_identity_in_connection_def account_attempt_def
    by (elim run_elims) auto
  obtain n where "account_attempt X (create_user_with_role (xa_account X) now (external_user_input X R provider claims n)
      email (Some now)) now provider claims None d = (Inr u, d')"
    using username_attempts_run[OF run] account_attempt_retry[OF create_user_atomic(1)] by blast
  then show ?thesis by (rule account_attempt_run) (use allow assms(2) in auto)
qed

lemma resolve_run:
  assumes "resolve_external_auth_user X R now provider claims metadata d = (Inr (Some r), d')" and "users_wf d"
  shows "account_of_claims X provider claims d d' (ru_user r)"
proof (cases "find_identity_of_claims claims d")
  case (Some e)
  then have "login_linked now e claims metadata d = (Inr r, d')"
    using assms(1) by (auto simp: resolve_external_auth_user_def resolve_external_auth_user_with_options_def run_simps)
  then show ?thesis by (rule login_linked_run(1)[OF Some])
next
  case None
  then have run: "(case auto_link_target provider claims default_resolve_options d of
           Some u \<Rightarrow>
             if \<not> user_status_is_active (u_status u) then raise account_disabled else
             bnd (create_identity_for_claims (xa_forge X) now (u_id u) provider claims metadata) (\<lambda>_.
             ret (Some \<lparr>ru_user = u, ru_linked = True, ru_auto_provisioned = False\<rparr>))
         | None \<Rightarrow> provision X R now provider claims metadata default_resolve_options) d = (Inr (Some r), d')"
    using assms(1) by (auto simp: resolve_external_auth_user_def resolve_external_auth_user_with_options_def run_simps)
  show ?thesis
  proof (cases "auto_link_target provider claims default_resolve_options d")
    case (Some u)
    then obtain e where link: "create_identity_for_claims (xa_forge X) now (u_id u) provider claims metadata d = (Inr e, d')"
        "user_status_is_active (u_status u)" "ru_user r = u"
      using run by (auto simp: run_simps raise_eq split: if_splits)
    have u: "u \<in> set (rows (users d))" "\<exists>email. cl_email claims = Some email \<and> u_email u = Some email"
        "xp_auto_link_verified_email_enabled provider" "cl_email_verified claims"
      using Some by (auto simp: auto_link_target_def find_by_email_def bind_eq_Some_conv split: if_splits dest: select_one_Some)
    have "users d' = users d" by (subst create_identity_for_claims_run(3)[OF link(1)]) simp
    then show ?thesis
      using create_identity_for_claims_run(1,2)[OF link(1)] u link(2,3) by (simp add: account_of_claims_def)
  next
    case None
    then have "create_external_auth_user_and_identity X R now provider claims metadata default_resolve_options d = (Inr r, d')"
      using run by (auto simp: provision_def run_simps split: if_splits)
    then show ?thesis by (intro fresh_account_of_claims create_with_email_run[OF _ assms(2)])
  qed
qed

section \<open>Runs of the callback\<close>

lemma consume_run:
  assumes "consume_by_state_hash now h d = (Inr (Some flow), d')"
  shows "flow \<in> set (rows (external_login_flows d))" "lf_state_hash flow = h" "login_flow_live now flow"
    "d' = d\<lparr>external_login_flows := snd (update_many (\<lambda>f. lf_id f = lf_id flow \<and> login_flow_live now f)
       (\<lambda>f. f\<lparr>lf_consumed_at := Some now\<rparr>) (external_login_flows d))\<rparr>"
  using assms by (auto simp: consume_by_state_hash_def statement_Inr Let_def split_beta split: option.splits if_splits
      dest!: select_one_Some)

lemma case_option_Inr: "(case v of None \<Rightarrow> Inl e | Some x \<Rightarrow> Inr x) = Inr y \<longleftrightarrow> v = Some y"
  by (cases v) auto

lemma callback_run:
  assumes "finish_callback X R now kind key q d = (Inr outcome, d')"
  obtains code state flow provider ok claims metadata d1 where
    "provider_error q = None" "cq_code q = Some code" "cq_state q = Some state"
    "consume_by_state_hash now (xa_state_hash X state) d = (Inr (Some flow), d1)"
    "find_provider_by_id (lf_provider_id flow) d1 = Inr provider" "callback_provider_ok X kind key provider = Inr ok"
    "exchange_claims X provider flow code = Inr (claims, metadata)" "trust_level_ok X provider metadata"
    "(if external_auth_claims_missing_email claims then finish_without_email X R now flow provider claims metadata
      else finish_with_email X R now flow provider claims metadata) d1 = (Inr outcome, d')"
proof -
  have e: "provider_error q = None" using assms by (cases "provider_error q") (auto simp: finish_callback_def bnd_Inr check_eq)
  show thesis
    using assms unfolding finish_callback_def e
    by (auto simp only: bnd_Inr query_eq option.case if_raise_Inr split_paired_Ex prod.case check_eq
        case_option_Inr intro: that[OF e])
qed

lemma find_provider_Inr:
  "find_provider_by_id i d = Inr p \<Longrightarrow> p \<in> set (rows (external_providers d)) \<and> xp_id p = i"
  by (auto simp: find_provider_by_id_def split: option.splits dest: select_one_Some)

lemma callback_provider_okD:
  assumes "callback_provider_ok X kind key p = Inr ok"
  shows "xp_provider_kind p = kind" "xp_enabled p" "po_allow_login (parse_external_auth_provider_options X (xp_options p))"
  using assms by (auto simp: callback_provider_ok_def split: if_splits sum.splits option.splits)

lemma account_of_claims_same:
  assumes "users d1 = users d" "external_identities d1 = external_identities d"
    and "users d2 = users d'" "external_identities d2 = external_identities d'"
  shows "account_of_claims X provider claims d1 d2 u = account_of_claims X provider claims d d' u"
  using assms by (simp add: account_of_claims_def linked_def)

lemma login_with_run:
  assumes "login_with X R now flow provider claims r d = (Inr outcome, d')"
  shows "outcome = LoginOutcome (primary_login_of (lf_return_path flow) provider claims r)"
    "users d' = users d" "external_identities d' = external_identities d"
proof -
  let ?d = "snd (maybe_auto_create_linuxdo_profile X R now provider r claims d)"
  have d': "d' = ?d" and out: "outcome = LoginOutcome (primary_login_of (lf_return_path flow) provider claims r)"
    using assms unfolding login_with_def by (auto simp: run_simps)
  show "outcome = LoginOutcome (primary_login_of (lf_return_path flow) provider claims r)" by (rule out)
  have "users ?d = users d \<and> ext_tables ?d = ext_tables d"
    using ext_profile_kept by (auto simp: maybe_auto_create_linuxdo_profile_def keeps_def split: option.split)
  then show "users d' = users d" "external_identities d' = external_identities d"
    by (simp_all add: d' ext_tables_def)
qed

lemma finish_run:
  assumes "(if external_auth_claims_missing_email claims then finish_without_email X R now flow provider claims metadata
      else finish_with_email X R now flow provider claims metadata) d = (Inr (LoginOutcome p), d')" and "users_wf d"
  shows "pl_issuer p = cl_identity_namespace claims \<and> pl_subject p = cl_subject claims
    \<and> account_of_claims X provider claims d d' (pl_user p)"
proof -
  have pending: "create_pending_email_verification_flow X R now provider claims rp d1 \<noteq> (Inr (LoginOutcome p), d')" for rp d1
    by (simp add: create_pending_email_verification_flow_def Let_def bnd_Inr ret_eq)
  have login: ?thesis if "login_with X R now flow provider claims r d1 = (Inr (LoginOutcome p), d')"
      "account_of_claims X provider claims d d1 (ru_user r)" for r d1
    using login_with_run[OF that(1)] that(2) account_of_claims_same[of d d d' d1] by (simp add: primary_login_of_def)
  show ?thesis
  proof (cases "external_auth_claims_missing_email claims")
    case True
    then have run: "finish_without_email X R now flow provider claims metadata d = (Inr (LoginOutcome p), d')" using assms(1) by simp
    show ?thesis
    proof (cases "find_identity_of_claims claims d")
      case (Some e)
      then obtain r where "login_linked now e claims metadata d = (Inr r, d')" "p = primary_login_of (lf_return_path flow) provider claims r"
        using run by (auto simp: finish_without_email_def resolve_existing_external_auth_identity_def run_simps)
      then show ?thesis using login_linked_run(1)[OF Some] by (simp add: primary_login_of_def)
    next
      case None
      then have "bnd (resolve_external_auth_user_without_email X R now provider claims metadata)
          (login_with X R now flow provider claims) d = (Inr (LoginOutcome p), d')"
        using run pending by (auto simp: finish_without_email_def resolve_existing_external_auth_identity_def bnd_Inr
            query_eq ret_eq raise_eq split: if_splits)
      then show ?thesis using login fresh_account_of_claims[OF create_without_email_run[OF _ assms(2)]] by (auto simp: bnd_Inr)
    qed
  next
    case False
    then obtain v d1 where v: "resolve_external_auth_user X R now provider claims metadata d = (Inr v, d1)"
        "(case v of Some r \<Rightarrow> login_with X R now flow provider claims r
          | None \<Rightarrow> create_pending_email_verification_flow X R now provider claims (lf_return_path flow)) d1
         = (Inr (LoginOutcome p), d')"
      using assms(1) by (auto simp: finish_with_email_def bnd_Inr)
    then obtain r where "v = Some r" using pending by (cases v) auto
    then show ?thesis using v login resolve_run[OF _ assms(2)] by auto
  qed
qed

section \<open>Flows that were used\<close>

lemma consume_spends_state:
  assumes "flows_wf d" and "flow \<in> set (rows (external_login_flows d))" and "login_flow_live now flow"
  shows "spent_state (lf_state_hash flow) (snd (consume_by_state_hash now (lf_state_hash flow) d))"
proof -
  have inj: "f = flow" if "f \<in> set (rows (external_login_flows d))" "lf_state_hash f = lf_state_hash flow" for f
    using assms(1,2) that by (auto simp: flows_wf_def distinct_map dest: inj_onD)
  have sel: "select_one (\<lambda>f. lf_state_hash f = lf_state_hash flow \<and> login_flow_live now f) (external_login_flows d) = Some flow"
  proof (cases "select_one (\<lambda>f. lf_state_hash f = lf_state_hash flow \<and> login_flow_live now f) (external_login_flows d)")
    case None
    then show ?thesis using assms(2,3) by (auto simp: select_one_None)
  next
    case (Some f)
    then show ?thesis using inj select_one_Some[OF Some] by simp
  qed
  have "f \<in> set (rows (external_login_flows d)) \<Longrightarrow> lf_state_hash f = lf_state_hash flow \<Longrightarrow> f = flow" for f by (rule inj)
  then show ?thesis
    using assms(3)
    by (auto simp: consume_by_state_hash_def statement_def sel Let_def split_beta spent_state_def update_many_def split: if_splits)
qed

text \<open>After the state was matched nothing brings the flow back, whatever the rest of the callback does.\<close>

lemma callback_spends:
  assumes "flows_wf d" and "flow \<in> set (rows (external_login_flows d))" and "login_flow_live now flow"
    and "provider_error q = None" and "cq_code q = Some code" and "cq_state q = Some state"
    and "lf_state_hash flow = xa_state_hash X state"
  shows "spent_state (xa_state_hash X state) (snd (finish_callback X R now kind key q d))"
proof -
  let ?d1 = "snd (consume_by_state_hash now (xa_state_hash X state) d)"
  have spent: "spent_state (xa_state_hash X state) ?d1"
    using consume_spends_state[OF assms(1-3)] assms(7) by simp
  have ext: "ext_safe {} {} {} UNIV UNIV ?d1 (snd (finish_callback X R now kind key q d))"
  proof -
    obtain r where r: "consume_by_state_hash now (xa_state_hash X state) d = (r, ?d1)"
      by (cases "consume_by_state_hash now (xa_state_hash X state) d") simp
    show ?thesis
      unfolding finish_callback_def finish_without_email_def finish_with_email_def login_with_def assms(4-6)
      by (simp add: bnd_def[of "check (Inr _)"] bnd_def[of "consume_by_state_hash _ _"] check_def[of "Inr _"]
          prod.case_eq_if split: sum.split)
        (auto intro!: ext.refl ext_rules ext_resolution ext_resolve ext_pending)
  qed
  then show ?thesis using spent by (simp add: ext_safe_def flows_safe_def)
qed

lemma spent_state_refused:
  assumes "spent_state (xa_state_hash X state) d" and "cq_state q = Some state"
  shows "\<exists>e. finish_callback X R now kind key q d = (Inl e, d)"
proof -
  have "select_one (\<lambda>f. lf_state_hash f = xa_state_hash X state \<and> login_flow_live now f) (external_login_flows d) = None"
    using assms(1) by (auto simp: select_one_None spent_state_def login_flow_live_def)
  then have "consume_by_state_hash now (xa_state_hash X state) d = (Inr None, d)"
    by (simp add: consume_by_state_hash_def statement_def)
  then show ?thesis
    using assms(2) by (auto simp: finish_callback_def bnd_def check_def split: option.split sum.split)
qed

lemma external_login_run:
  assumes "finish_callback X R now kind key q d = (Inr (LoginOutcome p), d')" and "ext_wf d"
  shows "\<exists>code state flow provider claims metadata. cq_error q = None \<and> cq_code q = Some code \<and> cq_state q = Some state
    \<and> flow \<in> set (rows (external_login_flows d)) \<and> lf_state_hash flow = xa_state_hash X state
    \<and> lf_consumed_at flow = None \<and> now < lf_expires_at flow
    \<and> provider \<in> set (rows (external_providers d)) \<and> xp_id provider = lf_provider_id flow
    \<and> xp_provider_kind provider = kind \<and> xp_enabled provider
    \<and> po_allow_login (parse_external_auth_provider_options X (xp_options provider))
    \<and> exchange_claims X provider flow code = Inr (claims, metadata) \<and> trust_level_ok X provider metadata
    \<and> pl_issuer p = cl_identity_namespace claims \<and> pl_subject p = cl_subject claims
    \<and> account_of_claims X provider claims d d' (pl_user p)"
proof -
  obtain code state flow provider ok claims metadata d1 where run:
      "provider_error q = None" "cq_code q = Some code" "cq_state q = Some state"
      "consume_by_state_hash now (xa_state_hash X state) d = (Inr (Some flow), d1)"
      "find_provider_by_id (lf_provider_id flow) d1 = Inr provider" "callback_provider_ok X kind key provider = Inr ok"
      "exchange_claims X provider flow code = Inr (claims, metadata)" "trust_level_ok X provider metadata"
      "(if external_auth_claims_missing_email claims then finish_without_email X R now flow provider claims metadata
        else finish_with_email X R now flow provider claims metadata) d1 = (Inr (LoginOutcome p), d')"
    by (rule callback_run[OF assms(1)])
  note consumed = consume_run[OF run(4)]
  have same: "users d1 = users d" "external_identities d1 = external_identities d" "external_providers d1 = external_providers d"
    by (simp_all add: consumed(4))
  have "users_wf d1" using assms(2) by (simp add: ext_wf_def acct_wf_def web_wf_def users_wf_def same)
  note finish = finish_run[OF run(9) this]
  have "account_of_claims X provider claims d d' (pl_user p)"
    using finish account_of_claims_same[OF same(1,2), of d' d'] by simp
  moreover have "cq_error q = None" using run(1) by (simp add: provider_error_def)
  moreover have "provider \<in> set (rows (external_providers d))" "xp_id provider = lf_provider_id flow"
    using find_provider_Inr[OF run(5)] by (simp_all add: same)
  ultimately show ?thesis
    using run(2,3,7,8) consumed(1,2,3) callback_provider_okD[OF run(6)] finish unfolding login_flow_live_def by blast
qed

section \<open>Runs of the continuations\<close>

lemma mark_flow_run:
  assumes "mark_flow_consumed_if_unused now i d = (Inr b, d')"
  shows "d' = d\<lparr>external_email_flows := snd (update_many (\<lambda>f. ef_id f = i \<and> email_flow_live now f)
       (\<lambda>f. f\<lparr>ef_consumed_at := Some now\<rparr>) (external_email_flows d))\<rparr>"
  using assms by (auto simp: mark_flow_consumed_if_unused_def statement_Inr Let_def split_beta)

lemma mark_flow_spends:
  assumes "mark_flow_consumed_if_unused now (ef_id flow) d = (Inr b, d')" and "email_flow_live now flow"
    and "flow \<in> set (rows (external_email_flows d))" and "\<And>f. f \<in> set (rows (external_email_flows d)) \<Longrightarrow> p f \<Longrightarrow> f = flow"
    and "\<And>f. p (f\<lparr>ef_consumed_at := Some now\<rparr>) = p f"
  shows "\<forall>f \<in> set (rows (external_email_flows d')). p f \<longrightarrow> ef_consumed_at f \<noteq> None"
proof (intro ballI impI)
  fix f assume f: "f \<in> set (rows (external_email_flows d'))" "p f"
  then obtain f0 where f0: "f0 \<in> set (rows (external_email_flows d))"
      "f = (if ef_id f0 = ef_id flow \<and> email_flow_live now f0 then f0\<lparr>ef_consumed_at := Some now\<rparr> else f0)"
    by (auto simp: mark_flow_run[OF assms(1)] update_many_def)
  then have "p f0" using f(2) assms(5)[of f0] by (simp split: if_splits)
  then have "f0 = flow" by (rule assms(4)[OF f0(1)])
  then show "ef_consumed_at f \<noteq> None" using f0(2) assms(2) by simp
qed

lemma mark_flow_spends_token:
  assumes "mark_flow_consumed_if_unused now (ef_id flow) d = (Inr b, d')" and "email_flow_live now flow"
    and "flow \<in> set (rows (external_email_flows d))" and "flows_wf d"
  shows "spent_flow (ef_flow_token_hash flow) d'"
  unfolding spent_flow_def
proof (rule mark_flow_spends[OF assms(1-3)])
  fix f
  assume "f \<in> set (rows (external_email_flows d))" "ef_flow_token_hash f = ef_flow_token_hash flow"
  moreover have "inj_on ef_flow_token_hash (set (rows (external_email_flows d)))"
    using assms(4) by (simp add: flows_wf_def distinct_map)
  ultimately show "f = flow" using assms(3) by (auto dest: inj_onD)
qed simp

lemma active_flow_Inr:
  assumes "active_flow now h d = Inr flow"
  shows "flow \<in> set (rows (external_email_flows d))" "ef_flow_token_hash flow = h" "email_flow_live now flow"
  using assms by (auto simp: active_flow_def find_active_by_flow_token_hash_def split: option.splits dest: select_one_Some)

text \<open>The account a confirmed e-mail address may end in: the one the person was linked to, or, when there was
  none, the account with that address, verified before, or a new one.\<close>

definition account_of_email ::
    "external_env \<Rightarrow> external_claims \<Rightarrow> string \<Rightarrow> db \<Rightarrow> db \<Rightarrow> user \<Rightarrow> bool" where
  "account_of_email X claims email d d' u =
     (user_status_is_active (u_status u) \<and> u \<in> set (rows (users d'))
      \<and> linked (cl_identity_namespace claims) (cl_subject claims) d' (u_id u)
      \<and> (linked (cl_identity_namespace claims) (cl_subject claims) d (u_id u)
         \<or> (\<forall>v. \<not> linked (cl_identity_namespace claims) (cl_subject claims) d v)
           \<and> (u \<in> set (rows (users d)) \<and> u_email u = Some email \<and> u_email_verified_at u \<noteq> None
              \<or> ap_allow_user_registration (ae_policy (xa_account X)) \<and> u_id u \<notin> u_id ` set (rows (users d))
                \<and> u_role u = RoleUser)))"

lemma verified_email_run:
  assumes "resolve_external_auth_user_with_verified_email X R now provider claims d = (Inr r, d')"
    and "cl_email claims = Some email" and "users_wf d"
  shows "account_of_email X claims email d d' (ru_user r)"
proof (cases "find_identity_of_claims claims d")
  case (Some e)
  then have "login_linked now e claims None d = (Inr r, d')"
    using assms(1) by (auto simp: resolve_external_auth_user_with_verified_email_def run_simps)
  from login_linked_run(1)[OF Some this] show ?thesis
    using find_identity_linked[OF Some] by (auto simp: account_of_claims_def account_of_email_def)
next
  case None
  then have run: "(case find_by_email email d of
           Some u \<Rightarrow>
             if \<not> user_status_is_active (u_status u) then raise account_disabled else
             if u_email_verified_at u = None then raise (AuthForbidden ''local account email is not verified'') else
             bnd (create_identity_for_claims (xa_forge X) now (u_id u) provider claims None) (\<lambda>_.
             ret \<lparr>ru_user = u, ru_linked = True, ru_auto_provisioned = False\<rparr>)
         | None \<Rightarrow>
             bnd (create_external_auth_user_and_identity_in_connection X R now provider claims) (\<lambda>u.
             ret \<lparr>ru_user = u, ru_linked = True, ru_auto_provisioned = True\<rparr>)) d = (Inr r, d')"
    using assms(1,2) by (auto simp: resolve_external_auth_user_with_verified_email_def required_email_def run_simps)
  show ?thesis
  proof (cases "find_by_email email d")
    case None
    then obtain u where u: "create_external_auth_user_and_identity_in_connection X R now provider claims d = (Inr u, d')" "ru_user r = u"
      using run by (auto simp: run_simps)
    then show ?thesis using create_in_connection_run[OF u(1) assms(3)] by (simp add: fresh_account_def account_of_email_def)
  next
    case (Some u)
    then obtain e where link: "create_identity_for_claims (xa_forge X) now (u_id u) provider claims None d = (Inr e, d')"
        "user_status_is_active (u_status u)" "u_email_verified_at u \<noteq> None" "ru_user r = u"
      using run by (auto simp: run_simps raise_eq split: if_splits)
    have u: "u \<in> set (rows (users d))" "u_email u = Some email"
      using Some by (auto simp: find_by_email_def dest: select_one_Some)
    have "users d' = users d" by (subst create_identity_for_claims_run(3)[OF link(1)]) simp
    then show ?thesis
      using create_identity_for_claims_run(1,2)[OF link(1)] u link(2-4) by (simp add: account_of_email_def)
  qed
qed

lemma link_authenticated_run:
  assumes "link_external_auth_identity_to_authenticated_user F now provider claims u d = (Inr r, d')" and "ext_wf d"
  shows "linked (cl_identity_namespace claims) (cl_subject claims) d' (u_id u)
    \<and> (\<forall>v. linked (cl_identity_namespace claims) (cl_subject claims) d v \<longrightarrow> v = u_id u) \<and> ru_user r = u"
proof (cases "find_identity_of_claims claims d")
  case (Some e)
  then obtain b where "touch_claims now (ei_id e) claims None d = (Inr b, d')" "ei_user_id e = u_id u" "ru_user r = u"
    using assms(1) by (auto simp: link_external_auth_identity_to_authenticated_user_def run_simps raise_eq split: if_splits)
  then show ?thesis
    using find_identity_linked[OF Some] touch_linked linked_unique[OF assms(2)] by metis
next
  case None
  then obtain e where "create_identity_for_claims F now (u_id u) provider claims None d = (Inr e, d')" "ru_user r = u"
    using assms(1) by (auto simp: link_external_auth_identity_to_authenticated_user_def run_simps)
  then show ?thesis using create_identity_for_claims_run(1,2) by blast
qed

lemma account_of_email_same:
  assumes "users d1 = users d" "external_identities d1 = external_identities d"
  shows "account_of_email X claims email d1 d' u = account_of_email X claims email d d' u"
  using assms by (simp add: account_of_email_def linked_def)

section \<open>Sample\<close>

text \<open>A GitHub provider that links accounts by verified e-mail, with one login under way and one login that waits
  for a local account.\<close>

definition plain_claims :: external_claims where
  "plain_claims = \<lparr>cl_identity_namespace = ''github'', cl_subject = ''42'', cl_email = Some ''steve@example.com'',
     cl_email_verified = True, cl_display_name = Some ''Steve'', cl_preferred_username = Some ''steve''\<rparr>"

definition plain_external :: external_env where
  "plain_external = \<lparr>xa_account = plain_env, xa_codec = plain_codec, xa_mojang = (\<lambda>_. Inl Panicked), xa_ygg_policy = sample_policy,
     xa_options_from_json = (\<lambda>_. None), xa_normalize_key = Inr, xa_normalize_return_path = (\<lambda>_. Inr ''/''),
     xa_normalize_flow_token = Inr, xa_state_hash = (#) CHR ''#'', xa_token_hash = (#) CHR ''#'',
     xa_email_domain_allowed = (\<lambda>_ _. Inr True), xa_public_url = Some, xa_start = (\<lambda>_ _. Inl Panicked),
     xa_exchange = (\<lambda>_ _. Inr plain_claims), xa_linuxdo = (\<lambda>_. Inl Panicked), xa_trust_json = show_int,
     xa_trust_from_json = (\<lambda>_. None)\<rparr>"

definition plain_random :: external_random where
  "plain_random = \<lparr>er_suffix = (\<lambda>_. ''abc123''), er_password = (\<lambda>_. ''random password''), er_token = ''t'', er_profile_uuid = ''p''\<rparr>"

definition github_provider :: external_provider where
  "github_provider = \<lparr>xp_id = 1, xp_key = ''github'', xp_display_name = ''GitHub'', xp_icon_url = None,
     xp_provider_kind = KindGitHub, xp_protocol = ProtocolOAuth2, xp_options = ''{}'', xp_issuer_url = None,
     xp_authorization_url = None, xp_token_url = None, xp_userinfo_url = None, xp_client_id = ''id'', xp_client_secret = None,
     xp_scopes = [], xp_enabled = True, xp_auto_provision_enabled = True, xp_auto_link_verified_email_enabled = True,
     xp_require_email_verified = True, xp_subject_claim = None, xp_username_claim = None, xp_display_name_claim = None,
     xp_email_claim = None, xp_email_verified_claim = None, xp_groups_claim = None, xp_avatar_url_claim = None,
     xp_allowed_domains = None, xp_created_at = 0, xp_updated_at = 0\<rparr>"

definition sample_login_flow :: external_login_flow where
  "sample_login_flow = \<lparr>lf_id = 1, lf_provider_id = 1, lf_state_hash = ''#state'', lf_nonce = None, lf_pkce_verifier = None,
     lf_redirect_uri = ''https://skin.example/cb'', lf_return_path = None, lf_created_at = 0, lf_expires_at = 300000,
     lf_consumed_at = None\<rparr>"

definition sample_email_flow :: external_email_flow where
  "sample_email_flow = \<lparr>ef_id = 1, ef_provider_id = 1, ef_identity_namespace = ''github'', ef_subject = ''7'',
     ef_target_email = Some ''steve@example.com'', ef_display_name_snapshot = None, ef_preferred_username_snapshot = None,
     ef_return_path = None, ef_flow_token_hash = ''#flow'', ef_verification_token_hash = Some ''#mail'',
     ef_email_requested_at = Some 0, ef_created_at = 0, ef_expires_at = 1800000, ef_consumed_at = None\<rparr>"

definition external_db :: db where
  "external_db = account_db\<lparr>external_providers := \<lparr>rows = [github_provider], next_id = 2\<rparr>,
     external_login_flows := \<lparr>rows = [sample_login_flow], next_id = 2\<rparr>,
     external_email_flows := \<lparr>rows = [sample_email_flow], next_id = 2\<rparr>\<rparr>"

definition sample_callback :: callback_query where
  "sample_callback = \<lparr>cq_code = Some ''code'', cq_state = Some ''state'', cq_error = None, cq_error_description = None\<rparr>"

definition sample_login :: "string \<Rightarrow> primary_login" where
  "sample_login subject = \<lparr>pl_user = verified_user, pl_return_path = ''/'', pl_provider_key = ''github'', pl_issuer = ''github'',
     pl_subject = subject, pl_linked = True, pl_auto_provisioned = False\<rparr>"

lemma external_db_wf: "ext_wf external_db"
proof -
  have "acct_wf external_db = acct_wf account_db"
    by (rule acct_wf_same) (simp_all add: external_db_def account_tables_def)
  then show ?thesis
    using account_db_wf
    by (simp add: ext_wf_def identities_wf_def flows_wf_def keys_ok_def external_db_def account_db_def signed_in_db_def
        sample_db_def empty_db_def empty_table_def sample_login_flow_def sample_email_flow_def)
qed

lemma sample_tables:
  "external_login_flows external_db = \<lparr>rows = [sample_login_flow], next_id = 2\<rparr>"
  "external_email_flows external_db = \<lparr>rows = [sample_email_flow], next_id = 2\<rparr>"
  "external_providers external_db = \<lparr>rows = [github_provider], next_id = 2\<rparr>"
  "external_identities external_db = \<lparr>rows = [], next_id = 1\<rparr>"
  "users external_db = \<lparr>rows = [verified_user], next_id = 2\<rparr>"
  by (simp_all add: external_db_def account_db_def signed_in_db_def sample_db_def empty_db_def empty_table_def)

lemmas handler_eval = bnd_def check_def query_def ret_def raise_def transaction_def statement_def

lemma sample_callback_run:
  "fst (finish_callback plain_external plain_random 1000 KindGitHub (Some ''github'') sample_callback external_db)
     = Inr (LoginOutcome (sample_login ''42''))"
proof -
  define d1 where "d1 = external_db\<lparr>external_login_flows := \<lparr>rows = [sample_login_flow\<lparr>lf_consumed_at := Some 1000\<rparr>], next_id = 2\<rparr>\<rparr>"
  have consume: "consume_by_state_hash 1000 (xa_state_hash plain_external ''state'') external_db = (Inr (Some sample_login_flow), d1)"
    by (simp add: consume_by_state_hash_def statement_def sample_tables select_one_def sample_login_flow_def plain_external_def
        login_flow_live_def update_many_def count_rows_def d1_def)
  have tables: "external_providers d1 = external_providers external_db" "external_identities d1 = external_identities external_db"
      "users d1 = users external_db" by (simp_all add: d1_def)
  have "fst (resolve_external_auth_user plain_external plain_random 1000 github_provider plain_claims None d1)
      = Inr (Some \<lparr>ru_user = verified_user, ru_linked = True, ru_auto_provisioned = False\<rparr>)"
    by (simp add: resolve_external_auth_user_def resolve_external_auth_user_with_options_def handler_eval find_identity_of_claims_def
        find_by_identity_namespace_subject_def tables sample_tables select_one_def require_email_if_configured_def plain_claims_def
        github_provider_def has_email_def check_domain_def email_domain_allowed_def plain_external_def default_resolve_options_def
        auto_link_target_def find_by_email_def verified_user_def sample_user_def user_status_is_active_def
        create_identity_for_claims_def create_identity_def insert_row_def identity_refs_def identity_free_def Let_def)
  then obtain d2 where "resolve_external_auth_user plain_external plain_random 1000 github_provider plain_claims None d1
      = (Inr (Some \<lparr>ru_user = verified_user, ru_linked = True, ru_auto_provisioned = False\<rparr>), d2)"
    by (metis prod.collapse)
  moreover have "find_provider_by_id 1 d1 = Inr github_provider"
    by (simp add: find_provider_by_id_def select_one_def tables sample_tables github_provider_def)
  moreover have "callback_provider_ok plain_external KindGitHub (Some ''github'') github_provider = Inr ()"
    by (simp add: callback_provider_ok_def github_provider_def plain_external_def provider_key_matches_def
        parse_external_auth_provider_options_def options_normalized_def default_provider_options_def)
  moreover have "exchange_claims plain_external github_provider sample_login_flow ''code'' = Inr (plain_claims, None)"
    by (simp add: exchange_claims_def github_provider_def plain_external_def)
  moreover have "lf_provider_id sample_login_flow = 1" by (simp add: sample_login_flow_def)
  ultimately show ?thesis
    using consume
    by (simp add: finish_callback_def sample_callback_def provider_error_def bnd_def check_def query_def trust_level_ok_def
        finish_with_email_def login_with_def maybe_auto_create_linuxdo_profile_def ret_def external_auth_claims_missing_email_def
        has_email_def primary_login_of_def sample_login_def)
      (simp add: github_provider_def plain_claims_def sample_login_flow_def finish_with_email_def login_with_def
        maybe_auto_create_linuxdo_profile_def ret_def bnd_def primary_login_of_def)
qed

lemma sample_marked:
  "mark_flow_consumed_if_unused 1000 1 external_db
     = (Inr True, external_db\<lparr>external_email_flows := \<lparr>rows = [sample_email_flow\<lparr>ef_consumed_at := Some 1000\<rparr>], next_id = 2\<rparr>\<rparr>)"
  by (simp add: mark_flow_consumed_if_unused_def statement_def sample_tables update_many_def count_rows_def email_flow_live_def
      sample_email_flow_def)

lemma sample_confirm_run:
  "fst (confirm_email_verification plain_external plain_random 1000 ''mail'' external_db) = Inr (sample_login ''7'')"
proof -
  have trim: "trim ''mail'' = ''mail''" by code_simp
  have found: "find_active_by_verification_token_hash 1000 (xa_token_hash plain_external ''mail'') external_db = Some sample_email_flow"
    by (simp add: find_active_by_verification_token_hash_def select_one_def sample_tables sample_email_flow_def plain_external_def
        email_flow_live_def)
  have prov: "find_provider_by_id 1 external_db = Inr github_provider"
    by (simp add: find_provider_by_id_def select_one_def sample_tables github_provider_def)
  have flow: "ef_id sample_email_flow = 1" "ef_provider_id sample_email_flow = 1" "ef_target_email sample_email_flow = Some ''steve@example.com''"
    by (simp_all add: sample_email_flow_def)
  have domain: "check_domain plain_external github_provider ''steve@example.com'' = Inr ()" and enabled: "xp_enabled github_provider"
    by (simp_all add: check_domain_def email_domain_allowed_def plain_external_def github_provider_def)
  show ?thesis
    by (simp add: confirm_email_verification_def trim handler_eval found prov flow sample_marked enabled domain
        resolve_external_auth_user_with_verified_email_def required_email_def claims_with_verified_local_email_def
        find_identity_of_claims_def find_by_identity_namespace_subject_def select_one_def sample_tables find_by_email_def)
      (simp add: sample_marked enabled domain resolve_external_auth_user_with_verified_email_def required_email_def
        find_identity_of_claims_def find_by_identity_namespace_subject_def find_by_email_def select_one_def
        check_domain_def email_domain_allowed_def plain_external_def
        verified_user_def sample_user_def user_status_is_active_def github_provider_def handler_eval
        create_identity_for_claims_def create_identity_def insert_row_def identity_refs_def identity_free_def
        primary_login_of_def sample_login_def sample_email_flow_def sample_tables Let_def)
qed

lemma sample_link_run:
  "fst (link_with_password plain_external 1000 ''flow'' ''steve'' ''secret'' external_db) = Inr (sample_login ''7'')"
proof -
  have trim: "trim ''steve'' = ''steve''" by code_simp
  have found: "active_flow 1000 (xa_token_hash plain_external ''flow'') external_db = Inr sample_email_flow"
    by (simp add: active_flow_def find_active_by_flow_token_hash_def select_one_def sample_tables sample_email_flow_def plain_external_def
        email_flow_live_def)
  have prov: "find_provider_by_id 1 external_db = Inr github_provider" "xp_enabled github_provider"
    by (simp_all add: find_provider_by_id_def select_one_def sample_tables github_provider_def)
  have flow: "ef_id sample_email_flow = 1" "ef_provider_id sample_email_flow = 1"
    by (simp_all add: sample_email_flow_def)
  have user: "find_by_identifier ''steve'' external_db = Some verified_user"
    by (simp add: find_by_identifier_def select_one_def sample_tables verified_user_def sample_user_def)
  have ok: "password_result (verify_password (xa_forge plain_external) ''secret'' (u_password_hash verified_user)) = Inr True"
      "user_status_is_active (u_status verified_user)" "is_email_activation_satisfied verified_user"
    by (simp_all add: xa_forge_def plain_external_def plain_env_def password_result_def verified_user_def sample_user_def
        user_status_is_active_def is_email_activation_satisfied_def is_email_verified_def)
  have norm: "xa_normalize_flow_token plain_external ''flow'' = Inr ''flow''" by (simp add: plain_external_def)
  show ?thesis
    by (simp add: link_with_password_def norm trim handler_eval found prov flow user ok sample_marked
        link_external_auth_identity_to_authenticated_user_def claims_without_provider_email_def
        find_identity_of_claims_def find_by_identity_namespace_subject_def select_one_def sample_tables)
      (simp add: sample_marked link_external_auth_identity_to_authenticated_user_def find_identity_of_claims_def
        find_by_identity_namespace_subject_def select_one_def verified_user_def sample_user_def github_provider_def handler_eval
        create_identity_for_claims_def create_identity_def insert_row_def identity_refs_def identity_free_def
        primary_login_of_def sample_login_def sample_email_flow_def sample_tables Let_def)
qed

text \<open>The same database after the person was linked to the account.\<close>

definition known_identity :: external_identity where
  "known_identity = \<lparr>ei_id = 1, ei_user_id = 1, ei_provider_id = 1, ei_identity_namespace = ''github'', ei_subject = ''42'',
     ei_email_snapshot = None, ei_display_name_snapshot = None, ei_metadata = None, ei_created_at = 0, ei_updated_at = 0,
     ei_last_login_at = None\<rparr>"

definition known_db :: db where
  "known_db = external_db\<lparr>external_identities := \<lparr>rows = [known_identity], next_id = 2\<rparr>\<rparr>"

lemma known_db_wf: "ext_wf known_db"
proof -
  have "acct_wf known_db = acct_wf external_db"
    by (rule acct_wf_same) (simp_all add: known_db_def account_tables_def)
  then show ?thesis
    using external_db_wf
    by (simp add: ext_wf_def identities_wf_def flows_wf_def keys_ok_def known_db_def known_identity_def identity_refs_def
        sample_tables verified_user_def sample_user_def github_provider_def)
qed

lemma ran: "fst r = Inr x \<Longrightarrow> r = (Inr x, snd r)"
  by (metis prod.collapse)

lemma known_callback_run:
  "\<exists>p. fst (finish_callback plain_external plain_random 1000 KindGitHub (Some ''github'') sample_callback
       (snd (cleanup_expired_flows 500 known_db))) = Inr (LoginOutcome p) \<and> pl_issuer p = ''github'' \<and> pl_subject p = ''42''"
proof -
  have clean: "external_login_flows (snd (cleanup_expired_flows 500 known_db)) = \<lparr>rows = [sample_login_flow], next_id = 2\<rparr>"
      "external_providers (snd (cleanup_expired_flows 500 known_db)) = \<lparr>rows = [github_provider], next_id = 2\<rparr>"
      "external_identities (snd (cleanup_expired_flows 500 known_db)) = \<lparr>rows = [known_identity], next_id = 2\<rparr>"
      "users (snd (cleanup_expired_flows 500 known_db)) = \<lparr>rows = [verified_user], next_id = 2\<rparr>"
    by (simp_all add: cleanup_expired_flows_def cleanup_login_flows_def cleanup_email_flows_def cleanup_binding_flows_def handler_eval
        split_beta delete_many_def known_db_def sample_tables sample_login_flow_def)
  define d where "d = snd (cleanup_expired_flows 500 known_db)"
  define d1 where "d1 = d\<lparr>external_login_flows := \<lparr>rows = [sample_login_flow\<lparr>lf_consumed_at := Some 1000\<rparr>], next_id = 2\<rparr>\<rparr>"
  note tables = clean[folded d_def]
  have consume: "consume_by_state_hash 1000 (xa_state_hash plain_external ''state'') d = (Inr (Some sample_login_flow), d1)"
    by (simp add: consume_by_state_hash_def statement_def tables select_one_def sample_login_flow_def plain_external_def
        login_flow_live_def update_many_def count_rows_def d1_def)
  have "fst (login_linked 1000 known_identity plain_claims None d1)
      = Inr \<lparr>ru_user = verified_user, ru_linked = False, ru_auto_provisioned = False\<rparr>"
    by (simp add: login_linked_def handler_eval touch_claims_def touch_login_def Let_def split_beta known_identity_def
        find_user_by_id_def d1_def tables select_one_def verified_user_def sample_user_def user_status_is_active_def)
  then obtain d2 where "login_linked 1000 known_identity plain_claims None d1
      = (Inr \<lparr>ru_user = verified_user, ru_linked = False, ru_auto_provisioned = False\<rparr>, d2)"
    by (metis prod.collapse)
  moreover have "find_identity_of_claims plain_claims d1 = Some known_identity"
    by (simp add: find_identity_of_claims_def find_by_identity_namespace_subject_def d1_def tables select_one_def known_identity_def plain_claims_def)
  ultimately have "resolve_external_auth_user plain_external plain_random 1000 github_provider plain_claims None d1
      = (Inr (Some \<lparr>ru_user = verified_user, ru_linked = False, ru_auto_provisioned = False\<rparr>), d2)"
    by (simp add: resolve_external_auth_user_def resolve_external_auth_user_with_options_def handler_eval)
  moreover have "find_provider_by_id 1 d1 = Inr github_provider"
    by (simp add: find_provider_by_id_def select_one_def d1_def tables github_provider_def)
  moreover have "callback_provider_ok plain_external KindGitHub (Some ''github'') github_provider = Inr ()"
    by (simp add: callback_provider_ok_def github_provider_def plain_external_def provider_key_matches_def
        parse_external_auth_provider_options_def options_normalized_def default_provider_options_def)
  moreover have "exchange_claims plain_external github_provider sample_login_flow ''code'' = Inr (plain_claims, None)"
    by (simp add: exchange_claims_def github_provider_def plain_external_def)
  moreover have "lf_provider_id sample_login_flow = 1" by (simp add: sample_login_flow_def)
  ultimately show ?thesis
    using consume unfolding d_def[symmetric]
    by (simp add: finish_callback_def sample_callback_def provider_error_def bnd_def check_def query_def trust_level_ok_def
        finish_with_email_def login_with_def maybe_auto_create_linuxdo_profile_def ret_def external_auth_claims_missing_email_def
        has_email_def primary_login_of_def)
      (simp add: github_provider_def plain_claims_def sample_login_flow_def finish_with_email_def login_with_def
        maybe_auto_create_linuxdo_profile_def ret_def bnd_def primary_login_of_def)
qed

section \<open>Properties\<close>

text \<open>C11. A callback signs in only for a login this server started and has not used or let expire, with an
  enabled provider of the right kind that allows logins, for the person the provider names in exchange for the
  code; the account is active and linked to that person, and it is the one linked before, or the one whose e-mail
  the provider vouches for where linking is on, or a new account without privileges where registration is on.\<close>

theorem external_login_authentic:
  assumes "finish_callback X R now kind key q d = (Inr (LoginOutcome p), d')" and "ext_wf d"
  shows "\<exists>code state flow provider claims metadata. cq_error q = None \<and> cq_code q = Some code \<and> cq_state q = Some state
    \<and> flow \<in> set (rows (external_login_flows d)) \<and> lf_state_hash flow = xa_state_hash X state
    \<and> lf_consumed_at flow = None \<and> now < lf_expires_at flow
    \<and> provider \<in> set (rows (external_providers d)) \<and> xp_id provider = lf_provider_id flow
    \<and> xp_provider_kind provider = kind \<and> xp_enabled provider
    \<and> po_allow_login (parse_external_auth_provider_options X (xp_options provider))
    \<and> exchange_claims X provider flow code = Inr (claims, metadata) \<and> trust_level_ok X provider metadata
    \<and> pl_issuer p = cl_identity_namespace claims \<and> pl_subject p = cl_subject claims
    \<and> account_of_claims X provider claims d d' (pl_user p)"
  by (rule external_login_run[OF assms])

theorem external_login_authentic_witness:
  "fst (finish_callback plain_external plain_random 1000 KindGitHub (Some ''github'') sample_callback external_db) = Inr (LoginOutcome (sample_login ''42''))
    \<and> (\<exists>provider claims. account_of_claims plain_external provider claims external_db
         (snd (finish_callback plain_external plain_random 1000 KindGitHub (Some ''github'') sample_callback external_db)) verified_user)"
proof -
  have "pl_user (sample_login ''42'') = verified_user" by (simp add: sample_login_def)
  then show ?thesis
    using external_login_authentic[OF ran[OF sample_callback_run] external_db_wf] sample_callback_run by auto
qed



text \<open>C12. A person keeps the account: after any run of requests that does not remove the identity, a login with
  it signs in to the account it was linked to.\<close>

theorem identity_keeps_account:
  assumes "ext_wf d" and "linked ns sub d u" and "external_steps V I H S T U d d1" and "(ns, sub) \<notin> U"
    and "finish_callback X R now kind key q d1 = (Inr (LoginOutcome p), d2)" and "pl_issuer p = ns" and "pl_subject p = sub"
  shows "u_id (pl_user p) = u"
proof -
  note safe = external_steps_safe[OF assms(3,1)]
  have wf: "ext_wf d1" using ext_safeD(1)[OF safe assms(1)] .
  have before: "linked ns sub d1 u" using ext_safeD(5)[OF safe assms(4,2)] .
  obtain provider claims where "account_of_claims X provider claims d1 d2 (pl_user p)"
      "cl_identity_namespace claims = ns" "cl_subject claims = sub"
    using external_login_run[OF assms(5) wf] assms(6,7) by auto
  then have "linked ns sub d1 (u_id (pl_user p))" using before by (auto simp: account_of_claims_def)
  then show ?thesis by (rule linked_unique[OF wf _ before])
qed

theorem identity_keeps_account_witness:
  "\<exists>p d'. finish_callback plain_external plain_random 1000 KindGitHub (Some ''github'') sample_callback
       (snd (cleanup_expired_flows 500 known_db)) = (Inr (LoginOutcome p), d') \<and> u_id (pl_user p) = 1"
proof -
  let ?d = "snd (cleanup_expired_flows 500 known_db)"
  have steps: "external_steps {} {} {} {} {} {} known_db ?d" by (rule external_more[OF external_done ext_flows_cleaned])
  obtain p where p: "fst (finish_callback plain_external plain_random 1000 KindGitHub (Some ''github'') sample_callback ?d)
      = Inr (LoginOutcome p)" "pl_issuer p = ''github''" "pl_subject p = ''42''"
    using known_callback_run by auto
  have "u_id (pl_user p) = 1"
    by (rule identity_keeps_account[OF known_db_wf _ steps _ ran[OF p(1)] p(2,3)])
      (simp_all add: linked_def known_db_def known_identity_def)
  then show ?thesis using ran[OF p(1)] by blast
qed

text \<open>C14. Every run of requests keeps the identities, flows, users and sessions well-formed: each person,
  and each user at each provider, has one identity, which belongs to a user and a
  provider that exist; no user's session version decreases.\<close>

theorem external_steps_invariant:
  assumes "external_steps V I H S T U d d'" and "ext_wf d"
  shows "ext_wf d' \<and> versions_grow d d'"
proof -
  note safe = external_steps_safe[OF assms]
  then have "acct_safe I H d d'" by (simp add: ext_safe_def)
  then show ?thesis using ext_safeD(1)[OF safe assms(2)] acct_safeD(2) assms(2) by (auto simp: ext_wf_def)
qed

theorem external_steps_invariant_witness:
  "ext_wf (snd (link_with_password plain_external 1000 ''flow'' ''steve'' ''secret'' external_db))"
proof -
  have "external_steps {plain_external} {} {} {} {} {} external_db
      (snd (link_with_password plain_external 1000 ''flow'' ''steve'' ''secret'' external_db))"
    by (rule external_more[OF external_done ext_password]) simp
  from external_steps_invariant[OF this external_db_wf] show ?thesis by blast
qed

lemma confirm_run:
  assumes "confirm_email_verification X R now token d = (Inr p, d')" and "ext_wf d"
  shows "\<exists>flow email provider d1. flow \<in> set (rows (external_email_flows d))
    \<and> ef_verification_token_hash flow = Some (xa_token_hash X (trim token)) \<and> email_flow_live now flow
    \<and> ef_target_email flow = Some email \<and> provider \<in> set (rows (external_providers d)) \<and> xp_id provider = ef_provider_id flow
    \<and> xp_enabled provider \<and> pl_issuer p = ef_identity_namespace flow \<and> pl_subject p = ef_subject flow
    \<and> mark_flow_consumed_if_unused now (ef_id flow) d = (Inr True, d1)
    \<and> ext_safe {} {} {} {} {} d1 d'
    \<and> account_of_email X (claims_with_verified_local_email flow email) email d d' (pl_user p)"
proof -
  let ?claims = claims_with_verified_local_email
  obtain flow email provider resolved d1 where run:
      "find_active_by_verification_token_hash now (xa_token_hash X (trim token)) d = Some flow" "ef_target_email flow = Some email"
      "find_provider_by_id (ef_provider_id flow) d = Inr provider" "xp_enabled provider"
      "mark_flow_consumed_if_unused now (ef_id flow) d = (Inr True, d1)"
      "resolve_external_auth_user_with_verified_email X R now provider (?claims flow email) d1 = (Inr resolved, d')"
      "p = primary_login_of (ef_return_path flow) provider (?claims flow email) resolved"
    using assms(1) unfolding confirm_email_verification_def Let_def
    by (auto simp only: if_raise_Inr bnd_Inr query_eq check_eq case_option_Inr transaction_Inr ret_eq sum.inject simp_thms)
  have flow: "flow \<in> set (rows (external_email_flows d))" "ef_verification_token_hash flow = Some (xa_token_hash X (trim token))"
      "email_flow_live now flow"
    using run(1) by (auto simp: find_active_by_verification_token_hash_def dest: select_one_Some)
  have same: "users d1 = users d" "external_identities d1 = external_identities d" by (simp_all add: mark_flow_run[OF run(5)])
  have "users_wf d1" using assms(2) by (simp add: ext_wf_def acct_wf_def web_wf_def users_wf_def same)
  then have acc: "account_of_email X (?claims flow email) email d d' (ru_user resolved)"
    using verified_email_run[OF run(6)] account_of_email_same[OF same] by (simp add: claims_with_verified_local_email_def)
  have ext: "ext_safe {} {} {} {} {} d1 d'"
    using ext_resolve(1)[of "{}" "{}" "{}" "{}" "{}" d1 X R now provider "?claims flow email"] run(6) by simp
  have "pl_issuer p = ef_identity_namespace flow" "pl_subject p = ef_subject flow" "pl_user p = ru_user resolved"
    by (simp_all add: run(7) primary_login_of_def claims_with_verified_local_email_def)
  then show ?thesis using flow run(2,4,5) find_provider_Inr[OF run(3)] acc ext by auto
qed

text \<open>A verification link signs in only once: the flow it belongs to was live and its e-mail request made, it
  ends in the account linked to the person, or in the account whose verified e-mail address is the confirmed one, or
  in a new account without privileges, and afterwards the flow is used up.\<close>

theorem email_confirmation_authentic:
  assumes "confirm_email_verification X R now token d = (Inr p, d')" and "ext_wf d"
  shows "\<exists>flow email provider. flow \<in> set (rows (external_email_flows d))
    \<and> ef_verification_token_hash flow = Some (xa_token_hash X (trim token)) \<and> email_flow_live now flow
    \<and> ef_target_email flow = Some email \<and> provider \<in> set (rows (external_providers d)) \<and> xp_id provider = ef_provider_id flow
    \<and> xp_enabled provider \<and> pl_issuer p = ef_identity_namespace flow \<and> pl_subject p = ef_subject flow
    \<and> account_of_email X (claims_with_verified_local_email flow email) email d d' (pl_user p)
    \<and> spent_flow (ef_flow_token_hash flow) d'"
proof -
  obtain flow email provider d1 where run: "flow \<in> set (rows (external_email_flows d))"
      "ef_verification_token_hash flow = Some (xa_token_hash X (trim token))" "email_flow_live now flow"
      "ef_target_email flow = Some email" "provider \<in> set (rows (external_providers d))" "xp_id provider = ef_provider_id flow"
      "xp_enabled provider" "pl_issuer p = ef_identity_namespace flow" "pl_subject p = ef_subject flow"
      "mark_flow_consumed_if_unused now (ef_id flow) d = (Inr True, d1)" "ext_safe {} {} {} {} {} d1 d'"
      "account_of_email X (claims_with_verified_local_email flow email) email d d' (pl_user p)"
    using confirm_run[OF assms] by blast
  have "spent_flow (ef_flow_token_hash flow) d1"
    using mark_flow_spends_token[OF run(10,3,1)] assms(2) by (simp add: ext_wf_def)
  then have "spent_flow (ef_flow_token_hash flow) d'" using ext_safeD(3)[OF run(11)] by simp
  then show ?thesis using run by blast
qed

theorem email_confirmation_authentic_witness:
  "fst (confirm_email_verification plain_external plain_random 1000 ''mail'' external_db) = Inr (sample_login ''7'')
    \<and> (\<exists>h. spent_flow h (snd (confirm_email_verification plain_external plain_random 1000 ''mail'' external_db)))"
  using email_confirmation_authentic[OF ran[OF sample_confirm_run] external_db_wf] sample_confirm_run by blast

lemma link_run:
  assumes "link_with_password X now flow_token identifier password d = (Inr p, d')" and "ext_wf d"
  shows "\<exists>token flow provider u. xa_normalize_flow_token X flow_token = Inr token
    \<and> flow \<in> set (rows (external_email_flows d)) \<and> ef_flow_token_hash flow = xa_token_hash X token \<and> email_flow_live now flow
    \<and> provider \<in> set (rows (external_providers d)) \<and> xp_id provider = ef_provider_id flow \<and> xp_enabled provider
    \<and> find_by_identifier (trim identifier) d = Some u \<and> verify_password (xa_forge X) password (u_password_hash u) = Inr True
    \<and> user_status_is_active (u_status u) \<and> is_email_activation_satisfied u
    \<and> pl_user p = u \<and> pl_issuer p = ef_identity_namespace flow \<and> pl_subject p = ef_subject flow
    \<and> linked (ef_identity_namespace flow) (ef_subject flow) d' (u_id u)
    \<and> (\<forall>v. linked (ef_identity_namespace flow) (ef_subject flow) d v \<longrightarrow> v = u_id u)
    \<and> spent_flow (xa_token_hash X token) d'"
proof -
  let ?claims = claims_without_provider_email
  obtain token flow provider found u resolved d1 where run: "xa_normalize_flow_token X flow_token = Inr token"
      "active_flow now (xa_token_hash X token) d = Inr flow" "find_provider_by_id (ef_provider_id flow) d = Inr provider"
      "xp_enabled provider" "find_by_identifier (trim identifier) d = found"
      "password_result (verify_password (xa_forge X) password
         (case found of None \<Rightarrow> dummy_password_hash | Some u \<Rightarrow> u_password_hash u)) = Inr True"
      "found = Some u" "user_status_is_active (u_status u)" "is_email_activation_satisfied u"
      "mark_flow_consumed_if_unused now (ef_id flow) d = (Inr True, d1)"
      "link_external_auth_identity_to_authenticated_user (xa_forge X) now provider (?claims flow) u d1 = (Inr resolved, d')"
      "p = primary_login_of (ef_return_path flow) provider (?claims flow) resolved"
    using assms(1) unfolding link_with_password_def Let_def
    by (auto simp only: if_raise_Inr bnd_Inr query_eq check_eq case_option_Inr transaction_Inr ret_eq sum.inject simp_thms)
  have same: "external_identities d1 = external_identities d" by (simp add: mark_flow_run[OF run(10)])
  note flow = active_flow_Inr[OF run(2)]
  have "spent_flow (ef_flow_token_hash flow) d1"
    using mark_flow_spends_token[OF run(10) flow(3,1)] assms(2) by (simp add: ext_wf_def)
  then have spent: "spent_flow (ef_flow_token_hash flow) d'"
    using ext_resolution(1)[of "{}" "{}" "{}" "{}" "{}" d1 "xa_forge X" now provider "?claims flow" u] run(11)
      ext_safeD(3) by fastforce
  have wf: "ext_wf d1" using ext_safeD(1)[OF ext_consume_email[of "{}" "{}" "{}" "{}" "{}" d now "ef_id flow"]] run(10) assms(2) by simp
  have link: "linked (ef_identity_namespace flow) (ef_subject flow) d' (u_id u)
      \<and> (\<forall>v. linked (ef_identity_namespace flow) (ef_subject flow) d1 v \<longrightarrow> v = u_id u) \<and> ru_user resolved = u"
    using link_authenticated_run[OF run(11) wf] by (simp add: claims_without_provider_email_def)
  then have "\<forall>v. linked (ef_identity_namespace flow) (ef_subject flow) d v \<longrightarrow> v = u_id u" by (simp add: linked_def same)
  moreover have "verify_password (xa_forge X) password (u_password_hash u) = Inr True"
    using run(6,7) by (auto simp: password_result_def map_sum_Inr)
  moreover have "pl_issuer p = ef_identity_namespace flow" "pl_subject p = ef_subject flow" "pl_user p = ru_user resolved"
    by (simp_all add: run(12) primary_login_of_def claims_without_provider_email_def)
  ultimately show ?thesis
    using run(1,4,5,7,8,9) flow find_provider_Inr[OF run(3)] spent link by auto
qed

lemma spent_flow_refused:
  assumes "spent_flow h d" and "xa_normalize_flow_token X flow_token = Inr token" and "xa_token_hash X token = h"
  shows "\<exists>e. link_with_password X now flow_token identifier password d = (Inl e, d)"
    "\<exists>e. start_email_verification X now short flow_token email d = (Inl e, d)"
proof -
  have "active_flow now (xa_token_hash X token) d = Inl flow_invalid" for now
    using assms(1,3) by (auto simp: active_flow_def find_active_by_flow_token_hash_def spent_flow_def email_flow_live_def
        select_one_None split: option.split dest!: select_one_Some)
  then show "\<exists>e. link_with_password X now flow_token identifier password d = (Inl e, d)"
    "\<exists>e. start_email_verification X now short flow_token email d = (Inl e, d)"
    using assms(2) by (auto simp: link_with_password_def start_email_verification_def bnd_def check_def query_def raise_def
        split: sum.split)
qed

text \<open>C31. Linking with a password needs a live flow and the password of an active, activated account, links the
  person of the flow to that account, and never to one other than the account the person already has.\<close>

theorem password_link_authentic:
  assumes "link_with_password X now flow_token identifier password d = (Inr p, d')" and "ext_wf d"
  shows "\<exists>token flow provider u. xa_normalize_flow_token X flow_token = Inr token
    \<and> flow \<in> set (rows (external_email_flows d)) \<and> ef_flow_token_hash flow = xa_token_hash X token \<and> email_flow_live now flow
    \<and> provider \<in> set (rows (external_providers d)) \<and> xp_id provider = ef_provider_id flow \<and> xp_enabled provider
    \<and> find_by_identifier (trim identifier) d = Some u \<and> verify_password (xa_forge X) password (u_password_hash u) = Inr True
    \<and> user_status_is_active (u_status u) \<and> is_email_activation_satisfied u
    \<and> pl_user p = u \<and> pl_issuer p = ef_identity_namespace flow \<and> pl_subject p = ef_subject flow
    \<and> linked (ef_identity_namespace flow) (ef_subject flow) d' (u_id u)
    \<and> (\<forall>v. linked (ef_identity_namespace flow) (ef_subject flow) d v \<longrightarrow> v = u_id u)
    \<and> spent_flow (xa_token_hash X token) d'"
  by (rule link_run[OF assms])

theorem password_link_authentic_witness:
  "fst (link_with_password plain_external 1000 ''flow'' ''steve'' ''secret'' external_db) = Inr (sample_login ''7'')
    \<and> linked ''github'' ''7'' (snd (link_with_password plain_external 1000 ''flow'' ''steve'' ''secret'' external_db)) 1"
proof -
  have "u_id verified_user = 1" by (simp add: verified_user_def sample_user_def)
  then show ?thesis
    using password_link_authentic[OF ran[OF sample_link_run] external_db_wf] sample_link_run by (auto simp: sample_login_def)
qed

text \<open>The token of a pending login works once: after it linked an account, every later attempt to link with it
  or to request a verification e-mail with it is refused and changes nothing.\<close>

theorem flow_token_single_use:
  assumes "ext_wf d" and "link_with_password X now flow_token identifier password d = (Inr p, d1)"
    and "xa_normalize_flow_token X flow_token = Inr token" and "external_steps V I H S T U d1 d'" and "xa_token_hash X token \<notin> T"
    and "xa_normalize_flow_token X' flow_token' = Inr token'" and "xa_token_hash X' token' = xa_token_hash X token"
  shows "(\<exists>e. link_with_password X' later flow_token' identifier' password' d' = (Inl e, d'))
    \<and> (\<exists>e. start_email_verification X' later short flow_token' email d' = (Inl e, d'))"
proof -
  have spent: "spent_flow (xa_token_hash X token) d1" using link_run[OF assms(2,1)] assms(3) by auto
  have "ext_safe {} {} {} {} {} d (snd (link_with_password X now flow_token identifier password d))" by (rule ext_continue(2))
  then have "ext_wf d1" using ext_safeD(1) assms(1,2) by fastforce
  then have "spent_flow (xa_token_hash X token) d'"
    using ext_safeD(3)[OF external_steps_safe[OF assms(4)] assms(5) spent] by simp
  then show ?thesis using spent_flow_refused[OF _ assms(6)] assms(7) by simp
qed

theorem flow_token_single_use_witness:
  "\<exists>e. start_email_verification plain_external 3000 ''x'' ''flow'' ''steve@example.com''
       (snd (link_with_password plain_external 1000 ''flow'' ''steve'' ''secret'' external_db))
     = (Inl e, snd (link_with_password plain_external 1000 ''flow'' ''steve'' ''secret'' external_db))"
  using flow_token_single_use[OF external_db_wf ran[OF sample_link_run] _ external_done, of "''flow''" "{}" plain_external "''flow''"
      "''flow''" 3000 _ _ "''x''" "''steve@example.com''"]
  by (auto simp: plain_external_def)

end
