(* ===== verification/External_Accounts.thy ===== *)
theory External_Accounts
  imports External_Properties
begin

text \<open>
  The accounts an external login creates: their names always pass the validation of usernames, and a first login
  through LinuxDO gets the first of its five candidate names that is free.
\<close>

section \<open>Candidate names\<close>

definition username_ok :: "char \<Rightarrow> bool" where
  "username_ok c = (is_ascii_alphanumeric c \<or> c = CHR ''_'' \<or> c = CHR ''-'')"

lemma trim_name: "list_all username_ok s \<Longrightarrow> trim s = s"
  by (rule trim_graphic)
    (auto simp: list_all_iff username_ok_def is_ascii_graphic_def is_ascii_alphanumeric_def is_ascii_digit_def is_ascii_upper_def
      is_ascii_lower_def byte_def)

lemma valid_username:
  "list_all username_ok s \<Longrightarrow> 4 \<le> length s \<Longrightarrow> length s \<le> 16 \<Longrightarrow> validate_username s = Inr ()"
  by (simp add: validate_username_def trim_name Let_def username_ok_def[abs_def])

lemma trim_matches_ok: "list_all username_ok s \<Longrightarrow> list_all username_ok (trim_matches c s)"
  using trim_matches_set[of c s] by (auto simp: list_all_iff)

lemma username_char_ok: "username_char c = Some x \<Longrightarrow> username_ok x"
  by (auto simp: username_char_def username_ok_def is_ascii_alphanumeric_def lower_char_def is_ascii_upper_def
      is_ascii_lower_def is_ascii_digit_def byte_def split: if_splits)

lemma sanitize_ok: "list_all username_ok (sanitize_username_piece s)"
  unfolding sanitize_username_piece_def
  by (intro trim_matches_ok) (auto simp: list_all_iff List.map_filter_def dest: username_char_ok)

lemma truncate_ok:
  "list_all username_ok s \<Longrightarrow> list_all username_ok (username_truncate n s)" "length (username_truncate n s) \<le> n"
proof -
  have "list_all username_ok (take n s)" if "list_all username_ok s" using that by (auto simp: list_all_iff dest: in_set_takeD)
  then show "list_all username_ok s \<Longrightarrow> list_all username_ok (username_truncate n s)"
    by (simp add: username_truncate_def trim_matches_ok)
  show "length (username_truncate n s) \<le> n"
    using trim_matches_length[of "CHR ''-''" "take n s"] by (simp add: username_truncate_def)
qed

lemma pad_length:
  "length (pad_username s) = max 4 (length s)" "list_all username_ok s \<Longrightarrow> list_all username_ok (pad_username s)"
proof (induction s rule: pad_username.induct)
  case (1 s)
  { case 1 then show ?case using "1.IH"(1) by (simp add: pad_username.simps[of s])
  next
    case 2
    have "username_ok (CHR ''0'')" by (simp add: username_ok_def is_ascii_alphanumeric_def is_ascii_digit_def byte_def)
    then show ?case using 2 "1.IH"(2) by (simp add: pad_username.simps[of s]) }
qed

lemma usable_piece_ok: "usable_piece v = Some s \<Longrightarrow> list_all username_ok s"
  using sanitize_ok by (auto simp: usable_piece_def split: option.splits if_splits)

text \<open>What the generator of suffixes and the hash promise: six characters of the suffix alphabet, hexadecimal digits.\<close>

definition suffixes_ok :: "external_random \<Rightarrow> bool" where
  "suffixes_ok R = (\<forall>n. length (er_suffix R n) = 6 \<and> set (er_suffix R n) \<subseteq> set ''abcdefghijklmnopqrstuvwxyz0123456789'')"

definition hashes_hex :: "forge \<Rightarrow> bool" where
  "hashes_hex F = (\<forall>s. list_all is_ascii_hexdigit (sha256_hex F s))"

lemma suffix_ok: "suffixes_ok R \<Longrightarrow> list_all username_ok (er_suffix R n) \<and> length (er_suffix R n) = 6"
proof -
  have "\<forall>c \<in> set ''abcdefghijklmnopqrstuvwxyz0123456789''. username_ok c" by code_simp
  then show "suffixes_ok R \<Longrightarrow> ?thesis" by (auto simp: suffixes_ok_def list_all_iff)
qed

lemma hexdigit_ok: "is_ascii_hexdigit c \<Longrightarrow> username_ok c"
  by (auto simp: is_ascii_hexdigit_def username_ok_def is_ascii_alphanumeric_def is_ascii_upper_def is_ascii_lower_def is_ascii_digit_def)

lemma username_ok_samples: "list_all username_ok ''oidc''" "username_ok (CHR ''-'')" "list_all username_ok ''linuxdo_''"
  by code_simp+

lemma base_ok:
  assumes "hashes_hex F"
  shows "list_all username_ok (external_auth_username_base F claims)" "4 \<le> length (external_auth_username_base F claims)"
    "length (external_auth_username_base F claims) \<le> 16"
proof -
  define base where "base = (case usable_piece (cl_preferred_username claims) of
                    Some piece \<Rightarrow> piece
                  | None \<Rightarrow>
                      (case usable_piece (map_option (takeWhile (\<lambda>c. c \<noteq> CHR ''@'')) (cl_email claims)) of
                         Some piece \<Rightarrow> piece
                       | None \<Rightarrow> ''oidc'' @ take 8 (sha256_hex F (cl_subject claims))))"
  have "list_all username_ok (take 8 (sha256_hex F (cl_subject claims)))"
    using assms by (auto simp: hashes_hex_def list_all_iff dest!: in_set_takeD intro: hexdigit_ok)
  then have "list_all username_ok base"
    using username_ok_samples(1) by (auto simp: base_def split: option.split dest: usable_piece_ok)
  moreover have b: "external_auth_username_base F claims = pad_username (username_truncate 16 base)"
    by (simp add: external_auth_username_base_def base_def Let_def)
  ultimately show "list_all username_ok (external_auth_username_base F claims)" by (simp add: pad_length truncate_ok)
  show "4 \<le> length (external_auth_username_base F claims)" "length (external_auth_username_base F claims) \<le> 16"
    using truncate_ok(2)[of 16 base] by (simp_all add: b pad_length)
qed

lemma candidate_ok:
  assumes "suffixes_ok R" and "list_all username_ok base" and "4 \<le> length base" and "length base \<le> 16"
  shows "list_all username_ok (external_auth_username_candidate (er_suffix R) base n)
    \<and> 4 \<le> length (external_auth_username_candidate (er_suffix R) base n)
    \<and> length (external_auth_username_candidate (er_suffix R) base n) \<le> 16"
proof (cases "n = 0")
  case False
  define stem where "stem = (let s = username_truncate (16 - (length (er_suffix R n) + 1)) base in if length s < 4 then ''oidc'' else s)"
  have suffix: "list_all username_ok (er_suffix R n)" "length (er_suffix R n) = 6" using suffix_ok[OF assms(1)] by auto
  then have "list_all username_ok stem" "length stem \<le> 9"
    using truncate_ok(1)[OF assms(2)] truncate_ok(2)[of 9 base] username_ok_samples(1) by (simp_all add: stem_def Let_def)
  moreover have "external_auth_username_candidate (er_suffix R) base n = stem @ ''-'' @ er_suffix R n"
    using False by (simp add: external_auth_username_candidate_def stem_def Let_def)
  ultimately show ?thesis using suffix username_ok_samples(2) by simp
qed (use assms in \<open>simp add: external_auth_username_candidate_def\<close>)

lemma linuxdo_candidate_ok:
  "linuxdo_subject_username_candidate claims = Some s \<Longrightarrow> list_all username_ok s \<and> 4 \<le> length s \<and> length s \<le> 16"
proof -
  have "list_all username_ok (take 8 (sanitize_username_piece (cl_subject claims)))"
    using sanitize_ok[of "cl_subject claims"] by (auto simp: list_all_iff dest: in_set_takeD)
  then have "list_all username_ok (''linuxdo_'' @ take 8 (sanitize_username_piece (cl_subject claims)))"
    using username_ok_samples(3) by (simp only: list_all_append)
  then show "linuxdo_subject_username_candidate claims = Some s \<Longrightarrow> ?thesis"
    by (auto simp: linuxdo_subject_username_candidate_def Let_def split: if_splits)
qed

lemma external_name_valid:
  assumes "suffixes_ok R" and "hashes_hex (xa_forge X)"
  shows "validate_username (cu_username (external_user_input X R provider claims n)) = Inr ()"
proof -
  have "list_all username_ok b \<and> 4 \<le> length b \<and> length b \<le> 16"
    if "b = (case linuxdo_subject_username_candidate claims of None \<Rightarrow> external_auth_username_base (xa_forge X) claims | Some s \<Rightarrow> s)" for b
    using that base_ok[OF assms(2)] linuxdo_candidate_ok by (auto split: option.splits)
  then show ?thesis
    using candidate_ok[OF assms(1)] base_ok[OF assms(2)] valid_username
    by (simp add: external_user_input_def external_auth_username_candidate_for_provider_def)
qed

text \<open>A LinuxDO provider and a hash of hexadecimal digits.\<close>

definition hex_forge :: forge where
  "hex_forge = plain_forge\<lparr>sha256_hex := (\<lambda>s. replicate 64 (CHR ''a''))\<rparr>"

definition hex_external :: external_env where
  "hex_external = plain_external\<lparr>xa_account := plain_env\<lparr>ae_forge := hex_forge\<rparr>\<rparr>"

definition linuxdo_provider :: external_provider where
  "linuxdo_provider = github_provider\<lparr>xp_key := ''linuxdo'', xp_provider_kind := KindLinuxDo\<rparr>"

definition linuxdo_db :: db where
  "linuxdo_db = external_db\<lparr>external_providers := \<lparr>rows = [linuxdo_provider], next_id = 2\<rparr>\<rparr>"

lemma linuxdo_db_wf: "ext_wf linuxdo_db"
proof -
  have "acct_wf linuxdo_db = acct_wf external_db"
    by (rule acct_wf_same) (simp_all add: linuxdo_db_def account_tables_def)
  then show ?thesis
    using external_db_wf by (simp add: ext_wf_def identities_wf_def flows_wf_def linuxdo_db_def sample_tables)
qed

lemma linuxdo_profiles: "rows (minecraft_profiles external_db) = []"
  by (simp add: external_db_def account_db_def signed_in_db_def sample_db_def empty_db_def empty_table_def)

lemma plain_suffixes: "suffixes_ok plain_random"
  by (simp add: suffixes_ok_def plain_random_def)

lemma hex_hashes: "hashes_hex (xa_forge hex_external)"
  by (simp add: hashes_hex_def xa_forge_def hex_external_def hex_forge_def list_all_iff is_ascii_hexdigit_def
      is_ascii_digit_def is_ascii_lower_def byte_def)

text \<open>C33. The names an external login proposes for a new account are valid usernames, for every provider, all
  claims and each of the attempts.\<close>

theorem external_username_valid:
  assumes "suffixes_ok R" and "hashes_hex (xa_forge X)"
  shows "validate_username (cu_username (external_user_input X R provider claims n)) = Inr ()"
  by (rule external_name_valid[OF assms])

theorem external_username_valid_witness:
  "validate_username (cu_username (external_user_input hex_external plain_random linuxdo_provider plain_claims 1)) = Inr ()"
  by (rule external_username_valid[OF plain_suffixes hex_hashes])

section \<open>The first free name\<close>

lemma username_attempts_first:
  assumes "n < k" and "\<And>m. i \<le> m \<Longrightarrow> m < n \<Longrightarrow> \<exists>e. h m d = (Inl e, d) \<and> external_auth_username_conflict e" and "i \<le> n"
    and "h n d = (Inr u, d')"
  shows "username_attempts h [i..<k] d = (Inr u, d')"
  using assms
proof (induction "n - i" arbitrary: i)
  case 0
  then have "[i..<k] = n # [Suc n..<k]" by (simp add: upt_conv_Cons)
  then show ?case using 0 by simp
next
  case (Suc j)
  then have upt: "[i..<k] = i # [Suc i..<k]" by (simp add: upt_conv_Cons)
  have "i < n" using Suc.hyps(2) by simp
  then obtain e where e: "h i d = (Inl e, d)" "external_auth_username_conflict e" using Suc.prems(2)[of i] by auto
  have "username_attempts h [Suc i..<k] d = (Inr u, d')" using Suc by (intro Suc.hyps(1)) auto
  then show ?case by (simp add: upt e)
qed

definition linuxdo_account_ready ::
    "external_env \<Rightarrow> external_random \<Rightarrow> external_provider \<Rightarrow> external_claims \<Rightarrow> db \<Rightarrow> bool" where
  "linuxdo_account_ready X R provider claims d =
     (ap_allow_user_registration (ae_policy (xa_account X)) \<and> xp_provider_kind provider = KindLinuxDo
      \<and> provider \<in> set (rows (external_providers d))
      \<and> (\<forall>e \<in> set (rows (external_identities d)). ei_subject e \<noteq> cl_subject claims)
      \<and> (\<forall>n < 5. validate_password (er_password R n) = Inr () \<and> (\<exists>h. hash_password (xa_forge X) (er_password R n) = Inr h))
      \<and> (\<exists>uuid. unique_public_uuid (ae_new_uuid (xa_account X)) d = Inr uuid \<and> find_by_public_uuid uuid d = None))"

definition candidate_name :: "external_env \<Rightarrow> external_random \<Rightarrow> external_provider \<Rightarrow> external_claims \<Rightarrow> nat \<Rightarrow> string" where
  "candidate_name X R provider claims n = cu_username (external_user_input X R provider claims n)"

lemma create_without_email_taken:
  assumes "validate_username (cu_username input) = Inr ()" and "check_reserved input = Inr ()"
    and "validate_password (cu_password input) = Inr ()" and "ensure_username_available (cu_username input) None d \<noteq> Inr ()"
  shows "create_user_without_email_with_role A now input d = (Inl username_exists_error, d)"
proof -
  have "ensure_username_available (cu_username input) None d = Inl username_exists_error"
    using assms(4) by (auto simp: ensure_username_available_def split: if_splits)
  then show ?thesis using assms(1-3) by (simp add: create_user_without_email_with_role_def bnd_def check_def query_def)
qed

lemma create_without_email_free:
  assumes "validate_username (cu_username input) = Inr ()" and "check_reserved input = Inr ()"
    and "validate_password (cu_password input) = Inr ()" and free: "ensure_username_available (cu_username input) None d = Inr ()"
    and "unique_public_uuid (ae_new_uuid A) d = Inr uuid" and "find_by_public_uuid uuid d = None"
    and "hash_password (ae_forge A) (cu_password input) = Inr h"
  shows "create_user_without_email_with_role A now input d =
    (Inr (new_user now input None None uuid h (next_id (users d))),
     d\<lparr>users := snd (insert_row (new_user now input None None uuid h) (users d))\<rparr>)"
proof -
  have "find_by_username_case_insensitive (cu_username input) d = None"
    using free by (auto simp: ensure_username_available_def split: if_splits option.splits)
  then have "\<forall>v \<in> set (rows (users d)). u_username v \<noteq> cu_username input"
    by (auto simp: find_by_username_case_insensitive_def select_one_None)
  then have "user_unique_ok (new_user now input None None uuid h (next_id (users d))) (users d)"
    using assms(6) by (auto simp: user_unique_ok_def new_user_def find_by_public_uuid_def select_one_None)
  then show ?thesis
    using assms(1-5,7)
    by (simp add: create_user_without_email_with_role_def bnd_def check_def query_def password_result_def insert_user_def
        statement_def insert_row_def Let_def)
qed

lemma fresh_identity:
  assumes "provider \<in> set (rows (external_providers d))" and "\<exists>v \<in> set (rows (users d)). u_id v = u"
    and "\<forall>e \<in> set (rows (external_identities d)). ei_subject e \<noteq> cl_subject claims"
    and "\<forall>e \<in> set (rows (external_identities d)). ei_user_id e \<noteq> u"
  shows "\<exists>e d'. create_identity_for_claims F now u provider claims metadata d = (Inr e, d')"
  using assms
  by (auto simp: create_identity_for_claims_def create_identity_def statement_def insert_row_def Let_def identity_refs_def
      identity_free_def new_identity_def)

text \<open>C32. When registration is on, the first login through LinuxDO of a person this server does not know creates
  an account: it gets the first of the five candidate names that is free, and the person is linked to it.\<close>

theorem linuxdo_first_login_creates_account:
  assumes "ext_wf d" and "linuxdo_account_ready X R provider claims d" and "suffixes_ok R" and "hashes_hex (xa_forge X)"
    and "n < 5" and "ensure_username_available (candidate_name X R provider claims n) None d = Inr ()"
    and "\<forall>m < n. ensure_username_available (candidate_name X R provider claims m) None d \<noteq> Inr ()"
  shows "\<exists>r d'. resolve_external_auth_user_without_email X R now provider claims metadata d = (Inr r, d')
    \<and> u_username (ru_user r) = candidate_name X R provider claims n \<and> fresh_account X claims d d' (ru_user r)"
proof -
  let ?A = "xa_account X" and ?in = "external_user_input X R provider claims"
  let ?attempt = "\<lambda>turn. transaction (account_attempt X (create_user_without_email_with_role ?A now (?in turn)) now provider claims metadata)"
  have ready: "ap_allow_user_registration (ae_policy ?A)" "xp_provider_kind provider = KindLinuxDo"
      "provider \<in> set (rows (external_providers d))" "\<forall>e \<in> set (rows (external_identities d)). ei_subject e \<noteq> cl_subject claims"
    and pw: "\<And>m. m < 5 \<Longrightarrow> validate_password (er_password R m) = Inr ()"
    using assms(2) by (auto simp: linuxdo_account_ready_def)
  have input: "check_reserved (?in m) = Inr ()" "cu_password (?in m) = er_password R m" for m
    by (simp_all add: check_reserved_def external_user_input_def ready(2))
  note valid = external_name_valid[OF assms(3,4), of provider claims]
  obtain h uuid where hu: "hash_password (xa_forge X) (er_password R n) = Inr h"
      "unique_public_uuid (ae_new_uuid ?A) d = Inr uuid" "find_by_public_uuid uuid d = None"
    using assms(2,5) by (auto simp: linuxdo_account_ready_def)
  have taken: "\<exists>e. ?attempt m d = (Inl e, d) \<and> external_auth_username_conflict e" if "m < n" for m
  proof -
    have "create_user_without_email_with_role ?A now (?in m) d = (Inl username_exists_error, d)"
      using create_without_email_taken[OF valid input(1)] assms(5,7) that pw by (simp add: input(2) candidate_name_def)
    then show ?thesis
      by (simp add: transaction_def account_attempt_def bnd_def external_auth_username_conflict_def username_exists_error_def
          validation_error_code_def public_error_def)
  qed
  define u where "u = new_user now (?in n) None None uuid h (next_id (users d))"
  define d1 where "d1 = d\<lparr>users := snd (insert_row (new_user now (?in n) None None uuid h) (users d))\<rparr>"
  have create: "create_user_without_email_with_role ?A now (?in n) d = (Inr u, d1)"
    unfolding u_def d1_def
    by (rule create_without_email_free[OF valid input(1)])
      (use pw assms(5,6) hu in \<open>simp_all add: input(2) candidate_name_def xa_forge_def\<close>)
  have "\<forall>e \<in> set (rows (external_identities d)). ei_user_id e \<noteq> next_id (users d)"
  proof
    fix e assume "e \<in> set (rows (external_identities d))"
    then obtain v where "v \<in> set (rows (users d))" "u_id v = ei_user_id e"
      using assms(1) by (auto simp: ext_wf_def identities_wf_def identity_refs_def)
    then show "ei_user_id e \<noteq> next_id (users d)"
      using assms(1) by (force simp: ext_wf_def acct_wf_def web_wf_def users_wf_def keys_ok_def)
  qed
  then obtain e d' where e: "create_identity_for_claims (xa_forge X) now (u_id u) provider claims metadata d1 = (Inr e, d')"
    using fresh_identity[of provider d1 "u_id u" claims "xa_forge X" now metadata] ready(3,4)
    by (auto simp: d1_def u_def new_user_def inserted_rows)
  have "?attempt n d = (Inr u, d')"
    by (simp add: transaction_def account_attempt_def bnd_def create e ret_def)
  then have "username_attempts ?attempt [0..<5] d = (Inr u, d')"
    by (intro username_attempts_first[OF assms(5)]) (use taken in auto)
  then have run: "resolve_external_auth_user_without_email X R now provider claims metadata d =
      (Inr \<lparr>ru_user = u, ru_linked = True, ru_auto_provisioned = True\<rparr>, d')"
    using ready(1) by (simp add: resolve_external_auth_user_without_email_def account_attempt_def bnd_def ret_def)
  have "users_wf d" using assms(1) by (simp add: ext_wf_def acct_wf_def web_wf_def)
  then show ?thesis
    using create_without_email_run[OF run] run by (intro exI conjI) (auto simp: u_def new_user_def candidate_name_def)
qed

theorem linuxdo_first_login_creates_account_witness:
  "\<exists>r d'. resolve_external_auth_user_without_email hex_external plain_random 1000 linuxdo_provider plain_claims None linuxdo_db = (Inr r, d')
    \<and> u_username (ru_user r) = ''linuxdo_42''"
proof -
  have "sanitize_username_piece ''42'' = ''42''" by code_simp
  then have name: "candidate_name hex_external plain_random linuxdo_provider plain_claims 0 = ''linuxdo_42''"
    by (simp add: candidate_name_def external_user_input_def external_auth_username_candidate_for_provider_def
        linuxdo_subject_username_candidate_def plain_claims_def linuxdo_provider_def external_auth_username_candidate_def)
  have "linuxdo_account_ready hex_external plain_random linuxdo_provider plain_claims linuxdo_db"
    by (simp add: linuxdo_account_ready_def hex_external_def plain_external_def plain_env_def plain_policy_def linuxdo_provider_def
        linuxdo_db_def sample_tables plain_random_def validate_password_def xa_forge_def hex_forge_def plain_forge_def
        unique_public_uuid_def find_by_public_uuid_def select_one_def verified_user_def sample_user_def)
  moreover have "ensure_username_available ''linuxdo_42'' None linuxdo_db = Inr ()"
    by (simp add: ensure_username_available_def find_by_username_case_insensitive_def find_by_name_def select_one_def linuxdo_db_def
        sample_tables linuxdo_profiles verified_user_def sample_user_def to_ascii_lowercase_def lower_char_def is_ascii_upper_def byte_def)
  ultimately show ?thesis
    using linuxdo_first_login_creates_account[OF linuxdo_db_wf _ plain_suffixes hex_hashes, of linuxdo_provider plain_claims 0 1000 None] name
    by fastforce
qed

end
