(* ===== verification/Avatars.thy ===== *)
theory Avatars
  imports User_Info Wardrobe
begin

text \<open>
  \<open>profile_service/avatar.rs\<close> and \<open>profile_service/avatar_storage.rs\<close>: uploaded avatars, two objects per version
  under a key that holds the user and the version.  \<open>read_avatar_upload\<close> and \<open>process_avatar_upload\<close>, which read
  the form and scale the image, are the argument \<open>process\<close>, from the uploaded file to the small and the large
  image.
\<close>

section \<open>Keys\<close>

definition user_avatar_prefix :: "row_id \<Rightarrow> int \<Rightarrow> string" where
  "user_avatar_prefix user_id version = ''avatar/user/'' @ show_int user_id @ ''/v'' @ show_int version"

definition user_avatar_variant_key :: "string \<Rightarrow> nat \<Rightarrow> string" where
  "user_avatar_variant_key p size_px = p @ ''/'' @ show_nat size_px @ ''.webp''"

definition resolve_stored_avatar_prefix :: "user_profile \<Rightarrow> string option" where
  "resolve_stored_avatar_prefix profile =
     (case stored_avatar_prefix (Some profile) of
        None \<Rightarrow> None
      | Some p \<Rightarrow> if p = user_avatar_prefix (up_user_id profile) (up_avatar_version profile) then Some p else None)"

definition resolve_stored_avatar_variant_key :: "user_profile \<Rightarrow> nat \<Rightarrow> string option" where
  "resolve_stored_avatar_variant_key profile size_px =
     map_option (\<lambda>p. user_avatar_variant_key p size_px) (resolve_stored_avatar_prefix profile)"

section \<open>Objects\<close>

definition put_avatar_bytes :: "storage_env \<Rightarrow> string \<Rightarrow> string \<Rightarrow> ('c wardrobe_state, aster_error, unit) handler" where
  "put_avatar_bytes S key bytes s =
     (case se_put_fault S key of
        Some e \<Rightarrow> (Inl e, s)
      | None \<Rightarrow> (Inr (), if map_of (w_objects s) key \<noteq> None then s else s\<lparr>w_objects := (key, bytes) # w_objects s\<rparr>))"

text \<open>A failed deletion is only logged.\<close>

definition delete_avatar_object :: "storage_env \<Rightarrow> string \<Rightarrow> 'c wardrobe_state \<Rightarrow> 'c wardrobe_state" where
  "delete_avatar_object S key s =
     (if se_delete_fault S key \<noteq> None then s else s\<lparr>w_objects := without_object key (w_objects s)\<rparr>)"

definition delete_avatar_variant_objects :: "storage_env \<Rightarrow> string \<Rightarrow> 'c wardrobe_state \<Rightarrow> 'c wardrobe_state" where
  "delete_avatar_variant_objects S p s =
     delete_avatar_object S (user_avatar_variant_key p 1024) (delete_avatar_object S (user_avatar_variant_key p 512) s)"

definition delete_upload_objects :: "storage_env \<Rightarrow> user_profile \<Rightarrow> 'c wardrobe_state \<Rightarrow> 'c wardrobe_state" where
  "delete_upload_objects S profile s =
     (if up_avatar_source profile \<noteq> AvatarUpload then s
      else case resolve_stored_avatar_prefix profile of
             None \<Rightarrow> s | Some p \<Rightarrow> delete_avatar_variant_objects S p s)"

section \<open>Operations\<close>

text \<open>\<open>i32::saturating_add(1)\<close>\<close>

definition next_avatar_version :: "int \<Rightarrow> int" where
  "next_avatar_version v = min (v + 1) 2147483647"

definition or_delete_variants ::
    "storage_env \<Rightarrow> string \<Rightarrow> ('c wardrobe_state, aster_error, 'a) handler \<Rightarrow> ('c wardrobe_state, aster_error, 'a) handler" where
  "or_delete_variants S p m s =
     (case m s of (Inr x, s') \<Rightarrow> (Inr x, s') | (Inl e, s') \<Rightarrow> (Inl e, delete_avatar_variant_objects S p s'))"

definition delete_previous_upload ::
    "storage_env \<Rightarrow> user_profile option \<Rightarrow> ('c wardrobe_state, aster_error, unit) handler" where
  "delete_previous_upload S existing s =
     (Inr (), case existing of None \<Rightarrow> s | Some previous \<Rightarrow> delete_upload_objects S previous s)"

definition upload_avatar ::
    "forge \<Rightarrow> storage_env \<Rightarrow> (string \<Rightarrow> nat \<Rightarrow> string) \<Rightarrow> (string \<Rightarrow> (string \<times> string) result) \<Rightarrow> time \<Rightarrow> row_id \<Rightarrow> string \<Rightarrow>
     ('c wardrobe_state, aster_error, user_profile_info) handler" where
  "upload_avatar F S gravatar process now user_id upload =
     bnd (aster (query (find_user_by_id user_id))) (\<lambda>u.
     bnd (aster (query (\<lambda>d. Inr (find_profile_of_user user_id d)))) (\<lambda>existing.
     bnd (check (process upload)) (\<lambda>(small, large).
     let version = (case existing of None \<Rightarrow> 1 | Some p \<Rightarrow> next_avatar_version (up_avatar_version p));
         prefix_key = user_avatar_prefix user_id version in
     bnd (put_avatar_bytes S (user_avatar_variant_key prefix_key 512) small) (\<lambda>_.
     bnd (or_delete_variants S prefix_key (put_avatar_bytes S (user_avatar_variant_key prefix_key 1024) large)) (\<lambda>_.
     bnd (or_delete_variants S prefix_key (aster
            (case existing of
               Some _ \<Rightarrow> user_profile_update F user_id (\<lambda>p. p\<lparr>up_avatar_source := AvatarUpload,
                   up_avatar_key := Some prefix_key, up_avatar_version := version, up_updated_at := now\<rparr>)
             | None \<Rightarrow> user_profile_create F ((default_profile_active_model user_id now)\<lparr>up_avatar_source := AvatarUpload,
                   up_avatar_key := Some prefix_key, up_avatar_version := version\<rparr>)))) (\<lambda>saved.
     bnd (delete_previous_upload S existing) (\<lambda>_.
     ret (build_profile_info gravatar u (Some saved) SelfUser))))))))"

definition set_avatar_source ::
    "forge \<Rightarrow> storage_env \<Rightarrow> (string \<Rightarrow> nat \<Rightarrow> string) \<Rightarrow> time \<Rightarrow> row_id \<Rightarrow> avatar_source \<Rightarrow>
     ('c wardrobe_state, aster_error, user_profile_info) handler" where
  "set_avatar_source F S gravatar now user_id source =
     (if source = AvatarUpload
      then raise (validation_error_code ''AvatarSourceInvalid'' ''upload avatar source must use the upload endpoint'') else
      bnd (aster (query (find_user_by_id user_id))) (\<lambda>u.
      bnd (aster (query (\<lambda>d. Inr (find_profile_of_user user_id d)))) (\<lambda>existing.
      if existing = None \<and> source = AvatarNone then ret (build_profile_info gravatar u None SelfUser) else
      bnd (aster
            (case existing of
               Some current \<Rightarrow> user_profile_update F user_id (\<lambda>p. p\<lparr>up_avatar_source := source, up_avatar_key := None,
                   up_avatar_version := next_avatar_version (up_avatar_version current), up_updated_at := now\<rparr>)
             | None \<Rightarrow> user_profile_create F ((default_profile_active_model user_id now)\<lparr>up_avatar_source := source\<rparr>))) (\<lambda>saved.
      bnd (delete_previous_upload S existing) (\<lambda>_.
      ret (build_profile_info gravatar u (Some saved) SelfUser))))))"

definition validate_avatar_size :: "nat \<Rightarrow> nat result" where
  "validate_avatar_size size_px =
     (if size_px = 512 \<or> size_px = 1024 then Inr size_px
      else Inl (validation_error_code ''AvatarSizeInvalid'' ''avatar size must be 512 or 1024''))"

definition avatar_not_found :: "string \<Rightarrow> aster_error" where
  "avatar_not_found message = record_not_found_code ''AvatarNotFound'' message"

definition get_avatar_bytes :: "row_id \<Rightarrow> nat \<Rightarrow> 'c wardrobe_state \<Rightarrow> string result" where
  "get_avatar_bytes user_id size_px s =
     (case validate_avatar_size size_px of
        Inl e \<Rightarrow> Inl e
      | Inr size_px \<Rightarrow>
     (case find_user_by_id user_id (w_db s) of
        Inl e \<Rightarrow> Inl e
      | Inr _ \<Rightarrow>
     (case find_profile_of_user user_id (w_db s) of
        None \<Rightarrow> Inl (avatar_not_found (''profile for user #'' @ show_int user_id))
      | Some profile \<Rightarrow>
          if up_avatar_source profile \<noteq> AvatarUpload
          then Inl (avatar_not_found (''user #'' @ show_int user_id @ '' does not have an uploaded avatar''))
          else if stored_avatar_prefix (Some profile) = None then Inl (avatar_not_found ''avatar key missing'')
          else case resolve_stored_avatar_variant_key profile size_px of
                 None \<Rightarrow> Inl (avatar_not_found ''avatar key invalid'')
               | Some key \<Rightarrow>
                   (case map_of (w_objects s) key of
                      None \<Rightarrow> Inl (avatar_not_found (''avatar object '' @ key))
                    | Some bytes \<Rightarrow> Inr bytes))))"

definition delete_uploaded_avatar_for_user :: "storage_env \<Rightarrow> row_id \<Rightarrow> ('c wardrobe_state, aster_error, unit) handler" where
  "delete_uploaded_avatar_for_user S user_id =
     bnd (aster (query (\<lambda>d. Inr (find_profile_of_user user_id d)))) (delete_previous_upload S)"

section \<open>Lemmas\<close>

lemma avatar_prefix_trim [simp]: "trim (user_avatar_prefix u v) = user_avatar_prefix u v"
  by (rule trim_graphic) (simp add: user_avatar_prefix_def show_int_graphic is_ascii_graphic_def byte_def)

lemma avatar_prefix_ne [simp]: "user_avatar_prefix u v \<noteq> []"
  by (simp add: user_avatar_prefix_def)

lemma variant_key_eq:
  assumes "a \<in> {512, 1024}" and "b \<in> {512, 1024}"
  shows "user_avatar_variant_key (user_avatar_prefix u v) a = user_avatar_variant_key (user_avatar_prefix u w) b \<longleftrightarrow> v = w \<and> a = b"
proof -
  have n: "show_nat 512 = ''512''" "show_nat 1024 = ''1024''" by code_simp+
  have ne: "xs @ ''/512.webp'' \<noteq> ys @ ''/1024.webp''" for xs ys
  proof
    assume "xs @ ''/512.webp'' = ys @ ''/1024.webp''"
    then have "rev (xs @ ''/512.webp'') = rev (ys @ ''/1024.webp'')" by simp
    then show False by simp
  qed
  have "a = b" if "user_avatar_variant_key p a = user_avatar_variant_key q b" for p q
    using that ne[of p q] ne[of q p] assms by (auto simp: user_avatar_variant_key_def n simp del: append_Cons append_assoc)
  then show ?thesis by (auto simp: user_avatar_variant_key_def user_avatar_prefix_def dest: show_int_inj)
qed

lemma without_object_map_of: "map_of (without_object key xs) k = (if k = key then None else map_of xs k)"
  unfolding without_object_def by (induction xs) auto

lemma delete_object_map_of:
  "k \<noteq> key \<Longrightarrow> map_of (w_objects (delete_avatar_object S key s)) k = map_of (w_objects s) k"
  by (simp add: delete_avatar_object_def without_object_map_of)

lemma delete_object_ygg [simp]: "w_ygg (delete_avatar_object S key s) = w_ygg s"
  by (simp add: delete_avatar_object_def)

lemma delete_variants_ygg [simp]: "w_ygg (delete_avatar_variant_objects S p s) = w_ygg s"
  by (simp add: delete_avatar_variant_objects_def)

lemma delete_upload_ygg [simp]: "w_ygg (delete_upload_objects S profile s) = w_ygg s"
  by (simp add: delete_upload_objects_def split: option.split)

lemma delete_upload_map_of:
  assumes "k \<notin> user_avatar_variant_key (user_avatar_prefix (up_user_id p) (up_avatar_version p)) ` {512, 1024}"
  shows "map_of (w_objects (delete_upload_objects S p s)) k = map_of (w_objects s) k"
  using assms
  by (auto simp: delete_upload_objects_def delete_avatar_variant_objects_def delete_object_map_of resolve_stored_avatar_prefix_def
      split: option.split if_splits)

end
