(* ===== verification/Admin_Users.thy ===== *)
theory Admin_Users
  imports Accounts Avatars
begin

text \<open>
  \<open>services/admin_user_service.rs\<close>: creating, changing and deleting users, with
  \<open>yggdrasil_service::delete_profile_for_user\<close> and the foreign keys on \<open>users\<close> and \<open>minecraft_profiles\<close> that a
  deletion follows.  Random numbers of a generated password are the argument \<open>draw\<close>: the \<open>i\<close>-th call of
  \<open>random_range\<close> with \<open>n\<close> choices.
\<close>

section \<open>Generated passwords\<close>

definition password_uppercase :: string where "password_uppercase = ''ABCDEFGHJKLMNPQRSTUVWXYZ''"
definition password_lowercase :: string where "password_lowercase = ''abcdefghijkmnopqrstuvwxyz''"
definition password_digits :: string where "password_digits = ''23456789''"
definition password_symbols :: string where "password_symbols = ''!@#$%^&*-_+=''"

definition password_charset :: string where
  "password_charset = ''ABCDEFGHJKLMNPQRSTUVWXYZabcdefghijkmnopqrstuvwxyz23456789!@#$%^&*-_+=''"

definition swap :: "nat \<Rightarrow> nat \<Rightarrow> 'a list \<Rightarrow> 'a list" where
  "swap i j xs = xs[i := xs ! j, j := xs ! i]"

definition pick :: "(nat \<Rightarrow> nat \<Rightarrow> nat) \<Rightarrow> nat \<Rightarrow> string \<Rightarrow> char" where
  "pick draw i charset = charset ! draw i (length charset)"

text \<open>The shuffle runs over the indexes 23 to 1; its draws follow the 24 of the characters.\<close>

definition generate_temporary_password :: "(nat \<Rightarrow> nat \<Rightarrow> nat) \<Rightarrow> string" where
  "generate_temporary_password draw =
     (let bytes = [pick draw 0 password_uppercase, pick draw 1 password_lowercase, pick draw 2 password_digits,
                   pick draw 3 password_symbols] @ map (\<lambda>i. pick draw i password_charset) [4..<24]
      in fold (\<lambda>index bytes. swap index (draw (47 - index) (index + 1)) bytes) (rev [1..<24]) bytes)"

section \<open>Roles and scopes\<close>

definition normalize_role_and_scopes ::
    "user_role \<Rightarrow> operator_scope list option \<Rightarrow> user_role \<times> operator_scope list" where
  "normalize_role_and_scopes requested_role requested_scopes =
     (case requested_scopes of
        Some scopes \<Rightarrow>
          (case requested_role of
             RoleAdmin \<Rightarrow> (RoleOperator, scopes) | RoleOperator \<Rightarrow> (RoleOperator, scopes) | RoleUser \<Rightarrow> (RoleUser, []))
      | None \<Rightarrow> (requested_role, []))"

definition normalize_update_role_and_scopes ::
    "user_role \<Rightarrow> user_role option \<Rightarrow> operator_scope list option \<Rightarrow> operator_scope list \<Rightarrow>
     user_role \<times> operator_scope list option" where
  "normalize_update_role_and_scopes existing_role requested_role requested_scopes existing_scopes =
     (let base_role = (case requested_role of None \<Rightarrow> existing_role | Some r \<Rightarrow> r) in
      case requested_scopes of
        Some scopes \<Rightarrow>
          (case base_role of
             RoleAdmin \<Rightarrow> (RoleOperator, Some scopes)
           | RoleOperator \<Rightarrow> (RoleOperator, Some scopes)
           | RoleUser \<Rightarrow> (RoleUser, Some []))
      | None \<Rightarrow>
          (case base_role of
             RoleAdmin \<Rightarrow> (RoleAdmin, Some [])
           | RoleUser \<Rightarrow> (RoleUser, Some [])
           | RoleOperator \<Rightarrow>
               if requested_role = Some RoleOperator \<and> existing_role \<noteq> RoleOperator then (RoleOperator, Some [])
               else if existing_role = RoleOperator then (RoleOperator, Some existing_scopes)
               else (RoleOperator, Some [])))"

definition admin_validate_identity_input :: "forge \<Rightarrow> string \<Rightarrow> string \<Rightarrow> string \<Rightarrow> string result" where
  "admin_validate_identity_input F username email password =
     (case validate_username username of
        Inl e \<Rightarrow> Inl e
      | Inr _ \<Rightarrow>
     (case validate_reserved_username username of
        Inl e \<Rightarrow> Inl e
      | Inr _ \<Rightarrow>
     (case validation_result (normalize_email F email) of
        Inl e \<Rightarrow> Inl e
      | Inr address \<Rightarrow> (case validate_password password of Inl e \<Rightarrow> Inl e | Inr _ \<Rightarrow> Inr address))))"

section \<open>Views\<close>

record admin_user_info =
  ai_id :: row_id
  ai_username :: string
  ai_email :: "string option"
  ai_pending_email :: "string option"
  ai_role :: user_role
  ai_operator_scopes :: "operator_scope list"
  ai_status :: user_status
  ai_must_change_password :: bool
  ai_session_version :: int
  ai_profile_count :: nat
  ai_active_session_count :: nat
  ai_profile :: user_profile_info
  ai_email_verified_at :: "time option"
  ai_created_at :: time
  ai_updated_at :: time

definition count_active_sessions_of_user :: "time \<Rightarrow> row_id \<Rightarrow> db \<Rightarrow> nat" where
  "count_active_sessions_of_user now user_id d =
     count_rows (\<lambda>s. s_user_id s = user_id \<and> s_revoked_at s = None \<and> s_refresh_expires_at s > now) (auth_sessions d)"

definition admin_user_info_of :: "(string \<Rightarrow> nat \<Rightarrow> string) \<Rightarrow> time \<Rightarrow> db \<Rightarrow> user \<Rightarrow> admin_user_info" where
  "admin_user_info_of gravatar now d u =
     \<lparr>ai_id = u_id u, ai_username = u_username u, ai_email = u_email u, ai_pending_email = u_pending_email u,
      ai_role = u_role u,
      ai_operator_scopes = (if u_role u = RoleOperator then list_scopes_for_user (u_id u) d else []),
      ai_status = u_status u, ai_must_change_password = u_must_change_password u, ai_session_version = u_session_version u,
      ai_profile_count = count_by_user (u_id u) d, ai_active_session_count = count_active_sessions_of_user now (u_id u) d,
      ai_profile = get_profile_info gravatar u AdminUser d, ai_email_verified_at = u_email_verified_at u,
      ai_created_at = u_created_at u, ai_updated_at = u_updated_at u\<rparr>"

definition hydrate_users :: "(string \<Rightarrow> nat \<Rightarrow> string) \<Rightarrow> time \<Rightarrow> user list \<Rightarrow> db \<Rightarrow> admin_user_info list" where
  "hydrate_users gravatar now us d = map (admin_user_info_of gravatar now d) us"

definition hydrate_one :: "(string \<Rightarrow> nat \<Rightarrow> string) \<Rightarrow> time \<Rightarrow> string \<Rightarrow> user \<Rightarrow> (db, aster_error, admin_user_info) handler" where
  "hydrate_one gravatar now message u = query (\<lambda>d.
     case hydrate_users gravatar now [u] d of [] \<Rightarrow> Inl (InternalError message) | info # _ \<Rightarrow> Inr info)"

definition get_admin_user :: "(string \<Rightarrow> nat \<Rightarrow> string) \<Rightarrow> time \<Rightarrow> row_id \<Rightarrow> (db, aster_error, admin_user_info) handler" where
  "get_admin_user gravatar now i =
     bnd (query (find_user_by_id i)) (hydrate_one gravatar now ''admin user hydration returned no item'')"

section \<open>Creating and changing users\<close>

record admin_create_user_input =
  ac_username :: string
  ac_email :: string
  ac_password :: "string option"
  ac_role :: user_role
  ac_operator_scopes :: "operator_scope list option"
  ac_status :: user_status
  ac_must_change_password :: "bool option"

definition admin_create_user ::
    "account_env \<Rightarrow> (nat \<Rightarrow> nat \<Rightarrow> nat) \<Rightarrow> time \<Rightarrow> admin_create_user_input \<Rightarrow>
     (db, aster_error, admin_user_info \<times> string option) handler" where
  "admin_create_user A draw now input =
     (let explicit_password = (case ac_password input of
             None \<Rightarrow> None | Some p \<Rightarrow> if trim p = [] then None else Some (trim p));
          generated_password = (case explicit_password of None \<Rightarrow> Some (generate_temporary_password draw) | Some _ \<Rightarrow> None);
          password = (case generated_password of
             Some p \<Rightarrow> Inr p
           | None \<Rightarrow> (case explicit_password of
                        Some p \<Rightarrow> Inr p | None \<Rightarrow> Inl (InternalError ''temporary password generation failed'')));
          username = trim (ac_username input);
          must_change = (generated_password \<noteq> None \<or> ac_must_change_password input = Some True);
          (role, scopes) = normalize_role_and_scopes (ac_role input) (ac_operator_scopes input)
      in bnd (check password) (\<lambda>password.
         bnd (check (admin_validate_identity_input (ae_forge A) (ac_username input) (ac_email input) password)) (\<lambda>email.
         bnd (check (password_result (hash_password (ae_forge A) password))) (\<lambda>password_hash.
         bnd (transaction
                (bnd (query (ensure_username_available username None)) (\<lambda>_.
                 bnd (create_with_options (ae_forge A) (ae_new_uuid A) now username email password_hash role (ac_status input)
                        must_change) (\<lambda>u.
                 bnd (if role = RoleOperator then replace_scopes_for_user (ae_forge A) now (u_id u) scopes else ret ()) (\<lambda>_.
                 ret u))))) (\<lambda>u.
         bnd (hydrate_one (ae_gravatar A) now ''created admin user hydration returned no item'' u) (\<lambda>info.
         ret (info, generated_password)))))))"

record admin_update_input =
  am_username :: "string option"
  am_email :: "string option"
  am_password :: "string option"
  am_role :: "user_role option"
  am_operator_scopes :: "operator_scope list option"
  am_status :: "user_status option"
  am_must_change_password :: "bool option"

definition super_admin_user_id :: row_id where "super_admin_user_id = 1"

text \<open>\<open>Option::map(..).transpose()?\<close>\<close>

definition transpose_with :: "('a \<Rightarrow> 'b result) \<Rightarrow> 'a option \<Rightarrow> 'b option result" where
  "transpose_with f v = (case v of None \<Rightarrow> Inr None | Some x \<Rightarrow> map_sum id Some (f x))"

definition valid_new_username :: "string \<Rightarrow> string result" where
  "valid_new_username v =
     (case validate_username v of
        Inl e \<Rightarrow> Inl e
      | Inr _ \<Rightarrow> (case validate_reserved_username v of Inl e \<Rightarrow> Inl e | Inr _ \<Rightarrow> Inr (trim v)))"

definition new_password_hash :: "forge \<Rightarrow> string \<Rightarrow> string result" where
  "new_password_hash F p =
     (case validate_password p of Inl e \<Rightarrow> Inl e | Inr _ \<Rightarrow> password_result (hash_password F p))"

definition super_admin_guard :: "row_id \<Rightarrow> user \<Rightarrow> admin_update_input \<Rightarrow> unit result" where
  "super_admin_guard i existing input =
     (if i = super_admin_user_id
         \<and> (am_role input \<noteq> None \<or> am_status input \<noteq> None \<or> am_operator_scopes input \<noteq> None)
         \<and> ((case am_role input of None \<Rightarrow> False | Some r \<Rightarrow> r \<noteq> u_role existing)
            \<or> (case am_status input of None \<Rightarrow> False | Some st \<Rightarrow> st \<noteq> u_status existing)
            \<or> am_operator_scopes input \<noteq> None)
      then Inl (AuthForbidden ''super administrator role, status, and permissions cannot be changed'')
      else Inr ())"

definition write_admin_update ::
    "forge \<Rightarrow> time \<Rightarrow> row_id \<Rightarrow> operator_scope list option \<Rightarrow> admin_update_user_input \<Rightarrow> (db, aster_error, user) handler" where
  "write_admin_update F now i scopes changes =
     transaction
       (bnd (case au_username changes of
               None \<Rightarrow> ret () | Some name \<Rightarrow> query (ensure_username_available name (Some i))) (\<lambda>_.
        bnd (update_admin F now i changes) (\<lambda>u.
        bnd (case scopes of None \<Rightarrow> ret () | Some ss \<Rightarrow> replace_scopes_for_user F now i ss) (\<lambda>_.
        ret u))))"

definition admin_update_user ::
    "account_env \<Rightarrow> time \<Rightarrow> row_id \<Rightarrow> admin_update_input \<Rightarrow> (db, aster_error, admin_user_info) handler" where
  "admin_update_user A now i input =
     bnd (query (find_user_by_id i)) (\<lambda>existing.
     bnd (check (super_admin_guard i existing input)) (\<lambda>_.
     bnd (query (\<lambda>d. Inr (list_scopes_for_user i d))) (\<lambda>existing_scopes.
     let (role, scopes) = normalize_update_role_and_scopes (u_role existing) (am_role input) (am_operator_scopes input)
            existing_scopes in
     bnd (check (transpose_with valid_new_username (am_username input))) (\<lambda>username.
     bnd (check (transpose_with (\<lambda>v. validation_result (normalize_email (ae_forge A) v)) (am_email input))) (\<lambda>email.
     bnd (check (transpose_with (new_password_hash (ae_forge A)) (am_password input))) (\<lambda>password_hash.
     bnd (write_admin_update (ae_forge A) now i scopes
            \<lparr>au_username = username, au_email = email, au_password_hash = password_hash, au_role = Some role,
             au_status = am_status input, au_must_change_password = am_must_change_password input,
             au_bump_session_version =
               (password_hash \<noteq> None \<or> am_status input = Some UserDisabled \<or> am_must_change_password input \<noteq> None)\<rparr>) (\<lambda>u.
     hydrate_one (ae_gravatar A) now ''updated admin user hydration returned no item'' u)))))))"

definition revoke_user_sessions :: "forge \<Rightarrow> time \<Rightarrow> row_id \<Rightarrow> (db, aster_error, nat) handler" where
  "revoke_user_sessions F now user_id =
     bnd (query (find_user_by_id user_id)) (\<lambda>_.
     bnd (bump_session_version F now user_id) (\<lambda>_.
     revoke_sessions_for_user now user_id))"

section \<open>Deleting profiles and users\<close>

text \<open>A cleared reference (\<open>ON DELETE SET NULL\<close>).\<close>

definition null_if :: "('a \<Rightarrow> bool) \<Rightarrow> 'a option \<Rightarrow> 'a option" where
  "null_if gone v = (case v of None \<Rightarrow> None | Some x \<Rightarrow> if gone x then None else Some x)"

definition delete_rows :: "('r \<Rightarrow> bool) \<Rightarrow> 'r table \<Rightarrow> 'r table" where
  "delete_rows gone t = snd (delete_many gone t)"

definition map_rows :: "('r \<Rightarrow> 'r) \<Rightarrow> 'r table \<Rightarrow> 'r table" where
  "map_rows f t = t\<lparr>rows := map f (rows t)\<rparr>"

text \<open>What follows a deleted set of profiles: what they wear and prefer, and the selection of tokens.\<close>

definition cascade_profiles :: "(row_id \<Rightarrow> bool) \<Rightarrow> db \<Rightarrow> db" where
  "cascade_profiles gone d =
     d\<lparr>minecraft_profiles := delete_rows (\<lambda>p. gone (p_id p)) (minecraft_profiles d),
       profile_textures := delete_rows (\<lambda>b. gone (pt_profile_id b)) (profile_textures d),
       texture_preferences := delete_rows (\<lambda>p. gone (pp_profile_id p)) (texture_preferences d),
       yggdrasil_tokens := map_rows (\<lambda>t. t\<lparr>t_selected_profile_id := null_if gone (t_selected_profile_id t)\<rparr>)
         (yggdrasil_tokens d)\<rparr>"

definition cascade_textures :: "(row_id \<Rightarrow> bool) \<Rightarrow> db \<Rightarrow> db" where
  "cascade_textures gone d =
     d\<lparr>minecraft_textures := delete_rows (\<lambda>x. gone (x_id x)) (minecraft_textures d),
       profile_textures := delete_rows (\<lambda>b. gone (pt_texture_id b)) (profile_textures d),
       texture_preferences := delete_rows (\<lambda>p. gone (pp_texture_id p)) (texture_preferences d),
       texture_reports := delete_rows (\<lambda>r. gone (tr_texture_id r)) (texture_reports d),
       texture_tag_bindings := delete_rows (\<lambda>b. gone (tb_texture_id b)) (texture_tag_bindings d)\<rparr>"

definition cascade_bans :: "row_id \<Rightarrow> db \<Rightarrow> db" where
  "cascade_bans i d =
     (let of_user = (\<lambda>k. \<exists>b \<in> set (rows (user_bans d)). b_id b = k \<and> b_user_id b = i); me = (\<lambda>j. j = i)
      in d\<lparr>user_ban_events := map_rows (\<lambda>e. e\<lparr>be_actor_user_id := null_if me (be_actor_user_id e)\<rparr>)
             (delete_rows (\<lambda>e. of_user (be_ban_id e)) (user_ban_events d)),
           user_bans := map_rows (\<lambda>b. b\<lparr>b_created_by_user_id := null_if me (b_created_by_user_id b),
               b_revoked_by_user_id := null_if me (b_revoked_by_user_id b)\<rparr>)
             (delete_rows (\<lambda>b. b_user_id b = i) (user_bans d))\<rparr>)"

text \<open>\<open>DELETE FROM users\<close>, with the actions of its foreign keys; \<open>passkeys\<close> is not part of the model.\<close>

definition delete_user_row :: "row_id \<Rightarrow> db \<Rightarrow> db" where
  "delete_user_row i d0 =
     (let me = (\<lambda>j. j = i);
          d1 = cascade_profiles (\<lambda>k. \<exists>p \<in> set (rows (minecraft_profiles d0)). p_id p = k \<and> p_user_id p = i) d0;
          d2 = cascade_textures (\<lambda>k. \<exists>x \<in> set (rows (minecraft_textures d1)). x_id x = k \<and> x_user_id x = i) d1;
          d = cascade_bans i d2
      in d\<lparr>users := delete_rows (\<lambda>u. u_id u = i) (users d),
           user_profiles := delete_rows (\<lambda>p. up_user_id p = i) (user_profiles d),
           auth_sessions := delete_rows (\<lambda>s. s_user_id s = i) (auth_sessions d),
           yggdrasil_tokens := delete_rows (\<lambda>t. t_user_id t = i) (yggdrasil_tokens d),
           external_identities := delete_rows (\<lambda>e. ei_user_id e = i) (external_identities d),
           external_binding_flows := delete_rows (\<lambda>f. gf_user_id f = i) (external_binding_flows d),
           contact_tokens := delete_rows (\<lambda>t. ct_user_id t = i) (contact_tokens d),
           user_operator_scopes := delete_rows (\<lambda>r. os_user_id r = i) (user_operator_scopes d),
           user_invitations := map_rows (\<lambda>v. v\<lparr>iv_accepted_user_id := null_if me (iv_accepted_user_id v)\<rparr>)
             (delete_rows (\<lambda>v. iv_invited_by v = i) (user_invitations d)),
           texture_reports := map_rows (\<lambda>r. r\<lparr>tr_handled_by_user_id := null_if me (tr_handled_by_user_id r)\<rparr>)
             (delete_rows (\<lambda>r. tr_reporter_user_id r = i) (texture_reports d)),
           background_tasks := map_rows (\<lambda>t. t\<lparr>bt_creator_user_id := null_if me (bt_creator_user_id t)\<rparr>)
             (background_tasks d)\<rparr>)"

definition delete_user_by_id :: "row_id \<Rightarrow> (db, aster_error, user) handler" where
  "delete_user_by_id i =
     bnd (query (find_user_by_id i)) (\<lambda>u. bnd (modify (delete_user_row i)) (\<lambda>_. ret u))"

definition profile_delete_by_id :: "row_id \<Rightarrow> (db, aster_error, minecraft_profile option) handler" where
  "profile_delete_by_id i =
     bnd (query (\<lambda>d. Inr (select_one (\<lambda>p. p_id p = i) (minecraft_profiles d)))) (\<lambda>existing.
     case existing of
       None \<Rightarrow> ret None
     | Some p \<Rightarrow> bnd (modify (cascade_profiles (\<lambda>k. k = i))) (\<lambda>_. ret (Some p)))"

record delete_profile_result =
  dr_profile :: minecraft_profile
  dr_deleted_texture_count :: nat
  dr_revoked_token_count :: nat

text \<open>\<open>map_err(|error| AsterError::internal_error(error.protocol_message()))\<close>\<close>

definition texture_as_internal ::
    "('s, texture_error, 'a) handler \<Rightarrow> ('s, aster_error, 'a) handler" where
  "texture_as_internal m s = map_prod (map_sum (\<lambda>e. InternalError (texture_error_message e)) id) id (m s)"

definition delete_profile_for_user ::
    "'c cache_ops \<Rightarrow> forge \<Rightarrow> storage_env \<Rightarrow> scope_codec \<Rightarrow> time \<Rightarrow> row_id \<Rightarrow> string \<Rightarrow>
     ('c wardrobe_state, aster_error, delete_profile_result option) handler" where
  "delete_profile_for_user C F S J now user_id uuid =
     bnd (aster (query (ensure_user_not_banned J now user_id MinecraftProfileManage))) (\<lambda>_.
     bnd (aster (query (\<lambda>d. Inr (find_by_uuid_for_user uuid user_id d)))) (\<lambda>found.
     case found of
       None \<Rightarrow> ret None
     | Some profile \<Rightarrow>
         if p_source profile = SourceMicrosoft
         then raise (auth_forbidden_code ''MinecraftProfileDeleteForbidden''
                ''official Minecraft profile cannot be deleted on this site'') else
         bnd (on_ygg (invalidate_token_cache_for_selected_profile C (p_id profile))) (\<lambda>_.
         bnd (texture_as_internal (delete_all_textures_for_profile C F S now profile)) (\<lambda>deleted_textures.
         bnd (aster (on_tokens (revoke_all_for_selected_profile now (p_id profile)))) (\<lambda>revoked.
         bnd (aster (profile_delete_by_id (p_id profile))) (\<lambda>deleted.
         ret (Some \<lparr>dr_profile = (case deleted of None \<Rightarrow> profile | Some p \<Rightarrow> p),
                dr_deleted_texture_count = length deleted_textures, dr_revoked_token_count = revoked\<rparr>)))))))"

fun delete_profiles_loop ::
    "'c cache_ops \<Rightarrow> forge \<Rightarrow> storage_env \<Rightarrow> scope_codec \<Rightarrow> time \<Rightarrow> row_id \<Rightarrow> minecraft_profile list \<Rightarrow> nat \<times> nat \<Rightarrow>
     ('c wardrobe_state, aster_error, nat \<times> nat) handler" where
  "delete_profiles_loop C F S J now user_id [] counts = ret counts"
| "delete_profiles_loop C F S J now user_id (p # ps) counts =
     bnd (delete_profile_for_user C F S J now user_id (p_uuid p)) (\<lambda>result.
     delete_profiles_loop C F S J now user_id ps
       (case result of
          None \<Rightarrow> counts
        | Some r \<Rightarrow> (fst counts + dr_deleted_texture_count r, snd counts + dr_revoked_token_count r)))"

record delete_user_output =
  dout_user :: admin_user_info
  dout_deleted_profile_count :: nat
  dout_deleted_profile_texture_count :: nat
  dout_deleted_wardrobe_texture_count :: nat
  dout_revoked_session_count :: nat
  dout_revoked_yggdrasil_token_count :: nat

definition admin_delete_user ::
    "'c cache_ops \<Rightarrow> forge \<Rightarrow> storage_env \<Rightarrow> scope_codec \<Rightarrow> (string \<Rightarrow> nat \<Rightarrow> string) \<Rightarrow> time \<Rightarrow> row_id \<Rightarrow>
     ('c wardrobe_state, aster_error, delete_user_output) handler" where
  "admin_delete_user C F S J gravatar now user_id =
     (if user_id = super_admin_user_id then raise (AuthForbidden ''super administrator cannot be deleted'') else
      bnd (aster (get_admin_user gravatar now user_id)) (\<lambda>user.
      bnd (check (utils_result (u64_to_usize F (ai_profile_count user) ''deleted profile count''))) (\<lambda>profile_count.
      bnd (delete_uploaded_avatar_for_user S user_id) (\<lambda>_.
      bnd (aster (query (\<lambda>d. Inr (list_by_user user_id d)))) (\<lambda>profiles.
      bnd (delete_profiles_loop C F S J now user_id profiles (0, 0)) (\<lambda>(texture_count, token_count).
      bnd (texture_as_internal (delete_all_wardrobe_textures_for_user C F S now user_id)) (\<lambda>wardrobe.
      bnd (aster (revoke_sessions_for_user now user_id)) (\<lambda>sessions.
      bnd (on_ygg (invalidate_token_cache_for_user C user_id)) (\<lambda>hashes.
      bnd (aster (on_tokens (revoke_all_for_user_repo now user_id))) (\<lambda>tokens.
      bnd (on_ygg (invalidate_token_cache_hashes C hashes)) (\<lambda>_.
      bnd (aster (delete_user_by_id user_id)) (\<lambda>_.
      ret \<lparr>dout_user = user, dout_deleted_profile_count = profile_count, dout_deleted_profile_texture_count = texture_count,
           dout_deleted_wardrobe_texture_count = length wardrobe, dout_revoked_session_count = sessions,
           dout_revoked_yggdrasil_token_count = token_count + tokens\<rparr>))))))))))))"

end
