(* ===== verification/Minecraft_Binding.thy ===== *)
theory Minecraft_Binding
  imports External_Auth Wardrobe
begin

text \<open>
  \<open>services/external_auth_service/binding.rs\<close>: binding an official Minecraft account.  A signed-in user starts a
  flow, with a client secret by a redirect and without one by a device code; the access token of Microsoft is
  exchanged for the Minecraft profile through Xbox Live and XSTS; the identity and the profile are written in one
  transaction and the official textures are imported.  URLs, HTTP calls and JSON are fields of \<open>binding_env\<close>:
  a call is a function of the request, as the handlers make each call once.
\<close>

section \<open>What the service takes from libraries and the network\<close>

record http_url =
  hu_scheme :: string
  hu_host :: "string option"
  hu_port :: "nat option"
  hu_segments :: "string list option"

record http_response =
  hp_status :: nat
  hp_body :: string

datatype xbox_request =
    XboxLiveAuthRequest string  \<comment> \<open>\<open>rps_ticket\<close>\<close>
  | XstsAuthorizeRequest string  \<comment> \<open>the one user token\<close>
  | MinecraftLoginWithXboxRequest string  \<comment> \<open>\<open>identity_token\<close>\<close>

record device_code_json =
  dj_device_code :: "string option"
  dj_user_code :: "string option"
  dj_verification_uri :: "string option"
  dj_expires_in :: "nat option"
  dj_interval :: "nat option"

record device_token_json =
  tj_access_token :: "string option"
  tj_error :: "string option"
  tj_error_description :: "string option"

record xbox_auth_response =
  xr_token :: string
  xr_user_hashes :: "string option list"

record profile_skin_response =
  sk_state :: "string option"
  sk_url :: "string option"
  sk_variant :: "string option"

record profile_cape_response =
  ck_state :: "string option"
  ck_url :: "string option"

record minecraft_profile_response =
  mp_id :: string
  mp_name :: string
  mp_skins :: "profile_skin_response list"
  mp_capes :: "profile_cape_response list"

record official_texture =
  ot_url :: string
  ot_texture_model :: minecraft_texture_model

record minecraft_account =
  ma_uuid :: string
  ma_name :: string
  ma_xbox_user_hash :: "string option"
  ma_skin :: "official_texture option"
  ma_cape :: "official_texture option"

record binding_env =
  bi_external :: external_env
  bi_url :: "string \<Rightarrow> string + http_url"
  bi_tenant :: "string option \<Rightarrow> string result"
  bi_post_form :: "string \<Rightarrow> (string \<times> string) list \<Rightarrow> string + http_response"
  bi_post_json :: "string \<Rightarrow> xbox_request \<Rightarrow> string + http_response"
  bi_get :: "string \<Rightarrow> string \<Rightarrow> string + http_response"
  bi_device_code_json :: "string \<Rightarrow> string + device_code_json"
  bi_device_token_json :: "string \<Rightarrow> string + device_token_json"
  bi_access_token_json :: "string \<Rightarrow> string + string"
  bi_xbox_json :: "string \<Rightarrow> string + xbox_auth_response"
  bi_profile_json :: "string \<Rightarrow> string + minecraft_profile_response"
  bi_uuid_simple :: "string \<Rightarrow> string option"
  bi_metadata :: "minecraft_account \<Rightarrow> string"

definition is_success :: "http_response \<Rightarrow> bool" where
  "is_success r = (200 \<le> hp_status r \<and> hp_status r < 300)"

text \<open>\<open>str::contains\<close>\<close>

fun contains_str :: "string \<Rightarrow> string \<Rightarrow> bool" where
  "contains_str needle [] = (needle = [])"
| "contains_str needle (c # cs) = (prefix needle (c # cs) \<or> contains_str needle cs)"

definition parse_json_response :: "(string \<Rightarrow> string + 'a) \<Rightarrow> http_response \<Rightarrow> string \<Rightarrow> 'a result" where
  "parse_json_response parse response context =
     (if \<not> is_success response then Inl (AuthInvalidCredentials (context @ '' returned non-success status''))
      else case parse (hp_body response) of
             Inl e \<Rightarrow> Inl (AuthInvalidCredentials (context @ '' response parse failed: '' @ e)) | Inr x \<Rightarrow> Inr x)"

section \<open>Endpoints\<close>

definition parse_http_url :: "binding_env \<Rightarrow> string \<Rightarrow> string \<Rightarrow> http_url result" where
  "parse_http_url B value field =
     (case bi_url B value of
        Inl e \<Rightarrow> Inl (ValidationError (''invalid '' @ field @ '': '' @ e))
      | Inr url \<Rightarrow>
          if hu_scheme url = ''http'' \<or> hu_scheme url = ''https'' then Inr url
          else Inl (ValidationError (field @ '' must use http or https'')))"

definition url_origin :: "http_url \<Rightarrow> string" where
  "url_origin url =
     hu_scheme url @ ''://'' @ (case hu_host url of None \<Rightarrow> [] | Some h \<Rightarrow> h)
     @ (case hu_port url of None \<Rightarrow> [] | Some p \<Rightarrow> '':'' @ show_nat p)"

definition is_loopback_host :: "string \<Rightarrow> bool" where
  "is_loopback_host host =
     (eq_ignore_ascii_case host ''localhost'' \<or> eq_ignore_ascii_case host ''127.0.0.1''
      \<or> eq_ignore_ascii_case host ''::1'')"

definition is_loopback_url :: "http_url \<Rightarrow> bool" where
  "is_loopback_url url = (case hu_host url of None \<Rightarrow> False | Some h \<Rightarrow> is_loopback_host h)"

definition trimmed_nonempty :: "string option \<Rightarrow> string option" where
  "trimmed_nonempty v = (case v of None \<Rightarrow> None | Some s \<Rightarrow> if trim s = [] then None else Some (trim s))"

definition tenant_from_issuer_url :: "http_url \<Rightarrow> string option" where
  "tenant_from_issuer_url url =
     (case hu_segments url of
        Some [tenant, version] \<Rightarrow>
          if eq_ignore_ascii_case version ''v2.0'' \<and> tenant \<noteq> [] then Some tenant else None
      | _ \<Rightarrow> None)"

definition microsoft_provider_tenant :: "binding_env \<Rightarrow> external_provider \<Rightarrow> string result" where
  "microsoft_provider_tenant B provider =
     (case po_microsoft (parse_external_auth_provider_options (bi_external B) (xp_options provider)) of
        Some options \<Rightarrow> bi_tenant B (Some (ms_tenant options))
      | None \<Rightarrow>
          (case Option.bind (trimmed_nonempty (xp_issuer_url provider))
                  (\<lambda>issuer. case bi_url B issuer of Inl _ \<Rightarrow> None | Inr url \<Rightarrow> tenant_from_issuer_url url) of
             Some tenant \<Rightarrow> bi_tenant B (Some tenant)
           | None \<Rightarrow> bi_tenant B None))"

definition live_token_url :: string where
  "live_token_url = ''https://login.live.com/oauth20_token.srf''"

definition use_legacy :: "binding_env \<Rightarrow> external_provider \<Rightarrow> bool" where
  "use_legacy B provider =
     (case po_microsoft (parse_external_auth_provider_options (bi_external B) (xp_options provider)) of
        None \<Rightarrow> False | Some m \<Rightarrow> (case ms_legacy m of None \<Rightarrow> False | Some b \<Rightarrow> b))"

text \<open>\<open>MicrosoftOAuthEndpoints\<close> has the token URL alone.\<close>

definition microsoft_oauth_endpoints :: "binding_env \<Rightarrow> external_provider \<Rightarrow> string result" where
  "microsoft_oauth_endpoints B provider =
     (if trimmed_nonempty (xp_authorization_url provider) \<noteq> None \<or> trimmed_nonempty (xp_token_url provider) \<noteq> None
      then Inr (case trimmed_nonempty (xp_token_url provider) of None \<Rightarrow> live_token_url | Some u \<Rightarrow> u)
      else if use_legacy B provider then Inr live_token_url
      else case microsoft_provider_tenant B provider of
             Inl e \<Rightarrow> Inl e
           | Inr tenant \<Rightarrow>
               let token_url = ''https://login.microsoftonline.com/'' @ tenant @ ''/oauth2/v2.0/token'' in
               (case parse_http_url B token_url ''Microsoft token_url'' of Inl e \<Rightarrow> Inl e | Inr _ \<Rightarrow> Inr token_url))"

definition loopback_or :: "binding_env \<Rightarrow> external_provider \<Rightarrow> (string \<Rightarrow> http_url \<Rightarrow> string) \<Rightarrow> string \<Rightarrow> string result" where
  "loopback_or B provider local_url fixed_url =
     (case microsoft_oauth_endpoints B provider of
        Inl e \<Rightarrow> Inl e
      | Inr token_url \<Rightarrow>
          (case parse_http_url B token_url ''Microsoft token_url'' of
             Inl e \<Rightarrow> Inl e
           | Inr url \<Rightarrow> Inr (if is_loopback_url url then local_url token_url url else fixed_url)))"

definition microsoft_device_code_url :: "binding_env \<Rightarrow> external_provider \<Rightarrow> string result" where
  "microsoft_device_code_url B provider =
     loopback_or B provider (\<lambda>_ url. url_origin url @ ''/devicecode'')
       ''https://login.microsoftonline.com/consumers/oauth2/v2.0/devicecode''"

definition microsoft_device_token_url :: "binding_env \<Rightarrow> external_provider \<Rightarrow> string result" where
  "microsoft_device_token_url B provider =
     loopback_or B provider (\<lambda>token_url _. token_url)
       ''https://login.microsoftonline.com/consumers/oauth2/v2.0/token''"

record minecraft_endpoints =
  me_xbox_live_auth_url :: string
  me_xsts_authorize_url :: string
  me_minecraft_login_with_xbox_url :: string
  me_minecraft_profile_url :: string

definition minecraft_services_endpoints :: "binding_env \<Rightarrow> string \<Rightarrow> minecraft_endpoints result" where
  "minecraft_services_endpoints B token_url =
     (case parse_http_url B token_url ''Microsoft token_url'' of
        Inl e \<Rightarrow> Inl e
      | Inr url \<Rightarrow>
          if is_loopback_url url
          then Inr \<lparr>me_xbox_live_auth_url = url_origin url @ ''/user/authenticate'',
                 me_xsts_authorize_url = url_origin url @ ''/xsts/authorize'',
                 me_minecraft_login_with_xbox_url = url_origin url @ ''/authentication/login_with_xbox'',
                 me_minecraft_profile_url = url_origin url @ ''/minecraft/profile''\<rparr>
          else Inr \<lparr>me_xbox_live_auth_url = ''https://user.auth.xboxlive.com/user/authenticate'',
                 me_xsts_authorize_url = ''https://xsts.auth.xboxlive.com/xsts/authorize'',
                 me_minecraft_login_with_xbox_url = ''https://api.minecraftservices.com/authentication/login_with_xbox'',
                 me_minecraft_profile_url = ''https://api.minecraftservices.com/minecraft/profile''\<rparr>)"

section \<open>From the Microsoft token to the Minecraft profile\<close>

definition is_active_minecraft_profile_texture :: "string option \<Rightarrow> bool" where
  "is_active_minecraft_profile_texture state =
     (case state of None \<Rightarrow> False | Some v \<Rightarrow> eq_ignore_ascii_case (trim v) ''ACTIVE'')"

definition active_skin :: "profile_skin_response \<Rightarrow> official_texture option" where
  "active_skin r =
     (if \<not> is_active_minecraft_profile_texture (sk_state r) then None else
      map_option (\<lambda>url. \<lparr>ot_url = url,
          ot_texture_model = (case sk_variant r of
             Some v \<Rightarrow> if eq_ignore_ascii_case (trim v) ''SLIM'' then ModelSlim else ModelDefault | None \<Rightarrow> ModelDefault)\<rparr>)
        (trimmed_nonempty (sk_url r)))"

definition active_cape :: "profile_cape_response \<Rightarrow> official_texture option" where
  "active_cape r =
     (if \<not> is_active_minecraft_profile_texture (ck_state r) then None else
      map_option (\<lambda>url. \<lparr>ot_url = url, ot_texture_model = ModelDefault\<rparr>) (trimmed_nonempty (ck_url r)))"

fun find_map :: "('a \<Rightarrow> 'b option) \<Rightarrow> 'a list \<Rightarrow> 'b option" where
  "find_map f [] = None"
| "find_map f (x # xs) = (case f x of Some y \<Rightarrow> Some y | None \<Rightarrow> find_map f xs)"

definition xbox_user_hash :: "xbox_auth_response \<Rightarrow> string result" where
  "xbox_user_hash response =
     (case find_map id (xr_user_hashes response) of
        None \<Rightarrow> Inl (AuthInvalidCredentials ''Xbox response missing user hash'') | Some h \<Rightarrow> Inr h)"

text \<open>The token with its user hash (\<open>XboxToken\<close>).\<close>

definition xbox_token :: "xbox_auth_response \<Rightarrow> (string \<times> string) result" where
  "xbox_token response = map_sum id (\<lambda>h. (xr_token response, h)) (xbox_user_hash response)"

definition send_or :: "string \<Rightarrow> string + http_response \<Rightarrow> http_response result" where
  "send_or context r =
     (case r of Inl e \<Rightarrow> Inl (AuthInvalidCredentials (context @ '' failed: '' @ e)) | Inr response \<Rightarrow> Inr response)"

definition result_bind :: "'a result \<Rightarrow> ('a \<Rightarrow> 'b result) \<Rightarrow> 'b result" where
  "result_bind r k = (case r of Inl e \<Rightarrow> Inl e | Inr x \<Rightarrow> k x)"

definition authenticate_xbox_live :: "binding_env \<Rightarrow> string \<Rightarrow> string \<Rightarrow> (string \<times> string) result" where
  "authenticate_xbox_live B url microsoft_access_token =
     result_bind (send_or ''Xbox Live authentication''
         (bi_post_json B url (XboxLiveAuthRequest (''d='' @ microsoft_access_token)))) (\<lambda>response.
     result_bind (parse_json_response (bi_xbox_json B) response ''Xbox Live authentication'') xbox_token)"

definition xsts_error :: "string \<Rightarrow> aster_error" where
  "xsts_error body =
     AuthInvalidCredentials
       (if contains_str ''2148916227'' body then ''Xbox account is banned''
        else if contains_str ''2148916233'' body then ''Xbox account not found, please register first''
        else if contains_str ''2148916235'' body then ''Xbox service is not available in your region''
        else if contains_str ''2148916238'' body then ''Xbox account age restriction, please update your birth date''
        else ''XSTS authorization failed: '' @ body)"

definition authorize_xsts :: "binding_env \<Rightarrow> string \<Rightarrow> string \<Rightarrow> (string \<times> string) result" where
  "authorize_xsts B url token =
     result_bind (send_or ''XSTS authorization'' (bi_post_json B url (XstsAuthorizeRequest token))) (\<lambda>response.
     if hp_status response = 401 \<or> hp_status response = 400 then Inl (xsts_error (hp_body response)) else
     if \<not> is_success response then Inl (AuthInvalidCredentials ''XSTS authorization failed'') else
     case bi_xbox_json B (hp_body response) of
       Inl e \<Rightarrow> Inl (AuthInvalidCredentials (''XSTS response parse failed: '' @ e))
     | Inr r \<Rightarrow> xbox_token r)"

definition login_minecraft_with_xbox :: "binding_env \<Rightarrow> string \<Rightarrow> string \<Rightarrow> string \<Rightarrow> string result" where
  "login_minecraft_with_xbox B url user_hash xsts_token =
     result_bind (send_or ''Minecraft Services login''
         (bi_post_json B url (MinecraftLoginWithXboxRequest (''XBL3.0 x='' @ user_hash @ '';'' @ xsts_token)))) (\<lambda>response.
     parse_json_response (bi_access_token_json B) response ''Minecraft Services login'')"

definition fetch_minecraft_profile :: "binding_env \<Rightarrow> string \<Rightarrow> string \<Rightarrow> minecraft_profile_response result" where
  "fetch_minecraft_profile B url minecraft_access_token =
     result_bind (send_or ''Minecraft profile fetch'' (bi_get B url minecraft_access_token)) (\<lambda>response.
     parse_json_response (bi_profile_json B) response ''Minecraft profile fetch'')"

definition normalize_minecraft_uuid :: "binding_env \<Rightarrow> string \<Rightarrow> string result" where
  "normalize_minecraft_uuid B value =
     (case bi_uuid_simple B (trim value) of
        None \<Rightarrow> Inl (validation_error_code ''MinecraftProfileUuidInvalid'' ''Minecraft profile id is not a valid UUID'')
      | Some u \<Rightarrow> Inr u)"

definition exchange_microsoft_minecraft_account_with_token ::
    "binding_env \<Rightarrow> external_provider \<Rightarrow> string \<Rightarrow> minecraft_account result" where
  "exchange_microsoft_minecraft_account_with_token B provider ms_token =
     result_bind (microsoft_oauth_endpoints B provider) (\<lambda>token_url.
     result_bind (minecraft_services_endpoints B token_url) (\<lambda>endpoints.
     result_bind (authenticate_xbox_live B (me_xbox_live_auth_url endpoints) ms_token) (\<lambda>xbox_live.
     result_bind (authorize_xsts B (me_xsts_authorize_url endpoints) (fst xbox_live)) (\<lambda>xsts.
     result_bind (login_minecraft_with_xbox B (me_minecraft_login_with_xbox_url endpoints) (snd xsts) (fst xsts)) (\<lambda>minecraft_token.
     result_bind (fetch_minecraft_profile B (me_minecraft_profile_url endpoints) minecraft_token) (\<lambda>profile.
     result_bind (normalize_minecraft_uuid B (mp_id profile)) (\<lambda>uuid.
     Inr \<lparr>ma_uuid = uuid, ma_name = mp_name profile, ma_xbox_user_hash = Some (snd xsts),
           ma_skin = find_map active_skin (mp_skins profile), ma_cape = find_map active_cape (mp_capes profile)\<rparr>)))))))"

definition exchange_microsoft_code_for_token ::
    "binding_env \<Rightarrow> external_provider \<Rightarrow> string \<Rightarrow> string \<Rightarrow> string \<Rightarrow> string \<Rightarrow> string result" where
  "exchange_microsoft_code_for_token B provider token_url code redirect_uri pkce_verifier =
     (let form = [(''grant_type'', ''authorization_code''), (''client_id'', xp_client_id provider), (''code'', code),
                  (''redirect_uri'', redirect_uri), (''code_verifier'', pkce_verifier)]
            @ (case trimmed_nonempty (xp_client_secret provider) of
                 None \<Rightarrow> [] | Some secret \<Rightarrow> if use_legacy B provider then [] else [(''client_secret'', secret)])
      in result_bind (send_or ''Microsoft token exchange'' (bi_post_form B token_url form)) (\<lambda>response.
         parse_json_response (bi_access_token_json B) response ''Microsoft token exchange''))"

text \<open>The endpoints are looked up before the code is exchanged, so a provider that is misconfigured fails without
  spending the code.\<close>

definition exchange_microsoft_minecraft_account ::
    "binding_env \<Rightarrow> external_provider \<Rightarrow> string \<Rightarrow> string \<Rightarrow> string option \<Rightarrow> minecraft_account result" where
  "exchange_microsoft_minecraft_account B provider code redirect_uri pkce_verifier =
     (case pkce_verifier of
        None \<Rightarrow> Inl (InternalError ''stored Microsoft binding PKCE verifier is missing'')
      | Some verifier \<Rightarrow>
          result_bind (microsoft_oauth_endpoints B provider) (\<lambda>token_url.
          result_bind (minecraft_services_endpoints B token_url) (\<lambda>_.
          result_bind (exchange_microsoft_code_for_token B provider token_url code redirect_uri verifier) (\<lambda>ms_token.
          exchange_microsoft_minecraft_account_with_token B provider ms_token))))"

section \<open>Flows\<close>

definition binding_flow_create ::
    "forge \<Rightarrow> (row_id \<Rightarrow> external_binding_flow) \<Rightarrow> (db, aster_error, external_binding_flow) handler" where
  "binding_flow_create F model = statement (\<lambda>d.
     let (f, t) = insert_row model (external_binding_flows d)
     in if \<exists>g \<in> set (rows (external_binding_flows d)). gf_state_hash g = gf_state_hash f
        then Inl (DatabaseOperation (db_err_text F UniqueViolation))
        else Inr (f, d\<lparr>external_binding_flows := t\<rparr>))"

definition binding_flow_live :: "time \<Rightarrow> external_binding_flow \<Rightarrow> bool" where
  "binding_flow_live now f = (gf_consumed_at f = None \<and> gf_expires_at f > now)"

definition find_active_by_state_hash :: "time \<Rightarrow> string \<Rightarrow> db \<Rightarrow> external_binding_flow option" where
  "find_active_by_state_hash now h d =
     select_one (\<lambda>f. gf_state_hash f = h \<and> binding_flow_live now f) (external_binding_flows d)"

definition consume_by_id :: "time \<Rightarrow> row_id \<Rightarrow> (db, aster_error, bool) handler" where
  "consume_by_id now i = statement (\<lambda>d.
     let (n, t) = update_many (\<lambda>f. gf_id f = i \<and> binding_flow_live now f) (\<lambda>f. f\<lparr>gf_consumed_at := Some now\<rparr>)
           (external_binding_flows d)
     in Inr (n = 1, d\<lparr>external_binding_flows := t\<rparr>))"

definition consume_binding_by_state_hash :: "time \<Rightarrow> string \<Rightarrow> (db, aster_error, external_binding_flow option) handler" where
  "consume_binding_by_state_hash now h =
     bnd (query (\<lambda>d. Inr (find_active_by_state_hash now h d))) (\<lambda>existing.
     case existing of
       None \<Rightarrow> ret None
     | Some flow \<Rightarrow> bnd (consume_by_id now (gf_id flow)) (\<lambda>consumed. ret (if consumed then Some flow else None)))"

definition ensure_minecraft_binding_provider_kind :: "external_provider_kind \<Rightarrow> unit result" where
  "ensure_minecraft_binding_provider_kind kind =
     (if kind = KindMicrosoft then Inr ()
      else Inl (validation_error_code ''ExternalAuthProviderMisconfigured''
             ''Minecraft account binding requires a Microsoft external auth provider''))"

definition ensure_provider_enabled :: "external_provider \<Rightarrow> unit result" where
  "ensure_provider_enabled provider =
     (if xp_enabled provider then Inr ()
      else Inl (auth_forbidden_code ''ExternalAuthProviderDisabled'' ''external auth provider is disabled''))"

definition provider_has_client_secret :: "external_provider \<Rightarrow> bool" where
  "provider_has_client_secret provider = (trimmed_nonempty (xp_client_secret provider) \<noteq> None)"

definition binding_callback_path :: "external_provider_kind \<Rightarrow> string \<Rightarrow> string" where
  "binding_callback_path kind key =
     ''/api/v1/auth/external-auth/'' @ provider_kind_as_str kind @ ''/'' @ key @ ''/binding/callback''"

definition binding_callback_redirect_uri :: "external_env \<Rightarrow> external_provider_kind \<Rightarrow> string \<Rightarrow> string result" where
  "binding_callback_redirect_uri X kind key =
     (case xa_public_url X (binding_callback_path kind key) of
        None \<Rightarrow> Inl (validation_error_code ''ExternalAuthCallbackRedirectUriRequired''
                      ''cannot build external auth binding callback redirect URI; configure public_site_url'')
      | Some uri \<Rightarrow>
          if prefix ''/'' uri
          then Inl (validation_error_code ''ExternalAuthCallbackRedirectUriRequired''
                 ''external auth binding callback redirect URI must be absolute; configure public_site_url'')
          else Inr uri)"

definition minecraft_scopes :: string where
  "minecraft_scopes = ''XboxLive.signin offline_access''"

record start_binding_response =
  sb_authorization_url :: string
  sb_device_code :: "string option"
  sb_user_code :: "string option"
  sb_verification_uri :: "string option"
  sb_expires_in :: "nat option"
  sb_interval :: "nat option"

definition find_minecraft_binding_provider ::
    "binding_env \<Rightarrow> external_provider_kind \<Rightarrow> string \<Rightarrow> (db, aster_error, external_provider) handler" where
  "find_minecraft_binding_provider B kind key =
     bnd (check (xa_normalize_key (bi_external B) key)) (\<lambda>key. query (find_login_provider kind key))"

definition start_authorization_code_binding_flow ::
    "binding_env \<Rightarrow> time \<Rightarrow> row_id \<Rightarrow> external_provider \<Rightarrow> string option \<Rightarrow> (db, aster_error, start_binding_response) handler" where
  "start_authorization_code_binding_flow B now user_id provider return_path =
     bnd (check (xa_normalize_return_path (bi_external B) return_path)) (\<lambda>return_path.
     bnd (check (binding_callback_redirect_uri (bi_external B) (xp_provider_kind provider)
                   (public_provider_key (xp_provider_kind provider) (xp_key provider)))) (\<lambda>redirect_uri.
     bnd (check (xa_start (bi_external B) (provider\<lparr>xp_scopes := minecraft_scopes\<rparr>) redirect_uri)) (\<lambda>auth_start.
     bnd (check (flow_expiry (xa_forge (bi_external B)) now 300 ''external auth binding flow ttl'')) (\<lambda>expires_at.
     bnd (binding_flow_create (xa_forge (bi_external B)) (\<lambda>i. \<lparr>gf_id = i, gf_user_id = user_id,
            gf_provider_id = xp_id provider, gf_state_hash = xa_state_hash (bi_external B) (as_state auth_start),
            gf_nonce = as_nonce auth_start, gf_pkce_verifier = as_pkce_verifier auth_start,
            gf_redirect_uri = redirect_uri, gf_return_path = Some return_path, gf_created_at = now,
            gf_expires_at = expires_at, gf_consumed_at = None\<rparr>)) (\<lambda>_.
     ret \<lparr>sb_authorization_url = as_authorization_url auth_start, sb_device_code = None, sb_user_code = None,
          sb_verification_uri = None, sb_expires_in = None, sb_interval = None\<rparr>)))))"

definition required_field :: "string \<Rightarrow> string option \<Rightarrow> string result" where
  "required_field name v =
     (case v of None \<Rightarrow> Inl (AuthInvalidCredentials (''Missing '' @ name @ '' in response'')) | Some s \<Rightarrow> Inr s)"

definition request_device_code :: "binding_env \<Rightarrow> external_provider \<Rightarrow> device_code_json result" where
  "request_device_code B provider =
     result_bind (microsoft_device_code_url B provider) (\<lambda>url.
     result_bind (send_or ''Device code request''
         (bi_post_form B url [(''client_id'', xp_client_id provider), (''scope'', minecraft_scopes)])) (\<lambda>response.
     if \<not> is_success response then Inl (AuthInvalidCredentials ''Device code request failed'') else
     case bi_device_code_json B (hp_body response) of
       Inl e \<Rightarrow> Inl (AuthInvalidCredentials (''Device code response parse failed: '' @ e)) | Inr json \<Rightarrow> Inr json))"

definition start_device_code_flow ::
    "binding_env \<Rightarrow> time \<Rightarrow> row_id \<Rightarrow> external_provider \<Rightarrow> string option \<Rightarrow> (db, aster_error, start_binding_response) handler" where
  "start_device_code_flow B now user_id provider return_path =
     bnd (check (xa_normalize_return_path (bi_external B) return_path)) (\<lambda>return_path.
     bnd (check (request_device_code B provider)) (\<lambda>json.
     bnd (check (required_field ''device_code'' (dj_device_code json))) (\<lambda>device_code.
     bnd (check (required_field ''user_code'' (dj_user_code json))) (\<lambda>user_code.
     bnd (check (required_field ''verification_uri'' (dj_verification_uri json))) (\<lambda>verification_uri.
     let expires_in = (case dj_expires_in json of None \<Rightarrow> 900 | Some n \<Rightarrow> n);
         interval = (case dj_interval json of None \<Rightarrow> 5 | Some n \<Rightarrow> n) in
     bnd (check (flow_expiry (xa_forge (bi_external B)) now (max 1 (min 900 expires_in)) ''external auth device code flow ttl''))
       (\<lambda>expires_at.
     bnd (binding_flow_create (xa_forge (bi_external B)) (\<lambda>i. \<lparr>gf_id = i, gf_user_id = user_id,
            gf_provider_id = xp_id provider, gf_state_hash = xa_state_hash (bi_external B) device_code,
            gf_nonce = None, gf_pkce_verifier = None, gf_redirect_uri = verification_uri,
            gf_return_path = Some return_path, gf_created_at = now, gf_expires_at = expires_at, gf_consumed_at = None\<rparr>)) (\<lambda>_.
     ret \<lparr>sb_authorization_url = verification_uri, sb_device_code = Some device_code, sb_user_code = Some user_code,
          sb_verification_uri = Some verification_uri, sb_expires_in = Some expires_in, sb_interval = Some interval\<rparr>)))))))"

definition start_minecraft_binding ::
    "binding_env \<Rightarrow> time \<Rightarrow> row_id \<Rightarrow> external_provider_kind \<Rightarrow> string \<Rightarrow> string option \<Rightarrow>
     (db, aster_error, start_binding_response) handler" where
  "start_minecraft_binding B now user_id kind key return_path =
     bnd (check (ensure_minecraft_binding_provider_kind kind)) (\<lambda>_.
     bnd (find_minecraft_binding_provider B kind key) (\<lambda>provider.
     bnd (check (ensure_provider_enabled provider)) (\<lambda>_.
     if provider_has_client_secret provider
     then start_authorization_code_binding_flow B now user_id provider return_path
     else start_device_code_flow B now user_id provider return_path)))"

section \<open>Writing the binding\<close>

definition identity_conflict :: "string \<Rightarrow> aster_error" where
  "identity_conflict message = auth_forbidden_code ''ExternalAuthIdentityConflict'' message"

definition ensure_minecraft_identity ::
    "forge \<Rightarrow> time \<Rightarrow> row_id \<Rightarrow> external_provider \<Rightarrow> minecraft_account \<Rightarrow> string \<Rightarrow>
     (db, aster_error, external_identity \<times> bool) handler" where
  "ensure_minecraft_identity F now user_id provider account metadata =
     bnd (query (\<lambda>d. Inr (find_by_identity_namespace_subject minecraft_identity_namespace (ma_uuid account) d))) (\<lambda>found.
     case found of
       Some identity \<Rightarrow>
         if ei_user_id identity \<noteq> user_id
         then raise (identity_conflict ''Minecraft account is already linked to another user'')
         else bnd (touch_login (ei_id identity) None (Some (ma_name account)) (Some metadata) now) (\<lambda>_. ret (identity, False))
     | None \<Rightarrow>
         bnd (query (\<lambda>d. Inr (find_by_provider_for_user (xp_id provider) user_id d))) (\<lambda>other.
         case other of
           Some identity \<Rightarrow>
             raise (identity_conflict (''user already linked a different account for external auth provider #''
                      @ show_int (ei_provider_id identity)))
         | None \<Rightarrow>
             bnd (create_identity F now
                    \<lparr>ci_user_id = user_id, ci_provider_id = xp_id provider,
                     ci_identity_namespace = minecraft_identity_namespace, ci_subject = ma_uuid account,
                     ci_email_snapshot = None, ci_display_name_snapshot = Some (ma_name account),
                     ci_metadata = Some metadata\<rparr>) (\<lambda>identity. ret (identity, True))))"

definition ensure_minecraft_profile ::
    "external_env \<Rightarrow> time \<Rightarrow> row_id \<Rightarrow> user_role \<Rightarrow> minecraft_account \<Rightarrow> (db, aster_error, minecraft_profile \<times> bool) handler" where
  "ensure_minecraft_profile X now user_id role account =
     bnd (query (\<lambda>d. Inr (find_by_uuid (ma_uuid account) d))) (\<lambda>found.
     case found of
       Some existing \<Rightarrow>
         if p_user_id existing \<noteq> user_id
         then raise (validation_error_code ''MinecraftProfileUuidTaken''
                ''Minecraft profile UUID is already bound to another user'')
         else ret (existing, False)
     | None \<Rightarrow>
         bnd (create_profile_with_uuid_in_connection (xa_forge X) (xa_codec X) (xa_mojang X) (xa_ygg_policy X) now user_id role
                (ma_uuid account) (ma_name account) SourceMicrosoft) (\<lambda>profile. ret (profile, True)))"

record apply_binding_result =
  ab_identity :: external_identity
  ab_profile :: minecraft_profile
  ab_identity_linked :: bool
  ab_profile_created :: bool

definition apply_minecraft_binding ::
    "binding_env \<Rightarrow> time \<Rightarrow> external_provider \<Rightarrow> row_id \<Rightarrow> user_role \<Rightarrow> minecraft_account \<Rightarrow>
     (db, aster_error, apply_binding_result) handler" where
  "apply_minecraft_binding B now provider user_id role account =
     transaction
       (bnd (ensure_minecraft_identity (xa_forge (bi_external B)) now user_id provider account (bi_metadata B account)) (\<lambda>(identity, identity_linked).
        bnd (ensure_minecraft_profile (bi_external B) now user_id role account) (\<lambda>(profile, profile_created).
        ret \<lparr>ab_identity = identity, ab_profile = profile, ab_identity_linked = identity_linked,
             ab_profile_created = profile_created\<rparr>)))"

text \<open>A failed import is only logged.\<close>

definition import_official_texture_to_profile ::
    "'c cache_ops \<Rightarrow> forge \<Rightarrow> storage_env \<Rightarrow> time \<Rightarrow> minecraft_profile \<Rightarrow> texture_type \<Rightarrow> minecraft_texture_model \<Rightarrow> string \<Rightarrow>
     ('c wardrobe_state, texture_error, unit) handler" where
  "import_official_texture_to_profile C F S now profile ty model source_url =
     import_official_texture_to_profile_with_mode C F S now profile ty model source_url PreserveLocal"

definition sync_official_texture ::
    "'c cache_ops \<Rightarrow> forge \<Rightarrow> storage_env \<Rightarrow> time \<Rightarrow> minecraft_profile \<Rightarrow> texture_type \<Rightarrow> official_texture option \<Rightarrow>
     ('c wardrobe_state, 'e, unit) handler" where
  "sync_official_texture C F S now profile ty texture s =
     (Inr (), case texture of
                None \<Rightarrow> s
              | Some t \<Rightarrow> snd (import_official_texture_to_profile C F S now profile ty (ot_texture_model t) (ot_url t) s))"

definition sync_official_minecraft_textures ::
    "'c cache_ops \<Rightarrow> forge \<Rightarrow> storage_env \<Rightarrow> time \<Rightarrow> minecraft_profile \<Rightarrow> minecraft_account \<Rightarrow>
     ('c wardrobe_state, 'e, unit) handler" where
  "sync_official_minecraft_textures C F S now profile account =
     bnd (sync_official_texture C F S now profile Skin (ma_skin account)) (\<lambda>_.
     sync_official_texture C F S now profile Cape (ma_cape account))"

record binding_result =
  br_user_id :: row_id
  br_provider_id :: row_id
  br_identity_id :: row_id
  br_profile :: minecraft_profile
  br_identity_linked :: bool
  br_profile_created :: bool
  br_return_path :: string

definition bind_account ::
    "'c cache_ops \<Rightarrow> storage_env \<Rightarrow> binding_env \<Rightarrow> time \<Rightarrow> external_binding_flow \<Rightarrow> external_provider \<Rightarrow> minecraft_account \<Rightarrow>
     ('c wardrobe_state, aster_error, binding_result) handler" where
  "bind_account C S B now flow provider account =
     bnd (aster (query (find_user_by_id (gf_user_id flow)))) (\<lambda>u.
     bnd (aster (apply_minecraft_binding B now provider (gf_user_id flow) (u_role u) account)) (\<lambda>applied.
     bnd (sync_official_minecraft_textures C (xa_forge (bi_external B)) S now (ab_profile applied) account) (\<lambda>_.
     ret \<lparr>br_user_id = gf_user_id flow, br_provider_id = xp_id provider, br_identity_id = ei_id (ab_identity applied),
          br_profile = ab_profile applied, br_identity_linked = ab_identity_linked applied,
          br_profile_created = ab_profile_created applied,
          br_return_path = (case gf_return_path flow of None \<Rightarrow> ''/account'' | Some p \<Rightarrow> p)\<rparr>)))"

definition binding_provider_ok ::
    "external_env \<Rightarrow> external_provider_kind \<Rightarrow> string option \<Rightarrow> external_provider \<Rightarrow> unit result" where
  "binding_provider_ok X kind provider_key provider =
     (if xp_provider_kind provider \<noteq> kind
      then Inl (AuthInvalidCredentials ''external auth binding callback provider kind does not match flow'') else
      result_bind (case provider_key of
              None \<Rightarrow> Inr ()
            | Some key \<Rightarrow>
                result_bind (xa_normalize_key X key) (\<lambda>expected.
                if provider_key_matches (xp_provider_kind provider) (xp_key provider) expected then Inr ()
                else Inl (AuthInvalidCredentials ''external auth binding callback provider does not match flow''))) (\<lambda>_.
      ensure_provider_enabled provider))"

definition finish_minecraft_binding_callback ::
    "'c cache_ops \<Rightarrow> storage_env \<Rightarrow> binding_env \<Rightarrow> time \<Rightarrow> external_provider_kind \<Rightarrow> string option \<Rightarrow> callback_query \<Rightarrow>
     ('c wardrobe_state, aster_error, binding_result) handler" where
  "finish_minecraft_binding_callback C S B now kind provider_key q =
     bnd (check (ensure_minecraft_binding_provider_kind kind)) (\<lambda>_.
     bnd (check (case provider_error q of
                   Some description \<Rightarrow>
                     Inl (AuthInvalidCredentials (''external auth provider returned error: '' @ description))
                 | None \<Rightarrow> Inr ())) (\<lambda>_.
     bnd (check (case cq_code q of
                   None \<Rightarrow> Inl (AuthInvalidCredentials ''external auth binding callback missing code'') | Some c \<Rightarrow> Inr c)) (\<lambda>code.
     bnd (check (case cq_state q of
                   None \<Rightarrow> Inl (AuthInvalidCredentials ''external auth binding callback missing state'') | Some c \<Rightarrow> Inr c)) (\<lambda>state.
     bnd (aster (consume_binding_by_state_hash now (xa_state_hash (bi_external B) state))) (\<lambda>consumed.
     bnd (check (case consumed of
                   None \<Rightarrow> Inl (AuthInvalidCredentials ''external auth binding state is invalid or expired'')
                 | Some flow \<Rightarrow> Inr flow)) (\<lambda>flow.
     bnd (aster (query (find_provider_by_id (gf_provider_id flow)))) (\<lambda>provider.
     bnd (check (binding_provider_ok (bi_external B) kind provider_key provider)) (\<lambda>_.
     bnd (check (exchange_microsoft_minecraft_account B provider code (gf_redirect_uri flow) (gf_pkce_verifier flow))) (\<lambda>account.
     bind_account C S B now flow provider account)))))))))"

datatype device_code_token_status = Authorized string | PollPending | SlowDown | PollExpired

definition poll_device_code_token :: "binding_env \<Rightarrow> string \<Rightarrow> string \<Rightarrow> string \<Rightarrow> device_code_token_status result" where
  "poll_device_code_token B token_url client_id device_code =
     result_bind (send_or ''Device code token request''
         (bi_post_form B token_url [(''grant_type'', ''urn:ietf:params:oauth:grant-type:device_code''),
            (''device_code'', device_code), (''client_id'', client_id)])) (\<lambda>response.
     case bi_device_token_json B (hp_body response) of
       Inl e \<Rightarrow> Inl (AuthInvalidCredentials (''Token response parse failed: '' @ e))
     | Inr json \<Rightarrow>
         (case tj_error json of
            Some error \<Rightarrow>
              if error = ''authorization_pending'' then Inr PollPending
              else if error = ''slow_down'' then Inr SlowDown
              else if error = ''expired_token'' then Inr PollExpired
              else Inl (AuthInvalidCredentials (''Microsoft device code token request failed: ''
                     @ (case tj_error_description json of None \<Rightarrow> error | Some d \<Rightarrow> if trim d = [] then error else d)))
          | None \<Rightarrow>
              if \<not> is_success response then Inl (AuthInvalidCredentials ''Device code token request failed'')
              else case tj_access_token json of
                     None \<Rightarrow> Inl (AuthInvalidCredentials ''Missing access_token in response'')
                   | Some token \<Rightarrow>
                       if trim token = [] then Inl (AuthInvalidCredentials ''Missing access_token in response'')
                       else Inr (Authorized token)))"

definition check_device_code_status ::
    "'c cache_ops \<Rightarrow> storage_env \<Rightarrow> binding_env \<Rightarrow> time \<Rightarrow> row_id \<Rightarrow> string \<Rightarrow>
     ('c wardrobe_state, aster_error, binding_result option) handler" where
  "check_device_code_status C S B now user_id device_code =
     bnd (aster (query (\<lambda>d. Inr (find_active_by_state_hash now (xa_state_hash (bi_external B) device_code) d)))) (\<lambda>found.
     case found of
       None \<Rightarrow> ret None
     | Some flow \<Rightarrow>
         if gf_user_id flow \<noteq> user_id
         then raise (identity_conflict ''Device code flow does not belong to this user'') else
         bnd (aster (query (find_provider_by_id (gf_provider_id flow)))) (\<lambda>provider.
         bnd (check (microsoft_device_token_url B provider)) (\<lambda>token_url.
         bnd (check (poll_device_code_token B token_url (xp_client_id provider) device_code)) (\<lambda>status.
         case status of
           PollPending \<Rightarrow> ret None
         | SlowDown \<Rightarrow> ret None
         | PollExpired \<Rightarrow>
             bnd (aster (consume_by_id now (gf_id flow))) (\<lambda>_.
             raise (AuthInvalidCredentials ''Microsoft device code has expired''))
         | Authorized ms_token \<Rightarrow>
             bnd (aster (consume_by_id now (gf_id flow))) (\<lambda>consumed.
             if \<not> consumed then ret None else
             bnd (check (exchange_microsoft_minecraft_account_with_token B provider ms_token)) (\<lambda>account.
             bnd (bind_account C S B now flow provider account) (\<lambda>r. ret (Some r))))))))"

end
