(* ===== verification/Binding_Properties.thy ===== *)
theory Binding_Properties
  imports Minecraft_Binding External_Properties Texture_Properties
begin

text \<open>
  Properties of binding official Minecraft accounts: who may bind what, that one account belongs to one user, and
  that binding keeps what the login properties rest on.
\<close>

section \<open>What importing textures leaves alone\<close>

text \<open>Sessions, accounts, identities and flows, and of each profile all but the time of its last change.\<close>

definition profile_key :: "minecraft_profile \<Rightarrow> row_id \<times> row_id \<times> string \<times> string \<times> minecraft_profile_source" where
  "profile_key p = (p_id p, p_user_id p, p_uuid p, p_name p, p_source p)"

definition identity_part where
  "identity_part d = (auth_sessions d, users d, account_tables d, ext_tables d, external_binding_flows d,
     map profile_key (rows (minecraft_profiles d)))"

definition site_kept :: "'c wardrobe_state \<Rightarrow> 'c wardrobe_state \<Rightarrow> bool" where
  "site_kept s s' = keeps identity_part (w_db s) (w_db s')"

interpretation sk: state_order site_kept
  by unfold_locales (simp_all add: site_kept_def keeps_def)

lemma sk_tex:
  assumes "\<And>d. keeps identity_part d (snd (m d))"
  shows "site_kept s (snd (tex m s))" "site_kept s (snd (attempt m s))"
  using assms[of "w_db s"] by (simp_all add: site_kept_def keeps_def)

lemma sk_cache: "site_kept s (snd (w_cache f s))"
  by (simp add: site_kept_def keeps_def w_cache_def on_ygg_def on_cache_def)

lemma sk_objects:
  "site_kept s (snd (put_file S key bytes s))" "site_kept s (snd (cleanup_texture_blob_if_unreferenced S key s))"
  by (auto simp: site_kept_def keeps_def put_file_def cleanup_texture_blob_if_unreferenced_def split: option.split)

lemma part_kept:
  "keeps identity_part d (snd (texture_repo_create F now input d))"
  "keeps identity_part d (snd (upsert_for_profile F now p i ty d))"
  "keeps identity_part d (snd (texture_delete_by_id_for_user i u d))"
proof -
  show "keeps identity_part d (snd (texture_repo_create F now input d))"
    by (simp add: keeps_def identity_part_def account_tables_def ext_tables_def texture_repo_create_def statement_def
        checked_insert_def Let_def split_beta)
  show "keeps identity_part d (snd (upsert_for_profile F now p i ty d))"
    unfolding upsert_for_profile_def
    by (intro kept.rules)
      (auto simp: keeps_def identity_part_def account_tables_def ext_tables_def statement_def checked_insert_def Let_def split_beta
        split: sum.split option.split)
  show "keeps identity_part d (snd (texture_delete_by_id_for_user i u d))"
    unfolding texture_delete_by_id_for_user_def
    by (intro kept.rules) (simp add: keeps_def identity_part_def account_tables_def ext_tables_def modify_def delete_texture_row_def)
qed

lemma part_touch: "keeps identity_part d (snd (touch_by_id F now i d))"
proof -
  have "keeps identity_part d (snd (update_profile_row F i (\<lambda>p. p\<lparr>p_updated_at := now\<rparr>) d))" for d
  proof (cases "update_by_key F p_id i (\<lambda>p. p\<lparr>p_updated_at := now\<rparr>) (minecraft_profiles d)")
    case (Inr r)
    then have "map profile_key (rows (snd r)) = map profile_key (rows (minecraft_profiles d))"
      by (auto simp: update_by_key_def profile_key_def update_many_def split: option.splits if_splits)
    then show ?thesis
      using Inr by (cases r) (simp add: keeps_def update_profile_row_def statement_def identity_part_def account_tables_def ext_tables_def)
  qed (simp add: keeps_def update_profile_row_def statement_def)
  then have "keeps identity_part d (snd (bnd (update_profile_row F i (\<lambda>p. p\<lparr>p_updated_at := now\<rparr>)) (\<lambda>updated. ret (Some updated)) d))"
    by (intro kept.rules)
  then show ?thesis by (simp add: touch_by_id_def keeps_def)
qed

lemma sk_cleanup_asset: "site_kept s (snd (cleanup_texture_asset_if_unreferenced S x s))"
  unfolding cleanup_texture_asset_if_unreferenced_def
  by (simp add: sk.refl) (intro impI sk.bnd sk_tex part_kept sk_objects)

lemma sk_caches:
  "site_kept s (snd (invalidate_profile_texture_caches C F now i s))"
  "site_kept s (snd (invalidate_texture_asset_caches C x s))"
  unfolding invalidate_profile_texture_caches_def invalidate_texture_asset_caches_def
  by (intro sk.bnd sk_cache sk_tex part_touch)+

lemma sk_after_binding: "site_kept s (snd (after_binding C F S now i previous x s))"
  unfolding after_binding_def by (intro sk.rules sk_cleanup_asset sk_caches)

lemma sk_or_cleanup:
  assumes "site_kept s (snd (m s))" and "\<And>s'. site_kept s' (snd (c s'))"
  shows "site_kept s (snd (case m s of (Inr x, s') \<Rightarrow> (Inr x, s') | (Inl e, s') \<Rightarrow> bnd c (\<lambda>_. raise e) s'))"
  using assms(1) sk.trans[OF assms(1) sk.bnd[OF assms(2) sk.reads(4)]]
  by (auto split: prod.splits sum.splits)

lemma sk_read: "site_kept s (snd (tex (query f) s))"
  by (simp add: tex_query sk.refl)

lemma sk_store: "site_kept s (snd (store_or_reuse_wardrobe_texture F S now input s))"
  unfolding store_or_reuse_wardrobe_texture_def Let_def
  by (intro sk.rules sk_read sk_objects sk_or_cleanup sk_tex part_kept)

lemma sk_import: "site_kept s (snd (import_official_texture_to_profile C F S now p ty m url s))"
  unfolding import_official_texture_to_profile_def import_official_texture_to_profile_with_mode_def
  by (intro sk.rules sk_read sk_store sk_caches sk_after_binding sk_or_cleanup sk_tex part_kept sk_cleanup_asset)

lemma sk_sync: "site_kept s (snd (sync_official_minecraft_textures C F S now p account s))"
proof -
  have "site_kept s (snd (sync_official_texture C F S now p ty t s))" for ty t s
    by (auto simp: sync_official_texture_def sk.refl sk_import split: option.split)
  then show ?thesis unfolding sync_official_minecraft_textures_def by (intro sk.bnd)
qed

section \<open>Binding is safe for identities and accounts\<close>

lemma ext_profile_row:
  "ext_safe I H S T U d (snd (create_profile_with_uuid_in_connection F J mojang policy now u role uuid name src d))"
proof (rule ext_from_acct)
  have "keeps (\<lambda>d. (auth_sessions d, users d, account_tables d, ext_tables d)) d
      (snd (create_profile_with_uuid_in_connection F J mojang policy now u role uuid name src d))" for d
    unfolding create_profile_with_uuid_in_connection_def create_profile_with_uuid_in_connection_inner_def create_with_source_def
    by (intro kept.rules) (simp add: keeps_def statement_def Let_def account_tables_def ext_tables_def split_beta)
  then show "acct_safe I H d (snd (create_profile_with_uuid_in_connection F J mojang policy now u role uuid name src d))"
    "keeps ext_tables d (snd (create_profile_with_uuid_in_connection F J mojang policy now u role uuid name src d))"
    by (auto simp: keeps_def intro!: acct_same)
qed

lemma ext_apply: "ext_safe I H S T U d (snd (apply_minecraft_binding B now provider u role account d))"
  unfolding apply_minecraft_binding_def ensure_minecraft_identity_def ensure_minecraft_profile_def
  by (intro ext_rules ext_profile_row)

lemma ext_binding_consume: "ext_safe I H S T U d (snd (consume_by_id now i d))"
  by (rule ext_from_acct[OF acct_same])
    (simp_all add: consume_by_id_def statement_def Let_def split_beta account_tables_def keeps_def ext_tables_def)

lemma ext_binding_start: "ext_safe I H S T U d (snd (start_minecraft_binding B now u kind key return_path d))"
proof -
  have "ext_safe I H S T U d (snd (binding_flow_create F model d))" for F model d
    by (rule ext_from_acct[OF acct_same])
      (simp_all add: binding_flow_create_def statement_def split_beta account_tables_def keeps_def ext_tables_def)
  then show ?thesis
    unfolding start_minecraft_binding_def find_minecraft_binding_provider_def start_authorization_code_binding_flow_def
      start_device_code_flow_def Let_def
    by (intro ext_rules)
qed

text \<open>The same on the whole state: \<open>ext_safe\<close> between the databases.\<close>

definition site_safe where
  "site_safe I H S T U s s' = ext_safe I H S T U (w_db s) (w_db s')"

interpretation ss: state_order "site_safe I H S T U" for I H S T U
  by unfold_locales (simp add: site_safe_def ext.refl, auto simp: site_safe_def intro: ext.trans)

lemma ss_aster: "ext_safe I H S T U (w_db s) (snd (m (w_db s))) \<Longrightarrow> site_safe I H S T U s (snd (aster m s))"
  by (simp add: site_safe_def)

lemma ss_kept: "site_kept s s' \<Longrightarrow> site_safe I H S T U s s'"
  unfolding site_safe_def
  by (rule ext_from_acct[OF acct_same]) (simp_all add: site_kept_def keeps_def identity_part_def)

lemma ss_query: "site_safe I H S T U s (snd (aster (query f) s))"
  by (simp add: site_safe_def query_def ext.refl)

lemma ss_bind: "site_safe I H S T U s (snd (bind_account C St B now flow provider account s))"
  unfolding bind_account_def by (intro ss.bnd ss.reads ss_query ss_aster ext_apply ss_kept[OF sk_sync])

lemma ss_finish_binding: "site_safe I H S T U s (snd (finish_minecraft_binding_callback C St B now kind key q s))"
  unfolding finish_minecraft_binding_callback_def consume_binding_by_state_hash_def
  by (intro ss.bnd ss.reads ss_query ss_aster ss_bind ext.rules ext_binding_consume)

lemma ss_check_device: "site_safe I H S T U s (snd (check_device_code_status C St B now u code s))"
proof -
  have "site_safe I H S T U s (snd ((case status of
           PollPending \<Rightarrow> ret None
         | SlowDown \<Rightarrow> ret None
         | PollExpired \<Rightarrow> bnd (aster (consume_by_id now i)) (\<lambda>_. raise e)
         | Authorized ms_token \<Rightarrow>
             bnd (aster (consume_by_id now i)) (\<lambda>consumed.
             if \<not> consumed then ret None else
             bnd (check (exchange_microsoft_minecraft_account_with_token B provider ms_token)) (\<lambda>account.
             bnd (bind_account C St B now flow provider account) (\<lambda>r. ret (Some r))))) s))" for status s i e provider flow
    by (cases status) (simp_all only: device_code_token_status.case,
      (intro ss.bnd ss.branch ss.reads ss_aster ext_binding_consume ss_bind)+)
  then show ?thesis
    unfolding check_device_code_status_def by (intro ss.bnd ss.optional ss.branch ss.reads ss_query)
qed

section \<open>Runs\<close>

lemma aster_Inr:
  "aster m s = (Inr x, s') \<longleftrightarrow> (\<exists>d. m (w_db s) = (Inr x, d) \<and> s' = s\<lparr>w_ygg := (w_ygg s)\<lparr>y_db := d\<rparr>\<rparr>)"
  by (auto simp: aster_def on_ygg_def on_db_def split: prod.splits)

lemma aster_query_Inr: "aster (query f) s = (Inr x, s') \<longleftrightarrow> f (w_db s) = Inr x \<and> s' = s"
  by (auto simp: aster_Inr query_eq)

text \<open>What a binding leaves: the official account belongs to the user, as identity and as profile, and it belonged to
  nobody else before.\<close>

definition bound :: "db \<Rightarrow> db \<Rightarrow> row_id \<Rightarrow> minecraft_account \<Rightarrow> minecraft_profile \<Rightarrow> bool \<Rightarrow> bool" where
  "bound d d' u account p created =
     (linked minecraft_identity_namespace (ma_uuid account) d' u
      \<and> (\<forall>v. linked minecraft_identity_namespace (ma_uuid account) d v \<longrightarrow> v = u)
      \<and> p_user_id p = u \<and> p_uuid p = ma_uuid account
      \<and> profile_key p \<in> profile_key ` set (rows (minecraft_profiles d'))
      \<and> (\<forall>p' \<in> set (rows (minecraft_profiles d)). p_uuid p' = ma_uuid account \<longrightarrow> \<not> created)
      \<and> (created \<longrightarrow> p_source p = SourceMicrosoft \<and> p_name p = ma_name account)
      \<and> (\<not> created \<longrightarrow> p \<in> set (rows (minecraft_profiles d))))"

lemma ensure_identity_run:
  assumes "ensure_minecraft_identity F now u provider account metadata d = (Inr (e, b), d')" and "ext_wf d"
  shows "linked minecraft_identity_namespace (ma_uuid account) d' u"
    "linked minecraft_identity_namespace (ma_uuid account) d v \<Longrightarrow> v = u"
    "minecraft_profiles d' = minecraft_profiles d"
proof -
  let ?claims = "\<lparr>cl_identity_namespace = minecraft_identity_namespace, cl_subject = ma_uuid account, cl_email = None,
     cl_email_verified = False, cl_display_name = Some (ma_name account), cl_preferred_username = None\<rparr>"
  have find: "find_by_identity_namespace_subject minecraft_identity_namespace (ma_uuid account) d = find_identity_of_claims ?claims d"
    by (simp add: find_identity_of_claims_def)
  have "linked minecraft_identity_namespace (ma_uuid account) d' u
      \<and> (\<forall>v. linked minecraft_identity_namespace (ma_uuid account) d v \<longrightarrow> v = u) \<and> minecraft_profiles d' = minecraft_profiles d"
  proof (cases "find_identity_of_claims ?claims d")
    case (Some i)
    then obtain r where t: "touch_claims now (ei_id i) ?claims (Some metadata) d = (r, d')" "ei_user_id i = u"
      using assms(1) by (auto simp: ensure_minecraft_identity_def find run_simps raise_eq touch_claims_def split: if_splits)
    have "linked minecraft_identity_namespace (ma_uuid account) d u" using find_identity_linked[OF Some] t(2) by simp
    moreover have "minecraft_profiles d' = minecraft_profiles d"
      using t(1) by (auto simp: touch_claims_def touch_login_def statement_def Let_def split_beta)
    ultimately show ?thesis using touch_linked[OF t(1)] linked_unique[OF assms(2)] by blast
  next
    case None
    then obtain p where c: "create_identity_for_claims F now u p ?claims (Some metadata) d = (Inr e, d')"
      using assms(1) by (auto simp: ensure_minecraft_identity_def find run_simps raise_eq create_identity_for_claims_def split: option.splits)
    have "minecraft_profiles d' = minecraft_profiles d" by (subst create_identity_for_claims_run(3)[OF c]) simp
    then show ?thesis using create_identity_for_claims_run(1,2)[OF c] by auto
  qed
  then show "linked minecraft_identity_namespace (ma_uuid account) d' u"
    "linked minecraft_identity_namespace (ma_uuid account) d v \<Longrightarrow> v = u" "minecraft_profiles d' = minecraft_profiles d"
    by blast+
qed

lemma apply_run:
  assumes "apply_minecraft_binding B now provider u role account d = (Inr r, d')" and "ext_wf d"
  shows "bound d d' u account (ab_profile r) (ab_profile_created r)"
proof -
  obtain e b d1 p c where run:
      "ensure_minecraft_identity (xa_forge (bi_external B)) now u provider account (bi_metadata B account) d = (Inr (e, b), d1)"
      "ensure_minecraft_profile (bi_external B) now u role account d1 = (Inr (p, c), d')" "ab_profile r = p" "ab_profile_created r = c"
    using assms(1) unfolding apply_minecraft_binding_def by (auto simp: transaction_Inr bnd_Inr ret_eq split_beta)
  note id = ensure_identity_run[OF run(1) assms(2)]
  show ?thesis
  proof (cases "find_by_uuid (ma_uuid account) d1")
    case (Some q)
    then have q: "q = p" "c = False" "d' = d1" "p_user_id p = u"
      using run(2) by (auto simp: ensure_minecraft_profile_def run_simps raise_eq split: if_splits)
    have "p \<in> set (rows (minecraft_profiles d1))" "p_uuid p = ma_uuid account"
      using Some q(1) by (auto simp: find_by_uuid_def dest: select_one_Some)
    then show ?thesis using id q(2-4) run(3,4) by (auto simp: bound_def)
  next
    case None
    then obtain new where new: "create_profile_with_uuid_in_connection (xa_forge (bi_external B)) (xa_codec (bi_external B))
        (xa_mojang (bi_external B)) (xa_ygg_policy (bi_external B)) now u role (ma_uuid account) (ma_name account) SourceMicrosoft d1
        = (Inr p, d')" "c"
      using run(2) by (auto simp: ensure_minecraft_profile_def run_simps)
    have p: "p = new_profile (xa_ygg_policy (bi_external B)) now \<lparr>cp_user_id = u, cp_user_role = role, cp_uuid = ma_uuid account,
          cp_name = ma_name account, cp_source = SourceMicrosoft, cp_allow_reserved_linuxdo_name = False,
          cp_check_mojang_name = False\<rparr> (next_id (minecraft_profiles d1))"
        "d' = d1\<lparr>minecraft_profiles := (minecraft_profiles d1)\<lparr>rows := rows (minecraft_profiles d1) @ [p],
          next_id := next_id (minecraft_profiles d1) + 1\<rparr>\<rparr>"
      using new(1) unfolding create_profile_with_uuid_in_connection_def create_inner_Inr by simp_all
    have "p \<in> set (rows (minecraft_profiles d'))" "external_identities d' = external_identities d1" by (simp_all add: p(2))
    moreover have "\<forall>p' \<in> set (rows (minecraft_profiles d)). p_uuid p' \<noteq> ma_uuid account"
      using None id(3) by (auto simp: find_by_uuid_def select_one_None)
    moreover have "p_user_id p = u" "p_uuid p = ma_uuid account" "p_source p = SourceMicrosoft" "p_name p = ma_name account"
      by (simp_all add: p(1) new_profile_def)
    ultimately show ?thesis
      using id(1,2) new(2) run(3,4) by (auto simp: bound_def linked_def)
  qed
qed

lemma bind_account_run:
  assumes "bind_account C S B now flow provider account s = (Inr r, s')" and "ext_wf (w_db s)"
  shows "bound (w_db s) (w_db s') (gf_user_id flow) account (br_profile r) (br_profile_created r)"
    "br_user_id r = gf_user_id flow" "br_provider_id r = xp_id provider"
proof -
  obtain role a d1 where run: "apply_minecraft_binding B now provider (gf_user_id flow) role account (w_db s) = (Inr a, d1)"
      "sync_official_minecraft_textures C (xa_forge (bi_external B)) S now (ab_profile a) account
         (s\<lparr>w_ygg := (w_ygg s)\<lparr>y_db := d1\<rparr>\<rparr>) = (Inr () :: unit result, s')"
      "br_profile r = ab_profile a" "br_profile_created r = ab_profile_created a" "br_user_id r = gf_user_id flow"
      "br_provider_id r = xp_id provider"
    using assms(1) unfolding bind_account_def bnd_Inr aster_query_Inr by (auto simp: aster_Inr ret_eq)
  have "site_kept (s\<lparr>w_ygg := (w_ygg s)\<lparr>y_db := d1\<rparr>\<rparr>) s'" by (metis run(2) sk_sync snd_conv)
  then have kept: "external_identities (w_db s') = external_identities d1"
      "map profile_key (rows (minecraft_profiles (w_db s'))) = map profile_key (rows (minecraft_profiles d1))"
    by (simp_all add: site_kept_def keeps_def identity_part_def ext_tables_def)
  have "profile_key ` set (rows (minecraft_profiles (w_db s'))) = profile_key ` set (rows (minecraft_profiles d1))"
    using arg_cong[OF kept(2), of set] by simp
  then show "bound (w_db s) (w_db s') (gf_user_id flow) account (br_profile r) (br_profile_created r)"
    using apply_run[OF run(1) assms(2)] kept(1) by (simp add: run(3,4) bound_def linked_def)
  show "br_user_id r = gf_user_id flow" "br_provider_id r = xp_id provider" by (simp_all add: run(5,6))
qed

lemma find_active_Some:
  "find_active_by_state_hash now h d = Some flow \<Longrightarrow>
     flow \<in> set (rows (external_binding_flows d)) \<and> gf_state_hash flow = h \<and> binding_flow_live now flow"
  by (auto simp: find_active_by_state_hash_def dest: select_one_Some)

lemma consume_by_id_run:
  assumes "consume_by_id now i d = (Inr b, d')"
  shows "d' = d\<lparr>external_binding_flows := snd (update_many (\<lambda>f. gf_id f = i \<and> binding_flow_live now f)
       (\<lambda>f. f\<lparr>gf_consumed_at := Some now\<rparr>) (external_binding_flows d))\<rparr>"
  using assms by (auto simp: consume_by_id_def statement_Inr Let_def split_beta)

lemma bound_same:
  assumes "external_identities d1 = external_identities d" "minecraft_profiles d1 = minecraft_profiles d"
  shows "bound d1 d' u account p c = bound d d' u account p c"
  using assms by (simp add: bound_def linked_def)

lemma ext_wf_flows: "ext_wf (d\<lparr>external_binding_flows := t\<rparr>) = ext_wf d"
  using acct_wf_same[of "d\<lparr>external_binding_flows := t\<rparr>" d]
  by (simp add: ext_wf_def identities_wf_def flows_wf_def identity_refs_def account_tables_def)

section \<open>Sample\<close>

text \<open>A Microsoft provider whose endpoints are on this host, a binding by redirect and one by device code under way,
  and an official account without textures.\<close>

definition sample_minecraft :: minecraft_account where
  "sample_minecraft = \<lparr>ma_uuid = ''m1'', ma_name = ''Alex'', ma_xbox_user_hash = Some ''h'', ma_skin = None, ma_cape = None\<rparr>"

definition plain_binding :: binding_env where
  "plain_binding = \<lparr>bi_external = plain_external,
     bi_url = (\<lambda>_. Inr \<lparr>hu_scheme = ''http'', hu_host = Some ''localhost'', hu_port = None, hu_segments = None\<rparr>),
     bi_tenant = (\<lambda>_. Inr ''consumers''), bi_post_form = (\<lambda>_ _. Inr \<lparr>hp_status = 200, hp_body = ''form''\<rparr>),
     bi_post_json = (\<lambda>_ _. Inr \<lparr>hp_status = 200, hp_body = ''json''\<rparr>), bi_get = (\<lambda>_ _. Inr \<lparr>hp_status = 200, hp_body = ''get''\<rparr>),
     bi_device_code_json = Inl,
     bi_device_token_json = (\<lambda>_. Inr \<lparr>tj_access_token = Some ''ms'', tj_error = None, tj_error_description = None\<rparr>),
     bi_access_token_json = Inr, bi_xbox_json = (\<lambda>_. Inr \<lparr>xr_token = ''x'', xr_user_hashes = [None, Some ''h'']\<rparr>),
     bi_profile_json = (\<lambda>_. Inr \<lparr>mp_id = ''m1'', mp_name = ''Alex'', mp_skins = [], mp_capes = []\<rparr>),
     bi_uuid_simple = Some, bi_metadata = ma_name\<rparr>"

definition microsoft_provider :: external_provider where
  "microsoft_provider = github_provider\<lparr>xp_id := 2, xp_key := ''microsoft'', xp_provider_kind := KindMicrosoft,
     xp_token_url := Some ''http://localhost/token''\<rparr>"

definition sample_binding_flow :: "row_id \<Rightarrow> string \<Rightarrow> string option \<Rightarrow> external_binding_flow" where
  "sample_binding_flow i h verifier = \<lparr>gf_id = i, gf_user_id = 1, gf_provider_id = 2, gf_state_hash = h, gf_nonce = None,
     gf_pkce_verifier = verifier, gf_redirect_uri = ''https://skin.example/bind'', gf_return_path = None, gf_created_at = 0,
     gf_expires_at = 300000, gf_consumed_at = None\<rparr>"

definition binding_db :: db where
  "binding_db = external_db\<lparr>external_providers := \<lparr>rows = [github_provider, microsoft_provider], next_id = 3\<rparr>,
     external_binding_flows := \<lparr>rows = [sample_binding_flow 1 ''#state'' (Some ''v''), sample_binding_flow 2 ''#device'' None],
       next_id = 3\<rparr>\<rparr>"

definition binding_state :: "mem_cache wardrobe_state" where
  "binding_state = \<lparr>w_ygg = \<lparr>y_db = binding_db, y_cache = []\<rparr>, w_objects = []\<rparr>"

lemma binding_db_wf: "ext_wf binding_db"
proof -
  have "acct_wf binding_db = acct_wf external_db"
    by (rule acct_wf_same) (simp_all add: binding_db_def account_tables_def)
  then show ?thesis
    using external_db_wf by (simp add: ext_wf_def identities_wf_def flows_wf_def binding_db_def sample_tables)
qed

lemma plain_fields:
  "bi_external plain_binding = plain_external" "bi_metadata plain_binding = ma_name"
  "bi_post_form plain_binding url form = Inr \<lparr>hp_status = 200, hp_body = ''form''\<rparr>"
  "bi_post_json plain_binding url req = Inr \<lparr>hp_status = 200, hp_body = ''json''\<rparr>"
  "bi_get plain_binding url token = Inr \<lparr>hp_status = 200, hp_body = ''get''\<rparr>"
  "bi_device_token_json plain_binding body = Inr \<lparr>tj_access_token = Some ''ms'', tj_error = None, tj_error_description = None\<rparr>"
  "bi_access_token_json plain_binding = Inr" "bi_xbox_json plain_binding body = Inr \<lparr>xr_token = ''x'', xr_user_hashes = [None, Some ''h'']\<rparr>"
  "bi_profile_json plain_binding body = Inr \<lparr>mp_id = ''m1'', mp_name = ''Alex'', mp_skins = [], mp_capes = []\<rparr>"
  "bi_uuid_simple plain_binding = Some"
  by (simp_all add: plain_binding_def)

lemma sample_token_url: "microsoft_oauth_endpoints plain_binding microsoft_provider = Inr ''http://localhost/token''"
proof -
  have "trim ''http://localhost/token'' = ''http://localhost/token''" by code_simp
  then show ?thesis
    by (simp add: microsoft_oauth_endpoints_def trimmed_nonempty_def microsoft_provider_def github_provider_def)
qed

lemma sample_parse:
  "parse_http_url plain_binding value field = Inr \<lparr>hu_scheme = ''http'', hu_host = Some ''localhost'', hu_port = None, hu_segments = None\<rparr>"
  "is_loopback_url \<lparr>hu_scheme = ''http'', hu_host = Some ''localhost'', hu_port = None, hu_segments = None\<rparr>"
  by (simp add: parse_http_url_def plain_binding_def) code_simp

lemma sample_exchange_token:
  "exchange_microsoft_minecraft_account_with_token plain_binding microsoft_provider token = Inr sample_minecraft"
proof -
  have trim: "trim ''m1'' = ''m1''" by code_simp
  show ?thesis
    by (simp add: exchange_microsoft_minecraft_account_with_token_def result_bind_def sample_token_url minecraft_services_endpoints_def
        sample_parse authenticate_xbox_live_def authorize_xsts_def login_minecraft_with_xbox_def fetch_minecraft_profile_def
        normalize_minecraft_uuid_def send_or_def parse_json_response_def is_success_def xbox_token_def xbox_user_hash_def
        plain_fields trim sample_minecraft_def)
qed

lemma sample_exchange:
  "exchange_microsoft_minecraft_account plain_binding microsoft_provider code uri (Some v) = Inr sample_minecraft"
  by (simp add: exchange_microsoft_minecraft_account_def result_bind_def sample_token_url minecraft_services_endpoints_def sample_parse
      exchange_microsoft_code_for_token_def send_or_def parse_json_response_def is_success_def Let_def plain_fields sample_exchange_token)

lemma sample_poll:
  "microsoft_device_token_url plain_binding microsoft_provider = Inr ''http://localhost/token''"
  "poll_device_code_token plain_binding url i code = Inr (Authorized ''ms'')"
proof -
  have trim: "trim ''ms'' = ''ms''" by code_simp
  show "microsoft_device_token_url plain_binding microsoft_provider = Inr ''http://localhost/token''"
    by (simp add: microsoft_device_token_url_def loopback_or_def sample_token_url sample_parse)
  show "poll_device_code_token plain_binding url i code = Inr (Authorized ''ms'')"
    by (simp add: poll_device_code_token_def result_bind_def send_or_def plain_fields is_success_def trim)
qed

lemma sample_apply:
  assumes "users d = users binding_db" "external_identities d = external_identities binding_db"
    "external_providers d = external_providers binding_db" "minecraft_profiles d = minecraft_profiles binding_db"
    "user_bans d = user_bans binding_db"
  shows "\<exists>a. fst (apply_minecraft_binding plain_binding 1000 microsoft_provider 1 RoleUser sample_minecraft d) = Inr a"
proof -
  have tables: "users d = \<lparr>rows = [verified_user], next_id = 2\<rparr>" "external_identities d = \<lparr>rows = [], next_id = 1\<rparr>"
      "external_providers d = \<lparr>rows = [github_provider, microsoft_provider], next_id = 3\<rparr>"
      "minecraft_profiles d = \<lparr>rows = [], next_id = 1\<rparr>" "user_bans d = \<lparr>rows = [], next_id = 1\<rparr>"
    by (simp_all add: assms binding_db_def sample_tables)
      (simp_all add: external_db_def account_db_def signed_in_db_def sample_db_def empty_db_def empty_table_def)
  have name: "validate_profile_name ''Alex'' = Inr ()" "\<not> is_reserved_linuxdo_profile_name ''Alex''"
    and lower: "to_ascii_lowercase ''steve'' \<noteq> to_ascii_lowercase ''Alex''" by code_simp+
  let ?input = "\<lparr>cp_user_id = 1, cp_user_role = RoleUser, cp_uuid = ''m1'', cp_name = ''Alex'', cp_source = SourceMicrosoft,
      cp_allow_reserved_linuxdo_name = False, cp_check_mojang_name = False\<rparr>"
  have allowed: "creation_allowed plain_codec mojang sample_policy 1000 ?input d1"
    if "minecraft_profiles d1 = minecraft_profiles d" "user_bans d1 = user_bans d" "users d1 = users d" for d1 mojang
    using lower
    by (simp add: creation_allowed_def name that tables is_user_banned_def active_user_ban_for_scope_def find_effective_for_scope_def
        profile_name_taken_def find_by_name_def find_by_username_case_insensitive_def select_one_def count_by_user_def count_rows_def
        select_all_def order_by_desc_def sample_policy_def verified_user_def sample_user_def)
  have "\<exists>e d1. ensure_minecraft_identity (xa_forge plain_external) 1000 1 microsoft_provider sample_minecraft ''Alex'' d = (Inr (e, True), d1)
      \<and> minecraft_profiles d1 = minecraft_profiles d \<and> user_bans d1 = user_bans d \<and> users d1 = users d"
    by (simp add: ensure_minecraft_identity_def handler_eval find_by_identity_namespace_subject_def find_by_provider_for_user_def
        select_one_def tables create_identity_def insert_row_def identity_refs_def identity_free_def new_identity_def Let_def
        microsoft_provider_def verified_user_def sample_user_def)
  then obtain e d1 where id: "ensure_minecraft_identity (xa_forge plain_external) 1000 1 microsoft_provider sample_minecraft ''Alex'' d = (Inr (e, True), d1)"
      and same: "minecraft_profiles d1 = minecraft_profiles d" "user_bans d1 = user_bans d" "users d1 = users d" by blast
  have "xa_codec plain_external = plain_codec" "xa_ygg_policy plain_external = sample_policy" by (simp_all add: plain_external_def)
  then obtain p d2 where "create_profile_with_uuid_in_connection (xa_forge plain_external) (xa_codec plain_external)
      (xa_mojang plain_external) (xa_ygg_policy plain_external) 1000 1 RoleUser ''m1'' ''Alex'' SourceMicrosoft d1 = (Inr p, d2)"
    unfolding create_profile_with_uuid_in_connection_def create_inner_Inr using allowed[OF same] by auto
  then have "ensure_minecraft_profile plain_external 1000 1 RoleUser sample_minecraft d1 = (Inr (p, True), d2)"
    by (simp add: ensure_minecraft_profile_def handler_eval sample_minecraft_def find_by_uuid_def select_one_def same tables)
  then show ?thesis
    using id by (simp add: apply_minecraft_binding_def transaction_def bnd_def ret_def plain_fields) (simp add: sample_minecraft_def bnd_def ret_def)
qed

lemma sample_bind:
  assumes "users (w_db s) = users binding_db" "external_identities (w_db s) = external_identities binding_db"
    "external_providers (w_db s) = external_providers binding_db" "minecraft_profiles (w_db s) = minecraft_profiles binding_db"
    "user_bans (w_db s) = user_bans binding_db"
  shows "\<exists>r. fst (bind_account C S plain_binding 1000 (sample_binding_flow i h v) microsoft_provider sample_minecraft s) = Inr r"
proof -
  obtain a d1 where "apply_minecraft_binding plain_binding 1000 microsoft_provider 1 RoleUser sample_minecraft (w_db s) = (Inr a, d1)"
    using sample_apply[OF assms] by (metis prod.collapse)
  moreover have "find_user_by_id 1 (w_db s) = Inr verified_user" "u_role verified_user = RoleUser"
    by (simp_all add: find_user_by_id_def select_one_def assms(1) binding_db_def sample_tables verified_user_def sample_user_def)
  ultimately show ?thesis
    by (simp add: bind_account_def bnd_def aster_def on_ygg_def on_db_def query_def sample_binding_flow_def ret_def
        sync_official_minecraft_textures_def sync_official_texture_def)
qed

lemma binding_tables:
  "external_binding_flows binding_db
     = \<lparr>rows = [sample_binding_flow 1 ''#state'' (Some ''v''), sample_binding_flow 2 ''#device'' None], next_id = 3\<rparr>"
  "external_providers binding_db = \<lparr>rows = [github_provider, microsoft_provider], next_id = 3\<rparr>"
  by (simp_all add: binding_db_def)

lemma sample_provider: "external_providers d = external_providers binding_db \<Longrightarrow> find_provider_by_id 2 d = Inr microsoft_provider"
  by (simp add: find_provider_by_id_def select_one_def binding_tables microsoft_provider_def github_provider_def)

lemma sample_finish:
  "\<exists>r. fst (finish_minecraft_binding_callback mem_ops plain_storage plain_binding 1000 KindMicrosoft None sample_callback binding_state) = Inr r"
proof -
  let ?flow = "sample_binding_flow 1 ''#state'' (Some ''v'')"
  obtain d1 where consume: "consume_binding_by_state_hash 1000 ''#state'' binding_db = (Inr (Some ?flow), d1)"
      and same: "users d1 = users binding_db" "external_identities d1 = external_identities binding_db"
        "external_providers d1 = external_providers binding_db" "minecraft_profiles d1 = minecraft_profiles binding_db"
        "user_bans d1 = user_bans binding_db"
    by (simp add: consume_binding_by_state_hash_def handler_eval find_active_by_state_hash_def select_one_def binding_tables
        consume_by_id_def update_many_def count_rows_def binding_flow_live_def sample_binding_flow_def)
  have hash: "xa_state_hash plain_external ''state'' = ''#state''" by (simp add: plain_external_def)
  have ok: "binding_provider_ok plain_external KindMicrosoft None microsoft_provider = Inr ()"
    by (simp add: binding_provider_ok_def result_bind_def ensure_provider_enabled_def microsoft_provider_def github_provider_def)
  have flow: "gf_provider_id ?flow = 2" "gf_pkce_verifier ?flow = Some ''v''" by (simp_all add: sample_binding_flow_def)
  show ?thesis
    using sample_bind[of "binding_state\<lparr>w_ygg := (w_ygg binding_state)\<lparr>y_db := d1\<rparr>\<rparr>" mem_ops plain_storage] same
    by (simp add: finish_minecraft_binding_callback_def ensure_minecraft_binding_provider_kind_def sample_callback_def provider_error_def
        bnd_def check_def aster_def on_ygg_def on_db_def query_def plain_fields hash consume sample_provider ok sample_exchange flow
        binding_state_def)
qed

lemma sample_check:
  "\<exists>r. fst (check_device_code_status mem_ops plain_storage plain_binding 1000 1 ''device'' binding_state) = Inr (Some r)"
proof -
  let ?flow = "sample_binding_flow 2 ''#device'' None"
  obtain d1 where consume: "consume_by_id 1000 2 binding_db = (Inr True, d1)"
      and same: "users d1 = users binding_db" "external_identities d1 = external_identities binding_db"
        "external_providers d1 = external_providers binding_db" "minecraft_profiles d1 = minecraft_profiles binding_db"
        "user_bans d1 = user_bans binding_db"
    by (simp add: consume_by_id_def handler_eval binding_tables update_many_def count_rows_def binding_flow_live_def sample_binding_flow_def)
  have found: "find_active_by_state_hash 1000 ''#device'' binding_db = Some ?flow"
    by (simp add: find_active_by_state_hash_def select_one_def binding_tables binding_flow_live_def sample_binding_flow_def)
  have hash: "xa_state_hash plain_external ''device'' = ''#device''" by (simp add: plain_external_def)
  have flow: "gf_id ?flow = 2" "gf_provider_id ?flow = 2" "gf_user_id ?flow = 1" by (simp_all add: sample_binding_flow_def)
  have "\<exists>r. fst (bind_account mem_ops plain_storage plain_binding 1000 ?flow microsoft_provider sample_minecraft
      (binding_state\<lparr>w_ygg := (w_ygg binding_state)\<lparr>y_db := d1\<rparr>\<rparr>)) = Inr r"
    by (rule sample_bind) (simp_all add: same)
  then obtain r where "fst (bind_account mem_ops plain_storage plain_binding 1000 ?flow microsoft_provider sample_minecraft
      (binding_state\<lparr>w_ygg := (w_ygg binding_state)\<lparr>y_db := d1\<rparr>\<rparr>)) = Inr r" by blast
  from ran[OF this] obtain s' where "bind_account mem_ops plain_storage plain_binding 1000 ?flow microsoft_provider sample_minecraft
      (binding_state\<lparr>w_ygg := (w_ygg binding_state)\<lparr>y_db := d1\<rparr>\<rparr>) = (Inr r, s')" by blast
  then show ?thesis
    by (simp add: check_device_code_status_def bnd_def check_def aster_def on_ygg_def on_db_def query_def ret_def plain_fields hash found
        flow sample_provider sample_poll consume sample_exchange_token binding_state_def)
qed

section \<open>Properties\<close>

text \<open>C15. A binding callback ends only in the account of the user who started the flow: the flow is live, its
  provider is an enabled Microsoft provider, and the official account the provider named belongs to that user
  afterwards, as identity and as profile, and to nobody else before.\<close>

theorem minecraft_binding_exclusive:
  assumes "finish_minecraft_binding_callback C S B now kind key q s = (Inr r, s')" and "ext_wf (w_db s)"
  shows "\<exists>code state flow provider account. cq_error q = None \<and> cq_code q = Some code \<and> cq_state q = Some state
    \<and> flow \<in> set (rows (external_binding_flows (w_db s))) \<and> gf_state_hash flow = xa_state_hash (bi_external B) state
    \<and> gf_consumed_at flow = None \<and> now < gf_expires_at flow
    \<and> provider \<in> set (rows (external_providers (w_db s))) \<and> xp_id provider = gf_provider_id flow
    \<and> xp_provider_kind provider = KindMicrosoft \<and> xp_enabled provider
    \<and> exchange_microsoft_minecraft_account B provider code (gf_redirect_uri flow) (gf_pkce_verifier flow) = Inr account
    \<and> br_user_id r = gf_user_id flow
    \<and> bound (w_db s) (w_db s') (gf_user_id flow) account (br_profile r) (br_profile_created r)"
proof -
  have e: "provider_error q = None"
    using assms(1) by (cases "provider_error q") (auto simp: finish_minecraft_binding_callback_def bnd_Inr check_eq)
  obtain x code state flow provider y account d1 where run: "ensure_minecraft_binding_provider_kind kind = Inr x"
      "cq_code q = Some code" "cq_state q = Some state"
      "consume_binding_by_state_hash now (xa_state_hash (bi_external B) state) (w_db s) = (Inr (Some flow), d1)"
      "find_provider_by_id (gf_provider_id flow) d1 = Inr provider" "binding_provider_ok (bi_external B) kind key provider = Inr y"
      "exchange_microsoft_minecraft_account B provider code (gf_redirect_uri flow) (gf_pkce_verifier flow) = Inr account"
      "bind_account C S B now flow provider account (s\<lparr>w_ygg := (w_ygg s)\<lparr>y_db := d1\<rparr>\<rparr>) = (Inr r, s')"
    using assms(1) unfolding finish_minecraft_binding_callback_def e
    by (auto simp: bnd_Inr check_eq aster_Inr query_eq case_option_Inr)
  have found: "find_active_by_state_hash now (xa_state_hash (bi_external B) state) (w_db s) = Some flow"
    and consumed: "\<exists>b. consume_by_id now (gf_id flow) (w_db s) = (Inr b, d1)"
    using run(4) by (auto simp: consume_binding_by_state_hash_def bnd_Inr query_eq ret_eq split: option.splits if_splits)
  then obtain t where d1: "d1 = (w_db s)\<lparr>external_binding_flows := t\<rparr>" using consume_by_id_run by blast
  have "ext_wf d1" using assms(2) by (simp add: d1 ext_wf_flows)
  then have "bound d1 (w_db s') (gf_user_id flow) account (br_profile r) (br_profile_created r)" "br_user_id r = gf_user_id flow"
    using bind_account_run[OF run(8)] by simp_all
  then have b: "bound (w_db s) (w_db s') (gf_user_id flow) account (br_profile r) (br_profile_created r)" "br_user_id r = gf_user_id flow"
    using bound_same[of d1 "w_db s"] by (simp_all add: d1)
  have "kind = KindMicrosoft" using run(1) by (simp add: ensure_minecraft_binding_provider_kind_def split: if_splits)
  moreover have "xp_provider_kind provider = kind" "xp_enabled provider"
    using run(6) by (auto simp: binding_provider_ok_def result_bind_def ensure_provider_enabled_def split: if_splits sum.splits)
  moreover have "cq_error q = None" using e by (simp add: provider_error_def)
  ultimately show ?thesis
    using b run(2,3,7) find_active_Some[OF found] find_provider_Inr[OF run(5)] unfolding binding_flow_live_def
    by (simp add: d1) blast
qed

theorem minecraft_binding_exclusive_witness:
  "\<exists>r s'. finish_minecraft_binding_callback mem_ops plain_storage plain_binding 1000 KindMicrosoft None sample_callback binding_state
      = (Inr r, s') \<and> br_user_id r = 1 \<and> (\<exists>account. bound binding_db (w_db s') 1 account (br_profile r) (br_profile_created r))"
proof -
  obtain r where r: "fst (finish_minecraft_binding_callback mem_ops plain_storage plain_binding 1000 KindMicrosoft None sample_callback binding_state) = Inr r"
    using sample_finish by blast
  have "w_db binding_state = binding_db" by (simp add: binding_state_def)
  then obtain flow account where "flow \<in> set (rows (external_binding_flows binding_db))" "br_user_id r = gf_user_id flow"
      "bound binding_db (w_db (snd (finish_minecraft_binding_callback mem_ops plain_storage plain_binding 1000 KindMicrosoft None
          sample_callback binding_state))) (gf_user_id flow) account (br_profile r) (br_profile_created r)"
    using minecraft_binding_exclusive[OF ran[OF r]] binding_db_wf by auto
  moreover from this(1) have "gf_user_id flow = 1" by (auto simp: binding_tables sample_binding_flow_def)
  ultimately show ?thesis using ran[OF r] by (intro exI conjI) simp_all
qed

text \<open>A device code is answered only to the user who started its flow, once, and binds the official account as
  a callback does.\<close>

theorem device_code_binding_exclusive:
  assumes "check_device_code_status C S B now u code s = (Inr (Some r), s')" and "ext_wf (w_db s)"
  shows "\<exists>flow provider token account. flow \<in> set (rows (external_binding_flows (w_db s)))
    \<and> gf_state_hash flow = xa_state_hash (bi_external B) code \<and> gf_user_id flow = u
    \<and> gf_consumed_at flow = None \<and> now < gf_expires_at flow
    \<and> provider \<in> set (rows (external_providers (w_db s))) \<and> xp_id provider = gf_provider_id flow
    \<and> exchange_microsoft_minecraft_account_with_token B provider token = Inr account
    \<and> br_user_id r = u \<and> bound (w_db s) (w_db s') u account (br_profile r) (br_profile_created r)"
proof -
  obtain flow where found: "find_active_by_state_hash now (xa_state_hash (bi_external B) code) (w_db s) = Some flow"
    using assms(1) by (auto simp: check_device_code_status_def bnd_Inr aster_Inr query_eq ret_eq split: option.splits)
  obtain provider token_url status where poll: "gf_user_id flow = u" "find_provider_by_id (gf_provider_id flow) (w_db s) = Inr provider"
      "(case status of
           PollPending \<Rightarrow> ret None
         | SlowDown \<Rightarrow> ret None
         | PollExpired \<Rightarrow>
             bnd (aster (consume_by_id now (gf_id flow))) (\<lambda>_. raise (AuthInvalidCredentials ''Microsoft device code has expired''))
         | Authorized token \<Rightarrow>
             bnd (aster (consume_by_id now (gf_id flow))) (\<lambda>consumed.
             if \<not> consumed then ret None else
             bnd (check (exchange_microsoft_minecraft_account_with_token B provider token)) (\<lambda>account.
             bnd (bind_account C S B now flow provider account) (\<lambda>r. ret (Some r))))) s = (Inr (Some r), s')"
    using assms(1) found unfolding check_device_code_status_def
    by (auto simp: bnd_Inr aster_Inr query_eq check_eq if_raise_Inr simp del: not_None_eq)
  obtain token account d1 where run: "status = Authorized token" "consume_by_id now (gf_id flow) (w_db s) = (Inr True, d1)"
      "exchange_microsoft_minecraft_account_with_token B provider token = Inr account"
      "bind_account C S B now flow provider account (s\<lparr>w_ygg := (w_ygg s)\<lparr>y_db := d1\<rparr>\<rparr>) = (Inr r, s')"
    using poll(3) by (cases status) (auto simp: bnd_Inr aster_Inr ret_eq raise_eq check_eq split: if_splits)
  obtain t where d1: "d1 = (w_db s)\<lparr>external_binding_flows := t\<rparr>" using consume_by_id_run[OF run(2)] by blast
  have "ext_wf d1" using assms(2) by (simp add: d1 ext_wf_flows)
  then have "bound d1 (w_db s') (gf_user_id flow) account (br_profile r) (br_profile_created r)" "br_user_id r = gf_user_id flow"
    using bind_account_run[OF run(4)] by simp_all
  then have "bound (w_db s) (w_db s') u account (br_profile r) (br_profile_created r)" "br_user_id r = u"
    using bound_same[of d1 "w_db s"] poll(1) by (simp_all add: d1)
  then show ?thesis
    using run(3) find_active_Some[OF found] find_provider_Inr[OF poll(2)] poll(1) unfolding binding_flow_live_def by blast
qed

theorem device_code_binding_exclusive_witness:
  "\<exists>r s'. check_device_code_status mem_ops plain_storage plain_binding 1000 1 ''device'' binding_state = (Inr (Some r), s')
     \<and> br_user_id r = 1 \<and> (\<exists>account. bound binding_db (w_db s') 1 account (br_profile r) (br_profile_created r))"
proof -
  obtain r where r: "fst (check_device_code_status mem_ops plain_storage plain_binding 1000 1 ''device'' binding_state) = Inr (Some r)"
    using sample_check by blast
  have "w_db binding_state = binding_db" by (simp add: binding_state_def)
  then show ?thesis
    using device_code_binding_exclusive[OF ran[OF r]] ran[OF r] binding_db_wf by auto
qed

text \<open>Binding keeps the accounts, sessions, identities and flows well-formed, in particular one user per official
  account, and removes no identity.\<close>

theorem binding_keeps_identities:
  assumes "ext_wf (w_db s)"
    and "s' = snd (finish_minecraft_binding_callback C S B now kind key q s) \<or> s' = snd (check_device_code_status C S B now u code s)"
  shows "ext_wf (w_db s') \<and> (linked ns sub (w_db s) v \<longrightarrow> linked ns sub (w_db s') v)"
proof -
  have "site_safe {} {} {} {} {} s s'" using assms(2) by (elim disjE) (simp_all add: ss_finish_binding ss_check_device)
  then show ?thesis using ext_safeD(1,5) assms(1) unfolding site_safe_def by blast
qed

theorem binding_keeps_identities_witness:
  "ext_wf (w_db (snd (check_device_code_status mem_ops plain_storage plain_binding 1000 1 ''device'' binding_state)))"
proof -
  have "ext_wf (w_db binding_state)" using binding_db_wf by (simp add: binding_state_def)
  then show ?thesis using binding_keeps_identities[of binding_state] by blast
qed

text \<open>An official Minecraft account can never be unlinked, whatever the options of its provider say.\<close>

theorem minecraft_identity_never_unlinked:
  assumes "ext_wf d" and "linked minecraft_identity_namespace uuid d v"
  shows "linked minecraft_identity_namespace uuid (snd (delete_link X u i d)) v"
proof -
  have "find_identity_for_user i u d = Some e \<Longrightarrow> ei_identity_namespace e = minecraft_identity_namespace \<Longrightarrow>
      snd (delete_link X u i d) = d" for e
    by (auto simp: delete_link_def bnd_def query_def raise_def external_auth_identity_can_unlink_def split: sum.split)
  moreover have "find_identity_for_user i u d = None \<Longrightarrow> snd (delete_link X u i d) = d"
    by (simp add: delete_link_def bnd_def query_def ret_def)
  moreover have "linked minecraft_identity_namespace uuid (snd (delete_link X u i d)) v"
    if "find_identity_for_user i u d = Some e" "ei_identity_namespace e \<noteq> minecraft_identity_namespace" for e
  proof -
    have "ext_safe {} {} {} {} {(ei_identity_namespace e, ei_subject e)} d (snd (delete_link X u i d))"
      by (rule ext_delete_link[OF _ assms(1)]) (use that(1) in simp)
    then show ?thesis using ext_safeD(5) assms(2) that(2) by fastforce
  qed
  ultimately show ?thesis using assms(2) by (metis not_None_eq)
qed

definition official_db :: db where
  "official_db = known_db\<lparr>external_identities := \<lparr>rows = [known_identity\<lparr>ei_identity_namespace := minecraft_identity_namespace\<rparr>], next_id = 2\<rparr>\<rparr>"

theorem minecraft_identity_never_unlinked_witness:
  "linked minecraft_identity_namespace ''42'' (snd (delete_link plain_external 1 1 official_db)) 1"
proof -
  have "acct_wf official_db = acct_wf known_db" by (rule acct_wf_same) (simp_all add: official_db_def account_tables_def)
  then have "ext_wf official_db"
    using known_db_wf by (simp add: ext_wf_def identities_wf_def flows_wf_def keys_ok_def official_db_def known_db_def known_identity_def identity_refs_def)
  moreover have "linked minecraft_identity_namespace ''42'' official_db 1"
    by (simp add: linked_def official_db_def known_identity_def)
  ultimately show ?thesis by (rule minecraft_identity_never_unlinked)
qed

end
