(* ===== verification/Admin_Properties.thy ===== *)
theory Admin_Properties
  imports Admin_Users Binding_Properties
begin

text \<open>
  Properties of user administration and of avatars: generated passwords, what an update changes, the super
  administrator, deletions, and the uploaded avatar.
\<close>

section \<open>Generated passwords\<close>

lemma swap_mset: "i < length xs \<Longrightarrow> j < length xs \<Longrightarrow> mset (swap i j xs) = mset xs"
  unfolding swap_def by (rule mset_swap)

lemma shuffle_mset:
  assumes "\<forall>i n. 0 < n \<longrightarrow> draw i n < n" and "\<forall>i \<in> set is. i < length xs"
  shows "mset (fold (\<lambda>i xs. swap i (draw (f i) (i + 1)) xs) is xs) = mset xs"
  using assms(2)
proof (induction "is" arbitrary: xs)
  case (Cons i "is")
  have "draw (f i) (i + 1) < i + 1" by (rule assms(1)[rule_format]) simp
  then have "draw (f i) (i + 1) < length xs" using Cons.prems by simp
  then have "mset (swap i (draw (f i) (i + 1)) xs) = mset xs" using Cons.prems by (intro swap_mset) simp_all
  moreover have "length (swap i (draw (f i) (i + 1)) xs) = length xs" by (simp add: swap_def)
  ultimately show ?case using Cons.IH[of "swap i (draw (f i) (i + 1)) xs"] Cons.prems by simp
qed simp

lemma pick_in: "\<forall>i n. 0 < n \<longrightarrow> draw i n < n \<Longrightarrow> cs \<noteq> [] \<Longrightarrow> pick draw i cs \<in> set cs"
  by (simp add: pick_def)

text \<open>Whatever the random numbers, a generated password has 24 characters, is acceptable, and has an upper-case
  letter, a lower-case letter, a digit and a symbol.\<close>

theorem temporary_password_acceptable:
  assumes "\<forall>i n. 0 < n \<longrightarrow> draw i n < n"
  shows "length (generate_temporary_password draw) = 24 \<and> validate_password (generate_temporary_password draw) = Inr ()
    \<and> (\<forall>cs \<in> {password_uppercase, password_lowercase, password_digits, password_symbols}.
         \<exists>c \<in> set (generate_temporary_password draw). c \<in> set cs)"
proof -
  let ?bytes = "[pick draw 0 password_uppercase, pick draw 1 password_lowercase, pick draw 2 password_digits,
      pick draw 3 password_symbols] @ map (\<lambda>i. pick draw i password_charset) [4..<24]"
  let ?pw = "generate_temporary_password draw"
  have "mset ?pw = mset ?bytes"
    unfolding generate_temporary_password_def Let_def
    using shuffle_mset[OF assms, of "rev [1..<24]" ?bytes "\<lambda>i. 47 - i"] by simp
  then have same: "set ?pw = set ?bytes" "length ?pw = length ?bytes" by (metis set_mset_mset, metis size_mset)
  have ne: "password_uppercase \<noteq> []" "password_lowercase \<noteq> []" "password_digits \<noteq> []" "password_symbols \<noteq> []"
    by (simp_all add: password_uppercase_def password_lowercase_def password_digits_def password_symbols_def)
  have "length ?pw = 24" using same(2) by simp
  moreover from this have "validate_password ?pw = Inr ()" by (simp add: validate_password_def)
  moreover have "\<exists>c \<in> set ?pw. c \<in> set cs"
    if "cs \<in> {password_uppercase, password_lowercase, password_digits, password_symbols}" for cs
    using that pick_in[OF assms ne(1), of 0] pick_in[OF assms ne(2), of 1] pick_in[OF assms ne(3), of 2] pick_in[OF assms ne(4), of 3]
    unfolding same(1) by auto
  ultimately show ?thesis by blast
qed

theorem temporary_password_acceptable_witness:
  "length (generate_temporary_password (\<lambda>i n. i mod n)) = 24"
proof -
  have "\<forall>i n :: nat. 0 < n \<longrightarrow> i mod n < n" by simp
  from temporary_password_acceptable[OF this] show ?thesis by blast
qed

section \<open>What deleting profiles and textures leaves alone\<close>

lemma part_delete_worn: "keeps identity_part d (snd (delete_for_profile i ty d))"
  unfolding delete_for_profile_def
  by (intro kept.rules) (simp add: keeps_def identity_part_def account_tables_def ext_tables_def modify_def delete_binding_row_def)

lemma sk_delete_worn: "site_kept s (snd (delete_worn_loop C S i ws s))"
proof (induction ws arbitrary: s)
  case (Cons w ws)
  then show ?case by (simp only: delete_worn_loop.simps) (intro sk.rules sk_tex part_delete_worn sk_cleanup_asset sk_caches)
qed (simp add: sk.reads)

lemma sk_delete_all: "site_kept s (snd (delete_all_textures_for_profile C F S now p s))"
  unfolding delete_all_textures_for_profile_def by (intro sk.rules sk_read sk_delete_worn sk_caches)

lemma sk_for_each: "(\<And>x s. site_kept s (snd (f x s))) \<Longrightarrow> site_kept s (snd (for_each f xs s))"
  by (induction xs arbitrary: s) (simp_all add: sk.reads sk.bnd)

lemma sk_delete_wardrobe: "site_kept s (snd (delete_wardrobe_texture_unchecked C F S now u i s))"
  unfolding delete_wardrobe_texture_unchecked_def invalidate_profile_texture_caches_for_bindings_def
  by (intro sk.rules sk_read sk_tex part_kept sk_objects sk_for_each sk_caches)

lemma sk_delete_wardrobe_loop: "site_kept s (snd (delete_wardrobe_loop C F S now u xs s))"
proof (induction xs arbitrary: s)
  case (Cons x xs)
  obtain r s1 where run: "delete_wardrobe_texture_unchecked C F S now u (x_id x) s = (r, s1)" by force
  have first: "site_kept s s1" using sk_delete_wardrobe[of s C F S now u "x_id x"] run by simp
  have "site_kept s1 (snd (bnd (delete_wardrobe_loop C F S now u xs) (\<lambda>ys. ret (y # ys)) s1))" for y
    by (intro sk.bnd Cons.IH sk.reads)
  then show ?case using sk.trans[OF first Cons.IH] sk.trans[OF first] first by (cases r) (simp_all add: run)
qed (simp add: sk.refl)

lemma sk_delete_all_wardrobe: "site_kept s (snd (delete_all_wardrobe_textures_for_user C F S now u s))"
  unfolding delete_all_wardrobe_textures_for_user_def by (intro sk.rules sk_read sk_delete_wardrobe_loop)

section \<open>Official profiles survive\<close>

definition official :: "row_id \<Rightarrow> string \<Rightarrow> row_id \<Rightarrow> db \<Rightarrow> bool" where
  "official u uuid k d =
     (distinct (map p_id (rows (minecraft_profiles d))) \<and> distinct (map p_uuid (rows (minecraft_profiles d)))
      \<and> (\<exists>p \<in> set (rows (minecraft_profiles d)). p_id p = k \<and> p_user_id p = u \<and> p_uuid p = uuid \<and> p_source p = SourceMicrosoft))"

lemma official_key:
  "official u uuid k d \<longleftrightarrow>
     distinct (map fst (map profile_key (rows (minecraft_profiles d))))
     \<and> distinct (map (fst \<circ> snd \<circ> snd) (map profile_key (rows (minecraft_profiles d))))
     \<and> (\<exists>name. (k, u, uuid, name, SourceMicrosoft) \<in> set (map profile_key (rows (minecraft_profiles d))))"
proof -
  let ?ps = "rows (minecraft_profiles d)"
  have "map fst (map profile_key ?ps) = map p_id ?ps" "map (fst \<circ> snd \<circ> snd) (map profile_key ?ps) = map p_uuid ?ps"
    by (simp_all add: profile_key_def)
  moreover have "(\<exists>name. (k, u, uuid, name, SourceMicrosoft) \<in> set (map profile_key ?ps)) \<longleftrightarrow>
      (\<exists>p \<in> set ?ps. p_id p = k \<and> p_user_id p = u \<and> p_uuid p = uuid \<and> p_source p = SourceMicrosoft)"
    by (auto simp: profile_key_def image_iff) metis
  ultimately show ?thesis unfolding official_def by presburger
qed

definition keeps_official :: "row_id \<Rightarrow> string \<Rightarrow> row_id \<Rightarrow> 'c wardrobe_state \<Rightarrow> 'c wardrobe_state \<Rightarrow> bool" where
  "keeps_official u uuid k s s' =
     (users (w_db s') = users (w_db s) \<and> (official u uuid k (w_db s) \<longrightarrow> official u uuid k (w_db s')))"

interpretation ko: state_order "keeps_official u uuid k" for u uuid k
  by unfold_locales (auto simp: keeps_official_def)

lemma ko_site: "site_kept s s' \<Longrightarrow> keeps_official u uuid k s s'"
  by (auto simp: site_kept_def keeps_def identity_part_def keeps_official_def official_key)

lemma ko_ygg:
  "keeps_official u uuid k s (snd (on_ygg (invalidate_token_cache_for_selected_profile C i) s))"
  "keeps_official u uuid k s (snd (on_ygg (invalidate_token_cache_for_user C i) s))"
  "keeps_official u uuid k s (snd (on_ygg (invalidate_token_cache_hashes C hs) s))"
  by (simp_all add: keeps_official_def on_ygg_def invalidate_token_cache_for_selected_profile_def invalidate_token_cache_for_user_def
      invalidate_token_cache_hashes_def bnd_def query_def on_cache_def ret_def)

lemma ko_aster:
  "(\<And>d. users (snd (m d)) = users d) \<Longrightarrow> (\<And>d. minecraft_profiles (snd (m d)) = minecraft_profiles d) \<Longrightarrow>
     keeps_official u uuid k s (snd (aster m s))"
  by (simp add: keeps_official_def aster_def on_ygg_def on_db_def split_beta official_def)

lemma ko_tokens: "keeps_official u uuid k s (snd (aster (on_tokens m) s))"
  by (rule ko_aster) (simp_all add: on_tokens_def split_beta)

lemma ko_query: "keeps_official u uuid k s (snd (aster (query f) s))"
  by (rule ko_aster) (simp_all add: query_def)

lemma ko_internal: "keeps_official u uuid k s (snd (m s)) \<Longrightarrow> keeps_official u uuid k s (snd (texture_as_internal m s))"
  by (simp add: texture_as_internal_def)

lemma ko_delete_row:
  assumes "j \<noteq> k" shows "keeps_official u uuid k s (snd (aster (profile_delete_by_id j) s))"
proof -
  have "official u uuid k d \<Longrightarrow> official u uuid k (cascade_profiles (\<lambda>x. x = j) d)" for d
    using assms by (auto simp: official_def cascade_profiles_def delete_rows_def delete_many_def distinct_map_filter)
  then show ?thesis
    by (auto simp: keeps_official_def aster_def on_ygg_def on_db_def split_beta profile_delete_by_id_def bnd_def query_def ret_def
        modify_def cascade_profiles_def split: option.splits)
qed

lemma ko_avatar: "keeps_official u uuid k s (snd (delete_uploaded_avatar_for_user S i s))"
proof -
  have "keeps_official u uuid k s (snd (delete_previous_upload S p s))" for p s
    by (auto simp: delete_previous_upload_def keeps_official_def split: option.split)
  then show ?thesis unfolding delete_uploaded_avatar_for_user_def by (intro ko.bnd ko_query)
qed

lemma find_official:
  assumes "official u uuid k d" and "find_by_uuid_for_user uuid' v d = Some p"
  shows "uuid' = uuid \<Longrightarrow> p_source p = SourceMicrosoft" "p_source p \<noteq> SourceMicrosoft \<Longrightarrow> p_id p \<noteq> k"
proof -
  obtain q where q: "q \<in> set (rows (minecraft_profiles d))" "p_id q = k" "p_user_id q = u" "p_uuid q = uuid"
      "p_source q = SourceMicrosoft" using assms(1) by (auto simp: official_def)
  have p: "p \<in> set (rows (minecraft_profiles d))" "p_uuid p = uuid'"
    using assms(2) by (auto simp: find_by_uuid_for_user_def dest: select_one_Some)
  have ids: "distinct (map p_id (rows (minecraft_profiles d)))" "distinct (map p_uuid (rows (minecraft_profiles d)))"
    using assms(1) by (simp_all add: official_def)
  show "p_source p = SourceMicrosoft" if "uuid' = uuid"
    using inj_onD[OF conjunct2[OF ids(2)[unfolded distinct_map]] _ p(1) q(1)] that p(2) q by simp
  show "p_id p \<noteq> k" if "p_source p \<noteq> SourceMicrosoft"
    using inj_onD[OF conjunct2[OF ids(1)[unfolded distinct_map]] _ p(1) q(1)] that q by auto
qed


lemma ko_delete_profile_other:
  assumes "\<And>p. find_by_uuid_for_user uuid' v (w_db s) = Some p \<Longrightarrow> p_source p \<noteq> SourceMicrosoft \<Longrightarrow> p_id p \<noteq> k"
  shows "keeps_official u uuid k s (snd (delete_profile_for_user C F S J now v uuid' s))"
  unfolding delete_profile_for_user_def
proof (rule ko.bnd_run[OF ko_query], rule ko.bnd_run[OF ko_query])
  fix x s1 found s2
  assume "aster (query (ensure_user_not_banned J now v MinecraftProfileManage)) s = (Inr x, s1)"
    and "aster (query (\<lambda>d. Inr (find_by_uuid_for_user uuid' v d))) s1 = (Inr found, s2)"
  then have "s2 = s" "found = find_by_uuid_for_user uuid' v (w_db s)" by (simp_all add: aster_query_Inr)
  then show "keeps_official u uuid k s2 (snd ((case found of
       None \<Rightarrow> ret None
     | Some profile \<Rightarrow>
         if p_source profile = SourceMicrosoft
         then raise (auth_forbidden_code ''MinecraftProfileDeleteForbidden''
                ''official Minecraft profile cannot be deleted on this site'') else
         bnd (on_ygg (invalidate_token_cache_for_selected_profile C (p_id profile))) (\<lambda>_.
         bnd (texture_as_internal (delete_all_textures_for_profile C F S now profile)) (\<lambda>deleted_textures.
         bnd (aster (on_tokens (revoke_all_for_selected_profile now (p_id profile)))) (\<lambda>revoked.
         bnd (aster (profile_delete_by_id (p_id profile))) (\<lambda>deleted.
         ret (Some \<lparr>dr_profile = (case deleted of None \<Rightarrow> profile | Some p \<Rightarrow> p),
                dr_deleted_texture_count = length deleted_textures, dr_revoked_token_count = revoked\<rparr>)))))) s2))"
    using assms
    by (intro ko.optional ko.branch ko.bnd ko.reads ko_ygg ko_internal ko_site[OF sk_delete_all] ko_tokens ko_delete_row) auto
qed

lemma ko_delete_profile: "keeps_official u uuid k s (snd (delete_profile_for_user C F S J now v uuid' s))"
proof (cases "official u uuid k (w_db s)")
  case True
  show ?thesis by (rule ko_delete_profile_other) (rule find_official(2)[OF True])
next
  case False
  define k' where "k' = (case find_by_uuid_for_user uuid' v (w_db s) of None \<Rightarrow> 0 | Some p \<Rightarrow> p_id p + 1)"
  have "keeps_official u uuid k' s (snd (delete_profile_for_user C F S J now v uuid' s))"
    by (rule ko_delete_profile_other) (simp add: k'_def)
  then show ?thesis using False by (simp add: keeps_official_def)
qed

lemma delete_official_refused:
  assumes "official u uuid k (w_db s)" shows "\<exists>e. fst (delete_profile_for_user C F S J now u uuid s) = Inl e"
proof -
  have "find_by_uuid_for_user uuid u (w_db s) \<noteq> None"
    using assms by (auto simp: official_def find_by_uuid_for_user_def select_one_None simp del: not_None_eq)
  then obtain p where p: "find_by_uuid_for_user uuid u (w_db s) = Some p" by blast
  then have "p_source p = SourceMicrosoft" using find_official(1)[OF assms p] by simp
  then show ?thesis
    using p by (cases "ensure_user_not_banned J now u MinecraftProfileManage (w_db s)")
      (simp_all add: delete_profile_for_user_def bnd_def aster_def on_ygg_def on_db_def query_def raise_def)
qed

lemma delete_profiles_official:
  "keeps_official u uuid k s (snd (delete_profiles_loop C F S J now v ps counts s))"
  "official u uuid k (w_db s) \<Longrightarrow> uuid \<in> p_uuid ` set ps \<Longrightarrow>
     \<exists>e. fst (delete_profiles_loop C F S J now u ps counts s) = Inl e"
proof -
  show "keeps_official u uuid k s (snd (delete_profiles_loop C F S J now v ps counts s))"
    by (induction ps arbitrary: s counts) (simp_all add: ko.reads ko.bnd[OF ko_delete_profile])
  show "\<exists>e. fst (delete_profiles_loop C F S J now u ps counts s) = Inl e"
    if "official u uuid k (w_db s)" "uuid \<in> p_uuid ` set ps"
    using that
  proof (induction ps arbitrary: s counts)
    case (Cons p ps)
    obtain r s1 where run: "delete_profile_for_user C F S J now u (p_uuid p) s = (r, s1)" by force
    have "official u uuid k (w_db s1)"
      using ko_delete_profile[of u uuid k s C F S J now u "p_uuid p"] run Cons.prems(1) by (simp add: keeps_official_def)
    note IH = Cons.IH[OF this]
    show ?case
    proof (cases r)
      case (Inr b)
      then have "uuid \<noteq> p_uuid p" using delete_official_refused[OF Cons.prems(1), of C F S J now] run by auto
      then have "uuid \<in> p_uuid ` set ps" using Cons.prems(2) by auto
      then show ?thesis using IH by (simp add: bnd_def run Inr)
    qed (simp add: bnd_def run)
  qed simp
qed

section \<open>Deleting users\<close>

text \<open>A run that fails and leaves an official profile.\<close>

definition stuck :: "row_id \<Rightarrow> string \<Rightarrow> row_id \<Rightarrow> 'c wardrobe_state \<Rightarrow> 'a result \<times> 'c wardrobe_state \<Rightarrow> bool" where
  "stuck u uuid k s r = ((\<exists>e. fst r = Inl e) \<and> keeps_official u uuid k s (snd r))"

lemma stuck_bnd:
  assumes "keeps_official u uuid k s (snd (m s))" and "official u uuid k (w_db s)"
    and "\<And>x s1. m s = (Inr x, s1) \<Longrightarrow> official u uuid k (w_db s1) \<Longrightarrow> stuck u uuid k s1 (f x s1)"
  shows "stuck u uuid k s (bnd m f s)"
proof (cases "m s")
  case (Pair r s1)
  have "official u uuid k (w_db s1)" using assms(1,2) Pair by (simp add: keeps_official_def)
  then show ?thesis
    using assms(1,3) Pair by (cases r) (auto simp: bnd_def stuck_def intro: ko.trans)
qed

lemma stuck_profiles:
  assumes "official u uuid k (w_db s)"
  shows "stuck u uuid k s (bnd (delete_profiles_loop C F S J now u (list_by_user u (w_db s)) (0, 0)) f s)"
proof -
  have "uuid \<in> p_uuid ` set (list_by_user u (w_db s))"
    using assms by (auto simp: official_def list_by_user_def select_all_def order_by_asc_def)
  then obtain e s2 where "delete_profiles_loop C F S J now u (list_by_user u (w_db s)) (0, 0) s = (Inl e, s2)"
    using delete_profiles_official(2)[OF assms, of _ C F S J now "(0, 0)"] by (metis prod.collapse)
  then show ?thesis
    using delete_profiles_official(1)[of u uuid k s C F S J now u "list_by_user u (w_db s)" "(0, 0)"]
    by (simp add: bnd_def stuck_def)
qed

text \<open>C37. A user who bound an official Minecraft account cannot be deleted by an administrator: the deletion is
  refused at the official profile, after the avatar and the profiles before it are gone, and the account and the
  official profile stay.\<close>

theorem official_account_cannot_be_deleted:
  assumes "official u uuid k (w_db s)" and "find_user_by_id u (w_db s) = Inr v"
    and "admin_delete_user C F S J gravatar now u s = (r, s')"
  shows "(\<exists>e. r = Inl e) \<and> find_user_by_id u (w_db s') = Inr v \<and> official u uuid k (w_db s')"
proof -
  have "stuck u uuid k s (admin_delete_user C F S J gravatar now u s)"
  proof (cases "u = super_admin_user_id")
    case True
    then show ?thesis by (simp add: admin_delete_user_def raise_def stuck_def ko.refl)
  next
    case False
    have reads: "keeps_official u uuid k t (snd (aster (get_admin_user gravatar now u) t))" for t
      by (rule ko_aster) (simp_all add: get_admin_user_def hydrate_one_def bnd_def query_def split: sum.splits)
    show ?thesis
      unfolding admin_delete_user_def
      using False assms(1)
      by (simp only: if_False)
        (rule stuck_bnd[OF reads], assumption, rule stuck_bnd[OF ko.reads(2)], assumption, rule stuck_bnd[OF ko_avatar], assumption,
         rule stuck_bnd[OF ko_query], assumption, auto simp: aster_query_Inr intro: stuck_profiles)
  qed
  then show ?thesis using assms by (auto simp: stuck_def keeps_official_def find_user_by_id_def)
qed

section \<open>The super administrator\<close>

definition super_admin_db :: "db \<Rightarrow> db \<Rightarrow> bool" where
  "super_admin_db d d' =
     (\<forall>u. find_user_by_id super_admin_user_id d = Inr u \<longrightarrow>
        (\<exists>v. find_user_by_id super_admin_user_id d' = Inr v \<and> u_role v = u_role u \<and> u_status v = u_status u))"

definition super_admin_stays :: "'c wardrobe_state \<Rightarrow> 'c wardrobe_state \<Rightarrow> bool" where
  "super_admin_stays s s' = super_admin_db (w_db s) (w_db s')"

interpretation sad: state_order super_admin_db
  by unfold_locales (simp add: super_admin_db_def, unfold super_admin_db_def, metis)

interpretation sas: state_order super_admin_stays
  by unfold_locales (auto simp: super_admin_stays_def intro: sad.refl sad.trans)

lemma sas_aster: "super_admin_db (w_db s) (snd (m (w_db s))) \<Longrightarrow> super_admin_stays s (snd (aster m s))"
  by (simp add: super_admin_stays_def)

lemma sas_official: "keeps_official u uuid k s s' \<Longrightarrow> super_admin_stays s s'"
  by (simp add: keeps_official_def super_admin_stays_def super_admin_db_def find_user_by_id_def)

lemma sad_same: "users d' = users d \<Longrightarrow> super_admin_db d d'"
  by (simp add: super_admin_db_def find_user_by_id_def)

lemma find_snoc: "find P (xs @ [x]) = (case find P xs of None \<Rightarrow> find P [x] | Some y \<Rightarrow> Some y)"
  by (induction xs) auto

lemma find_rewrite:
  "(\<And>r. k (f r) = k r) \<Longrightarrow>
     find (\<lambda>r. k r = i) (map (\<lambda>r. if k r = j then f r else r) xs) = map_option (\<lambda>r. if i = j then f r else r) (find (\<lambda>r. k r = i) xs)"
  by (induction xs) auto

lemma find_kept: "i \<noteq> j \<Longrightarrow> find (\<lambda>r. k r = i) (filter (\<lambda>r. k r \<noteq> j) xs) = find (\<lambda>r. k r = i) xs"
  by (induction xs) auto

lemma replace_scopes_users: "users (snd (replace_scopes_for_user F now i scopes d)) = users d"
proof -
  have one: "users (snd (insert_scope F now i x d)) = users d" for x d
    by (simp add: insert_scope_def statement_def Let_def split_beta)
  have "users (snd (insert_scopes F now i ss d)) = users d" for ss d
  proof (induction ss arbitrary: d)
    case (Cons x ss)
    obtain r d1 where run: "insert_scope F now i x d = (r, d1)" by force
    then have "users d1 = users d" using one[of x d] by simp
    then show ?case using Cons.IH[of d1] by (cases r) (simp_all add: bnd_def run)
  qed (simp add: ret_def)
  then show ?thesis by (simp add: replace_scopes_for_user_def bnd_def modify_def)
qed

lemma sad_scopes: "super_admin_db d (snd (replace_scopes_for_user F now i scopes d))"
  by (rule sad_same) (rule replace_scopes_users)

lemma sad_create: "super_admin_db d (snd (create_with_options F new_uuid now name email h role st must d))"
  unfolding create_with_options_def
  by (intro sad.rules)
    (auto simp: super_admin_db_def find_user_by_id_def select_one_def statement_def insert_row_def Let_def find_snoc split: option.splits)

lemma sad_row:
  assumes "\<And>r. u_id (f r) = u_id r"
    and "\<And>u. i = super_admin_user_id \<Longrightarrow> find_user_by_id super_admin_user_id d = Inr u \<Longrightarrow> u_role (f u) = u_role u \<and> u_status (f u) = u_status u"
  shows "super_admin_db d (snd (update_user_row F i f d))"
proof (cases "update_user_row F i f d")
  case (Pair r d')
  show ?thesis
  proof (cases r)
    case (Inl e)
    then show ?thesis using update_user_row_fails[of F i f d] Pair by (simp add: sad.refl)
  next
    case (Inr u)
    have "rows (users d') = map (\<lambda>r. if u_id r = i then f r else r) (rows (users d))"
      using update_user_row_run[of F i f d u d'] Pair Inr by auto
    then have "find (\<lambda>r. u_id r = super_admin_user_id) (rows (users d'))
        = map_option (\<lambda>r. if super_admin_user_id = i then f r else r) (find (\<lambda>r. u_id r = super_admin_user_id) (rows (users d)))"
      by (simp add: find_rewrite[of u_id f, OF assms(1)])
    then show ?thesis
      using assms(2) Pair by (auto simp: super_admin_db_def find_user_by_id_def select_one_def split: option.splits)
  qed
qed

lemma sad_create_user: "super_admin_db d (snd (admin_create_user A draw now input d))"
  unfolding admin_create_user_def Let_def hydrate_one_def
  by (simp only: split_beta) (intro sad.rules sad_create sad_scopes)

lemma sad_revoke: "super_admin_db d (snd (revoke_user_sessions F now i d))"
proof -
  have "super_admin_db d (snd (revoke_sessions_for_user now i d))" for d
    by (rule sad_same) (simp add: revoke_sessions_for_user_def statement_def Let_def split_beta)
  then show ?thesis
    unfolding revoke_user_sessions_def bump_session_version_def by (intro sad.rules sad_row) simp_all
qed

lemma sad_delete_row: "i \<noteq> super_admin_user_id \<Longrightarrow> super_admin_db d (snd (delete_user_by_id i d))"
proof -
  assume "i \<noteq> super_admin_user_id"
  then have "super_admin_db d (delete_user_row i d)" for d
    using find_kept[of super_admin_user_id i u_id "rows (users d)"]
    by (auto simp: super_admin_db_def find_user_by_id_def select_one_def delete_user_row_def Let_def cascade_profiles_def
        cascade_textures_def cascade_bans_def delete_rows_def delete_many_def)
  then have "super_admin_db d (snd (modify (delete_user_row i) d))" for d by (simp add: modify_def)
  then show ?thesis unfolding delete_user_by_id_def by (intro sad.rules)
qed

lemma super_admin_role:
  assumes "super_admin_guard super_admin_user_id u input = Inr ()"
    and "normalize_update_role_and_scopes (u_role u) (am_role input) (am_operator_scopes input) ss = (role, scopes)"
  shows "role = u_role u" "am_status input = None \<or> am_status input = Some (u_status u)"
proof -
  have "am_operator_scopes input = None" "am_role input = None \<or> am_role input = Some (u_role u)"
      and st: "am_status input = None \<or> am_status input = Some (u_status u)"
    using assms(1) by (auto simp: super_admin_guard_def split: if_splits option.splits)
  then show "role = u_role u"
    using assms(2) by (auto simp: normalize_update_role_and_scopes_def Let_def split: user_role.splits)
  show "am_status input = None \<or> am_status input = Some (u_status u)" by (rule st)
qed

lemma admin_update_fields:
  "u_id (apply_admin_update input now u) = u_id u"
  "u_role (apply_admin_update input now u) = (case au_role input of None \<Rightarrow> u_role u | Some r \<Rightarrow> r)"
  "u_status (apply_admin_update input now u) = (case au_status input of None \<Rightarrow> u_status u | Some r \<Rightarrow> r)"
  "u_session_version (apply_admin_update input now u)
     = (if au_bump_session_version input then wrap_i64 (u_session_version u + 1) else u_session_version u)"
  by (simp_all add: apply_admin_update_def set_some_def Let_def split: option.splits)

lemma sad_update_admin:
  assumes "\<And>u. i = super_admin_user_id \<Longrightarrow> find_user_by_id super_admin_user_id d = Inr u \<Longrightarrow>
      au_role input = Some (u_role u) \<and> (au_status input = None \<or> au_status input = Some (u_status u))"
  shows "super_admin_db d (snd (update_admin F now i input d))"
  unfolding update_admin_def
  by (rule sad.bnd_query, rule sad_row) (use assms in \<open>auto simp: admin_update_fields\<close>)

lemma sad_write_update:
  assumes "\<And>u. i = super_admin_user_id \<Longrightarrow> find_user_by_id super_admin_user_id d = Inr u \<Longrightarrow>
      au_role changes = Some (u_role u) \<and> (au_status changes = None \<or> au_status changes = Some (u_status u))"
  shows "super_admin_db d (snd (write_admin_update F now i scopes changes d))"
  unfolding write_admin_update_def
proof (rule sad.commit, rule sad.bnd_run)
  let ?name = "case au_username changes of None \<Rightarrow> ret () | Some name \<Rightarrow> query (ensure_username_available name (Some i))"
  show "super_admin_db d (snd (?name d))" by (intro sad.rules)
  fix x :: unit and d1
  assume "?name d = (Inr x, d1)"
  then have "d1 = d" by (auto simp: ret_eq query_eq split: option.splits)
  then have "super_admin_db d1 (snd (update_admin F now i changes d1))" using assms by (intro sad_update_admin) auto
  then show "super_admin_db d1 (snd (bnd (update_admin F now i changes) (\<lambda>u.
        bnd (case scopes of None \<Rightarrow> ret () | Some ss \<Rightarrow> replace_scopes_for_user F now i ss) (\<lambda>_. ret u)) d1))"
    by (rule sad.bnd_run) (intro sad.rules sad_scopes)
qed

lemma sad_update_user: "super_admin_db d (snd (admin_update_user A now i input d))"
proof (cases "find_user_by_id i d")
  case (Inr u)
  obtain role scopes where norm: "normalize_update_role_and_scopes (u_role u) (am_role input) (am_operator_scopes input)
      (list_scopes_for_user i d) = (role, scopes)" by force
  have written: "super_admin_db d (snd (write_admin_update F now i scopes
      \<lparr>au_username = username, au_email = email, au_password_hash = h, au_role = Some role, au_status = am_status input,
       au_must_change_password = must, au_bump_session_version = bump\<rparr> d))"
    if "super_admin_guard i u input = Inr ()" for F username email h must bump
    using that Inr norm super_admin_role[of u input] by (intro sad_write_update) auto
  have tail: "super_admin_db d (snd (bnd (write_admin_update F now i scopes
      \<lparr>au_username = username, au_email = email, au_password_hash = h, au_role = Some role, au_status = am_status input,
       au_must_change_password = must, au_bump_session_version = bump\<rparr>) (\<lambda>u. query (f u)) d))"
    if "super_admin_guard i u input = Inr ()" for F username email h must bump and f :: "user \<Rightarrow> db \<Rightarrow> admin_user_info result"
    by (rule sad.bnd_run, rule written[OF that], rule sad.reads)
  show ?thesis
    unfolding admin_update_user_def hydrate_one_def
  proof (rule sad.bnd_query, rule sad.bnd_check, rule sad.bnd_query, goal_cases)
    case (1 v x ss)
    then have "v = u" "ss = list_scopes_for_user i d" "super_admin_guard i u input = Inr ()" using Inr by auto
    then show ?case by (simp add: norm) (intro sad.bnd_check tail)
  qed
qed (simp add: admin_update_user_def bnd_def query_def sad.refl)

inductive admin_steps :: "'c wardrobe_state \<Rightarrow> 'c wardrobe_state \<Rightarrow> bool" where
  admin_done: "admin_steps s s"
| admin_create: "admin_steps s s1 \<Longrightarrow> admin_steps s (snd (aster (admin_create_user A draw now new) s1))"
| admin_update: "admin_steps s s1 \<Longrightarrow> admin_steps s (snd (aster (admin_update_user A now i input) s1))"
| admin_revoke: "admin_steps s s1 \<Longrightarrow> admin_steps s (snd (aster (revoke_user_sessions F now i) s1))"
| admin_delete: "admin_steps s s1 \<Longrightarrow> admin_steps s (snd (admin_delete_user C F S J gravatar now i s1))"

lemma sas_delete: "super_admin_stays s (snd (admin_delete_user C F S J gravatar now i s))"
proof (cases "i = super_admin_user_id")
  case True
  then show ?thesis by (simp add: admin_delete_user_def raise_def sas.refl)
next
  case False
  have read: "super_admin_stays t (snd (aster (get_admin_user gravatar now i) t))" for t
    unfolding get_admin_user_def hydrate_one_def by (rule sas_aster) (intro sad.rules)
  have other: "super_admin_stays t (snd (aster (revoke_sessions_for_user now i) t))" for t
    by (rule sas_aster, rule sad_same) (simp add: revoke_sessions_for_user_def statement_def Let_def split_beta)
  have loop: "super_admin_stays t (snd (delete_profiles_loop C F S J now i ps counts t))" for ps counts t
    by (rule sas_official[OF delete_profiles_official(1)])
  have rest: "super_admin_stays t (snd (delete_uploaded_avatar_for_user S i t))" "super_admin_stays t (snd (aster (query f) t))"
      "super_admin_stays t (snd (texture_as_internal (delete_all_wardrobe_textures_for_user C F S now i) t))"
      "super_admin_stays t (snd (on_ygg (invalidate_token_cache_for_user C i) t))"
      "super_admin_stays t (snd (on_ygg (invalidate_token_cache_hashes C hs) t))"
      "super_admin_stays t (snd (aster (on_tokens m) t))" for t f hs m
    by (rule sas_official, rule ko_avatar ko_query ko_internal ko_ygg ko_tokens, (rule ko_site, rule sk_delete_all_wardrobe)?)+
  have "super_admin_stays t (snd (aster (delete_user_by_id i) t))" for t
    by (rule sas_aster) (rule sad_delete_row[OF False])
  with False show ?thesis
    unfolding admin_delete_user_def
    by (simp only: if_False) (intro sas.bnd sas.pair sas.reads read loop rest other)
qed

lemma admin_steps_stay: "admin_steps s s' \<Longrightarrow> super_admin_stays s s'"
  by (induction rule: admin_steps.induct)
    (auto intro: sas.refl sas.trans sas_delete sas_aster sad_create_user sad_update_user sad_revoke)

text \<open>C17. Over every run of administrator requests, failing ones included, the super administrator keeps existing,
  with the same role and status.\<close>

theorem super_admin_cannot_be_removed:
  assumes "admin_steps s s'" and "find_user_by_id super_admin_user_id (w_db s) = Inr u"
  shows "\<exists>v. find_user_by_id super_admin_user_id (w_db s') = Inr v \<and> u_role v = u_role u \<and> u_status v = u_status u"
  using admin_steps_stay[OF assms(1)] assms(2) by (simp add: super_admin_stays_def super_admin_db_def)

section \<open>Updates\<close>

lemma hydrate_one_run: "hydrate_one gravatar now message u d = (Inr (admin_user_info_of gravatar now d u), d)"
  by (simp add: hydrate_one_def hydrate_users_def query_def)

lemma transpose_with_Inr: "transpose_with f v = Inr w \<Longrightarrow> (w = None) = (v = None)"
  by (auto simp: transpose_with_def map_sum_Inr split: option.splits)

lemma normalize_scopes:
  assumes "normalize_update_role_and_scopes old new given ss = (role, scopes)"
  shows "scopes \<noteq> None" "given \<noteq> None \<Longrightarrow> role \<noteq> RoleAdmin" "role \<noteq> RoleOperator \<Longrightarrow> scopes = Some []"
    "given = Some gs \<Longrightarrow> role = RoleOperator \<Longrightarrow> scopes = Some gs"
    "given = None \<Longrightarrow> role = RoleOperator \<Longrightarrow> scopes = Some (if old = RoleOperator then ss else [])"
  using assms
  by (auto simp: normalize_update_role_and_scopes_def Let_def split: option.splits user_role.splits if_splits)

lemma write_update_atomic: "write_admin_update F now i scopes changes d = (Inl e, d') \<Longrightarrow> d' = d"
  unfolding write_admin_update_def by (auto simp: transaction_def split: prod.splits sum.splits)

lemma admin_update_run:
  assumes "find_user_by_id i d = Inr u" and "admin_update_user A now i input d = (r, d')"
    and "normalize_update_role_and_scopes (u_role u) (am_role input) (am_operator_scopes input) (list_scopes_for_user i d) = (role, scopes)"
  shows "(\<exists>e. r = Inl e \<and> d' = d) \<or>
    (\<exists>info changes v. r = Inr info \<and> write_admin_update (ae_forge A) now i scopes changes d = (Inr v, d') \<and> au_role changes = Some role
      \<and> au_bump_session_version changes = (am_password input \<noteq> None \<or> am_status input = Some UserDisabled \<or> am_must_change_password input \<noteq> None))"
proof (cases r)
  case (Inl e)
  have "d' = d"
    using assms(2) Inl write_update_atomic
    by (fastforce simp: admin_update_user_def bnd_def query_def check_def assms(1,3) hydrate_one_run split: sum.splits prod.splits)
  then show ?thesis using Inl by blast
next
  case (Inr info)
  then obtain username email h v where h: "transpose_with (new_password_hash (ae_forge A)) (am_password input) = Inr h"
      and w: "write_admin_update (ae_forge A) now i scopes
        \<lparr>au_username = username, au_email = email, au_password_hash = h, au_role = Some role,
         au_status = am_status input, au_must_change_password = am_must_change_password input,
         au_bump_session_version = (h \<noteq> None \<or> am_status input = Some UserDisabled \<or> am_must_change_password input \<noteq> None)\<rparr> d = (Inr v, d')"
    using assms(2) by (auto simp: admin_update_user_def run_simps assms(1,3) hydrate_one_run)
  show ?thesis using w transpose_with_Inr[OF h] Inr by (intro disjI2 exI conjI) (rule Inr, rule w, simp_all)
qed

text \<open>C18. A refused update changes nothing.  An update changes one user only; scopes are kept for operators alone, and
  a request that names scopes never makes an administrator; a new password, a disabled account and a changed
  password requirement end the sessions of the user.\<close>

theorem admin_update_user_exact:
  assumes "find_user_by_id i d = Inr u" and "admin_update_user A now i input d = (r, d')"
  shows "(\<exists>e. r = Inl e \<and> d' = d) \<or>
    (\<exists>v. find_user_by_id i d' = Inr v
      \<and> (am_operator_scopes input \<noteq> None \<longrightarrow> u_role v \<noteq> RoleAdmin)
      \<and> set (list_scopes_for_user i d') =
          (if u_role v \<noteq> RoleOperator then {}
           else case am_operator_scopes input of
                  Some ss \<Rightarrow> set ss
                | None \<Rightarrow> if u_role u = RoleOperator then set (list_scopes_for_user i d) else {})
      \<and> u_session_version v =
          (if am_password input \<noteq> None \<or> am_status input = Some UserDisabled \<or> am_must_change_password input \<noteq> None
           then wrap_i64 (u_session_version u + 1) else u_session_version u)
      \<and> (\<forall>j. j \<noteq> i \<longrightarrow> find_user_by_id j d' = find_user_by_id j d \<and> list_scopes_for_user j d' = list_scopes_for_user j d))"
proof -
  obtain role scopes where norm: "normalize_update_role_and_scopes (u_role u) (am_role input) (am_operator_scopes input)
      (list_scopes_for_user i d) = (role, scopes)" by force
  note n = normalize_scopes[OF norm]
  obtain ss where ss: "scopes = Some ss" using n(1) by blast
  show ?thesis
  proof (cases r)
    case (Inl e)
    then show ?thesis using admin_update_run[OF assms norm] by blast
  next
    case (Inr info)
    then obtain changes v where w: "write_admin_update (ae_forge A) now i scopes changes d = (Inr v, d')" "au_role changes = Some role"
        "au_bump_session_version changes = (am_password input \<noteq> None \<or> am_status input = Some UserDisabled \<or> am_must_change_password input \<noteq> None)"
      using admin_update_run[OF assms norm] by blast
    obtain d1 where d1: "update_user_row (ae_forge A) i (apply_admin_update changes now) d = (Inr v, d1)"
        "replace_scopes_for_user (ae_forge A) now i ss d1 = (Inr (), d')"
      using w(1) by (auto simp: write_admin_update_def run_simps update_admin_def ss split: option.splits)
    have rows: "rows (users d1) = map (\<lambda>r. if u_id r = i then apply_admin_update changes now r else r) (rows (users d))"
        "user_operator_scopes d1 = user_operator_scopes d"
      using update_user_row_run[OF d1(1)] by auto
    have "rows (users d') = rows (users d1)" using replace_scopes_users[of "ae_forge A" now i ss d1] d1(2) by simp
    then have found: "find_user_by_id j d' =
        (case find_user_by_id j d of Inl e \<Rightarrow> Inl e | Inr x \<Rightarrow> Inr (if j = i then apply_admin_update changes now x else x))" for j
      by (simp add: find_user_by_id_def select_one_def rows(1) find_rewrite[of u_id, OF admin_update_fields(1)] split: option.split)
    have listed: "list_scopes_for_user j d1 = list_scopes_for_user j d" for j by (simp add: list_scopes_for_user_def rows(2))
    have sc: "set (list_scopes_for_user i d') = set ss" "j \<noteq> i \<Longrightarrow> list_scopes_for_user j d' = list_scopes_for_user j d" for j
      using replace_scopes_effect[OF d1(2)] listed by auto
    have fields: "u_role (apply_admin_update changes now u) = role" "u_session_version (apply_admin_update changes now u) =
          (if am_password input \<noteq> None \<or> am_status input = Some UserDisabled \<or> am_must_change_password input \<noteq> None
           then wrap_i64 (u_session_version u + 1) else u_session_version u)"
      by (simp_all add: admin_update_fields w(2,3))
    have "set ss = (if role \<noteq> RoleOperator then {} else case am_operator_scopes input of
        Some ss \<Rightarrow> set ss | None \<Rightarrow> if u_role u = RoleOperator then set (list_scopes_for_user i d) else {})"
      using n(3-5) ss by (auto split: option.split)
    then show ?thesis
      using n(2) sc found assms(1) fields by (intro disjI2 exI[of _ "apply_admin_update changes now u"]) (auto split: sum.split)
  qed
qed

section \<open>Avatars\<close>

definition avatar_upload_version :: "row_id \<Rightarrow> db \<Rightarrow> int" where
  "avatar_upload_version u d =
     (case find_profile_of_user u d of None \<Rightarrow> 1 | Some p \<Rightarrow> next_avatar_version (up_avatar_version p))"

lemma or_delete_Inr: "or_delete_variants S p m s = (Inr x, s') \<longleftrightarrow> m s = (Inr x, s')"
  by (auto simp: or_delete_variants_def split: prod.splits sum.splits)

lemma put_avatar_Inr:
  "map_of (w_objects s) key = None \<Longrightarrow> put_avatar_bytes S key bytes s = (Inr (), s') \<Longrightarrow> s' = s\<lparr>w_objects := (key, bytes) # w_objects s\<rparr>"
  by (auto simp: put_avatar_bytes_def split: option.splits)

lemma profile_update_run:
  assumes "user_profile_update F u f d = (Inr p, d')" and "\<And>q. up_user_id (f q) = up_user_id q"
  shows "users d' = users d" "find_profile_of_user u d' = Some p" "\<exists>q. find_profile_of_user u d = Some q \<and> p = f q"
proof -
  obtain q t where q: "select_one (\<lambda>r. up_user_id r = u) (user_profiles d) = Some q" "p = f q"
      "d' = d\<lparr>user_profiles := snd (update_many (\<lambda>r. up_user_id r = u) f (user_profiles d))\<rparr>"
    using assms(1) by (auto simp: user_profile_update_def statement_Inr update_by_key_def split: option.splits)
  show "users d' = users d" by (simp add: q(3))
  show "find_profile_of_user u d' = Some p"
    using q(1,2) by (simp add: find_profile_of_user_def q(3) select_one_def update_many_def find_rewrite[of up_user_id, OF assms(2)])
  show "\<exists>q. find_profile_of_user u d = Some q \<and> p = f q" using q(1,2) by (simp add: find_profile_of_user_def)
qed

lemma profile_create_run:
  assumes "user_profile_create F p d = (Inr saved, d')"
  shows "users d' = users d" "find_profile_of_user (up_user_id p) d' = Some saved" "saved = p"
proof -
  have c: "\<forall>q \<in> set (rows (user_profiles d)). up_user_id q \<noteq> up_user_id p" "saved = p"
      "d' = d\<lparr>user_profiles := (user_profiles d)\<lparr>rows := rows (user_profiles d) @ [p]\<rparr>\<rparr>"
    using assms by (auto simp: user_profile_create_def statement_Inr split: if_splits)
  have "find (\<lambda>q. up_user_id q = up_user_id p) (rows (user_profiles d)) = None" using c(1) by (simp add: find_None_iff)
  then show "users d' = users d" "find_profile_of_user (up_user_id p) d' = Some saved" "saved = p"
    by (simp_all add: c(2,3) find_profile_of_user_def select_one_def find_snoc)
qed

lemma avatar_read:
  assumes "find_user_by_id u (w_db s) = Inr x" and "find_profile_of_user u (w_db s) = Some p" and "up_user_id p = u"
    and "up_avatar_source p = AvatarUpload" and "up_avatar_key p = Some (user_avatar_prefix u (up_avatar_version p))"
    and "size_px \<in> {512, 1024}"
    and "map_of (w_objects s) (user_avatar_variant_key (user_avatar_prefix u (up_avatar_version p)) size_px) = Some bytes"
  shows "get_avatar_bytes u size_px s = Inr bytes"
  using assms
  by (auto simp: get_avatar_bytes_def validate_avatar_size_def stored_avatar_prefix_def resolve_stored_avatar_variant_key_def
      resolve_stored_avatar_prefix_def)

lemma upload_run:
  assumes "upload_avatar F S gravatar process now u upload s = (Inr info, s')"
    and "\<forall>size_px \<in> {512, 1024}. map_of (w_objects s)
      (user_avatar_variant_key (user_avatar_prefix u (avatar_upload_version u (w_db s))) size_px) = None"
  shows "\<exists>x small large saved s3. find_user_by_id u (w_db s) = Inr x \<and> process upload = Inr (small, large)
    \<and> users (w_db s3) = users (w_db s) \<and> find_profile_of_user u (w_db s3) = Some saved \<and> up_user_id saved = u
    \<and> up_avatar_source saved = AvatarUpload \<and> up_avatar_version saved = avatar_upload_version u (w_db s)
    \<and> up_avatar_key saved = Some (user_avatar_prefix u (avatar_upload_version u (w_db s)))
    \<and> w_objects s3 = (user_avatar_variant_key (user_avatar_prefix u (avatar_upload_version u (w_db s))) 1024, large)
        # (user_avatar_variant_key (user_avatar_prefix u (avatar_upload_version u (w_db s))) 512, small) # w_objects s
    \<and> s' = (case find_profile_of_user u (w_db s) of None \<Rightarrow> s3 | Some p \<Rightarrow> delete_upload_objects S p s3)"
proof -
  let ?old = "find_profile_of_user u (w_db s)" and ?v = "avatar_upload_version u (w_db s)"
  let ?p = "user_avatar_prefix u ?v"
  let ?save = "case ?old of
       Some _ \<Rightarrow> user_profile_update F u (\<lambda>p. p\<lparr>up_avatar_source := AvatarUpload,
           up_avatar_key := Some ?p, up_avatar_version := ?v, up_updated_at := now\<rparr>)
     | None \<Rightarrow> user_profile_create F ((default_profile_active_model u now)\<lparr>up_avatar_source := AvatarUpload,
           up_avatar_key := Some ?p, up_avatar_version := ?v\<rparr>)"
  obtain x small large s1 s2 saved d3 where run: "find_user_by_id u (w_db s) = Inr x" "process upload = Inr (small, large)"
      "put_avatar_bytes S (user_avatar_variant_key ?p 512) small s = (Inr (), s1)"
      "put_avatar_bytes S (user_avatar_variant_key ?p 1024) large s1 = (Inr (), s2)"
      "?save (w_db s2) = (Inr saved, d3)"
      "s' = (case ?old of None \<Rightarrow> s2\<lparr>w_ygg := (w_ygg s2)\<lparr>y_db := d3\<rparr>\<rparr>
        | Some p \<Rightarrow> delete_upload_objects S p (s2\<lparr>w_ygg := (w_ygg s2)\<lparr>y_db := d3\<rparr>\<rparr>))"
    using assms(1) unfolding upload_avatar_def Let_def avatar_upload_version_def bnd_Inr aster_query_Inr check_eq
    by (auto simp: bnd_Inr or_delete_Inr aster_Inr ret_eq delete_previous_upload_def)
  have s1: "s1 = s\<lparr>w_objects := (user_avatar_variant_key ?p 512, small) # w_objects s\<rparr>"
    by (rule put_avatar_Inr[OF _ run(3)]) (use assms(2) in simp)
  have "user_avatar_variant_key ?p 1024 \<noteq> user_avatar_variant_key ?p 512" using variant_key_eq[of 1024 512 u ?v ?v] by simp
  then have s2: "s2 = s1\<lparr>w_objects := (user_avatar_variant_key ?p 1024, large) # w_objects s1\<rparr>"
    by (intro put_avatar_Inr[OF _ run(4)]) (use assms(2) in \<open>simp add: s1\<close>)
  have "users d3 = users (w_db s) \<and> find_profile_of_user u d3 = Some saved \<and> up_user_id saved = u
      \<and> up_avatar_source saved = AvatarUpload \<and> up_avatar_version saved = ?v \<and> up_avatar_key saved = Some ?p"
  proof (cases ?old)
    case None
    then show ?thesis
      using profile_create_run[of F "(default_profile_active_model u now)\<lparr>up_avatar_source := AvatarUpload,
          up_avatar_key := Some ?p, up_avatar_version := ?v\<rparr>" "w_db s2" saved d3] run(5)
      by (simp add: s1 s2 default_profile_active_model_def)
  next
    case (Some p)
    then have "user_profile_update F u (\<lambda>p. p\<lparr>up_avatar_source := AvatarUpload,
           up_avatar_key := Some ?p, up_avatar_version := ?v, up_updated_at := now\<rparr>) (w_db s) = (Inr saved, d3)"
      using run(5) by (simp add: s1 s2)
    note u = profile_update_run[OF this]
    have "up_user_id p = u" using Some by (auto simp: find_profile_of_user_def dest: select_one_Some)
    then show ?thesis using u Some by auto
  qed
  then show ?thesis
    using run(1,2,6)
    by (intro exI[of _ x] exI[of _ small] exI[of _ large] exI[of _ saved] exI[of _ "s2\<lparr>w_ygg := (w_ygg s2)\<lparr>y_db := d3\<rparr>\<rparr>"])
      (simp add: s1 s2)
qed

text \<open>C38. After an upload both sizes of the new avatar are served, byte for byte, whatever was uploaded before, and
  no object but avatars of this user has changed, as long as the version counter has not reached its maximum and
  no object was left behind under the new version.\<close>

theorem avatar_upload_roundtrip:
  assumes "upload_avatar F S gravatar process now u upload s = (Inr info, s')"
    and "\<forall>size_px \<in> {512, 1024}. map_of (w_objects s)
      (user_avatar_variant_key (user_avatar_prefix u (avatar_upload_version u (w_db s))) size_px) = None"
    and "\<forall>p. find_profile_of_user u (w_db s) = Some p \<longrightarrow> up_avatar_version p < 2147483647"
  shows "\<exists>small large. process upload = Inr (small, large)
    \<and> get_avatar_bytes u 512 s' = Inr small \<and> get_avatar_bytes u 1024 s' = Inr large
    \<and> (\<forall>key. (\<forall>v. \<forall>size_px \<in> {512, 1024}. key \<noteq> user_avatar_variant_key (user_avatar_prefix u v) size_px) \<longrightarrow>
         map_of (w_objects s') key = map_of (w_objects s) key)"
proof -
  let ?old = "find_profile_of_user u (w_db s)" and ?v = "avatar_upload_version u (w_db s)"
  let ?key = "user_avatar_variant_key (user_avatar_prefix u ?v)"
  obtain x small large saved s3 where run: "find_user_by_id u (w_db s) = Inr x" "process upload = Inr (small, large)"
      "users (w_db s3) = users (w_db s)" "find_profile_of_user u (w_db s3) = Some saved" "up_user_id saved = u"
      "up_avatar_source saved = AvatarUpload" "up_avatar_version saved = ?v" "up_avatar_key saved = Some (user_avatar_prefix u ?v)"
      "w_objects s3 = (?key 1024, large) # (?key 512, small) # w_objects s"
      "s' = (case ?old of None \<Rightarrow> s3 | Some p \<Rightarrow> delete_upload_objects S p s3)"
    using upload_run[OF assms(1,2)] by blast
  have same: "map_of (w_objects s') key = map_of (w_objects s3) key"
    if "\<forall>p. ?old = Some p \<longrightarrow> key \<notin> user_avatar_variant_key (user_avatar_prefix u (up_avatar_version p)) ` {512, 1024}" for key
  proof (cases ?old)
    case (Some p)
    moreover from this have "up_user_id p = u" by (auto simp: find_profile_of_user_def dest: select_one_Some)
    ultimately show ?thesis using that delete_upload_map_of[of key p S s3] by (simp add: run(10))
  qed (simp add: run(10))
  have db: "w_db s' = w_db s3" by (simp add: run(10) split: option.split)
  have new: "?old = Some p \<Longrightarrow> ?v \<noteq> up_avatar_version p" for p
    using assms(3) by (auto simp: avatar_upload_version_def next_avatar_version_def)
  have kept: "map_of (w_objects s') (?key n) = map_of (w_objects s3) (?key n)" if "n \<in> {512, 1024}" for n
    using new that variant_key_eq[OF that, of _ u ?v] by (intro same) auto
  have "?key 1024 \<noteq> ?key 512" using variant_key_eq[of 1024 512 u ?v ?v] by simp
  then have objs: "map_of (w_objects s') (?key 512) = Some small" "map_of (w_objects s') (?key 1024) = Some large"
    using kept[of 512] kept[of 1024] by (simp_all add: run(9))
  have user: "find_user_by_id u (w_db s') = Inr x" using run(1,3) by (simp add: db find_user_by_id_def)
  have prof: "find_profile_of_user u (w_db s') = Some saved" by (simp add: db run(4))
  have "get_avatar_bytes u 512 s' = Inr small" "get_avatar_bytes u 1024 s' = Inr large"
    using avatar_read[OF user prof run(5,6)] objs by (simp_all add: run(7,8))
  moreover have "map_of (w_objects s') key = map_of (w_objects s) key"
    if "\<forall>v. \<forall>n \<in> {512, 1024}. key \<noteq> user_avatar_variant_key (user_avatar_prefix u v) n" for key
    using that same[of key] by (simp add: run(9))
  ultimately show ?thesis using run(2) by blast
qed

section \<open>Instances\<close>

text \<open>A site with its first user and a second one, who bound an official account.\<close>

definition second_user :: user where
  "second_user = sample_user\<lparr>u_id := 2, u_public_uuid := ''uuid-2'', u_username := ''alex'', u_email := Some ''alex@example.org''\<rparr>"

definition official_profile :: minecraft_profile where
  "official_profile = steve\<lparr>p_id := 5, p_user_id := 2, p_uuid := ''m1'', p_source := SourceMicrosoft\<rparr>"

definition two_users_db :: db where
  "two_users_db = external_db\<lparr>users := \<lparr>rows = [verified_user, second_user], next_id = 3\<rparr>,
     minecraft_profiles := \<lparr>rows = [official_profile], next_id = 6\<rparr>\<rparr>"

definition two_users :: "mem_cache wardrobe_state" where
  "two_users = \<lparr>w_ygg = \<lparr>y_db = two_users_db, y_cache = []\<rparr>, w_objects = []\<rparr>"

definition no_gravatar :: "string \<Rightarrow> nat \<Rightarrow> string" where "no_gravatar email size_px = email"

lemma two_users_found:
  "find_user_by_id 1 two_users_db = Inr verified_user" "find_user_by_id 2 two_users_db = Inr second_user"
  "w_db two_users = two_users_db" "official 2 ''m1'' 5 two_users_db"
  by (simp_all add: find_user_by_id_def select_one_def two_users_def two_users_db_def verified_user_def second_user_def sample_user_def
      official_def official_profile_def)

lemma other_tables:
  "user_operator_scopes two_users_db = \<lparr>rows = [], next_id = 1\<rparr>" "user_profiles two_users_db = \<lparr>rows = [], next_id = 1\<rparr>"
  by (simp_all add: two_users_db_def external_db_def account_db_def signed_in_db_def sample_db_def empty_db_def empty_table_def)

theorem official_account_cannot_be_deleted_witness:
  "\<exists>e s'. admin_delete_user mem_ops plain_forge plain_storage plain_codec no_gravatar 1000 2 two_users = (Inl e, s')
    \<and> find_user_by_id 2 (w_db s') = Inr second_user"
proof -
  obtain r s' where run: "admin_delete_user mem_ops plain_forge plain_storage plain_codec no_gravatar 1000 2 two_users = (r, s')"
    by force
  have "official 2 ''m1'' 5 (w_db two_users)" "find_user_by_id 2 (w_db two_users) = Inr second_user"
    by (simp_all add: two_users_found)
  from official_account_cannot_be_deleted[OF this run] show ?thesis using run by blast
qed

theorem super_admin_cannot_be_removed_witness:
  "\<exists>v. find_user_by_id super_admin_user_id (w_db (snd (admin_delete_user mem_ops plain_forge plain_storage plain_codec no_gravatar 1000 1
        (snd (aster (admin_update_user plain_env 900 1 \<lparr>am_username = None, am_email = None, am_password = None, am_role = Some RoleAdmin,
           am_operator_scopes = None, am_status = Some UserDisabled, am_must_change_password = None\<rparr>) two_users))))) = Inr v
      \<and> u_role v = RoleUser \<and> u_status v = UserActive"
proof -
  have "find_user_by_id super_admin_user_id (w_db two_users) = Inr verified_user"
    by (simp add: two_users_found super_admin_user_id_def)
  from super_admin_cannot_be_removed[OF admin_delete[OF admin_update[OF admin_done]] this] show ?thesis
    by (simp add: verified_user_def sample_user_def)
qed

definition disable_request :: admin_update_input where
  "disable_request = \<lparr>am_username = None, am_email = None, am_password = None, am_role = None, am_operator_scopes = None,
     am_status = Some UserDisabled, am_must_change_password = None\<rparr>"

lemma disable_succeeds: "\<exists>info. fst (admin_update_user plain_env 1000 2 disable_request two_users_db) = Inr info"
proof -
  have guard: "super_admin_guard 2 second_user disable_request = Inr ()" by (simp add: super_admin_guard_def super_admin_user_id_def)
  have norm: "normalize_update_role_and_scopes (u_role second_user) (am_role disable_request) (am_operator_scopes disable_request) ss
      = (RoleUser, Some [])" for ss
    by (simp add: normalize_update_role_and_scopes_def disable_request_def second_user_def sample_user_def)
  have none: "transpose_with f (am_username disable_request) = Inr None" "transpose_with g (am_email disable_request) = Inr None"
      "transpose_with h (am_password disable_request) = Inr None" for f :: "string \<Rightarrow> string result" and g h
    by (simp_all add: transpose_with_def disable_request_def)
  have "\<exists>v d'. write_admin_update F 1000 2 (Some []) \<lparr>au_username = None, au_email = None, au_password_hash = None, au_role = Some RoleUser,
      au_status = Some UserDisabled, au_must_change_password = None, au_bump_session_version = b\<rparr> two_users_db = (Inr v, d')" for F b
    by (simp add: write_admin_update_def transaction_def bnd_def ret_def update_admin_def query_def two_users_found update_user_row_def
        statement_def update_by_key_def select_one_def)
      (simp add: two_users_db_def verified_user_def second_user_def sample_user_def user_unique_ok_def apply_admin_update_def set_some_def
        replace_scopes_for_user_def bnd_def modify_def unique_scopes_def ret_def Let_def)
  then obtain v d' where "write_admin_update (ae_forge plain_env) 1000 2 (Some []) \<lparr>au_username = None, au_email = None,
      au_password_hash = None, au_role = Some RoleUser, au_status = Some UserDisabled, au_must_change_password = None,
      au_bump_session_version = True\<rparr> two_users_db = (Inr v, d')" by blast
  moreover have "am_status disable_request = Some UserDisabled" "am_must_change_password disable_request = None"
    by (simp_all add: disable_request_def)
  ultimately show ?thesis
    by (simp add: admin_update_user_def bnd_def query_def check_def two_users_found guard norm none hydrate_one_run)
qed

theorem admin_update_user_exact_witness:
  "\<exists>v. find_user_by_id 2 (snd (admin_update_user plain_env 1000 2 disable_request two_users_db)) = Inr v
    \<and> u_session_version v = 2"
proof -
  obtain info where "fst (admin_update_user plain_env 1000 2 disable_request two_users_db) = Inr info" using disable_succeeds by blast
  from admin_update_user_exact[OF two_users_found(2) ran[OF this]] show ?thesis
    by (auto simp: disable_request_def second_user_def sample_user_def wrap_i64_def)
qed

theorem avatar_upload_roundtrip_witness:
  "get_avatar_bytes 1 512 (snd (upload_avatar plain_forge plain_storage no_gravatar (\<lambda>f. Inr (f, f @ f)) 1000 1 ''img'' two_users))
     = Inr ''img''"
proof -
  have free: "find_profile_of_user 1 (w_db two_users) = None" "w_objects two_users = []"
    by (simp_all add: find_profile_of_user_def two_users_found other_tables select_one_def) (simp add: two_users_def)
  have "\<exists>info. fst (upload_avatar plain_forge plain_storage no_gravatar (\<lambda>f. Inr (f, f @ f)) 1000 1 ''img'' two_users) = Inr info"
    using free
    by (simp add: upload_avatar_def bnd_def aster_def on_ygg_def on_db_def query_def two_users_found check_def Let_def
        or_delete_variants_def put_avatar_bytes_def user_profile_create_def statement_def other_tables delete_previous_upload_def ret_def
        plain_storage_def)
  then obtain info where info: "fst (upload_avatar plain_forge plain_storage no_gravatar (\<lambda>f. Inr (f, f @ f)) 1000 1 ''img'' two_users) = Inr info"
    by blast
  from avatar_upload_roundtrip[OF ran[OF info]] free show ?thesis by auto
qed

end
