(* ===== verification/Spec2Isabelle.thy ===== *)
theory Spec2Isabelle
  imports Error_Codes Bans Tasks Join Token_Store Account_Properties Texture_Properties External_Accounts Admin_Properties
begin

text \<open>
  AsterYggdrasil is a Yggdrasil server: it keeps user accounts and Minecraft profiles, answers the login protocol of
  the game launcher and the session checks of game servers, stores skins and capes, and offers a web API with
  sessions, invitations, logins through external providers and administration.  This development models the
  services and repositories of \<open>src/src/services\<close> and \<open>src/src/db/repository\<close> and proves what each of them
  promises.

  \<^bold>\<open>How the parts work together.\<close>  All services work on one database.  The Yggdrasil services also keep tokens,
  join sessions and profile summaries in a cache, and the texture service keeps blobs in object storage.  A state is
  therefore a \<open>db\<close> (one table per entity), a \<open>ygg_state\<close> (database and cache) or a \<open>wardrobe_state\<close> (that, and the
  objects).  A service function is a \<open>handler\<close>: from a state to a result or an error, and the next state; \<open>bnd\<close>
  sequences handlers as \<open>?\<close> does, \<open>transaction\<close> rolls back on errors, and \<open>on_db\<close>, \<open>on_ygg\<close>, \<open>tex\<close> and \<open>aster\<close> lift
  a handler to a larger state.  Services call one another as in the source: external logins create accounts and
  profiles, binding an official account writes identities, profiles and textures, deleting a user runs through
  profiles, textures, sessions and tokens.

  \<^bold>\<open>Foundations.\<close>
  \<^item> \<open>Prelude\<close>: strings as UTF-8 bytes with the functions of \<open>str\<close> the code uses, \<open>i32\<close> and \<open>i64\<close> arithmetic that
    wraps, tables with the statements of the ORM, the handler monad with its rules for successful runs, and the
    locale \<open>state_order\<close>: a reflexive and transitive relation between states, with the rules that carry it through
    handlers.  Every safety relation below interprets it.
  \<^item> \<open>Errors\<close>, \<open>Error_Codes\<close>: \<open>errors.rs\<close>, \<open>api/error_code.rs\<close>, \<open>yggdrasil_service/error.rs\<close>; reading and printing
    of error codes are inverse.
  \<^item> \<open>Entities\<close>: \<open>entities/\<close>, \<open>types/\<close> and the database.

  \<^bold>\<open>Users, bans, tasks.\<close>
  \<^item> \<open>Users\<close>: \<open>user_repo.rs\<close>.  \<open>Bans\<close>: \<open>ban_service.rs\<close>, \<open>user_ban_repo.rs\<close>: a ban refuses its scopes to its user for its
    time and nothing else.
  \<^item> \<open>Tasks\<close>: \<open>background_task_repo/\<close>, \<open>task_service/\<close>: leases and processing tokens.  The locales \<open>fenced_write\<close>,
    \<open>holding_write\<close> and \<open>finishing_write\<close> state what a write of a worker may do and are interpreted on every such
    write; a superseded worker cannot write, and a lane never exceeds its capacity.

  \<^bold>\<open>The Yggdrasil protocol.\<close>
  \<^item> \<open>Cache\<close>: \<open>yggdrasil_service/cache.rs\<close>; the locale \<open>cache_slot\<close> gives what a slot returns after a write, and is
    interpreted on each kind of entry.
  \<^item> \<open>Tokens\<close>: \<open>yggdrasil_service/token.rs\<close>, \<open>yggdrasil_token_repo.rs\<close>; the locale \<open>token_write\<close> is interpreted on every
    write.  Which tokens are accepted, and how many a user keeps.  \<open>Token_Store\<close>: table and cache refine a map from
    hashes to live tokens (locale \<open>token_store\<close>).
  \<^item> \<open>Profiles\<close>: \<open>yggdrasil_service/profile.rs\<close>, \<open>minecraft_profile_repo.rs\<close>: creation, renaming, lookups, names of
    external accounts.
  \<^item> \<open>Ygg_Auth\<close>: \<open>yggdrasil_service/auth.rs\<close>, \<open>login.rs\<close>: login, refresh, validate, invalidate, sign out; when they succeed
    and the invariant of every sequence of requests.
  \<^item> \<open>Forward\<close>: \<open>yggdrasil_session_forward_service.rs\<close>: upstream servers and their weighted order.  \<open>Join\<close>:
    \<open>yggdrasil_service/session.rs\<close>: a game server is told of a profile only after its owner joined.
  \<^item> \<open>Audit_Log\<close>: \<open>audit_service/\<close>.

  \<^bold>\<open>Accounts of the web API.\<close>
  \<^item> \<open>User_Info\<close>: \<open>profile_service/info.rs\<close>, \<open>profile.rs\<close>, operator scopes.  \<open>Sessions\<close>: the session part of \<open>auth_service.rs\<close>,
    \<open>auth_session_repo.rs\<close>, \<open>request_auth.rs\<close>.  \<open>Accounts\<close>: registration, links, e-mail and password of
    \<open>auth_service.rs\<close>.  \<open>Invitations\<close>: \<open>user_invitation_service.rs\<close>.
  \<^item> \<open>Account_Safety\<close> has the invariant of all of them and the relation \<open>acct_safe\<close> that every request satisfies;
    \<open>Account_Runs\<close> what successful requests did; \<open>Account_Properties\<close> the properties: spent refresh tokens, links and
    invitations stay spent, a new password ends the sessions, only the first account is an administrator.

  \<^bold>\<open>Textures.\<close>
  \<^item> \<open>Texture_Repos\<close>: the texture repositories.  \<open>Texture_Library\<close>: tags, reviews, reports of \<open>texture_service.rs\<close>.
    \<open>Wardrobe\<close>: uploads, bindings, replacement, removal, object storage and maintenance.
  \<^item> \<open>Texture_Safety\<close> and \<open>Texture_Properties\<close>: the invariant of the tables and objects over every run, and that only
    approved content is published.

  \<^bold>\<open>External logins and official accounts.\<close>
  \<^item> \<open>External_Auth\<close>: \<open>external_auth_service/\<close> \<open>login.rs\<close>, \<open>resolution.rs\<close>, \<open>verification.rs\<close>, \<open>password_link.rs\<close>, \<open>links.rs\<close>,
    \<open>normalize.rs\<close> and their repositories.  \<open>External_Safety\<close>, \<open>External_Properties\<close>, \<open>External_Accounts\<close>: who is signed in
    by a callback, a mail or a password, that states work once, that identities keep their account, and that a first
    login gets an account with a valid name.
  \<^item> \<open>Minecraft_Binding\<close>, \<open>Binding_Properties\<close>: \<open>external_auth_service/binding.rs\<close>, \<open>external_auth_binding_flow_repo.rs\<close>: an
    official account belongs to the user who started the flow and to nobody else.

  \<^bold>\<open>Administration.\<close>
  \<^item> \<open>Avatars\<close>: \<open>profile_service/avatar.rs\<close>, \<open>avatar_storage.rs\<close>.  \<open>Admin_Users\<close>: \<open>admin_user_service.rs\<close>,
    \<open>delete_profile_for_user\<close> and the foreign keys on users and profiles.  \<open>Admin_Properties\<close>: generated passwords,
    updates, the super administrator, what a deletion cannot remove, and the uploaded avatar.

  \<^bold>\<open>Arguments.\<close>  Code outside the repository is an argument: hashing, number conversions, e-mail normalisation and
  messages of the database (\<open>forge\<close>), JWTs (\<open>jwt\<close> with \<open>jwt_ok\<close>), stored scopes (\<open>scope_codec\<close> with \<open>codec_ok\<close>), the cache
  (\<open>cache_ops\<close> with \<open>cache_lawful\<close>), the Mojang API, Gravatar, upstream servers, URL joining and parsing, HTTP and JSON of
  \<open>binding_env\<close>, the drivers in \<open>external_env\<close>, random values, fresh UUIDs and the clock.  Image processing, which
  rests on the \<open>image\<close> crate, and settings are arguments too (\<open>storage_env\<close> with \<open>process_ok\<close>, \<open>texture_env\<close>,
  \<open>account_env\<close>, policies).  Each hypothesis on an argument holds in a concrete instance, which the witnesses use.

  \<^bold>\<open>Loops and bounds.\<close>  \<open>trim\<close> has the length of the text as fuel, which is enough because every round removes a byte
  (\<open>trim_start_fuel_done\<close>, \<open>trim_end_fuel_done\<close>).  The loops over suffixes 1 to 99 for profile names, over five candidate
  usernames and over four attempts to replace a texture have the bounds of the source.  Batches of the audit log, the
  groups of the forward order and the padding of usernames are recursive functions with a measure.  The shuffle of a
  generated password is a fold over its 23 indexes.

  \<^bold>\<open>Simplifications.\<close>  One clock reading per request; reads see the database that is written; failures of the database
  are unique and foreign keys, missing rows and conversions; log messages are left out; rows with equal sort
  keys keep their storage order; foreign-key actions are modelled for textures, tags, providers, profiles and users.

  \<^bold>\<open>Not modelled.\<close>  Routes, middleware and request bodies (glue over the services), the administration forms and
  drivers of providers, the table of settings, migrations other than their keys, pixel work on textures and avatars,
  delivery and templates of mail, passkeys and captchas (libraries), signatures, listings that page with a cursor
  and read-only statistics, start-up, metrics, S3 and the front end.
\<close>

end
